(* ===== verification/Orket_Prelude.thy ===== *)
theory Orket_Prelude
  imports Main "HOL-Library.Char_ord" "HOL-Library.List_Lexorder" "HOL-Library.Product_Lexorder"
    "HOL-Library.Multiset"
begin

text \<open>
  Shared vocabulary of the Orket development.

  \<^item> Errors: one constructor per exception class the modelled sources raise; a fallible
    operation returns \<open>'a result\<close>, with \<open>Inl\<close> for the exception.
  \<^item> Effects: an operation on a store is a function from the store to a result and the new
    store, so that a write done before an exception stays visible.
  \<^item> Python strings: a \<open>string\<close> holds one \<open>char\<close> per code point, for the code
    points below 256; \<open>strip\<close>, \<open>lower\<close> and the order of strings are Python's on that range.
  \<^item> Pydantic models: \<open>validate_model\<close> is the constructor of a model class: the declared
    field constraints first, then the \<open>mode="after"\<close> validators in the order of the classes.
  \<^item> Transition tables: the interface \<open>transition_table\<close> of every status machine.
\<close>

named_theorems enum_simps "tables and classifications of the enumerations"
named_theorems model_simps "unfolding of the model constructors"

section \<open>Errors and results\<close>

datatype vcause =
    FieldErrors "string list"
  | ValidatorRaised string

datatype error =
    ValidationError vcause
  | ValueError string
  | IntegrityError string
  | ControlPlaneLifecycleError string
  | ControlPlaneReservationError string
  | ControlPlaneLeaseError string
  | ControlPlaneRecoveryError string
  | ControlPlaneFinalTruthError string
  | ControlPlaneEffectJournalError string
  | ControlPlaneCheckpointError string
  | ControlPlaneRecordConflictError string
  | StateMachineError string
  | SandboxLifecycleError string
  | SandboxLifecycleErrorFrom vcause
  | SandboxOperationIntegrityError string
  | SandboxLifecycleConflictError string
  | LedgerExportValidationError string
  | OutwardLedgerValidationError string
  | OutwardRunValidationError string
  | OutwardRunConflictError string
  | OutwardApprovalValidationError string
  | TypeError string
  | KeyError string
  | StopIteration
  | OverflowError string
  | OutwardRunExecutionError string
  | OutwardRunExecutionValidationError string
  | OutwardRunExecutionPlanError string
  | OutwardModelToolCallError string
  | LedgerFramingError string string
  | StructError string
  | CanonicalizationError string
  | RuntimeError string
  | RegexError string
  | AttributeError string

type_synonym 'a result = "error + 'a"

type_synonym ('s, 'a) eff = "'s \<Rightarrow> 'a result \<times> 's"

definition bind_result :: "'a result \<Rightarrow> ('a \<Rightarrow> 'b result) \<Rightarrow> 'b result" where
  "bind_result m f = (case m of Inl e \<Rightarrow> Inl e | Inr x \<Rightarrow> f x)"

lemma bind_result_simps [simp]:
  "bind_result (Inl e) f = Inl e"
  "bind_result (Inr x) f = f x"
  by (simp_all add: bind_result_def)

lemma bind_result_Inr_iff:
  "bind_result m f = Inr y \<longleftrightarrow> (\<exists>x. m = Inr x \<and> f x = Inr y)"
  by (cases m) auto

lemma bind_result_pairE:
  assumes "bind_result m (\<lambda>(a, b). f a b) = Inr y"
  obtains a b where "m = Inr (a, b)" and "f a b = Inr y"
  using assms by (cases m) auto

lemma bind_result_tripleE:
  assumes "bind_result m (\<lambda>(a, b, c). f a b c) = Inr y"
  obtains a b c where "m = Inr (a, b, c)" and "f a b c = Inr y"
  using assms by (cases m) auto

text \<open>Loops that stop at the first error: over a list, and over a list with a state.\<close>

fun traverse :: "('a \<Rightarrow> 'b result) \<Rightarrow> 'a list \<Rightarrow> 'b list result" where
  "traverse f [] = Inr []"
| "traverse f (x # xs) = bind_result (f x) (\<lambda>y. bind_result (traverse f xs) (\<lambda>ys. Inr (y # ys)))"

fun fold_result :: "('a \<Rightarrow> 's \<Rightarrow> 's result) \<Rightarrow> 'a list \<Rightarrow> 's \<Rightarrow> 's result" where
  "fold_result f [] s = Inr s"
| "fold_result f (x # xs) s = bind_result (f x s) (fold_result f xs)"

lemma fold_result_append:
  "fold_result f (xs @ ys) s = bind_result (fold_result f xs s) (fold_result f ys)"
  by (induction xs arbitrary: s) (auto simp: bind_result_def split: sum.splits)

definition bind_eff :: "('s, 'a) eff \<Rightarrow> ('a \<Rightarrow> ('s, 'b) eff) \<Rightarrow> ('s, 'b) eff" where
  "bind_eff m f s = (case m s of (Inl e, s') \<Rightarrow> (Inl e, s') | (Inr x, s') \<Rightarrow> f x s')"

definition lift_result :: "'a result \<Rightarrow> ('s, 'a) eff" where
  "lift_result r s = (r, s)"

definition read_eff :: "('s \<Rightarrow> 'a result) \<Rightarrow> ('s, 'a) eff" where
  "read_eff f s = (f s, s)"

lemma bind_eff_read_eff: "bind_eff (read_eff g) f s = bind_eff (lift_result (g s)) f s"
  by (simp add: bind_eff_def read_eff_def lift_result_def)

lemma bind_eff_lift_result [simp]:
  "bind_eff (lift_result (Inl e)) f s = (Inl e, s)"
  "bind_eff (lift_result (Inr x)) f s = f x s"
  by (simp_all add: bind_eff_def lift_result_def)

lemma bind_eff_Inr_iff:
  "bind_eff m f s = (Inr y, s') \<longleftrightarrow> (\<exists>x t. m s = (Inr x, t) \<and> f x t = (Inr y, s'))"
  by (auto simp: bind_eff_def split: prod.splits sum.splits)

section \<open>Python strings\<close>

definition py_isspace :: "char \<Rightarrow> bool" where
  "py_isspace c = (let n = (of_char c :: nat)
     in (9 \<le> n \<and> n \<le> 13) \<or> (28 \<le> n \<and> n \<le> 32) \<or> n = 133 \<or> n = 160)"

definition py_strip :: "string \<Rightarrow> string" where
  "py_strip s = rev (dropWhile py_isspace (rev (dropWhile py_isspace s)))"

definition py_lower_char :: "char \<Rightarrow> char" where
  "py_lower_char c = (let n = (of_char c :: nat)
     in if (65 \<le> n \<and> n \<le> 90) \<or> (192 \<le> n \<and> n \<le> 222 \<and> n \<noteq> 215) then char_of (n + 32) else c)"

definition py_lower :: "string \<Rightarrow> string" where
  "py_lower s = map py_lower_char s"

definition stripped :: "string \<Rightarrow> bool" where
  "stripped s \<longleftrightarrow> py_strip s = s"

lemma dropWhile_hd_false:
  "dropWhile P xs \<noteq> [] \<Longrightarrow> \<not> P (hd (dropWhile P xs))"
  by (induction xs) auto

lemma dropWhile_id_iff: "dropWhile P xs = xs \<longleftrightarrow> xs = [] \<or> \<not> P (hd xs)"
proof (cases xs)
  case Nil
  then show ?thesis by simp
next
  case (Cons y ys)
  have "length (dropWhile P ys) \<le> length ys" by (rule length_dropWhile_le)
  then have "dropWhile P ys \<noteq> y # ys" by auto
  with Cons show ?thesis by simp
qed

lemma stripped_strip [simp]: "py_strip (py_strip s) = py_strip s"
proof (cases "py_strip s = []")
  case True
  moreover have "py_strip [] = []" by (simp add: py_strip_def)
  ultimately show ?thesis by simp
next
  case False
  let ?a = "dropWhile py_isspace s"
  let ?b = "dropWhile py_isspace (rev ?a)"
  have b: "?b \<noteq> []" using False by (simp add: py_strip_def)
  have a: "?a \<noteq> []" using b by (metis dropWhile.simps(1) rev.simps(1))
  obtain pre where pre: "rev ?a = pre @ ?b"
    by (metis takeWhile_dropWhile_id)
  then have "?a = rev ?b @ rev pre" by (metis rev_append rev_rev_ident)
  with b have "hd (rev ?b) = hd ?a" by (metis Nil_is_rev_conv hd_append2)
  then have "\<not> py_isspace (hd (rev ?b))" using dropWhile_hd_false [OF a] by simp
  then have 1: "dropWhile py_isspace (rev ?b) = rev ?b" by (simp add: dropWhile_id_iff)
  have 2: "dropWhile py_isspace ?b = ?b"
    using dropWhile_hd_false [OF b] by (simp add: dropWhile_id_iff)
  show ?thesis by (simp add: py_strip_def 1 2)
qed

lemma stripped_py_strip [simp, intro]: "stripped (py_strip s)"
  by (simp add: stripped_def)

lemma strippedD [simp]: "stripped s \<Longrightarrow> py_strip s = s"
  by (simp add: stripped_def)

text \<open>The decimal rendering of an integer, as \<open>str(n)\<close> and f-strings give it.\<close>

fun str_of_nat :: "nat \<Rightarrow> string" where
  "str_of_nat n = (if n < 10 then [char_of (48 + n)] else str_of_nat (n div 10) @ [char_of (48 + n mod 10)])"

declare str_of_nat.simps [simp del]

definition str_of_int :: "int \<Rightarrow> string" where
  "str_of_int i = (if i < 0 then ''-'' @ str_of_nat (nat (- i)) else str_of_nat (nat i))"

text \<open>\<open>f"{i:0wd}"\<close>: zeros to width \<open>w\<close>, after the sign.\<close>

definition zero_pad :: "nat \<Rightarrow> int \<Rightarrow> string" where
  "zero_pad w i =
     (let s = str_of_nat (nat \<bar>i\<bar>) in
      if i < 0 then ''-'' @ replicate (w - 1 - length s) (CHR ''0'') @ s
      else replicate (w - length s) (CHR ''0'') @ s)"

text \<open>\<open>repr\<close> of a string and of a list of strings, as error messages print them.\<close>

definition hex_nibble :: "nat \<Rightarrow> char" where
  "hex_nibble n = (if n < 10 then char_of (48 + n) else char_of (87 + n))"

definition repr_char :: "char \<Rightarrow> char \<Rightarrow> string" where
  "repr_char quote c =
     (let n = (of_char c :: nat) in
      if c = quote \<or> n = 92 then [CHR 0x5C, c]
      else if n = 9 then [CHR 0x5C, CHR ''t'']
      else if n = 10 then [CHR 0x5C, CHR ''n'']
      else if n = 13 then [CHR 0x5C, CHR ''r'']
      else if n < 32 \<or> (127 \<le> n \<and> n \<le> 160) \<or> n = 173
      then [CHR 0x5C, CHR ''x'', hex_nibble (n div 16), hex_nibble (n mod 16)]
      else [c])"

definition py_repr :: "string \<Rightarrow> string" where
  "py_repr s =
     (let quote = (if CHR 0x27 \<in> set s \<and> CHR 0x22 \<notin> set s then CHR 0x22 else CHR 0x27)
      in [quote] @ concat (map (repr_char quote) s) @ [quote])"

fun comma_join :: "string list \<Rightarrow> string" where
  "comma_join [] = []"
| "comma_join [x] = x"
| "comma_join (x # y # zs) = x @ '', '' @ comma_join (y # zs)"

definition py_repr_list :: "string list \<Rightarrow> string" where
  "py_repr_list xs = ''['' @ comma_join (map py_repr xs) @ '']''"

text \<open>Python truthiness of an optional string: \<open>None\<close> and the empty string are false.\<close>

definition str_or :: "string option \<Rightarrow> string \<Rightarrow> string" where
  "str_or x d = (case x of None \<Rightarrow> d | Some s \<Rightarrow> if s = [] then d else s)"

definition truthy_opt :: "string option \<Rightarrow> bool" where
  "truthy_opt x = (case x of None \<Rightarrow> False | Some s \<Rightarrow> s \<noteq> [])"

definition py_in_opt :: "'a \<Rightarrow> 'a option \<Rightarrow> bool" where
  "py_in_opt x y = (y = None \<or> y = Some x)"

section \<open>Model validation\<close>

definition ne :: "string \<Rightarrow> bool" where
  "ne s = (s \<noteq> [])"

definition opt_ne :: "string option \<Rightarrow> bool" where
  "opt_ne x = (case x of None \<Rightarrow> True | Some s \<Rightarrow> s \<noteq> [])"

definition list_ne :: "string list \<Rightarrow> bool" where
  "list_ne xs = list_all (\<lambda>s. s \<noteq> []) xs"

definition field_errors :: "(string \<times> bool) list \<Rightarrow> string list" where
  "field_errors fs = map fst (filter (\<lambda>(_, ok). \<not> ok) fs)"

fun first_message :: "string option list \<Rightarrow> string option" where
  "first_message [] = None"
| "first_message (Some m # vs) = Some m"
| "first_message (None # vs) = first_message vs"

definition validate_model ::
  "(string \<times> bool) list \<Rightarrow> string option list \<Rightarrow> 'a \<Rightarrow> 'a result" where
  "validate_model fs vs r =
     (case field_errors fs of
        e # es \<Rightarrow> Inl (ValidationError (FieldErrors (e # es)))
      | [] \<Rightarrow> (case first_message vs of
                 Some m \<Rightarrow> Inl (ValidationError (ValidatorRaised m))
               | None \<Rightarrow> Inr r))"

definition raise_if :: "bool \<Rightarrow> string \<Rightarrow> string option" where
  "raise_if b m = (if b then Some m else None)"

lemma raise_if_None [simp]: "raise_if b m = None \<longleftrightarrow> \<not> b"
  by (simp add: raise_if_def)

lemma ne_simps [simp]: "ne [] = False" "ne (c # s) = True"
  by (simp_all add: ne_def)

lemma opt_ne_simps [simp]: "opt_ne None = True" "opt_ne (Some s) = ne s"
  by (simp_all add: opt_ne_def ne_def)

lemma list_ne_simps [simp]: "list_ne [] = True" "list_ne (s # ss) = (ne s \<and> list_ne ss)"
  by (simp_all add: list_ne_def ne_def)

lemma list_ne_append [simp]: "list_ne (xs @ ys) = (list_ne xs \<and> list_ne ys)"
  by (simp add: list_ne_def)

lemma field_errors_Nil_iff: "field_errors fs = [] \<longleftrightarrow> list_all snd fs"
  by (induction fs) (auto simp: field_errors_def)

lemma first_message_None_iff: "first_message vs = None \<longleftrightarrow> list_all (\<lambda>v. v = None) vs"
  by (induction vs rule: first_message.induct) auto

lemma validate_model_Inr_iff:
  "validate_model fs vs r = Inr r' \<longleftrightarrow>
     r' = r \<and> list_all snd fs \<and> list_all (\<lambda>v. v = None) vs"
  by (auto simp: validate_model_def field_errors_Nil_iff [symmetric]
        first_message_None_iff [symmetric] split: list.splits option.splits)

lemma first_message_or_else:
  "first_message (v # vs) = (case v of Some m \<Rightarrow> Some m | None \<Rightarrow> first_message vs)"
  by (cases v) auto

section \<open>Sorting by distinct keys\<close>

text \<open>With distinct keys there is one sorted order, whatever the order of the input.\<close>

lemma filter_same_key:
  assumes "distinct (map f xs)" and "k \<in> set xs"
  shows "filter (\<lambda>x. f k = f x) xs = [k]"
  using assms by (induction xs) (auto simp: filter_empty_conv image_iff)

lemma sort_key_unique:
  assumes "mset ys = mset xs" and "sorted (map f ys)" and "distinct (map f ys)"
  shows "sort_key f xs = ys"
proof (rule properties_for_sort_key)
  have "distinct (map f xs)" using assms(1,3) by (metis mset_map mset_eq_imp_distinct_iff)
  moreover have "set xs = set ys" using assms(1) by (metis mset_eq_setD)
  ultimately show "filter (\<lambda>x. f k = f x) ys = filter (\<lambda>x. f k = f x) xs" if "k \<in> set ys" for k
    using that assms(3) by (simp add: filter_same_key)
qed (use assms in simp_all)

section \<open>Transition tables\<close>

definition moves :: "('s \<Rightarrow> 's set) \<Rightarrow> 's \<Rightarrow> 's \<Rightarrow> bool" where
  "moves nx a b \<longleftrightarrow> b \<in> nx a"

text \<open>A sequence of states each of which is an allowed successor of the one before.\<close>

fun legal_path :: "('s \<Rightarrow> 's set) \<Rightarrow> 's list \<Rightarrow> bool" where
  "legal_path nx [] = True"
| "legal_path nx [s] = True"
| "legal_path nx (s # t # ss) = (t \<in> nx s \<and> legal_path nx (t # ss))"

lemma legal_path_append:
  "legal_path nx (xs @ ys) \<longleftrightarrow>
     legal_path nx xs \<and> legal_path nx ys \<and> (xs \<noteq> [] \<longrightarrow> ys \<noteq> [] \<longrightarrow> hd ys \<in> nx (last xs))"
proof (induction nx xs rule: legal_path.induct)
  case (2 nx s)
  then show ?case by (cases ys) auto
qed auto

lemma legal_path_snoc [simp]:
  "legal_path nx (xs @ [s]) \<longleftrightarrow> legal_path nx xs \<and> (xs = [] \<or> s \<in> nx (last xs))"
  by (auto simp: legal_path_append)

text \<open>
  Every way out of a region whose only exit is \<open>g\<close> goes through \<open>g\<close>.
\<close>

lemma legal_path_must_pass:
  assumes "legal_path nx (s # ss)" and "s \<in> A" and "\<And>a. a \<in> A \<Longrightarrow> nx a \<subseteq> A \<union> {g}"
    and "last (s # ss) \<notin> A"
  shows "g \<in> set ss"
  using assms(1,2,4)
proof (induction ss arbitrary: s)
  case Nil
  then show ?case by simp
next
  case (Cons t ss)
  then have "t \<in> A \<union> {g}" using assms(3) by auto
  then show ?case
  proof
    assume "t \<in> A"
    with Cons show ?thesis by auto
  qed simp
qed

text \<open>
  The contract of a status machine: the statuses declared terminal are exactly those with no
  successor. The lemmas of the interface are what every client of such a table relies on.
\<close>

locale transition_table =
  fixes nx :: "'s \<Rightarrow> 's set"
    and terminal :: "'s \<Rightarrow> bool"
  assumes terminal_iff: "terminal s \<longleftrightarrow> nx s = {}"
begin

lemma terminal_absorbing:
  assumes "(moves nx)\<^sup>*\<^sup>* s t" and "terminal s"
  shows "t = s"
  using assms by (induction rule: rtranclp_induct) (auto simp: moves_def terminal_iff)

lemma terminal_only_last:
  assumes "legal_path nx (xs @ s # ys)" and "terminal s"
  shows "ys = []"
  using assms by (cases ys) (auto simp: legal_path_append terminal_iff)

lemma no_step_from_terminal: "terminal s \<Longrightarrow> t \<notin> nx s"
  by (simp add: terminal_iff)

end

end
