(* ===== verification/Control_Plane_Enums.thy ===== *)
theory Control_Plane_Enums
  imports Orket_Prelude
begin

text \<open>
  The closed vocabularies of the control plane (\<open>orket/core/domain/control_plane_enums.py\<close>).
  Each \<open>Enum\<close> class is a datatype with the members of the class; \<open>X_value\<close> is the
  \<open>.value\<close> of a member, the string under which it is stored and printed.
\<close>

datatype (plugins only: code) RunState =
    CREATED
  | ADMISSION_PENDING
  | ADMITTED
  | EXECUTING
  | WAITING_ON_OBSERVATION
  | WAITING_ON_RESOURCE
  | RECOVERY_PENDING
  | RECONCILING
  | RECOVERING
  | OPERATOR_BLOCKED
  | QUARANTINED
  | COMPLETED
  | FAILED_TERMINAL
  | CANCELLED

primrec RunState_value :: "RunState \<Rightarrow> string" where
  "RunState_value RunState.CREATED = ''created''"
| "RunState_value RunState.ADMISSION_PENDING = ''admission_pending''"
| "RunState_value RunState.ADMITTED = ''admitted''"
| "RunState_value RunState.EXECUTING = ''executing''"
| "RunState_value RunState.WAITING_ON_OBSERVATION = ''waiting_on_observation''"
| "RunState_value RunState.WAITING_ON_RESOURCE = ''waiting_on_resource''"
| "RunState_value RunState.RECOVERY_PENDING = ''recovery_pending''"
| "RunState_value RunState.RECONCILING = ''reconciling''"
| "RunState_value RunState.RECOVERING = ''recovering''"
| "RunState_value RunState.OPERATOR_BLOCKED = ''operator_blocked''"
| "RunState_value RunState.QUARANTINED = ''quarantined''"
| "RunState_value RunState.COMPLETED = ''completed''"
| "RunState_value RunState.FAILED_TERMINAL = ''failed_terminal''"
| "RunState_value RunState.CANCELLED = ''cancelled''"

datatype (plugins only: code) AttemptState =
    CREATED
  | EXECUTING
  | WAITING
  | FAILED
  | INTERRUPTED
  | COMPLETED
  | ABANDONED

primrec AttemptState_value :: "AttemptState \<Rightarrow> string" where
  "AttemptState_value AttemptState.CREATED = ''attempt_created''"
| "AttemptState_value AttemptState.EXECUTING = ''attempt_executing''"
| "AttemptState_value AttemptState.WAITING = ''attempt_waiting''"
| "AttemptState_value AttemptState.FAILED = ''attempt_failed''"
| "AttemptState_value AttemptState.INTERRUPTED = ''attempt_interrupted''"
| "AttemptState_value AttemptState.COMPLETED = ''attempt_completed''"
| "AttemptState_value AttemptState.ABANDONED = ''attempt_abandoned''"

datatype (plugins only: code) FailurePlane =
    EXECUTION
  | PROTOCOL
  | TRUTH
  | RESOURCE
  | CONTROL_PLANE

primrec FailurePlane_value :: "FailurePlane \<Rightarrow> string" where
  "FailurePlane_value FailurePlane.EXECUTION = ''execution_failure''"
| "FailurePlane_value FailurePlane.PROTOCOL = ''protocol_failure''"
| "FailurePlane_value FailurePlane.TRUTH = ''truth_failure''"
| "FailurePlane_value FailurePlane.RESOURCE = ''resource_failure''"
| "FailurePlane_value FailurePlane.CONTROL_PLANE = ''control_plane_failure''"

datatype (plugins only: code) ExecutionFailureClass =
    ADAPTER_EXECUTION_FAILURE
  | TOOL_TIMEOUT
  | TRANSPORT_FAILURE
  | DETERMINISTIC_TRANSFORM_FAILURE
  | CHECKPOINT_INVALID
  | RESUME_FAILURE

primrec ExecutionFailureClass_value :: "ExecutionFailureClass \<Rightarrow> string" where
  "ExecutionFailureClass_value ExecutionFailureClass.ADAPTER_EXECUTION_FAILURE = ''adapter_execution_failure''"
| "ExecutionFailureClass_value ExecutionFailureClass.TOOL_TIMEOUT = ''tool_timeout''"
| "ExecutionFailureClass_value ExecutionFailureClass.TRANSPORT_FAILURE = ''transport_failure''"
| "ExecutionFailureClass_value ExecutionFailureClass.DETERMINISTIC_TRANSFORM_FAILURE = ''deterministic_transform_failure''"
| "ExecutionFailureClass_value ExecutionFailureClass.CHECKPOINT_INVALID = ''checkpoint_invalid''"
| "ExecutionFailureClass_value ExecutionFailureClass.RESUME_FAILURE = ''resume_failure''"

definition ExecutionFailureClass_members :: "ExecutionFailureClass list" where
  "ExecutionFailureClass_members = [ExecutionFailureClass.ADAPTER_EXECUTION_FAILURE, ExecutionFailureClass.TOOL_TIMEOUT, ExecutionFailureClass.TRANSPORT_FAILURE, ExecutionFailureClass.DETERMINISTIC_TRANSFORM_FAILURE, ExecutionFailureClass.CHECKPOINT_INVALID, ExecutionFailureClass.RESUME_FAILURE]"

datatype (plugins only: code) ProtocolFailureClass =
    INVALID_ENVELOPE
  | INVALID_SCHEMA
  | TOOL_CARDINALITY_VIOLATION
  | FORBIDDEN_MIXED_SURFACE
  | MISSING_REQUIRED_OBSERVATION
  | UNDECLARED_CAPABILITY_REQUEST

primrec ProtocolFailureClass_value :: "ProtocolFailureClass \<Rightarrow> string" where
  "ProtocolFailureClass_value ProtocolFailureClass.INVALID_ENVELOPE = ''invalid_envelope''"
| "ProtocolFailureClass_value ProtocolFailureClass.INVALID_SCHEMA = ''invalid_schema''"
| "ProtocolFailureClass_value ProtocolFailureClass.TOOL_CARDINALITY_VIOLATION = ''tool_cardinality_violation''"
| "ProtocolFailureClass_value ProtocolFailureClass.FORBIDDEN_MIXED_SURFACE = ''forbidden_mixed_surface''"
| "ProtocolFailureClass_value ProtocolFailureClass.MISSING_REQUIRED_OBSERVATION = ''missing_required_observation''"
| "ProtocolFailureClass_value ProtocolFailureClass.UNDECLARED_CAPABILITY_REQUEST = ''undeclared_capability_request''"

definition ProtocolFailureClass_members :: "ProtocolFailureClass list" where
  "ProtocolFailureClass_members = [ProtocolFailureClass.INVALID_ENVELOPE, ProtocolFailureClass.INVALID_SCHEMA, ProtocolFailureClass.TOOL_CARDINALITY_VIOLATION, ProtocolFailureClass.FORBIDDEN_MIXED_SURFACE, ProtocolFailureClass.MISSING_REQUIRED_OBSERVATION, ProtocolFailureClass.UNDECLARED_CAPABILITY_REQUEST]"

datatype (plugins only: code) TruthFailureClass =
    UNSUPPORTED_CLAIM
  | MISSING_REQUIRED_EVIDENCE
  | TOOL_RESULT_CONTRADICTION
  | STATE_CONTRADICTION
  | CLAIM_EXCEEDS_AUTHORITY
  | FALSE_COMPLETION_CLAIM

primrec TruthFailureClass_value :: "TruthFailureClass \<Rightarrow> string" where
  "TruthFailureClass_value TruthFailureClass.UNSUPPORTED_CLAIM = ''unsupported_claim''"
| "TruthFailureClass_value TruthFailureClass.MISSING_REQUIRED_EVIDENCE = ''missing_required_evidence''"
| "TruthFailureClass_value TruthFailureClass.TOOL_RESULT_CONTRADICTION = ''tool_result_contradiction''"
| "TruthFailureClass_value TruthFailureClass.STATE_CONTRADICTION = ''state_contradiction''"
| "TruthFailureClass_value TruthFailureClass.CLAIM_EXCEEDS_AUTHORITY = ''claim_exceeds_authority''"
| "TruthFailureClass_value TruthFailureClass.FALSE_COMPLETION_CLAIM = ''false_completion_claim''"

definition TruthFailureClass_members :: "TruthFailureClass list" where
  "TruthFailureClass_members = [TruthFailureClass.UNSUPPORTED_CLAIM, TruthFailureClass.MISSING_REQUIRED_EVIDENCE, TruthFailureClass.TOOL_RESULT_CONTRADICTION, TruthFailureClass.STATE_CONTRADICTION, TruthFailureClass.CLAIM_EXCEEDS_AUTHORITY, TruthFailureClass.FALSE_COMPLETION_CLAIM]"

datatype (plugins only: code) ResourceFailureClass =
    LEASE_CONFLICT
  | RESOURCE_UNAVAILABLE
  | RESOURCE_STATE_UNCERTAIN
  | ORPHAN_RESOURCE_DETECTED
  | CLEANUP_AUTHORITY_BLOCKED
  | RESERVATION_CONFLICT
  | RESERVATION_EXPIRED_BEFORE_EXECUTION

primrec ResourceFailureClass_value :: "ResourceFailureClass \<Rightarrow> string" where
  "ResourceFailureClass_value ResourceFailureClass.LEASE_CONFLICT = ''lease_conflict''"
| "ResourceFailureClass_value ResourceFailureClass.RESOURCE_UNAVAILABLE = ''resource_unavailable''"
| "ResourceFailureClass_value ResourceFailureClass.RESOURCE_STATE_UNCERTAIN = ''resource_state_uncertain''"
| "ResourceFailureClass_value ResourceFailureClass.ORPHAN_RESOURCE_DETECTED = ''orphan_resource_detected''"
| "ResourceFailureClass_value ResourceFailureClass.CLEANUP_AUTHORITY_BLOCKED = ''cleanup_authority_blocked''"
| "ResourceFailureClass_value ResourceFailureClass.RESERVATION_CONFLICT = ''reservation_conflict''"
| "ResourceFailureClass_value ResourceFailureClass.RESERVATION_EXPIRED_BEFORE_EXECUTION = ''reservation_expired_before_execution''"

definition ResourceFailureClass_members :: "ResourceFailureClass list" where
  "ResourceFailureClass_members = [ResourceFailureClass.LEASE_CONFLICT, ResourceFailureClass.RESOURCE_UNAVAILABLE, ResourceFailureClass.RESOURCE_STATE_UNCERTAIN, ResourceFailureClass.ORPHAN_RESOURCE_DETECTED, ResourceFailureClass.CLEANUP_AUTHORITY_BLOCKED, ResourceFailureClass.RESERVATION_CONFLICT, ResourceFailureClass.RESERVATION_EXPIRED_BEFORE_EXECUTION]"

datatype (plugins only: code) ControlPlaneFailureClass =
    ILLEGAL_STATE_TRANSITION
  | JOURNAL_INTEGRITY_FAILURE
  | MISSING_REQUIRED_RECEIPT
  | SUPERVISORY_INVARIANT_VIOLATION
  | RECONCILIATION_PUBLICATION_FAILURE
  | FINAL_TRUTH_PUBLICATION_FAILURE

primrec ControlPlaneFailureClass_value :: "ControlPlaneFailureClass \<Rightarrow> string" where
  "ControlPlaneFailureClass_value ControlPlaneFailureClass.ILLEGAL_STATE_TRANSITION = ''illegal_state_transition''"
| "ControlPlaneFailureClass_value ControlPlaneFailureClass.JOURNAL_INTEGRITY_FAILURE = ''journal_integrity_failure''"
| "ControlPlaneFailureClass_value ControlPlaneFailureClass.MISSING_REQUIRED_RECEIPT = ''missing_required_receipt''"
| "ControlPlaneFailureClass_value ControlPlaneFailureClass.SUPERVISORY_INVARIANT_VIOLATION = ''supervisory_invariant_violation''"
| "ControlPlaneFailureClass_value ControlPlaneFailureClass.RECONCILIATION_PUBLICATION_FAILURE = ''reconciliation_publication_failure''"
| "ControlPlaneFailureClass_value ControlPlaneFailureClass.FINAL_TRUTH_PUBLICATION_FAILURE = ''final_truth_publication_failure''"

definition ControlPlaneFailureClass_members :: "ControlPlaneFailureClass list" where
  "ControlPlaneFailureClass_members = [ControlPlaneFailureClass.ILLEGAL_STATE_TRANSITION, ControlPlaneFailureClass.JOURNAL_INTEGRITY_FAILURE, ControlPlaneFailureClass.MISSING_REQUIRED_RECEIPT, ControlPlaneFailureClass.SUPERVISORY_INVARIANT_VIOLATION, ControlPlaneFailureClass.RECONCILIATION_PUBLICATION_FAILURE, ControlPlaneFailureClass.FINAL_TRUTH_PUBLICATION_FAILURE]"

datatype (plugins only: code) SideEffectBoundaryClass =
    PRE_EFFECT_FAILURE
  | EFFECT_BOUNDARY_UNCERTAIN
  | POST_EFFECT_OBSERVED

primrec SideEffectBoundaryClass_value :: "SideEffectBoundaryClass \<Rightarrow> string" where
  "SideEffectBoundaryClass_value SideEffectBoundaryClass.PRE_EFFECT_FAILURE = ''pre_effect_failure''"
| "SideEffectBoundaryClass_value SideEffectBoundaryClass.EFFECT_BOUNDARY_UNCERTAIN = ''effect_boundary_uncertain''"
| "SideEffectBoundaryClass_value SideEffectBoundaryClass.POST_EFFECT_OBSERVED = ''post_effect_observed''"

datatype (plugins only: code) RecoveryActionClass =
    RETRY_SAME_ATTEMPT_SCOPE
  | START_NEW_ATTEMPT
  | RESUME_FROM_CHECKPOINT
  | REQUIRE_OBSERVATION_THEN_CONTINUE
  | REQUIRE_RECONCILIATION_THEN_DECIDE
  | PERFORM_CONTROL_PLANE_RECOVERY_ACTION
  | DOWNGRADE_TO_DEGRADED_MODE
  | QUARANTINE_RUN
  | ESCALATE_TO_OPERATOR
  | TERMINATE_RUN

primrec RecoveryActionClass_value :: "RecoveryActionClass \<Rightarrow> string" where
  "RecoveryActionClass_value RecoveryActionClass.RETRY_SAME_ATTEMPT_SCOPE = ''retry_same_attempt_scope''"
| "RecoveryActionClass_value RecoveryActionClass.START_NEW_ATTEMPT = ''start_new_attempt''"
| "RecoveryActionClass_value RecoveryActionClass.RESUME_FROM_CHECKPOINT = ''resume_from_checkpoint''"
| "RecoveryActionClass_value RecoveryActionClass.REQUIRE_OBSERVATION_THEN_CONTINUE = ''require_observation_then_continue''"
| "RecoveryActionClass_value RecoveryActionClass.REQUIRE_RECONCILIATION_THEN_DECIDE = ''require_reconciliation_then_decide''"
| "RecoveryActionClass_value RecoveryActionClass.PERFORM_CONTROL_PLANE_RECOVERY_ACTION = ''perform_control_plane_recovery_action''"
| "RecoveryActionClass_value RecoveryActionClass.DOWNGRADE_TO_DEGRADED_MODE = ''downgrade_to_degraded_mode''"
| "RecoveryActionClass_value RecoveryActionClass.QUARANTINE_RUN = ''quarantine_run''"
| "RecoveryActionClass_value RecoveryActionClass.ESCALATE_TO_OPERATOR = ''escalate_to_operator''"
| "RecoveryActionClass_value RecoveryActionClass.TERMINATE_RUN = ''terminate_run''"

datatype (plugins only: code) CapabilityClass =
    OBSERVE
  | DETERMINISTIC_COMPUTE
  | BOUNDED_LOCAL_MUTATION
  | EXTERNAL_MUTATION
  | DESTRUCTIVE_MUTATION
  | OPERATOR_AUTHORIZED_ACTION

primrec CapabilityClass_value :: "CapabilityClass \<Rightarrow> string" where
  "CapabilityClass_value CapabilityClass.OBSERVE = ''observe''"
| "CapabilityClass_value CapabilityClass.DETERMINISTIC_COMPUTE = ''deterministic_compute''"
| "CapabilityClass_value CapabilityClass.BOUNDED_LOCAL_MUTATION = ''bounded_local_mutation''"
| "CapabilityClass_value CapabilityClass.EXTERNAL_MUTATION = ''external_mutation''"
| "CapabilityClass_value CapabilityClass.DESTRUCTIVE_MUTATION = ''destructive_mutation''"
| "CapabilityClass_value CapabilityClass.OPERATOR_AUTHORIZED_ACTION = ''operator_authorized_action''"

datatype (plugins only: code) EffectClass =
    NO_EFFECT
  | LOCAL_STATE_EFFECT
  | ARTIFACT_EFFECT
  | RESOURCE_LIFECYCLE_EFFECT
  | EXTERNAL_SERVICE_EFFECT
  | DESTRUCTIVE_EFFECT

primrec EffectClass_value :: "EffectClass \<Rightarrow> string" where
  "EffectClass_value EffectClass.NO_EFFECT = ''no_effect''"
| "EffectClass_value EffectClass.LOCAL_STATE_EFFECT = ''local_state_effect''"
| "EffectClass_value EffectClass.ARTIFACT_EFFECT = ''artifact_effect''"
| "EffectClass_value EffectClass.RESOURCE_LIFECYCLE_EFFECT = ''resource_lifecycle_effect''"
| "EffectClass_value EffectClass.EXTERNAL_SERVICE_EFFECT = ''external_service_effect''"
| "EffectClass_value EffectClass.DESTRUCTIVE_EFFECT = ''destructive_effect''"

datatype (plugins only: code) IdempotencyClass =
    IDEMPOTENT
  | IDEMPOTENT_WITH_TOKEN
  | NON_IDEMPOTENT
  | UNKNOWN_IDEMPOTENCY

primrec IdempotencyClass_value :: "IdempotencyClass \<Rightarrow> string" where
  "IdempotencyClass_value IdempotencyClass.IDEMPOTENT = ''idempotent''"
| "IdempotencyClass_value IdempotencyClass.IDEMPOTENT_WITH_TOKEN = ''idempotent_with_token''"
| "IdempotencyClass_value IdempotencyClass.NON_IDEMPOTENT = ''non_idempotent''"
| "IdempotencyClass_value IdempotencyClass.UNKNOWN_IDEMPOTENCY = ''unknown_idempotency''"

datatype (plugins only: code) CompensationClass =
    NO_COMPENSATION_NEEDED
  | RUNTIME_COMPENSABLE
  | ADAPTER_COMPENSABLE
  | OPERATOR_COMPENSABLE
  | NON_COMPENSABLE
  | UNKNOWN_COMPENSATION

primrec CompensationClass_value :: "CompensationClass \<Rightarrow> string" where
  "CompensationClass_value CompensationClass.NO_COMPENSATION_NEEDED = ''no_compensation_needed''"
| "CompensationClass_value CompensationClass.RUNTIME_COMPENSABLE = ''runtime_compensable''"
| "CompensationClass_value CompensationClass.ADAPTER_COMPENSABLE = ''adapter_compensable''"
| "CompensationClass_value CompensationClass.OPERATOR_COMPENSABLE = ''operator_compensable''"
| "CompensationClass_value CompensationClass.NON_COMPENSABLE = ''non_compensable''"
| "CompensationClass_value CompensationClass.UNKNOWN_COMPENSATION = ''unknown_compensation''"

datatype (plugins only: code) EvidenceContractClass =
    RECEIPT_ONLY
  | RECEIPT_PLUS_OBSERVATION
  | OBSERVATION_ONLY
  | ARTIFACT_MANIFEST_REQUIRED
  | EXTERNAL_CONFIRMATION_REQUIRED
  | ATTESTATION_PERMITTED_BY_POLICY

primrec EvidenceContractClass_value :: "EvidenceContractClass \<Rightarrow> string" where
  "EvidenceContractClass_value EvidenceContractClass.RECEIPT_ONLY = ''receipt_only''"
| "EvidenceContractClass_value EvidenceContractClass.RECEIPT_PLUS_OBSERVATION = ''receipt_plus_observation''"
| "EvidenceContractClass_value EvidenceContractClass.OBSERVATION_ONLY = ''observation_only''"
| "EvidenceContractClass_value EvidenceContractClass.ARTIFACT_MANIFEST_REQUIRED = ''artifact_manifest_required''"
| "EvidenceContractClass_value EvidenceContractClass.EXTERNAL_CONFIRMATION_REQUIRED = ''external_confirmation_required''"
| "EvidenceContractClass_value EvidenceContractClass.ATTESTATION_PERMITTED_BY_POLICY = ''attestation_permitted_by_policy''"

datatype (plugins only: code) ObservabilityClass =
    FULLY_OBSERVABLE
  | EVENTUALLY_OBSERVABLE
  | PARTIALLY_OBSERVABLE
  | OPAQUE_WITHOUT_EXTERNAL_CHECK

primrec ObservabilityClass_value :: "ObservabilityClass \<Rightarrow> string" where
  "ObservabilityClass_value ObservabilityClass.FULLY_OBSERVABLE = ''fully_observable''"
| "ObservabilityClass_value ObservabilityClass.EVENTUALLY_OBSERVABLE = ''eventually_observable''"
| "ObservabilityClass_value ObservabilityClass.PARTIALLY_OBSERVABLE = ''partially_observable''"
| "ObservabilityClass_value ObservabilityClass.OPAQUE_WITHOUT_EXTERNAL_CHECK = ''opaque_without_external_check''"

datatype (plugins only: code) ReservationKind =
    RESOURCE
  | CONCURRENCY
  | NAMESPACE
  | OPERATOR_HOLD

primrec ReservationKind_value :: "ReservationKind \<Rightarrow> string" where
  "ReservationKind_value ReservationKind.RESOURCE = ''resource_reservation''"
| "ReservationKind_value ReservationKind.CONCURRENCY = ''concurrency_reservation''"
| "ReservationKind_value ReservationKind.NAMESPACE = ''namespace_reservation''"
| "ReservationKind_value ReservationKind.OPERATOR_HOLD = ''operator_hold_reservation''"

datatype (plugins only: code) ReservationStatus =
    PENDING
  | ACTIVE
  | PROMOTED_TO_LEASE
  | RELEASED
  | EXPIRED
  | CANCELLED
  | INVALIDATED
  | UNCERTAIN

primrec ReservationStatus_value :: "ReservationStatus \<Rightarrow> string" where
  "ReservationStatus_value ReservationStatus.PENDING = ''reservation_pending''"
| "ReservationStatus_value ReservationStatus.ACTIVE = ''reservation_active''"
| "ReservationStatus_value ReservationStatus.PROMOTED_TO_LEASE = ''reservation_promoted_to_lease''"
| "ReservationStatus_value ReservationStatus.RELEASED = ''reservation_released''"
| "ReservationStatus_value ReservationStatus.EXPIRED = ''reservation_expired''"
| "ReservationStatus_value ReservationStatus.CANCELLED = ''reservation_cancelled''"
| "ReservationStatus_value ReservationStatus.INVALIDATED = ''reservation_invalidated''"
| "ReservationStatus_value ReservationStatus.UNCERTAIN = ''reservation_uncertain''"

datatype (plugins only: code) LeaseStatus =
    PENDING
  | ACTIVE
  | EXPIRED
  | RELEASED
  | REVOKED
  | UNCERTAIN

primrec LeaseStatus_value :: "LeaseStatus \<Rightarrow> string" where
  "LeaseStatus_value LeaseStatus.PENDING = ''lease_pending''"
| "LeaseStatus_value LeaseStatus.ACTIVE = ''lease_active''"
| "LeaseStatus_value LeaseStatus.EXPIRED = ''lease_expired''"
| "LeaseStatus_value LeaseStatus.RELEASED = ''lease_released''"
| "LeaseStatus_value LeaseStatus.REVOKED = ''lease_revoked''"
| "LeaseStatus_value LeaseStatus.UNCERTAIN = ''lease_uncertain''"

datatype (plugins only: code) CleanupAuthorityClass =
    RUNTIME_CLEANUP_ALLOWED
  | RUNTIME_CLEANUP_AFTER_RECONCILIATION
  | OPERATOR_CLEANUP_REQUIRED
  | ADAPTER_CLEANUP_ONLY
  | CLEANUP_FORBIDDEN_WITHOUT_EXTERNAL_CONFIRMATION

primrec CleanupAuthorityClass_value :: "CleanupAuthorityClass \<Rightarrow> string" where
  "CleanupAuthorityClass_value CleanupAuthorityClass.RUNTIME_CLEANUP_ALLOWED = ''runtime_cleanup_allowed''"
| "CleanupAuthorityClass_value CleanupAuthorityClass.RUNTIME_CLEANUP_AFTER_RECONCILIATION = ''runtime_cleanup_after_reconciliation''"
| "CleanupAuthorityClass_value CleanupAuthorityClass.OPERATOR_CLEANUP_REQUIRED = ''operator_cleanup_required''"
| "CleanupAuthorityClass_value CleanupAuthorityClass.ADAPTER_CLEANUP_ONLY = ''adapter_cleanup_only''"
| "CleanupAuthorityClass_value CleanupAuthorityClass.CLEANUP_FORBIDDEN_WITHOUT_EXTERNAL_CONFIRMATION = ''cleanup_forbidden_without_external_confirmation''"

datatype (plugins only: code) OwnershipClass =
    RUN_OWNED
  | ATTEMPT_OWNED
  | SHARED_GOVERNED
  | OPERATOR_OWNED
  | EXTERNAL_UNOWNED_REFERENCE

primrec OwnershipClass_value :: "OwnershipClass \<Rightarrow> string" where
  "OwnershipClass_value OwnershipClass.RUN_OWNED = ''run_owned''"
| "OwnershipClass_value OwnershipClass.ATTEMPT_OWNED = ''attempt_owned''"
| "OwnershipClass_value OwnershipClass.SHARED_GOVERNED = ''shared_governed''"
| "OwnershipClass_value OwnershipClass.OPERATOR_OWNED = ''operator_owned''"
| "OwnershipClass_value OwnershipClass.EXTERNAL_UNOWNED_REFERENCE = ''external_unowned_reference''"

datatype (plugins only: code) OrphanClassification =
    NOT_ORPHANED
  | VERIFIED_ORPHAN
  | SUSPECTED_ORPHAN
  | OWNERSHIP_CONFLICT

primrec OrphanClassification_value :: "OrphanClassification \<Rightarrow> string" where
  "OrphanClassification_value OrphanClassification.NOT_ORPHANED = ''not_orphaned''"
| "OrphanClassification_value OrphanClassification.VERIFIED_ORPHAN = ''verified_orphan''"
| "OrphanClassification_value OrphanClassification.SUSPECTED_ORPHAN = ''suspected_orphan''"
| "OrphanClassification_value OrphanClassification.OWNERSHIP_CONFLICT = ''ownership_conflict''"

datatype (plugins only: code) DivergenceClass =
    NO_DIVERGENCE
  | EXPECTED_EFFECT_OBSERVED
  | EFFECT_MISSING
  | UNEXPECTED_EFFECT_OBSERVED
  | RESOURCE_STATE_DIVERGED
  | OWNERSHIP_DIVERGED
  | INSUFFICIENT_OBSERVATION

primrec DivergenceClass_value :: "DivergenceClass \<Rightarrow> string" where
  "DivergenceClass_value DivergenceClass.NO_DIVERGENCE = ''no_divergence''"
| "DivergenceClass_value DivergenceClass.EXPECTED_EFFECT_OBSERVED = ''expected_effect_observed''"
| "DivergenceClass_value DivergenceClass.EFFECT_MISSING = ''effect_missing''"
| "DivergenceClass_value DivergenceClass.UNEXPECTED_EFFECT_OBSERVED = ''unexpected_effect_observed''"
| "DivergenceClass_value DivergenceClass.RESOURCE_STATE_DIVERGED = ''resource_state_diverged''"
| "DivergenceClass_value DivergenceClass.OWNERSHIP_DIVERGED = ''ownership_diverged''"
| "DivergenceClass_value DivergenceClass.INSUFFICIENT_OBSERVATION = ''insufficient_observation''"

datatype (plugins only: code) SafeContinuationClass =
    SAFE_TO_CONTINUE
  | SAFE_TO_CONTINUE_IN_DEGRADED_MODE
  | OPERATOR_REQUIRED
  | UNSAFE_TO_CONTINUE
  | TERMINAL_WITHOUT_CLEANUP
  | CLEANUP_BEFORE_CONTINUE

primrec SafeContinuationClass_value :: "SafeContinuationClass \<Rightarrow> string" where
  "SafeContinuationClass_value SafeContinuationClass.SAFE_TO_CONTINUE = ''safe_to_continue''"
| "SafeContinuationClass_value SafeContinuationClass.SAFE_TO_CONTINUE_IN_DEGRADED_MODE = ''safe_to_continue_in_degraded_mode''"
| "SafeContinuationClass_value SafeContinuationClass.OPERATOR_REQUIRED = ''operator_required''"
| "SafeContinuationClass_value SafeContinuationClass.UNSAFE_TO_CONTINUE = ''unsafe_to_continue''"
| "SafeContinuationClass_value SafeContinuationClass.TERMINAL_WITHOUT_CLEANUP = ''terminal_without_cleanup''"
| "SafeContinuationClass_value SafeContinuationClass.CLEANUP_BEFORE_CONTINUE = ''cleanup_before_continue''"

datatype (plugins only: code) OperatorInputClass =
    COMMAND
  | RISK_ACCEPTANCE
  | ATTESTATION

primrec OperatorInputClass_value :: "OperatorInputClass \<Rightarrow> string" where
  "OperatorInputClass_value OperatorInputClass.COMMAND = ''operator_command''"
| "OperatorInputClass_value OperatorInputClass.RISK_ACCEPTANCE = ''operator_risk_acceptance''"
| "OperatorInputClass_value OperatorInputClass.ATTESTATION = ''operator_attestation''"

datatype (plugins only: code) OperatorCommandClass =
    APPROVE_CONTINUE
  | APPROVE_DEGRADED_CONTINUE
  | FORCE_RECONCILE
  | QUARANTINE_RUN
  | CANCEL_RUN
  | RELEASE_OR_REVOKE_LEASE
  | APPROVE_CLEANUP
  | MARK_TERMINAL

primrec OperatorCommandClass_value :: "OperatorCommandClass \<Rightarrow> string" where
  "OperatorCommandClass_value OperatorCommandClass.APPROVE_CONTINUE = ''approve_continue''"
| "OperatorCommandClass_value OperatorCommandClass.APPROVE_DEGRADED_CONTINUE = ''approve_degraded_continue''"
| "OperatorCommandClass_value OperatorCommandClass.FORCE_RECONCILE = ''force_reconcile''"
| "OperatorCommandClass_value OperatorCommandClass.QUARANTINE_RUN = ''quarantine_run''"
| "OperatorCommandClass_value OperatorCommandClass.CANCEL_RUN = ''cancel_run''"
| "OperatorCommandClass_value OperatorCommandClass.RELEASE_OR_REVOKE_LEASE = ''release_or_revoke_lease''"
| "OperatorCommandClass_value OperatorCommandClass.APPROVE_CLEANUP = ''approve_cleanup''"
| "OperatorCommandClass_value OperatorCommandClass.MARK_TERMINAL = ''mark_terminal''"

datatype (plugins only: code) CheckpointAcceptanceOutcome =
    ACCEPTED
  | REJECTED

primrec CheckpointAcceptanceOutcome_value :: "CheckpointAcceptanceOutcome \<Rightarrow> string" where
  "CheckpointAcceptanceOutcome_value CheckpointAcceptanceOutcome.ACCEPTED = ''checkpoint_accepted''"
| "CheckpointAcceptanceOutcome_value CheckpointAcceptanceOutcome.REJECTED = ''checkpoint_rejected''"

datatype (plugins only: code) CheckpointReobservationClass =
    NONE
  | TARGET_ONLY
  | DEPENDENCY_SCOPE
  | FULL

primrec CheckpointReobservationClass_value :: "CheckpointReobservationClass \<Rightarrow> string" where
  "CheckpointReobservationClass_value CheckpointReobservationClass.NONE = ''no_reobservation_required''"
| "CheckpointReobservationClass_value CheckpointReobservationClass.TARGET_ONLY = ''target_reobservation_required''"
| "CheckpointReobservationClass_value CheckpointReobservationClass.DEPENDENCY_SCOPE = ''dependency_reobservation_required''"
| "CheckpointReobservationClass_value CheckpointReobservationClass.FULL = ''full_reobservation_required''"

datatype (plugins only: code) CheckpointResumabilityClass =
    RESUME_SAME_ATTEMPT
  | RESUME_NEW_ATTEMPT_FROM_CHECKPOINT
  | RESUME_FORBIDDEN

primrec CheckpointResumabilityClass_value :: "CheckpointResumabilityClass \<Rightarrow> string" where
  "CheckpointResumabilityClass_value CheckpointResumabilityClass.RESUME_SAME_ATTEMPT = ''resume_same_attempt''"
| "CheckpointResumabilityClass_value CheckpointResumabilityClass.RESUME_NEW_ATTEMPT_FROM_CHECKPOINT = ''resume_new_attempt_from_checkpoint''"
| "CheckpointResumabilityClass_value CheckpointResumabilityClass.RESUME_FORBIDDEN = ''resume_forbidden''"

datatype (plugins only: code) ResultClass =
    SUCCESS
  | FAILED
  | BLOCKED
  | DEGRADED
  | ADVISORY

primrec ResultClass_value :: "ResultClass \<Rightarrow> string" where
  "ResultClass_value ResultClass.SUCCESS = ''success''"
| "ResultClass_value ResultClass.FAILED = ''failed''"
| "ResultClass_value ResultClass.BLOCKED = ''blocked''"
| "ResultClass_value ResultClass.DEGRADED = ''degraded''"
| "ResultClass_value ResultClass.ADVISORY = ''advisory''"

datatype (plugins only: code) CompletionClassification =
    SATISFIED
  | PARTIAL
  | UNSATISFIED

primrec CompletionClassification_value :: "CompletionClassification \<Rightarrow> string" where
  "CompletionClassification_value CompletionClassification.SATISFIED = ''completion_satisfied''"
| "CompletionClassification_value CompletionClassification.PARTIAL = ''completion_partial''"
| "CompletionClassification_value CompletionClassification.UNSATISFIED = ''completion_unsatisfied''"

datatype (plugins only: code) EvidenceSufficiencyClassification =
    SUFFICIENT
  | ATTESTED
  | INSUFFICIENT

primrec EvidenceSufficiencyClassification_value :: "EvidenceSufficiencyClassification \<Rightarrow> string" where
  "EvidenceSufficiencyClassification_value EvidenceSufficiencyClassification.SUFFICIENT = ''evidence_sufficient''"
| "EvidenceSufficiencyClassification_value EvidenceSufficiencyClassification.ATTESTED = ''evidence_attested''"
| "EvidenceSufficiencyClassification_value EvidenceSufficiencyClassification.INSUFFICIENT = ''evidence_insufficient''"

datatype (plugins only: code) ResidualUncertaintyClassification =
    NONE
  | BOUNDED
  | UNRESOLVED

primrec ResidualUncertaintyClassification_value :: "ResidualUncertaintyClassification \<Rightarrow> string" where
  "ResidualUncertaintyClassification_value ResidualUncertaintyClassification.NONE = ''no_residual_uncertainty''"
| "ResidualUncertaintyClassification_value ResidualUncertaintyClassification.BOUNDED = ''bounded_residual_uncertainty''"
| "ResidualUncertaintyClassification_value ResidualUncertaintyClassification.UNRESOLVED = ''unresolved_residual_uncertainty''"

datatype (plugins only: code) DegradationClassification =
    NONE
  | DECLARED
  | OPERATOR_APPROVED

primrec DegradationClassification_value :: "DegradationClassification \<Rightarrow> string" where
  "DegradationClassification_value DegradationClassification.NONE = ''no_degradation''"
| "DegradationClassification_value DegradationClassification.DECLARED = ''declared_degradation''"
| "DegradationClassification_value DegradationClassification.OPERATOR_APPROVED = ''operator_approved_degradation''"

datatype (plugins only: code) ClosureBasisClassification =
    NORMAL_EXECUTION
  | RECONCILIATION_CLOSED
  | POLICY_TERMINAL_STOP
  | OPERATOR_TERMINAL_STOP
  | CANCELLED_BY_AUTHORITY

primrec ClosureBasisClassification_value :: "ClosureBasisClassification \<Rightarrow> string" where
  "ClosureBasisClassification_value ClosureBasisClassification.NORMAL_EXECUTION = ''normal_execution''"
| "ClosureBasisClassification_value ClosureBasisClassification.RECONCILIATION_CLOSED = ''reconciliation_closed''"
| "ClosureBasisClassification_value ClosureBasisClassification.POLICY_TERMINAL_STOP = ''policy_terminal_stop''"
| "ClosureBasisClassification_value ClosureBasisClassification.OPERATOR_TERMINAL_STOP = ''operator_terminal_stop''"
| "ClosureBasisClassification_value ClosureBasisClassification.CANCELLED_BY_AUTHORITY = ''cancelled_by_authority''"

datatype (plugins only: code) TerminalityBasisClassification =
    COMPLETED_TERMINAL
  | POLICY_TERMINAL
  | OPERATOR_TERMINAL
  | CANCELLED_TERMINAL

primrec TerminalityBasisClassification_value :: "TerminalityBasisClassification \<Rightarrow> string" where
  "TerminalityBasisClassification_value TerminalityBasisClassification.COMPLETED_TERMINAL = ''completed_terminal''"
| "TerminalityBasisClassification_value TerminalityBasisClassification.POLICY_TERMINAL = ''policy_terminal''"
| "TerminalityBasisClassification_value TerminalityBasisClassification.OPERATOR_TERMINAL = ''operator_terminal''"
| "TerminalityBasisClassification_value TerminalityBasisClassification.CANCELLED_TERMINAL = ''cancelled_terminal''"

datatype (plugins only: code) AuthoritySourceClass =
    RECEIPT_EVIDENCE
  | ADAPTER_OBSERVATION
  | RECONCILIATION_RECORD
  | LEASE_RECORD
  | VALIDATED_ARTIFACT
  | OPERATOR_ATTESTATION

primrec AuthoritySourceClass_value :: "AuthoritySourceClass \<Rightarrow> string" where
  "AuthoritySourceClass_value AuthoritySourceClass.RECEIPT_EVIDENCE = ''receipt_evidence''"
| "AuthoritySourceClass_value AuthoritySourceClass.ADAPTER_OBSERVATION = ''adapter_observation''"
| "AuthoritySourceClass_value AuthoritySourceClass.RECONCILIATION_RECORD = ''reconciliation_record''"
| "AuthoritySourceClass_value AuthoritySourceClass.LEASE_RECORD = ''lease_record''"
| "AuthoritySourceClass_value AuthoritySourceClass.VALIDATED_ARTIFACT = ''validated_artifact''"
| "AuthoritySourceClass_value AuthoritySourceClass.OPERATOR_ATTESTATION = ''operator_attestation''"

datatype (plugins only: code) FailureClassification =
    ExecutionFailure ExecutionFailureClass
  | ProtocolFailure ProtocolFailureClass
  | TruthFailure TruthFailureClass
  | ResourceFailure ResourceFailureClass
  | ControlPlaneFailure ControlPlaneFailureClass

text \<open>The stored value of a status determines the status.\<close>

lemma RunState_value_inject [enum_simps]: "RunState_value a = RunState_value b \<longleftrightarrow> a = b"
  by (cases a; cases b) simp_all

lemma AttemptState_value_inject [enum_simps]: "AttemptState_value a = AttemptState_value b \<longleftrightarrow> a = b"
  by (cases a; cases b) simp_all

lemma ReservationStatus_value_inject [enum_simps]:
  "ReservationStatus_value a = ReservationStatus_value b \<longleftrightarrow> a = b"
  by (cases a; cases b) simp_all

lemma LeaseStatus_value_inject [enum_simps]: "LeaseStatus_value a = LeaseStatus_value b \<longleftrightarrow> a = b"
  by (cases a; cases b) simp_all

end
