(* ===== verification/Control_Plane_Lifecycle.thy ===== *)
theory Control_Plane_Lifecycle
  imports Control_Plane_Enums
begin

text \<open>
  Run and attempt lifecycle (\<open>orket/core/domain/control_plane_lifecycle.py\<close>): the two
  transition tables, the terminal sets, the validators that guard every state change and the
  documented requirements of the critical run transitions.

  Both tables are instances of the interface \<open>transition_table\<close>. The lemmas at the end show
  what the tables promise: terminal states are final, every live run can be cancelled, execution
  starts only through admission, and a run that left execution without closure returns to it
  only through \<open>recovering\<close>.
\<close>

section \<open>Tables and validators\<close>

definition TERMINAL_RUN_STATES :: "RunState set" where
  "TERMINAL_RUN_STATES = {RunState.COMPLETED, RunState.FAILED_TERMINAL, RunState.CANCELLED}"

definition TERMINAL_ATTEMPT_STATES :: "AttemptState set" where
  "TERMINAL_ATTEMPT_STATES =
     {AttemptState.FAILED, AttemptState.INTERRUPTED, AttemptState.COMPLETED, AttemptState.ABANDONED}"

primrec run_transitions :: "RunState \<Rightarrow> RunState set" where
  "run_transitions RunState.CREATED = {RunState.ADMISSION_PENDING, RunState.CANCELLED}"
| "run_transitions RunState.ADMISSION_PENDING = {RunState.ADMITTED, RunState.FAILED_TERMINAL, RunState.CANCELLED}"
| "run_transitions RunState.ADMITTED = {RunState.EXECUTING, RunState.CANCELLED}"
| "run_transitions RunState.EXECUTING = {RunState.WAITING_ON_OBSERVATION,
     RunState.WAITING_ON_RESOURCE,
     RunState.RECONCILING,
     RunState.RECOVERY_PENDING,
     RunState.OPERATOR_BLOCKED,
     RunState.QUARANTINED,
     RunState.COMPLETED,
     RunState.FAILED_TERMINAL,
     RunState.CANCELLED}"
| "run_transitions RunState.WAITING_ON_OBSERVATION = {RunState.EXECUTING, RunState.RECOVERY_PENDING, RunState.CANCELLED}"
| "run_transitions RunState.WAITING_ON_RESOURCE = {RunState.EXECUTING, RunState.RECOVERY_PENDING, RunState.CANCELLED}"
| "run_transitions RunState.RECOVERY_PENDING = {RunState.RECONCILING,
     RunState.RECOVERING,
     RunState.OPERATOR_BLOCKED,
     RunState.QUARANTINED,
     RunState.CANCELLED}"
| "run_transitions RunState.RECONCILING = {RunState.RECOVERING,
     RunState.OPERATOR_BLOCKED,
     RunState.COMPLETED,
     RunState.FAILED_TERMINAL,
     RunState.CANCELLED}"
| "run_transitions RunState.RECOVERING = {RunState.EXECUTING,
     RunState.COMPLETED,
     RunState.RECOVERY_PENDING,
     RunState.QUARANTINED,
     RunState.CANCELLED}"
| "run_transitions RunState.OPERATOR_BLOCKED = {RunState.RECOVERING, RunState.FAILED_TERMINAL, RunState.CANCELLED}"
| "run_transitions RunState.QUARANTINED = {RunState.RECOVERING, RunState.FAILED_TERMINAL, RunState.CANCELLED}"
| "run_transitions RunState.COMPLETED = {}"
| "run_transitions RunState.FAILED_TERMINAL = {}"
| "run_transitions RunState.CANCELLED = {}"

primrec attempt_transitions :: "AttemptState \<Rightarrow> AttemptState set" where
  "attempt_transitions AttemptState.CREATED = {AttemptState.EXECUTING, AttemptState.ABANDONED}"
| "attempt_transitions AttemptState.EXECUTING = {AttemptState.WAITING,
     AttemptState.FAILED,
     AttemptState.INTERRUPTED,
     AttemptState.COMPLETED,
     AttemptState.ABANDONED}"
| "attempt_transitions AttemptState.WAITING = {AttemptState.EXECUTING, AttemptState.FAILED, AttemptState.INTERRUPTED, AttemptState.ABANDONED}"
| "attempt_transitions AttemptState.FAILED = {}"
| "attempt_transitions AttemptState.INTERRUPTED = {}"
| "attempt_transitions AttemptState.COMPLETED = {}"
| "attempt_transitions AttemptState.ABANDONED = {}"

record RunTransitionRequirement =
  req_current_state :: RunState
  req_next_state :: RunState
  guard_summary :: string
  required_evidence :: "string list"
  allowed_actor :: string
  forbidden_shortcuts :: "string list"
  truth_constraints :: "string list"

definition run_transition_requirements :: "((RunState \<times> RunState) \<times> RunTransitionRequirement) list" where
  "run_transition_requirements =
    [((RunState.ADMITTED, RunState.EXECUTING),
      \<lparr>req_current_state = RunState.ADMITTED, req_next_state = RunState.EXECUTING,
       guard_summary = ''admission accepted; required reservations or prerequisites exist'',
       required_evidence = [''admission_decision_receipt'', ''reservation_references_if_applicable''],
       allowed_actor = ''supervisor'',
       forbidden_shortcuts = [''start_without_admission_receipt''],
       truth_constraints = [''run_remains_attributable_to_admission_and_initial_execution_mode'']\<rparr>),
     ((RunState.EXECUTING, RunState.RECOVERY_PENDING),
      \<lparr>req_current_state = RunState.EXECUTING, req_next_state = RunState.RECOVERY_PENDING,
       guard_summary = ''attempt ended without truthful closure'',
       required_evidence = [''failed_or_interrupted_attempt_record'', ''side_effect_boundary_classification''],
       allowed_actor = ''supervisor'',
       forbidden_shortcuts = [''immediate_blind_retry''],
       truth_constraints = [''run_must_not_return_to_executing_without_recovery_decision'']\<rparr>),
     ((RunState.RECOVERY_PENDING, RunState.RECONCILING),
      \<lparr>req_current_state = RunState.RECOVERY_PENDING, req_next_state = RunState.RECONCILING,
       guard_summary = ''policy or uncertainty requires observation before recovery'',
       required_evidence = [''reconciliation_trigger_basis'', ''required_scope''],
       allowed_actor = ''supervisor'',
       forbidden_shortcuts = [''treat_unresolved_uncertainty_as_pre_effect_convenience''],
       truth_constraints = [''continuation_waits_for_reconciliation_output'']\<rparr>),
     ((RunState.RECONCILING, RunState.RECOVERING),
      \<lparr>req_current_state = RunState.RECONCILING, req_next_state = RunState.RECOVERING,
       guard_summary = ''reconciliation published a continuation class requiring control-plane recovery work'',
       required_evidence = [''reconciliation_record'', ''authorized_recovery_decision''],
       allowed_actor = ''supervisor'',
       forbidden_shortcuts = [''treat_reconciliation_as_execution_restart''],
       truth_constraints = [''recovering_remains_control_plane_work_only'']\<rparr>),
     ((RunState.RECOVERING, RunState.EXECUTING),
      \<lparr>req_current_state = RunState.RECOVERING, req_next_state = RunState.EXECUTING,
       guard_summary = ''authorized recovery work completed and workload execution may continue'',
       required_evidence = [''recovery_action_receipt'', ''attempt_bootstrap_or_resume_basis''],
       allowed_actor = ''supervisor'',
       forbidden_shortcuts = [''continue_without_recovery_completion_receipt''],
       truth_constraints = [''resumed_or_replacement_execution_reenters_executing'']\<rparr>),
     ((RunState.EXECUTING, RunState.OPERATOR_BLOCKED),
      \<lparr>req_current_state = RunState.EXECUTING, req_next_state = RunState.OPERATOR_BLOCKED,
       guard_summary = ''bounded human decision required and quarantine not yet warranted'',
       required_evidence = [''operator_requirement_basis'', ''unresolved_decision_surface''],
       allowed_actor = ''supervisor'',
       forbidden_shortcuts = [''hidden_human_assumption'', ''hidden_pause''],
       truth_constraints = [''run_remains_explicitly_blocked_pending_operator_input'']\<rparr>),
     ((RunState.EXECUTING, RunState.QUARANTINED),
      \<lparr>req_current_state = RunState.EXECUTING, req_next_state = RunState.QUARANTINED,
       guard_summary = ''contradiction, unsafe ownership, or policy breach requires isolation'',
       required_evidence = [''violation_basis'', ''quarantine_reason''],
       allowed_actor = ''supervisor'',
       forbidden_shortcuts = [''continue_in_degraded_mode_by_convenience''],
       truth_constraints = [''automatic_continuation_disabled_until_explicit_release'']\<rparr>),
     ((RunState.OPERATOR_BLOCKED, RunState.RECOVERING),
      \<lparr>req_current_state = RunState.OPERATOR_BLOCKED, req_next_state = RunState.RECOVERING,
       guard_summary = ''explicit operator input permits a control-plane recovery action'',
       required_evidence = [''operator_action_receipt'', ''recovery_decision''],
       allowed_actor = ''supervisor'',
       forbidden_shortcuts = [''treat_operator_input_as_world_state_evidence''],
       truth_constraints = [''operator_input_may_change_continuation_but_not_truth_classification'']\<rparr>),
     ((RunState.QUARANTINED, RunState.FAILED_TERMINAL),
      \<lparr>req_current_state = RunState.QUARANTINED, req_next_state = RunState.FAILED_TERMINAL,
       guard_summary = ''safe continuation remains unavailable'',
       required_evidence = [''terminal_decision_basis'', ''required_policy_or_operator_confirmation''],
       allowed_actor = ''supervisor'',
       forbidden_shortcuts = [''auto_release_quarantine_into_terminal_closure_without_basis''],
       truth_constraints = [''final_closure_explains_why_continuation_stopped'']\<rparr>),
     ((RunState.OPERATOR_BLOCKED, RunState.FAILED_TERMINAL),
      \<lparr>req_current_state = RunState.OPERATOR_BLOCKED, req_next_state = RunState.FAILED_TERMINAL,
       guard_summary = ''operator or policy chooses terminal stop instead of continuation'',
       required_evidence = [''operator_action_or_policy_basis'', ''closure_basis''],
       allowed_actor = ''supervisor'',
       forbidden_shortcuts = [''mark_terminal_as_successful_completion''],
       truth_constraints = [''terminality_may_change_but_truth_classification_may_not_be_rewritten_by_command'']\<rparr>)]"

definition allowed_run_transitions :: "RunState \<Rightarrow> RunState set" where
  "allowed_run_transitions current_state = run_transitions current_state"

definition is_terminal_run_state :: "RunState \<Rightarrow> bool" where
  "is_terminal_run_state s = (s \<in> TERMINAL_RUN_STATES)"

definition allowed_attempt_transitions :: "AttemptState \<Rightarrow> AttemptState set" where
  "allowed_attempt_transitions current_state = attempt_transitions current_state"

definition is_terminal_attempt_state :: "AttemptState \<Rightarrow> bool" where
  "is_terminal_attempt_state s = (s \<in> TERMINAL_ATTEMPT_STATES)"

definition validate_run_state_transition :: "RunState \<Rightarrow> RunState \<Rightarrow> bool result" where
  "validate_run_state_transition current_state next_state =
     (if next_state \<notin> run_transitions current_state
      then Inl (ControlPlaneLifecycleError (''Illegal control-plane run transition: '' @
             RunState_value current_state @ '' -> '' @ RunState_value next_state @ ''.''))
      else Inr True)"

definition validate_attempt_state_transition :: "AttemptState \<Rightarrow> AttemptState \<Rightarrow> bool result" where
  "validate_attempt_state_transition current_state next_state =
     (if next_state \<notin> attempt_transitions current_state
      then Inl (ControlPlaneLifecycleError (''Illegal control-plane attempt transition: '' @
             AttemptState_value current_state @ '' -> '' @ AttemptState_value next_state @ ''.''))
      else Inr True)"

definition get_run_transition_requirement ::
  "RunState \<Rightarrow> RunState \<Rightarrow> RunTransitionRequirement option" where
  "get_run_transition_requirement current_state next_state =
     map_of run_transition_requirements (current_state, next_state)"

text \<open>A run driven through a sequence of validated state changes, stopping at the first error.\<close>

fun drive_run :: "RunState \<Rightarrow> RunState list \<Rightarrow> RunState result" where
  "drive_run s [] = Inr s"
| "drive_run s (t # ts) =
     bind_result (validate_run_state_transition s t) (\<lambda>_. drive_run t ts)"

fun drive_attempt :: "AttemptState \<Rightarrow> AttemptState list \<Rightarrow> AttemptState result" where
  "drive_attempt s [] = Inr s"
| "drive_attempt s (t # ts) =
     bind_result (validate_attempt_state_transition s t) (\<lambda>_. drive_attempt t ts)"

section \<open>The tables are transition tables\<close>

lemma is_terminal_run_state_iff [enum_simps]: "is_terminal_run_state s \<longleftrightarrow> run_transitions s = {}"
  by (cases s) (simp_all add: is_terminal_run_state_def TERMINAL_RUN_STATES_def)

lemma is_terminal_attempt_state_iff [enum_simps]:
  "is_terminal_attempt_state s \<longleftrightarrow> attempt_transitions s = {}"
  by (cases s) (simp_all add: is_terminal_attempt_state_def TERMINAL_ATTEMPT_STATES_def)

interpretation run_table: transition_table run_transitions is_terminal_run_state
  by unfold_locales (rule is_terminal_run_state_iff)

interpretation attempt_table: transition_table attempt_transitions is_terminal_attempt_state
  by unfold_locales (rule is_terminal_attempt_state_iff)

lemma validate_run_state_transition_iff [simp]:
  "validate_run_state_transition s t = Inr b \<longleftrightarrow> b \<and> t \<in> run_transitions s"
  by (auto simp: validate_run_state_transition_def)

lemma validate_attempt_state_transition_iff [simp]:
  "validate_attempt_state_transition s t = Inr b \<longleftrightarrow> b \<and> t \<in> attempt_transitions s"
  by (auto simp: validate_attempt_state_transition_def)

lemma drive_run_Inr_iff:
  "drive_run s ts = Inr t \<longleftrightarrow> legal_path run_transitions (s # ts) \<and> t = last (s # ts)"
  by (induction s ts rule: drive_run.induct) (auto simp: bind_result_Inr_iff)

lemma drive_attempt_Inr_iff:
  "drive_attempt s ts = Inr t \<longleftrightarrow> legal_path attempt_transitions (s # ts) \<and> t = last (s # ts)"
  by (induction s ts rule: drive_attempt.induct) (auto simp: bind_result_Inr_iff)

declare drive_run.simps [simp del] drive_attempt.simps [simp del]

lemma drive_run_Inl_iff:
  "(\<exists>e. drive_run s (u # us) = Inl e) \<longleftrightarrow> \<not> legal_path run_transitions (s # u # us)"
  using drive_run_Inr_iff [of s "u # us"] by (cases "drive_run s (u # us)") auto

section \<open>What the lifecycle guarantees\<close>

lemma execution_requires_admission_parts:
  assumes "drive_run RunState.CREATED ts = Inr t"
  shows "RunState.EXECUTING \<in> set ts \<Longrightarrow>
           \<exists>xs ys. ts = xs @ RunState.ADMITTED # RunState.EXECUTING # ys \<and> RunState.EXECUTING \<notin> set xs"
    and "t = RunState.COMPLETED \<Longrightarrow> RunState.EXECUTING \<in> set ts"
proof -
  have path: "legal_path run_transitions (RunState.CREATED # ts)"
    and t: "t = last (RunState.CREATED # ts)"
    using assms by (simp_all add: drive_run_Inr_iff)
  let ?A = "{RunState.CREATED, RunState.ADMISSION_PENDING, RunState.ADMITTED,
             RunState.FAILED_TERMINAL, RunState.CANCELLED}"
  have out: "run_transitions a \<subseteq> ?A \<union> {RunState.EXECUTING}" if "a \<in> ?A" for a
    using that by (cases a) simp_all
  show "RunState.EXECUTING \<in> set ts" if "t = RunState.COMPLETED"
    using path by (rule legal_path_must_pass [where A = ?A]) (use that t out in auto)
  show "\<exists>xs ys. ts = xs @ RunState.ADMITTED # RunState.EXECUTING # ys \<and> RunState.EXECUTING \<notin> set xs"
    if "RunState.EXECUTING \<in> set ts"
  proof -
    obtain pre post where split: "ts = pre @ RunState.EXECUTING # post" "RunState.EXECUTING \<notin> set pre"
      using split_list_first [OF \<open>RunState.EXECUTING \<in> set ts\<close>] by blast
    let ?l = "last (RunState.CREATED # pre)"
    have pre: "legal_path run_transitions (RunState.CREATED # pre)"
      and step: "RunState.EXECUTING \<in> run_transitions ?l"
      using path legal_path_append [of run_transitions "RunState.CREATED # pre" "RunState.EXECUTING # post"]
      by (simp_all add: split(1))
    have "?l \<in> ?A"
    proof (rule ccontr)
      assume "?l \<notin> ?A"
      with pre have "RunState.EXECUTING \<in> set pre"
        by (rule_tac legal_path_must_pass [where A = ?A]) (use out in auto)
      with split(2) show False by simp
    qed
    then have l: "?l = RunState.ADMITTED" using step by (cases ?l) simp_all
    then have "pre \<noteq> []" by auto
    then have "pre = butlast pre @ [RunState.ADMITTED]" using l by (metis append_butlast_last_id last_ConsR)
    then have "ts = butlast pre @ RunState.ADMITTED # RunState.EXECUTING # post" using split(1) by simp
    moreover have "RunState.EXECUTING \<notin> set (butlast pre)" using split(2) by (meson in_set_butlastD)
    ultimately show ?thesis by blast
  qed
qed

text \<open>
  no run reaches \<open>executing\<close> unadmitted: in every sequence of validated state changes from
  \<open>created\<close> the state just before the first \<open>executing\<close> is \<open>admitted\<close>, and a run that
  completes has executed.
\<close>

theorem execution_requires_admission:
  assumes "drive_run RunState.CREATED ts = Inr t"
  shows "(RunState.EXECUTING \<in> set ts \<longrightarrow>
           (\<exists>xs ys. ts = xs @ RunState.ADMITTED # RunState.EXECUTING # ys \<and> RunState.EXECUTING \<notin> set xs)) \<and>
     (t = RunState.COMPLETED \<longrightarrow> RunState.EXECUTING \<in> set ts)"
  using execution_requires_admission_parts [OF assms] by blast

theorem execution_requires_admission_witness:
  "drive_run RunState.CREATED [RunState.ADMISSION_PENDING, RunState.ADMITTED, RunState.EXECUTING,
     RunState.COMPLETED] = Inr RunState.COMPLETED \<and>
   (\<exists>xs ys. [RunState.ADMISSION_PENDING, RunState.ADMITTED, RunState.EXECUTING, RunState.COMPLETED] =
      xs @ RunState.ADMITTED # RunState.EXECUTING # ys \<and> RunState.EXECUTING \<notin> set xs)"
proof -
  have run: "drive_run RunState.CREATED [RunState.ADMISSION_PENDING, RunState.ADMITTED,
      RunState.EXECUTING, RunState.COMPLETED] = Inr RunState.COMPLETED"
    by (simp add: drive_run_Inr_iff)
  show ?thesis
    using run execution_requires_admission [OF run] by simp
qed

text \<open>
  a run that stopped without closure does not return to \<open>executing\<close> by itself: from
  \<open>recovery_pending\<close>, \<open>reconciling\<close>, \<open>operator_blocked\<close> or \<open>quarantined\<close> every
  validated way back to \<open>executing\<close> passes through \<open>recovering\<close>.
\<close>

theorem execution_resumes_only_through_recovering:
  assumes "s \<in> {RunState.RECOVERY_PENDING, RunState.RECONCILING, RunState.OPERATOR_BLOCKED,
                RunState.QUARANTINED}"
    and "drive_run s ts = Inr t" and "RunState.EXECUTING \<in> set ts"
  shows "RunState.RECOVERING \<in> set (takeWhile (\<lambda>u. u \<noteq> RunState.EXECUTING) ts)"
proof -
  let ?A = "{RunState.RECOVERY_PENDING, RunState.RECONCILING, RunState.OPERATOR_BLOCKED,
             RunState.QUARANTINED, RunState.COMPLETED, RunState.FAILED_TERMINAL, RunState.CANCELLED}"
  obtain pre post where split: "ts = pre @ RunState.EXECUTING # post" "RunState.EXECUTING \<notin> set pre"
    using split_list_first [OF assms(3)] by blast
  have "legal_path run_transitions ((s # pre @ [RunState.EXECUTING]) @ post)"
    using assms(2) split(1) by (simp add: drive_run_Inr_iff)
  then have "legal_path run_transitions (s # pre @ [RunState.EXECUTING])"
    by (simp only: legal_path_append)
  then have "RunState.RECOVERING \<in> set (pre @ [RunState.EXECUTING])"
    by (rule legal_path_must_pass [where A = ?A]) (use assms(1) in \<open>auto simp: subset_iff\<close>)
  moreover have "takeWhile (\<lambda>u. u \<noteq> RunState.EXECUTING) ts = pre"
    unfolding split(1) using split(2) by (induction pre) auto
  ultimately show ?thesis by simp
qed

theorem execution_resumes_only_through_recovering_witness:
  "drive_run RunState.QUARANTINED [RunState.RECOVERING, RunState.EXECUTING] = Inr RunState.EXECUTING \<and>
   RunState.RECOVERING \<in>
     set (takeWhile (\<lambda>u. u \<noteq> RunState.EXECUTING) [RunState.RECOVERING, RunState.EXECUTING])"
proof -
  have run: "drive_run RunState.QUARANTINED [RunState.RECOVERING, RunState.EXECUTING] = Inr RunState.EXECUTING"
    by (simp add: drive_run_Inr_iff)
  show ?thesis using run execution_resumes_only_through_recovering [OF _ run] by simp
qed

text \<open>
  The run machine has no dead state and no trap: every state is reached from \<open>created\<close> by
  validated changes, the terminal states are exactly those the validator lets nothing leave, and
  every other state can be cancelled at once.
\<close>

theorem run_states_live:
  "(\<exists>ts. drive_run RunState.CREATED ts = Inr s) \<and>
   (if is_terminal_run_state s then \<forall>u us. \<exists>e. drive_run s (u # us) = Inl e
    else drive_run s [RunState.CANCELLED] = Inr RunState.CANCELLED)"
proof
  have exec: "drive_run RunState.CREATED
      ([RunState.ADMISSION_PENDING, RunState.ADMITTED, RunState.EXECUTING] @ us) = Inr (last us)"
    if "legal_path run_transitions (RunState.EXECUTING # us)" "us \<noteq> []" for us
    using that by (simp add: drive_run_Inr_iff)
  have "drive_run RunState.CREATED [RunState.ADMISSION_PENDING, RunState.ADMITTED] = Inr RunState.ADMITTED"
    "drive_run RunState.CREATED [RunState.ADMISSION_PENDING] = Inr RunState.ADMISSION_PENDING"
    "drive_run RunState.CREATED [] = Inr RunState.CREATED"
    "drive_run RunState.CREATED [RunState.ADMISSION_PENDING, RunState.ADMITTED, RunState.EXECUTING]
       = Inr RunState.EXECUTING"
    "drive_run RunState.CREATED [RunState.ADMISSION_PENDING, RunState.ADMITTED, RunState.EXECUTING,
       RunState.QUARANTINED, RunState.RECOVERING] = Inr RunState.RECOVERING"
    by (simp_all add: drive_run_Inr_iff)
  with exec [of "[s]"] show "\<exists>ts. drive_run RunState.CREATED ts = Inr s"
    by (cases s) (simp_all, blast+)
  show "if is_terminal_run_state s then \<forall>u us. \<exists>e. drive_run s (u # us) = Inl e
    else drive_run s [RunState.CANCELLED] = Inr RunState.CANCELLED"
    by (cases s) (simp_all add: is_terminal_run_state_def TERMINAL_RUN_STATES_def
        drive_run_Inl_iff drive_run_Inr_iff)
qed

lemma transition_requirements_sound_parts:
  assumes "get_run_transition_requirement s t = Some q"
  shows "validate_run_state_transition s t = Inr True"
    and "req_current_state q = s" and "req_next_state q = t" and "required_evidence q \<noteq> []"
proof -
  have "list_all (\<lambda>(k, q). snd k \<in> run_transitions (fst k) \<and> req_current_state q = fst k \<and>
          req_next_state q = snd k \<and> required_evidence q \<noteq> []) run_transition_requirements"
    by (simp add: run_transition_requirements_def)
  moreover have "((s, t), q) \<in> set run_transition_requirements"
    using assms map_of_SomeD by (fastforce simp: get_run_transition_requirement_def)
  ultimately show "validate_run_state_transition s t = Inr True"
    "req_current_state q = s" "req_next_state q = t" "required_evidence q \<noteq> []"
    by (auto simp: list_all_iff)
qed

text \<open>
  Every documented transition requirement belongs to a transition the validator accepts, names
  that transition as its own, and demands evidence.
\<close>

theorem transition_requirements_sound:
  assumes "get_run_transition_requirement s t = Some q"
  shows "validate_run_state_transition s t = Inr True \<and>
     req_current_state q = s \<and>
     req_next_state q = t \<and>
     required_evidence q \<noteq> []"
  using transition_requirements_sound_parts [OF assms] by blast

theorem transition_requirements_sound_witness:
  "\<exists>q. get_run_transition_requirement RunState.RECOVERING RunState.EXECUTING = Some q \<and>
       validate_run_state_transition RunState.RECOVERING RunState.EXECUTING = Inr True \<and>
       required_evidence q \<noteq> []"
proof -
  obtain q where q: "get_run_transition_requirement RunState.RECOVERING RunState.EXECUTING = Some q"
    by (simp add: get_run_transition_requirement_def run_transition_requirements_def)
  show ?thesis using q transition_requirements_sound [OF q] by blast
qed

lemma attempt_ends_once_parts:
  assumes "drive_attempt s (ts @ [t]) = Inr u"
  shows "\<not> is_terminal_attempt_state s" and "\<forall>v \<in> set ts. \<not> is_terminal_attempt_state v"
    and "t = AttemptState.COMPLETED \<Longrightarrow> last (s # ts) = AttemptState.EXECUTING"
proof -
  have path: "legal_path attempt_transitions ((s # ts) @ [t])" and u: "u = t"
    using assms by (simp_all add: drive_attempt_Inr_iff)
  have "\<not> is_terminal_attempt_state v" if v: "v \<in> set (s # ts)" for v
  proof
    assume "is_terminal_attempt_state v"
    moreover obtain xs ys where "s # ts = xs @ v # ys" using split_list [OF v] by blast
    then have "legal_path attempt_transitions (xs @ v # (ys @ [t]))" using path by simp
    ultimately have "ys @ [t] = []" using attempt_table.terminal_only_last by blast
    then show False by simp
  qed
  then show "\<not> is_terminal_attempt_state s" "\<forall>v \<in> set ts. \<not> is_terminal_attempt_state v" by simp_all
  have "t \<in> attempt_transitions (last (s # ts))" using path by (simp only: legal_path_snoc) simp
  then show "t = AttemptState.COMPLETED \<Longrightarrow> last (s # ts) = AttemptState.EXECUTING"
    by (cases "last (s # ts)") simp_all
qed

text \<open>
  an attempt is over for good: a validated sequence of attempt states visits a terminal state
  only at its end, and an attempt that completes was executing just before.
\<close>

theorem attempt_ends_once:
  assumes "drive_attempt s (ts @ [t]) = Inr u"
  shows "\<not> is_terminal_attempt_state s \<and>
     (\<forall>v \<in> set ts. \<not> is_terminal_attempt_state v) \<and>
     (t = AttemptState.COMPLETED \<longrightarrow> last (s # ts) = AttemptState.EXECUTING)"
  using attempt_ends_once_parts [OF assms] by blast

theorem attempt_ends_once_witness:
  "drive_attempt AttemptState.CREATED ([AttemptState.EXECUTING] @ [AttemptState.COMPLETED])
     = Inr AttemptState.COMPLETED \<and> \<not> is_terminal_attempt_state AttemptState.EXECUTING"
proof -
  have run: "drive_attempt AttemptState.CREATED ([AttemptState.EXECUTING] @ [AttemptState.COMPLETED])
      = Inr AttemptState.COMPLETED"
    by (simp add: drive_attempt_Inr_iff)
  show ?thesis using run attempt_ends_once [OF run] by simp
qed

end
