(* ===== verification/Canonical_JSON.thy ===== *)
theory Canonical_JSON
  imports Orket_Prelude
begin

text \<open>
  The JSON values the control plane stores and hashes, and Python's \<open>json.dumps\<close> with
  \<open>sort_keys=True\<close> and \<open>separators=(",", ":")\<close>, the form every digest of the program is taken over
  (\<open>_hash_canonical_payload\<close> in \<open>orket/core/domain/control_plane_effect_journal.py\<close> with
  \<open>ensure_ascii=True\<close>, \<open>_canonical_json\<close> in \<open>orket/core/domain/outward_ledger.py\<close> with
  \<open>ensure_ascii=False\<close>). Numbers are integers: no modelled payload holds a float.

  The main fact is that the rendering is injective up to the order of object keys: two payloads
  with the same canonical text are the same payload.
\<close>

section \<open>Values and rendering\<close>

datatype json =
    JNull
  | JBool bool
  | JInt int
  | JStr string
  | JArr "json list"
  | JObj "(string \<times> json) list"

fun join :: "string \<Rightarrow> string list \<Rightarrow> string" where
  "join sep [] = []"
| "join sep [x] = x"
| "join sep (x # y # zs) = x @ sep @ join sep (y # zs)"

definition hex_digit :: "nat \<Rightarrow> char" where
  "hex_digit n = (if n < 10 then char_of (48 + n) else char_of (87 + n))"

definition escape_char :: "bool \<Rightarrow> char \<Rightarrow> string" where
  "escape_char ensure_ascii c =
     (let n = (of_char c :: nat) in
      if n = 34 then [CHR 0x5C, c]
      else if n = 92 then [CHR 0x5C, c]
      else if n = 8 then [CHR 0x5C, CHR ''b'']
      else if n = 9 then [CHR 0x5C, CHR ''t'']
      else if n = 10 then [CHR 0x5C, CHR ''n'']
      else if n = 12 then [CHR 0x5C, CHR ''f'']
      else if n = 13 then [CHR 0x5C, CHR ''r'']
      else if n < 32 \<or> (ensure_ascii \<and> 126 < n)
      then [CHR 0x5C, CHR ''u'', CHR ''0'', CHR ''0'', hex_digit (n div 16), hex_digit (n mod 16)]
      else [c])"

definition json_string :: "bool \<Rightarrow> string \<Rightarrow> string" where
  "json_string ensure_ascii s =
     CHR 0x22 # concat (map (escape_char ensure_ascii) s) @ [CHR 0x22]"

fun json_dumps :: "bool \<Rightarrow> json \<Rightarrow> string" where
  "json_dumps a JNull = ''null''"
| "json_dumps a (JBool b) = (if b then ''true'' else ''false'')"
| "json_dumps a (JInt i) = str_of_int i"
| "json_dumps a (JStr s) = json_string a s"
| "json_dumps a (JArr xs) = ''['' @ join '','' (map (json_dumps a) xs) @ '']''"
| "json_dumps a (JObj kvs) =
     ''{'' @ join '','' (map (\<lambda>(k, t). json_string a k @ '':'' @ t)
        (sort_key fst (map (\<lambda>(k, v). (k, json_dumps a v)) kvs))) @ ''}''"

text \<open>
  \<open>str()\<close>, \<open>bool()\<close> and \<open>dict.get\<close> of a decoded value. The keys of a Python dict are distinct, so
  the first pair with a key is the only one.
\<close>

fun py_repr_json :: "json \<Rightarrow> string" where
  "py_repr_json JNull = ''None''"
| "py_repr_json (JBool b) = (if b then ''True'' else ''False'')"
| "py_repr_json (JInt i) = str_of_int i"
| "py_repr_json (JStr s) = py_repr s"
| "py_repr_json (JArr xs) = ''['' @ comma_join (map py_repr_json xs) @ '']''"
| "py_repr_json (JObj kvs) =
     ''{'' @ comma_join (map (\<lambda>(k, v). py_repr k @ '': '' @ py_repr_json v) kvs) @ ''}''"

definition py_str_json :: "json \<Rightarrow> string" where
  "py_str_json v = (case v of JStr s \<Rightarrow> s | _ \<Rightarrow> py_repr_json v)"

fun json_truthy :: "json \<Rightarrow> bool" where
  "json_truthy JNull = False"
| "json_truthy (JBool b) = b"
| "json_truthy (JInt i) = (i \<noteq> 0)"
| "json_truthy (JStr s) = (s \<noteq> [])"
| "json_truthy (JArr xs) = (xs \<noteq> [])"
| "json_truthy (JObj kvs) = (kvs \<noteq> [])"

definition json_get :: "(string \<times> json) list \<Rightarrow> string \<Rightarrow> json" where
  "json_get kvs k = (case map_of kvs k of Some v \<Rightarrow> v | None \<Rightarrow> JNull)"

definition json_opt_str :: "string option \<Rightarrow> json" where
  "json_opt_str x = (case x of None \<Rightarrow> JNull | Some s \<Rightarrow> JStr s)"

definition json_opt_int :: "int option \<Rightarrow> json" where
  "json_opt_int x = (case x of None \<Rightarrow> JNull | Some i \<Rightarrow> JInt i)"

text \<open>The value with the keys of every object in order, which is what the text determines.\<close>

fun canon :: "json \<Rightarrow> json" where
  "canon (JArr xs) = JArr (map canon xs)"
| "canon (JObj kvs) = JObj (sort_key fst (map (\<lambda>(k, v). (k, canon v)) kvs))"
| "canon v = v"

text \<open>The rendering with the keys in the order they are given.\<close>

fun raw_dumps :: "bool \<Rightarrow> json \<Rightarrow> string" where
  "raw_dumps a JNull = ''null''"
| "raw_dumps a (JBool b) = (if b then ''true'' else ''false'')"
| "raw_dumps a (JInt i) = str_of_int i"
| "raw_dumps a (JStr s) = json_string a s"
| "raw_dumps a (JArr xs) = ''['' @ join '','' (map (raw_dumps a) xs) @ '']''"
| "raw_dumps a (JObj kvs) =
     ''{'' @ join '','' (map (\<lambda>(k, v). json_string a k @ '':'' @ raw_dumps a v) kvs) @ ''}''"

section \<open>Sorting keys before or after rendering\<close>

lemma insort_key_map_snd:
  "insort_key fst (k, f v) (map (\<lambda>(k, v). (k, f v)) kvs) =
   map (\<lambda>(k, v). (k, f v)) (insort_key fst (k, v) kvs)"
  by (induction kvs) auto

lemma sort_key_map_snd:
  "sort_key fst (map (\<lambda>(k, v). (k, f v)) kvs) = map (\<lambda>(k, v). (k, f v)) (sort_key fst kvs)"
  by (induction kvs) (auto simp: insort_key_map_snd sort_key_def)

lemma json_dumps_canon: "json_dumps a x = raw_dumps a (canon x)"
proof (induction a x rule: json_dumps.induct)
  case (6 a kvs)
  have "map (\<lambda>(k, v). (k, json_dumps a v)) kvs = map (\<lambda>(k, v). (k, raw_dumps a (canon v))) kvs"
    using 6 by auto
  then have 1: "sort_key fst (map (\<lambda>(k, v). (k, json_dumps a v)) kvs) =
      map (\<lambda>(k, v). (k, raw_dumps a (canon v))) (sort_key fst kvs)"
    by (simp only: sort_key_map_snd)
  have 2: "sort_key fst (map (\<lambda>(k, v). (k, canon v)) kvs) =
      map (\<lambda>(k, v). (k, canon v)) (sort_key fst kvs)"
    by (rule sort_key_map_snd)
  show ?case by (simp add: 1 2 comp_def split_beta del: sort_key_map_snd)
qed (auto cong: map_cong)

section \<open>Reading back strings\<close>

definition unhex_digit :: "char \<Rightarrow> nat" where
  "unhex_digit c = (let n = of_char c in if n < 58 then n - 48 else n - 87)"

text \<open>One escaped character, read back from the front of a text.\<close>

definition unescape :: "string \<Rightarrow> (char \<times> string) option" where
  "unescape s = (case s of
      [] \<Rightarrow> None
    | c # r \<Rightarrow>
        if c \<noteq> CHR 0x5C then Some (c, r)
        else (case r of
            [] \<Rightarrow> None
          | d # r' \<Rightarrow>
              if d = CHR ''b'' then Some (char_of (8 :: nat), r')
              else if d = CHR ''t'' then Some (char_of (9 :: nat), r')
              else if d = CHR ''n'' then Some (char_of (10 :: nat), r')
              else if d = CHR ''f'' then Some (char_of (12 :: nat), r')
              else if d = CHR ''r'' then Some (char_of (13 :: nat), r')
              else if d = CHR ''u'' then
                Some (char_of (16 * unhex_digit (r' ! 2) + unhex_digit (r' ! 3)), drop 4 r')
              else Some (d, r')))"

lemma unhex_hex_digit: "n < 16 \<Longrightarrow> unhex_digit (hex_digit n) = n"
  by (simp add: unhex_digit_def hex_digit_def Let_def)

lemma unescape_escape_char: "unescape (escape_char a c @ r) = Some (c, r)"
proof -
  define n :: nat where "n = of_char c"
  have c: "c = char_of n" by (simp add: n_def)
  have lt: "n < 256" by (simp add: n_def)
  show ?thesis
  proof (cases "n \<in> {34, 92, 8, 9, 10, 12, 13}")
    case True
    then show ?thesis
      by (elim insertE) (simp_all add: c escape_char_def unescape_def Let_def, simp_all add: char_of_def)
  next
    case False
    show ?thesis
    proof (cases "n < 32 \<or> (a \<and> 126 < n)")
      case True
      have digits: "n div 16 < 16" "n mod 16 < 16" using lt by simp_all
      have whole: "16 * (n div 16) + n mod 16 = n" by simp
      have "escape_char a c =
          [CHR 0x5C, CHR ''u'', CHR ''0'', CHR ''0'', hex_digit (n div 16), hex_digit (n mod 16)]"
        using True False by (simp add: escape_char_def n_def [symmetric] Let_def)
      then have "unescape (escape_char a c @ r) =
          Some (char_of (16 * unhex_digit (hex_digit (n div 16)) + unhex_digit (hex_digit (n mod 16))), r)"
        by (simp add: unescape_def)
      then show ?thesis
        by (simp only: unhex_hex_digit [OF digits(1)] unhex_hex_digit [OF digits(2)] whole c)
    next
      case plain: False
      have "escape_char a c = [c]"
        using False plain by (simp add: escape_char_def n_def [symmetric] Let_def)
      moreover have "c \<noteq> CHR 0x5C" using False by (auto simp: n_def)
      ultimately show ?thesis by (simp add: unescape_def)
    qed
  qed
qed

lemma escape_char_hd: "escape_char a c \<noteq> [] \<and> hd (escape_char a c) \<noteq> CHR 0x22"
  by (auto simp: escape_char_def Let_def)

lemma escape_char_not_quote: "escape_char a c @ w \<noteq> CHR 0x22 # v"
  using escape_char_hd [of a c] by (cases "escape_char a c") auto

lemma escaped_text_inj:
  "concat (map (escape_char a) s) @ CHR 0x22 # r = concat (map (escape_char a) t) @ CHR 0x22 # u
   \<Longrightarrow> s = t \<and> r = u"
proof (induction s arbitrary: t)
  case Nil
  then show ?case
    by (cases t) (auto simp: escape_char_not_quote escape_char_not_quote [symmetric])
next
  case (Cons c s)
  show ?case
  proof (cases t)
    case Nil
    with Cons.prems show ?thesis by (simp add: escape_char_not_quote)
  next
    case t: (Cons d t')
    have "unescape (escape_char a c @ concat (map (escape_char a) s) @ CHR 0x22 # r) =
        unescape (escape_char a d @ concat (map (escape_char a) t') @ CHR 0x22 # u)"
      using Cons.prems t by simp
    then have "c = d \<and> concat (map (escape_char a) s) @ CHR 0x22 # r =
        concat (map (escape_char a) t') @ CHR 0x22 # u"
      by (simp add: unescape_escape_char)
    then show ?thesis using Cons.IH t by auto
  qed
qed

lemma json_string_inj: "json_string a s @ r = json_string a t @ u \<Longrightarrow> s = t \<and> r = u"
  using escaped_text_inj [of a s r t u] by (simp add: json_string_def)

section \<open>Reading back numbers\<close>

definition is_digit :: "char \<Rightarrow> bool" where
  "is_digit c \<longleftrightarrow> 48 \<le> (of_char c :: nat) \<and> (of_char c :: nat) \<le> 57"

definition nat_of_digits :: "string \<Rightarrow> nat" where
  "nat_of_digits s = foldl (\<lambda>n c. 10 * n + (of_char c - 48)) 0 s"

lemma str_of_nat_digits: "str_of_nat n \<noteq> [] \<and> list_all is_digit (str_of_nat n)"
proof (induction n rule: str_of_nat.induct)
  case (1 n)
  then show ?case
    by (cases "n < 10") (auto simp: str_of_nat.simps [of n] is_digit_def)
qed

lemma nat_of_str_of_nat: "nat_of_digits (str_of_nat n) = n"
proof (induction n rule: str_of_nat.induct)
  case (1 n)
  then show ?case
    by (cases "n < 10") (auto simp: str_of_nat.simps [of n] nat_of_digits_def)
qed

lemma str_of_nat_inj_append:
  assumes "str_of_nat m @ r = str_of_nat n @ u"
    and "r = [] \<or> \<not> is_digit (hd r)" and "u = [] \<or> \<not> is_digit (hd u)"
  shows "m = n \<and> r = u"
proof -
  have take: "takeWhile is_digit (str_of_nat k @ w) = str_of_nat k" if "w = [] \<or> \<not> is_digit (hd w)" for k w
  proof -
    have "list_all is_digit (str_of_nat k)" using str_of_nat_digits by blast
    then have "takeWhile is_digit (str_of_nat k @ w) = str_of_nat k @ takeWhile is_digit w"
      by (simp add: list_all_iff takeWhile_append2)
    then show ?thesis using that by (cases w) auto
  qed
  have "str_of_nat m = str_of_nat n"
    using take [OF assms(2), of m] take [OF assms(3), of n] assms(1) by simp
  then have "m = n" by (metis nat_of_str_of_nat)
  with assms(1) show ?thesis by simp
qed

definition is_num_char :: "char \<Rightarrow> bool" where
  "is_num_char c \<longleftrightarrow> is_digit c \<or> c = CHR ''-''"

lemma str_of_int_hd: "str_of_int i \<noteq> [] \<and> is_num_char (hd (str_of_int i))"
proof -
  have "is_digit (hd (str_of_nat n))" for n
    using str_of_nat_digits [of n] by (cases "str_of_nat n") auto
  then show ?thesis
    using str_of_nat_digits by (auto simp: str_of_int_def is_num_char_def)
qed

lemma str_of_int_inj_append:
  assumes "str_of_int i @ r = str_of_int j @ u"
    and "r = [] \<or> \<not> is_digit (hd r)" and "u = [] \<or> \<not> is_digit (hd u)"
  shows "i = j \<and> r = u"
proof -
  have nodash: "str_of_nat n @ w \<noteq> CHR ''-'' # w'" for n w w'
    using str_of_nat_digits [of n] by (cases "str_of_nat n") (auto simp: is_digit_def)
  consider "i < 0" "j < 0" | "i < 0" "\<not> j < 0" | "\<not> i < 0" "j < 0" | "\<not> i < 0" "\<not> j < 0"
    by blast
  then show ?thesis
  proof cases
    case 1
    with assms(1) have "str_of_nat (nat (- i)) @ r = str_of_nat (nat (- j)) @ u"
      by (simp add: str_of_int_def)
    from str_of_nat_inj_append [OF this assms(2,3)] 1 show ?thesis by linarith
  next
    case 2
    with assms(1) nodash [of "nat j" u] show ?thesis by (simp add: str_of_int_def) metis
  next
    case 3
    with assms(1) nodash [of "nat i" r] show ?thesis by (simp add: str_of_int_def)
  next
    case 4
    with assms(1) have "str_of_nat (nat i) @ r = str_of_nat (nat j) @ u"
      by (simp add: str_of_int_def)
    from str_of_nat_inj_append [OF this assms(2,3)] 4 show ?thesis by linarith
  qed
qed

section \<open>The rendering is injective\<close>

text \<open>What may follow a value inside a rendered text.\<close>

definition delim :: "string \<Rightarrow> bool" where
  "delim r \<longleftrightarrow> r = [] \<or> hd r \<in> {CHR '','', CHR '']'', CHR ''}''}"

lemma delim_not_digit: "delim r \<Longrightarrow> r = [] \<or> \<not> is_digit (hd r)"
  by (auto simp: delim_def is_digit_def)

text \<open>The text of a joined list after its first element.\<close>

definition rest_text :: "('a \<Rightarrow> string) \<Rightarrow> 'a list \<Rightarrow> string \<Rightarrow> string" where
  "rest_text f xs z = (if xs = [] then z else CHR '','' # join '','' (map f xs) @ z)"

lemma join_Cons_text: "join '','' (map f (x # xs)) @ z = f x @ rest_text f xs z"
  by (cases xs) (simp_all add: rest_text_def)

lemma join_inj:
  assumes elem: "\<And>x y r u. x \<in> set xs \<Longrightarrow> f x @ r = f y @ u \<Longrightarrow> delim r \<Longrightarrow> delim u \<Longrightarrow> x = y \<and> r = u"
    and start: "\<And>x w v. f x @ w \<noteq> z # v"
    and z: "z = CHR '']'' \<or> z = CHR ''}''"
    and eq: "join '','' (map f xs) @ z # r = join '','' (map f ys) @ z # u"
  shows "xs = ys \<and> r = u"
  using elem eq
proof (induction xs arbitrary: ys)
  case Nil
  show ?case
  proof (cases ys)
    case (Cons y ys')
    with Nil(2) have "f y @ rest_text f ys' (z # u) = z # r"
      by (metis append_Nil join.simps(1) join_Cons_text list.simps(8))
    then show ?thesis using start by blast
  qed (use Nil in simp)
next
  case (Cons x xs)
  show ?case
  proof (cases ys)
    case Nil
    with Cons.prems(2) have "f x @ rest_text f xs (z # r) = z # u"
      by (metis append_Nil join.simps(1) join_Cons_text list.simps(8))
    then show ?thesis using start by blast
  next
    case ys: (Cons y ys')
    have eq': "f x @ rest_text f xs (z # r) = f y @ rest_text f ys' (z # u)"
      using Cons.prems(2) by (simp only: ys join_Cons_text)
    have d: "delim (rest_text f l (z # w))" for l w
      using z by (auto simp: rest_text_def delim_def)
    have xy: "x = y" and rest: "rest_text f xs (z # r) = rest_text f ys' (z # u)"
      using Cons.prems(1) [OF _ eq' d d] by auto
    have IH: "join '','' (map f xs) @ z # r = join '','' (map f l) @ z # u \<Longrightarrow> xs = l \<and> r = u" for l
    proof -
      assume "join '','' (map f xs) @ z # r = join '','' (map f l) @ z # u"
      moreover have "v = y \<and> r = u" if "v \<in> set xs" "f v @ r = f y @ u" "delim r" "delim u" for v y r u
        using Cons.prems(1) [of v] that by simp
      ultimately show "xs = l \<and> r = u" using Cons.IH [of l] by blast
    qed
    have "xs = ys' \<and> r = u"
      using rest z IH [of ys'] by (auto simp: rest_text_def split: if_splits)
    then show ?thesis using xy ys by simp
  qed
qed

lemma raw_dumps_hd:
  "raw_dumps a x \<noteq> [] \<and>
   (case x of JNull \<Rightarrow> hd (raw_dumps a x) = CHR ''n''
    | JBool b \<Rightarrow> hd (raw_dumps a x) = (if b then CHR ''t'' else CHR ''f'')
    | JInt i \<Rightarrow> is_num_char (hd (raw_dumps a x))
    | JStr s \<Rightarrow> hd (raw_dumps a x) = CHR 0x22
    | JArr xs \<Rightarrow> hd (raw_dumps a x) = CHR ''[''
    | JObj kvs \<Rightarrow> hd (raw_dumps a x) = CHR ''{'')"
  using str_of_int_hd by (cases x) (auto simp: json_string_def)

lemma raw_dumps_not_close:
  "raw_dumps a x @ w \<noteq> CHR '']'' # v"
  using raw_dumps_hd [of a x]
  by (cases "raw_dumps a x") (auto simp: is_num_char_def is_digit_def split: json.splits if_splits)

text \<open>The first character of a rendering tells the kind of the value.\<close>

fun json_kind :: "json \<Rightarrow> nat" where
  "json_kind JNull = 0"
| "json_kind (JBool b) = (if b then 1 else 2)"
| "json_kind (JInt i) = 3"
| "json_kind (JStr s) = 4"
| "json_kind (JArr xs) = 5"
| "json_kind (JObj kvs) = 6"

lemma raw_dumps_same_kind:
  assumes "raw_dumps a x @ r = raw_dumps a y @ u"
  shows "json_kind x = json_kind y"
proof -
  define c where "c = hd (raw_dumps a y)"
  have y: "hd (raw_dumps a y) = c" by (simp add: c_def)
  have x: "hd (raw_dumps a x) = c"
    using assms raw_dumps_hd [of a x] raw_dumps_hd [of a y] unfolding c_def by (metis hd_append2)
  show ?thesis
    using raw_dumps_hd [of a x] raw_dumps_hd [of a y] unfolding x y
    by (cases x; cases y) (auto simp: is_num_char_def is_digit_def split: if_splits)
qed

lemma json_kind_cases:
  "0 = json_kind y \<Longrightarrow> y = JNull"
  "1 = json_kind y \<Longrightarrow> y = JBool True"
  "2 = json_kind y \<Longrightarrow> y = JBool False"
  "3 = json_kind y \<Longrightarrow> \<exists>i. y = JInt i"
  "4 = json_kind y \<Longrightarrow> \<exists>s. y = JStr s"
  "5 = json_kind y \<Longrightarrow> \<exists>xs. y = JArr xs"
  "6 = json_kind y \<Longrightarrow> \<exists>kvs. y = JObj kvs"
  by (cases y; simp split: if_splits)+

lemma raw_dumps_inj:
  "raw_dumps a x @ r = raw_dumps a y @ u \<Longrightarrow> delim r \<Longrightarrow> delim u \<Longrightarrow> x = y \<and> r = u"
proof (induction a x arbitrary: y r u rule: raw_dumps.induct)
  case (1 a)
  then have "y = JNull" using raw_dumps_same_kind [OF 1(1)] json_kind_cases(1) by simp
  then show ?case using 1 by simp
next
  case (2 a b)
  from raw_dumps_same_kind [OF 2(1)] have "json_kind y = (if b then 1 else 2)" by simp
  then have "y = JBool b" by (cases y) (auto split: if_splits)
  then show ?case using 2 by simp
next
  case (3 a i)
  then obtain j where "y = JInt j" using raw_dumps_same_kind [OF 3(1)] json_kind_cases(4) by auto
  then show ?case
    using 3 str_of_int_inj_append [OF _ delim_not_digit delim_not_digit] by simp
next
  case (4 a s)
  then obtain t where "y = JStr t" using raw_dumps_same_kind [OF 4(1)] json_kind_cases(5) by auto
  then show ?case using 4(1) json_string_inj [of a s r t u] by simp
next
  case (5 a xs)
  from raw_dumps_same_kind [OF 5(2)] obtain ys where y: "y = JArr ys"
    using json_kind_cases(6) [of y] by auto
  have "xs = ys \<and> r = u"
  proof (rule join_inj [of xs "raw_dumps a" "CHR '']''"])
    show "join '','' (map (raw_dumps a) xs) @ CHR '']'' # r = join '','' (map (raw_dumps a) ys) @ CHR '']'' # u"
      using 5(2) y by simp
  qed (use 5(1) raw_dumps_not_close in auto)
  then show ?case using y by simp
next
  case (6 a kvs)
  from raw_dumps_same_kind [OF 6(2)] obtain ys where y: "y = JObj ys"
    using json_kind_cases(7) [of y] by auto
  let ?f = "\<lambda>(k, v). json_string a k @ '':'' @ raw_dumps a v"
  have "kvs = ys \<and> r = u"
  proof (rule join_inj [of kvs ?f "CHR ''}''"])
    fix p q r u
    assume p: "p \<in> set kvs" and eq: "?f p @ r = ?f q @ u" and d: "delim r" "delim u"
    obtain k v l w where kv: "p = (k, v)" "q = (l, w)" by (cases p; cases q) auto
    have "k = l" and eq': "raw_dumps a v @ r = raw_dumps a w @ u"
      using eq json_string_inj [of a k _ l] by (auto simp: kv)
    then show "p = q \<and> r = u" using 6(1) [of "(k, v)" k v, OF _ _ eq' d] p kv by simp
  next
    show "?f p @ w \<noteq> CHR ''}'' # v" for p w v
      by (cases p) (simp add: json_string_def)
    show "join '','' (map ?f kvs) @ CHR ''}'' # r = join '','' (map ?f ys) @ CHR ''}'' # u"
      using 6(2) y by simp
  qed simp
  then show ?case using y by simp
qed

lemma json_dumps_inj: "json_dumps a x = json_dumps a y \<Longrightarrow> canon x = canon y"
  using raw_dumps_inj [of a "canon x" "[]" "canon y" "[]"] by (simp add: json_dumps_canon delim_def)

text \<open>
  The canonical text of a JSON value without floats determines the value: two values have the same canonical JSON
  text, in either escaping mode, exactly when they are equal up to the order of object keys.
\<close>

lemma canonical_json_injective: "json_dumps a x = json_dumps a y \<longleftrightarrow> canon x = canon y"
  using json_dumps_inj by (auto simp: json_dumps_canon)

end
