(* ===== verification/Control_Plane_Models.thy ===== *)
theory Control_Plane_Models
  imports Control_Plane_Lifecycle Canonical_JSON
begin

text \<open>
  The record types of the control plane (\<open>orket/core/contracts/control_plane_models.py\<close> and
  \<open>control_plane_effect_journal_models.py\<close>). Every class is a record with the fields of the class,
  prefixed by an abbreviation of the class; \<open>X_init\<close> is the constructor: it checks the declared
  field constraints (\<open>NonEmptyStr\<close>, \<open>min_length\<close>, \<open>ge\<close>), then the \<open>mode="after"\<close> validators of
  the base class and of the class, and returns the record or the validation error.

  A record is well formed when its constructor accepts it; \<open>X_init r = Inr r\<close> is the invariant
  that every stored record keeps.
\<close>

definition CONTROL_PLANE_CONTRACT_VERSION_V1 :: string where
  "CONTROL_PLANE_CONTRACT_VERSION_V1 = ''control_plane.contract.v1''"

definition CONTROL_PLANE_SNAPSHOT_VERSION_V1 :: string where
  "CONTROL_PLANE_SNAPSHOT_VERSION_V1 = ''control_plane.snapshot.v1''"

definition validate_contract_version :: "string \<Rightarrow> string option" where
  "validate_contract_version v =
     raise_if (py_strip v \<noteq> CONTROL_PLANE_CONTRACT_VERSION_V1)
       (''unsupported control-plane contract_version='' @ py_repr (py_strip v) @
        ''; expected '' @ py_repr CONTROL_PLANE_CONTRACT_VERSION_V1)"

text \<open>From \<open>control_plane_final_truth.py\<close>: the terminality a closure basis stands for.\<close>

primrec terminality_basis_for_closure :: "ClosureBasisClassification \<Rightarrow> TerminalityBasisClassification" where
  "terminality_basis_for_closure ClosureBasisClassification.NORMAL_EXECUTION =
     TerminalityBasisClassification.COMPLETED_TERMINAL"
| "terminality_basis_for_closure ClosureBasisClassification.RECONCILIATION_CLOSED =
     TerminalityBasisClassification.COMPLETED_TERMINAL"
| "terminality_basis_for_closure ClosureBasisClassification.POLICY_TERMINAL_STOP =
     TerminalityBasisClassification.POLICY_TERMINAL"
| "terminality_basis_for_closure ClosureBasisClassification.OPERATOR_TERMINAL_STOP =
     TerminalityBasisClassification.OPERATOR_TERMINAL"
| "terminality_basis_for_closure ClosureBasisClassification.CANCELLED_BY_AUTHORITY =
     TerminalityBasisClassification.CANCELLED_TERMINAL"

record ResolvedPolicySnapshot =
  pol_schema_version :: string
  pol_snapshot_id :: string
  pol_snapshot_digest :: string
  pol_created_at :: string
  pol_source_refs :: "string list"
  pol_policy_payload :: "(string \<times> json) list"

definition pol_validate_schema_version :: "ResolvedPolicySnapshot \<Rightarrow> string option" where
  "pol_validate_schema_version r =
     raise_if (pol_schema_version r \<noteq> CONTROL_PLANE_SNAPSHOT_VERSION_V1)
       (''unsupported policy snapshot schema_version='' @ py_repr (pol_schema_version r) @
        ''; expected '' @ py_repr CONTROL_PLANE_SNAPSHOT_VERSION_V1)"

definition ResolvedPolicySnapshot_init :: "ResolvedPolicySnapshot \<Rightarrow> ResolvedPolicySnapshot result" where
  "ResolvedPolicySnapshot_init r = validate_model
     [(''snapshot_id'', ne (pol_snapshot_id r)),
      (''snapshot_digest'', ne (pol_snapshot_digest r)),
      (''created_at'', ne (pol_created_at r)),
      (''source_refs'', pol_source_refs r \<noteq> [] \<and> list_ne (pol_source_refs r))]
     [pol_validate_schema_version r] r"

record ResolvedConfigurationSnapshot =
  cfg_schema_version :: string
  cfg_snapshot_id :: string
  cfg_snapshot_digest :: string
  cfg_created_at :: string
  cfg_source_refs :: "string list"
  cfg_configuration_payload :: "(string \<times> json) list"

definition cfg_validate_schema_version :: "ResolvedConfigurationSnapshot \<Rightarrow> string option" where
  "cfg_validate_schema_version r =
     raise_if (cfg_schema_version r \<noteq> CONTROL_PLANE_SNAPSHOT_VERSION_V1)
       (''unsupported configuration snapshot schema_version='' @ py_repr (cfg_schema_version r) @
        ''; expected '' @ py_repr CONTROL_PLANE_SNAPSHOT_VERSION_V1)"

definition ResolvedConfigurationSnapshot_init :: "ResolvedConfigurationSnapshot \<Rightarrow> ResolvedConfigurationSnapshot result" where
  "ResolvedConfigurationSnapshot_init r = validate_model
     [(''snapshot_id'', ne (cfg_snapshot_id r)),
      (''snapshot_digest'', ne (cfg_snapshot_digest r)),
      (''created_at'', ne (cfg_created_at r)),
      (''source_refs'', cfg_source_refs r \<noteq> [] \<and> list_ne (cfg_source_refs r))]
     [cfg_validate_schema_version r] r"

record WorkloadRecord =
  wl_contract_version :: string
  wl_workload_id :: string
  wl_workload_version :: string
  wl_workload_digest :: string
  wl_declared_capabilities :: "CapabilityClass list"
  wl_declared_namespace_scopes :: "string list"
  wl_declared_resource_classes :: "string list"
  wl_declared_degraded_modes :: "string list"
  wl_input_contract_ref :: string
  wl_output_contract_ref :: string
  wl_recovery_policy_refs :: "string list"
  wl_reconciliation_requirements :: "string list"

definition WorkloadRecord_init :: "WorkloadRecord \<Rightarrow> WorkloadRecord result" where
  "WorkloadRecord_init r = validate_model
     [(''workload_id'', ne (wl_workload_id r)),
      (''workload_version'', ne (wl_workload_version r)),
      (''workload_digest'', ne (wl_workload_digest r)),
      (''declared_namespace_scopes'', list_ne (wl_declared_namespace_scopes r)),
      (''declared_resource_classes'', list_ne (wl_declared_resource_classes r)),
      (''declared_degraded_modes'', list_ne (wl_declared_degraded_modes r)),
      (''input_contract_ref'', ne (wl_input_contract_ref r)),
      (''output_contract_ref'', ne (wl_output_contract_ref r)),
      (''recovery_policy_refs'', list_ne (wl_recovery_policy_refs r)),
      (''reconciliation_requirements'', list_ne (wl_reconciliation_requirements r))]
     [validate_contract_version (wl_contract_version r)] r"

record RunRecord =
  run_contract_version :: string
  run_run_id :: string
  run_workload_id :: string
  run_workload_version :: string
  run_policy_snapshot_id :: string
  run_policy_digest :: string
  run_configuration_snapshot_id :: string
  run_configuration_digest :: string
  run_creation_timestamp :: string
  run_admission_decision_receipt_ref :: string
  run_namespace_scope :: "string option"
  run_lifecycle_state :: RunState
  run_current_attempt_id :: "string option"
  run_final_truth_record_id :: "string option"

definition RunRecord_init :: "RunRecord \<Rightarrow> RunRecord result" where
  "RunRecord_init r = validate_model
     [(''run_id'', ne (run_run_id r)),
      (''workload_id'', ne (run_workload_id r)),
      (''workload_version'', ne (run_workload_version r)),
      (''policy_snapshot_id'', ne (run_policy_snapshot_id r)),
      (''policy_digest'', ne (run_policy_digest r)),
      (''configuration_snapshot_id'', ne (run_configuration_snapshot_id r)),
      (''configuration_digest'', ne (run_configuration_digest r)),
      (''creation_timestamp'', ne (run_creation_timestamp r)),
      (''admission_decision_receipt_ref'', ne (run_admission_decision_receipt_ref r)),
      (''namespace_scope'', opt_ne (run_namespace_scope r)),
      (''current_attempt_id'', opt_ne (run_current_attempt_id r)),
      (''final_truth_record_id'', opt_ne (run_final_truth_record_id r))]
     [validate_contract_version (run_contract_version r)] r"

record AttemptRecord =
  att_contract_version :: string
  att_attempt_id :: string
  att_run_id :: string
  att_attempt_ordinal :: int
  att_attempt_state :: AttemptState
  att_starting_state_snapshot_ref :: string
  att_start_timestamp :: string
  att_end_timestamp :: "string option"
  att_side_effect_boundary_class :: "SideEffectBoundaryClass option"
  att_failure_plane :: "FailurePlane option"
  att_failure_classification :: "FailureClassification option"
  att_failure_class :: "string option"
  att_recovery_decision_id :: "string option"

definition validate_attempt_closure :: "AttemptRecord \<Rightarrow> string option" where
  "validate_attempt_closure r =
     (let terminal = is_terminal_attempt_state (att_attempt_state r);
          failed_or_interrupted = att_attempt_state r \<in> {AttemptState.FAILED, AttemptState.INTERRUPTED}
      in first_message
       [raise_if (terminal \<and> att_end_timestamp r = None)
          ''terminal attempt state requires end_timestamp'',
        raise_if (\<not> terminal \<and> att_end_timestamp r \<noteq> None)
          ''non-terminal attempt state cannot carry end_timestamp'',
        raise_if (att_side_effect_boundary_class r \<noteq> None \<and> \<not> failed_or_interrupted)
          ''side_effect_boundary_class is only valid for failed or interrupted attempts'',
        raise_if (att_recovery_decision_id r \<noteq> None \<and> \<not> failed_or_interrupted)
          ''recovery_decision_id is only valid for failed or interrupted attempts'',
        raise_if ((att_failure_plane r = None) \<noteq> (att_failure_classification r = None))
          ''failure_plane and failure_classification must be set together'',
        raise_if (att_failure_classification r \<noteq> None \<and> \<not> failed_or_interrupted)
          ''failure_classification is only valid for failed or interrupted attempts''])"

definition AttemptRecord_init :: "AttemptRecord \<Rightarrow> AttemptRecord result" where
  "AttemptRecord_init r = validate_model
     [(''attempt_id'', ne (att_attempt_id r)),
      (''run_id'', ne (att_run_id r)),
      (''attempt_ordinal'', 1 \<le> att_attempt_ordinal r),
      (''starting_state_snapshot_ref'', ne (att_starting_state_snapshot_ref r)),
      (''start_timestamp'', ne (att_start_timestamp r)),
      (''end_timestamp'', opt_ne (att_end_timestamp r)),
      (''failure_class'', opt_ne (att_failure_class r)),
      (''recovery_decision_id'', opt_ne (att_recovery_decision_id r))]
     [validate_contract_version (att_contract_version r), validate_attempt_closure r] r"

record StepRecord =
  step_contract_version :: string
  step_step_id :: string
  step_attempt_id :: string
  step_step_kind :: string
  step_namespace_scope :: "string option"
  step_input_ref :: string
  step_output_ref :: "string option"
  step_capability_used :: "CapabilityClass option"
  step_resources_touched :: "string list"
  step_observed_result_classification :: string
  step_receipt_refs :: "string list"
  step_closure_classification :: string

definition StepRecord_init :: "StepRecord \<Rightarrow> StepRecord result" where
  "StepRecord_init r = validate_model
     [(''step_id'', ne (step_step_id r)),
      (''attempt_id'', ne (step_attempt_id r)),
      (''step_kind'', ne (step_step_kind r)),
      (''namespace_scope'', opt_ne (step_namespace_scope r)),
      (''input_ref'', ne (step_input_ref r)),
      (''output_ref'', opt_ne (step_output_ref r)),
      (''resources_touched'', list_ne (step_resources_touched r)),
      (''observed_result_classification'', ne (step_observed_result_classification r)),
      (''receipt_refs'', list_ne (step_receipt_refs r)),
      (''closure_classification'', ne (step_closure_classification r))]
     [validate_contract_version (step_contract_version r)] r"

record EffectRecord =
  eff_contract_version :: string
  eff_effect_id :: string
  eff_step_id :: string
  eff_effect_class :: EffectClass
  eff_capability_class :: CapabilityClass
  eff_intended_target_ref :: string
  eff_idempotency_class :: IdempotencyClass
  eff_preconditions_ref :: string
  eff_authorization_basis_ref :: string
  eff_observed_result_ref :: "string option"
  eff_uncertainty_classification :: string

definition EffectRecord_init :: "EffectRecord \<Rightarrow> EffectRecord result" where
  "EffectRecord_init r = validate_model
     [(''effect_id'', ne (eff_effect_id r)),
      (''step_id'', ne (eff_step_id r)),
      (''intended_target_ref'', ne (eff_intended_target_ref r)),
      (''preconditions_ref'', ne (eff_preconditions_ref r)),
      (''authorization_basis_ref'', ne (eff_authorization_basis_ref r)),
      (''observed_result_ref'', opt_ne (eff_observed_result_ref r)),
      (''uncertainty_classification'', ne (eff_uncertainty_classification r))]
     [validate_contract_version (eff_contract_version r)] r"

record ResourceRecord =
  rsc_contract_version :: string
  rsc_resource_id :: string
  rsc_resource_kind :: string
  rsc_namespace_scope :: string
  rsc_ownership_class :: OwnershipClass
  rsc_current_observed_state :: string
  rsc_last_observed_timestamp :: string
  rsc_cleanup_authority_class :: CleanupAuthorityClass
  rsc_provenance_ref :: string
  rsc_reconciliation_status :: string
  rsc_orphan_classification :: OrphanClassification

definition ResourceRecord_init :: "ResourceRecord \<Rightarrow> ResourceRecord result" where
  "ResourceRecord_init r = validate_model
     [(''resource_id'', ne (rsc_resource_id r)),
      (''resource_kind'', ne (rsc_resource_kind r)),
      (''namespace_scope'', ne (rsc_namespace_scope r)),
      (''current_observed_state'', ne (rsc_current_observed_state r)),
      (''last_observed_timestamp'', ne (rsc_last_observed_timestamp r)),
      (''provenance_ref'', ne (rsc_provenance_ref r)),
      (''reconciliation_status'', ne (rsc_reconciliation_status r))]
     [validate_contract_version (rsc_contract_version r)] r"

record ReservationRecord =
  rsv_contract_version :: string
  rsv_reservation_id :: string
  rsv_holder_ref :: string
  rsv_reservation_kind :: ReservationKind
  rsv_target_scope_ref :: string
  rsv_creation_timestamp :: string
  rsv_expiry_or_invalidation_basis :: string
  rsv_status :: ReservationStatus
  rsv_promotion_rule :: "string option"
  rsv_promoted_lease_id :: "string option"
  rsv_supervisor_authority_ref :: string
  rsv_history_refs :: "string list"

definition validate_promotion_fields :: "ReservationRecord \<Rightarrow> string option" where
  "validate_promotion_fields r = first_message
     [raise_if (rsv_status r = ReservationStatus.PROMOTED_TO_LEASE \<and> rsv_promoted_lease_id r = None)
        ''promoted reservation requires promoted_lease_id'',
      raise_if (rsv_status r \<noteq> ReservationStatus.PROMOTED_TO_LEASE \<and> rsv_promoted_lease_id r \<noteq> None)
        ''promoted_lease_id is only valid for promoted reservations'']"

definition ReservationRecord_init :: "ReservationRecord \<Rightarrow> ReservationRecord result" where
  "ReservationRecord_init r = validate_model
     [(''reservation_id'', ne (rsv_reservation_id r)),
      (''holder_ref'', ne (rsv_holder_ref r)),
      (''target_scope_ref'', ne (rsv_target_scope_ref r)),
      (''creation_timestamp'', ne (rsv_creation_timestamp r)),
      (''expiry_or_invalidation_basis'', ne (rsv_expiry_or_invalidation_basis r)),
      (''promotion_rule'', opt_ne (rsv_promotion_rule r)),
      (''promoted_lease_id'', opt_ne (rsv_promoted_lease_id r)),
      (''supervisor_authority_ref'', ne (rsv_supervisor_authority_ref r)),
      (''history_refs'', list_ne (rsv_history_refs r))]
     [validate_contract_version (rsv_contract_version r), validate_promotion_fields r] r"

record LeaseRecord =
  ls_contract_version :: string
  ls_lease_id :: string
  ls_resource_id :: string
  ls_holder_ref :: string
  ls_lease_epoch :: int
  ls_granted_timestamp :: string
  ls_publication_timestamp :: string
  ls_expiry_basis :: string
  ls_status :: LeaseStatus
  ls_last_confirmed_observation :: "string option"
  ls_source_reservation_id :: "string option"
  ls_cleanup_eligibility_rule :: string
  ls_history_refs :: "string list"

definition LeaseRecord_init :: "LeaseRecord \<Rightarrow> LeaseRecord result" where
  "LeaseRecord_init r = validate_model
     [(''lease_id'', ne (ls_lease_id r)),
      (''resource_id'', ne (ls_resource_id r)),
      (''holder_ref'', ne (ls_holder_ref r)),
      (''lease_epoch'', 0 \<le> ls_lease_epoch r),
      (''granted_timestamp'', ne (ls_granted_timestamp r)),
      (''publication_timestamp'', ne (ls_publication_timestamp r)),
      (''expiry_basis'', ne (ls_expiry_basis r)),
      (''last_confirmed_observation'', opt_ne (ls_last_confirmed_observation r)),
      (''source_reservation_id'', opt_ne (ls_source_reservation_id r)),
      (''cleanup_eligibility_rule'', ne (ls_cleanup_eligibility_rule r)),
      (''history_refs'', list_ne (ls_history_refs r))]
     [validate_contract_version (ls_contract_version r)] r"

record CheckpointRecord =
  cp_contract_version :: string
  cp_checkpoint_id :: string
  cp_parent_ref :: string
  cp_creation_timestamp :: string
  cp_state_snapshot_ref :: string
  cp_resumability_class :: CheckpointResumabilityClass
  cp_invalidation_conditions :: "string list"
  cp_dependent_resource_ids :: "string list"
  cp_dependent_effect_refs :: "string list"
  cp_policy_digest :: string
  cp_integrity_verification_ref :: string

definition CheckpointRecord_init :: "CheckpointRecord \<Rightarrow> CheckpointRecord result" where
  "CheckpointRecord_init r = validate_model
     [(''checkpoint_id'', ne (cp_checkpoint_id r)),
      (''parent_ref'', ne (cp_parent_ref r)),
      (''creation_timestamp'', ne (cp_creation_timestamp r)),
      (''state_snapshot_ref'', ne (cp_state_snapshot_ref r)),
      (''invalidation_conditions'', list_ne (cp_invalidation_conditions r)),
      (''dependent_resource_ids'', list_ne (cp_dependent_resource_ids r)),
      (''dependent_effect_refs'', list_ne (cp_dependent_effect_refs r)),
      (''policy_digest'', ne (cp_policy_digest r)),
      (''integrity_verification_ref'', ne (cp_integrity_verification_ref r))]
     [validate_contract_version (cp_contract_version r)] r"

record RecoveryDecisionRecord =
  rd_contract_version :: string
  rd_decision_id :: string
  rd_run_id :: string
  rd_failed_attempt_id :: string
  rd_failure_classification_basis :: string
  rd_failure_plane :: "FailurePlane option"
  rd_failure_classification :: "FailureClassification option"
  rd_side_effect_boundary_class :: SideEffectBoundaryClass
  rd_recovery_policy_ref :: string
  rd_authorized_next_action :: RecoveryActionClass
  rd_resumed_attempt_id :: "string option"
  rd_new_attempt_id :: "string option"
  rd_target_checkpoint_id :: "string option"
  rd_required_precondition_refs :: "string list"
  rd_blocked_actions :: "string list"
  rd_operator_requirement :: "OperatorCommandClass option"
  rd_rationale_ref :: string

definition validate_execution_target :: "RecoveryDecisionRecord \<Rightarrow> string option" where
  "validate_execution_target r = first_message
     [raise_if (truthy_opt (rd_resumed_attempt_id r) \<and> truthy_opt (rd_new_attempt_id r))
        ''recovery decision cannot both resume an attempt and start a new attempt'',
      raise_if ((rd_failure_plane r = None) \<noteq> (rd_failure_classification r = None))
        ''failure_plane and failure_classification must be set together'']"

definition RecoveryDecisionRecord_init :: "RecoveryDecisionRecord \<Rightarrow> RecoveryDecisionRecord result" where
  "RecoveryDecisionRecord_init r = validate_model
     [(''decision_id'', ne (rd_decision_id r)),
      (''run_id'', ne (rd_run_id r)),
      (''failed_attempt_id'', ne (rd_failed_attempt_id r)),
      (''failure_classification_basis'', ne (rd_failure_classification_basis r)),
      (''recovery_policy_ref'', ne (rd_recovery_policy_ref r)),
      (''resumed_attempt_id'', opt_ne (rd_resumed_attempt_id r)),
      (''new_attempt_id'', opt_ne (rd_new_attempt_id r)),
      (''target_checkpoint_id'', opt_ne (rd_target_checkpoint_id r)),
      (''required_precondition_refs'', list_ne (rd_required_precondition_refs r)),
      (''blocked_actions'', list_ne (rd_blocked_actions r)),
      (''rationale_ref'', ne (rd_rationale_ref r))]
     [validate_contract_version (rd_contract_version r), validate_execution_target r] r"

record ReconciliationRecord =
  rc_contract_version :: string
  rc_reconciliation_id :: string
  rc_target_ref :: string
  rc_comparison_scope :: string
  rc_observed_refs :: "string list"
  rc_intended_refs :: "string list"
  rc_divergence_class :: DivergenceClass
  rc_residual_uncertainty_classification :: ResidualUncertaintyClassification
  rc_publication_timestamp :: string
  rc_safe_continuation_class :: SafeContinuationClass
  rc_operator_requirement :: "OperatorCommandClass option"

definition ReconciliationRecord_init :: "ReconciliationRecord \<Rightarrow> ReconciliationRecord result" where
  "ReconciliationRecord_init r = validate_model
     [(''reconciliation_id'', ne (rc_reconciliation_id r)),
      (''target_ref'', ne (rc_target_ref r)),
      (''comparison_scope'', ne (rc_comparison_scope r)),
      (''observed_refs'', list_ne (rc_observed_refs r)),
      (''intended_refs'', list_ne (rc_intended_refs r)),
      (''publication_timestamp'', ne (rc_publication_timestamp r))]
     [validate_contract_version (rc_contract_version r)] r"

record OperatorActionRecord =
  op_contract_version :: string
  op_action_id :: string
  op_actor_ref :: string
  op_input_class :: OperatorInputClass
  op_target_ref :: string
  op_timestamp :: string
  op_precondition_basis_ref :: string
  op_result :: string
  op_command_class :: "OperatorCommandClass option"
  op_risk_acceptance_scope :: "string option"
  op_attestation_scope :: "string option"
  op_attestation_payload :: "(string \<times> json) list"
  op_affected_transition_refs :: "string list"
  op_affected_resource_refs :: "string list"
  op_receipt_refs :: "string list"

definition validate_input_shape :: "OperatorActionRecord \<Rightarrow> string option" where
  "validate_input_shape r = first_message
     [raise_if (op_input_class r = OperatorInputClass.COMMAND \<and> op_command_class r = None)
        ''operator command input requires command_class'',
      raise_if (op_input_class r = OperatorInputClass.COMMAND \<and>
                (op_risk_acceptance_scope r \<noteq> None \<or> op_attestation_scope r \<noteq> None))
        ''operator command input cannot carry risk acceptance or attestation scope'',
      raise_if (op_input_class r = OperatorInputClass.RISK_ACCEPTANCE \<and> op_command_class r \<noteq> None)
        ''operator risk acceptance must not carry command_class'',
      raise_if (op_input_class r = OperatorInputClass.RISK_ACCEPTANCE \<and> op_risk_acceptance_scope r = None)
        ''operator risk acceptance requires risk_acceptance_scope'',
      raise_if (op_input_class r = OperatorInputClass.ATTESTATION \<and> op_command_class r \<noteq> None)
        ''operator attestation must not carry command_class'',
      raise_if (op_input_class r = OperatorInputClass.ATTESTATION \<and> op_attestation_scope r = None)
        ''operator attestation requires attestation_scope'']"

definition OperatorActionRecord_init :: "OperatorActionRecord \<Rightarrow> OperatorActionRecord result" where
  "OperatorActionRecord_init r = validate_model
     [(''action_id'', ne (op_action_id r)),
      (''actor_ref'', ne (op_actor_ref r)),
      (''target_ref'', ne (op_target_ref r)),
      (''timestamp'', ne (op_timestamp r)),
      (''precondition_basis_ref'', ne (op_precondition_basis_ref r)),
      (''result'', ne (op_result r)),
      (''risk_acceptance_scope'', opt_ne (op_risk_acceptance_scope r)),
      (''attestation_scope'', opt_ne (op_attestation_scope r)),
      (''affected_transition_refs'', list_ne (op_affected_transition_refs r)),
      (''affected_resource_refs'', list_ne (op_affected_resource_refs r)),
      (''receipt_refs'', list_ne (op_receipt_refs r))]
     [validate_contract_version (op_contract_version r), validate_input_shape r] r"

record FinalTruthRecord =
  ft_contract_version :: string
  ft_final_truth_record_id :: string
  ft_run_id :: string
  ft_result_class :: ResultClass
  ft_completion_classification :: CompletionClassification
  ft_evidence_sufficiency_classification :: EvidenceSufficiencyClassification
  ft_residual_uncertainty_classification :: ResidualUncertaintyClassification
  ft_degradation_classification :: DegradationClassification
  ft_closure_basis :: ClosureBasisClassification
  ft_terminality_basis :: TerminalityBasisClassification
  ft_authority_sources :: "AuthoritySourceClass list"
  ft_authoritative_result_ref :: "string option"

definition validate_truth_constraints :: "FinalTruthRecord \<Rightarrow> string option" where
  "validate_truth_constraints r =
     (let attested = (ft_evidence_sufficiency_classification r = EvidenceSufficiencyClassification.ATTESTED)
      in first_message
       [raise_if (ft_result_class r = ResultClass.SUCCESS \<and>
                  ft_evidence_sufficiency_classification r \<noteq> EvidenceSufficiencyClassification.SUFFICIENT)
          ''success result_class requires evidence_sufficient'',
        raise_if (ft_terminality_basis r \<noteq> terminality_basis_for_closure (ft_closure_basis r))
          ''terminality_basis must match closure_basis'',
        raise_if (ft_closure_basis r = ClosureBasisClassification.RECONCILIATION_CLOSED \<and>
                  AuthoritySourceClass.RECONCILIATION_RECORD \<notin> set (ft_authority_sources r))
          ''reconciliation_closed requires reconciliation_record authority source'',
        raise_if (attested \<and> AuthoritySourceClass.OPERATOR_ATTESTATION \<notin> set (ft_authority_sources r))
          ''evidence_attested requires operator_attestation authority source'',
        raise_if (attested \<and> ft_result_class r = ResultClass.SUCCESS)
          ''attested evidence cannot publish success result_class''])"

definition FinalTruthRecord_init :: "FinalTruthRecord \<Rightarrow> FinalTruthRecord result" where
  "FinalTruthRecord_init r = validate_model
     [(''final_truth_record_id'', ne (ft_final_truth_record_id r)),
      (''run_id'', ne (ft_run_id r)),
      (''authority_sources'', ft_authority_sources r \<noteq> []),
      (''authoritative_result_ref'', opt_ne (ft_authoritative_result_ref r))]
     [validate_contract_version (ft_contract_version r), validate_truth_constraints r] r"

record EffectJournalEntryRecord =
  je_contract_version :: string
  je_journal_entry_id :: string
  je_effect_id :: string
  je_run_id :: string
  je_attempt_id :: string
  je_step_id :: string
  je_authorization_basis_ref :: string
  je_publication_sequence :: int
  je_publication_timestamp :: string
  je_intended_target_ref :: string
  je_observed_result_ref :: "string option"
  je_uncertainty_classification :: ResidualUncertaintyClassification
  je_integrity_verification_ref :: string
  je_prior_journal_entry_id :: "string option"
  je_prior_entry_digest :: "string option"
  je_contradictory_entry_refs :: "string list"
  je_superseding_entry_refs :: "string list"
  je_entry_digest :: string

definition validate_journal_shape :: "EffectJournalEntryRecord \<Rightarrow> string option" where
  "validate_journal_shape r = first_message
     [raise_if (je_publication_sequence r = 1 \<and>
                (je_prior_journal_entry_id r \<noteq> None \<or> je_prior_entry_digest r \<noteq> None))
        ''first journal entry cannot declare prior linkage'',
      raise_if (1 < je_publication_sequence r \<and>
                (je_prior_journal_entry_id r = None \<or> je_prior_entry_digest r = None))
        ''non-initial journal entry requires prior linkage'',
      raise_if (je_uncertainty_classification r = ResidualUncertaintyClassification.NONE \<and>
                je_observed_result_ref r = None)
        ''journal entry without residual uncertainty requires observed_result_ref'',
      raise_if (je_journal_entry_id r \<in> set (je_contradictory_entry_refs r) \<or>
                je_journal_entry_id r \<in> set (je_superseding_entry_refs r))
        ''journal entry cannot reference itself'',
      raise_if (set (je_contradictory_entry_refs r) \<inter> set (je_superseding_entry_refs r) \<noteq> {})
        ''journal entry refs cannot be both contradictory and superseding'']"

definition EffectJournalEntryRecord_init :: "EffectJournalEntryRecord \<Rightarrow> EffectJournalEntryRecord result" where
  "EffectJournalEntryRecord_init r = validate_model
     [(''journal_entry_id'', ne (je_journal_entry_id r)),
      (''effect_id'', ne (je_effect_id r)),
      (''run_id'', ne (je_run_id r)),
      (''attempt_id'', ne (je_attempt_id r)),
      (''step_id'', ne (je_step_id r)),
      (''authorization_basis_ref'', ne (je_authorization_basis_ref r)),
      (''publication_sequence'', 1 \<le> je_publication_sequence r),
      (''publication_timestamp'', ne (je_publication_timestamp r)),
      (''intended_target_ref'', ne (je_intended_target_ref r)),
      (''observed_result_ref'', opt_ne (je_observed_result_ref r)),
      (''integrity_verification_ref'', ne (je_integrity_verification_ref r)),
      (''prior_journal_entry_id'', opt_ne (je_prior_journal_entry_id r)),
      (''prior_entry_digest'', opt_ne (je_prior_entry_digest r)),
      (''contradictory_entry_refs'', list_ne (je_contradictory_entry_refs r)),
      (''superseding_entry_refs'', list_ne (je_superseding_entry_refs r)),
      (''entry_digest'', ne (je_entry_digest r))]
     [validate_contract_version (je_contract_version r), validate_journal_shape r] r"

record CheckpointAcceptanceRecord =
  ca_contract_version :: string
  ca_acceptance_id :: string
  ca_checkpoint_id :: string
  ca_supervisor_authority_ref :: string
  ca_decision_timestamp :: string
  ca_outcome :: CheckpointAcceptanceOutcome
  ca_resumability_class :: CheckpointResumabilityClass
  ca_required_reobservation_class :: CheckpointReobservationClass
  ca_evaluated_policy_digest :: string
  ca_integrity_verification_ref :: string
  ca_dependent_effect_entry_refs :: "string list"
  ca_dependent_reservation_refs :: "string list"
  ca_dependent_lease_refs :: "string list"
  ca_rejection_reasons :: "string list"

definition validate_acceptance_shape :: "CheckpointAcceptanceRecord \<Rightarrow> string option" where
  "validate_acceptance_shape r = first_message
     [raise_if (ca_outcome r = CheckpointAcceptanceOutcome.ACCEPTED \<and> ca_rejection_reasons r \<noteq> [])
        ''accepted checkpoint cannot carry rejection_reasons'',
      raise_if (ca_outcome r = CheckpointAcceptanceOutcome.REJECTED \<and> ca_rejection_reasons r = [])
        ''rejected checkpoint requires rejection_reasons'',
      raise_if (ca_outcome r = CheckpointAcceptanceOutcome.REJECTED \<and>
                ca_resumability_class r \<noteq> CheckpointResumabilityClass.RESUME_FORBIDDEN)
        ''rejected checkpoint must publish resume_forbidden'']"

definition CheckpointAcceptanceRecord_init :: "CheckpointAcceptanceRecord \<Rightarrow> CheckpointAcceptanceRecord result" where
  "CheckpointAcceptanceRecord_init r = validate_model
     [(''acceptance_id'', ne (ca_acceptance_id r)),
      (''checkpoint_id'', ne (ca_checkpoint_id r)),
      (''supervisor_authority_ref'', ne (ca_supervisor_authority_ref r)),
      (''decision_timestamp'', ne (ca_decision_timestamp r)),
      (''evaluated_policy_digest'', ne (ca_evaluated_policy_digest r)),
      (''integrity_verification_ref'', ne (ca_integrity_verification_ref r)),
      (''dependent_effect_entry_refs'', list_ne (ca_dependent_effect_entry_refs r)),
      (''dependent_reservation_refs'', list_ne (ca_dependent_reservation_refs r)),
      (''dependent_lease_refs'', list_ne (ca_dependent_lease_refs r)),
      (''rejection_reasons'', list_ne (ca_rejection_reasons r))]
     [validate_contract_version (ca_contract_version r), validate_acceptance_shape r] r"

section \<open>The constructors accept or reject, and never change, a record\<close>

lemma default_contract_version [simp]:
  "validate_contract_version CONTROL_PLANE_CONTRACT_VERSION_V1 = None"
  by (simp add: validate_contract_version_def CONTROL_PLANE_CONTRACT_VERSION_V1_def py_strip_def
        py_isspace_def)

lemma ResolvedPolicySnapshot_init_Inr: "ResolvedPolicySnapshot_init r = Inr r' \<Longrightarrow> r' = r \<and> ResolvedPolicySnapshot_init r' = Inr r'"
  by (auto simp: ResolvedPolicySnapshot_init_def validate_model_Inr_iff)

lemma ResolvedConfigurationSnapshot_init_Inr: "ResolvedConfigurationSnapshot_init r = Inr r' \<Longrightarrow> r' = r \<and> ResolvedConfigurationSnapshot_init r' = Inr r'"
  by (auto simp: ResolvedConfigurationSnapshot_init_def validate_model_Inr_iff)

lemma WorkloadRecord_init_Inr: "WorkloadRecord_init r = Inr r' \<Longrightarrow> r' = r \<and> WorkloadRecord_init r' = Inr r'"
  by (auto simp: WorkloadRecord_init_def validate_model_Inr_iff)

lemma RunRecord_init_Inr: "RunRecord_init r = Inr r' \<Longrightarrow> r' = r \<and> RunRecord_init r' = Inr r'"
  by (auto simp: RunRecord_init_def validate_model_Inr_iff)

lemma AttemptRecord_init_Inr: "AttemptRecord_init r = Inr r' \<Longrightarrow> r' = r \<and> AttemptRecord_init r' = Inr r'"
  by (auto simp: AttemptRecord_init_def validate_model_Inr_iff)

lemma StepRecord_init_Inr: "StepRecord_init r = Inr r' \<Longrightarrow> r' = r \<and> StepRecord_init r' = Inr r'"
  by (auto simp: StepRecord_init_def validate_model_Inr_iff)

lemma EffectRecord_init_Inr: "EffectRecord_init r = Inr r' \<Longrightarrow> r' = r \<and> EffectRecord_init r' = Inr r'"
  by (auto simp: EffectRecord_init_def validate_model_Inr_iff)

lemma ResourceRecord_init_Inr: "ResourceRecord_init r = Inr r' \<Longrightarrow> r' = r \<and> ResourceRecord_init r' = Inr r'"
  by (auto simp: ResourceRecord_init_def validate_model_Inr_iff)

lemma ReservationRecord_init_Inr: "ReservationRecord_init r = Inr r' \<Longrightarrow> r' = r \<and> ReservationRecord_init r' = Inr r'"
  by (auto simp: ReservationRecord_init_def validate_model_Inr_iff)

lemma LeaseRecord_init_Inr: "LeaseRecord_init r = Inr r' \<Longrightarrow> r' = r \<and> LeaseRecord_init r' = Inr r'"
  by (auto simp: LeaseRecord_init_def validate_model_Inr_iff)

lemma CheckpointRecord_init_Inr: "CheckpointRecord_init r = Inr r' \<Longrightarrow> r' = r \<and> CheckpointRecord_init r' = Inr r'"
  by (auto simp: CheckpointRecord_init_def validate_model_Inr_iff)

lemma RecoveryDecisionRecord_init_Inr: "RecoveryDecisionRecord_init r = Inr r' \<Longrightarrow> r' = r \<and> RecoveryDecisionRecord_init r' = Inr r'"
  by (auto simp: RecoveryDecisionRecord_init_def validate_model_Inr_iff)

lemma ReconciliationRecord_init_Inr: "ReconciliationRecord_init r = Inr r' \<Longrightarrow> r' = r \<and> ReconciliationRecord_init r' = Inr r'"
  by (auto simp: ReconciliationRecord_init_def validate_model_Inr_iff)

lemma OperatorActionRecord_init_Inr: "OperatorActionRecord_init r = Inr r' \<Longrightarrow> r' = r \<and> OperatorActionRecord_init r' = Inr r'"
  by (auto simp: OperatorActionRecord_init_def validate_model_Inr_iff)

lemma FinalTruthRecord_init_Inr: "FinalTruthRecord_init r = Inr r' \<Longrightarrow> r' = r \<and> FinalTruthRecord_init r' = Inr r'"
  by (auto simp: FinalTruthRecord_init_def validate_model_Inr_iff)

lemma EffectJournalEntryRecord_init_Inr: "EffectJournalEntryRecord_init r = Inr r' \<Longrightarrow> r' = r \<and> EffectJournalEntryRecord_init r' = Inr r'"
  by (auto simp: EffectJournalEntryRecord_init_def validate_model_Inr_iff)

lemma CheckpointAcceptanceRecord_init_Inr: "CheckpointAcceptanceRecord_init r = Inr r' \<Longrightarrow> r' = r \<and> CheckpointAcceptanceRecord_init r' = Inr r'"
  by (auto simp: CheckpointAcceptanceRecord_init_def validate_model_Inr_iff)

end
