(* ===== verification/Control_Plane_Reservations.thy ===== *)
theory Control_Plane_Reservations
  imports Control_Plane_Models
begin

text \<open>
  Reservations and leases (\<open>orket/core/domain/control_plane_reservations.py\<close> and
  \<open>control_plane_leases.py\<close>): the two status machines, and the builders that turn a request and
  the latest published record into the next record of a reservation or of a lease.

  The lemmas describe exactly when a builder succeeds and what it returns: the identity fields
  are kept, the status change is allowed by the table, the history grows by the reference of the
  record it supersedes, and a lease never goes back in epoch or in publication time.
\<close>

section \<open>Status tables\<close>

definition TERMINAL_RESERVATION_STATUSES :: "ReservationStatus set" where
  "TERMINAL_RESERVATION_STATUSES =
     {ReservationStatus.PROMOTED_TO_LEASE, ReservationStatus.RELEASED, ReservationStatus.EXPIRED,
      ReservationStatus.CANCELLED, ReservationStatus.INVALIDATED}"

definition TERMINAL_LEASE_STATUSES :: "LeaseStatus set" where
  "TERMINAL_LEASE_STATUSES = {LeaseStatus.EXPIRED, LeaseStatus.RELEASED, LeaseStatus.REVOKED}"

primrec reservation_status_transitions :: "ReservationStatus \<Rightarrow> ReservationStatus set" where
  "reservation_status_transitions ReservationStatus.PENDING =
     {ReservationStatus.ACTIVE, ReservationStatus.CANCELLED, ReservationStatus.INVALIDATED,
      ReservationStatus.EXPIRED, ReservationStatus.UNCERTAIN}"
| "reservation_status_transitions ReservationStatus.ACTIVE =
     {ReservationStatus.PROMOTED_TO_LEASE, ReservationStatus.RELEASED, ReservationStatus.EXPIRED,
      ReservationStatus.CANCELLED, ReservationStatus.INVALIDATED, ReservationStatus.UNCERTAIN}"
| "reservation_status_transitions ReservationStatus.UNCERTAIN =
     {ReservationStatus.ACTIVE, ReservationStatus.RELEASED, ReservationStatus.EXPIRED,
      ReservationStatus.CANCELLED, ReservationStatus.INVALIDATED}"
| "reservation_status_transitions ReservationStatus.PROMOTED_TO_LEASE = {}"
| "reservation_status_transitions ReservationStatus.RELEASED = {}"
| "reservation_status_transitions ReservationStatus.EXPIRED = {}"
| "reservation_status_transitions ReservationStatus.CANCELLED = {}"
| "reservation_status_transitions ReservationStatus.INVALIDATED = {}"

primrec lease_status_transitions :: "LeaseStatus \<Rightarrow> LeaseStatus set" where
  "lease_status_transitions LeaseStatus.PENDING =
     {LeaseStatus.ACTIVE, LeaseStatus.RELEASED, LeaseStatus.REVOKED, LeaseStatus.EXPIRED,
      LeaseStatus.UNCERTAIN}"
| "lease_status_transitions LeaseStatus.ACTIVE =
     {LeaseStatus.RELEASED, LeaseStatus.REVOKED, LeaseStatus.EXPIRED, LeaseStatus.UNCERTAIN}"
| "lease_status_transitions LeaseStatus.UNCERTAIN =
     {LeaseStatus.ACTIVE, LeaseStatus.RELEASED, LeaseStatus.REVOKED, LeaseStatus.EXPIRED}"
| "lease_status_transitions LeaseStatus.RELEASED = {}"
| "lease_status_transitions LeaseStatus.REVOKED = {}"
| "lease_status_transitions LeaseStatus.EXPIRED = {}"

definition allowed_reservation_status_transitions :: "ReservationStatus \<Rightarrow> ReservationStatus set" where
  "allowed_reservation_status_transitions current_status = reservation_status_transitions current_status"

definition allowed_lease_status_transitions :: "LeaseStatus \<Rightarrow> LeaseStatus set" where
  "allowed_lease_status_transitions current_status = lease_status_transitions current_status"

definition validate_reservation_status_transition ::
  "ReservationStatus \<Rightarrow> ReservationStatus \<Rightarrow> bool result" where
  "validate_reservation_status_transition current_status next_status =
     (if next_status \<notin> reservation_status_transitions current_status
      then Inl (ControlPlaneReservationError (''Illegal reservation status transition: '' @
             ReservationStatus_value current_status @ '' -> '' @
             ReservationStatus_value next_status @ ''.''))
      else Inr True)"

definition validate_lease_status_transition :: "LeaseStatus \<Rightarrow> LeaseStatus \<Rightarrow> bool result" where
  "validate_lease_status_transition current_status next_status =
     (if next_status \<notin> lease_status_transitions current_status
      then Inl (ControlPlaneReservationError (''Illegal lease status transition: '' @
             LeaseStatus_value current_status @ '' -> '' @ LeaseStatus_value next_status @ ''.''))
      else Inr True)"

section \<open>Reservation records\<close>

definition reservation_publication_ref :: "ReservationRecord \<Rightarrow> string" where
  "reservation_publication_ref r =
     ''reservation:'' @ rsv_reservation_id r @ '':'' @ ReservationStatus_value (rsv_status r)"

text \<open>
  The part of \<open>build_reservation_record\<close> that runs when there is a previous record: the checks in
  their order, then the history with the reference of the previous record at its end.
\<close>

definition reservation_successor_history ::
  "ReservationRecord \<Rightarrow> ReservationStatus \<Rightarrow> string \<Rightarrow> ReservationKind \<Rightarrow> string \<Rightarrow> string \<Rightarrow> string list result" where
  "reservation_successor_history previous_record status holder_ref reservation_kind target_scope_ref
     creation_timestamp =
     bind_result (validate_reservation_status_transition (rsv_status previous_record) status) (\<lambda>_.
       if rsv_holder_ref previous_record \<noteq> holder_ref
       then Inl (ControlPlaneReservationError ''reservation holder_ref must remain stable across status updates'')
       else if rsv_reservation_kind previous_record \<noteq> reservation_kind
       then Inl (ControlPlaneReservationError ''reservation_kind must remain stable across status updates'')
       else if rsv_target_scope_ref previous_record \<noteq> target_scope_ref
       then Inl (ControlPlaneReservationError ''target_scope_ref must remain stable across status updates'')
       else if rsv_creation_timestamp previous_record \<noteq> creation_timestamp
       then Inl (ControlPlaneReservationError ''creation_timestamp must remain stable across status updates'')
       else (let history_refs = rsv_history_refs previous_record;
                 prior_ref = reservation_publication_ref previous_record
             in if history_refs = [] \<or> last history_refs \<noteq> prior_ref
                then Inr (history_refs @ [prior_ref]) else Inr history_refs))"

definition build_reservation_record ::
  "string \<Rightarrow> string \<Rightarrow> ReservationKind \<Rightarrow> string \<Rightarrow> string \<Rightarrow> string \<Rightarrow> ReservationStatus \<Rightarrow> string \<Rightarrow>
   string option \<Rightarrow> string option \<Rightarrow> ReservationRecord option \<Rightarrow> ReservationRecord result" where
  "build_reservation_record reservation_id holder_ref reservation_kind target_scope_ref
     creation_timestamp expiry_or_invalidation_basis status supervisor_authority_ref
     promotion_rule promoted_lease_id previous_record =
     (if previous_record = None \<and> status \<notin> {ReservationStatus.PENDING, ReservationStatus.ACTIVE}
      then Inl (ControlPlaneReservationError ''initial reservation record must begin in pending or active status'')
      else bind_result
        (case previous_record of
           None \<Rightarrow> Inr []
         | Some p \<Rightarrow> reservation_successor_history p status holder_ref reservation_kind
                       target_scope_ref creation_timestamp)
        (\<lambda>history_refs. ReservationRecord_init
          \<lparr>rsv_contract_version = CONTROL_PLANE_CONTRACT_VERSION_V1,
           rsv_reservation_id = py_strip reservation_id,
           rsv_holder_ref = py_strip holder_ref,
           rsv_reservation_kind = reservation_kind,
           rsv_target_scope_ref = py_strip target_scope_ref,
           rsv_creation_timestamp = py_strip creation_timestamp,
           rsv_expiry_or_invalidation_basis = py_strip expiry_or_invalidation_basis,
           rsv_status = status,
           rsv_promotion_rule = map_option py_strip promotion_rule,
           rsv_promoted_lease_id = map_option py_strip promoted_lease_id,
           rsv_supervisor_authority_ref = py_strip supervisor_authority_ref,
           rsv_history_refs = history_refs\<rparr>))"

definition promote_reservation_to_lease ::
  "ReservationRecord \<Rightarrow> string \<Rightarrow> string \<Rightarrow> string \<Rightarrow> string option \<Rightarrow> string \<Rightarrow> string \<Rightarrow>
   (ReservationRecord \<times> LeaseRecord) result" where
  "promote_reservation_to_lease reservation lease_id resource_id granted_timestamp
     publication_timestamp expiry_basis cleanup_eligibility_rule =
     (if rsv_reservation_kind reservation \<noteq> ReservationKind.RESOURCE
      then Inl (ControlPlaneReservationError ''Only resource_reservation can promote to a lease.'')
      else bind_result
        (validate_reservation_status_transition (rsv_status reservation) ReservationStatus.PROMOTED_TO_LEASE)
        (\<lambda>_. bind_result
          (LeaseRecord_init
            \<lparr>ls_contract_version = CONTROL_PLANE_CONTRACT_VERSION_V1,
             ls_lease_id = py_strip lease_id,
             ls_resource_id = py_strip resource_id,
             ls_holder_ref = rsv_holder_ref reservation,
             ls_lease_epoch = 0,
             ls_granted_timestamp = py_strip granted_timestamp,
             ls_publication_timestamp = py_strip (str_or publication_timestamp granted_timestamp),
             ls_expiry_basis = py_strip expiry_basis,
             ls_status = LeaseStatus.ACTIVE,
             ls_last_confirmed_observation = None,
             ls_source_reservation_id = Some (rsv_reservation_id reservation),
             ls_cleanup_eligibility_rule = py_strip cleanup_eligibility_rule,
             ls_history_refs = []\<rparr>)
          (\<lambda>lease. Inr (reservation\<lparr>rsv_status := ReservationStatus.PROMOTED_TO_LEASE,
                                    rsv_promoted_lease_id := Some (py_strip lease_id)\<rparr>, lease))))"

section \<open>Lease records\<close>

definition lease_publication_ref :: "LeaseRecord \<Rightarrow> string" where
  "lease_publication_ref r =
     ''lease-record:'' @ ls_lease_id r @ '':'' @ str_of_int (ls_lease_epoch r) @ '':'' @
     ls_publication_timestamp r"

text \<open>
  The part of \<open>build_lease_record\<close> that runs when there is a previous record; it returns the
  history, the granted timestamp and the source reservation of the new record.
\<close>

definition lease_successor_fields ::
  "LeaseRecord \<Rightarrow> string \<Rightarrow> int \<Rightarrow> LeaseStatus \<Rightarrow> string option \<Rightarrow> string \<Rightarrow> string \<Rightarrow> string option \<Rightarrow>
   (string list \<times> string \<times> string option) result" where
  "lease_successor_fields previous_record lease_id lease_epoch status granted_timestamp
     resolved_granted_timestamp resolved_publication_timestamp resolved_source_reservation_id =
     (if ls_lease_id previous_record \<noteq> py_strip lease_id
      then Inl (ControlPlaneLeaseError ''lease publication must not reuse a different prior lease_id'')
      else if lease_epoch < ls_lease_epoch previous_record
      then Inl (ControlPlaneLeaseError ''lease publication must not decrease lease_epoch'')
      else if resolved_publication_timestamp < ls_publication_timestamp previous_record
      then Inl (ControlPlaneLeaseError ''lease publication timestamps must increase monotonically'')
      else if resolved_publication_timestamp = ls_publication_timestamp previous_record \<and>
              lease_epoch = ls_lease_epoch previous_record \<and> status = ls_status previous_record
      then Inl (ControlPlaneLeaseError ''same-status lease publication requires a newer publication_timestamp'')
      else
        (let previous_ref = lease_publication_ref previous_record;
             resolved_history =
               (if previous_ref \<in> set (ls_history_refs previous_record)
                then ls_history_refs previous_record
                else ls_history_refs previous_record @ [previous_ref])
         in if lease_epoch = ls_lease_epoch previous_record
            then
              (if granted_timestamp \<noteq> None \<and>
                  resolved_granted_timestamp \<noteq> ls_granted_timestamp previous_record
               then Inl (ControlPlaneLeaseError ''same-epoch lease publication must preserve granted_timestamp'')
               else bind_result
                 (if status \<noteq> ls_status previous_record
                  then validate_lease_status_transition (ls_status previous_record) status
                  else Inr True)
                 (\<lambda>_. case resolved_source_reservation_id of
                     None \<Rightarrow> Inr (resolved_history, ls_granted_timestamp previous_record,
                                  ls_source_reservation_id previous_record)
                   | Some source \<Rightarrow>
                       if \<not> py_in_opt source (ls_source_reservation_id previous_record)
                       then Inl (ControlPlaneLeaseError ''same-epoch lease publication must preserve source_reservation_id'')
                       else Inr (resolved_history, ls_granted_timestamp previous_record, Some source)))
            else Inr (resolved_history, resolved_granted_timestamp, resolved_source_reservation_id)))"

definition build_lease_record ::
  "string \<Rightarrow> string \<Rightarrow> string \<Rightarrow> int \<Rightarrow> string \<Rightarrow> string \<Rightarrow> LeaseStatus \<Rightarrow> string \<Rightarrow> string option \<Rightarrow>
   string option \<Rightarrow> string option \<Rightarrow> LeaseRecord option \<Rightarrow> string list \<Rightarrow> LeaseRecord result" where
  "build_lease_record lease_id resource_id holder_ref lease_epoch publication_timestamp expiry_basis
     status cleanup_eligibility_rule granted_timestamp last_confirmed_observation
     source_reservation_id previous_record history_refs =
     (let resolved_granted_timestamp = py_strip (str_or granted_timestamp publication_timestamp);
          resolved_publication_timestamp = py_strip publication_timestamp;
          resolved_source_reservation_id = map_option py_strip source_reservation_id
      in bind_result
        (case previous_record of
           None \<Rightarrow> Inr (history_refs, resolved_granted_timestamp, resolved_source_reservation_id)
         | Some p \<Rightarrow> lease_successor_fields p lease_id lease_epoch status granted_timestamp
                       resolved_granted_timestamp resolved_publication_timestamp
                       resolved_source_reservation_id)
        (\<lambda>(resolved_history, granted, source). LeaseRecord_init
          \<lparr>ls_contract_version = CONTROL_PLANE_CONTRACT_VERSION_V1,
           ls_lease_id = py_strip lease_id,
           ls_resource_id = py_strip resource_id,
           ls_holder_ref = py_strip holder_ref,
           ls_lease_epoch = lease_epoch,
           ls_granted_timestamp = granted,
           ls_publication_timestamp = resolved_publication_timestamp,
           ls_expiry_basis = py_strip expiry_basis,
           ls_status = status,
           ls_last_confirmed_observation = map_option py_strip last_confirmed_observation,
           ls_source_reservation_id = source,
           ls_cleanup_eligibility_rule = py_strip cleanup_eligibility_rule,
           ls_history_refs = resolved_history\<rparr>))"

section \<open>The tables are transition tables\<close>

definition is_terminal_reservation_status :: "ReservationStatus \<Rightarrow> bool" where
  "is_terminal_reservation_status s = (s \<in> TERMINAL_RESERVATION_STATUSES)"

definition is_terminal_lease_status :: "LeaseStatus \<Rightarrow> bool" where
  "is_terminal_lease_status s = (s \<in> TERMINAL_LEASE_STATUSES)"

lemma is_terminal_reservation_status_iff [enum_simps]:
  "is_terminal_reservation_status s \<longleftrightarrow> reservation_status_transitions s = {}"
  by (cases s) (simp_all add: is_terminal_reservation_status_def TERMINAL_RESERVATION_STATUSES_def)

lemma is_terminal_lease_status_iff [enum_simps]:
  "is_terminal_lease_status s \<longleftrightarrow> lease_status_transitions s = {}"
  by (cases s) (simp_all add: is_terminal_lease_status_def TERMINAL_LEASE_STATUSES_def)

interpretation reservation_table:
  transition_table reservation_status_transitions is_terminal_reservation_status
  by unfold_locales (rule is_terminal_reservation_status_iff)

interpretation lease_table: transition_table lease_status_transitions is_terminal_lease_status
  by unfold_locales (rule is_terminal_lease_status_iff)

lemma validate_reservation_status_transition_iff [simp]:
  "validate_reservation_status_transition s t = Inr b \<longleftrightarrow> b \<and> t \<in> reservation_status_transitions s"
  by (auto simp: validate_reservation_status_transition_def)

lemma validate_lease_status_transition_iff [simp]:
  "validate_lease_status_transition s t = Inr b \<longleftrightarrow> b \<and> t \<in> lease_status_transitions s"
  by (auto simp: validate_lease_status_transition_def)

section \<open>What the builders return\<close>

lemma reservation_successor_history_Inr:
  "reservation_successor_history p status holder_ref kind scope created = Inr h \<longleftrightarrow>
     status \<in> reservation_status_transitions (rsv_status p) \<and> rsv_holder_ref p = holder_ref \<and>
     rsv_reservation_kind p = kind \<and> rsv_target_scope_ref p = scope \<and>
     rsv_creation_timestamp p = created \<and>
     h = (if rsv_history_refs p = [] \<or> last (rsv_history_refs p) \<noteq> reservation_publication_ref p
          then rsv_history_refs p @ [reservation_publication_ref p] else rsv_history_refs p)"
  by (auto simp: reservation_successor_history_def bind_result_Inr_iff Let_def)

lemma build_reservation_record_Inr:
  assumes "build_reservation_record reservation_id holder_ref kind scope created basis status authority
             rule lease prev = Inr r"
  shows "ReservationRecord_init r = Inr r"
    and "rsv_reservation_id r = py_strip reservation_id" and "rsv_holder_ref r = py_strip holder_ref"
    and "rsv_reservation_kind r = kind" and "rsv_target_scope_ref r = py_strip scope"
    and "rsv_creation_timestamp r = py_strip created" and "rsv_status r = status"
    and "prev = None \<Longrightarrow> status \<in> {ReservationStatus.PENDING, ReservationStatus.ACTIVE} \<and> rsv_history_refs r = []"
    and "prev = Some p \<Longrightarrow> reservation_successor_history p status holder_ref kind scope created = Inr (rsv_history_refs r)"
proof -
  let ?hist = "case prev of None \<Rightarrow> Inr []
     | Some p \<Rightarrow> reservation_successor_history p status holder_ref kind scope created"
  let ?R = "\<lambda>h. \<lparr>rsv_contract_version = CONTROL_PLANE_CONTRACT_VERSION_V1,
           rsv_reservation_id = py_strip reservation_id, rsv_holder_ref = py_strip holder_ref,
           rsv_reservation_kind = kind, rsv_target_scope_ref = py_strip scope,
           rsv_creation_timestamp = py_strip created,
           rsv_expiry_or_invalidation_basis = py_strip basis, rsv_status = status,
           rsv_promotion_rule = map_option py_strip rule,
           rsv_promoted_lease_id = map_option py_strip lease,
           rsv_supervisor_authority_ref = py_strip authority, rsv_history_refs = h\<rparr>"
  have initial: "\<not> (prev = None \<and> status \<notin> {ReservationStatus.PENDING, ReservationStatus.ACTIVE})"
    and "bind_result ?hist (\<lambda>h. ReservationRecord_init (?R h)) = Inr r"
    using assms by (simp_all add: build_reservation_record_def split: if_splits)
  then obtain h where h: "?hist = Inr h" and "ReservationRecord_init (?R h) = Inr r"
    by (auto simp only: bind_result_Inr_iff)
  from this(2) have r: "r = ?R h" and ok: "ReservationRecord_init r = Inr r"
    using ReservationRecord_init_Inr by blast+
  show "ReservationRecord_init r = Inr r" by (rule ok)
  show "rsv_reservation_id r = py_strip reservation_id" "rsv_holder_ref r = py_strip holder_ref"
    "rsv_reservation_kind r = kind" "rsv_target_scope_ref r = py_strip scope"
    "rsv_creation_timestamp r = py_strip created" "rsv_status r = status"
    by (simp_all add: r)
  show "prev = None \<Longrightarrow> status \<in> {ReservationStatus.PENDING, ReservationStatus.ACTIVE} \<and> rsv_history_refs r = []"
    using initial h by (simp add: r)
  show "prev = Some p \<Longrightarrow> reservation_successor_history p status holder_ref kind scope created = Inr (rsv_history_refs r)"
    using h by (simp add: r)
qed

lemma lease_successor_fields_Inr:
  assumes "lease_successor_fields p lease_id lease_epoch status granted rgranted rpub rsource = Inr (h, g, s)"
  shows "ls_lease_id p = py_strip lease_id" and "ls_lease_epoch p \<le> lease_epoch"
    and "ls_publication_timestamp p \<le> rpub"
    and "set h = insert (lease_publication_ref p) (set (ls_history_refs p))"
    and "lease_epoch = ls_lease_epoch p \<Longrightarrow> g = ls_granted_timestamp p"
    and "lease_epoch = ls_lease_epoch p \<Longrightarrow>
           status \<in> lease_status_transitions (ls_status p) \<or>
           (status = ls_status p \<and> ls_publication_timestamp p < rpub)"
  using assms
  by (auto simp: lease_successor_fields_def Let_def bind_result_Inr_iff split: if_splits option.splits)

lemma build_lease_record_Inr:
  assumes "build_lease_record lease_id resource_id holder epoch pub basis status rule granted observed source
             prev hist = Inr r"
  shows "LeaseRecord_init r = Inr r"
    and "ls_lease_id r = py_strip lease_id" and "ls_lease_epoch r = epoch" and "ls_status r = status"
    and "ls_publication_timestamp r = py_strip pub"
    and "prev = None \<Longrightarrow> ls_history_refs r = hist"
    and "prev = Some p \<Longrightarrow> lease_successor_fields p lease_id epoch status granted
           (py_strip (str_or granted pub)) (py_strip pub) (map_option py_strip source)
         = Inr (ls_history_refs r, ls_granted_timestamp r, ls_source_reservation_id r)"
proof -
  let ?fields = "case prev of
      None \<Rightarrow> Inr (hist, py_strip (str_or granted pub), map_option py_strip source)
    | Some p \<Rightarrow> lease_successor_fields p lease_id epoch status granted
                  (py_strip (str_or granted pub)) (py_strip pub) (map_option py_strip source)"
  let ?R = "\<lambda>h g s. \<lparr>ls_contract_version = CONTROL_PLANE_CONTRACT_VERSION_V1,
           ls_lease_id = py_strip lease_id, ls_resource_id = py_strip resource_id,
           ls_holder_ref = py_strip holder, ls_lease_epoch = epoch, ls_granted_timestamp = g,
           ls_publication_timestamp = py_strip pub, ls_expiry_basis = py_strip basis,
           ls_status = status, ls_last_confirmed_observation = map_option py_strip observed,
           ls_source_reservation_id = s, ls_cleanup_eligibility_rule = py_strip rule,
           ls_history_refs = h\<rparr>"
  have "bind_result ?fields (\<lambda>(h, g, s). LeaseRecord_init (?R h g s)) = Inr r"
    using assms by (simp add: build_lease_record_def Let_def)
  then obtain h g s where f: "?fields = Inr (h, g, s)" and "LeaseRecord_init (?R h g s) = Inr r"
    by (rule bind_result_tripleE)
  from this(2) have r: "r = ?R h g s" and ok: "LeaseRecord_init r = Inr r"
    using LeaseRecord_init_Inr by blast+
  show "LeaseRecord_init r = Inr r" by (rule ok)
  show "ls_lease_id r = py_strip lease_id" "ls_lease_epoch r = epoch" "ls_status r = status"
    "ls_publication_timestamp r = py_strip pub"
    by (simp_all add: r)
  show "prev = None \<Longrightarrow> ls_history_refs r = hist" using f by (simp add: r)
  show "prev = Some p \<Longrightarrow> lease_successor_fields p lease_id epoch status granted
           (py_strip (str_or granted pub)) (py_strip pub) (map_option py_strip source)
         = Inr (ls_history_refs r, ls_granted_timestamp r, ls_source_reservation_id r)"
    using f by (simp add: r)
qed

section \<open>What the builders guarantee\<close>

lemma promotion_creates_linked_lease_parts:
  assumes "promote_reservation_to_lease r lease_id resource_id granted pub basis rule = Inr (r', l)"
  shows "rsv_reservation_kind r = ReservationKind.RESOURCE" and "rsv_status r = ReservationStatus.ACTIVE"
    and "LeaseRecord_init l = Inr l"
    and "ls_status l = LeaseStatus.ACTIVE" and "ls_lease_epoch l = 0"
    and "ls_holder_ref l = rsv_holder_ref r"
    and "ls_source_reservation_id l = Some (rsv_reservation_id r)"
    and "rsv_promoted_lease_id r' = Some (ls_lease_id l)"
    and "rsv_reservation_id r' = rsv_reservation_id r"
    and "is_terminal_reservation_status (rsv_status r')"
    and "\<exists>e. promote_reservation_to_lease r' lease_id' resource_id' granted' pub' basis' rule' = Inl e"
proof -
  let ?L = "\<lparr>ls_contract_version = CONTROL_PLANE_CONTRACT_VERSION_V1,
             ls_lease_id = py_strip lease_id, ls_resource_id = py_strip resource_id,
             ls_holder_ref = rsv_holder_ref r, ls_lease_epoch = 0,
             ls_granted_timestamp = py_strip granted,
             ls_publication_timestamp = py_strip (str_or pub granted),
             ls_expiry_basis = py_strip basis, ls_status = LeaseStatus.ACTIVE,
             ls_last_confirmed_observation = None,
             ls_source_reservation_id = Some (rsv_reservation_id r),
             ls_cleanup_eligibility_rule = py_strip rule, ls_history_refs = []\<rparr>"
  show "rsv_reservation_kind r = ReservationKind.RESOURCE"
    using assms by (simp add: promote_reservation_to_lease_def split: if_splits)
  then have steps: "ReservationStatus.PROMOTED_TO_LEASE \<in> reservation_status_transitions (rsv_status r)"
    "LeaseRecord_init ?L = Inr l"
    "r' = r\<lparr>rsv_status := ReservationStatus.PROMOTED_TO_LEASE,
            rsv_promoted_lease_id := Some (py_strip lease_id)\<rparr>"
    using assms by (auto simp: promote_reservation_to_lease_def bind_result_Inr_iff)
  have l: "l = ?L" and ok: "LeaseRecord_init l = Inr l"
    using LeaseRecord_init_Inr [OF steps(2)] by blast+
  show "rsv_status r = ReservationStatus.ACTIVE" using steps(1) by (cases "rsv_status r") simp_all
  show "LeaseRecord_init l = Inr l" by (rule ok)
  show "ls_status l = LeaseStatus.ACTIVE" "ls_lease_epoch l = 0" "ls_holder_ref l = rsv_holder_ref r"
    "ls_source_reservation_id l = Some (rsv_reservation_id r)"
    by (simp_all add: l)
  show "rsv_promoted_lease_id r' = Some (ls_lease_id l)" "rsv_reservation_id r' = rsv_reservation_id r"
    by (simp_all add: l steps(3))
  show "is_terminal_reservation_status (rsv_status r')"
    by (simp add: steps(3) is_terminal_reservation_status_iff)
  show "\<exists>e. promote_reservation_to_lease r' lease_id' resource_id' granted' pub' basis' rule' = Inl e"
    by (simp add: steps(3) promote_reservation_to_lease_def validate_reservation_status_transition_def)
qed

text \<open>
  only an active resource reservation promotes to a lease; the lease starts active in epoch 0, is
  held by the holder of the reservation, is granted and published at non-empty times and names
  the reservation as its source, and the reservation is left in a terminal status that names the
  lease, so that it cannot be promoted again.
\<close>

theorem promotion_creates_linked_lease:
  assumes "promote_reservation_to_lease r lease_id resource_id granted pub basis rule = Inr (r', l)"
  shows "rsv_reservation_kind r = ReservationKind.RESOURCE \<and>
     rsv_status r = ReservationStatus.ACTIVE \<and>
     LeaseRecord_init l = Inr l \<and>
     ls_status l = LeaseStatus.ACTIVE \<and>
     ls_lease_epoch l = 0 \<and>
     ls_holder_ref l = rsv_holder_ref r \<and>
     ls_source_reservation_id l = Some (rsv_reservation_id r) \<and>
     rsv_promoted_lease_id r' = Some (ls_lease_id l) \<and>
     rsv_reservation_id r' = rsv_reservation_id r \<and>
     is_terminal_reservation_status (rsv_status r') \<and>
     (\<exists>e. promote_reservation_to_lease r' lease_id' resource_id' granted' pub' basis' rule' = Inl e)"
  using promotion_creates_linked_lease_parts [OF assms] by blast

definition sample_reservation :: ReservationRecord where
  "sample_reservation =
     \<lparr>rsv_contract_version = CONTROL_PLANE_CONTRACT_VERSION_V1, rsv_reservation_id = ''res-1'',
      rsv_holder_ref = ''run-1'', rsv_reservation_kind = ReservationKind.RESOURCE,
      rsv_target_scope_ref = ''scope'', rsv_creation_timestamp = ''t0'',
      rsv_expiry_or_invalidation_basis = ''basis'', rsv_status = ReservationStatus.ACTIVE,
      rsv_promotion_rule = None, rsv_promoted_lease_id = None,
      rsv_supervisor_authority_ref = ''sup'', rsv_history_refs = []\<rparr>"

theorem promotion_creates_linked_lease_witness:
  "\<exists>r l. promote_reservation_to_lease sample_reservation ''lease-1'' ''res'' ''t1'' None ''ttl'' ''rule''
        = Inr (r, l) \<and> ls_holder_ref l = ''run-1'' \<and> is_terminal_reservation_status (rsv_status r)"
proof -
  obtain r l where p: "promote_reservation_to_lease sample_reservation ''lease-1'' ''res'' ''t1'' None
      ''ttl'' ''rule'' = Inr (r, l)"
    by (simp add: promote_reservation_to_lease_def sample_reservation_def
        validate_reservation_status_transition_def LeaseRecord_init_def validate_model_def
        field_errors_def py_strip_def py_isspace_def str_or_def)
  show ?thesis
    using p promotion_creates_linked_lease [OF p] by (simp add: sample_reservation_def)
qed

lemma lease_never_goes_back_parts:
  assumes "build_lease_record lease_id resource_id holder epoch pub basis status rule granted observed source
             (Some p) hist = Inr r"
  shows "ls_lease_id r = ls_lease_id p" and "ls_lease_epoch p \<le> ls_lease_epoch r"
    and "ls_publication_timestamp p \<le> ls_publication_timestamp r"
    and "set (ls_history_refs r) = insert (lease_publication_ref p) (set (ls_history_refs p))"
    and "ls_lease_epoch r = ls_lease_epoch p \<Longrightarrow> ls_granted_timestamp r = ls_granted_timestamp p"
    and "ls_lease_epoch r = ls_lease_epoch p \<Longrightarrow>
           ls_status r \<in> lease_status_transitions (ls_status p) \<or>
           (ls_status r = ls_status p \<and> ls_publication_timestamp p < ls_publication_timestamp r)"
    and "ls_lease_epoch r = ls_lease_epoch p \<Longrightarrow> is_terminal_lease_status (ls_status p) \<Longrightarrow>
           ls_status r = ls_status p"
proof -
  note b = build_lease_record_Inr [OF assms]
  note s = lease_successor_fields_Inr [OF b(7) [OF refl]]
  show "ls_lease_id r = ls_lease_id p" using s(1) by (simp add: b(2))
  show "ls_lease_epoch p \<le> ls_lease_epoch r" using s(2) by (simp add: b(3))
  show "ls_publication_timestamp p \<le> ls_publication_timestamp r" using s(3) by (simp add: b(5))
  show "set (ls_history_refs r) = insert (lease_publication_ref p) (set (ls_history_refs p))"
    by (rule s(4))
  show "ls_granted_timestamp r = ls_granted_timestamp p" if "ls_lease_epoch r = ls_lease_epoch p"
    using s(5) that by (simp add: b(3))
  show step: "ls_status r \<in> lease_status_transitions (ls_status p) \<or>
      (ls_status r = ls_status p \<and> ls_publication_timestamp p < ls_publication_timestamp r)"
    if "ls_lease_epoch r = ls_lease_epoch p"
    using s(6) that by (simp add: b(3-5))
  show "ls_status r = ls_status p"
    if "ls_lease_epoch r = ls_lease_epoch p" "is_terminal_lease_status (ls_status p)"
    using step [OF that(1)] lease_table.no_step_from_terminal [OF that(2)] by blast
qed

text \<open>
  A lease never goes back: a record built on the latest record of the lease has the same lease
  identifier, an epoch and a publication time no smaller, and lists the record it supersedes in
  its history; within one epoch the grant time is kept and the status either makes a move the
  table allows or is confirmed again at a strictly later time, so after a released, revoked or
  expired record the status changes only with a new epoch.
\<close>

theorem lease_never_goes_back:
  assumes "build_lease_record lease_id resource_id holder epoch pub basis status rule granted observed source
             (Some p) hist = Inr r"
  shows "ls_lease_id r = ls_lease_id p \<and>
     ls_lease_epoch p \<le> ls_lease_epoch r \<and>
     ls_publication_timestamp p \<le> ls_publication_timestamp r \<and>
     set (ls_history_refs r) = insert (lease_publication_ref p) (set (ls_history_refs p)) \<and>
     (ls_lease_epoch r = ls_lease_epoch p \<longrightarrow> ls_granted_timestamp r = ls_granted_timestamp p) \<and>
     (ls_lease_epoch r = ls_lease_epoch p \<longrightarrow>
           ls_status r \<in> lease_status_transitions (ls_status p) \<or>
           (ls_status r = ls_status p \<and> ls_publication_timestamp p < ls_publication_timestamp r)) \<and>
     (ls_lease_epoch r = ls_lease_epoch p \<longrightarrow> is_terminal_lease_status (ls_status p) \<longrightarrow>
           ls_status r = ls_status p)"
  using lease_never_goes_back_parts [OF assms] by blast

definition sample_lease :: LeaseRecord where
  "sample_lease =
     \<lparr>ls_contract_version = CONTROL_PLANE_CONTRACT_VERSION_V1, ls_lease_id = ''lease-1'',
      ls_resource_id = ''res'', ls_holder_ref = ''run-1'', ls_lease_epoch = 0,
      ls_granted_timestamp = ''t1'', ls_publication_timestamp = ''t1'', ls_expiry_basis = ''ttl'',
      ls_status = LeaseStatus.ACTIVE, ls_last_confirmed_observation = None,
      ls_source_reservation_id = Some ''res-1'', ls_cleanup_eligibility_rule = ''rule'',
      ls_history_refs = []\<rparr>"

theorem lease_never_goes_back_witness:
  "\<exists>r. build_lease_record ''lease-1'' ''res'' ''run-1'' 0 ''t2'' ''ttl'' LeaseStatus.RELEASED ''rule''
         None None None (Some sample_lease) [] = Inr r \<and>
       ls_granted_timestamp r = ''t1'' \<and> ls_publication_timestamp r = ''t2''"
proof -
  have "(''t1'' :: string) \<le> ''t2''" by code_simp
  then have le: "\<not> (''t2'' :: string) < ''t1''" by simp
  obtain r where r: "build_lease_record ''lease-1'' ''res'' ''run-1'' 0 ''t2'' ''ttl'' LeaseStatus.RELEASED ''rule''
         None None None (Some sample_lease) [] = Inr r"
    by (simp add: build_lease_record_def lease_successor_fields_def sample_lease_def Let_def le
        validate_lease_status_transition_def LeaseRecord_init_def validate_model_def field_errors_def
        py_strip_def py_isspace_def str_or_def lease_publication_ref_def)
  have "ls_lease_epoch r = ls_lease_epoch sample_lease" "ls_publication_timestamp r = ''t2''"
    using build_lease_record_Inr(3,5) [OF r]
    by (simp_all add: sample_lease_def py_strip_def py_isspace_def)
  then show ?thesis
    using r lease_never_goes_back [OF r] by (simp add: sample_lease_def)
qed

end
