(* ===== verification/Control_Plane_Recovery.thy ===== *)
theory Control_Plane_Recovery
  imports Control_Plane_Models
begin

text \<open>
  Recovery decisions and final truth (\<open>orket/core/domain/control_plane_recovery.py\<close> and
  \<open>control_plane_final_truth.py\<close>): the failure taxonomy, the authority check of a recovery decision,
  the validation of a final-truth publication and the two builders.
\<close>

section \<open>Failure taxonomy\<close>

definition CONTINUATION_ACTIONS :: "RecoveryActionClass set" where
  "CONTINUATION_ACTIONS =
     {RecoveryActionClass.RETRY_SAME_ATTEMPT_SCOPE, RecoveryActionClass.START_NEW_ATTEMPT,
      RecoveryActionClass.RESUME_FROM_CHECKPOINT, RecoveryActionClass.DOWNGRADE_TO_DEGRADED_MODE}"

type_synonym taxonomy = "FailurePlane \<times> FailureClassification"

text \<open>
  The lookup dictionary is built from five dictionary displays in this order; a later key would
  override an earlier one, so the association list is read from its end.
\<close>

definition failure_classification_entries :: "(string \<times> taxonomy) list" where
  "failure_classification_entries =
     map (\<lambda>item. (ExecutionFailureClass_value item, (FailurePlane.EXECUTION, ExecutionFailure item)))
       ExecutionFailureClass_members @
     map (\<lambda>item. (ProtocolFailureClass_value item, (FailurePlane.PROTOCOL, ProtocolFailure item)))
       ProtocolFailureClass_members @
     map (\<lambda>item. (TruthFailureClass_value item, (FailurePlane.TRUTH, TruthFailure item)))
       TruthFailureClass_members @
     map (\<lambda>item. (ResourceFailureClass_value item, (FailurePlane.RESOURCE, ResourceFailure item)))
       ResourceFailureClass_members @
     map (\<lambda>item. (ControlPlaneFailureClass_value item, (FailurePlane.CONTROL_PLANE, ControlPlaneFailure item)))
       ControlPlaneFailureClass_members"

definition failure_classification_lookup :: "string \<Rightarrow> taxonomy option" where
  "failure_classification_lookup k = map_of (rev failure_classification_entries) k"

definition failure_classification_alias_entries :: "(string \<times> taxonomy) list" where
  "failure_classification_alias_entries =
    [(''sandbox_create_failed'', (FailurePlane.EXECUTION, ExecutionFailure ExecutionFailureClass.ADAPTER_EXECUTION_FAILURE)),
     (''sandbox_start_failed'', (FailurePlane.EXECUTION, ExecutionFailure ExecutionFailureClass.ADAPTER_EXECUTION_FAILURE)),
     (''create_failed'', (FailurePlane.EXECUTION, ExecutionFailure ExecutionFailureClass.ADAPTER_EXECUTION_FAILURE)),
     (''start_failed'', (FailurePlane.EXECUTION, ExecutionFailure ExecutionFailureClass.ADAPTER_EXECUTION_FAILURE)),
     (''failed'', (FailurePlane.EXECUTION, ExecutionFailure ExecutionFailureClass.ADAPTER_EXECUTION_FAILURE)),
     (''blocked'', (FailurePlane.TRUTH, TruthFailure TruthFailureClass.CLAIM_EXCEEDS_AUTHORITY)),
     (''restart_loop'', (FailurePlane.CONTROL_PLANE, ControlPlaneFailure ControlPlaneFailureClass.SUPERVISORY_INVARIANT_VIOLATION)),
     (''orphan_detected'', (FailurePlane.RESOURCE, ResourceFailure ResourceFailureClass.ORPHAN_RESOURCE_DETECTED)),
     (''orphan_unverified_ownership'', (FailurePlane.RESOURCE, ResourceFailure ResourceFailureClass.RESOURCE_STATE_UNCERTAIN)),
     (''hard_max_age'', (FailurePlane.RESOURCE, ResourceFailure ResourceFailureClass.RESOURCE_UNAVAILABLE)),
     (''cleaned_externally'', (FailurePlane.RESOURCE, ResourceFailure ResourceFailureClass.RESOURCE_STATE_UNCERTAIN)),
     (''tool_execution_failed'', (FailurePlane.EXECUTION, ExecutionFailure ExecutionFailureClass.ADAPTER_EXECUTION_FAILURE)),
     (''gitea_state_worker_failure'', (FailurePlane.EXECUTION, ExecutionFailure ExecutionFailureClass.ADAPTER_EXECUTION_FAILURE)),
     (''gitea_state_claim_failure'', (FailurePlane.EXECUTION, ExecutionFailure ExecutionFailureClass.ADAPTER_EXECUTION_FAILURE)),
     (''lease_expired'', (FailurePlane.RESOURCE, ResourceFailure ResourceFailureClass.RESOURCE_UNAVAILABLE)),
     (''control_plane_resource_drift'', (FailurePlane.RESOURCE, ResourceFailure ResourceFailureClass.RESOURCE_STATE_UNCERTAIN)),
     (''lost_runtime'', (FailurePlane.RESOURCE, ResourceFailure ResourceFailureClass.RESOURCE_STATE_UNCERTAIN)),
     (''unfinished_pre_effect_attempt'', (FailurePlane.CONTROL_PLANE, ControlPlaneFailure ControlPlaneFailureClass.SUPERVISORY_INVARIANT_VIOLATION)),
     (''unfinished_post_effect_attempt'', (FailurePlane.CONTROL_PLANE, ControlPlaneFailure ControlPlaneFailureClass.SUPERVISORY_INVARIANT_VIOLATION)),
     (''unfinished_effect_boundary_uncertain_attempt'', (FailurePlane.CONTROL_PLANE, ControlPlaneFailure ControlPlaneFailureClass.SUPERVISORY_INVARIANT_VIOLATION)),
     (''reconciliation_closed_unexpected_effect_observed'', (FailurePlane.TRUTH, TruthFailure TruthFailureClass.TOOL_RESULT_CONTRADICTION)),
     (''reconciliation_closed_insufficient_observation'', (FailurePlane.TRUTH, TruthFailure TruthFailureClass.MISSING_REQUIRED_EVIDENCE)),
     (''tool_execution_blocked'', (FailurePlane.TRUTH, TruthFailure TruthFailureClass.CLAIM_EXCEEDS_AUTHORITY))]"

definition failure_classification_aliases :: "string \<Rightarrow> taxonomy option" where
  "failure_classification_aliases k = map_of failure_classification_alias_entries k"

definition infer_failure_taxonomy ::
  "string \<Rightarrow> FailurePlane option \<times> FailureClassification option" where
  "infer_failure_taxonomy failure_classification_basis =
     (let normalized = py_lower (py_strip failure_classification_basis)
      in if normalized = [] then (None, None)
         else case failure_classification_lookup normalized of
             Some (p, c) \<Rightarrow> (Some p, Some c)
           | None \<Rightarrow> (case failure_classification_aliases normalized of
                 Some (p, c) \<Rightarrow> (Some p, Some c)
               | None \<Rightarrow> (None, None)))"

section \<open>Authority of a recovery decision\<close>

definition no_target_actions :: "RecoveryActionClass set" where
  "no_target_actions =
     {RecoveryActionClass.REQUIRE_OBSERVATION_THEN_CONTINUE,
      RecoveryActionClass.REQUIRE_RECONCILIATION_THEN_DECIDE,
      RecoveryActionClass.PERFORM_CONTROL_PLANE_RECOVERY_ACTION,
      RecoveryActionClass.QUARANTINE_RUN, RecoveryActionClass.ESCALATE_TO_OPERATOR,
      RecoveryActionClass.TERMINATE_RUN}"

text \<open>The checks of the \<open>resume_from_checkpoint\<close> branch, in their order.\<close>

definition resume_checkpoint_error ::
  "RecoveryDecisionRecord \<Rightarrow> CheckpointAcceptanceRecord option \<Rightarrow> string option" where
  "resume_checkpoint_error decision checkpoint_acceptance =
     (let has_resumed_attempt = rd_resumed_attempt_id decision \<noteq> None;
          has_new_attempt = rd_new_attempt_id decision \<noteq> None
      in case rd_target_checkpoint_id decision of
           None \<Rightarrow> Some ''resume_from_checkpoint requires target_checkpoint_id''
         | Some target \<Rightarrow> (case checkpoint_acceptance of
               None \<Rightarrow> Some ''resume_from_checkpoint requires checkpoint acceptance''
             | Some acc \<Rightarrow> first_message
                 [raise_if (ca_checkpoint_id acc \<noteq> target)
                    ''checkpoint acceptance must match recovery target_checkpoint_id'',
                  raise_if (ca_outcome acc \<noteq> CheckpointAcceptanceOutcome.ACCEPTED)
                    ''resume_from_checkpoint requires accepted checkpoint'',
                  raise_if (ca_resumability_class acc = CheckpointResumabilityClass.RESUME_FORBIDDEN)
                    ''resume_from_checkpoint cannot use resume_forbidden checkpoint'',
                  raise_if (ca_resumability_class acc = CheckpointResumabilityClass.RESUME_SAME_ATTEMPT \<and>
                            (\<not> has_resumed_attempt \<or> has_new_attempt))
                    ''resume_same_attempt checkpoint requires resumed_attempt_id only'',
                  raise_if (ca_resumability_class acc =
                              CheckpointResumabilityClass.RESUME_NEW_ATTEMPT_FROM_CHECKPOINT \<and>
                            (\<not> has_new_attempt \<or> has_resumed_attempt))
                    ''resume_new_attempt checkpoint requires new_attempt_id only'']))"

definition validate_recovery_decision_authority ::
  "RecoveryDecisionRecord \<Rightarrow> CheckpointAcceptanceRecord option \<Rightarrow> ReconciliationRecord option \<Rightarrow>
   bool \<Rightarrow> bool result" where
  "validate_recovery_decision_authority decision checkpoint_acceptance reconciliation_record
     idempotent_retry_permitted =
     (let action = rd_authorized_next_action decision;
          has_resumed_attempt = rd_resumed_attempt_id decision \<noteq> None;
          has_new_attempt = rd_new_attempt_id decision \<noteq> None
      in case first_message
          [raise_if (action = RecoveryActionClass.RETRY_SAME_ATTEMPT_SCOPE \<and>
                     (\<not> has_resumed_attempt \<or> has_new_attempt))
             ''retry_same_attempt_scope requires resumed_attempt_id only'',
           raise_if (action = RecoveryActionClass.START_NEW_ATTEMPT \<and>
                     (\<not> has_new_attempt \<or> has_resumed_attempt))
             ''start_new_attempt requires new_attempt_id only'',
           raise_if (action \<in> no_target_actions \<and> (has_resumed_attempt \<or> has_new_attempt))
             (RecoveryActionClass_value action @ '' must not publish execution target ids''),
           raise_if (action = RecoveryActionClass.DOWNGRADE_TO_DEGRADED_MODE \<and>
                     has_resumed_attempt = has_new_attempt)
             ''downgrade_to_degraded_mode requires exactly one execution target'',
           raise_if (action \<noteq> RecoveryActionClass.RESUME_FROM_CHECKPOINT \<and>
                     rd_target_checkpoint_id decision \<noteq> None)
             ''target_checkpoint_id is only valid for resume_from_checkpoint'',
           (if action = RecoveryActionClass.RESUME_FROM_CHECKPOINT
            then resume_checkpoint_error decision checkpoint_acceptance else None),
           raise_if (rd_side_effect_boundary_class decision =
                       SideEffectBoundaryClass.EFFECT_BOUNDARY_UNCERTAIN \<and>
                     action \<in> CONTINUATION_ACTIONS \<and> \<not> idempotent_retry_permitted \<and>
                     reconciliation_record = None)
             ''effect_boundary_uncertain continuation requires reconciliation or idempotent retry'']
         of Some m \<Rightarrow> Inl (ControlPlaneRecoveryError m) | None \<Rightarrow> Inr True)"

definition build_recovery_decision ::
  "string \<Rightarrow> string \<Rightarrow> string \<Rightarrow> string \<Rightarrow> FailurePlane option \<Rightarrow> FailureClassification option \<Rightarrow>
   SideEffectBoundaryClass \<Rightarrow> string \<Rightarrow> RecoveryActionClass \<Rightarrow> string option \<Rightarrow> string option \<Rightarrow>
   string option \<Rightarrow> string list option \<Rightarrow> string list option \<Rightarrow> OperatorCommandClass option \<Rightarrow> string \<Rightarrow>
   CheckpointAcceptanceRecord option \<Rightarrow> ReconciliationRecord option \<Rightarrow> bool \<Rightarrow>
   RecoveryDecisionRecord result" where
  "build_recovery_decision decision_id run_id failed_attempt_id failure_classification_basis
     failure_plane failure_classification side_effect_boundary_class recovery_policy_ref
     authorized_next_action resumed_attempt_id new_attempt_id target_checkpoint_id
     required_precondition_refs blocked_actions operator_requirement rationale_ref
     checkpoint_acceptance reconciliation_record idempotent_retry_permitted =
     bind_result
       (if failure_plane = None \<and> failure_classification = None
        then Inr (infer_failure_taxonomy failure_classification_basis)
        else if (failure_plane = None) \<noteq> (failure_classification = None)
        then Inl (ControlPlaneRecoveryError ''failure_plane and failure_classification must be set together'')
        else Inr (failure_plane, failure_classification))
       (\<lambda>(resolved_plane, resolved_classification).
         bind_result
           (RecoveryDecisionRecord_init
             \<lparr>rd_contract_version = CONTROL_PLANE_CONTRACT_VERSION_V1,
              rd_decision_id = decision_id,
              rd_run_id = run_id,
              rd_failed_attempt_id = failed_attempt_id,
              rd_failure_classification_basis = failure_classification_basis,
              rd_failure_plane = resolved_plane,
              rd_failure_classification = resolved_classification,
              rd_side_effect_boundary_class = side_effect_boundary_class,
              rd_recovery_policy_ref = recovery_policy_ref,
              rd_authorized_next_action = authorized_next_action,
              rd_resumed_attempt_id = resumed_attempt_id,
              rd_new_attempt_id = new_attempt_id,
              rd_target_checkpoint_id = target_checkpoint_id,
              rd_required_precondition_refs = (case required_precondition_refs of None \<Rightarrow> [] | Some l \<Rightarrow> l),
              rd_blocked_actions = (case blocked_actions of None \<Rightarrow> [] | Some l \<Rightarrow> l),
              rd_operator_requirement = operator_requirement,
              rd_rationale_ref = rationale_ref\<rparr>)
           (\<lambda>decision. bind_result
             (validate_recovery_decision_authority decision checkpoint_acceptance
                reconciliation_record idempotent_retry_permitted)
             (\<lambda>_. Inr decision)))"

section \<open>Final truth\<close>

definition validate_final_truth_publication ::
  "FinalTruthRecord \<Rightarrow> OperatorActionRecord option \<Rightarrow> bool result" where
  "validate_final_truth_publication r operator_action =
     (if ft_terminality_basis r \<noteq> terminality_basis_for_closure (ft_closure_basis r)
      then Inl (ControlPlaneFinalTruthError ''final truth terminality_basis must match closure_basis'')
      else if ft_closure_basis r = ClosureBasisClassification.RECONCILIATION_CLOSED \<and>
              AuthoritySourceClass.RECONCILIATION_RECORD \<notin> set (ft_authority_sources r)
      then Inl (ControlPlaneFinalTruthError ''reconciliation_closed final truth requires reconciliation_record authority'')
      else if ft_closure_basis r = ClosureBasisClassification.OPERATOR_TERMINAL_STOP
      then (case operator_action of
              None \<Rightarrow> Inl (ControlPlaneFinalTruthError ''operator terminal closure requires operator_action'')
            | Some act \<Rightarrow>
                if op_input_class act \<noteq> OperatorInputClass.COMMAND
                then Inl (ControlPlaneFinalTruthError ''operator terminal closure requires operator command input'')
                else if op_command_class act \<noteq> Some OperatorCommandClass.MARK_TERMINAL
                then Inl (ControlPlaneFinalTruthError ''operator terminal closure requires mark_terminal command'')
                else Inr True)
      else Inr True)"

definition build_final_truth_record ::
  "string \<Rightarrow> string \<Rightarrow> ResultClass \<Rightarrow> CompletionClassification \<Rightarrow> EvidenceSufficiencyClassification \<Rightarrow>
   ResidualUncertaintyClassification \<Rightarrow> DegradationClassification \<Rightarrow> ClosureBasisClassification \<Rightarrow>
   AuthoritySourceClass list \<Rightarrow> string option \<Rightarrow> OperatorActionRecord option \<Rightarrow> FinalTruthRecord result" where
  "build_final_truth_record final_truth_record_id run_id result_class completion_classification
     evidence_sufficiency_classification residual_uncertainty_classification
     degradation_classification closure_basis authority_sources authoritative_result_ref operator_action =
     bind_result
       (FinalTruthRecord_init
         \<lparr>ft_contract_version = CONTROL_PLANE_CONTRACT_VERSION_V1,
          ft_final_truth_record_id = final_truth_record_id,
          ft_run_id = run_id,
          ft_result_class = result_class,
          ft_completion_classification = completion_classification,
          ft_evidence_sufficiency_classification = evidence_sufficiency_classification,
          ft_residual_uncertainty_classification = residual_uncertainty_classification,
          ft_degradation_classification = degradation_classification,
          ft_closure_basis = closure_basis,
          ft_terminality_basis = terminality_basis_for_closure closure_basis,
          ft_authority_sources = authority_sources,
          ft_authoritative_result_ref = authoritative_result_ref\<rparr>)
       (\<lambda>r. bind_result (validate_final_truth_publication r operator_action) (\<lambda>_. Inr r))"

section \<open>The taxonomy is consistent\<close>

primrec classification_plane :: "FailureClassification \<Rightarrow> FailurePlane" where
  "classification_plane (ExecutionFailure f) = FailurePlane.EXECUTION"
| "classification_plane (ProtocolFailure f) = FailurePlane.PROTOCOL"
| "classification_plane (TruthFailure f) = FailurePlane.TRUTH"
| "classification_plane (ResourceFailure f) = FailurePlane.RESOURCE"
| "classification_plane (ControlPlaneFailure f) = FailurePlane.CONTROL_PLANE"

primrec classification_value :: "FailureClassification \<Rightarrow> string" where
  "classification_value (ExecutionFailure f) = ExecutionFailureClass_value f"
| "classification_value (ProtocolFailure f) = ProtocolFailureClass_value f"
| "classification_value (TruthFailure f) = TruthFailureClass_value f"
| "classification_value (ResourceFailure f) = ResourceFailureClass_value f"
| "classification_value (ControlPlaneFailure f) = ControlPlaneFailureClass_value f"

lemma failure_entries_plane:
  "list_all (\<lambda>e. fst (snd e) = classification_plane (snd (snd e)))
     (failure_classification_entries @ failure_classification_alias_entries)"
  by (auto simp: failure_classification_entries_def failure_classification_alias_entries_def list_all_iff)

lemma failure_lookup_plane:
  assumes "failure_classification_lookup k = Some (p, f) \<or> failure_classification_aliases k = Some (p, f)"
  shows "p = classification_plane f"
proof -
  have "(k, p, f) \<in> set (failure_classification_entries @ failure_classification_alias_entries)"
    using assms by (auto simp: failure_classification_lookup_def failure_classification_aliases_def
        dest: map_of_SomeD)
  then show ?thesis using failure_entries_plane unfolding list_all_iff by (metis fst_conv snd_conv)
qed

lemma failure_entries_distinct: "distinct (map fst failure_classification_entries)"
  by (simp add: failure_classification_entries_def ExecutionFailureClass_members_def
      ProtocolFailureClass_members_def TruthFailureClass_members_def
      ResourceFailureClass_members_def ControlPlaneFailureClass_members_def)

lemma failure_entry_in:
  "(classification_value f, classification_plane f, f) \<in> set failure_classification_entries"
  by (cases f; rename_tac g; case_tac g)
     (simp_all add: failure_classification_entries_def ExecutionFailureClass_members_def
      ProtocolFailureClass_members_def TruthFailureClass_members_def
      ResourceFailureClass_members_def ControlPlaneFailureClass_members_def)

lemma failure_lookup_value:
  "failure_classification_lookup (classification_value f) = Some (classification_plane f, f)"
proof -
  have "distinct (map fst (rev failure_classification_entries))"
    using failure_entries_distinct by (simp add: rev_map [symmetric])
  then show ?thesis
    unfolding failure_classification_lookup_def using failure_entry_in [of f]
    by (simp add: map_of_eq_Some_iff)
qed

lemma classification_value_normal:
  "py_lower (py_strip (classification_value f)) = classification_value f \<and> classification_value f \<noteq> []"
  by (cases f; rename_tac g; case_tac g)
     (simp_all add: py_lower_def py_lower_char_def py_strip_def py_isspace_def Let_def)

text \<open>
  The inferred failure taxonomy is consistent and complete: the plane and the classification are
  inferred together or not at all, an inferred plane is the plane of the inferred classification,
  and the wire value of every classification is inferred as that classification, whatever the
  letter case and the surrounding white space.
\<close>

theorem infer_failure_taxonomy_consistent:
  "(case infer_failure_taxonomy basis of
      (Some p, Some f) \<Rightarrow> p = classification_plane f
    | (None, None) \<Rightarrow> True
    | _ \<Rightarrow> False) \<and>
   (py_lower (py_strip basis) = classification_value g \<longrightarrow>
      infer_failure_taxonomy basis = (Some (classification_plane g), Some g)) \<and>
   infer_failure_taxonomy (classification_value g) = (Some (classification_plane g), Some g)"
proof (intro conjI impI)
  show "case infer_failure_taxonomy basis of
      (Some p, Some f) \<Rightarrow> p = classification_plane f | (None, None) \<Rightarrow> True | _ \<Rightarrow> False"
    using failure_lookup_plane by (auto simp: infer_failure_taxonomy_def Let_def split: option.splits)
  show "infer_failure_taxonomy basis = (Some (classification_plane g), Some g)"
    if "py_lower (py_strip basis) = classification_value g"
    using that classification_value_normal [of g] failure_lookup_value [of g]
    by (simp add: infer_failure_taxonomy_def)
  show "infer_failure_taxonomy (classification_value g) = (Some (classification_plane g), Some g)"
    using classification_value_normal [of g] failure_lookup_value [of g]
    by (simp add: infer_failure_taxonomy_def)
qed

theorem infer_failure_taxonomy_consistent_witness:
  "infer_failure_taxonomy '' Tool_Timeout '' =
     (Some FailurePlane.EXECUTION, Some (ExecutionFailure ExecutionFailureClass.TOOL_TIMEOUT))"
proof -
  have "py_lower (py_strip '' Tool_Timeout '') =
      classification_value (ExecutionFailure ExecutionFailureClass.TOOL_TIMEOUT)"
    by code_simp
  then show ?thesis
    using infer_failure_taxonomy_consistent
      [of "'' Tool_Timeout ''" "ExecutionFailure ExecutionFailureClass.TOOL_TIMEOUT"] by simp
qed

section \<open>What a recovery decision may authorize\<close>

text \<open>
  The declarative reading of the authority check: which execution target each action names, when a
  checkpoint may be resumed, and what continuing across an uncertain effect boundary takes.
\<close>

definition only :: "'a option \<Rightarrow> 'b option \<Rightarrow> bool" where
  "only x y = (x \<noteq> None \<and> y = None)"

definition resumable_from ::
  "RecoveryDecisionRecord \<Rightarrow> CheckpointAcceptanceRecord \<Rightarrow> bool" where
  "resumable_from d acc \<longleftrightarrow>
     rd_target_checkpoint_id d = Some (ca_checkpoint_id acc) \<and>
     ca_outcome acc = CheckpointAcceptanceOutcome.ACCEPTED \<and>
     (case ca_resumability_class acc of
        CheckpointResumabilityClass.RESUME_FORBIDDEN \<Rightarrow> False
      | CheckpointResumabilityClass.RESUME_SAME_ATTEMPT \<Rightarrow>
          only (rd_resumed_attempt_id d) (rd_new_attempt_id d)
      | CheckpointResumabilityClass.RESUME_NEW_ATTEMPT_FROM_CHECKPOINT \<Rightarrow>
          only (rd_new_attempt_id d) (rd_resumed_attempt_id d))"

definition target_authorized ::
  "RecoveryDecisionRecord \<Rightarrow> CheckpointAcceptanceRecord option \<Rightarrow> bool" where
  "target_authorized d acc =
     (case rd_authorized_next_action d of
        RecoveryActionClass.RETRY_SAME_ATTEMPT_SCOPE \<Rightarrow>
          only (rd_resumed_attempt_id d) (rd_new_attempt_id d) \<and> rd_target_checkpoint_id d = None
      | RecoveryActionClass.START_NEW_ATTEMPT \<Rightarrow>
          only (rd_new_attempt_id d) (rd_resumed_attempt_id d) \<and> rd_target_checkpoint_id d = None
      | RecoveryActionClass.RESUME_FROM_CHECKPOINT \<Rightarrow> (\<exists>a. acc = Some a \<and> resumable_from d a)
      | RecoveryActionClass.DOWNGRADE_TO_DEGRADED_MODE \<Rightarrow>
          (only (rd_resumed_attempt_id d) (rd_new_attempt_id d) \<or>
           only (rd_new_attempt_id d) (rd_resumed_attempt_id d)) \<and> rd_target_checkpoint_id d = None
      | _ \<Rightarrow> rd_resumed_attempt_id d = None \<and> rd_new_attempt_id d = None \<and>
             rd_target_checkpoint_id d = None)"

definition boundary_authorized ::
  "RecoveryDecisionRecord \<Rightarrow> ReconciliationRecord option \<Rightarrow> bool \<Rightarrow> bool" where
  "boundary_authorized d rec idempotent \<longleftrightarrow>
     (rd_side_effect_boundary_class d = SideEffectBoundaryClass.EFFECT_BOUNDARY_UNCERTAIN \<longrightarrow>
      rd_authorized_next_action d \<in> CONTINUATION_ACTIONS \<longrightarrow> idempotent \<or> rec \<noteq> None)"

lemma resume_checkpoint_error_None:
  "resume_checkpoint_error d acc = None \<longleftrightarrow> (\<exists>a. acc = Some a \<and> resumable_from d a)"
proof (cases "rd_target_checkpoint_id d"; cases acc)
  fix target a
  assume "rd_target_checkpoint_id d = Some target" and "acc = Some a"
  then show ?thesis
    by (cases "ca_resumability_class a")
       (auto simp: resume_checkpoint_error_def resumable_from_def first_message_None_iff only_def)
qed (simp_all add: resume_checkpoint_error_def resumable_from_def)

lemma validate_recovery_decision_authority_iff:
  "validate_recovery_decision_authority d acc rec idempotent = Inr b \<longleftrightarrow>
     b \<and> target_authorized d acc \<and> boundary_authorized d rec idempotent"
proof -
  let ?action = "rd_authorized_next_action d"
  have result: "(case x of Some m \<Rightarrow> Inl (ControlPlaneRecoveryError m) | None \<Rightarrow> Inr True) = Inr b \<longleftrightarrow>
      b \<and> x = None" for x
    by (cases x) auto
  have "validate_recovery_decision_authority d acc rec idempotent = Inr b \<longleftrightarrow> b \<and>
     (?action = RecoveryActionClass.RETRY_SAME_ATTEMPT_SCOPE \<longrightarrow>
        only (rd_resumed_attempt_id d) (rd_new_attempt_id d)) \<and>
     (?action = RecoveryActionClass.START_NEW_ATTEMPT \<longrightarrow>
        only (rd_new_attempt_id d) (rd_resumed_attempt_id d)) \<and>
     (?action \<in> no_target_actions \<longrightarrow> rd_resumed_attempt_id d = None \<and> rd_new_attempt_id d = None) \<and>
     (?action = RecoveryActionClass.DOWNGRADE_TO_DEGRADED_MODE \<longrightarrow>
        (rd_resumed_attempt_id d \<noteq> None) \<noteq> (rd_new_attempt_id d \<noteq> None)) \<and>
     (?action \<noteq> RecoveryActionClass.RESUME_FROM_CHECKPOINT \<longrightarrow> rd_target_checkpoint_id d = None) \<and>
     (?action = RecoveryActionClass.RESUME_FROM_CHECKPOINT \<longrightarrow> resume_checkpoint_error d acc = None) \<and>
     boundary_authorized d rec idempotent"
    unfolding validate_recovery_decision_authority_def Let_def result first_message_None_iff
      boundary_authorized_def only_def
    by (simp del: not_None_eq) argo
  also have "\<dots> \<longleftrightarrow> b \<and> target_authorized d acc \<and> boundary_authorized d rec idempotent"
    unfolding resume_checkpoint_error_None
    by (cases ?action) (auto simp: target_authorized_def no_target_actions_def only_def)
  finally show ?thesis .
qed

lemma build_recovery_decision_Inr:
  assumes "build_recovery_decision decision_id run_id failed_attempt_id basis plane classification
             boundary policy_ref action resumed new target preconditions blocked requirement rationale
             acceptance reconciliation idempotent = Inr d"
  shows "target_authorized d acceptance" and "boundary_authorized d reconciliation idempotent"
    and "(rd_failure_plane d = None) = (rd_failure_classification d = None)"
    and "rd_authorized_next_action d = action" and "rd_target_checkpoint_id d = target"
    and "rd_side_effect_boundary_class d = boundary"
    and "RecoveryDecisionRecord_init d = Inr d"
    and "rd_resumed_attempt_id d = resumed" and "rd_new_attempt_id d = new" and "rd_decision_id d = decision_id"
proof -
  let ?tax = "if plane = None \<and> classification = None then Inr (infer_failure_taxonomy basis)
      else if (plane = None) \<noteq> (classification = None)
      then Inl (ControlPlaneRecoveryError ''failure_plane and failure_classification must be set together'')
      else Inr (plane, classification)"
  let ?R = "\<lambda>p f. \<lparr>rd_contract_version = CONTROL_PLANE_CONTRACT_VERSION_V1,
              rd_decision_id = decision_id, rd_run_id = run_id, rd_failed_attempt_id = failed_attempt_id,
              rd_failure_classification_basis = basis, rd_failure_plane = p,
              rd_failure_classification = f, rd_side_effect_boundary_class = boundary,
              rd_recovery_policy_ref = policy_ref, rd_authorized_next_action = action,
              rd_resumed_attempt_id = resumed, rd_new_attempt_id = new, rd_target_checkpoint_id = target,
              rd_required_precondition_refs = (case preconditions of None \<Rightarrow> [] | Some l \<Rightarrow> l),
              rd_blocked_actions = (case blocked of None \<Rightarrow> [] | Some l \<Rightarrow> l),
              rd_operator_requirement = requirement, rd_rationale_ref = rationale\<rparr>"
  obtain p f where tax: "?tax = Inr (p, f)"
    and "bind_result (RecoveryDecisionRecord_init (?R p f)) (\<lambda>decision. bind_result
          (validate_recovery_decision_authority decision acceptance reconciliation idempotent)
          (\<lambda>_. Inr decision)) = Inr d"
    using assms unfolding build_recovery_decision_def by (rule bind_result_pairE)
  from this(2) have d: "d = ?R p f"
    and init: "RecoveryDecisionRecord_init d = Inr d"
    and ok: "target_authorized d acceptance \<and> boundary_authorized d reconciliation idempotent"
    unfolding bind_result_Inr_iff validate_recovery_decision_authority_iff
    using RecoveryDecisionRecord_init_Inr by blast+
  show "RecoveryDecisionRecord_init d = Inr d" by (rule init)
  show "target_authorized d acceptance" "boundary_authorized d reconciliation idempotent"
    using ok by blast+
  have "(p = None) = (f = None)"
  proof (cases "plane = None \<and> classification = None")
    case True
    then have "infer_failure_taxonomy basis = (p, f)" using tax by simp
    then show ?thesis by (auto simp: infer_failure_taxonomy_def Let_def split: if_splits option.splits)
  next
    case False
    then show ?thesis using tax by (auto split: if_splits)
  qed
  then show "(rd_failure_plane d = None) = (rd_failure_classification d = None)" by (simp add: d)
  show "rd_authorized_next_action d = action" "rd_target_checkpoint_id d = target"
    "rd_side_effect_boundary_class d = boundary" "rd_resumed_attempt_id d = resumed" "rd_new_attempt_id d = new"
    "rd_decision_id d = decision_id"
    by (simp_all add: d)
qed

text \<open>
  A recovery decision is built only when it is authorized: it names exactly the execution
  targets its action needs, it resumes only from an accepted checkpoint of the right
  resumability that is the one it targets, it continues across an uncertain effect boundary only
  with a reconciliation record or a permitted idempotent retry, and its failure plane and
  classification are set together.
\<close>

theorem recovery_decision_authorized:
  assumes "build_recovery_decision decision_id run_id failed_attempt_id basis plane classification
             boundary policy_ref action resumed new target preconditions blocked requirement rationale
             acceptance reconciliation idempotent = Inr d"
  shows "target_authorized d acceptance \<and> boundary_authorized d reconciliation idempotent \<and>
    (rd_failure_plane d = None) = (rd_failure_classification d = None) \<and>
    rd_authorized_next_action d = action \<and> rd_target_checkpoint_id d = target \<and>
    rd_side_effect_boundary_class d = boundary"
  using build_recovery_decision_Inr [OF assms] by blast

definition sample_acceptance :: CheckpointAcceptanceRecord where
  "sample_acceptance =
     \<lparr>ca_contract_version = CONTROL_PLANE_CONTRACT_VERSION_V1, ca_acceptance_id = ''acc-1'',
      ca_checkpoint_id = ''cp-1'', ca_supervisor_authority_ref = ''sup'', ca_decision_timestamp = ''t1'',
      ca_outcome = CheckpointAcceptanceOutcome.ACCEPTED,
      ca_resumability_class = CheckpointResumabilityClass.RESUME_SAME_ATTEMPT,
      ca_required_reobservation_class = CheckpointReobservationClass.NONE,
      ca_evaluated_policy_digest = ''d'', ca_integrity_verification_ref = ''i'',
      ca_dependent_effect_entry_refs = [], ca_dependent_reservation_refs = [],
      ca_dependent_lease_refs = [], ca_rejection_reasons = []\<rparr>"

definition sample_decision :: "FailurePlane option \<Rightarrow> FailureClassification option \<Rightarrow> RecoveryDecisionRecord" where
  "sample_decision p f =
     \<lparr>rd_contract_version = CONTROL_PLANE_CONTRACT_VERSION_V1, rd_decision_id = ''dec-1'',
      rd_run_id = ''run-1'', rd_failed_attempt_id = ''att-1'',
      rd_failure_classification_basis = ''tool_timeout'', rd_failure_plane = p,
      rd_failure_classification = f,
      rd_side_effect_boundary_class = SideEffectBoundaryClass.EFFECT_BOUNDARY_UNCERTAIN,
      rd_recovery_policy_ref = ''policy'',
      rd_authorized_next_action = RecoveryActionClass.RESUME_FROM_CHECKPOINT,
      rd_resumed_attempt_id = Some ''att-1'', rd_new_attempt_id = None,
      rd_target_checkpoint_id = Some ''cp-1'', rd_required_precondition_refs = [],
      rd_blocked_actions = [], rd_operator_requirement = None, rd_rationale_ref = ''why''\<rparr>"

lemma sample_decision_built:
  "\<exists>p f. build_recovery_decision ''dec-1'' ''run-1'' ''att-1'' ''tool_timeout'' None None
         SideEffectBoundaryClass.EFFECT_BOUNDARY_UNCERTAIN ''policy'' RecoveryActionClass.RESUME_FROM_CHECKPOINT
         (Some ''att-1'') None (Some ''cp-1'') None None None ''why'' (Some sample_acceptance) None True
       = Inr (sample_decision (Some p) (Some f)) \<and>
     RecoveryDecisionRecord_init (sample_decision (Some p) (Some f)) = Inr (sample_decision (Some p) (Some f))"
proof -
  obtain p f where tax: "infer_failure_taxonomy ''tool_timeout'' = (Some p, Some f)"
    using failure_lookup_value [of "ExecutionFailure ExecutionFailureClass.TOOL_TIMEOUT"]
      classification_value_normal [of "ExecutionFailure ExecutionFailureClass.TOOL_TIMEOUT"]
    by (simp add: infer_failure_taxonomy_def)
  have init: "RecoveryDecisionRecord_init (sample_decision (Some p) (Some f)) = Inr (sample_decision (Some p) (Some f))"
    by (simp add: RecoveryDecisionRecord_init_def validate_model_Inr_iff sample_decision_def
        validate_execution_target_def first_message_None_iff truthy_opt_def)
  have auth: "validate_recovery_decision_authority (sample_decision (Some p) (Some f))
      (Some sample_acceptance) None True = Inr True"
    by (simp add: validate_recovery_decision_authority_iff target_authorized_def boundary_authorized_def
        resumable_from_def sample_decision_def sample_acceptance_def only_def)
  have "build_recovery_decision ''dec-1'' ''run-1'' ''att-1'' ''tool_timeout'' None None
         SideEffectBoundaryClass.EFFECT_BOUNDARY_UNCERTAIN ''policy'' RecoveryActionClass.RESUME_FROM_CHECKPOINT
         (Some ''att-1'') None (Some ''cp-1'') None None None ''why'' (Some sample_acceptance) None True
       = Inr (sample_decision (Some p) (Some f))"
    using init auth by (simp add: build_recovery_decision_def tax sample_decision_def [symmetric])
  then show ?thesis using init by blast
qed

theorem recovery_decision_authorized_witness:
  "\<exists>d. build_recovery_decision ''dec-1'' ''run-1'' ''att-1'' ''tool_timeout'' None None
         SideEffectBoundaryClass.EFFECT_BOUNDARY_UNCERTAIN ''policy'' RecoveryActionClass.RESUME_FROM_CHECKPOINT
         (Some ''att-1'') None (Some ''cp-1'') None None None ''why'' (Some sample_acceptance) None True = Inr d
     \<and> target_authorized d (Some sample_acceptance) \<and> boundary_authorized d None True"
proof -
  obtain d where d: "build_recovery_decision ''dec-1'' ''run-1'' ''att-1'' ''tool_timeout'' None None
         SideEffectBoundaryClass.EFFECT_BOUNDARY_UNCERTAIN ''policy'' RecoveryActionClass.RESUME_FROM_CHECKPOINT
         (Some ''att-1'') None (Some ''cp-1'') None None None ''why'' (Some sample_acceptance) None True = Inr d"
    using sample_decision_built by blast
  show ?thesis using d recovery_decision_authorized [OF d] by blast
qed

section \<open>What a final truth may claim\<close>

definition final_truth_admissible ::
  "ResultClass \<Rightarrow> EvidenceSufficiencyClassification \<Rightarrow> ClosureBasisClassification \<Rightarrow>
   AuthoritySourceClass list \<Rightarrow> OperatorActionRecord option \<Rightarrow> bool" where
  "final_truth_admissible result evidence closure sources action \<longleftrightarrow>
     (result = ResultClass.SUCCESS \<longrightarrow> evidence = EvidenceSufficiencyClassification.SUFFICIENT) \<and>
     (evidence = EvidenceSufficiencyClassification.ATTESTED \<longrightarrow>
        AuthoritySourceClass.OPERATOR_ATTESTATION \<in> set sources) \<and>
     (closure = ClosureBasisClassification.RECONCILIATION_CLOSED \<longrightarrow>
        AuthoritySourceClass.RECONCILIATION_RECORD \<in> set sources) \<and>
     (closure = ClosureBasisClassification.OPERATOR_TERMINAL_STOP \<longrightarrow>
        (\<exists>act. action = Some act \<and> op_input_class act = OperatorInputClass.COMMAND \<and>
               op_command_class act = Some OperatorCommandClass.MARK_TERMINAL))"

lemma validate_final_truth_publication_iff:
  "validate_final_truth_publication r action = Inr b \<longleftrightarrow> b \<and>
     ft_terminality_basis r = terminality_basis_for_closure (ft_closure_basis r) \<and>
     (ft_closure_basis r = ClosureBasisClassification.RECONCILIATION_CLOSED \<longrightarrow>
        AuthoritySourceClass.RECONCILIATION_RECORD \<in> set (ft_authority_sources r)) \<and>
     (ft_closure_basis r = ClosureBasisClassification.OPERATOR_TERMINAL_STOP \<longrightarrow>
        (\<exists>act. action = Some act \<and> op_input_class act = OperatorInputClass.COMMAND \<and>
               op_command_class act = Some OperatorCommandClass.MARK_TERMINAL))"
  by (auto simp: validate_final_truth_publication_def split: option.splits)

text \<open>
  C25: a final truth is published exactly when its claim is admissible: with identifiers and at least
  one authority source given, building the record succeeds if and only if success rests on
  sufficient evidence, attested evidence on an operator attestation, a reconciled closure on a
  reconciliation record, and an operator stop on a \<open>mark_terminal\<close> command; the record then
  carries the terminality basis of its closure.
\<close>

theorem final_truth_published_iff_admissible:
  assumes "ne record_id" and "ne run_id" and "sources \<noteq> []" and "opt_ne result_ref"
  shows "(\<exists>r. build_final_truth_record record_id run_id result completion evidence uncertainty
            degradation closure sources result_ref action = Inr r \<and>
            ft_terminality_basis r = terminality_basis_for_closure closure) \<longleftrightarrow>
         final_truth_admissible result evidence closure sources action"
proof -
  let ?R = "\<lparr>ft_contract_version = CONTROL_PLANE_CONTRACT_VERSION_V1,
          ft_final_truth_record_id = record_id, ft_run_id = run_id, ft_result_class = result,
          ft_completion_classification = completion, ft_evidence_sufficiency_classification = evidence,
          ft_residual_uncertainty_classification = uncertainty,
          ft_degradation_classification = degradation, ft_closure_basis = closure,
          ft_terminality_basis = terminality_basis_for_closure closure,
          ft_authority_sources = sources, ft_authoritative_result_ref = result_ref\<rparr>"
  have init: "FinalTruthRecord_init ?R = Inr r \<longleftrightarrow> r = ?R \<and>
      (result = ResultClass.SUCCESS \<longrightarrow> evidence = EvidenceSufficiencyClassification.SUFFICIENT) \<and>
      (evidence = EvidenceSufficiencyClassification.ATTESTED \<longrightarrow>
        AuthoritySourceClass.OPERATOR_ATTESTATION \<in> set sources) \<and>
      (closure = ClosureBasisClassification.RECONCILIATION_CLOSED \<longrightarrow>
        AuthoritySourceClass.RECONCILIATION_RECORD \<in> set sources)" for r
    using assms by (auto simp: FinalTruthRecord_init_def validate_model_Inr_iff
        validate_truth_constraints_def first_message_None_iff Let_def)
  have "(\<exists>r. build_final_truth_record record_id run_id result completion evidence uncertainty
            degradation closure sources result_ref action = Inr r \<and>
            ft_terminality_basis r = terminality_basis_for_closure closure) \<longleftrightarrow>
        (\<exists>r. FinalTruthRecord_init ?R = Inr r \<and> validate_final_truth_publication r action = Inr True \<and>
            ft_terminality_basis r = terminality_basis_for_closure closure)"
    unfolding build_final_truth_record_def bind_result_Inr_iff
    by (metis (full_types) validate_final_truth_publication_iff sum.inject(2))
  also have "\<dots> \<longleftrightarrow> final_truth_admissible result evidence closure sources action"
    unfolding init validate_final_truth_publication_iff final_truth_admissible_def by auto
  finally show ?thesis .
qed

theorem final_truth_published_iff_admissible_witness:
  "\<exists>r. build_final_truth_record ''ft-1'' ''run-1'' ResultClass.SUCCESS CompletionClassification.SATISFIED
         EvidenceSufficiencyClassification.SUFFICIENT ResidualUncertaintyClassification.NONE
         DegradationClassification.NONE ClosureBasisClassification.NORMAL_EXECUTION
         [AuthoritySourceClass.RECEIPT_EVIDENCE] None None = Inr r \<and>
       ft_terminality_basis r = terminality_basis_for_closure ClosureBasisClassification.NORMAL_EXECUTION"
  using final_truth_published_iff_admissible [of "''ft-1''" "''run-1''"
      "[AuthoritySourceClass.RECEIPT_EVIDENCE]" None ResultClass.SUCCESS
      CompletionClassification.SATISFIED EvidenceSufficiencyClassification.SUFFICIENT
      ResidualUncertaintyClassification.NONE DegradationClassification.NONE
      ClosureBasisClassification.NORMAL_EXECUTION None]
  by (simp add: final_truth_admissible_def)

end
