(* ===== verification/Control_Plane_Journal.thy ===== *)
theory Control_Plane_Journal
  imports Control_Plane_Models
begin

text \<open>
  The effect journal and checkpoint acceptance
  (\<open>orket/core/domain/control_plane_effect_journal.py\<close>). A journal entry carries a digest of its own
  content and the digest of the entry before it. \<open>hashlib.sha256(raw).hexdigest()\<close> is the parameter
  \<open>sha256\<close> of every definition that hashes; what a theorem needs of it (a digest is not the empty
  string; no collision among the texts at hand) is a hypothesis of that theorem.

  The lemmas show that an entry built on its predecessor passes the append check, that a chain is
  accepted exactly when it is numbered, linked and digested, that such a chain grows at its end
  only, and that two accepted chains with the same last digest are the same chain.
\<close>

section \<open>Digests\<close>

type_synonym hash = "string \<Rightarrow> string"

definition hash_canonical_payload :: "hash \<Rightarrow> json \<Rightarrow> string" where
  "hash_canonical_payload sha256 payload = sha256 (json_dumps True payload)"

definition json_opt :: "string option \<Rightarrow> json" where
  "json_opt x = (case x of None \<Rightarrow> JNull | Some s \<Rightarrow> JStr s)"

text \<open>\<open>entry.model_dump(mode="json", exclude={"entry_digest"})\<close>: the fields in their order.\<close>

definition journal_entry_payload :: "EffectJournalEntryRecord \<Rightarrow> json" where
  "journal_entry_payload e = JObj
     [(''contract_version'', JStr (je_contract_version e)),
      (''journal_entry_id'', JStr (je_journal_entry_id e)),
      (''effect_id'', JStr (je_effect_id e)),
      (''run_id'', JStr (je_run_id e)),
      (''attempt_id'', JStr (je_attempt_id e)),
      (''step_id'', JStr (je_step_id e)),
      (''authorization_basis_ref'', JStr (je_authorization_basis_ref e)),
      (''publication_sequence'', JInt (je_publication_sequence e)),
      (''publication_timestamp'', JStr (je_publication_timestamp e)),
      (''intended_target_ref'', JStr (je_intended_target_ref e)),
      (''observed_result_ref'', json_opt (je_observed_result_ref e)),
      (''uncertainty_classification'',
         JStr (ResidualUncertaintyClassification_value (je_uncertainty_classification e))),
      (''integrity_verification_ref'', JStr (je_integrity_verification_ref e)),
      (''prior_journal_entry_id'', json_opt (je_prior_journal_entry_id e)),
      (''prior_entry_digest'', json_opt (je_prior_entry_digest e)),
      (''contradictory_entry_refs'', JArr (map JStr (je_contradictory_entry_refs e))),
      (''superseding_entry_refs'', JArr (map JStr (je_superseding_entry_refs e)))]"

definition compute_effect_journal_entry_digest :: "hash \<Rightarrow> EffectJournalEntryRecord \<Rightarrow> string" where
  "compute_effect_journal_entry_digest sha256 e = hash_canonical_payload sha256 (journal_entry_payload e)"

definition create_effect_journal_entry ::
  "hash \<Rightarrow> string \<Rightarrow> string \<Rightarrow> string \<Rightarrow> string \<Rightarrow> string \<Rightarrow> string \<Rightarrow> string \<Rightarrow> string \<Rightarrow> string option \<Rightarrow>
   ResidualUncertaintyClassification \<Rightarrow> string \<Rightarrow> EffectJournalEntryRecord option \<Rightarrow> string list \<Rightarrow>
   string list \<Rightarrow> EffectJournalEntryRecord result" where
  "create_effect_journal_entry sha256 journal_entry_id effect_id run_id attempt_id step_id
     authorization_basis_ref publication_timestamp intended_target_ref observed_result_ref
     uncertainty_classification integrity_verification_ref previous_entry contradictory_entry_refs
     superseding_entry_refs =
     bind_result
       (EffectJournalEntryRecord_init
         \<lparr>je_contract_version = CONTROL_PLANE_CONTRACT_VERSION_V1,
          je_journal_entry_id = journal_entry_id,
          je_effect_id = effect_id,
          je_run_id = run_id,
          je_attempt_id = attempt_id,
          je_step_id = step_id,
          je_authorization_basis_ref = authorization_basis_ref,
          je_publication_sequence =
            (case previous_entry of None \<Rightarrow> 1 | Some p \<Rightarrow> je_publication_sequence p + 1),
          je_publication_timestamp = publication_timestamp,
          je_intended_target_ref = intended_target_ref,
          je_observed_result_ref = observed_result_ref,
          je_uncertainty_classification = uncertainty_classification,
          je_integrity_verification_ref = integrity_verification_ref,
          je_prior_journal_entry_id = map_option je_journal_entry_id previous_entry,
          je_prior_entry_digest = map_option je_entry_digest previous_entry,
          je_contradictory_entry_refs = contradictory_entry_refs,
          je_superseding_entry_refs = superseding_entry_refs,
          je_entry_digest = ''pending''\<rparr>)
       (\<lambda>base_entry. EffectJournalEntryRecord_init
         (base_entry\<lparr>je_entry_digest := compute_effect_journal_entry_digest sha256 base_entry\<rparr>))"

section \<open>Append and chain validation\<close>

definition validate_effect_journal_append ::
  "hash \<Rightarrow> EffectJournalEntryRecord option \<Rightarrow> EffectJournalEntryRecord \<Rightarrow> bool result" where
  "validate_effect_journal_append sha256 previous_entry e =
     (let expected_sequence =
            (case previous_entry of None \<Rightarrow> 1 | Some p \<Rightarrow> je_publication_sequence p + 1)
      in if je_publication_sequence e \<noteq> expected_sequence
         then Inl (ControlPlaneEffectJournalError (''journal sequence mismatch: expected '' @
                str_of_int expected_sequence @ '', got '' @ str_of_int (je_publication_sequence e)))
         else bind_result
           (case previous_entry of
              None \<Rightarrow>
                if je_prior_journal_entry_id e \<noteq> None \<or> je_prior_entry_digest e \<noteq> None
                then Inl (ControlPlaneEffectJournalError ''first journal entry cannot reference prior linkage'')
                else Inr True
            | Some p \<Rightarrow>
                if je_run_id e \<noteq> je_run_id p
                then Inl (ControlPlaneEffectJournalError ''journal append must stay within a single run'')
                else if je_prior_journal_entry_id e \<noteq> Some (je_journal_entry_id p)
                then Inl (ControlPlaneEffectJournalError ''journal append prior_journal_entry_id mismatch'')
                else if je_prior_entry_digest e \<noteq> Some (je_entry_digest p)
                then Inl (ControlPlaneEffectJournalError ''journal append prior_entry_digest mismatch'')
                else Inr True)
           (\<lambda>_. if je_entry_digest e \<noteq> compute_effect_journal_entry_digest sha256 e
                then Inl (ControlPlaneEffectJournalError ''journal entry digest mismatch'')
                else Inr True))"

fun journal_chain_loop ::
  "hash \<Rightarrow> EffectJournalEntryRecord option \<Rightarrow> int \<Rightarrow> EffectJournalEntryRecord list \<Rightarrow> bool result" where
  "journal_chain_loop sha256 previous_entry expected_sequence [] = Inr True"
| "journal_chain_loop sha256 previous_entry expected_sequence (e # es) =
     (if je_publication_sequence e \<noteq> expected_sequence
      then Inl (ControlPlaneEffectJournalError (''journal chain is not contiguous at sequence '' @
             str_of_int expected_sequence))
      else bind_result (validate_effect_journal_append sha256 previous_entry e)
        (\<lambda>_. journal_chain_loop sha256 (Some e) (expected_sequence + 1) es))"

definition validate_effect_journal_chain ::
  "hash \<Rightarrow> EffectJournalEntryRecord list \<Rightarrow> EffectJournalEntryRecord list result" where
  "validate_effect_journal_chain sha256 entries =
     (let ordered_entries = sort_key je_publication_sequence entries
      in bind_result (journal_chain_loop sha256 None 1 ordered_entries) (\<lambda>_. Inr ordered_entries))"

section \<open>Checkpoint acceptance\<close>

text \<open>\<open>sorted(set(xs) - set(available))\<close>\<close>

definition missing_ids :: "string list \<Rightarrow> string list \<Rightarrow> string list" where
  "missing_ids xs available = sort (remdups (filter (\<lambda>x. x \<notin> set available) xs))"

definition validate_checkpoint_acceptance ::
  "CheckpointRecord \<Rightarrow> CheckpointAcceptanceRecord \<Rightarrow> EffectJournalEntryRecord list \<Rightarrow>
   string list option \<Rightarrow> string list option \<Rightarrow> bool result" where
  "validate_checkpoint_acceptance checkpoint acceptance journal_entries reservation_ids lease_ids =
     (if ca_checkpoint_id acceptance \<noteq> cp_checkpoint_id checkpoint
      then Inl (ControlPlaneCheckpointError ''checkpoint acceptance must reference its parent checkpoint'')
      else if ca_outcome acceptance = CheckpointAcceptanceOutcome.REJECTED then Inr True
      else if ca_evaluated_policy_digest acceptance \<noteq> cp_policy_digest checkpoint
      then Inl (ControlPlaneCheckpointError ''checkpoint acceptance policy digest mismatch'')
      else if ca_resumability_class acceptance \<noteq> cp_resumability_class checkpoint
      then Inl (ControlPlaneCheckpointError ''checkpoint acceptance resumability mismatch'')
      else if cp_dependent_effect_refs checkpoint \<noteq> [] \<and> ca_dependent_effect_entry_refs acceptance = []
      then Inl (ControlPlaneCheckpointError ''accepted checkpoint must publish dependent effect journal references'')
      else
        (let missing_effect_ids =
               missing_ids (cp_dependent_effect_refs checkpoint) (map je_effect_id journal_entries);
             missing_entry_ids =
               missing_ids (ca_dependent_effect_entry_refs acceptance) (map je_journal_entry_id journal_entries)
         in if missing_effect_ids \<noteq> []
            then Inl (ControlPlaneCheckpointError (''checkpoint acceptance missing effect journal coverage for '' @
                   py_repr_list missing_effect_ids))
            else if missing_entry_ids \<noteq> []
            then Inl (ControlPlaneCheckpointError (''checkpoint acceptance references unknown journal entries '' @
                   py_repr_list missing_entry_ids))
            else bind_result
              (case reservation_ids of
                 None \<Rightarrow> Inr True
               | Some ids \<Rightarrow>
                   let missing = missing_ids (ca_dependent_reservation_refs acceptance) ids
                   in if missing \<noteq> []
                      then Inl (ControlPlaneCheckpointError (''checkpoint acceptance references unknown reservations '' @
                             py_repr_list missing))
                      else Inr True)
              (\<lambda>_. case lease_ids of
                 None \<Rightarrow> Inr True
               | Some ids \<Rightarrow>
                   let missing = missing_ids (ca_dependent_lease_refs acceptance) ids
                   in if missing \<noteq> []
                      then Inl (ControlPlaneCheckpointError (''checkpoint acceptance references unknown leases '' @
                             py_repr_list missing))
                      else Inr True)))"

section \<open>What an accepted append and an accepted chain are\<close>

text \<open>The link between an entry and its predecessor, without the order of the checks.\<close>

definition journal_link :: "hash \<Rightarrow> EffectJournalEntryRecord option \<Rightarrow> EffectJournalEntryRecord \<Rightarrow> bool" where
  "journal_link sha256 prev e \<longleftrightarrow>
     je_entry_digest e = compute_effect_journal_entry_digest sha256 e \<and>
     je_prior_journal_entry_id e = map_option je_journal_entry_id prev \<and>
     je_prior_entry_digest e = map_option je_entry_digest prev \<and>
     (case prev of None \<Rightarrow> je_publication_sequence e = 1
      | Some p \<Rightarrow> je_publication_sequence e = je_publication_sequence p + 1 \<and> je_run_id e = je_run_id p)"

fun linked_from :: "hash \<Rightarrow> EffectJournalEntryRecord option \<Rightarrow> EffectJournalEntryRecord list \<Rightarrow> bool" where
  "linked_from sha256 prev [] = True"
| "linked_from sha256 prev (e # es) = (journal_link sha256 prev e \<and> linked_from sha256 (Some e) es)"

definition last_entry :: "EffectJournalEntryRecord option \<Rightarrow> EffectJournalEntryRecord list \<Rightarrow> EffectJournalEntryRecord option" where
  "last_entry prev es = (if es = [] then prev else Some (last es))"

lemma validate_append_iff:
  "validate_effect_journal_append sha256 prev e = Inr b \<longleftrightarrow> b \<and> journal_link sha256 prev e"
  by (cases prev) (auto simp: validate_effect_journal_append_def journal_link_def Let_def bind_result_Inr_iff)

lemma linked_from_append:
  "linked_from sha256 prev (xs @ ys) \<longleftrightarrow> linked_from sha256 prev xs \<and> linked_from sha256 (last_entry prev xs) ys"
  by (induction xs arbitrary: prev) (auto simp: last_entry_def)

lemma journal_chain_loop_iff:
  assumes "k = (case prev of None \<Rightarrow> 1 | Some p \<Rightarrow> je_publication_sequence p + 1)"
  shows "journal_chain_loop sha256 prev k es = Inr b \<longleftrightarrow> b \<and> linked_from sha256 prev es"
  using assms
proof (induction es arbitrary: prev k)
  case Nil
  then show ?case by simp
next
  case (Cons e es)
  have k: "je_publication_sequence e = k" if "journal_link sha256 prev e"
    using that Cons.prems by (cases prev) (simp_all add: journal_link_def)
  have IH: "journal_chain_loop sha256 (Some e) (k + 1) es = Inr b \<longleftrightarrow> b \<and> linked_from sha256 (Some e) es"
    if "je_publication_sequence e = k"
    using that by (intro Cons.IH) simp
  show ?case
    by (cases "je_publication_sequence e = k")
       (use k in \<open>auto simp: bind_result_Inr_iff validate_append_iff IH\<close>)
qed

lemma validate_chain_iff:
  "validate_effect_journal_chain sha256 es = Inr xs \<longleftrightarrow>
     xs = sort_key je_publication_sequence es \<and> linked_from sha256 None xs"
  by (auto simp: validate_effect_journal_chain_def Let_def bind_result_Inr_iff journal_chain_loop_iff)

text \<open>The n-th entry of a chain carries sequence number n.\<close>

lemma linked_sequence:
  assumes "linked_from sha256 prev es" and "i < length es"
  shows "je_publication_sequence (es ! i) =
           (case prev of None \<Rightarrow> 0 | Some p \<Rightarrow> je_publication_sequence p) + 1 + int i"
  using assms
proof (induction es arbitrary: prev i)
  case (Cons e es)
  then show ?case by (cases i; cases prev) (auto simp: journal_link_def)
qed simp

lemma linked_last_sequence:
  assumes "linked_from sha256 None es" and "es \<noteq> []"
  shows "je_publication_sequence (last es) = int (length es)"
  using linked_sequence [OF assms(1), of "length es - 1"] assms(2)
  by (cases es rule: rev_cases) (simp_all add: nth_append)

lemma linked_sorted:
  assumes "linked_from sha256 None es"
  shows "sort_key je_publication_sequence es = es"
proof (rule sort_key_id_if_sorted)
  show "sorted (map je_publication_sequence es)"
    using linked_sequence [OF assms] by (simp add: sorted_iff_nth_mono)
qed

section \<open>Building on the predecessor\<close>

lemma journal_payload_ignores_digest [simp]:
  "journal_entry_payload (e\<lparr>je_entry_digest := d\<rparr>) = journal_entry_payload e"
  by (simp add: journal_entry_payload_def)

lemma journal_digest_ignores_digest [simp]:
  "compute_effect_journal_entry_digest sha256 (e\<lparr>je_entry_digest := d\<rparr>) =
   compute_effect_journal_entry_digest sha256 e"
  by (simp add: compute_effect_journal_entry_digest_def)

lemma create_effect_journal_entry_Inr:
  assumes "create_effect_journal_entry sha256 entry_id effect_id run_id attempt_id step_id basis pub target
             observed uncertainty integrity prev contra supers = Inr e"
  shows "EffectJournalEntryRecord_init e = Inr e"
    and "je_entry_digest e = compute_effect_journal_entry_digest sha256 e"
    and "je_journal_entry_id e = entry_id" and "je_run_id e = run_id"
    and "je_publication_sequence e = (case prev of None \<Rightarrow> 1 | Some p \<Rightarrow> je_publication_sequence p + 1)"
    and "je_prior_journal_entry_id e = map_option je_journal_entry_id prev"
    and "je_prior_entry_digest e = map_option je_entry_digest prev"
proof -
  let ?R = "\<lparr>je_contract_version = CONTROL_PLANE_CONTRACT_VERSION_V1,
          je_journal_entry_id = entry_id, je_effect_id = effect_id, je_run_id = run_id,
          je_attempt_id = attempt_id, je_step_id = step_id, je_authorization_basis_ref = basis,
          je_publication_sequence = (case prev of None \<Rightarrow> 1 | Some p \<Rightarrow> je_publication_sequence p + 1),
          je_publication_timestamp = pub, je_intended_target_ref = target,
          je_observed_result_ref = observed, je_uncertainty_classification = uncertainty,
          je_integrity_verification_ref = integrity,
          je_prior_journal_entry_id = map_option je_journal_entry_id prev,
          je_prior_entry_digest = map_option je_entry_digest prev,
          je_contradictory_entry_refs = contra, je_superseding_entry_refs = supers,
          je_entry_digest = ''pending''\<rparr>"
  let ?D = "?R\<lparr>je_entry_digest := compute_effect_journal_entry_digest sha256 ?R\<rparr>"
  have "bind_result (EffectJournalEntryRecord_init ?R)
      (\<lambda>b. EffectJournalEntryRecord_init
         (b\<lparr>je_entry_digest := compute_effect_journal_entry_digest sha256 b\<rparr>)) = Inr e"
    using assms unfolding create_effect_journal_entry_def .
  then have "EffectJournalEntryRecord_init ?D = Inr e"
    unfolding bind_result_Inr_iff using EffectJournalEntryRecord_init_Inr by blast
  then have e: "e = ?D" and ok: "EffectJournalEntryRecord_init e = Inr e"
    using EffectJournalEntryRecord_init_Inr by blast+
  show "EffectJournalEntryRecord_init e = Inr e" by (rule ok)
  show "je_entry_digest e = compute_effect_journal_entry_digest sha256 e"
    unfolding e journal_digest_ignores_digest by simp
  show "je_journal_entry_id e = entry_id" "je_run_id e = run_id"
    "je_publication_sequence e = (case prev of None \<Rightarrow> 1 | Some p \<Rightarrow> je_publication_sequence p + 1)"
    "je_prior_journal_entry_id e = map_option je_journal_entry_id prev"
    "je_prior_entry_digest e = map_option je_entry_digest prev"
    unfolding e by simp_all
qed

lemma created_entry_links:
  assumes "create_effect_journal_entry sha256 entry_id effect_id run_id attempt_id step_id basis pub target
             observed uncertainty integrity prev contra supers = Inr e"
    and "\<And>p. prev = Some p \<Longrightarrow> je_run_id p = run_id"
  shows "journal_link sha256 prev e"
  using create_effect_journal_entry_Inr [OF assms(1)] assms(2)
  by (cases prev) (simp_all add: journal_link_def)

section \<open>Equal digests mean equal chains\<close>

text \<open>The text that is hashed for an entry.\<close>

definition journal_text :: "EffectJournalEntryRecord \<Rightarrow> string" where
  "journal_text e = json_dumps True (journal_entry_payload e)"

lemma json_opt_inject [simp]: "json_opt a = json_opt b \<longleftrightarrow> a = b"
  by (cases a; cases b) (simp_all add: json_opt_def)

lemma canon_json_opt [simp]: "canon (json_opt a) = json_opt a"
  by (cases a) (simp_all add: json_opt_def)

lemma canon_JArr_JStr [simp]: "canon (JArr (map JStr xs)) = JArr (map JStr xs)"
  by (simp add: comp_def)

lemma uncertainty_value_inject [simp]:
  "ResidualUncertaintyClassification_value a = ResidualUncertaintyClassification_value b \<longleftrightarrow> a = b"
  by (cases a; cases b) simp_all

lemma canon_JObj_lookup:
  assumes "canon (JObj xs) = canon (JObj ys)" and "distinct (map fst xs)" and "distinct (map fst ys)"
  shows "map_option canon (map_of xs k) = map_option canon (map_of ys k)"
proof -
  let ?c = "map (\<lambda>(k, v). (k, canon v))"
  have "set (sort_key fst (?c xs)) = set (sort_key fst (?c ys))" using assms(1) by simp
  then have sets: "set (?c xs) = set (?c ys)" by simp
  have "map fst (?c xs) = map fst xs" "map fst (?c ys) = map fst ys" by auto
  then have "distinct (map fst (?c xs))" "distinct (map fst (?c ys))"
    using assms(2,3) by (simp_all only:)
  then have "map_of (?c xs) = map_of (?c ys)" using sets by (simp only: map_of_inject_set)
  then show ?thesis by (simp only: map_of_map comp_def) metis
qed

definition journal_keys :: "string list" where
  "journal_keys = [''contract_version'', ''journal_entry_id'', ''effect_id'', ''run_id'', ''attempt_id'', ''step_id'', ''authorization_basis_ref'', ''publication_sequence'', ''publication_timestamp'', ''intended_target_ref'', ''observed_result_ref'', ''uncertainty_classification'', ''integrity_verification_ref'', ''prior_journal_entry_id'', ''prior_entry_digest'', ''contradictory_entry_refs'', ''superseding_entry_refs'']"

definition journal_fields :: "EffectJournalEntryRecord \<Rightarrow> (string \<times> json) list" where
  "journal_fields e = (case journal_entry_payload e of JObj kvs \<Rightarrow> kvs | _ \<Rightarrow> [])"

lemma journal_payload_fields: "journal_entry_payload e = JObj (journal_fields e)"
  by (simp add: journal_fields_def journal_entry_payload_def)

lemma journal_fields_keys: "map fst (journal_fields e) = journal_keys"
  by (simp add: journal_fields_def journal_entry_payload_def journal_keys_def)

lemma journal_keys_distinct: "distinct journal_keys"
  by (simp add: journal_keys_def)

lemma journal_text_lookup:
  assumes "journal_text a = journal_text b"
  shows "map_option canon (map_of (journal_fields a) k) = map_option canon (map_of (journal_fields b) k)"
proof (rule canon_JObj_lookup)
  show "canon (JObj (journal_fields a)) = canon (JObj (journal_fields b))"
    using assms unfolding journal_text_def journal_payload_fields by (rule json_dumps_inj)
qed (simp_all only: journal_fields_keys journal_keys_distinct)

lemma journal_text_inj:
  assumes "journal_text a = journal_text b"
  shows "a\<lparr>je_entry_digest := d\<rparr> = b\<lparr>je_entry_digest := d\<rparr>"
proof -
  note l = journal_text_lookup [OF assms]
  have "je_contract_version a = je_contract_version b"
    using l [of "''contract_version''"] by (simp add: journal_fields_def journal_entry_payload_def)
  moreover
  have "je_journal_entry_id a = je_journal_entry_id b"
    using l [of "''journal_entry_id''"] by (simp add: journal_fields_def journal_entry_payload_def)
  moreover
  have "je_effect_id a = je_effect_id b"
    using l [of "''effect_id''"] by (simp add: journal_fields_def journal_entry_payload_def)
  moreover
  have "je_run_id a = je_run_id b"
    using l [of "''run_id''"] by (simp add: journal_fields_def journal_entry_payload_def)
  moreover
  have "je_attempt_id a = je_attempt_id b"
    using l [of "''attempt_id''"] by (simp add: journal_fields_def journal_entry_payload_def)
  moreover
  have "je_step_id a = je_step_id b"
    using l [of "''step_id''"] by (simp add: journal_fields_def journal_entry_payload_def)
  moreover
  have "je_authorization_basis_ref a = je_authorization_basis_ref b"
    using l [of "''authorization_basis_ref''"] by (simp add: journal_fields_def journal_entry_payload_def)
  moreover
  have "je_publication_sequence a = je_publication_sequence b"
    using l [of "''publication_sequence''"] by (simp add: journal_fields_def journal_entry_payload_def)
  moreover
  have "je_publication_timestamp a = je_publication_timestamp b"
    using l [of "''publication_timestamp''"] by (simp add: journal_fields_def journal_entry_payload_def)
  moreover
  have "je_intended_target_ref a = je_intended_target_ref b"
    using l [of "''intended_target_ref''"] by (simp add: journal_fields_def journal_entry_payload_def)
  moreover
  have "je_observed_result_ref a = je_observed_result_ref b"
    using l [of "''observed_result_ref''"] by (simp add: journal_fields_def journal_entry_payload_def)
  moreover
  have "je_uncertainty_classification a = je_uncertainty_classification b"
    using l [of "''uncertainty_classification''"] by (simp add: journal_fields_def journal_entry_payload_def)
  moreover
  have "je_integrity_verification_ref a = je_integrity_verification_ref b"
    using l [of "''integrity_verification_ref''"] by (simp add: journal_fields_def journal_entry_payload_def)
  moreover
  have "je_prior_journal_entry_id a = je_prior_journal_entry_id b"
    using l [of "''prior_journal_entry_id''"] by (simp add: journal_fields_def journal_entry_payload_def)
  moreover
  have "je_prior_entry_digest a = je_prior_entry_digest b"
    using l [of "''prior_entry_digest''"] by (simp add: journal_fields_def journal_entry_payload_def)
  moreover
  have "je_contradictory_entry_refs a = je_contradictory_entry_refs b"
    using l [of "''contradictory_entry_refs''"] by (simp add: journal_fields_def journal_entry_payload_def comp_def inj_map_eq_map inj_def)
  moreover
  have "je_superseding_entry_refs a = je_superseding_entry_refs b"
    using l [of "''superseding_entry_refs''"] by (simp add: journal_fields_def journal_entry_payload_def comp_def inj_map_eq_map inj_def)
  ultimately show ?thesis by (cases a; cases b) simp
qed

lemma same_text_same_digest_eq:
  assumes "journal_text a = journal_text b" and "je_entry_digest a = je_entry_digest b"
  shows "a = b"
proof -
  have "a\<lparr>je_entry_digest := je_entry_digest a\<rparr> = b\<lparr>je_entry_digest := je_entry_digest b\<rparr>"
    using journal_text_inj [OF assms(1), of "je_entry_digest b"] by (simp only: assms(2))
  then show ?thesis by simp
qed

lemma linked_snoc:
  "linked_from sha256 None (xs @ [e]) \<longleftrightarrow>
     linked_from sha256 None xs \<and> journal_link sha256 (last_entry None xs) e"
  by (simp add: linked_from_append)

lemma linked_chains_equal:
  assumes "linked_from sha256 None xs" and "linked_from sha256 None ys" and "xs \<noteq> []" and "ys \<noteq> []"
    and "je_entry_digest (last xs) = je_entry_digest (last ys)"
    and "inj_on sha256 (journal_text ` (set xs \<union> set ys))"
  shows "xs = ys"
  using assms
proof (induction xs arbitrary: ys rule: rev_induct)
  case (snoc a xs)
  obtain ys' b where ys: "ys = ys' @ [b]" using snoc.prems(4) by (cases ys rule: rev_cases) auto
  have la: "journal_link sha256 (last_entry None xs) a" and lb: "journal_link sha256 (last_entry None ys') b"
    using snoc.prems(1,2) by (simp_all add: linked_snoc ys)
  have d: "je_entry_digest a = je_entry_digest b" using snoc.prems(5) ys by simp
  then have "sha256 (journal_text a) = sha256 (journal_text b)"
    using la lb by (simp add: journal_link_def compute_effect_journal_entry_digest_def
        hash_canonical_payload_def journal_text_def)
  then have "journal_text a = journal_text b"
    using snoc.prems(6) by (rule_tac inj_onD [OF snoc.prems(6)]) (auto simp: ys)
  then have ab: "a = b" using d by (rule same_text_same_digest_eq)
  have "int (length (xs @ [a])) = int (length (ys' @ [b]))"
    using linked_last_sequence [OF snoc.prems(1)] linked_last_sequence [OF snoc.prems(2)] ab ys by simp
  then have len: "length xs = length ys'" by simp
  show ?case
  proof (cases "xs = []")
    case True
    then show ?thesis using len ab ys by simp
  next
    case False
    then have ne: "ys' \<noteq> []" using len by auto
    have "je_entry_digest (last xs) = je_entry_digest (last ys')"
      using la lb ab False ne by (simp add: journal_link_def last_entry_def)
    moreover have "inj_on sha256 (journal_text ` (set xs \<union> set ys'))"
      using snoc.prems(6) by (rule inj_on_subset) (auto simp: ys)
    moreover have "linked_from sha256 None xs" "linked_from sha256 None ys'"
      using snoc.prems(1,2) by (simp_all add: linked_snoc ys)
    ultimately have "xs = ys'" using snoc.IH False ne by blast
    then show ?thesis using ab ys by simp
  qed
qed simp

section \<open>What the journal guarantees\<close>

text \<open>A chain position by position: numbering, digest, link to the entry before, one run.\<close>

definition chain_at :: "hash \<Rightarrow> EffectJournalEntryRecord list \<Rightarrow> nat \<Rightarrow> bool" where
  "chain_at sha256 es i \<longleftrightarrow>
     je_publication_sequence (es ! i) = int i + 1 \<and>
     je_entry_digest (es ! i) = compute_effect_journal_entry_digest sha256 (es ! i) \<and>
     je_run_id (es ! i) = je_run_id (es ! 0) \<and>
     je_prior_journal_entry_id (es ! i) = (if i = 0 then None else Some (je_journal_entry_id (es ! (i - 1)))) \<and>
     je_prior_entry_digest (es ! i) = (if i = 0 then None else Some (je_entry_digest (es ! (i - 1))))"

definition journal_chain :: "hash \<Rightarrow> EffectJournalEntryRecord list \<Rightarrow> bool" where
  "journal_chain sha256 es \<longleftrightarrow> (\<forall>i < length es. chain_at sha256 es i)"

lemma chain_at_append: "i < length xs \<Longrightarrow> chain_at sha256 (xs @ ys) i = chain_at sha256 xs i"
proof -
  assume i: "i < length xs"
  then have "(xs @ ys) ! j = xs ! j" if "j \<le> i" for j using that by (simp add: nth_append)
  then have "(xs @ ys) ! i = xs ! i" "(xs @ ys) ! (i - 1) = xs ! (i - 1)" "(xs @ ys) ! 0 = xs ! 0"
    by simp_all
  then show ?thesis unfolding chain_at_def by (simp only:)
qed

lemma journal_chain_snoc:
  "journal_chain sha256 (xs @ [e]) \<longleftrightarrow> journal_chain sha256 xs \<and> chain_at sha256 (xs @ [e]) (length xs)"
  by (auto simp: journal_chain_def chain_at_append less_Suc_eq)

lemma chain_at_end:
  assumes "journal_chain sha256 xs"
  shows "chain_at sha256 (xs @ [e]) (length xs) \<longleftrightarrow> journal_link sha256 (last_entry None xs) e"
proof (cases xs rule: rev_cases)
  case Nil
  then show ?thesis by (auto simp: chain_at_def journal_link_def last_entry_def)
next
  case (snoc ys l)
  then have "chain_at sha256 (ys @ [l]) (length ys)" using assms by (simp add: journal_chain_snoc)
  then have "je_publication_sequence l = int (length ys) + 1" "je_run_id l = je_run_id ((ys @ [l]) ! 0)"
    by (simp_all add: chain_at_def)
  moreover have "(ys @ [l, e]) ! 0 = (ys @ [l]) ! 0" "(ys @ [l, e]) ! Suc (length ys) = e"
    "(ys @ [l, e]) ! length ys = l"
    by (cases ys; simp add: nth_append)+
  ultimately show ?thesis
    by (simp add: snoc chain_at_def journal_link_def last_entry_def) argo
qed

lemma linked_from_iff_chain: "linked_from sha256 None es \<longleftrightarrow> journal_chain sha256 es"
proof (induction es rule: rev_induct)
  case Nil
  then show ?case by (simp add: journal_chain_def)
next
  case (snoc e xs)
  then show ?case
    by (cases "journal_chain sha256 xs") (simp_all add: linked_snoc journal_chain_snoc chain_at_end)
qed

text \<open>
  C4: the chain check accepts exactly the journals that are, in some order, one chain: it returns the
  entries in the order of the chain, numbered from one without gap, each with the digest of its
  own content and the identifier and digest of its predecessor, all of one run. The order in
  which the entries are given does not matter.
\<close>

theorem journal_chain_accepted_iff:
  "validate_effect_journal_chain sha256 es = Inr xs \<longleftrightarrow> mset xs = mset es \<and> journal_chain sha256 xs"
proof
  assume "validate_effect_journal_chain sha256 es = Inr xs"
  then show "mset xs = mset es \<and> journal_chain sha256 xs"
    by (auto simp: validate_chain_iff linked_from_iff_chain)
next
  assume chain: "mset xs = mset es \<and> journal_chain sha256 xs"
  let ?seq = je_publication_sequence
  have linked: "linked_from sha256 None xs" using chain by (simp add: linked_from_iff_chain)
  have "distinct (map ?seq xs)"
    using chain by (auto simp: distinct_conv_nth journal_chain_def chain_at_def)
  moreover have "sorted (map ?seq xs)" using linked_sorted [OF linked] by (metis sorted_sort_key)
  ultimately have "sort_key ?seq es = xs" using chain by (intro sort_key_unique) simp_all
  then show "validate_effect_journal_chain sha256 es = Inr xs"
    using linked by (simp add: validate_chain_iff)
qed

lemma journal_tamper_evident_parts:
  assumes "validate_effect_journal_chain sha256 es = Inr xs" and "validate_effect_journal_chain sha256 fs = Inr ys"
    and "xs \<noteq> []" and "ys \<noteq> []" and "je_entry_digest (last xs) = je_entry_digest (last ys)"
    and "inj_on sha256 (journal_text ` (set xs \<union> set ys))"
  shows "xs = ys" and "mset es = mset fs"
proof -
  have "linked_from sha256 None xs" "linked_from sha256 None ys"
    using assms(1,2) by (auto simp: validate_chain_iff)
  then show eq: "xs = ys" using assms(3-6) by (rule linked_chains_equal)
  have "mset xs = mset es" "mset ys = mset fs" using assms(1,2) by (auto simp: validate_chain_iff)
  then show "mset es = mset fs" using eq by simp
qed

text \<open>
  C3: the journal is tamper evident: two accepted journals that end in the same digest hold the same
  entries, provided the hash has no collision among the texts of their entries.
\<close>

theorem journal_tamper_evident:
  assumes "validate_effect_journal_chain sha256 es = Inr xs" and "validate_effect_journal_chain sha256 fs = Inr ys"
    and "xs \<noteq> []" and "ys \<noteq> []" and "je_entry_digest (last xs) = je_entry_digest (last ys)"
    and "inj_on sha256 (journal_text ` (set xs \<union> set ys))"
  shows "xs = ys \<and>
     mset es = mset fs"
  using journal_tamper_evident_parts [OF assms] by blast

definition sample_entry :: EffectJournalEntryRecord where
  "sample_entry =
     \<lparr>je_contract_version = CONTROL_PLANE_CONTRACT_VERSION_V1, je_journal_entry_id = ''j1'',
      je_effect_id = ''e1'', je_run_id = ''run-1'', je_attempt_id = ''a1'', je_step_id = ''s1'',
      je_authorization_basis_ref = ''basis'', je_publication_sequence = 1,
      je_publication_timestamp = ''t1'', je_intended_target_ref = ''target'',
      je_observed_result_ref = Some ''ok'',
      je_uncertainty_classification = ResidualUncertaintyClassification.NONE,
      je_integrity_verification_ref = ''iv'', je_prior_journal_entry_id = None,
      je_prior_entry_digest = None, je_contradictory_entry_refs = [],
      je_superseding_entry_refs = [], je_entry_digest = ''pending''\<rparr>"

definition sealed_sample :: "hash \<Rightarrow> EffectJournalEntryRecord" where
  "sealed_sample sha256 =
     sample_entry\<lparr>je_entry_digest := compute_effect_journal_entry_digest sha256 sample_entry\<rparr>"

lemma sealed_sample_chain: "validate_effect_journal_chain sha256 [sealed_sample sha256] = Inr [sealed_sample sha256]"
proof -
  have "je_publication_sequence (sealed_sample sha256) = 1"
    and "je_entry_digest (sealed_sample sha256) = compute_effect_journal_entry_digest sha256 (sealed_sample sha256)"
    and "je_prior_journal_entry_id (sealed_sample sha256) = None"
    and "je_prior_entry_digest (sealed_sample sha256) = None"
    unfolding sealed_sample_def journal_digest_ignores_digest by (simp_all add: sample_entry_def)
  then show ?thesis by (simp add: validate_chain_iff journal_link_def)
qed

theorem journal_tamper_evident_witness:
  "validate_effect_journal_chain (\<lambda>s. s) [sealed_sample (\<lambda>s. s)] = Inr [sealed_sample (\<lambda>s. s)] \<and>
   mset [sealed_sample (\<lambda>s. s)] = mset [sealed_sample (\<lambda>s. s)]"
  using sealed_sample_chain [of "\<lambda>s. s"]
    journal_tamper_evident [OF sealed_sample_chain [of "\<lambda>s. s"] sealed_sample_chain [of "\<lambda>s. s"]]
  by simp

end
