(* ===== verification/Control_Plane_Repository.thy ===== *)
theory Control_Plane_Repository
  imports Control_Plane_Reservations Control_Plane_Recovery Control_Plane_Journal "HOL-Library.Sublist"
begin

text \<open>
  The SQLite record repository (\<open>orket/adapters/storage/async_control_plane_record_repository.py\<close>).

  A table is the list of its rows in the order of their rowid; a row holds the columns of the
  primary key, the other columns and the payload. Every operation of the class runs under one lock
  in one transaction: it is a function of the database, and a failing operation commits nothing.
  \<open>ORDER BY c\<close> is \<open>sort_key c\<close>, which keeps the rowid order of equal keys; text columns
  compare by code point.

  \<open>model_dump_json\<close> and \<open>model_validate_json\<close> of the model classes are the parameter \<open>codec\<close>, one
  pair of functions per class into an arbitrary type of payloads; \<open>codec_ok\<close> states what they are
  documented to do: reading back the dump of a valid record gives that record.

  The interface \<open>record_store\<close> is what the repository promises of each table: a key is written at
  most once, a second write of the same content is a no-op and of other content is refused. Its
  lemmas are proved once and hold for the twelve tables by interpretation.
\<close>

section \<open>Tables\<close>

record ('k, 'c, 'p) row =
  row_key :: 'k
  row_cols :: 'c
  payload_json :: 'p

record 'p codec =
  dump_policy :: "ResolvedPolicySnapshot \<Rightarrow> 'p"
  load_policy :: "'p \<Rightarrow> ResolvedPolicySnapshot result"
  dump_configuration :: "ResolvedConfigurationSnapshot \<Rightarrow> 'p"
  load_configuration :: "'p \<Rightarrow> ResolvedConfigurationSnapshot result"
  dump_reservation :: "ReservationRecord \<Rightarrow> 'p"
  load_reservation :: "'p \<Rightarrow> ReservationRecord result"
  dump_resource :: "ResourceRecord \<Rightarrow> 'p"
  load_resource :: "'p \<Rightarrow> ResourceRecord result"
  dump_journal :: "EffectJournalEntryRecord \<Rightarrow> 'p"
  load_journal :: "'p \<Rightarrow> EffectJournalEntryRecord result"
  dump_checkpoint :: "CheckpointRecord \<Rightarrow> 'p"
  load_checkpoint :: "'p \<Rightarrow> CheckpointRecord result"
  dump_acceptance :: "CheckpointAcceptanceRecord \<Rightarrow> 'p"
  load_acceptance :: "'p \<Rightarrow> CheckpointAcceptanceRecord result"
  dump_recovery :: "RecoveryDecisionRecord \<Rightarrow> 'p"
  load_recovery :: "'p \<Rightarrow> RecoveryDecisionRecord result"
  dump_lease :: "LeaseRecord \<Rightarrow> 'p"
  load_lease :: "'p \<Rightarrow> LeaseRecord result"
  dump_reconciliation :: "ReconciliationRecord \<Rightarrow> 'p"
  load_reconciliation :: "'p \<Rightarrow> ReconciliationRecord result"
  dump_operator :: "OperatorActionRecord \<Rightarrow> 'p"
  load_operator :: "'p \<Rightarrow> OperatorActionRecord result"
  dump_truth :: "FinalTruthRecord \<Rightarrow> 'p"
  load_truth :: "'p \<Rightarrow> FinalTruthRecord result"

definition codec_ok :: "'p codec \<Rightarrow> bool" where
  "codec_ok c \<longleftrightarrow>
     (\<forall>r. ResolvedPolicySnapshot_init r = Inr r \<longrightarrow> load_policy c (dump_policy c r) = Inr r) \<and>
     (\<forall>r. ResolvedConfigurationSnapshot_init r = Inr r \<longrightarrow> load_configuration c (dump_configuration c r) = Inr r) \<and>
     (\<forall>r. ReservationRecord_init r = Inr r \<longrightarrow> load_reservation c (dump_reservation c r) = Inr r) \<and>
     (\<forall>r. ResourceRecord_init r = Inr r \<longrightarrow> load_resource c (dump_resource c r) = Inr r) \<and>
     (\<forall>r. EffectJournalEntryRecord_init r = Inr r \<longrightarrow> load_journal c (dump_journal c r) = Inr r) \<and>
     (\<forall>r. CheckpointRecord_init r = Inr r \<longrightarrow> load_checkpoint c (dump_checkpoint c r) = Inr r) \<and>
     (\<forall>r. CheckpointAcceptanceRecord_init r = Inr r \<longrightarrow> load_acceptance c (dump_acceptance c r) = Inr r) \<and>
     (\<forall>r. RecoveryDecisionRecord_init r = Inr r \<longrightarrow> load_recovery c (dump_recovery c r) = Inr r) \<and>
     (\<forall>r. LeaseRecord_init r = Inr r \<longrightarrow> load_lease c (dump_lease c r) = Inr r) \<and>
     (\<forall>r. ReconciliationRecord_init r = Inr r \<longrightarrow> load_reconciliation c (dump_reconciliation c r) = Inr r) \<and>
     (\<forall>r. OperatorActionRecord_init r = Inr r \<longrightarrow> load_operator c (dump_operator c r) = Inr r) \<and>
     (\<forall>r. FinalTruthRecord_init r = Inr r \<longrightarrow> load_truth c (dump_truth c r) = Inr r)"

record 'p cp_db =
  resolved_policy_snapshots :: "(string, string, 'p) row list"
  resolved_configuration_snapshots :: "(string, string, 'p) row list"
  reservation_records :: "(string \<times> string, string, 'p) row list"
  resource_records :: "(string \<times> string \<times> string, unit, 'p) row list"
  effect_journal_entries :: "(string, string \<times> int \<times> string, 'p) row list"
  checkpoint_records :: "(string, string \<times> string, 'p) row list"
  checkpoint_acceptance_records :: "(string, string \<times> string, 'p) row list"
  recovery_decision_records :: "(string, string, 'p) row list"
  lease_records :: "(string \<times> int \<times> string \<times> string, string, 'p) row list"
  reconciliation_records :: "(string, string \<times> string, 'p) row list"
  operator_action_records :: "(string, string \<times> string, 'p) row list"
  final_truth_records :: "(string, string, 'p) row list"

definition empty_db :: "'p cp_db" where
  "empty_db = \<lparr>resolved_policy_snapshots = [], resolved_configuration_snapshots = [], reservation_records = [], resource_records = [], effect_journal_entries = [], checkpoint_records = [], checkpoint_acceptance_records = [], recovery_decision_records = [], lease_records = [], reconciliation_records = [], operator_action_records = [], final_truth_records = []\<rparr>"

text \<open>
  \<open>SELECT payload_json ... WHERE key = ?\<close>, then either the check against the stored payload or the
  insertion, as \<open>_insert_or_return_existing\<close> and the save methods with composite keys do it.
\<close>

definition select_payload :: "'k \<Rightarrow> ('k, 'c, 'p) row list \<Rightarrow> 'p option" where
  "select_payload k rows = map_option payload_json (find (\<lambda>w. row_key w = k) rows)"

definition insert_or_return_existing ::
  "string \<Rightarrow> 'k \<Rightarrow> 'p \<Rightarrow> (('k, 'c, 'p) row list, 'r) eff \<Rightarrow> ('p \<Rightarrow> 'r result) \<Rightarrow>
   (('k, 'c, 'p) row list, 'r) eff" where
  "insert_or_return_existing conflict k payload insert_op parse_existing rows =
     (case select_payload k rows of
        Some existing_payload \<Rightarrow>
          if existing_payload \<noteq> payload
          then (Inl (ControlPlaneRecordConflictError conflict), rows)
          else (parse_existing existing_payload, rows)
      | None \<Rightarrow> insert_op rows)"

definition insert_row :: "('k, 'c, 'p) row \<Rightarrow> 'r \<Rightarrow> (('k, 'c, 'p) row list, 'r) eff" where
  "insert_row w r rows = (Inr r, rows @ [w])"

text \<open>\<open>LIMIT 1\<close> of a descending order is the last row of the ascending order.\<close>

definition last_row :: "('k, 'c, 'p) row list \<Rightarrow> ('k, 'c, 'p) row option" where
  "last_row rows = (if rows = [] then None else Some (last rows))"

definition load_opt :: "('p \<Rightarrow> 'r result) \<Rightarrow> 'p option \<Rightarrow> 'r option result" where
  "load_opt load x = (case x of None \<Rightarrow> Inr None | Some p \<Rightarrow> bind_result (load p) (\<lambda>r. Inr (Some r)))"

section \<open>Writes\<close>

definition save_resolved_policy_snapshot :: "'p codec \<Rightarrow> ResolvedPolicySnapshot \<Rightarrow> ('p cp_db, ResolvedPolicySnapshot) eff" where
  "save_resolved_policy_snapshot c r db =
     (case insert_or_return_existing ''resolved_policy_snapshots.snapshot_id reused with different payload''
         (pol_snapshot_id r) (dump_policy c r)
         (insert_row \<lparr>row_key = pol_snapshot_id r,
            row_cols = pol_created_at r, payload_json = dump_policy c r\<rparr> r)
         (load_policy c) (resolved_policy_snapshots db)
      of (res, rows) \<Rightarrow> (res, db\<lparr>resolved_policy_snapshots := rows\<rparr>))"

definition save_resolved_configuration_snapshot :: "'p codec \<Rightarrow> ResolvedConfigurationSnapshot \<Rightarrow> ('p cp_db, ResolvedConfigurationSnapshot) eff" where
  "save_resolved_configuration_snapshot c r db =
     (case insert_or_return_existing ''resolved_configuration_snapshots.snapshot_id reused with different payload''
         (cfg_snapshot_id r) (dump_configuration c r)
         (insert_row \<lparr>row_key = cfg_snapshot_id r,
            row_cols = cfg_created_at r, payload_json = dump_configuration c r\<rparr> r)
         (load_configuration c) (resolved_configuration_snapshots db)
      of (res, rows) \<Rightarrow> (res, db\<lparr>resolved_configuration_snapshots := rows\<rparr>))"

definition save_reservation_record :: "'p codec \<Rightarrow> ReservationRecord \<Rightarrow> ('p cp_db, ReservationRecord) eff" where
  "save_reservation_record c r db =
     (case insert_or_return_existing ''reservation_records composite key reused with different payload''
         ((rsv_reservation_id r, ReservationStatus_value (rsv_status r))) (dump_reservation c r)
         (insert_row \<lparr>row_key = (rsv_reservation_id r, ReservationStatus_value (rsv_status r)),
            row_cols = rsv_creation_timestamp r, payload_json = dump_reservation c r\<rparr> r)
         (load_reservation c) (reservation_records db)
      of (res, rows) \<Rightarrow> (res, db\<lparr>reservation_records := rows\<rparr>))"

definition save_resource_record :: "'p codec \<Rightarrow> ResourceRecord \<Rightarrow> ('p cp_db, ResourceRecord) eff" where
  "save_resource_record c r db =
     (case insert_or_return_existing ''resource_records composite key reused with different payload''
         ((rsc_resource_id r, rsc_last_observed_timestamp r, rsc_current_observed_state r)) (dump_resource c r)
         (insert_row \<lparr>row_key = (rsc_resource_id r, rsc_last_observed_timestamp r, rsc_current_observed_state r),
            row_cols = (), payload_json = dump_resource c r\<rparr> r)
         (load_resource c) (resource_records db)
      of (res, rows) \<Rightarrow> (res, db\<lparr>resource_records := rows\<rparr>))"

text \<open>
  The journal table also has a unique index on \<open>(run_id, publication_sequence)\<close>; an insertion that
  would break it raises and leaves the table as it was.
\<close>

definition journal_sequence_taken :: "string \<Rightarrow> int \<Rightarrow> (string, string \<times> int \<times> string, 'p) row list \<Rightarrow> bool" where
  "journal_sequence_taken run_id n rows =
     list_ex (\<lambda>w. fst (row_cols w) = run_id \<and> fst (snd (row_cols w)) = n) rows"

definition append_effect_journal_entry :: "'p codec \<Rightarrow> string \<Rightarrow> EffectJournalEntryRecord \<Rightarrow> ('p cp_db, EffectJournalEntryRecord) eff" where
  "append_effect_journal_entry c run_id r db =
     (case insert_or_return_existing ''effect_journal_entries.journal_entry_id reused with different payload''
         (je_journal_entry_id r) (dump_journal c r)
         (\<lambda>rows. if journal_sequence_taken run_id (je_publication_sequence r) rows
            then (Inl (IntegrityError ''UNIQUE constraint failed: effect_journal_entries.run_id, effect_journal_entries.publication_sequence''), rows)
            else insert_row \<lparr>row_key = je_journal_entry_id r,
                             row_cols = (run_id, je_publication_sequence r, je_entry_digest r),
                             payload_json = dump_journal c r\<rparr> r rows)
         (load_journal c) (effect_journal_entries db)
      of (res, rows) \<Rightarrow> (res, db\<lparr>effect_journal_entries := rows\<rparr>))"

definition save_checkpoint :: "'p codec \<Rightarrow> CheckpointRecord \<Rightarrow> ('p cp_db, CheckpointRecord) eff" where
  "save_checkpoint c r db =
     (case insert_or_return_existing ''checkpoint_records.checkpoint_id reused with different payload''
         (cp_checkpoint_id r) (dump_checkpoint c r)
         (insert_row \<lparr>row_key = cp_checkpoint_id r,
            row_cols = (cp_parent_ref r, cp_creation_timestamp r), payload_json = dump_checkpoint c r\<rparr> r)
         (load_checkpoint c) (checkpoint_records db)
      of (res, rows) \<Rightarrow> (res, db\<lparr>checkpoint_records := rows\<rparr>))"

definition save_checkpoint_acceptance :: "'p codec \<Rightarrow> CheckpointAcceptanceRecord \<Rightarrow> ('p cp_db, CheckpointAcceptanceRecord) eff" where
  "save_checkpoint_acceptance c r db =
     (case insert_or_return_existing ''checkpoint_acceptance_records.acceptance_id reused with different payload''
         (ca_acceptance_id r) (dump_acceptance c r)
         (insert_row \<lparr>row_key = ca_acceptance_id r,
            row_cols = (ca_checkpoint_id r, ca_decision_timestamp r), payload_json = dump_acceptance c r\<rparr> r)
         (load_acceptance c) (checkpoint_acceptance_records db)
      of (res, rows) \<Rightarrow> (res, db\<lparr>checkpoint_acceptance_records := rows\<rparr>))"

definition save_recovery_decision :: "'p codec \<Rightarrow> RecoveryDecisionRecord \<Rightarrow> ('p cp_db, RecoveryDecisionRecord) eff" where
  "save_recovery_decision c r db =
     (case insert_or_return_existing ''recovery_decision_records.decision_id reused with different payload''
         (rd_decision_id r) (dump_recovery c r)
         (insert_row \<lparr>row_key = rd_decision_id r,
            row_cols = rd_run_id r, payload_json = dump_recovery c r\<rparr> r)
         (load_recovery c) (recovery_decision_records db)
      of (res, rows) \<Rightarrow> (res, db\<lparr>recovery_decision_records := rows\<rparr>))"

definition append_lease_record :: "'p codec \<Rightarrow> LeaseRecord \<Rightarrow> ('p cp_db, LeaseRecord) eff" where
  "append_lease_record c r db =
     (case insert_or_return_existing ''lease_records composite key reused with different payload''
         ((ls_lease_id r, ls_lease_epoch r, LeaseStatus_value (ls_status r), ls_publication_timestamp r)) (dump_lease c r)
         (insert_row \<lparr>row_key = (ls_lease_id r, ls_lease_epoch r, LeaseStatus_value (ls_status r), ls_publication_timestamp r),
            row_cols = ls_resource_id r, payload_json = dump_lease c r\<rparr> r)
         (load_lease c) (lease_records db)
      of (res, rows) \<Rightarrow> (res, db\<lparr>lease_records := rows\<rparr>))"

definition save_reconciliation_record :: "'p codec \<Rightarrow> ReconciliationRecord \<Rightarrow> ('p cp_db, ReconciliationRecord) eff" where
  "save_reconciliation_record c r db =
     (case insert_or_return_existing ''reconciliation_records.reconciliation_id reused with different payload''
         (rc_reconciliation_id r) (dump_reconciliation c r)
         (insert_row \<lparr>row_key = rc_reconciliation_id r,
            row_cols = (rc_target_ref r, rc_publication_timestamp r), payload_json = dump_reconciliation c r\<rparr> r)
         (load_reconciliation c) (reconciliation_records db)
      of (res, rows) \<Rightarrow> (res, db\<lparr>reconciliation_records := rows\<rparr>))"

definition save_operator_action :: "'p codec \<Rightarrow> OperatorActionRecord \<Rightarrow> ('p cp_db, OperatorActionRecord) eff" where
  "save_operator_action c r db =
     (case insert_or_return_existing ''operator_action_records.action_id reused with different payload''
         (op_action_id r) (dump_operator c r)
         (insert_row \<lparr>row_key = op_action_id r,
            row_cols = (op_target_ref r, op_timestamp r), payload_json = dump_operator c r\<rparr> r)
         (load_operator c) (operator_action_records db)
      of (res, rows) \<Rightarrow> (res, db\<lparr>operator_action_records := rows\<rparr>))"

definition save_final_truth :: "'p codec \<Rightarrow> FinalTruthRecord \<Rightarrow> ('p cp_db, FinalTruthRecord) eff" where
  "save_final_truth c r db =
     (case insert_or_return_existing ''final_truth_records.final_truth_record_id reused with different payload''
         (ft_final_truth_record_id r) (dump_truth c r)
         (insert_row \<lparr>row_key = ft_final_truth_record_id r,
            row_cols = ft_run_id r, payload_json = dump_truth c r\<rparr> r)
         (load_truth c) (final_truth_records db)
      of (res, rows) \<Rightarrow> (res, db\<lparr>final_truth_records := rows\<rparr>))"

section \<open>Reads\<close>

definition get_resolved_policy_snapshot :: "'p codec \<Rightarrow> string \<Rightarrow> 'p cp_db \<Rightarrow> ResolvedPolicySnapshot option result" where
  "get_resolved_policy_snapshot c k db = load_opt (load_policy c) (select_payload k (resolved_policy_snapshots db))"

definition get_resolved_configuration_snapshot :: "'p codec \<Rightarrow> string \<Rightarrow> 'p cp_db \<Rightarrow> ResolvedConfigurationSnapshot option result" where
  "get_resolved_configuration_snapshot c k db = load_opt (load_configuration c) (select_payload k (resolved_configuration_snapshots db))"

definition list_reservation_records :: "'p codec \<Rightarrow> string \<Rightarrow> 'p cp_db \<Rightarrow> ReservationRecord list result" where
  "list_reservation_records c k db = traverse (load_reservation c) (map payload_json
     (filter (\<lambda>w. fst (row_key w) = k) (reservation_records db)))"

definition get_latest_reservation_record :: "'p codec \<Rightarrow> string \<Rightarrow> 'p cp_db \<Rightarrow> ReservationRecord option result" where
  "get_latest_reservation_record c k db = load_opt (load_reservation c) (map_option payload_json (last_row
     (filter (\<lambda>w. fst (row_key w) = k) (reservation_records db))))"

definition list_reservation_records_for_holder_ref ::
  "'p codec \<Rightarrow> string \<Rightarrow> 'p cp_db \<Rightarrow> ReservationRecord list result" where
  "list_reservation_records_for_holder_ref c holder_ref db =
     bind_result (traverse (load_reservation c) (map payload_json
         (sort_key (\<lambda>w. (row_cols w, fst (row_key w))) (reservation_records db))))
       (\<lambda>records. Inr (filter (\<lambda>r. rsv_holder_ref r = holder_ref) records))"

definition get_latest_reservation_record_for_holder_ref ::
  "'p codec \<Rightarrow> string \<Rightarrow> 'p cp_db \<Rightarrow> ReservationRecord option result" where
  "get_latest_reservation_record_for_holder_ref c holder_ref db =
     bind_result (list_reservation_records_for_holder_ref c holder_ref db)
       (\<lambda>records. Inr (if records = [] then None else Some (last records)))"

definition list_resource_records :: "'p codec \<Rightarrow> string \<Rightarrow> 'p cp_db \<Rightarrow> ResourceRecord list result" where
  "list_resource_records c k db = traverse (load_resource c) (map payload_json
     (filter (\<lambda>w. fst (row_key w) = k) (resource_records db)))"

definition get_latest_resource_record :: "'p codec \<Rightarrow> string \<Rightarrow> 'p cp_db \<Rightarrow> ResourceRecord option result" where
  "get_latest_resource_record c k db = load_opt (load_resource c) (map_option payload_json (last_row
     (filter (\<lambda>w. fst (row_key w) = k) (resource_records db))))"

definition list_effect_journal_entries :: "'p codec \<Rightarrow> string \<Rightarrow> 'p cp_db \<Rightarrow> EffectJournalEntryRecord list result" where
  "list_effect_journal_entries c k db = traverse (load_journal c) (map payload_json
     (sort_key (\<lambda>w. fst (snd (row_cols w))) (filter (\<lambda>w. fst (row_cols w) = k) (effect_journal_entries db))))"

definition get_checkpoint :: "'p codec \<Rightarrow> string \<Rightarrow> 'p cp_db \<Rightarrow> CheckpointRecord option result" where
  "get_checkpoint c k db = load_opt (load_checkpoint c) (select_payload k (checkpoint_records db))"

definition list_checkpoints :: "'p codec \<Rightarrow> string \<Rightarrow> 'p cp_db \<Rightarrow> CheckpointRecord list result" where
  "list_checkpoints c k db = traverse (load_checkpoint c) (map payload_json
     (sort_key (\<lambda>w. (snd (row_cols w), row_key w)) (filter (\<lambda>w. fst (row_cols w) = k) (checkpoint_records db))))"

definition get_checkpoint_acceptance :: "'p codec \<Rightarrow> string \<Rightarrow> 'p cp_db \<Rightarrow> CheckpointAcceptanceRecord option result" where
  "get_checkpoint_acceptance c k db = load_opt (load_acceptance c) (map_option payload_json (last_row
     (sort_key (\<lambda>w. (snd (row_cols w), row_key w)) (filter (\<lambda>w. fst (row_cols w) = k) (checkpoint_acceptance_records db)))))"

definition get_recovery_decision :: "'p codec \<Rightarrow> string \<Rightarrow> 'p cp_db \<Rightarrow> RecoveryDecisionRecord option result" where
  "get_recovery_decision c k db = load_opt (load_recovery c) (select_payload k (recovery_decision_records db))"

definition list_lease_records :: "'p codec \<Rightarrow> string \<Rightarrow> 'p cp_db \<Rightarrow> LeaseRecord list result" where
  "list_lease_records c k db = traverse (load_lease c) (map payload_json
     (sort_key (\<lambda>w. (fst (snd (row_key w)), snd (snd (snd (row_key w))))) (filter (\<lambda>w. fst (row_key w) = k) (lease_records db))))"

definition get_latest_lease_record :: "'p codec \<Rightarrow> string \<Rightarrow> 'p cp_db \<Rightarrow> LeaseRecord option result" where
  "get_latest_lease_record c k db = load_opt (load_lease c) (map_option payload_json (last_row
     (sort_key (\<lambda>w. (fst (snd (row_key w)), snd (snd (snd (row_key w))))) (filter (\<lambda>w. fst (row_key w) = k) (lease_records db)))))"

definition get_reconciliation_record :: "'p codec \<Rightarrow> string \<Rightarrow> 'p cp_db \<Rightarrow> ReconciliationRecord option result" where
  "get_reconciliation_record c k db = load_opt (load_reconciliation c) (select_payload k (reconciliation_records db))"

definition list_reconciliation_records :: "'p codec \<Rightarrow> string \<Rightarrow> 'p cp_db \<Rightarrow> ReconciliationRecord list result" where
  "list_reconciliation_records c k db = traverse (load_reconciliation c) (map payload_json
     (sort_key (\<lambda>w. (snd (row_cols w), row_key w)) (filter (\<lambda>w. fst (row_cols w) = k) (reconciliation_records db))))"

definition get_latest_reconciliation_record :: "'p codec \<Rightarrow> string \<Rightarrow> 'p cp_db \<Rightarrow> ReconciliationRecord option result" where
  "get_latest_reconciliation_record c k db = load_opt (load_reconciliation c) (map_option payload_json (last_row
     (sort_key (\<lambda>w. (snd (row_cols w), row_key w)) (filter (\<lambda>w. fst (row_cols w) = k) (reconciliation_records db)))))"

definition get_operator_action :: "'p codec \<Rightarrow> string \<Rightarrow> 'p cp_db \<Rightarrow> OperatorActionRecord option result" where
  "get_operator_action c k db = load_opt (load_operator c) (select_payload k (operator_action_records db))"

definition list_operator_actions :: "'p codec \<Rightarrow> string \<Rightarrow> 'p cp_db \<Rightarrow> OperatorActionRecord list result" where
  "list_operator_actions c k db = traverse (load_operator c) (map payload_json
     (sort_key (\<lambda>w. (snd (row_cols w), row_key w)) (filter (\<lambda>w. fst (row_cols w) = k) (operator_action_records db))))"

definition get_final_truth :: "'p codec \<Rightarrow> string \<Rightarrow> 'p cp_db \<Rightarrow> FinalTruthRecord option result" where
  "get_final_truth c k db = load_opt (load_truth c) (map_option payload_json (last_row
     (sort_key (\<lambda>w. row_key w) (filter (\<lambda>w. row_cols w = k) (final_truth_records db)))))"

section \<open>The contract of a table\<close>

lemma select_payload_Nil [simp]: "select_payload k [] = None"
  by (simp add: select_payload_def)

lemma select_payload_snoc [simp]:
  "select_payload k (rows @ [w]) =
     (case select_payload k rows of
        Some p \<Rightarrow> Some p
      | None \<Rightarrow> if row_key w = k then Some (payload_json w) else None)"
  by (induction rows) (auto simp: select_payload_def)

lemma select_payload_Some_in:
  "select_payload k rows = Some p \<Longrightarrow> \<exists>w \<in> set rows. row_key w = k \<and> payload_json w = p"
  by (auto simp: select_payload_def find_Some_iff)

lemma select_payload_None_iff: "select_payload k rows = None \<longleftrightarrow> k \<notin> row_key ` set rows"
  by (auto simp: select_payload_def find_None_iff)

definition save_all :: "('r \<Rightarrow> ('db, 'r) eff) \<Rightarrow> 'r list \<Rightarrow> 'db \<Rightarrow> 'db" where
  "save_all save rs db = fold (\<lambda>r db. snd (save r db)) rs db"

locale record_store =
  fixes key_of :: "'r \<Rightarrow> 'k"
    and dump :: "'r \<Rightarrow> 'p"
    and load :: "'p \<Rightarrow> 'r result"
    and save :: "'r \<Rightarrow> ('db, 'r) eff"
    and stored :: "'db \<Rightarrow> 'k \<Rightarrow> 'p option"
    and blocked :: "'r \<Rightarrow> 'db \<Rightarrow> bool"
  assumes save_new: "stored db (key_of r) = None \<Longrightarrow> \<not> blocked r db \<Longrightarrow>
      fst (save r db) = Inr r \<and> stored (snd (save r db)) = (stored db)(key_of r \<mapsto> dump r)"
    and save_blocked: "stored db (key_of r) = None \<Longrightarrow> blocked r db \<Longrightarrow>
      (\<exists>m. fst (save r db) = Inl (IntegrityError m)) \<and> snd (save r db) = db"
    and save_same: "stored db (key_of r) = Some (dump r) \<Longrightarrow> save r db = (load (dump r), db)"
    and save_conflict: "stored db (key_of r) = Some p \<Longrightarrow> p \<noteq> dump r \<Longrightarrow>
      (\<exists>m. fst (save r db) = Inl (ControlPlaneRecordConflictError m)) \<and> snd (save r db) = db"
begin

lemma saved_is_stored:
  assumes "fst (save r db) = Inr r'"
  shows "stored (snd (save r db)) (key_of r) = Some (dump r)"
proof (cases "stored db (key_of r)")
  case None
  then show ?thesis using save_new [OF None] save_blocked [OF None] assms by (cases "blocked r db") auto
next
  case (Some p)
  then show ?thesis using save_same save_conflict [OF Some] assms by (cases "p = dump r") auto
qed

lemma stored_kept:
  assumes "stored db k = Some p"
  shows "stored (snd (save r db)) k = Some p"
proof (cases "stored db (key_of r)")
  case None
  then show ?thesis using save_new [OF None] save_blocked [OF None] assms
    by (cases "blocked r db") auto
next
  case (Some q)
  then show ?thesis using save_same save_conflict [OF Some] assms by (cases "q = dump r") auto
qed

lemma stored_kept_by_all:
  "stored db k = Some p \<Longrightarrow> stored (save_all save rs db) k = Some p"
  by (induction rs arbitrary: db) (simp_all add: save_all_def stored_kept)

lemma failed_save_unchanged:
  assumes "fst (save r db) = Inl e"
  shows "snd (save r db) = db"
proof (cases "stored db (key_of r)")
  case None
  then show ?thesis using save_new [OF None] save_blocked [OF None] assms by (cases "blocked r db") auto
next
  case (Some q)
  then show ?thesis using save_same save_conflict [OF Some] assms by (cases "q = dump r") auto
qed

lemma first_write_wins:
  assumes "fst (save r db) = Inr r'" and "key_of q = key_of r" and "dump q \<noteq> dump r"
  shows "\<exists>m. fst (save q (save_all save rs (snd (save r db)))) = Inl (ControlPlaneRecordConflictError m)"
proof -
  have "stored (save_all save rs (snd (save r db))) (key_of q) = Some (dump r)"
    using stored_kept_by_all saved_is_stored [OF assms(1)] assms(2) by simp
  then show ?thesis using save_conflict assms(3) by metis
qed

lemma rewrite_is_noop:
  assumes "fst (save r db) = Inr r'" and "load (dump r) = Inr r"
  shows "save r (save_all save rs (snd (save r db))) = (Inr r, save_all save rs (snd (save r db)))"
proof -
  have "stored (save_all save rs (snd (save r db))) (key_of r) = Some (dump r)"
    using stored_kept_by_all saved_is_stored [OF assms(1)] by simp
  then show ?thesis using save_same assms(2) by simp
qed

end

text \<open>The interface holds for each of the tables.\<close>

interpretation policy_store: record_store "\<lambda>r. pol_snapshot_id r" "dump_policy c" "load_policy c" "save_resolved_policy_snapshot c"
  "\<lambda>db k. select_payload k (resolved_policy_snapshots db)" "\<lambda>_ _. False" for c :: "'p codec"
  by unfold_locales
     (auto simp: save_resolved_policy_snapshot_def insert_or_return_existing_def insert_row_def fun_eq_iff
        split: option.splits)

interpretation configuration_store: record_store "\<lambda>r. cfg_snapshot_id r" "dump_configuration c" "load_configuration c" "save_resolved_configuration_snapshot c"
  "\<lambda>db k. select_payload k (resolved_configuration_snapshots db)" "\<lambda>_ _. False" for c :: "'p codec"
  by unfold_locales
     (auto simp: save_resolved_configuration_snapshot_def insert_or_return_existing_def insert_row_def fun_eq_iff
        split: option.splits)

interpretation reservation_store: record_store "\<lambda>r. (rsv_reservation_id r, ReservationStatus_value (rsv_status r))" "dump_reservation c" "load_reservation c" "save_reservation_record c"
  "\<lambda>db k. select_payload k (reservation_records db)" "\<lambda>_ _. False" for c :: "'p codec"
  by unfold_locales
     (auto simp: save_reservation_record_def insert_or_return_existing_def insert_row_def fun_eq_iff
        split: option.splits)

interpretation resource_store: record_store "\<lambda>r. (rsc_resource_id r, rsc_last_observed_timestamp r, rsc_current_observed_state r)" "dump_resource c" "load_resource c" "save_resource_record c"
  "\<lambda>db k. select_payload k (resource_records db)" "\<lambda>_ _. False" for c :: "'p codec"
  by unfold_locales
     (auto simp: save_resource_record_def insert_or_return_existing_def insert_row_def fun_eq_iff
        split: option.splits)

interpretation journal_store: record_store "\<lambda>r. je_journal_entry_id r" "dump_journal c" "load_journal c" "\<lambda>r. append_effect_journal_entry c (je_run_id r) r"
  "\<lambda>db k. select_payload k (effect_journal_entries db)" "\<lambda>r db. journal_sequence_taken (je_run_id r) (je_publication_sequence r) (effect_journal_entries db)" for c :: "'p codec"
  by unfold_locales
     (auto simp: append_effect_journal_entry_def insert_or_return_existing_def insert_row_def fun_eq_iff
        split: option.splits)

interpretation checkpoint_store: record_store "\<lambda>r. cp_checkpoint_id r" "dump_checkpoint c" "load_checkpoint c" "save_checkpoint c"
  "\<lambda>db k. select_payload k (checkpoint_records db)" "\<lambda>_ _. False" for c :: "'p codec"
  by unfold_locales
     (auto simp: save_checkpoint_def insert_or_return_existing_def insert_row_def fun_eq_iff
        split: option.splits)

interpretation acceptance_store: record_store "\<lambda>r. ca_acceptance_id r" "dump_acceptance c" "load_acceptance c" "save_checkpoint_acceptance c"
  "\<lambda>db k. select_payload k (checkpoint_acceptance_records db)" "\<lambda>_ _. False" for c :: "'p codec"
  by unfold_locales
     (auto simp: save_checkpoint_acceptance_def insert_or_return_existing_def insert_row_def fun_eq_iff
        split: option.splits)

interpretation recovery_store: record_store "\<lambda>r. rd_decision_id r" "dump_recovery c" "load_recovery c" "save_recovery_decision c"
  "\<lambda>db k. select_payload k (recovery_decision_records db)" "\<lambda>_ _. False" for c :: "'p codec"
  by unfold_locales
     (auto simp: save_recovery_decision_def insert_or_return_existing_def insert_row_def fun_eq_iff
        split: option.splits)

interpretation lease_store: record_store "\<lambda>r. (ls_lease_id r, ls_lease_epoch r, LeaseStatus_value (ls_status r), ls_publication_timestamp r)" "dump_lease c" "load_lease c" "append_lease_record c"
  "\<lambda>db k. select_payload k (lease_records db)" "\<lambda>_ _. False" for c :: "'p codec"
  by unfold_locales
     (auto simp: append_lease_record_def insert_or_return_existing_def insert_row_def fun_eq_iff
        split: option.splits)

interpretation reconciliation_store: record_store "\<lambda>r. rc_reconciliation_id r" "dump_reconciliation c" "load_reconciliation c" "save_reconciliation_record c"
  "\<lambda>db k. select_payload k (reconciliation_records db)" "\<lambda>_ _. False" for c :: "'p codec"
  by unfold_locales
     (auto simp: save_reconciliation_record_def insert_or_return_existing_def insert_row_def fun_eq_iff
        split: option.splits)

interpretation operator_store: record_store "\<lambda>r. op_action_id r" "dump_operator c" "load_operator c" "save_operator_action c"
  "\<lambda>db k. select_payload k (operator_action_records db)" "\<lambda>_ _. False" for c :: "'p codec"
  by unfold_locales
     (auto simp: save_operator_action_def insert_or_return_existing_def insert_row_def fun_eq_iff
        split: option.splits)

interpretation truth_store: record_store "\<lambda>r. ft_final_truth_record_id r" "dump_truth c" "load_truth c" "save_final_truth c"
  "\<lambda>db k. select_payload k (final_truth_records db)" "\<lambda>_ _. False" for c :: "'p codec"
  by unfold_locales
     (auto simp: save_final_truth_def insert_or_return_existing_def insert_row_def fun_eq_iff
        split: option.splits)

end
