(* ===== verification/Control_Plane_Publication.thy ===== *)
theory Control_Plane_Publication
  imports Control_Plane_Repository
begin

text \<open>
  The application seam of the control plane:
  \<open>orket/application/services/control_plane_authority_service.py\<close> builds and validates records,
  \<open>control_plane_publication_service.py\<close> reads the latest stored record, asks the authority for the
  next one and stores it. An operation of the publication service is an effect on the database;
  its error value is the exception, and what was stored before the exception stays stored.
\<close>

section \<open>Authority service\<close>

definition authority_append_effect_journal_entry where
  "authority_append_effect_journal_entry = create_effect_journal_entry"

definition validate_effect_journal_history where
  "validate_effect_journal_history = validate_effect_journal_chain"

definition authority_accept_checkpoint ::
  "string \<Rightarrow> CheckpointRecord \<Rightarrow> string \<Rightarrow> string \<Rightarrow> CheckpointReobservationClass \<Rightarrow> string \<Rightarrow>
   EffectJournalEntryRecord list \<Rightarrow> string list option \<Rightarrow> string list \<Rightarrow> string list \<Rightarrow>
   string list option \<Rightarrow> string list option \<Rightarrow> CheckpointAcceptanceRecord result" where
  "authority_accept_checkpoint acceptance_id checkpoint supervisor_authority_ref decision_timestamp
     required_reobservation_class integrity_verification_ref journal_entries
     dependent_effect_entry_refs dependent_reservation_refs dependent_lease_refs reservation_ids lease_ids =
     bind_result
       (CheckpointAcceptanceRecord_init
         \<lparr>ca_contract_version = CONTROL_PLANE_CONTRACT_VERSION_V1,
          ca_acceptance_id = acceptance_id,
          ca_checkpoint_id = cp_checkpoint_id checkpoint,
          ca_supervisor_authority_ref = supervisor_authority_ref,
          ca_decision_timestamp = decision_timestamp,
          ca_outcome = CheckpointAcceptanceOutcome.ACCEPTED,
          ca_resumability_class = cp_resumability_class checkpoint,
          ca_required_reobservation_class = required_reobservation_class,
          ca_evaluated_policy_digest = cp_policy_digest checkpoint,
          ca_integrity_verification_ref = integrity_verification_ref,
          ca_dependent_effect_entry_refs =
            (case dependent_effect_entry_refs of
               Some (x # xs) \<Rightarrow> x # xs
             | _ \<Rightarrow> map je_journal_entry_id journal_entries),
          ca_dependent_reservation_refs = dependent_reservation_refs,
          ca_dependent_lease_refs = dependent_lease_refs,
          ca_rejection_reasons = []\<rparr>)
       (\<lambda>acceptance. bind_result
         (validate_checkpoint_acceptance checkpoint acceptance journal_entries reservation_ids lease_ids)
         (\<lambda>_. Inr acceptance))"

definition authority_reject_checkpoint ::
  "string \<Rightarrow> CheckpointRecord \<Rightarrow> string \<Rightarrow> string \<Rightarrow> CheckpointReobservationClass \<Rightarrow> string \<Rightarrow> string list \<Rightarrow>
   CheckpointAcceptanceRecord result" where
  "authority_reject_checkpoint acceptance_id checkpoint supervisor_authority_ref decision_timestamp
     required_reobservation_class integrity_verification_ref rejection_reasons =
     CheckpointAcceptanceRecord_init
       \<lparr>ca_contract_version = CONTROL_PLANE_CONTRACT_VERSION_V1,
        ca_acceptance_id = acceptance_id,
        ca_checkpoint_id = cp_checkpoint_id checkpoint,
        ca_supervisor_authority_ref = supervisor_authority_ref,
        ca_decision_timestamp = decision_timestamp,
        ca_outcome = CheckpointAcceptanceOutcome.REJECTED,
        ca_resumability_class = CheckpointResumabilityClass.RESUME_FORBIDDEN,
        ca_required_reobservation_class = required_reobservation_class,
        ca_evaluated_policy_digest = cp_policy_digest checkpoint,
        ca_integrity_verification_ref = integrity_verification_ref,
        ca_dependent_effect_entry_refs = [],
        ca_dependent_reservation_refs = [],
        ca_dependent_lease_refs = [],
        ca_rejection_reasons = rejection_reasons\<rparr>"

definition authority_publish_recovery_decision where
  "authority_publish_recovery_decision = build_recovery_decision"

definition authority_publish_reconciliation ::
  "string \<Rightarrow> string \<Rightarrow> string \<Rightarrow> string list option \<Rightarrow> string list option \<Rightarrow> DivergenceClass \<Rightarrow>
   ResidualUncertaintyClassification \<Rightarrow> string \<Rightarrow> SafeContinuationClass \<Rightarrow> OperatorCommandClass option \<Rightarrow>
   ReconciliationRecord result" where
  "authority_publish_reconciliation reconciliation_id target_ref comparison_scope observed_refs
     intended_refs divergence_class residual_uncertainty_classification publication_timestamp
     safe_continuation_class operator_requirement =
     ReconciliationRecord_init
       \<lparr>rc_contract_version = CONTROL_PLANE_CONTRACT_VERSION_V1,
        rc_reconciliation_id = reconciliation_id,
        rc_target_ref = target_ref,
        rc_comparison_scope = comparison_scope,
        rc_observed_refs = (case observed_refs of None \<Rightarrow> [] | Some l \<Rightarrow> l),
        rc_intended_refs = (case intended_refs of None \<Rightarrow> [] | Some l \<Rightarrow> l),
        rc_divergence_class = divergence_class,
        rc_residual_uncertainty_classification = residual_uncertainty_classification,
        rc_publication_timestamp = publication_timestamp,
        rc_safe_continuation_class = safe_continuation_class,
        rc_operator_requirement = operator_requirement\<rparr>"

definition authority_publish_reservation where
  "authority_publish_reservation = build_reservation_record"

definition authority_publish_lease ::
  "string \<Rightarrow> string \<Rightarrow> string \<Rightarrow> int \<Rightarrow> string \<Rightarrow> string \<Rightarrow> LeaseStatus \<Rightarrow> string \<Rightarrow> string option \<Rightarrow>
   string option \<Rightarrow> string option \<Rightarrow> LeaseRecord option \<Rightarrow> LeaseRecord result" where
  "authority_publish_lease lease_id resource_id holder_ref lease_epoch publication_timestamp
     expiry_basis status cleanup_eligibility_rule granted_timestamp last_confirmed_observation
     source_reservation_id previous_record =
     build_lease_record lease_id resource_id holder_ref lease_epoch publication_timestamp
       expiry_basis status cleanup_eligibility_rule granted_timestamp last_confirmed_observation
       source_reservation_id previous_record []"

definition authority_publish_resource ::
  "string \<Rightarrow> string \<Rightarrow> string \<Rightarrow> OwnershipClass \<Rightarrow> string \<Rightarrow> string \<Rightarrow> CleanupAuthorityClass \<Rightarrow> string \<Rightarrow>
   string \<Rightarrow> OrphanClassification \<Rightarrow> ResourceRecord result" where
  "authority_publish_resource resource_id resource_kind namespace_scope ownership_class
     current_observed_state last_observed_timestamp cleanup_authority_class provenance_ref
     reconciliation_status orphan_classification =
     ResourceRecord_init
       \<lparr>rsc_contract_version = CONTROL_PLANE_CONTRACT_VERSION_V1,
        rsc_resource_id = resource_id,
        rsc_resource_kind = resource_kind,
        rsc_namespace_scope = namespace_scope,
        rsc_ownership_class = ownership_class,
        rsc_current_observed_state = current_observed_state,
        rsc_last_observed_timestamp = last_observed_timestamp,
        rsc_cleanup_authority_class = cleanup_authority_class,
        rsc_provenance_ref = provenance_ref,
        rsc_reconciliation_status = reconciliation_status,
        rsc_orphan_classification = orphan_classification\<rparr>"

definition authority_publish_final_truth where
  "authority_publish_final_truth = build_final_truth_record"

definition authority_publish_operator_action ::
  "string \<Rightarrow> string \<Rightarrow> OperatorInputClass \<Rightarrow> string \<Rightarrow> string \<Rightarrow> string \<Rightarrow> string \<Rightarrow>
   OperatorCommandClass option \<Rightarrow> string option \<Rightarrow> string option \<Rightarrow> (string \<times> json) list option \<Rightarrow>
   string list option \<Rightarrow> string list option \<Rightarrow> string list option \<Rightarrow> OperatorActionRecord result" where
  "authority_publish_operator_action action_id actor_ref input_class target_ref timestamp
     precondition_basis_ref result command_class risk_acceptance_scope attestation_scope
     attestation_payload affected_transition_refs affected_resource_refs receipt_refs =
     OperatorActionRecord_init
       \<lparr>op_contract_version = CONTROL_PLANE_CONTRACT_VERSION_V1,
        op_action_id = action_id,
        op_actor_ref = actor_ref,
        op_input_class = input_class,
        op_target_ref = target_ref,
        op_timestamp = timestamp,
        op_precondition_basis_ref = precondition_basis_ref,
        op_result = result,
        op_command_class = command_class,
        op_risk_acceptance_scope = risk_acceptance_scope,
        op_attestation_scope = attestation_scope,
        op_attestation_payload = (case attestation_payload of None \<Rightarrow> [] | Some l \<Rightarrow> l),
        op_affected_transition_refs = (case affected_transition_refs of None \<Rightarrow> [] | Some l \<Rightarrow> l),
        op_affected_resource_refs = (case affected_resource_refs of None \<Rightarrow> [] | Some l \<Rightarrow> l),
        op_receipt_refs = (case receipt_refs of None \<Rightarrow> [] | Some l \<Rightarrow> l)\<rparr>"

section \<open>Publication service\<close>

definition publish_reservation ::
  "'p codec \<Rightarrow> string \<Rightarrow> string \<Rightarrow> ReservationKind \<Rightarrow> string \<Rightarrow> string \<Rightarrow> string \<Rightarrow> ReservationStatus \<Rightarrow> string \<Rightarrow>
   string option \<Rightarrow> string option \<Rightarrow> ('p cp_db, ReservationRecord) eff" where
  "publish_reservation c reservation_id holder_ref reservation_kind target_scope_ref creation_timestamp
     expiry_or_invalidation_basis status supervisor_authority_ref promotion_rule promoted_lease_id =
     bind_eff (read_eff (get_latest_reservation_record c reservation_id)) (\<lambda>previous_record.
     bind_eff (lift_result (authority_publish_reservation reservation_id holder_ref reservation_kind
       target_scope_ref creation_timestamp expiry_or_invalidation_basis status
       supervisor_authority_ref promotion_rule promoted_lease_id previous_record)) (\<lambda>r.
     save_reservation_record c r))"

text \<open>
  The four operations that move an existing reservation on: each reads the latest record and
  publishes it again with a new status and basis. The label is the last word of the message
  when there is no such reservation.
\<close>

definition republish_reservation ::
  "'p codec \<Rightarrow> string \<Rightarrow> string \<Rightarrow> string \<Rightarrow> string \<Rightarrow> ReservationStatus \<Rightarrow> string option \<Rightarrow>
   ('p cp_db, ReservationRecord) eff" where
  "republish_reservation c label reservation_id supervisor_authority_ref basis status promoted_lease_id =
     bind_eff (read_eff (get_latest_reservation_record c reservation_id)) (\<lambda>previous_record.
       case previous_record of
         None \<Rightarrow> lift_result (Inl (ValueError (''Reservation not found for '' @ label @ '': '' @ reservation_id)))
       | Some p \<Rightarrow> publish_reservation c (rsv_reservation_id p) (rsv_holder_ref p)
           (rsv_reservation_kind p) (rsv_target_scope_ref p) (rsv_creation_timestamp p) basis status
           supervisor_authority_ref (rsv_promotion_rule p) promoted_lease_id)"

definition service_promote_reservation_to_lease where
  "service_promote_reservation_to_lease c reservation_id promoted_lease_id supervisor_authority_ref
     promotion_basis =
     republish_reservation c ''promotion'' reservation_id supervisor_authority_ref promotion_basis
       ReservationStatus.PROMOTED_TO_LEASE (Some promoted_lease_id)"

definition invalidate_reservation where
  "invalidate_reservation c reservation_id supervisor_authority_ref invalidation_basis =
     republish_reservation c ''invalidation'' reservation_id supervisor_authority_ref invalidation_basis
       ReservationStatus.INVALIDATED None"

definition release_reservation where
  "release_reservation c reservation_id supervisor_authority_ref release_basis =
     republish_reservation c ''release'' reservation_id supervisor_authority_ref release_basis
       ReservationStatus.RELEASED None"

definition expire_reservation where
  "expire_reservation c reservation_id supervisor_authority_ref expiry_basis =
     republish_reservation c ''expiry'' reservation_id supervisor_authority_ref expiry_basis
       ReservationStatus.EXPIRED None"

text \<open>\<open>max(entries, key=...)\<close>: the first of the entries with the largest sequence number.\<close>

definition max_by_sequence :: "EffectJournalEntryRecord list \<Rightarrow> EffectJournalEntryRecord option" where
  "max_by_sequence es = (case es of
      [] \<Rightarrow> None
    | x # xs \<Rightarrow> Some (foldl (\<lambda>m e. if je_publication_sequence m < je_publication_sequence e then e else m) x xs))"

definition service_append_effect_journal_entry ::
  "'p codec \<Rightarrow> hash \<Rightarrow> string \<Rightarrow> string \<Rightarrow> string \<Rightarrow> string \<Rightarrow> string \<Rightarrow> string \<Rightarrow> string \<Rightarrow> string \<Rightarrow>
   string option \<Rightarrow> ResidualUncertaintyClassification \<Rightarrow> string \<Rightarrow> string list \<Rightarrow> string list \<Rightarrow>
   ('p cp_db, EffectJournalEntryRecord) eff" where
  "service_append_effect_journal_entry c sha256 journal_entry_id effect_id run_id attempt_id step_id
     authorization_basis_ref publication_timestamp intended_target_ref observed_result_ref
     uncertainty_classification integrity_verification_ref contradictory_entry_refs superseding_entry_refs =
     bind_eff (read_eff (list_effect_journal_entries c run_id)) (\<lambda>existing_entries.
     bind_eff (lift_result (authority_append_effect_journal_entry sha256 journal_entry_id effect_id run_id
       attempt_id step_id authorization_basis_ref publication_timestamp intended_target_ref
       observed_result_ref uncertainty_classification integrity_verification_ref
       (max_by_sequence existing_entries) contradictory_entry_refs superseding_entry_refs)) (\<lambda>e.
     append_effect_journal_entry c run_id e))"

definition publish_checkpoint :: "'p codec \<Rightarrow> CheckpointRecord \<Rightarrow> ('p cp_db, CheckpointRecord) eff" where
  "publish_checkpoint c checkpoint = save_checkpoint c checkpoint"

definition service_accept_checkpoint ::
  "'p codec \<Rightarrow> string \<Rightarrow> CheckpointRecord \<Rightarrow> string \<Rightarrow> string \<Rightarrow> CheckpointReobservationClass \<Rightarrow> string \<Rightarrow>
   EffectJournalEntryRecord list \<Rightarrow> string list option \<Rightarrow> string list \<Rightarrow> string list \<Rightarrow>
   string list option \<Rightarrow> string list option \<Rightarrow> ('p cp_db, CheckpointAcceptanceRecord) eff" where
  "service_accept_checkpoint c acceptance_id checkpoint supervisor_authority_ref decision_timestamp
     required_reobservation_class integrity_verification_ref journal_entries
     dependent_effect_entry_refs dependent_reservation_refs dependent_lease_refs reservation_ids lease_ids =
     bind_eff (publish_checkpoint c checkpoint) (\<lambda>_.
     bind_eff (lift_result (authority_accept_checkpoint acceptance_id checkpoint supervisor_authority_ref
       decision_timestamp required_reobservation_class integrity_verification_ref journal_entries
       dependent_effect_entry_refs dependent_reservation_refs dependent_lease_refs reservation_ids
       lease_ids)) (\<lambda>acceptance.
     save_checkpoint_acceptance c acceptance))"

definition service_reject_checkpoint ::
  "'p codec \<Rightarrow> string \<Rightarrow> CheckpointRecord \<Rightarrow> string \<Rightarrow> string \<Rightarrow> CheckpointReobservationClass \<Rightarrow> string \<Rightarrow>
   string list \<Rightarrow> ('p cp_db, CheckpointAcceptanceRecord) eff" where
  "service_reject_checkpoint c acceptance_id checkpoint supervisor_authority_ref decision_timestamp
     required_reobservation_class integrity_verification_ref rejection_reasons =
     bind_eff (publish_checkpoint c checkpoint) (\<lambda>_.
     bind_eff (lift_result (authority_reject_checkpoint acceptance_id checkpoint supervisor_authority_ref
       decision_timestamp required_reobservation_class integrity_verification_ref
       rejection_reasons)) (\<lambda>acceptance.
     save_checkpoint_acceptance c acceptance))"

definition service_publish_recovery_decision ::
  "'p codec \<Rightarrow> string \<Rightarrow> string \<Rightarrow> string \<Rightarrow> string \<Rightarrow> FailurePlane option \<Rightarrow> FailureClassification option \<Rightarrow>
   SideEffectBoundaryClass \<Rightarrow> string \<Rightarrow> RecoveryActionClass \<Rightarrow> string \<Rightarrow> string option \<Rightarrow> string option \<Rightarrow>
   string option \<Rightarrow> string list option \<Rightarrow> string list option \<Rightarrow> OperatorCommandClass option \<Rightarrow>
   CheckpointAcceptanceRecord option \<Rightarrow> ReconciliationRecord option \<Rightarrow> bool \<Rightarrow>
   ('p cp_db, RecoveryDecisionRecord) eff" where
  "service_publish_recovery_decision c decision_id run_id failed_attempt_id failure_classification_basis
     failure_plane failure_classification side_effect_boundary_class recovery_policy_ref
     authorized_next_action rationale_ref resumed_attempt_id new_attempt_id target_checkpoint_id
     required_precondition_refs blocked_actions operator_requirement checkpoint_acceptance
     reconciliation_record idempotent_retry_permitted =
     bind_eff
       (case target_checkpoint_id of
          None \<Rightarrow> lift_result (Inr ())
        | Some target \<Rightarrow> bind_eff (read_eff (get_checkpoint c target)) (\<lambda>checkpoint.
            case checkpoint of
              None \<Rightarrow> lift_result (Inl (ValueError (''Checkpoint not found for recovery decision: '' @ target)))
            | Some _ \<Rightarrow> lift_result (Inr ())))
       (\<lambda>_. bind_eff
         (case (checkpoint_acceptance, target_checkpoint_id) of
            (None, Some target) \<Rightarrow> read_eff (get_checkpoint_acceptance c target)
          | _ \<Rightarrow> lift_result (Inr checkpoint_acceptance))
         (\<lambda>resolved_checkpoint_acceptance. bind_eff
           (lift_result (authority_publish_recovery_decision decision_id run_id failed_attempt_id
              failure_classification_basis failure_plane failure_classification
              side_effect_boundary_class recovery_policy_ref authorized_next_action
              resumed_attempt_id new_attempt_id target_checkpoint_id required_precondition_refs
              blocked_actions operator_requirement rationale_ref resolved_checkpoint_acceptance
              reconciliation_record idempotent_retry_permitted))
           (save_recovery_decision c)))"

definition publish_reconciliation ::
  "'p codec \<Rightarrow> string \<Rightarrow> string \<Rightarrow> string \<Rightarrow> string list option \<Rightarrow> string list option \<Rightarrow> DivergenceClass \<Rightarrow>
   ResidualUncertaintyClassification \<Rightarrow> string \<Rightarrow> SafeContinuationClass \<Rightarrow>
   ('p cp_db, ReconciliationRecord) eff" where
  "publish_reconciliation c reconciliation_id target_ref comparison_scope observed_refs intended_refs
     divergence_class residual_uncertainty_classification publication_timestamp safe_continuation_class =
     bind_eff (lift_result (authority_publish_reconciliation reconciliation_id target_ref comparison_scope
       observed_refs intended_refs divergence_class residual_uncertainty_classification
       publication_timestamp safe_continuation_class None)) (save_reconciliation_record c)"

definition publish_lease ::
  "'p codec \<Rightarrow> string \<Rightarrow> string \<Rightarrow> string \<Rightarrow> int \<Rightarrow> string \<Rightarrow> string \<Rightarrow> LeaseStatus \<Rightarrow> string \<Rightarrow>
   string option \<Rightarrow> string option \<Rightarrow> string option \<Rightarrow> ('p cp_db, LeaseRecord) eff" where
  "publish_lease c lease_id resource_id holder_ref lease_epoch publication_timestamp expiry_basis status
     cleanup_eligibility_rule granted_timestamp last_confirmed_observation source_reservation_id =
     bind_eff (read_eff (get_latest_lease_record c lease_id)) (\<lambda>previous_record.
     bind_eff (lift_result (authority_publish_lease lease_id resource_id holder_ref lease_epoch
       publication_timestamp expiry_basis status cleanup_eligibility_rule granted_timestamp
       last_confirmed_observation source_reservation_id previous_record)) (append_lease_record c))"

definition publish_resource ::
  "'p codec \<Rightarrow> string \<Rightarrow> string \<Rightarrow> string \<Rightarrow> OwnershipClass \<Rightarrow> string \<Rightarrow> string \<Rightarrow> CleanupAuthorityClass \<Rightarrow>
   string \<Rightarrow> string \<Rightarrow> OrphanClassification \<Rightarrow> ('p cp_db, ResourceRecord) eff" where
  "publish_resource c resource_id resource_kind namespace_scope ownership_class current_observed_state
     last_observed_timestamp cleanup_authority_class provenance_ref reconciliation_status
     orphan_classification =
     bind_eff (lift_result (authority_publish_resource resource_id resource_kind namespace_scope
       ownership_class current_observed_state last_observed_timestamp cleanup_authority_class
       provenance_ref reconciliation_status orphan_classification)) (save_resource_record c)"

definition publish_final_truth ::
  "'p codec \<Rightarrow> string \<Rightarrow> string \<Rightarrow> ResultClass \<Rightarrow> CompletionClassification \<Rightarrow>
   EvidenceSufficiencyClassification \<Rightarrow> ResidualUncertaintyClassification \<Rightarrow> DegradationClassification \<Rightarrow>
   ClosureBasisClassification \<Rightarrow> AuthoritySourceClass list \<Rightarrow> string option \<Rightarrow>
   OperatorActionRecord option \<Rightarrow> ('p cp_db, FinalTruthRecord) eff" where
  "publish_final_truth c final_truth_record_id run_id result_class completion_classification
     evidence_sufficiency_classification residual_uncertainty_classification
     degradation_classification closure_basis authority_sources authoritative_result_ref operator_action =
     bind_eff (lift_result (authority_publish_final_truth final_truth_record_id run_id result_class
       completion_classification evidence_sufficiency_classification
       residual_uncertainty_classification degradation_classification closure_basis
       authority_sources authoritative_result_ref operator_action)) (save_final_truth c)"

definition publish_operator_action ::
  "'p codec \<Rightarrow> string \<Rightarrow> string \<Rightarrow> OperatorInputClass \<Rightarrow> string \<Rightarrow> string \<Rightarrow> string \<Rightarrow> string \<Rightarrow>
   OperatorCommandClass option \<Rightarrow> string option \<Rightarrow> string option \<Rightarrow> (string \<times> json) list option \<Rightarrow>
   string list option \<Rightarrow> string list option \<Rightarrow> string list option \<Rightarrow> ('p cp_db, OperatorActionRecord) eff" where
  "publish_operator_action c action_id actor_ref input_class target_ref timestamp precondition_basis_ref
     result command_class risk_acceptance_scope attestation_scope attestation_payload
     affected_transition_refs affected_resource_refs receipt_refs =
     bind_eff (lift_result (authority_publish_operator_action action_id actor_ref input_class target_ref
       timestamp precondition_basis_ref result command_class risk_acceptance_scope attestation_scope
       attestation_payload affected_transition_refs affected_resource_refs receipt_refs))
       (save_operator_action c)"

end
