(* ===== verification/Control_Plane_Steps.thy ===== *)
theory Control_Plane_Steps
  imports Control_Plane_Publication
begin

text \<open>
  The control plane as a state machine: \<open>cp_step\<close> is one call of the publication service or one
  snapshot write of the repository, successful or not, and \<open>reachable\<close> the databases such calls
  make of an empty one. The lemmas \<open>..._effect\<close> say what one call can do to the database: nothing,
  or append the row of one record that the domain has built from what the call has read. The step
  relation and its first consequence follow: tables only grow.
\<close>

section \<open>What a write does\<close>

definition policy_row :: "'p codec \<Rightarrow> ResolvedPolicySnapshot \<Rightarrow> _" where
  "policy_row c r = \<lparr>row_key = pol_snapshot_id r, row_cols = pol_created_at r, payload_json = dump_policy c r\<rparr>"

lemma save_resolved_policy_snapshot_effect:
  assumes "save_resolved_policy_snapshot c r db = (res, db')"
  shows "db' = db \<or>
    (db' = db\<lparr>resolved_policy_snapshots := resolved_policy_snapshots db @ [policy_row c r]\<rparr> \<and> res = Inr r \<and>
     row_key (policy_row c r) \<notin> row_key ` set (resolved_policy_snapshots db))"
  using assms
  by (auto simp: save_resolved_policy_snapshot_def insert_or_return_existing_def insert_row_def policy_row_def
      select_payload_None_iff split: option.splits if_splits)

definition configuration_row :: "'p codec \<Rightarrow> ResolvedConfigurationSnapshot \<Rightarrow> _" where
  "configuration_row c r = \<lparr>row_key = cfg_snapshot_id r, row_cols = cfg_created_at r, payload_json = dump_configuration c r\<rparr>"

lemma save_resolved_configuration_snapshot_effect:
  assumes "save_resolved_configuration_snapshot c r db = (res, db')"
  shows "db' = db \<or>
    (db' = db\<lparr>resolved_configuration_snapshots := resolved_configuration_snapshots db @ [configuration_row c r]\<rparr> \<and> res = Inr r \<and>
     row_key (configuration_row c r) \<notin> row_key ` set (resolved_configuration_snapshots db))"
  using assms
  by (auto simp: save_resolved_configuration_snapshot_def insert_or_return_existing_def insert_row_def configuration_row_def
      select_payload_None_iff split: option.splits if_splits)

definition reservation_row :: "'p codec \<Rightarrow> ReservationRecord \<Rightarrow> _" where
  "reservation_row c r = \<lparr>row_key = (rsv_reservation_id r, ReservationStatus_value (rsv_status r)), row_cols = rsv_creation_timestamp r, payload_json = dump_reservation c r\<rparr>"

lemma save_reservation_record_effect:
  assumes "save_reservation_record c r db = (res, db')"
  shows "db' = db \<or>
    (db' = db\<lparr>reservation_records := reservation_records db @ [reservation_row c r]\<rparr> \<and> res = Inr r \<and>
     row_key (reservation_row c r) \<notin> row_key ` set (reservation_records db))"
  using assms
  by (auto simp: save_reservation_record_def insert_or_return_existing_def insert_row_def reservation_row_def
      select_payload_None_iff split: option.splits if_splits)

definition resource_row :: "'p codec \<Rightarrow> ResourceRecord \<Rightarrow> _" where
  "resource_row c r = \<lparr>row_key = (rsc_resource_id r, rsc_last_observed_timestamp r, rsc_current_observed_state r), row_cols = (), payload_json = dump_resource c r\<rparr>"

lemma save_resource_record_effect:
  assumes "save_resource_record c r db = (res, db')"
  shows "db' = db \<or>
    (db' = db\<lparr>resource_records := resource_records db @ [resource_row c r]\<rparr> \<and> res = Inr r \<and>
     row_key (resource_row c r) \<notin> row_key ` set (resource_records db))"
  using assms
  by (auto simp: save_resource_record_def insert_or_return_existing_def insert_row_def resource_row_def
      select_payload_None_iff split: option.splits if_splits)

definition checkpoint_row :: "'p codec \<Rightarrow> CheckpointRecord \<Rightarrow> _" where
  "checkpoint_row c r = \<lparr>row_key = cp_checkpoint_id r, row_cols = (cp_parent_ref r, cp_creation_timestamp r), payload_json = dump_checkpoint c r\<rparr>"

lemma save_checkpoint_effect:
  assumes "save_checkpoint c r db = (res, db')"
  shows "db' = db \<or>
    (db' = db\<lparr>checkpoint_records := checkpoint_records db @ [checkpoint_row c r]\<rparr> \<and> res = Inr r \<and>
     row_key (checkpoint_row c r) \<notin> row_key ` set (checkpoint_records db))"
  using assms
  by (auto simp: save_checkpoint_def insert_or_return_existing_def insert_row_def checkpoint_row_def
      select_payload_None_iff split: option.splits if_splits)

definition acceptance_row :: "'p codec \<Rightarrow> CheckpointAcceptanceRecord \<Rightarrow> _" where
  "acceptance_row c r = \<lparr>row_key = ca_acceptance_id r, row_cols = (ca_checkpoint_id r, ca_decision_timestamp r), payload_json = dump_acceptance c r\<rparr>"

lemma save_checkpoint_acceptance_effect:
  assumes "save_checkpoint_acceptance c r db = (res, db')"
  shows "db' = db \<or>
    (db' = db\<lparr>checkpoint_acceptance_records := checkpoint_acceptance_records db @ [acceptance_row c r]\<rparr> \<and> res = Inr r \<and>
     row_key (acceptance_row c r) \<notin> row_key ` set (checkpoint_acceptance_records db))"
  using assms
  by (auto simp: save_checkpoint_acceptance_def insert_or_return_existing_def insert_row_def acceptance_row_def
      select_payload_None_iff split: option.splits if_splits)

definition recovery_row :: "'p codec \<Rightarrow> RecoveryDecisionRecord \<Rightarrow> _" where
  "recovery_row c r = \<lparr>row_key = rd_decision_id r, row_cols = rd_run_id r, payload_json = dump_recovery c r\<rparr>"

lemma save_recovery_decision_effect:
  assumes "save_recovery_decision c r db = (res, db')"
  shows "db' = db \<or>
    (db' = db\<lparr>recovery_decision_records := recovery_decision_records db @ [recovery_row c r]\<rparr> \<and> res = Inr r \<and>
     row_key (recovery_row c r) \<notin> row_key ` set (recovery_decision_records db))"
  using assms
  by (auto simp: save_recovery_decision_def insert_or_return_existing_def insert_row_def recovery_row_def
      select_payload_None_iff split: option.splits if_splits)

definition lease_row :: "'p codec \<Rightarrow> LeaseRecord \<Rightarrow> _" where
  "lease_row c r = \<lparr>row_key = (ls_lease_id r, ls_lease_epoch r, LeaseStatus_value (ls_status r), ls_publication_timestamp r), row_cols = ls_resource_id r, payload_json = dump_lease c r\<rparr>"

lemma append_lease_record_effect:
  assumes "append_lease_record c r db = (res, db')"
  shows "db' = db \<or>
    (db' = db\<lparr>lease_records := lease_records db @ [lease_row c r]\<rparr> \<and> res = Inr r \<and>
     row_key (lease_row c r) \<notin> row_key ` set (lease_records db))"
  using assms
  by (auto simp: append_lease_record_def insert_or_return_existing_def insert_row_def lease_row_def
      select_payload_None_iff split: option.splits if_splits)

definition reconciliation_row :: "'p codec \<Rightarrow> ReconciliationRecord \<Rightarrow> _" where
  "reconciliation_row c r = \<lparr>row_key = rc_reconciliation_id r, row_cols = (rc_target_ref r, rc_publication_timestamp r), payload_json = dump_reconciliation c r\<rparr>"

lemma save_reconciliation_record_effect:
  assumes "save_reconciliation_record c r db = (res, db')"
  shows "db' = db \<or>
    (db' = db\<lparr>reconciliation_records := reconciliation_records db @ [reconciliation_row c r]\<rparr> \<and> res = Inr r \<and>
     row_key (reconciliation_row c r) \<notin> row_key ` set (reconciliation_records db))"
  using assms
  by (auto simp: save_reconciliation_record_def insert_or_return_existing_def insert_row_def reconciliation_row_def
      select_payload_None_iff split: option.splits if_splits)

definition operator_row :: "'p codec \<Rightarrow> OperatorActionRecord \<Rightarrow> _" where
  "operator_row c r = \<lparr>row_key = op_action_id r, row_cols = (op_target_ref r, op_timestamp r), payload_json = dump_operator c r\<rparr>"

lemma save_operator_action_effect:
  assumes "save_operator_action c r db = (res, db')"
  shows "db' = db \<or>
    (db' = db\<lparr>operator_action_records := operator_action_records db @ [operator_row c r]\<rparr> \<and> res = Inr r \<and>
     row_key (operator_row c r) \<notin> row_key ` set (operator_action_records db))"
  using assms
  by (auto simp: save_operator_action_def insert_or_return_existing_def insert_row_def operator_row_def
      select_payload_None_iff split: option.splits if_splits)

definition truth_row :: "'p codec \<Rightarrow> FinalTruthRecord \<Rightarrow> _" where
  "truth_row c r = \<lparr>row_key = ft_final_truth_record_id r, row_cols = ft_run_id r, payload_json = dump_truth c r\<rparr>"

lemma save_final_truth_effect:
  assumes "save_final_truth c r db = (res, db')"
  shows "db' = db \<or>
    (db' = db\<lparr>final_truth_records := final_truth_records db @ [truth_row c r]\<rparr> \<and> res = Inr r \<and>
     row_key (truth_row c r) \<notin> row_key ` set (final_truth_records db))"
  using assms
  by (auto simp: save_final_truth_def insert_or_return_existing_def insert_row_def truth_row_def
      select_payload_None_iff split: option.splits if_splits)
definition journal_row :: "'p codec \<Rightarrow> string \<Rightarrow> EffectJournalEntryRecord \<Rightarrow> _" where
  "journal_row c run_id r = \<lparr>row_key = je_journal_entry_id r,
     row_cols = (run_id, je_publication_sequence r, je_entry_digest r), payload_json = dump_journal c r\<rparr>"

lemma append_effect_journal_entry_effect:
  assumes "append_effect_journal_entry c run_id r db = (res, db')"
  shows "db' = db \<or>
    (db' = db\<lparr>effect_journal_entries := effect_journal_entries db @ [journal_row c run_id r]\<rparr> \<and> res = Inr r \<and>
     \<not> journal_sequence_taken run_id (je_publication_sequence r) (effect_journal_entries db) \<and>
     row_key (journal_row c run_id r) \<notin> row_key ` set (effect_journal_entries db))"
  using assms
  by (auto simp: append_effect_journal_entry_def insert_or_return_existing_def insert_row_def journal_row_def
      select_payload_None_iff split: option.splits if_splits)

section \<open>What a call of the service does\<close>

lemma bind_eff_read_cases:
  assumes "bind_eff (read_eff g) f db = (res, db')"
  obtains (error) e where "g db = Inl e" "db' = db" | (ok) x where "g db = Inr x" "f x db = (res, db')"
  using assms by (cases "g db") (auto simp: bind_eff_read_eff)

lemma bind_eff_lift_cases:
  assumes "bind_eff (lift_result m) f db = (res, db')"
  obtains (error) e where "m = Inl e" "db' = db" | (ok) x where "m = Inr x" "f x db = (res, db')"
  using assms by (cases m) auto

lemma bind_eff_lift_Inr:
  assumes "bind_eff (lift_result m) f db = (Inr y, db')"
  obtains x where "m = Inr x" "f x db = (Inr y, db')"
  using assms by (cases m) (auto simp: bind_eff_def lift_result_def)

lemma publish_reservation_effect:
  assumes "publish_reservation c rid holder kind scope created basis status auth rule lease db = (res, db')"
  shows "db' = db \<or> (\<exists>prev r. get_latest_reservation_record c rid db = Inr prev \<and>
     build_reservation_record rid holder kind scope created basis status auth rule lease prev = Inr r \<and>
     row_key (reservation_row c r) \<notin> row_key ` set (reservation_records db) \<and>
     db' = db\<lparr>reservation_records := reservation_records db @ [reservation_row c r]\<rparr> \<and> res = Inr r)"
  using assms unfolding publish_reservation_def authority_publish_reservation_def
proof (cases rule: bind_eff_read_cases)
  case (ok prev)
  from ok(2) show ?thesis
  proof (cases rule: bind_eff_lift_cases)
    case (ok r)
    then show ?thesis using save_reservation_record_effect [OF ok(2)] \<open>_ db = Inr prev\<close> by blast
  qed simp
qed simp

lemma republish_reservation_effect:
  assumes "republish_reservation c label rid auth basis status lease db = (res, db')"
  shows "db' = db \<or> (\<exists>p. get_latest_reservation_record c rid db = Inr (Some p) \<and>
     publish_reservation c (rsv_reservation_id p) (rsv_holder_ref p) (rsv_reservation_kind p)
       (rsv_target_scope_ref p) (rsv_creation_timestamp p) basis status auth (rsv_promotion_rule p) lease db
     = (res, db'))"
  using assms unfolding republish_reservation_def
  by (cases rule: bind_eff_read_cases) (auto simp: lift_result_def split: option.splits)

lemma service_append_effect_journal_entry_effect:
  assumes "service_append_effect_journal_entry c sha256 entry_id effect_id run_id attempt_id step_id basis
     pub target observed uncertainty integrity contra supers db = (res, db')"
  shows "db' = db \<or> (\<exists>es e. list_effect_journal_entries c run_id db = Inr es \<and>
     create_effect_journal_entry sha256 entry_id effect_id run_id attempt_id step_id basis pub target
       observed uncertainty integrity (max_by_sequence es) contra supers = Inr e \<and>
     append_effect_journal_entry c run_id e db = (res, db'))"
  using assms unfolding service_append_effect_journal_entry_def authority_append_effect_journal_entry_def
proof (cases rule: bind_eff_read_cases)
  case (ok es)
  from ok(2) show ?thesis
  proof (cases rule: bind_eff_lift_cases)
    case (ok e)
    then show ?thesis using \<open>_ db = Inr es\<close> by blast
  qed simp
qed simp

lemma publish_lease_effect:
  assumes "publish_lease c lease_id resource_id holder epoch pub basis status rule granted observed source db
     = (res, db')"
  shows "db' = db \<or> (\<exists>prev r. get_latest_lease_record c lease_id db = Inr prev \<and>
     build_lease_record lease_id resource_id holder epoch pub basis status rule granted observed source prev []
       = Inr r \<and>
     row_key (lease_row c r) \<notin> row_key ` set (lease_records db) \<and>
     db' = db\<lparr>lease_records := lease_records db @ [lease_row c r]\<rparr> \<and> res = Inr r)"
  using assms unfolding publish_lease_def authority_publish_lease_def
proof (cases rule: bind_eff_read_cases)
  case (ok prev)
  from ok(2) show ?thesis
  proof (cases rule: bind_eff_lift_cases)
    case (ok r)
    then show ?thesis using append_lease_record_effect [OF ok(2)] \<open>_ db = Inr prev\<close> by blast
  qed simp
qed simp

text \<open>A checkpoint decision stores the checkpoint first; the decision itself may then be refused.\<close>

lemma checkpoint_decision_effect:
  assumes "bind_eff (publish_checkpoint c cp) (\<lambda>_. bind_eff (lift_result m)
             (save_checkpoint_acceptance c)) db = (res, db')"
  shows "\<exists>res1 db1. save_checkpoint c cp db = (res1, db1) \<and>
     (db' = db1 \<or> (\<exists>a. m = Inr a \<and> save_checkpoint_acceptance c a db1 = (res, db')))"
proof (cases "save_checkpoint c cp db")
  case (Pair res1 db1)
  then show ?thesis using assms
    by (cases res1; cases m) (auto simp: bind_eff_def publish_checkpoint_def lift_result_def)
qed

lemma service_publish_recovery_decision_effect:
  assumes "service_publish_recovery_decision c decision_id run_id failed basis plane classification boundary
     policy action rationale resumed new target preconditions blocked requirement acceptance
     reconciliation idempotent db = (res, db')"
  shows "db' = db \<or> (\<exists>acc d. build_recovery_decision decision_id run_id failed basis plane classification
       boundary policy action resumed new target preconditions blocked requirement rationale acc
       reconciliation idempotent = Inr d \<and>
     (acc = acceptance \<or>
       (acceptance = None \<and> (\<exists>t. target = Some t \<and> get_checkpoint_acceptance c t db = Inr acc))) \<and>
     (\<forall>t. target = Some t \<longrightarrow> (\<exists>k. get_checkpoint c t db = Inr (Some k))) \<and>
     save_recovery_decision c d db = (res, db'))"
proof -
  let ?build = "\<lambda>acc. build_recovery_decision decision_id run_id failed basis plane classification
       boundary policy action resumed new target preconditions blocked requirement rationale acc
       reconciliation idempotent"
  let ?acc = "case (acceptance, target) of (None, Some t) \<Rightarrow> get_checkpoint_acceptance c t db
      | _ \<Rightarrow> Inr acceptance"
  have 1: "db' = db \<or> ((\<forall>t. target = Some t \<longrightarrow> (\<exists>k. get_checkpoint c t db = Inr (Some k))) \<and>
     bind_eff (lift_result ?acc) (\<lambda>acc. bind_eff (lift_result (?build acc)) (save_recovery_decision c)) db
       = (res, db'))"
    using assms unfolding service_publish_recovery_decision_def authority_publish_recovery_decision_def
    by (auto simp: bind_eff_def lift_result_def read_eff_def
        split: option.splits prod.splits sum.splits)
  show ?thesis
  proof (cases "db' = db")
    case False
    with 1 have cp: "\<forall>t. target = Some t \<longrightarrow> (\<exists>k. get_checkpoint c t db = Inr (Some k))"
      and run: "bind_eff (lift_result ?acc) (\<lambda>acc. bind_eff (lift_result (?build acc))
        (save_recovery_decision c)) db = (res, db')" by blast+
    from run obtain acc d where "?acc = Inr acc" "?build acc = Inr d" "save_recovery_decision c d db = (res, db')"
      using False by (elim bind_eff_lift_cases) auto
    moreover have "acc = acceptance \<or>
       (acceptance = None \<and> (\<exists>t. target = Some t \<and> get_checkpoint_acceptance c t db = Inr acc))"
      using \<open>?acc = Inr acc\<close> by (auto split: option.splits)
    ultimately show ?thesis using cp by blast
  qed simp
qed

text \<open>A recovery decision that is returned was built from the acceptance given or, failing that, the stored one.\<close>

lemma service_publish_recovery_decision_Inr:
  assumes "service_publish_recovery_decision c decision_id run_id failed basis plane classification boundary
     policy action rationale resumed new target preconditions blocked requirement acceptance
     reconciliation idempotent db = (Inr d, db')"
  shows "\<exists>acc r. build_recovery_decision decision_id run_id failed basis plane classification
       boundary policy action resumed new target preconditions blocked requirement rationale acc
       reconciliation idempotent = Inr r \<and>
     (case (acceptance, target) of
        (None, Some t) \<Rightarrow> get_checkpoint_acceptance c t db = Inr acc
      | _ \<Rightarrow> acc = acceptance) \<and>
     (\<forall>t. target = Some t \<longrightarrow> (\<exists>k. get_checkpoint c t db = Inr (Some k))) \<and>
     save_recovery_decision c r db = (Inr d, db')"
proof -
  let ?build = "\<lambda>acc. build_recovery_decision decision_id run_id failed basis plane classification
       boundary policy action resumed new target preconditions blocked requirement rationale acc
       reconciliation idempotent"
  let ?acc = "case (acceptance, target) of (None, Some t) \<Rightarrow> get_checkpoint_acceptance c t db
      | _ \<Rightarrow> Inr acceptance"
  have cp: "\<forall>t. target = Some t \<longrightarrow> (\<exists>k. get_checkpoint c t db = Inr (Some k))"
    and run: "bind_eff (lift_result ?acc) (\<lambda>acc. bind_eff (lift_result (?build acc))
        (save_recovery_decision c)) db = (Inr d, db')"
    using assms unfolding service_publish_recovery_decision_def authority_publish_recovery_decision_def
    by (auto simp: bind_eff_def lift_result_def read_eff_def
        split: option.splits prod.splits sum.splits)
  from run obtain acc r where acc: "?acc = Inr acc"
    and r: "?build acc = Inr r" "save_recovery_decision c r db = (Inr d, db')"
    by (cases ?acc) (auto elim: bind_eff_lift_Inr)
  moreover have "case (acceptance, target) of
        (None, Some t) \<Rightarrow> get_checkpoint_acceptance c t db = Inr acc
      | _ \<Rightarrow> acc = acceptance"
    using acc by (auto split: option.splits)
  ultimately show ?thesis using cp by blast
qed

lemma build_and_save_effect:
  assumes "bind_eff (lift_result m) f db = (res, db')"
  shows "db' = db \<or> (\<exists>r. m = Inr r \<and> f r db = (res, db'))"
  using assms by (cases m) auto

section \<open>Failing calls\<close>

text \<open>A call that raises before or in its only write leaves the database as it was.\<close>

lemma failed_build_and_save:
  assumes "bind_eff (lift_result m) f db = (Inl e, db')" and "\<And>r. f r db = (Inl e, db') \<Longrightarrow> db' = db"
  shows "db' = db"
  using build_and_save_effect [OF assms(1)] assms(2) by blast

lemma failed_republication:
  assumes "republish_reservation c label rid auth basis status lease db = (Inl e, db')"
  shows "db' = db"
  using republish_reservation_effect [OF assms] publish_reservation_effect by blast

lemma failed_checkpoint_decision:
  assumes "bind_eff (publish_checkpoint c cp) (\<lambda>_. bind_eff (lift_result m)
             (save_checkpoint_acceptance c)) db = (Inl e, db')"
  shows "db' = snd (publish_checkpoint c cp db)"
  using checkpoint_decision_effect [OF assms] save_checkpoint_acceptance_effect
  by (fastforce simp: publish_checkpoint_def)

section \<open>The step relation\<close>

text \<open>
  The premises are on the arguments alone: a record passed in as a model instance is a valid one, and
  the identifier of a reservation or lease is given without surrounding white space.
\<close>

inductive cp_step :: "'p codec \<Rightarrow> hash \<Rightarrow> 'p cp_db \<Rightarrow> 'p cp_db \<Rightarrow> bool"
  for c :: "'p codec" and sha256 :: hash where
  step_policy: "ResolvedPolicySnapshot_init r = Inr r \<Longrightarrow>
    save_resolved_policy_snapshot c r db = (res, db') \<Longrightarrow> cp_step c sha256 db db'"
| step_configuration: "ResolvedConfigurationSnapshot_init r' = Inr r' \<Longrightarrow>
    save_resolved_configuration_snapshot c r' db = (res', db') \<Longrightarrow> cp_step c sha256 db db'"
| step_reservation: "stripped rid \<Longrightarrow>
    publish_reservation c rid holder kind scope created basis status auth rule lease db = (res_rsv, db') \<Longrightarrow>
    cp_step c sha256 db db'"
| step_promote: "service_promote_reservation_to_lease c rid lid auth basis db = (res_rsv, db') \<Longrightarrow>
    cp_step c sha256 db db'"
| step_invalidate: "invalidate_reservation c rid auth basis db = (res_rsv, db') \<Longrightarrow> cp_step c sha256 db db'"
| step_release: "release_reservation c rid auth basis db = (res_rsv, db') \<Longrightarrow> cp_step c sha256 db db'"
| step_expire: "expire_reservation c rid auth basis db = (res_rsv, db') \<Longrightarrow> cp_step c sha256 db db'"
| step_journal: "service_append_effect_journal_entry c sha256 entry_id effect_id run_id attempt_id step_id
      basis pub target observed uncertainty integrity contra supers db = (res_je, db') \<Longrightarrow>
    cp_step c sha256 db db'"
| step_checkpoint: "CheckpointRecord_init cp = Inr cp \<Longrightarrow> publish_checkpoint c cp db = (res_cp, db') \<Longrightarrow>
    cp_step c sha256 db db'"
| step_accept: "CheckpointRecord_init cp = Inr cp \<Longrightarrow>
    service_accept_checkpoint c aid cp supervisor decided reobs integ entries refs rrefs lrefs rids lids db
      = (res_ca, db') \<Longrightarrow> cp_step c sha256 db db'"
| step_reject: "CheckpointRecord_init cp = Inr cp \<Longrightarrow>
    service_reject_checkpoint c aid cp supervisor decided reobs integ reasons db = (res_ca, db') \<Longrightarrow>
    cp_step c sha256 db db'"
| step_recovery: "service_publish_recovery_decision c decision_id run_id failed basis plane classification
      boundary policy action rationale resumed new cp_target preconditions blocked requirement acceptance
      reconciliation idempotent db = (res_rd, db') \<Longrightarrow> cp_step c sha256 db db'"
| step_reconciliation: "publish_reconciliation c rec_id target_ref compared observed_refs intended_refs
      divergence residual pub safe db = (res_rc, db') \<Longrightarrow> cp_step c sha256 db db'"
| step_lease: "stripped lease_id \<Longrightarrow>
    publish_lease c lease_id resource_id holder epoch pub basis lstatus cleanup granted observation source db
      = (res_ls, db') \<Longrightarrow> cp_step c sha256 db db'"
| step_resource: "publish_resource c resource_id rkind namespace ownership observed_state observed_at cleanup_class
      provenance rstatus orphan db = (res_rsc, db') \<Longrightarrow> cp_step c sha256 db db'"
| step_truth: "publish_final_truth c ft_id run_id result completion evidence residual degradation closure
      sources result_ref operator_action db = (res_ft, db') \<Longrightarrow> cp_step c sha256 db db'"
| step_operator: "publish_operator_action c action_id actor input_class target_ref at precondition outcome
      command risk attestation payload transitions resources receipts db = (res_op, db') \<Longrightarrow>
    cp_step c sha256 db db'"

definition reachable :: "'p codec \<Rightarrow> hash \<Rightarrow> 'p cp_db \<Rightarrow> bool" where
  "reachable c sha256 db \<longleftrightarrow> (cp_step c sha256)\<^sup>*\<^sup>* empty_db db"

section \<open>The record a step appends\<close>

text \<open>
  The atomic writes: one constructor per table, with what the domain has checked of the record. Every
  step is a sequence of at most two of them.
\<close>

inductive cp_write :: "'p codec \<Rightarrow> hash \<Rightarrow> 'p cp_db \<Rightarrow> 'p cp_db \<Rightarrow> bool"
  for c :: "'p codec" and sha256 :: hash where
  no_write: "cp_write c sha256 db db"
| write_policy: "ResolvedPolicySnapshot_init r1 = Inr r1 \<Longrightarrow>
    cp_write c sha256 db (db\<lparr>resolved_policy_snapshots := resolved_policy_snapshots db @ [policy_row c r1]\<rparr>)"
| write_configuration: "ResolvedConfigurationSnapshot_init r2 = Inr r2 \<Longrightarrow>
    cp_write c sha256 db
      (db\<lparr>resolved_configuration_snapshots := resolved_configuration_snapshots db @ [configuration_row c r2]\<rparr>)"
| write_reservation: "get_latest_reservation_record c rid db = Inr prev \<Longrightarrow> (prev = None \<Longrightarrow> stripped rid) \<Longrightarrow>
    build_reservation_record rid holder kind scope created basis status auth rule lease prev = Inr r3 \<Longrightarrow>
    row_key (reservation_row c r3) \<notin> row_key ` set (reservation_records db) \<Longrightarrow>
    cp_write c sha256 db (db\<lparr>reservation_records := reservation_records db @ [reservation_row c r3]\<rparr>)"
| write_republication: "get_latest_reservation_record c rid db = Inr (Some p) \<Longrightarrow>
    get_latest_reservation_record c (rsv_reservation_id p) db = Inr prev \<Longrightarrow>
    build_reservation_record (rsv_reservation_id p) holder kind scope created basis status auth rule lease prev
      = Inr r3 \<Longrightarrow>
    row_key (reservation_row c r3) \<notin> row_key ` set (reservation_records db) \<Longrightarrow>
    cp_write c sha256 db (db\<lparr>reservation_records := reservation_records db @ [reservation_row c r3]\<rparr>)"
| write_journal: "list_effect_journal_entries c run_id db = Inr es \<Longrightarrow>
    create_effect_journal_entry sha256 entry_id effect_id run_id attempt_id step_id jbasis pub target
       observed uncertainty integrity (max_by_sequence es) contra supers = Inr e \<Longrightarrow>
    row_key (journal_row c run_id e) \<notin> row_key ` set (effect_journal_entries db) \<Longrightarrow>
    cp_write c sha256 db (db\<lparr>effect_journal_entries := effect_journal_entries db @ [journal_row c run_id e]\<rparr>)"
| write_checkpoint: "CheckpointRecord_init r4 = Inr r4 \<Longrightarrow>
    cp_write c sha256 db (db\<lparr>checkpoint_records := checkpoint_records db @ [checkpoint_row c r4]\<rparr>)"
| write_acceptance: "CheckpointAcceptanceRecord_init r5 = Inr r5 \<Longrightarrow>
    \<exists>w \<in> set (checkpoint_records db). row_key w = ca_checkpoint_id r5 \<Longrightarrow>
    cp_write c sha256 db
      (db\<lparr>checkpoint_acceptance_records := checkpoint_acceptance_records db @ [acceptance_row c r5]\<rparr>)"
| write_recovery: "build_recovery_decision decision_id rd_run failed rbasis plane classification
      boundary policy action resumed new cp_target preconditions blocked requirement rationale acc
      reconciliation idempotent = Inr r6 \<Longrightarrow>
    (\<And>t. cp_target = Some t \<Longrightarrow> \<exists>w \<in> set (checkpoint_records db). row_key w = t) \<Longrightarrow>
    cp_write c sha256 db (db\<lparr>recovery_decision_records := recovery_decision_records db @ [recovery_row c r6]\<rparr>)"
| write_reconciliation: "ReconciliationRecord_init r7 = Inr r7 \<Longrightarrow>
    cp_write c sha256 db (db\<lparr>reconciliation_records := reconciliation_records db @ [reconciliation_row c r7]\<rparr>)"
| write_lease: "get_latest_lease_record c lease_id db = Inr lprev \<Longrightarrow> stripped lease_id \<Longrightarrow>
    build_lease_record lease_id resource_id lholder epoch lpub lbasis lstatus cleanup granted observation source
      lprev [] = Inr r8 \<Longrightarrow>
    cp_write c sha256 db (db\<lparr>lease_records := lease_records db @ [lease_row c r8]\<rparr>)"
| write_resource: "ResourceRecord_init r9 = Inr r9 \<Longrightarrow>
    cp_write c sha256 db (db\<lparr>resource_records := resource_records db @ [resource_row c r9]\<rparr>)"
| write_truth: "build_final_truth_record ft_id ft_run result completion evidence residual degradation closure
      sources result_ref operator_action = Inr r10 \<Longrightarrow>
    cp_write c sha256 db (db\<lparr>final_truth_records := final_truth_records db @ [truth_row c r10]\<rparr>)"
| write_operator: "OperatorActionRecord_init r11 = Inr r11 \<Longrightarrow>
    cp_write c sha256 db (db\<lparr>operator_action_records := operator_action_records db @ [operator_row c r11]\<rparr>)"

lemma write_row:
  "cp_write c sha256 db db1 \<Longrightarrow> db' = db \<or> db' = db1 \<Longrightarrow> (cp_write c sha256)\<^sup>*\<^sup>* db db'"
  by auto

lemma saved_checkpoint_present:
  assumes "save_checkpoint c cp db = (Inr r, db1)"
  shows "\<exists>w \<in> set (checkpoint_records db1). row_key w = cp_checkpoint_id cp"
  using assms
  by (auto simp: save_checkpoint_def insert_or_return_existing_def insert_row_def
      split: option.splits if_splits dest: select_payload_Some_in)

lemma save_checkpoint_writes:
  assumes "save_checkpoint c cp db = (res, db')" and "CheckpointRecord_init cp = Inr cp"
  shows "cp_write c sha256 db db'"
  using save_checkpoint_effect [OF assms(1)] assms(2) by (auto intro: cp_write.intros)

lemma get_checkpoint_present:
  assumes "get_checkpoint c t db = Inr (Some k)"
  shows "\<exists>w \<in> set (checkpoint_records db). row_key w = t"
  using assms by (auto simp: get_checkpoint_def load_opt_def split: option.splits
      dest: select_payload_Some_in)

lemma checkpoint_decision_writes:
  assumes "bind_eff (publish_checkpoint c cp) (\<lambda>_. bind_eff (lift_result m)
             (save_checkpoint_acceptance c)) db = (res, db')"
    and "CheckpointRecord_init cp = Inr cp"
    and m: "\<And>a. m = Inr a \<Longrightarrow> CheckpointAcceptanceRecord_init a = Inr a \<and> ca_checkpoint_id a = cp_checkpoint_id cp"
  shows "(cp_write c sha256)\<^sup>*\<^sup>* db db'"
proof -
  obtain res1 db1 where save: "save_checkpoint c cp db = (res1, db1)" by fastforce
  note first = save_checkpoint_writes [OF save assms(2), of sha256]
  show ?thesis
  proof (cases "db' = db1")
    case True
    then show ?thesis using first by blast
  next
    case False
    then obtain r a where r: "res1 = Inr r" and a: "m = Inr a"
      "save_checkpoint_acceptance c a db1 = (res, db')"
      using assms(1) save
      by (cases res1; cases m) (auto simp: bind_eff_def publish_checkpoint_def lift_result_def)
    have "\<exists>w \<in> set (checkpoint_records db1). row_key w = ca_checkpoint_id a"
      using saved_checkpoint_present save m [OF a(1)] r by simp
    then have "cp_write c sha256 db1 db'"
      using save_checkpoint_acceptance_effect [OF a(2)] m [OF a(1)] write_acceptance no_write by metis
    then show ?thesis using first by (meson converse_rtranclp_into_rtranclp r_into_rtranclp)
  qed
qed

lemma authority_accept_checkpoint_Inr:
  assumes "authority_accept_checkpoint aid cp supervisor decided reobs integ entries refs rrefs lrefs rids lids = Inr a"
  shows "CheckpointAcceptanceRecord_init a = Inr a" and "ca_checkpoint_id a = cp_checkpoint_id cp"
    and "ca_outcome a = CheckpointAcceptanceOutcome.ACCEPTED"
    and "validate_checkpoint_acceptance cp a entries rids lids = Inr True"
proof -
  let ?R = "\<lparr>ca_contract_version = CONTROL_PLANE_CONTRACT_VERSION_V1, ca_acceptance_id = aid,
          ca_checkpoint_id = cp_checkpoint_id cp, ca_supervisor_authority_ref = supervisor,
          ca_decision_timestamp = decided, ca_outcome = CheckpointAcceptanceOutcome.ACCEPTED,
          ca_resumability_class = cp_resumability_class cp, ca_required_reobservation_class = reobs,
          ca_evaluated_policy_digest = cp_policy_digest cp, ca_integrity_verification_ref = integ,
          ca_dependent_effect_entry_refs =
            (case refs of Some (x # xs) \<Rightarrow> x # xs | _ \<Rightarrow> map je_journal_entry_id entries),
          ca_dependent_reservation_refs = rrefs, ca_dependent_lease_refs = lrefs,
          ca_rejection_reasons = []\<rparr>"
  obtain b where init: "CheckpointAcceptanceRecord_init ?R = Inr a"
    and v: "validate_checkpoint_acceptance cp a entries rids lids = Inr b"
    using assms unfolding authority_accept_checkpoint_def by (auto simp: bind_result_Inr_iff)
  have a: "a = ?R" and "CheckpointAcceptanceRecord_init a = Inr a"
    using CheckpointAcceptanceRecord_init_Inr [OF init] by blast+
  then show "CheckpointAcceptanceRecord_init a = Inr a" by simp
  show "ca_checkpoint_id a = cp_checkpoint_id cp" "ca_outcome a = CheckpointAcceptanceOutcome.ACCEPTED"
    by (simp_all add: a)
  have "b" using v by (auto simp: validate_checkpoint_acceptance_def Let_def bind_result_Inr_iff
        split: if_splits option.splits)
  then show "validate_checkpoint_acceptance cp a entries rids lids = Inr True"
    using v by simp
qed

lemma authority_reject_checkpoint_Inr:
  assumes "authority_reject_checkpoint aid cp supervisor decided reobs integ reasons = Inr a"
  shows "CheckpointAcceptanceRecord_init a = Inr a \<and> ca_checkpoint_id a = cp_checkpoint_id cp \<and>
         ca_outcome a = CheckpointAcceptanceOutcome.REJECTED"
  using CheckpointAcceptanceRecord_init_Inr [OF assms [unfolded authority_reject_checkpoint_def]] by auto

lemma republication_writes:
  assumes "republish_reservation c label rid auth basis status lease db = (res, db')"
  shows "cp_write c sha256 db db'"
proof (cases "db' = db")
  case True
  then show ?thesis by (simp add: no_write)
next
  case False
  then obtain p where p: "get_latest_reservation_record c rid db = Inr (Some p)"
    "publish_reservation c (rsv_reservation_id p) (rsv_holder_ref p) (rsv_reservation_kind p)
       (rsv_target_scope_ref p) (rsv_creation_timestamp p) basis status auth (rsv_promotion_rule p) lease db
     = (res, db')"
    using republish_reservation_effect [OF assms] by blast
  show ?thesis
    using publish_reservation_effect [OF p(2)] False write_republication [OF p(1)] by blast
qed

lemma recovery_step_writes:
  assumes "service_publish_recovery_decision c decision_id run_id failed basis plane classification boundary
     policy action rationale resumed new target preconditions blocked requirement acceptance
     reconciliation idempotent db = (res, db')"
  shows "cp_write c sha256 db db'"
proof (cases "db' = db")
  case True
  then show ?thesis by (simp add: no_write)
next
  case False
  then obtain acc d where d: "build_recovery_decision decision_id run_id failed basis plane classification
       boundary policy action resumed new target preconditions blocked requirement rationale acc
       reconciliation idempotent = Inr d"
    and cp: "\<forall>t. target = Some t \<longrightarrow> (\<exists>k. get_checkpoint c t db = Inr (Some k))"
    and save: "save_recovery_decision c d db = (res, db')"
    using service_publish_recovery_decision_effect [OF assms] by blast
  have "\<exists>w \<in> set (checkpoint_records db). row_key w = t" if "target = Some t" for t
    using cp that get_checkpoint_present by blast
  then show ?thesis
    using save_recovery_decision_effect [OF save] False write_recovery [OF d] by blast
qed

lemma journal_step_writes:
  assumes "service_append_effect_journal_entry c sha256 entry_id effect_id run_id attempt_id step_id basis
     pub target observed uncertainty integrity contra supers db = (res, db')"
  shows "cp_write c sha256 db db'"
proof (cases "db' = db")
  case True
  then show ?thesis by (simp add: no_write)
next
  case False
  then obtain es e where "list_effect_journal_entries c run_id db = Inr es"
     "create_effect_journal_entry sha256 entry_id effect_id run_id attempt_id step_id basis pub target
       observed uncertainty integrity (max_by_sequence es) contra supers = Inr e"
     and save: "append_effect_journal_entry c run_id e db = (res, db')"
    using service_append_effect_journal_entry_effect [OF assms] by blast
  then show ?thesis using append_effect_journal_entry_effect [OF save] False write_journal by blast
qed

lemma built_record_writes:
  assumes "bind_eff (lift_result m) f db = (res, db')"
    and "\<And>r. m = Inr r \<Longrightarrow> f r db = (res, db') \<Longrightarrow> db' = db \<or> cp_write c sha256 db db'"
  shows "(cp_write c sha256)\<^sup>*\<^sup>* db db'"
  using build_and_save_effect [OF assms(1)] assms(2) by blast

text \<open>Every call of the service is a sequence of atomic writes.\<close>

lemma cp_step_writes:
  assumes "cp_step c sha256 db db'"
  shows "(cp_write c sha256)\<^sup>*\<^sup>* db db'"
  using assms
proof cases
  case (step_policy r res)
  then show ?thesis using save_resolved_policy_snapshot_effect write_row [OF write_policy] by blast
next
  case (step_configuration r res)
  then show ?thesis using save_resolved_configuration_snapshot_effect write_row [OF write_configuration] by blast
next
  case (step_reservation rid holder kind scope created basis status auth rule lease res)
  then show ?thesis using publish_reservation_effect [OF step_reservation(2)]
      write_reservation no_write by (metis r_into_rtranclp)
next
  case (step_promote rid lid auth basis res)
  then show ?thesis unfolding service_promote_reservation_to_lease_def using republication_writes by blast
next
  case (step_invalidate rid auth basis res)
  then show ?thesis unfolding invalidate_reservation_def using republication_writes by blast
next
  case (step_release rid auth basis res)
  then show ?thesis unfolding release_reservation_def using republication_writes by blast
next
  case (step_expire rid auth basis res)
  then show ?thesis unfolding expire_reservation_def using republication_writes by blast
next
  case step_journal
  then show ?thesis using journal_step_writes r_into_rtranclp by metis
next
  case (step_checkpoint cp res)
  then show ?thesis unfolding publish_checkpoint_def using save_checkpoint_writes by blast
next
  case step_accept
  then show ?thesis unfolding service_accept_checkpoint_def
    using checkpoint_decision_writes authority_accept_checkpoint_Inr by metis
next
  case step_reject
  then show ?thesis unfolding service_reject_checkpoint_def
    using checkpoint_decision_writes authority_reject_checkpoint_Inr by metis
next
  case step_recovery
  then show ?thesis using recovery_step_writes r_into_rtranclp by metis
next
  case step_reconciliation
  then show ?thesis
    unfolding publish_reconciliation_def authority_publish_reconciliation_def
    by (rule built_record_writes)
       (use ReconciliationRecord_init_Inr save_reconciliation_record_effect write_reconciliation in blast)
next
  case (step_lease lease_id resource_id holder epoch pub basis lstatus cleanup granted observation source res)
  then show ?thesis using publish_lease_effect [OF step_lease(2)] write_lease by (metis r_into_rtranclp no_write)
next
  case step_resource
  then show ?thesis
    unfolding publish_resource_def authority_publish_resource_def
    by (rule built_record_writes)
       (use ResourceRecord_init_Inr save_resource_record_effect write_resource in blast)
next
  case step_truth
  then show ?thesis
    unfolding publish_final_truth_def authority_publish_final_truth_def
    by (rule built_record_writes) (metis save_final_truth_effect write_truth)
next
  case step_operator
  then show ?thesis
    unfolding publish_operator_action_def authority_publish_operator_action_def
    by (rule built_record_writes)
       (use OperatorActionRecord_init_Inr save_operator_action_effect write_operator in blast)
qed

end
