(* ===== verification/Control_Plane_Invariants.thy ===== *)
theory Control_Plane_Invariants
  imports Control_Plane_Steps
begin

text \<open>
  What holds of every database the control plane can reach: tables only grow; every row of the
  reservation, lease, journal, recovery and final-truth tables is the row of a valid record; the
  records of one reservation follow the status machine and keep their identity; the records of one
  lease never go back in epoch or publication time; the journal of a run is one unbroken chain
  that the chain check accepts; a recovery decision that resumes names a stored checkpoint; a
  success is stored only on sufficient evidence.

  Each part is an invariant of one table, preserved by every atomic write and lifted to reachable
  databases by rule induction.
\<close>

section \<open>Tables only grow\<close>

definition db_extends :: "'p cp_db \<Rightarrow> 'p cp_db \<Rightarrow> bool" where
  "db_extends db db' \<longleftrightarrow>
     prefix (resolved_policy_snapshots db) (resolved_policy_snapshots db') \<and>
     prefix (resolved_configuration_snapshots db) (resolved_configuration_snapshots db') \<and>
     prefix (reservation_records db) (reservation_records db') \<and>
     prefix (resource_records db) (resource_records db') \<and>
     prefix (effect_journal_entries db) (effect_journal_entries db') \<and>
     prefix (checkpoint_records db) (checkpoint_records db') \<and>
     prefix (checkpoint_acceptance_records db) (checkpoint_acceptance_records db') \<and>
     prefix (recovery_decision_records db) (recovery_decision_records db') \<and>
     prefix (lease_records db) (lease_records db') \<and>
     prefix (reconciliation_records db) (reconciliation_records db') \<and>
     prefix (operator_action_records db) (operator_action_records db') \<and>
     prefix (final_truth_records db) (final_truth_records db')"

lemma db_extends_refl [simp]: "db_extends db db"
  by (simp add: db_extends_def)

lemma db_extends_trans: "db_extends a b \<Longrightarrow> db_extends b d \<Longrightarrow> db_extends a d"
  unfolding db_extends_def by (meson prefix_order.trans)

lemma cp_write_extends: "cp_write c sha256 db db' \<Longrightarrow> db_extends db db'"
  by (induction rule: cp_write.induct) (simp_all add: db_extends_def)

lemma cp_step_extends:
  assumes "cp_step c sha256 db db'"
  shows "db_extends db db'"
  using cp_step_writes [OF assms]
  by (induction rule: rtranclp_induct) (auto intro: db_extends_trans cp_write_extends)

lemma cp_steps_extend: "(cp_step c sha256)\<^sup>*\<^sup>* db db' \<Longrightarrow> db_extends db db'"
  by (induction rule: rtranclp_induct) (auto intro: db_extends_trans cp_step_extends)

lemma select_payload_prefix:
  "prefix rows rows' \<Longrightarrow> select_payload k rows = Some p \<Longrightarrow> select_payload k rows' = Some p"
  unfolding prefix_def select_payload_def by (induction rows arbitrary: rows') (auto split: if_splits)

section \<open>Rows of records\<close>

definition rows_of :: "('r \<Rightarrow> 'w) \<Rightarrow> ('r \<Rightarrow> bool) \<Rightarrow> ('r list \<Rightarrow> bool) \<Rightarrow> 'w list \<Rightarrow> bool" where
  "rows_of row ok hist rows \<longleftrightarrow> (\<exists>rs. rows = map row rs \<and> (\<forall>r \<in> set rs. ok r) \<and> hist rs)"

lemma rows_of_Nil: "hist [] \<Longrightarrow> rows_of row ok hist []"
  by (simp add: rows_of_def)

lemma traverse_rows:
  assumes "\<forall>r \<in> set rs. load (payload_json (row r)) = Inr r"
  shows "traverse load (map payload_json (map row rs)) = Inr rs"
  using assms by (induction rs) simp_all

lemma load_last_row:
  assumes "\<forall>r \<in> set rs. load (payload_json (row r)) = Inr r"
  shows "load_opt load (map_option payload_json (last_row (map row rs))) =
           Inr (if rs = [] then None else Some (last rs))"
  using assms by (cases rs rule: rev_cases) (simp_all add: last_row_def load_opt_def)

section \<open>Reservations\<close>

definition reservation_identity :: "ReservationRecord \<Rightarrow> _" where
  "reservation_identity r =
     (rsv_holder_ref r, rsv_reservation_kind r, rsv_target_scope_ref r, rsv_creation_timestamp r)"

definition reservation_history_ok :: "ReservationRecord list \<Rightarrow> bool" where
  "reservation_history_ok rs \<longleftrightarrow>
     legal_path reservation_status_transitions (map rsv_status rs) \<and>
     (rs \<noteq> [] \<longrightarrow> rsv_status (hd rs) \<in> {ReservationStatus.PENDING, ReservationStatus.ACTIVE}) \<and>
     (\<exists>i. \<forall>r \<in> set rs. reservation_identity r = i)"

definition reservation_ok :: "ReservationRecord \<Rightarrow> bool" where
  "reservation_ok r \<longleftrightarrow> ReservationRecord_init r = Inr r \<and> stripped (rsv_reservation_id r) \<and>
     stripped (rsv_holder_ref r) \<and> stripped (rsv_target_scope_ref r) \<and> stripped (rsv_creation_timestamp r)"

definition reservation_inv :: "'p codec \<Rightarrow> 'p cp_db \<Rightarrow> bool" where
  "reservation_inv c db = rows_of (reservation_row c) reservation_ok
     (\<lambda>rs. \<forall>k. reservation_history_ok (filter (\<lambda>r. rsv_reservation_id r = k) rs)) (reservation_records db)"

lemma load_reservation_row:
  assumes "codec_ok c" and "\<forall>r \<in> set rs. reservation_ok r"
  shows "\<forall>r \<in> set rs. load_reservation c (payload_json (reservation_row c r)) = Inr r"
  using assms by (simp add: codec_ok_def reservation_ok_def reservation_row_def)

lemma filter_reservation_rows:
  "filter (\<lambda>w. fst (row_key w) = k) (map (reservation_row c) rs) =
   map (reservation_row c) (filter (\<lambda>r. rsv_reservation_id r = k) rs)"
  by (simp add: filter_map comp_def reservation_row_def)

lemma read_reservations:
  assumes "codec_ok c" and "\<forall>r \<in> set rs. reservation_ok r"
    and "reservation_records db = map (reservation_row c) rs"
  shows "list_reservation_records c k db = Inr (filter (\<lambda>r. rsv_reservation_id r = k) rs)"
    and "get_latest_reservation_record c k db =
      Inr (let h = filter (\<lambda>r. rsv_reservation_id r = k) rs in if h = [] then None else Some (last h))"
proof -
  let ?h = "filter (\<lambda>r. rsv_reservation_id r = k) rs"
  have load: "\<forall>r \<in> set ?h. load_reservation c (payload_json (reservation_row c r)) = Inr r"
    using load_reservation_row [OF assms(1,2)] by simp
  show "list_reservation_records c k db = Inr ?h"
    unfolding list_reservation_records_def assms(3) filter_reservation_rows by (rule traverse_rows [OF load])
  show "get_latest_reservation_record c k db = Inr (let h = ?h in if h = [] then None else Some (last h))"
    unfolding get_latest_reservation_record_def assms(3) filter_reservation_rows Let_def
    by (rule load_last_row [OF load])
qed

lemma reservation_history_snoc:
  assumes "reservation_history_ok h" and "\<forall>r \<in> set h. reservation_ok r"
    and "build_reservation_record rid holder kind scope created basis status auth rule lease
           (if h = [] then None else Some (last h)) = Inr r"
  shows "reservation_history_ok (h @ [r])"
proof (cases "h = []")
  case True
  then show ?thesis
    using build_reservation_record_Inr(8) [OF assms(3)] build_reservation_record_Inr(7) [OF assms(3)]
    by (auto simp: reservation_history_ok_def simp del: split_paired_Ex)
next
  case False
  note b = build_reservation_record_Inr [OF assms(3)]
  have "reservation_successor_history (last h) status holder kind scope created = Inr (rsv_history_refs r)"
    using b(9) False by simp
  then have s: "status \<in> reservation_status_transitions (rsv_status (last h))" "rsv_holder_ref (last h) = holder"
    "rsv_reservation_kind (last h) = kind" "rsv_target_scope_ref (last h) = scope"
    "rsv_creation_timestamp (last h) = created"
    by (simp_all add: reservation_successor_history_Inr)
  have ok: "reservation_ok (last h)" using assms(2) False by simp
  have "py_strip (rsv_holder_ref (last h)) = rsv_holder_ref (last h)"
    "py_strip (rsv_target_scope_ref (last h)) = rsv_target_scope_ref (last h)"
    "py_strip (rsv_creation_timestamp (last h)) = rsv_creation_timestamp (last h)"
    using ok unfolding reservation_ok_def stripped_def by blast+
  then have "reservation_identity r = reservation_identity (last h)"
    unfolding s(2,4,5) by (simp only: reservation_identity_def b(3-6) s(2-5))
  moreover have "legal_path reservation_status_transitions (map rsv_status (h @ [r]))"
    using assms(1) False s(1) b(7) by (simp add: reservation_history_ok_def last_map)
  moreover obtain i where "\<forall>x \<in> set h. reservation_identity x = i"
    using assms(1) by (auto simp: reservation_history_ok_def)
  ultimately show ?thesis
    using assms(1) False unfolding reservation_history_ok_def by (auto simp: hd_append2)
qed

lemma reservation_append:
  assumes "codec_ok c" and inv: "reservation_inv c db"
    and latest: "get_latest_reservation_record c rid db = Inr prev" and rid: "prev = None \<Longrightarrow> stripped rid"
    and build: "build_reservation_record rid holder kind scope created basis status auth rule lease prev = Inr r"
  shows "reservation_inv c (db\<lparr>reservation_records := reservation_records db @ [reservation_row c r]\<rparr>)"
proof -
  obtain rs where rs: "reservation_records db = map (reservation_row c) rs" "\<forall>r \<in> set rs. reservation_ok r"
    and hist: "\<And>k. reservation_history_ok (filter (\<lambda>r. rsv_reservation_id r = k) rs)"
    using inv by (auto simp: reservation_inv_def rows_of_def)
  let ?h = "filter (\<lambda>r. rsv_reservation_id r = rid) rs"
  have prev: "prev = (if ?h = [] then None else Some (last ?h))"
    using latest read_reservations(2) [OF assms(1) rs(2,1), of rid] by (simp add: Let_def)
  have strip: "stripped rid"
  proof (cases "?h = []")
    case False
    then have "last ?h \<in> set ?h" by (rule last_in_set)
    then show ?thesis using rs(2) by (auto simp: reservation_ok_def)
  qed (use prev rid in simp)
  note b = build_reservation_record_Inr [OF build]
  have id: "rsv_reservation_id r = rid" using b(2) strip by simp
  have ok: "reservation_ok r" using b(1-6) by (simp add: reservation_ok_def)
  have "reservation_history_ok (?h @ [r])"
    by (rule reservation_history_snoc) (use hist rs(2) build prev in auto)
  then have "reservation_history_ok (filter (\<lambda>r. rsv_reservation_id r = k) (rs @ [r]))" for k
    using hist [of k] id by (cases "k = rid") simp_all
  then show ?thesis
    unfolding reservation_inv_def rows_of_def using rs ok by (intro exI [of _ "rs @ [r]"]) auto
qed

section \<open>Leases\<close>

definition lease_follows :: "LeaseRecord \<Rightarrow> LeaseRecord \<Rightarrow> bool" where
  "lease_follows p r \<longleftrightarrow>
     ls_lease_epoch p \<le> ls_lease_epoch r \<and> ls_publication_timestamp p \<le> ls_publication_timestamp r \<and>
     lease_publication_ref p \<in> set (ls_history_refs r) \<and>
     (ls_lease_epoch r = ls_lease_epoch p \<longrightarrow>
        ls_granted_timestamp r = ls_granted_timestamp p \<and>
        (ls_status r \<in> lease_status_transitions (ls_status p) \<or>
         (ls_status r = ls_status p \<and> ls_publication_timestamp p < ls_publication_timestamp r)))"

definition lease_ok :: "LeaseRecord \<Rightarrow> bool" where
  "lease_ok r \<longleftrightarrow> LeaseRecord_init r = Inr r"

definition lease_inv :: "'p codec \<Rightarrow> 'p cp_db \<Rightarrow> bool" where
  "lease_inv c db = rows_of (lease_row c) lease_ok
     (\<lambda>rs. \<forall>k. successively lease_follows (filter (\<lambda>r. ls_lease_id r = k) rs)) (lease_records db)"

lemma load_lease_row:
  assumes "codec_ok c" and "\<forall>r \<in> set rs. lease_ok r"
  shows "\<forall>r \<in> set rs. load_lease c (payload_json (lease_row c r)) = Inr r"
  using assms by (simp add: codec_ok_def lease_ok_def lease_row_def)

text \<open>
  In a lease history the order of insertion is already the order of epoch and publication time, so the
  latest record of the query is the last one written.
\<close>

definition lease_order :: "LeaseRecord \<Rightarrow> int \<times> string" where
  "lease_order r = (ls_lease_epoch r, ls_publication_timestamp r)"

lemma lease_history_sorted:
  assumes "successively lease_follows h"
  shows "sorted (map lease_order h)"
proof -
  have "successively (\<lambda>p r. lease_order p \<le> lease_order r) h"
    using assms by (rule successively_mono) (auto simp: lease_follows_def lease_order_def)
  moreover have "transp (\<lambda>p r. lease_order p \<le> lease_order r)" by (auto intro!: transpI)
  ultimately have "sorted_wrt (\<lambda>p r. lease_order p \<le> lease_order r) h"
    by (simp add: successively_conv_sorted_wrt)
  then show ?thesis by (simp add: sorted_map)
qed

lemma lease_query_rows:
  assumes "successively lease_follows (filter (\<lambda>r. ls_lease_id r = k) rs)"
  shows "sort_key (\<lambda>w. (fst (snd (row_key w)), snd (snd (snd (row_key w)))))
           (filter (\<lambda>w. fst (row_key w) = k) (map (lease_row c) rs)) =
         map (lease_row c) (filter (\<lambda>r. ls_lease_id r = k) rs)"
proof -
  let ?h = "filter (\<lambda>r. ls_lease_id r = k) rs"
  have rows: "filter (\<lambda>w. fst (row_key w) = k) (map (lease_row c) rs) = map (lease_row c) ?h"
    by (simp add: filter_map comp_def lease_row_def)
  have "map (\<lambda>w. (fst (snd (row_key w)), snd (snd (snd (row_key w))))) (map (lease_row c) ?h) =
      map lease_order ?h"
    by (simp add: lease_row_def lease_order_def comp_def)
  then show ?thesis
    unfolding rows using lease_history_sorted [OF assms] by (intro sort_key_id_if_sorted) (simp only:)
qed

lemma read_leases:
  assumes "codec_ok c" and "\<forall>r \<in> set rs. lease_ok r" and "lease_records db = map (lease_row c) rs"
    and "successively lease_follows (filter (\<lambda>r. ls_lease_id r = k) rs)"
  shows "list_lease_records c k db = Inr (filter (\<lambda>r. ls_lease_id r = k) rs)"
    and "get_latest_lease_record c k db =
      Inr (let h = filter (\<lambda>r. ls_lease_id r = k) rs in if h = [] then None else Some (last h))"
proof -
  let ?h = "filter (\<lambda>r. ls_lease_id r = k) rs"
  have load: "\<forall>r \<in> set ?h. load_lease c (payload_json (lease_row c r)) = Inr r"
    using load_lease_row [OF assms(1,2)] by simp
  show "list_lease_records c k db = Inr ?h"
    unfolding list_lease_records_def assms(3) lease_query_rows [OF assms(4)] by (rule traverse_rows [OF load])
  show "get_latest_lease_record c k db = Inr (let h = ?h in if h = [] then None else Some (last h))"
    unfolding get_latest_lease_record_def assms(3) lease_query_rows [OF assms(4)] Let_def
    by (rule load_last_row [OF load])
qed

lemma built_lease_follows:
  assumes "build_lease_record lease_id resource_id holder epoch pub basis status rule granted observed source
             (Some p) hist = Inr r"
  shows "lease_follows p r"
proof -
  note b = build_lease_record_Inr [OF assms]
  note s = lease_successor_fields_Inr [OF b(7) [OF refl]]
  show ?thesis using s b(3-5) by (simp add: lease_follows_def)
qed

lemma lease_append:
  assumes "codec_ok c" and inv: "lease_inv c db"
    and latest: "get_latest_lease_record c lease_id db = Inr prev" and "stripped lease_id"
    and build: "build_lease_record lease_id resource_id holder epoch pub basis status rule granted observed
       source prev [] = Inr r"
  shows "lease_inv c (db\<lparr>lease_records := lease_records db @ [lease_row c r]\<rparr>)"
proof -
  obtain rs where rs: "lease_records db = map (lease_row c) rs" "\<forall>r \<in> set rs. lease_ok r"
    and hist: "\<And>k. successively lease_follows (filter (\<lambda>r. ls_lease_id r = k) rs)"
    using inv by (auto simp: lease_inv_def rows_of_def)
  let ?h = "filter (\<lambda>r. ls_lease_id r = lease_id) rs"
  have prev: "prev = (if ?h = [] then None else Some (last ?h))"
    using latest read_leases(2) [OF assms(1) rs(2,1) hist, of lease_id] by (simp add: Let_def)
  have id: "ls_lease_id r = lease_id" and ok: "lease_ok r"
    using build_lease_record_Inr(1,2) [OF build] assms(4) by (simp_all add: lease_ok_def)
  have "lease_follows (last ?h) r" if "?h \<noteq> []"
    using built_lease_follows build prev that by simp
  then have "successively lease_follows (filter (\<lambda>r. ls_lease_id r = k) (rs @ [r]))" for k
    using hist [of k] id by (cases "k = lease_id") (auto simp: successively_append_iff)
  then show ?thesis
    unfolding lease_inv_def rows_of_def using rs ok by (intro exI [of _ "rs @ [r]"]) auto
qed

section \<open>The effect journal\<close>

definition journal_ok :: "EffectJournalEntryRecord \<Rightarrow> bool" where
  "journal_ok e \<longleftrightarrow> EffectJournalEntryRecord_init e = Inr e"

definition run_entries :: "string \<Rightarrow> EffectJournalEntryRecord list \<Rightarrow> EffectJournalEntryRecord list" where
  "run_entries k es = filter (\<lambda>e. je_run_id e = k) es"

definition journal_inv :: "'p codec \<Rightarrow> hash \<Rightarrow> 'p cp_db \<Rightarrow> bool" where
  "journal_inv c sha256 db = rows_of (\<lambda>e. journal_row c (je_run_id e) e) journal_ok
     (\<lambda>es. \<forall>k. linked_from sha256 None (run_entries k es)) (effect_journal_entries db)"

lemma max_by_sequence_linked:
  assumes "linked_from sha256 None es"
  shows "max_by_sequence es = last_entry None es"
proof -
  have step: "foldl (\<lambda>m e. if je_publication_sequence m < je_publication_sequence e then e else m) p ys =
      last (p # ys)" if "linked_from sha256 (Some p) ys" for p ys
    using that by (induction ys arbitrary: p) (auto simp: journal_link_def)
  show ?thesis
    using assms step by (cases es) (simp_all add: max_by_sequence_def last_entry_def)
qed

lemma read_journal:
  assumes "codec_ok c" and "\<forall>e \<in> set es. journal_ok e"
    and "effect_journal_entries db = map (\<lambda>e. journal_row c (je_run_id e) e) es"
    and "linked_from sha256 None (run_entries k es)"
  shows "list_effect_journal_entries c k db = Inr (run_entries k es)"
proof -
  let ?row = "\<lambda>e. journal_row c (je_run_id e) e"
  have rows: "filter (\<lambda>w. fst (row_cols w) = k) (map ?row es) = map ?row (run_entries k es)"
    by (simp add: filter_map comp_def journal_row_def run_entries_def)
  have "sorted (map je_publication_sequence (run_entries k es))"
    using linked_sorted [OF assms(4)] by (metis sorted_sort_key)
  then have "sorted (map (\<lambda>w. fst (snd (row_cols w))) (map ?row (run_entries k es)))"
    by (simp add: journal_row_def comp_def)
  then have sorted: "sort_key (\<lambda>w. fst (snd (row_cols w))) (map ?row (run_entries k es)) =
      map ?row (run_entries k es)"
    by (rule sort_key_id_if_sorted)
  have "\<forall>e \<in> set (run_entries k es). load_journal c (payload_json (?row e)) = Inr e"
    using assms(1,2) by (simp add: codec_ok_def journal_ok_def journal_row_def run_entries_def)
  then show ?thesis
    unfolding list_effect_journal_entries_def assms(3) rows sorted by (rule traverse_rows)
qed

lemma last_run_entry: "last_entry None (run_entries k es) = Some p \<Longrightarrow> je_run_id p = k"
  using last_in_set [of "run_entries k es"] by (auto simp: last_entry_def run_entries_def split: if_splits)

text \<open>An entry the domain builds on the last entry of a run extends the chain of that run.\<close>

lemma journal_extend:
  assumes "\<And>k. linked_from sha256 None (run_entries k es)"
    and create: "create_effect_journal_entry sha256 entry_id effect_id run_id attempt_id step_id basis pub target
       observed uncertainty integrity (last_entry None (run_entries run_id es)) contra supers = Inr e"
  shows "linked_from sha256 None (run_entries k (es @ [e]))" and "journal_ok e" and "je_run_id e = run_id"
    and "run_entries run_id (es @ [e]) = run_entries run_id es @ [e]"
proof -
  note b = create_effect_journal_entry_Inr [OF create]
  have "journal_link sha256 (last_entry None (run_entries run_id es)) e"
    using created_entry_links [OF create] last_run_entry by blast
  then show "linked_from sha256 None (run_entries k (es @ [e]))"
    using assms(1) [of k] b(4) by (cases "k = run_id") (simp_all add: run_entries_def linked_snoc)
  show "journal_ok e" "je_run_id e = run_id" "run_entries run_id (es @ [e]) = run_entries run_id es @ [e]"
    using b(1,4) by (simp_all add: journal_ok_def run_entries_def)
qed

lemma journal_append:
  assumes "codec_ok c" and inv: "journal_inv c sha256 db"
    and read: "list_effect_journal_entries c run_id db = Inr read"
    and create: "create_effect_journal_entry sha256 entry_id effect_id run_id attempt_id step_id basis pub target
       observed uncertainty integrity (max_by_sequence read) contra supers = Inr e"
  shows "journal_inv c sha256 (db\<lparr>effect_journal_entries := effect_journal_entries db @ [journal_row c run_id e]\<rparr>)"
proof -
  obtain es where es: "effect_journal_entries db = map (\<lambda>e. journal_row c (je_run_id e) e) es"
    "\<forall>e \<in> set es. journal_ok e" and chain: "\<And>k. linked_from sha256 None (run_entries k es)"
    using inv by (auto simp: journal_inv_def rows_of_def)
  have prev: "max_by_sequence read = last_entry None (run_entries run_id es)"
    using read read_journal [OF assms(1) es(2,1) chain] max_by_sequence_linked [OF chain]
    by (metis sum.inject(2))
  note ext = journal_extend [OF chain create [unfolded prev]]
  show ?thesis
    unfolding journal_inv_def rows_of_def using es ext by (intro exI [of _ "es @ [e]"]) auto
qed

section \<open>Recovery decisions and final truths\<close>

definition recovery_ok :: "'p cp_db \<Rightarrow> RecoveryDecisionRecord \<Rightarrow> bool" where
  "recovery_ok db d \<longleftrightarrow> RecoveryDecisionRecord_init d = Inr d \<and>
     (\<forall>t. rd_target_checkpoint_id d = Some t \<longrightarrow> t \<in> row_key ` set (checkpoint_records db))"

definition recovery_inv :: "'p codec \<Rightarrow> 'p cp_db \<Rightarrow> bool" where
  "recovery_inv c db =
     rows_of (recovery_row c) (recovery_ok db) (\<lambda>_. True) (recovery_decision_records db)"

lemma recovery_ok_mono:
  "recovery_ok db d \<Longrightarrow> set (checkpoint_records db) \<subseteq> set (checkpoint_records db') \<Longrightarrow> recovery_ok db' d"
  unfolding recovery_ok_def by blast

definition truth_claim_ok :: "FinalTruthRecord \<Rightarrow> bool" where
  "truth_claim_ok r \<longleftrightarrow>
     (ft_result_class r = ResultClass.SUCCESS \<longrightarrow>
        ft_evidence_sufficiency_classification r = EvidenceSufficiencyClassification.SUFFICIENT) \<and>
     (ft_evidence_sufficiency_classification r = EvidenceSufficiencyClassification.ATTESTED \<longrightarrow>
        AuthoritySourceClass.OPERATOR_ATTESTATION \<in> set (ft_authority_sources r)) \<and>
     (ft_closure_basis r = ClosureBasisClassification.RECONCILIATION_CLOSED \<longrightarrow>
        AuthoritySourceClass.RECONCILIATION_RECORD \<in> set (ft_authority_sources r)) \<and>
     ft_terminality_basis r = terminality_basis_for_closure (ft_closure_basis r)"

definition truth_inv :: "'p codec \<Rightarrow> 'p cp_db \<Rightarrow> bool" where
  "truth_inv c db = rows_of (truth_row c)
     (\<lambda>r. FinalTruthRecord_init r = Inr r \<and> truth_claim_ok r) (\<lambda>_. True) (final_truth_records db)"

lemma valid_truth_claim_ok: "FinalTruthRecord_init r = Inr r' \<Longrightarrow> truth_claim_ok r'"
  by (auto simp: FinalTruthRecord_init_def validate_model_Inr_iff validate_truth_constraints_def Let_def
      first_message_None_iff truth_claim_ok_def)

lemma built_truth_valid:
  assumes "build_final_truth_record ft_id run_id result completion evidence residual degradation closure
      sources result_ref action = Inr r"
  shows "FinalTruthRecord_init r = Inr r"
  using assms FinalTruthRecord_init_Inr unfolding build_final_truth_record_def bind_result_Inr_iff
  by (metis (no_types, lifting) sum.inject(2))

lemma rows_of_mono: "rows_of row ok hist rows \<Longrightarrow> (\<And>r. ok r \<Longrightarrow> ok' r) \<Longrightarrow> rows_of row ok' hist rows"
  unfolding rows_of_def by blast

lemma rows_of_snoc:
  "rows_of row ok hist rows \<Longrightarrow> ok r \<Longrightarrow> (\<And>rs. rows = map row rs \<Longrightarrow> hist rs \<Longrightarrow> hist (rs @ [r])) \<Longrightarrow>
   rows_of row ok hist (rows @ [row r])"
  unfolding rows_of_def by (elim exE, rule_tac x = "rs @ [r]" in exI) auto

section \<open>The invariant of the control plane\<close>

definition cp_inv :: "'p codec \<Rightarrow> hash \<Rightarrow> 'p cp_db \<Rightarrow> bool" where
  "cp_inv c sha256 db \<longleftrightarrow> reservation_inv c db \<and> lease_inv c db \<and> journal_inv c sha256 db \<and>
     recovery_inv c db \<and> truth_inv c db"

lemma linked_run_entries_Nil [simp]: "linked_from sha256 None (run_entries k [])"
  by (simp add: run_entries_def)

lemma cp_inv_empty: "cp_inv c sha256 empty_db"
  by (simp add: cp_inv_def empty_db_def reservation_inv_def lease_inv_def journal_inv_def
      recovery_inv_def truth_inv_def rows_of_def reservation_history_ok_def)

lemma recovery_inv_grow:
  assumes "recovery_inv c db" and "recovery_decision_records db' = recovery_decision_records db"
    and "set (checkpoint_records db) \<subseteq> set (checkpoint_records db')"
  shows "recovery_inv c db'"
  using assms(1) unfolding recovery_inv_def assms(2)
  by (rule rows_of_mono) (rule recovery_ok_mono [OF _ assms(3)])

lemma recovery_append:
  assumes inv: "recovery_inv c db"
    and build: "build_recovery_decision decision_id run_id failed basis plane classification
      boundary policy action resumed new cp_target preconditions blocked requirement rationale acc
      reconciliation idempotent = Inr d"
    and target: "\<And>t. cp_target = Some t \<Longrightarrow> \<exists>w \<in> set (checkpoint_records db). row_key w = t"
  shows "recovery_inv c (db\<lparr>recovery_decision_records := recovery_decision_records db @ [recovery_row c d]\<rparr>)"
proof -
  note b = build_recovery_decision_Inr [OF build]
  let ?db = "db\<lparr>recovery_decision_records := recovery_decision_records db @ [recovery_row c d]\<rparr>"
  have "\<forall>t. rd_target_checkpoint_id d = Some t \<longrightarrow> t \<in> row_key ` set (checkpoint_records db)"
    using target b(5) by force
  then have "recovery_ok ?db d" using b(7) by (auto simp: recovery_ok_def)
  moreover have "rows_of (recovery_row c) (recovery_ok ?db) (\<lambda>_. True) (recovery_decision_records db)"
    using inv unfolding recovery_inv_def by (rule rows_of_mono) (auto elim: recovery_ok_mono)
  ultimately show ?thesis unfolding recovery_inv_def by (simp add: rows_of_snoc)
qed

lemma cp_write_inv:
  assumes "codec_ok c" and "cp_write c sha256 db db'" and "cp_inv c sha256 db"
  shows "cp_inv c sha256 db'"
proof -
  have grow: "recovery_inv c db'" if "recovery_decision_records db' = recovery_decision_records db"
  proof (rule recovery_inv_grow)
    show "recovery_inv c db" using assms(3) by (simp add: cp_inv_def)
    show "set (checkpoint_records db) \<subseteq> set (checkpoint_records db')"
      using cp_write_extends [OF assms(2)] by (auto simp: db_extends_def dest: set_mono_prefix)
  qed (rule that)
  note inv = assms(3) [unfolded cp_inv_def]
  have keep: "reservation_records db' = reservation_records db \<Longrightarrow> reservation_inv c db'"
    "lease_records db' = lease_records db \<Longrightarrow> lease_inv c db'"
    "effect_journal_entries db' = effect_journal_entries db \<Longrightarrow> journal_inv c sha256 db'"
    "final_truth_records db' = final_truth_records db \<Longrightarrow> truth_inv c db'"
    using inv by (simp_all add: reservation_inv_def lease_inv_def journal_inv_def truth_inv_def)
  note finish = keep grow
  from assms(2) show ?thesis
  proof cases
    case (write_reservation rid prev holder kind scope created basis status auth rule lease r)
    have "reservation_inv c db'"
      unfolding write_reservation(1) using inv write_reservation by (intro reservation_append [OF assms(1)]) auto
    then show ?thesis using finish write_reservation(1) by (simp add: cp_inv_def)
  next
    case (write_republication rid p prev holder kind scope created basis status auth rule lease r)
    obtain rs where rs: "reservation_records db = map (reservation_row c) rs" "\<forall>r \<in> set rs. reservation_ok r"
      using inv by (auto simp: reservation_inv_def rows_of_def)
    note read = read_reservations(2) [OF assms(1) rs(2,1)]
    have "p \<in> set rs" using write_republication(2) read [of rid] last_in_set
      by (fastforce simp: Let_def split: if_splits)
    then have "prev \<noteq> None" using write_republication(3) read [of "rsv_reservation_id p"]
      by (auto simp: Let_def filter_empty_conv split: if_splits)
    then have "reservation_inv c db'"
      unfolding write_republication(1) using inv write_republication
      by (intro reservation_append [OF assms(1)]) auto
    then show ?thesis using finish write_republication(1) by (simp add: cp_inv_def)
  next
    case write_journal
    then have "journal_inv c sha256 db'" using inv journal_append [OF assms(1)] by blast
    then show ?thesis using finish write_journal(1) by (simp add: cp_inv_def)
  next
    case write_lease
    then have "lease_inv c db'" using inv lease_append [OF assms(1)] by blast
    then show ?thesis using finish write_lease(1) by (simp add: cp_inv_def)
  next
    case write_recovery
    have "recovery_inv c db'" unfolding write_recovery(1)
      by (rule recovery_append [OF _ write_recovery(2,3)]) (use inv in auto)
    then show ?thesis using finish write_recovery(1) by (simp add: cp_inv_def)
  next
    case (write_truth ft_id run_id result completion evidence residual degradation closure sources result_ref action r)
    have "FinalTruthRecord_init r = Inr r" by (rule built_truth_valid [OF write_truth(2)])
    then have "truth_inv c db'"
      using inv valid_truth_claim_ok write_truth(1) by (simp add: truth_inv_def rows_of_snoc)
    then show ?thesis using finish write_truth(1) by (simp add: cp_inv_def)
  qed (use finish in \<open>simp_all add: cp_inv_def\<close>)
qed

lemma reachable_inv:
  assumes "codec_ok c" and "reachable c sha256 db"
  shows "cp_inv c sha256 db"
  using assms(2) unfolding reachable_def
proof (induction rule: rtranclp_induct)
  case base
  then show ?case by (rule cp_inv_empty)
next
  case (step db1 db2)
  from cp_step_writes [OF step(2)] step(3) show ?case
    by (induction rule: rtranclp_induct) (auto intro: cp_write_inv [OF assms(1)])
qed

end
