(* ===== verification/Control_Plane_Guarantees.thy ===== *)
theory Control_Plane_Guarantees
  imports Control_Plane_Invariants
begin

text \<open>
  The guarantees of the control plane to its callers, read off the invariant of the reachable
  databases: what the queries of the repository return, what a call of the publication service
  adds, what survives a failing call, and what two calls do whose reads precede both writes.

  The hypothesis \<open>codec_ok\<close> is instantiated by \<open>sample_codec\<close>, which keeps the records themselves
  as payloads.
\<close>

section \<open>A codec and a small history\<close>

datatype (plugins only: code) any_record =
    A_policy ResolvedPolicySnapshot | A_configuration ResolvedConfigurationSnapshot
  | A_reservation ReservationRecord | A_resource ResourceRecord | A_journal EffectJournalEntryRecord
  | A_checkpoint CheckpointRecord | A_acceptance CheckpointAcceptanceRecord
  | A_recovery RecoveryDecisionRecord | A_lease LeaseRecord | A_reconciliation ReconciliationRecord
  | A_operator OperatorActionRecord | A_truth FinalTruthRecord

abbreviation mismatch :: "'a result" where
  "mismatch \<equiv> Inl (ValueError ''payload of another model'')"

definition sample_codec :: "any_record codec" where
  "sample_codec =
     \<lparr>dump_policy = A_policy, load_policy = (\<lambda>p. case p of A_policy r \<Rightarrow> Inr r | _ \<Rightarrow> mismatch),
      dump_configuration = A_configuration,
      load_configuration = (\<lambda>p. case p of A_configuration r \<Rightarrow> Inr r | _ \<Rightarrow> mismatch),
      dump_reservation = A_reservation,
      load_reservation = (\<lambda>p. case p of A_reservation r \<Rightarrow> Inr r | _ \<Rightarrow> mismatch),
      dump_resource = A_resource, load_resource = (\<lambda>p. case p of A_resource r \<Rightarrow> Inr r | _ \<Rightarrow> mismatch),
      dump_journal = A_journal, load_journal = (\<lambda>p. case p of A_journal r \<Rightarrow> Inr r | _ \<Rightarrow> mismatch),
      dump_checkpoint = A_checkpoint,
      load_checkpoint = (\<lambda>p. case p of A_checkpoint r \<Rightarrow> Inr r | _ \<Rightarrow> mismatch),
      dump_acceptance = A_acceptance,
      load_acceptance = (\<lambda>p. case p of A_acceptance r \<Rightarrow> Inr r | _ \<Rightarrow> mismatch),
      dump_recovery = A_recovery, load_recovery = (\<lambda>p. case p of A_recovery r \<Rightarrow> Inr r | _ \<Rightarrow> mismatch),
      dump_lease = A_lease, load_lease = (\<lambda>p. case p of A_lease r \<Rightarrow> Inr r | _ \<Rightarrow> mismatch),
      dump_reconciliation = A_reconciliation,
      load_reconciliation = (\<lambda>p. case p of A_reconciliation r \<Rightarrow> Inr r | _ \<Rightarrow> mismatch),
      dump_operator = A_operator, load_operator = (\<lambda>p. case p of A_operator r \<Rightarrow> Inr r | _ \<Rightarrow> mismatch),
      dump_truth = A_truth, load_truth = (\<lambda>p. case p of A_truth r \<Rightarrow> Inr r | _ \<Rightarrow> mismatch)\<rparr>"

lemma sample_codec_ok [simp]: "codec_ok sample_codec"
  by (simp add: codec_ok_def sample_codec_def)

lemma reachable_empty [simp]: "reachable c sha256 empty_db"
  by (simp add: reachable_def)

lemma reachable_step: "reachable c sha256 db \<Longrightarrow> cp_step c sha256 db db' \<Longrightarrow> reachable c sha256 db'"
  unfolding reachable_def by (rule rtranclp.rtrancl_into_rtrancl)

definition published_db :: "any_record cp_db" where
  "published_db = snd (publish_reservation sample_codec ''res-1'' ''run-1'' ReservationKind.RESOURCE ''scope''
     ''t0'' ''basis'' ReservationStatus.ACTIVE ''sup'' None None empty_db)"

definition released_db :: "any_record cp_db" where
  "released_db = snd (release_reservation sample_codec ''res-1'' ''sup'' ''done'' published_db)"

lemma published_reachable [simp]: "reachable sample_codec sha256 published_db"
proof -
  have "stripped ''res-1''" by (simp add: stripped_def py_strip_def py_isspace_def)
  then have "cp_step sample_codec sha256 empty_db published_db"
    unfolding published_db_def by (rule step_reservation) (rule prod.collapse [symmetric])
  then show ?thesis by (rule reachable_step [OF reachable_empty])
qed

lemma released_reachable [simp]: "reachable sample_codec sha256 released_db"
proof -
  have "cp_step sample_codec sha256 published_db released_db"
    unfolding released_db_def by (rule step_release) (rule prod.collapse [symmetric])
  then show ?thesis by (rule reachable_step [OF published_reachable])
qed

definition released_record :: ReservationRecord where
  "released_record = sample_reservation\<lparr>rsv_status := ReservationStatus.RELEASED,
     rsv_history_refs := [''reservation:res-1:reservation_active'']\<rparr>"

definition promoted_record :: ReservationRecord where
  "promoted_record = sample_reservation\<lparr>rsv_status := ReservationStatus.PROMOTED_TO_LEASE,
     rsv_promoted_lease_id := Some ''lease-1'', rsv_history_refs := [''reservation:res-1:reservation_active'']\<rparr>"

definition pending_record :: ReservationRecord where
  "pending_record = sample_reservation\<lparr>rsv_status := ReservationStatus.PENDING\<rparr>"

lemma sample_records_valid:
  "ReservationRecord_init sample_reservation = Inr sample_reservation"
  "ReservationRecord_init released_record = Inr released_record"
  "ReservationRecord_init promoted_record = Inr promoted_record"
  "ReservationRecord_init pending_record = Inr pending_record"
  by (simp_all add: ReservationRecord_init_def validate_model_Inr_iff validate_promotion_fields_def
      sample_reservation_def released_record_def promoted_record_def pending_record_def first_message_None_iff
      truthy_opt_def raise_if_def)

lemma sample_built_active:
  "build_reservation_record ''res-1'' ''run-1'' ReservationKind.RESOURCE ''scope'' ''t0'' ''basis''
     ReservationStatus.ACTIVE ''sup'' None None None = Inr sample_reservation"
  using sample_records_valid(1)
  by (simp add: build_reservation_record_def sample_reservation_def py_strip_def py_isspace_def)

lemma sample_built_pending:
  "build_reservation_record '' res-1'' ''run-1'' ReservationKind.RESOURCE ''scope'' ''t0'' ''basis''
     ReservationStatus.PENDING ''sup'' None None None = Inr pending_record"
  using sample_records_valid(4)
  by (simp add: build_reservation_record_def sample_reservation_def pending_record_def py_strip_def py_isspace_def)

lemma sample_history:
  "s \<in> {ReservationStatus.RELEASED, ReservationStatus.PROMOTED_TO_LEASE} \<Longrightarrow>
   reservation_successor_history sample_reservation s ''run-1'' ReservationKind.RESOURCE ''scope'' ''t0'' =
     Inr [''reservation:res-1:reservation_active'']"
  by (auto simp: reservation_successor_history_def validate_reservation_status_transition_def
      sample_reservation_def reservation_publication_ref_def)

lemma sample_built_released:
  "build_reservation_record ''res-1'' ''run-1'' ReservationKind.RESOURCE ''scope'' ''t0'' ''basis''
     ReservationStatus.RELEASED ''sup'' None None (Some sample_reservation) = Inr released_record"
  using sample_records_valid(2)
  by (simp add: build_reservation_record_def sample_history)
     (simp add: sample_reservation_def released_record_def py_strip_def py_isspace_def)

lemma sample_built_promoted:
  "build_reservation_record ''res-1'' ''run-1'' ReservationKind.RESOURCE ''scope'' ''t0'' ''basis''
     ReservationStatus.PROMOTED_TO_LEASE ''sup'' None (Some ''lease-1'') (Some sample_reservation) = Inr promoted_record"
  using sample_records_valid(3)
  by (simp add: build_reservation_record_def sample_history)
     (simp add: sample_reservation_def promoted_record_def py_strip_def py_isspace_def)

lemma published_db_eq:
  "published_db = empty_db\<lparr>reservation_records := [reservation_row sample_codec sample_reservation]\<rparr>"
  by (simp add: published_db_def publish_reservation_def authority_publish_reservation_def bind_eff_read_eff
      get_latest_reservation_record_def last_row_def load_opt_def empty_db_def sample_built_active
      save_reservation_record_def insert_or_return_existing_def insert_row_def select_payload_def
      reservation_row_def)

section \<open>Records are never changed or lost\<close>

lemma read_by_key_stable:
  assumes "load_opt load (select_payload k rows) = Inr (Some r)" and "prefix rows rows'"
  shows "load_opt load (select_payload k rows') = Inr (Some r)"
proof (cases "select_payload k rows")
  case None
  then show ?thesis using assms(1) by (simp add: load_opt_def)
next
  case (Some p)
  then show ?thesis using assms(1) select_payload_prefix [OF assms(2) Some] by simp
qed

lemma control_plane_append_only_parts:
  assumes "(cp_step c sha256)\<^sup>*\<^sup>* db db'"
  shows "db_extends db db'"
    and "get_checkpoint c k db = Inr (Some cp) \<Longrightarrow> get_checkpoint c k db' = Inr (Some cp)"
    and "get_recovery_decision c k db = Inr (Some d) \<Longrightarrow> get_recovery_decision c k db' = Inr (Some d)"
    and "get_operator_action c k db = Inr (Some act) \<Longrightarrow> get_operator_action c k db' = Inr (Some act)"
    and "get_reconciliation_record c k db = Inr (Some rec) \<Longrightarrow> get_reconciliation_record c k db' = Inr (Some rec)"
    and "get_resolved_policy_snapshot c k db = Inr (Some pol) \<Longrightarrow> get_resolved_policy_snapshot c k db' = Inr (Some pol)"
    and "get_resolved_configuration_snapshot c k db = Inr (Some cfg) \<Longrightarrow>
         get_resolved_configuration_snapshot c k db' = Inr (Some cfg)"
proof -
  show ext: "db_extends db db'" using assms by (rule cp_steps_extend)
  note ext = ext [unfolded db_extends_def]
  show "get_checkpoint c k db = Inr (Some cp) \<Longrightarrow> get_checkpoint c k db' = Inr (Some cp)"
    unfolding get_checkpoint_def by (erule read_by_key_stable) (use ext in simp)
  show "get_recovery_decision c k db = Inr (Some d) \<Longrightarrow> get_recovery_decision c k db' = Inr (Some d)"
    unfolding get_recovery_decision_def by (erule read_by_key_stable) (use ext in simp)
  show "get_operator_action c k db = Inr (Some act) \<Longrightarrow> get_operator_action c k db' = Inr (Some act)"
    unfolding get_operator_action_def by (erule read_by_key_stable) (use ext in simp)
  show "get_reconciliation_record c k db = Inr (Some rec) \<Longrightarrow> get_reconciliation_record c k db' = Inr (Some rec)"
    unfolding get_reconciliation_record_def by (erule read_by_key_stable) (use ext in simp)
  show "get_resolved_policy_snapshot c k db = Inr (Some pol) \<Longrightarrow> get_resolved_policy_snapshot c k db' = Inr (Some pol)"
    unfolding get_resolved_policy_snapshot_def by (erule read_by_key_stable) (use ext in simp)
  show "get_resolved_configuration_snapshot c k db = Inr (Some cfg) \<Longrightarrow>
      get_resolved_configuration_snapshot c k db' = Inr (Some cfg)"
    unfolding get_resolved_configuration_snapshot_def by (erule read_by_key_stable) (use ext in simp)
qed

text \<open>
  C6: the control plane is append only: whatever calls are made, successful or not, every table of the
  later database starts with the rows of the earlier one in the same order, so a record that
  could be read by its identifier is read unchanged ever after.
\<close>

theorem control_plane_append_only:
  assumes "(cp_step c sha256)\<^sup>*\<^sup>* db db'"
  shows "db_extends db db' \<and>
     (get_checkpoint c k db = Inr (Some cp) \<longrightarrow> get_checkpoint c k db' = Inr (Some cp)) \<and>
     (get_recovery_decision c k db = Inr (Some d) \<longrightarrow> get_recovery_decision c k db' = Inr (Some d)) \<and>
     (get_operator_action c k db = Inr (Some act) \<longrightarrow> get_operator_action c k db' = Inr (Some act)) \<and>
     (get_reconciliation_record c k db = Inr (Some rec) \<longrightarrow> get_reconciliation_record c k db' = Inr (Some rec)) \<and>
     (get_resolved_policy_snapshot c k db = Inr (Some pol) \<longrightarrow> get_resolved_policy_snapshot c k db' = Inr (Some pol)) \<and>
     (get_resolved_configuration_snapshot c k db = Inr (Some cfg) \<longrightarrow>
         get_resolved_configuration_snapshot c k db' = Inr (Some cfg))"
  using control_plane_append_only_parts [OF assms] by blast

theorem control_plane_append_only_witness:
  "(cp_step sample_codec (\<lambda>s. s))\<^sup>*\<^sup>* empty_db released_db \<and> db_extends empty_db released_db"
proof -
  have "(cp_step sample_codec (\<lambda>s. s))\<^sup>*\<^sup>* empty_db released_db"
    using released_reachable [of "\<lambda>s. s"] by (simp only: reachable_def)
  then show ?thesis using control_plane_append_only [of sample_codec "\<lambda>s. s"] by blast
qed

text \<open>
  C5: the records of a reservation are a legal life. In every database that calls of the service make of
  an empty one, made one at a time and with identifiers that have no white space around them, the records stored for
  a reservation start as pending or active, each is an allowed successor of the one before, holder,
  kind, scope and creation time never change, the latest record is the last one stored, and
  nothing is stored after a terminal status. Two interleaved calls, or an identifier with white space
  around it, can break this: \<open>interleaved_reservation_calls_both_stored\<close> and
  \<open>padded_identifier_reopens_reservation\<close> below.
\<close>

theorem reservation_histories_legal:
  assumes "codec_ok c" and "reachable c sha256 db"
  shows "\<exists>h. list_reservation_records c k db = Inr h \<and> reservation_history_ok h \<and>
           get_latest_reservation_record c k db = Inr (if h = [] then None else Some (last h)) \<and>
           (\<forall>r \<in> set (butlast h). \<not> is_terminal_reservation_status (rsv_status r))"
proof -
  obtain rs where rs: "reservation_records db = map (reservation_row c) rs" "\<forall>r \<in> set rs. reservation_ok r"
    and hist: "\<And>k. reservation_history_ok (filter (\<lambda>r. rsv_reservation_id r = k) rs)"
    using reachable_inv [OF assms] by (auto simp: cp_inv_def reservation_inv_def rows_of_def)
  let ?h = "filter (\<lambda>r. rsv_reservation_id r = k) rs"
  have "\<not> is_terminal_reservation_status (rsv_status r)" if r: "r \<in> set (butlast ?h)" for r
  proof
    assume t: "is_terminal_reservation_status (rsv_status r)"
    obtain xs ys where split: "butlast ?h = xs @ r # ys" using split_list [OF r] by blast
    have "?h \<noteq> []" using r by auto
    then have "?h = xs @ r # (ys @ [last ?h])" using split by (metis append_butlast_last_id append.assoc append_Cons)
    then have "legal_path reservation_status_transitions
        (map rsv_status xs @ rsv_status r # map rsv_status (ys @ [last ?h]))"
      using hist [of k] unfolding reservation_history_ok_def by (metis list.map(2) map_append)
    then have "map rsv_status (ys @ [last ?h]) = []" using t by (rule reservation_table.terminal_only_last)
    then show False by simp
  qed
  then show ?thesis
    using hist [of k] read_reservations [OF assms(1) rs(2,1), of k] by (intro exI [of _ ?h]) (simp add: Let_def)
qed

theorem reservation_histories_legal_witness:
  "\<exists>h. list_reservation_records sample_codec ''res-1'' released_db = Inr h \<and> reservation_history_ok h"
  using reservation_histories_legal [OF sample_codec_ok released_reachable [of "\<lambda>s. s"]] by blast

text \<open>
  the records of a lease never go back: in every reachable database each record stored for a lease
  has an epoch and a publication time no smaller than the one before and cites it in its history,
  within an epoch only the moves of the lease machine or a later confirmation of the same status
  occur and the grant time stays, and the query for the latest record returns the last one stored.
\<close>

theorem lease_histories_monotone:
  assumes "codec_ok c" and "reachable c sha256 db"
  shows "\<exists>h. list_lease_records c k db = Inr h \<and> successively lease_follows h \<and>
           get_latest_lease_record c k db = Inr (if h = [] then None else Some (last h))"
proof -
  obtain rs where rs: "lease_records db = map (lease_row c) rs" "\<forall>r \<in> set rs. lease_ok r"
    and hist: "\<And>k. successively lease_follows (filter (\<lambda>r. ls_lease_id r = k) rs)"
    using reachable_inv [OF assms] by (auto simp: cp_inv_def lease_inv_def rows_of_def)
  show ?thesis
    using hist [of k] read_leases [OF assms(1) rs(2,1) hist, of k]
    by (intro exI [of _ "filter (\<lambda>r. ls_lease_id r = k) rs"]) (simp add: Let_def)
qed

definition leased_db :: "any_record cp_db" where
  "leased_db = snd (publish_lease sample_codec ''lease-1'' ''res'' ''run-1'' 1 ''t1'' ''ttl'' LeaseStatus.ACTIVE
     ''rule'' None None (Some ''res-1'') published_db)"

theorem lease_histories_monotone_witness:
  "\<exists>h. list_lease_records sample_codec ''lease-1'' leased_db = Inr h \<and> successively lease_follows h"
proof -
  have "stripped ''lease-1''" by (simp add: stripped_def py_strip_def py_isspace_def)
  then have "cp_step sample_codec (\<lambda>s. s) published_db leased_db"
    unfolding leased_db_def by (rule step_lease) (rule prod.collapse [symmetric])
  then have "reachable sample_codec (\<lambda>s. s) leased_db" by (rule reachable_step [OF published_reachable])
  then show ?thesis using lease_histories_monotone [OF sample_codec_ok] by blast
qed

section \<open>The journal\<close>

text \<open>
  C1: the journal of a run is always an unbroken chain: in every reachable database the entries the
  repository lists for a run are accepted by the chain check as they stand.
\<close>

theorem journal_always_valid:
  assumes "codec_ok c" and "reachable c sha256 db"
  shows "\<exists>es. list_effect_journal_entries c run_id db = Inr es \<and>
              validate_effect_journal_chain sha256 es = Inr es"
proof -
  obtain es where es: "effect_journal_entries db = map (\<lambda>e. journal_row c (je_run_id e) e) es"
    "\<forall>e \<in> set es. journal_ok e" and chain: "\<And>k. linked_from sha256 None (run_entries k es)"
    using reachable_inv [OF assms] by (auto simp: cp_inv_def journal_inv_def rows_of_def)
  show ?thesis
    using read_journal [OF assms(1) es(2,1) chain] linked_sorted [OF chain] chain
    by (auto simp: validate_chain_iff)
qed

definition journal_db :: "any_record cp_db" where
  "journal_db = snd (service_append_effect_journal_entry sample_codec (\<lambda>s. s) ''j1'' ''e1'' ''run-1'' ''a1''
     ''s1'' ''basis'' ''t1'' ''target'' (Some ''ok'') ResidualUncertaintyClassification.NONE ''iv'' [] []
     published_db)"

lemma journal_reachable: "reachable sample_codec (\<lambda>s. s) journal_db"
proof -
  have "cp_step sample_codec (\<lambda>s. s) published_db journal_db"
    unfolding journal_db_def by (rule step_journal) (rule prod.collapse [symmetric])
  then show ?thesis by (rule reachable_step [OF published_reachable])
qed

theorem journal_always_valid_witness:
  "\<exists>es. list_effect_journal_entries sample_codec ''run-1'' journal_db = Inr es \<and>
        validate_effect_journal_chain (\<lambda>s. s) es = Inr es"
  by (rule journal_always_valid [OF sample_codec_ok journal_reachable])

section \<open>Recovery and closure\<close>

text \<open>
  The checkpoint a stored decision resumes from is stored in the same database.
\<close>

lemma stored_recovery_target_present:
  assumes "codec_ok c" and "reachable c sha256 db" and "get_recovery_decision c k db = Inr (Some d)"
    and "rd_target_checkpoint_id d = Some t"
  shows "\<exists>w \<in> set (checkpoint_records db). row_key w = t"
proof -
  obtain rs where rs: "recovery_decision_records db = map (recovery_row c) rs" "\<forall>d \<in> set rs. recovery_ok db d"
    using reachable_inv [OF assms(1,2)] by (auto simp: cp_inv_def recovery_inv_def rows_of_def)
  obtain p where "select_payload k (recovery_decision_records db) = Some p" "load_recovery c p = Inr d"
    using assms(3) by (auto simp: get_recovery_decision_def load_opt_def bind_result_Inr_iff split: option.splits)
  then obtain d' where d': "d' \<in> set rs" "load_recovery c (dump_recovery c d') = Inr d"
    using select_payload_Some_in rs(1) by (fastforce simp: recovery_row_def)
  then have "recovery_ok db d'" using rs(2) by simp
  moreover have "d' = d" using calculation d'(2) assms(1) by (simp add: codec_ok_def recovery_ok_def)
  ultimately show ?thesis using assms(4) by (auto simp: recovery_ok_def)
qed

lemma saved_recovery_decision_read:
  assumes "codec_ok c" and "RecoveryDecisionRecord_init r = Inr r" and "save_recovery_decision c r db = (Inr d, db')"
  shows "d = r" and "get_recovery_decision c (rd_decision_id r) db' = Inr (Some r)"
proof -
  have load: "load_recovery c (dump_recovery c r) = Inr r" using assms(1,2) by (simp add: codec_ok_def)
  show "d = r" and "get_recovery_decision c (rd_decision_id r) db' = Inr (Some r)"
    using assms(3) load
    by (auto simp: save_recovery_decision_def insert_or_return_existing_def insert_row_def get_recovery_decision_def
        load_opt_def split: option.splits if_splits)
qed

text \<open>
  C7: a recovery decision is published only when it is authorized. When the call returns a decision, the
  decision carries the action, the execution targets and the checkpoint of the call, it names exactly
  the execution target its action needs, continuing across an uncertain effect boundary took a
  reconciliation record or a permitted idempotent retry, and the decision is read back from the
  database. A decision to resume names a checkpoint that is stored, and the acceptance it was
  judged by (the one given to the call or, when none is given, the latest stored for that
  checkpoint) is an acceptance of that very checkpoint with outcome accepted and a resumability
  class that allows the kind of attempt named.
\<close>

theorem published_recovery_decision_authorized:
  assumes "codec_ok c"
    and "service_publish_recovery_decision c decision_id run_id failed basis plane classification boundary
     policy action rationale resumed new target preconditions blocked requirement acceptance
     reconciliation idempotent db = (Inr d, db')"
  shows "rd_authorized_next_action d = action \<and> rd_resumed_attempt_id d = resumed \<and>
     rd_new_attempt_id d = new \<and> rd_target_checkpoint_id d = target \<and>
     get_recovery_decision c decision_id db' = Inr (Some d) \<and>
     (boundary = SideEffectBoundaryClass.EFFECT_BOUNDARY_UNCERTAIN \<and> action \<in> CONTINUATION_ACTIONS \<longrightarrow>
        idempotent \<or> reconciliation \<noteq> None) \<and>
     (if action = RecoveryActionClass.RESUME_FROM_CHECKPOINT
      then \<exists>t cp a. target = Some t \<and> get_checkpoint c t db = Inr (Some cp) \<and>
        (if acceptance = None then get_checkpoint_acceptance c t db = Inr (Some a) else acceptance = Some a) \<and>
        ca_checkpoint_id a = t \<and> ca_outcome a = CheckpointAcceptanceOutcome.ACCEPTED \<and>
        (ca_resumability_class a = CheckpointResumabilityClass.RESUME_SAME_ATTEMPT \<and> resumed \<noteq> None \<and> new = None \<or>
         ca_resumability_class a = CheckpointResumabilityClass.RESUME_NEW_ATTEMPT_FROM_CHECKPOINT \<and>
           new \<noteq> None \<and> resumed = None)
      else target = None \<and> target_authorized d None)"
proof -
  obtain acc r where build: "build_recovery_decision decision_id run_id failed basis plane classification
       boundary policy action resumed new target preconditions blocked requirement rationale acc
       reconciliation idempotent = Inr r"
    and acc: "case (acceptance, target) of
        (None, Some t) \<Rightarrow> get_checkpoint_acceptance c t db = Inr acc | _ \<Rightarrow> acc = acceptance"
    and cp: "\<forall>t. target = Some t \<longrightarrow> (\<exists>k. get_checkpoint c t db = Inr (Some k))"
    and save: "save_recovery_decision c r db = (Inr d, db')"
    using service_publish_recovery_decision_Inr [OF assms(2)] by blast
  note b = build_recovery_decision_Inr [OF build]
  note s = saved_recovery_decision_read [OF assms(1) b(7) save]
  note b = b [folded s(1)]
  have resume: "\<exists>t cp a. target = Some t \<and> get_checkpoint c t db = Inr (Some cp) \<and>
        (if acceptance = None then get_checkpoint_acceptance c t db = Inr (Some a) else acceptance = Some a) \<and>
        ca_checkpoint_id a = t \<and> ca_outcome a = CheckpointAcceptanceOutcome.ACCEPTED \<and>
        (ca_resumability_class a = CheckpointResumabilityClass.RESUME_SAME_ATTEMPT \<and> resumed \<noteq> None \<and> new = None \<or>
         ca_resumability_class a = CheckpointResumabilityClass.RESUME_NEW_ATTEMPT_FROM_CHECKPOINT \<and>
           new \<noteq> None \<and> resumed = None)"
    if "action = RecoveryActionClass.RESUME_FROM_CHECKPOINT"
  proof -
    have "rd_authorized_next_action d = RecoveryActionClass.RESUME_FROM_CHECKPOINT" using b(4) that by simp
    then obtain a where a: "acc = Some a" "resumable_from d a"
      using b(1) by (auto simp: target_authorized_def)
    then have t: "target = Some (ca_checkpoint_id a)" using b(5) by (simp add: resumable_from_def)
    then obtain k where "get_checkpoint c (ca_checkpoint_id a) db = Inr (Some k)" using cp by blast
    moreover have "if acceptance = None then get_checkpoint_acceptance c (ca_checkpoint_id a) db = Inr (Some a)
        else acceptance = Some a"
      using acc t a(1) by (auto split: option.splits)
    moreover have "ca_resumability_class a = CheckpointResumabilityClass.RESUME_SAME_ATTEMPT \<and> resumed \<noteq> None \<and> new = None \<or>
         ca_resumability_class a = CheckpointResumabilityClass.RESUME_NEW_ATTEMPT_FROM_CHECKPOINT \<and>
           new \<noteq> None \<and> resumed = None"
      using a(2) b(8,9) by (auto simp: resumable_from_def only_def split: CheckpointResumabilityClass.splits)
    ultimately show ?thesis using t a(2) unfolding resumable_from_def by blast
  qed
  have other: "target = None \<and> target_authorized d None"
    if "action \<noteq> RecoveryActionClass.RESUME_FROM_CHECKPOINT"
    using b(1,4,5) that by (cases action) (auto simp: target_authorized_def)
  have "get_recovery_decision c decision_id db' = Inr (Some d)" using s b(10) by simp
  moreover have "boundary = SideEffectBoundaryClass.EFFECT_BOUNDARY_UNCERTAIN \<and> action \<in> CONTINUATION_ACTIONS \<longrightarrow>
        idempotent \<or> reconciliation \<noteq> None"
    using b(2,4,6) by (auto simp: boundary_authorized_def)
  ultimately show ?thesis using b(4,5,8,9) resume other by presburger
qed

definition sample_checkpoint :: CheckpointRecord where
  "sample_checkpoint =
     \<lparr>cp_contract_version = CONTROL_PLANE_CONTRACT_VERSION_V1, cp_checkpoint_id = ''cp-1'', cp_parent_ref = ''run-1'',
      cp_creation_timestamp = ''t0'', cp_state_snapshot_ref = ''snap'',
      cp_resumability_class = CheckpointResumabilityClass.RESUME_SAME_ATTEMPT, cp_invalidation_conditions = [],
      cp_dependent_resource_ids = [], cp_dependent_effect_refs = [], cp_policy_digest = ''d'',
      cp_integrity_verification_ref = ''i''\<rparr>"

definition accepted_db :: "any_record cp_db" where
  "accepted_db = snd (service_accept_checkpoint sample_codec ''acc-1'' sample_checkpoint ''sup'' ''t1''
     CheckpointReobservationClass.NONE ''i'' [] None [] [] None None empty_db)"

lemma sample_acceptance_built:
  "authority_accept_checkpoint ''acc-1'' sample_checkpoint ''sup'' ''t1'' CheckpointReobservationClass.NONE ''i''
     [] None [] [] None None = Inr sample_acceptance"
proof -
  have "CheckpointAcceptanceRecord_init sample_acceptance = Inr sample_acceptance"
    by (simp add: CheckpointAcceptanceRecord_init_def validate_model_Inr_iff validate_acceptance_shape_def
        sample_acceptance_def first_message_None_iff)
  moreover have "validate_checkpoint_acceptance sample_checkpoint sample_acceptance [] None None = Inr True"
    by (simp add: validate_checkpoint_acceptance_def sample_checkpoint_def sample_acceptance_def missing_ids_def)
  ultimately show ?thesis
    by (simp add: authority_accept_checkpoint_def sample_checkpoint_def sample_acceptance_def)
qed

lemma accepted_db_eq:
  "accepted_db = empty_db\<lparr>checkpoint_records := [checkpoint_row sample_codec sample_checkpoint],
     checkpoint_acceptance_records := [acceptance_row sample_codec sample_acceptance]\<rparr>"
  by (simp add: accepted_db_def service_accept_checkpoint_def sample_acceptance_built bind_eff_def lift_result_def
      publish_checkpoint_def save_checkpoint_def save_checkpoint_acceptance_def insert_or_return_existing_def
      insert_row_def empty_db_def checkpoint_row_def acceptance_row_def)

text \<open>The witness resumes from the checkpoint just accepted, whose acceptance the service reads itself.\<close>

theorem published_recovery_decision_authorized_witness:
  "\<exists>d db'. service_publish_recovery_decision sample_codec ''dec-1'' ''run-1'' ''att-1'' ''tool_timeout'' None None
       SideEffectBoundaryClass.EFFECT_BOUNDARY_UNCERTAIN ''policy'' RecoveryActionClass.RESUME_FROM_CHECKPOINT
       ''why'' (Some ''att-1'') None (Some ''cp-1'') None None None None None True accepted_db = (Inr d, db') \<and>
     get_recovery_decision sample_codec ''dec-1'' db' = Inr (Some d) \<and>
     (\<exists>a. get_checkpoint_acceptance sample_codec ''cp-1'' accepted_db = Inr (Some a) \<and>
          ca_outcome a = CheckpointAcceptanceOutcome.ACCEPTED)"
proof -
  let ?call = "service_publish_recovery_decision sample_codec ''dec-1'' ''run-1'' ''att-1'' ''tool_timeout'' None None
       SideEffectBoundaryClass.EFFECT_BOUNDARY_UNCERTAIN ''policy'' RecoveryActionClass.RESUME_FROM_CHECKPOINT
       ''why'' (Some ''att-1'') None (Some ''cp-1'') None None None None None True accepted_db"
  obtain r where build: "build_recovery_decision ''dec-1'' ''run-1'' ''att-1'' ''tool_timeout'' None None
       SideEffectBoundaryClass.EFFECT_BOUNDARY_UNCERTAIN ''policy'' RecoveryActionClass.RESUME_FROM_CHECKPOINT
       (Some ''att-1'') None (Some ''cp-1'') None None None ''why'' (Some sample_acceptance) None True = Inr r"
    using sample_decision_built by blast
  have cp: "get_checkpoint sample_codec ''cp-1'' accepted_db = Inr (Some sample_checkpoint)"
    by (simp add: get_checkpoint_def accepted_db_eq checkpoint_row_def select_payload_def load_opt_def
        sample_codec_def sample_checkpoint_def)
  have acc: "get_checkpoint_acceptance sample_codec ''cp-1'' accepted_db = Inr (Some sample_acceptance)"
    by (simp add: get_checkpoint_acceptance_def accepted_db_eq acceptance_row_def last_row_def load_opt_def
        sample_codec_def sample_acceptance_def)
  have "?call = save_recovery_decision sample_codec r accepted_db"
    by (simp add: service_publish_recovery_decision_def authority_publish_recovery_decision_def bind_eff_def
        read_eff_def lift_result_def cp acc build)
  also have "\<exists>db'. \<dots> = (Inr r, db')"
    by (simp add: save_recovery_decision_def insert_or_return_existing_def insert_row_def accepted_db_eq empty_db_def)
  finally obtain db' where call: "?call = (Inr r, db')" by blast
  show ?thesis
    using call published_recovery_decision_authorized [OF sample_codec_ok call] acc by auto
qed

text \<open>
  C8: no unjustified success is ever stored: a final truth read from a reachable database claims success
  only on sufficient evidence, attested evidence only with an operator attestation, a reconciled
  closure only with a reconciliation record, and its terminality is that of its closure.
\<close>

theorem stored_final_truths_justified:
  assumes "codec_ok c" and "reachable c sha256 db" and "get_final_truth c run_id db = Inr (Some r)"
  shows "truth_claim_ok r"
proof -
  obtain rs where rs: "final_truth_records db = map (truth_row c) rs"
    "\<forall>r \<in> set rs. FinalTruthRecord_init r = Inr r \<and> truth_claim_ok r"
    using reachable_inv [OF assms(1,2)] by (auto simp: cp_inv_def truth_inv_def rows_of_def)
  let ?rows = "sort_key (\<lambda>w. row_key w) (filter (\<lambda>w. row_cols w = run_id) (final_truth_records db))"
  have ne: "?rows \<noteq> []" and load: "load_truth c (payload_json (last ?rows)) = Inr r"
    using assms(3) by (auto simp: get_final_truth_def load_opt_def last_row_def bind_result_Inr_iff
        split: if_splits)
  have "last ?rows \<in> set ?rows" using ne by (rule last_in_set)
  then have "last ?rows \<in> set (map (truth_row c) rs)" using rs(1) by simp
  then obtain q where q: "q \<in> set rs" "last ?rows = truth_row c q" by auto
  then have "load_truth c (dump_truth c q) = Inr r" using load by (simp add: truth_row_def)
  moreover have "load_truth c (dump_truth c q) = Inr q" using rs(2) q(1) assms(1) by (simp add: codec_ok_def)
  ultimately show ?thesis using rs(2) q(1) by simp
qed

definition closed_db :: "any_record cp_db" where
  "closed_db = snd (publish_final_truth sample_codec ''ft-1'' ''run-1'' ResultClass.SUCCESS
     CompletionClassification.SATISFIED EvidenceSufficiencyClassification.SUFFICIENT
     ResidualUncertaintyClassification.NONE DegradationClassification.NONE
     ClosureBasisClassification.NORMAL_EXECUTION [AuthoritySourceClass.RECEIPT_EVIDENCE] None None empty_db)"

lemma closed_truth:
  "\<exists>r. get_final_truth sample_codec ''run-1'' closed_db = Inr (Some r) \<and> ft_result_class r = ResultClass.SUCCESS"
proof -
  let ?r = "\<lparr>ft_contract_version = CONTROL_PLANE_CONTRACT_VERSION_V1,
          ft_final_truth_record_id = ''ft-1'', ft_run_id = ''run-1'', ft_result_class = ResultClass.SUCCESS,
          ft_completion_classification = CompletionClassification.SATISFIED,
          ft_evidence_sufficiency_classification = EvidenceSufficiencyClassification.SUFFICIENT,
          ft_residual_uncertainty_classification = ResidualUncertaintyClassification.NONE,
          ft_degradation_classification = DegradationClassification.NONE,
          ft_closure_basis = ClosureBasisClassification.NORMAL_EXECUTION,
          ft_terminality_basis = terminality_basis_for_closure ClosureBasisClassification.NORMAL_EXECUTION,
          ft_authority_sources = [AuthoritySourceClass.RECEIPT_EVIDENCE], ft_authoritative_result_ref = None\<rparr>"
  have "FinalTruthRecord_init ?r = Inr ?r"
    by (simp add: FinalTruthRecord_init_def validate_model_Inr_iff validate_truth_constraints_def
        first_message_None_iff)
  moreover have "validate_final_truth_publication ?r None = Inr True"
    by (simp add: validate_final_truth_publication_def)
  ultimately have build: "build_final_truth_record ''ft-1'' ''run-1'' ResultClass.SUCCESS
     CompletionClassification.SATISFIED EvidenceSufficiencyClassification.SUFFICIENT
     ResidualUncertaintyClassification.NONE DegradationClassification.NONE
     ClosureBasisClassification.NORMAL_EXECUTION [AuthoritySourceClass.RECEIPT_EVIDENCE] None None = Inr ?r"
    by (simp add: build_final_truth_record_def)
  show ?thesis
    by (simp add: closed_db_def publish_final_truth_def authority_publish_final_truth_def build
        save_final_truth_def insert_or_return_existing_def insert_row_def empty_db_def
        get_final_truth_def select_payload_def last_row_def load_opt_def sample_codec_def)
qed

theorem stored_final_truths_justified_witness:
  "\<exists>r. get_final_truth sample_codec ''run-1'' closed_db = Inr (Some r) \<and>
       ft_result_class r = ResultClass.SUCCESS \<and> truth_claim_ok r"
proof -
  have "cp_step sample_codec (\<lambda>s. s) empty_db closed_db"
    unfolding closed_db_def by (rule step_truth) (rule prod.collapse [symmetric])
  then have reach: "reachable sample_codec (\<lambda>s. s) closed_db" by (rule reachable_step [OF reachable_empty])
  obtain r where r: "get_final_truth sample_codec ''run-1'' closed_db = Inr (Some r)"
    "ft_result_class r = ResultClass.SUCCESS"
    using closed_truth by blast
  show ?thesis using r stored_final_truths_justified [OF sample_codec_ok reach r(1)] by blast
qed

section \<open>What one call adds\<close>

text \<open>
  appending to the journal works: in a reachable database, if the domain accepts the fields of the
  entry on top of the last entry of the run and the entry identifier is new, the service returns
  that entry, and the journal of the run is the old journal with the entry at its end.
\<close>

theorem journal_append_extends:
  assumes "codec_ok c" and "reachable c sha256 db"
    and read: "list_effect_journal_entries c run_id db = Inr es"
    and create: "create_effect_journal_entry sha256 entry_id effect_id run_id attempt_id step_id basis pub
       target observed uncertainty integrity (last_entry None es) contra supers = Inr e"
    and new: "entry_id \<notin> row_key ` set (effect_journal_entries db)"
  shows "\<exists>db'. service_append_effect_journal_entry c sha256 entry_id effect_id run_id attempt_id step_id basis
       pub target observed uncertainty integrity contra supers db = (Inr e, db') \<and>
     list_effect_journal_entries c run_id db' = Inr (es @ [e])"
proof -
  obtain all where all: "effect_journal_entries db = map (\<lambda>e. journal_row c (je_run_id e) e) all"
    "\<forall>e \<in> set all. journal_ok e" and chain: "\<And>k. linked_from sha256 None (run_entries k all)"
    using reachable_inv [OF assms(1,2)] by (auto simp: cp_inv_def journal_inv_def rows_of_def)
  have es: "es = run_entries run_id all" using read read_journal [OF assms(1) all(2,1) chain] by simp
  have max: "max_by_sequence es = last_entry None es" unfolding es by (rule max_by_sequence_linked [OF chain])
  note b = create_effect_journal_entry_Inr [OF create]
  have seq: "je_publication_sequence e = int (length es) + 1"
    using b(5) linked_last_sequence [OF chain [of run_id]] by (auto simp: last_entry_def es [symmetric])
  have "je_publication_sequence x \<le> int (length es)" if x: "x \<in> set all" "je_run_id x = run_id" for x
  proof -
    have "x \<in> set es" using x by (simp add: es run_entries_def)
    then obtain i where "i < length es" "x = es ! i" by (auto simp: in_set_conv_nth)
    then show ?thesis using linked_sequence [OF chain [of run_id]] by (simp add: es [symmetric])
  qed
  then have free: "\<not> journal_sequence_taken run_id (je_publication_sequence e) (effect_journal_entries db)"
    using seq by (fastforce simp: journal_sequence_taken_def list_ex_iff all(1) journal_row_def)
  let ?db = "db\<lparr>effect_journal_entries := effect_journal_entries db @ [journal_row c run_id e]\<rparr>"
  have "select_payload entry_id (effect_journal_entries db) = None" using new by (simp add: select_payload_None_iff)
  then have save: "append_effect_journal_entry c run_id e db = (Inr e, ?db)"
    using free b(3) by (simp add: append_effect_journal_entry_def insert_or_return_existing_def insert_row_def
        journal_row_def)
  note ext = journal_extend [OF chain create [unfolded es]]
  have "list_effect_journal_entries c run_id ?db = Inr (run_entries run_id (all @ [e]))"
    by (rule read_journal [OF assms(1) _ _ ext(1)]) (use all ext in auto)
  then have "list_effect_journal_entries c run_id ?db = Inr (es @ [e])" using ext(4) es by simp
  moreover have "service_append_effect_journal_entry c sha256 entry_id effect_id run_id attempt_id step_id basis
       pub target observed uncertainty integrity contra supers db = (Inr e, ?db)"
    by (simp add: service_append_effect_journal_entry_def authority_append_effect_journal_entry_def
        bind_eff_read_eff read max create save)
  ultimately show ?thesis by auto
qed

lemma sample_entry_created:
  "create_effect_journal_entry (\<lambda>s. s) ''j1'' ''e1'' ''run-1'' ''a1'' ''s1'' ''basis'' ''t1'' ''target'' (Some ''ok'')
     ResidualUncertaintyClassification.NONE ''iv'' None [] [] = Inr (sealed_sample (\<lambda>s. s))"
proof -
  have valid: "EffectJournalEntryRecord_init (sample_entry\<lparr>je_entry_digest := d\<rparr>) =
      Inr (sample_entry\<lparr>je_entry_digest := d\<rparr>)" if "ne d" for d
    using that by (simp add: EffectJournalEntryRecord_init_def validate_model_Inr_iff validate_journal_shape_def
        first_message_None_iff sample_entry_def)
  have "ne (compute_effect_journal_entry_digest (\<lambda>s. s) sample_entry)"
    by (simp add: compute_effect_journal_entry_digest_def hash_canonical_payload_def journal_entry_payload_def)
  then have "EffectJournalEntryRecord_init (sealed_sample (\<lambda>s. s)) = Inr (sealed_sample (\<lambda>s. s))"
    unfolding sealed_sample_def by (rule valid)
  moreover have "EffectJournalEntryRecord_init sample_entry = Inr sample_entry"
    using valid [of "''pending''"] by (simp add: sample_entry_def)
  ultimately show ?thesis
    unfolding create_effect_journal_entry_def by (simp add: sample_entry_def [symmetric] sealed_sample_def)
qed

lemma published_no_journal: "effect_journal_entries published_db = []"
  by (simp add: published_db_eq empty_db_def)

lemma published_journal_read: "list_effect_journal_entries sample_codec ''run-1'' published_db = Inr []"
  by (simp add: list_effect_journal_entries_def published_no_journal)

theorem journal_append_extends_witness:
  "\<exists>db'. service_append_effect_journal_entry sample_codec (\<lambda>s. s) ''j1'' ''e1'' ''run-1'' ''a1'' ''s1'' ''basis''
       ''t1'' ''target'' (Some ''ok'') ResidualUncertaintyClassification.NONE ''iv'' [] [] published_db
       = (Inr (sealed_sample (\<lambda>s. s)), db') \<and>
     list_effect_journal_entries sample_codec ''run-1'' db' = Inr ([] @ [sealed_sample (\<lambda>s. s)])"
  by (rule journal_append_extends [OF sample_codec_ok published_reachable published_journal_read])
     (simp_all add: last_entry_def sample_entry_created published_no_journal)

section \<open>Reads before writes\<close>

lemma list_journal_prefix:
  assumes "codec_ok c" and "reachable c sha256 db0" and "(cp_step c sha256)\<^sup>*\<^sup>* db0 db"
    and "list_effect_journal_entries c run_id db0 = Inr es0" and "list_effect_journal_entries c run_id db = Inr es"
  shows "prefix es0 es"
proof -
  have reach: "reachable c sha256 db" using assms(2,3) unfolding reachable_def by (rule rtranclp_trans)
  obtain a0 where a0: "effect_journal_entries db0 = map (\<lambda>e. journal_row c (je_run_id e) e) a0"
    "\<forall>e \<in> set a0. journal_ok e" and chain0: "\<And>k. linked_from sha256 None (run_entries k a0)"
    using reachable_inv [OF assms(1,2)] by (auto simp: cp_inv_def journal_inv_def rows_of_def)
  obtain a where a: "effect_journal_entries db = map (\<lambda>e. journal_row c (je_run_id e) e) a"
    "\<forall>e \<in> set a. journal_ok e" and chain: "\<And>k. linked_from sha256 None (run_entries k a)"
    using reachable_inv [OF assms(1) reach] by (auto simp: cp_inv_def journal_inv_def rows_of_def)
  have "prefix (effect_journal_entries db0) (effect_journal_entries db)"
    using cp_steps_extend [OF assms(3)] by (simp add: db_extends_def)
  then have "prefix (map payload_json (effect_journal_entries db0)) (map payload_json (effect_journal_entries db))"
    by (rule map_mono_prefix)
  then have pre: "prefix (map (dump_journal c) a0) (map (dump_journal c) a)"
    by (simp add: a0(1) a(1) journal_row_def comp_def)
  have load: "map (load_journal c) (map (dump_journal c) x) = map Inr x" if "\<forall>e \<in> set x. journal_ok e" for x
    using that assms(1) by (simp add: codec_ok_def journal_ok_def)
  have "prefix (map Inr a0 :: EffectJournalEntryRecord result list) (map Inr a)"
    using map_mono_prefix [OF pre, of "load_journal c"] unfolding load [OF a0(2)] load [OF a(2)] .
  then have "prefix a0 a" using map_mono_prefix [of "map Inr a0" "map Inr a" projr] by (simp add: comp_def)
  then have "prefix (run_entries run_id a0) (run_entries run_id a)"
    unfolding run_entries_def by (rule filter_mono_prefix)
  then show ?thesis
    using assms(4,5) read_journal [OF assms(1) a0(2,1) chain0] read_journal [OF assms(1) a(2,1) chain] by simp
qed

lemma journal_append_race_safe_parts:
  assumes "codec_ok c" and "reachable c sha256 db0" and "(cp_step c sha256)\<^sup>*\<^sup>* db0 db"
    and read: "list_effect_journal_entries c run_id db0 = Inr es0"
    and create: "create_effect_journal_entry sha256 entry_id effect_id run_id attempt_id step_id basis pub
       target observed uncertainty integrity (max_by_sequence es0) contra supers = Inr e"
    and save: "append_effect_journal_entry c run_id e db = (res, db')"
  shows "db' = db \<or> (list_effect_journal_entries c run_id db = Inr es0 \<and>
           list_effect_journal_entries c run_id db' = Inr (es0 @ [e]))"
    and "\<exists>es. list_effect_journal_entries c run_id db' = Inr es \<and> validate_effect_journal_chain sha256 es = Inr es"
proof -
  have reach: "reachable c sha256 db" using assms(2,3) unfolding reachable_def by (rule rtranclp_trans)
  have inv: "journal_inv c sha256 db" using reachable_inv [OF assms(1) reach] by (simp add: cp_inv_def)
  obtain a where a: "effect_journal_entries db = map (\<lambda>e. journal_row c (je_run_id e) e) a"
    "\<forall>e \<in> set a. journal_ok e" and chain: "\<And>k. linked_from sha256 None (run_entries k a)"
    using inv by (auto simp: journal_inv_def rows_of_def)
  let ?es = "run_entries run_id a"
  have now: "list_effect_journal_entries c run_id db = Inr ?es" by (rule read_journal [OF assms(1) a(2,1) chain])
  have pre: "prefix es0 ?es" by (rule list_journal_prefix [OF assms(1-3) read now])
  have same: "?es = es0" if "db' \<noteq> db"
  proof (rule ccontr)
    assume "?es \<noteq> es0"
    then have short: "length es0 < length ?es" using pre by (metis prefix_length_prefix prefix_order.eq_iff
          le_neq_implies_less prefix_length_le not_less order_refl prefix_def append_eq_conv_conj take_all)
    have "linked_from sha256 None es0" using pre chain [of run_id] by (auto simp: prefix_def linked_from_append)
    then have "max_by_sequence es0 = last_entry None es0"
      and "es0 \<noteq> [] \<Longrightarrow> je_publication_sequence (last es0) = int (length es0)"
      using max_by_sequence_linked linked_last_sequence by blast+
    then have "je_publication_sequence e = int (length es0) + 1"
      using create_effect_journal_entry_Inr(5) [OF create] by (auto simp: last_entry_def)
    then have "je_publication_sequence (?es ! length es0) = je_publication_sequence e"
      using linked_sequence [OF chain short] by simp
    moreover have "?es ! length es0 \<in> set a" "je_run_id (?es ! length es0) = run_id"
      using nth_mem [OF short] by (simp_all add: run_entries_def)
    ultimately have "journal_sequence_taken run_id (je_publication_sequence e) (effect_journal_entries db)"
      by (auto simp: journal_sequence_taken_def list_ex_iff a(1) journal_row_def)
    then show False using append_effect_journal_entry_effect [OF save] that by blast
  qed
  note eff = append_effect_journal_entry_effect [OF save]
  have inv': "journal_inv c sha256 db'"
    using eff inv same journal_append [OF assms(1) inv now] create by metis
  then obtain a' where a': "effect_journal_entries db' = map (\<lambda>e. journal_row c (je_run_id e) e) a'"
    "\<forall>e \<in> set a'. journal_ok e" and chain': "\<And>k. linked_from sha256 None (run_entries k a')"
    by (auto simp: journal_inv_def rows_of_def)
  note read' = read_journal [OF assms(1) a'(2,1) chain']
  show "\<exists>es. list_effect_journal_entries c run_id db' = Inr es \<and> validate_effect_journal_chain sha256 es = Inr es"
    using read' linked_sorted [OF chain'] chain' by (auto simp: validate_chain_iff)
  show "db' = db \<or> (list_effect_journal_entries c run_id db = Inr es0 \<and>
      list_effect_journal_entries c run_id db' = Inr (es0 @ [e]))"
  proof (cases "db' = db")
    case False
    have "max_by_sequence es0 = last_entry None ?es"
      using same [OF False] max_by_sequence_linked [OF chain [of run_id]] by simp
    note ext = journal_extend [OF chain create [unfolded this]]
    have "list_effect_journal_entries c run_id db' = Inr (run_entries run_id (a @ [e]))"
      by (rule read_journal [OF assms(1) _ _ ext(1)]) (use a ext eff False in auto)
    then show ?thesis using now same [OF False] ext(4) by simp
  qed simp
qed

text \<open>
  C2: the journal survives interleaved calls: an entry that was built on an earlier reading of the
  journal is stored later only if nothing was appended to the run in between; otherwise the
  unique index on run and sequence number refuses it and the database stays as it is. In both
  cases the journal of the run is still accepted by the chain check.
\<close>

theorem journal_append_race_safe:
  assumes "codec_ok c" and "reachable c sha256 db0" and "(cp_step c sha256)\<^sup>*\<^sup>* db0 db"
    and read: "list_effect_journal_entries c run_id db0 = Inr es0"
    and create: "create_effect_journal_entry sha256 entry_id effect_id run_id attempt_id step_id basis pub
       target observed uncertainty integrity (max_by_sequence es0) contra supers = Inr e"
    and save: "append_effect_journal_entry c run_id e db = (res, db')"
  shows "(db' = db \<or> (list_effect_journal_entries c run_id db = Inr es0 \<and>
           list_effect_journal_entries c run_id db' = Inr (es0 @ [e]))) \<and>
     (\<exists>es. list_effect_journal_entries c run_id db' = Inr es \<and> validate_effect_journal_chain sha256 es = Inr es)"
  using journal_append_race_safe_parts [OF assms] by blast

theorem journal_append_race_safe_witness:
  "\<exists>res db'. append_effect_journal_entry sample_codec ''run-1'' (sealed_sample (\<lambda>s. s)) journal_db = (res, db') \<and>
     (\<exists>es. list_effect_journal_entries sample_codec ''run-1'' db' = Inr es \<and>
           validate_effect_journal_chain (\<lambda>s. s) es = Inr es)"
proof -
  obtain res db' where save: "append_effect_journal_entry sample_codec ''run-1'' (sealed_sample (\<lambda>s. s)) journal_db
      = (res, db')"
    by fastforce
  have "cp_step sample_codec (\<lambda>s. s) published_db journal_db"
    unfolding journal_db_def by (rule step_journal) (rule prod.collapse [symmetric])
  then have steps: "(cp_step sample_codec (\<lambda>s. s))\<^sup>*\<^sup>* published_db journal_db" by blast
  have create: "create_effect_journal_entry (\<lambda>s. s) ''j1'' ''e1'' ''run-1'' ''a1'' ''s1'' ''basis'' ''t1'' ''target'' (Some ''ok'')
     ResidualUncertaintyClassification.NONE ''iv'' (max_by_sequence []) [] [] = Inr (sealed_sample (\<lambda>s. s))"
    by (simp add: max_by_sequence_def sample_entry_created)
  show ?thesis
    using save journal_append_race_safe [OF sample_codec_ok published_reachable steps published_journal_read create save]
    by blast
qed

text \<open>
  Reservations have no such index on their order. When two calls read the same active record before
  either of them writes, both of their records are stored, and the history of the reservation is no
  life of the status machine.
\<close>

lemma save_new_reservation:
  assumes "(rsv_reservation_id r, ReservationStatus_value (rsv_status r)) \<notin> row_key ` set (reservation_records db)"
  shows "save_reservation_record c r db =
           (Inr r, db\<lparr>reservation_records := reservation_records db @ [reservation_row c r]\<rparr>)"
proof -
  have "select_payload (rsv_reservation_id r, ReservationStatus_value (rsv_status r)) (reservation_records db) = None"
    using assms by (simp add: select_payload_None_iff)
  then show ?thesis
    by (simp add: save_reservation_record_def insert_or_return_existing_def insert_row_def reservation_row_def)
qed

text \<open>
  Two calls on one reservation whose reads precede both writes are both stored, although each ends
  the reservation: from the same active record one call releases it, the other promotes it to a
  lease, both saves succeed, and the stored history is not a life of the status machine.
\<close>

theorem interleaved_reservation_calls_both_stored:
  "get_latest_reservation_record sample_codec ''res-1'' published_db = Inr (Some sample_reservation) \<and>
   build_reservation_record ''res-1'' ''run-1'' ReservationKind.RESOURCE ''scope'' ''t0'' ''basis''
     ReservationStatus.RELEASED ''sup'' None None (Some sample_reservation) = Inr released_record \<and>
   build_reservation_record ''res-1'' ''run-1'' ReservationKind.RESOURCE ''scope'' ''t0'' ''basis''
     ReservationStatus.PROMOTED_TO_LEASE ''sup'' None (Some ''lease-1'') (Some sample_reservation)
       = Inr promoted_record \<and>
   (\<exists>db1 db2. save_reservation_record sample_codec released_record published_db = (Inr released_record, db1) \<and>
     save_reservation_record sample_codec promoted_record db1 = (Inr promoted_record, db2) \<and>
     list_reservation_records sample_codec ''res-1'' db2
       = Inr [sample_reservation, released_record, promoted_record] \<and>
     \<not> reservation_history_ok [sample_reservation, released_record, promoted_record])"
proof -
  let ?db1 = "empty_db\<lparr>reservation_records := map (reservation_row sample_codec) [sample_reservation, released_record]\<rparr>"
  let ?db2 = "empty_db\<lparr>reservation_records :=
      map (reservation_row sample_codec) [sample_reservation, released_record, promoted_record]\<rparr>"
  have status: "rsv_status sample_reservation = ReservationStatus.ACTIVE"
    "rsv_status released_record = ReservationStatus.RELEASED"
    "rsv_status promoted_record = ReservationStatus.PROMOTED_TO_LEASE"
    "rsv_reservation_id sample_reservation = ''res-1''" "rsv_reservation_id released_record = ''res-1''"
    "rsv_reservation_id promoted_record = ''res-1''"
    by (simp_all add: sample_reservation_def released_record_def promoted_record_def)
  have 1: "save_reservation_record sample_codec released_record published_db = (Inr released_record, ?db1)"
    by (subst save_new_reservation) (simp_all add: published_db_eq reservation_row_def status)
  have 2: "save_reservation_record sample_codec promoted_record ?db1 = (Inr promoted_record, ?db2)"
    by (subst save_new_reservation) (simp_all add: reservation_row_def status)
  have ok: "\<forall>r \<in> set [sample_reservation, released_record, promoted_record]. reservation_ok r"
    using sample_records_valid by (simp add: reservation_ok_def stripped_def)
       (simp add: sample_reservation_def released_record_def promoted_record_def py_strip_def py_isspace_def)
  have list: "list_reservation_records sample_codec ''res-1'' ?db2
      = Inr [sample_reservation, released_record, promoted_record]"
    using read_reservations(1) [OF sample_codec_ok ok, of ?db2 "''res-1''"] by (simp add: status)
  have latest: "get_latest_reservation_record sample_codec ''res-1'' published_db = Inr (Some sample_reservation)"
    using read_reservations(2) [OF sample_codec_ok, of "[sample_reservation]" published_db "''res-1''"] ok
    by (simp add: published_db_eq status)
  have bad: "\<not> reservation_history_ok [sample_reservation, released_record, promoted_record]"
    by (simp add: reservation_history_ok_def status)
  show ?thesis using latest sample_built_released sample_built_promoted 1 2 list bad by blast
qed

section \<open>Where the stored history departs from the status machine\<close>

text \<open>
  A status is recorded at most once in the life of a reservation: when the records of a reservation
  already hold a status, publishing that status again stores nothing, although the status machine
  allows an uncertain reservation to become active again; the latest record stays uncertain.
\<close>

theorem recorded_status_never_recorded_again:
  assumes "codec_ok c" and "reachable c sha256 db" and "stripped rid"
    and "list_reservation_records c rid db = Inr h" and "status \<in> set (map rsv_status h)"
    and "publish_reservation c rid holder kind scope created basis status auth rule lease db = (res, db')"
  shows "db' = db"
proof (rule ccontr)
  assume "db' \<noteq> db"
  then obtain prev r where
      build: "build_reservation_record rid holder kind scope created basis status auth rule lease prev = Inr r"
    and new: "row_key (reservation_row c r) \<notin> row_key ` set (reservation_records db)"
    using publish_reservation_effect [OF assms(6)] by blast
  obtain rs where rs: "reservation_records db = map (reservation_row c) rs" "\<forall>r \<in> set rs. reservation_ok r"
    using reachable_inv [OF assms(1,2)] by (auto simp: cp_inv_def reservation_inv_def rows_of_def)
  have "h = filter (\<lambda>r. rsv_reservation_id r = rid) rs"
    using assms(4) read_reservations(1) [OF assms(1) rs(2,1), of rid] by simp
  then obtain q where q: "q \<in> set rs" "rsv_reservation_id q = rid" "rsv_status q = status"
    using assms(5) by auto
  have "row_key (reservation_row c r) = row_key (reservation_row c q)"
    using build_reservation_record_Inr(2,7) [OF build] q assms(3) by (simp add: reservation_row_def)
  then show False using new q(1) rs(1) by simp
qed

theorem recorded_status_never_recorded_again_witness:
  "\<exists>res. publish_reservation sample_codec ''res-1'' ''run-1'' ReservationKind.RESOURCE ''scope'' ''t0'' ''basis''
     ReservationStatus.ACTIVE ''sup'' None None published_db = (res, published_db)"
proof -
  obtain res db' where pub: "publish_reservation sample_codec ''res-1'' ''run-1'' ReservationKind.RESOURCE ''scope''
      ''t0'' ''basis'' ReservationStatus.ACTIVE ''sup'' None None published_db = (res, db')"
    by fastforce
  have "stripped ''res-1''" by (simp add: stripped_def py_strip_def py_isspace_def)
  moreover have "list_reservation_records sample_codec ''res-1'' published_db = Inr [sample_reservation]"
    by (simp add: list_reservation_records_def published_db_eq reservation_row_def sample_codec_def
        sample_reservation_def)
  moreover have "ReservationStatus.ACTIVE \<in> set (map rsv_status [sample_reservation])"
    by (simp add: sample_reservation_def)
  ultimately have "db' = published_db"
    using recorded_status_never_recorded_again [OF sample_codec_ok published_reachable [of "\<lambda>s. s"] _ _ _ pub]
    by blast
  then show ?thesis using pub by blast
qed

text \<open>
  The identifier is looked up as given but stored without surrounding white space: for a released
  reservation, a publication under the same identifier with a space in front is taken for a new
  reservation and stores a pending record after the terminal one.
\<close>

theorem padded_identifier_reopens_reservation:
  "\<exists>db1 db2. save_reservation_record sample_codec released_record published_db = (Inr released_record, db1) \<and>
     publish_reservation sample_codec '' res-1'' ''run-1'' ReservationKind.RESOURCE ''scope'' ''t0'' ''basis''
       ReservationStatus.PENDING ''sup'' None None db1 = (Inr pending_record, db2) \<and>
     list_reservation_records sample_codec ''res-1'' db2
       = Inr [sample_reservation, released_record, pending_record] \<and>
     \<not> reservation_history_ok [sample_reservation, released_record, pending_record]"
proof -
  let ?db1 = "empty_db\<lparr>reservation_records := map (reservation_row sample_codec) [sample_reservation, released_record]\<rparr>"
  let ?db2 = "empty_db\<lparr>reservation_records :=
      map (reservation_row sample_codec) [sample_reservation, released_record, pending_record]\<rparr>"
  have status: "rsv_status sample_reservation = ReservationStatus.ACTIVE"
    "rsv_status released_record = ReservationStatus.RELEASED"
    "rsv_status pending_record = ReservationStatus.PENDING"
    "rsv_reservation_id sample_reservation = ''res-1''" "rsv_reservation_id released_record = ''res-1''"
    "rsv_reservation_id pending_record = ''res-1''"
    by (simp_all add: sample_reservation_def released_record_def pending_record_def)
  have 1: "save_reservation_record sample_codec released_record published_db = (Inr released_record, ?db1)"
    by (subst save_new_reservation) (simp_all add: published_db_eq reservation_row_def status)
  have save: "save_reservation_record sample_codec pending_record ?db1 = (Inr pending_record, ?db2)"
    by (subst save_new_reservation) (simp_all add: reservation_row_def status)
  have ok: "\<forall>r \<in> set [sample_reservation, released_record, pending_record]. reservation_ok r"
    using sample_records_valid by (simp add: reservation_ok_def stripped_def)
       (simp add: sample_reservation_def released_record_def pending_record_def py_strip_def py_isspace_def)
  have "get_latest_reservation_record sample_codec '' res-1'' ?db1 = Inr None"
    using read_reservations(2) [OF sample_codec_ok, of "[sample_reservation, released_record]" ?db1 "'' res-1''"] ok
    by (simp add: status)
  then have 2: "publish_reservation sample_codec '' res-1'' ''run-1'' ReservationKind.RESOURCE ''scope'' ''t0'' ''basis''
       ReservationStatus.PENDING ''sup'' None None ?db1 = (Inr pending_record, ?db2)"
    by (simp only: publish_reservation_def authority_publish_reservation_def bind_eff_read_eff
        bind_eff_lift_result sample_built_pending save)
  have list: "list_reservation_records sample_codec ''res-1'' ?db2
      = Inr [sample_reservation, released_record, pending_record]"
    using read_reservations(1) [OF sample_codec_ok ok, of ?db2 "''res-1''"] by (simp add: status)
  have bad: "\<not> reservation_history_ok [sample_reservation, released_record, pending_record]"
    by (simp add: reservation_history_ok_def status)
  show ?thesis using 1 2 list bad by blast
qed

section \<open>Failing calls\<close>

text \<open>
  One rule per publication of the service and per snapshot write that raises; a decision on a checkpoint,
  which publishes the checkpoint first, is kept apart.
\<close>

inductive failing_publication :: "'p codec \<Rightarrow> hash \<Rightarrow> 'p cp_db \<Rightarrow> 'p cp_db \<Rightarrow> bool"
  for c :: "'p codec" and sha256 :: hash where
  fail_policy: "save_resolved_policy_snapshot c pol db = (Inl e, db') \<Longrightarrow> failing_publication c sha256 db db'"
| fail_configuration: "save_resolved_configuration_snapshot c cfg db = (Inl e, db') \<Longrightarrow>
    failing_publication c sha256 db db'"
| fail_reservation:
    "publish_reservation c rid holder kind scope created basis status auth rule lease db = (Inl e, db') \<Longrightarrow>
    failing_publication c sha256 db db'"
| fail_promote: "service_promote_reservation_to_lease c rid lid auth basis db = (Inl e, db') \<Longrightarrow>
    failing_publication c sha256 db db'"
| fail_invalidate: "invalidate_reservation c rid auth basis db = (Inl e, db') \<Longrightarrow> failing_publication c sha256 db db'"
| fail_release: "release_reservation c rid auth basis db = (Inl e, db') \<Longrightarrow> failing_publication c sha256 db db'"
| fail_expire: "expire_reservation c rid auth basis db = (Inl e, db') \<Longrightarrow> failing_publication c sha256 db db'"
| fail_journal: "service_append_effect_journal_entry c sha256 entry_id effect_id run_id attempt_id step_id
      basis pub target observed uncertainty integrity contra supers db = (Inl e, db') \<Longrightarrow>
    failing_publication c sha256 db db'"
| fail_checkpoint: "publish_checkpoint c cp db = (Inl e, db') \<Longrightarrow> failing_publication c sha256 db db'"
| fail_recovery: "service_publish_recovery_decision c decision_id run_id failed basis plane classification
      boundary policy action rationale resumed new cp_target preconditions blocked requirement acceptance
      reconciliation idempotent db = (Inl e, db') \<Longrightarrow> failing_publication c sha256 db db'"
| fail_reconciliation: "publish_reconciliation c rec_id target_ref compared observed_refs intended_refs
      divergence residual pub safe db = (Inl e, db') \<Longrightarrow> failing_publication c sha256 db db'"
| fail_lease: "publish_lease c lease_id resource_id holder epoch pub basis lstatus cleanup granted observation source db
      = (Inl e, db') \<Longrightarrow> failing_publication c sha256 db db'"
| fail_resource: "publish_resource c resource_id rkind namespace ownership observed_state observed_at cleanup_class
      provenance rstatus orphan db = (Inl e, db') \<Longrightarrow> failing_publication c sha256 db db'"
| fail_truth: "publish_final_truth c ft_id run_id result completion evidence residual degradation closure
      sources result_ref operator_action db = (Inl e, db') \<Longrightarrow> failing_publication c sha256 db db'"
| fail_operator: "publish_operator_action c action_id actor input_class target_ref at precondition outcome
      command risk attestation payload transitions resources receipts db = (Inl e, db') \<Longrightarrow>
    failing_publication c sha256 db db'"

inductive failing_checkpoint_decision :: "'p codec \<Rightarrow> CheckpointRecord \<Rightarrow> 'p cp_db \<Rightarrow> 'p cp_db \<Rightarrow> bool"
  for c :: "'p codec" and cp :: CheckpointRecord where
  fail_accept: "service_accept_checkpoint c aid cp supervisor decided reobs integ entries refs rrefs lrefs rids lids db
      = (Inl e, db') \<Longrightarrow> failing_checkpoint_decision c cp db db'"
| fail_reject: "service_reject_checkpoint c aid cp supervisor decided reobs integ reasons db = (Inl e, db') \<Longrightarrow>
    failing_checkpoint_decision c cp db db'"

lemma failing_publication_unchanged:
  assumes "failing_publication c sha256 db db'"
  shows "db' = db"
  using assms
proof cases
  case fail_promote
  then show ?thesis unfolding service_promote_reservation_to_lease_def by (rule failed_republication)
next
  case fail_invalidate
  then show ?thesis unfolding invalidate_reservation_def by (rule failed_republication)
next
  case fail_release
  then show ?thesis unfolding release_reservation_def by (rule failed_republication)
next
  case fail_expire
  then show ?thesis unfolding expire_reservation_def by (rule failed_republication)
next
  case fail_journal
  then show ?thesis using service_append_effect_journal_entry_effect [OF fail_journal] append_effect_journal_entry_effect by blast
next
  case fail_recovery
  then show ?thesis using service_publish_recovery_decision_effect [OF fail_recovery] save_recovery_decision_effect by blast
next
  case fail_reconciliation
  then show ?thesis unfolding publish_reconciliation_def
    by (rule failed_build_and_save) (use save_reconciliation_record_effect in blast)
next
  case fail_resource
  then show ?thesis unfolding publish_resource_def
    by (rule failed_build_and_save) (use save_resource_record_effect in blast)
next
  case fail_truth
  then show ?thesis unfolding publish_final_truth_def
    by (rule failed_build_and_save) (use save_final_truth_effect in blast)
next
  case fail_operator
  then show ?thesis unfolding publish_operator_action_def
    by (rule failed_build_and_save) (use save_operator_action_effect in blast)
next
  case fail_checkpoint
  then show ?thesis unfolding publish_checkpoint_def using save_checkpoint_effect by blast
next
  case fail_reservation
  then show ?thesis using publish_reservation_effect [OF fail_reservation] by blast
next
  case fail_lease
  then show ?thesis using publish_lease_effect [OF fail_lease] by blast
qed (use save_resolved_policy_snapshot_effect save_resolved_configuration_snapshot_effect in blast)+

lemma failing_checkpoint_decision_effect:
  assumes "failing_checkpoint_decision c cp db db'"
  shows "db' = snd (publish_checkpoint c cp db)"
  using assms unfolding failing_checkpoint_decision.simps service_accept_checkpoint_def service_reject_checkpoint_def
  by (elim disjE exE conjE) (simp_all add: failed_checkpoint_decision)

text \<open>
  C9: a call that raises stores nothing of its own. Whichever publication of the service raises, or
  snapshot write of the repository, the database is exactly as before; when accepting or rejecting a
  checkpoint raises, the database is exactly what publishing the checkpoint alone makes of it.
\<close>

theorem failed_calls_store_nothing:
  "(failing_publication c sha256 db db' \<longrightarrow> db' = db) \<and>
   (failing_checkpoint_decision c cp db db' \<longrightarrow> db' = snd (publish_checkpoint c cp db))"
  using failing_publication_unchanged failing_checkpoint_decision_effect by blast

text \<open>
  The witness releases a reservation that does not exist, and rejects a checkpoint without a reason: the
  refused rejection leaves the checkpoint stored.
\<close>

theorem failed_calls_store_nothing_witness:
  "\<exists>e1 e2. release_reservation sample_codec ''res-9'' ''sup'' ''done'' published_db = (Inl e1, published_db) \<and>
     service_reject_checkpoint sample_codec ''acc-2'' sample_checkpoint ''sup'' ''t2''
       CheckpointReobservationClass.NONE ''i'' [] published_db
     = (Inl e2, published_db\<lparr>checkpoint_records := [checkpoint_row sample_codec sample_checkpoint]\<rparr>)"
proof -
  let ?release = "release_reservation sample_codec ''res-9'' ''sup'' ''done'' published_db"
  let ?reject = "service_reject_checkpoint sample_codec ''acc-2'' sample_checkpoint ''sup'' ''t2''
       CheckpointReobservationClass.NONE ''i'' [] published_db"
  obtain e1 db1 where release: "?release = (Inl e1, db1)"
    by (simp add: release_reservation_def republish_reservation_def bind_eff_read_eff published_db_eq
        get_latest_reservation_record_def reservation_row_def sample_reservation_def last_row_def load_opt_def
        lift_result_def)
  have none: "checkpoint_records published_db = []" by (simp add: published_db_eq empty_db_def)
  have publish: "publish_checkpoint sample_codec sample_checkpoint published_db
      = (Inr sample_checkpoint, published_db\<lparr>checkpoint_records := [checkpoint_row sample_codec sample_checkpoint]\<rparr>)"
    by (simp add: publish_checkpoint_def save_checkpoint_def insert_or_return_existing_def insert_row_def none
        checkpoint_row_def)
  obtain m where "authority_reject_checkpoint ''acc-2'' sample_checkpoint ''sup'' ''t2''
       CheckpointReobservationClass.NONE ''i'' [] = Inl m"
    by (cases "authority_reject_checkpoint ''acc-2'' sample_checkpoint ''sup'' ''t2''
       CheckpointReobservationClass.NONE ''i'' []")
       (simp_all add: authority_reject_checkpoint_def CheckpointAcceptanceRecord_init_def validate_model_Inr_iff
        validate_acceptance_shape_def first_message_None_iff)
  then obtain e2 db2 where reject: "?reject = (Inl e2, db2)"
    using publish by (simp add: service_reject_checkpoint_def bind_eff_def lift_result_def)
  have "db1 = published_db"
    using failed_calls_store_nothing [THEN conjunct1, THEN mp] fail_release [OF release] by blast
  moreover have "db2 = snd (publish_checkpoint sample_codec sample_checkpoint published_db)"
    using failed_calls_store_nothing [THEN conjunct2, THEN mp] fail_reject [OF reject] by blast
  ultimately show ?thesis using release reject publish by simp
qed

end
