(* ===== verification/Card_Workflow.thy ===== *)
theory Card_Workflow
  imports Orket_Prelude
begin

text \<open>
  The workflow of cards (\<open>orket/core/types.py\<close>, \<open>core/domain/state_machine.py\<close>,
  \<open>core/domain/workflow_profiles.py\<close>, \<open>core/domain/workitem_transition.py\<close>): the status tables of
  the five card types with their guards, the two workflow profiles, and the transition service every
  status change goes through.

  A payload is a dictionary of Python objects: \<open>pyobj\<close> has the kinds of values that reach the
  service (no floats), with \<open>str\<close>, \<open>repr\<close>, truth and iteration as Python defines them. The gate
  boundary is a parameter: a pair of functions from the request to an optional result.

  The lemmas show that every accepted request is a move of the profile's table (or the one
  sanctioned retry move), and what follows from it for a card over time: it closes once, only the
  integrity guard finishes an issue, and no issue is done without a review.
\<close>

section \<open>Types\<close>

datatype (plugins only: code) CardType = ROCK | EPIC | ISSUE | UTILITY | APP

datatype (plugins only: code) CardStatus =
    READY | IN_PROGRESS | BLOCKED | WAITING_FOR_DEVELOPER | READY_FOR_TESTING | CODE_REVIEW
  | AWAITING_GUARD_REVIEW | GUARD_APPROVED | GUARD_REJECTED | GUARD_REQUESTED_CHANGES
  | DONE | CANCELED | ARCHIVED

datatype (plugins only: code) WaitReason = RESOURCE | DEPENDENCY | REVIEW | INPUT | SYSTEM

primrec CardType_name :: "CardType \<Rightarrow> string" where
  "CardType_name ROCK = ''CardType.ROCK''"
| "CardType_name EPIC = ''CardType.EPIC''"
| "CardType_name ISSUE = ''CardType.ISSUE''"
| "CardType_name UTILITY = ''CardType.UTILITY''"
| "CardType_name APP = ''CardType.APP''"

primrec CardStatus_value :: "CardStatus \<Rightarrow> string" where
  "CardStatus_value READY = ''ready''"
| "CardStatus_value IN_PROGRESS = ''in_progress''"
| "CardStatus_value BLOCKED = ''blocked''"
| "CardStatus_value WAITING_FOR_DEVELOPER = ''waiting_for_developer''"
| "CardStatus_value READY_FOR_TESTING = ''ready_for_testing''"
| "CardStatus_value CODE_REVIEW = ''code_review''"
| "CardStatus_value AWAITING_GUARD_REVIEW = ''awaiting_guard_review''"
| "CardStatus_value GUARD_APPROVED = ''guard_approved''"
| "CardStatus_value GUARD_REJECTED = ''guard_rejected''"
| "CardStatus_value GUARD_REQUESTED_CHANGES = ''guard_requested_changes''"
| "CardStatus_value DONE = ''done''"
| "CardStatus_value CANCELED = ''canceled''"
| "CardStatus_value ARCHIVED = ''archived''"

primrec CardStatus_name :: "CardStatus \<Rightarrow> string" where
  "CardStatus_name READY = ''CardStatus.READY''"
| "CardStatus_name IN_PROGRESS = ''CardStatus.IN_PROGRESS''"
| "CardStatus_name BLOCKED = ''CardStatus.BLOCKED''"
| "CardStatus_name WAITING_FOR_DEVELOPER = ''CardStatus.WAITING_FOR_DEVELOPER''"
| "CardStatus_name READY_FOR_TESTING = ''CardStatus.READY_FOR_TESTING''"
| "CardStatus_name CODE_REVIEW = ''CardStatus.CODE_REVIEW''"
| "CardStatus_name AWAITING_GUARD_REVIEW = ''CardStatus.AWAITING_GUARD_REVIEW''"
| "CardStatus_name GUARD_APPROVED = ''CardStatus.GUARD_APPROVED''"
| "CardStatus_name GUARD_REJECTED = ''CardStatus.GUARD_REJECTED''"
| "CardStatus_name GUARD_REQUESTED_CHANGES = ''CardStatus.GUARD_REQUESTED_CHANGES''"
| "CardStatus_name DONE = ''CardStatus.DONE''"
| "CardStatus_name CANCELED = ''CardStatus.CANCELED''"
| "CardStatus_name ARCHIVED = ''CardStatus.ARCHIVED''"

primrec WaitReason_value :: "WaitReason \<Rightarrow> string" where
  "WaitReason_value RESOURCE = ''resource''"
| "WaitReason_value DEPENDENCY = ''dependency''"
| "WaitReason_value REVIEW = ''review''"
| "WaitReason_value INPUT = ''input''"
| "WaitReason_value SYSTEM = ''system''"

primrec WaitReason_name :: "WaitReason \<Rightarrow> string" where
  "WaitReason_name RESOURCE = ''WaitReason.RESOURCE''"
| "WaitReason_name DEPENDENCY = ''WaitReason.DEPENDENCY''"
| "WaitReason_name REVIEW = ''WaitReason.REVIEW''"
| "WaitReason_name INPUT = ''WaitReason.INPUT''"
| "WaitReason_name SYSTEM = ''WaitReason.SYSTEM''"

definition CardStatus_members :: "CardStatus list" where
  "CardStatus_members = [READY, IN_PROGRESS, BLOCKED, WAITING_FOR_DEVELOPER, READY_FOR_TESTING, CODE_REVIEW,
     AWAITING_GUARD_REVIEW, GUARD_APPROVED, GUARD_REJECTED, GUARD_REQUESTED_CHANGES, DONE, CANCELED, ARCHIVED]"

definition WaitReason_members :: "WaitReason list" where
  "WaitReason_members = [RESOURCE, DEPENDENCY, REVIEW, INPUT, SYSTEM]"

text \<open>The calls \<open>CardStatus(text)\<close> and \<open>WaitReason(text)\<close>, with \<open>None\<close> for the \<open>ValueError\<close>.\<close>

definition CardStatus_of :: "string \<Rightarrow> CardStatus option" where
  "CardStatus_of s = find (\<lambda>c. CardStatus_value c = s) CardStatus_members"

definition WaitReason_of :: "string \<Rightarrow> WaitReason option" where
  "WaitReason_of s = find (\<lambda>w. WaitReason_value w = s) WaitReason_members"

section \<open>Python objects in a payload\<close>

datatype pyobj =
    PNone | PBool bool | PInt int | PStr string | PWait WaitReason | PCard CardStatus
  | PList "pyobj list" | PDict "(string \<times> pyobj) list"

type_synonym payload = "(string \<times> pyobj) list"

fun py_repr_obj :: "pyobj \<Rightarrow> string" where
  "py_repr_obj PNone = ''None''"
| "py_repr_obj (PBool b) = (if b then ''True'' else ''False'')"
| "py_repr_obj (PInt i) = str_of_int i"
| "py_repr_obj (PStr s) = py_repr s"
| "py_repr_obj (PWait w) = ''<'' @ WaitReason_name w @ '': '' @ py_repr (WaitReason_value w) @ ''>''"
| "py_repr_obj (PCard c) = ''<'' @ CardStatus_name c @ '': '' @ py_repr (CardStatus_value c) @ ''>''"
| "py_repr_obj (PList xs) = ''['' @ comma_join (map py_repr_obj xs) @ '']''"
| "py_repr_obj (PDict kvs) =
     ''{'' @ comma_join (map (\<lambda>(k, v). py_repr k @ '': '' @ py_repr_obj v) kvs) @ ''}''"

definition py_str :: "pyobj \<Rightarrow> string" where
  "py_str x = (case x of PStr s \<Rightarrow> s | PWait w \<Rightarrow> WaitReason_name w | PCard c \<Rightarrow> CardStatus_name c
     | _ \<Rightarrow> py_repr_obj x)"

definition py_truth :: "pyobj \<Rightarrow> bool" where
  "py_truth x = (case x of PNone \<Rightarrow> False | PBool b \<Rightarrow> b | PInt i \<Rightarrow> i \<noteq> 0 | PStr s \<Rightarrow> s \<noteq> []
     | PWait _ \<Rightarrow> True | PCard _ \<Rightarrow> True | PList xs \<Rightarrow> xs \<noteq> [] | PDict kvs \<Rightarrow> kvs \<noteq> [])"

definition py_iter :: "pyobj \<Rightarrow> pyobj list result" where
  "py_iter x = (case x of
      PNone \<Rightarrow> Inl (TypeError (py_repr ''NoneType'' @ '' object is not iterable''))
    | PBool _ \<Rightarrow> Inl (TypeError (py_repr ''bool'' @ '' object is not iterable''))
    | PInt _ \<Rightarrow> Inl (TypeError (py_repr ''int'' @ '' object is not iterable''))
    | PStr s \<Rightarrow> Inr (map (\<lambda>ch. PStr [ch]) s)
    | PWait w \<Rightarrow> Inr (map (\<lambda>ch. PStr [ch]) (WaitReason_value w))
    | PCard c \<Rightarrow> Inr (map (\<lambda>ch. PStr [ch]) (CardStatus_value c))
    | PList xs \<Rightarrow> Inr xs
    | PDict kvs \<Rightarrow> Inr (map (\<lambda>kv. PStr (fst kv)) kvs))"

text \<open>\<open>str(payload.get(key, ""))\<close>\<close>

definition payload_str :: "payload \<Rightarrow> string \<Rightarrow> string" where
  "payload_str payload k = (case map_of payload k of None \<Rightarrow> [] | Some x \<Rightarrow> py_str x)"

section \<open>The state machine\<close>

primrec simple_execution_transitions :: "CardStatus \<Rightarrow> CardStatus set" where
  "simple_execution_transitions READY = {IN_PROGRESS, CANCELED, ARCHIVED}"
| "simple_execution_transitions IN_PROGRESS = {DONE, CANCELED, ARCHIVED}"
| "simple_execution_transitions BLOCKED = {}"
| "simple_execution_transitions WAITING_FOR_DEVELOPER = {}"
| "simple_execution_transitions READY_FOR_TESTING = {}"
| "simple_execution_transitions CODE_REVIEW = {}"
| "simple_execution_transitions AWAITING_GUARD_REVIEW = {}"
| "simple_execution_transitions GUARD_APPROVED = {}"
| "simple_execution_transitions GUARD_REJECTED = {}"
| "simple_execution_transitions GUARD_REQUESTED_CHANGES = {}"
| "simple_execution_transitions DONE = {ARCHIVED}"
| "simple_execution_transitions CANCELED = {ARCHIVED}"
| "simple_execution_transitions ARCHIVED = {}"

primrec issue_transitions :: "CardStatus \<Rightarrow> CardStatus set" where
  "issue_transitions READY = {IN_PROGRESS, BLOCKED, CANCELED, ARCHIVED}"
| "issue_transitions IN_PROGRESS =
     {BLOCKED, WAITING_FOR_DEVELOPER, READY_FOR_TESTING, CODE_REVIEW, CANCELED, ARCHIVED}"
| "issue_transitions BLOCKED = {IN_PROGRESS, CANCELED, ARCHIVED}"
| "issue_transitions WAITING_FOR_DEVELOPER = {IN_PROGRESS, CANCELED, ARCHIVED}"
| "issue_transitions READY_FOR_TESTING = {CODE_REVIEW, IN_PROGRESS, CANCELED, ARCHIVED}"
| "issue_transitions CODE_REVIEW =
     {DONE, READY, IN_PROGRESS, BLOCKED, READY_FOR_TESTING, AWAITING_GUARD_REVIEW, GUARD_APPROVED,
      GUARD_REJECTED, GUARD_REQUESTED_CHANGES, ARCHIVED}"
| "issue_transitions AWAITING_GUARD_REVIEW =
     {GUARD_APPROVED, GUARD_REJECTED, GUARD_REQUESTED_CHANGES, DONE, BLOCKED, ARCHIVED}"
| "issue_transitions GUARD_REQUESTED_CHANGES =
     {IN_PROGRESS, CODE_REVIEW, AWAITING_GUARD_REVIEW, CANCELED, ARCHIVED}"
| "issue_transitions GUARD_REJECTED = {BLOCKED, IN_PROGRESS, CANCELED, ARCHIVED}"
| "issue_transitions GUARD_APPROVED = {DONE, ARCHIVED}"
| "issue_transitions DONE = {ARCHIVED}"
| "issue_transitions CANCELED = {ARCHIVED}"
| "issue_transitions ARCHIVED = {}"

primrec epic_transitions :: "CardStatus \<Rightarrow> CardStatus set" where
  "epic_transitions READY = {IN_PROGRESS, CANCELED, ARCHIVED}"
| "epic_transitions IN_PROGRESS = {CODE_REVIEW, DONE, CANCELED, ARCHIVED}"
| "epic_transitions BLOCKED = {}"
| "epic_transitions WAITING_FOR_DEVELOPER = {}"
| "epic_transitions READY_FOR_TESTING = {}"
| "epic_transitions CODE_REVIEW = {DONE, IN_PROGRESS, ARCHIVED}"
| "epic_transitions AWAITING_GUARD_REVIEW = {}"
| "epic_transitions GUARD_APPROVED = {}"
| "epic_transitions GUARD_REJECTED = {}"
| "epic_transitions GUARD_REQUESTED_CHANGES = {}"
| "epic_transitions DONE = {ARCHIVED}"
| "epic_transitions CANCELED = {ARCHIVED}"
| "epic_transitions ARCHIVED = {}"

primrec card_transitions :: "CardType \<Rightarrow> CardStatus \<Rightarrow> CardStatus set" where
  "card_transitions ISSUE = issue_transitions"
| "card_transitions EPIC = epic_transitions"
| "card_transitions ROCK = simple_execution_transitions"
| "card_transitions UTILITY = simple_execution_transitions"
| "card_transitions APP = simple_execution_transitions"

definition guard_terminal_states :: "CardStatus set" where
  "guard_terminal_states = {GUARD_APPROVED, GUARD_REJECTED, GUARD_REQUESTED_CHANGES}"

datatype roles_arg = RoleName string | RoleNames "string list"

definition validate_transition ::
  "CardType \<Rightarrow> CardStatus \<Rightarrow> CardStatus \<Rightarrow> roles_arg \<Rightarrow> WaitReason option \<Rightarrow> bool result" where
  "validate_transition card_type current requested roles wait_reason =
     (let role_list = (case roles of RoleName r \<Rightarrow> [r] | RoleNames rs \<Rightarrow> rs)
      in if requested \<notin> card_transitions card_type current
         then Inl (StateMachineError (''Invalid transition for '' @ CardType_name card_type @ '': '' @
                CardStatus_value current @ '' -> '' @ CardStatus_value requested))
         else if requested \<in> {BLOCKED, WAITING_FOR_DEVELOPER} \<and> wait_reason = None
         then Inl (StateMachineError (''wait_reason is required when transitioning to '' @
                CardStatus_value requested @ ''. Valid reasons: '' @
                py_repr_list (map WaitReason_value WaitReason_members)))
         else if card_type = ISSUE \<and> requested = DONE \<and> ''integrity_guard'' \<notin> set role_list
         then Inl (StateMachineError (''Permission Denied: Only the '' @ py_repr ''integrity_guard'' @
                '' role can finalize Issues to '' @ py_repr ''DONE'' @ ''. Current roles: '' @
                py_repr_list role_list))
         else if requested \<in> guard_terminal_states \<and> ''integrity_guard'' \<notin> set role_list
         then Inl (StateMachineError (''Permission Denied: Only the '' @ py_repr ''integrity_guard'' @
                '' role can emit guard decisions ('' @ CardStatus_value requested @
                ''). Current roles: '' @ py_repr_list role_list))
         else Inr True)"

section \<open>Workflow profiles\<close>

record TransitionCheckResult =
  check_ok :: bool
  check_error :: "string option"

datatype WorkflowProfile = LegacyCardsV1Profile | ProjectTaskV1Profile

primrec profile_name :: "WorkflowProfile \<Rightarrow> string" where
  "profile_name LegacyCardsV1Profile = ''legacy_cards_v1''"
| "profile_name ProjectTaskV1Profile = ''project_task_v1''"

definition legacy_action_to_status :: "(string \<times> CardStatus) list" where
  "legacy_action_to_status = [(''start'', IN_PROGRESS), (''complete'', DONE), (''archive'', ARCHIVED),
     (''cancel'', CANCELED), (''send_to_review'', CODE_REVIEW), (''request_guard_review'', AWAITING_GUARD_REVIEW)]"

definition legacy_resolve_requested_status :: "string \<Rightarrow> payload \<Rightarrow> CardStatus option" where
  "legacy_resolve_requested_status action payload =
     (if action = ''set_status''
      then (let target = py_lower (py_strip (payload_str payload ''status''))
            in if target = [] then None else CardStatus_of target)
      else map_of legacy_action_to_status action)"

text \<open>The value of \<open>payload["wait_reason"]\<close> as a wait reason: a member, or a string that names one.\<close>

definition payload_wait_reason :: "payload \<Rightarrow> WaitReason option" where
  "payload_wait_reason payload =
     (case map_of payload ''wait_reason'' of
        Some (PWait w) \<Rightarrow> Some w
      | Some (PStr s) \<Rightarrow> if py_strip s = [] then None else WaitReason_of (py_lower (py_strip s))
      | Some (PCard c) \<Rightarrow> WaitReason_of (py_lower (py_strip (CardStatus_value c)))
      | _ \<Rightarrow> None)"

definition legacy_validate_transition ::
  "CardType \<Rightarrow> CardStatus \<Rightarrow> CardStatus \<Rightarrow> string list \<Rightarrow> payload \<Rightarrow> TransitionCheckResult" where
  "legacy_validate_transition card_type current requested roles payload =
     (case validate_transition card_type current requested
             (RoleNames (filter (\<lambda>r. r \<noteq> []) (map py_strip roles))) (payload_wait_reason payload) of
        Inr _ \<Rightarrow> \<lparr>check_ok = True, check_error = None\<rparr>
      | Inl (StateMachineError m) \<Rightarrow> \<lparr>check_ok = False, check_error = Some m\<rparr>
      | Inl _ \<Rightarrow> \<lparr>check_ok = False, check_error = None\<rparr>)"

definition project_allowed_statuses :: "CardStatus set" where
  "project_allowed_statuses = {READY, IN_PROGRESS, BLOCKED, DONE, CANCELED, ARCHIVED}"

primrec project_transitions :: "CardStatus \<Rightarrow> CardStatus set" where
  "project_transitions READY = {IN_PROGRESS, CANCELED, ARCHIVED}"
| "project_transitions IN_PROGRESS = {BLOCKED, DONE, CANCELED, ARCHIVED}"
| "project_transitions BLOCKED = {IN_PROGRESS, CANCELED, ARCHIVED}"
| "project_transitions WAITING_FOR_DEVELOPER = {}"
| "project_transitions READY_FOR_TESTING = {}"
| "project_transitions CODE_REVIEW = {}"
| "project_transitions AWAITING_GUARD_REVIEW = {}"
| "project_transitions GUARD_APPROVED = {}"
| "project_transitions GUARD_REJECTED = {}"
| "project_transitions GUARD_REQUESTED_CHANGES = {}"
| "project_transitions DONE = {ARCHIVED}"
| "project_transitions CANCELED = {ARCHIVED}"
| "project_transitions ARCHIVED = {}"

definition project_action_to_status :: "(string \<times> CardStatus) list" where
  "project_action_to_status = [(''start'', IN_PROGRESS), (''block'', BLOCKED), (''complete'', DONE),
     (''archive'', ARCHIVED), (''cancel'', CANCELED)]"

definition project_resolve_requested_status :: "string \<Rightarrow> payload \<Rightarrow> CardStatus option" where
  "project_resolve_requested_status action payload =
     (if action = ''set_status''
      then (let target = py_lower (py_strip (payload_str payload ''status''))
            in if target = [] then None
               else case CardStatus_of target of
                   None \<Rightarrow> None
                 | Some requested \<Rightarrow> if requested \<notin> project_allowed_statuses then None else Some requested)
      else map_of project_action_to_status action)"

definition project_validate_transition ::
  "CardType \<Rightarrow> CardStatus \<Rightarrow> CardStatus \<Rightarrow> string list \<Rightarrow> payload \<Rightarrow> TransitionCheckResult" where
  "project_validate_transition card_type current requested roles payload =
     (if requested \<notin> project_transitions current
      then \<lparr>check_ok = False, check_error = Some (''Invalid transition in project_task_v1: '' @
              CardStatus_value current @ '' -> '' @ CardStatus_value requested @ ''.'')\<rparr>
      else if requested = BLOCKED \<and> py_strip (payload_str payload ''wait_reason'') = []
      then \<lparr>check_ok = False, check_error = Some ''wait_reason is required for blocked status.''\<rparr>
      else \<lparr>check_ok = True, check_error = None\<rparr>)"

primrec resolve_requested_status :: "WorkflowProfile \<Rightarrow> string \<Rightarrow> payload \<Rightarrow> CardStatus option" where
  "resolve_requested_status LegacyCardsV1Profile = legacy_resolve_requested_status"
| "resolve_requested_status ProjectTaskV1Profile = project_resolve_requested_status"

primrec profile_validate_transition ::
  "WorkflowProfile \<Rightarrow> CardType \<Rightarrow> CardStatus \<Rightarrow> CardStatus \<Rightarrow> string list \<Rightarrow> payload \<Rightarrow> TransitionCheckResult" where
  "profile_validate_transition LegacyCardsV1Profile = legacy_validate_transition"
| "profile_validate_transition ProjectTaskV1Profile = project_validate_transition"

definition resolve_workflow_profile :: "string \<Rightarrow> WorkflowProfile result" where
  "resolve_workflow_profile name =
     (let normalized = py_lower (py_strip name)
      in if normalized \<in> {'''', ''legacy_cards_v1'', ''cards'', ''legacy''} then Inr LegacyCardsV1Profile
         else if normalized \<in> {''project_task_v1'', ''project_task''} then Inr ProjectTaskV1Profile
         else Inl (ValueError (''Unknown workflow profile: '' @ name)))"

section \<open>The transition service\<close>

datatype (plugins only: code) TransitionErrorCode =
    INVALID_ACTION | DEPENDENCY_UNRESOLVED | APPROVAL_REQUIRED | POLICY_VIOLATION | INVARIANT_FAILED

record TransitionResult =
  tr_ok :: bool
  tr_action :: string
  tr_new_status :: "string option"
  tr_error_code :: "TransitionErrorCode option"
  tr_error :: "string option"
  tr_gate_request_id :: "string option"
  tr_metadata :: payload

type_synonym gate_hook = "string \<Rightarrow> CardStatus \<Rightarrow> CardStatus \<Rightarrow> payload \<Rightarrow> TransitionResult option"

record TransitionGateBoundary =
  pre_transition :: gate_hook
  post_transition :: gate_hook

record WorkItemTransitionService =
  svc_profile :: WorkflowProfile
  svc_gate_boundary :: "TransitionGateBoundary option"

definition WorkItemTransitionService_init ::
  "string \<Rightarrow> TransitionGateBoundary option \<Rightarrow> WorkItemTransitionService result" where
  "WorkItemTransitionService_init workflow_profile gate_boundary =
     bind_result (resolve_workflow_profile workflow_profile)
       (\<lambda>p. Inr \<lparr>svc_profile = p, svc_gate_boundary = gate_boundary\<rparr>)"

definition is_system_retry_requeue :: "string \<Rightarrow> CardStatus \<Rightarrow> CardStatus \<Rightarrow> payload \<Rightarrow> bool" where
  "is_system_retry_requeue action current_status requested_status payload =
     (if action \<noteq> ''system_set_status'' then False
      else if current_status \<noteq> IN_PROGRESS \<or> requested_status \<noteq> READY then False
      else py_lower (py_strip (payload_str payload ''reason'')) \<in>
             {''retry_scheduled'', ''runtime_guard_retry_scheduled''})"

definition rejected :: "string \<Rightarrow> TransitionErrorCode \<Rightarrow> string \<Rightarrow> payload \<Rightarrow> TransitionResult" where
  "rejected action code message metadata =
     \<lparr>tr_ok = False, tr_action = action, tr_new_status = None, tr_error_code = Some code,
      tr_error = Some message, tr_gate_request_id = None, tr_metadata = metadata\<rparr>"

text \<open>
  The first half of \<open>request_transition\<close>: the status that is asked for, with the metadata of the
  result, or the early result.
\<close>

definition requested_transition ::
  "WorkflowProfile \<Rightarrow> string \<Rightarrow> payload \<Rightarrow> TransitionResult + (CardStatus \<times> payload)" where
  "requested_transition profile action payload =
     (let metadata = [(''workflow_profile'', PStr (profile_name profile))]
      in if action = ''system_set_status''
         then (let target = py_lower (py_strip (payload_str payload ''status''));
                   reason = py_strip (payload_str payload ''reason'')
               in if target = []
                  then Inl (rejected action INVALID_ACTION ''Missing status for system_set_status.'' [])
                  else if reason = []
                  then Inl (rejected action INVARIANT_FAILED ''system_set_status requires a non-empty reason.'' [])
                  else case CardStatus_of target of
                      None \<Rightarrow> Inl (rejected action INVALID_ACTION (''Unknown status: '' @ target) [])
                    | Some requested \<Rightarrow> Inr (requested, metadata @
                        [(''policy_override'', PBool True), (''override_reason'', PStr reason)]))
         else case resolve_requested_status profile action payload of
             None \<Rightarrow> Inl (rejected action INVALID_ACTION (''Unknown action: '' @ action) [])
           | Some requested \<Rightarrow> Inr (requested, metadata))"

definition unresolved_dependencies :: "payload \<Rightarrow> string list result" where
  "unresolved_dependencies payload =
     bind_result
       (case map_of payload ''unresolved_dependencies'' of
          None \<Rightarrow> Inr []
        | Some x \<Rightarrow> if py_truth x then py_iter x else Inr [])
       (\<lambda>items. Inr (filter (\<lambda>s. py_strip s \<noteq> []) (map py_str items)))"

definition dependency_exempt :: "CardStatus set" where
  "dependency_exempt = {DONE, CANCELED, ARCHIVED, GUARD_APPROVED}"

definition failing_hook :: "TransitionResult option \<Rightarrow> TransitionResult option" where
  "failing_hook r = (case r of Some x \<Rightarrow> if tr_ok x then None else Some x | None \<Rightarrow> None)"

definition run_hook ::
  "TransitionGateBoundary option \<Rightarrow> (TransitionGateBoundary \<Rightarrow> gate_hook) \<Rightarrow> string \<Rightarrow> CardStatus \<Rightarrow>
   CardStatus \<Rightarrow> payload \<Rightarrow> TransitionResult option" where
  "run_hook gate hook action current requested payload =
     (case gate of None \<Rightarrow> None | Some g \<Rightarrow> failing_hook (hook g action current requested payload))"

definition request_transition ::
  "WorkItemTransitionService \<Rightarrow> string \<Rightarrow> CardStatus \<Rightarrow> payload \<Rightarrow> string list \<Rightarrow> CardType \<Rightarrow>
   TransitionResult result" where
  "request_transition svc action current_status payload roles card_type =
     (let action = py_lower (py_strip action);
          profile = svc_profile svc;
          gate = svc_gate_boundary svc
      in if action = [] then Inr (rejected action INVALID_ACTION ''Missing action.'' [])
         else case requested_transition profile action payload of
             Inl early \<Rightarrow> Inr early
           | Inr (requested, metadata) \<Rightarrow> bind_result (unresolved_dependencies payload) (\<lambda>unresolved.
               if unresolved \<noteq> [] \<and> requested \<notin> dependency_exempt
               then Inr (rejected action DEPENDENCY_UNRESOLVED ''Unresolved dependencies prevent transition.''
                      [(''unresolved_dependencies'', PList (map PStr unresolved))])
               else case run_hook gate pre_transition action current_status requested payload of
                   Some pre \<Rightarrow> Inr pre
                 | None \<Rightarrow>
                    (let check = profile_validate_transition profile card_type current_status requested
                                   (filter (\<lambda>r. r \<noteq> []) (map py_strip roles)) payload;
                         requeue = is_system_retry_requeue action current_status requested payload
                     in if \<not> check_ok check \<and> \<not> requeue
                        then Inr (rejected action POLICY_VIOLATION
                               (str_or (check_error check) ''Transition rejected by workflow policy.'') [])
                        else
                          (let metadata = (if check_ok check then metadata
                                           else metadata @ [(''system_retry_requeue'', PBool True)]);
                               result = \<lparr>tr_ok = True, tr_action = action,
                                 tr_new_status = Some (CardStatus_value requested), tr_error_code = None,
                                 tr_error = None, tr_gate_request_id = None, tr_metadata = metadata\<rparr>
                           in case run_hook gate post_transition action current_status requested payload of
                               Some post \<Rightarrow> Inr post
                             | None \<Rightarrow> Inr result))))"

section \<open>What an accepted request is\<close>

definition guard_present :: "string list \<Rightarrow> bool" where
  "guard_present roles \<longleftrightarrow> ''integrity_guard'' \<in> set (map py_strip roles)"

lemma py_strip_roles:
  "map py_strip (filter (\<lambda>r. r \<noteq> []) (map py_strip roles)) = filter (\<lambda>r. r \<noteq> []) (map py_strip roles)"
  by (induction roles) simp_all

lemma guard_in_role_list:
  "''integrity_guard'' \<in> set (filter (\<lambda>r. r \<noteq> []) (map py_strip (filter (\<lambda>r. r \<noteq> []) (map py_strip roles)))) \<longleftrightarrow>
   guard_present roles"
  by (simp add: py_strip_roles guard_present_def)

lemma validate_transition_iff:
  "validate_transition ty s t (RoleNames rs) w = Inr b \<longleftrightarrow> b \<and> t \<in> card_transitions ty s \<and>
     (t \<in> {BLOCKED, WAITING_FOR_DEVELOPER} \<longrightarrow> w \<noteq> None) \<and>
     (ty = ISSUE \<and> t = DONE \<or> t \<in> guard_terminal_states \<longrightarrow> ''integrity_guard'' \<in> set rs)"
  unfolding validate_transition_def Let_def by (simp only: roles_arg.case) (auto split: if_splits)

text \<open>The moves of a profile, with the guards on the target status.\<close>

definition profile_move ::
  "WorkflowProfile \<Rightarrow> CardType \<Rightarrow> CardStatus \<Rightarrow> CardStatus \<Rightarrow> string list \<Rightarrow> payload \<Rightarrow> bool" where
  "profile_move profile ty s t roles payload = (case profile of
      LegacyCardsV1Profile \<Rightarrow> t \<in> card_transitions ty s \<and>
        (t \<in> {BLOCKED, WAITING_FOR_DEVELOPER} \<longrightarrow> payload_wait_reason payload \<noteq> None) \<and>
        (ty = ISSUE \<and> t = DONE \<or> t \<in> guard_terminal_states \<longrightarrow> guard_present roles)
    | ProjectTaskV1Profile \<Rightarrow> t \<in> project_transitions s \<and>
        (t = BLOCKED \<longrightarrow> py_strip (payload_str payload ''wait_reason'') \<noteq> []))"

lemma legacy_check_ok:
  "check_ok (legacy_validate_transition ty s t rs payload) \<longleftrightarrow>
     validate_transition ty s t (RoleNames (filter (\<lambda>r. r \<noteq> []) (map py_strip rs))) (payload_wait_reason payload) = Inr True"
proof (cases "validate_transition ty s t (RoleNames (filter (\<lambda>r. r \<noteq> []) (map py_strip rs))) (payload_wait_reason payload)")
  case (Inl e)
  then show ?thesis by (cases e) (simp_all add: legacy_validate_transition_def)
next
  case (Inr b)
  then have b unfolding validate_transition_iff by blast
  then show ?thesis using Inr by (simp add: legacy_validate_transition_def)
qed

lemma profile_check_ok:
  "check_ok (profile_validate_transition profile ty s t (filter (\<lambda>r. r \<noteq> []) (map py_strip roles)) payload) \<longleftrightarrow>
     profile_move profile ty s t roles payload"
proof (cases profile)
  case LegacyCardsV1Profile
  then show ?thesis
    by (simp only: profile_validate_transition.simps legacy_check_ok validate_transition_iff
        guard_in_role_list profile_move_def WorkflowProfile.case simp_thms)
next
  case ProjectTaskV1Profile
  then show ?thesis by (auto simp: profile_move_def project_validate_transition_def)
qed

text \<open>The one move outside the tables: the runtime puts an issue in progress back for a retry.\<close>

lemma retry_requeue_iff:
  "is_system_retry_requeue action s t payload \<longleftrightarrow> action = ''system_set_status'' \<and> s = IN_PROGRESS \<and> t = READY \<and>
     py_lower (py_strip (payload_str payload ''reason'')) \<in> {''retry_scheduled'', ''runtime_guard_retry_scheduled''}"
  by (auto simp: is_system_retry_requeue_def)

lemma rejected_not_ok [simp]: "\<not> tr_ok (rejected action code m md)"
  by (simp add: rejected_def)

lemma requested_transition_Inl: "requested_transition profile action payload = Inl r \<Longrightarrow> \<not> tr_ok r"
  by (auto simp: requested_transition_def Let_def split: if_splits option.splits)

lemma run_hook_not_ok: "run_hook gate hook a s t payload = Some r \<Longrightarrow> \<not> tr_ok r"
  by (auto simp: run_hook_def failing_hook_def split: option.splits if_splits)

lemma request_transition_ok:
  assumes "request_transition svc action s payload roles ty = Inr r" and "tr_ok r"
  shows "\<exists>t metadata unresolved.
     requested_transition (svc_profile svc) (py_lower (py_strip action)) payload = Inr (t, metadata) \<and>
     tr_new_status r = Some (CardStatus_value t) \<and>
     unresolved_dependencies payload = Inr unresolved \<and> (unresolved = [] \<or> t \<in> dependency_exempt) \<and>
     (profile_move (svc_profile svc) ty s t roles payload \<or>
      is_system_retry_requeue (py_lower (py_strip action)) s t payload)"
proof -
  let ?a = "py_lower (py_strip action)"
  obtain t md where req: "requested_transition (svc_profile svc) ?a payload = Inr (t, md)"
    using assms requested_transition_Inl
    by (auto simp: request_transition_def Let_def split: if_splits sum.splits)
  obtain un where un: "unresolved_dependencies payload = Inr un"
    using assms req by (auto simp: request_transition_def Let_def bind_result_Inr_iff split: if_splits)
  have dep: "un = [] \<or> t \<in> dependency_exempt"
    using assms req un by (auto simp: request_transition_def Let_def split: if_splits)
  have pre: "run_hook (svc_gate_boundary svc) pre_transition ?a s t payload = None"
    and post: "run_hook (svc_gate_boundary svc) post_transition ?a s t payload = None \<or> \<not> tr_ok r"
    using assms req un dep run_hook_not_ok
    by (auto simp: request_transition_def Let_def split: if_splits option.splits)
  have check: "profile_move (svc_profile svc) ty s t roles payload \<or> is_system_retry_requeue ?a s t payload"
    and new: "tr_new_status r = Some (CardStatus_value t)"
    using assms req un dep pre post
    by (auto simp: request_transition_def Let_def profile_check_ok split: if_splits option.splits)
  show ?thesis using req un dep check new by blast
qed

section \<open>Cards over time\<close>

lemma CardStatus_value_inject [simp]: "CardStatus_value a = CardStatus_value b \<longleftrightarrow> a = b"
  by (cases a; cases b) simp_all

lemma CardStatus_of_value [simp]: "CardStatus_of (CardStatus_value s) = Some s"
  unfolding CardStatus_of_def CardStatus_members_def by (cases s) simp_all

text \<open>A card moves from one status to another when some request of some caller is accepted.\<close>

definition card_step :: "WorkItemTransitionService \<Rightarrow> CardType \<Rightarrow> CardStatus \<Rightarrow> CardStatus \<Rightarrow> bool" where
  "card_step svc ty s t \<longleftrightarrow> (\<exists>action payload roles r.
     request_transition svc action s payload roles ty = Inr r \<and> tr_ok r \<and>
     tr_new_status r = Some (CardStatus_value t))"

primrec profile_table :: "WorkflowProfile \<Rightarrow> CardType \<Rightarrow> CardStatus \<Rightarrow> CardStatus set" where
  "profile_table LegacyCardsV1Profile = card_transitions"
| "profile_table ProjectTaskV1Profile = (\<lambda>_. project_transitions)"

definition move_targets :: "WorkflowProfile \<Rightarrow> CardType \<Rightarrow> CardStatus \<Rightarrow> CardStatus set" where
  "move_targets profile ty s = profile_table profile ty s \<union> (if s = IN_PROGRESS then {READY} else {})"

lemma card_step_targets:
  assumes "card_step svc ty s t"
  shows "t \<in> move_targets (svc_profile svc) ty s"
proof -
  obtain action payload roles r where "request_transition svc action s payload roles ty = Inr r" "tr_ok r"
    and new: "tr_new_status r = Some (CardStatus_value t)"
    using assms by (auto simp: card_step_def)
  then obtain u where "tr_new_status r = Some (CardStatus_value u)"
    and "profile_move (svc_profile svc) ty s u roles payload \<or>
         is_system_retry_requeue (py_lower (py_strip action)) s u payload"
    using request_transition_ok by blast
  then show ?thesis
    using new by (cases "svc_profile svc") (auto simp: move_targets_def profile_move_def retry_requeue_iff)
qed

lemma card_path_legal:
  assumes "successively (card_step svc ty) ss"
  shows "legal_path (move_targets (svc_profile svc) ty) ss"
  using assms by (induction ss rule: induct_list012) (auto dest: card_step_targets)

text \<open>
  An accepted request of the cards workflow respects every guard: its new status is a successor of
  the current one in the table of the card type (or the runtime puts work in progress back for a
  retry), an issue is finished and a guard decision is made only by the integrity guard, blocking
  gives a wait reason, and with unresolved dependencies only closing moves are accepted.
\<close>

theorem accepted_requests_guarded:
  assumes "svc_profile svc = LegacyCardsV1Profile"
    and "request_transition svc action s payload roles ty = Inr r" and "tr_ok r"
  shows "\<exists>t. tr_new_status r = Some (CardStatus_value t) \<and>
     (t \<in> card_transitions ty s \<or> s = IN_PROGRESS \<and> t = READY) \<and>
     (ty = ISSUE \<and> t = DONE \<or> t \<in> guard_terminal_states \<longrightarrow> guard_present roles) \<and>
     (t \<in> {BLOCKED, WAITING_FOR_DEVELOPER} \<longrightarrow> payload_wait_reason payload \<noteq> None) \<and>
     (unresolved_dependencies payload \<noteq> Inr [] \<longrightarrow> t \<in> dependency_exempt)"
proof -
  obtain t un where t: "tr_new_status r = Some (CardStatus_value t)"
    "unresolved_dependencies payload = Inr un" "un = [] \<or> t \<in> dependency_exempt"
    and move: "profile_move (svc_profile svc) ty s t roles payload \<or>
      is_system_retry_requeue (py_lower (py_strip action)) s t payload"
    using request_transition_ok [OF assms(2,3)] by blast
  from move show ?thesis
  proof
    assume "profile_move (svc_profile svc) ty s t roles payload"
    then show ?thesis using t assms(1) by (intro exI [of _ t]) (auto simp: profile_move_def)
  next
    assume "is_system_retry_requeue (py_lower (py_strip action)) s t payload"
    then show ?thesis using t by (intro exI [of _ t]) (auto simp: retry_requeue_iff guard_terminal_states_def)
  qed
qed

definition cards_service :: WorkItemTransitionService where
  "cards_service = \<lparr>svc_profile = LegacyCardsV1Profile, svc_gate_boundary = None\<rparr>"

definition accepted_as :: "TransitionResult result \<Rightarrow> string option" where
  "accepted_as x = (case x of Inl _ \<Rightarrow> None | Inr r \<Rightarrow> if tr_ok r then tr_new_status r else None)"

lemma accepted_asD: "accepted_as x = Some s \<Longrightarrow> \<exists>r. x = Inr r \<and> tr_ok r \<and> tr_new_status r = Some s"
  by (auto simp: accepted_as_def split: sum.splits if_splits)

lemma sample_requests:
  "accepted_as (request_transition cards_service ''start'' READY [] [] ISSUE) = Some ''in_progress''"
  "accepted_as (request_transition cards_service ''send_to_review'' IN_PROGRESS [] [] ISSUE) = Some ''code_review''"
  "accepted_as (request_transition cards_service ''complete'' CODE_REVIEW [] [''integrity_guard''] ISSUE) = Some ''done''"
  by code_simp+

theorem accepted_requests_guarded_witness:
  "\<exists>r. request_transition cards_service ''complete'' CODE_REVIEW [] [''integrity_guard''] ISSUE = Inr r \<and>
       (\<exists>t. tr_new_status r = Some (CardStatus_value t) \<and> t \<in> card_transitions ISSUE CODE_REVIEW)"
proof -
  obtain r where r: "request_transition cards_service ''complete'' CODE_REVIEW [] [''integrity_guard''] ISSUE = Inr r"
    "tr_ok r"
    using accepted_asD [OF sample_requests(3)] by blast
  show ?thesis
    using r accepted_requests_guarded [OF _ r] by (auto simp: cards_service_def)
qed

text \<open>
  C29: under the profile \<open>legacy_cards_v1\<close> no issue is done without review: whatever requests are made, an
  issue that starts ready and ends done has been in code review, and the status before done is code review, guard review or
  guard approval.
\<close>

theorem issue_done_only_after_review:
  assumes "svc_profile svc = LegacyCardsV1Profile" and "successively (card_step svc ISSUE) (READY # ss @ [DONE])"
  shows "CODE_REVIEW \<in> set ss \<and> last (READY # ss) \<in> {CODE_REVIEW, AWAITING_GUARD_REVIEW, GUARD_APPROVED}"
proof
  let ?nx = "move_targets LegacyCardsV1Profile ISSUE"
  let ?A = "{READY, IN_PROGRESS, BLOCKED, WAITING_FOR_DEVELOPER, READY_FOR_TESTING, CANCELED, ARCHIVED}"
  have path: "legal_path ?nx ((READY # ss) @ [DONE])" using card_path_legal [OF assms(2)] assms(1) by simp
  have "CODE_REVIEW \<in> set (ss @ [DONE])"
  proof (rule legal_path_must_pass [where A = ?A and nx = ?nx and s = READY])
    show "?nx a \<subseteq> ?A \<union> {CODE_REVIEW}" if "a \<in> ?A" for a
      using that by (cases a) (auto simp: move_targets_def)
  qed (use path in simp_all)
  then show "CODE_REVIEW \<in> set ss" by simp
  have "DONE \<in> ?nx (last (READY # ss))" using path by (simp only: legal_path_snoc) simp
  then show "last (READY # ss) \<in> {CODE_REVIEW, AWAITING_GUARD_REVIEW, GUARD_APPROVED}"
    by (cases "last (READY # ss)") (auto simp: move_targets_def)
qed

lemma sample_issue_steps:
  "card_step cards_service ISSUE READY IN_PROGRESS" "card_step cards_service ISSUE IN_PROGRESS CODE_REVIEW"
  "card_step cards_service ISSUE CODE_REVIEW DONE"
proof -
  have step: "card_step cards_service ISSUE s u"
    if "accepted_as (request_transition cards_service action s [] roles ISSUE) = Some (CardStatus_value u)"
    for action s roles u
    using accepted_asD [OF that] unfolding card_step_def by blast
  show "card_step cards_service ISSUE READY IN_PROGRESS" "card_step cards_service ISSUE IN_PROGRESS CODE_REVIEW"
    "card_step cards_service ISSUE CODE_REVIEW DONE"
    using step [of "''start''" READY "[]" IN_PROGRESS] step [of "''send_to_review''" IN_PROGRESS "[]" CODE_REVIEW]
      step [of "''complete''" CODE_REVIEW "[''integrity_guard'']" DONE]
    by (simp_all add: sample_requests)
qed

theorem issue_done_only_after_review_witness:
  "successively (card_step cards_service ISSUE) (READY # [IN_PROGRESS, CODE_REVIEW] @ [DONE]) \<and>
   CODE_REVIEW \<in> set [IN_PROGRESS, CODE_REVIEW]"
proof -
  have steps: "successively (card_step cards_service ISSUE) (READY # [IN_PROGRESS, CODE_REVIEW] @ [DONE])"
    using sample_issue_steps by simp
  show ?thesis using steps issue_done_only_after_review [OF _ steps] by (simp add: cards_service_def)
qed

text \<open>
  a closed card stays closed in both workflow profiles: whatever requests are made, a card that is
  done or canceled only ever becomes archived, and an archived card never changes again.
\<close>

theorem closed_cards_only_archive:
  "card_step svc ty s t \<longrightarrow> s \<noteq> ARCHIVED \<and> (s \<in> {DONE, CANCELED} \<longrightarrow> t = ARCHIVED)"
proof
  assume "card_step svc ty s t"
  then have "t \<in> move_targets (svc_profile svc) ty s" by (rule card_step_targets)
  then show "s \<noteq> ARCHIVED \<and> (s \<in> {DONE, CANCELED} \<longrightarrow> t = ARCHIVED)"
    by (cases "svc_profile svc"; cases ty; cases s) (auto simp: move_targets_def)
qed

theorem closed_cards_only_archive_witness:
  "card_step cards_service ISSUE CODE_REVIEW DONE \<and> CODE_REVIEW \<noteq> ARCHIVED"
  using sample_issue_steps(3) closed_cards_only_archive [of cards_service ISSUE CODE_REVIEW DONE] by simp

text \<open>
  A card is never stuck: without a gate, the archive action is accepted from every status that has
  any move at all, whatever the roles and whatever dependencies are unresolved.
\<close>

theorem archive_always_accepted:
  assumes "svc_gate_boundary svc = None" and "profile_table (svc_profile svc) ty s \<noteq> {}"
    and "unresolved_dependencies payload = Inr unresolved"
  shows "\<exists>r. request_transition svc ''archive'' s payload roles ty = Inr r \<and> tr_ok r \<and>
             tr_new_status r = Some ''archived''"
proof -
  let ?P = "svc_profile svc"
  have a: "py_lower (py_strip ''archive'') = ''archive''" by code_simp
  have req: "requested_transition ?P ''archive'' payload = Inr (ARCHIVED, [(''workflow_profile'', PStr (profile_name ?P))])"
    by (cases ?P) (simp_all add: requested_transition_def legacy_resolve_requested_status_def
        legacy_action_to_status_def project_resolve_requested_status_def project_action_to_status_def)
  have "ARCHIVED \<in> profile_table ?P ty s"
    using assms(2) by (cases ?P; cases ty; cases s) simp_all
  then have "profile_move ?P ty s ARCHIVED roles payload"
    by (cases ?P) (simp_all add: profile_move_def guard_terminal_states_def)
  then have "check_ok (profile_validate_transition ?P ty s ARCHIVED (filter (\<lambda>r. r \<noteq> []) (map py_strip roles)) payload)"
    by (simp only: profile_check_ok)
  then show ?thesis
    using assms(1,3) by (simp add: request_transition_def a req run_hook_def dependency_exempt_def)
qed

theorem archive_always_accepted_witness:
  "\<exists>r. request_transition cards_service ''archive'' BLOCKED [(''unresolved_dependencies'', PList [PStr ''dep''])] []
         ISSUE = Inr r \<and> tr_ok r \<and> tr_new_status r = Some ''archived''"
proof (rule archive_always_accepted)
  show "unresolved_dependencies [(''unresolved_dependencies'', PList [PStr ''dep''])] = Inr [''dep'']"
    by code_simp
qed (simp_all add: cards_service_def)

end
