(* ===== verification/Outward_Ledger.thy ===== *)
theory Outward_Ledger
  imports Canonical_JSON
begin

text \<open>
  The ledger of an outward run (\<open>orket/core/domain/outward_ledger.py\<close> and
  \<open>outward_run_events.py\<close>): event and chain hashes, event groups, and the offline verification of an
  export, in the full and in the partial form.

  An export is a decoded JSON object, with its keys distinct and no floats. The coercions of the
  verifier are Python's: \<open>int()\<close> of a string strips white space, takes a sign and single underscores
  between digits, and refuses more than 4300 digits; \<open>str(x or "")\<close> renders any value. An error that
  the verifier notes is an entry of its list; an exception it does not catch is \<open>Inl\<close>.

  \<open>sha256\<close> is a parameter, from texts to hexadecimal digests.
\<close>

section \<open>Python coercions\<close>

definition digit_value :: "char \<Rightarrow> int" where
  "digit_value c = of_char c - 48"

text \<open>The digits of an integer literal: a digit, then digits each with at most one underscore before.\<close>

fun int_digits :: "int \<Rightarrow> string \<Rightarrow> int option" where
  "int_digits acc [] = Some acc"
| "int_digits acc (c # s) =
     (if is_digit c then int_digits (10 * acc + digit_value c) s
      else if c = CHR ''_'' \<and> s \<noteq> [] \<and> is_digit (hd s) then int_digits acc s
      else None)"

definition int_literal :: "string \<Rightarrow> int option" where
  "int_literal s =
     (case s of
        [] \<Rightarrow> None
      | c # _ \<Rightarrow> if is_digit c \<and> length (filter is_digit s) \<le> 4300 then int_digits 0 s else None)"

definition parse_int :: "string \<Rightarrow> int option" where
  "parse_int s =
     (case py_strip s of
        CHR ''-'' # t \<Rightarrow> map_option uminus (int_literal t)
      | CHR ''+'' # t \<Rightarrow> int_literal t
      | t \<Rightarrow> int_literal t)"

definition py_int :: "json \<Rightarrow> int result" where
  "py_int v =
     (case v of
        JInt i \<Rightarrow> Inr i
      | JBool b \<Rightarrow> Inr (if b then 1 else 0)
      | JStr s \<Rightarrow> (case parse_int s of
            Some i \<Rightarrow> Inr i
          | None \<Rightarrow> Inl (ValueError (''invalid literal for int() with base 10: '' @ py_repr s)))
      | _ \<Rightarrow> Inl (TypeError ''int() argument must be a string, a bytes-like object or a real number''))"

text \<open>\<open>str(payload.get(k) or "")\<close>\<close>

definition str_or_empty :: "json \<Rightarrow> string" where
  "str_or_empty v = (if json_truthy v then py_str_json v else [])"

text \<open>\<open>==\<close> of decoded values: truth values are the integers 0 and 1, key order does not matter.\<close>

fun json_num :: "json \<Rightarrow> json" where
  "json_num (JBool b) = JInt (if b then 1 else 0)"
| "json_num (JArr xs) = JArr (map json_num xs)"
| "json_num (JObj kvs) = JObj (map (\<lambda>(k, v). (k, json_num v)) kvs)"
| "json_num v = v"

definition py_eq :: "json \<Rightarrow> json \<Rightarrow> bool" where
  "py_eq v w = (canon (json_num v) = canon (json_num w))"

section \<open>Events and hashes\<close>

definition SCHEMA_VERSION :: string where
  "SCHEMA_VERSION = ''ledger_export.v1''"

definition GENESIS_CHAIN_HASH :: string where
  "GENESIS_CHAIN_HASH = ''GENESIS''"

definition LEDGER_EXPORT_REQUESTED :: string where
  "LEDGER_EXPORT_REQUESTED = ''ledger_export_requested''"

record LedgerEvent =
  le_event_id :: string
  le_event_type :: string
  le_run_id :: string
  le_turn :: "int option"
  le_agent_id :: "string option"
  le_at :: string
  le_payload :: "(string \<times> json) list"
  le_event_hash :: "string option"
  le_chain_hash :: "string option"

definition EVENT_GROUPS :: "(string \<times> string list option) list" where
  "EVENT_GROUPS =
     [(''proposals'', Some [''proposal_made'', ''proposal_pending_approval'']),
      (''decisions'', Some [''proposal_approved'', ''proposal_denied'', ''proposal_expired'', ''proposal_policy_rejected'']),
      (''commitments'', Some [''commitment_recorded'']),
      (''tools'', Some [''tool_invoked'']),
      (''handoffs'', Some [''trust_handoff_verified'', ''trust_handoff_rejected'']),
      (''audit'', Some [LEDGER_EXPORT_REQUESTED]),
      (''all'', None)]"

definition normalize_event_groups :: "string list \<Rightarrow> string list result" where
  "normalize_event_groups types =
     (let raw_groups = map (\<lambda>s. py_lower (py_strip s)) (filter (\<lambda>s. py_strip s \<noteq> []) types) in
      if raw_groups = [] then Inr [''all'']
      else if ''all'' \<in> set raw_groups then Inr [''all'']
      else let invalid = sort (remdups (filter (\<lambda>g. g \<notin> fst ` set EVENT_GROUPS) raw_groups)) in
        if invalid \<noteq> []
        then Inl (LedgerExportValidationError (''Unsupported ledger event group(s): '' @ comma_join invalid))
        else Inr (rev (remdups (rev raw_groups))))"

definition event_group :: "string \<Rightarrow> string" where
  "event_group event_type =
     (case find (\<lambda>(_, ts). case ts of None \<Rightarrow> False | Some ts \<Rightarrow> event_type \<in> set ts) EVENT_GROUPS of
        Some (g, _) \<Rightarrow> g
      | None \<Rightarrow> ''all'')"

definition canonical_event :: "LedgerEvent \<Rightarrow> json" where
  "canonical_event e = JObj
     [(''event_id'', JStr (le_event_id e)), (''event_type'', JStr (le_event_type e)),
      (''run_id'', JStr (le_run_id e)), (''turn'', json_opt_int (le_turn e)),
      (''agent_id'', json_opt_str (le_agent_id e)), (''at'', JStr (le_at e)),
      (''payload'', JObj (le_payload e))]"

definition event_hash_for :: "(string \<Rightarrow> string) \<Rightarrow> LedgerEvent \<Rightarrow> string" where
  "event_hash_for sha256 e = sha256 (json_dumps False (canonical_event e))"

definition chain_text :: "string \<Rightarrow> string \<Rightarrow> string" where
  "chain_text previous_chain_hash event_hash = previous_chain_hash @ [CHR 0x0A] @ event_hash"

definition chain_hash_for :: "(string \<Rightarrow> string) \<Rightarrow> string \<Rightarrow> string \<Rightarrow> string" where
  "chain_hash_for sha256 previous_chain_hash event_hash = sha256 (chain_text previous_chain_hash event_hash)"

section \<open>Verification of an export\<close>

text \<open>The entry an error adds to the list of errors.\<close>

definition note_if :: "bool \<Rightarrow> string \<Rightarrow> string list" where
  "note_if b message = (if b then [message] else [])"

definition int_field :: "(string \<times> json) list \<Rightarrow> string \<Rightarrow> int \<times> string list" where
  "int_field payload field =
     (case json_get payload field of
        JBool _ \<Rightarrow> (0, [field @ '' must be an integer''])
      | v \<Rightarrow> (case py_int v of
            Inr i \<Rightarrow> (i, [])
          | Inl _ \<Rightarrow> (0, [field @ '' must be an integer''])))"

definition event_from_export :: "(string \<times> json) list \<Rightarrow> LedgerEvent result" where
  "event_from_export payload =
     bind_result (case json_get payload ''turn'' of
         JNull \<Rightarrow> Inr None
       | v \<Rightarrow> bind_result (py_int v) (\<lambda>i. Inr (Some i))) (\<lambda>turn. Inr
       \<lparr>le_event_id = str_or_empty (json_get payload ''event_id''),
        le_event_type = str_or_empty (json_get payload ''event_type''),
        le_run_id = str_or_empty (json_get payload ''run_id''),
        le_turn = turn,
        le_agent_id = (case json_get payload ''agent_id'' of JNull \<Rightarrow> None | v \<Rightarrow> Some (py_str_json v)),
        le_at = str_or_empty (json_get payload ''at''),
        le_payload = (case json_get payload ''payload'' of JObj kvs \<Rightarrow> kvs | _ \<Rightarrow> []),
        le_event_hash = None, le_chain_hash = None\<rparr>)"

record verify_state =
  vs_positions :: "int list"
  vs_disclosed_chains :: "(int \<times> string) list"
  vs_previous_position :: int
  vs_previous_disclosed_chain :: string
  vs_errors :: "string list"

definition verify_start :: "string list \<Rightarrow> verify_state" where
  "verify_start errors =
     \<lparr>vs_positions = [], vs_disclosed_chains = [], vs_previous_position = 0,
      vs_previous_disclosed_chain = GENESIS_CHAIN_HASH, vs_errors = errors\<rparr>"

definition verify_event :: "(string \<Rightarrow> string) \<Rightarrow> string \<Rightarrow> json \<Rightarrow> verify_state \<Rightarrow> verify_state result" where
  "verify_event sha256 export_scope raw_event st =
     (case raw_event of
        JObj raw \<Rightarrow>
          (case int_field raw ''position'' of (position, position_errors) \<Rightarrow>
           bind_result (event_from_export raw) (\<lambda>event.
           let previous_chain_hash = str_or_empty (json_get raw ''previous_chain_hash'');
               expected_event_hash = event_hash_for sha256 event;
               expected_chain_hash = chain_hash_for sha256 previous_chain_hash expected_event_hash;
               previous_position = vs_previous_position st
           in Inr
             \<lparr>vs_positions = position # vs_positions st,
              vs_disclosed_chains = (position, expected_chain_hash) # vs_disclosed_chains st,
              vs_previous_position = position,
              vs_previous_disclosed_chain = expected_chain_hash,
              vs_errors = vs_errors st @ position_errors @
                note_if (position \<le> previous_position) ''events must be ordered by ascending position'' @
                note_if (position \<in> set (vs_positions st)) (''duplicate event position: '' @ str_of_int position) @
                note_if (json_get raw ''event_hash'' \<noteq> JStr expected_event_hash)
                  (''event_hash mismatch at position '' @ str_of_int position) @
                note_if (json_get raw ''chain_hash'' \<noteq> JStr expected_chain_hash)
                  (''chain_hash mismatch at position '' @ str_of_int position) @
                (if export_scope = ''all''
                 then note_if (position \<noteq> previous_position + 1)
                        (''full export missing position '' @ str_of_int (previous_position + 1)) @
                      note_if (previous_chain_hash \<noteq> vs_previous_disclosed_chain st)
                        (''previous_chain_hash mismatch at position '' @ str_of_int position)
                 else note_if (position = previous_position + 1 \<and>
                               previous_chain_hash \<noteq> vs_previous_disclosed_chain st)
                        (''disclosed chain link mismatch at position '' @ str_of_int position))\<rparr>))
      | _ \<Rightarrow> Inr (st\<lparr>vs_errors := vs_errors st @ [''event entry must be an object'']\<rparr>))"

fun verify_events :: "(string \<Rightarrow> string) \<Rightarrow> string \<Rightarrow> json list \<Rightarrow> verify_state \<Rightarrow> verify_state result" where
  "verify_events sha256 export_scope [] st = Inr st"
| "verify_events sha256 export_scope (e # es) st =
     bind_result (verify_event sha256 export_scope e st) (verify_events sha256 export_scope es)"

definition verify_full_export :: "nat \<Rightarrow> int \<Rightarrow> string \<Rightarrow> string \<Rightarrow> string list" where
  "verify_full_export raw_count canonical_count ledger_hash previous_disclosed_chain =
     note_if (int raw_count \<noteq> canonical_count) ''full export event count does not match canonical event_count'' @
     note_if (canonical_count = 0 \<and> ledger_hash \<noteq> GENESIS_CHAIN_HASH) ''empty ledger_hash must be GENESIS'' @
     note_if (0 < canonical_count \<and> previous_disclosed_chain \<noteq> ledger_hash)
       ''full export final chain_hash does not match canonical ledger_hash''"

text \<open>
  \<open>next(item for item in payload["events"] if item["position"] == next_position)\<close>: subscripting a
  value that is no object, an object without the key, and the end of the list raise.
\<close>

fun next_event :: "json list \<Rightarrow> int \<Rightarrow> (string \<times> json) list result" where
  "next_event [] n = Inl StopIteration"
| "next_event (JObj raw # es) n =
     (case map_of raw ''position'' of
        None \<Rightarrow> Inl (KeyError ''position'')
      | Some v \<Rightarrow> if py_eq v (JInt n) then Inr raw else next_event es n)"
| "next_event (_ # es) n = Inl (TypeError ''object is not subscriptable by a string'')"

definition span_text :: "int \<Rightarrow> int \<Rightarrow> string" where
  "span_text start end_position = ''omitted span '' @ str_of_int start @ ''-'' @ str_of_int end_position"

definition verify_span ::
  "json list \<Rightarrow> int \<Rightarrow> string \<Rightarrow> verify_state \<Rightarrow> json \<Rightarrow> (int list \<times> string list) result" where
  "verify_span events canonical_count ledger_hash st raw_span =
     (case raw_span of
        JObj span \<Rightarrow>
          (case (int_field span ''from_position'', int_field span ''to_position'') of
             ((start, start_errors), (end_position, end_errors)) \<Rightarrow>
           let positions = vs_positions st;
               previous_anchor = (if start = 1 then Some GENESIS_CHAIN_HASH
                                  else map_of (vs_disclosed_chains st) (start - 1));
               next_position = end_position + 1
           in
           bind_result (if next_position \<in> set positions
             then bind_result (next_event events next_position) (\<lambda>next. Inr
               (note_if (\<not> py_eq (json_get next ''previous_chain_hash'') (json_get span ''next_chain_hash''))
                 (span_text start end_position @ '' next anchor mismatch'')))
             else Inr []) (\<lambda>next_errors. Inr
           ([start..end_position],
            start_errors @ end_errors @
            note_if (end_position < start) (span_text start end_position @ '' is inverted'') @
            note_if (start < 1 \<or> canonical_count < end_position)
              (span_text start end_position @ '' is outside canonical event_count'') @
            note_if (list_ex (\<lambda>n. n \<in> set positions) [start..end_position])
              (span_text start end_position @ '' overlaps disclosed events'') @
            note_if (case previous_anchor of None \<Rightarrow> False
                | Some h \<Rightarrow> json_get span ''previous_chain_hash'' \<noteq> JStr h)
              (span_text start end_position @ '' previous anchor mismatch'') @
            next_errors @
            note_if (end_position = canonical_count \<and> json_get span ''next_chain_hash'' \<noteq> JStr ledger_hash)
              (span_text start end_position @ '' does not anchor canonical ledger_hash''))))
      | _ \<Rightarrow> Inr ([], [''omitted span must be an object'']))"

fun verify_spans ::
  "json list \<Rightarrow> int \<Rightarrow> string \<Rightarrow> verify_state \<Rightarrow> json list \<Rightarrow> (int list \<times> string list) result" where
  "verify_spans events canonical_count ledger_hash st [] = Inr ([], [])"
| "verify_spans events canonical_count ledger_hash st (s # ss) =
     bind_result (verify_span events canonical_count ledger_hash st s) (\<lambda>(ps, es).
       bind_result (verify_spans events canonical_count ledger_hash st ss) (\<lambda>(ps', es').
         Inr (ps @ ps', es @ es')))"

definition verify_partial_export ::
  "(string \<times> json) list \<Rightarrow> json list \<Rightarrow> int \<Rightarrow> string \<Rightarrow> verify_state \<Rightarrow> string list result" where
  "verify_partial_export payload events canonical_count ledger_hash st =
     (let positions = vs_positions st;
          bound_errors = note_if (list_ex (\<lambda>n. canonical_count < n) positions)
            ''disclosed event position exceeds canonical event_count''
      in case json_get payload ''omitted_spans'' of
        JArr spans \<Rightarrow>
          bind_result (verify_spans events canonical_count ledger_hash st spans) (\<lambda>(anchored, errors).
            Inr (bound_errors @ errors @
              note_if (set anchored \<noteq> set [1..canonical_count] - set positions)
                ''partial_view omitted_spans do not cover exactly the omitted event positions''))
      | _ \<Rightarrow> Inr (bound_errors @ [''partial_view omitted_spans must be an array'']))"

text \<open>\<open>text or None\<close>\<close>

definition or_none :: "string \<Rightarrow> string option" where
  "or_none s = (if s = [] then None else Some s)"

record ledger_report =
  rep_schema_version :: string
  rep_result :: string
  rep_export_scope :: "string option"
  rep_run_id :: json
  rep_ledger_hash :: "string option"
  rep_event_count :: int
  rep_checked_event_count :: nat
  rep_errors :: "string list"

definition verify_ledger_export :: "(string \<Rightarrow> string) \<Rightarrow> (string \<times> json) list \<Rightarrow> ledger_report result" where
  "verify_ledger_export sha256 payload =
     (let export_scope = str_or_empty (json_get payload ''export_scope'');
          canonical = (case json_get payload ''canonical'' of JObj kvs \<Rightarrow> kvs | _ \<Rightarrow> []);
          ledger_hash = str_or_empty (json_get canonical ''ledger_hash'');
          genesis = json_get canonical ''genesis'';
          raw_events = (case json_get payload ''events'' of JArr es \<Rightarrow> es | _ \<Rightarrow> [])
      in case int_field canonical ''event_count'' of (canonical_count, count_errors) \<Rightarrow>
      bind_result (case genesis of
          JArr _ \<Rightarrow> Inl (TypeError (''unhashable type: '' @ py_repr ''list''))
        | JObj _ \<Rightarrow> Inl (TypeError (''unhashable type: '' @ py_repr ''dict''))
        | g \<Rightarrow> Inr (note_if (g \<notin> {JNull, JStr GENESIS_CHAIN_HASH}) ''canonical.genesis must be GENESIS'')) (\<lambda>genesis_errors.
      bind_result (verify_events sha256 export_scope raw_events (verify_start
          (note_if (json_get payload ''schema_version'' \<noteq> JStr SCHEMA_VERSION) ''schema_version must be ledger_export.v1'' @
           note_if (export_scope \<notin> {''all'', ''partial_view''}) ''export_scope must be all or partial_view'' @
           (case json_get payload ''canonical'' of JObj _ \<Rightarrow> [] | _ \<Rightarrow> [''canonical must be an object'']) @
           count_errors @
           note_if (ledger_hash = []) ''canonical.ledger_hash is required'' @
           genesis_errors @
           (case json_get payload ''events'' of JArr _ \<Rightarrow> [] | _ \<Rightarrow> [''events must be an array''])))) (\<lambda>st.
      bind_result (if export_scope = ''all''
          then Inr (verify_full_export (length raw_events) canonical_count ledger_hash (vs_previous_disclosed_chain st))
          else verify_partial_export payload raw_events canonical_count ledger_hash st) (\<lambda>scope_errors.
      let errors = vs_errors st @ scope_errors in Inr
        \<lparr>rep_schema_version = SCHEMA_VERSION,
         rep_result = (if errors \<noteq> [] then ''invalid'' else if export_scope = ''all'' then ''valid'' else ''partial_valid''),
         rep_export_scope = or_none export_scope,
         rep_run_id = json_get payload ''run_id'',
         rep_ledger_hash = or_none ledger_hash,
         rep_event_count = canonical_count,
         rep_checked_event_count = length raw_events,
         rep_errors = errors\<rparr>))))"

section \<open>What a valid full export says\<close>

fun events_of :: "json list \<Rightarrow> LedgerEvent list" where
  "events_of [] = []"
| "events_of (JObj raw # es) =
     (case event_from_export raw of Inr e \<Rightarrow> e # events_of es | Inl _ \<Rightarrow> events_of es)"
| "events_of (_ # es) = events_of es"

definition export_events :: "(string \<times> json) list \<Rightarrow> LedgerEvent list" where
  "export_events payload = (case json_get payload ''events'' of JArr es \<Rightarrow> events_of es | _ \<Rightarrow> [])"

fun chain_of :: "(string \<Rightarrow> string) \<Rightarrow> string \<Rightarrow> LedgerEvent list \<Rightarrow> string" where
  "chain_of sha256 previous [] = previous"
| "chain_of sha256 previous (e # es) =
     chain_of sha256 (chain_hash_for sha256 previous (event_hash_for sha256 e)) es"

lemma note_if_Nil [simp]: "note_if b m = [] \<longleftrightarrow> \<not> b"
  by (simp add: note_if_def)

lemma verify_event_errors:
  assumes "verify_event sha256 scope raw st = Inr st'" and "vs_errors st' = []"
  obtains kvs e where "raw = JObj kvs" and "event_from_export kvs = Inr e" and "vs_errors st = []"
    and "json_get kvs ''event_hash'' = JStr (event_hash_for sha256 e)"
    and "vs_previous_disclosed_chain st' =
      chain_hash_for sha256 (str_or_empty (json_get kvs ''previous_chain_hash'')) (event_hash_for sha256 e)"
    and "scope = ''all'' \<Longrightarrow> str_or_empty (json_get kvs ''previous_chain_hash'') = vs_previous_disclosed_chain st"
proof (cases raw)
  case (JObj kvs)
  obtain n ne where n: "int_field kvs ''position'' = (n, ne)" by (cases "int_field kvs ''position''")
  obtain e where e: "event_from_export kvs = Inr e"
    using assms(1) by (auto simp: verify_event_def JObj n bind_result_Inr_iff)
  show thesis
    using assms by (intro that [OF JObj e]) (auto simp: verify_event_def JObj n e Let_def)
qed (use assms in \<open>auto simp: verify_event_def\<close>)

lemma verify_events_full:
  assumes "verify_events sha256 ''all'' es st = Inr st'" and "vs_errors st' = []"
  shows "vs_errors st = [] \<and> length (events_of es) = length es \<and>
    vs_previous_disclosed_chain st' = chain_of sha256 (vs_previous_disclosed_chain st) (events_of es)"
  using assms
proof (induction es arbitrary: st)
  case (Cons raw es)
  obtain st1 where st1: "verify_event sha256 ''all'' raw st = Inr st1" "verify_events sha256 ''all'' es st1 = Inr st'"
    using Cons.prems(1) by (auto simp: bind_result_Inr_iff)
  note IH = Cons.IH [OF st1(2) Cons.prems(2)]
  then have "vs_errors st1 = []" by simp
  from verify_event_errors [OF st1(1) this] obtain kvs e where "raw = JObj kvs" "event_from_export kvs = Inr e"
    "vs_errors st = []" "vs_previous_disclosed_chain st1 =
       chain_hash_for sha256 (vs_previous_disclosed_chain st) (event_hash_for sha256 e)" by metis
  with IH show ?case by simp
qed simp

lemma valid_full_export:
  assumes "verify_ledger_export sha256 p = Inr r" and "rep_result r = ''valid''"
  shows "rep_ledger_hash r = Some (chain_of sha256 GENESIS_CHAIN_HASH (export_events p))"
proof -
  define canonical where "canonical = (case json_get p ''canonical'' of JObj kvs \<Rightarrow> kvs | _ \<Rightarrow> [])"
  obtain n ne where n: "int_field canonical ''event_count'' = (n, ne)" by (cases "int_field canonical ''event_count''")
  obtain es where es: "json_get p ''events'' = JArr es \<or> es = []" "(case json_get p ''events'' of JArr es \<Rightarrow> es | _ \<Rightarrow> []) = es"
    by (cases "json_get p ''events''") auto
  obtain st0 st where st: "verify_events sha256 (str_or_empty (json_get p ''export_scope'')) es (verify_start st0) = Inr st"
    and errs: "vs_errors st = []" and scope: "str_or_empty (json_get p ''export_scope'') = ''all''"
    and full: "verify_full_export (length es) n (str_or_empty (json_get canonical ''ledger_hash''))
      (vs_previous_disclosed_chain st) = []"
    and rep: "rep_ledger_hash r = or_none (str_or_empty (json_get canonical ''ledger_hash''))"
    and hash: "str_or_empty (json_get canonical ''ledger_hash'') = [] \<longrightarrow> st0 \<noteq> []"
    using assms
    by (auto simp: verify_ledger_export_def canonical_def [symmetric] n es(2) bind_result_Inr_iff Let_def split: if_splits)
  have "length (events_of es) = length es"
    and chain: "vs_previous_disclosed_chain st = chain_of sha256 GENESIS_CHAIN_HASH (events_of es)"
    using verify_events_full [OF st [unfolded scope] errs] by (simp_all add: verify_start_def)
  moreover have "export_events p = events_of es" using es by (auto simp: export_events_def split: json.splits)
  moreover have "str_or_empty (json_get canonical ''ledger_hash'') \<noteq> []"
    using hash verify_events_full [OF st [unfolded scope] errs] by (auto simp: verify_start_def)
  ultimately show ?thesis using full rep by (cases es) (auto simp: verify_full_export_def or_none_def)
qed

section \<open>The chain hash determines the events\<close>

definition hex_digest :: "string \<Rightarrow> bool" where
  "hex_digest s \<longleftrightarrow> length s = 64 \<and> set s \<subseteq> set ''0123456789abcdef''"

fun ledger_texts :: "(string \<Rightarrow> string) \<Rightarrow> string \<Rightarrow> LedgerEvent list \<Rightarrow> string set" where
  "ledger_texts sha256 previous [] = {}"
| "ledger_texts sha256 previous (e # es) =
     {json_dumps False (canonical_event e), chain_text previous (event_hash_for sha256 e)} \<union>
     ledger_texts sha256 (chain_hash_for sha256 previous (event_hash_for sha256 e)) es"

lemma chain_of_snoc:
  "chain_of sha256 previous (es @ [e]) = chain_hash_for sha256 (chain_of sha256 previous es) (event_hash_for sha256 e)"
  by (induction es arbitrary: previous) simp_all

lemma ledger_texts_snoc:
  "ledger_texts sha256 previous (es @ [e]) = ledger_texts sha256 previous es \<union>
     {json_dumps False (canonical_event e), chain_text (chain_of sha256 previous es) (event_hash_for sha256 e)}"
  by (induction es arbitrary: previous) auto

lemma chain_of_no_newline:
  assumes "\<forall>t. hex_digest (sha256 t)"
  shows "CHR 0x0A \<notin> set (chain_of sha256 GENESIS_CHAIN_HASH es)"
proof (cases es rule: rev_cases)
  case (snoc xs x)
  then show ?thesis
    using assms [rule_format, of "chain_text (chain_of sha256 GENESIS_CHAIN_HASH xs) (event_hash_for sha256 x)"]
    by (auto simp: chain_of_snoc chain_hash_for_def hex_digest_def)
qed (simp add: GENESIS_CHAIN_HASH_def)

lemma chain_text_inj:
  assumes "chain_text a b = chain_text c d" and "CHR 0x0A \<notin> set a" and "CHR 0x0A \<notin> set c"
  shows "a = c \<and> b = d"
  using assms
proof (induction a arbitrary: c)
  case Nil
  then show ?case by (cases c) (auto simp: chain_text_def)
next
  case (Cons x a)
  then show ?case by (cases c) (auto simp: chain_text_def)
qed

lemma chain_not_genesis:
  assumes "\<forall>t. hex_digest (sha256 t)"
  shows "chain_of sha256 GENESIS_CHAIN_HASH (es @ [e]) \<noteq> GENESIS_CHAIN_HASH"
  using assms [rule_format, of "chain_text (chain_of sha256 GENESIS_CHAIN_HASH es) (event_hash_for sha256 e)"]
  by (auto simp: chain_of_snoc chain_hash_for_def hex_digest_def GENESIS_CHAIN_HASH_def)

lemma chain_determines_events:
  assumes hex: "\<forall>t. hex_digest (sha256 t)"
    and "inj_on sha256 (ledger_texts sha256 GENESIS_CHAIN_HASH es \<union> ledger_texts sha256 GENESIS_CHAIN_HASH fs)"
    and "chain_of sha256 GENESIS_CHAIN_HASH es = chain_of sha256 GENESIS_CHAIN_HASH fs"
  shows "map (\<lambda>e. canon (canonical_event e)) es = map (\<lambda>e. canon (canonical_event e)) fs"
  using assms(2,3)
proof (induction es arbitrary: fs rule: rev_induct)
  case Nil
  then show ?case using chain_not_genesis [OF hex] by (cases fs rule: rev_cases) (simp_all del: chain_of.simps(2), metis chain_of.simps(1))
next
  case (snoc e es)
  then obtain f fs' where f: "fs = fs' @ [f]" using chain_not_genesis [OF hex] by (cases fs rule: rev_cases) force+
  let ?T = "ledger_texts sha256 GENESIS_CHAIN_HASH (es @ [e]) \<union> ledger_texts sha256 GENESIS_CHAIN_HASH fs"
  let ?ct = "\<lambda>es e. chain_text (chain_of sha256 GENESIS_CHAIN_HASH es) (event_hash_for sha256 e)"
  have inj: "inj_on sha256 ?T" by (rule snoc.prems(1))
  have "?ct es e \<in> ?T" "?ct fs' f \<in> ?T" by (simp_all add: ledger_texts_snoc f)
  moreover have "sha256 (?ct es e) = sha256 (?ct fs' f)"
    using snoc.prems(2) by (simp only: f chain_of_snoc chain_hash_for_def)
  ultimately have "?ct es e = ?ct fs' f" using inj unfolding inj_on_def by blast
  then have eq: "chain_of sha256 GENESIS_CHAIN_HASH es = chain_of sha256 GENESIS_CHAIN_HASH fs'"
    "event_hash_for sha256 e = event_hash_for sha256 f"
    using chain_text_inj chain_of_no_newline [OF hex] by blast+
  have "json_dumps False (canonical_event e) \<in> ?T" "json_dumps False (canonical_event f) \<in> ?T"
    by (simp_all add: ledger_texts_snoc f)
  then have "json_dumps False (canonical_event e) = json_dumps False (canonical_event f)"
    using inj eq(2) unfolding inj_on_def event_hash_for_def by blast
  then have "canon (canonical_event e) = canon (canonical_event f)" by (rule json_dumps_inj)
  moreover have "inj_on sha256 (ledger_texts sha256 GENESIS_CHAIN_HASH es \<union> ledger_texts sha256 GENESIS_CHAIN_HASH fs')"
    by (rule inj_on_subset [OF inj]) (auto simp: ledger_texts_snoc f)
  ultimately show ?case using snoc.IH [OF _ eq(1)] f by simp
qed

text \<open>
  C40: a full ledger export is tamper evident: two exports that verify as valid and carry the same
  ledger hash hold the same events in the same order, up to the order of object keys, provided the
  digests are hexadecimal and the hash has no collision among the texts of the two exports.
\<close>

theorem ledger_export_tamper_evident:
  assumes "verify_ledger_export sha256 p = Inr r" and "rep_result r = ''valid''"
    and "verify_ledger_export sha256 q = Inr s" and "rep_result s = ''valid''"
    and "rep_ledger_hash r = rep_ledger_hash s"
    and "\<forall>t. hex_digest (sha256 t)"
    and "inj_on sha256 (ledger_texts sha256 GENESIS_CHAIN_HASH (export_events p) \<union>
           ledger_texts sha256 GENESIS_CHAIN_HASH (export_events q))"
  shows "map (\<lambda>e. canon (canonical_event e)) (export_events p) = map (\<lambda>e. canon (canonical_event e)) (export_events q)"
  by (rule chain_determines_events [OF assms(6,7)])
    (use valid_full_export [OF assms(1,2)] valid_full_export [OF assms(3,4)] assms(5) in simp)

definition ledger_demo_digest :: "string \<Rightarrow> string" where
  "ledger_demo_digest s = replicate 64 (case s of [] \<Rightarrow> CHR ''0'' | c # _ \<Rightarrow> if c = CHR ''{'' then CHR ''a'' else CHR ''b'')"

lemma ledger_demo_digest_hex: "\<forall>t. hex_digest (ledger_demo_digest t)"
  by (auto simp: ledger_demo_digest_def hex_digest_def split: list.splits)

definition ledger_demo_export :: "(string \<times> json) list \<Rightarrow> (string \<times> json) list" where
  "ledger_demo_export payload =
     [(''schema_version'', JStr ''ledger_export.v1''), (''export_scope'', JStr ''all''),
      (''canonical'', JObj [(''genesis'', JStr ''GENESIS''), (''event_count'', JInt 1), (''ledger_hash'', JStr (replicate 64 (CHR ''b'')))]),
      (''events'', JArr [JObj
         [(''position'', JInt 1), (''previous_chain_hash'', JStr ''GENESIS''), (''event_id'', JStr ''e1''),
          (''event_type'', JStr ''run_submitted''), (''run_id'', JStr ''r1''), (''turn'', JInt 0), (''agent_id'', JNull),
          (''at'', JStr ''t1''), (''payload'', JObj payload), (''event_hash'', JStr (replicate 64 (CHR ''a''))),
          (''chain_hash'', JStr (replicate 64 (CHR ''b'')))]])]"

theorem ledger_export_tamper_evident_witness:
  "export_events (ledger_demo_export [(''x'', JInt 1), (''y'', JInt 2)]) \<noteq> export_events (ledger_demo_export [(''y'', JInt 2), (''x'', JInt 1)]) \<and>
   map (\<lambda>e. canon (canonical_event e)) (export_events (ledger_demo_export [(''x'', JInt 1), (''y'', JInt 2)])) =
   map (\<lambda>e. canon (canonical_event e)) (export_events (ledger_demo_export [(''y'', JInt 2), (''x'', JInt 1)]))"
proof -
  let ?p = "ledger_demo_export [(''x'', JInt 1), (''y'', JInt 2)]" and ?q = "ledger_demo_export [(''y'', JInt 2), (''x'', JInt 1)]"
  let ?r = "\<lparr>rep_schema_version = SCHEMA_VERSION, rep_result = ''valid'', rep_export_scope = Some ''all'', rep_run_id = JNull,
    rep_ledger_hash = Some (replicate 64 (CHR ''b'')),
    rep_event_count = 1, rep_checked_event_count = 1, rep_errors = []\<rparr>"
  have v: "verify_ledger_export ledger_demo_digest ?p = Inr ?r" "verify_ledger_export ledger_demo_digest ?q = Inr ?r"
    by code_simp+
  have inj: "inj_on ledger_demo_digest (ledger_texts ledger_demo_digest GENESIS_CHAIN_HASH (export_events ?p) \<union>
      ledger_texts ledger_demo_digest GENESIS_CHAIN_HASH (export_events ?q))"
    unfolding inj_on_def by code_simp
  have "export_events ?p \<noteq> export_events ?q" by code_simp
  then show ?thesis
    using ledger_export_tamper_evident [OF v(1) _ v(2) _ _ ledger_demo_digest_hex inj] by simp
qed

section \<open>Exports on which the verifier raises\<close>

text \<open>
  Most malformed exports are reported as invalid. A ledger block whose \<open>genesis\<close> is an array or an
  object raises, and so does a partial view that gives a position as a text just after an omitted
  span: \<open>int()\<close> reads it as a position, and the search for the event with that position finds none.
\<close>

lemma verifier_raises_on_unhashable_genesis:
  assumes "json_get p ''canonical'' = JObj canonical" and "json_get canonical ''genesis'' = JArr xs"
  shows "verify_ledger_export sha256 p = Inl (TypeError (''unhashable type: '' @ py_repr ''list''))"
  using assms by (simp add: verify_ledger_export_def Let_def split: prod.split)

definition ledger_demo_text_position :: "(string \<times> json) list" where
  "ledger_demo_text_position =
     [(''schema_version'', JStr ''ledger_export.v1''), (''export_scope'', JStr ''partial_view''),
      (''canonical'', JObj [(''event_count'', JInt 2), (''ledger_hash'', JStr ''h'')]),
      (''events'', JArr [JObj [(''position'', JStr ''2''), (''event_id'', JStr ''e2'')]]),
      (''omitted_spans'', JArr [JObj [(''from_position'', JInt 1), (''to_position'', JInt 1)]])]"

lemma verifier_raises_on_text_position:
  "verify_ledger_export ledger_demo_digest ledger_demo_text_position = Inl StopIteration"
  by code_simp

end
