(* ===== verification/Critical_Path.thy ===== *)
theory Critical_Path
  imports Complex_Main Outward_Ledger
begin

text \<open>
  The priority queue of the cards board (\<open>orket/core/critical_path.py\<close>): which ready issue to take
  first, by base priority plus the number of dependency chains an issue blocks.

  The recursion of \<open>calculate_weight\<close> has the recursion limit of the interpreter as its first argument;
  \<open>None\<close> is a \<open>RecursionError\<close>. A set of identifiers is the list of its elements, in some order. An
  issue is given by the raw values of the fields the code reads; a priority that is a number is a
  rational, and scores add without rounding.
\<close>

section \<open>The dependency graph\<close>

record board_issue =
  iss_id :: json
  iss_depends_on :: json
  iss_priority :: "rat option"
  iss_status :: json

type_synonym adj_map = "(string \<times> string list) list"

definition issue_id :: "board_issue \<Rightarrow> string" where
  "issue_id issue = py_strip (str_or_empty (iss_id issue))"

text \<open>\<open>adj_map.setdefault(dep_id, set()).add(i_id)\<close>\<close>

fun add_edge :: "string \<Rightarrow> string \<Rightarrow> adj_map \<Rightarrow> adj_map" where
  "add_edge d i [] = [(d, [i])]"
| "add_edge d i ((k, bs) # adj) =
     (if k = d then (k, if i \<in> set bs then bs else bs @ [i]) # adj else (k, bs) # add_edge d i adj)"

definition issue_deps :: "board_issue \<Rightarrow> string list" where
  "issue_deps issue =
     (case iss_depends_on issue of
        JArr deps \<Rightarrow> filter (\<lambda>d. d \<noteq> []) (map (\<lambda>d. py_strip (str_or_empty d)) deps)
      | _ \<Rightarrow> [])"

definition build_dependency_graph :: "board_issue list \<Rightarrow> adj_map" where
  "build_dependency_graph issues =
     fold (\<lambda>issue adj.
         let i_id = issue_id issue in
         fold (\<lambda>dep_id adj. if i_id = [] then adj else add_edge dep_id i_id adj) (issue_deps issue) adj)
       issues []"

definition blocked_by :: "adj_map \<Rightarrow> string \<Rightarrow> string list" where
  "blocked_by adj i = (case map_of adj i of None \<Rightarrow> [] | Some bs \<Rightarrow> bs)"

section \<open>Weights\<close>

fun calculate_weight :: "nat \<Rightarrow> string \<Rightarrow> adj_map \<Rightarrow> string list \<Rightarrow> nat option"
  and blocked_weight :: "nat \<Rightarrow> string list \<Rightarrow> adj_map \<Rightarrow> string list \<Rightarrow> nat option" where
  "calculate_weight 0 i adj visited = None"
| "calculate_weight (Suc limit) i adj visited = blocked_weight limit (blocked_by adj i) adj visited"
| "blocked_weight limit [] adj visited = Some 0"
| "blocked_weight limit (b # bs) adj visited =
     (if b \<in> set visited then blocked_weight limit bs adj visited
      else case calculate_weight limit b adj (b # visited) of
        None \<Rightarrow> None
      | Some w \<Rightarrow> (case blocked_weight limit bs adj visited of
          None \<Rightarrow> None
        | Some rest \<Rightarrow> Some (1 + w + rest)))"

fun issue_weights :: "nat \<Rightarrow> adj_map \<Rightarrow> board_issue list \<Rightarrow> (string \<Rightarrow> nat option) \<Rightarrow> (string \<Rightarrow> nat option) option" where
  "issue_weights limit adj [] weights = Some weights"
| "issue_weights limit adj (issue # issues) weights =
     (case calculate_weight limit (issue_id issue) adj [] of
        None \<Rightarrow> None
      | Some w \<Rightarrow> issue_weights limit adj issues (weights(issue_id issue \<mapsto> w)))"

definition issue_score :: "(string \<Rightarrow> nat option) \<Rightarrow> board_issue \<Rightarrow> rat" where
  "issue_score weights issue =
     (case iss_priority issue of None \<Rightarrow> 2 | Some p \<Rightarrow> p) +
     (case weights (issue_id issue) of None \<Rightarrow> 0 | Some w \<Rightarrow> of_nat w)"

definition issue_ready :: "board_issue \<Rightarrow> bool" where
  "issue_ready issue = (py_lower (py_strip (str_or_empty (iss_status issue))) = ''ready'')"

text \<open>\<open>list.sort(reverse=True)\<close> keeps the order of equal elements.\<close>

definition get_priority_queue :: "nat \<Rightarrow> board_issue list \<Rightarrow> string list option" where
  "get_priority_queue limit issues =
     (case issue_weights limit (build_dependency_graph issues) issues Map.empty of
        None \<Rightarrow> None
      | Some weights \<Rightarrow>
          Some (map issue_id (sort_key (\<lambda>issue. - issue_score weights issue) (filter issue_ready issues))))"

section \<open>Weights count dependency chains\<close>

text \<open>A chain that starts below \<open>i\<close>: each element is blocked by the one before.\<close>

fun dependency_chain :: "adj_map \<Rightarrow> string \<Rightarrow> string list \<Rightarrow> bool" where
  "dependency_chain adj i [] = True"
| "dependency_chain adj i (b # c) = (b \<in> set (blocked_by adj i) \<and> dependency_chain adj b c)"

definition chains_below :: "adj_map \<Rightarrow> string list \<Rightarrow> string \<Rightarrow> string list set" where
  "chains_below adj visited i =
     {c. c \<noteq> [] \<and> distinct c \<and> set c \<inter> set visited = {} \<and> dependency_chain adj i c}"

definition adj_ok :: "adj_map \<Rightarrow> bool" where
  "adj_ok adj \<longleftrightarrow> (\<forall>i. distinct (blocked_by adj i))"

definition adj_ids :: "adj_map \<Rightarrow> string set" where
  "adj_ids adj = (\<Union>(k, bs) \<in> set adj. set bs)"

lemma finite_adj_ids [simp]: "finite (adj_ids adj)"
  by (auto simp: adj_ids_def)

lemma blocked_by_ids: "set (blocked_by adj i) \<subseteq> adj_ids adj"
proof (cases "map_of adj i")
  case (Some bs)
  then have "(i, bs) \<in> set adj" by (rule map_of_SomeD)
  then show ?thesis using Some by (force simp: blocked_by_def adj_ids_def)
qed (simp add: blocked_by_def)

lemma dependency_chain_ids: "dependency_chain adj i c \<Longrightarrow> set c \<subseteq> adj_ids adj"
proof (induction c arbitrary: i)
  case (Cons b c)
  then show ?case using blocked_by_ids [of adj i] by auto
qed simp

lemma finite_chains [simp]: "finite (chains_below adj visited i)"
proof (rule finite_subset)
  show "chains_below adj visited i \<subseteq> {c. set c \<subseteq> adj_ids adj \<and> length c \<le> card (adj_ids adj)}"
    using dependency_chain_ids by (fastforce simp: chains_below_def distinct_card [symmetric] intro: card_mono)
qed (simp add: finite_lists_length_le)

text \<open>The chains that begin with one of \<open>bs\<close>.\<close>

definition chains_from :: "adj_map \<Rightarrow> string list \<Rightarrow> string list \<Rightarrow> string list set" where
  "chains_from adj visited bs =
     (\<Union>b \<in> set bs - set visited. (#) b ` insert [] (chains_below adj (b # visited) b))"

lemma chains_below_unfold: "chains_below adj visited i = chains_from adj visited (blocked_by adj i)"
proof (intro set_eqI)
  fix c show "c \<in> chains_below adj visited i \<longleftrightarrow> c \<in> chains_from adj visited (blocked_by adj i)"
    by (cases c) (auto simp: chains_below_def chains_from_def)
qed

lemma finite_chains_from [simp]: "finite (chains_from adj visited bs)"
  by (simp add: chains_from_def)

lemma chains_from_Cons:
  assumes "b \<notin> set bs"
  shows "card (chains_from adj visited (b # bs)) =
    (if b \<in> set visited then 0 else 1 + card (chains_below adj (b # visited) b)) + card (chains_from adj visited bs)"
proof (cases "b \<in> set visited")
  case True
  then have "chains_from adj visited (b # bs) = chains_from adj visited bs" by (auto simp: chains_from_def)
  then show ?thesis using True by simp
next
  case False
  let ?A = "(#) b ` insert [] (chains_below adj (b # visited) b)"
  have "chains_from adj visited (b # bs) = ?A \<union> chains_from adj visited bs" using False by (auto simp: chains_from_def)
  moreover have "?A \<inter> chains_from adj visited bs = {}" using assms by (auto simp: chains_from_def)
  moreover have "[] \<notin> chains_below adj (b # visited) b" by (simp add: chains_below_def)
  moreover have "card ?A = card (insert [] (chains_below adj (b # visited) b))"
    by (rule card_image) (rule inj_onI, simp)
  moreover have "card (insert [] (chains_below adj (b # visited) b)) = 1 + card (chains_below adj (b # visited) b)"
    using calculation(3) by simp
  ultimately show ?thesis using False by (simp only: card_Un_disjoint [OF _ finite_chains_from] finite_imageI finite_insert finite_chains if_False)
qed

lemma weight_card:
  shows "adj_ok adj \<Longrightarrow> card (adj_ids adj - set visited) < limit \<Longrightarrow>
      calculate_weight limit i adj visited = Some (card (chains_below adj visited i))"
    and "adj_ok adj \<Longrightarrow> card (adj_ids adj - set visited) \<le> limit \<Longrightarrow> distinct bs \<Longrightarrow> set bs \<subseteq> adj_ids adj \<Longrightarrow>
      blocked_weight limit bs adj visited = Some (card (chains_from adj visited bs))"
proof (induction limit i adj visited and limit bs adj visited rule: calculate_weight_blocked_weight.induct)
  case (2 limit i adj visited)
  then show ?case using blocked_by_ids [of adj i] by (simp add: adj_ok_def chains_below_unfold)
next
  case (3 limit adj visited)
  then show ?case by (simp add: chains_from_def)
next
  case (4 limit b bs adj visited)
  note count = chains_from_Cons [of b bs adj visited]
  show ?case
  proof (cases "b \<in> set visited")
    case True
    then have "blocked_weight limit bs adj visited = Some (card (chains_from adj visited bs))"
      using 4(1) [OF True 4(4,5)] 4(6,7) by simp
    then show ?thesis using True count 4(6) by simp
  next
    case False
    let ?rest = "adj_ids adj - set (b # visited)"
    have eq: "adj_ids adj - set visited = insert b ?rest" using 4(7) False by auto
    have "card (insert b ?rest) = Suc (card ?rest)" by (rule card_insert_disjoint) simp_all
    then have "card (adj_ids adj - set visited) = Suc (card ?rest)" by (simp only: eq)
    then have lt: "card (adj_ids adj - set (b # visited)) < limit" using 4(5) by simp
    have "calculate_weight limit b adj (b # visited) = Some (card (chains_below adj (b # visited) b))"
      using 4(2) [OF False 4(4) lt] .
    moreover have "blocked_weight limit bs adj visited = Some (card (chains_from adj visited bs))"
      using 4(3) [OF False calculation 4(4,5)] 4(6,7) by simp
    ultimately show ?thesis using False count 4(6) by simp
  qed
qed simp

section \<open>The graph of a board\<close>

lemma blocked_by_add_edge:
  "blocked_by (add_edge d i adj) k =
     (if k = d then (if i \<in> set (blocked_by adj d) then blocked_by adj d else blocked_by adj d @ [i]) else blocked_by adj k)"
  by (induction d i adj rule: add_edge.induct) (auto simp: blocked_by_def split: option.splits)

lemma adj_ids_add_edge: "adj_ids (add_edge d i adj) \<subseteq> insert i (adj_ids adj)"
  by (induction d i adj rule: add_edge.induct) (auto simp: adj_ids_def split: if_splits)

definition board_graph_ok :: "string set \<Rightarrow> adj_map \<Rightarrow> bool" where
  "board_graph_ok ids adj \<longleftrightarrow> adj_ok adj \<and> adj_ids adj \<subseteq> ids"

lemma add_edge_ok: "board_graph_ok ids adj \<Longrightarrow> i \<in> ids \<Longrightarrow> board_graph_ok ids (add_edge d i adj)"
  using adj_ids_add_edge [of d i adj] by (auto simp: board_graph_ok_def adj_ok_def blocked_by_add_edge)

lemma fold_invariant: "P a \<Longrightarrow> (\<And>x a. x \<in> set xs \<Longrightarrow> P a \<Longrightarrow> P (f x a)) \<Longrightarrow> P (fold f xs a)"
  by (induction xs arbitrary: a) auto

lemma board_graph_built: "board_graph_ok (issue_id ` set issues) (build_dependency_graph issues)"
  unfolding build_dependency_graph_def Let_def
proof (rule fold_invariant)
  show "board_graph_ok (issue_id ` set issues) []" by (simp add: board_graph_ok_def adj_ok_def blocked_by_def adj_ids_def)
  show "board_graph_ok (issue_id ` set issues)
      (fold (\<lambda>dep_id adj. if issue_id issue = [] then adj else add_edge dep_id (issue_id issue) adj) (issue_deps issue) adj)"
    if "issue \<in> set issues" "board_graph_ok (issue_id ` set issues) adj" for issue adj
    by (rule fold_invariant [where P = "board_graph_ok (issue_id ` set issues)"]) (use that add_edge_ok in auto)
qed

lemma board_limit:
  assumes "length issues < limit"
  shows "card (adj_ids (build_dependency_graph issues) - set []) < limit"
proof -
  have "card (adj_ids (build_dependency_graph issues)) \<le> card (issue_id ` set issues)"
    using board_graph_built [of issues] by (intro card_mono) (simp_all add: board_graph_ok_def)
  also have "\<dots> \<le> length issues" by (rule order.trans [OF card_image_le card_length]) simp
  finally show ?thesis using assms by simp
qed

text \<open>
  C28: the weight of an issue is computed within a recursion depth of one more than the number of
  issues, also on boards with dependency cycles, and it is the number of dependency chains below the
  issue: the sequences without repetition in which each issue is blocked by the one before.
\<close>

theorem weight_counts_chains:
  assumes "length issues < limit"
  shows "calculate_weight limit i (build_dependency_graph issues) [] =
    Some (card (chains_below (build_dependency_graph issues) [] i))"
  using weight_card(1) [OF _ board_limit [OF assms]] board_graph_built [of issues] by (simp add: board_graph_ok_def)

definition demo_board :: "board_issue list" where
  "demo_board =
     [\<lparr>iss_id = JStr ''a'', iss_depends_on = JArr [JStr ''c''], iss_priority = None, iss_status = JStr ''ready''\<rparr>,
      \<lparr>iss_id = JStr ''b'', iss_depends_on = JArr [JStr '' a '', JStr ''a''], iss_priority = Some 1, iss_status = JStr ''Ready''\<rparr>,
      \<lparr>iss_id = JStr ''c'', iss_depends_on = JNull, iss_priority = None, iss_status = JStr ''ready''\<rparr>]"

theorem weight_counts_chains_witness:
  "length demo_board < 4 \<and> calculate_weight 4 ''c'' (build_dependency_graph demo_board) [] = Some 2 \<and>
   card (chains_below (build_dependency_graph demo_board) [] ''c'') = 2"
proof -
  have l: "length demo_board < 4" by (simp add: demo_board_def)
  have "calculate_weight 4 ''c'' (build_dependency_graph demo_board) [] = Some 2" by code_simp
  with weight_counts_chains [OF l, of "''c''"] l show ?thesis by simp
qed

lemma issue_weights_total:
  assumes "length issues < limit" and "adj = build_dependency_graph issues"
  shows "\<exists>ws. issue_weights limit adj xs weights = Some ws \<and>
    (\<forall>x \<in> set xs. ws (issue_id x) = Some (card (chains_below adj [] (issue_id x)))) \<and>
    (\<forall>i. i \<notin> issue_id ` set xs \<longrightarrow> ws i = weights i)"
proof (induction xs arbitrary: weights)
  case (Cons x xs)
  have w: "calculate_weight limit (issue_id x) adj [] = Some (card (chains_below adj [] (issue_id x)))"
    using weight_card(1) [OF _ board_limit [OF assms(1)]] board_graph_built [of issues] assms(2) by (simp add: board_graph_ok_def)
  obtain ws where ws: "issue_weights limit adj xs (weights(issue_id x \<mapsto> card (chains_below adj [] (issue_id x)))) = Some ws"
    "\<forall>y \<in> set xs. ws (issue_id y) = Some (card (chains_below adj [] (issue_id y)))"
    "\<forall>i. i \<notin> issue_id ` set xs \<longrightarrow> ws i = (weights(issue_id x \<mapsto> card (chains_below adj [] (issue_id x)))) i"
    using Cons.IH by blast
  then have "ws (issue_id x) = Some (card (chains_below adj [] (issue_id x)))" by (cases "issue_id x \<in> issue_id ` set xs") auto
  then show ?case using w ws by auto
qed simp

text \<open>
  the queue always comes out, and blockers come first: when a ready issue blocks another ready one
  with the same base priority, and the blocked one is on no dependency cycle, the blocker is taken first.
\<close>

theorem blockers_come_first:
  assumes "length issues < limit" and "a \<in> set issues" and "b \<in> set issues" and "issue_ready a" and "issue_ready b"
    and "iss_priority a = iss_priority b"
    and "issue_id b \<in> set (blocked_by (build_dependency_graph issues) (issue_id a))"
    and "\<forall>c. dependency_chain (build_dependency_graph issues) (issue_id b) c \<longrightarrow> issue_id b \<notin> set c"
  shows "\<exists>xs ys zs. get_priority_queue limit issues = Some (map issue_id (xs @ a # ys @ b # zs)) \<and>
    mset (xs @ a # ys @ b # zs) = mset (filter issue_ready issues)"
proof -
  let ?adj = "build_dependency_graph issues"
  obtain ws where ws: "issue_weights limit ?adj issues Map.empty = Some ws"
    and w: "\<forall>x \<in> set issues. ws (issue_id x) = Some (card (chains_below ?adj [] (issue_id x)))"
    using issue_weights_total [OF assms(1) refl, of issues Map.empty] by blast
  let ?key = "\<lambda>x. - issue_score ws x" and ?ready = "filter issue_ready issues"
  have "(#) (issue_id b) ` insert [] (chains_below ?adj [] (issue_id b)) \<subseteq> chains_below ?adj [] (issue_id a)"
    using assms(7,8) by (auto simp: chains_below_def)
  then have "card ((#) (issue_id b) ` insert [] (chains_below ?adj [] (issue_id b))) \<le> card (chains_below ?adj [] (issue_id a))"
    by (intro card_mono) simp_all
  moreover have "card ((#) (issue_id b) ` insert [] (chains_below ?adj [] (issue_id b))) =
      card (insert [] (chains_below ?adj [] (issue_id b)))" by (rule card_image) (rule inj_onI, simp)
  moreover have "[] \<notin> chains_below ?adj [] (issue_id b)" by (simp add: chains_below_def)
  ultimately have "card (chains_below ?adj [] (issue_id b)) < card (chains_below ?adj [] (issue_id a))" by simp
  then have lt: "?key a < ?key b" using w assms(2,3,6) by (simp add: issue_score_def)
  have "a \<in> set (sort_key ?key ?ready)" using assms(2,4) by simp
  from split_list [OF this] obtain xs rest where s: "sort_key ?key ?ready = xs @ a # rest" by blast
  have sorted: "sorted (map ?key (xs @ a # rest))" using sorted_sort_key [of ?key ?ready] by (simp only: s)
  have "b \<in> set (xs @ a # rest)" using assms(3,5) by (simp only: s [symmetric] set_sort set_filter) simp
  then have "b \<in> set rest" using lt sorted by (auto simp: sorted_append)
  from split_list [OF this] obtain ys zs where "rest = ys @ b # zs" by blast
  then have q: "sort_key ?key ?ready = xs @ a # ys @ b # zs" using s by simp
  moreover have "mset (sort_key ?key ?ready) = mset ?ready" by (rule mset_sort)
  ultimately show ?thesis using ws by (intro exI [of _ xs] exI [of _ ys] exI [of _ zs]) (simp add: get_priority_queue_def)
qed

theorem blockers_come_first_witness:
  "\<exists>xs ys zs. get_priority_queue 4 demo_board = Some (map issue_id (xs @ demo_board ! 2 # ys @ demo_board ! 0 # zs))"
proof -
  have adj: "build_dependency_graph demo_board = [(''c'', [''a'']), (''a'', [''b''])]" by code_simp
  have ids: "issue_id (demo_board ! 0) = ''a''" "issue_id (demo_board ! 2) = ''c''" by code_simp+
  have ok: "length demo_board < 4" "demo_board ! 2 \<in> set demo_board" "demo_board ! 0 \<in> set demo_board"
    "issue_ready (demo_board ! 2)" "issue_ready (demo_board ! 0)" "iss_priority (demo_board ! 2) = iss_priority (demo_board ! 0)"
    by code_simp+
  have blocked: "blocked_by [(''c'', [''a'']), (''a'', [''b''])] ''c'' = [''a'']" "blocked_by [(''c'', [''a'']), (''a'', [''b''])] ''a'' = [''b'']"
    "blocked_by [(''c'', [''a'']), (''a'', [''b''])] ''b'' = []" by code_simp+
  have edge: "issue_id (demo_board ! 0) \<in> set (blocked_by (build_dependency_graph demo_board) (issue_id (demo_board ! 2)))"
    unfolding adj ids blocked by simp
  have acyclic: "\<forall>c. dependency_chain (build_dependency_graph demo_board) (issue_id (demo_board ! 0)) c \<longrightarrow> issue_id (demo_board ! 0) \<notin> set c"
  proof (intro allI impI)
    fix c assume "dependency_chain (build_dependency_graph demo_board) (issue_id (demo_board ! 0)) c"
    then have "dependency_chain [(''c'', [''a'']), (''a'', [''b''])] ''a'' c" unfolding adj ids .
    then have "c = [] \<or> c = [''b'']"
      by (cases c; cases "tl c") (auto simp: blocked simp del: set_simps, auto simp: blocked)
    then show "issue_id (demo_board ! 0) \<notin> set c" unfolding ids by auto
  qed
  from blockers_come_first [OF ok edge acyclic] show ?thesis by blast
qed

end
