(* ===== verification/Sandbox_Lifecycle.thy ===== *)
theory Sandbox_Lifecycle
  imports Canonical_JSON
begin

text \<open>
  The lifecycle of a sandbox (\<open>orket/core/domain/sandbox_lifecycle.py\<close> and
  \<open>sandbox_lifecycle_records.py\<close>): the states and events, the transition and cleanup tables, the
  classification of what reconciliation observes, the two fences and the lifecycle record with its
  validator.

  The lemmas relate the parts: a validated event determines the next state, what reconciliation
  decides is what the transition table allows, and a sandbox is cleaned only after it has stopped.
\<close>

section \<open>States, events and tables\<close>

datatype (plugins only: code) SandboxState =
    CREATING
  | STARTING
  | ACTIVE
  | TERMINAL
  | RECLAIMABLE
  | ORPHANED
  | CLEANED

primrec SandboxState_value :: "SandboxState \<Rightarrow> string" where
  "SandboxState_value SandboxState.CREATING = ''creating''"
| "SandboxState_value SandboxState.STARTING = ''starting''"
| "SandboxState_value SandboxState.ACTIVE = ''active''"
| "SandboxState_value SandboxState.TERMINAL = ''terminal''"
| "SandboxState_value SandboxState.RECLAIMABLE = ''reclaimable''"
| "SandboxState_value SandboxState.ORPHANED = ''orphaned''"
| "SandboxState_value SandboxState.CLEANED = ''cleaned''"

datatype (plugins only: code) CleanupState =
    NONE
  | SCHEDULED
  | IN_PROGRESS
  | COMPLETED
  | FAILED

primrec CleanupState_value :: "CleanupState \<Rightarrow> string" where
  "CleanupState_value CleanupState.NONE = ''none''"
| "CleanupState_value CleanupState.SCHEDULED = ''scheduled''"
| "CleanupState_value CleanupState.IN_PROGRESS = ''in_progress''"
| "CleanupState_value CleanupState.COMPLETED = ''completed''"
| "CleanupState_value CleanupState.FAILED = ''failed''"

datatype (plugins only: code) TerminalReason =
    SUCCESS
  | FAILED
  | BLOCKED
  | CANCELED
  | CREATE_FAILED
  | START_FAILED
  | RESTART_LOOP
  | LEASE_EXPIRED
  | LOST_RUNTIME
  | ORPHAN_DETECTED
  | ORPHAN_UNVERIFIED_OWNERSHIP
  | HARD_MAX_AGE
  | CLEANED_EXTERNALLY

primrec TerminalReason_value :: "TerminalReason \<Rightarrow> string" where
  "TerminalReason_value TerminalReason.SUCCESS = ''success''"
| "TerminalReason_value TerminalReason.FAILED = ''failed''"
| "TerminalReason_value TerminalReason.BLOCKED = ''blocked''"
| "TerminalReason_value TerminalReason.CANCELED = ''canceled''"
| "TerminalReason_value TerminalReason.CREATE_FAILED = ''create_failed''"
| "TerminalReason_value TerminalReason.START_FAILED = ''start_failed''"
| "TerminalReason_value TerminalReason.RESTART_LOOP = ''restart_loop''"
| "TerminalReason_value TerminalReason.LEASE_EXPIRED = ''lease_expired''"
| "TerminalReason_value TerminalReason.LOST_RUNTIME = ''lost_runtime''"
| "TerminalReason_value TerminalReason.ORPHAN_DETECTED = ''orphan_detected''"
| "TerminalReason_value TerminalReason.ORPHAN_UNVERIFIED_OWNERSHIP = ''orphan_unverified_ownership''"
| "TerminalReason_value TerminalReason.HARD_MAX_AGE = ''hard_max_age''"
| "TerminalReason_value TerminalReason.CLEANED_EXTERNALLY = ''cleaned_externally''"

datatype (plugins only: code) LifecycleEvent =
    CREATE_ACCEPTED
  | CREATE_FAILURE
  | HEALTH_VERIFIED
  | STARTUP_FAILURE
  | RUNTIME_MISSING
  | LEASE_EXPIRED
  | WORKFLOW_TERMINAL_OUTCOME
  | HARD_MAX_AGE_REACHED
  | OWNERSHIP_REACQUIRED
  | RECLAIM_TTL_ELAPSED
  | CLEANUP_SCHEDULED
  | CLEANUP_STARTS
  | CLEANUP_VERIFIED_COMPLETE
  | EXTERNAL_ABSENCE_VERIFIED

primrec LifecycleEvent_value :: "LifecycleEvent \<Rightarrow> string" where
  "LifecycleEvent_value LifecycleEvent.CREATE_ACCEPTED = ''create accepted''"
| "LifecycleEvent_value LifecycleEvent.CREATE_FAILURE = ''create failure''"
| "LifecycleEvent_value LifecycleEvent.HEALTH_VERIFIED = ''health verified''"
| "LifecycleEvent_value LifecycleEvent.STARTUP_FAILURE = ''startup failure''"
| "LifecycleEvent_value LifecycleEvent.RUNTIME_MISSING = ''runtime missing''"
| "LifecycleEvent_value LifecycleEvent.LEASE_EXPIRED = ''lease expired''"
| "LifecycleEvent_value LifecycleEvent.WORKFLOW_TERMINAL_OUTCOME = ''workflow terminal outcome''"
| "LifecycleEvent_value LifecycleEvent.HARD_MAX_AGE_REACHED = ''hard max age reached''"
| "LifecycleEvent_value LifecycleEvent.OWNERSHIP_REACQUIRED = ''ownership reacquired''"
| "LifecycleEvent_value LifecycleEvent.RECLAIM_TTL_ELAPSED = ''reclaim TTL elapsed''"
| "LifecycleEvent_value LifecycleEvent.CLEANUP_SCHEDULED = ''cleanup scheduled''"
| "LifecycleEvent_value LifecycleEvent.CLEANUP_STARTS = ''cleanup starts''"
| "LifecycleEvent_value LifecycleEvent.CLEANUP_VERIFIED_COMPLETE = ''cleanup verified complete''"
| "LifecycleEvent_value LifecycleEvent.EXTERNAL_ABSENCE_VERIFIED = ''external absence verified''"

datatype (plugins only: code) OwnershipConfidence =
    VERIFIED
  | UNVERIFIED

primrec OwnershipConfidence_value :: "OwnershipConfidence \<Rightarrow> string" where
  "OwnershipConfidence_value OwnershipConfidence.VERIFIED = ''verified''"
| "OwnershipConfidence_value OwnershipConfidence.UNVERIFIED = ''unverified''"

datatype (plugins only: code) ReconciliationClassification =
    ACTIVE
  | RECLAIMABLE
  | TERMINAL_LOST_RUNTIME
  | TERMINAL_AWAITING_CLEANUP
  | CLEANUP_OVERDUE
  | CLEANED_EXTERNALLY
  | ORPHANED_VERIFIED
  | ORPHANED_UNVERIFIED

primrec ReconciliationClassification_value :: "ReconciliationClassification \<Rightarrow> string" where
  "ReconciliationClassification_value ReconciliationClassification.ACTIVE = ''active''"
| "ReconciliationClassification_value ReconciliationClassification.RECLAIMABLE = ''reclaimable''"
| "ReconciliationClassification_value ReconciliationClassification.TERMINAL_LOST_RUNTIME = ''terminal_lost_runtime''"
| "ReconciliationClassification_value ReconciliationClassification.TERMINAL_AWAITING_CLEANUP = ''terminal_awaiting_cleanup''"
| "ReconciliationClassification_value ReconciliationClassification.CLEANUP_OVERDUE = ''cleanup_overdue''"
| "ReconciliationClassification_value ReconciliationClassification.CLEANED_EXTERNALLY = ''cleaned_externally''"
| "ReconciliationClassification_value ReconciliationClassification.ORPHANED_VERIFIED = ''orphaned_verified''"
| "ReconciliationClassification_value ReconciliationClassification.ORPHANED_UNVERIFIED = ''orphaned_unverified''"

record ReconciliationOutcome =
  oc_classification :: ReconciliationClassification
  oc_state :: SandboxState
  oc_terminal_reason :: "TerminalReason option"

record LifecycleTransitionRule =
  to_state :: SandboxState
  allowed_reasons :: "TerminalReason set"
  rule_cleanup_state :: "CleanupState option"

definition NO_REASON :: "TerminalReason set" where
  "NO_REASON = {}"

definition TERMINAL_WORKFLOW_REASONS :: "TerminalReason set" where
  "TERMINAL_WORKFLOW_REASONS =
     {TerminalReason.SUCCESS, TerminalReason.FAILED, TerminalReason.BLOCKED, TerminalReason.CANCELED,
      TerminalReason.RESTART_LOOP}"

definition lifecycle_transitions :: "((SandboxState \<times> LifecycleEvent) \<times> LifecycleTransitionRule) list" where
  "lifecycle_transitions =
    [((SandboxState.CREATING, LifecycleEvent.CREATE_ACCEPTED), \<lparr>to_state = SandboxState.STARTING, allowed_reasons = NO_REASON, rule_cleanup_state = None\<rparr>),
     ((SandboxState.CREATING, LifecycleEvent.CREATE_FAILURE), \<lparr>to_state = SandboxState.TERMINAL, allowed_reasons = {TerminalReason.CREATE_FAILED}, rule_cleanup_state = None\<rparr>),
     ((SandboxState.STARTING, LifecycleEvent.HEALTH_VERIFIED), \<lparr>to_state = SandboxState.ACTIVE, allowed_reasons = NO_REASON, rule_cleanup_state = None\<rparr>),
     ((SandboxState.STARTING, LifecycleEvent.STARTUP_FAILURE), \<lparr>to_state = SandboxState.TERMINAL, allowed_reasons = {TerminalReason.START_FAILED}, rule_cleanup_state = None\<rparr>),
     ((SandboxState.STARTING, LifecycleEvent.LEASE_EXPIRED), \<lparr>to_state = SandboxState.RECLAIMABLE, allowed_reasons = {TerminalReason.LEASE_EXPIRED}, rule_cleanup_state = None\<rparr>),
     ((SandboxState.ACTIVE, LifecycleEvent.RUNTIME_MISSING), \<lparr>to_state = SandboxState.TERMINAL, allowed_reasons = {TerminalReason.LOST_RUNTIME}, rule_cleanup_state = None\<rparr>),
     ((SandboxState.ACTIVE, LifecycleEvent.WORKFLOW_TERMINAL_OUTCOME), \<lparr>to_state = SandboxState.TERMINAL, allowed_reasons = TERMINAL_WORKFLOW_REASONS, rule_cleanup_state = None\<rparr>),
     ((SandboxState.ACTIVE, LifecycleEvent.LEASE_EXPIRED), \<lparr>to_state = SandboxState.RECLAIMABLE, allowed_reasons = {TerminalReason.LEASE_EXPIRED}, rule_cleanup_state = None\<rparr>),
     ((SandboxState.ACTIVE, LifecycleEvent.HARD_MAX_AGE_REACHED), \<lparr>to_state = SandboxState.TERMINAL, allowed_reasons = {TerminalReason.HARD_MAX_AGE}, rule_cleanup_state = None\<rparr>),
     ((SandboxState.RECLAIMABLE, LifecycleEvent.OWNERSHIP_REACQUIRED), \<lparr>to_state = SandboxState.ACTIVE, allowed_reasons = NO_REASON, rule_cleanup_state = None\<rparr>),
     ((SandboxState.RECLAIMABLE, LifecycleEvent.RECLAIM_TTL_ELAPSED), \<lparr>to_state = SandboxState.TERMINAL, allowed_reasons = {TerminalReason.LEASE_EXPIRED}, rule_cleanup_state = None\<rparr>),
     ((SandboxState.TERMINAL, LifecycleEvent.CLEANUP_SCHEDULED), \<lparr>to_state = SandboxState.TERMINAL, allowed_reasons = NO_REASON, rule_cleanup_state = Some CleanupState.SCHEDULED\<rparr>),
     ((SandboxState.TERMINAL, LifecycleEvent.CLEANUP_STARTS), \<lparr>to_state = SandboxState.TERMINAL, allowed_reasons = NO_REASON, rule_cleanup_state = Some CleanupState.IN_PROGRESS\<rparr>),
     ((SandboxState.TERMINAL, LifecycleEvent.CLEANUP_VERIFIED_COMPLETE), \<lparr>to_state = SandboxState.CLEANED, allowed_reasons = NO_REASON, rule_cleanup_state = Some CleanupState.COMPLETED\<rparr>),
     ((SandboxState.ORPHANED, LifecycleEvent.CLEANUP_VERIFIED_COMPLETE), \<lparr>to_state = SandboxState.CLEANED, allowed_reasons = NO_REASON, rule_cleanup_state = Some CleanupState.COMPLETED\<rparr>),
     ((SandboxState.TERMINAL, LifecycleEvent.EXTERNAL_ABSENCE_VERIFIED), \<lparr>to_state = SandboxState.CLEANED, allowed_reasons = {TerminalReason.CLEANED_EXTERNALLY}, rule_cleanup_state = Some CleanupState.COMPLETED\<rparr>)]"

primrec cleanup_transitions :: "CleanupState \<Rightarrow> CleanupState set" where
  "cleanup_transitions CleanupState.NONE = {CleanupState.NONE, CleanupState.SCHEDULED}"
| "cleanup_transitions CleanupState.SCHEDULED = {CleanupState.SCHEDULED, CleanupState.IN_PROGRESS, CleanupState.FAILED}"
| "cleanup_transitions CleanupState.IN_PROGRESS = {CleanupState.IN_PROGRESS, CleanupState.COMPLETED, CleanupState.FAILED}"
| "cleanup_transitions CleanupState.FAILED = {CleanupState.FAILED, CleanupState.SCHEDULED}"
| "cleanup_transitions CleanupState.COMPLETED = {CleanupState.COMPLETED}"

section \<open>Validators\<close>

definition all_terminal_reasons :: "TerminalReason list" where
  "all_terminal_reasons = [TerminalReason.SUCCESS, TerminalReason.FAILED, TerminalReason.BLOCKED,
     TerminalReason.CANCELED, TerminalReason.CREATE_FAILED, TerminalReason.START_FAILED,
     TerminalReason.RESTART_LOOP, TerminalReason.LEASE_EXPIRED, TerminalReason.LOST_RUNTIME,
     TerminalReason.ORPHAN_DETECTED, TerminalReason.ORPHAN_UNVERIFIED_OWNERSHIP,
     TerminalReason.HARD_MAX_AGE, TerminalReason.CLEANED_EXTERNALLY]"

definition validate_reason :: "TerminalReason set \<Rightarrow> TerminalReason option \<Rightarrow> LifecycleEvent \<Rightarrow> unit result" where
  "validate_reason allowed terminal_reason event =
     (if allowed = {} \<and> terminal_reason \<noteq> None
      then Inl (SandboxLifecycleError (''Unexpected terminal reason for event '' @ LifecycleEvent_value event @ ''.''))
      else if allowed \<noteq> {} \<and> (case terminal_reason of None \<Rightarrow> True | Some r \<Rightarrow> r \<notin> allowed)
      then Inl (SandboxLifecycleError (''Invalid terminal reason for event '' @ LifecycleEvent_value event @ '': '' @
             (case terminal_reason of None \<Rightarrow> ''none'' | Some r \<Rightarrow> TerminalReason_value r) @ ''. Allowed: '' @
             comma_join (map TerminalReason_value
               (sort_key TerminalReason_value (filter (\<lambda>r. r \<in> allowed) all_terminal_reasons))) @ ''.''))
      else Inr ())"

definition validate_lifecycle_transition ::
  "SandboxState \<Rightarrow> LifecycleEvent \<Rightarrow> SandboxState \<Rightarrow> TerminalReason option \<Rightarrow> CleanupState option \<Rightarrow> bool result" where
  "validate_lifecycle_transition current_state event next_state terminal_reason cleanup_state =
     (case map_of lifecycle_transitions (current_state, event) of
        None \<Rightarrow> Inl (SandboxLifecycleError (''Illegal lifecycle transition event: '' @
                  SandboxState_value current_state @ '' + '' @ LifecycleEvent_value event @ ''.''))
      | Some rule \<Rightarrow>
          if next_state \<noteq> to_state rule
          then Inl (SandboxLifecycleError (''Illegal lifecycle destination: '' @
                 SandboxState_value current_state @ '' + '' @ LifecycleEvent_value event @ '' -> '' @
                 SandboxState_value next_state @ ''.''))
          else bind_result (validate_reason (allowed_reasons rule) terminal_reason event) (\<lambda>_.
            if cleanup_state \<noteq> rule_cleanup_state rule
            then Inl (SandboxLifecycleError (''Cleanup state does not match lifecycle contract for '' @
                   SandboxState_value current_state @ '' + '' @ LifecycleEvent_value event @ '': expected '' @
                   (case rule_cleanup_state rule of None \<Rightarrow> ''none'' | Some s \<Rightarrow> CleanupState_value s) @ ''.''))
            else Inr True))"

definition validate_cleanup_state_transition :: "CleanupState \<Rightarrow> CleanupState \<Rightarrow> bool result" where
  "validate_cleanup_state_transition current_state next_state =
     (if next_state \<notin> cleanup_transitions current_state
      then Inl (SandboxLifecycleError (''Illegal cleanup state transition: '' @
             CleanupState_value current_state @ '' -> '' @ CleanupState_value next_state @ ''.''))
      else Inr True)"

definition classify_reconciliation ::
  "SandboxState option \<Rightarrow> bool \<Rightarrow> OwnershipConfidence option \<Rightarrow> bool \<Rightarrow> bool \<Rightarrow> ReconciliationOutcome result" where
  "classify_reconciliation durable_state docker_present ownership_confidence lease_expired cleanup_due_passed =
     (if durable_state = Some SandboxState.ACTIVE \<and> docker_present \<and> lease_expired
      then Inr \<lparr>oc_classification = ReconciliationClassification.RECLAIMABLE,
                oc_state = SandboxState.RECLAIMABLE, oc_terminal_reason = Some TerminalReason.LEASE_EXPIRED\<rparr>
      else if durable_state = Some SandboxState.ACTIVE \<and> docker_present
      then Inr \<lparr>oc_classification = ReconciliationClassification.ACTIVE,
                oc_state = SandboxState.ACTIVE, oc_terminal_reason = None\<rparr>
      else if durable_state = Some SandboxState.ACTIVE \<and> \<not> docker_present
      then Inr \<lparr>oc_classification = ReconciliationClassification.TERMINAL_LOST_RUNTIME,
                oc_state = SandboxState.TERMINAL, oc_terminal_reason = Some TerminalReason.LOST_RUNTIME\<rparr>
      else if durable_state = Some SandboxState.TERMINAL \<and> docker_present \<and> cleanup_due_passed
      then Inr \<lparr>oc_classification = ReconciliationClassification.CLEANUP_OVERDUE,
                oc_state = SandboxState.TERMINAL, oc_terminal_reason = None\<rparr>
      else if durable_state = Some SandboxState.TERMINAL \<and> docker_present
      then Inr \<lparr>oc_classification = ReconciliationClassification.TERMINAL_AWAITING_CLEANUP,
                oc_state = SandboxState.TERMINAL, oc_terminal_reason = None\<rparr>
      else if durable_state = Some SandboxState.TERMINAL \<and> \<not> docker_present
      then Inr \<lparr>oc_classification = ReconciliationClassification.CLEANED_EXTERNALLY,
                oc_state = SandboxState.CLEANED, oc_terminal_reason = Some TerminalReason.CLEANED_EXTERNALLY\<rparr>
      else if durable_state = None \<and> docker_present \<and> ownership_confidence = Some OwnershipConfidence.VERIFIED
      then Inr \<lparr>oc_classification = ReconciliationClassification.ORPHANED_VERIFIED,
                oc_state = SandboxState.ORPHANED, oc_terminal_reason = Some TerminalReason.ORPHAN_DETECTED\<rparr>
      else if durable_state = None \<and> docker_present \<and> ownership_confidence = Some OwnershipConfidence.UNVERIFIED
      then Inr \<lparr>oc_classification = ReconciliationClassification.ORPHANED_UNVERIFIED,
                oc_state = SandboxState.ORPHANED,
                oc_terminal_reason = Some TerminalReason.ORPHAN_UNVERIFIED_OWNERSHIP\<rparr>
      else Inl (SandboxLifecycleError
        ''Unsupported reconciliation input combination; add an explicit classification before use.''))"

definition assert_lifecycle_fence :: "string \<Rightarrow> string \<Rightarrow> int \<Rightarrow> int \<Rightarrow> int \<Rightarrow> int \<Rightarrow> bool result" where
  "assert_lifecycle_fence expected_owner_instance_id actual_owner_instance_id expected_lease_epoch
     actual_lease_epoch expected_record_version actual_record_version =
     (if expected_owner_instance_id \<noteq> actual_owner_instance_id
      then Inl (SandboxLifecycleError ''Stale owner rejected by lifecycle fence.'')
      else if expected_lease_epoch \<noteq> actual_lease_epoch
      then Inl (SandboxLifecycleError ''Lease epoch mismatch rejected by lifecycle fence.'')
      else if expected_record_version \<noteq> actual_record_version
      then Inl (SandboxLifecycleError ''Record version mismatch rejected by lifecycle fence.'')
      else Inr True)"

definition assert_cleanup_claim :: "CleanupState \<Rightarrow> string \<Rightarrow> string option \<Rightarrow> int \<Rightarrow> int \<Rightarrow> bool result" where
  "assert_cleanup_claim current_cleanup_state claimant_id existing_cleanup_owner expected_record_version
     actual_record_version =
     (if current_cleanup_state \<noteq> CleanupState.SCHEDULED
      then Inl (SandboxLifecycleError ''Cleanup claim requires scheduled cleanup state.'')
      else if \<not> py_in_opt claimant_id existing_cleanup_owner
      then Inl (SandboxLifecycleError ''Cleanup claim already owned by another actor.'')
      else if expected_record_version \<noteq> actual_record_version
      then Inl (SandboxLifecycleError ''Cleanup claim record version mismatch.'')
      else Inr True)"

section \<open>The lifecycle record\<close>

definition SANDBOX_LIFECYCLE_SCHEMA_VERSION :: string where
  "SANDBOX_LIFECYCLE_SCHEMA_VERSION = ''1.0''"

definition SANDBOX_LIFECYCLE_POLICY_VERSION :: string where
  "SANDBOX_LIFECYCLE_POLICY_VERSION = ''docker_sandbox_lifecycle.v1''"

record ManagedResourceInventory =
  mri_containers :: "string list"
  mri_networks :: "string list"
  mri_managed_volumes :: "string list"

record SandboxLifecycleRecord =
  sb_schema_version :: string
  sb_policy_version :: string
  sb_sandbox_id :: string
  sb_compose_project :: string
  sb_workspace_path :: string
  sb_run_id :: "string option"
  sb_session_id :: "string option"
  sb_owner_instance_id :: "string option"
  sb_cleanup_owner_instance_id :: "string option"
  sb_lease_epoch :: int
  sb_lease_expires_at :: "string option"
  sb_state :: SandboxState
  sb_cleanup_state :: CleanupState
  sb_record_version :: int
  sb_created_at :: string
  sb_last_heartbeat_at :: "string option"
  sb_terminal_at :: "string option"
  sb_terminal_reason :: "TerminalReason option"
  sb_cleanup_due_at :: "string option"
  sb_cleanup_attempts :: int
  sb_cleanup_last_error :: "string option"
  sb_cleanup_failure_reason :: "string option"
  sb_required_evidence_ref :: "string option"
  sb_managed_resource_inventory :: ManagedResourceInventory
  sb_requires_reconciliation :: bool
  sb_docker_context :: string
  sb_docker_host_id :: string

definition interpret_policy_version :: "string \<Rightarrow> string option" where
  "interpret_policy_version policy_version =
     raise_if (policy_version \<notin> {SANDBOX_LIFECYCLE_POLICY_VERSION})
       (''Unsupported sandbox lifecycle policy_version: '' @ policy_version @ ''.'')"

definition ensure_supported_versions :: "string \<Rightarrow> string \<Rightarrow> string option" where
  "ensure_supported_versions schema_version policy_version =
     first_message
       [raise_if (schema_version \<notin> {SANDBOX_LIFECYCLE_SCHEMA_VERSION})
          (''Unsupported sandbox lifecycle schema_version: '' @ schema_version @ ''.''),
        interpret_policy_version policy_version]"

definition validate_record :: "SandboxLifecycleRecord \<Rightarrow> string option" where
  "validate_record r = first_message
     [ensure_supported_versions (sb_schema_version r) (sb_policy_version r),
      raise_if (\<not> truthy_opt (sb_run_id r) \<and> \<not> truthy_opt (sb_session_id r))
        ''Sandbox lifecycle record requires run_id or session_id.'',
      raise_if (sb_record_version r < 1) ''Sandbox lifecycle record_version must be >= 1.'',
      raise_if (sb_lease_epoch r < 0) ''Sandbox lifecycle lease_epoch must be >= 0.'',
      raise_if (sb_cleanup_attempts r < 0) ''Sandbox lifecycle cleanup_attempts must be >= 0.'',
      raise_if (sb_state r \<in> {SandboxState.TERMINAL, SandboxState.RECLAIMABLE, SandboxState.ORPHANED,
                              SandboxState.CLEANED} \<and> sb_terminal_reason r = None)
        ''Sandbox lifecycle terminal_reason is required for terminal, reclaimable, orphaned, and cleaned states.'']"

definition SandboxLifecycleRecord_init :: "SandboxLifecycleRecord \<Rightarrow> SandboxLifecycleRecord result" where
  "SandboxLifecycleRecord_init r = validate_model [] [validate_record r] r"

section \<open>What the tables allow\<close>

text \<open>The states the table reaches from a state by one event.\<close>

definition lifecycle_next :: "SandboxState \<Rightarrow> SandboxState set" where
  "lifecycle_next s = (to_state \<circ> snd) ` set (filter (\<lambda>((s', _), _). s' = s) lifecycle_transitions)"

lemma lifecycle_next_simps [enum_simps]:
  "lifecycle_next SandboxState.CREATING = {SandboxState.STARTING, SandboxState.TERMINAL}"
  "lifecycle_next SandboxState.STARTING = {SandboxState.ACTIVE, SandboxState.TERMINAL, SandboxState.RECLAIMABLE}"
  "lifecycle_next SandboxState.ACTIVE = {SandboxState.TERMINAL, SandboxState.RECLAIMABLE}"
  "lifecycle_next SandboxState.RECLAIMABLE = {SandboxState.ACTIVE, SandboxState.TERMINAL}"
  "lifecycle_next SandboxState.TERMINAL = {SandboxState.TERMINAL, SandboxState.CLEANED}"
  "lifecycle_next SandboxState.ORPHANED = {SandboxState.CLEANED}"
  "lifecycle_next SandboxState.CLEANED = {}"
  by (auto simp: lifecycle_next_def lifecycle_transitions_def)

interpretation sandbox_states: transition_table lifecycle_next "\<lambda>s. s = SandboxState.CLEANED"
proof
  fix s show "s = SandboxState.CLEANED \<longleftrightarrow> lifecycle_next s = {}"
    by (cases s) (simp_all add: enum_simps)
qed

lemma validate_reason_Inr_iff:
  "validate_reason allowed r ev = Inr () \<longleftrightarrow>
     (case r of None \<Rightarrow> allowed = {} | Some x \<Rightarrow> x \<in> allowed)"
  by (auto simp: validate_reason_def split: option.splits if_splits)

lemma validate_lifecycle_transition_Inr_iff:
  "validate_lifecycle_transition s ev t r c = Inr b \<longleftrightarrow>
     b \<and> (\<exists>rule. map_of lifecycle_transitions (s, ev) = Some rule \<and> t = to_state rule \<and>
        c = rule_cleanup_state rule \<and>
        (case r of None \<Rightarrow> allowed_reasons rule = {} | Some x \<Rightarrow> x \<in> allowed_reasons rule))"
  by (auto simp: validate_lifecycle_transition_def bind_result_Inr_iff validate_reason_Inr_iff
      split: option.splits if_splits)

lemma validated_next:
  assumes "validate_lifecycle_transition s ev t r c = Inr b"
  shows "t \<in> lifecycle_next s"
  using assms by (force simp: validate_lifecycle_transition_Inr_iff lifecycle_next_def dest: map_of_SomeD)

text \<open>
  What a validated event leaves of the reason: the stopped states need one, and every event that
  leads into them carries one or starts from a state that has one.
\<close>

definition needs_reason :: "SandboxState \<Rightarrow> bool" where
  "needs_reason s = (s \<in> {SandboxState.TERMINAL, SandboxState.RECLAIMABLE, SandboxState.ORPHANED,
                         SandboxState.CLEANED})"

lemma lifecycle_transitions_reasons:
  "map_of lifecycle_transitions (s, ev) = Some rule \<Longrightarrow> needs_reason (to_state rule) \<Longrightarrow>
   allowed_reasons rule = {} \<Longrightarrow> needs_reason s"
  by (cases s; cases ev)
    (auto simp: lifecycle_transitions_def needs_reason_def TERMINAL_WORKFLOW_REASONS_def NO_REASON_def)

lemma validated_reason:
  assumes "validate_lifecycle_transition s ev t r c = Inr b" and "needs_reason t" and "r = None"
  shows "needs_reason s"
  using assms lifecycle_transitions_reasons [of s ev]
  by (auto simp: validate_lifecycle_transition_Inr_iff)

text \<open>
  The transition table is deterministic and closed: an event accepted in a state fixes both the
  next state and the cleanup state that go with it, and nothing is accepted in a cleaned sandbox.
\<close>

lemma lifecycle_event_determines_state:
  assumes "validate_lifecycle_transition s ev t r c = Inr True"
    and "validate_lifecycle_transition s ev t' r' c' = Inr True"
  shows "t = t' \<and> c = c' \<and> s \<noteq> SandboxState.CLEANED"
proof -
  have "s \<noteq> SandboxState.CLEANED"
    using validated_next [OF assms(1)] sandbox_states.no_step_from_terminal [of s] by auto
  with assms show ?thesis by (auto simp: validate_lifecycle_transition_Inr_iff)
qed

definition live_states :: "SandboxState set" where
  "live_states = {SandboxState.CREATING, SandboxState.STARTING, SandboxState.ACTIVE, SandboxState.RECLAIMABLE}"

fun validated_history :: "SandboxState \<Rightarrow> (LifecycleEvent \<times> SandboxState \<times> TerminalReason option \<times> CleanupState option) list \<Rightarrow> bool" where
  "validated_history s [] = True"
| "validated_history s ((ev, t, r, c) # hs) =
     (validate_lifecycle_transition s ev t r c = Inr True \<and> validated_history t hs)"

lemma validated_history_legal:
  "validated_history s hs \<Longrightarrow> legal_path lifecycle_next (s # map (\<lambda>(_, t, _). t) hs)"
proof (induction s hs rule: validated_history.induct)
  case (2 s ev t r c hs)
  then show ?case using validated_next [of s ev t r c True] by simp
qed simp

text \<open>
  a sandbox that was created is cleaned only after it has been made terminal: every sequence of
  validated events from creation to the cleaned state goes through the terminal state, and ends
  there.
\<close>

theorem cleaned_only_after_terminal:
  assumes "validated_history s (hs @ h # hs')" and "s \<in> live_states"
    and "fst (snd h) = SandboxState.CLEANED"
  shows "hs' = [] \<and> SandboxState.TERMINAL \<in> set (map (\<lambda>(_, t, _). t) hs)"
proof -
  let ?ts = "map (\<lambda>(_, t :: SandboxState, _). t)"
  have path: "legal_path lifecycle_next ((s # ?ts hs) @ SandboxState.CLEANED # ?ts hs')"
    using validated_history_legal [OF assms(1)] assms(3) by (simp add: case_prod_beta')
  then have "hs' = []" using sandbox_states.terminal_only_last by fastforce
  have "SandboxState.TERMINAL \<in> set (?ts hs @ [SandboxState.CLEANED])"
  proof (rule legal_path_must_pass [of lifecycle_next s _ live_states])
    show "legal_path lifecycle_next (s # ?ts hs @ [SandboxState.CLEANED])"
      using path \<open>hs' = []\<close> by simp
    show "s \<in> live_states" by (rule assms(2))
    show "lifecycle_next a \<subseteq> live_states \<union> {SandboxState.TERMINAL}" if "a \<in> live_states" for a
      using that by (auto simp: live_states_def enum_simps)
    show "last (s # ?ts hs @ [SandboxState.CLEANED]) \<notin> live_states" by (simp add: live_states_def)
  qed
  with \<open>hs' = []\<close> show ?thesis by auto
qed

theorem cleaned_only_after_terminal_witness:
  "([] :: (LifecycleEvent \<times> SandboxState \<times> TerminalReason option \<times> CleanupState option) list) = [] \<and>
   SandboxState.TERMINAL \<in> set (map (\<lambda>(_, t, _). t)
     [(LifecycleEvent.LEASE_EXPIRED, SandboxState.RECLAIMABLE, Some TerminalReason.LEASE_EXPIRED, None),
      (LifecycleEvent.RECLAIM_TTL_ELAPSED, SandboxState.TERMINAL, Some TerminalReason.LEASE_EXPIRED,
         None :: CleanupState option)])"
  by (rule cleaned_only_after_terminal [of SandboxState.ACTIVE _
      "(LifecycleEvent.CLEANUP_VERIFIED_COMPLETE, SandboxState.CLEANED, None, Some CleanupState.COMPLETED)"])
    code_simp+

text \<open>
  What reconciliation decides for a recorded sandbox is carried out by one accepted event: when the
  classification changes the state, the table accepts an event from the recorded state to the
  decided one with the decided reason.
\<close>

lemma reconciliation_outcome_reachable:
  assumes "classify_reconciliation (Some s) present conf expired due = Inr oc"
  shows "(oc_state oc = s \<and> oc_terminal_reason oc = None) \<or>
    (\<exists>ev c. validate_lifecycle_transition s ev (oc_state oc) (oc_terminal_reason oc) c = Inr True)"
proof -
  have "validate_lifecycle_transition SandboxState.ACTIVE LifecycleEvent.LEASE_EXPIRED
          SandboxState.RECLAIMABLE (Some TerminalReason.LEASE_EXPIRED) None = Inr True"
    and "validate_lifecycle_transition SandboxState.ACTIVE LifecycleEvent.RUNTIME_MISSING
          SandboxState.TERMINAL (Some TerminalReason.LOST_RUNTIME) None = Inr True"
    and "validate_lifecycle_transition SandboxState.TERMINAL LifecycleEvent.EXTERNAL_ABSENCE_VERIFIED
          SandboxState.CLEANED (Some TerminalReason.CLEANED_EXTERNALLY) (Some CleanupState.COMPLETED) = Inr True"
    by code_simp+
  then show ?thesis using assms
    by (cases s) (auto simp: classify_reconciliation_def split: if_splits)
qed

end
