(* ===== verification/Sql_Tables.thy ===== *)
theory Sql_Tables
  imports Canonical_JSON "HOL-Library.Option_ord"
begin

text \<open>
  What the SQLite repositories of sandboxes and outward runs share. A table is the list of its rows in
  rowid order; \<open>select\<close>, \<open>insert_or_replace\<close> and \<open>update_where\<close> are the statements the repositories
  use on a table with a primary key, and \<open>stored_payload\<close> is what a JSON column gives back of a dict.

  The interface \<open>keyed_table\<close> is what a table with a primary key promises: what a selection by key
  returns after a replacement, an insertion or a guarded update, and that keys stay distinct.
\<close>

definition select :: "('r \<Rightarrow> 'k) \<Rightarrow> 'k \<Rightarrow> 'r list \<Rightarrow> 'r option" where
  "select key k rows = find (\<lambda>w. key w = k) rows"

definition insert_or_replace :: "('r \<Rightarrow> 'k) \<Rightarrow> 'r \<Rightarrow> 'r list \<Rightarrow> 'r list" where
  "insert_or_replace key r rows = filter (\<lambda>w. key w \<noteq> key r) rows @ [r]"

text \<open>\<open>UPDATE ... WHERE\<close>: the new rows and the row count.\<close>

definition update_where :: "('r \<Rightarrow> bool) \<Rightarrow> ('r \<Rightarrow> 'r) \<Rightarrow> 'r list \<Rightarrow> 'r list \<times> nat" where
  "update_where P f rows = (map (\<lambda>w. if P w then f w else w) rows, length (filter P rows))"

locale keyed_table =
  fixes sel :: "'k \<Rightarrow> 'r list \<Rightarrow> 'r option"
    and put :: "'r \<Rightarrow> 'r list \<Rightarrow> 'r list"
    and key :: "'r \<Rightarrow> 'k"
  assumes sel_Nil: "sel k [] = None"
    and sel_Cons: "sel k (w # rows) = (if key w = k then Some w else sel k rows)"
    and put_def: "put r rows = filter (\<lambda>w. key w \<noteq> key r) rows @ [r]"
begin

lemma sel_Some: "sel k rows = Some w \<Longrightarrow> w \<in> set rows \<and> key w = k"
  by (induction rows) (auto simp: sel_Nil sel_Cons split: if_splits)

lemma sel_None_iff: "sel k rows = None \<longleftrightarrow> k \<notin> key ` set rows"
  by (induction rows) (auto simp: sel_Nil sel_Cons)

lemma sel_distinct: "distinct (map key rows) \<Longrightarrow> w \<in> set rows \<Longrightarrow> sel (key w) rows = Some w"
  by (induction rows) (auto simp: sel_Nil sel_Cons rev_image_eqI)

lemma sel_append: "sel k (rows @ rows') = (case sel k rows of None \<Rightarrow> sel k rows' | Some w \<Rightarrow> Some w)"
  by (induction rows) (auto simp: sel_Nil sel_Cons)

lemma sel_filter_other:
  "key r \<noteq> k \<Longrightarrow> sel k (filter (\<lambda>w. key w \<noteq> key r) rows) = sel k rows"
  by (induction rows) (auto simp: sel_Nil sel_Cons)

lemma sel_put: "sel k (put r rows) = (if key r = k then Some r else sel k rows)"
proof (cases "key r = k")
  case True
  have "sel k (filter (\<lambda>w. key w \<noteq> key r) rows) = None" using True by (auto simp: sel_None_iff)
  then show ?thesis using True by (simp add: put_def sel_append sel_Nil sel_Cons)
next
  case False
  then show ?thesis by (simp add: put_def sel_append sel_filter_other sel_Nil sel_Cons split: option.split)
qed

lemma put_distinct: "distinct (map key rows) \<Longrightarrow> distinct (map key (put r rows))"
  by (auto simp: put_def distinct_map_filter)

lemma append_distinct:
  "distinct (map key rows) \<Longrightarrow> sel (key r) rows = None \<Longrightarrow> distinct (map key (rows @ [r]))"
  by (auto simp: sel_None_iff)

lemma sel_append_new:
  "sel (key r) rows = None \<Longrightarrow> sel k (rows @ [r]) = (if k = key r then Some r else sel k rows)"
  by (auto simp: sel_append sel_Nil sel_Cons split: option.split)

text \<open>A guarded update that keeps the key changes the one row it hits.\<close>

lemma sel_update:
  assumes "distinct (map key rows)" and "\<And>w. w \<in> set rows \<Longrightarrow> P w \<Longrightarrow> key (f w) = key w"
  shows "sel k (fst (update_where P f rows)) = map_option (\<lambda>w. if P w then f w else w) (sel k rows)"
  using assms by (induction rows) (auto simp: update_where_def sel_Nil sel_Cons)

lemma update_distinct:
  assumes "\<And>w. w \<in> set rows \<Longrightarrow> P w \<Longrightarrow> key (f w) = key w"
  shows "map key (fst (update_where P f rows)) = map key rows"
  using assms by (induction rows) (auto simp: update_where_def)

lemma update_count:
  assumes "distinct (map key rows)" and "\<And>w. P w \<Longrightarrow> key w = k"
  shows "0 < snd (update_where P f rows) \<longleftrightarrow> (\<exists>w. sel k rows = Some w \<and> P w)"
proof -
  have "0 < snd (update_where P f rows) \<longleftrightarrow> (\<exists>w \<in> set rows. P w)"
    by (auto simp: update_where_def filter_empty_conv)
  also have "\<dots> \<longleftrightarrow> (\<exists>w. sel k rows = Some w \<and> P w)"
    using assms sel_distinct [OF assms(1)] sel_Some by metis
  finally show ?thesis .
qed

end

text \<open>\<open>json.loads\<close> of \<open>json.dumps(..., sort_keys=True)\<close> of a dict.\<close>

definition stored_payload :: "(string \<times> json) list \<Rightarrow> (string \<times> json) list" where
  "stored_payload kvs = (case canon (JObj kvs) of JObj kvs' \<Rightarrow> kvs' | _ \<Rightarrow> kvs)"

end
