(* ===== verification/Sandbox_Store.thy ===== *)
theory Sandbox_Store
  imports Sandbox_Lifecycle Sql_Tables
begin

text \<open>
  The SQLite repository of sandbox lifecycle authority
  (\<open>orket/adapters/storage/async_sandbox_lifecycle_repository.py\<close>).

  A table is the list of its rows in rowid order. Every public method runs under one lock in one
  transaction, so it is a function of the database, and a method that raises commits nothing. Rows of
  \<open>sandbox_lifecycle_records\<close> are held as the record they encode: the columns are the fields, enums
  by their values and the inventory as JSON, and \<open>deserialize_record_row\<close> gives them back; what a
  read adds is the validation of the record. Snapshot payloads are texts of an arbitrary type, with
  the pair \<open>(dump, load)\<close> of the model class as a parameter. \<open>datetime(created_at)\<close> of SQLite is the
  parameter \<open>sqlite_datetime\<close>, with \<open>None\<close> for NULL, which sorts first. Integers are unbounded; SQLite
  refuses those outside 64 bits.

  The lemmas of the repository use the interface \<open>keyed_table\<close> through its interpretations on the
  five tables.
\<close>

section \<open>Rows\<close>

record SandboxOperationDedupeEntry =
  od_operation_id :: string
  od_payload_hash :: string
  od_result_payload :: "(string \<times> json) list"
  od_created_at :: string

record SandboxApprovalRecord =
  ap_approval_id :: string
  ap_sandbox_id :: string
  ap_action :: string
  ap_approved_by :: string
  ap_reason :: "string option"
  ap_created_at :: string
  ap_revoked_by :: "string option"
  ap_revoked_at :: "string option"

record SandboxLifecycleEventRecord =
  ev_event_id :: string
  ev_sandbox_id :: "string option"
  ev_event_kind :: string
  ev_event_type :: string
  ev_created_at :: string
  ev_payload :: "(string \<times> json) list"

record SandboxLifecycleSnapshotRecord =
  sn_snapshot_id :: string
  sn_sandbox_id :: string
  sn_record_version :: int
  sn_created_at :: string
  sn_integrity_digest :: string
  sn_record :: SandboxLifecycleRecord

record 'p snapshot_row =
  sr_snapshot_id :: string
  sr_sandbox_id :: string
  sr_record_version :: int
  sr_created_at :: string
  sr_integrity_digest :: string
  sr_payload_json :: 'p

record 'p sandbox_db =
  sandbox_lifecycle_records :: "SandboxLifecycleRecord list"
  sandbox_operation_dedupe :: "SandboxOperationDedupeEntry list"
  sandbox_approvals :: "SandboxApprovalRecord list"
  sandbox_lifecycle_events :: "SandboxLifecycleEventRecord list"
  sandbox_lifecycle_snapshots :: "'p snapshot_row list"

definition empty_sandbox_db :: "'p sandbox_db" where
  "empty_sandbox_db = \<lparr>sandbox_lifecycle_records = [], sandbox_operation_dedupe = [],
     sandbox_approvals = [], sandbox_lifecycle_events = [], sandbox_lifecycle_snapshots = []\<rparr>"

abbreviation select_record :: "string \<Rightarrow> SandboxLifecycleRecord list \<Rightarrow> SandboxLifecycleRecord option" where
  "select_record \<equiv> select sb_sandbox_id"

abbreviation select_operation ::
  "string \<Rightarrow> SandboxOperationDedupeEntry list \<Rightarrow> SandboxOperationDedupeEntry option" where
  "select_operation \<equiv> select od_operation_id"

interpretation records: keyed_table "select sb_sandbox_id" "insert_or_replace sb_sandbox_id" sb_sandbox_id
  by unfold_locales (simp_all add: select_def insert_or_replace_def)

interpretation operations: keyed_table "select od_operation_id" "insert_or_replace od_operation_id" od_operation_id
  by unfold_locales (simp_all add: select_def insert_or_replace_def)

interpretation approvals: keyed_table "select ap_approval_id" "insert_or_replace ap_approval_id" ap_approval_id
  by unfold_locales (simp_all add: select_def insert_or_replace_def)

interpretation events: keyed_table "select ev_event_id" "insert_or_replace ev_event_id" ev_event_id
  by unfold_locales (simp_all add: select_def insert_or_replace_def)

interpretation snapshots: keyed_table "select sr_snapshot_id" "insert_or_replace sr_snapshot_id" sr_snapshot_id
  by unfold_locales (simp_all add: select_def insert_or_replace_def)

section \<open>Lifecycle records\<close>

definition save_record :: "SandboxLifecycleRecord \<Rightarrow> 'p sandbox_db \<Rightarrow> 'p sandbox_db" where
  "save_record r db =
     db\<lparr>sandbox_lifecycle_records := insert_or_replace sb_sandbox_id r (sandbox_lifecycle_records db)\<rparr>"

record mutation_request =
  mr_operation_id :: string
  mr_payload_hash :: string
  mr_record :: SandboxLifecycleRecord
  mr_expected_record_version :: int
  mr_expected_lease_epoch :: "int option"
  mr_expected_owner_instance_id :: "string option"
  mr_expected_cleanup_state :: "string option"

record mutation_reply =
  reply_reused :: bool
  reply_result :: "(string \<times> json) list"
  reply_record :: SandboxLifecycleRecord

definition result_payload :: "SandboxLifecycleRecord \<Rightarrow> (string \<times> json) list" where
  "result_payload r =
     [(''sandbox_id'', JStr (sb_sandbox_id r)),
      (''record_version'', JInt (sb_record_version r)),
      (''state'', JStr (SandboxState_value (sb_state r))),
      (''cleanup_state'', JStr (CleanupState_value (sb_cleanup_state r))),
      (''requires_reconciliation'', JBool (sb_requires_reconciliation r))]"

text \<open>The \<open>WHERE\<close> clause of the compare-and-set update.\<close>

definition cas_where :: "mutation_request \<Rightarrow> SandboxLifecycleRecord \<Rightarrow> bool" where
  "cas_where q w =
     (sb_sandbox_id w = sb_sandbox_id (mr_record q) \<and>
      sb_record_version w = mr_expected_record_version q \<and>
      (case mr_expected_lease_epoch q of None \<Rightarrow> True | Some e \<Rightarrow> sb_lease_epoch w = e) \<and>
      (case mr_expected_owner_instance_id q of None \<Rightarrow> True | Some u \<Rightarrow> sb_owner_instance_id w = Some u) \<and>
      (case mr_expected_cleanup_state q of None \<Rightarrow> True
       | Some v \<Rightarrow> CleanupState_value (sb_cleanup_state w) = v))"

definition apply_record_mutation :: "mutation_request \<Rightarrow> ('p sandbox_db, mutation_reply) eff" where
  "apply_record_mutation q db =
     (let r = mr_record q in
      case select_operation (mr_operation_id q) (sandbox_operation_dedupe db) of
        Some stored \<Rightarrow>
          if od_payload_hash stored \<noteq> mr_payload_hash q
          then (Inl (SandboxOperationIntegrityError (''operation_id '' @ mr_operation_id q @
                  '' reused with different payload hash.'')), db)
          else
            let sid = json_get (od_result_payload stored) ''sandbox_id'' in
            (case select_record (if json_truthy sid then py_str_json sid else sb_sandbox_id r)
                    (sandbox_lifecycle_records db) of
               None \<Rightarrow> (Inl (SandboxLifecycleError (''Sandbox lifecycle record not found: '' @
                          sb_sandbox_id r @ ''.'')), db)
             | Some row \<Rightarrow>
                 (bind_result (SandboxLifecycleRecord_init row) (\<lambda>read.
                    Inr \<lparr>reply_reused = True, reply_result = od_result_payload stored,
                         reply_record = read\<rparr>), db))
      | None \<Rightarrow>
          (case update_where (cas_where q) (\<lambda>_. r) (sandbox_lifecycle_records db) of (rows, rowcount) \<Rightarrow>
             if rowcount = 0
             then (Inl (SandboxLifecycleConflictError (''CAS update rejected for sandbox_id '' @
                     sb_sandbox_id r @ ''.'')), db)
             else
               (Inr \<lparr>reply_reused = False, reply_result = result_payload r, reply_record = r\<rparr>,
                db\<lparr>sandbox_lifecycle_records := rows,
                   sandbox_operation_dedupe := sandbox_operation_dedupe db @
                     [\<lparr>od_operation_id = mr_operation_id q, od_payload_hash = mr_payload_hash q,
                       od_result_payload = stored_payload (result_payload r),
                       od_created_at = sb_created_at r\<rparr>]\<rparr>)))"

text \<open>A row that no longer validates is reported as a lifecycle error carrying the cause.\<close>

definition read_record :: "SandboxLifecycleRecord \<Rightarrow> SandboxLifecycleRecord result" where
  "read_record row =
     (case SandboxLifecycleRecord_init row of
        Inl (ValidationError cause) \<Rightarrow> Inl (SandboxLifecycleErrorFrom cause)
      | other \<Rightarrow> other)"

definition get_record :: "string \<Rightarrow> 'p sandbox_db \<Rightarrow> SandboxLifecycleRecord option result" where
  "get_record sandbox_id db =
     (case select_record sandbox_id (sandbox_lifecycle_records db) of
        None \<Rightarrow> Inr None
      | Some row \<Rightarrow> bind_result (read_record row) (\<lambda>r. Inr (Some r)))"

fun read_records :: "SandboxLifecycleRecord list \<Rightarrow> SandboxLifecycleRecord list result" where
  "read_records [] = Inr []"
| "read_records (w # ws) =
     bind_result (read_record w) (\<lambda>r. bind_result (read_records ws) (\<lambda>rs. Inr (r # rs)))"

definition list_records ::
  "(string \<Rightarrow> string option) \<Rightarrow> 'p sandbox_db \<Rightarrow> SandboxLifecycleRecord list result" where
  "list_records sqlite_datetime db =
     read_records (sort_key (\<lambda>w. (sqlite_datetime (sb_created_at w), sb_sandbox_id w))
       (sandbox_lifecycle_records db))"

section \<open>Operations, approvals, events, snapshots\<close>

definition remember_operation ::
  "SandboxOperationDedupeEntry \<Rightarrow> ('p sandbox_db, SandboxOperationDedupeEntry) eff" where
  "remember_operation entry db =
     (case select_operation (od_operation_id entry) (sandbox_operation_dedupe db) of
        None \<Rightarrow> (Inr entry,
          db\<lparr>sandbox_operation_dedupe := sandbox_operation_dedupe db @
               [entry\<lparr>od_result_payload := stored_payload (od_result_payload entry)\<rparr>]\<rparr>)
      | Some stored \<Rightarrow>
          if od_payload_hash stored \<noteq> od_payload_hash entry
          then (Inl (SandboxOperationIntegrityError (''operation_id '' @ od_operation_id entry @
                  '' reused with different payload hash.'')), db)
          else (Inr stored, db))"

definition save_approval :: "SandboxApprovalRecord \<Rightarrow> 'p sandbox_db \<Rightarrow> 'p sandbox_db" where
  "save_approval r db = db\<lparr>sandbox_approvals := insert_or_replace ap_approval_id r (sandbox_approvals db)\<rparr>"

definition list_approvals ::
  "(string \<Rightarrow> string option) \<Rightarrow> string \<Rightarrow> 'p sandbox_db \<Rightarrow> SandboxApprovalRecord list" where
  "list_approvals sqlite_datetime sandbox_id db =
     sort_key (\<lambda>w. (sqlite_datetime (ap_created_at w), ap_approval_id w))
       (filter (\<lambda>w. ap_sandbox_id w = sandbox_id) (sandbox_approvals db))"

definition revoke_approval :: "string \<Rightarrow> string \<Rightarrow> string \<Rightarrow> 'p sandbox_db \<Rightarrow> bool \<times> 'p sandbox_db" where
  "revoke_approval approval_id revoked_by revoked_at db =
     (case update_where (\<lambda>w. ap_approval_id w = approval_id)
             (\<lambda>w. w\<lparr>ap_revoked_by := Some revoked_by, ap_revoked_at := Some revoked_at\<rparr>)
             (sandbox_approvals db) of
        (rows, rowcount) \<Rightarrow> (0 < rowcount, db\<lparr>sandbox_approvals := rows\<rparr>))"

definition append_event :: "SandboxLifecycleEventRecord \<Rightarrow> 'p sandbox_db \<Rightarrow> 'p sandbox_db" where
  "append_event r db =
     db\<lparr>sandbox_lifecycle_events := insert_or_replace ev_event_id
          (r\<lparr>ev_payload := stored_payload (ev_payload r)\<rparr>) (sandbox_lifecycle_events db)\<rparr>"

definition list_events ::
  "(string \<Rightarrow> string option) \<Rightarrow> string option \<Rightarrow> 'p sandbox_db \<Rightarrow> SandboxLifecycleEventRecord list" where
  "list_events sqlite_datetime sandbox_id db =
     sort_key (\<lambda>w. (sqlite_datetime (ev_created_at w), ev_event_id w))
       (if truthy_opt sandbox_id
        then filter (\<lambda>w. ev_sandbox_id w = sandbox_id) (sandbox_lifecycle_events db)
        else sandbox_lifecycle_events db)"

definition save_snapshot ::
  "(SandboxLifecycleSnapshotRecord \<Rightarrow> 'p) \<Rightarrow> ('p \<Rightarrow> SandboxLifecycleSnapshotRecord result) \<Rightarrow>
   SandboxLifecycleSnapshotRecord \<Rightarrow> ('p sandbox_db, SandboxLifecycleSnapshotRecord) eff" where
  "save_snapshot dump load s db =
     (case select sr_snapshot_id (sn_snapshot_id s) (sandbox_lifecycle_snapshots db) of
        Some existing \<Rightarrow>
          if sr_payload_json existing \<noteq> dump s
          then (Inl (SandboxOperationIntegrityError (''snapshot_id '' @ sn_snapshot_id s @
                  '' reused with different payload.'')), db)
          else (load (sr_payload_json existing), db)
      | None \<Rightarrow> (Inr s,
          db\<lparr>sandbox_lifecycle_snapshots := sandbox_lifecycle_snapshots db @
               [\<lparr>sr_snapshot_id = sn_snapshot_id s, sr_sandbox_id = sn_sandbox_id s,
                 sr_record_version = sn_record_version s, sr_created_at = sn_created_at s,
                 sr_integrity_digest = sn_integrity_digest s, sr_payload_json = dump s\<rparr>]\<rparr>))"

definition get_snapshot ::
  "('p \<Rightarrow> SandboxLifecycleSnapshotRecord result) \<Rightarrow> string \<Rightarrow> 'p sandbox_db \<Rightarrow>
   SandboxLifecycleSnapshotRecord option result" where
  "get_snapshot load snapshot_id db =
     (case select sr_snapshot_id snapshot_id (sandbox_lifecycle_snapshots db) of
        None \<Rightarrow> Inr None
      | Some row \<Rightarrow> bind_result (load (sr_payload_json row)) (\<lambda>s. Inr (Some s)))"

fun load_snapshots ::
  "('p \<Rightarrow> SandboxLifecycleSnapshotRecord result) \<Rightarrow> 'p snapshot_row list \<Rightarrow>
   SandboxLifecycleSnapshotRecord list result" where
  "load_snapshots load [] = Inr []"
| "load_snapshots load (w # ws) =
     bind_result (load (sr_payload_json w)) (\<lambda>s.
       bind_result (load_snapshots load ws) (\<lambda>ss. Inr (s # ss)))"

definition list_snapshots ::
  "('p \<Rightarrow> SandboxLifecycleSnapshotRecord result) \<Rightarrow> string \<Rightarrow> 'p sandbox_db \<Rightarrow>
   SandboxLifecycleSnapshotRecord list result" where
  "list_snapshots load sandbox_id db =
     load_snapshots load
       (sort_key (\<lambda>w. (sr_record_version w, sr_created_at w, sr_snapshot_id w))
         (filter (\<lambda>w. sr_sandbox_id w = sandbox_id) (sandbox_lifecycle_snapshots db)))"

section \<open>What a mutation does\<close>

definition sandbox_keys_ok :: "'p sandbox_db \<Rightarrow> bool" where
  "sandbox_keys_ok db =
     (distinct (map sb_sandbox_id (sandbox_lifecycle_records db)) \<and>
      distinct (map od_operation_id (sandbox_operation_dedupe db)))"

abbreviation stored_record :: "'p sandbox_db \<Rightarrow> string \<Rightarrow> SandboxLifecycleRecord option" where
  "stored_record db k \<equiv> select_record k (sandbox_lifecycle_records db)"

abbreviation stored_operation :: "'p sandbox_db \<Rightarrow> string \<Rightarrow> SandboxOperationDedupeEntry option" where
  "stored_operation db k \<equiv> select_operation k (sandbox_operation_dedupe db)"

lemma record_init_same: "SandboxLifecycleRecord_init w = Inr r \<Longrightarrow> r = w"
  by (simp add: SandboxLifecycleRecord_init_def validate_model_Inr_iff)

lemma read_record_Inr_iff: "read_record w = Inr r \<longleftrightarrow> r = w \<and> SandboxLifecycleRecord_init w = Inr w"
  by (cases "SandboxLifecycleRecord_init w") (auto simp: read_record_def dest: record_init_same split: error.split)

lemma get_record_Some_iff:
  "get_record k db = Inr (Some r) \<longleftrightarrow> stored_record db k = Some r \<and> SandboxLifecycleRecord_init r = Inr r"
  by (auto simp: get_record_def bind_result_Inr_iff read_record_Inr_iff split: option.splits)

lemma cas_where_id: "cas_where q w \<Longrightarrow> sb_sandbox_id w = sb_sandbox_id (mr_record q)"
  by (simp add: cas_where_def)

text \<open>A mutation whose operation is known writes nothing, and so does one that fails.\<close>

lemma apply_known_operation:
  "stored_operation db (mr_operation_id q) = Some e \<Longrightarrow> snd (apply_record_mutation q db) = db"
  by (simp add: apply_record_mutation_def Let_def split: option.split)

lemma apply_error: "apply_record_mutation q db = (Inl e, db') \<Longrightarrow> db' = db"
  by (auto simp: apply_record_mutation_def Let_def split: option.splits if_splits prod.splits)

lemma apply_reused:
  assumes "apply_record_mutation q db = (Inr reply, db')" and "reply_reused reply"
  shows "db' = db \<and> (\<exists>e. stored_operation db (mr_operation_id q) = Some e \<and>
     od_payload_hash e = mr_payload_hash q \<and> reply_result reply = od_result_payload e)"
  using assms
  by (auto simp: apply_record_mutation_def Let_def bind_result_Inr_iff
      split: option.splits if_splits prod.splits)

lemma apply_new_operation:
  assumes ok: "sandbox_keys_ok db" and new: "stored_operation db (mr_operation_id q) = None"
  shows "apply_record_mutation q db =
    (case stored_record db (sb_sandbox_id (mr_record q)) of
       Some w \<Rightarrow>
         if cas_where q w
         then (Inr \<lparr>reply_reused = False, reply_result = result_payload (mr_record q), reply_record = mr_record q\<rparr>,
               db\<lparr>sandbox_lifecycle_records := fst (update_where (cas_where q) (\<lambda>_. mr_record q) (sandbox_lifecycle_records db)),
                  sandbox_operation_dedupe := sandbox_operation_dedupe db @
                     [\<lparr>od_operation_id = mr_operation_id q, od_payload_hash = mr_payload_hash q,
                       od_result_payload = stored_payload (result_payload (mr_record q)),
                       od_created_at = sb_created_at (mr_record q)\<rparr>]\<rparr>)
         else (Inl (SandboxLifecycleConflictError (''CAS update rejected for sandbox_id '' @
                 sb_sandbox_id (mr_record q) @ ''.'')), db)
     | None \<Rightarrow> (Inl (SandboxLifecycleConflictError (''CAS update rejected for sandbox_id '' @
                 sb_sandbox_id (mr_record q) @ ''.'')), db))"
proof -
  let ?u = "update_where (cas_where q) (\<lambda>_. mr_record q) (sandbox_lifecycle_records db)"
  have "0 < snd ?u \<longleftrightarrow> (\<exists>w. stored_record db (sb_sandbox_id (mr_record q)) = Some w \<and> cas_where q w)"
    using ok by (intro records.update_count) (auto simp: sandbox_keys_ok_def cas_where_id)
  then show ?thesis
    by (simp add: apply_record_mutation_def Let_def new split_beta split: option.split)
qed

definition operation_entry :: "mutation_request \<Rightarrow> SandboxOperationDedupeEntry" where
  "operation_entry q =
     \<lparr>od_operation_id = mr_operation_id q, od_payload_hash = mr_payload_hash q,
      od_result_payload = stored_payload (result_payload (mr_record q)),
      od_created_at = sb_created_at (mr_record q)\<rparr>"

text \<open>The effect of a mutation that was applied: \<open>w\<close> is the record it replaced.\<close>

definition cas_applied ::
  "mutation_request \<Rightarrow> 'p sandbox_db \<Rightarrow> SandboxLifecycleRecord \<Rightarrow> 'p sandbox_db \<Rightarrow> bool" where
  "cas_applied q db w db' \<longleftrightarrow>
     stored_operation db (mr_operation_id q) = None \<and>
     stored_record db (sb_sandbox_id (mr_record q)) = Some w \<and> cas_where q w \<and>
     (\<forall>k. stored_record db' k =
        (if k = sb_sandbox_id (mr_record q) then Some (mr_record q) else stored_record db k)) \<and>
     (\<forall>k. stored_operation db' k =
        (if k = mr_operation_id q then Some (operation_entry q) else stored_operation db k)) \<and>
     sandbox_keys_ok db'"

lemma apply_written_db:
  assumes ok: "sandbox_keys_ok db" and a: "apply_record_mutation q db = (Inr reply, db')"
    and fresh: "\<not> reply_reused reply"
  obtains w where "stored_operation db (mr_operation_id q) = None"
    and "stored_record db (sb_sandbox_id (mr_record q)) = Some w" and "cas_where q w"
    and "db' = db\<lparr>sandbox_lifecycle_records := fst (update_where (cas_where q) (\<lambda>_. mr_record q) (sandbox_lifecycle_records db)),
                  sandbox_operation_dedupe := sandbox_operation_dedupe db @ [operation_entry q]\<rparr>"
proof -
  have new: "stored_operation db (mr_operation_id q) = None"
  proof (rule ccontr)
    assume "stored_operation db (mr_operation_id q) \<noteq> None"
    then obtain e where "stored_operation db (mr_operation_id q) = Some e" by auto
    with a fresh show False
      by (auto simp: apply_record_mutation_def Let_def bind_result_Inr_iff split: option.splits if_splits)
  qed
  obtain w where w: "stored_record db (sb_sandbox_id (mr_record q)) = Some w" "cas_where q w"
    using a by (auto simp: apply_new_operation [OF ok new] split: option.splits if_splits)
  have "db' = db\<lparr>sandbox_lifecycle_records := fst (update_where (cas_where q) (\<lambda>_. mr_record q) (sandbox_lifecycle_records db)),
                  sandbox_operation_dedupe := sandbox_operation_dedupe db @ [operation_entry q]\<rparr>"
    using a w by (auto simp: apply_new_operation [OF ok new] operation_entry_def)
  with new w show thesis by (rule that)
qed

lemma operation_entry_id [simp]: "od_operation_id (operation_entry q) = mr_operation_id q"
  by (simp add: operation_entry_def)

lemma apply_written:
  assumes ok: "sandbox_keys_ok db" and a: "apply_record_mutation q db = (Inr reply, db')"
    and fresh: "\<not> reply_reused reply"
  shows "\<exists>w. cas_applied q db w db'"
proof -
  obtain w where new: "stored_operation db (mr_operation_id q) = None"
    and w: "stored_record db (sb_sandbox_id (mr_record q)) = Some w" "cas_where q w"
    and db': "db' = db\<lparr>sandbox_lifecycle_records := fst (update_where (cas_where q) (\<lambda>_. mr_record q) (sandbox_lifecycle_records db)),
                  sandbox_operation_dedupe := sandbox_operation_dedupe db @ [operation_entry q]\<rparr>"
    by (rule apply_written_db [OF assms])
  have d: "distinct (map sb_sandbox_id (sandbox_lifecycle_records db))" using ok by (simp add: sandbox_keys_ok_def)
  have rec: "stored_record db' k = (if k = sb_sandbox_id (mr_record q) then Some (mr_record q) else stored_record db k)" for k
    using w cas_where_id records.sel_Some [of k]
    by (auto simp: db' records.sel_update [OF d] map_option_case split: option.splits)
  have keys: "sandbox_keys_ok db'"
    using ok new
    by (simp add: db' sandbox_keys_ok_def records.update_distinct cas_where_id operations.sel_None_iff)
  have op: "stored_operation db' k = (if k = mr_operation_id q then Some (operation_entry q) else stored_operation db k)" for k
    using operations.sel_append_new [of "operation_entry q" "sandbox_operation_dedupe db" k] new
    by (simp add: db')
  show ?thesis using new w rec op keys unfolding cas_applied_def by blast
qed

section \<open>Exactly once\<close>

text \<open>
  One call of a writing method of the repository, with any arguments and any outcome. The rows of
  \<open>sandbox_operation_dedupe\<close> are inserted and never changed or removed.
\<close>

inductive store_step ::
  "(SandboxLifecycleSnapshotRecord \<Rightarrow> 'p) \<Rightarrow> ('p \<Rightarrow> SandboxLifecycleSnapshotRecord result) \<Rightarrow>
   'p sandbox_db \<Rightarrow> 'p sandbox_db \<Rightarrow> bool"
  for dump :: "SandboxLifecycleSnapshotRecord \<Rightarrow> 'p" and load :: "'p \<Rightarrow> SandboxLifecycleSnapshotRecord result" where
  store_save_record: "store_step dump load db (save_record r db)"
| store_mutation: "store_step dump load db (snd (apply_record_mutation q db))"
| store_operation: "store_step dump load db (snd (remember_operation entry db))"
| store_approval: "store_step dump load db (save_approval approval db)"
| store_revocation: "store_step dump load db (snd (revoke_approval approval_id revoked_by revoked_at db))"
| store_event: "store_step dump load db (append_event event db)"
| store_snapshot: "store_step dump load db (snd (save_snapshot dump load snapshot db))"

lemma apply_keeps_operations:
  "\<exists>es. sandbox_operation_dedupe (snd (apply_record_mutation q db)) = sandbox_operation_dedupe db @ es"
  by (simp add: apply_record_mutation_def Let_def split_beta split: option.split)

lemma store_step_keeps_operations:
  "store_step dump load db db' \<Longrightarrow> \<exists>es. sandbox_operation_dedupe db' = sandbox_operation_dedupe db @ es"
proof (induction rule: store_step.induct)
  case (store_mutation db q)
  then show ?case by (rule apply_keeps_operations)
qed (simp_all add: save_record_def remember_operation_def save_approval_def revoke_approval_def append_event_def
      save_snapshot_def split_beta split: option.split)

lemma store_steps_keep_operation:
  assumes "(store_step dump load)\<^sup>*\<^sup>* db db'" and "stored_operation db k = Some e"
  shows "stored_operation db' k = Some e"
  using assms
proof (induction rule: rtranclp_induct)
  case (step db1 db2)
  then show ?case using store_step_keeps_operations [OF step(2)]
    by (auto simp: operations.sel_append)
qed

text \<open>With unique keys the fenced update hits exactly the row of the sandbox.\<close>

lemma cas_rows:
  assumes "distinct (map sb_sandbox_id rows)" and "select_record (sb_sandbox_id (mr_record q)) rows = Some w"
    and "cas_where q w"
  shows "fst (update_where (cas_where q) (\<lambda>_. mr_record q) rows) =
     map (\<lambda>v. if sb_sandbox_id v = sb_sandbox_id (mr_record q) then mr_record q else v) rows"
proof -
  have "cas_where q v \<longleftrightarrow> sb_sandbox_id v = sb_sandbox_id (mr_record q)" if "v \<in> set rows" for v
  proof
    assume "sb_sandbox_id v = sb_sandbox_id (mr_record q)"
    then have "v = w" using records.sel_distinct [OF assms(1) that] assms(2) by simp
    then show "cas_where q v" using assms(3) by simp
  qed (rule cas_where_id)
  then show ?thesis by (simp add: update_where_def)
qed

text \<open>
  C31: an applied mutation is fenced, writes exactly its record and its operation, and is never applied
  again. When keys are unique, as the primary keys make them, a mutation that is applied (not answered
  from the record of operations) found stored the record of its sandbox with the expected version
  (and the expected epoch, owner and cleanup state, where given) and no earlier operation of its id. The new
  database is the old one with that one row replaced by the record of the request and one row for
  the operation added to the operation table: the other records, the earlier operations, approvals,
  events and snapshots are untouched. And after whatever later calls of the repository, every request under the same
  operation id leaves the database unchanged, whatever else it asks.
\<close>

theorem applied_mutation_exactly_once:
  assumes "sandbox_keys_ok db" and "apply_record_mutation q db = (Inr reply, db')"
    and "\<not> reply_reused reply"
  shows "(\<exists>w. stored_record db (sb_sandbox_id (mr_record q)) = Some w \<and> cas_where q w) \<and>
    stored_operation db (mr_operation_id q) = None \<and>
    db' = db\<lparr>sandbox_lifecycle_records :=
               map (\<lambda>v. if sb_sandbox_id v = sb_sandbox_id (mr_record q) then mr_record q else v)
                 (sandbox_lifecycle_records db),
             sandbox_operation_dedupe := sandbox_operation_dedupe db @ [operation_entry q]\<rparr> \<and>
    (\<forall>q' db''. (store_step dump load)\<^sup>*\<^sup>* db' db'' \<and> mr_operation_id q' = mr_operation_id q \<longrightarrow>
       snd (apply_record_mutation q' db'') = db'')"
proof -
  obtain w where new: "stored_operation db (mr_operation_id q) = None"
    and w: "stored_record db (sb_sandbox_id (mr_record q)) = Some w" "cas_where q w"
    and db': "db' = db\<lparr>sandbox_lifecycle_records := fst (update_where (cas_where q) (\<lambda>_. mr_record q) (sandbox_lifecycle_records db)),
                  sandbox_operation_dedupe := sandbox_operation_dedupe db @ [operation_entry q]\<rparr>"
    by (rule apply_written_db [OF assms])
  have d: "distinct (map sb_sandbox_id (sandbox_lifecycle_records db))"
    using assms(1) by (simp add: sandbox_keys_ok_def)
  have known: "stored_operation db' (mr_operation_id q) = Some (operation_entry q)"
    using operations.sel_append_new [of "operation_entry q" "sandbox_operation_dedupe db" "mr_operation_id q"] new
    by (simp add: db')
  have "snd (apply_record_mutation q' db'') = db''"
    if "(store_step dump load)\<^sup>*\<^sup>* db' db''" and "mr_operation_id q' = mr_operation_id q" for q' db''
    using apply_known_operation [of q' db''] store_steps_keep_operation [OF that(1) known] that(2) by simp
  then show ?thesis using new w db' cas_rows [OF d w] by auto
qed

text \<open>A sandbox that finished, its cleanup scheduled, and a request to change it.\<close>

definition sample_sandbox :: "SandboxState \<Rightarrow> CleanupState \<Rightarrow> int \<Rightarrow> SandboxLifecycleRecord" where
  "sample_sandbox s c version =
     \<lparr>sb_schema_version = SANDBOX_LIFECYCLE_SCHEMA_VERSION, sb_policy_version = SANDBOX_LIFECYCLE_POLICY_VERSION,
      sb_sandbox_id = ''sb-1'', sb_compose_project = ''p'', sb_workspace_path = ''/w'', sb_run_id = Some ''run-1'',
      sb_session_id = None, sb_owner_instance_id = Some ''host-a'', sb_cleanup_owner_instance_id = None,
      sb_lease_epoch = 1, sb_lease_expires_at = Some ''t9'', sb_state = s, sb_cleanup_state = c,
      sb_record_version = version, sb_created_at = ''t0'', sb_last_heartbeat_at = None, sb_terminal_at = None,
      sb_terminal_reason = (if needs_reason s then Some TerminalReason.LEASE_EXPIRED else None),
      sb_cleanup_due_at = None, sb_cleanup_attempts = 0, sb_cleanup_last_error = None,
      sb_cleanup_failure_reason = None, sb_required_evidence_ref = None,
      sb_managed_resource_inventory = \<lparr>mri_containers = [], mri_networks = [], mri_managed_volumes = []\<rparr>,
      sb_requires_reconciliation = False, sb_docker_context = ''default'', sb_docker_host_id = ''h''\<rparr>"

definition sample_sandbox_db :: "SandboxState \<Rightarrow> CleanupState \<Rightarrow> int \<Rightarrow> unit sandbox_db" where
  "sample_sandbox_db s c version = save_record (sample_sandbox s c version) empty_sandbox_db"

definition sample_request :: "int \<Rightarrow> int \<Rightarrow> mutation_request" where
  "sample_request expected version =
     \<lparr>mr_operation_id = ''op-1'', mr_payload_hash = ''h-1'',
      mr_record = sample_sandbox SandboxState.TERMINAL CleanupState.SCHEDULED version,
      mr_expected_record_version = expected, mr_expected_lease_epoch = None,
      mr_expected_owner_instance_id = Some ''host-a'', mr_expected_cleanup_state = Some ''none''\<rparr>"

text \<open>The witness repeats the operation with another payload after the record was saved afresh.\<close>

theorem applied_mutation_exactly_once_witness:
  "let db = sample_sandbox_db SandboxState.TERMINAL CleanupState.NONE 4;
       (res, db') = apply_record_mutation (sample_request 4 5) db;
       db'' = save_record (sample_sandbox SandboxState.TERMINAL CleanupState.NONE 5) db'
   in sandbox_lifecycle_records db' = [mr_record (sample_request 4 5)] \<and>
      length (sandbox_operation_dedupe db') = 1 \<and>
      snd (apply_record_mutation (sample_request 5 6) db'') = db''"
proof -
  let ?db = "sample_sandbox_db SandboxState.TERMINAL CleanupState.NONE 4"
  let ?q = "sample_request 4 5"
  have op: "mr_operation_id (sample_request 5 6) = mr_operation_id ?q" by (simp add: sample_request_def)
  have ok: "sandbox_keys_ok ?db" by code_simp
  have "(case fst (apply_record_mutation ?q ?db) of Inr reply \<Rightarrow> \<not> reply_reused reply | Inl _ \<Rightarrow> False)"
    by code_simp
  then obtain reply db' where a: "apply_record_mutation ?q ?db = (Inr reply, db')" "\<not> reply_reused reply"
    by (cases "apply_record_mutation ?q ?db") (auto split: sum.splits)
  define r where "r = sample_sandbox SandboxState.TERMINAL CleanupState.NONE 5"
  have "(store_step (\<lambda>_. ()) (\<lambda>_. Inl (ValueError ''no snapshot'')))\<^sup>*\<^sup>* db' (save_record r db')"
    by (intro r_into_rtranclp store_save_record)
  with applied_mutation_exactly_once [OF ok a] op
  have "snd (apply_record_mutation (sample_request 5 6) (save_record r db')) = save_record r db'" by blast
  moreover have "sandbox_lifecycle_records db' = [mr_record ?q] \<and> length (sandbox_operation_dedupe db') = 1"
    using applied_mutation_exactly_once [OF ok a]
    by (simp add: sample_sandbox_db_def save_record_def insert_or_replace_def empty_sandbox_db_def
        sample_request_def sample_sandbox_def)
  ultimately show ?thesis using a by (simp add: r_def)
qed

text \<open>
  A request that lost the race is refused and changes nothing: when the operation is new and the
  stored version is not the expected one, or there is no such sandbox, the answer is a conflict.
\<close>

lemma stale_mutation_refused:
  assumes "sandbox_keys_ok db" and "stored_operation db (mr_operation_id q) = None"
    and "map_option sb_record_version (stored_record db (sb_sandbox_id (mr_record q))) \<noteq>
         Some (mr_expected_record_version q)"
  shows "apply_record_mutation q db =
    (Inl (SandboxLifecycleConflictError (''CAS update rejected for sandbox_id '' @
       sb_sandbox_id (mr_record q) @ ''.'')), db)"
  using assms by (auto simp: apply_new_operation cas_where_def split: option.split)

text \<open>
  An operation id binds one payload: a request that reuses a recorded operation id with another
  payload hash is refused as an integrity violation, and one with the same hash gets the recorded
  result and the current record, without a write.
\<close>

lemma operation_id_binds_payload:
  assumes "stored_operation db (mr_operation_id q) = Some e"
    and "json_get (od_result_payload e) ''sandbox_id'' = JStr sid" and "sid \<noteq> []"
    and "stored_record db sid = Some r" and "SandboxLifecycleRecord_init r = Inr r"
  shows "apply_record_mutation q db =
    (if od_payload_hash e = mr_payload_hash q
     then (Inr \<lparr>reply_reused = True, reply_result = od_result_payload e, reply_record = r\<rparr>, db)
     else (Inl (SandboxOperationIntegrityError (''operation_id '' @ mr_operation_id q @
             '' reused with different payload hash.'')), db))"
  using assms by (simp add: apply_record_mutation_def Let_def py_str_json_def)


end
