(* ===== verification/Sandbox_Mutations.thy ===== *)
theory Sandbox_Mutations
  imports Sandbox_Store
begin

text \<open>
  The mutation boundary of sandbox lifecycle authority
  (\<open>orket/application/services/sandbox_lifecycle_mutation_service.py\<close>).

  Each method reads the current record, decides on a request and hands it to
  \<open>apply_record_mutation\<close>. The decision is a pure function of the arguments and the record read
  (\<open>transition_plan\<close> and its siblings); the method is the sequence of the three. Reading and applying
  are two transactions, so that calls interleave between them: \<open>sb_step\<close> is the relation of the
  interleaved system, whose configurations hold the database and the requests in flight.

  The interface \<open>optimistic_service\<close> states what the decisions promise (the record of the request is
  the next version of the record read); under it, a request that is applied had decided on the very
  record it replaces, so that interleaved calls have the effect of calls run one at a time.

  \<open>sha256\<close> is a parameter, as a function from texts to hexadecimal digests.
\<close>

section \<open>Decisions\<close>

record transition_args =
  ta_sandbox_id :: string
  ta_operation_id :: string
  ta_expected_record_version :: int
  ta_event :: LifecycleEvent
  ta_next_state :: SandboxState
  ta_terminal_reason :: "TerminalReason option"
  ta_cleanup_state :: "CleanupState option"
  ta_expected_owner_instance_id :: "string option"
  ta_expected_lease_epoch :: "int option"
  ta_next_owner_instance_id :: "string option"
  ta_next_lease_epoch :: "int option"
  ta_terminal_at :: "string option"
  ta_cleanup_due_at :: "string option"

record renew_args =
  ra_sandbox_id :: string
  ra_operation_id :: string
  ra_expected_record_version :: int
  ra_expected_owner_instance_id :: string
  ra_expected_lease_epoch :: int
  ra_last_heartbeat_at :: string
  ra_lease_expires_at :: string

record claim_args =
  ca_sandbox_id :: string
  ca_operation_id :: string
  ca_claimant_id :: string
  ca_expected_record_version :: int

record flag_args =
  fa_sandbox_id :: string
  fa_operation_id :: string
  fa_expected_record_version :: int
  fa_reason :: string
  fa_requires_reconciliation :: bool

record reacquire_args =
  qa_sandbox_id :: string
  qa_operation_id :: string
  qa_expected_record_version :: int
  qa_next_owner_instance_id :: string
  qa_next_lease_epoch :: int
  qa_last_heartbeat_at :: string
  qa_lease_expires_at :: string

definition payload_hash :: "(string \<Rightarrow> string) \<Rightarrow> (string \<times> json) list \<Rightarrow> string" where
  "payload_hash sha256 payload = sha256 (json_dumps True (JObj payload))"

definition ensure_not_reconciliation_blocked :: "SandboxLifecycleRecord \<Rightarrow> unit result" where
  "ensure_not_reconciliation_blocked r =
     (if sb_requires_reconciliation r
      then Inl (SandboxLifecycleError ''Sandbox lifecycle mutation blocked while requires_reconciliation=true.'')
      else Inr ())"

definition assert_fence ::
  "SandboxLifecycleRecord \<Rightarrow> int \<Rightarrow> string option \<Rightarrow> int option \<Rightarrow> unit result" where
  "assert_fence current expected_record_version expected_owner_instance_id expected_lease_epoch =
     (case (expected_owner_instance_id, expected_lease_epoch) of
        (Some u, Some e) \<Rightarrow>
          bind_result (assert_lifecycle_fence u (str_or (sb_owner_instance_id current) []) e
            (sb_lease_epoch current) expected_record_version (sb_record_version current)) (\<lambda>_. Inr ())
      | _ \<Rightarrow>
          if sb_record_version current \<noteq> expected_record_version
          then Inl (SandboxLifecycleError ''Record version mismatch rejected by lifecycle fence.'')
          else Inr ())"

definition or_else :: "'a option \<Rightarrow> 'a \<Rightarrow> 'a" where
  "or_else x d = (case x of None \<Rightarrow> d | Some y \<Rightarrow> y)"

definition or_keep :: "'a option \<Rightarrow> 'a option \<Rightarrow> 'a option" where
  "or_keep x y = (if x \<noteq> None then x else y)"

definition transition_plan :: "(string \<Rightarrow> string) \<Rightarrow> transition_args \<Rightarrow> SandboxLifecycleRecord \<Rightarrow> mutation_request result" where
  "transition_plan sha256 a current =
     bind_result (ensure_not_reconciliation_blocked current) (\<lambda>_.
     bind_result (assert_fence current (ta_expected_record_version a) (ta_expected_owner_instance_id a)
       (ta_expected_lease_epoch a)) (\<lambda>_.
     bind_result (validate_lifecycle_transition (sb_state current) (ta_event a) (ta_next_state a)
       (ta_terminal_reason a) (ta_cleanup_state a)) (\<lambda>_.
     if ta_event a = LifecycleEvent.OWNERSHIP_REACQUIRED \<and>
        (case ta_next_lease_epoch a of None \<Rightarrow> True | Some e \<Rightarrow> e \<le> sb_lease_epoch current)
     then Inl (SandboxLifecycleError ''Ownership reacquisition requires a strictly newer lease epoch.'')
     else Inr
       \<lparr>mr_operation_id = ta_operation_id a,
        mr_payload_hash = payload_hash sha256
          [(''sandbox_id'', JStr (ta_sandbox_id a)),
           (''event'', JStr (LifecycleEvent_value (ta_event a))),
           (''next_state'', JStr (SandboxState_value (ta_next_state a))),
           (''terminal_reason'', json_opt_str (map_option TerminalReason_value (ta_terminal_reason a))),
           (''cleanup_state'', json_opt_str (map_option CleanupState_value (ta_cleanup_state a))),
           (''expected_record_version'', JInt (ta_expected_record_version a)),
           (''expected_owner_instance_id'', json_opt_str (ta_expected_owner_instance_id a)),
           (''expected_lease_epoch'', json_opt_int (ta_expected_lease_epoch a)),
           (''next_owner_instance_id'', json_opt_str (ta_next_owner_instance_id a)),
           (''next_lease_epoch'', json_opt_int (ta_next_lease_epoch a)),
           (''terminal_at'', json_opt_str (ta_terminal_at a)),
           (''cleanup_due_at'', json_opt_str (ta_cleanup_due_at a))],
        mr_record = current\<lparr>
          sb_state := ta_next_state a,
          sb_cleanup_state := or_else (ta_cleanup_state a) (sb_cleanup_state current),
          sb_terminal_reason := or_keep (ta_terminal_reason a) (sb_terminal_reason current),
          sb_owner_instance_id := or_keep (ta_next_owner_instance_id a) (sb_owner_instance_id current),
          sb_lease_epoch := or_else (ta_next_lease_epoch a) (sb_lease_epoch current),
          sb_terminal_at := or_keep (ta_terminal_at a) (sb_terminal_at current),
          sb_cleanup_due_at := or_keep (ta_cleanup_due_at a) (sb_cleanup_due_at current),
          sb_record_version := sb_record_version current + 1\<rparr>,
        mr_expected_record_version = ta_expected_record_version a,
        mr_expected_lease_epoch = ta_expected_lease_epoch a,
        mr_expected_owner_instance_id = ta_expected_owner_instance_id a,
        mr_expected_cleanup_state =
          (if ta_cleanup_state a \<noteq> None then Some (CleanupState_value (sb_cleanup_state current)) else None)\<rparr>)))"

definition renew_plan :: "(string \<Rightarrow> string) \<Rightarrow> renew_args \<Rightarrow> SandboxLifecycleRecord \<Rightarrow> mutation_request result" where
  "renew_plan sha256 a current =
     bind_result (assert_fence current (ra_expected_record_version a) (Some (ra_expected_owner_instance_id a))
       (Some (ra_expected_lease_epoch a))) (\<lambda>_. Inr
       \<lparr>mr_operation_id = ra_operation_id a,
        mr_payload_hash = payload_hash sha256
          [(''sandbox_id'', JStr (ra_sandbox_id a)),
           (''expected_record_version'', JInt (ra_expected_record_version a)),
           (''expected_owner_instance_id'', JStr (ra_expected_owner_instance_id a)),
           (''expected_lease_epoch'', JInt (ra_expected_lease_epoch a)),
           (''last_heartbeat_at'', JStr (ra_last_heartbeat_at a)),
           (''lease_expires_at'', JStr (ra_lease_expires_at a))],
        mr_record = current\<lparr>
          sb_last_heartbeat_at := Some (ra_last_heartbeat_at a),
          sb_lease_expires_at := Some (ra_lease_expires_at a),
          sb_record_version := sb_record_version current + 1\<rparr>,
        mr_expected_record_version = ra_expected_record_version a,
        mr_expected_lease_epoch = Some (ra_expected_lease_epoch a),
        mr_expected_owner_instance_id = Some (ra_expected_owner_instance_id a),
        mr_expected_cleanup_state = None\<rparr>)"

definition claim_plan :: "(string \<Rightarrow> string) \<Rightarrow> claim_args \<Rightarrow> SandboxLifecycleRecord \<Rightarrow> mutation_request result" where
  "claim_plan sha256 a current =
     bind_result (ensure_not_reconciliation_blocked current) (\<lambda>_.
     if sb_state current \<notin> {SandboxState.TERMINAL, SandboxState.ORPHANED}
     then Inl (SandboxLifecycleError ''Cleanup claims require terminal or orphaned lifecycle state.'')
     else bind_result (validate_cleanup_state_transition (sb_cleanup_state current) CleanupState.IN_PROGRESS) (\<lambda>_. Inr
       \<lparr>mr_operation_id = ca_operation_id a,
        mr_payload_hash = payload_hash sha256
          [(''sandbox_id'', JStr (ca_sandbox_id a)),
           (''claimant_id'', JStr (ca_claimant_id a)),
           (''expected_record_version'', JInt (ca_expected_record_version a))],
        mr_record = current\<lparr>
          sb_cleanup_state := CleanupState.IN_PROGRESS,
          sb_cleanup_owner_instance_id := Some (ca_claimant_id a),
          sb_record_version := sb_record_version current + 1\<rparr>,
        mr_expected_record_version = ca_expected_record_version a,
        mr_expected_lease_epoch = None,
        mr_expected_owner_instance_id = None,
        mr_expected_cleanup_state = Some (CleanupState_value (sb_cleanup_state current))\<rparr>))"

definition flag_plan :: "(string \<Rightarrow> string) \<Rightarrow> flag_args \<Rightarrow> SandboxLifecycleRecord \<Rightarrow> mutation_request result" where
  "flag_plan sha256 a current = Inr
     \<lparr>mr_operation_id = fa_operation_id a,
      mr_payload_hash = payload_hash sha256
        [(''sandbox_id'', JStr (fa_sandbox_id a)),
         (''expected_record_version'', JInt (fa_expected_record_version a)),
         (''requires_reconciliation'', JBool (fa_requires_reconciliation a)),
         (''reason'', JStr (fa_reason a))],
      mr_record = current\<lparr>
        sb_requires_reconciliation := fa_requires_reconciliation a,
        sb_cleanup_failure_reason :=
          (if fa_requires_reconciliation a then Some (fa_reason a) else sb_cleanup_failure_reason current),
        sb_record_version := sb_record_version current + 1\<rparr>,
      mr_expected_record_version = fa_expected_record_version a,
      mr_expected_lease_epoch = None,
      mr_expected_owner_instance_id = None,
      mr_expected_cleanup_state = None\<rparr>"

definition reacquire_plan :: "(string \<Rightarrow> string) \<Rightarrow> reacquire_args \<Rightarrow> SandboxLifecycleRecord \<Rightarrow> mutation_request result" where
  "reacquire_plan sha256 a current =
     bind_result (ensure_not_reconciliation_blocked current) (\<lambda>_.
     bind_result (assert_fence current (qa_expected_record_version a) None None) (\<lambda>_.
     bind_result (validate_lifecycle_transition (sb_state current) LifecycleEvent.OWNERSHIP_REACQUIRED
       SandboxState.ACTIVE None None) (\<lambda>_.
     if qa_next_lease_epoch a \<le> sb_lease_epoch current
     then Inl (SandboxLifecycleError ''Ownership reacquisition requires a strictly newer lease epoch.'')
     else Inr
       \<lparr>mr_operation_id = qa_operation_id a,
        mr_payload_hash = payload_hash sha256
          [(''sandbox_id'', JStr (qa_sandbox_id a)),
           (''expected_record_version'', JInt (qa_expected_record_version a)),
           (''next_owner_instance_id'', JStr (qa_next_owner_instance_id a)),
           (''next_lease_epoch'', JInt (qa_next_lease_epoch a)),
           (''last_heartbeat_at'', JStr (qa_last_heartbeat_at a)),
           (''lease_expires_at'', JStr (qa_lease_expires_at a))],
        mr_record = current\<lparr>
          sb_state := SandboxState.ACTIVE,
          sb_cleanup_state := CleanupState.NONE,
          sb_owner_instance_id := Some (qa_next_owner_instance_id a),
          sb_cleanup_owner_instance_id := None,
          sb_lease_epoch := qa_next_lease_epoch a,
          sb_lease_expires_at := Some (qa_lease_expires_at a),
          sb_last_heartbeat_at := Some (qa_last_heartbeat_at a),
          sb_terminal_reason := None,
          sb_terminal_at := None,
          sb_cleanup_due_at := None,
          sb_cleanup_last_error := None,
          sb_cleanup_failure_reason := None,
          sb_required_evidence_ref := None,
          sb_record_version := sb_record_version current + 1\<rparr>,
        mr_expected_record_version = qa_expected_record_version a,
        mr_expected_lease_epoch = None,
        mr_expected_owner_instance_id = None,
        mr_expected_cleanup_state = None\<rparr>)))"

section \<open>Calls\<close>

record SandboxLifecycleMutationResult =
  mut_record :: SandboxLifecycleRecord
  mut_reused :: bool

definition require_record :: "string \<Rightarrow> 'p sandbox_db \<Rightarrow> SandboxLifecycleRecord result" where
  "require_record sandbox_id db =
     bind_result (get_record sandbox_id db) (\<lambda>record.
       case record of
         None \<Rightarrow> Inl (SandboxLifecycleError (''Sandbox lifecycle record not found: '' @ sandbox_id @ ''.''))
       | Some r \<Rightarrow> Inr r)"

text \<open>
  The tail of every method: apply the request, take the record of the reply. The repository's reply
  always carries a record, so \<open>_mutation_record\<close> never raises.
\<close>

definition apply_mutation :: "mutation_request \<Rightarrow> ('p sandbox_db, SandboxLifecycleMutationResult) eff" where
  "apply_mutation q =
     bind_eff (apply_record_mutation q) (\<lambda>reply.
       lift_result (Inr \<lparr>mut_record = reply_record reply, mut_reused = reply_reused reply\<rparr>))"

definition transition_state ::
  "(string \<Rightarrow> string) \<Rightarrow> transition_args \<Rightarrow> ('p sandbox_db, SandboxLifecycleMutationResult) eff" where
  "transition_state sha256 a =
     bind_eff (read_eff (require_record (ta_sandbox_id a))) (\<lambda>current.
       bind_eff (lift_result (transition_plan sha256 a current)) apply_mutation)"

definition renew_lease ::
  "(string \<Rightarrow> string) \<Rightarrow> renew_args \<Rightarrow> ('p sandbox_db, SandboxLifecycleMutationResult) eff" where
  "renew_lease sha256 a =
     bind_eff (read_eff (require_record (ra_sandbox_id a))) (\<lambda>current.
       bind_eff (lift_result (renew_plan sha256 a current)) apply_mutation)"

definition claim_cleanup ::
  "(string \<Rightarrow> string) \<Rightarrow> claim_args \<Rightarrow> ('p sandbox_db, SandboxLifecycleMutationResult) eff" where
  "claim_cleanup sha256 a =
     bind_eff (read_eff (require_record (ca_sandbox_id a))) (\<lambda>current.
       bind_eff (lift_result (claim_plan sha256 a current)) apply_mutation)"

definition set_requires_reconciliation ::
  "(string \<Rightarrow> string) \<Rightarrow> flag_args \<Rightarrow> ('p sandbox_db, SandboxLifecycleMutationResult) eff" where
  "set_requires_reconciliation sha256 a =
     bind_eff (read_eff (require_record (fa_sandbox_id a))) (\<lambda>current.
       bind_eff (lift_result (flag_plan sha256 a current)) apply_mutation)"

definition reacquire_ownership ::
  "(string \<Rightarrow> string) \<Rightarrow> reacquire_args \<Rightarrow> ('p sandbox_db, SandboxLifecycleMutationResult) eff" where
  "reacquire_ownership sha256 a =
     bind_eff (read_eff (require_record (qa_sandbox_id a))) (\<lambda>current.
       bind_eff (lift_result (reacquire_plan sha256 a current)) apply_mutation)"

datatype sandbox_call =
    TransitionState transition_args
  | RenewLease renew_args
  | ClaimCleanup claim_args
  | SetRequiresReconciliation flag_args
  | ReacquireOwnership reacquire_args

primrec call_sandbox_id :: "sandbox_call \<Rightarrow> string" where
  "call_sandbox_id (TransitionState a) = ta_sandbox_id a"
| "call_sandbox_id (RenewLease a) = ra_sandbox_id a"
| "call_sandbox_id (ClaimCleanup a) = ca_sandbox_id a"
| "call_sandbox_id (SetRequiresReconciliation a) = fa_sandbox_id a"
| "call_sandbox_id (ReacquireOwnership a) = qa_sandbox_id a"

primrec call_operation_id :: "sandbox_call \<Rightarrow> string" where
  "call_operation_id (TransitionState a) = ta_operation_id a"
| "call_operation_id (RenewLease a) = ra_operation_id a"
| "call_operation_id (ClaimCleanup a) = ca_operation_id a"
| "call_operation_id (SetRequiresReconciliation a) = fa_operation_id a"
| "call_operation_id (ReacquireOwnership a) = qa_operation_id a"

primrec call_expected_version :: "sandbox_call \<Rightarrow> int" where
  "call_expected_version (TransitionState a) = ta_expected_record_version a"
| "call_expected_version (RenewLease a) = ra_expected_record_version a"
| "call_expected_version (ClaimCleanup a) = ca_expected_record_version a"
| "call_expected_version (SetRequiresReconciliation a) = fa_expected_record_version a"
| "call_expected_version (ReacquireOwnership a) = qa_expected_record_version a"

primrec call_plan :: "(string \<Rightarrow> string) \<Rightarrow> sandbox_call \<Rightarrow> SandboxLifecycleRecord \<Rightarrow> mutation_request result" where
  "call_plan sha256 (TransitionState a) = transition_plan sha256 a"
| "call_plan sha256 (RenewLease a) = renew_plan sha256 a"
| "call_plan sha256 (ClaimCleanup a) = claim_plan sha256 a"
| "call_plan sha256 (SetRequiresReconciliation a) = flag_plan sha256 a"
| "call_plan sha256 (ReacquireOwnership a) = reacquire_plan sha256 a"

primrec run_call :: "(string \<Rightarrow> string) \<Rightarrow> sandbox_call \<Rightarrow> ('p sandbox_db, SandboxLifecycleMutationResult) eff" where
  "run_call sha256 (TransitionState a) = transition_state sha256 a"
| "run_call sha256 (RenewLease a) = renew_lease sha256 a"
| "run_call sha256 (ClaimCleanup a) = claim_cleanup sha256 a"
| "run_call sha256 (SetRequiresReconciliation a) = set_requires_reconciliation sha256 a"
| "run_call sha256 (ReacquireOwnership a) = reacquire_ownership sha256 a"

section \<open>Interleaved calls\<close>

text \<open>
  A configuration is the database and the requests in flight, each with its call and the record the
  call read. The relation is narrower than the code in two ways. A call begins with a version its caller has
  seen, so not one above the version it reads: \<open>transition_state\<close>, \<open>renew_lease\<close> and \<open>reacquire_ownership\<close>
  refuse another version themselves, while \<open>claim_cleanup\<close> and \<open>set_requires_reconciliation\<close> would carry
  a guessed later version into the request. And a record is created for a sandbox that has none,
  although \<open>save_record\<close> would replace a stored one. A request commits at any later moment.
\<close>

type_synonym 'c in_flight = "'c \<times> SandboxLifecycleRecord \<times> mutation_request"

inductive sb_step ::
  "('c \<Rightarrow> SandboxLifecycleRecord \<Rightarrow> mutation_request result) \<Rightarrow> ('c \<Rightarrow> string) \<Rightarrow> ('c \<Rightarrow> int) \<Rightarrow>
   'p sandbox_db \<times> 'c in_flight set \<Rightarrow> 'p sandbox_db \<times> 'c in_flight set \<Rightarrow> bool"
  for plan sid expected where
  begin_call: "require_record (sid c) db = Inr current \<Longrightarrow> expected c \<le> sb_record_version current \<Longrightarrow>
     plan c current = Inr q \<Longrightarrow> sb_step plan sid expected (db, P) (db, insert (c, current, q) P)"
| commit_call: "(c, current, q) \<in> P \<Longrightarrow> apply_record_mutation q db = (res, db') \<Longrightarrow>
     sb_step plan sid expected (db, P) (db', P - {(c, current, q)})"
| create: "stored_record db (sb_sandbox_id r) = None \<Longrightarrow> SandboxLifecycleRecord_init r = Inr r \<Longrightarrow>
     sb_step plan sid expected (db, P) (save_record r db, P)"

lemma require_record_Inr_iff:
  "require_record k db = Inr r \<longleftrightarrow> stored_record db k = Some r \<and> SandboxLifecycleRecord_init r = Inr r"
proof -
  have "require_record k db = Inr r \<longleftrightarrow> get_record k db = Inr (Some r)"
    by (auto simp: require_record_def bind_result_Inr_iff split: option.splits)
  then show ?thesis by (simp add: get_record_Some_iff)
qed

lemma apply_record_mutation_cases:
  assumes "sandbox_keys_ok db" and "apply_record_mutation q db = (res, db')"
  shows "db' = db \<or> (\<exists>w. cas_applied q db w db')"
  using assms apply_error [of q db] apply_reused [of q db] apply_written [of db q]
  by (cases res) blast+

lemma save_record_new:
  assumes "stored_record db (sb_sandbox_id r) = None" and "sandbox_keys_ok db"
  shows "sandbox_keys_ok (save_record r db)"
    and "stored_record (save_record r db) k = (if k = sb_sandbox_id r then Some r else stored_record db k)"
  using assms records.put_distinct [of "sandbox_lifecycle_records db" r]
  by (auto simp: save_record_def sandbox_keys_ok_def records.sel_put)

locale optimistic_service =
  fixes plan :: "'c \<Rightarrow> SandboxLifecycleRecord \<Rightarrow> mutation_request result"
    and sid :: "'c \<Rightarrow> string"
    and expected :: "'c \<Rightarrow> int"
  assumes plan_sandbox: "plan c r = Inr q \<Longrightarrow> sb_sandbox_id (mr_record q) = sb_sandbox_id r"
    and plan_version: "plan c r = Inr q \<Longrightarrow> sb_record_version (mr_record q) = sb_record_version r + 1"
    and plan_expected: "plan c r = Inr q \<Longrightarrow> mr_expected_record_version q = expected c"
begin

text \<open>A request in flight decided on a record that is stored still, or has been replaced since.\<close>

definition decided_on :: "'p sandbox_db \<Rightarrow> 'c in_flight \<Rightarrow> bool" where
  "decided_on db f = (case f of (c, current, q) \<Rightarrow>
     plan c current = Inr q \<and> expected c \<le> sb_record_version current \<and> sb_sandbox_id current = sid c \<and>
     SandboxLifecycleRecord_init current = Inr current \<and>
     (\<exists>w. stored_record db (sid c) = Some w \<and> sb_record_version current \<le> sb_record_version w \<and>
        (sb_record_version w = sb_record_version current \<longrightarrow> w = current)))"

definition config_ok :: "'p sandbox_db \<times> 'c in_flight set \<Rightarrow> bool" where
  "config_ok cfg = (sandbox_keys_ok (fst cfg) \<and> Ball (snd cfg) (decided_on (fst cfg)))"

lemma applied_on_current:
  assumes "decided_on db (c, current, q)" and "cas_applied q db w db'"
  shows "w = current \<and> sb_sandbox_id (mr_record q) = sid c \<and> sb_record_version (mr_record q) = sb_record_version w + 1"
  using assms plan_sandbox [of c current q] plan_version [of c current q] plan_expected [of c current q]
  by (auto simp: decided_on_def cas_applied_def cas_where_def)

lemma decided_on_applied:
  assumes f: "decided_on db f" and g: "decided_on db (c, current, q)" and a: "cas_applied q db w db'"
  shows "decided_on db' f"
proof -
  obtain c' current' q' where eq: "f = (c', current', q')" by (cases f)
  have w: "sb_sandbox_id (mr_record q) = sid c" "sb_record_version (mr_record q) = sb_record_version w + 1"
    using applied_on_current [OF g a] by auto
  have st: "stored_record db (sid c) = Some w"
    and st': "stored_record db' k = (if k = sid c then Some (mr_record q) else stored_record db k)" for k
    using a w(1) by (simp_all add: cas_applied_def)
  show ?thesis using f st w(2) by (cases "sid c' = sid c") (auto simp: eq decided_on_def st')
qed

lemma decided_on_created:
  assumes "decided_on db f" and "stored_record db (sb_sandbox_id r) = None" and "sandbox_keys_ok db"
  shows "decided_on (save_record r db) f"
  using assms(1) by (auto simp: decided_on_def save_record_new(2) [OF assms(2,3)] assms(2) split: prod.splits)

lemma step_config_ok:
  assumes s: "sb_step plan sid expected (db, P) (db', P')" and ok: "config_ok (db, P)"
  shows "config_ok (db', P')"
  using s
proof cases
  case (begin_call c current q)
  then have "stored_record db (sid c) = Some current" "SandboxLifecycleRecord_init current = Inr current"
    by (simp_all add: require_record_Inr_iff)
  moreover from this have "sb_sandbox_id current = sid c" using records.sel_Some by blast
  ultimately have "decided_on db (c, current, q)" using begin_call by (simp add: decided_on_def)
  then show ?thesis using ok begin_call by (simp add: config_ok_def)
next
  case (commit_call c current q res)
  have keys: "sandbox_keys_ok db" and dec: "decided_on db f" if "f \<in> P" for f
    using ok that by (auto simp: config_ok_def)
  from apply_record_mutation_cases [OF keys [OF commit_call(2)] commit_call(3)] show ?thesis
  proof
    assume "db' = db"
    then show ?thesis using ok commit_call by (simp add: config_ok_def)
  next
    assume "\<exists>w. cas_applied q db w db'"
    then obtain w where w: "cas_applied q db w db'" by blast
    have "decided_on db' f" if "f \<in> P" for f
      by (rule decided_on_applied [OF dec [OF that] dec [OF commit_call(2)] w])
    then show ?thesis using w commit_call by (simp add: config_ok_def cas_applied_def)
  qed
next
  case (create r)
  then show ?thesis using ok decided_on_created [of db _ r] save_record_new(1) [of r db]
    by (auto simp: config_ok_def)
qed

lemma reachable_config_ok:
  assumes "(sb_step plan sid expected)\<^sup>*\<^sup>* (empty_sandbox_db, {}) cfg"
  shows "config_ok cfg"
  using assms
proof (induction rule: rtranclp_induct)
  case base
  then show ?case by (simp add: config_ok_def sandbox_keys_ok_def empty_sandbox_db_def)
next
  case (step y z)
  then show ?case using step_config_ok by (cases y; cases z) blast
qed

lemma step_versions:
  assumes s: "sb_step plan sid expected (db, P) (db', P')" and ok: "config_ok (db, P)"
    and st: "stored_record db k = Some w"
  shows "\<exists>w'. stored_record db' k = Some w' \<and> (w' = w \<or> sb_record_version w' = sb_record_version w + 1)"
  using s
proof cases
  case (commit_call c current q res)
  have keys: "sandbox_keys_ok db" and dec: "decided_on db (c, current, q)"
    using ok commit_call(2) by (auto simp: config_ok_def)
  from apply_record_mutation_cases [OF keys commit_call(3)] show ?thesis
  proof
    assume "\<exists>w. cas_applied q db w db'"
    then obtain v where v: "cas_applied q db v db'" by blast
    show ?thesis
    proof (cases "k = sid c")
      case True
      then show ?thesis using v st applied_on_current [OF dec v] by (simp add: cas_applied_def)
    next
      case False
      then show ?thesis using v st applied_on_current [OF dec v] by (simp add: cas_applied_def)
    qed
  qed (use st in simp)
next
  case (create r)
  then show ?thesis using st ok save_record_new(2) [of r db] by (auto simp: config_ok_def)
qed (use st in auto)

lemma commit_on_current:
  assumes "(sb_step plan sid expected)\<^sup>*\<^sup>* (empty_sandbox_db, {}) (db, P)" and "(c, current, q) \<in> P"
    and "apply_record_mutation q db = (Inr reply, db')" and "\<not> reply_reused reply"
  shows "require_record (sid c) db = Inr current \<and> plan c current = Inr q"
proof -
  have ok: "sandbox_keys_ok db" "decided_on db (c, current, q)"
    using reachable_config_ok [OF assms(1)] assms(2) by (auto simp: config_ok_def)
  obtain w where w: "cas_applied q db w db'" using apply_written [OF ok(1) assms(3,4)] by blast
  show ?thesis using applied_on_current [OF ok(2) w] w ok(2)
    by (auto simp: require_record_Inr_iff decided_on_def cas_applied_def)
qed

end

section \<open>The decisions keep the contract\<close>

lemmas plan_defs = transition_plan_def renew_plan_def claim_plan_def flag_plan_def reacquire_plan_def

lemma transition_plan_Inr:
  assumes "transition_plan sha256 a r = Inr q"
  shows "\<not> sb_requires_reconciliation r"
    and "validate_lifecycle_transition (sb_state r) (ta_event a) (ta_next_state a)
           (ta_terminal_reason a) (ta_cleanup_state a) = Inr True"
    and "sb_record_version r = ta_expected_record_version a"
    and "ta_event a = LifecycleEvent.OWNERSHIP_REACQUIRED \<Longrightarrow>
           \<exists>e. ta_next_lease_epoch a = Some e \<and> sb_lease_epoch r < e"
proof -
  show v: "validate_lifecycle_transition (sb_state r) (ta_event a) (ta_next_state a)
           (ta_terminal_reason a) (ta_cleanup_state a) = Inr True"
    using assms by (auto simp: transition_plan_def bind_result_Inr_iff validate_lifecycle_transition_Inr_iff)
  show "\<not> sb_requires_reconciliation r"
    using assms by (auto simp: transition_plan_def bind_result_Inr_iff ensure_not_reconciliation_blocked_def split: if_splits)
  show "sb_record_version r = ta_expected_record_version a"
    using assms by (auto simp: transition_plan_def bind_result_Inr_iff assert_fence_def
        assert_lifecycle_fence_def split: if_splits option.splits)
  show "\<exists>e. ta_next_lease_epoch a = Some e \<and> sb_lease_epoch r < e"
    if "ta_event a = LifecycleEvent.OWNERSHIP_REACQUIRED"
    using assms that by (auto simp: transition_plan_def bind_result_Inr_iff split: if_splits option.splits)
qed

lemma plan_record_simps:
  "transition_plan sha256 a r = Inr q \<Longrightarrow> mr_record q = r\<lparr>
          sb_state := ta_next_state a,
          sb_cleanup_state := or_else (ta_cleanup_state a) (sb_cleanup_state r),
          sb_terminal_reason := or_keep (ta_terminal_reason a) (sb_terminal_reason r),
          sb_owner_instance_id := or_keep (ta_next_owner_instance_id a) (sb_owner_instance_id r),
          sb_lease_epoch := or_else (ta_next_lease_epoch a) (sb_lease_epoch r),
          sb_terminal_at := or_keep (ta_terminal_at a) (sb_terminal_at r),
          sb_cleanup_due_at := or_keep (ta_cleanup_due_at a) (sb_cleanup_due_at r),
          sb_record_version := sb_record_version r + 1\<rparr> \<and>
     mr_operation_id q = ta_operation_id a \<and> mr_expected_record_version q = ta_expected_record_version a"
  "renew_plan sha256 b r = Inr q \<Longrightarrow> mr_record q = r\<lparr>
          sb_last_heartbeat_at := Some (ra_last_heartbeat_at b),
          sb_lease_expires_at := Some (ra_lease_expires_at b),
          sb_record_version := sb_record_version r + 1\<rparr> \<and>
     mr_operation_id q = ra_operation_id b \<and> mr_expected_record_version q = ra_expected_record_version b"
  "claim_plan sha256 c r = Inr q \<Longrightarrow> mr_record q = r\<lparr>
          sb_cleanup_state := CleanupState.IN_PROGRESS,
          sb_cleanup_owner_instance_id := Some (ca_claimant_id c),
          sb_record_version := sb_record_version r + 1\<rparr> \<and>
     mr_operation_id q = ca_operation_id c \<and> mr_expected_record_version q = ca_expected_record_version c"
  "flag_plan sha256 d r = Inr q \<Longrightarrow> mr_record q = r\<lparr>
        sb_requires_reconciliation := fa_requires_reconciliation d,
        sb_cleanup_failure_reason :=
          (if fa_requires_reconciliation d then Some (fa_reason d) else sb_cleanup_failure_reason r),
        sb_record_version := sb_record_version r + 1\<rparr> \<and>
     mr_operation_id q = fa_operation_id d \<and> mr_expected_record_version q = fa_expected_record_version d"
  by (auto simp: plan_defs bind_result_Inr_iff split: if_splits)

lemma reacquire_plan_record:
  assumes "reacquire_plan sha256 a r = Inr q"
  shows "sb_sandbox_id (mr_record q) = sb_sandbox_id r \<and> sb_record_version (mr_record q) = sb_record_version r + 1 \<and>
     mr_operation_id q = qa_operation_id a \<and> mr_expected_record_version q = qa_expected_record_version a \<and>
     sb_state (mr_record q) = SandboxState.ACTIVE \<and> sb_lease_epoch (mr_record q) = qa_next_lease_epoch a \<and>
     sb_lease_epoch r < qa_next_lease_epoch a \<and> sb_state r = SandboxState.RECLAIMABLE \<and>
     \<not> sb_requires_reconciliation r"
proof -
  have "validate_lifecycle_transition (sb_state r) LifecycleEvent.OWNERSHIP_REACQUIRED SandboxState.ACTIVE None None = Inr True"
    using assms by (auto simp: reacquire_plan_def bind_result_Inr_iff validate_lifecycle_transition_Inr_iff)
  then have "sb_state r = SandboxState.RECLAIMABLE"
    by (cases "sb_state r") (simp_all add: validate_lifecycle_transition_Inr_iff lifecycle_transitions_def)
  then show ?thesis using assms
    by (auto simp: reacquire_plan_def bind_result_Inr_iff ensure_not_reconciliation_blocked_def split: if_splits)
qed

lemma call_plan_record:
  assumes "call_plan sha256 c r = Inr q"
  shows "sb_sandbox_id (mr_record q) = sb_sandbox_id r \<and>
    sb_record_version (mr_record q) = sb_record_version r + 1 \<and>
    mr_expected_record_version q = call_expected_version c \<and> mr_operation_id q = call_operation_id c"
proof (cases c)
  case (TransitionState a)
  with assms show ?thesis using plan_record_simps(1) [of sha256 a r q] by simp
next
  case (RenewLease a)
  with assms show ?thesis using plan_record_simps(2) [of sha256 a r q] by simp
next
  case (ClaimCleanup a)
  with assms show ?thesis using plan_record_simps(3) [of sha256 a r q] by simp
next
  case (SetRequiresReconciliation a)
  with assms show ?thesis using plan_record_simps(4) [of sha256 a r q] by simp
next
  case (ReacquireOwnership a)
  with assms show ?thesis using reacquire_plan_record [of sha256 a r q] by simp
qed

interpretation mutation_service: optimistic_service "call_plan sha256" call_sandbox_id call_expected_version
  for sha256
  using call_plan_record by unfold_locales blast+

lemma run_call_eq:
  "run_call sha256 c db = (case require_record (call_sandbox_id c) db of
     Inl e \<Rightarrow> (Inl e, db)
   | Inr current \<Rightarrow> (case call_plan sha256 c current of
        Inl e \<Rightarrow> (Inl e, db)
      | Inr q \<Rightarrow> apply_mutation q db))"
  by (cases c) (auto simp: transition_state_def renew_lease_def claim_cleanup_def set_requires_reconciliation_def
      reacquire_ownership_def bind_eff_read_eff split: sum.split)

lemma apply_mutation_eq:
  "apply_mutation q db = (case apply_record_mutation q db of
     (Inl e, db') \<Rightarrow> (Inl e, db')
   | (Inr reply, db') \<Rightarrow> (Inr \<lparr>mut_record = reply_record reply, mut_reused = reply_reused reply\<rparr>, db'))"
  by (auto simp: apply_mutation_def bind_eff_def lift_result_def split: prod.splits sum.splits)

text \<open>A call that wrote replaced the record it read by the record it decided on.\<close>

lemma run_call_written:
  assumes "sandbox_keys_ok db" and "run_call sha256 c db = (Inr m, db')" and "\<not> mut_reused m"
  obtains current q where "require_record (call_sandbox_id c) db = Inr current"
    and "call_plan sha256 c current = Inr q" and "cas_applied q db current db'" and "mut_record m = mr_record q"
proof -
  obtain current q where cq: "require_record (call_sandbox_id c) db = Inr current" "call_plan sha256 c current = Inr q"
    and a: "apply_mutation q db = (Inr m, db')"
    using assms(2) by (auto simp: run_call_eq split: sum.splits)
  then obtain reply where r: "apply_record_mutation q db = (Inr reply, db')"
    and m: "m = \<lparr>mut_record = reply_record reply, mut_reused = reply_reused reply\<rparr>"
    by (auto simp: apply_mutation_eq split: prod.splits sum.splits)
  with assms have f: "\<not> reply_reused reply" by simp
  obtain w where w: "cas_applied q db w db'" using apply_written [OF assms(1) r f] by blast
  have "stored_record db (call_sandbox_id c) = Some current" using cq(1) by (simp add: require_record_Inr_iff)
  moreover from this have "sb_sandbox_id (mr_record q) = call_sandbox_id c"
    using mutation_service.plan_sandbox [OF cq(2)] records.sel_Some by metis
  ultimately have "w = current" using w by (simp add: cas_applied_def)
  moreover have "reply_record reply = mr_record q"
    using r f apply_new_operation [OF assms(1), of q] w
    by (auto simp: cas_applied_def)
  ultimately show thesis using that cq w m by simp
qed

section \<open>Properties\<close>

definition sample_claim :: sandbox_call where
  "sample_claim = ClaimCleanup \<lparr>ca_sandbox_id = ''sb-1'', ca_operation_id = ''op-1'',
     ca_claimant_id = ''sweeper'', ca_expected_record_version = 4\<rparr>"

definition sample_reacquire :: "int \<Rightarrow> sandbox_call" where
  "sample_reacquire epoch = ReacquireOwnership \<lparr>qa_sandbox_id = ''sb-1'', qa_operation_id = ''op-2'',
     qa_expected_record_version = 4, qa_next_owner_instance_id = ''host-b'', qa_next_lease_epoch = epoch,
     qa_last_heartbeat_at = ''t5'', qa_lease_expires_at = ''t9''\<rparr>"

definition is_written :: "SandboxLifecycleMutationResult result \<Rightarrow> bool" where
  "is_written res = (case res of Inr m \<Rightarrow> \<not> mut_reused m | Inl _ \<Rightarrow> False)"

lemma is_writtenE:
  assumes "is_written (fst (run_call sha256 c db))"
  obtains m db' where "run_call sha256 c db = (Inr m, db')" and "\<not> mut_reused m"
  using assms by (cases "run_call sha256 c db") (auto simp: is_written_def split: sum.splits)

text \<open>
  C30: interleaved calls have the effect of calls run one at a time: in every configuration reached by calls
  whose expected version is not above the version they read, and by the creation of records for new
  sandbox ids only, a request in flight that is applied changes the database exactly as its whole call would, run alone at
  that moment, and returns the same result.
\<close>

theorem interleaved_calls_linearize:
  assumes "(sb_step (call_plan sha256) call_sandbox_id call_expected_version)\<^sup>*\<^sup>* (empty_sandbox_db, {}) (db, P)"
    and "(c, current, q) \<in> P"
    and "apply_record_mutation q db = (Inr reply, db')" and "\<not> reply_reused reply"
  shows "run_call sha256 c db = (Inr \<lparr>mut_record = reply_record reply, mut_reused = False\<rparr>, db')"
  using mutation_service.commit_on_current [OF assms] assms(3,4)
  by (simp add: run_call_eq apply_mutation_eq)

theorem interleaved_calls_linearize_witness:
  "let db = sample_sandbox_db SandboxState.TERMINAL CleanupState.SCHEDULED 4
   in \<exists>m db'. run_call id sample_claim db = (Inr \<lparr>mut_record = m, mut_reused = False\<rparr>, db')"
proof -
  let ?r = "sample_sandbox SandboxState.TERMINAL CleanupState.SCHEDULED 4"
  let ?db = "sample_sandbox_db SandboxState.TERMINAL CleanupState.SCHEDULED 4"
  let ?step = "sb_step (call_plan id) call_sandbox_id call_expected_version ::
    unit sandbox_db \<times> sandbox_call in_flight set \<Rightarrow> _"
  have read: "require_record (call_sandbox_id sample_claim) ?db = Inr ?r"
    and new: "stored_record (empty_sandbox_db :: unit sandbox_db) (sb_sandbox_id ?r) = None"
    and init: "SandboxLifecycleRecord_init ?r = Inr ?r"
    and seen: "call_expected_version sample_claim \<le> sb_record_version ?r" by code_simp+
  have "case call_plan id sample_claim ?r of Inl _ \<Rightarrow> False
      | Inr q \<Rightarrow> (case fst (apply_record_mutation q ?db) of Inl _ \<Rightarrow> False | Inr reply \<Rightarrow> \<not> reply_reused reply)"
    by code_simp
  then obtain q reply db' where plan: "call_plan id sample_claim ?r = Inr q"
    and written: "apply_record_mutation q ?db = (Inr reply, db')" "\<not> reply_reused reply"
    by (cases "call_plan id sample_claim ?r") (auto split: sum.splits simp: prod_eq_iff)
  have "?step (empty_sandbox_db, {}) (?db, {})"
    unfolding sample_sandbox_db_def by (rule sb_step.create [OF new init])
  moreover have "?step (?db, {}) (?db, {(sample_claim, ?r, q)})"
    by (rule sb_step.begin_call) (rule read seen plan)+
  ultimately have "?step\<^sup>*\<^sup>* (empty_sandbox_db, {}) (?db, {(sample_claim, ?r, q)})" by simp
  from interleaved_calls_linearize [OF this _ written] show ?thesis by auto
qed

text \<open>
  Versions count the writes: in every reachable configuration, a step leaves each stored record as
  it was or replaces it by its next version; no record disappears.
\<close>

lemma record_versions_step_by_one:
  assumes "(sb_step (call_plan sha256) call_sandbox_id call_expected_version)\<^sup>*\<^sup>* (empty_sandbox_db, {}) (db, P)"
    and "sb_step (call_plan sha256) call_sandbox_id call_expected_version (db, P) (db', P')"
    and "stored_record db k = Some w"
  shows "\<exists>w'. stored_record db' k = Some w' \<and> (w' = w \<or> sb_record_version w' = sb_record_version w + 1)"
  by (rule mutation_service.step_versions
      [OF assms(2) mutation_service.reachable_config_ok [OF assms(1)] assms(3)])

lemma reclaimable_to_active:
  assumes "validate_lifecycle_transition SandboxState.RECLAIMABLE ev SandboxState.ACTIVE r c = Inr True"
  shows "ev = LifecycleEvent.OWNERSHIP_REACQUIRED"
  using assms by (cases ev) (simp_all add: validate_lifecycle_transition_Inr_iff lifecycle_transitions_def)

lemma plan_follows_lifecycle:
  assumes "call_plan sha256 c r = Inr q"
  shows "sb_state (mr_record q) \<in> insert (sb_state r) (lifecycle_next (sb_state r)) \<and>
     (sb_state r = SandboxState.RECLAIMABLE \<longrightarrow> sb_state (mr_record q) = SandboxState.ACTIVE \<longrightarrow>
        sb_lease_epoch r < sb_lease_epoch (mr_record q))"
proof (cases c)
  case (TransitionState a)
  with assms have p: "transition_plan sha256 a r = Inr q" by simp
  note v = transition_plan_Inr(2) [OF p]
  have "ta_event a = LifecycleEvent.OWNERSHIP_REACQUIRED"
    if "sb_state r = SandboxState.RECLAIMABLE" "ta_next_state a = SandboxState.ACTIVE"
    using v reclaimable_to_active [of "ta_event a" "ta_terminal_reason a" "ta_cleanup_state a"] that by simp
  then show ?thesis
    using plan_record_simps(1) [OF p] validated_next [OF v] transition_plan_Inr(4) [OF p]
    by (auto simp: or_else_def)
next
  case (RenewLease a)
  with assms show ?thesis using plan_record_simps(2) [of sha256 a r q] by auto
next
  case (ClaimCleanup a)
  with assms show ?thesis using plan_record_simps(3) [of sha256 a r q] by auto
next
  case (SetRequiresReconciliation a)
  with assms show ?thesis by (auto simp: flag_plan_def)
next
  case (ReacquireOwnership a)
  with assms show ?thesis using reacquire_plan_record [of sha256 a r q] by (auto simp: enum_simps)
qed

text \<open>
  C32: every call that writes follows the lifecycle: the stored state stays or moves along the
  transition table, the version goes up by one, and a reclaimable sandbox becomes active only under a
  strictly newer lease epoch, so that the former owner's fenced calls are refused from then on.
\<close>

theorem applied_call_follows_lifecycle:
  assumes "sandbox_keys_ok db" and "run_call sha256 c db = (Inr m, db')" and "\<not> mut_reused m"
  shows "\<exists>w. stored_record db (call_sandbox_id c) = Some w \<and>
    stored_record db' (call_sandbox_id c) = Some (mut_record m) \<and>
    sb_record_version (mut_record m) = sb_record_version w + 1 \<and>
    sb_state (mut_record m) \<in> insert (sb_state w) (lifecycle_next (sb_state w)) \<and>
    (sb_state w = SandboxState.RECLAIMABLE \<longrightarrow> sb_state (mut_record m) = SandboxState.ACTIVE \<longrightarrow>
       sb_lease_epoch w < sb_lease_epoch (mut_record m))"
proof -
  obtain w q where w: "require_record (call_sandbox_id c) db = Inr w" and q: "call_plan sha256 c w = Inr q"
    and a: "cas_applied q db w db'" and m: "mut_record m = mr_record q"
    by (rule run_call_written [OF assms])
  have st: "stored_record db (call_sandbox_id c) = Some w" using w by (simp add: require_record_Inr_iff)
  then have id: "sb_sandbox_id (mr_record q) = call_sandbox_id c"
    using mutation_service.plan_sandbox [OF q] records.sel_Some by metis
  show ?thesis
    using st a id m mutation_service.plan_version [OF q] plan_follows_lifecycle [OF q]
    by (simp add: cas_applied_def)
qed

theorem applied_call_follows_lifecycle_witness:
  "\<exists>m db'. run_call id (sample_reacquire 2) (sample_sandbox_db SandboxState.RECLAIMABLE CleanupState.NONE 4) =
     (Inr m, db') \<and> sb_record_version (mut_record m) = 5"
proof -
  let ?db = "sample_sandbox_db SandboxState.RECLAIMABLE CleanupState.NONE 4"
  have ok: "sandbox_keys_ok ?db" and run: "is_written (fst (run_call id (sample_reacquire 2) ?db))" by code_simp+
  obtain m db' where m: "run_call id (sample_reacquire 2) ?db = (Inr m, db')" "\<not> mut_reused m"
    by (rule is_writtenE [OF run])
  have "map_option sb_record_version (stored_record ?db (call_sandbox_id (sample_reacquire 2))) = Some 4"
    by code_simp
  then show ?thesis using applied_call_follows_lifecycle [OF ok m] m(1) by auto
qed

text \<open>
  an unresolved outcome blocks the sandbox: while its record requires reconciliation, every call
  that would change its state, its owner or its cleanup is refused and writes nothing.
\<close>

theorem reconciliation_gate_blocks:
  assumes "require_record (call_sandbox_id c) db = Inr w" and "sb_requires_reconciliation w"
    and "case c of RenewLease _ \<Rightarrow> False | SetRequiresReconciliation _ \<Rightarrow> False | _ \<Rightarrow> True"
  shows "run_call sha256 c db = (Inl (SandboxLifecycleError
     ''Sandbox lifecycle mutation blocked while requires_reconciliation=true.''), db)"
  unfolding run_call_eq using assms
  by (cases c) (simp_all add: transition_plan_def claim_plan_def reacquire_plan_def
      ensure_not_reconciliation_blocked_def)

theorem reconciliation_gate_blocks_witness:
  "let db = save_record ((sample_sandbox SandboxState.TERMINAL CleanupState.SCHEDULED 4)
              \<lparr>sb_requires_reconciliation := True\<rparr>) (empty_sandbox_db :: unit sandbox_db)
   in run_call id sample_claim db = (Inl (SandboxLifecycleError
        ''Sandbox lifecycle mutation blocked while requires_reconciliation=true.''), db)"
proof -
  let ?r = "(sample_sandbox SandboxState.TERMINAL CleanupState.SCHEDULED 4)\<lparr>sb_requires_reconciliation := True\<rparr>"
  have "require_record (call_sandbox_id sample_claim) (save_record ?r (empty_sandbox_db :: unit sandbox_db)) = Inr ?r"
    by code_simp
  from reconciliation_gate_blocks [OF this] show ?thesis by (simp add: sample_claim_def)
qed

lemma record_init_iff:
  "SandboxLifecycleRecord_init r = Inr r \<longleftrightarrow>
     sb_schema_version r = SANDBOX_LIFECYCLE_SCHEMA_VERSION \<and> sb_policy_version r = SANDBOX_LIFECYCLE_POLICY_VERSION \<and>
     (truthy_opt (sb_run_id r) \<or> truthy_opt (sb_session_id r)) \<and> 1 \<le> sb_record_version r \<and>
     0 \<le> sb_lease_epoch r \<and> 0 \<le> sb_cleanup_attempts r \<and>
     (needs_reason (sb_state r) \<longrightarrow> sb_terminal_reason r \<noteq> None)"
  by (auto simp: SandboxLifecycleRecord_init_def validate_model_Inr_iff validate_record_def
      ensure_supported_versions_def interpret_policy_version_def first_message_None_iff needs_reason_def)

text \<open>The lease epoch a call may set, when it sets one.\<close>

definition call_next_epoch :: "sandbox_call \<Rightarrow> int option" where
  "call_next_epoch c = (case c of TransitionState a \<Rightarrow> ta_next_lease_epoch a | _ \<Rightarrow> None)"

lemma plan_keeps_valid:
  assumes p: "call_plan sha256 c r = Inr q" and r: "SandboxLifecycleRecord_init r = Inr r"
    and e: "case call_next_epoch c of None \<Rightarrow> True | Some e \<Rightarrow> 0 \<le> e"
  shows "SandboxLifecycleRecord_init (mr_record q) = Inr (mr_record q)"
proof -
  note rv = r [unfolded record_init_iff]
  show ?thesis
  proof (cases c)
    case (TransitionState a)
    with p have t: "transition_plan sha256 a r = Inr q" by simp
    have "needs_reason (ta_next_state a) \<Longrightarrow> ta_terminal_reason a = None \<Longrightarrow> needs_reason (sb_state r)"
      by (rule validated_reason [OF transition_plan_Inr(2) [OF t]])
    moreover have "0 \<le> or_else (ta_next_lease_epoch a) (sb_lease_epoch r)"
      using e rv TransitionState by (simp add: or_else_def call_next_epoch_def split: option.splits)
    ultimately show ?thesis unfolding record_init_iff using plan_record_simps(1) [OF t] rv
      by (simp add: or_keep_def)
  next
    case (RenewLease a)
    with p rv show ?thesis unfolding record_init_iff using plan_record_simps(2) [of sha256 a r q] by simp
  next
    case (ClaimCleanup a)
    with p rv show ?thesis unfolding record_init_iff using plan_record_simps(3) [of sha256 a r q] by simp
  next
    case (SetRequiresReconciliation a)
    with p rv show ?thesis unfolding record_init_iff using plan_record_simps(4) [of sha256 a r q] by simp
  next
    case (ReacquireOwnership a)
    with p have "sb_schema_version (mr_record q) = sb_schema_version r" "sb_policy_version (mr_record q) = sb_policy_version r"
      "sb_run_id (mr_record q) = sb_run_id r" "sb_session_id (mr_record q) = sb_session_id r"
      "sb_cleanup_attempts (mr_record q) = sb_cleanup_attempts r"
      by (auto simp: reacquire_plan_def bind_result_Inr_iff split: if_splits)
    with ReacquireOwnership p rv show ?thesis unfolding record_init_iff
      using reacquire_plan_record [of sha256 a r q] by (simp add: needs_reason_def)
  qed
qed

lemma transition_state_written:
  assumes "sandbox_keys_ok db" and "transition_state sha256 a db = (Inr m, db')" and "\<not> mut_reused m"
  obtains w q where "require_record (ta_sandbox_id a) db = Inr w" and "transition_plan sha256 a w = Inr q"
    and "cas_applied q db w db'" and "sb_sandbox_id (mr_record q) = ta_sandbox_id a"
proof -
  have run: "run_call sha256 (TransitionState a) db = (Inr m, db')" using assms(2) by simp
  obtain w q where w: "require_record (ta_sandbox_id a) db = Inr w" and q: "transition_plan sha256 a w = Inr q"
    and c: "cas_applied q db w db'"
    by (rule run_call_written [OF assms(1) run assms(3)]) simp
  have "stored_record db (ta_sandbox_id a) = Some w" using w by (simp add: require_record_Inr_iff)
  then have "sb_sandbox_id (mr_record q) = ta_sandbox_id a"
    using plan_record_simps(1) [OF q] records.sel_Some [of _ _ w] by auto
  with w q c show thesis by (rule that)
qed

text \<open>
  What a call writes can be read back: unless a transition is asked to set a negative lease epoch,
  the record stored by a call that wrote is the record the next reader gets.
\<close>

theorem written_record_readable:
  assumes "sandbox_keys_ok db" and "run_call sha256 c db = (Inr m, db')" and "\<not> mut_reused m"
    and "case call_next_epoch c of None \<Rightarrow> True | Some e \<Rightarrow> 0 \<le> e"
  shows "get_record (call_sandbox_id c) db' = Inr (Some (mut_record m))"
proof -
  obtain w q where w: "require_record (call_sandbox_id c) db = Inr w" and q: "call_plan sha256 c w = Inr q"
    and a: "cas_applied q db w db'" and m: "mut_record m = mr_record q"
    by (rule run_call_written [OF assms(1-3)])
  have st: "stored_record db (call_sandbox_id c) = Some w" "SandboxLifecycleRecord_init w = Inr w"
    using w by (simp_all add: require_record_Inr_iff)
  then have "sb_sandbox_id (mr_record q) = call_sandbox_id c"
    using mutation_service.plan_sandbox [OF q] records.sel_Some by metis
  then show ?thesis using a m plan_keeps_valid [OF q st(2) assms(4)]
    by (simp add: get_record_Some_iff cas_applied_def)
qed

theorem written_record_readable_witness:
  "\<exists>m db'. run_call id sample_claim (sample_sandbox_db SandboxState.TERMINAL CleanupState.SCHEDULED 4) = (Inr m, db') \<and>
     get_record ''sb-1'' db' = Inr (Some (mut_record m))"
proof -
  let ?db = "sample_sandbox_db SandboxState.TERMINAL CleanupState.SCHEDULED 4"
  have ok: "sandbox_keys_ok ?db" and run: "is_written (fst (run_call id sample_claim ?db))" by code_simp+
  obtain m db' where m: "run_call id sample_claim ?db = (Inr m, db')" "\<not> mut_reused m"
    by (rule is_writtenE [OF run])
  then show ?thesis using written_record_readable [OF ok m] by (auto simp: sample_claim_def call_next_epoch_def)
qed

text \<open>
  A transition that sets a negative lease epoch makes the sandbox unreadable: the copied record is
  stored without validation, and from then on every read of it, and so every call for it, fails.
\<close>

lemma negative_epoch_unreadable:
  assumes "sandbox_keys_ok db" and "transition_state sha256 a db = (Inr m, db')" and "\<not> mut_reused m"
    and "ta_next_lease_epoch a = Some e" and "e < 0"
  shows "\<exists>cause. get_record (ta_sandbox_id a) db' = Inl (SandboxLifecycleErrorFrom cause)"
proof -
  obtain w q where q: "transition_plan sha256 a w = Inr q" and c: "cas_applied q db w db'"
    and id: "sb_sandbox_id (mr_record q) = ta_sandbox_id a"
    by (rule transition_state_written [OF assms(1-3)])
  have "sb_lease_epoch (mr_record q) < 0"
    using plan_record_simps(1) [OF q] assms(4,5) by (simp add: or_else_def)
  then have "SandboxLifecycleRecord_init (mr_record q) \<noteq> Inr (mr_record q)" by (simp add: record_init_iff)
  then have "\<exists>cause. SandboxLifecycleRecord_init (mr_record q) = Inl (ValidationError cause)"
    by (auto simp: SandboxLifecycleRecord_init_def validate_model_def split: list.splits option.splits)
  then show ?thesis using c id
    by (auto simp: get_record_def cas_applied_def read_record_def)
qed

text \<open>
  A repeated transition is refused rather than answered from the record of operations: the version
  fence is checked before the operation id is looked up, so the retry of a transition that was applied
  fails, whatever the payload.
\<close>

lemma repeated_transition_refused:
  assumes "sandbox_keys_ok db" and "transition_state sha256 a db = (Inr m, db')" and "\<not> mut_reused m"
  shows "\<exists>e. transition_state sha256 a db' = (Inl e, db')"
proof -
  obtain w q where q: "transition_plan sha256 a w = Inr q" and c: "cas_applied q db w db'"
    and id: "sb_sandbox_id (mr_record q) = ta_sandbox_id a"
    by (rule transition_state_written [OF assms(1-3)])
  have "sb_record_version (mr_record q) \<noteq> ta_expected_record_version a"
    using plan_record_simps(1) [OF q] transition_plan_Inr(3) [OF q] by simp
  then have refused: "\<exists>e. transition_plan sha256 a (mr_record q) = Inl e"
    using transition_plan_Inr(3) [of sha256 a "mr_record q"] by (cases "transition_plan sha256 a (mr_record q)") auto
  have "r = mr_record q" if "require_record (ta_sandbox_id a) db' = Inr r" for r
    using that c id by (simp add: require_record_Inr_iff cas_applied_def)
  then have "\<exists>e. run_call sha256 (TransitionState a) db' = (Inl e, db')"
    using refused unfolding run_call_eq by (auto split: sum.split)
  then show ?thesis by simp
qed

text \<open>
  A cleanup claim, in contrast, is idempotent: the retry of a claim that was applied is answered from
  the record of operations, with the record as it is, and writes nothing.
\<close>

lemma stored_payload_sandbox_id:
  "json_get (stored_payload (result_payload r)) ''sandbox_id'' = JStr (sb_sandbox_id r)"
  by (simp add: stored_payload_def result_payload_def json_get_def insort_key_def)

lemma repeated_claim_answered:
  assumes "sandbox_keys_ok db" and "claim_cleanup sha256 a db = (Inr m, db')" and "\<not> mut_reused m"
    and "ca_sandbox_id a \<noteq> []"
  shows "claim_cleanup sha256 a db' = (Inr \<lparr>mut_record = mut_record m, mut_reused = True\<rparr>, db')"
proof -
  have run: "run_call sha256 (ClaimCleanup a) db = (Inr m, db')" using assms(2) by simp
  obtain w q where w: "require_record (ca_sandbox_id a) db = Inr w" and q: "claim_plan sha256 a w = Inr q"
    and c: "cas_applied q db w db'" and m: "mut_record m = mr_record q"
    by (rule run_call_written [OF assms(1) run assms(3)]) simp
  have "sb_sandbox_id w = ca_sandbox_id a" using w records.sel_Some by (metis require_record_Inr_iff)
  then have id: "sb_sandbox_id (mr_record q) = ca_sandbox_id a"
    using plan_record_simps(3) [OF q] by simp
  have valid: "SandboxLifecycleRecord_init (mr_record q) = Inr (mr_record q)"
    using plan_keeps_valid [of sha256 "ClaimCleanup a" w q] q w
    by (simp add: call_next_epoch_def require_record_Inr_iff)
  have w': "require_record (ca_sandbox_id a) db' = Inr (mr_record q)"
    using c id valid by (simp add: require_record_Inr_iff cas_applied_def)
  obtain q' where q': "claim_plan sha256 a (mr_record q) = Inr q'"
    and op: "mr_operation_id q' = mr_operation_id q" "mr_payload_hash q' = mr_payload_hash q"
    using q by (auto simp: claim_plan_def bind_result_Inr_iff ensure_not_reconciliation_blocked_def
        validate_cleanup_state_transition_def split: if_splits)
  have "apply_record_mutation q' db' = (Inr \<lparr>reply_reused = True,
      reply_result = od_result_payload (operation_entry q), reply_record = mr_record q\<rparr>, db')"
    using c id valid assms(4) op stored_payload_sandbox_id [of "mr_record q"]
    by (simp add: apply_record_mutation_def cas_applied_def operation_entry_def py_str_json_def)
  then have "run_call sha256 (ClaimCleanup a) db' = (Inr \<lparr>mut_record = mut_record m, mut_reused = True\<rparr>, db')"
    unfolding run_call_eq using w' q' m by (simp add: apply_mutation_eq)
  then show ?thesis by simp
qed

text \<open>A claim of the current version under a new operation id is carried out.\<close>

definition claim_target :: "claim_args \<Rightarrow> SandboxLifecycleRecord \<Rightarrow> SandboxLifecycleRecord" where
  "claim_target a r = r\<lparr>sb_cleanup_state := CleanupState.IN_PROGRESS,
     sb_cleanup_owner_instance_id := Some (ca_claimant_id a), sb_record_version := sb_record_version r + 1\<rparr>"

definition claimable :: "SandboxLifecycleRecord \<Rightarrow> bool" where
  "claimable r \<longleftrightarrow> \<not> sb_requires_reconciliation r \<and> sb_state r \<in> {SandboxState.TERMINAL, SandboxState.ORPHANED} \<and>
     CleanupState.IN_PROGRESS \<in> cleanup_transitions (sb_cleanup_state r)"

lemma claim_cleanup_succeeds:
  assumes ok: "sandbox_keys_ok db" and r: "require_record (ca_sandbox_id a) db = Inr r" and c: "claimable r"
    and v: "ca_expected_record_version a = sb_record_version r"
    and new: "stored_operation db (ca_operation_id a) = None"
  obtains q db' where "claim_cleanup sha256 a db = (Inr \<lparr>mut_record = claim_target a r, mut_reused = False\<rparr>, db')"
    and "cas_applied q db r db'" and "mr_record q = claim_target a r"
proof -
  obtain q where q: "claim_plan sha256 a r = Inr q"
    and cas: "mr_expected_lease_epoch q = None" "mr_expected_owner_instance_id q = None"
      "mr_expected_cleanup_state q = Some (CleanupState_value (sb_cleanup_state r))"
    using c by (auto simp: claimable_def claim_plan_def ensure_not_reconciliation_blocked_def validate_cleanup_state_transition_def)
  have rec: "mr_record q = claim_target a r" "mr_operation_id q = ca_operation_id a"
    "mr_expected_record_version q = sb_record_version r"
    using plan_record_simps(3) [OF q] v by (simp_all add: claim_target_def)
  have st: "stored_record db (ca_sandbox_id a) = Some r" "sb_sandbox_id r = ca_sandbox_id a"
    using r records.sel_Some by (auto simp: require_record_Inr_iff)
  have id: "sb_sandbox_id (mr_record q) = ca_sandbox_id a" using rec st by (simp add: claim_target_def)
  have "cas_where q r" using cas id st rec by (simp add: cas_where_def)
  then obtain reply db' where a: "apply_record_mutation q db = (Inr reply, db')" "\<not> reply_reused reply"
    "reply_record reply = mr_record q"
    using new rec id st apply_new_operation [OF ok, of q] by auto
  obtain w where w: "cas_applied q db w db'" using apply_written [OF ok a(1,2)] by blast
  have "w = r" using w id st by (simp add: cas_applied_def)
  have "run_call sha256 (ClaimCleanup a) db = (Inr \<lparr>mut_record = claim_target a r, mut_reused = False\<rparr>, db')"
    unfolding run_call_eq using r q a rec by (simp add: apply_mutation_eq)
  then show thesis using that w \<open>w = r\<close> rec by simp
qed

text \<open>
  A cleanup in progress can be taken over: a claim with the current version and a new operation id
  succeeds for any claimant while another holds the cleanup, although \<open>assert_cleanup_claim\<close>, which
  no code calls, refuses exactly that.
\<close>

lemma cleanup_in_progress_taken_over:
  assumes "sandbox_keys_ok db" and "require_record (ca_sandbox_id a) db = Inr w"
    and "\<not> sb_requires_reconciliation w" and "sb_state w = SandboxState.TERMINAL"
    and "sb_cleanup_state w = CleanupState.IN_PROGRESS"
    and "ca_expected_record_version a = sb_record_version w"
    and "stored_operation db (ca_operation_id a) = None"
  shows "\<exists>m db'. claim_cleanup sha256 a db = (Inr m, db') \<and>
    sb_cleanup_owner_instance_id (mut_record m) = Some (ca_claimant_id a) \<and>
    (\<exists>e. assert_cleanup_claim (sb_cleanup_state w) (ca_claimant_id a) (sb_cleanup_owner_instance_id w)
       (ca_expected_record_version a) (sb_record_version w) = Inl e)"
proof -
  have "claimable w" using assms(3-5) by (simp add: claimable_def)
  then obtain db' where "claim_cleanup sha256 a db = (Inr \<lparr>mut_record = claim_target a w, mut_reused = False\<rparr>, db')"
    using claim_cleanup_succeeds [OF assms(1,2) _ assms(6,7), of sha256] by metis
  then show ?thesis using assms(5) by (auto simp: assert_cleanup_claim_def claim_target_def)
qed

end
