(* ===== verification/Sandbox_Services.thy ===== *)
theory Sandbox_Services
  imports Sandbox_Mutations
begin

text \<open>
  The services that drive a sandbox through its lifecycle: the cleanup policy
  (\<open>orket/application/services/sandbox_lifecycle_policy.py\<close>), the reconciliation planner
  (\<open>sandbox_lifecycle_reconciliation_service.py\<close>) and the cleanup scheduler
  (\<open>sandbox_cleanup_scheduler_service.py\<close>).

  \<open>datetime.fromisoformat\<close>, \<open>isoformat\<close>, the addition of a \<open>timedelta\<close> and the comparison of two
  datetimes are the operations of the parameter \<open>clock\<close>. The reconciliation service is modelled as
  it is built without a control plane: its publication hooks then return at once.
\<close>

section \<open>Policy\<close>

record 'd clock =
  fromisoformat :: "string \<Rightarrow> 'd option"
  isoformat :: "'d \<Rightarrow> string"
  plus_minutes :: "'d \<Rightarrow> int \<Rightarrow> 'd result"
  not_before :: "'d \<Rightarrow> 'd \<Rightarrow> bool result"

record SandboxLifecyclePolicy =
  lease_duration_seconds :: int
  heartbeat_interval_seconds :: int
  ttl_success_minutes :: int
  ttl_failed_hours :: int
  ttl_blocked_hours :: int
  ttl_canceled_hours :: int
  ttl_reclaimable_hours :: int
  ttl_orphan_verified_hours :: int
  ttl_hard_max_age_hours :: int
  restart_threshold_count :: int
  restart_window_seconds :: int
  unhealthy_duration_seconds :: int

definition default_policy :: SandboxLifecyclePolicy where
  "default_policy = \<lparr>lease_duration_seconds = 300, heartbeat_interval_seconds = 30,
     ttl_success_minutes = 15, ttl_failed_hours = 24, ttl_blocked_hours = 24, ttl_canceled_hours = 2,
     ttl_reclaimable_hours = 2, ttl_orphan_verified_hours = 1, ttl_hard_max_age_hours = 72,
     restart_threshold_count = 5, restart_window_seconds = 300, unhealthy_duration_seconds = 600\<rparr>"

definition parse_iso_datetime :: "'d clock \<Rightarrow> string \<Rightarrow> 'd result" where
  "parse_iso_datetime clk s =
     (case fromisoformat clk s of
        Some d \<Rightarrow> Inr d
      | None \<Rightarrow> Inl (SandboxLifecycleError (''Invalid ISO datetime: '' @ s)))"

text \<open>The delay in minutes.\<close>

definition cleanup_delta :: "SandboxLifecyclePolicy \<Rightarrow> SandboxState \<Rightarrow> TerminalReason \<Rightarrow> int option" where
  "cleanup_delta p state reason =
     (if state = SandboxState.RECLAIMABLE then Some (60 * ttl_reclaimable_hours p)
      else if state = SandboxState.ORPHANED \<and> reason = TerminalReason.ORPHAN_DETECTED
      then Some (60 * ttl_orphan_verified_hours p)
      else if state = SandboxState.ORPHANED \<and> reason = TerminalReason.ORPHAN_UNVERIFIED_OWNERSHIP then None
      else if state \<noteq> SandboxState.TERMINAL then None
      else if reason = TerminalReason.SUCCESS then Some (ttl_success_minutes p)
      else if reason \<in> {TerminalReason.FAILED, TerminalReason.CREATE_FAILED, TerminalReason.START_FAILED,
                        TerminalReason.RESTART_LOOP, TerminalReason.LOST_RUNTIME}
      then Some (60 * ttl_failed_hours p)
      else if reason = TerminalReason.BLOCKED then Some (60 * ttl_blocked_hours p)
      else if reason = TerminalReason.CANCELED then Some (60 * ttl_canceled_hours p)
      else if reason \<in> {TerminalReason.LEASE_EXPIRED, TerminalReason.HARD_MAX_AGE} then Some 0
      else None)"

definition cleanup_due_at_for ::
  "'d clock \<Rightarrow> SandboxLifecyclePolicy \<Rightarrow> SandboxState \<Rightarrow> TerminalReason \<Rightarrow> string \<Rightarrow> string option result" where
  "cleanup_due_at_for clk p state reason reference_time =
     bind_result (parse_iso_datetime clk reference_time) (\<lambda>base.
       case cleanup_delta p state reason of
         None \<Rightarrow> Inr None
       | Some delta \<Rightarrow> bind_result (plus_minutes clk base delta) (\<lambda>d. Inr (Some (isoformat clk d))))"

definition hard_max_age_elapsed ::
  "'d clock \<Rightarrow> SandboxLifecyclePolicy \<Rightarrow> string \<Rightarrow> string \<Rightarrow> bool result" where
  "hard_max_age_elapsed clk p created_at observed_at =
     bind_result (parse_iso_datetime clk created_at) (\<lambda>created.
     bind_result (parse_iso_datetime clk observed_at) (\<lambda>observed.
     bind_result (plus_minutes clk created (60 * ttl_hard_max_age_hours p)) (\<lambda>limit.
       not_before clk observed limit)))"

section \<open>Reconciliation\<close>

record SandboxObservation =
  obs_docker_present :: bool
  obs_observed_at :: string
  obs_ownership_confidence :: "OwnershipConfidence option"

record SandboxReconciliationPlan =
  pl_classification :: ReconciliationClassification
  pl_target_state :: SandboxState
  pl_target_cleanup_state :: "CleanupState option"
  pl_terminal_reason :: "TerminalReason option"
  pl_cleanup_due_at :: "string option"
  pl_action_required :: bool

definition is_due :: "string option \<Rightarrow> string \<Rightarrow> bool" where
  "is_due deadline observed_at =
     (case deadline of None \<Rightarrow> False | Some d \<Rightarrow> d \<noteq> [] \<and> d \<le> observed_at)"

definition plan_existing_record ::
  "'d clock \<Rightarrow> SandboxLifecyclePolicy \<Rightarrow> SandboxLifecycleRecord \<Rightarrow> SandboxObservation \<Rightarrow>
   SandboxReconciliationPlan result" where
  "plan_existing_record clk p r obs =
     bind_result (classify_reconciliation (Some (sb_state r)) (obs_docker_present obs)
       (obs_ownership_confidence obs) (is_due (sb_lease_expires_at r) (obs_observed_at obs))
       (is_due (sb_cleanup_due_at r) (obs_observed_at obs))) (\<lambda>oc.
     case oc_classification oc of
       ReconciliationClassification.ACTIVE \<Rightarrow> Inr
         \<lparr>pl_classification = oc_classification oc, pl_target_state = sb_state r,
          pl_target_cleanup_state = Some (sb_cleanup_state r), pl_terminal_reason = sb_terminal_reason r,
          pl_cleanup_due_at = sb_cleanup_due_at r, pl_action_required = False\<rparr>
     | ReconciliationClassification.RECLAIMABLE \<Rightarrow>
         bind_result (cleanup_due_at_for clk p SandboxState.RECLAIMABLE TerminalReason.LEASE_EXPIRED
           (obs_observed_at obs)) (\<lambda>due. Inr
         \<lparr>pl_classification = oc_classification oc, pl_target_state = SandboxState.RECLAIMABLE,
          pl_target_cleanup_state = Some (sb_cleanup_state r),
          pl_terminal_reason = Some TerminalReason.LEASE_EXPIRED, pl_cleanup_due_at = due,
          pl_action_required = (sb_state r \<noteq> SandboxState.RECLAIMABLE \<or> sb_cleanup_due_at r \<noteq> due)\<rparr>)
     | ReconciliationClassification.TERMINAL_LOST_RUNTIME \<Rightarrow>
         bind_result (cleanup_due_at_for clk p SandboxState.TERMINAL TerminalReason.LOST_RUNTIME
           (obs_observed_at obs)) (\<lambda>due. Inr
         \<lparr>pl_classification = oc_classification oc, pl_target_state = SandboxState.TERMINAL,
          pl_target_cleanup_state = Some (sb_cleanup_state r),
          pl_terminal_reason = Some TerminalReason.LOST_RUNTIME, pl_cleanup_due_at = due,
          pl_action_required = (sb_terminal_reason r \<noteq> Some TerminalReason.LOST_RUNTIME \<or>
            sb_cleanup_due_at r \<noteq> due)\<rparr>)
     | ReconciliationClassification.TERMINAL_AWAITING_CLEANUP \<Rightarrow>
         (let reason = or_else (sb_terminal_reason r) TerminalReason.FAILED in
         bind_result (if truthy_opt (sb_cleanup_due_at r) then Inr (sb_cleanup_due_at r)
           else cleanup_due_at_for clk p SandboxState.TERMINAL reason
             (str_or (sb_terminal_at r) (obs_observed_at obs))) (\<lambda>due. Inr
         \<lparr>pl_classification = oc_classification oc, pl_target_state = SandboxState.TERMINAL,
          pl_target_cleanup_state = Some CleanupState.SCHEDULED, pl_terminal_reason = Some reason,
          pl_cleanup_due_at = due,
          pl_action_required = (sb_cleanup_state r = CleanupState.NONE)\<rparr>))
     | ReconciliationClassification.CLEANUP_OVERDUE \<Rightarrow> Inr
         \<lparr>pl_classification = oc_classification oc, pl_target_state = SandboxState.TERMINAL,
          pl_target_cleanup_state = Some CleanupState.SCHEDULED, pl_terminal_reason = sb_terminal_reason r,
          pl_cleanup_due_at = sb_cleanup_due_at r,
          pl_action_required = (sb_cleanup_state r = CleanupState.NONE)\<rparr>
     | ReconciliationClassification.CLEANED_EXTERNALLY \<Rightarrow> Inr
         \<lparr>pl_classification = oc_classification oc, pl_target_state = SandboxState.CLEANED,
          pl_target_cleanup_state = Some CleanupState.COMPLETED,
          pl_terminal_reason = Some TerminalReason.CLEANED_EXTERNALLY,
          pl_cleanup_due_at = sb_cleanup_due_at r,
          pl_action_required = (sb_state r \<noteq> SandboxState.CLEANED \<or>
            sb_cleanup_state r \<noteq> CleanupState.COMPLETED \<or>
            sb_terminal_reason r \<noteq> Some TerminalReason.CLEANED_EXTERNALLY)\<rparr>
     | _ \<Rightarrow> Inl (SandboxLifecycleError (''Unsupported reconciliation classification: '' @
             ReconciliationClassification_value (oc_classification oc) @ ''.'')))"

definition plan_missing_record_presence ::
  "'d clock \<Rightarrow> SandboxLifecyclePolicy \<Rightarrow> SandboxObservation \<Rightarrow> SandboxReconciliationPlan result" where
  "plan_missing_record_presence clk p obs =
     (if \<not> obs_docker_present obs \<or> obs_ownership_confidence obs = None
      then Inl (SandboxLifecycleError
        ''Missing-record reconciliation requires present Docker resources and ownership confidence.'')
      else bind_result (classify_reconciliation None True (obs_ownership_confidence obs) False False) (\<lambda>oc.
        bind_result (case oc_terminal_reason oc of
            None \<Rightarrow> Inr None
          | Some reason \<Rightarrow> cleanup_due_at_for clk p SandboxState.ORPHANED reason (obs_observed_at obs)) (\<lambda>due. Inr
        \<lparr>pl_classification = oc_classification oc, pl_target_state = SandboxState.ORPHANED,
         pl_target_cleanup_state = Some CleanupState.NONE, pl_terminal_reason = oc_terminal_reason oc,
         pl_cleanup_due_at = due, pl_action_required = False\<rparr>)))"

text \<open>A transition with the optional arguments at their defaults.\<close>

definition plain_transition ::
  "string \<Rightarrow> string \<Rightarrow> int \<Rightarrow> LifecycleEvent \<Rightarrow> SandboxState \<Rightarrow> transition_args" where
  "plain_transition sandbox_id operation_id version event next_state =
     \<lparr>ta_sandbox_id = sandbox_id, ta_operation_id = operation_id, ta_expected_record_version = version,
      ta_event = event, ta_next_state = next_state, ta_terminal_reason = None, ta_cleanup_state = None,
      ta_expected_owner_instance_id = None, ta_expected_lease_epoch = None,
      ta_next_owner_instance_id = None, ta_next_lease_epoch = None, ta_terminal_at = None,
      ta_cleanup_due_at = None\<rparr>"

definition plan_transition ::
  "string \<Rightarrow> string \<Rightarrow> SandboxLifecycleRecord \<Rightarrow> SandboxReconciliationPlan \<Rightarrow> transition_args result" where
  "plan_transition sandbox_id operation_id r plan =
     (let v = sb_record_version r in
      case pl_classification plan of
        ReconciliationClassification.RECLAIMABLE \<Rightarrow> Inr
          ((plain_transition sandbox_id operation_id v LifecycleEvent.LEASE_EXPIRED SandboxState.RECLAIMABLE)
             \<lparr>ta_terminal_reason := Some TerminalReason.LEASE_EXPIRED,
              ta_next_owner_instance_id := sb_owner_instance_id r,
              ta_next_lease_epoch := Some (sb_lease_epoch r),
              ta_cleanup_due_at := pl_cleanup_due_at plan\<rparr>)
      | ReconciliationClassification.TERMINAL_LOST_RUNTIME \<Rightarrow> Inr
          ((plain_transition sandbox_id operation_id v LifecycleEvent.RUNTIME_MISSING SandboxState.TERMINAL)
             \<lparr>ta_terminal_reason := Some TerminalReason.LOST_RUNTIME,
              ta_cleanup_due_at := pl_cleanup_due_at plan\<rparr>)
      | ReconciliationClassification.CLEANED_EXTERNALLY \<Rightarrow> Inr
          ((plain_transition sandbox_id operation_id v LifecycleEvent.EXTERNAL_ABSENCE_VERIFIED SandboxState.CLEANED)
             \<lparr>ta_terminal_reason := Some TerminalReason.CLEANED_EXTERNALLY,
              ta_cleanup_state := Some CleanupState.COMPLETED\<rparr>)
      | ReconciliationClassification.TERMINAL_AWAITING_CLEANUP \<Rightarrow> Inr
          ((plain_transition sandbox_id operation_id v LifecycleEvent.CLEANUP_SCHEDULED SandboxState.TERMINAL)
             \<lparr>ta_cleanup_state := Some CleanupState.SCHEDULED, ta_cleanup_due_at := pl_cleanup_due_at plan\<rparr>)
      | ReconciliationClassification.CLEANUP_OVERDUE \<Rightarrow> Inr
          ((plain_transition sandbox_id operation_id v LifecycleEvent.CLEANUP_SCHEDULED SandboxState.TERMINAL)
             \<lparr>ta_cleanup_state := Some CleanupState.SCHEDULED, ta_cleanup_due_at := pl_cleanup_due_at plan\<rparr>)
      | _ \<Rightarrow> Inl (SandboxLifecycleError (''Unsupported reconciliation mutation for '' @
             ReconciliationClassification_value (pl_classification plan) @ ''.'')))"

definition reconcile_existing_record ::
  "(string \<Rightarrow> string) \<Rightarrow> 'd clock \<Rightarrow> SandboxLifecyclePolicy \<Rightarrow> string \<Rightarrow> string \<Rightarrow> SandboxObservation \<Rightarrow>
   ('p sandbox_db, SandboxLifecycleMutationResult option) eff" where
  "reconcile_existing_record sha256 clk p sandbox_id operation_id obs =
     bind_eff (read_eff (require_record sandbox_id)) (\<lambda>r.
     bind_eff (lift_result (plan_existing_record clk p r obs)) (\<lambda>plan.
       if \<not> pl_action_required plan then lift_result (Inr None)
       else bind_eff (lift_result (plan_transition sandbox_id operation_id r plan)) (\<lambda>a.
         bind_eff (transition_state sha256 a) (\<lambda>m. lift_result (Inr (Some m))))))"

section \<open>Cleanup scheduler\<close>

record CleanupCandidate =
  cc_sandbox_id :: string
  cc_cleanup_due_at :: string
  cc_record_version :: int

definition is_due_candidate :: "SandboxLifecycleRecord \<Rightarrow> string \<Rightarrow> bool" where
  "is_due_candidate r observed_at =
     (\<not> sb_requires_reconciliation r \<and>
      sb_state r \<in> {SandboxState.TERMINAL, SandboxState.ORPHANED} \<and>
      (sb_cleanup_state r = CleanupState.SCHEDULED \<or>
       sb_state r = SandboxState.TERMINAL \<and> sb_cleanup_state r \<in> {CleanupState.NONE, CleanupState.FAILED}) \<and>
      is_due (sb_cleanup_due_at r) observed_at)"

definition list_due_candidates ::
  "(string \<Rightarrow> string option) \<Rightarrow> string \<Rightarrow> 'p sandbox_db \<Rightarrow> CleanupCandidate list result" where
  "list_due_candidates sqlite_datetime observed_at db =
     bind_result (list_records sqlite_datetime db) (\<lambda>records. Inr
       (sort_key (\<lambda>c. (cc_cleanup_due_at c, cc_sandbox_id c))
         (map (\<lambda>r. \<lparr>cc_sandbox_id = sb_sandbox_id r, cc_cleanup_due_at = or_else (sb_cleanup_due_at r) ''None'',
                    cc_record_version = sb_record_version r\<rparr>)
           (filter (\<lambda>r. is_due_candidate r observed_at) records))))"

definition needs_scheduling :: "SandboxLifecycleRecord \<Rightarrow> bool" where
  "needs_scheduling r = (sb_state r = SandboxState.TERMINAL \<and>
     sb_cleanup_state r \<in> {CleanupState.NONE, CleanupState.FAILED})"

definition schedule_request :: "string \<Rightarrow> string \<Rightarrow> SandboxLifecycleRecord \<Rightarrow> transition_args" where
  "schedule_request operation_id_prefix observed_at r =
     (plain_transition (sb_sandbox_id r) (operation_id_prefix @ '':schedule:'' @ sb_sandbox_id r)
        (sb_record_version r) LifecycleEvent.CLEANUP_SCHEDULED SandboxState.TERMINAL)
       \<lparr>ta_cleanup_state := Some CleanupState.SCHEDULED,
        ta_cleanup_due_at := Some (str_or (sb_cleanup_due_at r) observed_at)\<rparr>"

definition claim_request :: "string \<Rightarrow> string \<Rightarrow> SandboxLifecycleRecord \<Rightarrow> claim_args" where
  "claim_request operation_id_prefix claimant_id r =
     \<lparr>ca_sandbox_id = sb_sandbox_id r, ca_operation_id = operation_id_prefix @ '':claim:'' @ sb_sandbox_id r,
      ca_claimant_id = claimant_id, ca_expected_record_version = sb_record_version r\<rparr>"

text \<open>
  One round of the loop; \<open>None\<close> is \<open>continue\<close>. A round that schedules the cleanup first keeps that
  write when the claim then fails.
\<close>

definition claim_candidate ::
  "(string \<Rightarrow> string) \<Rightarrow> string \<Rightarrow> string \<Rightarrow> string \<Rightarrow> CleanupCandidate \<Rightarrow>
   ('p sandbox_db, SandboxLifecycleMutationResult option) eff" where
  "claim_candidate sha256 observed_at claimant_id operation_id_prefix candidate =
     bind_eff (read_eff (get_record (cc_sandbox_id candidate))) (\<lambda>record.
       case record of
         None \<Rightarrow> lift_result (Inr None)
       | Some current \<Rightarrow>
           if \<not> is_due_candidate current observed_at then lift_result (Inr None)
           else bind_eff
             (if needs_scheduling current
              then bind_eff (transition_state sha256 (schedule_request operation_id_prefix observed_at current))
                (\<lambda>m. lift_result (Inr (mut_record m)))
              else lift_result (Inr current))
             (\<lambda>current'. bind_eff (claim_cleanup sha256 (claim_request operation_id_prefix claimant_id current'))
                (\<lambda>m. lift_result (Inr (Some m)))))"

fun claim_candidates ::
  "(string \<Rightarrow> string) \<Rightarrow> string \<Rightarrow> string \<Rightarrow> string \<Rightarrow> CleanupCandidate list \<Rightarrow>
   ('p sandbox_db, SandboxLifecycleMutationResult option) eff" where
  "claim_candidates sha256 observed_at claimant_id prefix [] db = (Inr None, db)"
| "claim_candidates sha256 observed_at claimant_id prefix (c # cs) db =
     (case claim_candidate sha256 observed_at claimant_id prefix c db of
        (Inr (Some m), db') \<Rightarrow> (Inr (Some m), db')
      | (Inr None, db') \<Rightarrow> claim_candidates sha256 observed_at claimant_id prefix cs db'
      | (Inl (SandboxLifecycleConflictError _), db') \<Rightarrow>
          claim_candidates sha256 observed_at claimant_id prefix cs db'
      | (Inl e, db') \<Rightarrow> (Inl e, db'))"

definition claim_next_due_cleanup ::
  "(string \<Rightarrow> string) \<Rightarrow> (string \<Rightarrow> string option) \<Rightarrow> string \<Rightarrow> string \<Rightarrow> string \<Rightarrow>
   ('p sandbox_db, SandboxLifecycleMutationResult option) eff" where
  "claim_next_due_cleanup sha256 sqlite_datetime observed_at claimant_id operation_id_prefix =
     bind_eff (read_eff (list_due_candidates sqlite_datetime observed_at)) (\<lambda>candidates.
       claim_candidates sha256 observed_at claimant_id operation_id_prefix candidates)"

section \<open>What the services achieve\<close>

text \<open>An admissible transition of the current version under a new operation id is carried out.\<close>

definition transition_target :: "transition_args \<Rightarrow> SandboxLifecycleRecord \<Rightarrow> SandboxLifecycleRecord" where
  "transition_target a r = r\<lparr>
     sb_state := ta_next_state a,
     sb_cleanup_state := or_else (ta_cleanup_state a) (sb_cleanup_state r),
     sb_terminal_reason := or_keep (ta_terminal_reason a) (sb_terminal_reason r),
     sb_owner_instance_id := or_keep (ta_next_owner_instance_id a) (sb_owner_instance_id r),
     sb_lease_epoch := or_else (ta_next_lease_epoch a) (sb_lease_epoch r),
     sb_terminal_at := or_keep (ta_terminal_at a) (sb_terminal_at r),
     sb_cleanup_due_at := or_keep (ta_cleanup_due_at a) (sb_cleanup_due_at r),
     sb_record_version := sb_record_version r + 1\<rparr>"

definition admissible_transition :: "transition_args \<Rightarrow> SandboxLifecycleRecord \<Rightarrow> bool" where
  "admissible_transition a r \<longleftrightarrow>
     \<not> sb_requires_reconciliation r \<and> ta_expected_record_version a = sb_record_version r \<and>
     ta_expected_owner_instance_id a = None \<and> ta_expected_lease_epoch a = None \<and>
     ta_event a \<noteq> LifecycleEvent.OWNERSHIP_REACQUIRED \<and>
     validate_lifecycle_transition (sb_state r) (ta_event a) (ta_next_state a)
       (ta_terminal_reason a) (ta_cleanup_state a) = Inr True"

lemma transition_state_succeeds:
  assumes ok: "sandbox_keys_ok db" and r: "require_record (ta_sandbox_id a) db = Inr r"
    and adm: "admissible_transition a r" and new: "stored_operation db (ta_operation_id a) = None"
  obtains q db' where "transition_state sha256 a db = (Inr \<lparr>mut_record = transition_target a r, mut_reused = False\<rparr>, db')"
    and "cas_applied q db r db'" and "mr_operation_id q = ta_operation_id a" and "mr_record q = transition_target a r"
proof -
  obtain q where q: "transition_plan sha256 a r = Inr q" and exp: "mr_expected_lease_epoch q = None"
    "mr_expected_owner_instance_id q = None" "mr_expected_cleanup_state q =
       (if ta_cleanup_state a \<noteq> None then Some (CleanupState_value (sb_cleanup_state r)) else None)"
    using adm by (simp add: admissible_transition_def transition_plan_def ensure_not_reconciliation_blocked_def assert_fence_def)
  have rec: "mr_record q = transition_target a r" and op: "mr_operation_id q = ta_operation_id a"
    and ver: "mr_expected_record_version q = sb_record_version r"
    using plan_record_simps(1) [OF q] adm by (simp_all add: transition_target_def admissible_transition_def)
  have st: "stored_record db (ta_sandbox_id a) = Some r" "sb_sandbox_id r = ta_sandbox_id a"
    using r records.sel_Some by (auto simp: require_record_Inr_iff)
  have id: "sb_sandbox_id (mr_record q) = ta_sandbox_id a" using rec st by (simp add: transition_target_def)
  have "cas_where q r" using exp ver id st by (simp add: cas_where_def)
  then obtain reply db' where a: "apply_record_mutation q db = (Inr reply, db')" "\<not> reply_reused reply"
    "reply_record reply = mr_record q"
    using new op id st apply_new_operation [OF ok, of q] by auto
  obtain w where w: "cas_applied q db w db'" using apply_written [OF ok a(1,2)] by blast
  have "w = r" using w id st by (simp add: cas_applied_def)
  have "run_call sha256 (TransitionState a) db = (Inr \<lparr>mut_record = transition_target a r, mut_reused = False\<rparr>, db')"
    unfolding run_call_eq using r q a rec by (simp add: apply_mutation_eq)
  then show thesis using that w \<open>w = r\<close> op rec by simp
qed

lemma transition_target_valid:
  assumes "admissible_transition a r" and "SandboxLifecycleRecord_init r = Inr r"
    and "case ta_next_lease_epoch a of None \<Rightarrow> True | Some e \<Rightarrow> 0 \<le> e"
  shows "SandboxLifecycleRecord_init (transition_target a r) = Inr (transition_target a r)"
proof -
  obtain q where q: "transition_plan id a r = Inr q"
    using assms(1) by (simp add: admissible_transition_def transition_plan_def ensure_not_reconciliation_blocked_def assert_fence_def)
  moreover have "mr_record q = transition_target a r"
    using plan_record_simps(1) [OF q] by (simp add: transition_target_def)
  ultimately show ?thesis
    using plan_keeps_valid [of id "TransitionState a" r q] assms(2,3) by (simp add: call_next_epoch_def)
qed

lemma bind_eff_Inr: "m s = (Inr x, s') \<Longrightarrow> bind_eff m f s = f x s'"
  by (simp add: bind_eff_def)

lemma lifecycle_table_entries:
  "validate_lifecycle_transition SandboxState.ACTIVE LifecycleEvent.LEASE_EXPIRED SandboxState.RECLAIMABLE
     (Some TerminalReason.LEASE_EXPIRED) None = Inr True"
  "validate_lifecycle_transition SandboxState.ACTIVE LifecycleEvent.RUNTIME_MISSING SandboxState.TERMINAL
     (Some TerminalReason.LOST_RUNTIME) None = Inr True"
  "validate_lifecycle_transition SandboxState.TERMINAL LifecycleEvent.EXTERNAL_ABSENCE_VERIFIED SandboxState.CLEANED
     (Some TerminalReason.CLEANED_EXTERNALLY) (Some CleanupState.COMPLETED) = Inr True"
  "validate_lifecycle_transition SandboxState.TERMINAL LifecycleEvent.CLEANUP_SCHEDULED SandboxState.TERMINAL
     None (Some CleanupState.SCHEDULED) = Inr True"
  by code_simp+

text \<open>
  A plan for a record says which transition realises it, and that transition is admissible; its
  target is what the plan announced.
\<close>

lemma classify_recorded:
  assumes "classify_reconciliation (Some s) present conf expired due = Inr oc"
  shows "case oc_classification oc of
      ReconciliationClassification.ACTIVE \<Rightarrow> s = SandboxState.ACTIVE
    | ReconciliationClassification.RECLAIMABLE \<Rightarrow> s = SandboxState.ACTIVE
    | ReconciliationClassification.TERMINAL_LOST_RUNTIME \<Rightarrow> s = SandboxState.ACTIVE
    | ReconciliationClassification.TERMINAL_AWAITING_CLEANUP \<Rightarrow> s = SandboxState.TERMINAL
    | ReconciliationClassification.CLEANUP_OVERDUE \<Rightarrow> s = SandboxState.TERMINAL
    | ReconciliationClassification.CLEANED_EXTERNALLY \<Rightarrow> s = SandboxState.TERMINAL
    | _ \<Rightarrow> False"
  using assms by (auto simp: classify_reconciliation_def split: if_splits)

lemma plan_realised:
  assumes plan: "plan_existing_record clk p r obs = Inr pl" and act: "pl_action_required pl"
    and r: "SandboxLifecycleRecord_init r = Inr r" "\<not> sb_requires_reconciliation r"
  obtains a where "plan_transition sandbox_id operation_id r pl = Inr a"
    and "ta_sandbox_id a = sandbox_id" and "ta_operation_id a = operation_id"
    and "admissible_transition a r" and "ta_next_lease_epoch a = None \<or> ta_next_lease_epoch a = Some (sb_lease_epoch r)"
    and "sb_state (transition_target a r) = pl_target_state pl"
    and "Some (sb_cleanup_state (transition_target a r)) = pl_target_cleanup_state pl"
    and "sb_terminal_reason (transition_target a r) = pl_terminal_reason pl"
proof -
  obtain oc where oc: "classify_reconciliation (Some (sb_state r)) (obs_docker_present obs)
       (obs_ownership_confidence obs) (is_due (sb_lease_expires_at r) (obs_observed_at obs))
       (is_due (sb_cleanup_due_at r) (obs_observed_at obs)) = Inr oc"
    using plan by (auto simp: plan_existing_record_def bind_result_Inr_iff)
  note st = classify_recorded [OF oc]
  have reason: "sb_state r = SandboxState.TERMINAL \<Longrightarrow> \<exists>y. sb_terminal_reason r = Some y"
    using r(1) by (simp add: record_init_iff needs_reason_def)
  note simps = plan_existing_record_def oc bind_result_Inr_iff plan_transition_def plain_transition_def
    admissible_transition_def transition_target_def or_else_def or_keep_def lifecycle_table_entries Let_def
  show thesis
  proof (cases "oc_classification oc")
    case ACTIVE
    then show ?thesis using plan act by (auto simp: simps)
  next
    case RECLAIMABLE
    then show ?thesis using plan r(2) st that by (auto simp: simps split: option.splits)
  next
    case TERMINAL_LOST_RUNTIME
    then show ?thesis using plan r(2) st that by (auto simp: simps)
  next
    case TERMINAL_AWAITING_CLEANUP
    then show ?thesis using plan r(2) st that reason by (auto simp: simps)
  next
    case CLEANUP_OVERDUE
    then show ?thesis using plan r(2) st that reason by (auto simp: simps)
  next
    case CLEANED_EXTERNALLY
    then show ?thesis using plan r(2) st that by (auto simp: simps)
  qed (use plan st in \<open>auto simp: simps\<close>)
qed

text \<open>
  C33: reconciliation does what it planned, for a service without a control-plane publisher: when the record
  is readable and its flag \<open>requires_reconciliation\<close> is not set, the plan requires action and the operation
  id is new, the call succeeds, and the next reader finds the state, the cleanup state and the
  terminal reason the plan announced. The plan does not look at the flag, and a flagged record is
  refused; the publications after the write, which may raise, are not modelled.
\<close>

theorem reconciliation_realises_plan:
  assumes "sandbox_keys_ok db" and "require_record sandbox_id db = Inr r"
    and "\<not> sb_requires_reconciliation r" and "plan_existing_record clk p r obs = Inr pl"
    and "pl_action_required pl" and "stored_operation db operation_id = None"
  shows "\<exists>m db'. reconcile_existing_record sha256 clk p sandbox_id operation_id obs db = (Inr (Some m), db') \<and>
    get_record sandbox_id db' = Inr (Some (mut_record m)) \<and>
    sb_state (mut_record m) = pl_target_state pl \<and>
    Some (sb_cleanup_state (mut_record m)) = pl_target_cleanup_state pl \<and>
    sb_terminal_reason (mut_record m) = pl_terminal_reason pl"
proof -
  have init: "SandboxLifecycleRecord_init r = Inr r" "stored_record db sandbox_id = Some r"
    using assms(2) by (simp_all add: require_record_Inr_iff)
  obtain a where a: "plan_transition sandbox_id operation_id r pl = Inr a"
    and id: "ta_sandbox_id a = sandbox_id" "ta_operation_id a = operation_id"
    and adm: "admissible_transition a r"
    and ep: "ta_next_lease_epoch a = None \<or> ta_next_lease_epoch a = Some (sb_lease_epoch r)"
    and tgt: "sb_state (transition_target a r) = pl_target_state pl"
      "Some (sb_cleanup_state (transition_target a r)) = pl_target_cleanup_state pl"
      "sb_terminal_reason (transition_target a r) = pl_terminal_reason pl"
    by (rule plan_realised [OF assms(4,5) init(1) assms(3)])
  obtain q db' where t: "transition_state sha256 a db = (Inr \<lparr>mut_record = transition_target a r, mut_reused = False\<rparr>, db')"
    and c: "cas_applied q db r db'" and qr: "mr_record q = transition_target a r"
    using transition_state_succeeds [of db a r sha256] assms(1,2,6) adm id by metis
  have "case ta_next_lease_epoch a of None \<Rightarrow> True | Some e \<Rightarrow> 0 \<le> e"
    using ep init(1) by (auto simp: record_init_iff)
  then have "SandboxLifecycleRecord_init (transition_target a r) = Inr (transition_target a r)"
    by (rule transition_target_valid [OF adm init(1)])
  moreover have "sb_sandbox_id r = sandbox_id" using init(2) records.sel_Some by blast
  ultimately have "get_record sandbox_id db' = Inr (Some (transition_target a r))"
    using c qr by (simp add: get_record_Some_iff cas_applied_def transition_target_def)
  moreover have "reconcile_existing_record sha256 clk p sandbox_id operation_id obs db =
      (Inr (Some \<lparr>mut_record = transition_target a r, mut_reused = False\<rparr>), db')"
    using assms(2,4,5) a t
    by (simp add: reconcile_existing_record_def bind_eff_read_eff bind_eff_Inr [of "transition_state sha256 a"]
        lift_result_def)
  ultimately show ?thesis using tgt by simp
qed

definition sample_clock :: "string clock" where
  "sample_clock = \<lparr>fromisoformat = Some, isoformat = id, plus_minutes = (\<lambda>d n. Inr (d @ ''+'' @ str_of_int n)),
     not_before = (\<lambda>a b. Inr (b \<le> a))\<rparr>"

theorem reconciliation_realises_plan_witness:
  "let db = sample_sandbox_db SandboxState.ACTIVE CleanupState.NONE 4;
       obs = \<lparr>obs_docker_present = False, obs_observed_at = ''t5'', obs_ownership_confidence = None\<rparr>
   in \<exists>m db'. reconcile_existing_record id sample_clock default_policy ''sb-1'' ''op-7'' obs db = (Inr (Some m), db') \<and>
        sb_state (mut_record m) = SandboxState.TERMINAL"
proof -
  let ?r = "sample_sandbox SandboxState.ACTIVE CleanupState.NONE 4"
  let ?db = "sample_sandbox_db SandboxState.ACTIVE CleanupState.NONE 4"
  let ?obs = "\<lparr>obs_docker_present = False, obs_observed_at = ''t5'', obs_ownership_confidence = None\<rparr>"
  have "case plan_existing_record sample_clock default_policy ?r ?obs of Inl _ \<Rightarrow> False
      | Inr pl \<Rightarrow> pl_action_required pl \<and> pl_target_state pl = SandboxState.TERMINAL" by code_simp
  then obtain pl where pl: "plan_existing_record sample_clock default_policy ?r ?obs = Inr pl" "pl_action_required pl"
    "pl_target_state pl = SandboxState.TERMINAL" by (auto split: sum.splits)
  have "sandbox_keys_ok ?db" and "require_record ''sb-1'' ?db = Inr ?r" and "\<not> sb_requires_reconciliation ?r"
    and "stored_operation ?db ''op-7'' = None" by code_simp+
  from reconciliation_realises_plan [OF this(1-3) pl(1,2) this(4), of id] pl(3) show ?thesis
    unfolding Let_def by auto
qed

lemma read_records_Inr:
  "read_records ws = Inr rs \<Longrightarrow> rs = ws \<and> (\<forall>w \<in> set ws. SandboxLifecycleRecord_init w = Inr w)"
  by (induction ws arbitrary: rs) (auto simp: bind_result_Inr_iff read_record_Inr_iff)

lemma list_records_readable:
  assumes "list_records sqlite_datetime db = Inr rs" and "sandbox_keys_ok db" and "r \<in> set rs"
  shows "require_record (sb_sandbox_id r) db = Inr r"
proof -
  have "r \<in> set (sandbox_lifecycle_records db)" and "SandboxLifecycleRecord_init r = Inr r"
    using read_records_Inr [OF assms(1) [unfolded list_records_def]] assms(3) by auto
  then show ?thesis using assms(2) records.sel_distinct [of "sandbox_lifecycle_records db" r]
    by (simp add: require_record_Inr_iff sandbox_keys_ok_def)
qed

lemma claim_candidate_claims:
  assumes ok: "sandbox_keys_ok db" and r: "require_record (cc_sandbox_id c) db = Inr r" and due: "is_due_candidate r now"
    and new: "stored_operation db (prefix @ '':schedule:'' @ cc_sandbox_id c) = None"
      "stored_operation db (prefix @ '':claim:'' @ cc_sandbox_id c) = None"
  obtains m db' where "claim_candidate sha256 now claimant prefix c db = (Inr (Some m), db')"
    and "\<not> mut_reused m" and "stored_record db' (cc_sandbox_id c) = Some (mut_record m)"
    and "sb_cleanup_state (mut_record m) = CleanupState.IN_PROGRESS"
    and "sb_cleanup_owner_instance_id (mut_record m) = Some claimant"
proof -
  note found = that
  have get: "get_record (cc_sandbox_id c) db = Inr (Some r)" and init: "SandboxLifecycleRecord_init r = Inr r"
    and sid: "sb_sandbox_id r = cc_sandbox_id c"
    using r records.sel_Some by (auto simp: require_record_Inr_iff get_record_Some_iff)
  have finish: thesis
    if pre: "sandbox_keys_ok db1" "require_record (cc_sandbox_id c) db1 = Inr r1" "claimable r1"
      "stored_operation db1 (prefix @ '':claim:'' @ cc_sandbox_id c) = None"
      and eq: "claim_candidate sha256 now claimant prefix c db =
        bind_eff (claim_cleanup sha256 (claim_request prefix claimant r1)) (\<lambda>m. lift_result (Inr (Some m))) db1"
    for db1 r1
  proof -
    let ?a = "claim_request prefix claimant r1"
    have id: "sb_sandbox_id r1 = cc_sandbox_id c" using pre(2) records.sel_Some by (auto simp: require_record_Inr_iff)
    obtain q db' where cl: "claim_cleanup sha256 ?a db1 = (Inr \<lparr>mut_record = claim_target ?a r1, mut_reused = False\<rparr>, db')"
      and cas: "cas_applied q db1 r1 db'" and q: "mr_record q = claim_target ?a r1"
      by (rule claim_cleanup_succeeds [of db1 ?a r1 sha256]) (use pre id in \<open>simp_all add: claim_request_def\<close>)
    have "claim_candidate sha256 now claimant prefix c db =
        (Inr (Some \<lparr>mut_record = claim_target ?a r1, mut_reused = False\<rparr>), db')"
      unfolding eq bind_eff_Inr [of "claim_cleanup sha256 ?a", OF cl] by (simp add: lift_result_def)
    moreover have "stored_record db' (cc_sandbox_id c) = Some (claim_target ?a r1)"
      using cas q id by (simp add: cas_applied_def claim_target_def)
    ultimately show thesis
      by (intro found [of "\<lparr>mut_record = claim_target ?a r1, mut_reused = False\<rparr>" db'])
        (simp_all add: claim_target_def claim_request_def)
  qed
  show thesis
  proof (cases "needs_scheduling r")
    case False
    then have "claimable r" using due by (auto simp: is_due_candidate_def claimable_def needs_scheduling_def)
    then show thesis
      by (rule finish [OF ok r _ new(2)]) (use False due in \<open>simp add: claim_candidate_def bind_eff_read_eff get\<close>)
  next
    case True
    define a where "a = schedule_request prefix now r"
    have fields: "ta_sandbox_id a = cc_sandbox_id c" "ta_operation_id a = prefix @ '':schedule:'' @ cc_sandbox_id c"
      "ta_next_lease_epoch a = None" by (simp_all add: a_def schedule_request_def plain_transition_def sid)
    have adm: "admissible_transition a r" using True due
      by (simp add: admissible_transition_def a_def schedule_request_def plain_transition_def needs_scheduling_def
          lifecycle_table_entries is_due_candidate_def)
    obtain q db1 where t: "transition_state sha256 a db = (Inr \<lparr>mut_record = transition_target a r, mut_reused = False\<rparr>, db1)"
      and cas: "cas_applied q db r db1" and q: "mr_operation_id q = ta_operation_id a" "mr_record q = transition_target a r"
      by (rule transition_state_succeeds [OF ok _ adm, of sha256]) (use r new(1) fields in simp_all)
    have valid: "SandboxLifecycleRecord_init (transition_target a r) = Inr (transition_target a r)"
      by (rule transition_target_valid [OF adm init]) (simp add: fields)
    have id: "sb_sandbox_id (transition_target a r) = cc_sandbox_id c" by (simp add: transition_target_def sid)
    have 1: "sandbox_keys_ok db1" "require_record (cc_sandbox_id c) db1 = Inr (transition_target a r)"
      using cas q valid id by (simp_all add: cas_applied_def require_record_Inr_iff)
    have 3: "stored_operation db1 (prefix @ '':claim:'' @ cc_sandbox_id c) = None"
      using cas q fields new(2) by (simp add: cas_applied_def)
    have 2: "claimable (transition_target a r)" using due True
      by (simp add: claimable_def transition_target_def a_def schedule_request_def plain_transition_def or_else_def
          is_due_candidate_def)
    have "bind_eff (transition_state sha256 a) (\<lambda>m. lift_result (Inr (mut_record m))) db = (Inr (transition_target a r), db1)"
      using t by (simp add: bind_eff_Inr [of "transition_state sha256 a"] lift_result_def)
    note sched = bind_eff_Inr [of "bind_eff (transition_state sha256 a) (\<lambda>m. lift_result (Inr (mut_record m)))", OF this]
    show thesis
      by (rule finish [OF 1 2 3]) (use True due in \<open>simp add: claim_candidate_def bind_eff_read_eff get sched a_def [symmetric]\<close>)
  qed
qed

text \<open>
  The scheduler claims the most urgent cleanup: when some cleanup is due and its operation ids are
  unused, the call succeeds on the first candidate, which no candidate precedes in due time and then
  identifier, and its record is stored as in progress for the claimant.
\<close>

theorem earliest_due_cleanup_claimed:
  assumes "sandbox_keys_ok db" and "list_due_candidates sqlite_datetime now db = Inr (c # cs)"
    and "stored_operation db (prefix @ '':schedule:'' @ cc_sandbox_id c) = None"
    and "stored_operation db (prefix @ '':claim:'' @ cc_sandbox_id c) = None"
  shows "(\<exists>m db'. claim_next_due_cleanup sha256 sqlite_datetime now claimant prefix db = (Inr (Some m), db') \<and>
      stored_record db' (cc_sandbox_id c) = Some (mut_record m) \<and>
      sb_cleanup_state (mut_record m) = CleanupState.IN_PROGRESS \<and>
      sb_cleanup_owner_instance_id (mut_record m) = Some claimant) \<and>
    (\<forall>c' \<in> set cs. (cc_cleanup_due_at c, cc_sandbox_id c) \<le> (cc_cleanup_due_at c', cc_sandbox_id c'))"
proof -
  let ?f = "\<lambda>c. (cc_cleanup_due_at c, cc_sandbox_id c)"
  let ?mk = "\<lambda>r. \<lparr>cc_sandbox_id = sb_sandbox_id r, cc_cleanup_due_at = or_else (sb_cleanup_due_at r) ''None'',
                    cc_record_version = sb_record_version r\<rparr>"
  obtain rs where rs: "list_records sqlite_datetime db = Inr rs"
    and cs: "c # cs = sort_key ?f (map ?mk (filter (\<lambda>r. is_due_candidate r now) rs))"
    using assms(2) by (auto simp: list_due_candidates_def bind_result_Inr_iff)
  have "c \<in> set (map ?mk (filter (\<lambda>r. is_due_candidate r now) rs))" 
    using arg_cong [OF cs, of set] unfolding set_sort by (metis (no_types) list.set_intros(1))
  then obtain r where r: "r \<in> set rs" "is_due_candidate r now" "cc_sandbox_id c = sb_sandbox_id r" by auto
  have req: "require_record (cc_sandbox_id c) db = Inr r" using list_records_readable [OF rs assms(1) r(1)] r(3) by simp
  obtain m db' where m: "claim_candidate sha256 now claimant prefix c db = (Inr (Some m), db')"
    "stored_record db' (cc_sandbox_id c) = Some (mut_record m)"
    "sb_cleanup_state (mut_record m) = CleanupState.IN_PROGRESS"
    "sb_cleanup_owner_instance_id (mut_record m) = Some claimant"
    by (rule claim_candidate_claims [OF assms(1) req r(2) assms(3,4)])
  have "claim_next_due_cleanup sha256 sqlite_datetime now claimant prefix db = (Inr (Some m), db')"
    using assms(2) m(1) by (simp add: claim_next_due_cleanup_def bind_eff_read_eff)
  moreover have "sorted (map ?f (c # cs))" unfolding cs by (rule sorted_sort_key)
  ultimately show ?thesis using m by auto
qed

theorem earliest_due_cleanup_claimed_witness:
  "let db = save_record ((sample_sandbox SandboxState.TERMINAL CleanupState.NONE 4)\<lparr>sb_cleanup_due_at := Some ''t1''\<rparr>)
              (empty_sandbox_db :: unit sandbox_db)
   in \<exists>m db'. claim_next_due_cleanup id (\<lambda>_. None) ''t5'' ''sweeper'' ''sweep'' db = (Inr (Some m), db') \<and>
        sb_cleanup_owner_instance_id (mut_record m) = Some ''sweeper''"
proof -
  let ?db = "save_record ((sample_sandbox SandboxState.TERMINAL CleanupState.NONE 4)\<lparr>sb_cleanup_due_at := Some ''t1''\<rparr>)
              (empty_sandbox_db :: unit sandbox_db)"
  let ?c = "\<lparr>cc_sandbox_id = ''sb-1'', cc_cleanup_due_at = ''t1'', cc_record_version = 4\<rparr>"
  have "sandbox_keys_ok ?db" and "list_due_candidates (\<lambda>_. None) ''t5'' ?db = Inr [?c]"
    and "stored_operation ?db (''sweep'' @ '':schedule:'' @ cc_sandbox_id ?c) = None"
    and "stored_operation ?db (''sweep'' @ '':claim:'' @ cc_sandbox_id ?c) = None"
    by code_simp+
  from earliest_due_cleanup_claimed [OF this, of id "''sweeper''"] show ?thesis unfolding Let_def by blast
qed

end
