(* ===== verification/Outward_Stores.thy ===== *)
theory Outward_Stores
  imports Outward_Ledger Sql_Tables
begin

text \<open>
  The records of outward runs (\<open>orket/core/domain/outward_runs.py\<close>, \<open>outward_approvals.py\<close>) and the
  three SQLite stores that hold them (\<open>orket/adapters/storage/outward_run_store.py\<close>,
  \<open>outward_run_event_store.py\<close>, \<open>outward_approval_store.py\<close>). Every method is one transaction; the
  columns that hold JSON give a dict back with its keys in order.
\<close>

section \<open>Records\<close>

record OutwardRunRecord =
  or_run_id :: string
  or_status :: string
  or_namespace :: string
  or_submitted_at :: string
  or_current_turn :: int
  or_max_turns :: int
  or_task :: "(string \<times> json) list"
  or_policy_overrides :: "(string \<times> json) list"
  or_pending_proposals :: "(string \<times> json) list list"
  or_started_at :: "string option"
  or_completed_at :: "string option"
  or_stop_reason :: "string option"

definition to_status_payload :: "OutwardRunRecord \<Rightarrow> (string \<times> json) list" where
  "to_status_payload r =
     [(''run_id'', JStr (or_run_id r)), (''status'', JStr (or_status r)),
      (''namespace'', JStr (or_namespace r)), (''submitted_at'', JStr (or_submitted_at r)),
      (''started_at'', json_opt_str (or_started_at r)), (''completed_at'', json_opt_str (or_completed_at r)),
      (''stop_reason'', json_opt_str (or_stop_reason r)), (''current_turn'', JInt (or_current_turn r)),
      (''max_turns'', JInt (or_max_turns r)),
      (''pending_proposals'', JArr (map JObj (or_pending_proposals r)))]"

record OutwardApprovalProposal =
  pr_proposal_id :: string
  pr_run_id :: string
  pr_namespace :: string
  pr_tool :: string
  pr_args_preview :: "(string \<times> json) list"
  pr_context_summary :: string
  pr_risk_level :: string
  pr_submitted_at :: string
  pr_expires_at :: string
  pr_status :: string
  pr_operator_ref :: "string option"
  pr_decision :: "string option"
  pr_reason :: "string option"
  pr_note :: "string option"
  pr_decided_at :: "string option"

definition to_queue_payload :: "OutwardApprovalProposal \<Rightarrow> (string \<times> json) list" where
  "to_queue_payload p =
     [(''proposal_id'', JStr (pr_proposal_id p)), (''run_id'', JStr (pr_run_id p)),
      (''namespace'', JStr (pr_namespace p)), (''tool'', JStr (pr_tool p)),
      (''args_preview'', JObj (pr_args_preview p)), (''context_summary'', JStr (pr_context_summary p)),
      (''risk_level'', JStr (pr_risk_level p)), (''submitted_at'', JStr (pr_submitted_at p)),
      (''expires_at'', JStr (pr_expires_at p)), (''status'', JStr (pr_status p))]"

definition to_decision_payload :: "OutwardApprovalProposal \<Rightarrow> (string \<times> json) list" where
  "to_decision_payload p = to_queue_payload p @
     [(''operator_ref'', json_opt_str (pr_operator_ref p)), (''decision'', json_opt_str (pr_decision p)),
      (''reason'', json_opt_str (pr_reason p)), (''note'', json_opt_str (pr_note p)),
      (''decided_at'', json_opt_str (pr_decided_at p))]"

record outward_db =
  outward_runs :: "OutwardRunRecord list"
  run_events :: "LedgerEvent list"
  outward_approval_proposals :: "OutwardApprovalProposal list"

definition empty_outward_db :: outward_db where
  "empty_outward_db = \<lparr>outward_runs = [], run_events = [], outward_approval_proposals = []\<rparr>"

interpretation runs: keyed_table "select or_run_id" "insert_or_replace or_run_id" or_run_id
  by unfold_locales (simp_all add: select_def insert_or_replace_def)

interpretation ledger: keyed_table "select le_event_id" "insert_or_replace le_event_id" le_event_id
  by unfold_locales (simp_all add: select_def insert_or_replace_def)

interpretation proposals: keyed_table "select pr_proposal_id" "insert_or_replace pr_proposal_id" pr_proposal_id
  by unfold_locales (simp_all add: select_def insert_or_replace_def)

abbreviation stored_run :: "outward_db \<Rightarrow> string \<Rightarrow> OutwardRunRecord option" where
  "stored_run db k \<equiv> select or_run_id k (outward_runs db)"

abbreviation stored_event :: "outward_db \<Rightarrow> string \<Rightarrow> LedgerEvent option" where
  "stored_event db k \<equiv> select le_event_id k (run_events db)"

abbreviation stored_proposal :: "outward_db \<Rightarrow> string \<Rightarrow> OutwardApprovalProposal option" where
  "stored_proposal db k \<equiv> select pr_proposal_id k (outward_approval_proposals db)"

text \<open>\<open>sqlite3\<close> binds an integer to a signed 64-bit column value and raises when it does not fit.\<close>

definition sqlite_int :: "int \<Rightarrow> bool" where
  "sqlite_int i = (- (2 ^ 63) \<le> i \<and> i < 2 ^ 63)"

definition too_large :: error where
  "too_large = OverflowError ''Python int too large to convert to SQLite INTEGER''"

section \<open>Runs\<close>

definition ACTIVE_STATUSES :: "string set" where
  "ACTIVE_STATUSES = {''queued'', ''running'', ''approval_required''}"

definition run_row :: "OutwardRunRecord \<Rightarrow> OutwardRunRecord" where
  "run_row r = r\<lparr>or_task := stored_payload (or_task r), or_policy_overrides := stored_payload (or_policy_overrides r),
     or_pending_proposals := map stored_payload (or_pending_proposals r)\<rparr>"

definition run_ints_ok :: "OutwardRunRecord \<Rightarrow> bool" where
  "run_ints_ok r = (sqlite_int (or_current_turn r) \<and> sqlite_int (or_max_turns r))"

definition run_store_create :: "OutwardRunRecord \<Rightarrow> (outward_db, OutwardRunRecord) eff" where
  "run_store_create r db =
     (if \<not> run_ints_ok r then (Inl too_large, db)
      else if stored_run db (or_run_id r) \<noteq> None
      then (Inl (IntegrityError ''UNIQUE constraint failed: outward_runs.run_id''), db)
      else (Inr r, db\<lparr>outward_runs := outward_runs db @ [run_row r]\<rparr>))"

definition run_store_update :: "OutwardRunRecord \<Rightarrow> (outward_db, OutwardRunRecord) eff" where
  "run_store_update r db =
     (if \<not> run_ints_ok r then (Inl too_large, db)
      else (Inr r, db\<lparr>outward_runs :=
        fst (update_where (\<lambda>w. or_run_id w = or_run_id r) (\<lambda>_. run_row r) (outward_runs db))\<rparr>))"

definition run_store_get :: "string \<Rightarrow> outward_db \<Rightarrow> OutwardRunRecord option" where
  "run_store_get run_id db = stored_run db run_id"

definition get_active_by_namespace :: "string \<Rightarrow> outward_db \<Rightarrow> OutwardRunRecord option" where
  "get_active_by_namespace namespace db =
     (case sort_key (\<lambda>r. (or_submitted_at r, or_run_id r))
             (filter (\<lambda>r. or_namespace r = namespace \<and> or_status r \<in> ACTIVE_STATUSES) (outward_runs db)) of
        [] \<Rightarrow> None | r # _ \<Rightarrow> Some r)"

text \<open>\<open>ORDER BY submitted_at DESC, run_id ASC\<close>: by identifier, then stably by descending time.\<close>

definition sort_desc :: "('a \<Rightarrow> 'b :: linorder) \<Rightarrow> 'a list \<Rightarrow> 'a list" where
  "sort_desc f xs = rev (sort_key f (rev xs))"

definition run_store_list :: "string option \<Rightarrow> int \<Rightarrow> int \<Rightarrow> outward_db \<Rightarrow> OutwardRunRecord list" where
  "run_store_list status limit offset db =
     (let n = max 1 (min limit 100); k = max 0 offset;
          rows = (if truthy_opt status then filter (\<lambda>r. Some (or_status r) = status) (outward_runs db)
                  else outward_runs db)
      in take (nat n) (drop (nat k) (sort_desc or_submitted_at (sort_key or_run_id rows))))"

section \<open>Events\<close>

definition validate_event :: "LedgerEvent \<Rightarrow> unit result" where
  "validate_event e =
     (if py_strip (le_event_id e) = [] then Inl (ValueError ''event_id is required'')
      else if py_strip (le_event_type e) = [] then Inl (ValueError ''event_type is required'')
      else if py_strip (le_run_id e) = [] then Inl (ValueError ''run_id is required'')
      else if py_strip (le_at e) = [] then Inl (ValueError ''at is required'')
      else Inr ())"

definition event_store_append :: "LedgerEvent \<Rightarrow> (outward_db, LedgerEvent) eff" where
  "event_store_append e db =
     (case validate_event e of
        Inl err \<Rightarrow> (Inl err, db)
      | Inr _ \<Rightarrow>
          if (case le_turn e of None \<Rightarrow> False | Some n \<Rightarrow> \<not> sqlite_int n) then (Inl too_large, db)
          else if stored_event db (le_event_id e) \<noteq> None
          then (Inl (IntegrityError ''UNIQUE constraint failed: run_events.event_id''), db)
          else (Inr e, db\<lparr>run_events := run_events db @ [e\<lparr>le_payload := stored_payload (le_payload e)\<rparr>]\<rparr>))"

definition event_store_get :: "string \<Rightarrow> outward_db \<Rightarrow> LedgerEvent option" where
  "event_store_get event_id db = stored_event db event_id"

definition update_hashes :: "string \<Rightarrow> string \<Rightarrow> string \<Rightarrow> outward_db \<Rightarrow> outward_db" where
  "update_hashes event_id event_hash chain_hash db =
     db\<lparr>run_events := fst (update_where (\<lambda>w. le_event_id w = event_id)
          (\<lambda>w. w\<lparr>le_event_hash := Some event_hash, le_chain_hash := Some chain_hash\<rparr>) (run_events db))\<rparr>"

definition event_order_key :: "LedgerEvent \<Rightarrow> string \<times> int option \<times> string \<times> string" where
  "event_order_key e = (le_run_id e, le_turn e, le_at e, le_event_id e)"

definition list_for_run ::
  "string \<Rightarrow> int option \<Rightarrow> int option \<Rightarrow> string list \<Rightarrow> string option \<Rightarrow> int \<Rightarrow> outward_db \<Rightarrow> LedgerEvent list" where
  "list_for_run run_id from_turn to_turn types agent_id limit db =
     (let clean_types = filter (\<lambda>s. s \<noteq> []) (map py_strip types);
          clean_agent_id = py_strip (str_or agent_id []);
          rows = filter (\<lambda>e. le_run_id e = run_id \<and>
            (case from_turn of None \<Rightarrow> True | Some n \<Rightarrow> (case le_turn e of None \<Rightarrow> False | Some t \<Rightarrow> n \<le> t)) \<and>
            (case to_turn of None \<Rightarrow> True | Some n \<Rightarrow> (case le_turn e of None \<Rightarrow> False | Some t \<Rightarrow> t \<le> n)) \<and>
            (clean_types = [] \<or> le_event_type e \<in> set clean_types) \<and>
            (clean_agent_id = [] \<or> le_agent_id e = Some clean_agent_id)) (run_events db)
      in take (nat (max 1 (min limit 5000))) (sort_key event_order_key rows))"

section \<open>Proposals\<close>

definition proposal_row :: "OutwardApprovalProposal \<Rightarrow> OutwardApprovalProposal" where
  "proposal_row p = p\<lparr>pr_args_preview := stored_payload (pr_args_preview p)\<rparr>"

definition approval_store_save :: "OutwardApprovalProposal \<Rightarrow> (outward_db, OutwardApprovalProposal) eff" where
  "approval_store_save p db =
     (Inr p, db\<lparr>outward_approval_proposals :=
        insert_or_replace pr_proposal_id (proposal_row p) (outward_approval_proposals db)\<rparr>)"

definition approval_store_get :: "string \<Rightarrow> outward_db \<Rightarrow> OutwardApprovalProposal option" where
  "approval_store_get proposal_id db = stored_proposal db proposal_id"

definition approval_store_list ::
  "string option \<Rightarrow> string option \<Rightarrow> int \<Rightarrow> outward_db \<Rightarrow> OutwardApprovalProposal list" where
  "approval_store_list status run_id limit db =
     take (nat (max 1 (min limit 500)))
       (sort_key (\<lambda>p. (pr_expires_at p, pr_submitted_at p, pr_proposal_id p))
         (filter (\<lambda>p. (truthy_opt status \<longrightarrow> Some (pr_status p) = status) \<and>
                      (truthy_opt run_id \<longrightarrow> Some (pr_run_id p) = run_id)) (outward_approval_proposals db)))"

section \<open>What the stores keep\<close>

definition outward_db_ok :: "outward_db \<Rightarrow> bool" where
  "outward_db_ok db =
     (distinct (map or_run_id (outward_runs db)) \<and> distinct (map le_event_id (run_events db)) \<and>
      distinct (map pr_proposal_id (outward_approval_proposals db)) \<and>
      (\<forall>r \<in> set (outward_runs db). run_ints_ok r))"

lemma run_row_fields [simp]:
  "or_run_id (run_row r) = or_run_id r" "or_status (run_row r) = or_status r"
  "or_namespace (run_row r) = or_namespace r" "or_stop_reason (run_row r) = or_stop_reason r"
  "or_completed_at (run_row r) = or_completed_at r" "or_current_turn (run_row r) = or_current_turn r"
  "run_ints_ok (run_row r) = run_ints_ok r"
  by (simp_all add: run_row_def run_ints_ok_def)

lemma proposal_row_fields [simp]:
  "pr_proposal_id (proposal_row p) = pr_proposal_id p" "pr_status (proposal_row p) = pr_status p"
  "pr_run_id (proposal_row p) = pr_run_id p" "pr_reason (proposal_row p) = pr_reason p"
  "pr_operator_ref (proposal_row p) = pr_operator_ref p" "pr_expires_at (proposal_row p) = pr_expires_at p"
  by (simp_all add: proposal_row_def)

lemma run_store_update_effect:
  assumes "outward_db_ok db" and "run_ints_ok r" and "run_store_update r db = (res, db')"
  shows "res = Inr r" and "outward_db_ok db'"
    and "stored_run db' k = (if k = or_run_id r \<and> stored_run db k \<noteq> None then Some (run_row r) else stored_run db k)"
    and "run_events db' = run_events db" and "outward_approval_proposals db' = outward_approval_proposals db"
proof -
  have db': "db' = db\<lparr>outward_runs :=
      fst (update_where (\<lambda>w. or_run_id w = or_run_id r) (\<lambda>_. run_row r) (outward_runs db))\<rparr>" "res = Inr r"
    using assms(2,3) by (simp_all add: run_store_update_def)
  then show "res = Inr r" "run_events db' = run_events db"
    "outward_approval_proposals db' = outward_approval_proposals db" by simp_all
  have "\<forall>w \<in> set (fst (update_where (\<lambda>w. or_run_id w = or_run_id r) (\<lambda>_. run_row r) (outward_runs db))). run_ints_ok w"
    using assms(1,2) by (auto simp: outward_db_ok_def update_where_def)
  then show "outward_db_ok db'" using assms(1) by (simp add: db' outward_db_ok_def runs.update_distinct)
  have d: "distinct (map or_run_id (outward_runs db))" using assms(1) by (simp add: outward_db_ok_def)
  show "stored_run db' k = (if k = or_run_id r \<and> stored_run db k \<noteq> None then Some (run_row r) else stored_run db k)"
    using runs.sel_Some [of k] by (auto simp: db' runs.sel_update [OF d] map_option_case split: option.splits)
qed

lemma approval_store_save_effect:
  assumes "outward_db_ok db" and "approval_store_save p db = (res, db')"
  shows "res = Inr p" and "outward_db_ok db'"
    and "stored_proposal db' k = (if k = pr_proposal_id p then Some (proposal_row p) else stored_proposal db k)"
    and "run_events db' = run_events db" and "outward_runs db' = outward_runs db"
  using assms proposals.put_distinct [of "outward_approval_proposals db" "proposal_row p"]
  by (auto simp: approval_store_save_def outward_db_ok_def proposals.sel_put)

lemma event_store_append_effect:
  assumes "outward_db_ok db" and "event_store_append e db = (res, db')"
  shows "outward_db_ok db'" and "outward_runs db' = outward_runs db"
    and "outward_approval_proposals db' = outward_approval_proposals db"
    and "\<And>k w. stored_event db k = Some w \<Longrightarrow> stored_event db' k = Some w"
    and "res = Inr e' \<Longrightarrow> e' = e \<and> stored_event db' (le_event_id e) = Some (e\<lparr>le_payload := stored_payload (le_payload e)\<rparr>)"
  using assms ledger.sel_append_new [of "e\<lparr>le_payload := stored_payload (le_payload e)\<rparr>" "run_events db"]
  by (auto simp: event_store_append_def outward_db_ok_def ledger.sel_None_iff ledger.sel_None_iff [THEN iffD2]
      split: sum.splits if_splits)

lemma run_store_create_effect:
  assumes "outward_db_ok db" and "run_store_create r db = (res, db')"
  shows "outward_db_ok db'" and "run_events db' = run_events db"
    and "outward_approval_proposals db' = outward_approval_proposals db"
    and "\<And>k w. stored_run db k = Some w \<Longrightarrow> stored_run db' k = Some w"
    and "res = Inr r' \<Longrightarrow> r' = r \<and> stored_run db (or_run_id r) = None \<and> outward_runs db' = outward_runs db @ [run_row r]"
  using assms runs.sel_append_new [of "run_row r" "outward_runs db"]
  by (auto simp: run_store_create_def outward_db_ok_def runs.sel_None_iff runs.sel_None_iff [THEN iffD2] split: if_splits)

end
