(* ===== verification/Outward_Export.thy ===== *)
theory Outward_Export
  imports Outward_Stores
begin

text \<open>
  The ledger service of outward runs (\<open>orket/application/services/outward_ledger_service.py\<close>): it
  chains the stored events of a run, exports them in full or by event group with the anchors of the
  omitted spans, and verifies a run by exporting it.

  \<open>utc_now()\<close> is the argument \<open>now\<close>. The two nested \<open>while\<close> loops of \<open>_omitted_spans\<close> are the recursive
  functions \<open>span_end\<close> and \<open>omitted_ranges\<close>, each with its termination measure.
\<close>

section \<open>Hashed events\<close>

record HashedEvent =
  he_event :: LedgerEvent
  he_position :: nat
  he_previous_chain_hash :: string

fun ensure_hashes ::
  "(string \<Rightarrow> string) \<Rightarrow> string \<Rightarrow> nat \<Rightarrow> LedgerEvent list \<Rightarrow> outward_db \<Rightarrow> HashedEvent list \<times> outward_db" where
  "ensure_hashes sha256 previous_chain_hash position [] db = ([], db)"
| "ensure_hashes sha256 previous_chain_hash position (e # es) db =
     (let event_hash = event_hash_for sha256 e;
          chain_hash = chain_hash_for sha256 previous_chain_hash event_hash;
          db1 = (if le_event_hash e \<noteq> Some event_hash \<or> le_chain_hash e \<noteq> Some chain_hash
                 then update_hashes (le_event_id e) event_hash chain_hash db else db)
      in case ensure_hashes sha256 chain_hash (Suc position) es db1 of (hs, db2) \<Rightarrow>
        (\<lparr>he_event = e\<lparr>le_event_hash := Some event_hash, le_chain_hash := Some chain_hash\<rparr>,
          he_position = position, he_previous_chain_hash = previous_chain_hash\<rparr> # hs, db2))"

definition disclosed_events :: "HashedEvent list \<Rightarrow> string list \<Rightarrow> HashedEvent list" where
  "disclosed_events events groups =
     (if groups = [''all''] then events
      else filter (\<lambda>h. event_group (le_event_type (he_event h)) \<in> set groups) events)"

definition event_counts :: "HashedEvent list \<Rightarrow> (string \<times> json) list" where
  "event_counts events =
     (let types = map (\<lambda>h. le_event_type (he_event h)) events
      in map (\<lambda>t. (t, JInt (int (length (filter (\<lambda>u. u = t) types))))) (sort (remdups types)))"

definition summary_payload :: "OutwardRunRecord \<Rightarrow> HashedEvent list \<Rightarrow> HashedEvent list \<Rightarrow> (string \<times> json) list" where
  "summary_payload run events disclosed =
     [(''run_id'', JStr (or_run_id run)), (''status'', JStr (or_status run)),
      (''current_turn'', JInt (or_current_turn run)), (''max_turns'', JInt (or_max_turns run)),
      (''completed_at'', json_opt_str (or_completed_at run)), (''stop_reason'', json_opt_str (or_stop_reason run)),
      (''event_count'', JInt (int (length events))), (''exported_event_count'', JInt (int (length disclosed))),
      (''event_counts'', JObj (event_counts events))]"

definition chain_hash_str :: "HashedEvent \<Rightarrow> string" where
  "chain_hash_str h = (case le_chain_hash (he_event h) of None \<Rightarrow> ''None'' | Some c \<Rightarrow> c)"

definition ledger_hash_of :: "HashedEvent list \<Rightarrow> string" where
  "ledger_hash_of events = (if events = [] then GENESIS_CHAIN_HASH else chain_hash_str (last events))"

definition export_event :: "HashedEvent \<Rightarrow> (string \<times> json) list" where
  "export_event h =
     (let e = he_event h in
      [(''position'', JInt (int (he_position h))), (''event_group'', JStr (event_group (le_event_type e))),
       (''previous_chain_hash'', JStr (he_previous_chain_hash h)), (''event_id'', JStr (le_event_id e)),
       (''event_type'', JStr (le_event_type e)), (''run_id'', JStr (le_run_id e)),
       (''turn'', json_opt_int (le_turn e)), (''agent_id'', json_opt_str (le_agent_id e)),
       (''at'', JStr (le_at e)), (''payload'', JObj (le_payload e)),
       (''event_hash'', json_opt_str (le_event_hash e)), (''chain_hash'', json_opt_str (le_chain_hash e))])"

section \<open>Omitted spans\<close>

text \<open>The inner loop: the first position from \<open>p\<close> on that is disclosed or past the end.\<close>

function span_end :: "nat \<Rightarrow> nat list \<Rightarrow> nat \<Rightarrow> nat" where
  "span_end n disclosed p = (if p \<le> n \<and> p \<notin> set disclosed then span_end n disclosed (Suc p) else p)"
  by pat_completeness auto
termination by (relation "measure (\<lambda>(n, disclosed, p). Suc n - p)") auto

declare span_end.simps [simp del]

lemma span_end_ge: "p \<le> span_end n disclosed p"
proof (induction n disclosed p rule: span_end.induct)
  case (1 n disclosed p)
  then show ?case by (subst span_end.simps) auto
qed

lemma span_end_gt: "p \<le> n \<Longrightarrow> p \<notin> set disclosed \<Longrightarrow> p < span_end n disclosed p"
  using span_end_ge [of "Suc p" n disclosed] by (subst span_end.simps) auto

function omitted_ranges :: "nat \<Rightarrow> nat list \<Rightarrow> nat \<Rightarrow> (nat \<times> nat) list" where
  "omitted_ranges n disclosed p =
     (if p \<le> n then
        if p \<in> set disclosed then omitted_ranges n disclosed (Suc p)
        else (p, span_end n disclosed p - 1) # omitted_ranges n disclosed (span_end n disclosed p)
      else [])"
  by pat_completeness auto
termination
proof (relation "measure (\<lambda>(n, disclosed, p). Suc n - p)", goal_cases)
  case (3 n disclosed p)
  then show ?case using span_end_gt [of p n disclosed] by auto
qed auto

declare omitted_ranges.simps [simp del]

definition omitted_spans :: "HashedEvent list \<Rightarrow> nat list \<Rightarrow> json list" where
  "omitted_spans events disclosed =
     map (\<lambda>(s, e). JObj
       [(''from_position'', JInt (int s)), (''to_position'', JInt (int e)),
        (''previous_chain_hash'', JStr (if s = 1 then GENESIS_CHAIN_HASH else chain_hash_str (events ! (s - 2)))),
        (''next_chain_hash'', JStr (chain_hash_str (events ! (e - 1))))])
       (omitted_ranges (length events) disclosed 1)"

section \<open>The service\<close>

definition outward_require_run :: "string \<Rightarrow> outward_db \<Rightarrow> OutwardRunRecord result" where
  "outward_require_run run_id db =
     (let clean_run_id = py_strip run_id in
      if clean_run_id = [] then Inl (OutwardLedgerValidationError ''run_id is required'')
      else (case run_store_get clean_run_id db of
          None \<Rightarrow> Inl (OutwardLedgerValidationError (''Run '' @ [CHR 0x27] @ clean_run_id @ [CHR 0x27] @ '' not found''))
        | Some run \<Rightarrow> Inr run))"

definition record_export_requested ::
  "string \<Rightarrow> OutwardRunRecord \<Rightarrow> string list \<Rightarrow> string \<Rightarrow> bool \<Rightarrow> string \<Rightarrow> (outward_db, LedgerEvent) eff" where
  "record_export_requested now run groups export_scope include_pii operator_ref db =
     event_store_append
       \<lparr>le_event_id = ''run:'' @ or_run_id run @ '':ledger_export_requested:'' @
          zero_pad 4 (int (length (list_for_run (or_run_id run) None None [] None 5000 db)) + 1),
        le_event_type = LEDGER_EXPORT_REQUESTED, le_run_id = or_run_id run,
        le_turn = Some (or_current_turn run), le_agent_id = Some ''operator'', le_at = now,
        le_payload =
          [(''run_id'', JStr (or_run_id run)),
           (''operator_ref'', JStr (str_or (Some (py_strip operator_ref)) ''operator:unknown'')),
           (''include_pii'', JBool include_pii), (''export_scope'', JStr export_scope),
           (''types'', JArr (map JStr groups)), (''requested_at'', JStr now)],
        le_event_hash = None, le_chain_hash = None\<rparr> db"

definition export_payload ::
  "OutwardRunRecord \<Rightarrow> string list \<Rightarrow> bool \<Rightarrow> HashedEvent list \<Rightarrow> (string \<times> json) list" where
  "export_payload run groups include_pii events =
     (let full = (groups = [''all'']);
          disclosed = disclosed_events events groups
      in
     [(''schema_version'', JStr SCHEMA_VERSION),
      (''export_scope'', JStr (if full then ''all'' else ''partial_view'')),
      (''run_id'', JStr (or_run_id run)),
      (''types'', JArr (map JStr groups)),
      (''include_pii'', JBool include_pii),
      (''contains_pii'', JBool include_pii),
      (''summary'', JObj (summary_payload run events disclosed)),
      (''policy_snapshot'', JObj
         [(''ledger_payload_model'', JStr ''policy_safe_by_construction''),
          (''payload_bytes'', JStr ''unchanged''),
          (''outbound_policy_gate'', JStr ''applied_before_serialization'')]),
      (''canonical'', JObj
         [(''ordering'', JArr (map JStr [''run_id'', ''turn'', ''at'', ''event_id''])),
          (''genesis'', JStr GENESIS_CHAIN_HASH),
          (''event_count'', JInt (int (length events))),
          (''ledger_hash'', JStr (ledger_hash_of events))]),
      (''events'', JArr (map (\<lambda>h. JObj (export_event h)) disclosed)),
      (''omitted_spans'', JArr (omitted_spans events (map he_position disclosed))),
      (''verification'', JObj
         [(''result'', JStr (if full then ''valid'' else ''partial_valid'')),
          (''meaning'', JStr (if full then ''full canonical ledger'' else ''partial verified view''))])])"

definition ledger_groups :: "string list \<Rightarrow> string list result" where
  "ledger_groups types =
     (case normalize_event_groups types of
        Inl (LedgerExportValidationError m) \<Rightarrow> Inl (OutwardLedgerValidationError m)
      | other \<Rightarrow> other)"

definition export_ledger ::
  "(string \<Rightarrow> string) \<Rightarrow> string \<Rightarrow> string \<Rightarrow> string list \<Rightarrow> bool \<Rightarrow> string \<Rightarrow> bool \<Rightarrow>
   (outward_db, (string \<times> json) list) eff" where
  "export_ledger sha256 now run_id types include_pii operator_ref record_request =
     bind_eff (read_eff (outward_require_run run_id)) (\<lambda>run.
     bind_eff (lift_result (ledger_groups types)) (\<lambda>groups.
     bind_eff (if include_pii \<and> record_request
       then bind_eff (record_export_requested now run groups
         (if groups = [''all''] then ''all'' else ''partial_view'') include_pii operator_ref) (\<lambda>_. lift_result (Inr ()))
       else lift_result (Inr ())) (\<lambda>_ db.
     case ensure_hashes sha256 GENESIS_CHAIN_HASH 1 (list_for_run (or_run_id run) None None [] None 5000 db) db of
       (events, db') \<Rightarrow> (Inr (export_payload run groups include_pii events), db'))))"

definition verify_run :: "(string \<Rightarrow> string) \<Rightarrow> string \<Rightarrow> string \<Rightarrow> (outward_db, ledger_report) eff" where
  "verify_run sha256 now run_id =
     bind_eff (export_ledger sha256 now run_id [''all''] False ''operator:api'' False) (\<lambda>payload.
       lift_result (verify_ledger_export sha256 payload))"

section \<open>The chain of the exported events\<close>

text \<open>The chain hash after the first \<open>i\<close> events, and an entry that sits at its place in the chain.\<close>

definition chain_at :: "(string \<Rightarrow> string) \<Rightarrow> LedgerEvent list \<Rightarrow> nat \<Rightarrow> string" where
  "chain_at sha256 es i = chain_of sha256 GENESIS_CHAIN_HASH (take i es)"

definition genuine :: "(string \<Rightarrow> string) \<Rightarrow> LedgerEvent list \<Rightarrow> HashedEvent \<Rightarrow> bool" where
  "genuine sha256 es h \<longleftrightarrow> 1 \<le> he_position h \<and> he_position h \<le> length es \<and>
     he_previous_chain_hash h = chain_at sha256 es (he_position h - 1) \<and>
     le_chain_hash (he_event h) = Some (chain_at sha256 es (he_position h)) \<and>
     le_event_hash (he_event h) = Some (event_hash_for sha256 (he_event h)) \<and>
     chain_at sha256 es (he_position h) =
       chain_hash_for sha256 (chain_at sha256 es (he_position h - 1)) (event_hash_for sha256 (he_event h))"

lemma chain_at_0 [simp]: "chain_at sha256 es 0 = GENESIS_CHAIN_HASH"
  by (simp add: chain_at_def)

lemma chain_at_Suc:
  "i < length es \<Longrightarrow> chain_at sha256 es (Suc i) =
     chain_hash_for sha256 (chain_at sha256 es i) (event_hash_for sha256 (es ! i))"
  by (simp add: chain_at_def take_Suc_conv_app_nth chain_of_snoc)

lemma event_hash_for_hashes [simp]:
  "event_hash_for sha256 (e\<lparr>le_event_hash := x, le_chain_hash := y\<rparr>) = event_hash_for sha256 e"
  by (simp add: event_hash_for_def canonical_event_def)

lemma ensure_hashes_genuine:
  assumes "es = drop (position - 1) all" and "1 \<le> position" and "position \<le> Suc (length all)"
    and "previous = chain_at sha256 all (position - 1)" and "ensure_hashes sha256 previous position es db = (hs, db')"
  shows "length hs = length es \<and>
    (\<forall>i < length hs. he_position (hs ! i) = position + i \<and> genuine sha256 all (hs ! i))"
  using assms
proof (induction es arbitrary: previous position db hs db')
  case (Cons e es)
  let ?eh = "event_hash_for sha256 e"
  let ?ch = "chain_hash_for sha256 previous ?eh"
  let ?db1 = "if le_event_hash e \<noteq> Some ?eh \<or> le_chain_hash e \<noteq> Some ?ch then update_hashes (le_event_id e) ?eh ?ch db else db"
  obtain hs1 db1 where r: "ensure_hashes sha256 ?ch (Suc position) es ?db1 = (hs1, db1)"
    by (cases "ensure_hashes sha256 ?ch (Suc position) es ?db1")
  let ?h = "\<lparr>he_event = e\<lparr>le_event_hash := Some ?eh, le_chain_hash := Some ?ch\<rparr>,
          he_position = position, he_previous_chain_hash = previous\<rparr>"
  have hs: "hs = ?h # hs1" using Cons.prems(5) r by (simp add: Let_def)
  have lt: "position - 1 < length all" using Cons.prems(1) by (metis drop_eq_Nil leI list.discI)
  have e: "e = all ! (position - 1)" and tl: "es = drop (Suc position - 1) all"
    using Cons.prems(1,2) lt by (metis hd_drop_conv_nth list.sel(1), metis drop_Suc list.sel(3) tl_drop Suc_diff_1 Suc_le_eq One_nat_def diff_Suc_1)
  have ch: "?ch = chain_at sha256 all (Suc position - 1)"
    using chain_at_Suc [OF lt, of sha256] Cons.prems(2,4) e by simp
  have IH: "length hs1 = length es \<and>
      (\<forall>i < length hs1. he_position (hs1 ! i) = Suc position + i \<and> genuine sha256 all (hs1 ! i))"
    by (rule Cons.IH [OF tl _ _ ch r]) (use lt Cons.prems(2) in auto)
  have h: "genuine sha256 all ?h" using Cons.prems(2,4) lt ch by (simp add: genuine_def)
  show ?case using IH h by (auto simp: hs nth_Cons split: nat.split)
qed simp

lemma export_event_get [simp]:
  "json_get (export_event h) ''position'' = JInt (int (he_position h))"
  "json_get (export_event h) ''previous_chain_hash'' = JStr (he_previous_chain_hash h)"
  "json_get (export_event h) ''event_hash'' = json_opt_str (le_event_hash (he_event h))"
  "json_get (export_event h) ''chain_hash'' = json_opt_str (le_chain_hash (he_event h))"
  by (simp_all add: export_event_def json_get_def Let_def)

lemma event_from_export_event:
  "event_from_export (export_event h) = Inr ((he_event h)\<lparr>le_event_hash := None, le_chain_hash := None\<rparr>)"
  by (cases "he_event h")
    (auto simp: event_from_export_def export_event_def Let_def json_get_def str_or_empty_def py_str_json_def
      json_opt_int_def json_opt_str_def py_int_def split: option.splits)

lemma str_or_empty_JStr [simp]: "str_or_empty (JStr s) = s"
  by (simp add: str_or_empty_def py_str_json_def)

lemma int_field_JInt: "json_get kvs f = JInt i \<Longrightarrow> int_field kvs f = (i, [])"
  by (simp add: int_field_def py_int_def)

text \<open>Verification of genuine entries in ascending order adds no error.\<close>

lemma verify_disclosed:
  assumes "\<forall>h \<in> set ds. genuine sha256 es h"
    and "sorted_wrt (<) (map he_position ds)" and "\<forall>h \<in> set ds. p < he_position h"
    and "scope = ''all'' \<longrightarrow> map he_position ds = [Suc p..<Suc (p + length ds)]"
    and "vs_previous_position st = int p" and "vs_previous_disclosed_chain st = chain_at sha256 es p"
    and "\<forall>q \<in> set (vs_positions st). q \<le> int p"
  shows "verify_events sha256 scope (map (\<lambda>h. JObj (export_event h)) ds) st = Inr
    (let positions = map he_position ds; q = last (p # positions) in
     \<lparr>vs_positions = rev (map int positions) @ vs_positions st,
      vs_disclosed_chains = rev (map (\<lambda>i. (int i, chain_at sha256 es i)) positions) @ vs_disclosed_chains st,
      vs_previous_position = int q, vs_previous_disclosed_chain = chain_at sha256 es q,
      vs_errors = vs_errors st\<rparr>)"
  using assms
proof (induction ds arbitrary: p st)
  case Nil
  then show ?case by simp
next
  case (Cons h ds)
  let ?n = "he_position h"
  let ?st = "\<lparr>vs_positions = int ?n # vs_positions st,
      vs_disclosed_chains = (int ?n, chain_at sha256 es ?n) # vs_disclosed_chains st,
      vs_previous_position = int ?n, vs_previous_disclosed_chain = chain_at sha256 es ?n, vs_errors = vs_errors st\<rparr>"
  have g: "genuine sha256 es h" and lt: "p < ?n" using Cons.prems(1,3) by auto
  have n: "int_field (export_event h) ''position'' = (int ?n, [])" by (simp add: int_field_JInt)
  have fresh: "int ?n \<notin> set (vs_positions st)" using Cons.prems(7) lt by auto
  have succ: "scope = ''all'' \<Longrightarrow> ?n = Suc p" using Cons.prems(4) by (simp add: upt_rec)
  have link: "int ?n = int p + 1 \<longleftrightarrow> ?n = Suc p" by linarith
  have ev: "verify_event sha256 scope (JObj (export_event h)) st = Inr ?st"
    using g lt fresh succ Cons.prems(5,6)
    by (auto simp: verify_event_def n event_from_export_event genuine_def note_if_def json_opt_str_def Let_def link)
  have all: "scope = ''all'' \<longrightarrow> map he_position ds = [Suc ?n..<Suc (?n + length ds)]"
    using Cons.prems(4) succ by (auto simp: upt_rec)
  have IH: "verify_events sha256 scope (map (\<lambda>h. JObj (export_event h)) ds) ?st = Inr
    (let positions = map he_position ds; q = last (?n # positions) in
     \<lparr>vs_positions = rev (map int positions) @ vs_positions ?st,
      vs_disclosed_chains = rev (map (\<lambda>i. (int i, chain_at sha256 es i)) positions) @ vs_disclosed_chains ?st,
      vs_previous_position = int q, vs_previous_disclosed_chain = chain_at sha256 es q,
      vs_errors = vs_errors ?st\<rparr>)"
    by (rule Cons.IH) (use Cons.prems all lt in auto)
  show ?case using ev IH by (simp add: Let_def)
qed

section \<open>The omitted ranges\<close>

lemma span_end_le: "p \<le> Suc n \<Longrightarrow> span_end n disclosed p \<le> Suc n"
proof (induction n disclosed p rule: span_end.induct)
  case (1 n disclosed p)
  then show ?case by (subst span_end.simps) auto
qed

lemma span_end_omitted: "p \<le> i \<Longrightarrow> i < span_end n disclosed p \<Longrightarrow> i \<notin> set disclosed"
proof (induction n disclosed p rule: span_end.induct)
  case (1 n disclosed p)
  from 1(2,3) show ?case
    by (subst (asm) span_end.simps) (use 1(1) in \<open>auto split: if_splits dest: le_neq_implies_less\<close>)
qed

lemma omitted_range_bounds:
  "(s, e) \<in> set (omitted_ranges n disclosed p) \<Longrightarrow>
     p \<le> s \<and> s \<le> e \<and> e \<le> n \<and> (\<forall>i. s \<le> i \<longrightarrow> i \<le> e \<longrightarrow> i \<notin> set disclosed)"
proof (induction n disclosed p rule: omitted_ranges.induct)
  case (1 n disclosed p)
  note gt = span_end_gt [of p n disclosed] and le = span_end_le [of p n disclosed]
    and om = span_end_omitted [of p _ n disclosed]
  from 1(3) show ?case
    by (subst (asm) omitted_ranges.simps)
      (use 1(1,2) gt le om in \<open>fastforce split: if_splits\<close>)
qed

lemma omitted_ranges_cover:
  "(\<Union>(s, e) \<in> set (omitted_ranges n disclosed p). {s..e}) = {p..n} - set disclosed"
proof (induction n disclosed p rule: omitted_ranges.induct)
  case (1 n disclosed p)
  show ?case
  proof (cases "p \<le> n")
    case False
    then show ?thesis by (subst omitted_ranges.simps) simp
  next
    case le: True
    show ?thesis
    proof (cases "p \<in> set disclosed")
      case True
      then have "{p..n} - set disclosed = {Suc p..n} - set disclosed" using le by (auto simp: Suc_le_eq dest: le_neq_implies_less)
      then show ?thesis using 1(1) [OF le True] le True by (subst omitted_ranges.simps) simp
    next
      case False
      let ?q = "span_end n disclosed p"
      have q: "p < ?q" "?q \<le> Suc n" using span_end_gt [OF le False] span_end_le [of p n disclosed] le by auto
      have "{p..?q - 1} \<union> ({?q..n} - set disclosed) = {p..n} - set disclosed"
        using q span_end_omitted [of p _ n disclosed] by force
      then show ?thesis using 1(2) [OF le False] le False by (subst omitted_ranges.simps) simp
    qed
  qed
qed

section \<open>Every export verifies\<close>

lemma next_event_found:
  assumes "h \<in> set ds" and "distinct (map he_position ds)"
  shows "next_event (map (\<lambda>h. JObj (export_event h)) ds) (int (he_position h)) = Inr (export_event h)"
  using assms
proof (induction ds)
  case (Cons d ds)
  have get: "map_of (export_event d) ''position'' = Some (JInt (int (he_position d)))" by (simp add: export_event_def Let_def)
  have "d = h" if "he_position d = he_position h" using Cons.prems that by (auto simp: rev_image_eqI)
  then show ?case using Cons by (auto simp: get py_eq_def)
qed simp

text \<open>The events of a run, hashed, and the part of them that is disclosed.\<close>

definition hashed_run :: "(string \<Rightarrow> string) \<Rightarrow> LedgerEvent list \<Rightarrow> HashedEvent list \<Rightarrow> bool" where
  "hashed_run sha256 es hs \<longleftrightarrow> length hs = length es \<and>
     (\<forall>i < length hs. he_position (hs ! i) = Suc i \<and> genuine sha256 es (hs ! i))"

lemma hashed_run_chain:
  assumes "hashed_run sha256 es hs" and "1 \<le> i" and "i \<le> length es"
  shows "chain_hash_str (hs ! (i - 1)) = chain_at sha256 es i"
proof -
  have "genuine sha256 es (hs ! (i - 1))" "he_position (hs ! (i - 1)) = i"
    using assms by (auto simp: hashed_run_def)
  then show ?thesis by (simp add: genuine_def chain_hash_str_def)
qed

lemma hashed_run_ledger_hash:
  assumes "hashed_run sha256 es hs"
  shows "ledger_hash_of hs = chain_at sha256 es (length es)"
proof (cases "hs = []")
  case True
  then show ?thesis using assms by (simp add: hashed_run_def ledger_hash_of_def)
next
  case False
  then have "length es = length hs" "1 \<le> length es" using assms by (auto simp: hashed_run_def Suc_le_eq)
  then show ?thesis using False hashed_run_chain [OF assms, of "length es"] by (simp add: ledger_hash_of_def last_conv_nth)
qed

lemma hashed_run_positions:
  assumes "hashed_run sha256 es hs"
  shows "map he_position hs = [1..<Suc (length es)]"
  using assms by (intro nth_equalityI) (auto simp: hashed_run_def simp del: upt_Suc)

lemma sorted_filter_positions:
  assumes "hashed_run sha256 es hs"
  shows "sorted_wrt (<) (map he_position (filter P hs))"
proof -
  have "sorted_wrt (<) (map he_position hs)" using hashed_run_positions [OF assms] by (simp del: upt_Suc)
  then show ?thesis unfolding sorted_wrt_map by (rule sorted_wrt_filter)
qed

definition verified_state :: "(string \<Rightarrow> string) \<Rightarrow> LedgerEvent list \<Rightarrow> HashedEvent list \<Rightarrow> verify_state" where
  "verified_state sha256 es ds =
     (let positions = map he_position ds; q = last (0 # positions) in
      \<lparr>vs_positions = rev (map int positions),
       vs_disclosed_chains = rev (map (\<lambda>i. (int i, chain_at sha256 es i)) positions),
       vs_previous_position = int q, vs_previous_disclosed_chain = chain_at sha256 es q, vs_errors = []\<rparr>)"

lemma verify_genuine_span:
  assumes run: "hashed_run sha256 es hs" and ds: "set ds \<subseteq> set hs" "distinct (map he_position ds)"
    and se: "(s, e) \<in> set (omitted_ranges (length hs) (map he_position ds) 1)"
  shows "verify_span (map (\<lambda>h. JObj (export_event h)) ds) (int (length hs)) (ledger_hash_of hs) (verified_state sha256 es ds)
     (JObj [(''from_position'', JInt (int s)), (''to_position'', JInt (int e)),
        (''previous_chain_hash'', JStr (if s = 1 then GENESIS_CHAIN_HASH else chain_hash_str (hs ! (s - 2)))),
        (''next_chain_hash'', JStr (chain_hash_str (hs ! (e - 1))))]) = Inr ([int s..int e], [])"
proof -
  have b: "1 \<le> s" "s \<le> e" "e \<le> length es" and om: "\<And>i. s \<le> i \<Longrightarrow> i \<le> e \<Longrightarrow> i \<notin> set (map he_position ds)"
    using omitted_range_bounds [OF se] run by (auto simp: hashed_run_def)
  have len: "length hs = length es" using run by (simp add: hashed_run_def)
  define span where "span = [(''from_position'', JInt (int s)), (''to_position'', JInt (int e)),
        (''previous_chain_hash'', JStr (chain_at sha256 es (s - 1))), (''next_chain_hash'', JStr (chain_at sha256 es e))]"
  have span_eq: "[(''from_position'', JInt (int s)), (''to_position'', JInt (int e)),
        (''previous_chain_hash'', JStr (if s = 1 then GENESIS_CHAIN_HASH else chain_hash_str (hs ! (s - 2)))),
        (''next_chain_hash'', JStr (chain_hash_str (hs ! (e - 1))))] = span"
    using hashed_run_chain [OF run, of "s - 1"] hashed_run_chain [OF run, of e] b
    by (auto simp: span_def numeral_2_eq_2)
  have ints: "int_field span ''from_position'' = (int s, [])" "int_field span ''to_position'' = (int e, [])"
    by (simp_all add: int_field_JInt json_get_def span_def)
  have gets: "json_get span ''previous_chain_hash'' = JStr (chain_at sha256 es (s - 1))"
    "json_get span ''next_chain_hash'' = JStr (chain_at sha256 es e)" by (simp_all add: json_get_def span_def)
  have pos: "vs_positions (verified_state sha256 es ds) = rev (map int (map he_position ds))"
    and chains: "map_of (vs_disclosed_chains (verified_state sha256 es ds)) k = Some c \<Longrightarrow> c = chain_at sha256 es (nat k)" for k c
    by (auto simp: verified_state_def Let_def dest!: map_of_SomeD)
  have overlap: "\<not> list_ex (\<lambda>n. n \<in> set (rev (map int (map he_position ds)))) [int s..int e]"
    using om by (auto simp: list_ex_iff) blast
  have anchor: "\<not> (case (if int s = 1 then Some GENESIS_CHAIN_HASH
       else map_of (vs_disclosed_chains (verified_state sha256 es ds)) (int s - 1)) of
       None \<Rightarrow> False | Some h \<Rightarrow> JStr (chain_at sha256 es (s - 1)) \<noteq> JStr h)"
    using chains [of "int s - 1"] b by (auto simp: nat_diff_distrib split: option.splits)
  have next_ok: "(if int e + 1 \<in> set (rev (map int (map he_position ds)))
     then bind_result (next_event (map (\<lambda>h. JObj (export_event h)) ds) (int e + 1)) (\<lambda>next. Inr
       (note_if (\<not> py_eq (json_get next ''previous_chain_hash'') (JStr (chain_at sha256 es e)))
         (span_text (int s) (int e) @ '' next anchor mismatch''))) else Inr []) = Inr []"
  proof (cases "int e + 1 \<in> set (rev (map int (map he_position ds)))")
    case True
    then obtain h where h: "h \<in> set ds" "int (he_position h) = int e + 1" by auto
    then have "he_position h = Suc e" by linarith
    moreover have "genuine sha256 es h" using h(1) ds(1) run by (metis in_set_conv_nth subsetD hashed_run_def)
    ultimately have "he_previous_chain_hash h = chain_at sha256 es e" by (simp add: genuine_def)
    then show ?thesis using True next_event_found [OF h(1) ds(2)] h(2) by (simp add: py_eq_def)
  qed simp
  have no_notes: "note_if (int e < int s) m = []" "note_if (int s < 1 \<or> int (length hs) < int e) m = []"
    "note_if (int e = int (length hs) \<and> JStr (chain_at sha256 es e) \<noteq> JStr (ledger_hash_of hs)) m = []" for m
    using b len by (auto simp: hashed_run_ledger_hash [OF run])
  show ?thesis
    unfolding span_eq verify_span_def json.case ints prod.case Let_def pos gets next_ok bind_result_simps no_notes
      note_if_Nil [THEN iffD2, OF overlap] note_if_Nil [THEN iffD2, OF anchor] append_Nil ..
qed

lemma verify_genuine_spans:
  assumes run: "hashed_run sha256 es hs" and ds: "set ds \<subseteq> set hs" "distinct (map he_position ds)"
    and sub: "set rs \<subseteq> set (omitted_ranges (length hs) (map he_position ds) 1)"
  shows "verify_spans (map (\<lambda>h. JObj (export_event h)) ds) (int (length hs)) (ledger_hash_of hs) (verified_state sha256 es ds)
     (map (\<lambda>(s, e). JObj
       [(''from_position'', JInt (int s)), (''to_position'', JInt (int e)),
        (''previous_chain_hash'', JStr (if s = 1 then GENESIS_CHAIN_HASH else chain_hash_str (hs ! (s - 2)))),
        (''next_chain_hash'', JStr (chain_hash_str (hs ! (e - 1))))]) rs) =
     Inr (concat (map (\<lambda>(s, e). [int s..int e]) rs), [])"
  using sub
proof (induction rs)
  case (Cons r rs)
  obtain s e where r: "r = (s, e)" by (cases r)
  with Cons show ?case using verify_genuine_span [OF run ds, of s e] by simp
qed simp

lemma ranges_cover_int:
  "set (concat (map (\<lambda>(s, e). [int s..int e]) (omitted_ranges n D 1))) = set [1..int n] - set (map int D)"
proof -
  have "set (concat (map (\<lambda>(s, e). [int s..int e]) (omitted_ranges n D 1))) =
      int ` (\<Union>(s, e) \<in> set (omitted_ranges n D 1). {s..e})"
    by (auto simp: image_UN image_int_atLeastAtMost split: prod.splits)
  also have "\<dots> = int ` {1..n} - int ` set D"
    unfolding omitted_ranges_cover by (simp add: image_set_diff)
  also have "\<dots> = set [1..int n] - set (map int D)" by (simp add: image_int_atLeastAtMost)
  finally show ?thesis .
qed

lemma export_payload_get [simp]:
  "json_get (export_payload run groups pii hs) ''schema_version'' = JStr SCHEMA_VERSION"
  "json_get (export_payload run groups pii hs) ''export_scope'' = JStr (if groups = [''all''] then ''all'' else ''partial_view'')"
  "json_get (export_payload run groups pii hs) ''canonical'' = JObj
         [(''ordering'', JArr (map JStr [''run_id'', ''turn'', ''at'', ''event_id''])),
          (''genesis'', JStr GENESIS_CHAIN_HASH),
          (''event_count'', JInt (int (length hs))),
          (''ledger_hash'', JStr (ledger_hash_of hs))]"
  "json_get (export_payload run groups pii hs) ''events'' = JArr (map (\<lambda>h. JObj (export_event h)) (disclosed_events hs groups))"
  "json_get (export_payload run groups pii hs) ''omitted_spans'' =
     JArr (omitted_spans hs (map he_position (disclosed_events hs groups)))"
  "json_get (export_payload run groups pii hs) ''run_id'' = JStr (or_run_id run)"
  by (simp_all add: export_payload_def json_get_def Let_def)

lemma ledger_hash_nonempty:
  assumes "hashed_run sha256 es hs" and "\<forall>t. hex_digest (sha256 t)"
  shows "ledger_hash_of hs \<noteq> []"
proof (cases es rule: rev_cases)
  case Nil
  then show ?thesis using assms(1) by (simp add: hashed_run_ledger_hash GENESIS_CHAIN_HASH_def)
next
  case (snoc xs x)
  then show ?thesis using assms(2) [rule_format, of "chain_text (chain_of sha256 GENESIS_CHAIN_HASH xs) (event_hash_for sha256 x)"]
    by (auto simp: hashed_run_ledger_hash [OF assms(1)] chain_at_def chain_of_snoc chain_hash_for_def hex_digest_def)
qed

lemma verify_disclosed_run:
  assumes "hashed_run sha256 es hs" and "ds = disclosed_events hs groups"
    and "scope = (if groups = [''all''] then ''all'' else ''partial_view'')"
  shows "verify_events sha256 scope (map (\<lambda>h. JObj (export_event h)) ds) (verify_start []) = Inr (verified_state sha256 es ds)"
proof -
  have ds: "ds = filter (\<lambda>h. groups = [''all''] \<or> event_group (le_event_type (he_event h)) \<in> set groups) hs"
    using assms(2) by (simp add: disclosed_events_def)
  have gen: "\<forall>h \<in> set ds. genuine sha256 es h"
    using assms(1) unfolding ds hashed_run_def by (auto simp: in_set_conv_nth)
  have "scope = ''all'' \<longrightarrow> map he_position ds = [Suc 0..<Suc (0 + length ds)]"
    using assms hashed_run_positions [OF assms(1)] by (auto simp: disclosed_events_def hashed_run_def)
  then have "verify_events sha256 scope (map (\<lambda>h. JObj (export_event h)) ds) (verify_start []) = Inr
    (let positions = map he_position ds; q = last (0 # positions) in
     \<lparr>vs_positions = rev (map int positions) @ vs_positions (verify_start []),
      vs_disclosed_chains = rev (map (\<lambda>i. (int i, chain_at sha256 es i)) positions) @ vs_disclosed_chains (verify_start []),
      vs_previous_position = int q, vs_previous_disclosed_chain = chain_at sha256 es q,
      vs_errors = vs_errors (verify_start [])\<rparr>)"
    using gen sorted_filter_positions [OF assms(1)] unfolding ds
    by (intro verify_disclosed) (auto simp: genuine_def verify_start_def)
  then show ?thesis by (simp add: verified_state_def verify_start_def Let_def)
qed

lemma verify_clean_export:
  assumes canonical: "json_get p ''canonical'' = JObj canonical" "int_field canonical ''event_count'' = (n, [])"
      "json_get canonical ''ledger_hash'' = JStr h" "h \<noteq> []" "json_get canonical ''genesis'' = JStr GENESIS_CHAIN_HASH"
    and fields: "json_get p ''schema_version'' = JStr SCHEMA_VERSION" "json_get p ''events'' = JArr es"
      "json_get p ''export_scope'' = JStr scope" "scope \<in> {''all'', ''partial_view''}"
    and events: "verify_events sha256 scope es (verify_start []) = Inr st" "vs_errors st = []"
    and spans: "(if scope = ''all'' then Inr (verify_full_export (length es) n h (vs_previous_disclosed_chain st))
       else verify_partial_export p es n h st) = Inr []"
  shows "\<exists>rep. verify_ledger_export sha256 p = Inr rep \<and> rep_errors rep = [] \<and>
    rep_result rep = (if scope = ''all'' then ''valid'' else ''partial_valid'') \<and> rep_ledger_hash rep = Some h"
proof -
  have scope: "str_or_empty (json_get p ''export_scope'') = scope"
    using fields(3,4) by (auto simp: str_or_empty_def py_str_json_def)
  have hash: "str_or_empty (json_get canonical ''ledger_hash'') = h"
    using canonical(3,4) by (auto simp: str_or_empty_def py_str_json_def)
  have "note_if (scope \<notin> {''all'', ''partial_view''}) m = []" "note_if (h = []) m = []"
    "note_if (JStr GENESIS_CHAIN_HASH \<notin> {JNull, JStr GENESIS_CHAIN_HASH}) m = []"
    "note_if (JStr SCHEMA_VERSION \<noteq> JStr SCHEMA_VERSION) m = []" for m
    using fields(4) canonical(4) by simp_all
  note no_notes = this
  show ?thesis
    unfolding verify_ledger_export_def canonical(1,2,5) fields(1,2) json.case prod.case Let_def scope hash
      no_notes bind_result_simps append_Nil events spans
    using canonical(4) by (simp add: or_none_def)
qed

lemma export_payload_verifies:
  assumes run: "hashed_run sha256 es hs" and hex: "\<forall>t. hex_digest (sha256 t)"
  shows "\<exists>rep. verify_ledger_export sha256 (export_payload r groups pii hs) = Inr rep \<and> rep_errors rep = [] \<and>
    rep_result rep = (if groups = [''all''] then ''valid'' else ''partial_valid'') \<and>
    rep_ledger_hash rep = Some (chain_of sha256 GENESIS_CHAIN_HASH es)"
proof -
  let ?ds = "disclosed_events hs groups" and ?scope = "if groups = [''all''] then ''all'' else ''partial_view''"
  have len: "length hs = length es" using run by (simp add: hashed_run_def)
  have sub: "set ?ds \<subseteq> set hs" by (auto simp: disclosed_events_def)
  have dist: "distinct (map he_position ?ds)"
    using sorted_filter_positions [OF run, of "\<lambda>h. groups = [''all''] \<or> event_group (le_event_type (he_event h)) \<in> set groups"]
    by (cases "groups = [''all'']") (simp_all add: disclosed_events_def strict_sorted_iff)
  have clean: "vs_errors (verified_state sha256 es ?ds) = []" by (simp add: verified_state_def Let_def)
  have full: "verify_full_export (length ?ds) (int (length hs)) (ledger_hash_of hs)
        (vs_previous_disclosed_chain (verified_state sha256 es ?ds)) = []" if "groups = [''all'']"
  proof -
    have "map he_position ?ds = [1..<Suc (length es)]" "length ?ds = length es"
      using that hashed_run_positions [OF run] len by (simp_all add: disclosed_events_def)
    then have "vs_previous_disclosed_chain (verified_state sha256 es ?ds) = ledger_hash_of hs"
      by (cases es) (auto simp: verified_state_def Let_def hashed_run_ledger_hash [OF run])
    then show ?thesis
      using \<open>length ?ds = length es\<close> len hashed_run_ledger_hash [OF run] by (auto simp: verify_full_export_def note_if_def)
  qed
  have partial: "verify_partial_export (export_payload r groups pii hs) (map (\<lambda>h. JObj (export_event h)) ?ds)
        (int (length hs)) (ledger_hash_of hs) (verified_state sha256 es ?ds) = Inr []"
  proof -
    have "\<forall>h \<in> set hs. he_position h \<le> length es" using run by (auto simp: hashed_run_def genuine_def in_set_conv_nth)
    then have "\<not> list_ex (\<lambda>n. int (length hs) < n) (vs_positions (verified_state sha256 es ?ds))"
      using sub by (auto simp: verified_state_def Let_def list_ex_iff len not_less)
    moreover have "set (vs_positions (verified_state sha256 es ?ds)) = set (map int (map he_position ?ds))"
      by (simp add: verified_state_def Let_def)
    ultimately show ?thesis
      using ranges_cover_int [of "length hs" "map he_position ?ds"]
        verify_genuine_spans [OF run sub dist order.refl]
      by (simp add: verify_partial_export_def omitted_spans_def note_if_def Let_def)
  qed
  have "\<exists>rep. verify_ledger_export sha256 (export_payload r groups pii hs) = Inr rep \<and> rep_errors rep = [] \<and>
      rep_result rep = (if ?scope = ''all'' then ''valid'' else ''partial_valid'') \<and> rep_ledger_hash rep = Some (ledger_hash_of hs)"
  proof (rule verify_clean_export [OF export_payload_get(3) _ _ ledger_hash_nonempty [OF run hex] _
        export_payload_get(1) export_payload_get(4) export_payload_get(2) _ verify_disclosed_run [OF run refl refl] clean])
    show "(if ?scope = ''all'' then Inr (verify_full_export (length (map (\<lambda>h. JObj (export_event h)) ?ds)) (int (length hs))
        (ledger_hash_of hs) (vs_previous_disclosed_chain (verified_state sha256 es ?ds)))
       else verify_partial_export (export_payload r groups pii hs) (map (\<lambda>h. JObj (export_event h)) ?ds)
        (int (length hs)) (ledger_hash_of hs) (verified_state sha256 es ?ds)) = Inr []"
      using full partial by (cases "groups = [''all'']") simp_all
  qed (simp_all add: int_field_JInt json_get_def)
  then show ?thesis by (cases "groups = [''all'']") (simp_all add: hashed_run_ledger_hash [OF run] chain_at_def)
qed

section \<open>What an export leaves in the store\<close>

text \<open>An event without its two hash columns: what the export neither reads nor lists by.\<close>

definition unhashed :: "LedgerEvent \<Rightarrow> LedgerEvent" where
  "unhashed e = e\<lparr>le_event_hash := None, le_chain_hash := None\<rparr>"

lemma unhashed_fields [simp]:
  "le_event_id (unhashed e) = le_event_id e" "le_event_type (unhashed e) = le_event_type e"
  "le_run_id (unhashed e) = le_run_id e" "le_turn (unhashed e) = le_turn e" "le_agent_id (unhashed e) = le_agent_id e"
  "event_order_key (unhashed e) = event_order_key e" "event_hash_for sha256 (unhashed e) = event_hash_for sha256 e"
  "unhashed (e\<lparr>le_event_hash := x, le_chain_hash := y\<rparr>) = unhashed e"
  by (simp_all add: unhashed_def event_order_key_def)

lemma chain_of_unhashed: "chain_of sha256 previous (map unhashed es) = chain_of sha256 previous es"
  by (induction es arbitrary: previous) simp_all

lemma sort_key_map_same: "(\<And>x. key (f x) = key x) \<Longrightarrow> sort_key key (map f xs) = map f (sort_key key xs)"
proof (induction xs)
  case (Cons x xs)
  have "insort_key key (f x) (map f ys) = map f (insort_key key x ys)" for ys
    using Cons.prems by (induction ys) simp_all
  then show ?case using Cons by simp
qed simp

lemma list_for_run_unhashed:
  assumes "map unhashed (run_events db) = map unhashed (run_events db')"
  shows "map unhashed (list_for_run rid a b ts ag n db) = map unhashed (list_for_run rid a b ts ag n db')"
proof -
  have "\<exists>P k. (\<forall>d. list_for_run rid a b ts ag n d = take k (sort_key event_order_key (filter P (run_events d)))) \<and>
      (\<forall>e. P (unhashed e) = P e)"
    unfolding list_for_run_def Let_def by (intro exI conjI allI) (rule refl, simp cong: option.case_cong)
  then obtain P k where list_eq: "\<And>d. list_for_run rid a b ts ag n d = take k (sort_key event_order_key (filter P (run_events d)))"
    and P: "\<And>e. P (unhashed e) = P e" by blast
  have "map unhashed (filter P xs) = filter P (map unhashed xs)" for xs using P by (induction xs) simp_all
  moreover have "map unhashed (sort_key event_order_key xs) = sort_key event_order_key (map unhashed xs)" for xs
    by (rule sort_key_map_same [symmetric]) simp
  ultimately show ?thesis by (simp add: list_eq take_map [symmetric] assms)
qed

lemma ensure_hashes_unhashed:
  "ensure_hashes sha256 previous position es db = (hs, db') \<Longrightarrow>
     map unhashed (run_events db') = map unhashed (run_events db) \<and> outward_runs db' = outward_runs db \<and>
     outward_approval_proposals db' = outward_approval_proposals db"
proof (induction es arbitrary: previous position db hs)
  case (Cons e es)
  have "map unhashed (run_events (update_hashes i x y d)) = map unhashed (run_events d)" for i x y d
    by (simp add: update_hashes_def update_where_def)
  moreover have "outward_runs (update_hashes i x y d) = outward_runs d"
    "outward_approval_proposals (update_hashes i x y d) = outward_approval_proposals d" for i x y d
    by (simp_all add: update_hashes_def)
  ultimately show ?case using Cons by (fastforce simp: Let_def split: prod.splits if_splits)
qed simp

lemma export_ledger_total:
  "outward_require_run run_id db = Inr run \<Longrightarrow> ledger_groups types = Inr groups \<Longrightarrow>
     \<exists>payload db'. export_ledger sha256 now run_id types False operator_ref rec db = (Inr payload, db')"
  by (simp add: export_ledger_def bind_eff_read_eff split: prod.split)

lemma export_ledgerE:
  assumes "export_ledger sha256 now run_id types pii operator_ref rec db = (Inr payload, db')"
  obtains run groups es hs where "outward_require_run run_id db = Inr run" and "ledger_groups types = Inr groups"
    and "payload = export_payload run groups pii hs" and "hashed_run sha256 es hs"
    and "map unhashed es = map unhashed (list_for_run (or_run_id run) None None [] None 5000 db')"
proof -
  from assms obtain run groups db1 where run: "outward_require_run run_id db = Inr run" "ledger_groups types = Inr groups"
    and rest: "(case ensure_hashes sha256 GENESIS_CHAIN_HASH 1 (list_for_run (or_run_id run) None None [] None 5000 db1) db1 of
      (hs, d) \<Rightarrow> (Inr (export_payload run groups pii hs) :: _ result, d)) = (Inr payload, db')"
    by (auto simp: export_ledger_def bind_eff_Inr_iff read_eff_def lift_result_def)
  let ?es = "list_for_run (or_run_id run) None None [] None 5000 db1"
  obtain hs where hs: "ensure_hashes sha256 GENESIS_CHAIN_HASH 1 ?es db1 = (hs, db')"
    and payload: "payload = export_payload run groups pii hs"
    using rest by (cases "ensure_hashes sha256 GENESIS_CHAIN_HASH 1 ?es db1") simp
  have "hashed_run sha256 ?es hs"
    using ensure_hashes_genuine [OF _ _ _ _ hs, of ?es] by (simp add: hashed_run_def)
  moreover have "map unhashed ?es = map unhashed (list_for_run (or_run_id run) None None [] None 5000 db')"
    using ensure_hashes_unhashed [OF hs] by (intro list_for_run_unhashed) simp
  ultimately show thesis using that [OF run payload] by simp
qed

text \<open>
  C39: whatever a ledger export produces passes the offline verification: the report has no error, it
  is valid for a full export and partially valid for a partial view, and its ledger hash is the chain
  hash of the events the store holds for the run after the export.
\<close>

theorem exported_ledger_verifies:
  assumes "export_ledger sha256 now run_id types pii operator_ref rec db = (Inr payload, db')"
    and "\<forall>t. hex_digest (sha256 t)"
  shows "\<exists>rep run groups. outward_require_run run_id db = Inr run \<and> ledger_groups types = Inr groups \<and>
    verify_ledger_export sha256 payload = Inr rep \<and> rep_errors rep = [] \<and>
    rep_result rep = (if groups = [''all''] then ''valid'' else ''partial_valid'') \<and>
    rep_ledger_hash rep = Some (chain_of sha256 GENESIS_CHAIN_HASH (list_for_run (or_run_id run) None None [] None 5000 db'))"
proof -
  from export_ledgerE [OF assms(1)] obtain run groups es hs where
    p: "outward_require_run run_id db = Inr run" "ledger_groups types = Inr groups"
      "payload = export_payload run groups pii hs" and h: "hashed_run sha256 es hs"
    and es: "map unhashed es = map unhashed (list_for_run (or_run_id run) None None [] None 5000 db')" by metis
  from es have "chain_of sha256 GENESIS_CHAIN_HASH es =
      chain_of sha256 GENESIS_CHAIN_HASH (list_for_run (or_run_id run) None None [] None 5000 db')"
    by (metis chain_of_unhashed)
  with export_payload_verifies [OF h assms(2), of run groups pii] p show ?thesis by auto
qed

definition ledger_demo_db :: outward_db where
  "ledger_demo_db =
     \<lparr>outward_runs = [\<lparr>or_run_id = ''r1'', or_status = ''running'', or_namespace = ''n'', or_submitted_at = ''t0'',
        or_current_turn = 1, or_max_turns = 20, or_task = [], or_policy_overrides = [], or_pending_proposals = [],
        or_started_at = None, or_completed_at = None, or_stop_reason = None\<rparr>],
      run_events =
       [\<lparr>le_event_id = ''e2'', le_event_type = ''tool_invoked'', le_run_id = ''r1'', le_turn = Some 1, le_agent_id = None,
         le_at = ''t2'', le_payload = [(''k'', JInt 3)], le_event_hash = Some ''forged'', le_chain_hash = None\<rparr>,
        \<lparr>le_event_id = ''e1'', le_event_type = ''run_submitted'', le_run_id = ''r1'', le_turn = Some 0, le_agent_id = None,
         le_at = ''t1'', le_payload = [], le_event_hash = None, le_chain_hash = None\<rparr>],
      outward_approval_proposals = []\<rparr>"

theorem exported_ledger_verifies_witness:
  "\<exists>payload db' rep. export_ledger ledger_demo_digest ''t3'' '' r1 '' ['' Tools ''] False ''op'' False ledger_demo_db =
      (Inr payload, db') \<and> verify_ledger_export ledger_demo_digest payload = Inr rep \<and>
     rep_result rep = ''partial_valid'' \<and> rep_errors rep = []"
proof -
  have g: "ledger_groups ['' Tools ''] = Inr [''tools'']" by code_simp
  have r: "outward_require_run '' r1 '' ledger_demo_db = Inr (hd (outward_runs ledger_demo_db))" by code_simp
  obtain payload db' where e: "export_ledger ledger_demo_digest ''t3'' '' r1 '' ['' Tools ''] False ''op'' False ledger_demo_db =
      (Inr payload, db')" using export_ledger_total [OF r g] by blast
  from exported_ledger_verifies [OF e ledger_demo_digest_hex] g e show ?thesis by auto
qed

text \<open>
  \<open>verify_run\<close> exports first, and the export recomputes and overwrites the hash columns: its answer
  does not depend on the hashes that were stored, and it is \<open>valid\<close> for every run there is.
\<close>

theorem verify_run_ignores_stored_hashes:
  assumes "outward_require_run run_id db = Inr run" and "\<forall>t. hex_digest (sha256 t)"
  shows "\<exists>rep. fst (verify_run sha256 now run_id db) = Inr rep \<and> rep_result rep = ''valid'' \<and> rep_errors rep = []"
proof -
  have g: "ledger_groups [''all''] = Inr [''all'']" by code_simp
  obtain payload db' where e: "export_ledger sha256 now run_id [''all''] False ''operator:api'' False db = (Inr payload, db')"
    using export_ledger_total [OF assms(1) g] by blast
  from export_ledgerE [OF e] g obtain run' es hs where
    "payload = export_payload run' [''all''] False hs" "hashed_run sha256 es hs" by (metis sum.inject(2))
  with export_payload_verifies [of sha256 es hs run' "[''all'']" False] assms(2) e
  show ?thesis by (auto simp: verify_run_def bind_eff_def lift_result_def)
qed

theorem verify_run_ignores_stored_hashes_witness:
  "le_event_hash (hd (run_events ledger_demo_db)) = Some ''forged'' \<and>
   (\<exists>rep. fst (verify_run ledger_demo_digest ''t3'' ''r1'' ledger_demo_db) = Inr rep \<and> rep_result rep = ''valid'')"
proof -
  have r: "outward_require_run ''r1'' ledger_demo_db = Inr (hd (outward_runs ledger_demo_db))" by code_simp
  have "le_event_hash (hd (run_events ledger_demo_db)) = Some ''forged''" by code_simp
  then show ?thesis using verify_run_ignores_stored_hashes [OF r ledger_demo_digest_hex] by blast
qed

lemma span_end_stops: "\<not> (span_end n disclosed p \<le> n \<and> span_end n disclosed p \<notin> set disclosed)"
proof (induction n disclosed p rule: span_end.induct)
  case (1 n disclosed p)
  then show ?case by (cases "p \<le> n \<and> p \<notin> set disclosed") (auto simp: span_end.simps [of n disclosed p])
qed

lemma omitted_ranges_apart:
  "sorted_wrt (\<lambda>(s, e) (s', e'). e + 1 < s') (omitted_ranges n disclosed p)"
proof (induction n disclosed p rule: omitted_ranges.induct)
  case (1 n disclosed p)
  let ?q = "span_end n disclosed p"
  have "omitted_ranges n disclosed ?q = omitted_ranges n disclosed (Suc ?q)"
    using span_end_stops [of n disclosed p]
    by (cases "?q \<le> n") (simp_all add: omitted_ranges.simps [of n disclosed ?q] omitted_ranges.simps [of n disclosed "Suc ?q"])
  then have later: "?q < s'" if "(s', e') \<in> set (omitted_ranges n disclosed ?q)" for s' e'
    using omitted_range_bounds [of s' e' n disclosed "Suc ?q"] that by simp
  show ?case
    using 1 span_end_gt [of p n disclosed] later by (auto simp: omitted_ranges.simps [of n disclosed p])
qed

text \<open>
  a partial view leaves out exactly the events it does not disclose: its omitted spans are
  nonempty, in ascending order and never adjacent, each lies within the run, and together they cover
  every position that is not disclosed and no other.
\<close>

theorem omitted_spans_partition:
  "list_all (\<lambda>(s, e). 1 \<le> s \<and> s \<le> e \<and> e \<le> n) (omitted_ranges n disclosed 1) \<and>
   sorted_wrt (\<lambda>(s, e) (s', e'). e + 1 < s') (omitted_ranges n disclosed 1) \<and>
   (\<Union>(s, e) \<in> set (omitted_ranges n disclosed 1). {s..e}) = {1..n} - set disclosed"
  using omitted_range_bounds [of _ _ n disclosed 1] omitted_ranges_apart [of n disclosed 1]
    omitted_ranges_cover [of n disclosed 1]
  by (auto simp: list_all_iff)

end
