(* ===== verification/Instants.thy ===== *)
theory Instants
  imports Orket_Prelude
begin

text \<open>
  Instants as Python's \<open>datetime\<close> has them. A \<open>datetime\<close> is the local microseconds from 0001-01-01 and
  the UTC offset, \<open>None\<close> when naive; parsing and printing in ISO format are the parameter
  \<open>datetime_lib\<close>. Adding seconds raises \<open>OverflowError\<close> outside the years 1 to 9999.
\<close>

record iso_datetime =
  dt_micros :: int
  dt_utcoffset :: "int option"

record datetime_lib =
  fromisoformat :: "string \<Rightarrow> iso_datetime result"
  isoformat :: "iso_datetime \<Rightarrow> string"

definition MAX_MICROS :: int where
  "MAX_MICROS = 3652059 * 86400 * 1000000 - 1"

text \<open>The instant of an aware \<open>datetime\<close>, which comparison uses.\<close>

definition utc_micros :: "iso_datetime \<Rightarrow> int" where
  "utc_micros d = dt_micros d - (case dt_utcoffset d of None \<Rightarrow> 0 | Some k \<Rightarrow> k)"

definition add_seconds :: "iso_datetime \<Rightarrow> int \<Rightarrow> iso_datetime result" where
  "add_seconds d n =
     (let m = dt_micros d + n * 1000000 in
      if 0 \<le> m \<and> m \<le> MAX_MICROS then Inr (d\<lparr>dt_micros := m\<rparr>)
      else Inl (OverflowError ''date value out of range''))"

text \<open>\<open>datetime.now(UTC)\<close> at a given reading of the clock.\<close>

definition aware_utc :: "int \<Rightarrow> iso_datetime" where
  "aware_utc micros = \<lparr>dt_micros = micros, dt_utcoffset = Some 0\<rparr>"

end
