(* ===== verification/Outward_Services.thy ===== *)
theory Outward_Services
  imports Complex_Main Outward_Export "HOL-Library.AList" Instants
begin

text \<open>
  The services of outward runs: the connector registry (\<open>orket/adapters/tools/registry.py\<close>), run
  submission (\<open>orket/application/services/outward_run_service.py\<close>) and the approval gate of governed
  tool calls (\<open>outward_approval_service.py\<close>).

  A submitted payload is a decoded JSON object without floats. \<open>utc_now()\<close> gives arbitrary texts: each
  call of it in a method is an argument, and where a loop calls it, the argument is a function of the
  iteration. \<open>run_id_factory()\<close> is the argument \<open>fresh\<close>. Of \<open>datetime\<close>, the parser and the printer
  are the parameter \<open>dt\<close>; a parsed instant counts microseconds from the first day of year 1, and
  comparison and addition are those of the library, with its range.
\<close>

section \<open>Connector registry\<close>

record BuiltInConnectorMetadata =
  bc_name :: string
  bc_description :: string
  bc_args_schema :: "(string \<times> json) list"
  bc_risk_level :: string
  bc_pii_fields :: "string list"
  bc_timeout_seconds :: rat

type_synonym connector_registry = "(string \<times> BuiltInConnectorMetadata) list"

definition CONNECTOR_RISK_LEVELS :: "string list" where
  "CONNECTOR_RISK_LEVELS = [''read'', ''write'', ''destructive'', ''network'', ''command'']"

definition register_connector :: "BuiltInConnectorMetadata \<Rightarrow> connector_registry \<Rightarrow> connector_registry result" where
  "register_connector connector registry =
     (let name = py_strip (bc_name connector) in
      if name = [] then Inl (ValueError ''connector name is required'')
      else if bc_risk_level connector \<notin> set CONNECTOR_RISK_LEVELS
      then Inl (ValueError (''unsupported connector risk_level: '' @ bc_risk_level connector))
      else if bc_timeout_seconds connector \<le> 0
      then Inl (ValueError ''connector timeout_seconds must be positive'')
      else Inr (AList.update name connector registry))"

fun connector_registry_of :: "BuiltInConnectorMetadata list \<Rightarrow> connector_registry \<Rightarrow> connector_registry result" where
  "connector_registry_of [] registry = Inr registry"
| "connector_registry_of (c # cs) registry = bind_result (register_connector c registry) (connector_registry_of cs)"

definition get_connector :: "connector_registry \<Rightarrow> string \<Rightarrow> BuiltInConnectorMetadata option" where
  "get_connector registry name = map_of registry (py_strip name)"

definition connector_names :: "connector_registry \<Rightarrow> string list" where
  "connector_names registry = sort (map fst registry)"

section \<open>Submission\<close>

definition positive_int :: "json \<Rightarrow> string \<Rightarrow> int result" where
  "positive_int value field =
     (let refuse = Inl (OutwardRunValidationError (field @ '' must be a positive integer'')) in
      case value of
        JBool _ \<Rightarrow> refuse
      | _ \<Rightarrow> (case py_int value of
            Inl _ \<Rightarrow> refuse
          | Inr parsed \<Rightarrow> if parsed \<le> 0 then refuse else Inr parsed))"

definition normalize_tools :: "json \<Rightarrow> json result" where
  "normalize_tools tools =
     (case tools of
        JArr items \<Rightarrow>
          if list_all (\<lambda>item. py_strip (py_str_json item) \<noteq> []) items
          then Inr (JArr (map (\<lambda>item. JStr (py_strip (py_str_json item))) items))
          else Inl (OutwardRunValidationError ''policy_overrides.approval_required_tools must be a list of tool names'')
      | _ \<Rightarrow> Inl (OutwardRunValidationError ''policy_overrides.approval_required_tools must be a list of tool names''))"

text \<open>\<open>if field in raw: normalized[field] = f(raw[field])\<close>\<close>

definition override_field ::
  "(string \<times> json) list \<Rightarrow> string \<Rightarrow> (json \<Rightarrow> json result) \<Rightarrow> (string \<times> json) list result" where
  "override_field raw field f =
     (case map_of raw field of
        None \<Rightarrow> Inr []
      | Some v \<Rightarrow> bind_result (f v) (\<lambda>w. Inr [(field, w)]))"

definition normalize_policy_overrides :: "json \<Rightarrow> (string \<times> json) list result" where
  "normalize_policy_overrides raw0 =
     bind_result (case raw0 of
         JNull \<Rightarrow> Inr []
       | JObj kvs \<Rightarrow> Inr kvs
       | _ \<Rightarrow> Inl (OutwardRunValidationError ''policy_overrides must be an object'')) (\<lambda>raw.
     bind_result (override_field raw ''approval_required_tools'' normalize_tools) (\<lambda>tools.
     bind_result (override_field raw ''max_turns'' (\<lambda>v.
       bind_result (positive_int v ''policy_overrides.max_turns'') (\<lambda>i. Inr (JInt i)))) (\<lambda>turns.
     bind_result (override_field raw ''approval_timeout_seconds'' (\<lambda>v.
       bind_result (positive_int v ''policy_overrides.approval_timeout_seconds'') (\<lambda>i. Inr (JInt i)))) (\<lambda>timeout.
     Inr (tools @ turns @ timeout)))))"

record submission =
  sub_run_id :: string
  sub_namespace :: string
  sub_task :: "(string \<times> json) list"
  sub_policy_overrides :: "(string \<times> json) list"
  sub_max_turns :: int

text \<open>\<open>payload.get(k, {})\<close>\<close>

definition get_or_empty :: "(string \<times> json) list \<Rightarrow> string \<Rightarrow> json" where
  "get_or_empty kvs k = (case map_of kvs k of None \<Rightarrow> JObj [] | Some v \<Rightarrow> v)"

definition normalize_submission :: "(string \<times> json) list \<Rightarrow> submission result" where
  "normalize_submission payload =
     (case json_get payload ''task'' of
        JObj raw_task \<Rightarrow>
          (let description = py_strip (str_or_empty (json_get raw_task ''description''));
               instruction = py_strip (str_or_empty (json_get raw_task ''instruction''))
           in if description = [] then Inl (OutwardRunValidationError ''task.description is required'')
           else if instruction = [] then Inl (OutwardRunValidationError ''task.instruction is required'')
           else bind_result (case get_or_empty raw_task ''acceptance_contract'' of
               JNull \<Rightarrow> Inr []
             | JObj kvs \<Rightarrow> Inr kvs
             | _ \<Rightarrow> Inl (OutwardRunValidationError ''task.acceptance_contract must be an object'')) (\<lambda>acceptance_contract.
           bind_result (normalize_policy_overrides (get_or_empty payload ''policy_overrides'')) (\<lambda>policy_overrides. Inr
             \<lparr>sub_run_id = py_strip (str_or_empty (json_get payload ''run_id'')),
              sub_namespace = py_strip (str_or_empty (json_get payload ''namespace'')),
              sub_task = [(''description'', JStr description), (''instruction'', JStr instruction),
                (''acceptance_contract'', JObj acceptance_contract)],
              sub_policy_overrides = policy_overrides,
              sub_max_turns = (case map_of policy_overrides ''max_turns'' of Some (JInt i) \<Rightarrow> i | _ \<Rightarrow> 20)\<rparr>)))
      | _ \<Rightarrow> Inl (OutwardRunValidationError ''task is required''))"

text \<open>The pattern shared by the services: an event whose identifier is taken is not appended again.\<close>

definition append_if_absent :: "LedgerEvent \<Rightarrow> (outward_db, unit) eff" where
  "append_if_absent e db =
     (if event_store_get (le_event_id e) db \<noteq> None then (Inr (), db)
      else bind_eff (event_store_append e) (\<lambda>_. lift_result (Inr ())) db)"

definition ensure_initial_event :: "OutwardRunRecord \<Rightarrow> (outward_db, unit) eff" where
  "ensure_initial_event r = append_if_absent
     \<lparr>le_event_id = ''run:'' @ or_run_id r @ '':submitted'', le_event_type = ''run_submitted'',
      le_run_id = or_run_id r, le_turn = Some 0, le_agent_id = Some ''operator'', le_at = or_submitted_at r,
      le_payload =
        [(''run_id'', JStr (or_run_id r)), (''namespace'', JStr (or_namespace r)), (''status'', JStr (or_status r)),
         (''submitted_at'', JStr (or_submitted_at r)),
         (''task_description'', JStr (str_or_empty (json_get (or_task r) ''description''))),
         (''policy_overrides'', JObj (or_policy_overrides r))],
      le_event_hash = None, le_chain_hash = None\<rparr>"

definition submit :: "string \<Rightarrow> string \<Rightarrow> (string \<times> json) list \<Rightarrow> (outward_db, OutwardRunRecord) eff" where
  "submit fresh now payload =
     bind_eff (lift_result (normalize_submission payload)) (\<lambda>normalized db.
     let run_id = str_or (Some (sub_run_id normalized)) (''run-'' @ fresh);
         namespace = str_or (Some (sub_namespace normalized)) (''issue:'' @ run_id)
     in case run_store_get run_id db of
        Some existing \<Rightarrow> bind_eff (ensure_initial_event existing) (\<lambda>_. lift_result (Inr existing)) db
      | None \<Rightarrow>
          if (case get_active_by_namespace namespace db of None \<Rightarrow> False | Some owner \<Rightarrow> or_run_id owner \<noteq> run_id)
          then (Inl (OutwardRunConflictError (''namespace already has an active run: '' @ namespace)), db)
          else bind_eff (run_store_create
             \<lparr>or_run_id = run_id, or_status = ''queued'', or_namespace = namespace, or_submitted_at = now,
              or_current_turn = 0, or_max_turns = sub_max_turns normalized, or_task = sub_task normalized,
              or_policy_overrides = sub_policy_overrides normalized, or_pending_proposals = [],
              or_started_at = None, or_completed_at = None, or_stop_reason = None\<rparr>) (\<lambda>created.
             bind_eff (ensure_initial_event created) (\<lambda>_. lift_result (Inr created))) db)"

definition get_status :: "string \<Rightarrow> (outward_db, OutwardRunRecord option) eff" where
  "get_status run_id = read_eff (\<lambda>db.
     (let clean_run_id = py_strip run_id in
      if clean_run_id = [] then Inl (OutwardRunValidationError ''run_id is required'')
      else Inr (run_store_get clean_run_id db)))"

definition list_runs :: "string option \<Rightarrow> int \<Rightarrow> int \<Rightarrow> (outward_db, OutwardRunRecord list) eff" where
  "list_runs status limit offset = read_eff (\<lambda>db.
     (let clean_status = py_strip (str_or status []) in
      Inr (run_store_list (if clean_status = [] then None else Some clean_status) limit offset db)))"

section \<open>Instants\<close>

definition parse_at :: "datetime_lib \<Rightarrow> string \<Rightarrow> iso_datetime result" where
  "parse_at dt value =
     bind_result (fromisoformat dt value) (\<lambda>parsed. Inr
       (case dt_utcoffset parsed of None \<Rightarrow> parsed\<lparr>dt_utcoffset := Some 0\<rparr> | Some _ \<Rightarrow> parsed))"

definition outward_expires_at :: "datetime_lib \<Rightarrow> string \<Rightarrow> int \<Rightarrow> string result" where
  "outward_expires_at dt submitted_at timeout_seconds =
     bind_result (parse_at dt submitted_at) (\<lambda>d.
     bind_result (add_seconds d (max 1 timeout_seconds)) (\<lambda>e. Inr (isoformat dt e)))"

section \<open>Approvals\<close>

definition redacted_args_preview :: "(string \<times> json) list \<Rightarrow> string list \<Rightarrow> (string \<times> json) list" where
  "redacted_args_preview args pii_fields =
     fold (\<lambda>field redacted. if field \<in> fst ` set redacted then AList.update field (JStr ''[REDACTED]'') redacted else redacted)
       pii_fields args"

definition event_order :: "string \<Rightarrow> string" where
  "event_order event_type = (if event_type = ''proposal_pending_approval'' then ''0001'' else ''0002'')"

definition normalize_status_filter :: "string option \<Rightarrow> string option" where
  "normalize_status_filter status =
     (let clean = py_lower (py_strip (str_or status [])) in if clean = [] then None else Some clean)"

definition approval_require_run :: "string \<Rightarrow> (outward_db, OutwardRunRecord) eff" where
  "approval_require_run run_id = read_eff (\<lambda>db.
     case run_store_get run_id db of
       None \<Rightarrow> Inl (OutwardApprovalValidationError (''Run '' @ [CHR 0x27] @ run_id @ [CHR 0x27] @ '' not found''))
     | Some run \<Rightarrow> Inr run)"

definition proposal_event_id :: "OutwardApprovalProposal \<Rightarrow> string \<Rightarrow> string" where
  "proposal_event_id p event_type = pr_proposal_id p @ '':'' @ event_order event_type @ '':'' @ event_type"

definition append_proposal_event ::
  "string \<Rightarrow> OutwardApprovalProposal \<Rightarrow> (string \<times> json) list \<Rightarrow> (outward_db, unit) eff" where
  "append_proposal_event event_type p payload db =
     append_if_absent
       \<lparr>le_event_id = proposal_event_id p event_type, le_event_type = event_type, le_run_id = pr_run_id p,
        le_turn = Some (case run_store_get (pr_run_id p) db of None \<Rightarrow> 0 | Some run \<Rightarrow> or_current_turn run),
        le_agent_id = Some ''operator'', le_at = str_or (pr_decided_at p) (pr_submitted_at p),
        le_payload = payload, le_event_hash = None, le_chain_hash = None\<rparr> db"

text \<open>The elements of \<open>set(value or [])\<close> for a decoded value.\<close>

definition set_elements :: "json \<Rightarrow> json list result" where
  "set_elements v =
     (if \<not> json_truthy v then Inr []
      else case v of
        JArr items \<Rightarrow>
          if list_ex (\<lambda>i. case i of JArr _ \<Rightarrow> True | JObj _ \<Rightarrow> True | _ \<Rightarrow> False) items
          then Inl (TypeError ''unhashable type'') else Inr items
      | JStr s \<Rightarrow> Inr (map (\<lambda>c. JStr [c]) s)
      | JObj kvs \<Rightarrow> Inr (map (\<lambda>(k, _). JStr k) kvs)
      | _ \<Rightarrow> Inl (TypeError ''object is not iterable''))"

definition new_proposal ::
  "string \<Rightarrow> OutwardRunRecord \<Rightarrow> string \<Rightarrow> (string \<times> json) list \<Rightarrow> string \<Rightarrow> BuiltInConnectorMetadata \<Rightarrow> string \<Rightarrow> int \<Rightarrow>
   OutwardApprovalProposal" where
  "new_proposal now run tool args context_summary connector expires_at proposal_number =
     \<lparr>pr_proposal_id = ''proposal:'' @ or_run_id run @ '':'' @ tool @ '':'' @ zero_pad 4 proposal_number,
      pr_run_id = or_run_id run, pr_namespace = or_namespace run, pr_tool = tool,
      pr_args_preview = redacted_args_preview args (bc_pii_fields connector),
      pr_context_summary = py_strip context_summary, pr_risk_level = bc_risk_level connector,
      pr_submitted_at = now, pr_expires_at = expires_at, pr_status = ''pending'', pr_operator_ref = None,
      pr_decision = None, pr_reason = None, pr_note = None, pr_decided_at = None\<rparr>"

definition save_proposal :: "OutwardRunRecord \<Rightarrow> OutwardApprovalProposal \<Rightarrow> (outward_db, OutwardApprovalProposal) eff" where
  "save_proposal run proposal db =
     (case approval_store_get (pr_proposal_id proposal) db of
        Some existing \<Rightarrow> (Inr existing, db)
      | None \<Rightarrow>
          bind_eff (approval_store_save proposal) (\<lambda>saved.
          bind_eff (run_store_update (run\<lparr>or_status := ''approval_required'',
            or_pending_proposals := [to_queue_payload saved]\<rparr>)) (\<lambda>_.
          bind_eff (append_proposal_event ''proposal_pending_approval'' saved (to_queue_payload saved)) (\<lambda>_.
          lift_result (Inr saved)))) db)"

definition request_tool_approval ::
  "connector_registry \<Rightarrow> datetime_lib \<Rightarrow> string \<Rightarrow> string \<Rightarrow> string \<Rightarrow> string \<Rightarrow> (string \<times> json) list \<Rightarrow> string \<Rightarrow> int \<Rightarrow>
   (outward_db, OutwardApprovalProposal) eff" where
  "request_tool_approval registry dt now now' run_id tool args context_summary timeout_seconds =
     bind_eff (approval_require_run run_id) (\<lambda>run.
     case get_connector registry tool of
       None \<Rightarrow> lift_result (Inl (OutwardApprovalValidationError (''approval-required tool is not registered: '' @ tool)))
     | Some connector \<Rightarrow>
         bind_eff (lift_result (set_elements (json_get (or_policy_overrides run) ''approval_required_tools''))) (\<lambda>required_tools.
         if JStr tool \<notin> set required_tools
         then lift_result (Inl (OutwardApprovalValidationError (''tool is not approval-required for run: '' @ tool)))
         else bind_eff (read_eff (\<lambda>db. Inr (int (length (approval_store_list None (Some (or_run_id run)) 500 db)) + 1))) (\<lambda>proposal_number.
           bind_eff (lift_result (outward_expires_at dt now' timeout_seconds)) (\<lambda>expires_at.
           save_proposal run (new_proposal now run tool args context_summary connector expires_at proposal_number)))))"

definition decided_proposal ::
  "string \<Rightarrow> string \<Rightarrow> string \<Rightarrow> string \<Rightarrow> string option \<Rightarrow> string option \<Rightarrow> OutwardApprovalProposal \<Rightarrow> OutwardApprovalProposal" where
  "decided_proposal now status decision operator_ref reason note p =
     p\<lparr>pr_status := status, pr_decision := Some decision,
       pr_operator_ref := Some (str_or (Some (py_strip operator_ref)) ''operator:unknown''),
       pr_reason := reason, pr_note := note, pr_decided_at := Some now\<rparr>"

definition run_after_decision :: "OutwardApprovalProposal \<Rightarrow> OutwardRunRecord \<Rightarrow> OutwardRunRecord" where
  "run_after_decision saved run =
     (if pr_status saved = ''approved'' then run\<lparr>or_status := ''running'', or_pending_proposals := []\<rparr>
      else run\<lparr>or_status := ''failed'', or_pending_proposals := [],
             or_completed_at := pr_decided_at saved, or_stop_reason := pr_reason saved\<rparr>)"

definition decide_proposal ::
  "string \<Rightarrow> string \<Rightarrow> string \<Rightarrow> string \<Rightarrow> string \<Rightarrow> string option \<Rightarrow> string option \<Rightarrow> string \<Rightarrow>
   (outward_db, OutwardApprovalProposal) eff" where
  "decide_proposal now proposal_id status decision operator_ref reason note event_type db =
     (case approval_store_get proposal_id db of
        None \<Rightarrow> (Inl (OutwardApprovalValidationError
          (''Approval proposal '' @ [CHR 0x27] @ proposal_id @ [CHR 0x27] @ '' not found'')), db)
      | Some proposal \<Rightarrow>
          if pr_status proposal \<noteq> ''pending'' then (Inr proposal, db)
          else bind_eff (approval_store_save (decided_proposal now status decision operator_ref reason note proposal)) (\<lambda>saved.
            bind_eff (approval_require_run (pr_run_id saved)) (\<lambda>run.
            bind_eff (run_store_update (run_after_decision saved run)) (\<lambda>_.
            bind_eff (append_proposal_event event_type saved (to_decision_payload saved)) (\<lambda>_.
            lift_result (Inr saved))))) db)"

definition approve :: "string \<Rightarrow> string \<Rightarrow> string \<Rightarrow> string option \<Rightarrow> (outward_db, OutwardApprovalProposal) eff" where
  "approve now proposal_id operator_ref note =
     decide_proposal now proposal_id ''approved'' ''approve'' operator_ref None note ''proposal_approved''"

definition deny ::
  "string \<Rightarrow> string \<Rightarrow> string \<Rightarrow> string \<Rightarrow> string option \<Rightarrow> (outward_db, OutwardApprovalProposal) eff" where
  "deny now proposal_id operator_ref reason note =
     (let clean_reason = py_strip reason in
      if clean_reason = [] then lift_result (Inl (OutwardApprovalValidationError ''reason is required''))
      else decide_proposal now proposal_id ''denied'' ''deny'' operator_ref (Some clean_reason) note ''proposal_denied'')"

fun expire_loop ::
  "datetime_lib \<Rightarrow> (nat \<Rightarrow> string) \<Rightarrow> nat \<Rightarrow> OutwardApprovalProposal list \<Rightarrow>
   (outward_db, OutwardApprovalProposal list) eff" where
  "expire_loop dt now i [] = lift_result (Inr [])"
| "expire_loop dt now i (p # ps) =
     bind_eff (lift_result (parse_at dt (pr_expires_at p))) (\<lambda>expires.
     bind_eff (lift_result (parse_at dt (now 0))) (\<lambda>current.
     if utc_micros current < utc_micros expires then expire_loop dt now (Suc i) ps
     else bind_eff (decide_proposal (now (Suc i)) (pr_proposal_id p) ''expired'' ''deny'' ''system:timeout''
         (Some ''timeout_exceeded'') None ''proposal_expired'') (\<lambda>decided.
       bind_eff (expire_loop dt now (Suc i) ps) (\<lambda>rest. lift_result (Inr (decided # rest))))))"

definition expire_due :: "datetime_lib \<Rightarrow> (nat \<Rightarrow> string) \<Rightarrow> (outward_db, OutwardApprovalProposal list) eff" where
  "expire_due dt now db = expire_loop dt now 0 (approval_store_list (Some ''pending'') None 500 db) db"

definition list_pending ::
  "datetime_lib \<Rightarrow> (nat \<Rightarrow> string) \<Rightarrow> string option \<Rightarrow> string option \<Rightarrow> int \<Rightarrow>
   (outward_db, OutwardApprovalProposal list) eff" where
  "list_pending dt now status run_id limit =
     bind_eff (expire_due dt now) (\<lambda>_. read_eff (\<lambda>db.
       Inr (approval_store_list (normalize_status_filter status) run_id limit db)))"

definition get_approval :: "datetime_lib \<Rightarrow> (nat \<Rightarrow> string) \<Rightarrow> string \<Rightarrow> (outward_db, OutwardApprovalProposal option) eff" where
  "get_approval dt now proposal_id =
     bind_eff (expire_due dt now) (\<lambda>_. read_eff (\<lambda>db. Inr (approval_store_get proposal_id db)))"

section \<open>The invariant of the outward store\<close>

definition run_ids_ok :: "outward_db \<Rightarrow> bool" where
  "run_ids_ok db = (\<forall>r \<in> set (outward_runs db). py_strip (or_run_id r) \<noteq> [])"

text \<open>What a stored proposal looks like in each status.\<close>

definition proposal_ok :: "OutwardApprovalProposal \<Rightarrow> bool" where
  "proposal_ok p =
     (if pr_status p = ''pending''
      then pr_decision p = None \<and> pr_operator_ref p = None \<and> pr_reason p = None \<and> pr_note p = None \<and> pr_decided_at p = None
      else pr_decided_at p \<noteq> None \<and> truthy_opt (pr_operator_ref p) \<and>
        (pr_status p = ''approved'' \<and> pr_decision p = Some ''approve'' \<and> pr_reason p = None \<or>
         pr_status p = ''denied'' \<and> pr_decision p = Some ''deny'' \<and> truthy_opt (pr_reason p) \<or>
         pr_status p = ''expired'' \<and> pr_decision p = Some ''deny'' \<and> pr_operator_ref p = Some ''system:timeout'' \<and>
           pr_reason p = Some ''timeout_exceeded''))"

text \<open>A decided proposal has its decision in the ledger.\<close>

definition decision_recorded :: "outward_db \<Rightarrow> OutwardApprovalProposal \<Rightarrow> bool" where
  "decision_recorded db p =
     (pr_status p \<noteq> ''pending'' \<longrightarrow> stored_event db (proposal_event_id p (''proposal_'' @ pr_status p)) \<noteq> None)"

definition outward_inv :: "outward_db \<Rightarrow> bool" where
  "outward_inv db =
     (outward_db_ok db \<and> run_ids_ok db \<and>
      (\<forall>p \<in> set (outward_approval_proposals db).
         proposal_ok p \<and> stored_run db (pr_run_id p) \<noteq> None \<and> decision_recorded db p))"

lemma outward_invD:
  assumes "outward_inv db"
  shows "outward_db_ok db" and "run_ids_ok db"
    and "stored_proposal db k = Some p \<Longrightarrow>
      proposal_ok p \<and> pr_proposal_id p = k \<and> decision_recorded db p \<and> (\<exists>r. stored_run db (pr_run_id p) = Some r)"
  using assms proposals.sel_Some [of k "outward_approval_proposals db" p] by (auto simp: outward_inv_def)

lemma stored_runD:
  assumes "outward_db_ok db" and "run_ids_ok db" and "stored_run db k = Some r"
  shows "or_run_id r = k" and "run_ints_ok r" and "py_strip k \<noteq> []"
  using runs.sel_Some [OF assms(3)] assms(1,2) by (auto simp: outward_db_ok_def run_ids_ok_def)

text \<open>
  What every operation keeps, whatever it does in between: decided proposals, events up to their hash
  columns, and the runs there are.
\<close>

definition keeps_history :: "outward_db \<Rightarrow> outward_db \<Rightarrow> bool" where
  "keeps_history db db' =
     ((\<forall>k w. stored_proposal db k = Some w \<and> pr_status w \<noteq> ''pending'' \<longrightarrow> stored_proposal db' k = Some w) \<and>
      (\<forall>k w. stored_event db k = Some w \<longrightarrow> (\<exists>w'. stored_event db' k = Some w' \<and> unhashed w' = unhashed w)) \<and>
      (\<forall>k. stored_run db k \<noteq> None \<longrightarrow> stored_run db' k \<noteq> None))"

definition outward_keeps :: "outward_db \<Rightarrow> (outward_db, 'a) eff \<Rightarrow> bool" where
  "outward_keeps db m = (outward_inv db \<longrightarrow> outward_inv (snd (m db)) \<and> keeps_history db (snd (m db)))"

lemma keeps_history_refl [simp]: "keeps_history db db"
  by (simp add: keeps_history_def)

lemma keeps_history_trans: "keeps_history a b \<Longrightarrow> keeps_history b c \<Longrightarrow> keeps_history a c"
  unfolding keeps_history_def by (elim conjE, intro conjI) (blast, metis, blast)

lemma outward_keeps_pure [simp]: "outward_keeps db (lift_result r)" "outward_keeps db (read_eff f)"
  by (simp_all add: outward_keeps_def lift_result_def read_eff_def)

lemma outward_keeps_bind:
  assumes "outward_keeps db m" and "\<And>x db'. m db = (Inr x, db') \<Longrightarrow> outward_keeps db' (f x)"
  shows "outward_keeps db (bind_eff m f)"
proof (cases "m db")
  case (Pair r db')
  then show ?thesis using assms
    by (cases r) (auto simp: outward_keeps_def bind_eff_def intro: keeps_history_trans)
qed

text \<open>A successful append of an event, and its absence when the identifier is taken.\<close>

definition event_valid :: "LedgerEvent \<Rightarrow> bool" where
  "event_valid e \<longleftrightarrow> validate_event e = Inr () \<and> (case le_turn e of None \<Rightarrow> True | Some n \<Rightarrow> sqlite_int n)"

lemma append_if_absent_frame:
  assumes "append_if_absent e db = (res, db')"
  shows "outward_runs db' = outward_runs db" "outward_approval_proposals db' = outward_approval_proposals db"
    and "outward_db_ok db \<Longrightarrow> outward_db_ok db'"
    and "stored_event db k = Some w \<Longrightarrow> stored_event db' k = Some w"
proof -
  obtain r where "db' = db \<or> event_store_append e db = (r, db')"
    using assms by (auto simp: append_if_absent_def bind_eff_def lift_result_def split: if_splits prod.splits sum.splits)
  moreover have "outward_runs db' = outward_runs db \<and> outward_approval_proposals db' = outward_approval_proposals db"
    if "event_store_append e db = (r, db')"
    using that by (auto simp: event_store_append_def split: sum.splits if_splits)
  moreover have "stored_event db k = Some w \<longrightarrow> stored_event db' k = Some w" if "event_store_append e db = (r, db')"
    using that ledger.sel_append_new [of "e\<lparr>le_payload := stored_payload (le_payload e)\<rparr>" "run_events db"]
    by (auto simp: event_store_append_def split: sum.splits if_splits)
  ultimately show "outward_runs db' = outward_runs db" "outward_approval_proposals db' = outward_approval_proposals db"
    "outward_db_ok db \<Longrightarrow> outward_db_ok db'" "stored_event db k = Some w \<Longrightarrow> stored_event db' k = Some w"
    using event_store_append_effect(1) by auto
qed

lemma append_if_absent_valid:
  assumes "event_valid e" and "append_if_absent e db = (res, db')"
  shows "res = Inr ()" and "stored_event db' (le_event_id e) \<noteq> None"
proof -
  let ?row = "e\<lparr>le_payload := stored_payload (le_payload e)\<rparr>"
  have "event_store_append e db = (Inr e, db\<lparr>run_events := run_events db @ [?row]\<rparr>)" if "stored_event db (le_event_id e) = None"
    using assms(1) that by (auto simp: event_store_append_def event_valid_def split: option.splits)
  moreover have "stored_event (db\<lparr>run_events := run_events db @ [?row]\<rparr>) (le_event_id e) = Some ?row"
    if "stored_event db (le_event_id e) = None"
    using ledger.sel_append_new [of ?row "run_events db" "le_event_id e"] that by simp
  ultimately show "res = Inr ()" "stored_event db' (le_event_id e) \<noteq> None"
    using assms(2) by (auto simp: append_if_absent_def event_store_get_def bind_eff_def lift_result_def split: if_splits)
qed

lemma append_if_absent_exact:
  assumes "event_valid e"
  shows "append_if_absent e db = (Inr (),
    if stored_event db (le_event_id e) = None
    then db\<lparr>run_events := run_events db @ [e\<lparr>le_payload := stored_payload (le_payload e)\<rparr>]\<rparr> else db)"
  using assms
  by (auto simp: append_if_absent_def event_store_get_def event_store_append_def event_valid_def bind_eff_def
      lift_result_def split: option.splits)

lemma append_if_absent_success:
  assumes "append_if_absent e db = (Inr u, db')"
  shows "stored_event db' (le_event_id e) \<noteq> None"
proof (cases "stored_event db (le_event_id e)")
  case None
  then obtain e' where "event_store_append e db = (Inr e', db')"
    using assms by (auto simp: append_if_absent_def event_store_get_def bind_eff_Inr_iff lift_result_def)
  then show ?thesis
    using None ledger.sel_append_new [of "e\<lparr>le_payload := stored_payload (le_payload e)\<rparr>" "run_events db" "le_event_id e"]
    by (auto simp: event_store_append_def split: sum.splits if_splits)
next
  case (Some w)
  then show ?thesis using append_if_absent_frame(4) [OF assms Some] by simp
qed

lemma append_if_absent_keeps: "outward_keeps db (append_if_absent e)"
proof -
  obtain res db' where r: "append_if_absent e db = (res, db')" by (cases "append_if_absent e db")
  note f = append_if_absent_frame [OF r]
  have "outward_inv db'" if "outward_inv db"
    using that f by (fastforce simp: outward_inv_def run_ids_ok_def decision_recorded_def)
  moreover have "keeps_history db db'" using f by (auto simp: keeps_history_def)
  ultimately show ?thesis by (simp add: outward_keeps_def r)
qed

lemma run_store_update_keeps: "outward_keeps db (run_store_update r)"
proof (cases "run_ints_ok r")
  case True
  obtain res db' where r: "run_store_update r db = (res, db')" by (cases "run_store_update r db")
  have "outward_inv db' \<and> keeps_history db db'" if inv: "outward_inv db"
  proof -
    note eff = run_store_update_effect [OF outward_invD(1) [OF inv] True r]
    have "\<forall>w \<in> set (outward_runs db'). \<exists>v \<in> set (outward_runs db). or_run_id w = or_run_id v"
      using r True by (auto simp: run_store_update_def update_where_def) metis+
    then have "run_ids_ok db'" using outward_invD(2) [OF inv] by (force simp: run_ids_ok_def)
    moreover have "stored_run db' k \<noteq> None" if "stored_run db k \<noteq> None" for k using eff(3) [of k] that by auto
    ultimately show ?thesis
      using inv eff(2,4,5) by (auto simp: outward_inv_def decision_recorded_def keeps_history_def)
  qed
  then show ?thesis by (simp add: outward_keeps_def r)
qed (simp add: outward_keeps_def run_store_update_def)

lemma py_strip_nonblank:
  assumes "c \<in> set s" and "\<not> py_isspace c"
  shows "py_strip s \<noteq> []"
proof
  assume "py_strip s = []"
  then have "\<forall>x \<in> set (dropWhile py_isspace s). py_isspace x" by (simp add: py_strip_def)
  then have "dropWhile py_isspace s = []" using hd_dropWhile hd_in_set by metis
  then show False using assms by (simp add: dropWhile_eq_Nil_conv)
qed

lemma run_ids_ok_iff: "run_ids_ok db \<longleftrightarrow> (\<forall>k. stored_run db k \<noteq> None \<longrightarrow> py_strip k \<noteq> [])"
  by (auto simp: run_ids_ok_def runs.sel_None_iff)

lemma outward_inv_iff:
  "outward_inv db \<longleftrightarrow> outward_db_ok db \<and> run_ids_ok db \<and>
     (\<forall>k p. stored_proposal db k = Some p \<longrightarrow>
        proposal_ok p \<and> stored_run db (pr_run_id p) \<noteq> None \<and> decision_recorded db p)"
proof -
  have "stored_proposal db (pr_proposal_id p) = Some p" if "outward_db_ok db" "p \<in> set (outward_approval_proposals db)" for p
    using that proposals.sel_distinct by (auto simp: outward_db_ok_def)
  then show ?thesis using proposals.sel_Some [of _ "outward_approval_proposals db"] unfolding outward_inv_def by blast
qed

lemma decided_proposal_fields [simp]:
  "pr_proposal_id (decided_proposal now s d oref r n p) = pr_proposal_id p" "pr_run_id (decided_proposal now s d oref r n p) = pr_run_id p"
  "pr_status (decided_proposal now s d oref r n p) = s" "pr_reason (decided_proposal now s d oref r n p) = r"
  "pr_decided_at (decided_proposal now s d oref r n p) = Some now"
  by (simp_all add: decided_proposal_def)

lemma run_after_decision_fields [simp]:
  "or_run_id (run_after_decision p run) = or_run_id run" "run_ints_ok (run_after_decision p run) = run_ints_ok run"
  "or_current_turn (run_after_decision p run) = or_current_turn run"
  by (simp_all add: run_after_decision_def run_ints_ok_def)

lemma proposal_event_id_nonblank: "py_strip (proposal_event_id p t) \<noteq> []"
  by (rule py_strip_nonblank [of "CHR '':''"]) (simp_all add: proposal_event_id_def py_isspace_def)

lemma proposal_event_id_row [simp]: "proposal_event_id (proposal_row p) t = proposal_event_id p t"
  by (simp add: proposal_event_id_def)

lemma proposal_ok_row [simp]: "proposal_ok (proposal_row p) = proposal_ok p"
  by (simp add: proposal_ok_def proposal_row_def)

lemma append_proposal_event_valid:
  assumes ok: "outward_db_ok db" "run_ids_ok db" and run: "stored_run db (pr_run_id p) \<noteq> None"
    and at: "py_strip (str_or (pr_decided_at p) (pr_submitted_at p)) \<noteq> []" and t: "py_strip t \<noteq> []"
    and r: "append_proposal_event t p payload db = (res, db')"
  shows "res = Inr ()" and "stored_event db' (proposal_event_id p t) \<noteq> None"
proof -
  let ?e = "\<lparr>le_event_id = proposal_event_id p t, le_event_type = t, le_run_id = pr_run_id p,
        le_turn = Some (case run_store_get (pr_run_id p) db of None \<Rightarrow> 0 | Some run \<Rightarrow> or_current_turn run),
        le_agent_id = Some ''operator'', le_at = str_or (pr_decided_at p) (pr_submitted_at p),
        le_payload = payload, le_event_hash = None, le_chain_hash = None\<rparr>"
  obtain run where run: "stored_run db (pr_run_id p) = Some run" using run by blast
  note stored_runD [OF ok run]
  then have "event_valid ?e"
    using at t run proposal_event_id_nonblank by (simp add: event_valid_def validate_event_def run_store_get_def run_ints_ok_def)
  from append_if_absent_valid [OF this] r show "res = Inr ()" "stored_event db' (proposal_event_id p t) \<noteq> None"
    by (simp_all add: append_proposal_event_def)
qed

text \<open>A decision on a pending proposal always goes through, and this is all it changes.\<close>

lemma decide_pending_effect:
  assumes inv: "outward_inv db" and p: "stored_proposal db pid = Some p" "pr_status p = ''pending''"
    and now: "py_strip now \<noteq> []" and t: "py_strip event_type \<noteq> []"
    and d: "d = decided_proposal now status decision operator_ref reason note p"
  shows "\<exists>run db'. decide_proposal now pid status decision operator_ref reason note event_type db = (Inr d, db') \<and>
    stored_run db (pr_run_id p) = Some run \<and>
    (\<forall>k. stored_proposal db' k = (if k = pid then Some (proposal_row d) else stored_proposal db k)) \<and>
    (\<forall>k. stored_run db' k = (if k = pr_run_id p then Some (run_row (run_after_decision d run)) else stored_run db k)) \<and>
    stored_event db' (proposal_event_id d event_type) \<noteq> None \<and>
    (\<forall>k w. stored_event db k = Some w \<longrightarrow> stored_event db' k = Some w) \<and> outward_db_ok db'"
proof -
  note ok = outward_invD(1,2) [OF inv] and pD = outward_invD(3) [OF inv p(1)]
  obtain db1 where s1: "approval_store_save d db = (Inr d, db1)" by (simp add: approval_store_save_def)
  note e1 = approval_store_save_effect [OF ok(1) s1]
  obtain run where run: "stored_run db (pr_run_id p) = Some run" using pD by blast
  note rD = stored_runD [OF ok run]
  have run1: "stored_run db1 (pr_run_id d) = Some run" using run e1(5) d by simp
  obtain r2 db2 where s2: "run_store_update (run_after_decision d run) db1 = (r2, db2)"
    by (cases "run_store_update (run_after_decision d run) db1")
  note e2 = run_store_update_effect [OF e1(2) _ s2, unfolded run_after_decision_fields, OF rD(2)]
  have runs2: "stored_run db2 k = (if k = pr_run_id p then Some (run_row (run_after_decision d run)) else stored_run db k)" for k
    using e2(3) [of k] e1(5) run rD(1) by auto
  have ids2: "run_ids_ok db2" using ok(2) runs2 rD(3) by (auto simp: run_ids_ok_iff)
  obtain r3 db3 where s3: "append_proposal_event event_type d (to_decision_payload d) db2 = (r3, db3)"
    by (cases "append_proposal_event event_type d (to_decision_payload d) db2")
  have at: "py_strip (str_or (pr_decided_at d) (pr_submitted_at d)) \<noteq> []"
    using now d by (cases "now = []") (simp_all add: str_or_def py_strip_def)
  have "stored_run db2 (pr_run_id d) \<noteq> None" using runs2 d by simp
  note e3 = append_proposal_event_valid [OF e2(2) ids2 this at t s3]
  note f3 = append_if_absent_frame [OF s3 [unfolded append_proposal_event_def]]
  show ?thesis
  proof (intro exI [of _ run] exI [of _ db3] conjI allI impI)
    show "decide_proposal now pid status decision operator_ref reason note event_type db = (Inr d, db3)"
      using p s1 run1 s2 e2(1) s3 e3(1)
      by (simp add: decide_proposal_def approval_store_get_def d [symmetric] bind_eff_def approval_require_run_def
          read_eff_def run_store_get_def lift_result_def)
    show "stored_run db (pr_run_id p) = Some run" by (rule run)
    show "stored_proposal db3 k = (if k = pid then Some (proposal_row d) else stored_proposal db k)" for k
      using f3(2) e2(5) e1(3) [of k] pD d by auto
    show "stored_run db3 k = (if k = pr_run_id p then Some (run_row (run_after_decision d run)) else stored_run db k)" for k
      using f3(1) runs2 by simp
    show "stored_event db3 (proposal_event_id d event_type) \<noteq> None" by (rule e3(2))
    show "stored_event db3 k = Some w" if "stored_event db k = Some w" for k w
      using f3(4) that e1(4) e2(4) by simp
    show "outward_db_ok db3" by (rule f3(3) [OF e2(2)])
  qed
qed

text \<open>A decision as the service makes it: the status and the event that goes with it.\<close>

definition decision_ok :: "string \<Rightarrow> string \<Rightarrow> string \<Rightarrow> string option \<Rightarrow> string \<Rightarrow> bool" where
  "decision_ok status decision operator_ref reason event_type \<longleftrightarrow>
     (status = ''approved'' \<and> decision = ''approve'' \<and> reason = None \<or>
      status = ''denied'' \<and> decision = ''deny'' \<and> truthy_opt reason \<or>
      status = ''expired'' \<and> decision = ''deny'' \<and> operator_ref = ''system:timeout'' \<and> reason = Some ''timeout_exceeded'') \<and>
     event_type = ''proposal_'' @ status"

lemma decision_okD:
  assumes "decision_ok status decision operator_ref reason event_type"
  shows "status \<noteq> ''pending''" and "py_strip event_type \<noteq> []"
    and "proposal_ok (decided_proposal now status decision operator_ref reason note p)"
    and "event_type = ''proposal_'' @ status"
proof -
  show "status \<noteq> ''pending''" "event_type = ''proposal_'' @ status" using assms by (auto simp: decision_ok_def)
  then have "CHR ''p'' \<in> set event_type" by simp
  then show "py_strip event_type \<noteq> []" by (rule py_strip_nonblank) (simp add: py_isspace_def)
  have "truthy_opt (Some (str_or (Some s) ''operator:unknown''))" for s by (simp add: truthy_opt_def str_or_def)
  moreover have "str_or (Some (py_strip ''system:timeout'')) ''operator:unknown'' = ''system:timeout''" by code_simp
  ultimately show "proposal_ok (decided_proposal now status decision operator_ref reason note p)"
    using assms by (auto simp: decision_ok_def proposal_ok_def decided_proposal_def)
qed

lemma decide_proposal_keeps:
  assumes "decision_ok status decision operator_ref reason event_type" and now: "py_strip now \<noteq> []"
  shows "outward_keeps db (decide_proposal now pid status decision operator_ref reason note event_type)"
proof (cases "\<exists>p. stored_proposal db pid = Some p \<and> pr_status p = ''pending''")
  case True
  then obtain p where p: "stored_proposal db pid = Some p" "pr_status p = ''pending''" by blast
  note D = decision_okD [OF assms(1)]
  let ?d = "decided_proposal now status decision operator_ref reason note p"
  have "outward_inv (snd (decide_proposal now pid status decision operator_ref reason note event_type db)) \<and>
      keeps_history db (snd (decide_proposal now pid status decision operator_ref reason note event_type db))"
    if i: "outward_inv db"
  proof -
    obtain run db' where call: "decide_proposal now pid status decision operator_ref reason note event_type db = (Inr ?d, db')"
      and run: "stored_run db (pr_run_id p) = Some run"
      and e: "\<And>k. stored_proposal db' k = (if k = pid then Some (proposal_row ?d) else stored_proposal db k)"
      "\<And>k. stored_run db' k = (if k = pr_run_id p then Some (run_row (run_after_decision ?d run)) else stored_run db k)"
      "stored_event db' (proposal_event_id ?d event_type) \<noteq> None"
      "\<And>k w. stored_event db k = Some w \<Longrightarrow> stored_event db' k = Some w" "outward_db_ok db'"
      using decide_pending_effect [of db pid p now event_type _ status decision operator_ref reason "note", OF i p now D(2) refl]
      by blast
    note inv = outward_inv_iff [THEN iffD1, OF i]
    have "run_ids_ok db'" using inv run e(2) by (auto simp: run_ids_ok_iff)
    moreover have "proposal_ok (proposal_row ?d)" using D(3) by simp
    moreover have "decision_recorded db' (proposal_row ?d)" using e(3) D(4) by (simp add: decision_recorded_def)
    moreover have "decision_recorded db' q" if "decision_recorded db q" for q
      using that e(4) by (auto simp: decision_recorded_def)
    ultimately have "outward_inv db'" using inv run e(1,2,5) by (auto simp: outward_inv_iff)
    moreover have "keeps_history db db'" using p e(1,2,4) by (auto simp: keeps_history_def)
    ultimately show ?thesis by (simp add: call)
  qed
  then show ?thesis by (simp add: outward_keeps_def)
next
  case False
  then have "snd (decide_proposal now pid status decision operator_ref reason note event_type db) = db"
    by (auto simp: decide_proposal_def approval_store_get_def split: option.splits)
  then show ?thesis by (simp add: outward_keeps_def)
qed

section \<open>Every operation keeps the invariant and the history\<close>

lemma outward_keeps_at: "m db = m' db \<Longrightarrow> outward_keeps db m' \<Longrightarrow> outward_keeps db m"
  by (simp add: outward_keeps_def)

lemma approve_keeps: "py_strip now \<noteq> [] \<Longrightarrow> outward_keeps db (approve now pid operator_ref note)"
  unfolding approve_def by (rule decide_proposal_keeps) (simp_all add: decision_ok_def)

lemma deny_keeps: "py_strip now \<noteq> [] \<Longrightarrow> outward_keeps db (deny now pid operator_ref reason note)"
  by (auto simp: deny_def Let_def decision_ok_def truthy_opt_def intro!: decide_proposal_keeps)

lemma expire_loop_keeps: "\<forall>i. py_strip (now i) \<noteq> [] \<Longrightarrow> outward_keeps db (expire_loop dt now i ps)"
proof (induction ps arbitrary: i db)
  case (Cons p ps)
  have ok: "decision_ok ''expired'' ''deny'' ''system:timeout'' (Some ''timeout_exceeded'') ''proposal_expired''"
    by (simp add: decision_ok_def)
  show ?case
    using Cons by (auto intro!: outward_keeps_bind decide_proposal_keeps [OF ok])
qed simp

lemma expire_due_keeps: "\<forall>i. py_strip (now i) \<noteq> [] \<Longrightarrow> outward_keeps db (expire_due dt now)"
  by (rule outward_keeps_at [OF expire_due_def]) (rule expire_loop_keeps)

lemma list_pending_keeps: "\<forall>i. py_strip (now i) \<noteq> [] \<Longrightarrow> outward_keeps db (list_pending dt now status run_id limit)"
  unfolding list_pending_def by (intro outward_keeps_bind expire_due_keeps) simp_all

lemma get_approval_keeps: "\<forall>i. py_strip (now i) \<noteq> [] \<Longrightarrow> outward_keeps db (get_approval dt now pid)"
  unfolding get_approval_def by (intro outward_keeps_bind expire_due_keeps) simp_all

lemma approval_store_save_new_keeps:
  assumes "stored_proposal db (pr_proposal_id p) = None" and "pr_status p = ''pending''" and "proposal_ok p"
    and "stored_run db (pr_run_id p) \<noteq> None"
  shows "outward_keeps db (approval_store_save p)"
proof -
  obtain res db' where r: "approval_store_save p db = (res, db')" by (cases "approval_store_save p db")
  have "outward_inv db' \<and> keeps_history db db'" if inv: "outward_inv db"
  proof -
    note eff = approval_store_save_effect [OF outward_invD(1) [OF inv] r]
    have "run_ids_ok db'" using outward_invD(2) [OF inv] eff(5) by (simp add: run_ids_ok_def)
    moreover have "decision_recorded db' q = decision_recorded db q" for q by (simp add: decision_recorded_def eff(4))
    moreover have "decision_recorded db' (proposal_row p)" using assms(2) by (simp add: decision_recorded_def)
    ultimately have "outward_inv db'"
      using inv eff(2,3,5) assms(3,4) by (auto simp: outward_inv_iff)
    moreover have "keeps_history db db'" using eff(3-5) assms(1) by (auto simp: keeps_history_def)
    ultimately show ?thesis by simp
  qed
  then show ?thesis by (simp add: outward_keeps_def r)
qed

lemma append_proposal_event_keeps: "outward_keeps db (append_proposal_event t p payload)"
  by (rule outward_keeps_at [OF append_proposal_event_def]) (rule append_if_absent_keeps)

lemma save_proposal_keeps:
  assumes "pr_status p = ''pending''" "proposal_ok p" "pr_run_id p = or_run_id run" "stored_run db (or_run_id run) \<noteq> None"
  shows "outward_keeps db (save_proposal run p)"
proof (cases "stored_proposal db (pr_proposal_id p)")
  case None
  have "outward_keeps db (bind_eff (approval_store_save p) (\<lambda>saved.
      bind_eff (run_store_update (run\<lparr>or_status := ''approval_required'', or_pending_proposals := [to_queue_payload saved]\<rparr>)) (\<lambda>_.
      bind_eff (append_proposal_event ''proposal_pending_approval'' saved (to_queue_payload saved)) (\<lambda>_. lift_result (Inr saved)))))"
    using assms None
    by (intro outward_keeps_bind approval_store_save_new_keeps append_proposal_event_keeps run_store_update_keeps outward_keeps_pure)
      simp_all
  then show ?thesis using None by (simp add: outward_keeps_def save_proposal_def approval_store_get_def)
qed (simp add: outward_keeps_def save_proposal_def approval_store_get_def)

lemma new_proposal_ok:
  "pr_status (new_proposal now run tool args c connector e n) = ''pending''"
  "proposal_ok (new_proposal now run tool args c connector e n)"
  "pr_run_id (new_proposal now run tool args c connector e n) = or_run_id run"
  by (simp_all add: new_proposal_def proposal_ok_def)

lemma approval_require_run_stored:
  "approval_require_run rid db = (Inr run, db') \<Longrightarrow> db' = db \<and> stored_run db (or_run_id run) \<noteq> None"
  using runs.sel_Some [of rid "outward_runs db"]
  by (auto simp: approval_require_run_def read_eff_def run_store_get_def split: option.splits)

lemma request_tool_approval_keeps:
  "outward_keeps db (request_tool_approval registry dt now now' run_id tool args context_summary timeout_seconds)"
  unfolding request_tool_approval_def
proof (rule outward_keeps_bind)
  show "outward_keeps db (approval_require_run run_id)" by (simp add: approval_require_run_def)
qed (auto simp: read_eff_def lift_result_def dest!: approval_require_run_stored
    intro!: outward_keeps_bind save_proposal_keeps new_proposal_ok split: option.split)

lemma run_store_create_keeps:
  assumes "py_strip (or_run_id r) \<noteq> []"
  shows "outward_keeps db (run_store_create r)"
proof -
  obtain res db' where c: "run_store_create r db = (res, db')" by (cases "run_store_create r db")
  have "outward_inv db' \<and> keeps_history db db'" if inv: "outward_inv db"
  proof -
    note eff = run_store_create_effect [OF outward_invD(1) [OF inv] c]
    have "outward_runs db' = outward_runs db \<or> outward_runs db' = outward_runs db @ [run_row r]"
      using c by (auto simp: run_store_create_def split: if_splits)
    then have "run_ids_ok db'" using outward_invD(2) [OF inv] assms by (auto simp: run_ids_ok_def)
    moreover have kept: "stored_run db' k \<noteq> None" if "stored_run db k \<noteq> None" for k using that eff(4) by force
    ultimately have "outward_inv db'"
      using inv eff(1-3) by (auto simp: outward_inv_def decision_recorded_def)
    then show ?thesis using eff(2,3) kept by (simp add: keeps_history_def)
  qed
  then show ?thesis by (simp add: outward_keeps_def c)
qed

lemma submit_run_id_nonblank:
  assumes "normalize_submission payload = Inr n"
  shows "py_strip (str_or (Some (sub_run_id n)) (''run-'' @ fresh)) \<noteq> []"
proof (cases "sub_run_id n = []")
  case True
  then show ?thesis by (simp add: str_or_def) (rule py_strip_nonblank [of "CHR ''r''"], simp_all add: py_isspace_def)
next
  case False
  have "\<exists>s. sub_run_id n = py_strip s"
    using assms by (auto simp: normalize_submission_def Let_def bind_result_Inr_iff split: json.splits if_splits)
  then have "py_strip (sub_run_id n) = sub_run_id n" using stripped_py_strip by (auto simp: stripped_def)
  then show ?thesis using False by (simp add: str_or_def)
qed

lemma submit_keeps: "outward_keeps db (submit fresh now payload)"
proof (cases "normalize_submission payload")
  case (Inl e)
  then show ?thesis by (simp add: outward_keeps_def submit_def)
next
  case (Inr n)
  let ?id = "str_or (Some (sub_run_id n)) (''run-'' @ fresh)"
  have e: "outward_keeps d (bind_eff (ensure_initial_event r) (\<lambda>_. lift_result (Inr r)))" for d r
    unfolding ensure_initial_event_def by (intro outward_keeps_bind append_if_absent_keeps outward_keeps_pure)
  have c: "outward_keeps db (bind_eff (run_store_create r) (\<lambda>r. bind_eff (ensure_initial_event r) (\<lambda>_. lift_result (Inr r))))"
    if "or_run_id r = ?id" for r
    using submit_run_id_nonblank [OF Inr, of fresh] that by (intro outward_keeps_bind run_store_create_keeps e) simp_all
  show ?thesis
    unfolding submit_def Inr outward_keeps_def bind_eff_lift_result Let_def
    using e [of db, unfolded outward_keeps_def] c [unfolded outward_keeps_def] by (auto split: option.split)
qed

lemma update_hashes_keeps:
  assumes "outward_inv db"
  shows "outward_inv (update_hashes i x y db) \<and> keeps_history db (update_hashes i x y db)"
proof -
  let ?f = "\<lambda>w. w\<lparr>le_event_hash := Some x, le_chain_hash := Some y\<rparr>"
  have d: "distinct (map le_event_id (run_events db))" using assms by (simp add: outward_inv_def outward_db_ok_def)
  have ev: "stored_event (update_hashes i x y db) k = map_option (\<lambda>w. if le_event_id w = i then ?f w else w) (stored_event db k)" for k
    using ledger.sel_update [OF d, of "\<lambda>w. le_event_id w = i" ?f k] by (simp add: update_hashes_def)
  have "outward_db_ok (update_hashes i x y db)"
    using assms by (simp add: outward_inv_def outward_db_ok_def update_hashes_def ledger.update_distinct)
  then have "outward_inv (update_hashes i x y db)"
    using assms ev by (auto simp: outward_inv_def run_ids_ok_def decision_recorded_def) (simp_all add: update_hashes_def)
  moreover have "keeps_history db (update_hashes i x y db)"
    using ev by (auto simp: keeps_history_def) (simp_all add: update_hashes_def)
  ultimately show ?thesis by simp
qed

lemma ensure_hashes_keeps:
  "ensure_hashes sha256 previous position es db = (hs, db') \<Longrightarrow> outward_inv db \<Longrightarrow> outward_inv db' \<and> keeps_history db db'"
proof (induction es arbitrary: previous position db hs)
  case (Cons e es)
  then show ?case
    using update_hashes_keeps [OF Cons.prems(2)]
    by (auto simp: Let_def split: prod.splits if_splits intro: keeps_history_trans) (meson keeps_history_trans)+
qed simp

lemma event_store_append_keeps: "outward_keeps db (event_store_append e)"
proof -
  obtain res db' where r: "event_store_append e db = (res, db')" by (cases "event_store_append e db")
  have "outward_inv db' \<and> keeps_history db db'" if inv: "outward_inv db"
    using event_store_append_effect [OF outward_invD(1) [OF inv] r] inv
    by (fastforce simp: outward_inv_def run_ids_ok_def decision_recorded_def keeps_history_def)
  then show ?thesis by (simp add: outward_keeps_def r)
qed

lemma export_ledger_keeps: "outward_keeps db (export_ledger sha256 now run_id types pii operator_ref rec)"
proof -
  have hashes: "outward_keeps d (\<lambda>d. case ensure_hashes sha256 g 1 (es d) d of (hs, d') \<Rightarrow> (Inr (f hs), d'))" for d g es f
    using ensure_hashes_keeps by (auto simp: outward_keeps_def split: prod.split)
  have requested: "outward_keeps d (record_export_requested now run groups scope pii operator_ref)" for d run groups scope
    by (rule outward_keeps_at [OF record_export_requested_def]) (rule event_store_append_keeps)
  have "outward_keeps d (if pii \<and> rec then bind_eff (record_export_requested now run groups scope pii operator_ref) (\<lambda>_. lift_result (Inr ()))
      else lift_result (Inr ()))" for d run groups scope
    using requested [of _ run groups scope] by (auto intro!: outward_keeps_bind)
  then show ?thesis unfolding export_ledger_def by (intro outward_keeps_bind hashes outward_keeps_pure)
qed

lemma verify_run_keeps: "outward_keeps db (verify_run sha256 now run_id)"
  unfolding verify_run_def by (intro outward_keeps_bind export_ledger_keeps outward_keeps_pure)

section \<open>A store to evaluate on\<close>

definition service_demo_run :: OutwardRunRecord where
  "service_demo_run = \<lparr>or_run_id = ''r1'', or_status = ''approval_required'', or_namespace = ''n'', or_submitted_at = ''t0'',
     or_current_turn = 1, or_max_turns = 20, or_task = [],
     or_policy_overrides = [(''approval_required_tools'', JArr [JStr ''write_file''])], or_pending_proposals = [],
     or_started_at = None, or_completed_at = None, or_stop_reason = None\<rparr>"

definition service_demo_proposal :: OutwardApprovalProposal where
  "service_demo_proposal = \<lparr>pr_proposal_id = ''p1'', pr_run_id = ''r1'', pr_namespace = ''n'', pr_tool = ''write_file'',
     pr_args_preview = [], pr_context_summary = [], pr_risk_level = ''write'', pr_submitted_at = ''t1'', pr_expires_at = ''ttt'',
     pr_status = ''pending'', pr_operator_ref = None, pr_decision = None, pr_reason = None, pr_note = None, pr_decided_at = None\<rparr>"

definition service_demo_db :: outward_db where
  "service_demo_db = \<lparr>outward_runs = [service_demo_run], run_events = [], outward_approval_proposals = [service_demo_proposal]\<rparr>"

definition service_demo_datetime :: datetime_lib where
  "service_demo_datetime = \<lparr>fromisoformat = (\<lambda>s. Inr \<lparr>dt_micros = int (length s), dt_utcoffset = None\<rparr>), isoformat = (\<lambda>_. ''ttttt'')\<rparr>"

lemma service_demo_inv: "outward_inv service_demo_db" "outward_inv empty_outward_db"
  by code_simp+

section \<open>What the services promise\<close>

text \<open>The proposals that a run of the expiry loop leaves pending were pending, and are not due.\<close>

definition expired_at :: "datetime_lib \<Rightarrow> string \<Rightarrow> OutwardApprovalProposal \<Rightarrow> bool" where
  "expired_at dt now p \<longleftrightarrow>
     (\<exists>e c. parse_at dt (pr_expires_at p) = Inr e \<and> parse_at dt now = Inr c \<and> utc_micros e \<le> utc_micros c)"

lemma expire_step:
  assumes inv: "outward_inv db" and p: "stored_proposal db pid = Some p" and now: "py_strip now \<noteq> []"
  shows "\<exists>d db'. decide_proposal now pid ''expired'' ''deny'' ''system:timeout'' (Some ''timeout_exceeded'') None ''proposal_expired'' db =
      (Inr d, db') \<and> outward_inv db' \<and> keeps_history db db' \<and>
      (\<exists>q. stored_proposal db' pid = Some q \<and> pr_status q \<noteq> ''pending'') \<and>
      (\<forall>k. k \<noteq> pid \<longrightarrow> stored_proposal db' k = stored_proposal db k)"
proof -
  have ok: "decision_ok ''expired'' ''deny'' ''system:timeout'' (Some ''timeout_exceeded'') ''proposal_expired''"
    by (simp add: decision_ok_def)
  obtain res db' where r: "decide_proposal now pid ''expired'' ''deny'' ''system:timeout'' (Some ''timeout_exceeded'') None
      ''proposal_expired'' db = (res, db')" by (metis surj_pair)
  have k: "outward_inv db' \<and> keeps_history db db'"
    using decide_proposal_keeps [OF ok now, of db pid None] inv r by (simp add: outward_keeps_def)
  show ?thesis
  proof (cases "pr_status p = ''pending''")
    case True
    from decide_pending_effect [OF inv p True now decision_okD(2) [OF ok] refl, of "''expired''" "''deny''" "''system:timeout''"
        "Some ''timeout_exceeded''" None] k r show ?thesis by fastforce
  next
    case False
    with r p k show ?thesis by (auto simp: decide_proposal_def approval_store_get_def)
  qed
qed

lemma expire_loop_effect:
  assumes "outward_inv db" and "\<forall>i. py_strip (now i) \<noteq> []" and "parse_at dt (now 0) = Inr c"
    and "\<forall>p \<in> set ps. (\<exists>e. parse_at dt (pr_expires_at p) = Inr e) \<and> stored_proposal db (pr_proposal_id p) \<noteq> None"
  shows "\<exists>expired db'. expire_loop dt now i ps db = (Inr expired, db') \<and>
    (\<forall>k p. stored_proposal db' k = Some p \<and> pr_status p = ''pending'' \<longrightarrow> stored_proposal db k = Some p) \<and>
    (\<forall>p \<in> set ps. expired_at dt (now 0) p \<longrightarrow> (\<exists>q. stored_proposal db' (pr_proposal_id p) = Some q \<and> pr_status q \<noteq> ''pending''))"
  using assms
proof (induction ps arbitrary: i db)
  case Nil
  then show ?case by (simp add: lift_result_def)
next
  case (Cons p ps)
  obtain e w where e: "parse_at dt (pr_expires_at p) = Inr e" and w: "stored_proposal db (pr_proposal_id p) = Some w"
    using Cons.prems(4) by auto
  show ?case
  proof (cases "utc_micros c < utc_micros e")
    case True
    then have "\<not> expired_at dt (now 0) p" using e Cons.prems(3) by (simp add: expired_at_def)
    with Cons.IH [OF Cons.prems(1-3), of "Suc i"] Cons.prems(4) True show ?thesis by (simp add: e Cons.prems(3))
  next
    case False
    obtain d db1 where d: "decide_proposal (now (Suc i)) (pr_proposal_id p) ''expired'' ''deny'' ''system:timeout''
        (Some ''timeout_exceeded'') None ''proposal_expired'' db = (Inr d, db1)"
      and inv1: "outward_inv db1" and k1: "keeps_history db db1"
      and q: "\<exists>q. stored_proposal db1 (pr_proposal_id p) = Some q \<and> pr_status q \<noteq> ''pending''"
      and other: "\<forall>k. k \<noteq> pr_proposal_id p \<longrightarrow> stored_proposal db1 k = stored_proposal db k"
      using expire_step [OF Cons.prems(1) w] Cons.prems(2) by blast
    have "\<forall>p' \<in> set ps. (\<exists>e. parse_at dt (pr_expires_at p') = Inr e) \<and> stored_proposal db1 (pr_proposal_id p') \<noteq> None"
      using Cons.prems(4) other q by (metis list.set_intros(2) option.distinct(1))
    from Cons.IH [OF inv1 Cons.prems(2,3) this, of "Suc i"] obtain expired db' where
      r: "expire_loop dt now (Suc i) ps db1 = (Inr expired, db')"
      and pend: "\<forall>k p. stored_proposal db' k = Some p \<and> pr_status p = ''pending'' \<longrightarrow> stored_proposal db1 k = Some p"
      and gone: "\<forall>p \<in> set ps. expired_at dt (now 0) p \<longrightarrow> (\<exists>q. stored_proposal db' (pr_proposal_id p) = Some q \<and> pr_status q \<noteq> ''pending'')"
      by blast
    have "keeps_history db1 db'" using expire_loop_keeps [OF Cons.prems(2), of db1 dt "Suc i" ps] inv1 r by (simp add: outward_keeps_def)
    then have "\<exists>q. stored_proposal db' (pr_proposal_id p) = Some q \<and> pr_status q \<noteq> ''pending''"
      using q unfolding keeps_history_def by blast
    moreover have "stored_proposal db k = Some p'" if "stored_proposal db' k = Some p'" "pr_status p' = ''pending''" for k p'
      using pend other q that by (metis option.inject)
    ultimately show ?thesis using False d r gone by (simp add: e Cons.prems(3) bind_eff_def lift_result_def)
  qed
qed

text \<open>
  C38: expiry works: as long as at most 500 proposals are pending and their expiry times parse, the
  sweep that precedes every listing and every lookup returns, and after it no proposal that is still
  pending has reached its expiry time.
\<close>

theorem expiry_sweep_complete:
  assumes "outward_inv db" and "\<forall>i. py_strip (now i) \<noteq> []" and "parse_at dt (now 0) = Inr c"
    and "length (filter (\<lambda>p. pr_status p = ''pending'') (outward_approval_proposals db)) \<le> 500"
    and "list_all (\<lambda>p. \<exists>e. parse_at dt (pr_expires_at p) = Inr e) (outward_approval_proposals db)"
  shows "\<exists>expired db'. expire_due dt now db = (Inr expired, db') \<and>
    (\<forall>k p. stored_proposal db' k = Some p \<and> pr_status p = ''pending'' \<longrightarrow> \<not> expired_at dt (now 0) p)"
proof -
  let ?ps = "approval_store_list (Some ''pending'') None 500 db"
  have ps: "set ?ps = {p \<in> set (outward_approval_proposals db). pr_status p = ''pending''}"
    using assms(4) by (simp add: approval_store_list_def truthy_opt_def)
  have "\<forall>p \<in> set ?ps. (\<exists>e. parse_at dt (pr_expires_at p) = Inr e) \<and> stored_proposal db (pr_proposal_id p) \<noteq> None"
    using assms(5) ps by (auto simp: list_all_iff proposals.sel_None_iff)
  from expire_loop_effect [OF assms(1-3) this, of 0] obtain expired db' where
    r: "expire_due dt now db = (Inr expired, db')"
    and pend: "\<forall>k p. stored_proposal db' k = Some p \<and> pr_status p = ''pending'' \<longrightarrow> stored_proposal db k = Some p"
    and gone: "\<forall>p \<in> set ?ps. expired_at dt (now 0) p \<longrightarrow> (\<exists>q. stored_proposal db' (pr_proposal_id p) = Some q \<and> pr_status q \<noteq> ''pending'')"
    by (auto simp: expire_due_def)
  have "\<not> expired_at dt (now 0) p" if "stored_proposal db' k = Some p" "pr_status p = ''pending''" for k p
    using pend gone ps that proposals.sel_Some [of k "outward_approval_proposals db" p] by fastforce
  then show ?thesis using r by blast
qed

theorem expiry_sweep_complete_witness:
  "\<exists>expired db'. expire_due service_demo_datetime (\<lambda>_. ''tttt'') service_demo_db = (Inr expired, db') \<and>
    (\<forall>k p. stored_proposal db' k = Some p \<and> pr_status p = ''pending'' \<longrightarrow> \<not> expired_at service_demo_datetime ''tttt'' p)"
proof -
  have "py_strip ''tttt'' \<noteq> []" by code_simp
  then show ?thesis
    using expiry_sweep_complete [OF service_demo_inv(1), of "\<lambda>_. ''tttt''" service_demo_datetime]
    by (simp add: parse_at_def service_demo_datetime_def service_demo_db_def)
qed

text \<open>The proposal, the run and the ledger event that a denial writes.\<close>

definition denied_proposal ::
  "string \<Rightarrow> string \<Rightarrow> string \<Rightarrow> string option \<Rightarrow> OutwardApprovalProposal \<Rightarrow> OutwardApprovalProposal" where
  "denied_proposal now operator_ref reason note p =
     p\<lparr>pr_status := ''denied'', pr_decision := Some ''deny'',
       pr_operator_ref := Some (if py_strip operator_ref = [] then ''operator:unknown'' else py_strip operator_ref),
       pr_reason := Some (py_strip reason), pr_note := note, pr_decided_at := Some now\<rparr>"

definition failed_run :: "string \<Rightarrow> string \<Rightarrow> OutwardRunRecord \<Rightarrow> OutwardRunRecord" where
  "failed_run now reason run =
     run\<lparr>or_status := ''failed'', or_pending_proposals := [], or_completed_at := Some now,
         or_stop_reason := Some (py_strip reason)\<rparr>"

definition denial_event :: "string \<Rightarrow> OutwardRunRecord \<Rightarrow> OutwardApprovalProposal \<Rightarrow> LedgerEvent" where
  "denial_event now run d =
     \<lparr>le_event_id = pr_proposal_id d @ '':0002:proposal_denied'', le_event_type = ''proposal_denied'',
      le_run_id = pr_run_id d, le_turn = Some (or_current_turn run), le_agent_id = Some ''operator'', le_at = now,
      le_payload = stored_payload (to_decision_payload d), le_event_hash = None, le_chain_hash = None\<rparr>"

lemma denied_proposal_decided:
  "decided_proposal now ''denied'' ''deny'' operator_ref (Some (py_strip reason)) note p =
     denied_proposal now operator_ref reason note p"
  by (simp add: decided_proposal_def denied_proposal_def str_or_def)

lemma failed_run_after:
  "run_after_decision (denied_proposal now operator_ref reason note p) run = failed_run now reason run"
  by (simp add: run_after_decision_def denied_proposal_def failed_run_def)

lemma denial_event_appended:
  assumes "stored_run db' (pr_run_id d) = Some run" and "run_ints_ok run"
    and "py_strip (pr_run_id d) \<noteq> []" and "pr_decided_at d = Some now" and "py_strip now \<noteq> []"
  shows "append_proposal_event ''proposal_denied'' d (to_decision_payload d) db' = (Inr (),
    if stored_event db' (pr_proposal_id d @ '':0002:proposal_denied'') = None
    then db'\<lparr>run_events := run_events db' @ [denial_event now run d]\<rparr> else db')"
proof -
  let ?e = "\<lparr>le_event_id = proposal_event_id d ''proposal_denied'', le_event_type = ''proposal_denied'',
      le_run_id = pr_run_id d, le_turn = Some (or_current_turn run), le_agent_id = Some ''operator'', le_at = now,
      le_payload = to_decision_payload d, le_event_hash = None, le_chain_hash = None\<rparr>"
  have id: "proposal_event_id d ''proposal_denied'' = pr_proposal_id d @ '':0002:proposal_denied''"
    by (simp add: proposal_event_id_def event_order_def)
  have at: "str_or (pr_decided_at d) (pr_submitted_at d) = now"
    using assms(4,5) by (cases "now = []") (simp_all add: str_or_def py_strip_def)
  have "py_strip ''proposal_denied'' \<noteq> []" by code_simp
  then have "event_valid ?e"
    using assms proposal_event_id_nonblank by (simp add: event_valid_def validate_event_def run_ints_ok_def)
  from append_if_absent_exact [OF this, of db'] show ?thesis
    using assms(1) by (simp add: append_proposal_event_def run_store_get_def at id denial_event_def)
qed

text \<open>
  C37: a denial by the approval service is carried out in full and changes nothing else. On a database that
  the service keeps, a pending proposal is denied with a reason that is not blank, at a time that is not
  blank: \<open>deny\<close> succeeds and returns the proposal with status, decision, operator, stripped reason, note and
  time filled in and its other fields as they were. The new database holds this proposal in place of the old
  one; the run of the proposal with status failed, no pending proposals, the time as its
  completion time and the stripped reason as its stop reason, its other fields as they were read
  (the JSON columns are written again); and one more event in the ledger, the decision under its
  own identifier with the turn of the run and the decision as payload (none when an event of that identifier
  is there already). Every other proposal, every other run and every earlier event is unchanged.
  What the endpoint does after the call of the service is not part of this.
\<close>

theorem denial_fails_run:
  assumes "outward_inv db" and "stored_proposal db pid = Some p" and "pr_status p = ''pending''"
    and "py_strip now \<noteq> []" and "py_strip reason \<noteq> []"
  shows "\<exists>run. stored_run db (pr_run_id p) = Some run \<and>
    (let d = denied_proposal now operator_ref reason note p;
         known = stored_event db (pid @ '':0002:proposal_denied'') \<noteq> None
     in deny now pid operator_ref reason note db = (Inr d,
       \<lparr>outward_runs = map (\<lambda>w. if or_run_id w = pr_run_id p then run_row (failed_run now reason run) else w) (outward_runs db),
        run_events = (if known then run_events db else run_events db @ [denial_event now run d]),
        outward_approval_proposals =
          filter (\<lambda>w. pr_proposal_id w \<noteq> pid) (outward_approval_proposals db) @ [proposal_row d]\<rparr>))"
proof -
  note ok = outward_invD(1,2) [OF assms(1)] and pD = outward_invD(3) [OF assms(1,2)]
  obtain run where run: "stored_run db (pr_run_id p) = Some run" using pD by blast
  note rD = stored_runD [OF ok run]
  let ?d = "denied_proposal now operator_ref reason note p"
  let ?db1 = "db\<lparr>outward_approval_proposals := insert_or_replace pr_proposal_id (proposal_row ?d) (outward_approval_proposals db)\<rparr>"
  let ?r = "failed_run now reason run"
  let ?db2 = "?db1\<lparr>outward_runs := map (\<lambda>w. if or_run_id w = or_run_id run then run_row ?r else w) (outward_runs db)\<rparr>"
  have fields: "pr_proposal_id ?d = pid" "pr_run_id ?d = pr_run_id p" "pr_decided_at ?d = Some now"
    using pD by (simp_all add: denied_proposal_def)
  have rfields: "or_run_id ?r = or_run_id run" "or_current_turn ?r = or_current_turn run" "run_ints_ok ?r = run_ints_ok run"
    by (simp_all add: failed_run_def run_ints_ok_def)
  have upd: "run_store_update ?r ?db1 = (Inr ?r, ?db2)"
    using rD(2) by (simp add: run_store_update_def rfields update_where_def)
  note eff = run_store_update_effect [of ?db1 ?r "Inr ?r" ?db2, OF approval_store_save_effect(2) [OF ok(1), of ?d] _ upd]
  have "stored_run ?db2 (pr_run_id ?d) = Some (run_row ?r)"
    using eff(3) rD run by (simp add: rfields fields approval_store_save_def)
  from denial_event_appended [OF this _ _ fields(3) assms(4)]
  have app: "append_proposal_event ''proposal_denied'' ?d (to_decision_payload ?d) ?db2 = (Inr (),
      if stored_event db (pid @ '':0002:proposal_denied'') = None
      then ?db2\<lparr>run_events := run_events db @ [denial_event now run ?d]\<rparr> else ?db2)"
    using rD(2,3) by (simp add: rfields fields denial_event_def)
  have "deny now pid operator_ref reason note db = (Inr ?d,
      if stored_event db (pid @ '':0002:proposal_denied'') = None
      then ?db2\<lparr>run_events := run_events db @ [denial_event now run ?d]\<rparr> else ?db2)"
    using assms(2,3,5) upd app run
    by (simp add: deny_def decide_proposal_def approval_store_get_def denied_proposal_decided failed_run_after
        bind_eff_def approval_store_save_def approval_require_run_def read_eff_def run_store_get_def fields lift_result_def)
  then show ?thesis
    using run rD(1) by (simp add: Let_def insert_or_replace_def fields)
qed

theorem denial_fails_run_witness:
  "\<exists>d db'. deny ''t5'' ''p1'' ''op'' '' no '' None service_demo_db = (Inr d, db') \<and> pr_reason d = Some ''no'' \<and>
     outward_runs db' = [run_row (service_demo_run\<lparr>or_status := ''failed'', or_completed_at := Some ''t5'', or_stop_reason := Some ''no''\<rparr>)] \<and>
     map le_event_id (run_events db') = [''p1:0002:proposal_denied'']"
proof -
  have p: "stored_proposal service_demo_db ''p1'' = Some service_demo_proposal" "pr_status service_demo_proposal = ''pending''"
    "pr_run_id service_demo_proposal = ''r1''" "py_strip ''t5'' \<noteq> []" "py_strip '' no '' = ''no''"
    "stored_run service_demo_db ''r1'' = Some service_demo_run" "stored_event service_demo_db ''p1:0002:proposal_denied'' = None" by code_simp+
  show ?thesis
    using denial_fails_run [OF service_demo_inv(1) p(1,2,4), of "'' no ''" "''op''" None] p(3,5-7)
    by (simp add: Let_def service_demo_db_def service_demo_run_def failed_run_def denial_event_def denied_proposal_def
        service_demo_proposal_def)
qed

text \<open>
  submission is idempotent: submitting a payload with an explicit run identifier a second time
  returns the stored run and changes nothing.
\<close>

theorem submit_idempotent:
  assumes "outward_inv db" and "normalize_submission payload = Inr n" and "sub_run_id n \<noteq> []"
    and "submit fresh now payload db = (Inr r, db')"
  shows "\<exists>w. stored_run db' (or_run_id r) = Some w \<and> submit fresh' now' payload db' = (Inr w, db')"
proof -
  have id: "str_or (Some (sub_run_id n)) x = sub_run_id n" for x using assms(3) by (simp add: str_or_def)
  have ev: "stored_event d2 (''run:'' @ or_run_id q @ '':submitted'') \<noteq> None \<and> outward_runs d2 = outward_runs d1"
    if call: "bind_eff (ensure_initial_event q) (\<lambda>_. lift_result (Inr q)) d1 = (Inr q', d2)" for q q' d1 d2
  proof -
    obtain u where "ensure_initial_event q d1 = (Inr u, d2)" using call by (auto simp: bind_eff_Inr_iff lift_result_def)
    then show ?thesis
      unfolding ensure_initial_event_def using append_if_absent_success append_if_absent_frame(1) by fastforce
  qed
  have again: "submit fresh' now' payload db' = (Inr w, db')"
    if "stored_run db' (sub_run_id n) = Some w" "stored_event db' (''run:'' @ sub_run_id n @ '':submitted'') \<noteq> None" for w
    using that runs.sel_Some [OF that(1)] assms(2)
    by (simp add: submit_def id run_store_get_def ensure_initial_event_def append_if_absent_def event_store_get_def bind_eff_def lift_result_def)
  show ?thesis
  proof (cases "stored_run db (sub_run_id n)")
    case (Some w)
    then have s: "bind_eff (ensure_initial_event w) (\<lambda>_. lift_result (Inr w)) db = (Inr r, db')"
      using assms(2,4) by (simp add: submit_def id run_store_get_def Let_def)
    then have "r = w" by (auto simp: bind_eff_Inr_iff lift_result_def)
    then show ?thesis using ev [OF s] Some again [of w] runs.sel_Some [OF Some] by auto
  next
    case None
    let ?start = "\<lambda>c. bind_eff (run_store_create c) (\<lambda>created. bind_eff (ensure_initial_event created) (\<lambda>_. lift_result (Inr created)))"
    have "\<exists>c. ?start c db = (Inr r, db') \<and> or_run_id c = sub_run_id n"
      using assms(2,4) None unfolding submit_def run_store_get_def
      by (simp add: id Let_def split: if_splits) (rule exI, erule conjI, simp)
    then obtain c where c: "?start c db = (Inr r, db')" "or_run_id c = sub_run_id n" by blast
    then obtain c' db1 where cr: "run_store_create c db = (Inr c', db1)"
      and s: "bind_eff (ensure_initial_event c') (\<lambda>_. lift_result (Inr c')) db1 = (Inr r, db')"
      unfolding bind_eff_Inr_iff by blast
    then have "r = c'" by (auto simp: bind_eff_Inr_iff lift_result_def)
    moreover have "c' = c" using cr by (auto simp: run_store_create_def split: if_splits)
    moreover
    have "stored_run db1 (sub_run_id n) = Some (run_row c)"
      using c(2) cr None runs.sel_append_new [of "run_row c" "outward_runs db" "sub_run_id n"] by (auto simp: run_store_create_def split: if_splits)
    ultimately show ?thesis using ev [OF s] again [of "run_row c"] c(2) by auto
  qed
qed

theorem submit_idempotent_witness:
  "\<exists>r db' w. submit ''x'' ''t1'' [(''run_id'', JStr ''r9''), (''task'', JObj [(''description'', JStr ''d''), (''instruction'', JStr ''i'')])]
      empty_outward_db = (Inr r, db') \<and> stored_run db' (or_run_id r) = Some w \<and>
    submit ''y'' ''t2'' [(''run_id'', JStr ''r9''), (''task'', JObj [(''description'', JStr ''d''), (''instruction'', JStr ''i'')])] db' = (Inr w, db')"
proof -
  let ?payload = "[(''run_id'', JStr ''r9''), (''task'', JObj [(''description'', JStr ''d''), (''instruction'', JStr ''i'')])]"
  have n: "(case normalize_submission ?payload of Inr n \<Rightarrow> sub_run_id n \<noteq> [] | Inl _ \<Rightarrow> False)"
    and s: "(case submit ''x'' ''t1'' ?payload empty_outward_db of (Inr _, _) \<Rightarrow> True | _ \<Rightarrow> False)" by code_simp+
  obtain m where m: "normalize_submission ?payload = Inr m" "sub_run_id m \<noteq> []"
    using n by (cases "normalize_submission ?payload") simp_all
  obtain r db' where r: "submit ''x'' ''t1'' ?payload empty_outward_db = (Inr r, db')"
    using s by (cases "submit ''x'' ''t1'' ?payload empty_outward_db") (auto split: sum.splits)
  from submit_idempotent [OF service_demo_inv(2) m r, of "''y''" "''t2''"] r show ?thesis by blast
qed

text \<open>The preview of a proposal shows no value of a field the connector marks as personal.\<close>

lemma redacted_preview:
  "map_of (redacted_args_preview args pii) k =
     (if k \<in> set pii \<and> map_of args k \<noteq> None then Some (JStr ''[REDACTED]'') else map_of args k)"
proof -
  let ?step = "\<lambda>field r. if field \<in> fst ` set r then AList.update field (JStr ''[REDACTED]'') r else r"
  have step: "map_of (?step f r) k = (if k = f \<and> map_of r k \<noteq> None then Some (JStr ''[REDACTED]'') else map_of r k)" for f r
    by (cases "map_of r f") (auto simp: update_conv' map_of_eq_None_iff image_iff)
  have "map_of (fold ?step pii args) k = (if k \<in> set pii \<and> map_of args k \<noteq> None then Some (JStr ''[REDACTED]'') else map_of args k)"
  proof (induction pii arbitrary: args)
    case (Cons f pii)
    show ?case unfolding fold_Cons comp_def Cons.IH step by auto
  qed simp
  then show ?thesis by (simp add: redacted_args_preview_def)
qed

end
