(* ===== verification/Outward_Execution.thy ===== *)
theory Outward_Execution
  imports Outward_Services
begin

text \<open>
  The execution of outward runs: the plan kept in the task of a run
  (\<open>orket/application/services/outward_run_execution_plan.py\<close>), the admission of a trust handoff
  (\<open>trust_handoff_admission.py\<close>), the execution service (\<open>outward_run_execution_service.py\<close>) and the two
  decision endpoints that drive it (\<open>orket/interfaces/routers/approvals.py\<close>).

  The model call, the connector service with its executor, the evidence writer and the handoff
  verifier read and write files and the network: they are the fields of \<open>exec_env\<close>, each with the
  ways it can fail. \<open>env_now k\<close> is what the \<open>k\<close>-th reading of the clock in a handler gives.
\<close>

section \<open>The plan\<close>

definition EXPLICIT_TOOL_CALL_KEY :: string where "EXPLICIT_TOOL_CALL_KEY = ''governed_tool_call''"

definition EXPLICIT_TOOL_SEQUENCE_KEY :: string where "EXPLICIT_TOOL_SEQUENCE_KEY = ''governed_tool_sequence''"

definition MODEL_TOOL_CALL_KEY :: string where "MODEL_TOOL_CALL_KEY = ''model_governed_tool_call''"

definition EXECUTION_STATE_KEY :: string where "EXECUTION_STATE_KEY = ''_outward_execution_state''"

type_synonym tool_call = "string \<times> (string \<times> json) list"

definition normalized_tool_step :: "json \<Rightarrow> string \<Rightarrow> tool_call result" where
  "normalized_tool_step raw field =
     (case raw of
        JObj kvs \<Rightarrow>
          (let tool = py_strip (str_or_empty (json_get kvs ''tool'')) in
           if tool = [] then Inl (OutwardRunExecutionPlanError (field @ ''.tool is required''))
           else (case json_get kvs ''args'' of
               JObj args \<Rightarrow> Inr (tool, args)
             | _ \<Rightarrow> Inl (OutwardRunExecutionPlanError (field @ ''.args must be an object''))))
      | _ \<Rightarrow> Inl (OutwardRunExecutionPlanError (field @ '' must be an object'')))"

fun normalized_steps :: "nat \<Rightarrow> json list \<Rightarrow> tool_call list result" where
  "normalized_steps i [] = Inr []"
| "normalized_steps i (item # items) =
     bind_result (normalized_tool_step item
       (''task.acceptance_contract.governed_tool_sequence['' @ str_of_nat i @ '']'')) (\<lambda>step.
     bind_result (normalized_steps (Suc i) items) (\<lambda>steps. Inr (step # steps)))"

definition acceptance_tool_steps :: "OutwardRunRecord \<Rightarrow> tool_call list result" where
  "acceptance_tool_steps run =
     (case json_get (or_task run) ''acceptance_contract'' of
        JObj contract \<Rightarrow>
          (case json_get contract EXPLICIT_TOOL_SEQUENCE_KEY of
             JNull \<Rightarrow>
               (case json_get contract EXPLICIT_TOOL_CALL_KEY of
                  JNull \<Rightarrow> Inr []
                | raw_call \<Rightarrow> bind_result (normalized_tool_step raw_call ''task.acceptance_contract.governed_tool_call'')
                    (\<lambda>step. Inr [step]))
           | JArr (item # items) \<Rightarrow> normalized_steps 0 (item # items)
           | _ \<Rightarrow> Inl (OutwardRunExecutionPlanError
               ''task.acceptance_contract.governed_tool_sequence must be a non-empty array''))
      | _ \<Rightarrow> Inr [])"

definition plan_state :: "OutwardRunRecord \<Rightarrow> (string \<times> json) list" where
  "plan_state run = (case json_get (or_task run) EXECUTION_STATE_KEY of JObj raw \<Rightarrow> raw | _ \<Rightarrow> [(''step_index'', JInt 0)])"

definition current_step_index :: "OutwardRunRecord \<Rightarrow> int" where
  "current_step_index run =
     (case json_get (or_task run) EXECUTION_STATE_KEY of
        JObj raw \<Rightarrow> (case json_get raw ''step_index'' of
            JInt i \<Rightarrow> if 0 \<le> i then i else 0
          | JBool b \<Rightarrow> if b then 1 else 0
          | _ \<Rightarrow> 0)
      | _ \<Rightarrow> 0)"

definition current_step :: "OutwardRunRecord \<Rightarrow> tool_call list \<Rightarrow> tool_call option" where
  "current_step run steps =
     (let index = current_step_index run in
      if index < 0 \<or> int (length steps) \<le> index then None else Some (steps ! nat index))"

definition is_last_step :: "OutwardRunRecord \<Rightarrow> tool_call list \<Rightarrow> bool" where
  "is_last_step run steps = (int (length steps) - 1 \<le> current_step_index run)"

definition normalized_model_call :: "json \<Rightarrow> tool_call option" where
  "normalized_model_call raw =
     (case raw of
        JObj kvs \<Rightarrow>
          (let tool = py_strip (str_or_empty (json_get kvs ''tool'')) in
           case json_get kvs ''args'' of JObj args \<Rightarrow> if tool = [] then None else Some (tool, args) | _ \<Rightarrow> None)
      | _ \<Rightarrow> None)"

definition model_tool_call :: "OutwardRunRecord \<Rightarrow> tool_call option" where
  "model_tool_call run =
     normalized_model_call (case json_get (plan_state run) ''model_tool_calls'' of
         JArr (c # cs) \<Rightarrow> last (c # cs)
       | _ \<Rightarrow> json_get (or_task run) MODEL_TOOL_CALL_KEY)"

text \<open>\<open>list(value or [])\<close>\<close>

definition list_elements :: "json \<Rightarrow> json list result" where
  "list_elements v =
     (if \<not> json_truthy v then Inr []
      else case v of
        JArr items \<Rightarrow> Inr items
      | JStr s \<Rightarrow> Inr (map (\<lambda>c. JStr [c]) s)
      | JObj kvs \<Rightarrow> Inr (map (\<lambda>(k, _). JStr k) kvs)
      | _ \<Rightarrow> Inl (TypeError ''object is not iterable''))"

text \<open>\<open>int(run.current_turn or 1)\<close>\<close>

definition turn_or_1 :: "int \<Rightarrow> int" where
  "turn_or_1 turn = (if turn = 0 then 1 else turn)"

definition task_with_model_tool_call ::
  "OutwardRunRecord \<Rightarrow> tool_call \<Rightarrow> string \<Rightarrow> string option \<Rightarrow> string option \<Rightarrow> (string \<times> json) list result" where
  "task_with_model_tool_call run call model_invocation_ref proposal_id proposal_ref =
     (let state = plan_state run in
      bind_result (list_elements (json_get state ''model_tool_calls'')) (\<lambda>calls.
      let entry = [(''turn'', JInt (turn_or_1 (or_current_turn run))), (''step_index'', JInt (current_step_index run)),
            (''tool'', JStr (fst call)), (''args'', JObj (snd call)), (''source'', JStr ''model_output''),
            (''model_invocation_ref'', JStr model_invocation_ref)] @
            (if truthy_opt proposal_id then [(''proposal_id'', json_opt_str proposal_id)] else []) @
            (if truthy_opt proposal_ref then [(''proposal_ref'', json_opt_str proposal_ref)] else [])
      in Inr (AList.update EXECUTION_STATE_KEY (JObj (AList.update ''model_tool_calls'' (JArr (calls @ [JObj entry])) state))
           (AList.update MODEL_TOOL_CALL_KEY (JObj
             [(''tool'', JStr (fst call)), (''args'', JObj (snd call)), (''source'', JStr ''model_output''),
              (''model_invocation_ref'', JStr model_invocation_ref)]) (or_task run)))))"

definition task_with_policy_rejection ::
  "OutwardRunRecord \<Rightarrow> string \<Rightarrow> string \<Rightarrow> string \<Rightarrow> string \<Rightarrow> (string \<times> json) list result" where
  "task_with_policy_rejection run tool tool_args_hash proposal_ref reason =
     (let state = plan_state run in
      bind_result (list_elements (json_get state ''policy_rejections'')) (\<lambda>rejections.
      let entry = [(''turn'', JInt (turn_or_1 (or_current_turn run))), (''step_index'', JInt (current_step_index run)),
            (''tool'', JStr tool), (''tool_args_hash'', JStr tool_args_hash), (''proposal_ref'', JStr proposal_ref),
            (''reason'', JStr reason), (''source'', JStr ''connector_policy_validation'')]
      in Inr (AList.update EXECUTION_STATE_KEY
           (JObj (AList.update ''policy_rejections'' (JArr (rejections @ [JObj entry])) state)) (or_task run))))"

definition task_with_tool_result ::
  "OutwardRunRecord \<Rightarrow> string \<Rightarrow> string \<Rightarrow> (string \<times> json) list \<Rightarrow> (string \<times> json) list result" where
  "task_with_tool_result run proposal_id tool tool_result =
     (let state = plan_state run in
      bind_result (list_elements (json_get state ''tool_results'')) (\<lambda>results.
      let entry = [(''turn'', JInt (turn_or_1 (or_current_turn run))), (''step_index'', JInt (current_step_index run)),
            (''proposal_id'', JStr proposal_id), (''tool'', JStr tool), (''result'', JObj tool_result)]
      in Inr (AList.update EXECUTION_STATE_KEY (JObj
           (AList.update ''step_index'' (JInt (current_step_index run + 1))
             (AList.update ''tool_results'' (JArr (results @ [JObj entry])) state))) (or_task run))))"

definition step_event_id :: "string \<Rightarrow> int \<Rightarrow> int \<Rightarrow> string \<Rightarrow> string" where
  "step_event_id run_id turn order name =
     ''run:'' @ run_id @ '':'' @ zero_pad 2 turn @ '':'' @ zero_pad 4 order @ '':'' @ name"

definition args_hash :: "(string \<Rightarrow> string) \<Rightarrow> (string \<times> json) list \<Rightarrow> string" where
  "args_hash sha256 args = sha256 (json_dumps True (JObj args))"

definition model_proposal_ref :: "string \<Rightarrow> int \<Rightarrow> string \<Rightarrow> string \<Rightarrow> string" where
  "model_proposal_ref run_id turn tool tool_args_hash =
     ''model_proposal:'' @ run_id @ '':'' @ str_of_int (turn_or_1 turn) @ '':'' @ tool @ '':'' @ tool_args_hash"

definition proposal_suffix :: "string \<Rightarrow> string" where
  "proposal_suffix proposal_id =
     str_or (Some (rev (takeWhile (\<lambda>c. c \<noteq> CHR '':'') (rev proposal_id)))) ''0000''"

definition errors_json :: "(string \<times> string) list \<Rightarrow> json" where
  "errors_json errors = JArr (map (\<lambda>(field, reason). JObj [(''field'', JStr field), (''reason'', JStr reason)]) errors)"

definition invalid_args_event_payload ::
  "(string \<Rightarrow> string) \<Rightarrow> string \<Rightarrow> (string \<times> json) list \<Rightarrow> (string \<times> string) list \<Rightarrow> (string \<times> json) list" where
  "invalid_args_event_payload sha256 tool args errors =
     [(''connector_name'', JStr tool), (''args_hash'', JStr (args_hash sha256 args)),
      (''result_summary'', JObj [(''ok'', JBool False), (''error'', JStr ''invalid_args''), (''errors'', errors_json errors)]),
      (''duration_ms'', JInt 0), (''outcome'', JStr ''failed'')]"

definition failed_tool_event_payload ::
  "(string \<Rightarrow> string) \<Rightarrow> string \<Rightarrow> (string \<times> json) list \<Rightarrow> string \<Rightarrow> (string \<times> json) list" where
  "failed_tool_event_payload sha256 tool args error =
     [(''connector_name'', JStr tool), (''args_hash'', JStr (args_hash sha256 args)),
      (''result_summary'', JObj [(''ok'', JBool False), (''error'', JStr error)]),
      (''duration_ms'', JInt 0), (''outcome'', JStr ''failed'')]"

definition failure_reason :: "(string \<times> json) list \<Rightarrow> string" where
  "failure_reason payload =
     (let fallback = ''connector invocation '' @
            (let outcome = json_get payload ''outcome'' in if json_truthy outcome then py_str_json outcome else ''failed'')
      in case json_get payload ''result_summary'' of
        JObj summary \<Rightarrow>
          if py_strip (str_or_empty (json_get summary ''error'')) \<noteq> [] then py_str_json (json_get summary ''error'') else fallback
      | _ \<Rightarrow> fallback)"

section \<open>The environment of the service\<close>

record model_result =
  mr_tool_call :: tool_call
  mr_invocation :: "(string \<times> json) list"

text \<open>What \<open>invoke_with_result\<close> does: a payload and a result, or one of the errors it raises.\<close>

datatype connector_outcome =
    Invoked "(string \<times> json) list" "(string \<times> json) list"
  | InvalidArguments "(string \<times> string) list"
  | ConnectorNotFound string

record exec_env =
  env_registry :: connector_registry
  env_datetime :: datetime_lib
  env_sha256 :: "string \<Rightarrow> string"
  env_now :: "nat \<Rightarrow> string"
  env_produce :: "OutwardRunRecord \<Rightarrow> string \<Rightarrow> (string + model_result) result"
  env_validate_args :: "string \<Rightarrow> (string \<times> json) list \<Rightarrow> (string \<times> string) list"
  env_validate_policy :: "string \<Rightarrow> (string \<times> json) list \<Rightarrow> string option"
  env_invoke :: "string \<Rightarrow> (string \<times> json) list \<Rightarrow> connector_outcome result"
  env_record_extraction :: "OutwardRunRecord \<Rightarrow> model_result \<Rightarrow> string option \<Rightarrow> string \<Rightarrow> unit result"
  env_verify_handoff :: "string \<Rightarrow> string \<Rightarrow> string \<Rightarrow> string \<Rightarrow> (string \<times> json) list result"

definition append_once ::
  "exec_env \<Rightarrow> nat \<Rightarrow> string \<Rightarrow> string \<Rightarrow> OutwardRunRecord \<Rightarrow> int \<Rightarrow> (string \<times> json) list \<Rightarrow> (outward_db, unit) eff" where
  "append_once env k event_id event_type run turn payload = append_if_absent
     \<lparr>le_event_id = event_id, le_event_type = event_type, le_run_id = or_run_id run, le_turn = Some turn,
      le_agent_id = Some ''outward-agent'', le_at = env_now env k, le_payload = payload,
      le_event_hash = None, le_chain_hash = None\<rparr>"

section \<open>Trust handoff admission\<close>

text \<open>\<open>str(Path(text))\<close> on a POSIX system.\<close>

fun path_parts :: "string \<Rightarrow> string \<Rightarrow> string list" where
  "path_parts acc [] = [rev acc]"
| "path_parts acc (c # cs) = (if c = CHR ''/'' then rev acc # path_parts [] cs else path_parts (c # acc) cs)"

definition path_text :: "string \<Rightarrow> string" where
  "path_text s =
     (let slashes = length (takeWhile (\<lambda>c. c = CHR ''/'') s);
          root = (if slashes = 0 then [] else if slashes = 2 then ''//'' else ''/'');
          body = join ''/'' (filter (\<lambda>p. p \<noteq> [] \<and> p \<noteq> ''.'') (path_parts [] s))
      in if root @ body = [] then ''.'' else root @ body)"

definition acceptance_contract :: "OutwardRunRecord \<Rightarrow> (string \<times> json) list" where
  "acceptance_contract run = (case json_get (or_task run) ''acceptance_contract'' of JObj kvs \<Rightarrow> kvs | _ \<Rightarrow> [])"

definition missing_acceptance_fields :: "(string \<times> json) list \<Rightarrow> string list" where
  "missing_acceptance_fields acceptance =
     filter (\<lambda>field. py_strip (str_or_empty (json_get acceptance field)) = [])
       [''handoff_policy_compatibility_scope_id'', ''handoff_envelope_package_path'', ''expected_source_agent_id'']"

definition package_path :: "(string \<times> json) list \<Rightarrow> string" where
  "package_path acceptance = path_text (str_or_empty (json_get acceptance ''handoff_envelope_package_path''))"

definition incomplete_report :: "string list \<Rightarrow> (string \<times> json) list" where
  "incomplete_report missing =
     [(''result'', JStr ''rejected''), (''rejection_reason'', JStr ''handoff_acceptance_contract_incomplete''),
      (''rejection_class'', JStr ''acceptance_contract_invalid''), (''failure_detail'', JStr (join '','' missing))]"

definition sub_report :: "(string \<times> json) list \<Rightarrow> string \<Rightarrow> (string \<times> json) list" where
  "sub_report report k = (case json_get report k of JObj kvs \<Rightarrow> kvs | _ \<Rightarrow> [])"

definition verified_payload :: "(string \<times> json) list \<Rightarrow> string \<Rightarrow> (string \<times> json) list" where
  "verified_payload report path =
     [(''bundle_id'', json_get report ''bundle_id''), (''source_run_id'', json_get report ''source_run_id''),
      (''source_agent_id'', json_get report ''source_agent_id''),
      (''committed_output_digest'', json_get (sub_report report ''source_output_anchor_result'') ''committed_output_digest''),
      (''source_policy_digest'', json_get (sub_report report ''source_policy_anchor_result'') ''source_policy_digest''),
      (''handoff_policy_compatibility_scope_id'', json_get (sub_report report ''policy_compatibility_result'') ''scope_id''),
      (''envelope_digest'', json_get report ''envelope_digest''), (''package_path'', JStr path)]"

definition rejected_payload :: "(string \<times> json) list \<Rightarrow> string \<Rightarrow> (string \<times> json) list" where
  "rejected_payload report path =
     [(''rejection_reason'', json_get report ''rejection_reason''), (''rejection_class'', json_get report ''rejection_class''),
      (''bundle_id'', json_get report ''bundle_id''), (''source_run_id'', json_get report ''source_run_id''),
      (''package_path'', if path = [] then JNull else JStr path), (''result_class'', JStr ''handoff_rejected''),
      (''evidence_sufficiency'', JStr ''evidence_sufficient'')]"

definition reject_handoff ::
  "exec_env \<Rightarrow> OutwardRunRecord \<Rightarrow> (string \<times> json) list \<Rightarrow> string \<Rightarrow> (outward_db, OutwardRunRecord) eff" where
  "reject_handoff env run report path =
     (let now = env_now env 0;
          reason = json_get report ''rejection_reason'';
          rejected = run\<lparr>or_status := ''completed'', or_pending_proposals := [], or_completed_at := Some now,
            or_stop_reason := Some (if json_truthy reason then py_str_json reason else ''trust_handoff_rejected'')\<rparr>
      in
     bind_eff (run_store_update rejected) (\<lambda>_.
     bind_eff (append_once env 1 (''run:'' @ or_run_id run @ '':0050:trust_handoff_rejected'') ''trust_handoff_rejected'' rejected 0
       (rejected_payload report path)) (\<lambda>_.
     bind_eff (append_once env 2 (''run:'' @ or_run_id run @ '':0060:handoff_rejected:completed'') ''run_completed'' rejected 0
       [(''run_id'', JStr (or_run_id run)), (''status'', JStr ''completed''), (''outcome'', JStr ''handoff_rejected''),
        (''result_class'', JStr ''handoff_rejected''), (''evidence_sufficiency'', JStr ''evidence_sufficient''),
        (''rejection_reason'', json_get report ''rejection_reason''), (''rejection_class'', json_get report ''rejection_class''),
        (''completed_at'', JStr now)]) (\<lambda>_.
     lift_result (Inr rejected)))))"

definition admit_if_required :: "exec_env \<Rightarrow> OutwardRunRecord \<Rightarrow> (outward_db, OutwardRunRecord \<times> bool) eff" where
  "admit_if_required env run =
     (let acceptance = acceptance_contract run in
      if json_get acceptance ''handoff_required'' \<noteq> JBool True then lift_result (Inr (run, True))
      else let missing = missing_acceptance_fields acceptance; path = package_path acceptance in
      if missing \<noteq> []
      then bind_eff (reject_handoff env run (incomplete_report missing) path) (\<lambda>r. lift_result (Inr (r, False)))
      else bind_eff (lift_result (env_verify_handoff env path
             (str_or_empty (json_get acceptance ''handoff_policy_compatibility_scope_id''))
             (str_or_empty (json_get acceptance ''expected_source_agent_id'')) (or_run_id run))) (\<lambda>report.
      if json_get report ''result'' \<noteq> JStr ''accepted''
      then bind_eff (reject_handoff env run report path) (\<lambda>r. lift_result (Inr (r, False)))
      else bind_eff (append_once env 3 (''run:'' @ or_run_id run @ '':0050:trust_handoff_verified'') ''trust_handoff_verified'' run 0
        (verified_payload report path)) (\<lambda>_. lift_result (Inr (run, True)))))"

section \<open>The execution service\<close>

definition exec_require_run :: "string \<Rightarrow> (outward_db, OutwardRunRecord) eff" where
  "exec_require_run run_id = read_eff (\<lambda>db.
     case run_store_get (py_strip run_id) db of
       None \<Rightarrow> Inl (OutwardRunExecutionError (''Run '' @ [CHR 0x27] @ run_id @ [CHR 0x27] @ '' not found''))
     | Some run \<Rightarrow> Inr run)"

definition fail_run :: "exec_env \<Rightarrow> OutwardRunRecord \<Rightarrow> string \<Rightarrow> (outward_db, OutwardRunRecord) eff" where
  "fail_run env run reason =
     (let now = env_now env 10;
          failed = run\<lparr>or_status := ''failed'', or_pending_proposals := [], or_completed_at := Some now, or_stop_reason := Some reason\<rparr>
      in
     bind_eff (run_store_update failed) (\<lambda>_.
     bind_eff (append_once env 11 (''run:'' @ or_run_id run @ '':0900:failed'') ''run_failed'' failed (or_current_turn run)
       [(''run_id'', JStr (or_run_id run)), (''status'', JStr ''failed''), (''reason'', JStr reason), (''completed_at'', JStr now)]) (\<lambda>_.
     lift_result (Inr failed))))"

definition complete_terminal ::
  "exec_env \<Rightarrow> OutwardRunRecord \<Rightarrow> string \<Rightarrow> string option \<Rightarrow> string \<Rightarrow> string option \<Rightarrow> (outward_db, OutwardRunRecord) eff" where
  "complete_terminal env run status stop_reason outcome completed_at =
     (let now = str_or completed_at (env_now env 12);
          completed = run\<lparr>or_status := status, or_pending_proposals := [], or_completed_at := Some now, or_stop_reason := stop_reason\<rparr>
      in
     bind_eff (run_store_update completed) (\<lambda>_.
     bind_eff (append_once env 13 (''run:'' @ or_run_id run @ '':0700:completed'') ''run_completed'' completed (or_current_turn run)
       [(''run_id'', JStr (or_run_id run)), (''status'', JStr status), (''outcome'', JStr outcome), (''completed_at'', JStr now)]) (\<lambda>_.
     lift_result (Inr completed))))"

definition complete_turn ::
  "exec_env \<Rightarrow> OutwardRunRecord \<Rightarrow> string \<Rightarrow> string \<Rightarrow> string \<Rightarrow> bool \<Rightarrow> (outward_db, unit) eff" where
  "complete_turn env run tool proposal_id outcome record_commitment =
     bind_eff (if record_commitment
       then append_once env 14 (step_event_id (or_run_id run) (or_current_turn run) 500
              (''commitment:'' @ tool @ '':'' @ proposal_suffix proposal_id)) ''commitment_recorded'' run (or_current_turn run)
            [(''run_id'', JStr (or_run_id run)), (''tool'', JStr tool), (''outcome'', JStr outcome)]
       else lift_result (Inr ())) (\<lambda>_.
     append_once env 15 (step_event_id (or_run_id run) (or_current_turn run) 600 ''turn:completed'') ''turn_completed'' run
       (or_current_turn run)
       [(''run_id'', JStr (or_run_id run)), (''turn'', JInt (or_current_turn run)), (''outcome'', JStr outcome)])"

definition start_turn :: "exec_env \<Rightarrow> OutwardRunRecord \<Rightarrow> int \<Rightarrow> (outward_db, unit) eff" where
  "start_turn env run turn =
     append_once env 16 (step_event_id (or_run_id run) turn 200 ''turn:started'') ''turn_started'' run turn
       [(''run_id'', JStr (or_run_id run)), (''turn'', JInt turn), (''agent_id'', JStr ''outward-agent'')]"

definition complete_run :: "exec_env \<Rightarrow> OutwardRunRecord \<Rightarrow> string \<Rightarrow> string \<Rightarrow> (outward_db, OutwardRunRecord) eff" where
  "complete_run env run tool proposal_id =
     bind_eff (complete_turn env run tool proposal_id ''success'' True) (\<lambda>_.
     complete_terminal env run ''completed'' None ''success'' None)"

definition record_model_proposal_event ::
  "exec_env \<Rightarrow> OutwardRunRecord \<Rightarrow> string \<Rightarrow> model_result \<Rightarrow> string list \<Rightarrow> (outward_db, OutwardRunRecord) eff" where
  "record_model_proposal_event env run tool model pii_fields =
     (let args = snd (mr_tool_call model);
          evidence = mr_invocation model;
          model_invocation_ref = py_strip (str_or_empty (json_get evidence ''model_invocation_ref''));
          tool_args_hash = (let h = json_get evidence ''tool_args_hash'' in
            if json_truthy h then py_str_json h else args_hash (env_sha256 env) args);
          proposal_ref = model_proposal_ref (or_run_id run) (or_current_turn run) tool tool_args_hash
      in
     bind_eff (lift_result (task_with_model_tool_call run (mr_tool_call model) model_invocation_ref None (Some proposal_ref))) (\<lambda>task.
     let run_with_model_call = run\<lparr>or_task := task\<rparr> in
     bind_eff (run_store_update run_with_model_call) (\<lambda>_.
     bind_eff (append_once env 17
       (step_event_id (or_run_id run) (or_current_turn run) 300
         (''proposal:'' @ tool @ '':'' @ zero_pad 4 (int (length (or_pending_proposals run)) + 1)))
       ''proposal_made'' run_with_model_call (or_current_turn run)
       [(''run_id'', JStr (or_run_id run)), (''namespace'', JStr (or_namespace run)), (''tool'', JStr tool),
        (''args_preview'', JObj (redacted_args_preview args pii_fields)),
        (''context_summary'', JStr ''model-produced governed tool call from live provider response''),
        (''model_invocation_ref'', JStr model_invocation_ref),
        (''model_invocation_sha256'', JStr (str_or_empty (json_get evidence ''model_invocation_sha256''))),
        (''model_prompt_redacted_sha256'', JStr (str_or_empty (json_get evidence ''model_prompt_redacted_sha256''))),
        (''model_response_content_sha256'', JStr (str_or_empty (json_get evidence ''model_response_content_sha256''))),
        (''model_response_redacted_sha256'', JStr (str_or_empty (json_get evidence ''model_response_redacted_sha256''))),
        (''proposal_extraction_ref'', JStr (str_or_empty (json_get evidence ''proposal_extraction_ref''))),
        (''proposal_extraction_sha256'', JStr (str_or_empty (json_get evidence ''proposal_extraction_sha256''))),
        (''provider_name'', json_get evidence ''provider_name''), (''model_name'', json_get evidence ''model_name''),
        (''tool_name'', JStr tool), (''tool_args_hash'', JStr tool_args_hash), (''proposal_ref'', JStr proposal_ref)]) (\<lambda>_.
     lift_result (Inr run_with_model_call)))))"

definition policy_reject ::
  "exec_env \<Rightarrow> OutwardRunRecord \<Rightarrow> string \<Rightarrow> model_result \<Rightarrow> string list \<Rightarrow> string \<Rightarrow> (outward_db, OutwardRunRecord) eff" where
  "policy_reject env run tool model pii_fields reason =
     (let args = snd (mr_tool_call model);
          tool_args_hash = args_hash (env_sha256 env) args;
          proposal_ref = model_proposal_ref (or_run_id run) (or_current_turn run) tool tool_args_hash
      in
     bind_eff (lift_result (task_with_policy_rejection run tool tool_args_hash proposal_ref reason)) (\<lambda>task.
     let run_with_rejection = run\<lparr>or_task := task\<rparr> in
     bind_eff (run_store_update run_with_rejection) (\<lambda>_.
     bind_eff (lift_result (env_record_extraction env run_with_rejection model None ''rejected_by_policy'')) (\<lambda>_.
     bind_eff (append_once env 18
       (step_event_id (or_run_id run) (or_current_turn run) 350 (''proposal_policy_rejected:'' @ tool))
       ''proposal_policy_rejected'' run_with_rejection (or_current_turn run)
       [(''run_id'', JStr (or_run_id run)), (''turn'', JInt (or_current_turn run)), (''tool'', JStr tool), (''tool_name'', JStr tool),
        (''args_preview'', JObj (redacted_args_preview args pii_fields)), (''policy_result'', JStr ''rejected''),
        (''reason'', JStr reason), (''tool_args_hash'', JStr tool_args_hash), (''proposal_ref'', JStr proposal_ref)]) (\<lambda>_.
     bind_eff (complete_turn env run_with_rejection tool ''policy'' ''policy_rejected'' False) (\<lambda>_.
     complete_terminal env run_with_rejection ''completed'' (Some reason) ''policy_rejected'' None))))))"

text \<open>\<open>{str(tool).strip() for tool in (policy_overrides.get("approval_required_tools") or [])}\<close>\<close>

definition stripped_tools :: "json \<Rightarrow> string list result" where
  "stripped_tools v = bind_result (list_elements v) (\<lambda>items. Inr (map (\<lambda>i. py_strip (py_str_json i)) items))"

definition approval_timeout :: "OutwardRunRecord \<Rightarrow> BuiltInConnectorMetadata \<Rightarrow> int result" where
  "approval_timeout run connector =
     (let v = json_get (or_policy_overrides run) ''approval_timeout_seconds'' in
      if json_truthy v then py_int v else Inr \<lfloor>bc_timeout_seconds connector\<rfloor>)"

definition propose_call ::
  "exec_env \<Rightarrow> OutwardRunRecord \<Rightarrow> model_result \<Rightarrow> BuiltInConnectorMetadata \<Rightarrow> (outward_db, OutwardRunRecord) eff" where
  "propose_call env run model connector =
     (let tool = fst (mr_tool_call model); args = snd (mr_tool_call model) in
     bind_eff (record_model_proposal_event env run tool model (bc_pii_fields connector)) (\<lambda>run_with_model_call.
     case env_validate_policy env tool args of
       Some reason \<Rightarrow> policy_reject env run_with_model_call tool model (bc_pii_fields connector) reason
     | None \<Rightarrow>
         bind_eff (lift_result (approval_timeout run_with_model_call connector)) (\<lambda>timeout.
         bind_eff (request_tool_approval (env_registry env) (env_datetime env) (env_now env 19) (env_now env 20) (or_run_id run) tool args
           ''model-produced governed tool call from live provider response'' timeout) (\<lambda>proposal.
         bind_eff (lift_result (env_record_extraction env run_with_model_call model (Some (pr_proposal_id proposal))
           ''accepted_for_proposal'')) (\<lambda>_.
         lift_result (Inr (run_with_model_call\<lparr>or_status := ''approval_required'',
           or_pending_proposals := [to_queue_payload proposal]\<rparr>)))))))"

definition handle_model_tool_call :: "exec_env \<Rightarrow> OutwardRunRecord \<Rightarrow> tool_call \<Rightarrow> (outward_db, OutwardRunRecord) eff" where
  "handle_model_tool_call env run acceptance_tool_call =
     (let acceptance_tool = fst acceptance_tool_call in
     case get_connector (env_registry env) acceptance_tool of
       None \<Rightarrow> fail_run env run (''acceptance_contract tool is not registered: '' @ acceptance_tool)
     | Some _ \<Rightarrow>
     bind_eff (lift_result (stripped_tools (json_get (or_policy_overrides run) ''approval_required_tools''))) (\<lambda>required_tools.
     if acceptance_tool \<notin> set required_tools
     then fail_run env run (''acceptance_contract tool is not approval-required: '' @ acceptance_tool)
     else bind_eff (lift_result (env_produce env run acceptance_tool)) (\<lambda>produced.
     case produced of
       Inl message \<Rightarrow> fail_run env run message
     | Inr model \<Rightarrow>
         (case mr_tool_call model of (tool, args) \<Rightarrow>
         case get_connector (env_registry env) tool of
           None \<Rightarrow> fail_run env run (''model tool is not registered: '' @ tool)
         | Some connector \<Rightarrow>
             if tool \<noteq> acceptance_tool
             then fail_run env run (''model tool does not match acceptance_contract tool: '' @ tool)
             else let errors = env_validate_args env tool args in
             if errors \<noteq> []
             then fail_run env run (''invalid model connector args for '' @ tool @ '': '' @ py_str_json (errors_json errors))
             else propose_call env run model connector))))"

definition exec_acceptance_steps :: "OutwardRunRecord \<Rightarrow> tool_call list result" where
  "exec_acceptance_steps run =
     (case acceptance_tool_steps run of
        Inl (OutwardRunExecutionPlanError m) \<Rightarrow> Inl (OutwardRunExecutionValidationError m)
      | other \<Rightarrow> other)"

definition start_admitted :: "exec_env \<Rightarrow> OutwardRunRecord \<Rightarrow> (outward_db, OutwardRunRecord) eff" where
  "start_admitted env run =
     bind_eff (lift_result (exec_acceptance_steps run)) (\<lambda>steps.
       case steps of
         [] \<Rightarrow> lift_result (Inr run)
       | first_step # _ \<Rightarrow>
           let started = run\<lparr>or_status := ''running'', or_started_at := Some (str_or (or_started_at run) (env_now env 4)),
                 or_current_turn := 1\<rparr> in
           bind_eff (run_store_update started) (\<lambda>_.
           bind_eff (append_once env 5 (''run:'' @ or_run_id run @ '':0100:started'') ''run_started'' started 0
             [(''run_id'', JStr (or_run_id run)), (''status'', JStr ''running''), (''started_at'', json_opt_str (or_started_at started))]) (\<lambda>_.
           bind_eff (start_turn env started 1) (\<lambda>_.
           handle_model_tool_call env started first_step))))"

definition start_if_ready :: "exec_env \<Rightarrow> string \<Rightarrow> (outward_db, OutwardRunRecord) eff" where
  "start_if_ready env run_id =
     bind_eff (exec_require_run run_id) (\<lambda>run0.
     if or_status run0 \<noteq> ''queued'' then lift_result (Inr run0)
     else bind_eff (admit_if_required env run0) (\<lambda>(run, admitted).
       if \<not> admitted then lift_result (Inr run) else start_admitted env run))"

definition advance_to_next_turn ::
  "exec_env \<Rightarrow> OutwardRunRecord \<Rightarrow> string \<Rightarrow> string \<Rightarrow> tool_call list \<Rightarrow> (outward_db, OutwardRunRecord) eff" where
  "advance_to_next_turn env run tool proposal_id steps =
     bind_eff (complete_turn env run tool proposal_id ''success'' True) (\<lambda>_.
     let next_turn = or_current_turn run + 1 in
     if or_max_turns run < next_turn then fail_run env run ''max_turns exceeded before next governed step''
     else let advanced = run\<lparr>or_status := ''running'', or_current_turn := next_turn, or_pending_proposals := []\<rparr> in
     bind_eff (run_store_update advanced) (\<lambda>_.
     bind_eff (start_turn env advanced next_turn) (\<lambda>_.
     case current_step advanced steps of
       None \<Rightarrow> complete_terminal env advanced ''completed'' None ''success'' None
     | Some next_step \<Rightarrow> handle_model_tool_call env advanced next_step)))"

text \<open>The payload and the result of the connector call, with the two errors the service catches.\<close>

definition tool_outcome ::
  "exec_env \<Rightarrow> string \<Rightarrow> (string \<times> json) list \<Rightarrow> connector_outcome \<Rightarrow> (string \<times> json) list \<times> (string \<times> json) list" where
  "tool_outcome env tool args outcome =
     (case outcome of
        Invoked payload tool_result \<Rightarrow> (payload, tool_result)
      | InvalidArguments errors \<Rightarrow>
          (invalid_args_event_payload (env_sha256 env) tool args errors,
           [(''ok'', JBool False), (''error'', JStr ''invalid_args''), (''errors'', errors_json errors)])
      | ConnectorNotFound message \<Rightarrow>
          (failed_tool_event_payload (env_sha256 env) tool args message,
           [(''ok'', JBool False), (''error'', JStr message)]))"

definition run_governed_tool ::
  "exec_env \<Rightarrow> OutwardRunRecord \<Rightarrow> OutwardApprovalProposal \<Rightarrow> string \<Rightarrow> (string \<times> json) list \<Rightarrow> (outward_db, OutwardRunRecord) eff" where
  "run_governed_tool env run proposal proposal_id args =
     bind_eff (lift_result (env_invoke env (pr_tool proposal) args)) (\<lambda>invoked.
      case tool_outcome env (pr_tool proposal) args invoked of (payload, tool_result) \<Rightarrow>
      let outcome = (let v = json_get payload ''outcome'' in if json_truthy v then py_str_json v else ''failed'') in
      bind_eff (append_once env 6
        (step_event_id (or_run_id run) (or_current_turn run) 400 (''tool:'' @ pr_tool proposal @ '':'' @ proposal_suffix proposal_id))
        ''tool_invoked'' run (or_current_turn run) payload) (\<lambda>_.
      if outcome \<noteq> ''success'' then fail_run env run (failure_reason payload)
      else bind_eff (lift_result (exec_acceptance_steps run)) (\<lambda>steps.
        bind_eff (lift_result (task_with_tool_result run proposal_id (pr_tool proposal) tool_result)) (\<lambda>task.
        let run_with_result = run\<lparr>or_task := task\<rparr> in
        bind_eff (run_store_update run_with_result) (\<lambda>_.
        if is_last_step run steps then complete_run env run_with_result (pr_tool proposal) proposal_id
        else advance_to_next_turn env run_with_result (pr_tool proposal) proposal_id steps)))))"

definition require_proposal :: "exec_env \<Rightarrow> string \<Rightarrow> (outward_db, OutwardApprovalProposal) eff" where
  "require_proposal env proposal_id =
     bind_eff (get_approval (env_datetime env) (\<lambda>i. env_now env (100 + i)) proposal_id) (\<lambda>found.
       case found of
         None \<Rightarrow> lift_result (Inl (OutwardRunExecutionError
           (''Approval proposal '' @ [CHR 0x27] @ proposal_id @ [CHR 0x27] @ '' not found'')))
       | Some proposal \<Rightarrow> lift_result (Inr proposal))"

definition continue_after_approval :: "exec_env \<Rightarrow> string \<Rightarrow> (outward_db, OutwardRunRecord) eff" where
  "continue_after_approval env proposal_id =
     bind_eff (require_proposal env proposal_id) (\<lambda>proposal.
     bind_eff (exec_require_run (pr_run_id proposal)) (\<lambda>run.
     if or_status run \<in> {''completed'', ''failed''} then lift_result (Inr run)
     else if pr_status proposal \<noteq> ''approved'' then lift_result (Inr run)
     else case model_tool_call run of
       None \<Rightarrow> fail_run env run ''approved proposal has no recorded model governed tool call''
     | Some (tool, args) \<Rightarrow>
         if tool \<noteq> pr_tool proposal
         then fail_run env run (''approved proposal tool drifted from model tool: '' @ pr_tool proposal)
         else run_governed_tool env run proposal proposal_id args))"

definition continue_after_denial :: "exec_env \<Rightarrow> string \<Rightarrow> (outward_db, OutwardRunRecord) eff" where
  "continue_after_denial env proposal_id =
     bind_eff (require_proposal env proposal_id) (\<lambda>proposal.
     bind_eff (exec_require_run (pr_run_id proposal)) (\<lambda>run.
     if pr_status proposal \<noteq> ''denied'' then lift_result (Inr run)
     else if or_status run = ''completed'' then lift_result (Inr run)
     else bind_eff (complete_turn env run (pr_tool proposal) proposal_id ''denied'' False) (\<lambda>_.
       complete_terminal env run ''completed'' (pr_reason proposal) ''denied''
         (Some (str_or (pr_decided_at proposal) (env_now env 7))))))"

section \<open>The decision endpoints\<close>

text \<open>\<open>POST /approvals/{id}/approve\<close> and \<open>/deny\<close>, up to the rendering of the answer.\<close>

definition approve_outward_approval ::
  "exec_env \<Rightarrow> string \<Rightarrow> string option \<Rightarrow> string option \<Rightarrow> (outward_db, OutwardApprovalProposal) eff" where
  "approve_outward_approval env approval_id actor note =
     bind_eff (approve (env_now env 8) approval_id (str_or actor ''operator:unknown'') note) (\<lambda>resolved.
     bind_eff (continue_after_approval env (pr_proposal_id resolved)) (\<lambda>_. lift_result (Inr resolved)))"

definition deny_outward_approval ::
  "exec_env \<Rightarrow> string \<Rightarrow> string option \<Rightarrow> string \<Rightarrow> string option \<Rightarrow> (outward_db, OutwardApprovalProposal) eff" where
  "deny_outward_approval env approval_id actor reason note =
     bind_eff (deny (env_now env 8) approval_id (str_or actor ''operator:unknown'') reason note) (\<lambda>resolved.
     bind_eff (continue_after_denial env (pr_proposal_id resolved)) (\<lambda>_. lift_result (Inr resolved)))"

section \<open>The handlers keep the invariant and the history\<close>

named_theorems outward_keeps_intros \<open>operations that keep the invariant and the history\<close>

definition clock_ok :: "exec_env \<Rightarrow> bool" where
  "clock_ok env \<longleftrightarrow> (\<forall>k. py_strip (env_now env k) \<noteq> [])"

lemma outward_keeps_seq [outward_keeps_intros]:
  "outward_keeps db m \<Longrightarrow> (\<And>x db'. outward_keeps db' (f x)) \<Longrightarrow> outward_keeps db (bind_eff m f)"
  by (rule outward_keeps_bind)

lemmas outward_service_keeps [outward_keeps_intros] =
  run_store_update_keeps append_if_absent_keeps request_tool_approval_keeps outward_keeps_pure

lemma append_once_keeps [outward_keeps_intros]: "outward_keeps db (append_once env k event_id event_type run turn payload)"
  unfolding append_once_def by (rule append_if_absent_keeps)

lemma exec_require_run_keeps [outward_keeps_intros]: "outward_keeps db (exec_require_run run_id)"
  by (simp add: exec_require_run_def)

lemma terminal_keeps [outward_keeps_intros]:
  "outward_keeps db (fail_run env run reason)"
  "outward_keeps db (complete_terminal env run status stop_reason outcome completed_at)"
  "outward_keeps db (reject_handoff env run report path)"
  by (simp_all add: fail_run_def complete_terminal_def reject_handoff_def Let_def outward_keeps_intros)

lemma turn_keeps [outward_keeps_intros]:
  "outward_keeps db (complete_turn env run tool pid outcome commitment)" "outward_keeps db (start_turn env run turn)"
  by (simp_all add: complete_turn_def start_turn_def outward_keeps_intros)

lemma complete_run_keeps [outward_keeps_intros]: "outward_keeps db (complete_run env run tool pid)"
  by (simp add: complete_run_def outward_keeps_intros)

lemma admit_if_required_keeps [outward_keeps_intros]: "outward_keeps db (admit_if_required env run)"
  by (simp add: admit_if_required_def Let_def outward_keeps_intros)

lemma record_model_proposal_event_keeps [outward_keeps_intros]:
  "outward_keeps db (record_model_proposal_event env run tool model pii)"
  by (simp add: record_model_proposal_event_def Let_def outward_keeps_intros)

lemma policy_reject_keeps [outward_keeps_intros]: "outward_keeps db (policy_reject env run tool model pii reason)"
  by (simp add: policy_reject_def Let_def outward_keeps_intros)

lemma propose_call_keeps [outward_keeps_intros]: "outward_keeps db (propose_call env run model connector)"
  by (auto simp: propose_call_def Let_def intro!: outward_keeps_intros split: option.split)

lemma handle_model_tool_call_keeps [outward_keeps_intros]: "outward_keeps db (handle_model_tool_call env run step)"
  by (auto simp: handle_model_tool_call_def Let_def intro!: outward_keeps_intros split: option.split sum.split prod.split)

lemma advance_to_next_turn_keeps [outward_keeps_intros]: "outward_keeps db (advance_to_next_turn env run tool pid steps)"
  by (auto simp: advance_to_next_turn_def Let_def intro!: outward_keeps_intros split: option.split)

lemma start_if_ready_keeps: "outward_keeps db (start_if_ready env run_id)"
  by (auto simp: start_if_ready_def start_admitted_def Let_def intro!: outward_keeps_intros split: list.split prod.split)

lemma run_governed_tool_keeps [outward_keeps_intros]: "outward_keeps db (run_governed_tool env run p pid args)"
  by (auto simp: run_governed_tool_def Let_def intro!: outward_keeps_intros split: prod.split)

lemma require_proposal_keeps [outward_keeps_intros]: "clock_ok env \<Longrightarrow> outward_keeps db (require_proposal env pid)"
  by (auto simp: require_proposal_def clock_ok_def intro!: outward_keeps_intros get_approval_keeps split: option.split)

lemma continue_after_approval_keeps [outward_keeps_intros]:
  "clock_ok env \<Longrightarrow> outward_keeps db (continue_after_approval env pid)"
  by (auto simp: continue_after_approval_def intro!: outward_keeps_intros split: option.split)

lemma continue_after_denial_keeps [outward_keeps_intros]:
  "clock_ok env \<Longrightarrow> outward_keeps db (continue_after_denial env pid)"
  by (auto simp: continue_after_denial_def intro!: outward_keeps_intros)

lemma approve_outward_approval_keeps: "clock_ok env \<Longrightarrow> outward_keeps db (approve_outward_approval env pid actor note)"
  by (auto simp: approve_outward_approval_def clock_ok_def intro!: outward_keeps_intros approve_keeps)

lemma deny_outward_approval_keeps: "clock_ok env \<Longrightarrow> outward_keeps db (deny_outward_approval env pid actor reason note)"
  by (auto simp: deny_outward_approval_def clock_ok_def intro!: outward_keeps_intros deny_keeps)

section \<open>Histories of the outward system\<close>

text \<open>One request served to its end: a submission, a start, a decision, a listing, a lookup, an export, a verification.\<close>

inductive outward_step :: "outward_db \<Rightarrow> outward_db \<Rightarrow> bool" where
  submitted: "outward_step db (snd (submit fresh now payload db))"
| started: "outward_step db (snd (start_if_ready env run_id db))"
| approved: "clock_ok env \<Longrightarrow> outward_step db (snd (approve_outward_approval env pid actor note db))"
| denied: "clock_ok env \<Longrightarrow> outward_step db (snd (deny_outward_approval env pid actor reason note db))"
| listed: "clock_ok env \<Longrightarrow> outward_step db (snd (list_pending (env_datetime env) (env_now env) status run_id limit db))"
| looked_up: "clock_ok env \<Longrightarrow> outward_step db (snd (get_approval (env_datetime env) (env_now env) pid db))"
| exported: "outward_step db (snd (export_ledger sha256 now run_id types pii operator_ref rec db))"
| verified: "outward_step db (snd (verify_run sha256 now run_id db))"

lemma outward_step_keeps:
  assumes "outward_step db db'" and "outward_inv db"
  shows "outward_inv db' \<and> keeps_history db db'"
  using assms
  by (cases rule: outward_step.cases)
    (use submit_keeps start_if_ready_keeps approve_outward_approval_keeps deny_outward_approval_keeps list_pending_keeps
      get_approval_keeps export_ledger_keeps verify_run_keeps in \<open>simp_all add: outward_keeps_def clock_ok_def\<close>)

lemma outward_steps_keep:
  assumes "outward_step\<^sup>*\<^sup>* db db'" and "outward_inv db"
  shows "outward_inv db' \<and> keeps_history db db'"
  using assms by (induction rule: rtranclp_induct) (auto dest: outward_step_keeps intro: keeps_history_trans)

section \<open>The turn budget\<close>

definition turn_ok :: "OutwardRunRecord \<Rightarrow> bool" where
  "turn_ok r \<longleftrightarrow> 0 \<le> or_current_turn r \<and> or_current_turn r \<le> or_max_turns r \<and> 1 \<le> or_max_turns r"

definition runs_bounded :: "outward_db \<Rightarrow> bool" where
  "runs_bounded db = list_all turn_ok (outward_runs db)"

text \<open>An operation that keeps the turns of all runs within their budget and answers with a \<open>Q\<close>.\<close>

definition turn_at :: "outward_db \<Rightarrow> (outward_db, 'a) eff \<Rightarrow> ('a \<Rightarrow> bool) \<Rightarrow> bool" where
  "turn_at db m Q \<longleftrightarrow> (runs_bounded db \<longrightarrow> runs_bounded (snd (m db)) \<and> (\<forall>x. fst (m db) = Inr x \<longrightarrow> Q x))"

named_theorems turn_intros \<open>operations that keep the turn budget\<close>

lemma turn_at_seq:
  assumes "turn_at db m Q" and "\<And>x db'. Q x \<Longrightarrow> turn_at db' (f x) R"
  shows "turn_at db (bind_eff m f) R"
proof (cases "m db")
  case (Pair r db')
  then show ?thesis using assms by (cases r) (auto simp: turn_at_def bind_eff_def)
qed

lemma turn_at_then [turn_intros]:
  "turn_at db m (\<lambda>_. True) \<Longrightarrow> (\<And>x db'. turn_at db' (f x) R) \<Longrightarrow> turn_at db (bind_eff m f) R"
  by (rule turn_at_seq)

lemma turn_at_lift: "(\<And>x. r = Inr x \<Longrightarrow> Q x) \<Longrightarrow> turn_at db (lift_result r) Q"
  by (simp add: turn_at_def lift_result_def)

lemma turn_at_pure [turn_intros]: "turn_at db (lift_result r) (\<lambda>_. True)" "turn_at db (read_eff f) (\<lambda>_. True)"
  by (simp_all add: turn_at_def lift_result_def read_eff_def)

lemma turn_at_eq: "m db = m' db \<Longrightarrow> turn_at db m' Q \<Longrightarrow> turn_at db m Q"
  by (simp add: turn_at_def)

lemma turn_ok_row [simp]: "turn_ok (run_row r) = turn_ok r"
  by (simp add: turn_ok_def run_row_def)

lemma turn_ok_update [simp]:
  "turn_ok (r\<lparr>or_status := a\<rparr>) = turn_ok r" "turn_ok (r\<lparr>or_pending_proposals := b\<rparr>) = turn_ok r"
  "turn_ok (r\<lparr>or_completed_at := c\<rparr>) = turn_ok r" "turn_ok (r\<lparr>or_stop_reason := d\<rparr>) = turn_ok r"
  "turn_ok (r\<lparr>or_task := e\<rparr>) = turn_ok r" "turn_ok (run_after_decision p r) = turn_ok r"
  by (simp_all add: turn_ok_def run_after_decision_def)

lemma run_store_update_turns [turn_intros]: "turn_ok r \<Longrightarrow> turn_at db (run_store_update r) (\<lambda>_. True)"
  by (auto simp: turn_at_def run_store_update_def runs_bounded_def update_where_def list_all_iff)

lemma append_if_absent_turns [turn_intros]: "turn_at db (append_if_absent e) (\<lambda>_. True)"
  using append_if_absent_frame(1) [of e db] by (cases "append_if_absent e db") (simp add: turn_at_def runs_bounded_def)

lemma append_once_turns [turn_intros]: "turn_at db (append_once env k i t r n p) (\<lambda>_. True)"
  unfolding append_once_def by (rule turn_intros)

lemma append_proposal_event_turns [turn_intros]: "turn_at db (append_proposal_event t p payload) (\<lambda>_. True)"
  by (rule turn_at_eq [OF append_proposal_event_def]) (rule turn_intros)

lemma stored_run_turn_ok: "runs_bounded db \<Longrightarrow> stored_run db k = Some r \<Longrightarrow> turn_ok r"
  using runs.sel_Some [of k "outward_runs db" r] by (simp add: runs_bounded_def list_all_iff)

lemma require_run_turns:
  "turn_at db (exec_require_run rid) turn_ok" "turn_at db (approval_require_run rid) turn_ok"
  by (auto simp: turn_at_def exec_require_run_def approval_require_run_def read_eff_def run_store_get_def
      dest: stored_run_turn_ok split: option.splits)

lemma approval_store_save_turns [turn_intros]: "turn_at db (approval_store_save p) (\<lambda>_. True)"
  by (simp add: turn_at_def approval_store_save_def runs_bounded_def)

lemma save_proposal_turns [turn_intros]: "turn_ok run \<Longrightarrow> turn_at db (save_proposal run p) (\<lambda>_. True)"
proof (cases "approval_store_get (pr_proposal_id p) db")
  case None
  assume "turn_ok run"
  then have "turn_at db (bind_eff (approval_store_save p) (\<lambda>saved.
      bind_eff (run_store_update (run\<lparr>or_status := ''approval_required'', or_pending_proposals := [to_queue_payload saved]\<rparr>)) (\<lambda>_.
      bind_eff (append_proposal_event ''proposal_pending_approval'' saved (to_queue_payload saved)) (\<lambda>_. lift_result (Inr saved)))))
      (\<lambda>_. True)"
    by (intro turn_intros) simp_all
  then show ?thesis by (simp add: turn_at_def save_proposal_def None)
qed (simp add: turn_at_def save_proposal_def)

lemma request_tool_approval_turns [turn_intros]:
  "turn_at db (request_tool_approval reg dt now now' rid tool args c n) (\<lambda>_. True)"
  unfolding request_tool_approval_def
  by (rule turn_at_seq [OF require_run_turns(2)]) (auto intro!: turn_intros split: option.split)

lemma decide_proposal_turns [turn_intros]:
  "turn_at db (decide_proposal now pid status decision operator_ref reason note event_type) (\<lambda>_. True)"
proof (cases "approval_store_get pid db")
  case None
  then show ?thesis by (simp add: turn_at_def decide_proposal_def)
next
  case (Some p)
  let ?d = "decided_proposal now status decision operator_ref reason note p"
  have "turn_at db (bind_eff (approval_store_save ?d) (\<lambda>saved.
      bind_eff (approval_require_run (pr_run_id saved)) (\<lambda>run.
      bind_eff (run_store_update (run_after_decision saved run)) (\<lambda>_.
      bind_eff (append_proposal_event event_type saved (to_decision_payload saved)) (\<lambda>_. lift_result (Inr saved)))))) (\<lambda>_. True)"
    by (intro turn_at_then [OF approval_store_save_turns] turn_at_seq [OF require_run_turns(2)]) (auto intro!: turn_intros)
  then show ?thesis by (simp add: turn_at_def decide_proposal_def Some)
qed

lemma expire_loop_turns: "turn_at db (expire_loop dt now i ps) (\<lambda>_. True)"
  by (induction ps arbitrary: i db) (auto intro!: turn_intros)

lemma get_approval_turns [turn_intros]:
  "turn_at db (get_approval dt now pid) (\<lambda>_. True)" "turn_at db (list_pending dt now status rid limit) (\<lambda>_. True)"
proof -
  have "turn_at d (expire_due dt now) (\<lambda>_. True)" for d by (rule turn_at_eq [OF expire_due_def]) (rule expire_loop_turns)
  then show "turn_at db (get_approval dt now pid) (\<lambda>_. True)" "turn_at db (list_pending dt now status rid limit) (\<lambda>_. True)"
    by (auto simp: get_approval_def list_pending_def intro!: turn_intros)
qed

lemma terminal_turns [turn_intros]:
  "turn_ok run \<Longrightarrow> turn_at db (fail_run env run reason) (\<lambda>_. True)"
  "turn_ok run \<Longrightarrow> turn_at db (complete_terminal env run status stop_reason outcome completed_at) (\<lambda>_. True)"
  "turn_ok run \<Longrightarrow> turn_at db (reject_handoff env run report path) (\<lambda>_. True)"
  by (auto simp: fail_run_def complete_terminal_def reject_handoff_def Let_def intro!: turn_intros)

lemma turn_turns [turn_intros]:
  "turn_at db (complete_turn env run tool pid outcome commitment) (\<lambda>_. True)" "turn_at db (start_turn env run turn) (\<lambda>_. True)"
  by (auto simp: complete_turn_def start_turn_def intro!: turn_intros)

lemma complete_run_turns [turn_intros]: "turn_ok run \<Longrightarrow> turn_at db (complete_run env run tool pid) (\<lambda>_. True)"
  by (auto simp: complete_run_def intro!: turn_intros)

lemma admit_if_required_turns:
  "turn_ok run \<Longrightarrow> turn_at db (admit_if_required env run) (\<lambda>(r, admitted). admitted \<longrightarrow> turn_ok r)"
  by (auto simp: admit_if_required_def Let_def intro!: turn_at_then turn_at_lift terminal_turns turn_at_pure append_once_turns)

lemma record_model_proposal_event_turns:
  "turn_ok run \<Longrightarrow> turn_at db (record_model_proposal_event env run tool model pii) turn_ok"
  by (auto simp: record_model_proposal_event_def Let_def intro!: turn_at_then turn_at_lift turn_at_pure append_once_turns run_store_update_turns)

lemma policy_reject_turns [turn_intros]: "turn_ok run \<Longrightarrow> turn_at db (policy_reject env run tool model pii reason) (\<lambda>_. True)"
  by (auto simp: policy_reject_def Let_def intro!: turn_intros)

lemma propose_call_turns [turn_intros]: "turn_ok run \<Longrightarrow> turn_at db (propose_call env run model connector) (\<lambda>_. True)"
  unfolding propose_call_def Let_def
  by (rule turn_at_seq [OF record_model_proposal_event_turns]) (auto intro!: turn_intros split: option.split)

lemma handle_model_tool_call_turns [turn_intros]: "turn_ok run \<Longrightarrow> turn_at db (handle_model_tool_call env run step) (\<lambda>_. True)"
  by (auto simp: handle_model_tool_call_def Let_def intro!: turn_intros split: option.split sum.split prod.split)

lemma advance_to_next_turn_turns [turn_intros]: "turn_ok run \<Longrightarrow> turn_at db (advance_to_next_turn env run tool pid steps) (\<lambda>_. True)"
proof -
  assume "turn_ok run"
  moreover have "turn_ok (run\<lparr>or_status := a, or_current_turn := or_current_turn run + 1, or_pending_proposals := b\<rparr>)"
    if "\<not> or_max_turns run < or_current_turn run + 1" for a b using that \<open>turn_ok run\<close> by (simp add: turn_ok_def)
  ultimately show ?thesis
    by (auto simp: advance_to_next_turn_def Let_def intro!: turn_intros split: option.split)
qed

lemma start_admitted_turns [turn_intros]: "turn_ok run \<Longrightarrow> turn_at db (start_admitted env run) (\<lambda>_. True)"
proof -
  assume "turn_ok run"
  then have "turn_ok (run\<lparr>or_status := a, or_started_at := b, or_current_turn := 1\<rparr>)" for a b by (simp add: turn_ok_def)
  then show ?thesis by (auto simp: start_admitted_def Let_def intro!: turn_intros split: list.split)
qed

lemma start_if_ready_turns: "turn_at db (start_if_ready env run_id) (\<lambda>_. True)"
  unfolding start_if_ready_def
  by (rule turn_at_seq [OF require_run_turns(1)])
    (auto intro!: turn_intros turn_at_seq [OF admit_if_required_turns])

lemma run_governed_tool_turns [turn_intros]: "turn_ok run \<Longrightarrow> turn_at db (run_governed_tool env run p pid args) (\<lambda>_. True)"
  by (auto simp: run_governed_tool_def Let_def intro!: turn_intros split: prod.split)

lemma require_proposal_turns [turn_intros]: "turn_at db (require_proposal env pid) (\<lambda>_. True)"
  by (auto simp: require_proposal_def intro!: turn_intros split: option.split)

lemma continue_after_approval_turns [turn_intros]: "turn_at db (continue_after_approval env pid) (\<lambda>_. True)"
  unfolding continue_after_approval_def
  by (rule turn_at_then [OF require_proposal_turns], rule turn_at_seq [OF require_run_turns(1)])
    (auto intro!: turn_intros split: option.split)

lemma continue_after_denial_turns [turn_intros]: "turn_at db (continue_after_denial env pid) (\<lambda>_. True)"
  unfolding continue_after_denial_def
  by (rule turn_at_then [OF require_proposal_turns], rule turn_at_seq [OF require_run_turns(1)])
    (auto intro!: turn_intros)

lemma decision_turns:
  "turn_at db (approve_outward_approval env pid actor note) (\<lambda>_. True)"
  "turn_at db (deny_outward_approval env pid actor reason note) (\<lambda>_. True)"
  by (auto simp: approve_outward_approval_def deny_outward_approval_def approve_def deny_def Let_def intro!: turn_intros)

lemma normalized_max_turns:
  assumes "normalize_submission payload = Inr n"
  shows "1 \<le> sub_max_turns n"
proof -
  obtain raw where raw: "normalize_policy_overrides raw = Inr (sub_policy_overrides n)"
    and m: "sub_max_turns n = (case map_of (sub_policy_overrides n) ''max_turns'' of Some (JInt i) \<Rightarrow> i | _ \<Rightarrow> 20)"
    using assms by (auto simp: normalize_submission_def Let_def bind_result_Inr_iff split: json.splits if_splits)
  have pos: "1 \<le> i" if "positive_int v f = Inr i" for v f i
    using that by (auto simp: positive_int_def Let_def split: json.splits sum.splits if_splits)
  have field: "kvs = [] \<or> (\<exists>w v. kvs = [(f, w)] \<and> g v = Inr w)" if "override_field r f g = Inr kvs" for r f g kvs
    using that by (auto simp: override_field_def bind_result_Inr_iff split: option.splits)
  obtain r tools turns timeout where ov: "override_field r ''approval_required_tools'' normalize_tools = Inr tools"
      "override_field r ''max_turns'' (\<lambda>v. bind_result (positive_int v ''policy_overrides.max_turns'') (\<lambda>i. Inr (JInt i))) = Inr turns"
      "override_field r ''approval_timeout_seconds'' (\<lambda>v.
        bind_result (positive_int v ''policy_overrides.approval_timeout_seconds'') (\<lambda>i. Inr (JInt i))) = Inr timeout"
    and kvs: "sub_policy_overrides n = tools @ turns @ timeout"
    using raw unfolding normalize_policy_overrides_def bind_result_Inr_iff by auto
  have t: "tools = [] \<or> (\<exists>w. tools = [(''approval_required_tools'', w)])"
    "timeout = [] \<or> (\<exists>w. timeout = [(''approval_timeout_seconds'', w)])"
    "turns = [] \<or> (\<exists>i. turns = [(''max_turns'', JInt i)] \<and> 1 \<le> i)"
    using field [OF ov(1)] field [OF ov(2)] field [OF ov(3)] pos by (auto simp: bind_result_Inr_iff)
  show ?thesis using t by (auto simp: m kvs)
qed

lemma submit_turns: "turn_at db (submit fresh now payload) (\<lambda>_. True)"
proof (cases "normalize_submission payload")
  case (Inl e)
  then show ?thesis by (simp add: turn_at_def submit_def)
next
  case (Inr n)
  have e: "turn_at d (bind_eff (ensure_initial_event r) (\<lambda>_. lift_result (Inr r))) (\<lambda>_. True)" for d r
    unfolding ensure_initial_event_def by (intro turn_intros)
  have "turn_at db (run_store_create r) (\<lambda>_. True)" if "turn_ok r" for r
    using that by (auto simp: turn_at_def run_store_create_def runs_bounded_def)
  then have c: "turn_at db (bind_eff (run_store_create r) (\<lambda>r. bind_eff (ensure_initial_event r) (\<lambda>_. lift_result (Inr r)))) (\<lambda>_. True)"
    if "or_current_turn r = 0" "or_max_turns r = sub_max_turns n" for r
    using that normalized_max_turns [OF Inr] by (intro turn_at_then e) (simp add: turn_ok_def)
  show ?thesis
    unfolding submit_def Inr turn_at_def bind_eff_lift_result Let_def
    using e [of db, unfolded turn_at_def] c [unfolded turn_at_def] by (auto split: option.split)
qed

lemma export_turns [turn_intros]: "turn_at db (export_ledger sha256 now run_id types pii operator_ref rec) (\<lambda>_. True)"
proof -
  have hashes: "turn_at d (\<lambda>d. case ensure_hashes sha256 g 1 (es d) d of (hs, d') \<Rightarrow> (Inr (f hs), d')) (\<lambda>_. True)" for d g es f
    using ensure_hashes_unhashed by (fastforce simp: turn_at_def runs_bounded_def split: prod.split)
  have "turn_at d (event_store_append e) (\<lambda>_. True)" for d e
    by (auto simp: turn_at_def event_store_append_def runs_bounded_def split: sum.split)
  then have "turn_at d (record_export_requested now run groups scope pii operator_ref) (\<lambda>_. True)" for d run groups scope
    by (intro turn_at_eq [OF record_export_requested_def])
  then show ?thesis unfolding export_ledger_def by (intro turn_at_then hashes turn_at_pure) (auto intro!: turn_intros)
qed

lemma verify_run_turns: "turn_at db (verify_run sha256 now run_id) (\<lambda>_. True)"
  unfolding verify_run_def by (intro turn_intros)

lemma outward_step_turns: "outward_step db db' \<Longrightarrow> runs_bounded db \<Longrightarrow> runs_bounded db'"
  by (cases rule: outward_step.cases, assumption)
    (use submit_turns start_if_ready_turns decision_turns get_approval_turns export_turns verify_run_turns in
      \<open>simp_all add: turn_at_def\<close>)

section \<open>What the outward system promises\<close>

text \<open>
  C34: an approval decision is final and the ledger only grows: once a proposal is approved, denied or
  expired, no sequence of requests changes it any more, and an event once in the ledger stays there
  with its content.
\<close>

theorem outward_history_is_permanent:
  assumes "outward_step\<^sup>*\<^sup>* db db'" and "outward_inv db"
  shows "(stored_proposal db k = Some p \<and> pr_status p \<noteq> ''pending'' \<longrightarrow> stored_proposal db' k = Some p) \<and>
    (stored_event db i = Some e \<longrightarrow> (\<exists>e'. stored_event db' i = Some e' \<and> unhashed e' = unhashed e))"
  using outward_steps_keep [OF assms] unfolding keeps_history_def by blast

text \<open>
  C35: what the approval table holds is well formed after every history: a pending proposal has no
  decision fields; an approved one has an operator and no reason; a denied one has an operator and a
  reason; an expired one carries the timeout operator and reason; the run of a proposal exists; and a
  decided proposal has its decision event in the ledger.
\<close>

theorem outward_proposals_well_formed:
  assumes "outward_step\<^sup>*\<^sup>* empty_outward_db db" and "stored_proposal db k = Some p"
  shows "proposal_ok p \<and> stored_run db (pr_run_id p) \<noteq> None \<and>
    (pr_status p \<noteq> ''pending'' \<longrightarrow> stored_event db (k @ '':0002:proposal_'' @ pr_status p) \<noteq> None)"
proof -
  have inv: "outward_inv db" using outward_steps_keep [OF assms(1) service_demo_inv(2)] by simp
  note p = outward_invD(3) [OF inv assms(2)]
  have "pr_status p \<noteq> ''pending'' \<Longrightarrow> pr_status p \<in> {''approved'', ''denied'', ''expired''}" using p by (auto simp: proposal_ok_def)
  then show ?thesis using p by (auto simp: decision_recorded_def proposal_event_id_def event_order_def)
qed

text \<open>
  C36: a run stays within its turn budget: after every history, the current turn of every run lies
  between 0 and its maximum, which is at least 1.
\<close>

theorem outward_turn_budget:
  assumes "outward_step\<^sup>*\<^sup>* empty_outward_db db" and "stored_run db k = Some r"
  shows "0 \<le> or_current_turn r \<and> or_current_turn r \<le> or_max_turns r \<and> 1 \<le> or_max_turns r"
proof -
  have "runs_bounded db" using assms(1)
    by (induction rule: rtranclp_induct) (auto simp: empty_outward_db_def runs_bounded_def dest: outward_step_turns)
  then show ?thesis using stored_run_turn_ok [OF _ assms(2)] by (simp add: turn_ok_def)
qed

text \<open>
  Nothing runs for a proposal that is not approved: when the lookup that starts a continuation
  finds the proposal in any other state, the store is left exactly as the lookup left it, and no
  connector is invoked.
\<close>

theorem no_execution_without_approval:
  assumes "get_approval (env_datetime env) (\<lambda>i. env_now env (100 + i)) pid db = (Inr (Some p), db1)"
    and "pr_status p \<noteq> ''approved''"
  shows "snd (continue_after_approval env pid db) = db1 \<and>
    continue_after_approval (env\<lparr>env_invoke := f\<rparr>) pid db = continue_after_approval env pid db"
proof -
  have "continue_after_approval e pid db = bind_eff (exec_require_run (pr_run_id p)) (\<lambda>run. lift_result (Inr run)) db1"
    if "env_datetime e = env_datetime env" "env_now e = env_now env" for e
    using assms that by (simp add: continue_after_approval_def require_proposal_def bind_eff_def lift_result_def split: sum.split prod.split)
  moreover have "snd (bind_eff (exec_require_run rid) (\<lambda>run. lift_result (Inr run)) db1) = db1" for rid
    by (simp add: bind_eff_def exec_require_run_def read_eff_def lift_result_def split: sum.split)
  ultimately show ?thesis by simp
qed

section \<open>An approved proposal approved again\<close>

text \<open>
  The continuation of an approved proposal runs the latest recorded model call of its run, provided
  the tool has the same name: it does not check that this is the call the proposal was made for.
\<close>

lemma approved_again_runs_latest_call:
  assumes "stored_proposal db pid = Some p" and "pr_status p = ''approved''" and "pr_proposal_id p = pid"
    and "expire_due (env_datetime env) (\<lambda>i. env_now env (100 + i)) db = (Inr [], db)"
    and "stored_run db (py_strip (pr_run_id p)) = Some run" and "or_status run \<notin> {''completed'', ''failed''}"
    and "model_tool_call run = Some (pr_tool p, args)"
  shows "approve_outward_approval env pid actor note db =
    bind_eff (run_governed_tool env run p pid args) (\<lambda>_. lift_result (Inr p)) db"
proof -
  have "approve now pid operator_ref note db = (Inr p, db)" for now operator_ref
    using assms(1,2) by (simp add: approve_def decide_proposal_def approval_store_get_def)
  moreover have "continue_after_approval env pid db = run_governed_tool env run p pid args db"
    using assms by (simp add: continue_after_approval_def require_proposal_def get_approval_def bind_eff_def read_eff_def
        lift_result_def approval_store_get_def exec_require_run_def run_store_get_def)
  ultimately show ?thesis using assms(3) by (simp add: approve_outward_approval_def bind_eff_def)
qed

definition exec_demo_env :: exec_env where
  "exec_demo_env =
     \<lparr>env_registry = [(''w'', \<lparr>bc_name = ''w'', bc_description = [], bc_args_schema = [], bc_risk_level = ''write'',
        bc_pii_fields = [], bc_timeout_seconds = 30\<rparr>)],
      env_datetime = service_demo_datetime, env_sha256 = (\<lambda>_. ''h''), env_now = (\<lambda>_. ''t''),
      env_produce = (\<lambda>run tool. Inr (Inr \<lparr>mr_tool_call = (tool, [(''n'', JInt (or_current_turn run))]), mr_invocation = []\<rparr>)),
      env_validate_args = (\<lambda>_ _. []), env_validate_policy = (\<lambda>_ _. None),
      env_invoke = (\<lambda>tool args. Inr (Invoked [(''outcome'', JStr ''success''), (''args'', JObj args)] [(''ok'', JBool True)])),
      env_record_extraction = (\<lambda>_ _ _ _. Inr ()), env_verify_handoff = (\<lambda>_ _ _ _. Inr [])\<rparr>"

text \<open>A run at its second and last step: the first proposal is approved, the second awaits a decision.\<close>

definition exec_demo_run :: OutwardRunRecord where
  "exec_demo_run = \<lparr>or_run_id = ''r'', or_status = ''approval_required'', or_namespace = ''n'', or_submitted_at = ''t'',
     or_current_turn = 2, or_max_turns = 20,
     or_task =
       [(''_outward_execution_state'', JObj
          [(''model_tool_calls'', JArr [JObj [(''args'', JObj [(''n'', JInt 2)]), (''tool'', JStr ''w'')]]), (''step_index'', JInt 1)]),
        (''acceptance_contract'', JObj [(''governed_tool_sequence'', JArr
          [JObj [(''args'', JObj []), (''tool'', JStr ''w'')], JObj [(''args'', JObj []), (''tool'', JStr ''w'')]])])],
     or_policy_overrides = [], or_pending_proposals = [], or_started_at = None, or_completed_at = None, or_stop_reason = None\<rparr>"

definition exec_demo_proposal :: "string \<Rightarrow> string \<Rightarrow> OutwardApprovalProposal" where
  "exec_demo_proposal pid status =
     (if status = ''pending'' then service_demo_proposal\<lparr>pr_proposal_id := pid, pr_run_id := ''r'', pr_tool := ''w'', pr_expires_at := ''ttt''\<rparr>
      else service_demo_proposal\<lparr>pr_proposal_id := pid, pr_run_id := ''r'', pr_tool := ''w'', pr_status := status,
        pr_decision := Some ''approve'', pr_operator_ref := Some ''op'', pr_decided_at := Some ''t''\<rparr>)"

definition exec_demo_db :: outward_db where
  "exec_demo_db =
     \<lparr>outward_runs = [exec_demo_run],
      run_events = [\<lparr>le_event_id = ''p1:0002:proposal_approved'', le_event_type = ''proposal_approved'', le_run_id = ''r'',
        le_turn = Some 1, le_agent_id = None, le_at = ''t'', le_payload = [], le_event_hash = None, le_chain_hash = None\<rparr>],
      outward_approval_proposals = [exec_demo_proposal ''p1'' ''approved'', exec_demo_proposal ''p2'' ''pending'']\<rparr>"

lemma exec_demo_inv: "outward_inv exec_demo_db"
  by code_simp

lemma exec_demo_clock: "clock_ok exec_demo_env"
  by (simp add: clock_ok_def exec_demo_env_def py_strip_def py_isspace_def)

text \<open>
  approving the first proposal once more invokes the connector with the arguments of the second step,
  whose own proposal is still pending, and completes the run.
\<close>

theorem second_approval_bypasses_pending_proposal:
  "case approve_outward_approval exec_demo_env ''p1'' None None exec_demo_db of (res, db') \<Rightarrow>
     map (\<lambda>p. (pr_proposal_id p, pr_status p)) (outward_approval_proposals db') = [(''p1'', ''approved''), (''p2'', ''pending'')] \<and>
     map or_status (outward_runs db') = [''completed''] \<and>
     (\<exists>e \<in> set (run_events db'). le_event_type e = ''tool_invoked'' \<and> json_get (le_payload e) ''args'' = JObj [(''n'', JInt 2)])"
  by code_simp

section \<open>Witnesses\<close>

theorem outward_history_is_permanent_witness:
  "\<exists>db'. outward_step\<^sup>*\<^sup>* exec_demo_db db' \<and> stored_proposal db' ''p1'' = Some (exec_demo_proposal ''p1'' ''approved'') \<and>
    (\<exists>e. stored_event db' ''p1:0002:proposal_approved'' = Some e)"
proof -
  let ?db' = "snd (deny_outward_approval exec_demo_env ''p2'' None ''no'' None exec_demo_db)"
  have step: "outward_step\<^sup>*\<^sup>* exec_demo_db ?db'" using outward_step.denied [OF exec_demo_clock] by blast
  have p: "stored_proposal exec_demo_db ''p1'' = Some (exec_demo_proposal ''p1'' ''approved'')"
    "pr_status (exec_demo_proposal ''p1'' ''approved'') \<noteq> ''pending''"
    "stored_event exec_demo_db ''p1:0002:proposal_approved'' = Some (hd (run_events exec_demo_db))" by code_simp+
  from outward_history_is_permanent [OF step exec_demo_inv, of "''p1''" "exec_demo_proposal ''p1'' ''approved''"
      "''p1:0002:proposal_approved''" "hd (run_events exec_demo_db)"] p step show ?thesis by blast
qed

definition exec_demo_payload :: "(string \<times> json) list" where
  "exec_demo_payload =
     [(''run_id'', JStr ''r''),
      (''task'', JObj [(''description'', JStr ''d''), (''instruction'', JStr ''i''),
        (''acceptance_contract'', JObj [(''governed_tool_call'', JObj [(''tool'', JStr ''w''), (''args'', JObj [])])])]),
      (''policy_overrides'', JObj [(''approval_required_tools'', JArr [JStr ''w''])])]"

definition exec_demo_submitted :: outward_db where
  "exec_demo_submitted = snd (submit [] ''t'' exec_demo_payload empty_outward_db)"

definition exec_demo_started :: outward_db where
  "exec_demo_started = snd (start_if_ready exec_demo_env ''r'' exec_demo_submitted)"

lemma exec_demo_reached:
  "outward_step\<^sup>*\<^sup>* empty_outward_db exec_demo_submitted" "outward_step\<^sup>*\<^sup>* empty_outward_db exec_demo_started"
proof -
  show 1: "outward_step\<^sup>*\<^sup>* empty_outward_db exec_demo_submitted"
    unfolding exec_demo_submitted_def using outward_step.submitted by blast
  show "outward_step\<^sup>*\<^sup>* empty_outward_db exec_demo_started"
    unfolding exec_demo_started_def using 1 outward_step.started by (rule rtranclp.rtrancl_into_rtrancl)
qed

theorem outward_proposals_well_formed_witness:
  "\<exists>p. stored_proposal exec_demo_started ''proposal:r:w:0001'' = Some p \<and> proposal_ok p \<and> stored_run exec_demo_started (pr_run_id p) \<noteq> None"
proof -
  have "stored_proposal exec_demo_started ''proposal:r:w:0001'' \<noteq> None" by code_simp
  then obtain p where p: "stored_proposal exec_demo_started ''proposal:r:w:0001'' = Some p" by blast
  from outward_proposals_well_formed [OF exec_demo_reached(2) p] p show ?thesis by blast
qed

theorem outward_turn_budget_witness:
  "\<exists>r. stored_run exec_demo_submitted ''r'' = Some r \<and> or_current_turn r \<le> or_max_turns r"
proof -
  have "stored_run exec_demo_submitted ''r'' \<noteq> None" by code_simp
  then obtain r where r: "stored_run exec_demo_submitted ''r'' = Some r" by blast
  from outward_turn_budget [OF exec_demo_reached(1) r] r show ?thesis by blast
qed

theorem no_execution_without_approval_witness:
  "snd (continue_after_approval exec_demo_env ''p2'' (exec_demo_db\<lparr>outward_approval_proposals :=
      [exec_demo_proposal ''p2'' ''pending'']\<rparr>)) = exec_demo_db\<lparr>outward_approval_proposals := [exec_demo_proposal ''p2'' ''pending'']\<rparr>"
proof -
  let ?db = "exec_demo_db\<lparr>outward_approval_proposals := [exec_demo_proposal ''p2'' ''pending'']\<rparr>"
  have g: "get_approval (env_datetime exec_demo_env) (\<lambda>i. env_now exec_demo_env (100 + i)) ''p2'' ?db =
      (Inr (Some (exec_demo_proposal ''p2'' ''pending'')), ?db)" "pr_status (exec_demo_proposal ''p2'' ''pending'') \<noteq> ''approved''"
    by code_simp+
  from no_execution_without_approval [OF g] show ?thesis by blast
qed

end
