(* ===== verification/Kernel_Policy.thy ===== *)
theory Kernel_Policy
  imports Outward_Ledger Instants "HOL-Library.AList" "HOL-Library.Sublist"
begin

text \<open>
  The pure part of the action kernel (\<open>orket/kernel/v1\<close>): digests of canonical JSON (\<open>canonical.py\<close>),
  the order of reason codes (\<open>nervous_system_contract.py\<close>), the detectors of secrets
  (\<open>nervous_system_leaks.py\<close>), local and remote targets (\<open>nervous_system_policy.py\<close>), the tool profiles
  (\<open>nervous_system_resolver.py\<close>) and the admission of a proposal (\<open>nervous_system_runtime.py\<close>).

  The process environment and the libraries are the fields of \<open>kernel_env\<close>: the RFC 8785 package
  \<open>jcs\<close>, SHA-256 and HMAC-SHA-256 as functions from texts to hexadecimal digests, the environment
  variables, the check \<open>urllib\<close> makes of a host in brackets, \<open>json.loads\<close> of configured lists,
  \<open>re.compile\<close> of configured patterns with their substitution, the expansion of a replacement with
  backslashes, \<open>datetime\<close>, the successive readings of the clock in microseconds, and the successive
  draws of random texts. A request is a decoded JSON object
  without floats. The regular expressions are matchers on texts with code points below 256.
\<close>

record kernel_env =
  ke_jcs :: "json \<Rightarrow> string"
  ke_sha256 :: "string \<Rightarrow> string"
  ke_hmac_sha256 :: "string \<Rightarrow> string \<Rightarrow> string"
  ke_environ :: "string \<Rightarrow> string option"
  ke_bracket_host_ok :: "string \<Rightarrow> bool"
  ke_json_loads :: "string \<Rightarrow> json result"
  ke_re_compile :: "string \<Rightarrow> (string \<Rightarrow> string \<Rightarrow> string result) result"
  ke_re_template :: "string \<Rightarrow> string result"
  ke_datetime :: datetime_lib
  ke_clock :: "nat \<Rightarrow> int"
  ke_token_urlsafe :: "nat \<Rightarrow> string"
  ke_token_hex :: "nat \<Rightarrow> string"

section \<open>Digests\<close>

definition JS_SAFE_INT_MAX :: int where
  "JS_SAFE_INT_MAX = 2 ^ 53 - 1"

definition JS_SAFE_INT_MIN :: int where
  "JS_SAFE_INT_MIN = - JS_SAFE_INT_MAX"

fun iter_json_values :: "json \<Rightarrow> json list" where
  "iter_json_values JNull = []"
| "iter_json_values (JArr xs) = concat (map iter_json_values xs)"
| "iter_json_values (JObj kvs) = concat (map (\<lambda>(k, v). JStr k # iter_json_values v) kvs)"
| "iter_json_values v = [v]"

definition unsafe_int :: "json \<Rightarrow> bool" where
  "unsafe_int v = (case v of JInt i \<Rightarrow> i < JS_SAFE_INT_MIN \<or> JS_SAFE_INT_MAX < i | _ \<Rightarrow> False)"

definition validate_orket_number_domain :: "json \<Rightarrow> unit result" where
  "validate_orket_number_domain obj =
     (case find unsafe_int (iter_json_values obj) of
        None \<Rightarrow> Inr ()
      | Some v \<Rightarrow> Inl (CanonicalizationError
          (''Integer out of range for Orket digest profile: '' @ py_str_json v @ '' (allowed ['' @
           str_of_int JS_SAFE_INT_MIN @ '', '' @ str_of_int JS_SAFE_INT_MAX @ '']).'')))"

text \<open>The text whose UTF-8 encoding the code returns.\<close>

definition canonical_json_bytes :: "kernel_env \<Rightarrow> json \<Rightarrow> string result" where
  "canonical_json_bytes E obj = bind_result (validate_orket_number_domain obj) (\<lambda>_. Inr (ke_jcs E obj))"

definition structural_digest :: "kernel_env \<Rightarrow> string \<Rightarrow> string" where
  "structural_digest E canonical = ke_sha256 E canonical"

definition digest_of :: "kernel_env \<Rightarrow> json \<Rightarrow> string result" where
  "digest_of E obj = bind_result (canonical_json_bytes E obj) (\<lambda>bs. Inr (structural_digest E bs))"

definition drop_key :: "string \<Rightarrow> (string \<times> json) list \<Rightarrow> (string \<times> json) list" where
  "drop_key k kvs = filter (\<lambda>(k', _). k' \<noteq> k) kvs"

definition without_message :: "json \<Rightarrow> json" where
  "without_message issue = (case issue of JObj kvs \<Rightarrow> JObj (AList.update ''message'' JNull kvs) | _ \<Rightarrow> issue)"

definition normalized_turn_result_surface :: "(string \<times> json) list \<Rightarrow> (string \<times> json) list" where
  "normalized_turn_result_surface turn_result =
     (let surface = drop_key ''turn_result_digest'' (drop_key ''events'' turn_result) in
      case json_get surface ''issues'' of
        JArr issues \<Rightarrow> AList.update ''issues'' (JArr (map without_message issues)) surface
      | _ \<Rightarrow> surface)"

definition compute_turn_result_digest :: "kernel_env \<Rightarrow> (string \<times> json) list \<Rightarrow> string result" where
  "compute_turn_result_digest E turn_result = digest_of E (JObj (normalized_turn_result_surface turn_result))"

text \<open>\<open>text.replace(c, t)\<close> for a single character.\<close>

definition replace_char :: "char \<Rightarrow> string \<Rightarrow> string \<Rightarrow> string" where
  "replace_char c t s = concat (map (\<lambda>x. if x = c then t else [x]) s)"

definition fs_token :: "string \<Rightarrow> string" where
  "fs_token s =
     replace_char (CHR '':'') ''%3A'' (replace_char (CHR 0x5C) ''%5C''
       (replace_char (CHR ''/'') ''%2F'' (replace_char (CHR ''%'') ''%25'' s)))"

section \<open>Contract\<close>

definition GENESIS_STATE_DIGEST :: string where
  "GENESIS_STATE_DIGEST = replicate 64 (CHR ''0'')"

definition NERVOUS_SYSTEM_PURPOSE_ACTION_PATH :: string where
  "NERVOUS_SYSTEM_PURPOSE_ACTION_PATH = ''action_path''"

definition REASON_CODES_V1_ORDER :: "string list" where
  "REASON_CODES_V1_ORDER =
     [''SCHEMA_INVALID'', ''POLICY_FORBIDDEN'', ''LEAK_DETECTED'', ''SCOPE_VIOLATION'', ''UNKNOWN_TOOL_PROFILE'',
      ''APPROVAL_REQUIRED_DESTRUCTIVE'', ''APPROVAL_REQUIRED_EXFIL'', ''APPROVAL_REQUIRED_CREDENTIALED'',
      ''TOKEN_INVALID'', ''TOKEN_EXPIRED'', ''TOKEN_REPLAY'', ''RESULT_SCHEMA_INVALID'', ''RESULT_LEAK_DETECTED'']"

text \<open>The loop with its set of codes seen and its two lists.\<close>

fun split_reason_codes :: "string list \<Rightarrow> string list \<Rightarrow> string list \<Rightarrow> string list \<Rightarrow> string list \<times> string list" where
  "split_reason_codes seen known unknown [] = (known, unknown)"
| "split_reason_codes seen known unknown (item # items) =
     (let code = py_strip item in
      if code = [] \<or> code \<in> set seen then split_reason_codes seen known unknown items
      else if code \<in> set REASON_CODES_V1_ORDER then split_reason_codes (code # seen) (known @ [code]) unknown items
      else split_reason_codes (code # seen) known (unknown @ [code]) items)"

fun position_in :: "'a list \<Rightarrow> 'a \<Rightarrow> nat" where
  "position_in [] x = 0"
| "position_in (y # ys) x = (if x = y then 0 else Suc (position_in ys x))"

definition ordered_reason_codes_v1 :: "string list \<Rightarrow> string list" where
  "ordered_reason_codes_v1 reason_codes =
     (let (known, unknown) = split_reason_codes [] [] [] reason_codes in
      sort_key (position_in REASON_CODES_V1_ORDER) known @ sort unknown)"

definition canonical_scope_digest :: "kernel_env \<Rightarrow> (string \<times> json) list \<Rightarrow> string result" where
  "canonical_scope_digest E scope_json = digest_of E (JObj scope_json)"

definition tool_profile_digest :: "kernel_env \<Rightarrow> (string \<times> json) list \<Rightarrow> string result" where
  "tool_profile_digest E tool_profile_definition = digest_of E (JObj tool_profile_definition)"

section \<open>Conversions\<close>

text \<open>
  \<open>list(v or [])\<close> and \<open>dict(v or {})\<close>; a list of pairs, which no caller passes, is taken as an error.
\<close>

definition py_list_or_empty :: "json \<Rightarrow> json list result" where
  "py_list_or_empty v =
     (if \<not> json_truthy v then Inr []
      else case v of
        JArr xs \<Rightarrow> Inr xs
      | JStr s \<Rightarrow> Inr (map (\<lambda>c. JStr [c]) s)
      | JObj kvs \<Rightarrow> Inr (map (\<lambda>(k, _). JStr k) kvs)
      | _ \<Rightarrow> Inl (TypeError ''object is not iterable''))"

definition py_dict_or_empty :: "json \<Rightarrow> (string \<times> json) list result" where
  "py_dict_or_empty v =
     (if \<not> json_truthy v then Inr []
      else case v of
        JObj kvs \<Rightarrow> Inr kvs
      | JBool _ \<Rightarrow> Inl (TypeError ''object is not iterable'')
      | JInt _ \<Rightarrow> Inl (TypeError ''object is not iterable'')
      | _ \<Rightarrow> Inl (ValueError ''dictionary update sequence element has wrong length''))"

section \<open>Detectors\<close>

text \<open>
  A matcher gives the length of the match that a pattern has at a position, from the character before
  it and the text after it.
\<close>

type_synonym matcher = "char option \<Rightarrow> string \<Rightarrow> nat option"

definition is_word :: "char \<Rightarrow> bool" where
  "is_word c = (let n = (of_char c :: nat) in
     (48 \<le> n \<and> n \<le> 57) \<or> (65 \<le> n \<and> n \<le> 90) \<or> n = 95 \<or> (97 \<le> n \<and> n \<le> 122) \<or>
     n \<in> {170, 178, 179, 181, 185, 186, 188, 189, 190} \<or> (192 \<le> n \<and> n \<noteq> 215 \<and> n \<noteq> 247))"

definition word_before :: "char option \<Rightarrow> bool" where
  "word_before p = (case p of None \<Rightarrow> False | Some c \<Rightarrow> is_word c)"

definition word_next :: "string \<Rightarrow> bool" where
  "word_next s = (case s of [] \<Rightarrow> False | c # _ \<Rightarrow> is_word c)"

definition in_range :: "char \<Rightarrow> char \<Rightarrow> char \<Rightarrow> bool" where
  "in_range a b c = ((of_char a :: nat) \<le> of_char c \<and> (of_char c :: nat) \<le> of_char b)"

definition is_upper :: "char \<Rightarrow> bool" where "is_upper c = in_range (CHR ''A'') (CHR ''Z'') c"
definition is_alpha :: "char \<Rightarrow> bool" where
  "is_alpha c = (is_upper c \<or> in_range (CHR ''a'') (CHR ''z'') c)"
definition is_dec :: "char \<Rightarrow> bool" where "is_dec c = in_range (CHR ''0'') (CHR ''9'') c"

definition strip_prefix :: "string \<Rightarrow> string \<Rightarrow> string option" where
  "strip_prefix p s = (if take (length p) s = p then Some (drop (length p) s) else None)"

text \<open>A literal under \<open>re.IGNORECASE\<close>.\<close>

definition strip_prefix_ci :: "string \<Rightarrow> string \<Rightarrow> string option" where
  "strip_prefix_ci p s =
     (if py_lower (take (length p) s) = py_lower p then Some (drop (length p) s) else None)"

text \<open>\<open>-----BEGIN [A-Z ]*PRIVATE KEY-----\<close>, ignoring case\<close>

definition match_pem :: matcher where
  "match_pem p s =
     (case strip_prefix_ci ''-----BEGIN '' s of
        None \<Rightarrow> None
      | Some t \<Rightarrow>
          (let run = takeWhile (\<lambda>c. is_alpha c \<or> c = CHR '' '') t in
           if suffix ''private key'' (py_lower run) \<and> strip_prefix ''-----'' (drop (length run) t) \<noteq> None
           then Some (11 + length run + 5) else None))"

text \<open>A boundary, a literal, a number of characters of a class, a boundary.\<close>

definition match_fixed :: "string \<Rightarrow> nat \<Rightarrow> (char \<Rightarrow> bool) \<Rightarrow> matcher" where
  "match_fixed lit n cls p s =
     (if word_before p then None
      else case strip_prefix lit s of
        None \<Rightarrow> None
      | Some t \<Rightarrow>
          if n \<le> length t \<and> list_all cls (take n t) \<and> \<not> word_next (drop n t) then Some (length lit + n) else None)"

definition or_match :: "matcher \<Rightarrow> matcher \<Rightarrow> matcher" where
  "or_match m m' p s = (case m p s of None \<Rightarrow> m' p s | Some n \<Rightarrow> Some n)"

definition match_aws :: matcher where
  "match_aws = or_match (match_fixed ''AKIA'' 16 (\<lambda>c. is_dec c \<or> is_upper c)) (match_fixed ''ASIA'' 16 (\<lambda>c. is_dec c \<or> is_upper c))"

definition match_github_classic :: matcher where
  "match_github_classic = match_fixed ''ghp_'' 36 (\<lambda>c. is_alpha c \<or> is_dec c)"

definition match_github_fine :: matcher where
  "match_github_fine p s =
     (if word_before p then None
      else case strip_prefix ''github_pat_'' s of
        None \<Rightarrow> None
      | Some t \<Rightarrow>
          (let n = length (takeWhile (\<lambda>c. is_alpha c \<or> is_dec c \<or> c = CHR ''_'') t) in
           if 20 \<le> n \<and> \<not> word_next (drop n t) then Some (11 + n) else None))"

definition SECRET_NAMES :: "string list" where
  "SECRET_NAMES = [''AWS_SECRET_ACCESS_KEY'', ''OPENAI_API_KEY'', ''GITHUB_TOKEN'', ''SLACK_BOT_TOKEN'', ''AZURE_OPENAI_API_KEY'']"

definition match_env_secret :: matcher where
  "match_env_secret p s =
     (if p \<noteq> None \<and> p \<noteq> Some (CHR 0x0A) then None
      else let t = dropWhile py_isspace s in
        case List.find (\<lambda>name. strip_prefix_ci name t \<noteq> None) SECRET_NAMES of
          None \<Rightarrow> None
        | Some name \<Rightarrow>
            (case dropWhile py_isspace (drop (length name) t) of
               [] \<Rightarrow> None
             | c # u \<Rightarrow>
                 (let v = dropWhile py_isspace u; rest = dropWhile (\<lambda>c. \<not> py_isspace c) v in
                  if c \<noteq> CHR ''='' \<or> v = [] then None else Some (length s - length rest))))"

text \<open>\<open>\b\d{3}-\d{2}-\d{4}\b\<close>\<close>

definition match_ssn :: matcher where
  "match_ssn p s =
     (if word_before p \<or> length s < 11 then None
      else if list_all (\<lambda>i. if i = 3 \<or> i = 6 then s ! i = CHR ''-'' else is_dec (s ! i)) [0..<11] \<and>
              \<not> word_next (drop 11 s)
      then Some 11 else None)"

definition PATTERN_SPECS :: "(string \<times> matcher) list" where
  "PATTERN_SPECS =
     [(''PEM_PRIVATE_KEY'', match_pem), (''AWS_ACCESS_KEY'', match_aws),
      (''GITHUB_TOKEN_CLASSIC'', match_github_classic), (''GITHUB_TOKEN_FINE_GRAINED'', match_github_fine),
      (''ENV_SECRET_ASSIGNMENT'', match_env_secret), (''US_SSN'', match_ssn)]"

fun re_search :: "matcher \<Rightarrow> char option \<Rightarrow> string \<Rightarrow> bool" where
  "re_search m p [] = (m p [] \<noteq> None)"
| "re_search m p (c # s) = (m p (c # s) \<noteq> None \<or> re_search m (Some c) s)"

text \<open>\<open>pattern.sub(repl, text)\<close>, for patterns that do not match the empty text.\<close>

function re_sub :: "matcher \<Rightarrow> string \<Rightarrow> char option \<Rightarrow> string \<Rightarrow> string" where
  "re_sub m repl p [] = []"
| "re_sub m repl p (c # s) =
     (case m p (c # s) of
        Some (Suc n) \<Rightarrow> repl @ re_sub m repl (Some ((c # s) ! min n (length s))) (drop n s)
      | _ \<Rightarrow> c # re_sub m repl (Some c) s)"
  by pat_completeness auto
termination by (relation "measure (\<lambda>(m, repl, p, s). length s)") auto

text \<open>\<open>json.dumps(value, sort_keys=True, ensure_ascii=False)\<close>, with its default separators\<close>

fun json_dumps_spaced :: "json \<Rightarrow> string" where
  "json_dumps_spaced (JArr xs) = ''['' @ join '', '' (map json_dumps_spaced xs) @ '']''"
| "json_dumps_spaced (JObj kvs) =
     ''{'' @ join '', '' (map (\<lambda>(k, t). json_string False k @ '': '' @ t)
        (sort_key fst (map (\<lambda>(k, v). (k, json_dumps_spaced v)) kvs))) @ ''}''"
| "json_dumps_spaced v = json_dumps False v"

definition to_scan_text :: "json \<Rightarrow> string" where
  "to_scan_text v = (case v of JNull \<Rightarrow> [] | JStr s \<Rightarrow> s | _ \<Rightarrow> json_dumps_spaced v)"

definition find_leak_hits :: "json \<Rightarrow> string list" where
  "find_leak_hits v =
     (let text = to_scan_text v in
      if text = [] then []
      else sort (map fst (filter (\<lambda>(code, m). re_search m None text) PATTERN_SPECS)))"

definition sanitize_text :: "string \<Rightarrow> string" where
  "sanitize_text s = fold (\<lambda>(code, m) t. re_sub m ''[REDACTED]'' None t) PATTERN_SPECS s"

section \<open>Texts without a trigger\<close>

text \<open>
  No detector can match in a text without dash, equals sign and at sign, and without the first two
  letters of a key prefix; evaluation uses this.
\<close>

fun plain_text :: "string \<Rightarrow> bool" where
  "plain_text [] = True"
| "plain_text (c # s) \<longleftrightarrow> c \<noteq> CHR ''-'' \<and> c \<noteq> CHR ''='' \<and> c \<noteq> CHR 0x40 \<and>
     \<not> (c = CHR ''A'' \<and> s \<noteq> [] \<and> (hd s = CHR ''K'' \<or> hd s = CHR ''S'')) \<and>
     \<not> (c = CHR ''g'' \<and> s \<noteq> [] \<and> (hd s = CHR ''h'' \<or> hd s = CHR ''i'')) \<and> plain_text s"

lemma re_sub_none: "\<not> re_search m p s \<Longrightarrow> re_sub m repl p s = s"
  by (induction m repl p s rule: re_sub.induct) auto

lemma plain_text_chars: "plain_text s \<Longrightarrow> CHR ''-'' \<notin> set s \<and> CHR ''='' \<notin> set s \<and> CHR 0x40 \<notin> set s"
  by (induction s) auto

lemma no_match_no_search:
  assumes "\<And>p t. plain_text t \<Longrightarrow> m p t = None" and "plain_text s"
  shows "\<not> re_search m p s"
  using assms(2)
proof (induction s arbitrary: p)
  case (Cons c s)
  then show ?case using assms(1) [of "c # s" p] by simp
qed (simp add: assms(1))

lemma strip_prefix_two: "strip_prefix (a # b # lit) t = Some u \<Longrightarrow> \<exists>v. t = a # b # v"
  by (cases t; cases "tl t") (auto simp: strip_prefix_def split: if_splits)

lemma plain_no_fixed:
  assumes "plain_text t" and "(a, b) \<in> {(CHR ''A'', CHR ''K''), (CHR ''A'', CHR ''S''), (CHR ''g'', CHR ''h''), (CHR ''g'', CHR ''i'')}"
  shows "strip_prefix (a # b # lit) t = None"
  using assms strip_prefix_two [of a b lit t] by (cases "strip_prefix (a # b # lit) t") auto

lemma plain_no_pem: "plain_text t \<Longrightarrow> match_pem p t = None"
proof -
  assume t: "plain_text t"
  have "c = CHR ''-''" if "py_lower_char c = CHR ''-''" for c
  proof (rule ccontr)
    assume "c \<noteq> CHR ''-''"
    then have eq: "char_of (of_char c + 32 :: nat) = CHR ''-''" and range: "65 \<le> (of_char c :: nat)" "(of_char c :: nat) \<le> 222"
      using that by (auto simp: py_lower_char_def Let_def split: if_splits)
    have "(of_char (char_of (of_char c + 32 :: nat) :: char) :: nat) = of_char (CHR ''-'')" by (simp only: eq)
    then have "(of_char c + 32 :: nat) mod 256 = 45" by (simp only: of_char_of) simp
    moreover have "(of_char c + 32 :: nat) < 256" using range by linarith
    ultimately show False using range by (simp only: mod_less)
  qed
  moreover have "py_lower_char (CHR ''-'') = CHR ''-''" by code_simp
  ultimately have "CHR ''-'' \<in> set t" if "strip_prefix_ci (CHR ''-'' # lit) t = Some u" for lit u
    using that by (cases t) (auto simp: strip_prefix_ci_def py_lower_def split: if_splits)
  then show ?thesis using plain_text_chars [OF t] by (cases "strip_prefix_ci ''-----BEGIN '' t") (auto simp: match_pem_def)
qed

lemma plain_no_env: "plain_text t \<Longrightarrow> match_env_secret p t = None"
proof -
  assume t: "plain_text t"
  have "c \<noteq> CHR ''=''" if "dropWhile py_isspace (drop n (dropWhile py_isspace t)) = c # u" for n c u
    using plain_text_chars [OF t] that by (metis in_set_dropD list.set_intros(1) set_dropWhileD)
  note no_eq = this
  show ?thesis
  proof (cases "List.find (\<lambda>name. strip_prefix_ci name (dropWhile py_isspace t) \<noteq> None) SECRET_NAMES")
    case (Some name)
    show ?thesis
    proof (cases "dropWhile py_isspace (drop (length name) (dropWhile py_isspace t))")
      case (Cons c u)
      show ?thesis unfolding match_env_secret_def Let_def Some option.case Cons list.case using no_eq [OF Cons] by (simp only: if_True if_cancel simp_thms)
    qed (simp only: match_env_secret_def Let_def Some option.case list.case if_cancel)
  qed (simp only: match_env_secret_def Let_def option.case if_cancel)
qed

lemma plain_no_ssn: "plain_text t \<Longrightarrow> match_ssn p t = None"
proof -
  assume t: "plain_text t"
  have "\<not> list_all (\<lambda>i. if i = 3 \<or> i = 6 then t ! i = CHR ''-'' else is_dec (t ! i)) [0..<11]" if "11 \<le> length t"
  proof
    assume "list_all (\<lambda>i. if i = 3 \<or> i = 6 then t ! i = CHR ''-'' else is_dec (t ! i)) [0..<11]"
    then have "t ! 3 = CHR ''-''" unfolding list_all_iff by (drule_tac bspec [where x = 3]) simp_all
    moreover have "t ! 3 \<in> set t" using that by (intro nth_mem) linarith
    ultimately show False using plain_text_chars [OF t] by metis
  qed
  then show ?thesis by (simp add: match_ssn_def not_less)
qed

lemma plain_no_detector: "plain_text s \<Longrightarrow> (code, m) \<in> set PATTERN_SPECS \<Longrightarrow> \<not> re_search m p s"
proof -
  assume s: "plain_text s" and "(code, m) \<in> set PATTERN_SPECS"
  then have "plain_text t \<Longrightarrow> m q t = None" for q t
    by (auto simp: PATTERN_SPECS_def plain_no_pem plain_no_env plain_no_ssn match_aws_def or_match_def match_fixed_def
        match_github_classic_def match_github_fine_def plain_no_fixed)
  then show ?thesis using no_match_no_search s by blast
qed

lemma sanitize_text_code [code]:
  "sanitize_text s = (if plain_text s then s else fold (\<lambda>(code, m) t. re_sub m ''[REDACTED]'' None t) PATTERN_SPECS s)"
proof -
  have "fold (\<lambda>(code, m) t. re_sub m ''[REDACTED]'' None t) specs s = s" if "\<forall>(code, m) \<in> set specs. \<not> re_search m None s" for specs
    using that by (induction specs) (auto simp: re_sub_none)
  then show ?thesis using plain_no_detector [of s _ _ None] by (auto simp: sanitize_text_def)
qed

lemma find_leak_hits_code [code]:
  "find_leak_hits v =
     (let text = to_scan_text v in
      if plain_text text then []
      else sort (map fst (filter (\<lambda>(code, m). re_search m None text) PATTERN_SPECS)))"
proof -
  have "filter (\<lambda>(code, m). re_search m None s) PATTERN_SPECS = []" if "plain_text s" for s
    using plain_no_detector [OF that, of _ _ None] by (auto simp: filter_empty_conv)
  moreover have "plain_text []" by simp
  ultimately show ?thesis by (auto simp: find_leak_hits_def Let_def)
qed

section \<open>Policy\<close>

definition TRUE_WORDS :: "string list" where
  "TRUE_WORDS = [''1'', ''true'', ''yes'', ''on'']"

definition environ_flag :: "kernel_env \<Rightarrow> string \<Rightarrow> bool" where
  "environ_flag E name = (py_lower (py_strip (str_or (ke_environ E name) [])) \<in> set TRUE_WORDS)"

definition require_nervous_system_enabled :: "kernel_env \<Rightarrow> unit result" where
  "require_nervous_system_enabled E =
     (if environ_flag E ''ORKET_ENABLE_NERVOUS_SYSTEM'' then Inr ()
      else Inl (ValueError ''Nervous System v1 is disabled (set ORKET_ENABLE_NERVOUS_SYSTEM=true).''))"

definition allow_pre_resolved_policy_flags :: "kernel_env \<Rightarrow> bool" where
  "allow_pre_resolved_policy_flags E = environ_flag E ''ORKET_ALLOW_PRE_RESOLVED_POLICY_FLAGS''"

definition use_tool_profile_resolver :: "kernel_env \<Rightarrow> bool" where
  "use_tool_profile_resolver E =
     (case ke_environ E ''ORKET_USE_TOOL_PROFILE_RESOLVER'' of
        None \<Rightarrow> True
      | Some raw \<Rightarrow> py_lower (py_strip raw) \<in> set TRUE_WORDS)"

text \<open>
  Scheme and network location of \<open>urlparse\<close>: leading control characters and blanks, tabs and line ends
  are dropped, the scheme is what stands before the first colon, and the location what follows two
  slashes up to the next slash, question mark or hash.
\<close>

definition is_scheme_char :: "char \<Rightarrow> bool" where
  "is_scheme_char c = (is_alpha c \<or> is_dec c \<or> c \<in> set ''+-.'')"

definition urlparse :: "kernel_env \<Rightarrow> string \<Rightarrow> (string \<times> string) result" where
  "urlparse E text =
     (let url = filter (\<lambda>c. c \<notin> {CHR 0x09, CHR 0x0A, CHR 0x0D}) (dropWhile (\<lambda>c. (of_char c :: nat) \<le> 32) text);
          before = takeWhile (\<lambda>c. c \<noteq> CHR '':'') url;
          schemed = (before \<noteq> [] \<and> length before < length url \<and> is_alpha (hd before) \<and> list_all is_scheme_char before);
          rest = (if schemed then drop (Suc (length before)) url else url);
          netloc = (if take 2 rest = ''//'' then takeWhile (\<lambda>c. c \<notin> set ''/?#'') (drop 2 rest) else []);
          opens = (CHR ''['' \<in> set netloc); closes = (CHR '']'' \<in> set netloc)
      in if opens \<noteq> closes then Inl (ValueError ''Invalid IPv6 URL'')
         else if opens \<and> \<not> ke_bracket_host_ok E netloc then Inl (ValueError ''Invalid IPv6 URL'')
         else Inr (if schemed then py_lower before else [], netloc))"

definition contains :: "string \<Rightarrow> string \<Rightarrow> bool" where
  "contains sub s = sublist sub s"

definition is_non_local_target :: "kernel_env \<Rightarrow> string \<Rightarrow> bool result" where
  "is_non_local_target E target =
     (let text = py_strip target in
      if text = [] then Inr False
      else bind_result (urlparse E text) (\<lambda>(scheme, netloc). Inr
        (if scheme \<in> {''http'', ''https'', ''ws'', ''wss'', ''ftp''} then True
         else if netloc \<noteq> [] then True
         else if prefix ''ssh://'' (py_lower text) \<or> prefix ''tcp://'' (py_lower text) \<or> prefix ''udp://'' (py_lower text) then True
         else if contains ''://'' text then True
         else if CHR ''@'' \<in> set text \<and> CHR '':'' \<in> set text \<and> CHR ''/'' \<in> set text then True
         else if CHR 0x5C \<in> set text then False
         else if CHR ''/'' \<in> set text \<or> hd text = CHR ''.'' then False
         else CHR ''.'' \<in> set text)))"

definition is_exfil_payload :: "kernel_env \<Rightarrow> (string \<times> json) list \<Rightarrow> bool result" where
  "is_exfil_payload E payload =
     (if (case json_get payload ''tool_profile'' of JObj profile \<Rightarrow> json_truthy (json_get profile ''exfil'') | _ \<Rightarrow> False)
      then Inr True
      else case json_get payload ''target'' of JStr target \<Rightarrow> is_non_local_target E target | _ \<Rightarrow> Inr False)"

section \<open>Tool profiles\<close>

record tool_profile =
  tp_risk :: string
  tp_destructive :: bool
  tp_credentialed :: bool
  tp_exfil :: bool

definition KNOWN_TOOL_PROFILES :: "(string \<times> tool_profile) list" where
  "KNOWN_TOOL_PROFILES =
     [(''fs.delete'', \<lparr>tp_risk = ''critical'', tp_destructive = True, tp_credentialed = False, tp_exfil = False\<rparr>),
      (''fs.write_patch'', \<lparr>tp_risk = ''high'', tp_destructive = True, tp_credentialed = False, tp_exfil = False\<rparr>),
      (''demo.credentialed_echo'', \<lparr>tp_risk = ''high'', tp_destructive = False, tp_credentialed = True, tp_exfil = False\<rparr>),
      (''demo.exfil_http'', \<lparr>tp_risk = ''high'', tp_destructive = False, tp_credentialed = False, tp_exfil = True\<rparr>),
      (''local.echo'', \<lparr>tp_risk = ''low'', tp_destructive = False, tp_credentialed = False, tp_exfil = False\<rparr>)]"

text \<open>The six policy flags of a proposal.\<close>

record policy_flags =
  pf_policy_forbidden :: bool
  pf_scope_violation :: bool
  pf_unknown_tool_profile :: bool
  pf_approval_required_destructive :: bool
  pf_approval_required_exfil :: bool
  pf_approval_required_credentialed :: bool

definition no_flags :: policy_flags where
  "no_flags = \<lparr>pf_policy_forbidden = False, pf_scope_violation = False, pf_unknown_tool_profile = False,
     pf_approval_required_destructive = False, pf_approval_required_exfil = False, pf_approval_required_credentialed = False\<rparr>"

definition dict_payload :: "json \<Rightarrow> (string \<times> json) list" where
  "dict_payload value = (case value of JObj kvs \<Rightarrow> kvs | _ \<Rightarrow> [])"

definition resolve_tool_policy_flags :: "kernel_env \<Rightarrow> (string \<times> json) list \<Rightarrow> policy_flags result" where
  "resolve_tool_policy_flags E payload =
     (let tool_name = py_strip (str_or_empty (json_get payload ''tool_name''));
          args = dict_payload (json_get payload ''args'');
          inline_profile = dict_payload (json_get payload ''tool_profile'')
      in if tool_name = [] then
           bind_result (if json_truthy (json_get inline_profile ''exfil'') then Inr True else is_exfil_payload E payload) (\<lambda>exfil. Inr
             (no_flags\<lparr>pf_approval_required_destructive := json_truthy (json_get inline_profile ''destructive''),
                       pf_approval_required_credentialed := json_truthy (json_get inline_profile ''credentialed''),
                       pf_approval_required_exfil := exfil\<rparr>))
         else case map_of KNOWN_TOOL_PROFILES tool_name of
           None \<Rightarrow> Inr (no_flags\<lparr>pf_unknown_tool_profile := True\<rparr>)
         | Some profile \<Rightarrow>
             bind_result (is_exfil_payload E payload) (\<lambda>exfil. Inr
               (no_flags\<lparr>pf_approval_required_destructive := tp_destructive profile,
                         pf_approval_required_credentialed := tp_credentialed profile,
                         pf_approval_required_exfil := tp_exfil profile \<or> exfil,
                         pf_scope_violation := tool_name = ''fs.delete'' \<and>
                           suffix ''workspace/important.txt''
                             (replace_char (CHR 0x5C) ''/'' (str_or_empty (json_get args ''path'')))\<rparr>)))"

section \<open>Admission\<close>

definition payload_flags :: "(string \<times> json) list \<Rightarrow> policy_flags" where
  "payload_flags payload =
     (let flag = (\<lambda>k. json_truthy (json_get payload k)) in
      \<lparr>pf_policy_forbidden = flag ''policy_forbidden'', pf_scope_violation = flag ''scope_violation'',
       pf_unknown_tool_profile = flag ''unknown_tool_profile'',
       pf_approval_required_destructive = flag ''approval_required_destructive'',
       pf_approval_required_exfil = flag ''approval_required_exfil'',
       pf_approval_required_credentialed = flag ''approval_required_credentialed''\<rparr>)"

definition or_flags :: "policy_flags \<Rightarrow> policy_flags \<Rightarrow> policy_flags" where
  "or_flags a b =
     \<lparr>pf_policy_forbidden = pf_policy_forbidden a \<or> pf_policy_forbidden b,
      pf_scope_violation = pf_scope_violation a \<or> pf_scope_violation b,
      pf_unknown_tool_profile = pf_unknown_tool_profile a \<or> pf_unknown_tool_profile b,
      pf_approval_required_destructive = pf_approval_required_destructive a \<or> pf_approval_required_destructive b,
      pf_approval_required_exfil = pf_approval_required_exfil a \<or> pf_approval_required_exfil b,
      pf_approval_required_credentialed = pf_approval_required_credentialed a \<or> pf_approval_required_credentialed b\<rparr>"

definition effective_flags :: "kernel_env \<Rightarrow> (string \<times> json) list \<Rightarrow> policy_flags result" where
  "effective_flags E payload =
     (if use_tool_profile_resolver E then
        bind_result (resolve_tool_policy_flags E payload) (\<lambda>resolved. Inr (or_flags (payload_flags payload) resolved))
      else if \<not> allow_pre_resolved_policy_flags E then Inr (no_flags\<lparr>pf_unknown_tool_profile := True\<rparr>)
      else Inr (payload_flags payload))"

text \<open>\<open>payload.get("outbound_payload", payload)\<close>\<close>

definition scanned_payload :: "(string \<times> json) list \<Rightarrow> json" where
  "scanned_payload payload = (case map_of payload ''outbound_payload'' of None \<Rightarrow> JObj payload | Some v \<Rightarrow> v)"

text \<open>
  The decision, its reason codes and the detector hits. The test of the target is made only where the
  source makes it: after a hit, and when no flag has asked for an approval of the exfiltration.
\<close>

definition admission_from_proposal :: "kernel_env \<Rightarrow> (string \<times> json) list \<Rightarrow> (string \<times> string list \<times> string list) result" where
  "admission_from_proposal E proposal =
     (if json_get proposal ''proposal_type'' \<noteq> JStr ''action.tool_call'' then Inr (''REJECT'', [''SCHEMA_INVALID''], [])
      else case json_get proposal ''payload'' of
        JObj payload \<Rightarrow>
          bind_result (effective_flags E payload) (\<lambda>flags.
          if pf_policy_forbidden flags then Inr (''REJECT'', [''POLICY_FORBIDDEN''], [])
          else let leak_hits = find_leak_hits (scanned_payload payload) in
          bind_result (if json_truthy (json_get payload ''leak_detected'') then Inr True
              else if leak_hits \<noteq> [] then is_exfil_payload E payload else Inr False) (\<lambda>leaks.
          if leaks then Inr (''REJECT'', [''LEAK_DETECTED''], leak_hits)
          else if pf_scope_violation flags then Inr (''REJECT'', [''SCOPE_VIOLATION''], [])
          else if pf_unknown_tool_profile flags then Inr (''NEEDS_APPROVAL'', [''UNKNOWN_TOOL_PROFILE''], [])
          else bind_result (if pf_approval_required_exfil flags then Inr True else is_exfil_payload E payload) (\<lambda>exfil.
          let approval_reasons =
                (if pf_approval_required_destructive flags then [''APPROVAL_REQUIRED_DESTRUCTIVE''] else []) @
                (if exfil then [''APPROVAL_REQUIRED_EXFIL''] else []) @
                (if pf_approval_required_credentialed flags then [''APPROVAL_REQUIRED_CREDENTIALED''] else [])
          in if approval_reasons \<noteq> [] then Inr (''NEEDS_APPROVAL'', ordered_reason_codes_v1 approval_reasons, [])
             else Inr (''ACCEPT_TO_UNIFY'', [], []))))
      | _ \<Rightarrow> Inr (''REJECT'', [''SCHEMA_INVALID''], []))"

section \<open>What admission promises\<close>

lemma payload_flags_no_flags:
  "payload_flags payload = no_flags \<longleftrightarrow>
     \<not> pf_policy_forbidden (payload_flags payload) \<and> \<not> pf_scope_violation (payload_flags payload) \<and>
     \<not> pf_unknown_tool_profile (payload_flags payload) \<and> \<not> pf_approval_required_destructive (payload_flags payload) \<and>
     \<not> pf_approval_required_exfil (payload_flags payload) \<and> \<not> pf_approval_required_credentialed (payload_flags payload)"
  by (simp add: payload_flags_def no_flags_def Let_def)

lemma admission_accepted:
  assumes "admission_from_proposal E proposal = Inr (''ACCEPT_TO_UNIFY'', rs, hits)"
  obtains payload flags where "json_get proposal ''payload'' = JObj payload" and "effective_flags E payload = Inr flags"
    and "flags = no_flags" and "is_exfil_payload E payload = Inr False"
    and "\<not> json_truthy (json_get payload ''leak_detected'')" and "rs = []" and "hits = []"
proof -
  obtain payload where payload: "json_get proposal ''payload'' = JObj payload"
    using assms by (cases "json_get proposal ''payload''") (auto simp: admission_from_proposal_def split: if_splits)
  obtain flags where flags: "effective_flags E payload = Inr flags"
    using assms payload by (cases "effective_flags E payload") (auto simp: admission_from_proposal_def split: if_splits)
  note accepted = assms [unfolded admission_from_proposal_def payload json.case flags bind_result_simps Let_def]
  have "flags = no_flags \<and> is_exfil_payload E payload = Inr False \<and> \<not> json_truthy (json_get payload ''leak_detected'') \<and> rs = [] \<and> hits = []"
    using accepted by (cases flags) (auto simp: no_flags_def bind_result_def split: if_splits sum.splits)
  then show thesis using that payload flags by blast
qed

lemma or_flags_no_flags: "or_flags a b = no_flags \<longleftrightarrow> a = no_flags \<and> b = no_flags"
  by (cases a; cases b) (auto simp: or_flags_def no_flags_def)

lemma resolved_no_flags:
  assumes "resolve_tool_policy_flags E payload = Inr no_flags"
  shows "py_strip (str_or_empty (json_get payload ''tool_name'')) \<in> {[], ''local.echo''}"
proof (rule ccontr)
  let ?tool = "py_strip (str_or_empty (json_get payload ''tool_name''))"
  assume other: "?tool \<notin> {[], ''local.echo''}"
  then obtain profile where profile: "map_of KNOWN_TOOL_PROFILES ?tool = Some profile"
    using assms by (auto simp: resolve_tool_policy_flags_def no_flags_def Let_def split: option.splits)
  then have "tp_destructive profile \<or> tp_credentialed profile \<or> tp_exfil profile"
    using other by (auto simp: KNOWN_TOOL_PROFILES_def split: if_splits)
  then show False using assms other profile
    by (auto simp: resolve_tool_policy_flags_def no_flags_def Let_def bind_result_Inr_iff)
qed

text \<open>
  C17: an action is admitted without approval only when it is harmless: with the tool resolver on, an
  accepted proposal is a tool call of the local echo tool or of no named tool, none of the six policy
  flags is set on it, no leak was reported, and its target is not remote.
\<close>

theorem accepted_proposal_harmless:
  assumes "admission_from_proposal E proposal = Inr (''ACCEPT_TO_UNIFY'', rs, hits)" and "use_tool_profile_resolver E"
  shows "\<exists>payload. json_get proposal ''payload'' = JObj payload \<and> payload_flags payload = no_flags \<and>
    py_strip (str_or_empty (json_get payload ''tool_name'')) \<in> {[], ''local.echo''} \<and>
    is_exfil_payload E payload = Inr False \<and> \<not> json_truthy (json_get payload ''leak_detected'') \<and> rs = []"
proof -
  obtain payload flags where p: "json_get proposal ''payload'' = JObj payload" "effective_flags E payload = Inr flags" "flags = no_flags"
    "is_exfil_payload E payload = Inr False" "\<not> json_truthy (json_get payload ''leak_detected'')" "rs = []"
    using admission_accepted [OF assms(1)] by metis
  then have "payload_flags payload = no_flags" "resolve_tool_policy_flags E payload = Inr no_flags"
    using assms(2) by (auto simp: effective_flags_def bind_result_Inr_iff or_flags_no_flags)
  then show ?thesis using p resolved_no_flags by blast
qed

definition demo_kernel_env :: kernel_env where
  "demo_kernel_env =
     \<lparr>ke_jcs = json_dumps False, ke_sha256 = (\<lambda>s. s), ke_hmac_sha256 = (\<lambda>k s. s),
      ke_environ = (\<lambda>name. if name = ''ORKET_ENABLE_NERVOUS_SYSTEM'' then Some ''true'' else None),
      ke_bracket_host_ok = (\<lambda>s. True),
      ke_json_loads = (\<lambda>s. Inl (ValueError s)), ke_re_compile = (\<lambda>s. Inl (RegexError s)), ke_re_template = (\<lambda>s. Inr s),
      ke_datetime =
        \<lparr>fromisoformat = (\<lambda>s. case parse_int s of None \<Rightarrow> Inl (ValueError s) | Some i \<Rightarrow> Inr (aware_utc i)),
         isoformat = (\<lambda>d. str_of_int (dt_micros d))\<rparr>,
      ke_clock = (\<lambda>i. int i * 1000000),
      ke_token_urlsafe = (\<lambda>i. ''raw-'' @ str_of_nat i), ke_token_hex = (\<lambda>i. str_of_nat i)\<rparr>"

definition demo_echo_proposal :: "(string \<times> json) list" where
  "demo_echo_proposal =
     [(''proposal_type'', JStr ''action.tool_call''), (''payload'', JObj [(''tool_name'', JStr ''local.echo''), (''outbound_payload'', JNull)])]"

theorem accepted_proposal_harmless_witness:
  "admission_from_proposal demo_kernel_env demo_echo_proposal = Inr (''ACCEPT_TO_UNIFY'', [], []) \<and>
   is_exfil_payload demo_kernel_env [(''tool_name'', JStr ''local.echo''), (''outbound_payload'', JNull)] = Inr False"
proof -
  have a: "admission_from_proposal demo_kernel_env demo_echo_proposal = Inr (''ACCEPT_TO_UNIFY'', [], [])" by code_simp
  have "json_get demo_echo_proposal ''payload'' = JObj [(''tool_name'', JStr ''local.echo''), (''outbound_payload'', JNull)]" by code_simp
  moreover have "use_tool_profile_resolver demo_kernel_env" by code_simp
  ultimately show ?thesis using accepted_proposal_harmless [OF a] a by auto
qed

section \<open>Reason codes have one order\<close>

definition reason_code_set :: "string list \<Rightarrow> string set" where
  "reason_code_set codes = {c \<in> py_strip ` set codes. c \<noteq> []}"

lemma split_reason_codes_props:
  assumes "split_reason_codes seen known unknown codes = (k, u)" and "set seen = set known \<union> set unknown"
    and "distinct known" and "distinct unknown" and "set known \<subseteq> set REASON_CODES_V1_ORDER" and "set unknown \<inter> set REASON_CODES_V1_ORDER = {}"
  shows "set k = (set seen \<union> reason_code_set codes) \<inter> set REASON_CODES_V1_ORDER \<and> distinct k \<and>
    set u = (set seen \<union> reason_code_set codes) - set REASON_CODES_V1_ORDER \<and> distinct u"
  using assms
proof (induction seen known unknown codes rule: split_reason_codes.induct)
  case (1 seen known unknown)
  then show ?case by (auto simp: reason_code_set_def)
next
  case (2 seen known unknown item items)
  let ?c = "py_strip item"
  have cons: "reason_code_set (item # items) = (if ?c = [] then {} else {?c}) \<union> reason_code_set items"
    by (auto simp: reason_code_set_def)
  show ?case
  proof (cases "?c = [] \<or> ?c \<in> set seen")
    case True
    then show ?thesis using 2(1) [OF refl True] 2(4-) cons by (auto simp: Let_def)
  next
    case new: False
    show ?thesis
    proof (cases "?c \<in> set REASON_CODES_V1_ORDER")
      case True
      then show ?thesis using 2(2) [OF refl new True] 2(4-) new cons by (auto simp: Let_def)
    next
      case False
      then show ?thesis using 2(3) [OF refl new False] 2(4-) new cons by (auto simp: Let_def)
    qed
  qed
qed

lemma position_in_inj: "inj_on (position_in xs) (set xs)"
proof (induction xs)
  case (Cons x xs)
  then show ?case by (auto simp: inj_on_def)
qed simp

definition reason_code_list :: "string set \<Rightarrow> string list \<Rightarrow> bool" where
  "reason_code_list S cs \<longleftrightarrow> (\<exists>k u. cs = k @ u \<and> set k = S \<inter> set REASON_CODES_V1_ORDER \<and> set u = S - set REASON_CODES_V1_ORDER \<and>
     distinct k \<and> distinct u \<and> sorted (map (position_in REASON_CODES_V1_ORDER) k) \<and> sorted u)"

lemma reason_code_list_unique:
  assumes "reason_code_list S cs" and "reason_code_list S cs'"
  shows "cs = cs'"
proof -
  let ?pos = "position_in REASON_CODES_V1_ORDER"
  obtain k u k' u' where eq: "cs = k @ u" "cs' = k' @ u'" and k: "set k = S \<inter> set REASON_CODES_V1_ORDER" "distinct k" "sorted (map ?pos k)"
    and k': "set k' = S \<inter> set REASON_CODES_V1_ORDER" "distinct k'" "sorted (map ?pos k')"
    and u: "set u = set u'" "distinct u" "sorted u" "distinct u'" "sorted u'"
    using assms unfolding reason_code_list_def by auto
  have inj: "inj_on ?pos (set k \<union> set k')" using inj_on_subset [OF position_in_inj] k(1) k'(1) by (metis Un_absorb inf_le2)
  have "map ?pos k = map ?pos k'"
  proof (rule sorted_distinct_set_unique)
    show "distinct (map ?pos k)" "distinct (map ?pos k')" using inj k(2) k'(2) by (auto simp: distinct_map intro: inj_on_subset)
    show "set (map ?pos k) = set (map ?pos k')" using k(1) k'(1) by simp
  qed (use k k' in simp_all)
  then have "k = k'" using inj by (rule map_inj_on)
  moreover have "u = u'" using u by (intro sorted_distinct_set_unique) simp_all
  ultimately show ?thesis using eq by simp
qed

lemma ordered_reason_codes_list: "reason_code_list (reason_code_set codes) (ordered_reason_codes_v1 codes)"
proof -
  obtain k u where ku: "split_reason_codes [] [] [] codes = (k, u)" by (cases "split_reason_codes [] [] [] codes")
  then have "set k = reason_code_set codes \<inter> set REASON_CODES_V1_ORDER" "distinct k"
    "set u = reason_code_set codes - set REASON_CODES_V1_ORDER" "distinct u"
    using split_reason_codes_props [OF ku] by auto
  then show ?thesis unfolding reason_code_list_def ordered_reason_codes_v1_def ku
    by (intro exI [of _ "sort_key (position_in REASON_CODES_V1_ORDER) k"] exI [of _ "sort u"]) simp
qed

text \<open>
  the order of reason codes is canonical: the codes come out once each, the known ones first in
  the order of the contract, the others sorted after them, and two inputs give the same list exactly
  when they hold the same codes up to surrounding blanks.
\<close>

theorem reason_codes_canonical:
  "reason_code_list (reason_code_set codes) (ordered_reason_codes_v1 codes) \<and>
   (ordered_reason_codes_v1 codes = ordered_reason_codes_v1 codes' \<longleftrightarrow> reason_code_set codes = reason_code_set codes')"
proof -
  have set: "reason_code_list S cs \<Longrightarrow> set cs = S" for S cs by (auto simp: reason_code_list_def)
  show ?thesis using ordered_reason_codes_list reason_code_list_unique set by metis
qed

section \<open>File names\<close>

definition fs_char :: "char \<Rightarrow> string" where
  "fs_char c = (if c = CHR ''%'' then ''%25'' else if c = CHR ''/'' then ''%2F''
     else if c = CHR 0x5C then ''%5C'' else if c = CHR '':'' then ''%3A'' else [c])"

lemma replace_char_append [simp]: "replace_char c t (s @ s') = replace_char c t s @ replace_char c t s'"
  by (simp add: replace_char_def)

lemma fs_token_Cons: "fs_token (c # s) = fs_char c @ fs_token s"
  by (simp add: fs_token_def fs_char_def replace_char_def)

lemma fs_token_Nil [simp]: "fs_token [] = []"
  by (simp add: fs_token_def replace_char_def)

lemma fs_char_prefix: "fs_char c @ s = fs_char c' @ s' \<Longrightarrow> c = c' \<and> s = s'"
  by (auto simp: fs_char_def split: if_splits)

lemma fs_token_inj: "fs_token s = fs_token t \<Longrightarrow> s = t"
proof (induction s arbitrary: t)
  case Nil
  then show ?case by (cases t) (auto simp: fs_token_Cons fs_char_def split: if_splits)
next
  case (Cons c s)
  then obtain d u where "t = d # u" by (cases t) (auto simp: fs_token_Cons fs_char_def split: if_splits)
  then show ?case using Cons fs_char_prefix [of c "fs_token s" d "fs_token u"] by (auto simp: fs_token_Cons)
qed

lemma fs_token_safe: "set (fs_token s) \<inter> {CHR ''/'', CHR 0x5C, CHR '':''} = {}"
  by (induction s) (auto simp: fs_token_Cons fs_char_def)

text \<open>
  \<open>fs_token\<close> is a faithful path segment: different identifiers have different tokens, and a token
  holds no separator of paths or drives.
\<close>

theorem fs_token_faithful:
  "(fs_token s = fs_token t \<longleftrightarrow> s = t) \<and> set (fs_token s) \<inter> {CHR ''/'', CHR 0x5C, CHR '':''} = {}"
  using fs_token_inj fs_token_safe by blast

end
