(* ===== verification/Outbound_Gate.thy ===== *)
theory Outbound_Gate
  imports Kernel_Policy Outward_Export
begin

text \<open>
  The outbound policy gate (\<open>orket/kernel/v1/outbound_policy_gate.py\<close>): what leaves the engine is
  scrubbed of configured paths, sensitive keys, personal data and secrets, and a ledger export that was
  changed by this is turned into a partial view of the untouched events.

  Payloads and configurations are decoded JSON. The configuration after merging is a record: the three
  lists the gate normalises, and the other keys as they are.
\<close>

section \<open>Configuration\<close>

record gate_config =
  gc_pii_field_paths :: "string list"
  gc_forbidden_patterns :: "string list"
  gc_allowed_output_fields :: "(string \<times> string list) list"
  gc_other :: "(string \<times> json) list"

definition empty_config :: gate_config where
  "empty_config = \<lparr>gc_pii_field_paths = [], gc_forbidden_patterns = [], gc_allowed_output_fields = [], gc_other = []\<rparr>"

definition nonblank_texts :: "string list \<Rightarrow> string list" where
  "nonblank_texts ts = filter (\<lambda>t. t \<noteq> []) (map py_strip ts)"

definition string_tuple :: "json \<Rightarrow> string list" where
  "string_tuple v =
     (case v of
        JNull \<Rightarrow> []
      | JStr s \<Rightarrow> nonblank_texts [s]
      | JObj kvs \<Rightarrow> nonblank_texts (map (\<lambda>(_, w). py_str_json w) kvs)
      | JArr xs \<Rightarrow> nonblank_texts (map py_str_json xs)
      | _ \<Rightarrow> nonblank_texts [py_str_json v])"

definition dedupe_tuple :: "string list \<Rightarrow> string list" where
  "dedupe_tuple values = rev (remdups (rev (filter (\<lambda>v. v \<noteq> []) values)))"

definition normalize_allowed_output_fields :: "json \<Rightarrow> (string \<times> string list) list result" where
  "normalize_allowed_output_fields v =
     (case v of
        JNull \<Rightarrow> Inr []
      | JObj kvs \<Rightarrow> Inr (fold (\<lambda>(k, names) acc. if py_strip k = [] then acc else AList.update (py_strip k) (string_tuple names) acc) kvs [])
      | _ \<Rightarrow> Inl (ValueError ''allowed_output_fields must be an object''))"

definition merge_key :: "string \<times> json \<Rightarrow> gate_config \<Rightarrow> gate_config result" where
  "merge_key kv merged =
     (case kv of (key, v) \<Rightarrow>
      if key = ''allowed_output_fields'' then
        bind_result (normalize_allowed_output_fields v) (\<lambda>allowed. Inr
          (merged\<lparr>gc_allowed_output_fields := fold (\<lambda>(k, fs). AList.update k fs) allowed (gc_allowed_output_fields merged)\<rparr>))
      else if key = ''pii_field_paths'' \<or> key = ''redact_paths'' then
        Inr (merged\<lparr>gc_pii_field_paths := dedupe_tuple (gc_pii_field_paths merged @ string_tuple v)\<rparr>)
      else if key = ''forbidden_patterns'' then
        Inr (merged\<lparr>gc_forbidden_patterns := dedupe_tuple (gc_forbidden_patterns merged @ string_tuple v)\<rparr>)
      else Inr (merged\<lparr>gc_other := AList.update key v (gc_other merged)\<rparr>))"

fun merge_outbound_policy_config :: "(string \<times> json) list \<Rightarrow> gate_config \<Rightarrow> gate_config result" where
  "merge_outbound_policy_config [] merged = Inr merged"
| "merge_outbound_policy_config (kv # kvs) merged = bind_result (merge_key kv merged) (merge_outbound_policy_config kvs)"

text \<open>\<open>re.split(r"[\n,]", text)\<close>\<close>

fun split_list :: "string \<Rightarrow> string \<Rightarrow> string list" where
  "split_list item [] = [item]"
| "split_list item (c # s) =
     (if c = CHR 0x0A \<or> c = CHR '','' then item # split_list [] s else split_list (item @ [c]) s)"

definition split_config_list :: "kernel_env \<Rightarrow> string \<Rightarrow> string list result" where
  "split_config_list E raw =
     (let text = py_strip raw in
      if text = [] then Inr []
      else if hd text = CHR ''['' then bind_result (ke_json_loads E text) (\<lambda>payload. Inr (string_tuple payload))
      else Inr (dedupe_tuple (nonblank_texts (split_list [] text))))"

definition environment_policy_config :: "kernel_env \<Rightarrow> (string \<times> json) list result" where
  "environment_policy_config E =
     (let entry = (\<lambda>name key parse. if truthy_opt (ke_environ E name)
            then bind_result (parse (str_or (ke_environ E name) [])) (\<lambda>v. Inr [(key, v)]) else Inr []);
          texts = (\<lambda>raw. bind_result (split_config_list E raw) (\<lambda>ts. Inr (JArr (map JStr ts))))
      in bind_result (entry ''ORKET_OUTBOUND_POLICY_PII_FIELD_PATHS'' ''pii_field_paths'' texts) (\<lambda>a.
         bind_result (entry ''ORKET_OUTBOUND_POLICY_FORBIDDEN_PATTERNS'' ''forbidden_patterns'' texts) (\<lambda>b.
         bind_result (entry ''ORKET_OUTBOUND_POLICY_ALLOWED_OUTPUT_FIELDS'' ''allowed_output_fields'' (ke_json_loads E)) (\<lambda>c.
         Inr (a @ b @ c)))))"

definition load_outbound_policy_config :: "kernel_env \<Rightarrow> (string \<times> json) list \<Rightarrow> gate_config result" where
  "load_outbound_policy_config E config =
     bind_result (environment_policy_config E) (\<lambda>env_config.
     bind_result (merge_outbound_policy_config env_config empty_config) (merge_outbound_policy_config config))"

section \<open>Scrubbing\<close>

definition DEFAULT_SENSITIVE_KEY_TOKENS :: "string list" where
  "DEFAULT_SENSITIVE_KEY_TOKENS =
     [''api_key'', ''apikey'', ''credential'', ''email'', ''password'', ''secret'', ''ssn'', ''token'']"

record OutboundPolicyGate =
  pg_pii_field_paths :: "string list"
  pg_forbidden_patterns :: "string list"
  pg_allowed_output_fields :: "(string \<times> string list) list"
  pg_placeholder :: string
  pg_sensitive_key_tokens :: "string list"

text \<open>
  The end of an address after the at sign: the last dot that is followed by a word of at least two
  letters and by nothing of a word.
\<close>

definition address_end :: "string \<Rightarrow> nat option" where
  "address_end run =
     (let ends = [i + 1 + length w. i \<leftarrow> rev [1..<length run], run ! i = CHR ''.'',
                    w \<leftarrow> [takeWhile is_word (drop (Suc i) run)], 2 \<le> length w \<and> list_all is_alpha w]
      in case ends of [] \<Rightarrow> None | n # _ \<Rightarrow> Some n)"

text \<open>\<open>\b[\w.+-]+@[\w.-]+\.[A-Za-z]{2,}\b\<close>\<close>

definition match_email :: matcher where
  "match_email p s =
     (let local = takeWhile (\<lambda>c. is_word c \<or> c \<in> set ''.+-'') s in
      if local = [] \<or> word_before p = word_next s then None
      else case drop (length local) s of
        [] \<Rightarrow> None
      | c # t \<Rightarrow>
          (let run = takeWhile (\<lambda>c. is_word c \<or> c \<in> set ''.-'') t in
           if c \<noteq> CHR 0x40 then None else map_option (\<lambda>n. length local + 1 + n) (address_end run)))"

definition redact_emails :: "string \<Rightarrow> string \<Rightarrow> string" where
  "redact_emails repl text = re_sub match_email repl None text"

lemma redact_emails_code [code]:
  "redact_emails repl text = (if CHR 0x40 \<notin> set text then text else re_sub match_email repl None text)"
proof -
  have none: "match_email p t = None" if "CHR 0x40 \<notin> set t" for p t
  proof (cases "drop (length (takeWhile (\<lambda>c. is_word c \<or> c \<in> set ''.+-'') t)) t")
    case (Cons c u)
    then have "c \<noteq> CHR 0x40" using that by (metis in_set_dropD list.set_intros(1))
    then show ?thesis unfolding match_email_def Let_def Cons list.case by (simp only: if_True if_cancel simp_thms)
  qed (simp only: match_email_def Let_def list.case if_cancel)
  have "\<not> re_search match_email p t" if "CHR 0x40 \<notin> set t" for p t
    using that by (induction t arbitrary: p) (auto simp: none)
  then show ?thesis by (simp add: redact_emails_def re_sub_none)
qed

definition path_text :: "string list \<Rightarrow> string" where
  "path_text path = join ''.'' path"

fun split_dots :: "string \<Rightarrow> string \<Rightarrow> string list" where
  "split_dots item [] = [item]"
| "split_dots item (c # s) = (if c = CHR ''.'' then item # split_dots [] s else split_dots (item @ [c]) s)"

definition path_is_configured :: "string list \<Rightarrow> string list \<Rightarrow> bool" where
  "path_is_configured path configured_paths =
     list_ex (\<lambda>configured.
         let parts = filter (\<lambda>part. part \<noteq> []) (split_dots [] configured) in
         length parts = length path \<and> list_all2 (\<lambda>part actual. part = ''*'' \<or> part = actual) parts path)
       configured_paths"

definition key_is_sensitive :: "OutboundPolicyGate \<Rightarrow> string \<Rightarrow> bool" where
  "key_is_sensitive gate key =
     (let lowered = py_lower (py_strip key) in list_ex (\<lambda>token. contains token lowered) (pg_sensitive_key_tokens gate))"

definition event_type_for_mapping :: "string \<Rightarrow> (string \<times> json) list \<Rightarrow> string" where
  "event_type_for_mapping current_event_type value =
     (case json_get value ''event_type'' of
        JStr raw \<Rightarrow> if py_strip raw \<noteq> [] then py_strip raw else current_event_type
      | _ \<Rightarrow> current_event_type)"

definition expand_placeholder :: "kernel_env \<Rightarrow> string \<Rightarrow> string result" where
  "expand_placeholder E placeholder = (if CHR 0x5C \<in> set placeholder then ke_re_template E placeholder else Inr placeholder)"

fun sub_all :: "(string \<Rightarrow> string \<Rightarrow> string result) list \<Rightarrow> string \<Rightarrow> string \<Rightarrow> string result" where
  "sub_all [] repl text = Inr text"
| "sub_all (sub # subs) repl text = bind_result (sub repl text) (sub_all subs repl)"

text \<open>The sanitised text, and whether it differs.\<close>

definition sanitize_string ::
  "kernel_env \<Rightarrow> OutboundPolicyGate \<Rightarrow> (string \<Rightarrow> string \<Rightarrow> string result) list \<Rightarrow> string \<Rightarrow> string result" where
  "sanitize_string E gate compiled value =
     bind_result (expand_placeholder E (pg_placeholder gate)) (\<lambda>repl.
     sub_all compiled (pg_placeholder gate) (redact_emails repl (sanitize_text value)))"

fun is_composite :: "json \<Rightarrow> bool" where
  "is_composite (JObj kvs) = True"
| "is_composite (JArr xs) = True"
| "is_composite v = False"

text \<open>\<open>_scrub\<close>: the scrubbed value and the paths it appends to \<open>redacted_paths\<close>.\<close>

fun scrub ::
  "kernel_env \<Rightarrow> OutboundPolicyGate \<Rightarrow> (string \<Rightarrow> string \<Rightarrow> string result) list \<Rightarrow> string list \<Rightarrow> string \<Rightarrow> json \<Rightarrow>
   (json \<times> string list) result"
  and scrub_fields ::
  "kernel_env \<Rightarrow> OutboundPolicyGate \<Rightarrow> (string \<Rightarrow> string \<Rightarrow> string result) list \<Rightarrow> string list \<Rightarrow> string \<Rightarrow> string list option \<Rightarrow>
   (string \<times> json) list \<Rightarrow> ((string \<times> json) list \<times> string list) result"
  and scrub_items ::
  "kernel_env \<Rightarrow> OutboundPolicyGate \<Rightarrow> (string \<Rightarrow> string \<Rightarrow> string result) list \<Rightarrow> string list \<Rightarrow> string \<Rightarrow> nat \<Rightarrow>
   json list \<Rightarrow> (json list \<times> string list) result" where
  "scrub E gate compiled path event_type value =
     (if path_text path \<noteq> [] \<and> path_is_configured path (pg_pii_field_paths gate)
      then Inr (JStr (pg_placeholder gate), [path_text path])
      else case value of
        JObj kvs \<Rightarrow>
          (let child_event_type = event_type_for_mapping event_type kvs;
               allowed = (if path = [] \<or> map_of kvs ''event_type'' \<noteq> None
                 then map_of (pg_allowed_output_fields gate) child_event_type else None)
           in bind_result (scrub_fields E gate compiled path child_event_type allowed kvs) (\<lambda>(scrubbed, paths). Inr (JObj scrubbed, paths)))
      | JArr xs \<Rightarrow> bind_result (scrub_items E gate compiled path event_type 0 xs) (\<lambda>(items, paths). Inr (JArr items, paths))
      | JStr s \<Rightarrow> bind_result (sanitize_string E gate compiled s) (\<lambda>sanitized.
          Inr (JStr sanitized, if sanitized \<noteq> s then [path_text path] else []))
      | v \<Rightarrow> Inr (v, []))"
| "scrub_fields E gate compiled path event_type allowed [] = Inr ([], [])"
| "scrub_fields E gate compiled path event_type allowed ((key, child) # kvs) =
     (if (case allowed of None \<Rightarrow> False | Some names \<Rightarrow> key \<notin> set names)
      then scrub_fields E gate compiled path event_type allowed kvs
      else bind_result
        (if key_is_sensitive gate key \<and> \<not> is_composite child
         then Inr (JStr (pg_placeholder gate), [path_text (path @ [key])])
         else scrub E gate compiled (path @ [key]) event_type child) (\<lambda>(v, paths).
        bind_result (scrub_fields E gate compiled path event_type allowed kvs) (\<lambda>(scrubbed, more).
          Inr ((key, v) # scrubbed, paths @ more))))"
| "scrub_items E gate compiled path event_type i [] = Inr ([], [])"
| "scrub_items E gate compiled path event_type i (x # xs) =
     bind_result (scrub E gate compiled (path @ [str_of_nat i]) event_type x) (\<lambda>(v, paths).
     bind_result (scrub_items E gate compiled path event_type (Suc i) xs) (\<lambda>(items, more).
       Inr (v # items, paths @ more)))"

section \<open>Ledger exports\<close>

definition is_ledger_export :: "json \<Rightarrow> bool" where
  "is_ledger_export payload =
     (case payload of
        JObj kvs \<Rightarrow> json_get kvs ''schema_version'' = JStr ''ledger_export.v1'' \<and>
          (case json_get kvs ''events'' of JArr _ \<Rightarrow> True | _ \<Rightarrow> False)
      | _ \<Rightarrow> False)"

text \<open>The objects among the elements an iteration over a value yields; only arrays yield objects.\<close>

definition iterated_objects :: "json option \<Rightarrow> (string \<times> json) list list result" where
  "iterated_objects v =
     (case v of
        None \<Rightarrow> Inr []
      | Some (JArr xs) \<Rightarrow> Inr [kvs. JObj kvs \<leftarrow> xs]
      | Some (JStr _) \<Rightarrow> Inr []
      | Some (JObj _) \<Rightarrow> Inr []
      | Some _ \<Rightarrow> Inl (TypeError ''object is not iterable''))"

fun int_fields :: "string \<Rightarrow> (string \<times> json) list list \<Rightarrow> int list result" where
  "int_fields key [] = Inr []"
| "int_fields key (kvs # rest) =
     bind_result (py_int (json_get kvs key)) (\<lambda>i. bind_result (int_fields key rest) (\<lambda>is. Inr (i # is)))"

text \<open>\<open>payload.get("canonical", {}).get(key)\<close> and the form with \<open>or {}\<close>\<close>

definition canonical_field :: "json \<Rightarrow> string \<Rightarrow> json result" where
  "canonical_field canonical key =
     (case canonical of
        JObj kvs \<Rightarrow> Inr (json_get kvs key)
      | _ \<Rightarrow> Inl (AttributeError ''object has no attribute get''))"

definition canonical_event_count :: "(string \<times> json) list \<Rightarrow> nat \<Rightarrow> int result" where
  "canonical_event_count original events =
     bind_result (canonical_field (case map_of original ''canonical'' of None \<Rightarrow> JObj [] | Some c \<Rightarrow> c) ''event_count'') (\<lambda>v.
       if json_truthy v then py_int v else Inr (int events))"

definition canonical_ledger_hash :: "(string \<times> json) list \<Rightarrow> string result" where
  "canonical_ledger_hash original =
     (let canonical = json_get original ''canonical'' in
      bind_result (canonical_field (if json_truthy canonical then canonical else JObj []) ''ledger_hash'') (\<lambda>v. Inr (str_or_empty v)))"

definition gate_span :: "(int \<times> string) list \<Rightarrow> string \<Rightarrow> nat \<times> nat \<Rightarrow> json" where
  "gate_span chain_by_position ledger_hash bounds =
     (case bounds of (start, end_position) \<Rightarrow>
      let at = (\<lambda>i d. case map_of chain_by_position i of None \<Rightarrow> d | Some h \<Rightarrow> h) in JObj
      [(''from_position'', JInt (int start)), (''to_position'', JInt (int end_position)),
       (''previous_chain_hash'', JStr (if start = 1 then ''GENESIS'' else at (int start - 1) [])),
       (''next_chain_hash'', JStr (at (int end_position) ledger_hash))])"

text \<open>
  The table of chain hashes by position, the last entry for a position first. The loops over positions
  are those of \<open>OutwardLedgerService._omitted_spans\<close>.
\<close>

definition ledger_omitted_spans :: "(string \<times> json) list \<Rightarrow> int list \<Rightarrow> int \<Rightarrow> json list result" where
  "ledger_omitted_spans original disclosed_positions canonical_count =
     bind_result (iterated_objects (map_of original ''events'')) (\<lambda>events.
     bind_result (int_fields ''position'' events) (\<lambda>event_positions.
     bind_result (iterated_objects (map_of original ''omitted_spans'')) (\<lambda>spans.
     bind_result (int_fields ''to_position'' spans) (\<lambda>span_ends.
     bind_result (canonical_ledger_hash original) (\<lambda>ledger_hash.
       let by_event = zip event_positions (map (\<lambda>e. str_or_empty (json_get e ''chain_hash'')) events);
           by_span = zip span_ends (map (\<lambda>s. str_or_empty (json_get s ''next_chain_hash'')) spans);
           chain_by_position = rev by_span @ rev by_event @ (if 0 < canonical_count then [(canonical_count, ledger_hash)] else [])
       in Inr (map (gate_span chain_by_position ledger_hash)
            (omitted_ranges (nat canonical_count) (map nat (filter (\<lambda>p. 0 \<le> p) disclosed_positions)) 1)))))))"

definition redacted_positions :: "(string \<times> json) list list \<Rightarrow> (string \<times> json) list list \<Rightarrow> int list result" where
  "redacted_positions original_events scrubbed_events =
     int_fields ''position'' (map fst (filter (\<lambda>(a, b). \<not> py_eq (JObj a) (JObj b)) (zip original_events scrubbed_events)))"

text \<open>\<open>transformed[key] = {**transformed[key], ...}\<close> when the value is not empty\<close>

definition update_block :: "string \<Rightarrow> (string \<times> json) list \<Rightarrow> (string \<times> json) list \<Rightarrow> (string \<times> json) list result" where
  "update_block key entries transformed =
     bind_result (py_dict_or_empty (json_get transformed key)) (\<lambda>block. Inr
       (if block = [] then transformed
        else AList.update key (JObj (fold (\<lambda>(k, v). AList.update k v) entries block)) transformed))"

definition preserve_ledger_export_truth :: "json \<Rightarrow> json \<Rightarrow> (json \<times> int list option) result" where
  "preserve_ledger_export_truth original scrubbed =
     (case (original, scrubbed) of
        (JObj orig, JObj scr) \<Rightarrow>
          if \<not> is_ledger_export original then Inr (scrubbed, None)
          else
            bind_result (iterated_objects (map_of orig ''events'')) (\<lambda>original_events.
            bind_result (iterated_objects (map_of scr ''events'')) (\<lambda>scrubbed_events.
            bind_result (redacted_positions original_events scrubbed_events) (\<lambda>redacted.
            if redacted = [] then Inr (scrubbed, Some [])
            else
              bind_result (int_fields ''position'' original_events) (\<lambda>positions.
              let final_disclosed = filter (\<lambda>(p, _). p \<notin> set redacted) (zip positions original_events) in
              bind_result (canonical_event_count orig (length original_events)) (\<lambda>canonical_count.
              bind_result (ledger_omitted_spans orig (map fst final_disclosed) canonical_count) (\<lambda>spans.
              let transformed = fold (\<lambda>(k, v). AList.update k v)
                    [(''export_scope'', JStr ''partial_view''), (''events'', JArr (map (\<lambda>(_, e). JObj e) final_disclosed)),
                     (''omitted_spans'', JArr spans),
                     (''verification'', JObj [(''result'', JStr ''partial_valid''), (''meaning'', JStr ''partial verified view'')])] scr in
              bind_result (update_block ''summary'' [(''exported_event_count'', JInt (int (length final_disclosed)))] transformed) (\<lambda>transformed.
              bind_result (update_block ''policy_snapshot'' [(''payload_bytes'', JStr ''partial_disclosure''),
                  (''outbound_policy_gate'', JStr ''redacted_to_partial_view'')] transformed) (\<lambda>transformed.
              Inr (JObj transformed, Some (sort (remdups redacted)))))))))))
      | _ \<Rightarrow> Inr (scrubbed, None))"

section \<open>The gate\<close>

record gate_report =
  gr_redaction_count :: nat
  gr_redacted_paths :: "string list"
  gr_ledger_redacted_event_positions :: "int list option"

fun compile_patterns :: "kernel_env \<Rightarrow> string list \<Rightarrow> (string \<Rightarrow> string \<Rightarrow> string result) list result" where
  "compile_patterns E [] = Inr []"
| "compile_patterns E (p # ps) =
     bind_result (ke_re_compile E p) (\<lambda>sub. bind_result (compile_patterns E ps) (\<lambda>subs. Inr (sub # subs)))"

definition filter_with_report :: "kernel_env \<Rightarrow> OutboundPolicyGate \<Rightarrow> string \<Rightarrow> json \<Rightarrow> (json \<times> gate_report) result" where
  "filter_with_report E gate event_type payload =
     bind_result (compile_patterns E (pg_forbidden_patterns gate)) (\<lambda>compiled.
     bind_result (scrub E gate compiled [] event_type payload) (\<lambda>(scrubbed_payload, redacted_paths).
     bind_result (preserve_ledger_export_truth payload scrubbed_payload) (\<lambda>(final_payload, ledger_positions). Inr
       (final_payload,
        \<lparr>gr_redaction_count = length redacted_paths,
         gr_redacted_paths = sort (remdups (filter (\<lambda>p. p \<noteq> []) redacted_paths)),
         gr_ledger_redacted_event_positions = ledger_positions\<rparr>))))"

definition resolve_event_type :: "json \<Rightarrow> gate_config \<Rightarrow> string" where
  "resolve_event_type payload config =
     (let text = (\<lambda>kvs key. py_strip (str_or_empty (json_get kvs key))) in
      if text (gc_other config) ''event_type'' \<noteq> [] then text (gc_other config) ''event_type''
      else if text (gc_other config) ''surface'' \<noteq> [] then text (gc_other config) ''surface''
      else case payload of
        JObj kvs \<Rightarrow> if text kvs ''event_type'' \<noteq> [] then text kvs ''event_type'' else ''default''
      | _ \<Rightarrow> ''default'')"

definition sensitive_tokens :: "gate_config \<Rightarrow> string list result" where
  "sensitive_tokens config =
     (case map_of (gc_other config) ''sensitive_keys'' of
        None \<Rightarrow> Inr DEFAULT_SENSITIVE_KEY_TOKENS
      | Some v \<Rightarrow>
          bind_result (case v of
              JArr xs \<Rightarrow> Inr (map py_str_json xs)
            | JStr s \<Rightarrow> Inr (map (\<lambda>c. [c]) s)
            | JObj kvs \<Rightarrow> Inr (map fst kvs)
            | _ \<Rightarrow> Inl (TypeError ''object is not iterable'')) (\<lambda>tokens. Inr (map py_lower (nonblank_texts tokens))))"

definition apply_outbound_policy_gate :: "kernel_env \<Rightarrow> json \<Rightarrow> (string \<times> json) list \<Rightarrow> (json \<times> gate_report) result" where
  "apply_outbound_policy_gate E payload config =
     bind_result (load_outbound_policy_config E config) (\<lambda>gate_config.
     bind_result (sensitive_tokens gate_config) (\<lambda>tokens.
       let placeholder = str_or_empty (json_get (gc_other gate_config) ''placeholder'') in
       filter_with_report E
         \<lparr>pg_pii_field_paths = gc_pii_field_paths gate_config, pg_forbidden_patterns = gc_forbidden_patterns gate_config,
          pg_allowed_output_fields = gc_allowed_output_fields gate_config,
          pg_placeholder = (if placeholder = [] then ''[REDACTED]'' else placeholder),
          pg_sensitive_key_tokens = tokens\<rparr>
         (resolve_event_type payload gate_config) payload))"

section \<open>What leaves the gate\<close>

text \<open>No scalar stands under a sensitive key, except the placeholder.\<close>

fun scrubbed_value :: "OutboundPolicyGate \<Rightarrow> json \<Rightarrow> bool" where
  "scrubbed_value gate (JObj kvs) \<longleftrightarrow>
     (\<forall>kv \<in> set kvs. (key_is_sensitive gate (fst kv) \<longrightarrow> is_composite (snd kv) \<or> snd kv = JStr (pg_placeholder gate)) \<and>
        scrubbed_value gate (snd kv))"
| "scrubbed_value gate (JArr xs) \<longleftrightarrow> (\<forall>x \<in> set xs. scrubbed_value gate x)"
| "scrubbed_value gate v \<longleftrightarrow> True"

lemma scrub_keeps_shape:
  assumes "scrub E gate compiled path et v = Inr (v', ps)"
  shows "is_composite v' \<longrightarrow> is_composite v" and "is_composite v \<longrightarrow> is_composite v' \<or> v' = JStr (pg_placeholder gate)"
  using assms by (auto simp: bind_result_def Let_def split: if_splits json.splits sum.splits)

lemma scrub_clean:
  shows "scrub E gate compiled path et v = Inr (v', ps) \<Longrightarrow> scrubbed_value gate v'"
    and "scrub_fields E gate compiled path et allowed kvs = Inr (kvs', ps') \<Longrightarrow> scrubbed_value gate (JObj kvs')"
    and "scrub_items E gate compiled path et i xs = Inr (xs', ps'') \<Longrightarrow> scrubbed_value gate (JArr xs')"
proof (induction E gate compiled path et v and E gate compiled path et allowed kvs and E gate compiled path et i xs
    arbitrary: v' ps and kvs' ps' and xs' ps'' rule: scrub_scrub_fields_scrub_items.induct)
  case (1 E gate compiled path et v)
  show ?case
  proof (cases "path_text path \<noteq> [] \<and> path_is_configured path (pg_pii_field_paths gate)")
    case True
    then show ?thesis using 1(3) by auto
  next
    case False
    then show ?thesis
      using 1 by (cases v) (auto simp: Let_def bind_result_def simp del: scrubbed_value.simps(1,2) split: sum.splits prod.splits)
  qed
next
  case (3 E gate compiled path et allowed key child kvs)
  show ?case
  proof (cases "case allowed of None \<Rightarrow> False | Some names \<Rightarrow> key \<notin> set names")
    case True
    then show ?thesis using 3 by simp
  next
    case False
    define field where "field = (if key_is_sensitive gate key \<and> \<not> is_composite child
         then Inr (JStr (pg_placeholder gate), [path_text (path @ [key])])
         else scrub E gate compiled (path @ [key]) et child)"
    obtain v ps fs more where v: "field = Inr (v, ps)" and fs: "scrub_fields E gate compiled path et allowed kvs = Inr (fs, more)"
      and kvs': "kvs' = (key, v) # fs"
      using 3(4) False unfolding scrub_fields.simps field_def [symmetric]
      by (auto simp: bind_result_Inr_iff)
    have "scrubbed_value gate (JObj fs)" using 3(3) False v fs unfolding field_def by (cases "key_is_sensitive gate key \<and> \<not> is_composite child") fastforce+
    moreover have "scrubbed_value gate v \<and> (key_is_sensitive gate key \<longrightarrow> is_composite v \<or> v = JStr (pg_placeholder gate))"
    proof (cases "key_is_sensitive gate key \<and> \<not> is_composite child")
      case True
      then show ?thesis using v by (auto simp: field_def)
    next
      case other: False
      then have s: "scrub E gate compiled (path @ [key]) et child = Inr (v, ps)" using v unfolding field_def by (simp only: if_False)
      then show ?thesis using 3(2) [OF False other s] scrub_keeps_shape(2) [OF s] other by blast
    qed
    ultimately show ?thesis by (simp add: kvs')
  qed
next
  case (5 E gate compiled path et i x xs)
  then show ?case by (fastforce simp: bind_result_Inr_iff)
qed auto

text \<open>
  C18: nothing stands under a sensitive key when a payload that is not a ledger export leaves the gate: at
  every depth, a field whose name contains a sensitive word holds the placeholder, an array or an object.
  Ledger exports, whose events leave unchanged or not at all, are excepted: the gate puts the original
  events back.
\<close>

theorem gate_redacts_sensitive_keys:
  assumes "filter_with_report E gate event_type payload = Inr (final, rep)" and "\<not> is_ledger_export payload"
  shows "scrubbed_value gate final"
proof -
  obtain compiled scr paths where "scrub E gate compiled [] event_type payload = Inr (scr, paths)"
    and "preserve_ledger_export_truth payload scr = Inr (final, gr_ledger_redacted_event_positions rep)"
    using assms(1) by (auto simp: filter_with_report_def bind_result_Inr_iff)
  moreover from this(2) have "final = scr" using assms(2) by (auto simp: preserve_ledger_export_truth_def split: json.splits)
  ultimately show ?thesis using scrub_clean(1) by blast
qed

definition demo_gate :: OutboundPolicyGate where
  "demo_gate =
     \<lparr>pg_pii_field_paths = [], pg_forbidden_patterns = [], pg_allowed_output_fields = [],
      pg_placeholder = ''[REDACTED]'', pg_sensitive_key_tokens = DEFAULT_SENSITIVE_KEY_TOKENS\<rparr>"

theorem gate_redacts_sensitive_keys_witness:
  "\<exists>rep. filter_with_report demo_kernel_env demo_gate ''default'' (JArr [JObj [(''Password'', JInt 7)]]) =
     Inr (JArr [JObj [(''Password'', JStr ''[REDACTED]'')]], rep) \<and> scrubbed_value demo_gate (JArr [JObj [(''Password'', JStr ''[REDACTED]'')]])"
proof -
  have "filter_with_report demo_kernel_env demo_gate ''default'' (JArr [JObj [(''Password'', JInt 7)]]) =
      Inr (JArr [JObj [(''Password'', JStr ''[REDACTED]'')]],
        \<lparr>gr_redaction_count = 1, gr_redacted_paths = [''0.Password''], gr_ledger_redacted_event_positions = None\<rparr>)"
    by code_simp
  moreover have "\<not> is_ledger_export (JArr [JObj [(''Password'', JInt 7)]])" by (simp add: is_ledger_export_def)
  ultimately show ?thesis using gate_redacts_sensitive_keys by blast
qed

end
