(* ===== verification/Outbound_Disclosure.thy ===== *)
theory Outbound_Disclosure
  imports Outbound_Gate
begin

text \<open>
  The outbound gate and the ledger service together: a ledger export that the gate had to redact leaves
  as a partial view, and this view still passes the offline verification. The gate rebuilds the omitted
  spans from the export alone; the lemmas show that every anchor it needs is in the export.
\<close>

section \<open>Bounds of omitted ranges\<close>

lemma omitted_range_edges:
  "(s, e) \<in> set (omitted_ranges n disclosed p) \<Longrightarrow>
     (s = p \<or> s - 1 \<in> set disclosed) \<and> (e = n \<or> Suc e \<in> set disclosed)"
proof (induction n disclosed p rule: omitted_ranges.induct)
  case (1 n disclosed p)
  let ?q = "span_end n disclosed p"
  have stop: "p \<le> n \<Longrightarrow> p \<notin> set disclosed \<Longrightarrow> p < ?q \<and> (?q = Suc n \<or> ?q \<in> set disclosed)"
    using span_end_stops [of n disclosed p] span_end_gt [of p n disclosed] span_end_le [of p n disclosed] by auto
  have next_start: "s = ?q \<or> s - 1 \<in> set disclosed \<Longrightarrow> s - 1 \<in> set disclosed"
    if "(s, e) \<in> set (omitted_ranges n disclosed ?q)" "?q = Suc n \<or> ?q \<in> set disclosed"
    using that omitted_range_bounds [OF that(1)] by auto
  show ?case
  proof (cases "p \<le> n")
    case le: True
    show ?thesis
    proof (cases "p \<in> set disclosed")
      case True
      then have "(s, e) \<in> set (omitted_ranges n disclosed (Suc p))" using 1(3) le by (simp add: omitted_ranges.simps [of n disclosed p])
      then show ?thesis using 1(1) [OF le True] True by auto
    next
      case False
      then consider "s = p" "e = ?q - 1" | "(s, e) \<in> set (omitted_ranges n disclosed ?q)"
        using 1(3) le by (auto simp: omitted_ranges.simps [of n disclosed p])
      then show ?thesis
      proof cases
        case 1
        then show ?thesis using stop [OF le False] by auto
      next
        case 2
        then show ?thesis using 1(2) [OF le False 2] next_start stop [OF le False] by auto
      qed
    qed
  qed (use 1(3) in \<open>simp add: omitted_ranges.simps [of n disclosed p]\<close>)
qed

text \<open>With fewer positions disclosed, a range still ends at a position disclosed before, or where one ended.\<close>

lemma omitted_range_end_known:
  assumes "(s, e) \<in> set (omitted_ranges n kept 1)" and "set kept \<subseteq> set disclosed"
  shows "e \<in> set disclosed \<or> (\<exists>s'. (s', e) \<in> set (omitted_ranges n disclosed 1))"
proof (cases "e \<in> set disclosed")
  case False
  have e: "1 \<le> e" "e \<le> n" using omitted_range_bounds [OF assms(1)] by auto
  then have "e \<in> (\<Union>(s, e) \<in> set (omitted_ranges n disclosed 1). {s..e})" using False by (simp add: omitted_ranges_cover)
  then obtain s' e' where r: "(s', e') \<in> set (omitted_ranges n disclosed 1)" "s' \<le> e" "e \<le> e'" by auto
  have "e' = e"
  proof (rule ccontr)
    assume "e' \<noteq> e"
    then have lt: "e < e'" using r(3) by simp
    then have "Suc e \<notin> set disclosed" "e' \<le> n" using omitted_range_bounds [OF r(1)] r(2) by auto
    then show False using omitted_range_edges [OF assms(1)] lt assms(2) by auto
  qed
  then show ?thesis using r(1) by blast
qed simp

section \<open>Views of a hashed run\<close>

definition span_fields :: "(string \<Rightarrow> string) \<Rightarrow> LedgerEvent list \<Rightarrow> nat \<times> nat \<Rightarrow> (string \<times> json) list" where
  "span_fields sha256 es bounds =
     (case bounds of (s, e) \<Rightarrow> [(''from_position'', JInt (int s)), (''to_position'', JInt (int e)),
        (''previous_chain_hash'', JStr (chain_at sha256 es (s - 1))), (''next_chain_hash'', JStr (chain_at sha256 es e))])"

lemma span_fields_get [simp]:
  "json_get (span_fields sha256 es (s, e)) ''to_position'' = JInt (int e)"
  "json_get (span_fields sha256 es (s, e)) ''next_chain_hash'' = JStr (chain_at sha256 es e)"
  by (simp_all add: span_fields_def json_get_def)

lemma span_object:
  assumes "hashed_run sha256 es hs" and "1 \<le> s" and "s \<le> e" and "e \<le> length es"
  shows "JObj [(''from_position'', JInt (int s)), (''to_position'', JInt (int e)),
        (''previous_chain_hash'', JStr (if s = 1 then GENESIS_CHAIN_HASH else chain_hash_str (hs ! (s - 2)))),
        (''next_chain_hash'', JStr (chain_hash_str (hs ! (e - 1))))] = JObj (span_fields sha256 es (s, e))"
  using hashed_run_chain [OF assms(1), of "s - 1"] hashed_run_chain [OF assms(1), of e] assms(2-)
  by (auto simp: span_fields_def numeral_2_eq_2)

lemma range_in_run:
  "(s, e) \<in> set (omitted_ranges (length hs) disclosed 1) \<Longrightarrow> hashed_run sha256 es hs \<Longrightarrow> 1 \<le> s \<and> s \<le> e \<and> e \<le> length es"
  using omitted_range_bounds [of s e "length hs" disclosed 1] by (auto simp: hashed_run_def)

lemma omitted_spans_fields:
  assumes "hashed_run sha256 es hs"
  shows "omitted_spans hs disclosed = map (\<lambda>r. JObj (span_fields sha256 es r)) (omitted_ranges (length hs) disclosed 1)"
  unfolding omitted_spans_def
proof (rule map_cong [OF refl])
  fix r assume r: "r \<in> set (omitted_ranges (length hs) disclosed 1)"
  obtain s e where se: "r = (s, e)" by (cases r)
  show "(case r of (s, e) \<Rightarrow> JObj [(''from_position'', JInt (int s)), (''to_position'', JInt (int e)),
        (''previous_chain_hash'', JStr (if s = 1 then GENESIS_CHAIN_HASH else chain_hash_str (hs ! (s - 2)))),
        (''next_chain_hash'', JStr (chain_hash_str (hs ! (e - 1))))]) = JObj (span_fields sha256 es r)"
    using span_object [OF assms] range_in_run [of s e hs disclosed, OF _ assms] r unfolding se prod.case by blast
qed

lemma hashed_run_genuine: "hashed_run sha256 es hs \<Longrightarrow> h \<in> set hs \<Longrightarrow> genuine sha256 es h"
  by (auto simp: hashed_run_def in_set_conv_nth)

lemma verify_view_events:
  assumes "hashed_run sha256 es hs"
  shows "verify_events sha256 ''partial_view'' (map (\<lambda>h. JObj (export_event h)) (filter P hs)) (verify_start []) =
    Inr (verified_state sha256 es (filter P hs))"
proof -
  have "\<forall>h \<in> set (filter P hs). genuine sha256 es h" using hashed_run_genuine [OF assms] by simp
  then have "verify_events sha256 ''partial_view'' (map (\<lambda>h. JObj (export_event h)) (filter P hs)) (verify_start []) = Inr
    (let positions = map he_position (filter P hs); q = last (0 # positions) in
     \<lparr>vs_positions = rev (map int positions) @ vs_positions (verify_start []),
      vs_disclosed_chains = rev (map (\<lambda>i. (int i, chain_at sha256 es i)) positions) @ vs_disclosed_chains (verify_start []),
      vs_previous_position = int q, vs_previous_disclosed_chain = chain_at sha256 es q,
      vs_errors = vs_errors (verify_start [])\<rparr>)"
    using sorted_filter_positions [OF assms] by (intro verify_disclosed) (auto simp: genuine_def verify_start_def)
  then show ?thesis by (simp add: verified_state_def verify_start_def Let_def)
qed

lemma verify_view_spans:
  assumes run: "hashed_run sha256 es hs" and ds: "ds = filter P hs"
    and spans: "json_get p ''omitted_spans'' = JArr (map (\<lambda>r. JObj (span_fields sha256 es r)) (omitted_ranges (length hs) (map he_position ds) 1))"
  shows "verify_partial_export p (map (\<lambda>h. JObj (export_event h)) ds) (int (length hs)) (ledger_hash_of hs) (verified_state sha256 es ds) = Inr []"
proof -
  have len: "length hs = length es" using run by (simp add: hashed_run_def)
  have sub: "set ds \<subseteq> set hs" and dist: "distinct (map he_position ds)"
    using sorted_filter_positions [OF run, of P] by (auto simp: ds strict_sorted_iff)
  have "\<forall>h \<in> set hs. he_position h \<le> length es" using run by (auto simp: hashed_run_def genuine_def in_set_conv_nth)
  then have "\<not> list_ex (\<lambda>n. int (length hs) < n) (vs_positions (verified_state sha256 es ds))"
    using sub by (auto simp: verified_state_def Let_def list_ex_iff len not_less)
  moreover have "set (vs_positions (verified_state sha256 es ds)) = set (map int (map he_position ds))"
    by (simp add: verified_state_def Let_def)
  moreover have "verify_spans (map (\<lambda>h. JObj (export_event h)) ds) (int (length hs)) (ledger_hash_of hs) (verified_state sha256 es ds)
      (map (\<lambda>r. JObj (span_fields sha256 es r)) (omitted_ranges (length hs) (map he_position ds) 1)) =
      Inr (concat (map (\<lambda>(s, e). [int s..int e]) (omitted_ranges (length hs) (map he_position ds) 1)), [])"
    using verify_genuine_spans [OF run sub dist order.refl] unfolding omitted_spans_def [symmetric] omitted_spans_fields [OF run] .
  ultimately show ?thesis
    using ranges_cover_int [of "length hs" "map he_position ds"]
    by (simp add: verify_partial_export_def spans note_if_def Let_def)
qed

section \<open>The spans of the gate\<close>

lemma int_fields_map: "(\<And>x. x \<in> set xs \<Longrightarrow> json_get (f x) key = JInt (g x)) \<Longrightarrow> int_fields key (map f xs) = Inr (map g xs)"
  by (induction xs) (auto simp: py_int_def)

lemma iterated_map_JObj [simp]: "iterated_objects (Some (JArr (map (\<lambda>x. JObj (f x)) xs))) = Inr (map f xs)"
  by (induction xs) (auto simp: iterated_objects_def)

lemma export_payload_map_of:
  "map_of (export_payload run groups pii hs) ''events'' = Some (JArr (map (\<lambda>h. JObj (export_event h)) (disclosed_events hs groups)))"
  "map_of (export_payload run groups pii hs) ''omitted_spans'' = Some (JArr (omitted_spans hs (map he_position (disclosed_events hs groups))))"
  "map_of (export_payload run groups pii hs) ''canonical'' = Some (json_get (export_payload run groups pii hs) ''canonical'')"
  by (simp_all add: export_payload_def json_get_def Let_def)

lemma chain_lookup:
  assumes "\<forall>(k, h) \<in> set tab. h = c k" and "k \<in> fst ` set tab"
  shows "map_of tab k = Some (c k)"
  using assms by (induction tab) auto

lemma gate_spans_genuine:
  assumes run: "hashed_run sha256 es hs" and ds: "ds = disclosed_events hs groups" and kept: "set kept \<subseteq> set ds" and ne: "hs \<noteq> []"
    and hash: "ledger_hash_of hs = chain_at sha256 es (length es)"
  shows "ledger_omitted_spans (export_payload r groups pii hs) (map (\<lambda>h. int (he_position h)) kept) (int (length hs)) =
    Inr (map (\<lambda>r. JObj (span_fields sha256 es r)) (omitted_ranges (length hs) (map he_position kept) 1))"
proof -
  let ?ranges = "omitted_ranges (length hs) (map he_position ds) 1" and ?n = "length hs"
  define by_event where "by_event = zip (map (\<lambda>h. int (he_position h)) ds) (map (\<lambda>e. str_or_empty (json_get e ''chain_hash'')) (map export_event ds))"
  define by_span where "by_span = zip (map (\<lambda>r. int (snd r)) ?ranges) (map (\<lambda>s. str_or_empty (json_get s ''next_chain_hash'')) (map (span_fields sha256 es) ?ranges))"
  define tab where "tab = rev by_span @ rev by_event @ [(int ?n, ledger_hash_of hs)]"
  have gen: "genuine sha256 es h" if "h \<in> set ds" for h
    using hashed_run_genuine [OF run] that unfolding ds by (auto simp: disclosed_events_def split: if_splits)
  have len: "length hs = length es" using run by (simp add: hashed_run_def)
  have ev: "by_event = map (\<lambda>h. (int (he_position h), chain_at sha256 es (he_position h))) ds"
    using gen unfolding by_event_def by (induction ds) (auto simp: genuine_def json_opt_str_def)
  have sp: "by_span = map (\<lambda>(s, e). (int e, chain_at sha256 es e)) ?ranges"
  proof -
    have "zip (map (\<lambda>r. int (snd r)) rs) (map (\<lambda>s. str_or_empty (json_get s ''next_chain_hash'')) (map (span_fields sha256 es) rs)) =
        map (\<lambda>(s, e). (int e, chain_at sha256 es e)) rs" for rs by (induction rs) auto
    then show ?thesis unfolding by_span_def by blast
  qed
  have consistent: "\<forall>(k, h) \<in> set tab. h = chain_at sha256 es (nat k)"
    unfolding tab_def ev sp using hash len by auto
  have "ledger_omitted_spans (export_payload r groups pii hs) (map (\<lambda>h. int (he_position h)) kept) (int ?n) =
      Inr (map (gate_span tab (ledger_hash_of hs)) (omitted_ranges ?n (map he_position kept) 1))"
  proof -
    have "canonical_ledger_hash (export_payload r groups pii hs) = Inr (ledger_hash_of hs)"
      by (simp add: canonical_ledger_hash_def canonical_field_def) (simp add: json_get_def)
    moreover have "int_fields ''position'' (map export_event ds) = Inr (map (\<lambda>h. int (he_position h)) ds)" by (rule int_fields_map) simp
    moreover have "int_fields ''to_position'' (map (span_fields sha256 es) ?ranges) = Inr (map (\<lambda>r. int (snd r)) ?ranges)"
      by (rule int_fields_map) (auto simp: prod.case_eq_if split: prod.splits)
    moreover have "map nat (filter ((\<le>) 0) (map (\<lambda>h. int (he_position h)) kept)) = map he_position kept" by (induction kept) auto
    ultimately show ?thesis
      using ne unfolding ledger_omitted_spans_def export_payload_map_of omitted_spans_fields [OF run] ds [symmetric]
      by (simp add: tab_def by_event_def by_span_def Let_def comp_def)
  qed
  also have "map (gate_span tab (ledger_hash_of hs)) (omitted_ranges ?n (map he_position kept) 1) =
      map (\<lambda>r. JObj (span_fields sha256 es r)) (omitted_ranges ?n (map he_position kept) 1)"
  proof (rule map_cong [OF refl])
    fix b assume b: "b \<in> set (omitted_ranges ?n (map he_position kept) 1)"
    obtain s e where se: "b = (s, e)" by (cases b)
    note bounds = range_in_run [OF b [unfolded se] run] and edges = omitted_range_edges [OF b [unfolded se]]
    have "int e \<in> fst ` set tab"
      using omitted_range_end_known [OF b [unfolded se], of "map he_position ds"] kept unfolding tab_def ev sp by force
    then have e: "map_of tab (int e) = Some (chain_at sha256 es e)" using chain_lookup [OF consistent] by simp
    have s: "map_of tab (int s - 1) = Some (chain_at sha256 es (s - 1))" if "s \<noteq> 1"
    proof -
      have "s - 1 \<in> he_position ` set ds" using edges that kept by auto
      then have "int s - 1 \<in> fst ` set tab" unfolding tab_def ev using bounds by (force simp: of_nat_diff)
      then show ?thesis using chain_lookup [OF consistent] bounds by (simp add: nat_diff_distrib)
    qed
    show "gate_span tab (ledger_hash_of hs) b = JObj (span_fields sha256 es b)"
      using e s bounds unfolding se by (cases "s = 1") (auto simp: gate_span_def span_fields_def Let_def GENESIS_CHAIN_HASH_def [symmetric])
  qed
  finally show ?thesis .
qed

section \<open>Redacted exports verify\<close>

lemma json_get_update: "json_get (AList.update k v kvs) k' = (if k' = k then v else json_get kvs k')"
  by (simp add: json_get_def update_conv')

lemma update_block_get: "update_block key entries kvs = Inr kvs' \<Longrightarrow> k \<noteq> key \<Longrightarrow> json_get kvs' k = json_get kvs k"
  by (auto simp: update_block_def bind_result_Inr_iff json_get_update split: if_splits)

lemma int_fields_mem: "int_fields key xs = Inr is \<Longrightarrow> x \<in> set xs \<Longrightarrow> json_get x key = JInt i \<Longrightarrow> i \<in> set is"
  by (induction xs arbitrary: "is") (auto simp: bind_result_Inr_iff py_int_def)

lemma redacted_mem:
  "redacted_positions oes ses = Inr R \<Longrightarrow> (x, y) \<in> set (zip oes ses) \<Longrightarrow> \<not> py_eq (JObj x) (JObj y) \<Longrightarrow>
     json_get x ''position'' = JInt i \<Longrightarrow> i \<in> set R"
  unfolding redacted_positions_def by (rule int_fields_mem) force+

text \<open>The fields of a redacted export, from the run it was made of.\<close>

lemma preserved_export:
  assumes run: "hashed_run sha256 es hs" and payload: "payload = export_payload r groups pii hs"
    and scr: "json_get scr ''events'' = JArr (map (\<lambda>x. JObj (f x)) ses)"
    and preserve: "preserve_ledger_export_truth (JObj payload) (JObj scr) = Inr (JObj final, Some (p # ps))"
  shows "\<exists>R ds. redacted_positions (map export_event (disclosed_events hs groups)) (map f ses) = Inr R \<and>
    ds = filter (\<lambda>h. int (he_position h) \<notin> set R) (disclosed_events hs groups) \<and>
    json_get final ''export_scope'' = JStr ''partial_view'' \<and>
    json_get final ''events'' = JArr (map (\<lambda>h. JObj (export_event h)) ds) \<and>
    json_get final ''omitted_spans'' = JArr (map (\<lambda>r. JObj (span_fields sha256 es r)) (omitted_ranges (length hs) (map he_position ds) 1)) \<and>
    json_get final ''schema_version'' = json_get scr ''schema_version'' \<and> json_get final ''canonical'' = json_get scr ''canonical''"
proof -
  let ?D = "disclosed_events hs groups"
  have export: "is_ledger_export (JObj payload)"
    unfolding is_ledger_export_def json.case payload export_payload_get SCHEMA_VERSION_def by simp
  have events: "iterated_objects (map_of payload ''events'') = Inr (map export_event ?D)"
    unfolding payload export_payload_map_of by simp
  have "map_of scr ''events'' = Some (JArr (map (\<lambda>x. JObj (f x)) ses))" using scr by (auto simp: json_get_def split: option.splits)
  then have scrubbed: "iterated_objects (map_of scr ''events'') = Inr (map f ses)" by simp
  obtain R where R: "redacted_positions (map export_event ?D) (map f ses) = Inr R"
    using preserve export events scrubbed unfolding preserve_ledger_export_truth_def by (auto simp: bind_result_Inr_iff)
  have ne: "R \<noteq> []" using preserve export events scrubbed R unfolding preserve_ledger_export_truth_def by auto
  then have "?D \<noteq> []" using R by (auto simp: redacted_positions_def)
  then have hs: "hs \<noteq> []" by (auto simp: disclosed_events_def)
  have positions: "int_fields ''position'' (map export_event ?D) = Inr (map (\<lambda>h. int (he_position h)) ?D)" by (rule int_fields_map) simp
  define ds where "ds = filter (\<lambda>h. int (he_position h) \<notin> set R) ?D"
  have final_ds: "filter (\<lambda>(p, _). p \<notin> set R) (zip (map (\<lambda>h. int (he_position h)) xs) (map export_event xs)) =
      map (\<lambda>h. (int (he_position h), export_event h)) (filter (\<lambda>h. int (he_position h) \<notin> set R) xs)" for xs by (induction xs) auto
  have count: "canonical_event_count payload (length (map export_event ?D)) = Inr (int (length hs))"
    using hs unfolding canonical_event_count_def payload export_payload_map_of export_payload_get option.case canonical_field_def json.case
    by (simp add: json_get_def py_int_def)
  have spans: "ledger_omitted_spans payload (map (\<lambda>h. int (he_position h)) ds) (int (length hs)) =
      Inr (map (\<lambda>r. JObj (span_fields sha256 es r)) (omitted_ranges (length hs) (map he_position ds) 1))"
    unfolding payload by (rule gate_spans_genuine [OF run refl _ hs hashed_run_ledger_hash [OF run]]) (auto simp: ds_def)
  have fst_ds: "map fst (map (\<lambda>h. (int (he_position h), export_event h)) ds) = map (\<lambda>h. int (he_position h)) ds"
    and snd_ds: "map (\<lambda>(_, e). JObj e) (map (\<lambda>h. (int (he_position h), export_event h)) ds) = map (\<lambda>h. JObj (export_event h)) ds" by simp_all
  define T where "T = fold (\<lambda>(k, v). AList.update k v)
      [(''export_scope'', JStr ''partial_view''), (''events'', JArr (map (\<lambda>h. JObj (export_event h)) ds)),
       (''omitted_spans'', JArr (map (\<lambda>r. JObj (span_fields sha256 es r)) (omitted_ranges (length hs) (map he_position ds) 1))),
       (''verification'', JObj [(''result'', JStr ''partial_valid''), (''meaning'', JStr ''partial verified view'')])] scr"
  obtain T' where T': "update_block ''summary'' [(''exported_event_count'', JInt (int (length ds)))] T = Inr T'"
    and final: "update_block ''policy_snapshot'' [(''payload_bytes'', JStr ''partial_disclosure''),
        (''outbound_policy_gate'', JStr ''redacted_to_partial_view'')] T' = Inr final"
    using preserve export ne unfolding preserve_ledger_export_truth_def prod.case json.case events scrubbed bind_result_simps R positions
      Let_def final_ds ds_def [symmetric] count fst_ds snd_ds spans T_def [symmetric]
    by (auto simp: bind_result_Inr_iff)
  have get: "json_get final k = json_get T k" if "k \<notin> {''summary'', ''policy_snapshot''}" for k
    using update_block_get [OF T'] update_block_get [OF final] that by simp
  show ?thesis
    by (rule exI [of _ R], rule exI [of _ ds]) (simp add: R ds_def [symmetric] get, simp add: T_def json_get_update)
qed

text \<open>
  C19: redaction keeps exports verifiable, when it touches the events only: if the gate redacts events of
  a ledger export, and its scrubbing left the schema version and the canonical block unchanged and the event
  list a list of objects of the same length, then what leaves is a partial view that passes the offline
  verification, with the ledger hash of the export. It holds original events only, and only those
  that scrubbing left unchanged. A gate configured to remove or rewrite those fields does not meet
  the condition, and nothing is said of it.
\<close>

theorem redacted_export_verifies:
  assumes "export_ledger sha256 now run_id types pii operator_ref rec db = (Inr payload, db')" and "\<forall>t. hex_digest (sha256 t)"
    and "compile_patterns E (pg_forbidden_patterns gate) = Inr compiled"
    and "scrub E gate compiled [] event_type (JObj payload) = Inr (JObj scr, paths)"
    and "json_get scr ''schema_version'' = json_get payload ''schema_version''"
    and "json_get scr ''canonical'' = json_get payload ''canonical''"
    and "json_get payload ''events'' = JArr (map JObj original)" and "json_get scr ''events'' = JArr (map JObj scrubbed)"
    and "length scrubbed = length original"
    and "filter_with_report E gate event_type (JObj payload) = Inr (JObj final, rep)"
    and "gr_ledger_redacted_event_positions rep = Some (p # ps)"
  shows "\<exists>lr disclosed. verify_ledger_export sha256 final = Inr lr \<and> rep_errors lr = [] \<and> rep_result lr = ''partial_valid'' \<and>
    rep_ledger_hash lr = Some (str_or_empty (json_get (dict_payload (json_get payload ''canonical'')) ''ledger_hash'')) \<and>
    json_get final ''events'' = JArr (map JObj disclosed) \<and> set disclosed \<subseteq> set original \<and>
    (\<forall>i < length original. original ! i \<in> set disclosed \<longrightarrow> py_eq (JObj (original ! i)) (JObj (scrubbed ! i)))"
proof -
  from export_ledgerE [OF assms(1)] obtain run groups es hs where
    payload: "payload = export_payload run groups pii hs" and run: "hashed_run sha256 es hs" by metis
  let ?D = "disclosed_events hs groups"
  have "map JObj original = map JObj (map export_event ?D)" using assms(7) unfolding payload export_payload_get by (simp add: comp_def)
  then have original: "original = map export_event ?D" by (rule map_injective) (simp add: inj_def)
  have "preserve_ledger_export_truth (JObj payload) (JObj scr) = Inr (JObj final, Some (p # ps))"
    using assms(3,4,10,11) by (auto simp: filter_with_report_def bind_result_Inr_iff)
  from preserved_export [OF run payload _ this, of "\<lambda>x. x" scrubbed] assms(8) obtain R ds where
    R: "redacted_positions (map export_event ?D) scrubbed = Inr R" and ds: "ds = filter (\<lambda>h. int (he_position h) \<notin> set R) ?D"
    and get: "json_get final ''export_scope'' = JStr ''partial_view''" "json_get final ''events'' = JArr (map (\<lambda>h. JObj (export_event h)) ds)"
      "json_get final ''omitted_spans'' = JArr (map (\<lambda>r. JObj (span_fields sha256 es r)) (omitted_ranges (length hs) (map he_position ds) 1))"
      "json_get final ''schema_version'' = JStr SCHEMA_VERSION" "json_get final ''canonical'' = json_get payload ''canonical''"
    using assms(5,6) unfolding payload export_payload_get(1) by auto
  obtain P where P: "ds = filter P hs" unfolding ds disclosed_events_def by (cases "groups = [''all'']") auto
  have verified: "\<exists>lr. verify_ledger_export sha256 final = Inr lr \<and> rep_errors lr = [] \<and>
      rep_result lr = (if ''partial_view'' = ''all'' then ''valid'' else ''partial_valid'') \<and> rep_ledger_hash lr = Some (ledger_hash_of hs)"
  proof (rule verify_clean_export [OF get(5) [unfolded payload export_payload_get] _ _ ledger_hash_nonempty [OF run assms(2)] _ get(4,2,1) _
        verify_view_events [OF run, of P, folded P]])
    show "(if ''partial_view'' = ''all''
        then Inr (verify_full_export (length (map (\<lambda>h. JObj (export_event h)) ds)) (int (length hs)) (ledger_hash_of hs)
          (vs_previous_disclosed_chain (verified_state sha256 es ds)))
        else verify_partial_export final (map (\<lambda>h. JObj (export_event h)) ds) (int (length hs)) (ledger_hash_of hs) (verified_state sha256 es ds)) = Inr []"
      using verify_view_spans [OF run P get(3)] by simp
  qed (simp_all add: int_field_JInt json_get_def verified_state_def Let_def)
  have hash: "str_or_empty (json_get (dict_payload (json_get payload ''canonical'')) ''ledger_hash'') = ledger_hash_of hs"
    unfolding payload export_payload_get dict_payload_def json.case by (simp add: json_get_def)
  have unchanged: "py_eq (JObj (original ! i)) (JObj (scrubbed ! i))"
    if i: "i < length original" and kept: "original ! i \<in> set (map export_event ds)" for i
  proof (rule ccontr)
    assume "\<not> py_eq (JObj (original ! i)) (JObj (scrubbed ! i))"
    moreover have "(original ! i, scrubbed ! i) \<in> set (zip (map export_event ?D) scrubbed)"
      using i assms(9) unfolding original [symmetric] by (auto simp: set_zip)
    moreover obtain h where h: "h \<in> set ds" "original ! i = export_event h" using kept by auto
    then have "json_get (original ! i) ''position'' = JInt (int (he_position h))" by simp
    ultimately have "int (he_position h) \<in> set R" using redacted_mem [OF R] by blast
    then show False using h(1) by (simp add: ds)
  qed
  have sub: "set (map export_event ds) \<subseteq> set original" unfolding original ds by auto
  have events: "json_get final ''events'' = JArr (map JObj (map export_event ds))" using get(2) by simp
  have "''partial_view'' \<noteq> ''all''" by simp
  with verified obtain lr where "verify_ledger_export sha256 final = Inr lr" "rep_errors lr = []" "rep_result lr = ''partial_valid''"
    "rep_ledger_hash lr = Some (ledger_hash_of hs)" unfolding if_not_P [OF \<open>''partial_view'' \<noteq> ''all''\<close>] by blast
  then show ?thesis unfolding hash using events sub unchanged by blast
qed

definition disclosure_demo_gate :: OutboundPolicyGate where
  "disclosure_demo_gate =
     \<lparr>pg_pii_field_paths = [], pg_forbidden_patterns = [], pg_allowed_output_fields = [],
      pg_placeholder = ''[REDACTED]'', pg_sensitive_key_tokens = [''k'']\<rparr>"

definition disclosure_demo_export :: "(string \<times> json) list" where
  "disclosure_demo_export =
     (case fst (export_ledger ledger_demo_digest ''t3'' ''r1'' [''tools''] False ''op'' False ledger_demo_db) of Inr p \<Rightarrow> p | Inl _ \<Rightarrow> [])"

definition object_items :: "json \<Rightarrow> (string \<times> json) list list" where
  "object_items v = (case v of JArr xs \<Rightarrow> map dict_payload xs | _ \<Rightarrow> [])"

definition disclosure_demo_ok :: "(string \<times> json) list \<Rightarrow> (string \<times> json) list \<Rightarrow> bool" where
  "disclosure_demo_ok payload scr \<longleftrightarrow>
     json_get scr ''schema_version'' = json_get payload ''schema_version'' \<and> json_get scr ''canonical'' = json_get payload ''canonical'' \<and>
     json_get payload ''events'' = JArr (map JObj (object_items (json_get payload ''events''))) \<and>
     json_get scr ''events'' = JArr (map JObj (object_items (json_get scr ''events''))) \<and>
     length (object_items (json_get scr ''events'')) = length (object_items (json_get payload ''events'')) \<and>
     (case preserve_ledger_export_truth (JObj payload) (JObj scr) of
        Inl _ \<Rightarrow> False
      | Inr (final, positions) \<Rightarrow> final = JObj (dict_payload final) \<and> (case positions of None \<Rightarrow> False | Some ps \<Rightarrow> ps \<noteq> []))"

lemma disclosure_demo:
  "case scrub demo_kernel_env disclosure_demo_gate [] [] ''default'' (JObj disclosure_demo_export) of
     Inl _ \<Rightarrow> False | Inr (scr, paths) \<Rightarrow> scr = JObj (dict_payload scr) \<and> disclosure_demo_ok disclosure_demo_export (dict_payload scr)"
  by code_simp

theorem redacted_export_verifies_witness:
  "\<exists>final rep lr. filter_with_report demo_kernel_env disclosure_demo_gate ''default'' (JObj disclosure_demo_export) = Inr (JObj final, rep) \<and>
     verify_ledger_export ledger_demo_digest final = Inr lr \<and> rep_errors lr = [] \<and> rep_result lr = ''partial_valid''"
proof -
  have g: "ledger_groups [''tools''] = Inr [''tools'']" by code_simp
  have r: "outward_require_run ''r1'' ledger_demo_db = Inr (hd (outward_runs ledger_demo_db))" by code_simp
  obtain payload db' where e: "export_ledger ledger_demo_digest ''t3'' ''r1'' [''tools''] False ''op'' False ledger_demo_db =
      (Inr payload, db')" using export_ledger_total [OF r g] by blast
  then have payload: "disclosure_demo_export = payload" by (simp add: disclosure_demo_export_def)
  obtain scr paths where scr: "scrub demo_kernel_env disclosure_demo_gate [] [] ''default'' (JObj payload) = Inr (JObj scr, paths)"
    and ok: "disclosure_demo_ok payload scr"
    using disclosure_demo unfolding payload by (auto split: sum.splits)
  obtain final ps where final: "preserve_ledger_export_truth (JObj payload) (JObj scr) = Inr (JObj final, Some ps)" "ps \<noteq> []"
    using ok unfolding disclosure_demo_ok_def by (auto split: sum.splits option.splits)
  then obtain q qs where ps: "ps = q # qs" by (cases ps) auto
  have none: "compile_patterns demo_kernel_env (pg_forbidden_patterns disclosure_demo_gate) = Inr []" by (simp add: disclosure_demo_gate_def)
  obtain rep where f: "filter_with_report demo_kernel_env disclosure_demo_gate ''default'' (JObj payload) = Inr (JObj final, rep)"
    "gr_ledger_redacted_event_positions rep = Some (q # qs)"
    using scr final none ps by (simp add: filter_with_report_def)
  from redacted_export_verifies [OF e ledger_demo_digest_hex none scr _ _ _ _ _ f] ok [unfolded disclosure_demo_ok_def] f(1)
  show ?thesis unfolding payload by blast
qed

text \<open>
  A configured path that names a whole event breaks the pairing: the event becomes a text, the others
  move up, and the last event leaves as it was, with what scrubbing had removed from it.
\<close>

definition secret_export :: "json \<Rightarrow> json \<Rightarrow> json" where
  "secret_export first password =
     JObj [(''schema_version'', JStr ''ledger_export.v1''), (''canonical'', JObj [(''event_count'', JInt 2)]),
       (''events'', JArr [first, JObj [(''position'', JInt 2), (''password'', password)]])]"

lemma redacted_event_path_discloses_secret:
  "case preserve_ledger_export_truth (secret_export (JObj [(''position'', JInt 1)]) (JStr ''hunter2''))
       (secret_export (JStr ''[REDACTED]'') (JStr ''[REDACTED]'')) of
     Inl _ \<Rightarrow> False
   | Inr (final, positions) \<Rightarrow> positions = Some [1] \<and>
       json_get (dict_payload final) ''events'' = JArr [JObj [(''position'', JInt 2), (''password'', JStr ''hunter2'')]]"
  by code_simp

lemma event_path_scrubs_to_text:
  "scrub_items demo_kernel_env
     \<lparr>pg_pii_field_paths = [''events.0''], pg_forbidden_patterns = [], pg_allowed_output_fields = [], pg_placeholder = ''[REDACTED]'',
      pg_sensitive_key_tokens = DEFAULT_SENSITIVE_KEY_TOKENS\<rparr> [] [''events''] ''default'' 0
     [JObj [(''position'', JInt 1)], JObj [(''position'', JInt 2), (''password'', JStr ''hunter2'')]] =
   Inr ([JStr ''[REDACTED]'', JObj [(''position'', JInt 2), (''password'', JStr ''[REDACTED]'')]], [''events.0'', ''events.1.password''])"
  by code_simp

end
