(* ===== verification/Nervous_System.thy ===== *)
theory Nervous_System
  imports Kernel_Policy
begin

text \<open>
  The state of the action kernel and its three tables: the event ledger of each session, chained by
  digests (\<open>orket/kernel/v1/nervous_system_runtime_state.py\<close>), approvals
  (\<open>nervous_system_approvals.py\<close>) and credential tokens (\<open>nervous_system_tokens.py\<close>).

  The module variables are the fields of \<open>nervous_state\<close>, dictionaries as association lists in the
  order of insertion. Two more fields count the readings of the clock and of the random source, so
  that each reading is a value of its own. Calls run one after the other, as under the module lock;
  a dict handed to a call is not changed by its caller afterwards.
\<close>

section \<open>State\<close>

record NervousEvent =
  ne_id :: int
  ne_session_id :: string
  ne_trace_id :: string
  ne_request_id :: "string option"
  ne_event_type :: string
  ne_created_at :: string
  ne_prev_event_digest :: "string option"
  ne_body :: "(string \<times> json) list"
  ne_event_digest :: string

record AdmissionRecord =
  ad_session_id :: string
  ad_trace_id :: string
  ad_request_id :: "string option"
  ad_proposal_digest :: string
  ad_decision :: string
  ad_reason_codes :: "string list"
  ad_decision_digest :: string

record KernelApproval =
  ka_approval_id :: string
  ka_request_id :: string
  ka_session_id :: string
  ka_trace_id :: string
  ka_request_ref :: "string option"
  ka_proposal_digest :: string
  ka_admission_decision_digest :: string
  ka_reason_codes :: "json list"
  ka_status :: string
  ka_resolution :: "(string \<times> json) list"
  ka_created_at :: string
  ka_updated_at :: string
  ka_resolved_at :: "string option"

record TokenRecord =
  tk_token_id_hash :: string
  tk_session_id :: string
  tk_trace_id :: string
  tk_request_id :: "string option"
  tk_proposal_digest :: string
  tk_admission_decision_digest :: string
  tk_tool_name :: string
  tk_scope_json :: "(string \<times> json) list"
  tk_scope_digest :: string
  tk_tool_profile_digest :: string
  tk_executor_instance_id :: "string option"
  tk_created_at :: string
  tk_expires_at :: string
  tk_used_at :: "string option"
  tk_invalidated_at :: "string option"
  tk_invalidation_reason :: "string option"

type_synonym commit_key = "string \<times> string \<times> string \<times> string \<times> string \<times> string"

record nervous_state =
  ns_tick :: nat
  ns_draw :: nat
  NEXT_LEDGER_ID :: int
  SESSION_EVENT_HEADS :: "(string \<times> string) list"
  SESSION_CANONICAL_STATE :: "(string \<times> string) list"
  LEDGER_BY_SESSION :: "(string \<times> NervousEvent list) list"
  EVENTS_BY_DIGEST :: "(string \<times> NervousEvent) list"
  ADMISSIONS_BY_PROPOSAL :: "((string \<times> string) \<times> AdmissionRecord) list"
  COMMIT_RESULTS_BY_KEY :: "(commit_key \<times> (string \<times> json) list) list"
  APPROVALS_BY_ID :: "(string \<times> KernelApproval) list"
  PENDING_APPROVALS_CACHE :: "(string \<times> KernelApproval list) list"
  TOKENS_BY_HASH :: "(string \<times> TokenRecord) list"

definition reset_runtime_state_for_tests :: nervous_state where
  "reset_runtime_state_for_tests =
     \<lparr>ns_tick = 0, ns_draw = 0, NEXT_LEDGER_ID = 1, SESSION_EVENT_HEADS = [], SESSION_CANONICAL_STATE = [],
      LEDGER_BY_SESSION = [], EVENTS_BY_DIGEST = [], ADMISSIONS_BY_PROPOSAL = [], COMMIT_RESULTS_BY_KEY = [],
      APPROVALS_BY_ID = [], PENDING_APPROVALS_CACHE = [], TOKENS_BY_HASH = []\<rparr>"

type_synonym 'a kernel = "(nervous_state, 'a) eff"

definition CONTRACT_VERSION :: string where
  "CONTRACT_VERSION = ''kernel_api/v1''"

text \<open>\<open>datetime.now(UTC)\<close>\<close>

definition read_clock :: "kernel_env \<Rightarrow> iso_datetime kernel" where
  "read_clock E st = (Inr (aware_utc (ke_clock E (ns_tick st))), st\<lparr>ns_tick := Suc (ns_tick st)\<rparr>)"

definition utc_iso_now :: "kernel_env \<Rightarrow> string kernel" where
  "utc_iso_now E = bind_eff (read_clock E) (\<lambda>now. lift_result (Inr (isoformat (ke_datetime E) now)))"

definition get_str_required :: "(string \<times> json) list \<Rightarrow> string \<Rightarrow> string result" where
  "get_str_required payload key =
     (case json_get payload key of
        JStr s \<Rightarrow> if py_strip s = [] then Inl (ValueError (key @ '' must be a non-empty string'')) else Inr (py_strip s)
      | _ \<Rightarrow> Inl (ValueError (key @ '' must be a non-empty string'')))"

definition get_str_optional :: "(string \<times> json) list \<Rightarrow> string \<Rightarrow> string option result" where
  "get_str_optional payload key =
     (if json_get payload key = JNull then Inr None
      else bind_result (get_str_required payload key) (\<lambda>s. Inr (Some s)))"

definition normalized_optional_str :: "json \<Rightarrow> string" where
  "normalized_optional_str v = (if v = JNull then [] else py_strip (py_str_json v))"

definition get_current_canonical_state_digest :: "string \<Rightarrow> nervous_state \<Rightarrow> string" where
  "get_current_canonical_state_digest session_id st =
     (case map_of (SESSION_CANONICAL_STATE st) session_id of None \<Rightarrow> GENESIS_STATE_DIGEST | Some d \<Rightarrow> d)"

definition set_current_canonical_state_digest :: "string \<Rightarrow> string \<Rightarrow> unit kernel" where
  "set_current_canonical_state_digest session_id digest st =
     (Inr (), st\<lparr>SESSION_CANONICAL_STATE := AList.update session_id digest (SESSION_CANONICAL_STATE st)\<rparr>)"

definition session_events :: "string \<Rightarrow> nervous_state \<Rightarrow> NervousEvent list" where
  "session_events session_id st = (case map_of (LEDGER_BY_SESSION st) session_id of None \<Rightarrow> [] | Some es \<Rightarrow> es)"

definition event_surface :: "NervousEvent \<Rightarrow> json" where
  "event_surface e = JObj
     [(''id'', JInt (ne_id e)), (''contract_version'', JStr CONTRACT_VERSION), (''session_id'', JStr (ne_session_id e)),
      (''trace_id'', JStr (ne_trace_id e)), (''request_id'', json_opt_str (ne_request_id e)),
      (''event_type'', JStr (ne_event_type e)), (''created_at'', JStr (ne_created_at e)),
      (''prev_event_digest'', json_opt_str (ne_prev_event_digest e)), (''body'', JObj (ne_body e))]"

definition kernel_append_event ::
  "kernel_env \<Rightarrow> string \<Rightarrow> string \<Rightarrow> string option \<Rightarrow> string \<Rightarrow> (string \<times> json) list \<Rightarrow> NervousEvent kernel" where
  "kernel_append_event E session_id trace_id request_id event_type body =
     bind_eff (utc_iso_now E) (\<lambda>created_at st.
       let event = \<lparr>ne_id = NEXT_LEDGER_ID st, ne_session_id = session_id, ne_trace_id = trace_id,
             ne_request_id = (if truthy_opt request_id then request_id else None), ne_event_type = event_type,
             ne_created_at = created_at, ne_prev_event_digest = map_of (SESSION_EVENT_HEADS st) session_id,
             ne_body = body, ne_event_digest = []\<rparr>
       in case digest_of E (event_surface event) of
            Inl e \<Rightarrow> (Inl e, st)
          | Inr event_digest \<Rightarrow>
              if map_of (EVENTS_BY_DIGEST st) event_digest \<noteq> None
              then (Inl (RuntimeError ''event_digest collision detected''), st)
              else let event = event\<lparr>ne_event_digest := event_digest\<rparr> in
                (Inr event,
                 st\<lparr>NEXT_LEDGER_ID := NEXT_LEDGER_ID st + 1,
                    LEDGER_BY_SESSION := AList.update session_id (session_events session_id st @ [event]) (LEDGER_BY_SESSION st),
                    EVENTS_BY_DIGEST := AList.update event_digest event (EVENTS_BY_DIGEST st),
                    SESSION_EVENT_HEADS := AList.update session_id event_digest (SESSION_EVENT_HEADS st)\<rparr>))"

definition list_events_for_session :: "string \<Rightarrow> nervous_state \<Rightarrow> NervousEvent list" where
  "list_events_for_session session_id st = session_events session_id st"

definition has_admission_event :: "string \<Rightarrow> string \<Rightarrow> string \<Rightarrow> nervous_state \<Rightarrow> bool" where
  "has_admission_event session_id proposal_digest admission_decision_digest st =
     list_ex (\<lambda>e. ne_event_type e = ''admission.decided'' \<and>
         str_or_empty (json_get (ne_body e) ''proposal_digest'') = proposal_digest \<and>
         str_or_empty (json_get (ne_body e) ''decision_digest'') = admission_decision_digest)
       (session_events session_id st)"

definition list_session_ids :: "nervous_state \<Rightarrow> string list" where
  "list_session_ids st = sort (map fst (LEDGER_BY_SESSION st))"

section \<open>Approvals\<close>

definition APPROVAL_STATUSES :: "string list" where
  "APPROVAL_STATUSES = [''PENDING'', ''APPROVED'', ''DENIED'', ''APPROVED_WITH_EDITS'', ''EXPIRED'']"

definition DECISION_TO_STATUS :: "(string \<times> string) list" where
  "DECISION_TO_STATUS = [(''approve'', ''APPROVED''), (''deny'', ''DENIED'')]"

definition approval_id_of :: "kernel_env \<Rightarrow> string \<Rightarrow> string \<Rightarrow> string \<Rightarrow> string result" where
  "approval_id_of E session_id proposal_digest decision_digest =
     bind_result (digest_of E (JObj [(''session_id'', JStr session_id), (''proposal_digest'', JStr proposal_digest),
       (''decision_digest'', JStr decision_digest)])) (\<lambda>digest. Inr (''apr-'' @ take 16 digest))"

text \<open>
  \<open>upper()\<close>; the two characters whose capitals lie above code point 255 stay, which no status or code
  has.
\<close>

definition py_upper_char :: "char \<Rightarrow> string" where
  "py_upper_char c = (let n = (of_char c :: nat)
     in if (97 \<le> n \<and> n \<le> 122) \<or> (224 \<le> n \<and> n \<le> 254 \<and> n \<noteq> 247) then [char_of (n - 32)]
        else if n = 223 then ''SS'' else [c])"

definition py_upper :: "string \<Rightarrow> string" where
  "py_upper s = concat (map py_upper_char s)"

definition normalize_status :: "string \<Rightarrow> string result" where
  "normalize_status value =
     (let normalized = py_upper (py_strip value) in
      if normalized = [] then Inr ''PENDING''
      else if normalized \<notin> set APPROVAL_STATUSES
      then Inl (ValueError ''status must be one of PENDING, APPROVED, DENIED, APPROVED_WITH_EDITS, EXPIRED'')
      else Inr normalized)"

definition normalize_decision :: "string \<Rightarrow> string result" where
  "normalize_decision decision =
     (case map_of DECISION_TO_STATUS (py_lower (py_strip decision)) of
        None \<Rightarrow> Inl (ValueError ''decision must be one of: approve, deny'')
      | Some status \<Rightarrow> Inr status)"

definition rebuild_requested :: "string \<Rightarrow> NervousEvent \<Rightarrow> string \<Rightarrow> KernelApproval option \<Rightarrow> KernelApproval result" where
  "rebuild_requested session_id event approval_id existing =
     (let body = ne_body event in
      bind_result (py_list_or_empty (json_get body ''reason_codes'')) (\<lambda>reason_codes. Inr
      (let base = \<lparr>ka_approval_id = approval_id, ka_request_id = approval_id, ka_session_id = session_id,
            ka_trace_id = ne_trace_id event, ka_request_ref = ne_request_id event,
            ka_proposal_digest = str_or_empty (json_get body ''proposal_digest''),
            ka_admission_decision_digest = str_or_empty (json_get body ''decision_digest''),
            ka_reason_codes = reason_codes, ka_status = ''PENDING'', ka_resolution = [],
            ka_created_at = ne_created_at event, ka_updated_at = ne_created_at event, ka_resolved_at = None\<rparr>
       in case existing of
            None \<Rightarrow> base
          | Some e \<Rightarrow> base\<lparr>ka_status := str_or (Some (ka_status e)) ''PENDING'', ka_resolution := ka_resolution e,
                          ka_updated_at := str_or (Some (ka_updated_at e)) (ne_created_at event), ka_resolved_at := ka_resolved_at e\<rparr>)))"

definition rebuild_decided :: "NervousEvent \<Rightarrow> KernelApproval \<Rightarrow> KernelApproval result" where
  "rebuild_decided event current =
     (let body = ne_body event; status_text = str_or_empty (json_get body ''status'') in
      bind_result (normalize_status (if status_text = [] then ''PENDING'' else status_text)) (\<lambda>status.
      bind_result (py_dict_or_empty (json_get body ''resolution'')) (\<lambda>resolution. Inr
      (let updated_at = str_or (Some (ne_created_at event)) (ka_updated_at current) in
       current\<lparr>ka_status := status, ka_resolution := resolution, ka_updated_at := updated_at,
               ka_resolved_at := (if status \<noteq> ''PENDING'' then Some updated_at else ka_resolved_at current)\<rparr>))))"

text \<open>One turn of the loop over the events of a session.\<close>

definition rebuild_event ::
  "string \<Rightarrow> (string \<times> KernelApproval) list \<Rightarrow> NervousEvent \<Rightarrow> (string \<times> KernelApproval) list \<Rightarrow> (string \<times> KernelApproval) list result" where
  "rebuild_event session_id table event rebuilt =
     (let approval_id = py_strip (str_or_empty (json_get (ne_body event) ''approval_id'')) in
      if approval_id = [] then Inr rebuilt
      else if ne_event_type event = ''approval.requested'' then
        bind_result (rebuild_requested session_id event approval_id (map_of table approval_id)) (\<lambda>base.
          Inr (AList.update approval_id base rebuilt))
      else if ne_event_type event = ''approval.decided'' then
        (case (case map_of rebuilt approval_id of Some c \<Rightarrow> Some c | None \<Rightarrow> map_of table approval_id) of
           None \<Rightarrow> Inr rebuilt
         | Some current \<Rightarrow> bind_result (rebuild_decided event current) (\<lambda>decided.
             Inr (AList.update approval_id decided rebuilt)))
      else Inr rebuilt)"

fun rebuild_events ::
  "string \<Rightarrow> (string \<times> KernelApproval) list \<Rightarrow> NervousEvent list \<Rightarrow> (string \<times> KernelApproval) list \<Rightarrow> (string \<times> KernelApproval) list result" where
  "rebuild_events session_id table [] rebuilt = Inr rebuilt"
| "rebuild_events session_id table (event # events) rebuilt =
     bind_result (rebuild_event session_id table event rebuilt) (rebuild_events session_id table events)"

text \<open>\<open>sorted(..., key=(created_at, approval_id), reverse=True)\<close>, which keeps the order of equal keys\<close>

definition newest_first :: "KernelApproval list \<Rightarrow> KernelApproval list" where
  "newest_first rows = rev (sort_key (\<lambda>r. (ka_created_at r, ka_approval_id r)) (rev rows))"

definition rebuild_pending_approvals :: "string \<Rightarrow> KernelApproval list kernel" where
  "rebuild_pending_approvals session_id st =
     (case rebuild_events session_id (APPROVALS_BY_ID st) (session_events session_id st) [] of
        Inl e \<Rightarrow> (Inl e, st)
      | Inr rebuilt \<Rightarrow>
          let pending = newest_first (filter (\<lambda>r. ka_status r = ''PENDING'') (map snd rebuilt)) in
          (Inr pending,
           st\<lparr>APPROVALS_BY_ID := fold (\<lambda>(k, r). AList.update k r) rebuilt (APPROVALS_BY_ID st),
              PENDING_APPROVALS_CACHE := AList.update session_id pending (PENDING_APPROVALS_CACHE st)\<rparr>))"

definition create_approval_request ::
  "kernel_env \<Rightarrow> string \<Rightarrow> string \<Rightarrow> string option \<Rightarrow> string \<Rightarrow> string \<Rightarrow> string list \<Rightarrow> KernelApproval kernel" where
  "create_approval_request E session_id trace_id request_id proposal_digest decision_digest reason_codes =
     bind_eff (lift_result (approval_id_of E session_id proposal_digest decision_digest)) (\<lambda>approval_id.
     bind_eff (utc_iso_now E) (\<lambda>now st.
     case map_of (APPROVALS_BY_ID st) approval_id of
       Some existing \<Rightarrow> (Inr existing, st)
     | None \<Rightarrow>
         let approval = \<lparr>ka_approval_id = approval_id, ka_request_id = approval_id, ka_session_id = session_id,
               ka_trace_id = trace_id, ka_request_ref = request_id, ka_proposal_digest = proposal_digest,
               ka_admission_decision_digest = decision_digest, ka_reason_codes = map JStr reason_codes,
               ka_status = ''PENDING'', ka_resolution = [], ka_created_at = now, ka_updated_at = now, ka_resolved_at = None\<rparr>
         in bind_eff (kernel_append_event E session_id trace_id request_id ''approval.requested''
                [(''approval_id'', JStr approval_id), (''proposal_digest'', JStr proposal_digest),
                 (''decision_digest'', JStr decision_digest), (''reason_codes'', JArr (map JStr reason_codes))]) (\<lambda>_.
            bind_eff (rebuild_pending_approvals session_id) (\<lambda>_. lift_result (Inr approval)))
            (st\<lparr>APPROVALS_BY_ID := AList.update approval_id approval (APPROVALS_BY_ID st)\<rparr>)))"

fun rebuild_sessions :: "string list \<Rightarrow> unit kernel" where
  "rebuild_sessions [] = lift_result (Inr ())"
| "rebuild_sessions (sid # sids) = bind_eff (rebuild_pending_approvals sid) (\<lambda>_. rebuild_sessions sids)"

definition kernel_list_approvals :: "string option \<Rightarrow> string option \<Rightarrow> string option \<Rightarrow> int \<Rightarrow> KernelApproval list kernel" where
  "kernel_list_approvals status session_id request_id limit =
     bind_eff (lift_result (if truthy_opt status then bind_result (normalize_status (str_or status [])) (\<lambda>s. Inr (Some s)) else Inr None)) (\<lambda>status_filter.
     bind_eff (\<lambda>st. rebuild_sessions (if truthy_opt session_id then [str_or session_id []] else list_session_ids st) st) (\<lambda>_.
     read_eff (\<lambda>st.
       (let request_filter = py_strip (str_or request_id []);
            rows = filter (\<lambda>r. (truthy_opt session_id \<longrightarrow> Some (ka_session_id r) = session_id) \<and>
                     (\<forall>s \<in> set_option status_filter. ka_status r = s) \<and>
                     (request_filter \<noteq> [] \<longrightarrow> str_or (ka_request_ref r) [] = request_filter)) (map snd (APPROVALS_BY_ID st))
        in Inr (take (nat (max 1 limit)) (newest_first rows))))))"

definition kernel_get_approval :: "string \<Rightarrow> nervous_state \<Rightarrow> KernelApproval option" where
  "kernel_get_approval approval_id st =
     (let normalized = py_strip approval_id in
      if normalized = [] then None else map_of (APPROVALS_BY_ID st) normalized)"

definition decision_resolution :: "string \<Rightarrow> (string \<times> json) list option \<Rightarrow> string option \<Rightarrow> (string \<times> json) list" where
  "decision_resolution decision edited_proposal notes_text =
     [(''decision'', JStr (py_lower (py_strip decision)))] @
     (case edited_proposal of None \<Rightarrow> [] | Some p \<Rightarrow> [(''edited_proposal'', JObj p)]) @
     (let note_text = py_strip (str_or notes_text []) in if note_text = [] then [] else [(''notes'', JStr note_text)])"

definition decide_approval ::
  "kernel_env \<Rightarrow> string \<Rightarrow> string \<Rightarrow> (string \<times> json) list option \<Rightarrow> string option \<Rightarrow> (string \<times> KernelApproval) kernel" where
  "decide_approval E approval_id decision edited_proposal notes_text =
     (let normalized_id = py_strip approval_id; resolution = decision_resolution decision edited_proposal notes_text in
      if normalized_id = [] then lift_result (Inl (ValueError ''approval not found''))
      else bind_eff (lift_result (normalize_decision decision)) (\<lambda>target_status st.
        case map_of (APPROVALS_BY_ID st) normalized_id of
          None \<Rightarrow> (Inl (ValueError ''approval not found''), st)
        | Some existing \<Rightarrow>
            bind_eff (lift_result (normalize_status (str_or (Some (ka_status existing)) ''PENDING''))) (\<lambda>current_status.
              if current_status \<noteq> ''PENDING'' then
                (if current_status = target_status \<and> py_eq (JObj (ka_resolution existing)) (JObj resolution)
                 then lift_result (Inr (''idempotent'', existing))
                 else lift_result (Inl (RuntimeError ''approval already resolved with a conflicting decision'')))
              else bind_eff (utc_iso_now E) (\<lambda>now st.
                let decided = existing\<lparr>ka_status := target_status, ka_resolution := resolution, ka_updated_at := now,
                      ka_resolved_at := (if target_status \<noteq> ''PENDING'' then Some now else ka_resolved_at existing)\<rparr>
                in bind_eff (kernel_append_event E (ka_session_id decided) (ka_trace_id decided) (ka_request_ref decided) ''approval.decided''
                     [(''approval_id'', JStr normalized_id), (''proposal_digest'', JStr (ka_proposal_digest decided)),
                      (''decision_digest'', JStr (ka_admission_decision_digest decided)), (''status'', JStr target_status),
                      (''resolution'', JObj resolution)]) (\<lambda>_.
                   bind_eff (rebuild_pending_approvals (ka_session_id decided)) (\<lambda>_.
                   read_eff (\<lambda>st. case map_of (APPROVALS_BY_ID st) normalized_id of
                       None \<Rightarrow> Inl (KeyError normalized_id)
                     | Some row \<Rightarrow> Inr (''resolved'', row))))
                   (st\<lparr>APPROVALS_BY_ID := AList.update normalized_id decided (APPROVALS_BY_ID st)\<rparr>))) st))"

section \<open>Credential tokens\<close>

definition hmac_key :: "kernel_env \<Rightarrow> string" where
  "hmac_key E =
     (let configured = py_strip (str_or (ke_environ E ''ORKET_NERVOUS_SYSTEM_TOKEN_HMAC_KEY'') []) in
      if configured \<noteq> [] then configured else ''orket-nervous-system-dev-hmac-key'')"

definition token_hash_of :: "kernel_env \<Rightarrow> string \<Rightarrow> string" where
  "token_hash_of E raw_token = ke_hmac_sha256 E (hmac_key E) raw_token"

definition token_id_hash_of :: "kernel_env \<Rightarrow> string \<Rightarrow> string" where
  "token_id_hash_of E token_id = ke_sha256 E token_id"

definition parse_expires_at :: "kernel_env \<Rightarrow> string \<Rightarrow> int result" where
  "parse_expires_at E expires_at =
     bind_result (fromisoformat (ke_datetime E) expires_at) (\<lambda>parsed. Inr (utc_micros parsed))"

text \<open>Errors other than \<open>TypeError\<close> and \<open>ValueError\<close> are not caught.\<close>

definition is_token_expired :: "kernel_env \<Rightarrow> TokenRecord \<Rightarrow> bool kernel" where
  "is_token_expired E token =
     (case parse_expires_at E (tk_expires_at token) of
        Inl (TypeError m) \<Rightarrow> lift_result (Inr True)
      | Inl (ValueError m) \<Rightarrow> lift_result (Inr True)
      | Inl e \<Rightarrow> lift_result (Inl e)
      | Inr expires_at \<Rightarrow> bind_eff (read_clock E) (\<lambda>now. lift_result (Inr (expires_at \<le> utc_micros now))))"

text \<open>\<open>secrets.token_urlsafe(32)\<close> and \<open>secrets.token_hex(12)\<close>\<close>

definition draw_token :: "kernel_env \<Rightarrow> (string \<times> string) kernel" where
  "draw_token E st =
     (Inr (ke_token_urlsafe E (ns_draw st), ''tok-'' @ ke_token_hex E (ns_draw st)), st\<lparr>ns_draw := Suc (ns_draw st)\<rparr>)"

definition issue_credential_token ::
  "kernel_env \<Rightarrow> string \<Rightarrow> string \<Rightarrow> string option \<Rightarrow> string \<Rightarrow> string \<Rightarrow> string \<Rightarrow> (string \<times> json) list \<Rightarrow>
   (string \<times> json) list \<Rightarrow> string option \<Rightarrow> int \<Rightarrow> (string \<times> json) list kernel" where
  "issue_credential_token E session_id trace_id request_id proposal_digest admission_decision_digest tool_name scope_json
       tool_profile_definition executor_instance_id expires_in_seconds =
     bind_eff (read_clock E) (\<lambda>now.
     bind_eff (lift_result (bind_result (add_seconds now (max 1 expires_in_seconds)) (\<lambda>d. Inr (isoformat (ke_datetime E) d)))) (\<lambda>expires_at.
     bind_eff (draw_token E) (\<lambda>(raw_token, token_id).
     let token_hash = token_hash_of E raw_token; token_id_h = token_id_hash_of E token_id in
     bind_eff (lift_result (canonical_scope_digest E scope_json)) (\<lambda>scope_digest.
     bind_eff (lift_result (tool_profile_digest E tool_profile_definition)) (\<lambda>profile_digest.
     bind_eff (utc_iso_now E) (\<lambda>created_at.
     bind_eff (\<lambda>st. (Inr (), st\<lparr>TOKENS_BY_HASH := AList.update token_hash
         \<lparr>tk_token_id_hash = token_id_h, tk_session_id = session_id, tk_trace_id = trace_id, tk_request_id = request_id,
          tk_proposal_digest = proposal_digest, tk_admission_decision_digest = admission_decision_digest,
          tk_tool_name = tool_name, tk_scope_json = scope_json, tk_scope_digest = scope_digest,
          tk_tool_profile_digest = profile_digest, tk_executor_instance_id = executor_instance_id,
          tk_created_at = created_at, tk_expires_at = expires_at, tk_used_at = None, tk_invalidated_at = None,
          tk_invalidation_reason = None\<rparr> (TOKENS_BY_HASH st)\<rparr>)) (\<lambda>_.
     bind_eff (kernel_append_event E session_id trace_id request_id ''credential.token_issued''
         [(''token_id_hash'', JStr token_id_h), (''token_hash'', JStr token_hash), (''proposal_digest'', JStr proposal_digest),
          (''admission_decision_digest'', JStr admission_decision_digest), (''tool_name'', JStr tool_name),
          (''scope_digest'', JStr scope_digest), (''tool_profile_digest'', JStr profile_digest),
          (''executor_instance_id'', json_opt_str executor_instance_id), (''expires_at'', JStr expires_at)]) (\<lambda>_.
     lift_result (Inr
         [(''token'', JStr raw_token), (''token_id_hash'', JStr token_id_h), (''token_hash'', JStr token_hash),
          (''scope_digest'', JStr scope_digest), (''tool_profile_digest'', JStr profile_digest),
          (''expires_at'', JStr expires_at)])))))))))"

definition token_refusal :: "string \<Rightarrow> (string \<times> json) list" where
  "token_refusal reason_code = [(''ok'', JBool False), (''reason_code'', JStr reason_code)]"

text \<open>The bindings of a token that a use must repeat.\<close>

definition token_bound ::
  "TokenRecord \<Rightarrow> string \<Rightarrow> string \<Rightarrow> string \<Rightarrow> string \<Rightarrow> string option \<Rightarrow> string option \<Rightarrow> bool" where
  "token_bound token session_id proposal_digest tool_name scope_digest executor_instance_id expected_tool_profile_digest \<longleftrightarrow>
     tk_session_id token = session_id \<and> tk_proposal_digest token = proposal_digest \<and> tk_tool_name token = tool_name \<and>
     tk_scope_digest token = scope_digest \<and>
     (let bound_executor = py_strip (str_or (tk_executor_instance_id token) []) in
      bound_executor = [] \<or> bound_executor = py_strip (str_or executor_instance_id [])) \<and>
     (truthy_opt expected_tool_profile_digest \<longrightarrow> Some (tk_tool_profile_digest token) = expected_tool_profile_digest)"

definition refused_reason :: "TokenRecord \<Rightarrow> string option" where
  "refused_reason token =
     (if truthy_opt (tk_used_at token) then Some ''TOKEN_REPLAY''
      else if truthy_opt (tk_invalidated_at token) then
        (let reason = py_lower (py_strip (str_or (tk_invalidation_reason token) [])) in
         Some (if reason = ''expired'' then ''TOKEN_EXPIRED'' else if reason = ''used'' then ''TOKEN_REPLAY'' else ''TOKEN_INVALID''))
      else None)"

definition set_token :: "string \<Rightarrow> TokenRecord \<Rightarrow> unit kernel" where
  "set_token token_hash token st = (Inr (), st\<lparr>TOKENS_BY_HASH := AList.update token_hash token (TOKENS_BY_HASH st)\<rparr>)"

definition consume_credential_token ::
  "kernel_env \<Rightarrow> string \<Rightarrow> string \<Rightarrow> string option \<Rightarrow> string \<Rightarrow> string \<Rightarrow> string \<Rightarrow> (string \<times> json) list \<Rightarrow>
   string option \<Rightarrow> string option \<Rightarrow> (string \<times> json) list kernel" where
  "consume_credential_token E session_id trace_id request_id raw_token proposal_digest tool_name scope_json
       executor_instance_id expected_tool_profile_digest =
     (let normalized_raw = py_strip raw_token; token_hash = token_hash_of E normalized_raw in
      if normalized_raw = [] then lift_result (Inr (token_refusal ''TOKEN_INVALID''))
      else bind_eff (lift_result (canonical_scope_digest E scope_json)) (\<lambda>scope_digest st.
        case map_of (TOKENS_BY_HASH st) token_hash of
          None \<Rightarrow> (Inr (token_refusal ''TOKEN_INVALID''), st)
        | Some token \<Rightarrow>
            if \<not> token_bound token session_id proposal_digest tool_name scope_digest executor_instance_id expected_tool_profile_digest
            then (Inr (token_refusal ''TOKEN_INVALID''), st)
            else bind_eff (is_token_expired E token) (\<lambda>expired.
              if expired then
                bind_eff (utc_iso_now E) (\<lambda>now.
                bind_eff (set_token token_hash (token\<lparr>tk_invalidated_at := Some now, tk_invalidation_reason := Some ''expired''\<rparr>)) (\<lambda>_.
                lift_result (Inr (token_refusal ''TOKEN_EXPIRED''))))
              else case refused_reason token of
                Some reason_code \<Rightarrow> lift_result (Inr (token_refusal reason_code))
              | None \<Rightarrow>
                  bind_eff (utc_iso_now E) (\<lambda>used_at.
                  bind_eff (set_token token_hash (token\<lparr>tk_used_at := Some used_at, tk_invalidated_at := Some used_at,
                      tk_invalidation_reason := Some ''used''\<rparr>)) (\<lambda>_.
                  bind_eff (kernel_append_event E session_id trace_id request_id ''credential.token_used''
                      [(''token_id_hash'', JStr (tk_token_id_hash token)), (''token_hash'', JStr token_hash),
                       (''proposal_digest'', JStr proposal_digest), (''tool_name'', JStr tool_name),
                       (''scope_digest'', JStr scope_digest), (''executor_instance_id'', json_opt_str executor_instance_id),
                       (''used_at'', JStr used_at)]) (\<lambda>_.
                  lift_result (Inr [(''ok'', JBool True), (''reason_code'', JStr []),
                      (''token_id_hash'', JStr (tk_token_id_hash token)), (''token_hash'', JStr token_hash)]))))) st))"

text \<open>Both invalidations: every token of the selection that is not invalidated yet, and their number.\<close>

definition invalidate_tokens :: "kernel_env \<Rightarrow> (TokenRecord \<Rightarrow> bool) \<Rightarrow> string \<Rightarrow> nat kernel" where
  "invalidate_tokens E selected reason =
     bind_eff (utc_iso_now E) (\<lambda>now st.
       let hit = (\<lambda>token. selected token \<and> \<not> truthy_opt (tk_invalidated_at token)) in
       (Inr (length (filter (\<lambda>(_, token). hit token) (TOKENS_BY_HASH st))),
        st\<lparr>TOKENS_BY_HASH := map (\<lambda>(h, token). (h, if hit token
            then token\<lparr>tk_invalidated_at := Some now, tk_invalidation_reason := Some reason\<rparr> else token)) (TOKENS_BY_HASH st)\<rparr>))"

definition invalidate_tokens_for_session :: "kernel_env \<Rightarrow> string \<Rightarrow> string \<Rightarrow> nat kernel" where
  "invalidate_tokens_for_session E session_id reason =
     invalidate_tokens E (\<lambda>token. tk_session_id token = session_id) reason"

definition invalidate_tokens_for_proposal :: "kernel_env \<Rightarrow> string \<Rightarrow> string \<Rightarrow> string \<Rightarrow> nat kernel" where
  "invalidate_tokens_for_proposal E session_id proposal_digest reason =
     invalidate_tokens E (\<lambda>token. tk_session_id token = session_id \<and> tk_proposal_digest token = proposal_digest) reason"

end
