(* ===== verification/Nervous_Runtime.thy ===== *)
theory Nervous_Runtime
  imports Nervous_System Outbound_Gate
begin

text \<open>
  The operations of the action kernel: projection, admission, commit and end of session
  (\<open>orket/kernel/v1/nervous_system_runtime.py\<close>), tokens, approvals, ledger listings, replay and audit
  of an action (\<open>nervous_system_runtime_extensions.py\<close>). A request is a decoded JSON object; what an
  operation answers is one too, or a record where the source builds it field by field.
\<close>

section \<open>Projection\<close>

definition require_contract_version :: "(string \<times> json) list \<Rightarrow> unit result" where
  "require_contract_version request =
     (if json_get request ''contract_version'' = JStr CONTRACT_VERSION then Inr ()
      else Inl (ValueError ''contract_version must be kernel_api/v1''))"

text \<open>An optional object of a request, empty when absent.\<close>

definition request_object :: "(string \<times> json) list \<Rightarrow> string \<Rightarrow> (string \<times> json) list result" where
  "request_object request key =
     (case json_get request key of
        JNull \<Rightarrow> Inr []
      | JObj kvs \<Rightarrow> Inr kvs
      | _ \<Rightarrow> Inl (ValueError (key @ '' must be an object'')))"

definition projection_pack_v1 :: "kernel_env \<Rightarrow> (string \<times> json) list \<Rightarrow> (string \<times> json) list kernel" where
  "projection_pack_v1 E request =
     bind_eff (lift_result (require_nervous_system_enabled E)) (\<lambda>_.
     bind_eff (lift_result (require_contract_version request)) (\<lambda>_.
     bind_eff (lift_result (get_str_required request ''session_id'')) (\<lambda>session_id.
     bind_eff (lift_result (get_str_required request ''trace_id'')) (\<lambda>trace_id.
     bind_eff (lift_result (get_str_optional request ''request_id'')) (\<lambda>request_id.
     bind_eff (lift_result (get_str_required request ''purpose'')) (\<lambda>purpose.
     bind_eff (lift_result (if purpose \<noteq> NERVOUS_SYSTEM_PURPOSE_ACTION_PATH
         then Inl (ValueError (''purpose must be '' @ NERVOUS_SYSTEM_PURPOSE_ACTION_PATH)) else Inr ())) (\<lambda>_.
     bind_eff (lift_result (get_str_optional request ''canonical_state_digest'')) (\<lambda>given_state.
     bind_eff (read_eff (\<lambda>st. Inr (case given_state of None \<Rightarrow> get_current_canonical_state_digest session_id st | Some d \<Rightarrow> d))) (\<lambda>canonical_state_digest.
     bind_eff (lift_result (request_object request ''policy_context'')) (\<lambda>policy_context.
     bind_eff (lift_result (request_object request ''tool_context_summary'')) (\<lambda>tool_context_summary.
     bind_eff (lift_result (request_object request ''outbound_policy'')) (\<lambda>outbound_policy.
     bind_eff (lift_result (apply_outbound_policy_gate E (JObj policy_context) outbound_policy)) (\<lambda>(policy_context, policy_report).
     bind_eff (lift_result (apply_outbound_policy_gate E (JObj tool_context_summary) outbound_policy)) (\<lambda>(tool_context_summary, tool_report).
     bind_eff (lift_result (digest_of E (JObj [(''contract_version'', JStr CONTRACT_VERSION),
         (''surface'', JStr ''nervous_system_action_path_v1''), (''purpose'', JStr NERVOUS_SYSTEM_PURPOSE_ACTION_PATH)]))) (\<lambda>contract_digest.
     bind_eff (lift_result (digest_of E policy_context)) (\<lambda>policy_digest.
     bind_eff (lift_result (digest_of E (JObj [(''session_id'', JStr session_id), (''trace_id'', JStr trace_id),
         (''request_id'', json_opt_str request_id)]))) (\<lambda>pack_digest.
     bind_eff (utc_iso_now E) (\<lambda>created_at.
     let projection_pack = JObj
           [(''pack_id'', JStr (''pp-'' @ take 16 pack_digest)), (''created_at'', JStr created_at),
            (''purpose'', JStr NERVOUS_SYSTEM_PURPOSE_ACTION_PATH),
            (''canonical'', JObj [(''canonical_state_digest'', JStr canonical_state_digest), (''contract_digest'', JStr contract_digest)]),
            (''policy_summary'', JObj [(''policy_digest'', JStr policy_digest),
               (''outbound_policy_gate'', JObj [(''applied'', JBool True),
                  (''redaction_count'', JInt (int (gr_redaction_count policy_report) + int (gr_redaction_count tool_report))),
                  (''redacted_paths'', JArr (map JStr (sort (remdups (gr_redacted_paths policy_report @ gr_redacted_paths tool_report)))))])]),
            (''tool_context_summary'', tool_context_summary)] in
     bind_eff (lift_result (digest_of E projection_pack)) (\<lambda>projection_pack_digest.
     bind_eff (kernel_append_event E session_id trace_id request_id ''projection.issued''
         [(''projection_pack_digest'', JStr projection_pack_digest), (''policy_digest'', JStr policy_digest),
          (''contract_digest'', JStr contract_digest)]) (\<lambda>event.
     lift_result (Inr
         [(''contract_version'', JStr CONTRACT_VERSION), (''projection_pack'', projection_pack),
          (''projection_pack_digest'', JStr projection_pack_digest), (''policy_digest'', JStr policy_digest),
          (''contract_digest'', JStr contract_digest), (''canonical_state_digest'', JStr canonical_state_digest),
          (''event_digest'', JStr (ne_event_digest event))])))))))))))))))))))))"

section \<open>Admission\<close>

definition ADMISSION_DECISIONS_V1 :: "string list" where
  "ADMISSION_DECISIONS_V1 = [''ACCEPT_TO_UNIFY'', ''REJECT'', ''NEEDS_APPROVAL'', ''QUARANTINE'']"

definition admission_payload :: "string \<Rightarrow> string list \<Rightarrow> json" where
  "admission_payload decision reason_codes =
     JObj [(''decision'', JStr decision), (''reason_codes'', JArr (map JStr reason_codes))]"

definition admit_proposal_internal ::
  "kernel_env \<Rightarrow> string \<Rightarrow> string \<Rightarrow> string option \<Rightarrow> (string \<times> json) list \<Rightarrow> (string \<times> json) list kernel" where
  "admit_proposal_internal E session_id trace_id request_id proposal =
     bind_eff (lift_result (digest_of E (JObj proposal))) (\<lambda>proposal_digest.
     bind_eff (lift_result (admission_from_proposal E proposal)) (\<lambda>(decision, reason_codes, leak_hits).
     bind_eff (lift_result (if decision \<notin> set ADMISSION_DECISIONS_V1 then Inl (ValueError ''invalid admission decision'') else Inr ())) (\<lambda>_.
     let admission_reason_codes = ordered_reason_codes_v1 reason_codes in
     bind_eff (lift_result (digest_of E (admission_payload decision admission_reason_codes))) (\<lambda>decision_digest.
     bind_eff (\<lambda>st. (Inr (), st\<lparr>ADMISSIONS_BY_PROPOSAL := AList.update (session_id, proposal_digest)
         \<lparr>ad_session_id = session_id, ad_trace_id = trace_id, ad_request_id = request_id, ad_proposal_digest = proposal_digest,
          ad_decision = decision, ad_reason_codes = admission_reason_codes, ad_decision_digest = decision_digest\<rparr>
         (ADMISSIONS_BY_PROPOSAL st)\<rparr>)) (\<lambda>_.
     bind_eff (kernel_append_event E session_id trace_id request_id ''proposal.received'' [(''proposal_digest'', JStr proposal_digest)]) (\<lambda>_.
     bind_eff (kernel_append_event E session_id trace_id request_id ''admission.decided''
         [(''proposal_digest'', JStr proposal_digest), (''decision_digest'', JStr decision_digest), (''decision'', JStr decision),
          (''reason_codes'', JArr (map JStr admission_reason_codes))]) (\<lambda>admission_event.
     bind_eff (if leak_hits \<noteq> []
       then bind_eff (kernel_append_event E session_id trace_id request_id ''incident.detected''
         [(''stage'', JStr ''admission''), (''proposal_digest'', JStr proposal_digest),
          (''reason_codes'', JArr [JStr ''LEAK_DETECTED'']), (''detector_hits'', JArr (map JStr leak_hits))]) (\<lambda>_. lift_result (Inr ()))
       else lift_result (Inr ())) (\<lambda>_.
     let response =
           [(''contract_version'', JStr CONTRACT_VERSION), (''proposal_digest'', JStr proposal_digest),
            (''admission_decision'', admission_payload decision admission_reason_codes),
            (''decision_digest'', JStr decision_digest), (''event_digest'', JStr (ne_event_digest admission_event))] in
     if decision = ''NEEDS_APPROVAL''
     then bind_eff (create_approval_request E session_id trace_id request_id proposal_digest decision_digest admission_reason_codes) (\<lambda>approval.
       lift_result (Inr (response @ [(''approval_id'', JStr (ka_approval_id approval))])))
     else lift_result (Inr response)))))))))"

definition admit_proposal_v1 :: "kernel_env \<Rightarrow> (string \<times> json) list \<Rightarrow> (string \<times> json) list kernel" where
  "admit_proposal_v1 E request =
     bind_eff (lift_result (require_nervous_system_enabled E)) (\<lambda>_.
     bind_eff (lift_result (require_contract_version request)) (\<lambda>_.
     bind_eff (lift_result (get_str_required request ''session_id'')) (\<lambda>session_id.
     bind_eff (lift_result (get_str_required request ''trace_id'')) (\<lambda>trace_id.
     bind_eff (lift_result (get_str_optional request ''request_id'')) (\<lambda>request_id.
     case json_get request ''proposal'' of
       JObj proposal \<Rightarrow> admit_proposal_internal E session_id trace_id request_id proposal
     | _ \<Rightarrow> lift_result (Inl (ValueError ''proposal must be an object'')))))))"

section \<open>Commit\<close>

definition COMMIT_STATUSES_V1 :: "string list" where
  "COMMIT_STATUSES_V1 = [''COMMITTED'', ''REJECTED_PRECONDITION'', ''REJECTED_POLICY'', ''REJECTED_APPROVAL_MISSING'', ''ERROR'']"

text \<open>The locals that the guarded block of a commit changes.\<close>

record commit_outcome =
  co_status :: string
  co_reason_codes :: "string list"
  co_sanitization_digest :: string
  co_validation_performed :: bool

text \<open>The status before the result of the action is looked at.\<close>

definition commit_admission_status :: "(string \<times> json) list \<Rightarrow> string \<Rightarrow> string \<Rightarrow> string \<Rightarrow> string \<Rightarrow> nervous_state \<Rightarrow> string" where
  "commit_admission_status request session_id proposal_digest admission_decision_digest approval_id st =
     (case map_of (ADMISSIONS_BY_PROPOSAL st) (session_id, proposal_digest) of
        None \<Rightarrow> ''REJECTED_PRECONDITION''
      | Some admission \<Rightarrow>
          if ad_decision_digest admission \<noteq> admission_decision_digest \<or>
             \<not> has_admission_event session_id proposal_digest admission_decision_digest st then ''REJECTED_PRECONDITION''
          else let status =
              (if ad_decision admission = ''REJECT'' then ''REJECTED_POLICY''
               else if ad_decision admission = ''NEEDS_APPROVAL'' then
                 (case (if approval_id \<noteq> [] then kernel_get_approval approval_id st else None) of
                    None \<Rightarrow> ''REJECTED_APPROVAL_MISSING''
                  | Some approval \<Rightarrow> if ka_status approval \<noteq> ''APPROVED'' then ''REJECTED_APPROVAL_MISSING'' else ''COMMITTED'')
               else ''COMMITTED'')
            in if status = ''COMMITTED'' \<and> json_truthy (json_get request ''revalidate_policy_forbidden'') then ''REJECTED_POLICY'' else status)"

text \<open>The check of the reported result for leaks.\<close>

definition commit_result_leaks ::
  "kernel_env \<Rightarrow> (string \<times> json) list \<Rightarrow> string \<Rightarrow> string \<Rightarrow> string option \<Rightarrow> string \<Rightarrow> commit_outcome \<Rightarrow> commit_outcome kernel" where
  "commit_result_leaks E request session_id trace_id request_id proposal_digest co =
     (let payload = json_get request ''execution_result_payload''; leak_hits = find_leak_hits payload in
      if co_status co \<noteq> ''COMMITTED'' \<or> payload = JNull \<or> leak_hits = [] then lift_result (Inr co)
      else let co = co\<lparr>co_reason_codes := co_reason_codes co @ [''RESULT_LEAK_DETECTED'']\<rparr> in
        bind_eff (kernel_append_event E session_id trace_id request_id ''incident.detected''
          [(''stage'', JStr ''action_result''), (''proposal_digest'', JStr proposal_digest),
           (''reason_codes'', JArr [JStr ''RESULT_LEAK_DETECTED'']), (''detector_hits'', JArr (map JStr leak_hits))]) (\<lambda>_.
        if json_truthy (json_get request ''block_result_leaks'') then lift_result (Inr (co\<lparr>co_status := ''REJECTED_POLICY''\<rparr>))
        else case payload of
          JStr text \<Rightarrow>
            if co_sanitization_digest co \<noteq> [] then lift_result (Inr co)
            else bind_eff (lift_result (digest_of E (JObj [(''sanitized'', JStr (sanitize_text text))]))) (\<lambda>digest.
              lift_result (Inr (co\<lparr>co_sanitization_digest := digest, co_validation_performed := True\<rparr>)))
        | _ \<Rightarrow> lift_result (Inr co)))"

definition commit_result_checks :: "(string \<times> json) list \<Rightarrow> commit_outcome \<Rightarrow> commit_outcome" where
  "commit_result_checks request co =
     (let co = (if co_status co = ''COMMITTED'' \<and> json_get request ''execution_result_schema_valid'' = JBool False
                then co\<lparr>co_reason_codes := co_reason_codes co @ [''RESULT_SCHEMA_INVALID''], co_status := ''REJECTED_POLICY''\<rparr> else co);
          error_code = py_upper (normalized_optional_str (json_get request ''execution_error_reason_code''))
      in if co_status co = ''COMMITTED'' \<and> error_code \<in> {''TOKEN_INVALID'', ''TOKEN_EXPIRED'', ''TOKEN_REPLAY''}
         then co\<lparr>co_reason_codes := co_reason_codes co @ [error_code], co_status := ''REJECTED_POLICY''\<rparr> else co)"

definition known_status :: "commit_outcome \<Rightarrow> commit_outcome" where
  "known_status co = (if co_status co \<in> set COMMIT_STATUSES_V1 then co else co\<lparr>co_status := ''ERROR''\<rparr>)"

text \<open>The \<open>try\<close> block: an exception inside it becomes the status \<open>ERROR\<close>.\<close>

definition commit_decision ::
  "kernel_env \<Rightarrow> (string \<times> json) list \<Rightarrow> string \<Rightarrow> string \<Rightarrow> string option \<Rightarrow> string \<Rightarrow> string \<Rightarrow> string \<Rightarrow> commit_outcome kernel" where
  "commit_decision E request session_id trace_id request_id proposal_digest admission_decision_digest approval_id st =
     (let reported = normalized_optional_str (json_get request ''sanitization_digest'');
          status = commit_admission_status request session_id proposal_digest admission_decision_digest approval_id st;
          start = \<lparr>co_status = status, co_reason_codes = [], co_sanitization_digest = reported,
            co_validation_performed = (status \<noteq> ''REJECTED_PRECONDITION'' \<and>
              (json_get request ''execution_result_payload'' \<noteq> JNull \<or> json_get request ''execution_result_schema_valid'' \<noteq> JNull \<or> reported \<noteq> []))\<rparr>
      in if status = ''REJECTED_PRECONDITION'' then (Inr (known_status start), st)
         else case commit_result_leaks E request session_id trace_id request_id proposal_digest start st of
           (Inl _, st') \<Rightarrow> (Inr (known_status (start\<lparr>co_status := ''ERROR''\<rparr>)), st')
         | (Inr co, st') \<Rightarrow> (Inr (known_status (commit_result_checks request co)), st'))"

definition json_or_none :: "string \<Rightarrow> json" where
  "json_or_none s = (if s = [] then JNull else JStr s)"

text \<open>What a commit does once its status is known: the events of the action, the state digest, the record.\<close>

definition record_commit ::
  "kernel_env \<Rightarrow> (string \<times> json) list \<Rightarrow> string \<Rightarrow> string \<Rightarrow> string option \<Rightarrow> string \<Rightarrow> string \<Rightarrow> string \<Rightarrow> string \<Rightarrow>
   commit_outcome \<Rightarrow> NervousEvent kernel" where
  "record_commit E request session_id trace_id request_id proposal_digest admission_decision_digest approval_id execution_result_digest co =
     bind_eff (if co_status co \<noteq> ''ERROR'' \<and> json_get request ''execution_result_payload'' \<noteq> JNull
       then bind_eff (kernel_append_event E session_id trace_id request_id ''action.executed''
         [(''proposal_digest'', JStr proposal_digest), (''execution_result_digest'', json_or_none execution_result_digest),
          (''status'', JStr ''OBSERVED'')]) (\<lambda>_. lift_result (Inr ()))
       else lift_result (Inr ())) (\<lambda>_.
     bind_eff (if co_validation_performed co \<and> co_status co \<noteq> ''ERROR''
       then bind_eff (kernel_append_event E session_id trace_id request_id ''action.result_validated''
         [(''proposal_digest'', JStr proposal_digest), (''execution_result_digest'', json_or_none execution_result_digest),
          (''status'', JStr (if co_status co = ''COMMITTED'' then ''PASS'' else ''FAIL'')),
          (''reason_codes'', JArr (map JStr (ordered_reason_codes_v1 (co_reason_codes co)))),
          (''sanitization_digest'', json_or_none (co_sanitization_digest co))]) (\<lambda>_. lift_result (Inr ()))
       else lift_result (Inr ())) (\<lambda>_.
     bind_eff (lift_result (get_str_optional request ''canonical_state_digest_after'')) (\<lambda>after.
     bind_eff (if truthy_opt after \<and> co_status co = ''COMMITTED''
       then set_current_canonical_state_digest session_id (str_or after []) else lift_result (Inr ())) (\<lambda>_.
     kernel_append_event E session_id trace_id request_id ''commit.recorded''
       [(''proposal_digest'', JStr proposal_digest), (''admission_decision_digest'', JStr admission_decision_digest),
        (''approval_id'', json_or_none approval_id), (''execution_result_digest'', json_or_none execution_result_digest),
        (''sanitization_digest'', json_or_none (co_sanitization_digest co)), (''status'', JStr (co_status co))]))))"

definition commit_response :: "string \<Rightarrow> commit_outcome \<Rightarrow> NervousEvent \<Rightarrow> nervous_state \<Rightarrow> (string \<times> json) list" where
  "commit_response session_id co commit_event st =
     [(''contract_version'', JStr CONTRACT_VERSION), (''status'', JStr (co_status co)),
      (''commit_event_digest'', JStr (ne_event_digest commit_event)),
      (''canonical_state_digest'', JStr (get_current_canonical_state_digest session_id st))] @
     (if co_sanitization_digest co \<noteq> [] then [(''sanitization_digest'', JStr (co_sanitization_digest co))] else [])"

definition commit_proposal_v1 :: "kernel_env \<Rightarrow> (string \<times> json) list \<Rightarrow> (string \<times> json) list kernel" where
  "commit_proposal_v1 E request =
     bind_eff (lift_result (require_nervous_system_enabled E)) (\<lambda>_.
     bind_eff (lift_result (require_contract_version request)) (\<lambda>_.
     bind_eff (lift_result (get_str_required request ''session_id'')) (\<lambda>session_id.
     bind_eff (lift_result (get_str_required request ''trace_id'')) (\<lambda>trace_id.
     bind_eff (lift_result (get_str_optional request ''request_id'')) (\<lambda>request_id.
     bind_eff (lift_result (get_str_required request ''proposal_digest'')) (\<lambda>proposal_digest.
     bind_eff (lift_result (get_str_required request ''admission_decision_digest'')) (\<lambda>admission_decision_digest st.
     let approval_id = normalized_optional_str (json_get request ''approval_id'');
         execution_result_digest = normalized_optional_str (json_get request ''execution_result_digest'');
         commit_key = (session_id, trace_id, proposal_digest, admission_decision_digest, approval_id, execution_result_digest)
     in case map_of (COMMIT_RESULTS_BY_KEY st) commit_key of
       Some existing \<Rightarrow> (Inr existing, st)
     | None \<Rightarrow>
       bind_eff (commit_decision E request session_id trace_id request_id proposal_digest admission_decision_digest approval_id) (\<lambda>co.
       bind_eff (record_commit E request session_id trace_id request_id proposal_digest admission_decision_digest approval_id
         execution_result_digest co) (\<lambda>commit_event st.
       let response = commit_response session_id co commit_event st
       in (Inr response, st\<lparr>COMMIT_RESULTS_BY_KEY := AList.update commit_key response (COMMIT_RESULTS_BY_KEY st)\<rparr>))) st)))))))"

definition end_session_v1 :: "kernel_env \<Rightarrow> (string \<times> json) list \<Rightarrow> (string \<times> json) list kernel" where
  "end_session_v1 E request =
     bind_eff (lift_result (require_nervous_system_enabled E)) (\<lambda>_.
     bind_eff (lift_result (require_contract_version request)) (\<lambda>_.
     bind_eff (lift_result (get_str_required request ''session_id'')) (\<lambda>session_id.
     bind_eff (lift_result (get_str_required request ''trace_id'')) (\<lambda>trace_id.
     bind_eff (lift_result (get_str_optional request ''request_id'')) (\<lambda>request_id.
     bind_eff (invalidate_tokens_for_session E session_id ''session_ended'') (\<lambda>invalidated.
     bind_eff (kernel_append_event E session_id trace_id request_id ''session.ended''
         [(''reason'', json_or_none (normalized_optional_str (json_get request ''reason''))),
          (''invalidated_token_count'', JInt (int invalidated))]) (\<lambda>event.
     read_eff (\<lambda>st. Inr
         [(''contract_version'', JStr CONTRACT_VERSION), (''session_id'', JStr session_id),
          (''event_digest'', JStr (ne_event_digest event)),
          (''canonical_state_digest'', JStr (get_current_canonical_state_digest session_id st)), (''status'', JStr ''ENDED'')]))))))))"

end
