(* ===== verification/Nervous_Lifecycle.thy ===== *)
theory Nervous_Lifecycle
  imports Nervous_Runtime
begin

text \<open>
  The operator surface of the action kernel
  (\<open>orket/kernel/v1/nervous_system_runtime_extensions.py\<close>): decisions on approvals, credential tokens,
  ledger listings, and the replay and audit of one action. \<open>kernel_call\<close> is one call of the kernel and
  \<open>kernel_reachable\<close> the states that a sequence of calls leads to.
\<close>

section \<open>Approvals and tokens\<close>

definition decide_approval_v1 ::
  "kernel_env \<Rightarrow> string \<Rightarrow> string \<Rightarrow> (string \<times> json) list option \<Rightarrow> string option \<Rightarrow> (string \<times> KernelApproval) kernel" where
  "decide_approval_v1 E approval_id decision edited_proposal notes_text =
     bind_eff (decide_approval E approval_id decision edited_proposal notes_text) (\<lambda>(outcome, approval).
     if ka_status approval = ''DENIED''
     then bind_eff (invalidate_tokens_for_proposal E (ka_session_id approval) (ka_proposal_digest approval) ''approval_denied'')
       (\<lambda>_. lift_result (Inr (outcome, approval)))
     else lift_result (Inr (outcome, approval)))"

text \<open>An approval that is \<open>APPROVED\<close>, looked up by the identifier of the request alone.\<close>

definition approved_approval :: "string option \<Rightarrow> nervous_state \<Rightarrow> bool" where
  "approved_approval approval_id st =
     (case (if truthy_opt approval_id then kernel_get_approval (str_or approval_id []) st else None) of
        None \<Rightarrow> False
      | Some approval \<Rightarrow> ka_status approval = ''APPROVED'')"

definition required_object :: "(string \<times> json) list \<Rightarrow> string \<Rightarrow> (string \<times> json) list result" where
  "required_object request key =
     (case json_get request key of
        JObj kvs \<Rightarrow> Inr kvs
      | _ \<Rightarrow> Inl (ValueError (key @ '' must be an object'')))"

definition issue_binding :: "(string \<times> json) list \<Rightarrow> string \<Rightarrow> string \<Rightarrow> string \<Rightarrow> nervous_state \<Rightarrow> unit result" where
  "issue_binding request session_id proposal_digest decision_digest st =
     (case map_of (ADMISSIONS_BY_PROPOSAL st) (session_id, proposal_digest) of
        None \<Rightarrow> Inl (ValueError ''invalid proposal_digest/admission_decision_digest binding'')
      | Some admission \<Rightarrow>
          if ad_decision_digest admission \<noteq> decision_digest
          then Inl (ValueError ''invalid proposal_digest/admission_decision_digest binding'')
          else if ad_decision admission = ''NEEDS_APPROVAL'' then
            bind_result (get_str_optional request ''approval_id'') (\<lambda>approval_id.
              if approved_approval approval_id st then Inr ()
              else Inl (ValueError ''approved approval_id is required before issuing a credential token''))
          else Inr ())"

definition expires_in_seconds_of :: "(string \<times> json) list \<Rightarrow> int result" where
  "expires_in_seconds_of request =
     (let v = json_get request ''expires_in_seconds'' in if json_truthy v then py_int v else Inr 900)"

definition issue_credential_token_v1 :: "kernel_env \<Rightarrow> (string \<times> json) list \<Rightarrow> (string \<times> json) list kernel" where
  "issue_credential_token_v1 E request =
     bind_eff (lift_result (require_nervous_system_enabled E)) (\<lambda>_.
     bind_eff (lift_result (get_str_required request ''session_id'')) (\<lambda>session_id.
     bind_eff (lift_result (get_str_required request ''trace_id'')) (\<lambda>trace_id.
     bind_eff (lift_result (get_str_optional request ''request_id'')) (\<lambda>request_id.
     bind_eff (lift_result (get_str_required request ''proposal_digest'')) (\<lambda>proposal_digest.
     bind_eff (lift_result (get_str_required request ''admission_decision_digest'')) (\<lambda>decision_digest.
     bind_eff (lift_result (get_str_required request ''tool_name'')) (\<lambda>tool_name.
     bind_eff (read_eff (issue_binding request session_id proposal_digest decision_digest)) (\<lambda>_.
     bind_eff (lift_result (required_object request ''scope_json'')) (\<lambda>scope_json.
     bind_eff (lift_result (required_object request ''tool_profile_definition'')) (\<lambda>tool_profile_definition.
     bind_eff (lift_result (get_str_optional request ''executor_instance_id'')) (\<lambda>executor_instance_id.
     bind_eff (lift_result (expires_in_seconds_of request)) (\<lambda>expires_in_seconds.
     issue_credential_token E session_id trace_id request_id proposal_digest decision_digest tool_name scope_json
       tool_profile_definition executor_instance_id expires_in_seconds))))))))))))"

definition consume_credential_token_v1 :: "kernel_env \<Rightarrow> (string \<times> json) list \<Rightarrow> (string \<times> json) list kernel" where
  "consume_credential_token_v1 E request =
     bind_eff (lift_result (require_nervous_system_enabled E)) (\<lambda>_.
     bind_eff (lift_result (get_str_required request ''session_id'')) (\<lambda>session_id.
     bind_eff (lift_result (get_str_required request ''trace_id'')) (\<lambda>trace_id.
     bind_eff (lift_result (get_str_optional request ''request_id'')) (\<lambda>request_id.
     bind_eff (lift_result (get_str_required request ''token'')) (\<lambda>raw_token.
     bind_eff (lift_result (get_str_required request ''proposal_digest'')) (\<lambda>proposal_digest.
     bind_eff (lift_result (get_str_required request ''tool_name'')) (\<lambda>tool_name.
     bind_eff (lift_result (required_object request ''scope_json'')) (\<lambda>scope_json.
     bind_eff (lift_result (get_str_optional request ''executor_instance_id'')) (\<lambda>executor_instance_id.
     bind_eff (lift_result (get_str_optional request ''tool_profile_digest'')) (\<lambda>expected_tool_profile_digest.
     consume_credential_token E session_id trace_id request_id raw_token proposal_digest tool_name scope_json
       executor_instance_id expected_tool_profile_digest))))))))))"

section \<open>Replay of an action\<close>

definition list_ledger_events_v1 ::
  "string \<Rightarrow> string option \<Rightarrow> string option \<Rightarrow> int \<Rightarrow> nervous_state \<Rightarrow> NervousEvent list" where
  "list_ledger_events_v1 session_id trace_id event_type limit st =
     (let normalized_trace_id = py_strip (str_or trace_id []); normalized_event_type = py_strip (str_or event_type []);
          rows = filter (\<lambda>e. \<not> (normalized_trace_id \<noteq> [] \<and> ne_trace_id e \<noteq> normalized_trace_id) \<and>
                             \<not> (normalized_event_type \<noteq> [] \<and> ne_event_type e \<noteq> normalized_event_type))
                   (list_events_for_session session_id st)
      in take (nat (max 1 limit)) (sort_key (\<lambda>e. (ne_id e, ne_event_digest e)) rows))"

definition events_of_type :: "NervousEvent list \<Rightarrow> string \<Rightarrow> NervousEvent list" where
  "events_of_type events event_type = filter (\<lambda>e. ne_event_type e = event_type) events"

definition last_event_of_type :: "NervousEvent list \<Rightarrow> string \<Rightarrow> NervousEvent option" where
  "last_event_of_type events event_type =
     (let matched = events_of_type events event_type in if matched = [] then None else Some (last matched))"

definition event_body :: "NervousEvent option \<Rightarrow> (string \<times> json) list" where
  "event_body event = (case event of None \<Rightarrow> [] | Some e \<Rightarrow> ne_body e)"

type_synonym digests_by_type = "(string \<times> string list) list"

definition digests_of_type :: "digests_by_type \<Rightarrow> string \<Rightarrow> string list" where
  "digests_of_type digests event_type = (case map_of digests event_type of None \<Rightarrow> [] | Some ds \<Rightarrow> ds)"

definition event_digests_by_type :: "NervousEvent list \<Rightarrow> digests_by_type" where
  "event_digests_by_type events =
     fold (\<lambda>e digests. AList.update (ne_event_type e) (digests_of_type digests (ne_event_type e) @ [ne_event_digest e]) digests) events []"

definition execution_evidence_status :: "bool \<Rightarrow> bool \<Rightarrow> bool \<Rightarrow> string" where
  "execution_evidence_status execution_claimed executed validated =
     (if executed \<and> validated then ''validated_execution''
      else if executed then ''execution_observed_only''
      else if execution_claimed \<and> validated then ''claimed_result_validated_only''
      else if execution_claimed then ''claimed_only''
      else if validated then ''result_validated_without_execution_claim''
      else ''absent'')"

record decision_summary =
  ds_admission_decision :: string
  ds_reason_codes :: "json list"
  ds_approval_id :: string
  ds_approval_status :: string
  ds_commit_status :: string

record token_usage =
  tu_issued_count :: nat
  tu_used_count :: nat
  tu_token_id_hashes :: "string list"

record execution_summary =
  xs_execution_claimed :: bool
  xs_executed :: bool
  xs_validated :: bool
  xs_evidence_status :: string
  xs_execution_result_digest :: string
  xs_sanitization_digest :: string

record lifecycle_event =
  le_id :: int
  le_event_type :: string
  le_event_digest :: string
  le_created_at :: string
  le_request_id :: string
  le_prev_event_digest :: string
  le_body :: "(string \<times> json) list"

record action_lifecycle =
  al_session_id :: string
  al_trace_id :: string
  al_request_ids :: "string list"
  al_event_count :: nat
  al_event_types :: "string list"
  al_event_digests_by_type :: digests_by_type
  al_decision_summary :: decision_summary
  al_token_usage :: token_usage
  al_execution_summary :: execution_summary
  al_events :: "lifecycle_event list"

definition lifecycle_row :: "NervousEvent \<Rightarrow> lifecycle_event" where
  "lifecycle_row e =
     \<lparr>le_id = ne_id e, le_event_type = ne_event_type e, le_event_digest = ne_event_digest e, le_created_at = ne_created_at e,
      le_request_id = str_or (ne_request_id e) [], le_prev_event_digest = str_or (ne_prev_event_digest e) [], le_body = ne_body e\<rparr>"

definition replay_token_usage :: "NervousEvent list \<Rightarrow> token_usage" where
  "replay_token_usage events =
     (let issued = events_of_type events ''credential.token_issued''; used = events_of_type events ''credential.token_used''
      in \<lparr>tu_issued_count = length issued, tu_used_count = length used,
          tu_token_id_hashes = sort (remdups (filter (\<lambda>h. h \<noteq> [])
            (map (\<lambda>e. str_or_empty (json_get (ne_body e) ''token_id_hash'')) (issued @ used))))\<rparr>)"

definition replay_execution_summary :: "NervousEvent list \<Rightarrow> execution_summary" where
  "replay_execution_summary events =
     (let execution_event = last_event_of_type events ''action.executed'';
          validation_event = last_event_of_type events ''action.result_validated'';
          commit_body = event_body (last_event_of_type events ''commit.recorded'');
          validation_body = event_body validation_event;
          executed_digest = json_get (event_body execution_event) ''execution_result_digest'';
          validated_digest = json_get validation_body ''execution_result_digest'';
          commit_digest = json_get commit_body ''execution_result_digest'';
          execution_claimed = (py_strip (str_or_empty commit_digest) \<noteq> [])
      in \<lparr>xs_execution_claimed = execution_claimed, xs_executed = (execution_event \<noteq> None), xs_validated = (validation_event \<noteq> None),
          xs_evidence_status = execution_evidence_status execution_claimed (execution_event \<noteq> None) (validation_event \<noteq> None),
          xs_execution_result_digest = str_or_empty (if json_truthy executed_digest then executed_digest
            else if json_truthy validated_digest then validated_digest else commit_digest),
          xs_sanitization_digest = str_or_empty (json_get validation_body ''sanitization_digest'')\<rparr>)"

definition replay_decision_summary :: "NervousEvent list \<Rightarrow> decision_summary result" where
  "replay_decision_summary events =
     (let admission_body = event_body (last_event_of_type events ''admission.decided'') in
      bind_result (py_list_or_empty (json_get admission_body ''reason_codes'')) (\<lambda>reason_codes. Inr
      \<lparr>ds_admission_decision = str_or_empty (json_get admission_body ''decision''), ds_reason_codes = reason_codes,
       ds_approval_id = str_or_empty (json_get (event_body (last_event_of_type events ''approval.requested'')) ''approval_id''),
       ds_approval_status = str_or_empty (json_get (event_body (last_event_of_type events ''approval.decided'')) ''status''),
       ds_commit_status = str_or_empty (json_get (event_body (last_event_of_type events ''commit.recorded'')) ''status'')\<rparr>))"

definition replay_action_lifecycle_v1 :: "string \<Rightarrow> string \<Rightarrow> nervous_state \<Rightarrow> action_lifecycle result" where
  "replay_action_lifecycle_v1 session_id trace_id st =
     (let events = list_ledger_events_v1 session_id (Some trace_id) None 1000 st in
      if events = [] then Inl (ValueError (''No ledger events found for session_id='' @ [CHR 0x27] @ session_id @ [CHR 0x27] @ '' trace_id='' @ [CHR 0x27] @ trace_id @ [CHR 0x27] @ ''.''))
      else bind_result (replay_decision_summary events) (\<lambda>decisions. Inr
        \<lparr>al_session_id = session_id, al_trace_id = trace_id,
         al_request_ids = sort (remdups (filter (\<lambda>r. r \<noteq> []) (map (\<lambda>e. py_strip (str_or (ne_request_id e) [])) events))),
         al_event_count = length events, al_event_types = map ne_event_type events,
         al_event_digests_by_type = event_digests_by_type events, al_decision_summary = decisions,
         al_token_usage = replay_token_usage events, al_execution_summary = replay_execution_summary events,
         al_events = map lifecycle_row events\<rparr>))"

section \<open>Audit of an action\<close>

definition approval_path_complete :: "string \<Rightarrow> digests_by_type \<Rightarrow> bool" where
  "approval_path_complete admission_decision digests \<longleftrightarrow>
     (admission_decision = ''NEEDS_APPROVAL'' \<longrightarrow>
        digests_of_type digests ''approval.requested'' \<noteq> [] \<and> digests_of_type digests ''approval.decided'' \<noteq> [])"

definition execution_path_consistent :: "string \<Rightarrow> digests_by_type \<Rightarrow> bool" where
  "execution_path_consistent commit_status digests =
     (let executed = (digests_of_type digests ''action.executed'' \<noteq> []);
          validated = (digests_of_type digests ''action.result_validated'' \<noteq> [])
      in if commit_status \<noteq> ''COMMITTED'' \<and> (executed \<or> validated) then False else \<not> (executed \<and> \<not> validated))"

definition approval_queue_rebuild_consistent :: "string \<Rightarrow> string \<Rightarrow> string list \<Rightarrow> bool" where
  "approval_queue_rebuild_consistent approval_id approval_status pending_approval_ids =
     (if approval_id = [] then True
      else if approval_status = ''PENDING'' then approval_id \<in> set pending_approval_ids
      else approval_id \<notin> set pending_approval_ids)"

record action_audit =
  aa_session_id :: string
  aa_trace_id :: string
  aa_ok :: bool
  aa_checks :: "(string \<times> bool) list"
  aa_pending_approval_ids_after_rebuild :: "string list"
  aa_lifecycle :: action_lifecycle

definition lifecycle_checks :: "action_lifecycle \<Rightarrow> string list \<Rightarrow> (string \<times> bool) list" where
  "lifecycle_checks lifecycle pending_approval_ids =
     (let summary = al_decision_summary lifecycle; digests = al_event_digests_by_type lifecycle in
      [(''projection_present'', digests_of_type digests ''projection.issued'' \<noteq> []),
       (''admission_present'', digests_of_type digests ''admission.decided'' \<noteq> []),
       (''commit_present'', digests_of_type digests ''commit.recorded'' \<noteq> []),
       (''approval_path_complete'', approval_path_complete (ds_admission_decision summary) digests),
       (''execution_path_consistent'', execution_path_consistent (ds_commit_status summary) digests),
       (''approval_queue_rebuild_consistent'',
          approval_queue_rebuild_consistent (ds_approval_id summary) (ds_approval_status summary) pending_approval_ids)])"

definition audit_action_lifecycle_v1 :: "string \<Rightarrow> string \<Rightarrow> action_audit kernel" where
  "audit_action_lifecycle_v1 session_id trace_id =
     bind_eff (read_eff (replay_action_lifecycle_v1 session_id trace_id)) (\<lambda>lifecycle.
     bind_eff (rebuild_pending_approvals session_id) (\<lambda>pending.
     let pending_approval_ids = sort (filter (\<lambda>i. i \<noteq> []) (map ka_approval_id pending));
         checks = lifecycle_checks lifecycle pending_approval_ids
     in lift_result (Inr
       \<lparr>aa_session_id = session_id, aa_trace_id = trace_id, aa_ok = list_all snd checks, aa_checks = checks,
        aa_pending_approval_ids_after_rebuild = pending_approval_ids, aa_lifecycle = lifecycle\<rparr>)))"

section \<open>Calls and reachable states\<close>

datatype kernel_call =
    ProjectionPack "(string \<times> json) list"
  | AdmitProposal "(string \<times> json) list"
  | CommitProposal "(string \<times> json) list"
  | EndSession "(string \<times> json) list"
  | ListApprovals "string option" "string option" "string option" int
  | DecideApproval string string "(string \<times> json) list option" "string option"
  | RebuildPending string
  | IssueToken "(string \<times> json) list"
  | ConsumeToken "(string \<times> json) list"
  | AuditAction string string

text \<open>The state after a call, whether it answers or raises.\<close>

fun after_call :: "kernel_env \<Rightarrow> kernel_call \<Rightarrow> nervous_state \<Rightarrow> nervous_state" where
  "after_call E (ProjectionPack request) st = snd (projection_pack_v1 E request st)"
| "after_call E (AdmitProposal request) st = snd (admit_proposal_v1 E request st)"
| "after_call E (CommitProposal request) st = snd (commit_proposal_v1 E request st)"
| "after_call E (EndSession request) st = snd (end_session_v1 E request st)"
| "after_call E (ListApprovals status session_id request_id limit) st = snd (kernel_list_approvals status session_id request_id limit st)"
| "after_call E (DecideApproval approval_id decision edited notes_text) st = snd (decide_approval_v1 E approval_id decision edited notes_text st)"
| "after_call E (RebuildPending session_id) st = snd (rebuild_pending_approvals session_id st)"
| "after_call E (IssueToken request) st = snd (issue_credential_token_v1 E request st)"
| "after_call E (ConsumeToken request) st = snd (consume_credential_token_v1 E request st)"
| "after_call E (AuditAction session_id trace_id) st = snd (audit_action_lifecycle_v1 session_id trace_id st)"

inductive kernel_reachable :: "kernel_env \<Rightarrow> nervous_state \<Rightarrow> bool" for E where
  kernel_start: "kernel_reachable E reset_runtime_state_for_tests"
| kernel_next: "kernel_reachable E st \<Longrightarrow> kernel_reachable E (after_call E call st)"

end
