(* ===== verification/Nervous_Monitor.thy ===== *)
theory Nervous_Monitor
  imports Nervous_Lifecycle
begin

text \<open>
  Relations that every call of the action kernel respects. \<open>kernel_relation\<close> is a reflexive and
  transitive relation between the states before and after, closed under the steps that no contract
  speaks of; \<open>kernel_monitor\<close> adds the steps with a contract of their own (commit records, approvals,
  tokens), and shows that then every call respects the relation. A relation to which the tables of the
  approvals or of the tokens do not matter gets those laws from \<open>approvals_neutral\<close> and
  \<open>tokens_neutral\<close>. Invariants are the relations of the form \<open>P s \<longrightarrow> P t\<close>.
\<close>

section \<open>Respecting a relation\<close>

definition obeys :: "(nervous_state \<Rightarrow> nervous_state \<Rightarrow> bool) \<Rightarrow> 'a kernel \<Rightarrow> bool" where
  "obeys R m \<longleftrightarrow> (\<forall>s. R s (snd (m s)))"

text \<open>Event types whose records carry a contract.\<close>

definition guarded_events :: "string list" where
  "guarded_events = [''approval.requested'', ''approval.decided'', ''commit.recorded'', ''credential.token_used'']"

lemma plain_events:
  "''projection.issued'' \<notin> set guarded_events" "''proposal.received'' \<notin> set guarded_events"
  "''admission.decided'' \<notin> set guarded_events" "''incident.detected'' \<notin> set guarded_events"
  "''action.executed'' \<notin> set guarded_events" "''action.result_validated'' \<notin> set guarded_events"
  "''session.ended'' \<notin> set guarded_events" "''credential.token_issued'' \<notin> set guarded_events"
  by (simp_all add: guarded_events_def)

lemma snd_bind_eff: "snd (bind_eff m f s) = (case m s of (Inl e, t) \<Rightarrow> t | (Inr x, t) \<Rightarrow> snd (f x t))"
  by (simp add: bind_eff_def split: prod.split sum.split)

lemma obeys_case_prod: "(\<And>a b. obeys R (f a b)) \<Longrightarrow> obeys R (case_prod f p)"
  by (cases p) simp

lemma obeys_if: "(b \<Longrightarrow> obeys R m) \<Longrightarrow> (\<not> b \<Longrightarrow> obeys R n) \<Longrightarrow> obeys R (if b then m else n)"
  by simp

lemma obeys_by_state: "(\<And>s. R s (snd (f s s))) \<Longrightarrow> obeys R (\<lambda>s. f s s)"
  by (simp add: obeys_def)

locale kernel_relation =
  fixes E :: kernel_env and R :: "nervous_state \<Rightarrow> nervous_state \<Rightarrow> bool"
  assumes R_refl: "R s s"
    and R_trans: "R s t \<Longrightarrow> R t u \<Longrightarrow> R s u"
    and R_clock: "R s (s\<lparr>ns_tick := n\<rparr>)"
    and R_state_digest: "R s (s\<lparr>SESSION_CANONICAL_STATE := d\<rparr>)"
    and R_admission: "R s (s\<lparr>ADMISSIONS_BY_PROPOSAL := a\<rparr>)"
    and R_event: "ty \<notin> set guarded_events \<Longrightarrow> R s (snd (kernel_append_event E sid tid rid ty body s))"
begin

lemma obeys_lift: "obeys R (lift_result r)"
  by (simp add: obeys_def lift_result_def R_refl)

lemma obeys_read: "obeys R (read_eff f)"
  by (simp add: obeys_def read_eff_def R_refl)

lemma obeys_bind:
  assumes "obeys R m" and "\<And>x. obeys R (f x)"
  shows "obeys R (bind_eff m f)"
  unfolding obeys_def snd_bind_eff
proof
  fix s
  obtain r t where m: "m s = (r, t)" by (cases "m s")
  have "R s t" using assms(1) m unfolding obeys_def by (metis snd_conv)
  moreover have "R t (snd (f x t))" for x using assms(2) unfolding obeys_def by blast
  ultimately show "R s (case m s of (Inl e, t) \<Rightarrow> t | (Inr x, t) \<Rightarrow> snd (f x t))"
    using m R_trans by (auto split: sum.split)
qed

lemma obeys_bindD:
  assumes "obeys R m" and "m s = (r, t)" shows "R s t"
  using assms unfolding obeys_def by (metis snd_conv)

lemma obeys_bind_at:
  assumes "obeys R m" and "\<And>x t. m s = (Inr x, t) \<Longrightarrow> R t (snd (f x t))"
  shows "R s (snd (bind_eff m f s))"
proof -
  obtain r t where m: "m s = (r, t)" by (cases "m s")
  have "R s t" by (rule obeys_bindD [OF assms(1) m])
  then show ?thesis using m R_trans [OF _ assms(2)] by (cases r) (simp_all add: snd_bind_eff)
qed

lemma obeys_pure: "obeys R (\<lambda>st. (r st, st))"
  by (simp add: obeys_def R_refl)

lemma obeys_lookup:
  "obeys R g \<Longrightarrow> (\<And>x. obeys R (h x)) \<Longrightarrow> obeys R (\<lambda>st. case f st of None \<Rightarrow> g st | Some x \<Rightarrow> h x st)"
  by (auto simp: obeys_def split: option.split)

lemma obeys_if_state: "obeys R m \<Longrightarrow> obeys R n \<Longrightarrow> obeys R (\<lambda>st. if b st then m st else n st)"
  by (simp add: obeys_def)

lemma obeys_case_option: "obeys R g \<Longrightarrow> (\<And>x. obeys R (h x)) \<Longrightarrow> obeys R (case_option g h v)"
  by (simp split: option.split)

lemma obeys_clock: "obeys R (read_clock E)"
  by (simp add: obeys_def read_clock_def R_clock)

lemma obeys_now: "obeys R (utc_iso_now E)"
  unfolding utc_iso_now_def by (intro obeys_bind obeys_clock obeys_lift)

lemma obeys_event:
  "ty \<notin> set guarded_events \<Longrightarrow> obeys R (kernel_append_event E sid tid rid ty body)"
  unfolding obeys_def using R_event by blast

lemma obeys_state_digest: "obeys R (set_current_canonical_state_digest sid d)"
  by (simp add: obeys_def set_current_canonical_state_digest_def R_state_digest)

lemma obeys_update_admissions: "obeys R (\<lambda>st. (Inr (), st\<lparr>ADMISSIONS_BY_PROPOSAL := a st\<rparr>))"
  by (simp add: obeys_def R_admission)

lemma obeys_expired: "obeys R (is_token_expired E token)"
proof -
  have "obeys R (case r of Inl (TypeError m) \<Rightarrow> lift_result (Inr True) | Inl (ValueError m) \<Rightarrow> lift_result (Inr True)
      | Inl e \<Rightarrow> lift_result (Inl e)
      | Inr i \<Rightarrow> bind_eff (read_clock E) (\<lambda>now. lift_result (Inr (i \<le> utc_micros now))))" for r :: "int result"
    by (auto split: sum.split error.split intro!: obeys_bind obeys_clock obeys_lift)
  then show ?thesis unfolding is_token_expired_def .
qed

lemmas obeys_rules = obeys_bind obeys_lift obeys_read obeys_now obeys_clock obeys_if obeys_case_prod
  obeys_event plain_events obeys_state_digest obeys_update_admissions obeys_expired

lemma projection_obeys: "obeys R (projection_pack_v1 E request)"
  unfolding projection_pack_v1_def Let_def by (intro obeys_rules)

lemma leaks_obeys: "obeys R (commit_result_leaks E request sid tid rid pd co)"
  unfolding commit_result_leaks_def Let_def by (intro obeys_rules) (auto split: json.split intro!: obeys_rules)

lemma decision_obeys: "obeys R (commit_decision E request sid tid rid pd add aid)"
  unfolding obeys_def commit_decision_def Let_def
  by (auto simp: R_refl split: prod.split sum.split intro: obeys_bindD [OF leaks_obeys])

end

section \<open>Contracts of the guarded steps\<close>

text \<open>The admission event that a commit relies on stays in the ledger.\<close>

lemma session_events_append:
  "session_events sid' (snd (kernel_append_event E sid tid rid ty body s)) =
     session_events sid' s @ (case fst (kernel_append_event E sid tid rid ty body s) of
        Inr e \<Rightarrow> if sid' = sid then [e] else [] | Inl _ \<Rightarrow> [])"
  by (auto simp: kernel_append_event_def utc_iso_now_def read_clock_def bind_eff_def lift_result_def session_events_def
      update_conv Let_def split: sum.splits)

lemma session_events_frame [simp]:
  "session_events sid (s\<lparr>ns_tick := n\<rparr>) = session_events sid s"
  "session_events sid (s\<lparr>ns_draw := n\<rparr>) = session_events sid s"
  "session_events sid (s\<lparr>SESSION_CANONICAL_STATE := d\<rparr>) = session_events sid s"
  "session_events sid (s\<lparr>ADMISSIONS_BY_PROPOSAL := a\<rparr>) = session_events sid s"
  "session_events sid (s\<lparr>COMMIT_RESULTS_BY_KEY := c\<rparr>) = session_events sid s"
  "session_events sid (s\<lparr>APPROVALS_BY_ID := p\<rparr>) = session_events sid s"
  "session_events sid (s\<lparr>PENDING_APPROVALS_CACHE := q\<rparr>) = session_events sid s"
  "session_events sid (s\<lparr>TOKENS_BY_HASH := k\<rparr>) = session_events sid s"
  by (simp_all add: session_events_def)

lemma has_admission_event_append:
  "has_admission_event sid pd add s \<Longrightarrow> has_admission_event sid pd add (snd (kernel_append_event E sid' tid rid ty body s))"
  by (simp add: has_admission_event_def session_events_append)

interpretation admitted: kernel_relation E "\<lambda>s t. has_admission_event sid pd add s \<longrightarrow> has_admission_event sid pd add t" for E sid pd add
  by unfold_locales (auto simp: has_admission_event_append, simp_all add: has_admission_event_def)

lemma admission_status_committed:
  "commit_admission_status request sid pd add aid st = ''COMMITTED'' \<Longrightarrow> has_admission_event sid pd add st"
  unfolding commit_admission_status_def by (simp split: option.splits if_splits)

lemma result_leaks_status:
  "commit_result_leaks E request sid tid rid pd co s = (Inr co', t) \<Longrightarrow> co_status co' = ''COMMITTED'' \<Longrightarrow> co_status co = ''COMMITTED''"
  unfolding commit_result_leaks_def Let_def
  by (auto simp: bind_eff_Inr_iff lift_result_def split: if_splits json.splits)

lemma result_checks_status:
  "co_status (commit_result_checks request co) = ''COMMITTED'' \<Longrightarrow> co_status co = ''COMMITTED''"
  unfolding commit_result_checks_def Let_def by (simp split: if_splits)

lemma known_status_committed: "co_status (known_status co) = ''COMMITTED'' \<longleftrightarrow> co_status co = ''COMMITTED''"
  by (auto simp: known_status_def COMMIT_STATUSES_V1_def)

lemma commit_decision_committed:
  assumes "commit_decision E request sid tid rid pd add aid s = (Inr co, t)" and "co_status co = ''COMMITTED''"
  shows "commit_admission_status request sid pd add aid s = ''COMMITTED''"
  using assms unfolding commit_decision_def Let_def
  by (auto simp: known_status_committed split: if_splits prod.splits sum.splits dest!: result_checks_status dest: result_leaks_status)

lemma commit_decision_admitted:
  assumes "commit_decision E request sid tid rid pd add aid s = (Inr co, t)" and "co_status co = ''COMMITTED''"
  shows "has_admission_event sid pd add t"
  using admission_status_committed [OF commit_decision_committed [OF assms]]
    admitted.obeys_bindD [OF admitted.decision_obeys assms(1)] by blast

text \<open>The answers kept per commit change nowhere else.\<close>

lemma kernel_append_event_frame:
  "COMMIT_RESULTS_BY_KEY (snd (kernel_append_event E sid tid rid ty body s)) = COMMIT_RESULTS_BY_KEY s"
  "ADMISSIONS_BY_PROPOSAL (snd (kernel_append_event E sid tid rid ty body s)) = ADMISSIONS_BY_PROPOSAL s"
  "APPROVALS_BY_ID (snd (kernel_append_event E sid tid rid ty body s)) = APPROVALS_BY_ID s"
  "TOKENS_BY_HASH (snd (kernel_append_event E sid tid rid ty body s)) = TOKENS_BY_HASH s"
  "ns_draw (snd (kernel_append_event E sid tid rid ty body s)) = ns_draw s"
  by (auto simp: kernel_append_event_def utc_iso_now_def read_clock_def bind_eff_def lift_result_def Let_def split: sum.splits)

interpretation answers: kernel_relation E "\<lambda>s t. COMMIT_RESULTS_BY_KEY t = COMMIT_RESULTS_BY_KEY s" for E
  by unfold_locales (simp_all add: kernel_append_event_frame)

lemma record_commit_answers:
  "obeys (\<lambda>s t. COMMIT_RESULTS_BY_KEY t = COMMIT_RESULTS_BY_KEY s) (record_commit E request sid tid rid pd add aid erd co)"
proof -
  have "obeys (\<lambda>s t. COMMIT_RESULTS_BY_KEY t = COMMIT_RESULTS_BY_KEY s) (kernel_append_event E sid tid rid ty body)" for ty body
    by (simp add: obeys_def kernel_append_event_frame)
  note appended = this
  show ?thesis unfolding record_commit_def
    by (intro answers.obeys_bind answers.obeys_lift answers.obeys_state_digest obeys_if appended)
qed

locale kernel_monitor = kernel_relation +
  assumes R_commit_event:
      "(status = ''COMMITTED'' \<Longrightarrow> has_admission_event sid pd add s) \<Longrightarrow>
       R s (snd (kernel_append_event E sid tid rid ''commit.recorded''
         [(''proposal_digest'', JStr pd), (''admission_decision_digest'', JStr add), (''approval_id'', v), (''execution_result_digest'', w),
          (''sanitization_digest'', z), (''status'', JStr status)] s))"
    and R_result: "map_of (COMMIT_RESULTS_BY_KEY s) key = None \<Longrightarrow>
       R s (s\<lparr>COMMIT_RESULTS_BY_KEY := AList.update key answer (COMMIT_RESULTS_BY_KEY s)\<rparr>)"
    and R_create: "obeys R (create_approval_request E sid tid rid pd add codes)"
    and R_decide: "obeys R (decide_approval E aid decision edited notes_text)"
    and R_rebuild: "obeys R (rebuild_pending_approvals sid)"
    and R_issue: "obeys R (issue_credential_token E sid tid rid pd add tool scope profile executor seconds)"
    and R_consume: "obeys R (consume_credential_token E sid tid rid raw pd tool scope executor profile_digest)"
    and R_invalidate: "obeys R (invalidate_tokens E selected reason)"
begin

lemma admit_obeys: "obeys R (admit_proposal_v1 E request)"
proof -
  have "obeys R (admit_proposal_internal E sid tid rid proposal)" for sid tid rid proposal
    unfolding admit_proposal_internal_def Let_def by (intro obeys_rules R_create)
  then show ?thesis unfolding admit_proposal_v1_def
    by (intro obeys_rules) (auto split: json.split intro!: obeys_rules)
qed

lemma obeys_bind_when:
  assumes "b \<longrightarrow> has_admission_event sid pd add s" and "obeys R m"
    and "obeys (\<lambda>s t. has_admission_event sid pd add s \<longrightarrow> has_admission_event sid pd add t) m"
    and "\<And>x t. b \<longrightarrow> has_admission_event sid pd add t \<Longrightarrow> R t (snd (f x t))"
  shows "R s (snd (bind_eff m f s))"
  using obeys_bind_at [OF assms(2)] admitted.obeys_bindD [OF assms(3)] assms(1,4) by blast

lemma record_obeys:
  assumes "co_status co = ''COMMITTED'' \<longrightarrow> has_admission_event sid pd add s"
  shows "R s (snd (record_commit E request sid tid rid pd add aid erd co s))"
  unfolding record_commit_def
  by (rule obeys_bind_when [OF assms], intro obeys_rules, intro admitted.obeys_rules,
      rule obeys_bind_when, assumption, intro obeys_rules, intro admitted.obeys_rules,
      rule obeys_bind_when, assumption, intro obeys_rules, intro admitted.obeys_rules,
      rule obeys_bind_when, assumption, intro obeys_rules, intro admitted.obeys_rules,
      rule R_commit_event, blast)

lemma commit_obeys: "obeys R (commit_proposal_v1 E request)"
proof -
  let ?commit = "\<lambda>sid tid rid pd add aid erd key. bind_eff (commit_decision E request sid tid rid pd add aid) (\<lambda>co.
      bind_eff (record_commit E request sid tid rid pd add aid erd co) (\<lambda>e st.
        (Inr (commit_response sid co e st), st\<lparr>COMMIT_RESULTS_BY_KEY :=
           AList.update key (commit_response sid co e st) (COMMIT_RESULTS_BY_KEY st)\<rparr>)))"
  have "R s (snd (?commit sid tid rid pd add aid erd key s))"
    if absent: "map_of (COMMIT_RESULTS_BY_KEY s) key = None" for sid tid rid pd add aid erd key s
  proof (rule obeys_bind_at [OF decision_obeys])
    fix co t assume dec: "commit_decision E request sid tid rid pd add aid s = (Inr co, t)"
    have same: "COMMIT_RESULTS_BY_KEY t = COMMIT_RESULTS_BY_KEY s" by (rule answers.obeys_bindD [OF answers.decision_obeys dec])
    have rec: "R t (snd (record_commit E request sid tid rid pd add aid erd co t))"
      using commit_decision_admitted [OF dec] by (blast intro: record_obeys)
    obtain r u where ru: "record_commit E request sid tid rid pd add aid erd co t = (r, u)"
      by (cases "record_commit E request sid tid rid pd add aid erd co t")
    have "COMMIT_RESULTS_BY_KEY u = COMMIT_RESULTS_BY_KEY t" by (rule answers.obeys_bindD [OF record_commit_answers ru])
    then have "R t u" and "map_of (COMMIT_RESULTS_BY_KEY u) key = None" using rec ru absent same by simp_all
    then show "R t (snd (bind_eff (record_commit E request sid tid rid pd add aid erd co) (\<lambda>e st.
        (Inr (commit_response sid co e st), st\<lparr>COMMIT_RESULTS_BY_KEY :=
           AList.update key (commit_response sid co e st) (COMMIT_RESULTS_BY_KEY st)\<rparr>)) t))"
      using R_trans [OF _ R_result] ru by (cases r) (simp_all add: snd_bind_eff)
  qed
  then show ?thesis unfolding commit_proposal_v1_def Let_def
    by (intro obeys_rules) (auto simp: obeys_def R_refl split: option.split)
qed

lemma end_session_obeys: "obeys R (end_session_v1 E request)"
  unfolding end_session_v1_def invalidate_tokens_for_session_def by (intro obeys_rules R_invalidate)

lemma list_approvals_obeys: "obeys R (kernel_list_approvals status sid rid limit)"
proof -
  have "obeys R (rebuild_sessions sids)" for sids
    by (induction sids) (simp_all add: obeys_rules R_rebuild)
  then have "obeys R (\<lambda>st. rebuild_sessions (f st) st)" for f by (simp add: obeys_def)
  then show ?thesis unfolding kernel_list_approvals_def by (intro obeys_rules)
qed

lemma decide_v1_obeys: "obeys R (decide_approval_v1 E aid decision edited notes_text)"
  unfolding decide_approval_v1_def invalidate_tokens_for_proposal_def by (intro obeys_rules R_decide R_invalidate)

lemma issue_v1_obeys: "obeys R (issue_credential_token_v1 E request)"
  unfolding issue_credential_token_v1_def by (intro obeys_rules R_issue)

lemma consume_v1_obeys: "obeys R (consume_credential_token_v1 E request)"
  unfolding consume_credential_token_v1_def by (intro obeys_rules R_consume)

lemma audit_obeys: "obeys R (audit_action_lifecycle_v1 sid tid)"
  unfolding audit_action_lifecycle_v1_def Let_def by (intro obeys_rules R_rebuild)

theorem call_obeys: "R s (after_call E call s)"
  using projection_obeys admit_obeys commit_obeys end_session_obeys list_approvals_obeys decide_v1_obeys R_rebuild
    issue_v1_obeys consume_v1_obeys audit_obeys
  by (cases call) (simp_all add: obeys_def)

lemma calls_obey: "R s (fold (after_call E) calls s)"
  by (induction calls arbitrary: s) (auto intro: R_refl R_trans call_obeys)

lemma reachable_obeys: "kernel_reachable E s \<Longrightarrow> R reset_runtime_state_for_tests s"
  by (induction rule: kernel_reachable.induct) (auto intro: R_refl R_trans call_obeys)

end

section \<open>Relations blind to a table\<close>

locale approvals_neutral = kernel_relation +
  assumes R_approvals: "R s (s\<lparr>APPROVALS_BY_ID := a\<rparr>)"
    and R_cache: "R s (s\<lparr>PENDING_APPROVALS_CACHE := c\<rparr>)"
    and R_approval_event: "ty \<in> {''approval.requested'', ''approval.decided''} \<Longrightarrow> R s (snd (kernel_append_event E sid tid rid ty body s))"
begin

lemma approval_event_obeys:
  "obeys R (kernel_append_event E sid tid rid ''approval.requested'' body)"
  "obeys R (kernel_append_event E sid tid rid ''approval.decided'' body)"
  by (simp_all add: obeys_def R_approval_event)

lemma rebuild_obeys: "obeys R (rebuild_pending_approvals sid)"
proof -
  have "R s (s\<lparr>APPROVALS_BY_ID := a, PENDING_APPROVALS_CACHE := c\<rparr>)" for s a c
    by (rule R_trans [OF R_approvals R_cache])
  then show ?thesis by (simp add: obeys_def rebuild_pending_approvals_def Let_def R_refl split: sum.split)
qed

lemma obeys_after_approvals: "obeys R (bind_eff m f) \<Longrightarrow> obeys R (\<lambda>st. bind_eff m f (st\<lparr>APPROVALS_BY_ID := a st\<rparr>))"
  using R_trans [OF R_approvals] unfolding obeys_def by blast

lemmas approval_rules = obeys_rules obeys_pure obeys_lookup rebuild_obeys approval_event_obeys obeys_after_approvals

lemma create_obeys: "obeys R (create_approval_request E sid tid rid pd add codes)"
  unfolding create_approval_request_def Let_def by (intro approval_rules)

lemma decide_obeys: "obeys R (decide_approval E aid decision edited notes_text)"
  unfolding decide_approval_def Let_def by (intro approval_rules)

end

locale tokens_neutral = kernel_relation +
  assumes R_draw: "R s (s\<lparr>ns_draw := n\<rparr>)"
    and R_tokens: "R s (s\<lparr>TOKENS_BY_HASH := k\<rparr>)"
    and R_used_event: "R s (snd (kernel_append_event E sid tid rid ''credential.token_used'' body s))"
begin

lemma draw_obeys: "obeys R (draw_token E)"
  by (simp add: obeys_def draw_token_def R_draw)

lemma set_token_obeys: "obeys R (set_token h token)" "obeys R (\<lambda>st. (Inr (), st\<lparr>TOKENS_BY_HASH := k st\<rparr>))"
  by (simp_all add: obeys_def set_token_def R_tokens)

lemma used_event_obeys: "obeys R (kernel_append_event E sid tid rid ''credential.token_used'' body)"
  by (simp add: obeys_def R_used_event)

lemmas token_rules = obeys_rules obeys_pure obeys_lookup obeys_if_state obeys_case_option draw_obeys set_token_obeys used_event_obeys

lemma issue_obeys: "obeys R (issue_credential_token E sid tid rid pd add tool scope profile executor seconds)"
  unfolding issue_credential_token_def Let_def by (intro token_rules)

lemma consume_obeys: "obeys R (consume_credential_token E sid tid rid raw pd tool scope executor profile)"
  unfolding consume_credential_token_def Let_def
  by (intro token_rules)

lemma invalidate_obeys: "obeys R (invalidate_tokens E selected reason)"
proof -
  have "obeys R (\<lambda>st. (Inr (n st), st\<lparr>TOKENS_BY_HASH := k st\<rparr>))" for n k by (simp add: obeys_def R_tokens)
  then show ?thesis unfolding invalidate_tokens_def Let_def by (intro token_rules)
qed

end

text \<open>A relation that looks at the ledgers only.\<close>

locale ledger_relation =
  fixes E :: kernel_env and R :: "nervous_state \<Rightarrow> nervous_state \<Rightarrow> bool"
  assumes L_refl: "R s s"
    and L_trans: "R s t \<Longrightarrow> R t u \<Longrightarrow> R s u"
    and L_tables: "R s (s\<lparr>ns_tick := n\<rparr>)" "R s (s\<lparr>ns_draw := n\<rparr>)" "R s (s\<lparr>SESSION_CANONICAL_STATE := d\<rparr>)"
      "R s (s\<lparr>ADMISSIONS_BY_PROPOSAL := a\<rparr>)" "R s (s\<lparr>COMMIT_RESULTS_BY_KEY := c\<rparr>)" "R s (s\<lparr>APPROVALS_BY_ID := p\<rparr>)"
      "R s (s\<lparr>PENDING_APPROVALS_CACHE := q\<rparr>)" "R s (s\<lparr>TOKENS_BY_HASH := k\<rparr>)"
    and L_event: "R s (snd (kernel_append_event E sid tid rid ty body s))"

sublocale ledger_relation \<subseteq> approvals_neutral E R
  by unfold_locales (rule L_refl L_tables L_event | erule (1) L_trans)+

sublocale ledger_relation \<subseteq> tokens_neutral E R
  by unfold_locales (rule L_tables L_event)+

sublocale ledger_relation \<subseteq> kernel_monitor E R
  by unfold_locales (rule L_tables L_event create_obeys decide_obeys rebuild_obeys issue_obeys consume_obeys invalidate_obeys)+

end
