(* ===== verification/Nervous_Demo.thy ===== *)
theory Nervous_Demo
  imports Nervous_Lifecycle
begin

text \<open>
  A run of the action kernel on a small environment, on which the hypotheses of its theorems are checked.
  The text of a value, and so its digest, is short here: the identifier of an event, the tool of a proposal,
  the proposal of an approval.
\<close>

definition demo_text :: "json \<Rightarrow> string" where
  "demo_text v =
     (case v of
        JObj kvs \<Rightarrow>
          (case json_get kvs ''id'' of
             JInt i \<Rightarrow> ''event-'' @ str_of_int i
           | _ \<Rightarrow> (case json_get kvs ''payload'' of
                JObj p \<Rightarrow> str_or_empty (json_get p ''tool_name'')
              | _ \<Rightarrow> (case json_get kvs ''proposal_digest'' of JStr d \<Rightarrow> d | _ \<Rightarrow> ''decision'')))
      | _ \<Rightarrow> ''value'')"

text \<open>Of an instant only whether it lies in the first millisecond is written.\<close>

definition demo_datetime :: datetime_lib where
  "demo_datetime =
     \<lparr>fromisoformat = (\<lambda>s. Inr (aware_utc (if s = ''later'' then 1000000 else 0))),
      isoformat = (\<lambda>d. if dt_micros d < 1000 then ''early'' else ''later'')\<rparr>"

definition demo_kernel :: kernel_env where
  "demo_kernel = demo_kernel_env\<lparr>ke_jcs := demo_text, ke_datetime := demo_datetime, ke_clock := int\<rparr>"

definition demo_tool_call :: "string \<Rightarrow> json" where
  "demo_tool_call tool_name = JObj [(''proposal_type'', JStr ''action.tool_call''), (''payload'', JObj [(''tool_name'', JStr tool_name)])]"

definition demo_request :: "(string \<times> json) list \<Rightarrow> (string \<times> json) list" where
  "demo_request extra = [(''contract_version'', JStr CONTRACT_VERSION), (''session_id'', JStr ''s''), (''trace_id'', JStr ''t'')] @ extra"

definition demo_admission :: "string \<Rightarrow> kernel_call" where
  "demo_admission tool_name = AdmitProposal (demo_request [(''proposal'', demo_tool_call tool_name)])"

definition demo_commit :: "string \<Rightarrow> string \<Rightarrow> (string \<times> json) list" where
  "demo_commit tool_name approval_id = demo_request
     [(''proposal_digest'', JStr tool_name), (''admission_decision_digest'', JStr ''decision''), (''approval_id'', JStr approval_id)]"

definition demo_issue :: "string \<Rightarrow> string \<Rightarrow> (string \<times> json) list" where
  "demo_issue tool_name approval_id = demo_request
     [(''proposal_digest'', JStr tool_name), (''admission_decision_digest'', JStr ''decision''), (''tool_name'', JStr tool_name),
      (''approval_id'', JStr approval_id), (''scope_json'', JObj []), (''tool_profile_definition'', JObj [])]"

definition demo_use :: "string \<Rightarrow> string \<Rightarrow> (string \<times> json) list" where
  "demo_use tool_name token = demo_request
     [(''proposal_digest'', JStr tool_name), (''tool_name'', JStr tool_name), (''token'', JStr token), (''scope_json'', JObj [])]"

text \<open>
  The proposal \<open>rm\<close> needs approval, which is given; then it gets a token, uses it and commits.
\<close>

definition demo_requested :: nervous_state where
  "demo_requested = fold (after_call demo_kernel) [demo_admission ''rm''] reset_runtime_state_for_tests"

definition demo_approved :: nervous_state where
  "demo_approved = after_call demo_kernel (DecideApproval ''apr-rm'' ''approve'' None None) demo_requested"

definition demo_issued :: nervous_state where
  "demo_issued = after_call demo_kernel (IssueToken (demo_issue ''rm'' ''apr-rm'')) demo_approved"

definition demo_committed :: nervous_state where
  "demo_committed = fold (after_call demo_kernel) [ConsumeToken (demo_use ''rm'' ''raw-0''), CommitProposal (demo_commit ''rm'' ''apr-rm'')] demo_issued"

lemma demo_reachable:
  "kernel_reachable demo_kernel demo_requested" "kernel_reachable demo_kernel demo_approved"
  "kernel_reachable demo_kernel demo_issued" "kernel_reachable demo_kernel demo_committed"
  unfolding demo_requested_def demo_approved_def demo_issued_def demo_committed_def
  by (simp_all add: kernel_reachable.intros del: after_call.simps)

end
