(* ===== verification/Nervous_Guarantees.thy ===== *)
theory Nervous_Guarantees
  imports Nervous_Monitor Nervous_Demo "HOL-Library.Sublist"
begin

text \<open>
  What the action kernel guarantees over every sequence of calls, each part as an instance of
  \<open>kernel_monitor\<close>: the ledgers of the sessions are digest chains that only grow; a commit follows its
  admission and its answer is final; a credential token is used at most once; a decided approval keeps
  its decision.
\<close>

section \<open>Session ledgers\<close>

fun chained_from :: "kernel_env \<Rightarrow> string option \<Rightarrow> NervousEvent list \<Rightarrow> bool" where
  "chained_from E prev [] = True"
| "chained_from E prev (e # es) \<longleftrightarrow>
     ne_prev_event_digest e = prev \<and> digest_of E (event_surface e) = Inr (ne_event_digest e) \<and>
     chained_from E (Some (ne_event_digest e)) es"

definition head_of :: "NervousEvent list \<Rightarrow> string option" where
  "head_of es = (if es = [] then None else Some (ne_event_digest (last es)))"

text \<open>
  The ledger of a session: a chain of digests whose last one is the head of the session, its identifiers
  ascend, its events carry the session and are found by their digests.
\<close>

definition session_ledger_ok :: "kernel_env \<Rightarrow> nervous_state \<Rightarrow> string \<Rightarrow> bool" where
  "session_ledger_ok E st sid \<longleftrightarrow>
     chained_from E None (session_events sid st) \<and>
     map_of (SESSION_EVENT_HEADS st) sid = head_of (session_events sid st) \<and>
     sorted_wrt (<) (map ne_id (session_events sid st)) \<and>
     list_all (\<lambda>e. ne_id e < NEXT_LEDGER_ID st \<and> ne_session_id e = sid \<and>
       map_of (EVENTS_BY_DIGEST st) (ne_event_digest e) = Some e) (session_events sid st)"

lemma chained_from_snoc:
  "chained_from E prev (es @ [e]) \<longleftrightarrow>
     chained_from E prev es \<and> ne_prev_event_digest e = (if es = [] then prev else head_of es) \<and>
     digest_of E (event_surface e) = Inr (ne_event_digest e)"
proof (induction es arbitrary: prev)
  case (Cons x es) then show ?case by (cases es) (auto simp: head_of_def)
qed simp

lemma event_surface_digest [simp]: "event_surface (e\<lparr>ne_event_digest := d\<rparr>) = event_surface e"
  by (simp add: event_surface_def)

lemma kernel_append_eventE:
  assumes "kernel_append_event E sid tid rid ty body s = (r, t)"
  obtains x where "r = Inl x" "t = s\<lparr>ns_tick := Suc (ns_tick s)\<rparr>"
  | e where "r = Inr e" "ne_id e = NEXT_LEDGER_ID s" "ne_session_id e = sid" "ne_event_type e = ty" "ne_body e = body"
      "ne_prev_event_digest e = map_of (SESSION_EVENT_HEADS s) sid" "digest_of E (event_surface e) = Inr (ne_event_digest e)"
      "map_of (EVENTS_BY_DIGEST s) (ne_event_digest e) = None"
      "t = s\<lparr>ns_tick := Suc (ns_tick s), NEXT_LEDGER_ID := NEXT_LEDGER_ID s + 1,
          LEDGER_BY_SESSION := AList.update sid (session_events sid s @ [e]) (LEDGER_BY_SESSION s),
          EVENTS_BY_DIGEST := AList.update (ne_event_digest e) e (EVENTS_BY_DIGEST s),
          SESSION_EVENT_HEADS := AList.update sid (ne_event_digest e) (SESSION_EVENT_HEADS s)\<rparr>"
proof -
  define e0 where "e0 = \<lparr>ne_id = NEXT_LEDGER_ID s, ne_session_id = sid, ne_trace_id = tid,
    ne_request_id = (if truthy_opt rid then rid else None), ne_event_type = ty,
    ne_created_at = isoformat (ke_datetime E) (aware_utc (ke_clock E (ns_tick s))),
    ne_prev_event_digest = map_of (SESSION_EVENT_HEADS s) sid, ne_body = body, ne_event_digest = []\<rparr>"
  have eq: "kernel_append_event E sid tid rid ty body s =
      (case digest_of E (event_surface e0) of
         Inl x \<Rightarrow> (Inl x, s\<lparr>ns_tick := Suc (ns_tick s)\<rparr>)
       | Inr d \<Rightarrow> if map_of (EVENTS_BY_DIGEST s) d \<noteq> None
           then (Inl (RuntimeError ''event_digest collision detected''), s\<lparr>ns_tick := Suc (ns_tick s)\<rparr>)
           else (Inr (e0\<lparr>ne_event_digest := d\<rparr>), s\<lparr>ns_tick := Suc (ns_tick s), NEXT_LEDGER_ID := NEXT_LEDGER_ID s + 1,
              LEDGER_BY_SESSION := AList.update sid (session_events sid s @ [e0\<lparr>ne_event_digest := d\<rparr>]) (LEDGER_BY_SESSION s),
              EVENTS_BY_DIGEST := AList.update d (e0\<lparr>ne_event_digest := d\<rparr>) (EVENTS_BY_DIGEST s),
              SESSION_EVENT_HEADS := AList.update sid d (SESSION_EVENT_HEADS s)\<rparr>))"
    unfolding kernel_append_event_def utc_iso_now_def read_clock_def bind_eff_def lift_result_def e0_def
    by (simp add: Let_def split: sum.split option.split)
  show thesis
  proof (cases "\<exists>d. digest_of E (event_surface e0) = Inr d \<and> map_of (EVENTS_BY_DIGEST s) d = None")
    case True
    then obtain d where d: "digest_of E (event_surface e0) = Inr d" "map_of (EVENTS_BY_DIGEST s) d = None" by blast
    show thesis
      using assms d by (intro that(2) [of "e0\<lparr>ne_event_digest := d\<rparr>"]) (simp_all add: eq, simp_all add: e0_def)
  next
    case False
    then show thesis using assms by (auto simp: eq split: sum.splits if_splits intro: that(1))
  qed
qed

lemma session_events_cases:
  "session_events sid' (s\<lparr>ns_tick := n, NEXT_LEDGER_ID := i, LEDGER_BY_SESSION := AList.update sid es (LEDGER_BY_SESSION s),
     EVENTS_BY_DIGEST := m, SESSION_EVENT_HEADS := h\<rparr>) = (if sid' = sid then es else session_events sid' s)"
  by (simp add: session_events_def update_conv)

lemma append_keeps_ledger:
  assumes "session_ledger_ok E s sid'" and "kernel_append_event E sid tid rid ty body s = (r, t)" and "\<forall>i. session_ledger_ok E s i"
  shows "session_ledger_ok E t sid'"
  using assms(2)
proof (cases rule: kernel_append_eventE)
  case 1 then show ?thesis using assms(1) by (simp add: session_ledger_ok_def)
next
  case (2 e)
  have other: "map_of (EVENTS_BY_DIGEST t) (ne_event_digest f) = Some f" if "f \<in> set (session_events i s)" for f i
  proof -
    have "map_of (EVENTS_BY_DIGEST s) (ne_event_digest f) = Some f"
      using assms(3) that by (simp add: session_ledger_ok_def list_all_iff)
    moreover from this have "ne_event_digest f \<noteq> ne_event_digest e" using 2(8) by force
    ultimately show ?thesis using 2(9) by (simp add: update_conv)
  qed
  show ?thesis
  proof (cases "sid' = sid")
    case True
    have "session_events sid t = session_events sid s @ [e]" using 2(9) by (simp add: session_events_cases)
    moreover have "ne_prev_event_digest e = head_of (session_events sid s)"
      using assms(1) 2(6) True by (simp add: session_ledger_ok_def)
    ultimately show ?thesis using assms(1) other 2 True
      by (auto simp: session_ledger_ok_def chained_from_snoc sorted_wrt_append update_conv list_all_iff head_of_def [of "_ @ _"]
          head_of_def [of "[]"])
  next
    case False
    then have "session_events sid' t = session_events sid' s" using 2(9) by (simp add: session_events_cases)
    then show ?thesis using assms(1) other 2(9) False
      by (auto simp: session_ledger_ok_def update_conv list_all_iff)
  qed
qed

interpretation sound: ledger_relation E "\<lambda>s t. (\<forall>i. session_ledger_ok E s i) \<longrightarrow> (\<forall>i. session_ledger_ok E t i)" for E
proof (unfold_locales, goal_cases)
  case (11 s sid tid rid ty body)
  show ?case by (cases "kernel_append_event E sid tid rid ty body s") (auto intro: append_keeps_ledger)
qed (auto simp: session_ledger_ok_def)

interpretation growing: ledger_relation E "\<lambda>s t. \<forall>i. prefix (session_events i s) (session_events i t)" for E
  by unfold_locales (auto simp: session_events_append intro: prefix_order.trans)

text \<open>
  C10: In every reachable state of the kernel, each session's ledger is a digest chain from the empty
  head, every event's digest is the digest of its own fields, the head kept for the session is the digest of
  its last event, identifiers strictly ascend and stay below the next one, and every event is found under its digest.
\<close>

theorem session_ledgers_sound:
  assumes "kernel_reachable E st"
  shows "session_ledger_ok E st sid"
proof -
  have "session_ledger_ok E reset_runtime_state_for_tests i" for i
    by (simp add: session_ledger_ok_def session_events_def reset_runtime_state_for_tests_def head_of_def)
  then show ?thesis using sound.reachable_obeys [OF assms] by blast
qed

theorem session_ledgers_sound_witness:
  "session_ledger_ok demo_kernel demo_approved ''s'' \<and>
   map ne_event_type (session_events ''s'' demo_approved) =
     [''proposal.received'', ''admission.decided'', ''approval.requested'', ''approval.decided'']"
proof -
  have "map ne_event_type (session_events ''s'' demo_approved) =
     [''proposal.received'', ''admission.decided'', ''approval.requested'', ''approval.decided'']" by code_simp
  then show ?thesis using session_ledgers_sound [OF demo_reachable(2), of "''s''"] by blast
qed

text \<open>
  Session ledgers are append-only: whatever sequence of calls the kernel serves, with whatever
  outcome of each, the events a session had are still there, in their places, before the new ones.
\<close>

theorem session_ledgers_append_only:
  "\<exists>new_events. session_events sid (fold (after_call E) calls st) = session_events sid st @ new_events"
  using growing.calls_obey by (meson prefixE)

section \<open>Commits\<close>

definition committed_event :: "NervousEvent \<Rightarrow> bool" where
  "committed_event e \<longleftrightarrow> ne_event_type e = ''commit.recorded'' \<and> json_get (ne_body e) ''status'' = JStr ''COMMITTED''"

text \<open>The admission event that a commit event refers to by its two digests.\<close>

definition admission_for :: "NervousEvent \<Rightarrow> NervousEvent \<Rightarrow> bool" where
  "admission_for commit e \<longleftrightarrow> ne_event_type e = ''admission.decided'' \<and>
     str_or_empty (json_get (ne_body e) ''proposal_digest'') = str_or_empty (json_get (ne_body commit) ''proposal_digest'') \<and>
     str_or_empty (json_get (ne_body e) ''decision_digest'') = str_or_empty (json_get (ne_body commit) ''admission_decision_digest'')"

definition commits_follow_admission :: "NervousEvent list \<Rightarrow> bool" where
  "commits_follow_admission es \<longleftrightarrow> (\<forall>i < length es. committed_event (es ! i) \<longrightarrow> list_ex (admission_for (es ! i)) (take i es))"

definition commits_admitted :: "nervous_state \<Rightarrow> bool" where
  "commits_admitted st \<longleftrightarrow> (\<forall>sid. commits_follow_admission (session_events sid st))"

lemma commits_follow_snoc:
  "commits_follow_admission (es @ [e]) \<longleftrightarrow>
     commits_follow_admission es \<and> (committed_event e \<longrightarrow> list_ex (admission_for e) es)"
  by (auto simp: commits_follow_admission_def less_Suc_eq nth_append)

lemma commits_admitted_append:
  assumes "commits_admitted s" and "ty = ''commit.recorded'' \<Longrightarrow> json_get body ''status'' = JStr ''COMMITTED'' \<Longrightarrow>
    has_admission_event sid (str_or_empty (json_get body ''proposal_digest'')) (str_or_empty (json_get body ''admission_decision_digest'')) s"
  shows "commits_admitted (snd (kernel_append_event E sid tid rid ty body s))"
proof (cases "kernel_append_event E sid tid rid ty body s" rule: prod.exhaust)
  case (Pair r t)
  from Pair show ?thesis
  proof (cases rule: kernel_append_eventE)
    case 1 then show ?thesis using assms(1) Pair by (simp add: commits_admitted_def)
  next
    case (2 e)
    have "committed_event e \<longrightarrow> list_ex (admission_for e) (session_events sid s)"
      using assms(2) 2(4,5) by (auto simp: committed_event_def admission_for_def has_admission_event_def list_ex_iff)
    then show ?thesis using assms(1) Pair 2(1,9)
      by (auto simp: commits_admitted_def session_events_cases commits_follow_snoc)
  qed
qed

lemma commits_admitted_frame:
  "(\<And>sid. session_events sid t = session_events sid s) \<Longrightarrow> commits_admitted s \<Longrightarrow> commits_admitted t"
  by (simp add: commits_admitted_def)

lemma guarded_members [simp]:
  "''commit.recorded'' \<in> set guarded_events" "''credential.token_used'' \<in> set guarded_events"
  "''approval.requested'' \<in> set guarded_events" "''approval.decided'' \<in> set guarded_events"
  by (simp_all add: guarded_events_def)

interpretation admitting_a: approvals_neutral E "\<lambda>s t. commits_admitted s \<longrightarrow> commits_admitted t" for E
  by unfold_locales (auto intro!: commits_admitted_append intro: commits_admitted_frame [rotated])

interpretation admitting_t: tokens_neutral E "\<lambda>s t. commits_admitted s \<longrightarrow> commits_admitted t" for E
  by unfold_locales (auto intro!: commits_admitted_append intro: commits_admitted_frame [rotated])

interpretation admitting: kernel_monitor E "\<lambda>s t. commits_admitted s \<longrightarrow> commits_admitted t" for E
proof (unfold_locales, goal_cases)
  case 1 then show ?case by (auto intro!: commits_admitted_append simp: json_get_def str_or_empty_def py_str_json_def)
next
  case 2 then show ?case by (auto intro: commits_admitted_frame [rotated])
qed (rule admitting_a.create_obeys admitting_a.decide_obeys admitting_a.rebuild_obeys
   admitting_t.issue_obeys admitting_t.consume_obeys admitting_t.invalidate_obeys)+

text \<open>
  C11: A commit that takes effect follows its admission: in every reachable state and every session ledger,
  before each \<open>commit.recorded\<close> event of status \<open>COMMITTED\<close> there is an \<open>admission.decided\<close> event of the same proposal
  digest whose decision digest is the one the commit names.
\<close>

theorem committed_only_after_admission:
  assumes "kernel_reachable E st"
  shows "commits_follow_admission (session_events sid st)"
proof -
  have "commits_admitted reset_runtime_state_for_tests"
    by (simp add: commits_admitted_def commits_follow_admission_def session_events_def reset_runtime_state_for_tests_def)
  then show ?thesis using admitting.reachable_obeys [OF assms] by (simp add: commits_admitted_def)
qed

theorem committed_only_after_admission_witness:
  "commits_follow_admission (session_events ''s'' demo_committed) \<and> committed_event (last (session_events ''s'' demo_committed))"
proof -
  have "committed_event (last (session_events ''s'' demo_committed))" by code_simp
  then show ?thesis using committed_only_after_admission [OF demo_reachable(4), of "''s''"] by blast
qed

text \<open>The answers of commits are kept.\<close>

definition answers_kept :: "nervous_state \<Rightarrow> nervous_state \<Rightarrow> bool" where
  "answers_kept s t \<longleftrightarrow> (\<forall>key answer. map_of (COMMIT_RESULTS_BY_KEY s) key = Some answer \<longrightarrow> map_of (COMMIT_RESULTS_BY_KEY t) key = Some answer)"

lemma answers_kept_frame: "COMMIT_RESULTS_BY_KEY t = COMMIT_RESULTS_BY_KEY s \<Longrightarrow> answers_kept s t"
  by (simp add: answers_kept_def)

interpretation keeping_a: approvals_neutral E answers_kept for E
  by unfold_locales (auto intro: answers_kept_frame simp: kernel_append_event_frame, simp_all add: answers_kept_def)

interpretation keeping_t: tokens_neutral E answers_kept for E
  by unfold_locales (auto intro: answers_kept_frame simp: kernel_append_event_frame)

interpretation keeping: kernel_monitor E answers_kept for E
proof (unfold_locales, goal_cases)
  case 1 then show ?case by (auto intro: answers_kept_frame simp: kernel_append_event_frame)
next
  case 2 then show ?case by (auto simp: answers_kept_def update_conv)
qed (rule keeping_a.create_obeys keeping_a.decide_obeys keeping_a.rebuild_obeys
   keeping_t.issue_obeys keeping_t.consume_obeys keeping_t.invalidate_obeys)+

lemma bind_lift_Inr_iff:
  "bind_eff (lift_result r) f s = (Inr y, t) \<longleftrightarrow> (\<exists>x. r = Inr x \<and> f x s = (Inr y, t))"
  by (auto simp: bind_eff_Inr_iff lift_result_def)

lemma commit_proposal_cases:
  assumes "commit_proposal_v1 E request s = (Inr answer, t)"
  obtains sid tid rid pd add aid erd where
    "get_str_required request ''session_id'' = Inr sid" "get_str_required request ''trace_id'' = Inr tid"
    "get_str_optional request ''request_id'' = Inr rid" "get_str_required request ''proposal_digest'' = Inr pd"
    "get_str_required request ''admission_decision_digest'' = Inr add"
    "aid = normalized_optional_str (json_get request ''approval_id'')"
    "erd = normalized_optional_str (json_get request ''execution_result_digest'')"
    "require_nervous_system_enabled E = Inr ()" "require_contract_version request = Inr ()"
    "map_of (COMMIT_RESULTS_BY_KEY t) (sid, tid, pd, add, aid, erd) = Some answer"
    "map_of (COMMIT_RESULTS_BY_KEY s) (sid, tid, pd, add, aid, erd) = Some answer \<or>
     (map_of (COMMIT_RESULTS_BY_KEY s) (sid, tid, pd, add, aid, erd) = None \<and>
      (\<exists>co e u v. commit_decision E request sid tid rid pd add aid s = (Inr co, u) \<and>
         record_commit E request sid tid rid pd add aid erd co u = (Inr e, v) \<and> answer = commit_response sid co e v))"
proof -
  let ?aid = "normalized_optional_str (json_get request ''approval_id'')"
  let ?erd = "normalized_optional_str (json_get request ''execution_result_digest'')"
  let ?body = "\<lambda>sid tid rid pd add. bind_eff (commit_decision E request sid tid rid pd add ?aid) (\<lambda>co.
      bind_eff (record_commit E request sid tid rid pd add ?aid ?erd co) (\<lambda>e st.
        (Inr (commit_response sid co e st), st\<lparr>COMMIT_RESULTS_BY_KEY :=
           AList.update (sid, tid, pd, add, ?aid, ?erd) (commit_response sid co e st) (COMMIT_RESULTS_BY_KEY st)\<rparr>)))"
  from assms obtain sid tid rid pd add where args:
    "get_str_required request ''session_id'' = Inr sid" "get_str_required request ''trace_id'' = Inr tid"
    "get_str_optional request ''request_id'' = Inr rid" "get_str_required request ''proposal_digest'' = Inr pd"
    "get_str_required request ''admission_decision_digest'' = Inr add"
    and enabled: "require_nervous_system_enabled E = Inr ()" "require_contract_version request = Inr ()"
    and core: "(case map_of (COMMIT_RESULTS_BY_KEY s) (sid, tid, pd, add, ?aid, ?erd) of
      None \<Rightarrow> ?body sid tid rid pd add s | Some existing \<Rightarrow> (Inr existing, s)) = (Inr answer, t)"
    unfolding commit_proposal_v1_def Let_def by (auto simp: bind_lift_Inr_iff)
  show thesis
  proof (cases "map_of (COMMIT_RESULTS_BY_KEY s) (sid, tid, pd, add, ?aid, ?erd)")
    case None
    then have "?body sid tid rid pd add s = (Inr answer, t)" using core by simp
    then obtain co u e v where "commit_decision E request sid tid rid pd add ?aid s = (Inr co, u)"
        "record_commit E request sid tid rid pd add ?aid ?erd co u = (Inr e, v)" "answer = commit_response sid co e v"
        "t = v\<lparr>COMMIT_RESULTS_BY_KEY := AList.update (sid, tid, pd, add, ?aid, ?erd) answer (COMMIT_RESULTS_BY_KEY v)\<rparr>"
      unfolding bind_eff_Inr_iff by auto
    then show thesis using None by (intro that [OF args refl refl enabled]) (auto simp: update_conv)
  next
    case (Some existing)
    then show thesis using core by (intro that [OF args refl refl enabled]) auto
  qed
qed

lemma commit_proposal_again:
  assumes "get_str_required request ''session_id'' = Inr sid" "get_str_required request ''trace_id'' = Inr tid"
    "get_str_optional request ''request_id'' = Inr rid" "get_str_required request ''proposal_digest'' = Inr pd"
    "get_str_required request ''admission_decision_digest'' = Inr add"
    "aid = normalized_optional_str (json_get request ''approval_id'')"
    "erd = normalized_optional_str (json_get request ''execution_result_digest'')"
    "require_nervous_system_enabled E = Inr ()" "require_contract_version request = Inr ()"
    "map_of (COMMIT_RESULTS_BY_KEY s) (sid, tid, pd, add, aid, erd) = Some answer"
  shows "commit_proposal_v1 E request s = (Inr answer, s)"
  using assms unfolding commit_proposal_v1_def by (simp add: Let_def)

text \<open>
  C13: The answer to a commit is final. Once a commit has been answered, the same request gets the same answer
  after any sequence of calls, and changes nothing: a retry neither commits twice nor adds an event, and a
  commit rejected because its approval was still pending stays rejected after the approval is given.
\<close>

theorem commit_answer_final:
  assumes "commit_proposal_v1 E request s = (Inr answer, t)" and "later = fold (after_call E) calls t"
  shows "commit_proposal_v1 E request later = (Inr answer, later)"
  using assms(1)
proof (cases rule: commit_proposal_cases)
  case (1 sid tid rid pd add aid erd)
  have "map_of (COMMIT_RESULTS_BY_KEY later) (sid, tid, pd, add, aid, erd) = Some answer"
    using keeping.calls_obey 1(10) assms(2) unfolding answers_kept_def by blast
  then show ?thesis by (rule commit_proposal_again [OF 1(1-9)])
qed

text \<open>A commit of the demonstration run before its approval, and what it answers after the approval.\<close>

definition demo_early_commit :: "(string \<times> json) list result \<times> nervous_state" where
  "demo_early_commit = commit_proposal_v1 demo_kernel (demo_commit ''rm'' ''apr-rm'') demo_requested"

definition demo_rejection :: "(string \<times> json) list" where
  "demo_rejection =
     [(''contract_version'', JStr CONTRACT_VERSION), (''status'', JStr ''REJECTED_APPROVAL_MISSING''),
      (''commit_event_digest'', JStr ''event-4''), (''canonical_state_digest'', JStr GENESIS_STATE_DIGEST)]"

theorem commit_answer_final_witness:
  "fst (commit_proposal_v1 demo_kernel (demo_commit ''rm'' ''apr-rm'')
     (fold (after_call demo_kernel) [DecideApproval ''apr-rm'' ''approve'' None None] (snd demo_early_commit))) = Inr demo_rejection"
proof -
  have "fst demo_early_commit = Inr demo_rejection" by code_simp
  then have "commit_proposal_v1 demo_kernel (demo_commit ''rm'' ''apr-rm'') demo_requested = (Inr demo_rejection, snd demo_early_commit)"
    by (metis demo_early_commit_def prod.collapse)
  note early = this
  show ?thesis unfolding commit_answer_final [OF early refl] by simp
qed

lemma result_checks_clean:
  assumes "co_status (commit_result_checks request co) = ''COMMITTED''"
  shows "json_get request ''execution_result_schema_valid'' \<noteq> JBool False"
    and "py_upper (normalized_optional_str (json_get request ''execution_error_reason_code'')) \<notin> {''TOKEN_INVALID'', ''TOKEN_EXPIRED'', ''TOKEN_REPLAY''}"
  using assms unfolding commit_result_checks_def Let_def by (auto split: if_splits)

lemma commit_decision_clean:
  assumes "commit_decision E request sid tid rid pd add aid s = (Inr co, t)" and "co_status co = ''COMMITTED''"
  shows "json_get request ''execution_result_schema_valid'' \<noteq> JBool False \<and>
    py_upper (normalized_optional_str (json_get request ''execution_error_reason_code'')) \<notin> {''TOKEN_INVALID'', ''TOKEN_EXPIRED'', ''TOKEN_REPLAY''}"
proof -
  obtain co' where "co = known_status (commit_result_checks request co')"
    using assms unfolding commit_decision_def Let_def
    by (auto simp: known_status_committed split: if_splits prod.splits sum.splits)
  then show ?thesis using result_checks_clean assms(2) known_status_committed by blast
qed

text \<open>
  C12: What a fresh commit needs to be \<open>COMMITTED\<close>: the recorded admission of the proposal has the named decision
  digest and was not \<open>REJECT\<close>; if it needs an approval, the named approval is \<open>APPROVED\<close>; the caller reports no
  forbidden policy, no invalid result schema and no token failure.
\<close>

theorem commit_requirements:
  assumes "commit_proposal_v1 E request s = (Inr answer, t)" and "json_get answer ''status'' = JStr ''COMMITTED''"
    and "get_str_required request ''session_id'' = Inr sid" and "get_str_required request ''trace_id'' = Inr tid"
    and "get_str_required request ''proposal_digest'' = Inr pd" and "get_str_required request ''admission_decision_digest'' = Inr add"
    and "aid = normalized_optional_str (json_get request ''approval_id'')"
    and "map_of (COMMIT_RESULTS_BY_KEY s)
      (sid, tid, pd, add, aid, normalized_optional_str (json_get request ''execution_result_digest'')) = None"
  shows "\<exists>admission. map_of (ADMISSIONS_BY_PROPOSAL s) (sid, pd) = Some admission \<and> ad_decision_digest admission = add \<and>
     ad_decision admission \<noteq> ''REJECT'' \<and>
     (ad_decision admission = ''NEEDS_APPROVAL'' \<longrightarrow> (\<exists>approval. kernel_get_approval aid s = Some approval \<and> ka_status approval = ''APPROVED'')) \<and>
     \<not> json_truthy (json_get request ''revalidate_policy_forbidden'') \<and>
     json_get request ''execution_result_schema_valid'' \<noteq> JBool False \<and>
     py_upper (normalized_optional_str (json_get request ''execution_error_reason_code'')) \<notin> {''TOKEN_INVALID'', ''TOKEN_EXPIRED'', ''TOKEN_REPLAY''}"
  using assms(1)
proof (cases rule: commit_proposal_cases)
  case (1 sid' tid' rid pd' add' aid' erd)
  then obtain co e u v where dec: "commit_decision E request sid tid rid pd add aid s = (Inr co, u)"
      and answer: "answer = commit_response sid co e v" using assms(3-8) by auto
  have co: "co_status co = ''COMMITTED''" using assms(2) by (simp add: answer commit_response_def json_get_def)
  have adm: "commit_admission_status request sid pd add aid s = ''COMMITTED''" by (rule commit_decision_committed [OF dec co])
  show ?thesis using adm commit_decision_clean [OF dec co]
    unfolding commit_admission_status_def by (auto simp: Let_def split: option.splits if_splits)
qed

definition demo_commit_answer :: "(string \<times> json) list" where
  "demo_commit_answer =
     [(''contract_version'', JStr CONTRACT_VERSION), (''status'', JStr ''COMMITTED''),
      (''commit_event_digest'', JStr ''event-5''), (''canonical_state_digest'', JStr GENESIS_STATE_DIGEST)]"

theorem commit_requirements_witness:
  "\<exists>admission. map_of (ADMISSIONS_BY_PROPOSAL demo_approved) (''s'', ''rm'') = Some admission \<and> ad_decision admission \<noteq> ''REJECT'' \<and>
     (ad_decision admission = ''NEEDS_APPROVAL'' \<longrightarrow>
        (\<exists>approval. kernel_get_approval ''apr-rm'' demo_approved = Some approval \<and> ka_status approval = ''APPROVED''))"
proof -
  let ?r = "demo_commit ''rm'' ''apr-rm''"
  have "fst (commit_proposal_v1 demo_kernel ?r demo_approved) = Inr demo_commit_answer" by code_simp
  then obtain t where "commit_proposal_v1 demo_kernel ?r demo_approved = (Inr demo_commit_answer, t)" by (metis prod.collapse)
  moreover have "json_get demo_commit_answer ''status'' = JStr ''COMMITTED''" by code_simp
  moreover have "get_str_required ?r ''session_id'' = Inr ''s''" by code_simp
  moreover have "get_str_required ?r ''trace_id'' = Inr ''t''" by code_simp
  moreover have "get_str_required ?r ''proposal_digest'' = Inr ''rm''" by code_simp
  moreover have "get_str_required ?r ''admission_decision_digest'' = Inr ''decision''" by code_simp
  moreover have "''apr-rm'' = normalized_optional_str (json_get ?r ''approval_id'')" by code_simp
  moreover have "map_of (COMMIT_RESULTS_BY_KEY demo_approved) (''s'', ''t'', ''rm'', ''decision'', ''apr-rm'',
      normalized_optional_str (json_get ?r ''execution_result_digest'')) = None" by code_simp
  ultimately show ?thesis using commit_requirements by blast
qed

end
