(* ===== verification/Nervous_Tokens.thy ===== *)
theory Nervous_Tokens
  imports Nervous_Guarantees
begin

text \<open>
  Credential tokens over every sequence of calls of the action kernel: the events that record a use are
  counted over all ledgers and set against the token table, which shows that a token is used at most once,
  and tokens of an ended session or a denied proposal stay refused. The environment is assumed to draw
  tokens of distinct hashes and to format times to non-empty texts.
\<close>

section \<open>Uses and the token table\<close>

definition token_env_ok :: "kernel_env \<Rightarrow> bool" where
  "token_env_ok E \<longleftrightarrow> inj (\<lambda>n. token_hash_of E (ke_token_urlsafe E n)) \<and> (\<forall>d. isoformat (ke_datetime E) d \<noteq> [])"

definition all_events :: "nervous_state \<Rightarrow> NervousEvent list" where
  "all_events st = concat (map snd (LEDGER_BY_SESSION st))"

definition uses_token :: "string \<Rightarrow> NervousEvent \<Rightarrow> bool" where
  "uses_token h e \<longleftrightarrow> ne_event_type e = ''credential.token_used'' \<and> json_get (ne_body e) ''token_hash'' = JStr h"

definition use_count :: "string \<Rightarrow> nervous_state \<Rightarrow> nat" where
  "use_count h st = length (filter (uses_token h) (all_events st))"

definition spent :: "string \<Rightarrow> nervous_state \<Rightarrow> nat" where
  "spent h st = (case map_of (TOKENS_BY_HASH st) h of None \<Rightarrow> 0 | Some token \<Rightarrow> if truthy_opt (tk_used_at token) then 1 else 0)"

definition tokens_sound :: "kernel_env \<Rightarrow> nervous_state \<Rightarrow> bool" where
  "tokens_sound E st \<longleftrightarrow> (\<forall>h. use_count h st \<le> spent h st) \<and>
     (\<forall>h \<in> dom (map_of (TOKENS_BY_HASH st)). \<exists>n < ns_draw st. h = token_hash_of E (ke_token_urlsafe E n))"

text \<open>What stays of a token: its bindings, and that it was used or invalidated.\<close>

definition token_stays :: "TokenRecord \<Rightarrow> TokenRecord \<Rightarrow> bool" where
  "token_stays tok tok' \<longleftrightarrow> tk_session_id tok' = tk_session_id tok \<and> tk_proposal_digest tok' = tk_proposal_digest tok \<and>
     tk_tool_name tok' = tk_tool_name tok \<and> tk_scope_digest tok' = tk_scope_digest tok \<and>
     tk_executor_instance_id tok' = tk_executor_instance_id tok \<and>
     (truthy_opt (tk_used_at tok) \<longrightarrow> truthy_opt (tk_used_at tok')) \<and>
     (truthy_opt (tk_invalidated_at tok) \<longrightarrow> truthy_opt (tk_invalidated_at tok'))"

definition tokens_stay :: "nervous_state \<Rightarrow> nervous_state \<Rightarrow> bool" where
  "tokens_stay s t \<longleftrightarrow> (\<forall>h tok. map_of (TOKENS_BY_HASH s) h = Some tok \<longrightarrow>
     (\<exists>tok'. map_of (TOKENS_BY_HASH t) h = Some tok' \<and> token_stays tok tok'))"

definition token_order :: "kernel_env \<Rightarrow> nervous_state \<Rightarrow> nervous_state \<Rightarrow> bool" where
  "token_order E s t \<longleftrightarrow> (token_env_ok E \<and> tokens_sound E s \<longrightarrow> tokens_sound E t \<and> tokens_stay s t)"

lemma token_stays_refl [simp]: "token_stays tok tok"
  by (simp add: token_stays_def)

lemma token_stays_trans: "token_stays tok tok' \<Longrightarrow> token_stays tok' tok'' \<Longrightarrow> token_stays tok tok''"
  by (simp add: token_stays_def)

lemma tokens_stay_refl [simp]: "tokens_stay s s"
  by (simp add: tokens_stay_def)

lemma tokens_stay_trans: "tokens_stay s t \<Longrightarrow> tokens_stay t u \<Longrightarrow> tokens_stay s u"
  unfolding tokens_stay_def using token_stays_trans by blast

lemma mset_concat_update:
  "mset (concat (map snd (AList.update k ((case map_of al k of None \<Rightarrow> [] | Some es \<Rightarrow> es) @ [e]) al))) =
     add_mset e (mset (concat (map snd al)))"
  by (induction al) auto

lemma use_count_append:
  assumes "kernel_append_event E sid tid rid ty body s = (r, t)"
  shows "use_count h t = use_count h s + (case r of Inr e \<Rightarrow> if uses_token h e then 1 else 0 | Inl _ \<Rightarrow> 0)"
  using assms
proof (cases rule: kernel_append_eventE)
  case 1 then show ?thesis by (simp add: use_count_def all_events_def)
next
  case (2 e)
  have "mset (all_events t) = add_mset e (mset (all_events s))"
    using mset_concat_update [of sid "LEDGER_BY_SESSION s" e] 2(9) by (simp add: all_events_def session_events_def)
  then have "size (filter_mset (uses_token h) (mset (all_events t))) = size (filter_mset (uses_token h) (add_mset e (mset (all_events s))))"
    by simp
  then show ?thesis using 2(1) by (simp add: use_count_def flip: size_mset mset_filter)
qed

lemma use_count_append_other:
  assumes "ty \<noteq> ''credential.token_used''"
  shows "use_count h (snd (kernel_append_event E sid tid rid ty body s)) = use_count h s"
proof (cases "kernel_append_event E sid tid rid ty body s")
  case (Pair r t)
  have "\<not> uses_token h e" if "r = Inr e" for e
    using Pair that assms by (elim kernel_append_eventE) (auto simp: uses_token_def)
  then show ?thesis using use_count_append [OF Pair] Pair by (auto split: sum.split)
qed

lemma token_order_refl: "token_order E s s"
  by (simp add: token_order_def)

lemma token_order_trans: "token_order E s t \<Longrightarrow> token_order E t u \<Longrightarrow> token_order E s u"
  unfolding token_order_def using tokens_stay_trans by blast

lemma token_order_frame:
  assumes "TOKENS_BY_HASH t = TOKENS_BY_HASH s" and "ns_draw t = ns_draw s" and "\<And>h. use_count h t = use_count h s"
  shows "token_order E s t"
  using assms by (simp add: token_order_def tokens_sound_def tokens_stay_def spent_def)

lemma use_count_frame:
  "LEDGER_BY_SESSION t = LEDGER_BY_SESSION s \<Longrightarrow> use_count h t = use_count h s"
  by (simp add: use_count_def all_events_def)

interpretation tokens_a: approvals_neutral E "token_order E" for E
proof (unfold_locales, goal_cases)
  case (2 s t u) then show ?case by (rule token_order_trans)
qed (auto intro!: token_order_frame token_order_refl use_count_frame use_count_append_other simp: kernel_append_event_frame)

section \<open>Steps on tokens\<close>

lemma draw_order: "token_order E s (s\<lparr>ns_draw := Suc (ns_draw s)\<rparr>)"
  unfolding token_order_def tokens_sound_def tokens_stay_def spent_def
  by (auto simp: use_count_def all_events_def less_Suc_eq)

lemma fresh_hash:
  assumes "token_env_ok E" and "tokens_sound E s" and "h = token_hash_of E (ke_token_urlsafe E (ns_draw s))"
  shows "map_of (TOKENS_BY_HASH s) h = None"
proof (rule ccontr)
  assume "map_of (TOKENS_BY_HASH s) h \<noteq> None"
  then obtain n where "n < ns_draw s" "h = token_hash_of E (ke_token_urlsafe E n)"
    using assms(2) unfolding tokens_sound_def by blast
  then show False using assms(1,3) unfolding token_env_ok_def by (metis (mono_tags, lifting) injD less_irrefl)
qed

text \<open>The draw of a token and, the clock having ticked, its entry in the table.\<close>

lemma insert_order:
  assumes "h = token_hash_of E (ke_token_urlsafe E (ns_draw s))"
  shows "token_order E s (s\<lparr>ns_draw := Suc (ns_draw s), ns_tick := n, TOKENS_BY_HASH := AList.update h tok (TOKENS_BY_HASH s)\<rparr>)"
    (is "token_order E s ?t")
  unfolding token_order_def
proof (intro impI, elim conjE)
  assume env: "token_env_ok E" and sound: "tokens_sound E s"
  have new: "map_of (TOKENS_BY_HASH s) h = None" by (rule fresh_hash [OF env sound assms])
  have "use_count i ?t \<le> spent i ?t" for i
  proof -
    have "use_count i s \<le> spent i s" using sound by (simp add: tokens_sound_def)
    moreover have "spent i s \<le> spent i ?t" using new by (auto simp: spent_def update_conv)
    ultimately show ?thesis using use_count_frame [of ?t s i] by simp
  qed
  moreover have "\<exists>n < Suc (ns_draw s). i = token_hash_of E (ke_token_urlsafe E n)" if "i \<in> dom (map_of (TOKENS_BY_HASH ?t))" for i
  proof (cases "i = h")
    case True then show ?thesis using assms by blast
  next
    case False
    then have "i \<in> dom (map_of (TOKENS_BY_HASH s))" using that by (simp add: update_conv dom_def)
    then show ?thesis using sound less_SucI unfolding tokens_sound_def by blast
  qed
  moreover have "tokens_stay s ?t" using new by (auto simp: tokens_stay_def update_conv)
  ultimately show "tokens_sound E ?t \<and> tokens_stay s ?t" by (simp add: tokens_sound_def)
qed

text \<open>A token changed in place; the ledgers may record at most as many uses as it then has spent.\<close>

lemma retouch_order:
  assumes "map_of (TOKENS_BY_HASH s) h = Some tok" and "token_stays tok tok'" and "ns_draw t = ns_draw s"
    and "TOKENS_BY_HASH t = AList.update h tok' (TOKENS_BY_HASH s)"
    and "\<And>i. i \<noteq> h \<Longrightarrow> use_count i t = use_count i s"
    and "use_count h s \<le> spent h s \<Longrightarrow> use_count h t \<le> spent h t"
  shows "token_order E s t"
  unfolding token_order_def
proof (intro impI, elim conjE)
  assume sound: "tokens_sound E s"
  have "use_count i t \<le> spent i t" for i
    using sound assms(4-6) by (cases "i = h") (auto simp: tokens_sound_def spent_def update_conv)
  moreover have "dom (map_of (TOKENS_BY_HASH t)) = dom (map_of (TOKENS_BY_HASH s))"
    using assms(1,4) by (auto simp: update_conv split: if_splits)
  ultimately show "tokens_sound E t \<and> tokens_stay s t"
    using sound assms(1-4) by (auto simp: tokens_sound_def tokens_stay_def update_conv)
qed

lemma mark_order:
  assumes "map_of (TOKENS_BY_HASH s) h = Some tok" and "token_stays tok tok'"
  shows "token_order E s (s\<lparr>ns_tick := n, TOKENS_BY_HASH := AList.update h tok' (TOKENS_BY_HASH s)\<rparr>)"
  by (rule retouch_order [OF assms])
    (use assms in \<open>auto simp: use_count_def all_events_def spent_def update_conv token_stays_def split: if_splits\<close>)

lemma use_order:
  assumes "map_of (TOKENS_BY_HASH s) h = Some tok" and "\<not> truthy_opt (tk_used_at tok)"
    and "token_stays tok tok'" and "truthy_opt (tk_used_at tok')"
    and "json_get body ''token_hash'' = JStr h"
  shows "token_order E s (snd (kernel_append_event E sid tid rid ''credential.token_used'' body
    (s\<lparr>ns_tick := n, TOKENS_BY_HASH := AList.update h tok' (TOKENS_BY_HASH s)\<rparr>)))"
proof -
  let ?u = "s\<lparr>ns_tick := n, TOKENS_BY_HASH := AList.update h tok' (TOKENS_BY_HASH s)\<rparr>"
  obtain r t where app: "kernel_append_event E sid tid rid ''credential.token_used'' body ?u = (r, t)" by force
  have same: "TOKENS_BY_HASH t = TOKENS_BY_HASH ?u" "ns_draw t = ns_draw ?u"
    using kernel_append_event_frame(4,5) app by (metis snd_conv)+
  have uses: "uses_token i e \<longleftrightarrow> i = h" if "r = Inr e" for i e
    using app that assms(5) by (elim kernel_append_eventE) (auto simp: uses_token_def)
  have count: "use_count i t = use_count i s + (case r of Inr _ \<Rightarrow> if i = h then 1 else 0 | Inl _ \<Rightarrow> 0)" for i
    using use_count_append [OF app, of i] uses use_count_frame [of ?u s i] by (auto split: sum.split)
  have "token_order E s t"
    by (rule retouch_order [OF assms(1,3)])
      (use same count assms in \<open>auto simp: spent_def update_conv split: sum.splits\<close>)
  then show ?thesis by (simp add: app)
qed

lemma tick_draw_order: "token_order E s (s\<lparr>ns_tick := n, ns_draw := Suc (ns_draw s)\<rparr>)"
  using token_order_trans [OF tokens_a.R_clock [of E s n] draw_order] by simp

lemma bind_steps:
  "bind_eff (lift_result r) f s = (case r of Inl e \<Rightarrow> (Inl e, s) | Inr x \<Rightarrow> f x s)"
  "bind_eff (read_clock E) g s = g (aware_utc (ke_clock E (ns_tick s))) (s\<lparr>ns_tick := Suc (ns_tick s)\<rparr>)"
  "bind_eff (utc_iso_now E) f' s = f' (isoformat (ke_datetime E) (aware_utc (ke_clock E (ns_tick s)))) (s\<lparr>ns_tick := Suc (ns_tick s)\<rparr>)"
  "bind_eff (draw_token E) h s = h (ke_token_urlsafe E (ns_draw s), ''tok-'' @ ke_token_hex E (ns_draw s)) (s\<lparr>ns_draw := Suc (ns_draw s)\<rparr>)"
  "bind_eff (\<lambda>st. (Inr (), u st)) k s = k () (u s)"
  "bind_eff (set_token hash tok) k s = k () (s\<lparr>TOKENS_BY_HASH := AList.update hash tok (TOKENS_BY_HASH s)\<rparr>)"
  by (simp_all add: bind_eff_def lift_result_def read_clock_def utc_iso_now_def draw_token_def set_token_def split: sum.split)

lemma issue_order:
  "obeys (token_order E) (issue_credential_token E sid tid rid pd add tool scope profile executor seconds)"
proof -
  have issued: "token_order E u (snd (bind_eff (kernel_append_event E sid tid rid ''credential.token_issued'' body) (\<lambda>_. lift_result v) u))"
    for u body and v :: "(string \<times> json) list result"
  proof -
    have "obeys (token_order E) (bind_eff (kernel_append_event E sid tid rid ''credential.token_issued'' body) (\<lambda>_. lift_result v))"
      by (intro tokens_a.obeys_rules)
    then show ?thesis by (simp add: obeys_def)
  qed
  have tail: "token_order E s (snd (bind_eff (kernel_append_event E sid tid rid ''credential.token_issued'' body) (\<lambda>_. lift_result v)
      (s\<lparr>ns_draw := Suc (ns_draw s), ns_tick := n,
         TOKENS_BY_HASH := AList.update (token_hash_of E (ke_token_urlsafe E (ns_draw s))) tok (TOKENS_BY_HASH s)\<rparr>)))"
    for s body n tok and v :: "(string \<times> json) list result"
    by (rule token_order_trans [OF insert_order [OF refl] issued])
  show ?thesis unfolding obeys_def issue_credential_token_def Let_def
    by (auto simp: bind_steps split: sum.split intro!: tail tick_draw_order tokens_a.R_clock)
qed

lemma not_refused:
  "refused_reason tok = None \<Longrightarrow> \<not> truthy_opt (tk_used_at tok) \<and> \<not> truthy_opt (tk_invalidated_at tok)"
  by (simp add: refused_reason_def Let_def split: if_splits)

lemma is_token_expired_cases:
  "snd (is_token_expired E tok s) = s \<or> snd (is_token_expired E tok s) = s\<lparr>ns_tick := Suc (ns_tick s)\<rparr>"
  unfolding is_token_expired_def by (auto simp: bind_steps lift_result_def split: sum.split error.split)

lemma snd_lift: "snd (lift_result r s) = s"
  by (simp add: lift_result_def)

lemma snd_bind_lift: "snd (bind_eff m (\<lambda>_. lift_result v) s) = snd (m s)"
  by (simp add: snd_bind_eff lift_result_def split: prod.split sum.split)

lemma now_truthy: "token_env_ok E \<Longrightarrow> truthy_opt (Some (isoformat (ke_datetime E) d))"
  by (simp add: token_env_ok_def truthy_opt_def)

lemma token_order_envI: "(token_env_ok E \<Longrightarrow> token_order E s t) \<Longrightarrow> token_order E s t"
  by (auto simp: token_order_def)

lemma consume_order:
  "obeys (token_order E) (consume_credential_token E sid tid rid raw pd tool scope executor profile)"
  unfolding obeys_def
proof (rule allI, rule token_order_envI)
  fix s assume env: "token_env_ok E"
  let ?h = "token_hash_of E (py_strip raw)"
  have used: "token_order E u (snd (bind_eff (utc_iso_now E) (\<lambda>used_at.
      bind_eff (set_token ?h (tok\<lparr>tk_used_at := Some used_at, tk_invalidated_at := Some used_at, tk_invalidation_reason := Some ''used''\<rparr>)) (\<lambda>_.
      bind_eff (kernel_append_event E sid tid rid ''credential.token_used'' (body used_at)) (\<lambda>_. lift_result v))) u))"
    if "map_of (TOKENS_BY_HASH u) ?h = Some tok" and "refused_reason tok = None" and "\<And>x. json_get (body x) ''token_hash'' = JStr ?h"
    for u tok body and v :: "(string \<times> json) list result"
    using not_refused [OF that(2)] now_truthy [OF env] that
    by (simp add: bind_steps snd_bind_lift) (intro use_order, simp_all add: token_stays_def)
  have expired: "token_order E u (snd (bind_eff (utc_iso_now E) (\<lambda>now.
      bind_eff (set_token ?h (tok\<lparr>tk_invalidated_at := Some now, tk_invalidation_reason := Some ''expired''\<rparr>)) (\<lambda>_. lift_result v)) u))"
    if "map_of (TOKENS_BY_HASH u) ?h = Some tok" for u tok and v :: "(string \<times> json) list result"
    unfolding bind_steps using now_truthy [OF env]
    by (simp add: lift_result_def) (intro mark_order [OF that], simp add: token_stays_def)
  have after: "TOKENS_BY_HASH u = TOKENS_BY_HASH s" if "is_token_expired E tok s = (r, u)" for tok r u
    using is_token_expired_cases [of E tok s] that by auto
  show "token_order E s (snd (consume_credential_token E sid tid rid raw pd tool scope executor profile s))"
    unfolding consume_credential_token_def Let_def
    by (auto simp: bind_steps(1) token_order_refl snd_lift json_get_def split: sum.split option.split
        intro!: tokens_a.obeys_bind_at [OF tokens_a.obeys_expired] used expired dest!: after)
qed

lemma invalidate_order: "obeys (token_order E) (invalidate_tokens E selected reason)"
  unfolding obeys_def
proof (rule allI, rule token_order_envI)
  fix s :: nervous_state assume env: "token_env_ok E"
  define now where "now = isoformat (ke_datetime E) (aware_utc (ke_clock E (ns_tick s)))"
  define g where "g = (\<lambda>tok. if selected tok \<and> \<not> truthy_opt (tk_invalidated_at tok)
    then tok\<lparr>tk_invalidated_at := Some now, tk_invalidation_reason := Some reason\<rparr> else tok)"
  have stays: "token_stays tok (g tok)" "tk_used_at (g tok) = tk_used_at tok" for tok
    using now_truthy [OF env] by (simp_all add: g_def token_stays_def now_def)
  let ?t = "snd (invalidate_tokens E selected reason s)"
  have t: "?t = s\<lparr>ns_tick := Suc (ns_tick s), TOKENS_BY_HASH := map (\<lambda>(h, tok). (h, g tok)) (TOKENS_BY_HASH s)\<rparr>"
    unfolding g_def now_def by (simp add: invalidate_tokens_def bind_steps Let_def)
  have look: "map_of (TOKENS_BY_HASH ?t) h = map_option g (map_of (TOKENS_BY_HASH s) h)" for h
    unfolding t by (simp add: map_of_map)
  have "spent h ?t = spent h s" "use_count h ?t = use_count h s" for h
    using look [of h] stays(2) unfolding t
    by (auto simp: spent_def use_count_def all_events_def split: option.split)
  moreover have "dom (map_of (TOKENS_BY_HASH ?t)) = dom (map_of (TOKENS_BY_HASH s))" using look by (auto simp: dom_def)
  moreover have "ns_draw ?t = ns_draw s" by (simp add: t)
  moreover have "tokens_stay s ?t" using look stays(1) by (simp add: tokens_stay_def)
  ultimately show "token_order E s ?t" by (simp add: token_order_def tokens_sound_def)
qed

interpretation tokens: kernel_monitor E "token_order E" for E
proof (unfold_locales, goal_cases)
  case 1 show ?case by (auto intro!: token_order_frame use_count_append_other simp: kernel_append_event_frame)
next
  case 2 show ?case by (auto intro!: token_order_frame use_count_frame)
qed (rule tokens_a.create_obeys tokens_a.decide_obeys tokens_a.rebuild_obeys issue_order consume_order invalidate_order)+

section \<open>Use and refusal\<close>

lemma reachable_tokens_sound:
  assumes "token_env_ok E" and "kernel_reachable E st"
  shows "tokens_sound E st"
proof -
  have "tokens_sound E reset_runtime_state_for_tests"
    by (simp add: tokens_sound_def use_count_def all_events_def spent_def reset_runtime_state_for_tests_def)
  then show ?thesis using tokens.reachable_obeys [OF assms(2)] assms(1) by (simp add: token_order_def)
qed

text \<open>
  C14: A credential token is used at most once: in every reachable state, all session ledgers together hold
  at most one \<open>credential.token_used\<close> event for a token hash, and none for a token whose record has no time of use.
\<close>

theorem token_used_at_most_once:
  assumes "token_env_ok E" and "kernel_reachable E st"
  shows "use_count h st \<le> 1 \<and> (\<forall>token. map_of (TOKENS_BY_HASH st) h = Some token \<and> tk_used_at token = None \<longrightarrow> use_count h st = 0)"
proof -
  have "use_count h st \<le> spent h st" using reachable_tokens_sound [OF assms] by (simp add: tokens_sound_def)
  then show ?thesis by (auto simp: spent_def truthy_opt_def split: option.splits if_splits)
qed

lemma demo_token_env: "token_env_ok demo_kernel"
proof -
  have "token_hash_of demo_kernel (ke_token_urlsafe demo_kernel n) = ''raw-'' @ str_of_nat n" for n
    by (simp add: token_hash_of_def demo_kernel_def demo_kernel_env_def)
  moreover have "isoformat (ke_datetime demo_kernel) d \<noteq> []" for d
    by (simp add: demo_kernel_def demo_datetime_def)
  ultimately show ?thesis using nat_of_str_of_nat by (simp add: token_env_ok_def inj_def) metis
qed

theorem token_used_at_most_once_witness:
  "use_count ''raw-0'' demo_committed = 1 \<and> use_count ''raw-0'' demo_issued = 0"
proof -
  have "use_count ''raw-0'' demo_committed \<noteq> 0" by code_simp
  moreover have "map_option tk_used_at (map_of (TOKENS_BY_HASH demo_issued) ''raw-0'') = Some None" by code_simp
  ultimately show ?thesis
    using token_used_at_most_once [OF demo_token_env demo_reachable(4), of "''raw-0''"]
      token_used_at_most_once [OF demo_token_env demo_reachable(3), of "''raw-0''"] by force
qed

lemma dead_token_refused:
  assumes "map_of (TOKENS_BY_HASH s) (token_hash_of E (py_strip raw)) = Some tok" and "truthy_opt (tk_invalidated_at tok)"
    and "consume_credential_token E sid tid rid raw pd tool scope executor profile s = (Inr answer, t)"
  shows "json_get answer ''ok'' = JBool False"
proof -
  obtain code where "refused_reason tok = Some code" using assms(2) not_refused [of tok] by (cases "refused_reason tok") auto
  then show ?thesis using assms(1,3) unfolding consume_credential_token_def Let_def
    by (auto simp: bind_steps(1) bind_eff_Inr_iff lift_result_def token_refusal_def json_get_def split: sum.splits if_splits)
qed

lemma end_session_invalidates:
  assumes "end_session_v1 E request s = (Inr answer, t)" and "token_env_ok E"
    and "get_str_required request ''session_id'' = Inr sid"
    and "map_of (TOKENS_BY_HASH s) h = Some tok" and "tk_session_id tok = sid"
  shows "\<exists>tok'. map_of (TOKENS_BY_HASH t) h = Some tok' \<and> truthy_opt (tk_invalidated_at tok')"
proof -
  obtain n u tid rid body e where inv: "invalidate_tokens_for_session E sid ''session_ended'' s = (Inr n, u)"
    and app: "kernel_append_event E sid tid rid ''session.ended'' body u = (Inr e, t)"
    using assms(1,3) unfolding end_session_v1_def
    by (simp add: bind_eff_Inr_iff lift_result_def read_eff_def) (elim exE conjE, blast)
  have "TOKENS_BY_HASH t = TOKENS_BY_HASH u" using app kernel_append_event_frame(4) by (metis snd_conv)
  moreover have "\<exists>tok'. map_of (TOKENS_BY_HASH u) h = Some tok' \<and> truthy_opt (tk_invalidated_at tok')"
    using inv assms(4,5) now_truthy [OF assms(2)] unfolding invalidate_tokens_for_session_def invalidate_tokens_def
    by (auto simp: bind_steps Let_def map_of_map)
  ultimately show ?thesis by simp
qed

text \<open>
  C15: Ending a session ends its tokens for good: a token that the session held when \<open>end_session_v1\<close> answered is
  refused by every later use, after any sequence of calls.
\<close>

theorem ended_session_tokens_refused:
  assumes "token_env_ok E" and "kernel_reachable E s" and "end_session_v1 E request s = (Inr answer, t)"
    and "get_str_required request ''session_id'' = Inr sid"
    and "map_of (TOKENS_BY_HASH s) (token_hash_of E (py_strip raw)) = Some tok" and "tk_session_id tok = sid"
    and "consume_credential_token E sid' tid rid raw pd tool scope executor profile (fold (after_call E) calls t) = (Inr use_answer, u)"
  shows "json_get use_answer ''ok'' = JBool False"
proof -
  have t: "kernel_reachable E t" using kernel_next [OF assms(2), of "EndSession request"] assms(3) by simp
  obtain tok' where "map_of (TOKENS_BY_HASH t) (token_hash_of E (py_strip raw)) = Some tok'" "truthy_opt (tk_invalidated_at tok')"
    using end_session_invalidates [OF assms(3,1,4,5,6)] by blast
  moreover have "tokens_stay t (fold (after_call E) calls t)"
    using tokens.calls_obey reachable_tokens_sound [OF assms(1) t] assms(1) by (simp add: token_order_def)
  ultimately obtain tok'' where "map_of (TOKENS_BY_HASH (fold (after_call E) calls t)) (token_hash_of E (py_strip raw)) = Some tok''"
      "truthy_opt (tk_invalidated_at tok'')" unfolding tokens_stay_def token_stays_def by blast
  then show ?thesis using dead_token_refused assms(7) by blast
qed

definition demo_ended :: "(string \<times> json) list result \<times> nervous_state" where
  "demo_ended = end_session_v1 demo_kernel (demo_request []) demo_issued"

definition demo_late_use :: "(string \<times> json) list result \<times> nervous_state" where
  "demo_late_use = consume_credential_token demo_kernel ''s'' ''t'' None ''raw-0'' ''rm'' ''rm'' [] None None
     (fold (after_call demo_kernel) [ListApprovals None None None 10] (snd demo_ended))"

theorem ended_session_tokens_refused_witness:
  "\<exists>use_answer. fst demo_late_use = Inr use_answer \<and> json_get use_answer ''ok'' = JBool False"
proof -
  have "\<not> Option.is_none (sum.case_sum (\<lambda>_. None) Some (fst demo_ended))" by code_simp
  then obtain answer where ended: "end_session_v1 demo_kernel (demo_request []) demo_issued = (Inr answer, snd demo_ended)"
    by (cases "fst demo_ended") (auto simp: demo_ended_def prod_eq_iff)
  have "\<not> Option.is_none (sum.case_sum (\<lambda>_. None) Some (fst demo_late_use))" by code_simp
  then obtain use_answer where late: "consume_credential_token demo_kernel ''s'' ''t'' None ''raw-0'' ''rm'' ''rm'' [] None None
     (fold (after_call demo_kernel) [ListApprovals None None None 10] (snd demo_ended)) = (Inr use_answer, snd demo_late_use)"
    by (cases "fst demo_late_use") (auto simp: demo_late_use_def prod_eq_iff simp del: fold.simps after_call.simps)
  have sid: "get_str_required (demo_request []) ''session_id'' = Inr ''s''" by code_simp
  have "map_option tk_session_id (map_of (TOKENS_BY_HASH demo_issued) (token_hash_of demo_kernel (py_strip ''raw-0''))) = Some ''s''" by code_simp
  then obtain tok where tok: "map_of (TOKENS_BY_HASH demo_issued) (token_hash_of demo_kernel (py_strip ''raw-0'')) = Some tok" "tk_session_id tok = ''s''"
    by (auto simp: map_option_case split: option.splits)
  have "json_get use_answer ''ok'' = JBool False"
    by (rule ended_session_tokens_refused [OF demo_token_env demo_reachable(3) ended sid tok late])
  moreover have "fst demo_late_use = Inr use_answer" unfolding demo_late_use_def by (subst late) (rule fst_conv)
  ultimately show ?thesis by blast
qed

end
