(* ===== verification/Nervous_Approvals.thy ===== *)
theory Nervous_Approvals
  imports Nervous_Tokens
begin

text \<open>
  Approvals over every sequence of calls of the action kernel. The table of approvals is rebuilt from the
  ledger again and again; as the decision events of the ledger agree with the rows of the table, no rebuild
  changes a decision.
\<close>

section \<open>Decisions and the ledger\<close>

definition decided :: "KernelApproval \<Rightarrow> bool" where
  "decided row \<longleftrightarrow> ka_status row = ''APPROVED'' \<or> ka_status row = ''DENIED''"

definition same_decision :: "KernelApproval \<Rightarrow> KernelApproval \<Rightarrow> bool" where
  "same_decision row row' \<longleftrightarrow> ka_status row' = ka_status row \<and> ka_resolution row' = ka_resolution row"

definition event_approval_id :: "NervousEvent \<Rightarrow> string" where
  "event_approval_id e = py_strip (str_or_empty (json_get (ne_body e) ''approval_id''))"

text \<open>What a rebuild reads from a decision event.\<close>

definition event_status :: "NervousEvent \<Rightarrow> string result" where
  "event_status e = (let text = str_or_empty (json_get (ne_body e) ''status'') in normalize_status (if text = [] then ''PENDING'' else text))"

definition event_agrees :: "(string \<times> KernelApproval) list \<Rightarrow> NervousEvent \<Rightarrow> bool" where
  "event_agrees table e \<longleftrightarrow> (ne_event_type e = ''approval.decided'' \<longrightarrow>
     (\<exists>row. map_of table (event_approval_id e) = Some row \<and> decided row \<and> event_status e = Inr (ka_status row) \<and>
        py_dict_or_empty (json_get (ne_body e) ''resolution'') = Inr (ka_resolution row)))"

definition ledgers_agree :: "nervous_state \<Rightarrow> bool" where
  "ledgers_agree st \<longleftrightarrow> (\<forall>sid. \<forall>e \<in> set (session_events sid st). event_agrees (APPROVALS_BY_ID st) e)"

definition decisions_kept :: "(string \<times> KernelApproval) list \<Rightarrow> (string \<times> KernelApproval) list \<Rightarrow> bool" where
  "decisions_kept table table' \<longleftrightarrow> (\<forall>i row. map_of table i = Some row \<and> decided row \<longrightarrow>
     (\<exists>row'. map_of table' i = Some row' \<and> same_decision row row'))"

definition approval_order :: "nervous_state \<Rightarrow> nervous_state \<Rightarrow> bool" where
  "approval_order s t \<longleftrightarrow> (ledgers_agree s \<longrightarrow> ledgers_agree t \<and> decisions_kept (APPROVALS_BY_ID s) (APPROVALS_BY_ID t))"

lemma same_decision_trans: "same_decision a b \<Longrightarrow> same_decision b c \<Longrightarrow> same_decision a c"
  by (simp add: same_decision_def)

lemma same_decision_decided: "same_decision a b \<Longrightarrow> decided a \<Longrightarrow> decided b"
  by (simp add: same_decision_def decided_def)

lemma decisions_kept_refl: "decisions_kept table table"
  by (simp add: decisions_kept_def same_decision_def)

lemma decisions_kept_trans: "decisions_kept a b \<Longrightarrow> decisions_kept b c \<Longrightarrow> decisions_kept a c"
  unfolding decisions_kept_def using same_decision_trans same_decision_decided by blast

lemma event_agrees_kept: "event_agrees table e \<Longrightarrow> decisions_kept table table' \<Longrightarrow> event_agrees table' e"
  unfolding event_agrees_def decisions_kept_def using same_decision_decided by (fastforce simp: same_decision_def)

lemma approval_order_refl: "approval_order s s"
  by (simp add: approval_order_def decisions_kept_refl)

lemma approval_order_trans: "approval_order s t \<Longrightarrow> approval_order t u \<Longrightarrow> approval_order s u"
  unfolding approval_order_def using decisions_kept_trans by blast

text \<open>A step that keeps the decisions and only adds agreeing events.\<close>

lemma approval_orderI:
  assumes "decisions_kept (APPROVALS_BY_ID s) (APPROVALS_BY_ID t)"
    and "\<And>sid e. e \<in> set (session_events sid t) \<Longrightarrow> e \<in> set (session_events sid s) \<or> event_agrees (APPROVALS_BY_ID t) e"
  shows "approval_order s t"
  unfolding approval_order_def ledgers_agree_def using assms event_agrees_kept by blast

lemma append_order:
  assumes "ty \<noteq> ''approval.decided''"
  shows "approval_order s (snd (kernel_append_event E sid tid rid ty body s))"
proof (cases "kernel_append_event E sid tid rid ty body s")
  case (Pair r t)
  have "event_agrees table e" if "r = Inr e" for e table
    using Pair that assms by (elim kernel_append_eventE) (auto simp: event_agrees_def)
  moreover have "session_events i t = session_events i s @ (case r of Inr e \<Rightarrow> if i = sid then [e] else [] | Inl _ \<Rightarrow> [])" for i
    using session_events_append [of i E sid tid rid ty body s] Pair by simp
  moreover have "APPROVALS_BY_ID t = APPROVALS_BY_ID s" using kernel_append_event_frame(3) Pair by (metis snd_conv)
  ultimately show ?thesis unfolding Pair snd_conv
    by (intro approval_orderI) (auto simp: decisions_kept_refl split: sum.splits if_splits)
qed

lemma table_order: "decisions_kept (APPROVALS_BY_ID s) a \<Longrightarrow> approval_order s (s\<lparr>APPROVALS_BY_ID := a\<rparr>)"
  by (rule approval_orderI) simp_all

lemma frame_order:
  "APPROVALS_BY_ID t = APPROVALS_BY_ID s \<Longrightarrow> (\<And>sid. session_events sid t = session_events sid s) \<Longrightarrow> approval_order s t"
  by (rule approval_orderI) (simp_all add: decisions_kept_refl)

interpretation approvals_t: tokens_neutral E approval_order for E
proof (unfold_locales, goal_cases)
  case (2 s t u) then show ?case by (rule approval_order_trans)
next
  case (6 ty s sid tid rid body)
  then have "ty \<noteq> ''approval.decided''" by auto
  then show ?case by (rule append_order)
qed (auto intro: approval_order_refl frame_order append_order)

section \<open>Rebuilding\<close>

definition rows_agree :: "(string \<times> KernelApproval) list \<Rightarrow> (string \<times> KernelApproval) list \<Rightarrow> bool" where
  "rows_agree table rows \<longleftrightarrow> (\<forall>(i, r) \<in> set rows. \<forall>row. map_of table i = Some row \<and> decided row \<longrightarrow> same_decision row r)"

lemma set_update_subset: "set (AList.update k v al) \<subseteq> insert (k, v) (set al)"
  by (induction al) auto

lemma rows_agree_update:
  "rows_agree table rows \<Longrightarrow> (\<And>row. map_of table k = Some row \<Longrightarrow> decided row \<Longrightarrow> same_decision row r) \<Longrightarrow>
   rows_agree table (AList.update k r rows)"
  unfolding rows_agree_def using set_update_subset [of k r rows] by fastforce

lemma rebuild_requested_agrees:
  assumes "rebuild_requested sid e k (map_of table k) = Inr base" and "map_of table k = Some row" and "decided row"
  shows "same_decision row base"
  using assms by (auto simp: rebuild_requested_def Let_def bind_result_Inr_iff same_decision_def decided_def str_or_def)

lemma rebuild_decided_agrees:
  assumes "rebuild_decided e current = Inr r" and "event_agrees table e" and "ne_event_type e = ''approval.decided''"
    and "map_of table (event_approval_id e) = Some row"
  shows "same_decision row r"
  using assms unfolding rebuild_decided_def event_agrees_def event_status_def Let_def
  by (auto simp: bind_result_Inr_iff same_decision_def)

lemma rebuild_event_agrees:
  assumes "rebuild_event sid table e rows = Inr rows'" and "event_agrees table e" and "rows_agree table rows"
  shows "rows_agree table rows'"
proof -
  have upd: "rows_agree table (AList.update (event_approval_id e) r rows)"
    if "\<And>row. map_of table (event_approval_id e) = Some row \<Longrightarrow> decided row \<Longrightarrow> same_decision row r" for r
    by (rule rows_agree_update [OF assms(3) that])
  consider "rows' = rows"
    | base where "rebuild_requested sid e (event_approval_id e) (map_of table (event_approval_id e)) = Inr base"
        "rows' = AList.update (event_approval_id e) base rows"
    | current r where "ne_event_type e = ''approval.decided''" "rebuild_decided e current = Inr r"
        "rows' = AList.update (event_approval_id e) r rows"
    using assms(1) unfolding rebuild_event_def event_approval_id_def [symmetric] Let_def
    by (auto simp: bind_result_Inr_iff split: if_splits option.splits)
  then show ?thesis
  proof cases
    case 1 then show ?thesis using assms(3) by simp
  next
    case 2 then show ?thesis using upd rebuild_requested_agrees by blast
  next
    case 3 then show ?thesis using upd rebuild_decided_agrees [OF _ assms(2)] by blast
  qed
qed

lemma rebuild_events_agree:
  assumes "rebuild_events sid table es rows = Inr rows'" and "\<forall>e \<in> set es. event_agrees table e" and "rows_agree table rows"
  shows "rows_agree table rows'"
  using assms
proof (induction es arbitrary: rows)
  case (Cons e es)
  then obtain mid where "rebuild_event sid table e rows = Inr mid" "rebuild_events sid table es mid = Inr rows'"
    by (auto simp: bind_result_Inr_iff)
  then show ?case using Cons.IH Cons.prems(2,3) rebuild_event_agrees by auto
qed simp

lemma fold_update_cases:
  "map_of (fold (\<lambda>(k, r). AList.update k r) rows table) i = Some r \<Longrightarrow> map_of table i = Some r \<or> (i, r) \<in> set rows"
proof (induction rows arbitrary: table)
  case (Cons p rows)
  obtain k v where p: "p = (k, v)" by force
  then have "map_of (AList.update k v table) i = Some r \<or> (i, r) \<in> set rows" using Cons.IH Cons.prems by simp
  then show ?case using p by (auto simp: update_conv split: if_splits)
qed simp

lemma fold_update_dom:
  "map_of table i \<noteq> None \<Longrightarrow> map_of (fold (\<lambda>(k, r). AList.update k r) rows table) i \<noteq> None"
  by (induction rows arbitrary: table) (auto simp: update_conv)

lemma fold_update_keeps:
  assumes "rows_agree table rows"
  shows "decisions_kept table (fold (\<lambda>(k, r). AList.update k r) rows table)"
  unfolding decisions_kept_def
proof (intro allI impI, elim conjE)
  fix i row assume row: "map_of table i = Some row" "decided row"
  then obtain r where r: "map_of (fold (\<lambda>(k, r). AList.update k r) rows table) i = Some r" using fold_update_dom [of table i rows] by auto
  then have "same_decision row r" using fold_update_cases [OF r] row assms by (auto simp: rows_agree_def same_decision_def)
  then show "\<exists>r. map_of (fold (\<lambda>(k, r). AList.update k r) rows table) i = Some r \<and> same_decision row r" using r by blast
qed

lemma approval_order_agreeI: "(ledgers_agree s \<Longrightarrow> approval_order s t) \<Longrightarrow> approval_order s t"
  by (auto simp: approval_order_def)

lemma rebuild_order: "obeys approval_order (rebuild_pending_approvals sid)"
  unfolding obeys_def
proof (rule allI, rule approval_order_agreeI)
  fix s assume agree: "ledgers_agree s"
  show "approval_order s (snd (rebuild_pending_approvals sid s))"
  proof (cases "rebuild_events sid (APPROVALS_BY_ID s) (session_events sid s) []")
    case (Inl e) then show ?thesis by (simp add: rebuild_pending_approvals_def approval_order_refl)
  next
    case (Inr rows)
    have "rows_agree (APPROVALS_BY_ID s) rows"
      by (rule rebuild_events_agree [OF Inr]) (use agree in \<open>auto simp: ledgers_agree_def rows_agree_def\<close>)
    then show ?thesis using Inr
      by (intro approval_orderI) (simp_all add: rebuild_pending_approvals_def Let_def fold_update_keeps)
  qed
qed

section \<open>Deciding\<close>

lemma insert_pending_order:
  "map_of (APPROVALS_BY_ID s) i = None \<Longrightarrow> approval_order s (s\<lparr>APPROVALS_BY_ID := AList.update i row (APPROVALS_BY_ID s)\<rparr>)"
  by (rule table_order) (auto simp: decisions_kept_def update_conv same_decision_def)

lemma create_order: "obeys approval_order (create_approval_request E sid tid rid pd add codes)"
proof -
  have "obeys approval_order (bind_eff (kernel_append_event E sid tid rid ''approval.requested'' body) (\<lambda>_.
      bind_eff (rebuild_pending_approvals sid) (\<lambda>_. lift_result v)))" for body and v :: "KernelApproval result"
    by (intro approvals_t.obeys_bind rebuild_order approvals_t.obeys_lift) (simp add: obeys_def append_order)
  then have after: "approval_order u (snd (bind_eff (kernel_append_event E sid tid rid ''approval.requested'' body) (\<lambda>_.
      bind_eff (rebuild_pending_approvals sid) (\<lambda>_. lift_result v)) u))" for u body and v :: "KernelApproval result"
    by (simp add: obeys_def)
  show ?thesis unfolding create_approval_request_def Let_def
    by (intro approvals_t.obeys_rules)
      (auto simp: obeys_def approval_order_refl split: option.split intro: approval_order_trans [OF insert_pending_order after])
qed

lemma normalize_status_target: "normalize_status ''APPROVED'' = Inr ''APPROVED''" "normalize_status ''DENIED'' = Inr ''DENIED''"
  by code_simp+

lemma pending_not_decided: "normalize_status (str_or (Some (ka_status row)) ''PENDING'') = Inr ''PENDING'' \<Longrightarrow> \<not> decided row"
  by (auto simp: decided_def str_or_def normalize_status_target)

text \<open>The row changes first, then the event is appended; should that fail, the row stays changed.\<close>

lemma decide_step_order:
  assumes "map_of (APPROVALS_BY_ID s) i = Some old" and "\<not> decided old" and "decided new" and "py_strip i = i"
  shows "approval_order s (snd (kernel_append_event E sid tid rid ''approval.decided''
      [(''approval_id'', JStr i), (''proposal_digest'', v), (''decision_digest'', w), (''status'', JStr (ka_status new)),
       (''resolution'', JObj (ka_resolution new))] (s\<lparr>APPROVALS_BY_ID := AList.update i new (APPROVALS_BY_ID s)\<rparr>)))"
proof -
  let ?body = "[(''approval_id'', JStr i), (''proposal_digest'', v), (''decision_digest'', w), (''status'', JStr (ka_status new)),
     (''resolution'', JObj (ka_resolution new))]"
  let ?u = "s\<lparr>APPROVALS_BY_ID := AList.update i new (APPROVALS_BY_ID s)\<rparr>"
  obtain r t where app: "kernel_append_event E sid tid rid ''approval.decided'' ?body ?u = (r, t)" by force
  have table: "APPROVALS_BY_ID t = AList.update i new (APPROVALS_BY_ID s)"
    using kernel_append_event_frame(3) [of E sid tid rid "''approval.decided''" ?body ?u] app by simp
  have evs: "session_events j t = session_events j s @ (case r of Inr e \<Rightarrow> if j = sid then [e] else [] | Inl _ \<Rightarrow> [])" for j
    using session_events_append [of j E sid tid rid "''approval.decided''" ?body ?u] app by simp
  have "event_agrees (APPROVALS_BY_ID t) e" if "r = Inr e" for e
  proof -
    have body: "ne_body e = ?body" using app that by (elim kernel_append_eventE) auto
    have st: "event_status e = Inr (ka_status new)"
      using assms(3) unfolding event_status_def body
      by (auto simp: decided_def json_get_def str_or_empty_def py_str_json_def Let_def normalize_status_target)
    have "event_approval_id e = i" unfolding event_approval_id_def body
      using assms(4) by (auto simp: json_get_def str_or_empty_def py_str_json_def)
    moreover have "py_dict_or_empty (json_get (ne_body e) ''resolution'') = Inr (ka_resolution new)"
      unfolding body by (simp add: json_get_def py_dict_or_empty_def)
    ultimately show ?thesis using st assms(3) table by (simp add: event_agrees_def update_conv)
  qed
  then show ?thesis unfolding app snd_conv using assms(1,2) table evs
    by (intro approval_orderI) (auto simp: decisions_kept_def update_conv same_decision_def split: sum.splits if_splits)
qed

lemma normalize_decision_target:
  "normalize_decision decision = Inr target \<Longrightarrow> target = ''APPROVED'' \<or> target = ''DENIED''"
  by (auto simp: normalize_decision_def DECISION_TO_STATUS_def split: option.splits if_splits)

lemma bind_order:
  "approval_order s (snd (m u)) \<Longrightarrow> (\<And>x v. approval_order v (snd (f x v))) \<Longrightarrow> approval_order s (snd (bind_eff m f u))"
  by (auto simp: snd_bind_eff split: prod.split sum.split intro: approval_order_trans)

lemma decide_order: "obeys approval_order (decide_approval E aid decision edited notes_text)"
proof -
  let ?i = "py_strip aid" and ?res = "decision_resolution decision edited notes_text"
  let ?new = "\<lambda>old target now. old\<lparr>ka_status := target, ka_resolution := ?res, ka_updated_at := now,
      ka_resolved_at := (if target \<noteq> ''PENDING'' then Some now else ka_resolved_at old)\<rparr>"
  let ?body = "\<lambda>row target. [(''approval_id'', JStr ?i), (''proposal_digest'', JStr (ka_proposal_digest row)),
      (''decision_digest'', JStr (ka_admission_decision_digest row)), (''status'', JStr target), (''resolution'', JObj ?res)]"
  have tail: "approval_order s (snd (bind_eff (kernel_append_event E (ka_session_id (?new old target now)) (ka_trace_id (?new old target now))
        (ka_request_ref (?new old target now)) ''approval.decided'' (?body (?new old target now) target))
        (\<lambda>_. bind_eff (rebuild_pending_approvals sid) (\<lambda>_. read_eff g)) (s\<lparr>APPROVALS_BY_ID := AList.update ?i (?new old target now) (APPROVALS_BY_ID s)\<rparr>)))"
    if "map_of (APPROVALS_BY_ID s) ?i = Some old" and "\<not> decided old" and "normalize_decision decision = Inr target"
    for s old target now sid and g :: "nervous_state \<Rightarrow> (string \<times> KernelApproval) result"
  proof -
    let ?row = "?new old target now"
    have new: "decided ?row" using normalize_decision_target [OF that(3)] by (auto simp: decided_def)
    have step: "approval_order s (snd (kernel_append_event E (ka_session_id ?row) (ka_trace_id ?row) (ka_request_ref ?row) ''approval.decided''
        (?body ?row target) (s\<lparr>APPROVALS_BY_ID := AList.update ?i ?row (APPROVALS_BY_ID s)\<rparr>)))"
      using decide_step_order [OF that(1,2) new stripped_strip] by simp
    have rest: "approval_order u (snd (bind_eff (rebuild_pending_approvals sid) (\<lambda>_. read_eff g) u))" for u
      using approvals_t.obeys_bind [OF rebuild_order approvals_t.obeys_read, of sid "\<lambda>_. g"] by (simp add: obeys_def)
    show ?thesis using step by (rule bind_order) (rule rest)
  qed
  have at_now: "approval_order s (snd (bind_eff (utc_iso_now E) f s))"
    if "\<And>now u. APPROVALS_BY_ID u = APPROVALS_BY_ID s \<Longrightarrow> approval_order u (snd (f now u))" for s and f :: "string \<Rightarrow> (string \<times> KernelApproval) kernel"
    unfolding bind_steps by (rule approval_order_trans [OF frame_order that]) simp_all
  have found: "approval_order s (snd (bind_eff (lift_result (normalize_status (str_or (Some (ka_status old)) ''PENDING''))) (\<lambda>current.
      if current \<noteq> ''PENDING'' then m current else bind_eff (utc_iso_now E) (\<lambda>now st.
        bind_eff (kernel_append_event E (ka_session_id (?new old target now)) (ka_trace_id (?new old target now))
          (ka_request_ref (?new old target now)) ''approval.decided'' (?body (?new old target now) target))
          (\<lambda>_. bind_eff (rebuild_pending_approvals (ka_session_id (?new old target now))) (\<lambda>_. read_eff g))
          (st\<lparr>APPROVALS_BY_ID := AList.update ?i (?new old target now) (APPROVALS_BY_ID st)\<rparr>))) s))"
    if found: "map_of (APPROVALS_BY_ID s) ?i = Some old" and target: "normalize_decision decision = Inr target"
      and m: "\<And>x. obeys approval_order (m x)"
    for s old target m and g :: "nervous_state \<Rightarrow> (string \<times> KernelApproval) result"
  proof (cases "normalize_status (str_or (Some (ka_status old)) ''PENDING'')")
    case (Inl e) then show ?thesis by (simp add: approval_order_refl)
  next
    case (Inr current)
    show ?thesis
    proof (cases "current = ''PENDING''")
      case True
      then have "\<not> decided old" using Inr pending_not_decided by simp
      moreover have pending: "\<not> current \<noteq> ''PENDING''" using True by simp
      ultimately show ?thesis unfolding Inr bind_eff_lift_result if_not_P [OF pending]
        by (intro at_now tail) (simp_all add: found target)
    next
      case False then show ?thesis using m Inr by (simp add: obeys_def)
    qed
  qed
  have given: "obeys approval_order (bind_eff (lift_result (normalize_decision decision)) f)"
    if "\<And>target s. normalize_decision decision = Inr target \<Longrightarrow> approval_order s (snd (f target s))"
    for f :: "string \<Rightarrow> (string \<times> KernelApproval) kernel"
    using that by (cases "normalize_decision decision") (simp_all add: obeys_def approval_order_refl)
  show ?thesis unfolding decide_approval_def Let_def
    by (intro obeys_if given approvals_t.obeys_lift, split option.split, intro conjI impI allI, simp add: approval_order_refl,
        rule found, assumption, assumption, intro obeys_if approvals_t.obeys_lift)
qed

interpretation approvals: kernel_monitor E approval_order for E
proof (unfold_locales, goal_cases)
  case 1 show ?case by (rule append_order) simp
next
  case 2 show ?case by (rule frame_order) simp_all
qed (rule create_order decide_order rebuild_order approvals_t.issue_obeys approvals_t.consume_obeys approvals_t.invalidate_obeys)+

lemma reachable_ledgers_agree: "kernel_reachable E st \<Longrightarrow> ledgers_agree st"
  using approvals.reachable_obeys [of E st]
  by (simp add: approval_order_def ledgers_agree_def session_events_def reset_runtime_state_for_tests_def)

text \<open>
  C16: A decision on an approval is final: from any reachable state on, a row that is \<open>APPROVED\<close> or \<open>DENIED\<close> keeps
  its status and its resolution through every sequence of calls, the rebuilds of the table from the ledger included.
\<close>

theorem approval_decision_final:
  assumes "kernel_reachable E s" and "map_of (APPROVALS_BY_ID s) approval_id = Some row"
    and "ka_status row = ''APPROVED'' \<or> ka_status row = ''DENIED''"
  shows "\<exists>row'. map_of (APPROVALS_BY_ID (fold (after_call E) calls s)) approval_id = Some row' \<and>
     ka_status row' = ka_status row \<and> ka_resolution row' = ka_resolution row"
proof -
  have "decisions_kept (APPROVALS_BY_ID s) (APPROVALS_BY_ID (fold (after_call E) calls s))"
    using approvals.calls_obey reachable_ledgers_agree [OF assms(1)] by (simp add: approval_order_def)
  then show ?thesis using assms(2,3) by (auto simp: decisions_kept_def decided_def same_decision_def)
qed

theorem approval_decision_final_witness:
  "\<exists>row. map_of (APPROVALS_BY_ID (after_call demo_kernel (DecideApproval ''apr-rm'' ''deny'' None None) demo_approved)) ''apr-rm'' = Some row \<and>
     ka_status row = ''APPROVED''"
proof -
  have "map_option ka_status (map_of (APPROVALS_BY_ID demo_approved) ''apr-rm'') = Some ''APPROVED''" by code_simp
  then obtain row where row: "map_of (APPROVALS_BY_ID demo_approved) ''apr-rm'' = Some row" "ka_status row = ''APPROVED''"
    by (auto simp: map_option_case split: option.splits)
  have "\<exists>row'. map_of (APPROVALS_BY_ID (fold (after_call demo_kernel) [DecideApproval ''apr-rm'' ''deny'' None None] demo_approved)) ''apr-rm'' = Some row' \<and>
     ka_status row' = ka_status row \<and> ka_resolution row' = ka_resolution row"
    by (rule approval_decision_final [OF demo_reachable(2) row(1)]) (simp add: row(2))
  then show ?thesis unfolding fold_simps using row(2) by auto
qed

end
