(* ===== verification/Nervous_Findings.thy ===== *)
theory Nervous_Findings
  imports Nervous_Approvals
begin

text \<open>
  Behaviours of the action kernel that its documentation or its own audit does not expect: approvals are
  accepted for other proposals, a failed decision leaves an approved row behind, results are validated
  without an execution, and the audit rejects every action whose approval is still pending.
\<close>

section \<open>An approval is not bound to its proposal\<close>

text \<open>
  A commit that needs approval passes with any approved approval: nothing relates the approval's session,
  proposal or admission to those of the commit.
\<close>

lemma commit_accepts_any_approval:
  assumes "map_of (ADMISSIONS_BY_PROPOSAL st) (sid, pd) = Some admission" and "ad_decision admission = ''NEEDS_APPROVAL''"
    and "has_admission_event sid pd (ad_decision_digest admission) st"
    and "kernel_get_approval aid st = Some approval" and "ka_status approval = ''APPROVED''"
    and "\<not> json_truthy (json_get request ''revalidate_policy_forbidden'')"
  shows "commit_admission_status request sid pd (ad_decision_digest admission) aid st = ''COMMITTED''"
proof -
  have "py_strip [] = []" by code_simp
  then have "aid \<noteq> []" using assms(4) by (auto simp: kernel_get_approval_def)
  then show ?thesis using assms by (simp add: commit_admission_status_def)
qed

text \<open>So does a request for a credential token.\<close>

lemma issue_accepts_any_approval:
  assumes "map_of (ADMISSIONS_BY_PROPOSAL st) (sid, pd) = Some admission" and "ad_decision admission = ''NEEDS_APPROVAL''"
    and "get_str_optional request ''approval_id'' = Inr (Some aid)"
    and "kernel_get_approval aid st = Some approval" and "ka_status approval = ''APPROVED''"
  shows "issue_binding request sid pd (ad_decision_digest admission) st = Inr ()"
proof -
  have "py_strip [] = []" by code_simp
  then have "aid \<noteq> []" using assms(4) by (auto simp: kernel_get_approval_def)
  then show ?thesis using assms by (simp add: issue_binding_def approved_approval_def truthy_opt_def str_or_def)
qed

text \<open>The approval of \<open>rm\<close> commits \<open>cp\<close>.\<close>

lemma foreign_approval_commits:
  "map_option (\<lambda>a. (ka_status a, ka_proposal_digest a)) (kernel_get_approval ''apr-rm'' (after_call demo_kernel (demo_admission ''cp'') demo_approved))
     = Some (''APPROVED'', ''rm'')"
  "commit_admission_status (demo_commit ''cp'' ''apr-rm'') ''s'' ''cp'' ''decision'' ''apr-rm''
     (after_call demo_kernel (demo_admission ''cp'') demo_approved) = ''COMMITTED''"
  by code_simp+

section \<open>A decision without its event\<close>

text \<open>
  An edited proposal with an integer outside the canonical range makes the decision fail when its event is
  appended. The approval is approved all the same, and the ledger holds no decision.
\<close>

text \<open>Decimal digits of an integer, computed on its binary numeral.\<close>

function int_digits_text :: "int \<Rightarrow> string" where
  "int_digits_text i = (if i < 10 then [char_of (48 + nat i)] else int_digits_text (i div 10) @ [char_of (48 + nat (i mod 10))])"
  by pat_completeness auto
termination by (relation "measure nat") auto

declare int_digits_text.simps [simp del]

lemma int_digits_text_eq: "0 \<le> i \<Longrightarrow> int_digits_text i = str_of_nat (nat i)"
proof (induction i rule: int_digits_text.induct)
  case (1 i)
  then show ?case
    by (subst int_digits_text.simps, subst str_of_nat.simps) (auto simp: nat_less_iff nat_div_distrib nat_mod_distrib)
qed

lemma str_of_int_code [code]:
  "str_of_int i = (if i < 0 then ''-'' @ int_digits_text (- i) else int_digits_text i)"
  by (simp add: str_of_int_def int_digits_text_eq)

definition demo_unsafe_decision :: "(string \<times> KernelApproval) result \<times> nervous_state" where
  "demo_unsafe_decision = decide_approval_v1 demo_kernel ''apr-rm'' ''approve'' (Some [(''count'', JInt 9007199254740993)]) None demo_requested"

lemma unsafe_decision_fails: "case_sum (\<lambda>_. True) (\<lambda>_. False) (fst demo_unsafe_decision)"
  by code_simp

lemma failed_decision_approves:
  "map_option ka_status (map_of (APPROVALS_BY_ID (snd demo_unsafe_decision)) ''apr-rm'') = Some ''APPROVED''"
  by code_simp

lemma failed_decision_unrecorded:
  "\<not> list_ex (\<lambda>e. ne_event_type e = ''approval.decided'') (session_events ''s'' (snd demo_unsafe_decision))"
  by code_simp

section \<open>Validation without execution\<close>

text \<open>
  A commit that reports a schema verdict and no result payload records \<open>action.result_validated\<close> and no
  \<open>action.executed\<close>.
\<close>

definition demo_validated :: nervous_state where
  "demo_validated = snd (commit_proposal_v1 demo_kernel
     (demo_commit ''rm'' ''apr-rm'' @ [(''execution_result_schema_valid'', JBool True)]) demo_approved)"

lemma validated_without_execution:
  "map ne_event_type (drop 4 (session_events ''s'' demo_validated)) = [''action.result_validated'', ''commit.recorded'']"
  by code_simp

section \<open>The audit of a pending approval\<close>

text \<open>
  The approval status that the audit reads comes from decision events only, so it is empty while an approval
  is pending; the branch for \<open>PENDING\<close> is never taken and the queue check fails on every pending approval.
\<close>

lemma audit_rejects_pending_approval:
  assumes "approval_id \<noteq> []" and "approval_id \<in> set pending_approval_ids"
  shows "\<not> approval_queue_rebuild_consistent approval_id [] pending_approval_ids"
  using assms by (simp add: approval_queue_rebuild_consistent_def)

lemma audit_of_requested_approval:
  "case fst (audit_action_lifecycle_v1 ''s'' ''t'' demo_requested) of
     Inl _ \<Rightarrow> False
   | Inr audit \<Rightarrow> map_of (aa_checks audit) ''approval_queue_rebuild_consistent'' = Some False \<and>
       aa_pending_approval_ids_after_rebuild audit = [''apr-rm'']"
  by code_simp

end
