(* ===== verification/Protocol_Ledger.thy ===== *)
theory Protocol_Ledger
  imports Outward_Ledger Sql_Tables "HOL-Library.Word" "HOL-Library.AList" "HOL-Library.Sublist"
begin

text \<open>
  The append-only run ledger file (\<open>orket/adapters/storage/protocol_append_only_ledger.py\<close>): records
  framed by a length and a checksum, the replay of a file, and the ledger object with its cached next
  sequence number.

  A file is a list of bytes, absent when it does not exist; an append writes and syncs one whole frame.
  The checksum function of the third-party package is the parameter \<open>crc\<close>, with values of 32 bits, and
  \<open>json.loads\<close> of the decoded bytes is the parameter \<open>loads\<close>, \<open>None\<close> for the errors the code catches.
  Payloads are decoded JSON objects without floats, and texts have code points below 256.
\<close>

type_synonym bytes = "8 word list"

section \<open>Frames\<close>

definition MAX_LEDGER_PAYLOAD_BYTES :: nat where
  "MAX_LEDGER_PAYLOAD_BYTES = 4 * 1024 * 1024"

text \<open>\<open>text.encode("utf-8")\<close>\<close>

definition utf8_char :: "char \<Rightarrow> bytes" where
  "utf8_char c =
     (let n = (of_char c :: nat) in
      if n < 128 then [of_nat n] else [of_nat (192 + n div 64), of_nat (128 + n mod 64)])"

definition utf8_encode :: "string \<Rightarrow> bytes" where
  "utf8_encode s = concat (map utf8_char s)"

text \<open>\<open>struct.pack(">I", n)\<close> and \<open>struct.unpack(">I", data)[0]\<close>\<close>

definition pack_u32 :: "nat \<Rightarrow> bytes" where
  "pack_u32 n = [of_nat (n div 2 ^ 24), of_nat (n div 2 ^ 16), of_nat (n div 2 ^ 8), of_nat n]"

definition unpack_u32 :: "bytes \<Rightarrow> nat" where
  "unpack_u32 bs = foldl (\<lambda>acc b. acc * 256 + unat b) 0 bs"

definition payload_bytes :: "(string \<times> json) list \<Rightarrow> bytes" where
  "payload_bytes payload = utf8_encode (json_dumps False (JObj payload))"

definition encode_lpj_c32_record :: "(bytes \<Rightarrow> nat) \<Rightarrow> nat \<Rightarrow> (string \<times> json) list \<Rightarrow> bytes result" where
  "encode_lpj_c32_record crc max_payload_bytes payload =
     (let bs = payload_bytes payload; payload_len = length bs in
      if max_payload_bytes < payload_len
      then Inl (LedgerFramingError ''E_LEDGER_RECORD_TOO_LARGE'' (str_of_nat payload_len @ ''>'' @ str_of_nat max_payload_bytes))
      else if 2 ^ 32 \<le> payload_len then Inl (StructError ''argument out of range'')
      else Inr (pack_u32 payload_len @ bs @ pack_u32 (crc bs)))"

text \<open>\<open>isinstance(value, int)\<close>, which holds for truth values too.\<close>

definition as_int :: "json \<Rightarrow> int option" where
  "as_int v = (case v of JInt i \<Rightarrow> Some i | JBool b \<Rightarrow> Some (if b then 1 else 0) | _ \<Rightarrow> None)"

definition offset_text :: "nat \<Rightarrow> string" where
  "offset_text offset = ''offset='' @ str_of_nat offset"

text \<open>The check of one complete record, up to its sequence number.\<close>

definition check_record ::
  "(bytes \<Rightarrow> nat) \<Rightarrow> (bytes \<Rightarrow> json option) \<Rightarrow> nat \<Rightarrow> int \<Rightarrow> bytes \<Rightarrow> nat \<Rightarrow> ((string \<times> json) list \<times> int) result" where
  "check_record crc loads offset last_event_seq bs expected_crc =
     (if expected_crc \<noteq> crc bs then Inl (LedgerFramingError ''E_LEDGER_CORRUPT'' (offset_text offset))
      else case loads bs of
        None \<Rightarrow> Inl (LedgerFramingError ''E_LEDGER_PARSE'' (offset_text offset))
      | Some (JObj payload) \<Rightarrow>
          (case as_int (json_get payload ''event_seq'') of
             None \<Rightarrow> Inl (LedgerFramingError ''E_LEDGER_SEQ'' (offset_text offset @ '':missing_event_seq''))
           | Some event_seq \<Rightarrow>
               if event_seq \<le> 0
               then Inl (LedgerFramingError ''E_LEDGER_SEQ'' (offset_text offset @ '':missing_event_seq''))
               else if event_seq \<le> last_event_seq
               then Inl (LedgerFramingError ''E_LEDGER_SEQ'' (offset_text offset @ '':non_monotonic''))
               else Inr (payload, event_seq))
      | Some _ \<Rightarrow> Inl (LedgerFramingError ''E_LEDGER_PARSE'' (offset_text offset @ '':record_not_object'')))"

text \<open>The loop, with the rest of the data from \<open>offset\<close> on; each turn takes at least eight bytes.\<close>

function decode_from ::
  "(bytes \<Rightarrow> nat) \<Rightarrow> (bytes \<Rightarrow> json option) \<Rightarrow> nat \<Rightarrow> nat \<Rightarrow> int \<Rightarrow> bytes \<Rightarrow> (string \<times> json) list list result" where
  "decode_from crc loads max_payload_bytes offset last_event_seq data =
     (if length data < 4 then Inr []
      else let payload_len = unpack_u32 (take 4 data) in
      if max_payload_bytes < payload_len
      then Inl (LedgerFramingError ''E_LEDGER_RECORD_TOO_LARGE'' (str_of_nat payload_len @ ''>'' @ str_of_nat max_payload_bytes))
      else if length data < 4 + payload_len + 4 then Inr []
      else bind_result (check_record crc loads offset last_event_seq (take payload_len (drop 4 data))
          (unpack_u32 (take 4 (drop (4 + payload_len) data)))) (\<lambda>(payload, event_seq).
        bind_result (decode_from crc loads max_payload_bytes (offset + 4 + payload_len + 4) event_seq
          (drop (4 + payload_len + 4) data)) (\<lambda>records. Inr (payload # records))))"
  by pat_completeness auto
termination by (relation "measure (\<lambda>(crc, loads, m, offset, last, data). length data)") auto

declare decode_from.simps [simp del]

definition decode_lpj_c32_stream ::
  "(bytes \<Rightarrow> nat) \<Rightarrow> (bytes \<Rightarrow> json option) \<Rightarrow> nat \<Rightarrow> bytes \<Rightarrow> (string \<times> json) list list result" where
  "decode_lpj_c32_stream crc loads max_payload_bytes data = decode_from crc loads max_payload_bytes 0 0 data"

section \<open>The ledger object\<close>

record run_ledger =
  rl_file :: "bytes option"
  rl_next_event_seq :: "int option"

definition open_ledger :: "bytes option \<Rightarrow> run_ledger" where
  "open_ledger file = \<lparr>rl_file = file, rl_next_event_seq = None\<rparr>"

definition replay_events ::
  "(bytes \<Rightarrow> nat) \<Rightarrow> (bytes \<Rightarrow> json option) \<Rightarrow> nat \<Rightarrow> (run_ledger, (string \<times> json) list list) eff" where
  "replay_events crc loads max_payload_bytes st =
     (case rl_file st of
        None \<Rightarrow> (Inr [], st\<lparr>rl_next_event_seq := Some 1\<rparr>)
      | Some data \<Rightarrow>
          (case decode_lpj_c32_stream crc loads max_payload_bytes data of
             Inl e \<Rightarrow> (Inl e, st)
           | Inr events \<Rightarrow>
               if events = [] then (Inr [], st\<lparr>rl_next_event_seq := Some 1\<rparr>)
               else (case py_int (json_get (last events) ''event_seq'') of
                   Inl e \<Rightarrow> (Inl e, st)
                 | Inr i \<Rightarrow> (Inr events, st\<lparr>rl_next_event_seq := Some (i + 1)\<rparr>))))"

text \<open>\<open>int(self._next_event_seq or 1)\<close>\<close>

definition next_event_seq :: "(bytes \<Rightarrow> nat) \<Rightarrow> (bytes \<Rightarrow> json option) \<Rightarrow> nat \<Rightarrow> (run_ledger, int) eff" where
  "next_event_seq crc loads max_payload_bytes =
     bind_eff (\<lambda>st. if rl_next_event_seq st = None
         then bind_eff (replay_events crc loads max_payload_bytes) (\<lambda>_. lift_result (Inr ())) st
         else (Inr (), st)) (\<lambda>_.
       read_eff (\<lambda>st. Inr (case rl_next_event_seq st of Some i \<Rightarrow> if i = 0 then 1 else i | None \<Rightarrow> 1)))"

definition sequenced_event :: "(string \<times> json) list \<Rightarrow> int \<Rightarrow> (string \<times> json) list result" where
  "sequenced_event payload next_seq =
     (case json_get payload ''event_seq'' of
        JNull \<Rightarrow> Inr (AList.update ''event_seq'' (JInt next_seq) payload)
      | explicit \<Rightarrow> bind_result (py_int explicit) (\<lambda>i.
          if i \<noteq> next_seq
          then Inl (LedgerFramingError ''E_LEDGER_SEQ'' (''expected='' @ str_of_int next_seq @ '',actual='' @ py_str_json explicit))
          else Inr payload))"

definition ledger_append_event ::
  "(bytes \<Rightarrow> nat) \<Rightarrow> (bytes \<Rightarrow> json option) \<Rightarrow> nat \<Rightarrow> (string \<times> json) list \<Rightarrow> (run_ledger, (string \<times> json) list) eff" where
  "ledger_append_event crc loads max_payload_bytes payload =
     bind_eff (next_event_seq crc loads max_payload_bytes) (\<lambda>next_seq.
     bind_eff (lift_result (sequenced_event payload next_seq)) (\<lambda>event.
     bind_eff (lift_result (encode_lpj_c32_record crc max_payload_bytes event)) (\<lambda>frame.
     bind_eff (lift_result (py_int (json_get event ''event_seq''))) (\<lambda>event_seq st.
       (Inr event, st\<lparr>rl_file := Some ((case rl_file st of None \<Rightarrow> [] | Some data \<Rightarrow> data) @ frame),
                     rl_next_event_seq := Some (event_seq + 1)\<rparr>)))))"

section \<open>Frames decode to what was encoded\<close>

lemma unat_of_nat_byte: "unat (of_nat n :: 8 word) = n mod 256"
  by (simp add: unat_of_nat)

lemma unpack_pack [simp]:
  assumes "n < 2 ^ 32"
  shows "unpack_u32 (pack_u32 n) = n"
proof -
  have d: "n div 2 ^ 16 = n div 256 div 256" "n div 2 ^ 24 = n div 256 div 256 div 256"
    by (simp_all add: div_mult2_eq [symmetric])
  have "n div 256 div 256 div 256 < 256" using assms by (simp add: div_mult2_eq [symmetric] less_mult_imp_div_less)
  moreover have "n = n div 256 * 256 + n mod 256" "n div 256 = n div 256 div 256 * 256 + n div 256 mod 256"
    "n div 256 div 256 = n div 256 div 256 div 256 * 256 + n div 256 div 256 mod 256" by simp_all
  ultimately show ?thesis
    unfolding unpack_u32_def pack_u32_def foldl.simps unat_of_nat_byte d by simp
qed

lemma length_pack [simp]: "length (pack_u32 n) = 4"
  by (simp add: pack_u32_def)

text \<open>The frame of a payload, and a payload that a ledger can hold.\<close>

definition frame_of :: "(bytes \<Rightarrow> nat) \<Rightarrow> (string \<times> json) list \<Rightarrow> bytes" where
  "frame_of crc e = pack_u32 (length (payload_bytes e)) @ payload_bytes e @ pack_u32 (crc (payload_bytes e))"

definition fits :: "nat \<Rightarrow> (string \<times> json) list \<Rightarrow> bool" where
  "fits m e \<longleftrightarrow> length (payload_bytes e) \<le> m \<and> length (payload_bytes e) < 2 ^ 32"

definition recordable :: "(bytes \<Rightarrow> nat) \<Rightarrow> (bytes \<Rightarrow> json option) \<Rightarrow> nat \<Rightarrow> (string \<times> json) list \<Rightarrow> int \<Rightarrow> bool" where
  "recordable crc loads m e i \<longleftrightarrow> fits m e \<and> crc (payload_bytes e) < 2 ^ 32 \<and>
     loads (payload_bytes e) = Some (JObj (stored_payload e)) \<and> json_get (stored_payload e) ''event_seq'' = JInt i \<and> 0 < i"

lemma encode_frame: "encode_lpj_c32_record crc m e = Inr f \<longleftrightarrow> fits m e \<and> f = frame_of crc e"
  by (auto simp: encode_lpj_c32_record_def fits_def frame_of_def Let_def)

lemma decode_frame:
  assumes "recordable crc loads m e i" and "last_seq < i"
  shows "decode_from crc loads m offset last_seq (frame_of crc e @ rest) =
    bind_result (decode_from crc loads m (offset + 4 + length (payload_bytes e) + 4) i rest) (\<lambda>rs. Inr (stored_payload e # rs))"
proof -
  define bs where "bs = payload_bytes e"
  define data where "data = frame_of crc e @ rest"
  have r: "length bs \<le> m" "length bs < 2 ^ 32" "crc bs < 2 ^ 32" "loads bs = Some (JObj (stored_payload e))"
    "json_get (stored_payload e) ''event_seq'' = JInt i" "0 < i" using assms(1) by (simp_all add: recordable_def fits_def bs_def)
  have parts: "take 4 data = pack_u32 (length bs)" "take (length bs) (drop 4 data) = bs"
    "take 4 (drop (4 + length bs) data) = pack_u32 (crc bs)" "drop (4 + length bs + 4) data = rest"
    "length data = 4 + length bs + 4 + length rest" by (simp_all add: data_def bs_def frame_of_def)
  have len: "unpack_u32 (take 4 data) = length bs" "unpack_u32 (take 4 (drop (4 + length bs) data)) = crc bs"
    using r(2,3) by (simp_all only: parts unpack_pack)
  have guards: "\<not> length data < 4" "\<not> m < length bs" "\<not> length data < 4 + length bs + 4"
    using r(1) parts(5) by simp_all
  have check: "check_record crc loads offset last_seq bs (crc bs) = Inr (stored_payload e, i)"
    using r assms(2) by (simp add: check_record_def as_int_def)
  show ?thesis
    unfolding data_def [symmetric] bs_def [symmetric]
    by (subst decode_from.simps) (simp only: Let_def len guards if_False parts(2,4) check bind_result_simps case_prod_conv)
qed

text \<open>
  A tail that ends the log: too short for a length, or shorter than its length announces. What a crash
  in the middle of a write leaves behind is one.
\<close>

definition torn :: "nat \<Rightarrow> bytes \<Rightarrow> bool" where
  "torn m tail \<longleftrightarrow> length tail < 4 \<or>
     unpack_u32 (take 4 tail) \<le> m \<and> length tail < 4 + unpack_u32 (take 4 tail) + 4"

lemma decode_torn: "torn m tail \<Longrightarrow> decode_from crc loads m offset last_seq tail = Inr []"
  by (subst decode_from.simps) (auto simp: torn_def Let_def)

lemma length_frame [simp]: "length (frame_of crc e) = 4 + length (payload_bytes e) + 4"
  by (simp add: frame_of_def)

lemma take_frame: "take 4 (frame_of crc e) = pack_u32 (length (payload_bytes e))"
  by (simp add: frame_of_def)

lemma strict_prefix_torn:
  assumes "strict_prefix tail (frame_of crc e)" and "fits m e"
  shows "torn m tail"
proof (cases "length tail < 4")
  case False
  obtain rest where rest: "frame_of crc e = tail @ rest" "rest \<noteq> []" using assms(1) by (auto simp: strict_prefix_def prefix_def)
  have "length tail < length (frame_of crc e)" using rest by simp
  moreover have "take 4 tail = take 4 (frame_of crc e)" using False rest by simp
  then have "unpack_u32 (take 4 tail) = length (payload_bytes e)" using assms(2) by (simp only: take_frame fits_def unpack_pack)
  ultimately show ?thesis using assms(2) by (simp add: torn_def fits_def)
qed (simp add: torn_def)

lemma decode_frames:
  assumes "list_all2 (recordable crc loads m) es seqs" and "sorted_wrt (<) (last_seq # seqs)" and "torn m tail"
  shows "decode_from crc loads m offset last_seq (concat (map (frame_of crc) es) @ tail) = Inr (map stored_payload es)"
  using assms(1,2)
proof (induction es seqs arbitrary: offset last_seq rule: list_all2_induct)
  case Nil
  show ?case using decode_torn [OF assms(3)] by simp
next
  case (Cons e es i seqs)
  then show ?case using decode_frame [of crc loads m e i last_seq offset "concat (map (frame_of crc) es) @ tail"] by simp
qed

lemma decode_stream_frames:
  assumes "list_all2 (recordable crc loads m) es seqs" and "sorted_wrt (<) seqs" and "torn m tail"
  shows "decode_lpj_c32_stream crc loads m (concat (map (frame_of crc) es) @ tail) = Inr (map stored_payload es)"
proof -
  have "\<forall>i \<in> set seqs. 0 < i" using assms(1) by (induction rule: list_all2_induct) (auto simp: recordable_def)
  then show ?thesis unfolding decode_lpj_c32_stream_def using assms by (intro decode_frames) auto
qed

text \<open>
  The framing is lossless and crash safe: a file that holds the frames of recordable events with
  ascending sequence numbers, followed by the beginning of one more frame, decodes to exactly these
  events, with their keys in order.
\<close>

theorem framed_ledger_replays:
  assumes "list_all2 (recordable crc loads m) es seqs" and "sorted_wrt (<) seqs"
    and "fits m e" and "strict_prefix tail (frame_of crc e)"
  shows "decode_lpj_c32_stream crc loads m (concat (map (frame_of crc) es) @ tail) = Inr (map stored_payload es)"
  using decode_stream_frames [OF assms(1,2) strict_prefix_torn [OF assms(4,3)]] .

definition demo_ledger_event :: "(string \<times> json) list" where
  "demo_ledger_event = [(''kind'', JStr ''run_started''), (''event_seq'', JInt 1)]"

definition demo_crc :: "bytes \<Rightarrow> nat" where
  "demo_crc bs = sum_list (map unat bs) mod 2 ^ 32"

definition demo_loads :: "bytes \<Rightarrow> json option" where
  "demo_loads bs =
     (if bs = payload_bytes demo_ledger_event then Some (JObj (stored_payload demo_ledger_event)) else None)"

lemma demo_recordable: "recordable demo_crc demo_loads MAX_LEDGER_PAYLOAD_BYTES demo_ledger_event 1"
proof -
  have "length (payload_bytes demo_ledger_event) = 36" by code_simp
  moreover have "json_get (stored_payload demo_ledger_event) ''event_seq'' = JInt 1" by code_simp
  ultimately show ?thesis
    by (simp add: recordable_def fits_def demo_crc_def demo_loads_def MAX_LEDGER_PAYLOAD_BYTES_def)
qed

theorem framed_ledger_replays_witness:
  "decode_lpj_c32_stream demo_crc demo_loads MAX_LEDGER_PAYLOAD_BYTES
     (frame_of demo_crc demo_ledger_event @ pack_u32 36) = Inr [stored_payload demo_ledger_event]"
proof -
  have "length (payload_bytes demo_ledger_event) = 36" by code_simp
  then have "strict_prefix (pack_u32 36) (frame_of demo_crc demo_ledger_event)"
    by (auto simp: frame_of_def strict_prefix_def)
  then show ?thesis
    using framed_ledger_replays [of demo_crc demo_loads MAX_LEDGER_PAYLOAD_BYTES "[demo_ledger_event]" "[1]" demo_ledger_event "pack_u32 36"]
      demo_recordable by (simp add: recordable_def)
qed

section \<open>The ledger is the list of its events\<close>

text \<open>
  One process at a time: a ledger object on a file that did not exist, appends that are acknowledged or
  refused, replays, and new ledger objects on the same file. The keys of a dict are distinct, and a
  caller that gives a sequence number gives an integer.
\<close>

definition proper_event :: "(string \<times> json) list \<Rightarrow> bool" where
  "proper_event p \<longleftrightarrow> distinct (map fst p) \<and> (case json_get p ''event_seq'' of JNull \<Rightarrow> True | JInt i \<Rightarrow> True | _ \<Rightarrow> False)"

inductive ledger_run ::
  "(bytes \<Rightarrow> nat) \<Rightarrow> (bytes \<Rightarrow> json option) \<Rightarrow> nat \<Rightarrow> run_ledger \<Rightarrow> (string \<times> json) list list \<Rightarrow> bool"
  for crc loads m where
  opened: "ledger_run crc loads m (open_ledger None) []"
| appended: "ledger_run crc loads m st es \<Longrightarrow> proper_event p \<Longrightarrow> ledger_append_event crc loads m p st = (Inr e, st') \<Longrightarrow>
    ledger_run crc loads m st' (es @ [e])"
| refused: "ledger_run crc loads m st es \<Longrightarrow> ledger_append_event crc loads m p st = (Inl err, st') \<Longrightarrow> ledger_run crc loads m st' es"
| replayed: "ledger_run crc loads m st es \<Longrightarrow> replay_events crc loads m st = (res, st') \<Longrightarrow> ledger_run crc loads m st' es"
| reopened: "ledger_run crc loads m st es \<Longrightarrow> ledger_run crc loads m (open_ledger (rl_file st)) es"

text \<open>What is relied on for an event: a checksum of 32 bits and that its text is parsed back.\<close>

definition readable :: "(bytes \<Rightarrow> nat) \<Rightarrow> (bytes \<Rightarrow> json option) \<Rightarrow> (string \<times> json) list \<Rightarrow> bool" where
  "readable crc loads e \<longleftrightarrow>
     crc (payload_bytes e) < 2 ^ 32 \<and> loads (payload_bytes e) = Some (JObj (stored_payload e))"

definition event_seqs :: "nat \<Rightarrow> int list" where
  "event_seqs n = map int [1..<Suc n]"

definition ledger_file :: "run_ledger \<Rightarrow> bytes" where
  "ledger_file st = (case rl_file st of None \<Rightarrow> [] | Some data \<Rightarrow> data)"

definition ledger_inv :: "(bytes \<Rightarrow> nat) \<Rightarrow> nat \<Rightarrow> run_ledger \<Rightarrow> (string \<times> json) list list \<Rightarrow> bool" where
  "ledger_inv crc m st es \<longleftrightarrow>
     ledger_file st = concat (map (frame_of crc) es) \<and>
     (rl_next_event_seq st = None \<or> rl_next_event_seq st = Some (int (length es) + 1)) \<and>
     list_all2 (\<lambda>e i. distinct (map fst e) \<and> json_get e ''event_seq'' = JInt i \<and> fits m e) es (event_seqs (length es))"

lemma length_event_seqs [simp]: "length (event_seqs n) = n"
  by (simp add: event_seqs_def del: upt_Suc)

lemma event_seqs_Suc: "event_seqs (Suc n) = event_seqs n @ [int n + 1]"
  by (simp add: event_seqs_def)

lemma event_seqs_pos: "i \<in> set (event_seqs n) \<Longrightarrow> 0 < i \<and> i \<le> int n"
  by (auto simp: event_seqs_def)

lemma sorted_event_seqs: "sorted_wrt (<) (event_seqs n)"
proof (induction n)
  case (Suc n)
  then show ?case using event_seqs_pos [of _ n] by (fastforce simp: event_seqs_Suc sorted_wrt_append)
qed (simp add: event_seqs_def)


lemma json_get_stored:
  assumes "distinct (map fst e)"
  shows "json_get (stored_payload e) k = canon (json_get e k)"
proof -
  let ?c = "map (\<lambda>(k, v). (k, canon v)) e"
  have keys: "map fst ?c = map fst e" by (induction e) auto
  have "mset (map fst (sort_key fst ?c)) = mset (map fst ?c)" by (simp only: mset_map mset_sort)
  then have "distinct (map fst (sort_key fst ?c))" using assms keys by (metis mset_eq_imp_distinct_iff)
  then have "map_of (sort_key fst ?c) = map_of ?c" using assms keys by (subst map_of_inject_set) (simp_all only: set_sort)
  then have "map_of (stored_payload e) k = map_option canon (map_of e k)"
    by (simp add: stored_payload_def map_of_map)
  then show ?thesis by (auto simp: json_get_def split: option.splits)
qed

lemma ledger_inv_recordable:
  assumes "ledger_inv crc m st es" and "list_all (readable crc loads) es"
  shows "list_all2 (recordable crc loads m) es (event_seqs (length es))"
  unfolding list_all2_conv_all_nth
proof (intro conjI allI impI)
  show len: "length es = length (event_seqs (length es))" by simp
  fix i assume i: "i < length es"
  then have "distinct (map fst (es ! i)) \<and> json_get (es ! i) ''event_seq'' = JInt (event_seqs (length es) ! i) \<and> fits m (es ! i)"
    using assms(1) by (simp add: ledger_inv_def list_all2_conv_all_nth)
  moreover have "0 < event_seqs (length es) ! i" using event_seqs_pos [of "event_seqs (length es) ! i"] i len by (metis nth_mem)
  moreover have "readable crc loads (es ! i)" using assms(2) i by (simp add: list_all_length)
  ultimately show "recordable crc loads m (es ! i) (event_seqs (length es) ! i)"
    by (simp add: recordable_def readable_def json_get_stored)
qed

lemma ledger_inv_last:
  assumes "ledger_inv crc m st es" and "es \<noteq> []"
  shows "json_get (stored_payload (last es)) ''event_seq'' = JInt (int (length es))"
proof -
  have n: "length es - 1 < length es" using assms(2) by simp
  then have "distinct (map fst (es ! (length es - 1))) \<and>
      json_get (es ! (length es - 1)) ''event_seq'' = JInt (event_seqs (length es) ! (length es - 1))"
    using assms(1) by (simp only: ledger_inv_def list_all2_conv_all_nth)
  moreover have "event_seqs (length es) ! (length es - 1) = int (length es)"
    using n unfolding event_seqs_def by (subst nth_map) (auto simp del: upt_Suc)
  ultimately show ?thesis using assms(2) by (simp add: json_get_stored last_conv_nth)
qed

lemma replay_ok:
  assumes "ledger_inv crc m st es" and "list_all (readable crc loads) es"
  shows "replay_events crc loads m st =
    (Inr (map stored_payload es), st\<lparr>rl_next_event_seq := Some (int (length es) + 1)\<rparr>)"
proof -
  have content: "ledger_file st = concat (map (frame_of crc) es)" using assms(1) by (simp add: ledger_inv_def)
  have dec: "decode_lpj_c32_stream crc loads m (concat (map (frame_of crc) es)) = Inr (map stored_payload es)"
    using decode_stream_frames [OF ledger_inv_recordable [OF assms] sorted_event_seqs, of "[]"] by (simp add: torn_def)
  have nonempty: "frame_of crc e \<noteq> []" for e by (simp add: frame_of_def pack_u32_def)
  show ?thesis
  proof (cases "es = []")
    case True
    then show ?thesis using content dec by (auto simp: replay_events_def ledger_file_def split: option.splits)
  next
    case False
    then have "rl_file st = Some (concat (map (frame_of crc) es))"
      using content nonempty by (cases es) (auto simp: ledger_file_def split: option.splits)
    then show ?thesis using False dec ledger_inv_last [OF assms(1) False]
      by (simp add: replay_events_def last_map py_int_def)
  qed
qed

lemma next_seq_ok:
  assumes "ledger_inv crc m st es" and "list_all (readable crc loads) es"
  shows "next_event_seq crc loads m st =
    (Inr (int (length es) + 1), st\<lparr>rl_next_event_seq := Some (int (length es) + 1)\<rparr>)"
proof (cases "rl_next_event_seq st")
  case None
  then show ?thesis using replay_ok [OF assms] by (simp add: next_event_seq_def bind_eff_def read_eff_def lift_result_def)
next
  case (Some i)
  then have "i = int (length es) + 1" using assms(1) by (simp add: ledger_inv_def)
  then show ?thesis using Some by (cases st) (simp add: next_event_seq_def bind_eff_def read_eff_def)
qed

lemma sequenced_proper:
  assumes "sequenced_event p n = Inr e" and "proper_event p"
  shows "distinct (map fst e)" and "json_get e ''event_seq'' = JInt n"
    and "e = (if json_get p ''event_seq'' = JNull then AList.update ''event_seq'' (JInt n) p else p)"
proof -
  have "distinct (map fst e) \<and> json_get e ''event_seq'' = JInt n \<and>
      e = (if json_get p ''event_seq'' = JNull then AList.update ''event_seq'' (JInt n) p else p)"
  proof (cases "json_get p ''event_seq''")
    case JNull
    then have e: "e = AList.update ''event_seq'' (JInt n) p" using assms(1) by (simp add: sequenced_event_def)
    have "json_get e ''event_seq'' = JInt n" unfolding e json_get_def update_conv' by simp
    moreover have "distinct (map fst p)" using assms(2) unfolding proper_event_def by (rule conjunct1)
    then have "distinct (map fst e)" unfolding e by (rule distinct_update)
    ultimately show ?thesis using JNull e by simp
  next
    case (JInt i)
    then show ?thesis using assms by (simp add: sequenced_event_def proper_event_def py_int_def split: if_splits)
  qed (use assms(2) in \<open>simp_all add: proper_event_def\<close>)
  then show "distinct (map fst e)" "json_get e ''event_seq'' = JInt n"
    "e = (if json_get p ''event_seq'' = JNull then AList.update ''event_seq'' (JInt n) p else p)" by blast+
qed

lemma append_ok:
  assumes "ledger_inv crc m st es" and "list_all (readable crc loads) es" and "proper_event p"
  shows "ledger_append_event crc loads m p st =
    (case sequenced_event p (int (length es) + 1) of
       Inl err \<Rightarrow> (Inl err, st\<lparr>rl_next_event_seq := Some (int (length es) + 1)\<rparr>)
     | Inr e \<Rightarrow> (case encode_lpj_c32_record crc m e of
         Inl err \<Rightarrow> (Inl err, st\<lparr>rl_next_event_seq := Some (int (length es) + 1)\<rparr>)
       | Inr f \<Rightarrow> (Inr e, st\<lparr>rl_file := Some (ledger_file st @ f), rl_next_event_seq := Some (int (length es) + 2)\<rparr>)))"
proof (cases "sequenced_event p (int (length es) + 1)")
  case (Inl err)
  then show ?thesis using next_seq_ok [OF assms(1,2)] by (simp add: ledger_append_event_def bind_eff_def lift_result_def)
next
  case (Inr e)
  have "py_int (json_get e ''event_seq'') = Inr (int (length es) + 1)"
    using sequenced_proper(2) [OF Inr assms(3)] by (simp add: py_int_def)
  then show ?thesis using Inr next_seq_ok [OF assms(1,2)]
    by (cases "encode_lpj_c32_record crc m e") (simp_all add: ledger_append_event_def bind_eff_def lift_result_def ledger_file_def)
qed

text \<open>A refused append leaves the file as it was.\<close>

lemma append_refused:
  assumes "ledger_inv crc m st es" and "list_all (readable crc loads) es" and "ledger_append_event crc loads m p st = (Inl err, st')"
  shows "st' = st\<lparr>rl_next_event_seq := Some (int (length es) + 1)\<rparr>"
  using assms(3) next_seq_ok [OF assms(1,2)]
  by (auto simp: ledger_append_event_def bind_eff_def lift_result_def split: prod.splits sum.splits)

lemma ledger_inv_cache:
  "ledger_inv crc m st es \<Longrightarrow> ledger_inv crc m (st\<lparr>rl_next_event_seq := Some (int (length es) + 1)\<rparr>) es"
  by (simp add: ledger_inv_def ledger_file_def)

lemma ledger_inv_append:
  assumes "ledger_inv crc m st es" and "list_all (readable crc loads) es" and "proper_event p"
    and "ledger_append_event crc loads m p st = (Inr e, st')"
  shows "ledger_inv crc m st' (es @ [e])"
proof -
  have seq: "sequenced_event p (int (length es) + 1) = Inr e" and enc: "fits m e"
    and st': "st' = st\<lparr>rl_file := Some (ledger_file st @ frame_of crc e), rl_next_event_seq := Some (int (length es) + 2)\<rparr>"
    using append_ok [OF assms(1,2,3)] assms(4) encode_frame by (auto split: sum.splits)
  show ?thesis using assms(1) enc sequenced_proper(1,2) [OF seq assms(3)] unfolding st'
    by (simp add: ledger_inv_def ledger_file_def event_seqs_Suc list_all2_appendI)
qed

lemma ledger_run_inv: "ledger_run crc loads m st es \<Longrightarrow> list_all (readable crc loads) es \<Longrightarrow> ledger_inv crc m st es"
proof (induction rule: ledger_run.induct)
  case opened
  show ?case by (simp add: ledger_inv_def open_ledger_def ledger_file_def event_seqs_def)
next
  case (appended st es p e st')
  then show ?case using ledger_inv_append [of crc m st es loads p e st'] by simp
next
  case (refused st es p err st')
  then show ?case using append_refused ledger_inv_cache by blast
next
  case (replayed st es res st')
  then show ?case using replay_ok ledger_inv_cache by fastforce
next
  case (reopened st es)
  then show ?case by (simp add: ledger_inv_def open_ledger_def ledger_file_def)
qed

text \<open>
  C20: the ledger refines the list of its acknowledged events, whatever appends were refused and however
  often the file was replayed or opened again: a replay returns exactly the acknowledged events in
  order, their sequence numbers are 1, 2, 3 and so on, and the next append continues them.
\<close>

theorem ledger_refines_event_list:
  assumes "ledger_run crc loads m st es" and "list_all (readable crc loads) es"
  shows "fst (replay_events crc loads m st) = Inr (map stored_payload es) \<and>
    map (\<lambda>e. json_get e ''event_seq'') es = map JInt (event_seqs (length es)) \<and>
    fst (next_event_seq crc loads m st) = Inr (int (length es) + 1)"
proof -
  note inv = ledger_run_inv [OF assms]
  have "list_all2 (\<lambda>e i. json_get e ''event_seq'' = JInt i) es (event_seqs (length es))"
    using inv unfolding ledger_inv_def by (elim conjE list_all2_mono) blast+
  then have "map (\<lambda>e. json_get e ''event_seq'') es = map JInt (event_seqs (length es))"
    by (induction rule: list_all2_induct) auto
  then show ?thesis using replay_ok [OF inv assms(2)] next_seq_ok [OF inv assms(2)] by simp
qed

lemma demo_ledger_appended:
  "ledger_append_event demo_crc demo_loads MAX_LEDGER_PAYLOAD_BYTES [(''kind'', JStr ''run_started'')] (open_ledger None) =
     (Inr demo_ledger_event, \<lparr>rl_file = Some (frame_of demo_crc demo_ledger_event), rl_next_event_seq = Some 2\<rparr>)"
proof -
  have inv: "ledger_inv demo_crc MAX_LEDGER_PAYLOAD_BYTES (open_ledger None) []"
    by (simp add: ledger_inv_def open_ledger_def ledger_file_def event_seqs_def)
  have "proper_event [(''kind'', JStr ''run_started'')]" by code_simp
  moreover have "sequenced_event [(''kind'', JStr ''run_started'')] 1 = Inr demo_ledger_event" by code_simp
  moreover have "encode_lpj_c32_record demo_crc MAX_LEDGER_PAYLOAD_BYTES demo_ledger_event = Inr (frame_of demo_crc demo_ledger_event)"
    using demo_recordable by (simp add: encode_frame recordable_def)
  ultimately show ?thesis
    using append_ok [OF inv, of demo_loads "[(''kind'', JStr ''run_started'')]"] by (simp add: open_ledger_def ledger_file_def)
qed

lemma demo_ledger_run:
  "ledger_run demo_crc demo_loads MAX_LEDGER_PAYLOAD_BYTES (open_ledger (Some (frame_of demo_crc demo_ledger_event))) [demo_ledger_event]"
proof -
  have "proper_event [(''kind'', JStr ''run_started'')]" by code_simp
  then show ?thesis
    using ledger_run.reopened [OF ledger_run.appended [OF ledger_run.opened _ demo_ledger_appended]] by simp
qed

theorem ledger_refines_event_list_witness:
  "fst (replay_events demo_crc demo_loads MAX_LEDGER_PAYLOAD_BYTES (open_ledger (Some (frame_of demo_crc demo_ledger_event)))) =
     Inr [stored_payload demo_ledger_event] \<and>
   fst (next_event_seq demo_crc demo_loads MAX_LEDGER_PAYLOAD_BYTES (open_ledger (Some (frame_of demo_crc demo_ledger_event)))) = Inr 2"
  using ledger_refines_event_list [OF demo_ledger_run] demo_recordable by (simp add: readable_def recordable_def)

section \<open>Appending after a crash\<close>

text \<open>
  A torn tail is not cut off before the next append. When it announces more bytes than the file then
  has, the appended event is acknowledged, but replays do not return it and its sequence number is
  given out again.
\<close>

lemma append_after_crash_is_lost:
  assumes "list_all2 (recordable crc loads m) es (event_seqs (length es))" and "es \<noteq> []"
    and "tail = pack_u32 n" and "n \<le> m" and "n < 2 ^ 32" and "length (payload_bytes e) + 8 < n + 4"
    and "st = \<lparr>rl_file = Some (concat (map (frame_of crc) es) @ tail @ frame_of crc e), rl_next_event_seq = Some (int (length es) + 2)\<rparr>"
  shows "fst (replay_events crc loads m st) = Inr (map stored_payload es)"
proof -
  have "take 4 (tail @ frame_of crc e) = pack_u32 n" using assms(3) by simp
  then have "unpack_u32 (take 4 (tail @ frame_of crc e)) = n" using assms(5) by (simp only: unpack_pack)
  then have "torn m (tail @ frame_of crc e)" using assms(3,4,6) by (simp add: torn_def del: take_append)
  then have dec: "decode_lpj_c32_stream crc loads m (concat (map (frame_of crc) es) @ tail @ frame_of crc e) = Inr (map stored_payload es)"
    using decode_stream_frames [OF assms(1) sorted_event_seqs] by blast
  have "recordable crc loads m (last es) (event_seqs (length es) ! (length es - 1))"
    using assms(1,2) by (auto simp: list_all2_conv_all_nth last_conv_nth)
  then show ?thesis using dec assms(2,7) by (simp add: replay_events_def last_map recordable_def py_int_def)
qed

text \<open>A sequence number given as text is accepted by an append and refused by every later replay.\<close>

lemma text_sequence_number_accepted:
  "sequenced_event [(''event_seq'', JStr ''1'')] 1 = Inr [(''event_seq'', JStr ''1'')] \<and>
   check_record (\<lambda>bs. 0) (\<lambda>bs. Some (JObj [(''event_seq'', JStr ''1'')])) 0 0 [] 0 =
     Inl (LedgerFramingError ''E_LEDGER_SEQ'' ''offset=0:missing_event_seq'')"
  by code_simp

end
