(* ===== verification/Protocol_Registry.thy ===== *)
theory Protocol_Registry
  imports Kernel_Policy Protocol_Ledger "HOL-Library.Product_Lexorder"
begin

text \<open>
  What the protocol run ledger builds on: the canonical hashes
  (\<open>orket/runtime/registry/protocol_hashing.py\<close>), the manifest and the call hash of a tool invocation
  (\<open>tool_invocation_contracts.py\<close>), the statuses that may not carry a failure
  (\<open>orket/runtime/policy/result_error_invariants.py\<close>) and the registry that lets the first commit of
  an operation win (\<open>operation_commit_registry.py\<close>).

  \<open>sha256\<close> maps the text that is hashed to its digest; \<open>loads\<close> is \<open>json.loads\<close> of the bytes of a file,
  \<open>None\<close> where it raises. Values are decoded JSON without floats, so \<open>_ensure_json_compatible\<close> accepts
  them as they are.
\<close>

type_synonym dict = "(string \<times> json) list"

section \<open>Hashes of canonical JSON\<close>

definition PROTOCOL_VERSION :: string where
  "PROTOCOL_VERSION = ''protocol-governed/v5.1''"

definition canonical_json :: "json \<Rightarrow> string" where
  "canonical_json v = json_dumps False v"

definition hash_canonical_json :: "(string \<Rightarrow> string) \<Rightarrow> json \<Rightarrow> string" where
  "hash_canonical_json sha256 v = sha256 (canonical_json v)"

definition hash_framed_fields :: "(string \<Rightarrow> string) \<Rightarrow> string \<Rightarrow> json list \<Rightarrow> int \<Rightarrow> string" where
  "hash_framed_fields sha256 kind flds version =
     hash_canonical_json sha256 (JObj [(''v'', JInt version), (''kind'', JStr kind), (''fields'', JArr flds)])"

definition build_step_id :: "string \<Rightarrow> int \<Rightarrow> string" where
  "build_step_id issue_id turn_index = py_strip issue_id @ '':'' @ str_of_int turn_index"

definition derive_operation_id :: "(string \<Rightarrow> string) \<Rightarrow> string \<Rightarrow> string \<Rightarrow> int \<Rightarrow> string" where
  "derive_operation_id sha256 run_id step_id tool_index =
     hash_framed_fields sha256 ''operation_id'' [JStr (py_strip run_id), JStr (py_strip step_id), JInt tool_index] 1"

definition derive_step_seed :: "(string \<Rightarrow> string) \<Rightarrow> string \<Rightarrow> string \<Rightarrow> string \<Rightarrow> string" where
  "derive_step_seed sha256 run_seed run_id step_id =
     hash_framed_fields sha256 ''step_seed''
       [JStr (py_strip run_seed), JStr (py_strip run_id), JStr (py_strip step_id)] 1"

definition default_protocol_hash :: "(string \<Rightarrow> string) \<Rightarrow> string" where
  "default_protocol_hash sha256 = hash_framed_fields sha256 ''protocol_hash'' [JStr PROTOCOL_VERSION] 1"

definition default_tool_schema_hash :: "(string \<Rightarrow> string) \<Rightarrow> string" where
  "default_tool_schema_hash sha256 =
     hash_framed_fields sha256 ''tool_schema_hash''
       [JObj [(''envelope_keys'', JArr [JStr ''content'', JStr ''tool_calls'']),
              (''tool_call_keys'', JArr [JStr ''tool'', JStr ''args'']),
              (''args_type'', JStr ''object'')]] 1"

definition hash_env_allowlist :: "(string \<Rightarrow> string) \<Rightarrow> dict option \<Rightarrow> string" where
  "hash_env_allowlist sha256 env_allowlist =
     hash_framed_fields sha256 ''env_allowlist''
       [JObj (case env_allowlist of
            None \<Rightarrow> []
          | Some kvs \<Rightarrow> map (\<lambda>(k, v). (k, JStr (py_str_json v))) (filter (\<lambda>(k, v). py_strip k \<noteq> []) (sort_key fst kvs)))] 1"

definition hash_network_allowlist :: "(string \<Rightarrow> string) \<Rightarrow> string list option \<Rightarrow> string" where
  "hash_network_allowlist sha256 destinations =
     (let items = (case destinations of None \<Rightarrow> [] | Some xs \<Rightarrow> xs) in
      hash_framed_fields sha256 ''network_allowlist''
        [JArr (map JStr (sort (remdups (filter (\<lambda>s. s \<noteq> []) (map py_strip items)))))] 1)"

definition hash_clock_artifact_ref :: "(string \<Rightarrow> string) \<Rightarrow> string option \<Rightarrow> string" where
  "hash_clock_artifact_ref sha256 v =
     hash_framed_fields sha256 ''clock_artifact_ref'' [JStr (py_strip (case v of None \<Rightarrow> [] | Some s \<Rightarrow> s))] 1"

section \<open>Tool invocations\<close>

definition RUNTIME_ONLY_METADATA_KEYS :: "string list" where
  "RUNTIME_ONLY_METADATA_KEYS = [''trace_id'', ''debug_flags'', ''retry_count'']"

definition VALID_RINGS :: "string list" where
  "VALID_RINGS = [''core'', ''compatibility'', ''experimental'']"

definition VALID_DETERMINISM_CLASSES :: "string list" where
  "VALID_DETERMINISM_CLASSES = [''pure'', ''workspace'', ''external'']"

definition VALID_NAMESPACE_SCOPE_RULES :: "string list" where
  "VALID_NAMESPACE_SCOPE_RULES = [''run_scope_only'', ''declared_scope_subset'']"

definition PROTOCOL_RECEIPT_SCHEMA_VERSION :: string where
  "PROTOCOL_RECEIPT_SCHEMA_VERSION = ''protocol_receipt.v1''"

definition CONTROL_PLANE_REF_FIELDS :: "string list" where
  "CONTROL_PLANE_REF_FIELDS =
     [''control_plane_run_id'', ''control_plane_attempt_id'', ''control_plane_step_id'',
      ''control_plane_reservation_id'', ''control_plane_lease_id'', ''control_plane_resource_id'']"

text \<open>\<open>str(d.get(k) or other)\<close>, and the field \<open>k\<close> set to a text.\<close>

definition str_get_or :: "dict \<Rightarrow> string \<Rightarrow> string \<Rightarrow> string" where
  "str_get_or d k other = (let v = json_get d k in if json_truthy v then py_str_json v else other)"

definition set_str :: "string \<Rightarrow> string \<Rightarrow> dict \<Rightarrow> dict" where
  "set_str k s d = AList.update k (JStr s) d"

text \<open>One turn of the loop over the control-plane references: a blank one is removed.\<close>

definition normalize_ref :: "string \<Rightarrow> dict \<Rightarrow> dict" where
  "normalize_ref field candidate =
     (let token = py_strip (str_get_or candidate field []) in
      if token \<noteq> [] then set_str field token candidate else AList.delete field candidate)"

definition stripped_texts :: "json list \<Rightarrow> json list" where
  "stripped_texts tokens = map JStr (filter (\<lambda>s. s \<noteq> []) (map (\<lambda>t. py_strip (py_str_json t)) tokens))"

text \<open>The manifest with its defaults filled in, before it is validated.\<close>

definition manifest_candidate :: "dict \<Rightarrow> string \<Rightarrow> string \<Rightarrow> dict result" where
  "manifest_candidate manifest run_id tool_name_fallback =
     (let c = manifest;
          c = set_str ''manifest_version'' (str_get_or c ''manifest_version'' ''1.0'') c;
          c = set_str ''tool_name'' (py_strip (str_get_or c ''tool_name'' tool_name_fallback)) c;
          c = set_str ''ring'' (py_lower (py_strip (str_get_or c ''ring'' ''core''))) c;
          c = set_str ''schema_version'' (str_get_or c ''schema_version'' ''1.0.0'') c;
          c = set_str ''determinism_class'' (py_lower (py_strip (str_get_or c ''determinism_class'' ''workspace''))) c;
          c = set_str ''capability_profile'' (str_get_or c ''capability_profile'' ''workspace'') c;
          c = set_str ''tool_contract_version'' (str_get_or c ''tool_contract_version'' ''1.0.0'') c;
          c = set_str ''run_id'' (py_strip (str_get_or c ''run_id'' run_id)) c;
          c = set_str ''namespace_scope'' (py_strip (str_get_or c ''namespace_scope'' [])) c;
          c = set_str ''namespace_scope_rule'' (py_lower (py_strip (str_get_or c ''namespace_scope_rule'' ''run_scope_only''))) c
      in bind_result (py_list_or_empty (json_get c ''declared_namespace_scopes'')) (\<lambda>tokens.
         Inr (fold normalize_ref CONTROL_PLANE_REF_FIELDS
           (AList.update ''declared_namespace_scopes'' (JArr (stripped_texts tokens)) c))))"

definition normalize_tool_invocation_manifest ::
  "(string \<Rightarrow> string) \<Rightarrow> dict option \<Rightarrow> string \<Rightarrow> string \<Rightarrow> dict option result" where
  "normalize_tool_invocation_manifest sha256 manifest run_id tool_name_fallback =
     (case manifest of
        None \<Rightarrow> Inr None
      | Some m \<Rightarrow> bind_result (manifest_candidate m run_id tool_name_fallback) (\<lambda>c.
          if json_get c ''tool_name'' = JStr [] then Inr None
          else if json_get c ''run_id'' \<noteq> JStr (py_strip run_id) then Inr None
          else if json_get c ''ring'' \<notin> JStr ` set VALID_RINGS then Inr None
          else if json_get c ''determinism_class'' \<notin> JStr ` set VALID_DETERMINISM_CLASSES then Inr None
          else if json_get c ''namespace_scope_rule'' \<notin> JStr ` set VALID_NAMESPACE_SCOPE_RULES then Inr None
          else Inr (Some (set_str ''manifest_hash''
            (hash_canonical_json sha256 (JObj (AList.delete ''manifest_hash'' c))) c))))"

record manifest_args =
  ma_run_id :: string
  ma_tool_name :: string
  ma_ring :: string
  ma_schema_version :: string
  ma_determinism_class :: string
  ma_capability_profile :: string
  ma_tool_contract_version :: string
  ma_manifest_version :: string
  ma_namespace_scope :: string
  ma_namespace_scope_rule :: string
  ma_declared_namespace_scopes :: "string list option"
  ma_control_plane_refs :: "string option list"

definition build_tool_invocation_manifest :: "(string \<Rightarrow> string) \<Rightarrow> manifest_args \<Rightarrow> dict result" where
  "build_tool_invocation_manifest sha256 a =
     bind_result (normalize_tool_invocation_manifest sha256
       (Some ([(''manifest_version'', JStr (ma_manifest_version a)), (''tool_name'', JStr (ma_tool_name a)),
               (''ring'', JStr (ma_ring a)), (''schema_version'', JStr (ma_schema_version a)),
               (''determinism_class'', JStr (ma_determinism_class a)),
               (''capability_profile'', JStr (ma_capability_profile a)),
               (''tool_contract_version'', JStr (ma_tool_contract_version a)), (''run_id'', JStr (ma_run_id a)),
               (''namespace_scope'', JStr (ma_namespace_scope a)),
               (''namespace_scope_rule'', JStr (ma_namespace_scope_rule a)),
               (''declared_namespace_scopes'',
                 JArr (map JStr (case ma_declared_namespace_scopes a of None \<Rightarrow> [] | Some xs \<Rightarrow> xs)))] @
              zip CONTROL_PLANE_REF_FIELDS (map json_opt_str (ma_control_plane_refs a))))
       (ma_run_id a) (ma_tool_name a)) (\<lambda>normalized.
     case normalized of None \<Rightarrow> Inl (ValueError ''E_TOOL_INVOCATION_MANIFEST_INVALID'') | Some m \<Rightarrow> Inr m)"

fun normalize_value :: "json \<Rightarrow> json" where
  "normalize_value (JArr xs) = JArr (map normalize_value xs)"
| "normalize_value (JObj kvs) =
     JObj (filter (\<lambda>(k, _). k \<notin> set RUNTIME_ONLY_METADATA_KEYS) (map (\<lambda>(k, v). (k, normalize_value v)) kvs))"
| "normalize_value v = v"

definition normalize_tool_args :: "json \<Rightarrow> dict" where
  "normalize_tool_args args =
     (case args of JObj _ \<Rightarrow> (case normalize_value args of JObj kvs \<Rightarrow> kvs | _ \<Rightarrow> []) | _ \<Rightarrow> [])"

definition compute_tool_call_hash :: "(string \<Rightarrow> string) \<Rightarrow> string \<Rightarrow> json \<Rightarrow> string \<Rightarrow> string \<Rightarrow> string" where
  "compute_tool_call_hash sha256 tool_name tool_args tool_contract_version capability_profile =
     hash_canonical_json sha256 (JObj
       [(''tool_name'', JStr (py_strip tool_name)), (''normalized_args'', JObj (normalize_tool_args tool_args)),
        (''tool_contract_version'', JStr (py_strip tool_contract_version)),
        (''capability_profile'', JStr (py_strip capability_profile))])"

section \<open>Statuses that may not carry a failure\<close>

definition FAILURE_FORBIDDEN_STATUSES :: "string list" where
  "FAILURE_FORBIDDEN_STATUSES = [''done'', ''incomplete'', ''running'']"

definition normalized_statuses :: "json \<Rightarrow> string list" where
  "normalized_statuses v =
     (case v of
        JArr tokens \<Rightarrow> filter (\<lambda>s. s \<noteq> []) (map (\<lambda>t. py_lower (py_strip (py_str_json t))) tokens)
      | _ \<Rightarrow> [])"

definition result_error_invariant_contract_snapshot :: dict where
  "result_error_invariant_contract_snapshot =
     [(''schema_version'', JStr ''1.0''), (''failure_forbidden_statuses'', JArr (map JStr FAILURE_FORBIDDEN_STATUSES))]"

definition validate_result_error_invariant_contract :: "dict option \<Rightarrow> string list result" where
  "validate_result_error_invariant_contract payload =
     (let contract = (case payload of Some (p # ps) \<Rightarrow> p # ps | _ \<Rightarrow> result_error_invariant_contract_snapshot);
          statuses = normalized_statuses (json_get contract ''failure_forbidden_statuses'') in
      if statuses = [] then Inl (ValueError ''E_RESULT_ERROR_INVARIANT_CONTRACT_EMPTY'')
      else if \<not> distinct statuses then Inl (ValueError ''E_RESULT_ERROR_INVARIANT_CONTRACT_DUPLICATE_STATUS'')
      else if set statuses \<noteq> set FAILURE_FORBIDDEN_STATUSES
      then Inl (ValueError ''E_RESULT_ERROR_INVARIANT_CONTRACT_STATUS_SET_MISMATCH'')
      else Inr (sort statuses))"

definition validate_result_error_invariant :: "string \<Rightarrow> string option \<Rightarrow> string option \<Rightarrow> string result" where
  "validate_result_error_invariant status failure_class failure_reason =
     (let resolved_status = py_lower (py_strip status);
          failure = py_strip (str_or failure_class []) \<noteq> [] \<or> py_strip (str_or failure_reason []) \<noteq> [] in
      if resolved_status = [] then Inl (ValueError ''E_RESULT_ERROR_INVARIANT:status_required'')
      else if resolved_status \<in> set FAILURE_FORBIDDEN_STATUSES \<and> failure
      then Inl (ValueError (''E_RESULT_ERROR_INVARIANT:'' @ resolved_status @ ''_must_not_have_failure''))
      else Inr resolved_status)"

section \<open>The operation commit registry\<close>

record commit_row =
  cr_operation_id :: string
  cr_event_seq :: int
  cr_entry_digest :: string

record op_registry =
  reg_persistent :: bool
  reg_file :: "bytes option"
  reg_entries :: "(string \<times> commit_row) list"
  reg_loaded :: bool

definition open_registry :: "bytes option \<Rightarrow> op_registry" where
  "open_registry file = \<lparr>reg_persistent = True, reg_file = file, reg_entries = [], reg_loaded = False\<rparr>"

record registry_decision =
  cd_accepted :: bool
  cd_operation_id :: string
  cd_winner_event_seq :: int
  cd_winner_entry_digest :: string
  cd_error_code :: "string option"
  cd_idempotent_reuse :: bool

text \<open>One row of the file; a row that is not an object or has a blank or bad field is passed over.\<close>

definition load_row :: "json \<Rightarrow> commit_row option" where
  "load_row row =
     (case row of
        JObj r \<Rightarrow>
          (let op_id = py_strip (str_get_or r ''operation_id'' []);
               digest = py_strip (str_get_or r ''entry_digest'' []) in
           if op_id = [] \<or> digest = [] then None
           else case py_int (if json_truthy (json_get r ''event_seq'') then json_get r ''event_seq'' else JInt 0) of
               Inl _ \<Rightarrow> None
             | Inr seq \<Rightarrow> if seq \<le> 0 then None
                 else Some \<lparr>cr_operation_id = op_id, cr_event_seq = seq, cr_entry_digest = digest\<rparr>)
      | _ \<Rightarrow> None)"

definition load_rows :: "json list \<Rightarrow> (string \<times> commit_row) list" where
  "load_rows rows = fold (\<lambda>row loaded. case load_row row of
       None \<Rightarrow> loaded | Some r \<Rightarrow> AList.update (cr_operation_id r) r loaded) rows []"

definition ensure_loaded :: "(bytes \<Rightarrow> json option) \<Rightarrow> op_registry \<Rightarrow> op_registry" where
  "ensure_loaded loads reg =
     (if reg_loaded reg then reg
      else let reg = reg\<lparr>reg_loaded := True\<rparr> in
        if \<not> reg_persistent reg then reg
        else case reg_file reg of
            None \<Rightarrow> reg
          | Some data \<Rightarrow>
              (case loads data of
                 Some (JObj payload) \<Rightarrow>
                   (case json_get payload ''entries'' of
                      JArr rows \<Rightarrow> reg\<lparr>reg_entries := load_rows rows\<rparr>
                    | _ \<Rightarrow> reg\<lparr>reg_entries := []\<rparr>)
               | _ \<Rightarrow> reg\<lparr>reg_entries := []\<rparr>))"

definition registry_entries :: "(bytes \<Rightarrow> json option) \<Rightarrow> op_registry \<Rightarrow> commit_row list \<times> op_registry" where
  "registry_entries loads reg =
     (let reg = ensure_loaded loads reg in
      (map snd (sort_key (\<lambda>(k, row). (cr_event_seq row, k)) (reg_entries reg)), reg))"

definition commit_row_json :: "commit_row \<Rightarrow> json" where
  "commit_row_json r =
     JObj [(''operation_id'', JStr (cr_operation_id r)), (''event_seq'', JInt (cr_event_seq r)),
           (''entry_digest'', JStr (cr_entry_digest r))]"

definition registry_text :: "commit_row list \<Rightarrow> string" where
  "registry_text rows = canonical_json (JObj [(''entries'', JArr (map commit_row_json rows))]) @ [CHR 10]"

definition persist :: "(bytes \<Rightarrow> json option) \<Rightarrow> op_registry \<Rightarrow> op_registry" where
  "persist loads reg =
     (if \<not> reg_persistent reg then reg
      else let (rows, reg) = registry_entries loads reg in reg\<lparr>reg_file := Some (utf8_encode (registry_text rows))\<rparr>)"

definition registry_commit ::
  "(bytes \<Rightarrow> json option) \<Rightarrow> string \<Rightarrow> int \<Rightarrow> string \<Rightarrow> (op_registry, registry_decision) eff" where
  "registry_commit loads operation_id event_seq entry_digest reg =
     (let reg = ensure_loaded loads reg; op_id = py_strip operation_id; digest = py_strip entry_digest in
      if op_id = [] then (Inl (ValueError ''operation_id is required''), reg)
      else if digest = [] then (Inl (ValueError ''entry_digest is required''), reg)
      else case map_of (reg_entries reg) op_id of
          None \<Rightarrow>
            (Inr \<lparr>cd_accepted = True, cd_operation_id = op_id, cd_winner_event_seq = event_seq,
                  cd_winner_entry_digest = digest, cd_error_code = None, cd_idempotent_reuse = False\<rparr>,
             persist loads (reg\<lparr>reg_entries := AList.update op_id
               \<lparr>cr_operation_id = op_id, cr_event_seq = event_seq, cr_entry_digest = digest\<rparr> (reg_entries reg)\<rparr>))
        | Some existing \<Rightarrow>
            (Inr \<lparr>cd_accepted = False, cd_operation_id = op_id, cd_winner_event_seq = cr_event_seq existing,
                  cd_winner_entry_digest = cr_entry_digest existing, cd_error_code = Some ''E_DUPLICATE_OPERATION'',
                  cd_idempotent_reuse = (digest = cr_entry_digest existing)\<rparr>, reg))"

definition registry_winner :: "(bytes \<Rightarrow> json option) \<Rightarrow> string \<Rightarrow> op_registry \<Rightarrow> commit_row option \<times> op_registry" where
  "registry_winner loads operation_id reg =
     (let reg = ensure_loaded loads reg in (map_of (reg_entries reg) (py_strip operation_id), reg))"

end
