(* ===== verification/Run_Graph.thy ===== *)
theory Run_Graph
  imports Protocol_Registry
begin

text \<open>
  The run graph that a finalized run leaves beside its ledger
  (\<open>orket/runtime/evidence/run_graph_reconstruction.py\<close>): a node for every stage, tool call, artifact and
  compatibility mapping of the ledger's events, the edges between them, and the validation that every
  written graph passes.

  The dicts of the code are association lists in insertion order. Events are decoded JSON objects.
\<close>

definition RUN_GRAPH_SCHEMA_VERSION :: string where
  "RUN_GRAPH_SCHEMA_VERSION = ''1.0''"

definition TOOL_RESULT_KINDS :: "string list" where
  "TOOL_RESULT_KINDS = [''operation_result'', ''tool_result'']"

definition NODE_TYPES :: "string list" where
  "NODE_TYPES = [''tool_call'', ''compat_mapping'', ''workload_stage'', ''artifact'']"

definition EDGE_TYPES :: "string list" where
  "EDGE_TYPES = [''call_result'', ''artifact_produced'', ''compat_expansion'', ''execution_order'']"

section \<open>Helpers\<close>

text \<open>\<open>a or b\<close>, and the texts \<open>str(d.get(k) or "")\<close> and the same stripped.\<close>

definition json_or :: "json \<Rightarrow> json \<Rightarrow> json" where
  "json_or a b = (if json_truthy a then a else b)"

definition text_of :: "dict \<Rightarrow> string \<Rightarrow> string" where
  "text_of d k = str_get_or d k []"

definition strip_of :: "dict \<Rightarrow> string \<Rightarrow> string" where
  "strip_of d k = py_strip (text_of d k)"

definition event_sequence :: "dict \<Rightarrow> int result" where
  "event_sequence event =
     py_int (json_or (json_or (json_get event ''event_seq'') (json_get event ''sequence_number'')) (JInt 0))"

definition ordered_events :: "dict list \<Rightarrow> dict list result" where
  "ordered_events events =
     bind_result (traverse event_sequence events) (\<lambda>seqs.
       Inr (map snd (sort_key (\<lambda>(s, e). (s, text_of e ''kind'')) (zip seqs events))))"

fun first_run_id :: "dict list \<Rightarrow> string" where
  "first_run_id [] = ''unknown-run''"
| "first_run_id (event # events) =
     (let run_id = py_strip (str_get_or event ''run_id'' (text_of event ''session_id'')) in
      if run_id \<noteq> [] then run_id else first_run_id events)"

definition resolve_run_id :: "dict list \<Rightarrow> string option \<Rightarrow> string" where
  "resolve_run_id events session_id =
     (let explicit_session_id = py_strip (str_or session_id []) in
      if explicit_session_id \<noteq> [] then explicit_session_id else first_run_id events)"

definition ledger_schema_version :: "dict list \<Rightarrow> string" where
  "ledger_schema_version events =
     (case sort (remdups (filter (\<lambda>s. s \<noteq> [])
         (map (\<lambda>e. py_strip (str_get_or e ''ledger_schema_version'' ''1.0'')) events))) of
        [] \<Rightarrow> ''1.0'' | [v] \<Rightarrow> v | _ \<Rightarrow> ''mixed'')"

text \<open>\<open>re.sub(r"[^a-z0-9._-]+", "_", s)\<close>\<close>

definition is_token_char :: "char \<Rightarrow> bool" where
  "is_token_char c \<longleftrightarrow> in_range (CHR ''a'') (CHR ''z'') c \<or> is_dec c \<or> c \<in> {CHR ''.'', CHR ''_'', CHR ''-''}"

function squash :: "string \<Rightarrow> string" where
  "squash [] = []"
| "squash (c # s) =
     (if is_token_char c then c # squash s else CHR ''_'' # squash (dropWhile (\<lambda>c. \<not> is_token_char c) s))"
  by pat_completeness auto
termination by (relation "measure length") (auto simp: le_imp_less_Suc length_dropWhile_le)

definition strip_char :: "char \<Rightarrow> string \<Rightarrow> string" where
  "strip_char c s = rev (dropWhile (\<lambda>x. x = c) (rev (dropWhile (\<lambda>x. x = c) s)))"

definition safe_token :: "string \<Rightarrow> string" where
  "safe_token v =
     (let normalized = py_lower (py_strip v); token = strip_char (CHR ''_'') (squash normalized) in
      if normalized = [] then ''unknown'' else if token = [] then ''unknown'' else token)"

text \<open>The identifiers of nodes.\<close>

definition stage_ref :: "string \<Rightarrow> string \<Rightarrow> string" where
  "stage_ref run_id step = ''workload_stage:'' @ safe_token run_id @ '':'' @ safe_token step"

definition artifact_ref :: "string \<Rightarrow> int \<Rightarrow> string \<Rightarrow> string" where
  "artifact_ref kind event_seq name = ''artifact:'' @ kind @ '':'' @ str_of_int event_seq @ '':'' @ safe_token name"

definition call_ref :: "int \<Rightarrow> string" where
  "call_ref event_seq = ''tool_call:'' @ str_of_int event_seq"

definition result_ref :: "int \<Rightarrow> string" where
  "result_ref event_seq = ''artifact:tool_result:'' @ str_of_int event_seq"

definition compat_ref :: "int \<Rightarrow> string" where
  "compat_ref n = ''compat_mapping:'' @ str_of_int n"

definition compat_artifact_ref :: "int \<Rightarrow> string" where
  "compat_artifact_ref event_seq = ''artifact:compat_translation:'' @ str_of_int event_seq"

section \<open>The state of the reconstruction\<close>

type_synonym edge_key = "string \<times> string \<times> string \<times> int"

record run_graph =
  g_nodes :: "(string \<times> dict) list"
  g_edges :: "(edge_key \<times> dict) list"
  g_stages :: "(string \<times> string) list"
  g_calls :: "(int \<times> string) list"
  g_call_sequences :: "int list"

definition put_node :: "string \<Rightarrow> dict \<Rightarrow> run_graph \<Rightarrow> run_graph" where
  "put_node i node g = g\<lparr>g_nodes := AList.update i node (g_nodes g)\<rparr>"

definition put_edge :: "string \<Rightarrow> string \<Rightarrow> string \<Rightarrow> int \<Rightarrow> run_graph \<Rightarrow> run_graph" where
  "put_edge edge_type source target ordinal g =
     (let key = (edge_type, source, target, ordinal) in
      if map_of (g_edges g) key \<noteq> None then g
      else g\<lparr>g_edges := AList.update key [(''type'', JStr edge_type), (''source'', JStr source),
          (''target'', JStr target), (''ordinal'', JInt ordinal)] (g_edges g)\<rparr>)"

definition resolve_stage_node :: "string \<Rightarrow> string \<Rightarrow> run_graph \<Rightarrow> string \<times> run_graph" where
  "resolve_stage_node run_id step_id g =
     (let step = py_strip step_id in
      case map_of (g_stages g) step of
        Some stage_id \<Rightarrow> (stage_id, g)
      | None \<Rightarrow>
          (let stage_id = stage_ref run_id step in
           (stage_id, put_node stage_id
              [(''id'', JStr stage_id), (''type'', JStr ''workload_stage''), (''run_id'', JStr run_id),
               (''stage_id'', JStr step), (''label'', JStr step)]
              (g\<lparr>g_stages := AList.update step stage_id (g_stages g)\<rparr>))))"

definition artifacts_of :: "dict \<Rightarrow> dict" where
  "artifacts_of event = (case json_get event ''artifacts'' of JObj kvs \<Rightarrow> kvs | _ \<Rightarrow> [])"

definition add_run_artifact ::
  "(string \<Rightarrow> string) \<Rightarrow> string \<Rightarrow> int \<Rightarrow> string \<Rightarrow> string \<times> json \<Rightarrow> run_graph \<Rightarrow> run_graph" where
  "add_run_artifact sha256 kind event_seq source_stage_id artifact g =
     (let (name, v) = artifact;
          artifact_id = artifact_ref kind event_seq name in
      put_edge ''artifact_produced'' source_stage_id artifact_id event_seq
        (put_node artifact_id
          ([(''id'', JStr artifact_id), (''type'', JStr ''artifact''), (''artifact_kind'', JStr (kind @ ''.artifact'')),
            (''artifact_name'', JStr name), (''source_event_seq'', JInt event_seq),
            (''artifact_digest'', JStr (hash_canonical_json sha256 v))] @
           (case v of JStr s \<Rightarrow> [(''artifact_ref'', JStr s)] | _ \<Rightarrow> [])) g))"

definition add_run_artifact_nodes ::
  "(string \<Rightarrow> string) \<Rightarrow> string \<Rightarrow> int \<Rightarrow> dict \<Rightarrow> string \<Rightarrow> run_graph \<Rightarrow> run_graph" where
  "add_run_artifact_nodes sha256 kind event_seq event source_stage_id g =
     fold (add_run_artifact sha256 kind event_seq source_stage_id) (sort_key fst (artifacts_of event)) g"

section \<open>The loop over the events\<close>

text \<open>The branch of a tool call.\<close>

definition call_node :: "dict \<Rightarrow> string \<Rightarrow> int \<Rightarrow> dict" where
  "call_node event call_id event_seq =
     [(''id'', JStr call_id), (''type'', JStr ''tool_call''), (''event_seq'', JInt event_seq),
      (''tool_name'', JStr (py_strip (str_get_or event ''tool_name'' (text_of event ''tool'')))),
      (''operation_id'', JStr (strip_of event ''operation_id'')), (''step_id'', JStr (strip_of event ''step_id'')),
      (''tool_call_hash'', JStr (strip_of event ''tool_call_hash''))] @
     (case json_get event ''tool_invocation_manifest'' of
        JObj manifest \<Rightarrow>
          [(''manifest_hash'', JStr (strip_of manifest ''manifest_hash'')),
           (''determinism_class'', JStr (strip_of manifest ''determinism_class''))] @
          map (\<lambda>f. (f, JStr (strip_of manifest f))) (filter (\<lambda>f. strip_of manifest f \<noteq> []) CONTROL_PLANE_REF_FIELDS)
      | _ \<Rightarrow> [])"

definition add_call :: "string \<Rightarrow> dict \<Rightarrow> int \<Rightarrow> run_graph \<Rightarrow> run_graph" where
  "add_call run_id event event_seq g =
     (let (stage_id, g) = resolve_stage_node run_id (strip_of event ''step_id'') g;
          call_id = call_ref event_seq;
          g = put_node call_id (call_node event call_id event_seq) g;
          g = g\<lparr>g_calls := AList.update event_seq call_id (g_calls g), g_call_sequences := g_call_sequences g @ [event_seq]\<rparr>
      in put_edge ''execution_order'' stage_id call_id event_seq g)"

text \<open>The branch of a tool result: its artifact, and the compatibility mapping when it has one.\<close>

definition add_compat ::
  "(string \<Rightarrow> string) \<Rightarrow> dict \<Rightarrow> int \<Rightarrow> int \<Rightarrow> string option \<Rightarrow> run_graph \<Rightarrow> run_graph result" where
  "add_compat sha256 translation event_seq call_seq linked_call_id g =
     bind_result (py_list_or_empty (json_get translation ''mapped_core_tools'')) (\<lambda>tools.
       let compat_node_id = compat_ref (if call_seq \<noteq> 0 then call_seq else event_seq);
           g = put_node compat_node_id
             [(''id'', JStr compat_node_id), (''type'', JStr ''compat_mapping''),
              (''compat_tool_name'', JStr (strip_of translation ''compat_tool_name'')),
              (''mapping_version'', json_get translation ''mapping_version''),
              (''mapping_determinism'', JStr (strip_of translation ''mapping_determinism'')),
              (''schema_compatibility_range'', JStr (strip_of translation ''schema_compatibility_range'')),
              (''mapped_core_tools'', JArr (stripped_texts tools)),
              (''translation_hash'', JStr (strip_of translation ''translation_hash''))] g;
           g = (case linked_call_id of
                  None \<Rightarrow> g
                | Some c \<Rightarrow> put_edge ''compat_expansion'' c compat_node_id event_seq g);
           compat_artifact_id = compat_artifact_ref event_seq;
           g = put_node compat_artifact_id
             [(''id'', JStr compat_artifact_id), (''type'', JStr ''artifact''),
              (''artifact_kind'', JStr ''compat_translation''), (''event_seq'', JInt event_seq),
              (''artifact_digest'', JStr (hash_canonical_json sha256 (JObj translation))),
              (''compat_tool_name'', JStr (strip_of translation ''compat_tool_name''))] g
       in Inr (put_edge ''artifact_produced'' compat_node_id compat_artifact_id event_seq g))"

definition result_payload_of :: "dict \<Rightarrow> dict" where
  "result_payload_of event = (case json_get event ''result'' of JObj kvs \<Rightarrow> kvs | _ \<Rightarrow> [])"

definition add_result :: "(string \<Rightarrow> string) \<Rightarrow> string \<Rightarrow> dict \<Rightarrow> int \<Rightarrow> run_graph \<Rightarrow> run_graph result" where
  "add_result sha256 kind event event_seq g =
     bind_result (py_int (json_or (json_get event ''call_sequence_number'') (JInt 0))) (\<lambda>call_seq.
       let result_payload = result_payload_of event;
           result_id = result_ref event_seq;
           g = put_node result_id
             [(''id'', JStr result_id), (''type'', JStr ''artifact''), (''artifact_kind'', JStr kind),
              (''event_seq'', JInt event_seq), (''call_sequence_number'', JInt call_seq),
              (''operation_id'', JStr (strip_of event ''operation_id'')),
              (''tool_name'', JStr (py_strip (str_get_or event ''tool_name'' (text_of event ''tool'')))),
              (''ok'', JBool (json_truthy (json_get result_payload ''ok''))),
              (''artifact_digest'', JStr (hash_canonical_json sha256 (JObj result_payload)))] g;
           linked_call_id = map_of (g_calls g) call_seq;
           g = (case linked_call_id of
                  None \<Rightarrow> g
                | Some c \<Rightarrow> put_edge ''artifact_produced'' c result_id event_seq (put_edge ''call_result'' c result_id event_seq g))
       in case json_get result_payload ''compat_translation'' of
            JObj translation \<Rightarrow> add_compat sha256 translation event_seq call_seq linked_call_id g
          | _ \<Rightarrow> Inr g)"

definition graph_event :: "(string \<Rightarrow> string) \<Rightarrow> string \<Rightarrow> string \<Rightarrow> dict \<Rightarrow> run_graph \<Rightarrow> run_graph result" where
  "graph_event sha256 run_id root_stage_id event g =
     (let kind = strip_of event ''kind'' in
      bind_result (event_sequence event) (\<lambda>event_seq.
        if event_seq \<le> 0 then Inr g
        else if kind = ''run_started'' then
          (let run_name = strip_of event ''run_name'';
               g = (if run_name \<noteq> []
                    then g\<lparr>g_nodes := map (\<lambda>(i, node). (i, if i = root_stage_id
                             then AList.update ''label'' (JStr run_name) node else node)) (g_nodes g)\<rparr>
                    else g)
           in Inr (add_run_artifact_nodes sha256 kind event_seq event root_stage_id g))
        else if kind = ''run_finalized'' then Inr (add_run_artifact_nodes sha256 kind event_seq event root_stage_id g)
        else if kind = ''tool_call'' then Inr (add_call run_id event event_seq g)
        else if kind \<in> set TOOL_RESULT_KINDS then add_result sha256 kind event event_seq g
        else Inr g))"

text \<open>The edges between calls in ascending order of their sequence numbers.\<close>

fun link_calls :: "int list \<Rightarrow> run_graph \<Rightarrow> run_graph" where
  "link_calls (previous_seq # current_seq # rest) g =
     link_calls (current_seq # rest)
       (case (map_of (g_calls g) previous_seq, map_of (g_calls g) current_seq) of
          (Some p, Some c) \<Rightarrow> put_edge ''execution_order'' p c current_seq g
        | _ \<Rightarrow> g)"
| "link_calls _ g = g"

section \<open>The validation of a graph\<close>

fun validate_nodes :: "json list \<Rightarrow> string list \<Rightarrow> string list result" where
  "validate_nodes [] node_ids = Inr node_ids"
| "validate_nodes (JObj node # nodes) node_ids =
     (let node_id = strip_of node ''id''; node_type = strip_of node ''type'' in
      if node_id = [] \<or> node_type \<notin> set NODE_TYPES then Inl (ValueError ''run_graph_node_contract_invalid'')
      else if node_id \<in> set node_ids then Inl (ValueError ''run_graph_node_duplicate'')
      else validate_nodes nodes (node_id # node_ids))"
| "validate_nodes (_ # nodes) node_ids = Inl (ValueError ''run_graph_node_invalid'')"

fun validate_edges :: "string list \<Rightarrow> json list \<Rightarrow> string list \<Rightarrow> string list result" where
  "validate_edges node_ids [] targets = Inr targets"
| "validate_edges node_ids (JObj edge # edges) targets =
     (let edge_type = strip_of edge ''type''; source = strip_of edge ''source''; target = strip_of edge ''target'' in
      if edge_type \<notin> set EDGE_TYPES then Inl (ValueError ''run_graph_edge_type_invalid'')
      else if source \<notin> set node_ids \<or> target \<notin> set node_ids then Inl (ValueError ''run_graph_edge_endpoint_missing'')
      else validate_edges node_ids edges (if edge_type = ''artifact_produced'' then target # targets else targets))"
| "validate_edges node_ids (_ # edges) targets = Inl (ValueError ''run_graph_edge_invalid'')"

definition lineage_missing :: "string list \<Rightarrow> json \<Rightarrow> bool" where
  "lineage_missing targets node =
     (case node of
        JObj n \<Rightarrow> text_of n ''type'' = ''artifact'' \<and> strip_of n ''id'' \<notin> set targets
      | _ \<Rightarrow> False)"

definition validate_run_graph_payload :: "dict \<Rightarrow> unit result" where
  "validate_run_graph_payload payload =
     (if strip_of payload ''run_graph_schema_version'' \<noteq> RUN_GRAPH_SCHEMA_VERSION
      then Inl (ValueError ''run_graph_schema_version_invalid'')
      else case (json_get payload ''nodes'', json_get payload ''edges'') of
          (JArr nodes, JArr edges) \<Rightarrow>
            bind_result (validate_nodes nodes []) (\<lambda>node_ids.
            bind_result (validate_edges node_ids edges []) (\<lambda>targets.
              if list_ex (lineage_missing targets) nodes
              then Inl (ValueError ''run_graph_artifact_lineage_missing'') else Inr ()))
        | _ \<Rightarrow> Inl (ValueError ''run_graph_nodes_or_edges_invalid''))"

section \<open>Reconstruction\<close>

definition root_stage :: "string \<Rightarrow> string" where
  "root_stage run_id = ''workload_stage:'' @ safe_token run_id @ '':root''"

definition initial_graph :: "string \<Rightarrow> run_graph" where
  "initial_graph run_id =
     \<lparr>g_nodes = [(root_stage run_id,
        [(''id'', JStr (root_stage run_id)), (''type'', JStr ''workload_stage''), (''run_id'', JStr run_id),
         (''stage_id'', JStr ''root''), (''label'', JStr run_id)])],
      g_edges = [], g_stages = [([], root_stage run_id)], g_calls = [], g_call_sequences = []\<rparr>"

definition edge_order_key :: "edge_key \<times> dict \<Rightarrow> edge_key" where
  "edge_order_key e = fst e"

definition graph_payload :: "(string \<Rightarrow> string) \<Rightarrow> string \<Rightarrow> dict list \<Rightarrow> run_graph \<Rightarrow> dict" where
  "graph_payload sha256 run_id ordered g =
     (let node_rows = map (\<lambda>(i, node). JObj node) (sort_key fst (g_nodes g));
          edge_rows = map (\<lambda>(k, edge). JObj edge) (sort_key edge_order_key (g_edges g)) in
      [(''run_graph_schema_version'', JStr RUN_GRAPH_SCHEMA_VERSION), (''run_id'', JStr run_id),
       (''derived_from'', JObj [(''source_of_truth'', JStr ''ledger+artifacts''),
          (''ledger_event_count'', JInt (int (length ordered))),
          (''ledger_schema_version'', JStr (ledger_schema_version ordered))]),
       (''node_count'', JInt (int (length node_rows))), (''edge_count'', JInt (int (length edge_rows))),
       (''nodes'', JArr node_rows), (''edges'', JArr edge_rows),
       (''graph_digest'', JStr (hash_canonical_json sha256
          (JObj [(''run_id'', JStr run_id), (''nodes'', JArr node_rows), (''edges'', JArr edge_rows)])))])"

definition reconstruct_run_graph :: "(string \<Rightarrow> string) \<Rightarrow> dict list \<Rightarrow> string option \<Rightarrow> dict result" where
  "reconstruct_run_graph sha256 events session_id =
     bind_result (ordered_events events) (\<lambda>ordered.
       let run_id = resolve_run_id ordered session_id in
       bind_result (fold_result (graph_event sha256 run_id (root_stage run_id)) ordered (initial_graph run_id)) (\<lambda>g.
         let g = link_calls (sort (g_call_sequences g)) g;
             payload = graph_payload sha256 run_id ordered g in
         bind_result (validate_run_graph_payload payload) (\<lambda>_. Inr payload)))"

text \<open>From the ledger file, with the name of its directory for a blank session identifier.\<close>

definition reconstruct_run_graph_from_events_log ::
  "(bytes \<Rightarrow> nat) \<Rightarrow> (bytes \<Rightarrow> json option) \<Rightarrow> nat \<Rightarrow> (string \<Rightarrow> string) \<Rightarrow> bytes option \<Rightarrow> string \<Rightarrow> string option \<Rightarrow> dict result" where
  "reconstruct_run_graph_from_events_log crc loads m sha256 events_log parent_name session_id =
     bind_result (fst (replay_events crc loads m (open_ledger events_log))) (\<lambda>events.
       let resolved_session_id = py_strip (str_or session_id []) in
       reconstruct_run_graph sha256 events
         (Some (if resolved_session_id \<noteq> [] then resolved_session_id else py_strip parent_name)))"

text \<open>\<open>json.dumps(payload, indent=2, ensure_ascii=True)\<close>\<close>

definition pad :: "nat \<Rightarrow> string" where
  "pad level = CHR 10 # replicate (2 * level) (CHR '' '')"

fun json_dumps_indent :: "nat \<Rightarrow> json \<Rightarrow> string" where
  "json_dumps_indent level (JArr xs) =
     (if xs = [] then ''[]''
      else ''['' @ pad (Suc level) @ join ('','' @ pad (Suc level)) (map (json_dumps_indent (Suc level)) xs) @ pad level @ '']'')"
| "json_dumps_indent level (JObj kvs) =
     (if kvs = [] then ''{}''
      else ''{'' @ pad (Suc level) @
        join ('','' @ pad (Suc level)) (map (\<lambda>(k, v). json_string True k @ '': '' @ json_dumps_indent (Suc level) v) kvs) @
        pad level @ ''}'')"
| "json_dumps_indent level v = json_dumps True v"

text \<open>The text that \<open>write_run_graph_artifact\<close> writes to \<open>run_graph.json\<close>.\<close>

definition run_graph_text :: "dict \<Rightarrow> string result" where
  "run_graph_text payload =
     bind_result (validate_run_graph_payload payload) (\<lambda>_. Inr (json_dumps_indent 0 (JObj payload) @ [CHR 10]))"

end
