(* ===== verification/Run_Ledger.thy ===== *)
theory Run_Ledger
  imports Run_Graph
begin

text \<open>
  The protocol run ledger (\<open>orket/adapters/storage/async_protocol_run_ledger.py\<close>): starting and finalizing
  a run, appending events under the contract between tool calls and their results, reserving operations,
  receipts, and the summary of a run.

  The state is the directory of one run: the framed event log, the file of the operation registry, the
  receipt log as text and the written run graph. A call takes the lock for its whole locked part, so calls are
  atomic, except that what a call wrote before it raised stays written. Every call opens the log and the
  registry afresh. \<open>now\<close> is what the timestamp factory returned in the call, and \<open>payload\<close> dicts have distinct
  text keys.
\<close>

record ledger_env =
  le_crc :: "bytes \<Rightarrow> nat"
  le_loads :: "bytes \<Rightarrow> json option"
  le_max_bytes :: nat
  le_sha256 :: "string \<Rightarrow> string"
  le_dt :: datetime_lib
  le_max_tool_invocations :: int

record run_dir =
  rd_events :: "bytes option"
  rd_commits :: "bytes option"
  rd_receipts :: "string option"
  rd_graph :: "string option"

definition empty_dir :: run_dir where
  "empty_dir = \<lparr>rd_events = None, rd_commits = None, rd_receipts = None, rd_graph = None\<rparr>"

text \<open>\<open>max(int(max_tool_invocations_per_run), 1)\<close>\<close>

definition max_tool_invocations_per_run :: "ledger_env \<Rightarrow> int" where
  "max_tool_invocations_per_run E = max (le_max_tool_invocations E) 1"

section \<open>A ledger and a registry opened for one call\<close>

definition log_replay :: "ledger_env \<Rightarrow> (run_dir, dict list) eff" where
  "log_replay E = read_eff (\<lambda>d. fst (replay_events (le_crc E) (le_loads E) (le_max_bytes E) (open_ledger (rd_events d))))"

definition log_next_seq :: "ledger_env \<Rightarrow> (run_dir, int) eff" where
  "log_next_seq E = read_eff (\<lambda>d. fst (next_event_seq (le_crc E) (le_loads E) (le_max_bytes E) (open_ledger (rd_events d))))"

definition log_append :: "ledger_env \<Rightarrow> dict \<Rightarrow> (run_dir, dict) eff" where
  "log_append E payload d =
     (case ledger_append_event (le_crc E) (le_loads E) (le_max_bytes E) payload (open_ledger (rd_events d)) of
        (r, st) \<Rightarrow> (r, d\<lparr>rd_events := rl_file st\<rparr>))"

definition op_winner :: "ledger_env \<Rightarrow> string \<Rightarrow> run_dir \<Rightarrow> commit_row option" where
  "op_winner E operation_id d = fst (registry_winner (le_loads E) operation_id (open_registry (rd_commits d)))"

definition op_commit :: "ledger_env \<Rightarrow> string \<Rightarrow> int \<Rightarrow> string \<Rightarrow> (run_dir, registry_decision) eff" where
  "op_commit E operation_id event_seq entry_digest d =
     (case registry_commit (le_loads E) operation_id event_seq entry_digest (open_registry (rd_commits d)) of
        (r, reg) \<Rightarrow> (r, d\<lparr>rd_commits := reg_file reg\<rparr>))"

section \<open>Reading events\<close>

definition TOOL_INVOCATION_KINDS :: "string list" where
  "TOOL_INVOCATION_KINDS = [''tool_call'', ''operation_result'', ''tool_result'']"

definition is_result_kind :: "string \<Rightarrow> bool" where
  "is_result_kind k \<longleftrightarrow> k \<in> set TOOL_RESULT_KINDS"

definition coerce_int :: "json \<Rightarrow> int option" where
  "coerce_int v = (case py_int v of Inl _ \<Rightarrow> None | Inr i \<Rightarrow> Some i)"

definition parse_event_timestamp :: "ledger_env \<Rightarrow> json \<Rightarrow> iso_datetime option" where
  "parse_event_timestamp E v =
     (let raw = py_strip (if json_truthy v then py_str_json v else []) in
      if raw = [] then None
      else case fromisoformat (le_dt E) (if last raw = CHR ''Z'' then butlast raw @ ''+00:00'' else raw) of
          Inl _ \<Rightarrow> None | Inr t \<Rightarrow> Some t)"

text \<open>\<open>current_ts < previous_ts\<close>, which raises when only one of them is aware.\<close>

definition earlier :: "iso_datetime \<Rightarrow> iso_datetime \<Rightarrow> bool result" where
  "earlier a b =
     (if (dt_utcoffset a = None) \<noteq> (dt_utcoffset b = None)
      then Inl (TypeError ''can't compare offset-naive and offset-aware datetimes'')
      else Inr (utc_micros a < utc_micros b))"

definition call_sequence_of :: "dict \<Rightarrow> int result" where
  "call_sequence_of row = py_int (json_or (json_get row ''call_sequence_number'') (JInt 0))"

definition open_call_step :: "dict \<Rightarrow> (int \<times> dict) list \<Rightarrow> (int \<times> dict) list result" where
  "open_call_step row open_calls =
     bind_result (event_sequence row) (\<lambda>event_seq.
       let kind = text_of row ''kind'' in
       if event_seq \<le> 0 then Inr open_calls
       else if kind = ''tool_call'' then Inr (AList.update event_seq row open_calls)
       else if is_result_kind kind then
         bind_result (call_sequence_of row) (\<lambda>call_seq.
           Inr (if 0 < call_seq then AList.delete call_seq open_calls else open_calls))
       else Inr open_calls)"

definition open_tool_calls :: "dict list \<Rightarrow> (int \<times> dict) list result" where
  "open_tool_calls events = fold_result open_call_step events []"

fun event_by_sequence :: "dict list \<Rightarrow> int \<Rightarrow> dict option result" where
  "event_by_sequence [] target = Inr None"
| "event_by_sequence (row # rows) target =
     bind_result (event_sequence row) (\<lambda>s. if s = target then Inr (Some row) else event_by_sequence rows target)"

definition first_event_by_kind :: "dict list \<Rightarrow> string \<Rightarrow> dict option" where
  "first_event_by_kind events kind = List.find (\<lambda>row. text_of row ''kind'' = kind) events"

definition matching_run_finalized_event ::
  "dict list \<Rightarrow> string \<Rightarrow> string option \<Rightarrow> string option \<Rightarrow> dict option" where
  "matching_run_finalized_event events status failure_class failure_reason =
     List.find (\<lambda>row. text_of row ''kind'' = ''run_finalized'' \<and> text_of row ''status'' = status \<and>
       text_of row ''failure_class'' = str_or failure_class [] \<and>
       text_of row ''failure_reason'' = str_or failure_reason []) events"

fun result_event_by_call_sequence :: "dict list \<Rightarrow> int \<Rightarrow> dict option result" where
  "result_event_by_call_sequence [] target = Inr None"
| "result_event_by_call_sequence (row # rows) target =
     (if \<not> is_result_kind (text_of row ''kind'') then result_event_by_call_sequence rows target
      else bind_result (call_sequence_of row) (\<lambda>s.
        if s = target then Inr (Some row) else result_event_by_call_sequence rows target))"

definition tool_invocation_count :: "dict list \<Rightarrow> int" where
  "tool_invocation_count events = int (length (filter (\<lambda>row. text_of row ''kind'' \<in> set TOOL_INVOCATION_KINDS) events))"

text \<open>\<open>max(self._event_sequence(row) for row in existing_events) + 1\<close>, and 1 without events.\<close>

definition next_sequence :: "dict list \<Rightarrow> int result" where
  "next_sequence events =
     bind_result (traverse event_sequence events) (\<lambda>seqs. Inr (if seqs = [] then 1 else Max (set seqs) + 1))"

section \<open>Building an event\<close>

definition update_fields :: "dict \<Rightarrow> dict \<Rightarrow> dict" where
  "update_fields extra event = fold (\<lambda>(k, v). AList.update k v) extra event"

definition build_event :: "string \<Rightarrow> string \<Rightarrow> string \<Rightarrow> string \<Rightarrow> dict \<Rightarrow> dict result" where
  "build_event now session_id kind event_type extra =
     (let resolved_session_id = py_strip session_id; timestamp = py_strip now in
      if timestamp = [] then Inl (ValueError ''E_LEDGER_TIMESTAMP_REQUIRED'')
      else Inr (update_fields extra
        [(''ledger_schema_version'', JStr ''1.0''), (''kind'', JStr kind), (''event_type'', JStr event_type),
         (''session_id'', JStr resolved_session_id), (''run_id'', JStr resolved_session_id),
         (''timestamp'', JStr timestamp), (''tool_name'', JStr [])]))"

definition PROTECTED_FIELDS :: "string list" where
  "PROTECTED_FIELDS =
     [''kind'', ''session_id'', ''run_id'', ''ledger_schema_version'', ''event_type'', ''sequence_number'',
      ''event_seq'', ''timestamp'']"

definition payload_field :: "string \<times> json \<Rightarrow> dict \<Rightarrow> dict" where
  "payload_field kv event =
     (let key_name = py_strip (fst kv) in
      if key_name = [] \<or> key_name \<in> set PROTECTED_FIELDS then event else AList.update key_name (snd kv) event)"

definition contract_rejection :: "string \<Rightarrow> string \<Rightarrow> dict \<Rightarrow> dict" where
  "contract_rejection session_id error_code extra =
     [(''kind'', JStr ''ledger_contract_rejected''), (''session_id'', JStr session_id), (''run_id'', JStr session_id),
      (''error_code'', JStr error_code)] @ extra"

definition invocation_rejected :: "string \<Rightarrow> string \<Rightarrow> dict \<Rightarrow> dict" where
  "invocation_rejected session_id error_code extra =
     [(''kind'', JStr ''tool_invocation_rejected''), (''session_id'', JStr session_id), (''run_id'', JStr session_id),
      (''error_code'', JStr error_code)] @ extra"

definition operation_rejected :: "string \<Rightarrow> string \<Rightarrow> int \<Rightarrow> string \<Rightarrow> bool \<Rightarrow> dict" where
  "operation_rejected session_id operation_id winner_event_seq winner_entry_digest idempotent_reuse =
     [(''kind'', JStr ''operation_rejected''), (''session_id'', JStr session_id), (''operation_id'', JStr operation_id),
      (''error_code'', JStr ''E_DUPLICATE_OPERATION''), (''winner_event_seq'', JInt winner_event_seq),
      (''winner_entry_digest'', JStr winner_entry_digest), (''idempotent_reuse'', JBool idempotent_reuse)]"

text \<open>What a tool invocation adds to its event, from the manifest and, for a call, from the arguments.\<close>

definition manifest_of :: "dict \<Rightarrow> dict option" where
  "manifest_of payload = (case json_get payload ''tool_invocation_manifest'' of JObj m \<Rightarrow> Some m | _ \<Rightarrow> None)"

definition resolve_tool_invocation_manifest :: "ledger_env \<Rightarrow> string \<Rightarrow> dict \<Rightarrow> dict \<Rightarrow> dict option result" where
  "resolve_tool_invocation_manifest E session_id payload event =
     normalize_tool_invocation_manifest (le_sha256 E) (manifest_of payload) session_id
       (str_get_or event ''tool_name'' (text_of event ''tool''))"

definition tool_args_of :: "dict \<Rightarrow> dict" where
  "tool_args_of payload =
     (case json_get payload ''tool_args'' of
        JObj kvs \<Rightarrow> kvs
      | _ \<Rightarrow> (case json_get payload ''args'' of JObj kvs \<Rightarrow> kvs | _ \<Rightarrow> []))"

definition invocation_fields :: "ledger_env \<Rightarrow> string \<Rightarrow> dict \<Rightarrow> dict \<Rightarrow> dict \<Rightarrow> dict" where
  "invocation_fields E kind payload manifest event =
     (let event = set_str ''tool_name'' (text_of manifest ''tool_name'')
            (AList.update ''tool_invocation_manifest'' (JObj manifest) event) in
      if kind = ''tool_call'' then
        set_str ''tool_call_hash'' (compute_tool_call_hash (le_sha256 E) (text_of manifest ''tool_name'')
            (JObj (tool_args_of payload)) (text_of manifest ''tool_contract_version'') (text_of manifest ''capability_profile''))
          (AList.update ''tool_args'' (JObj (tool_args_of payload)) event)
      else let tool_call_hash = strip_of payload ''tool_call_hash'' in
        if tool_call_hash \<noteq> [] then set_str ''tool_call_hash'' tool_call_hash event else event)"

text \<open>The part of \<open>append_event\<close> before the lock: a rejection or the event.\<close>

definition payload_event :: "string \<Rightarrow> string \<Rightarrow> string \<Rightarrow> dict \<Rightarrow> dict result" where
  "payload_event now session_id kind payload =
     bind_result (build_event now session_id kind kind []) (\<lambda>event.
       let event = fold payload_field payload event in
       Inr (if strip_of event ''tool_name'' = [] \<and> map_of event ''tool'' \<noteq> None
            then set_str ''tool_name'' (text_of event ''tool'') event else event))"

definition prepare_event :: "ledger_env \<Rightarrow> string \<Rightarrow> string \<Rightarrow> string \<Rightarrow> dict \<Rightarrow> (dict + dict) result" where
  "prepare_event E now session_id kind payload =
     bind_result (payload_event now session_id kind payload) (\<lambda>event.
       if kind \<notin> set TOOL_INVOCATION_KINDS then Inr (Inr event)
       else bind_result (resolve_tool_invocation_manifest E session_id payload event) (\<lambda>manifest.
         case manifest of
           None \<Rightarrow> Inr (Inl (invocation_rejected session_id ''E_TOOL_INVOCATION_MANIFEST_INVALID'' []))
         | Some m \<Rightarrow> Inr (Inr (invocation_fields E kind payload m event))))"

section \<open>The contract between calls and results\<close>

text \<open>A check gives a rejection (\<open>Inl\<close>) or the event with what the check recorded in it (\<open>Inr\<close>).\<close>

definition reject :: "string \<Rightarrow> string \<Rightarrow> dict \<Rightarrow> (dict + dict) result" where
  "reject session_id error_code extra = Inr (Inl (contract_rejection session_id error_code extra))"

definition call_seq_field :: "int \<Rightarrow> dict" where
  "call_seq_field call_seq = [(''call_sequence_number'', JInt call_seq)]"

definition check_result ::
  "string \<Rightarrow> dict \<Rightarrow> dict \<Rightarrow> dict list \<Rightarrow> (int \<times> dict) list \<Rightarrow> int \<Rightarrow> (dict + dict) result" where
  "check_result session_id payload event existing_events open_calls next_seq =
     (case coerce_int (json_get payload ''call_sequence_number'') of
        None \<Rightarrow> reject session_id ''E_CALL_SEQUENCE_REQUIRED'' []
      | Some call_seq \<Rightarrow>
          if call_seq \<le> 0 \<or> next_seq \<le> call_seq
          then reject session_id ''E_CALL_SEQUENCE_INVALID'' (call_seq_field call_seq)
          else bind_result (event_by_sequence existing_events call_seq) (\<lambda>call_event.
            case call_event of
              None \<Rightarrow> reject session_id ''E_CALL_SEQUENCE_UNKNOWN'' (call_seq_field call_seq)
            | Some call \<Rightarrow>
                if text_of call ''kind'' \<noteq> ''tool_call''
                then reject session_id ''E_CALL_SEQUENCE_UNKNOWN'' (call_seq_field call_seq)
                else if map_of open_calls call_seq = None
                then reject session_id ''E_CALL_SEQUENCE_ALREADY_CLOSED'' (call_seq_field call_seq)
                else
                  let expected_hash = strip_of call ''tool_call_hash'';
                      observed_hash = py_strip (str_get_or event ''tool_call_hash'' (text_of payload ''tool_call_hash'')) in
                  if observed_hash = [] then reject session_id ''E_TOOL_CALL_HASH_REQUIRED'' []
                  else if expected_hash \<noteq> [] \<and> observed_hash \<noteq> expected_hash
                  then reject session_id ''E_TOOL_CALL_HASH_MISMATCH'' []
                  else
                    let event = set_str ''tool_call_hash'' observed_hash
                          (AList.update ''call_sequence_number'' (JInt call_seq) event) in
                    Inr (Inr (if strip_of event ''tool_name'' = []
                      then set_str ''tool_name'' (text_of call ''tool_name'') event else event))))"

definition check_artifact ::
  "string \<Rightarrow> dict \<Rightarrow> dict \<Rightarrow> dict list \<Rightarrow> (int \<times> dict) list \<Rightarrow> string \<Rightarrow> (dict + dict) result" where
  "check_artifact session_id payload event existing_events open_calls artifact_hash =
     (case coerce_int (json_get payload ''call_sequence_number'') of
        None \<Rightarrow> reject session_id ''E_ARTIFACT_CALL_SEQUENCE_REQUIRED'' []
      | Some call_seq \<Rightarrow>
          if call_seq \<le> 0 then reject session_id ''E_ARTIFACT_CALL_SEQUENCE_REQUIRED'' []
          else if map_of open_calls call_seq \<noteq> None
          then reject session_id ''E_ARTIFACT_EMIT_BEFORE_RESULT'' (call_seq_field call_seq)
          else bind_result (result_event_by_call_sequence existing_events call_seq) (\<lambda>result_event.
            case result_event of
              None \<Rightarrow> reject session_id ''E_ARTIFACT_RESULT_MISSING'' (call_seq_field call_seq)
            | Some _ \<Rightarrow> Inr (Inr (AList.update ''call_sequence_number'' (JInt call_seq)
                (set_str ''artifact_hash'' artifact_hash event)))))"

definition validate_ordering_contract ::
  "string \<Rightarrow> string \<Rightarrow> dict \<Rightarrow> dict \<Rightarrow> dict list \<Rightarrow> (dict + dict) result" where
  "validate_ordering_contract session_id kind payload event existing_events =
     (let k = py_strip kind in
      bind_result (open_tool_calls existing_events) (\<lambda>open_calls.
      bind_result (next_sequence existing_events) (\<lambda>next_seq.
        let first_open = [(''open_call_sequence_number'', JInt (hd (sort (map fst open_calls))))] in
        if k = ''run_finalized'' \<and> open_calls \<noteq> [] then reject session_id ''E_ORPHANED_TOOL_CALL'' first_open
        else if k = ''tool_call'' \<and> open_calls \<noteq> [] then reject session_id ''E_LEDGER_CALL_RESULT_ORDER'' first_open
        else if is_result_kind k then check_result session_id payload event existing_events open_calls next_seq
        else
          let artifact_hash = py_strip (str_get_or event ''artifact_hash'' (text_of payload ''artifact_hash'')) in
          if artifact_hash \<noteq> [] then check_artifact session_id payload event existing_events open_calls artifact_hash
          else Inr (Inr event))))"

section \<open>Operations\<close>

definition check_clock :: "ledger_env \<Rightarrow> dict \<Rightarrow> dict list \<Rightarrow> unit result" where
  "check_clock E event existing =
     (if existing = [] then Inr ()
      else case (parse_event_timestamp E (json_get (last existing) ''timestamp''),
                 parse_event_timestamp E (json_get event ''timestamp'')) of
          (Some previous_ts, Some current_ts) \<Rightarrow>
            bind_result (earlier current_ts previous_ts) (\<lambda>back.
              if back then Inl (ValueError ''E_LEDGER_TIMESTAMP_NON_MONOTONIC'') else Inr ())
        | _ \<Rightarrow> Inr ())"

definition append_event_locked :: "ledger_env \<Rightarrow> dict \<Rightarrow> dict list \<Rightarrow> (run_dir, dict) eff" where
  "append_event_locked E event existing =
     bind_eff (lift_result (check_clock E event existing)) (\<lambda>_.
     bind_eff (log_next_seq E) (\<lambda>next_seq.
     bind_eff (lift_result (py_int (json_or (json_get event ''sequence_number'') (JInt 0)))) (\<lambda>given.
     bind_eff (log_append E (if given \<le> 0 then AList.update ''sequence_number'' (JInt next_seq) event else event)) (\<lambda>appended.
     bind_eff (lift_result (py_int (json_or (json_or (json_get appended ''event_seq'') (json_get appended ''sequence_number'')) (JInt next_seq)))) (\<lambda>s.
       lift_result (Inr (AList.update ''sequence_number'' (JInt s) appended)))))))"

definition dict_or_empty :: "dict option \<Rightarrow> dict" where
  "dict_or_empty x = (case x of None \<Rightarrow> [] | Some d \<Rightarrow> d)"

record start_args =
  sa_run_type :: string
  sa_run_name :: string
  sa_department :: string
  sa_build_id :: string
  sa_summary :: "dict option"
  sa_artifacts :: "dict option"

definition start_run :: "ledger_env \<Rightarrow> string \<Rightarrow> string \<Rightarrow> start_args \<Rightarrow> (run_dir, dict) eff" where
  "start_run E now session_id a =
     bind_eff (lift_result (build_event now session_id ''run_started'' ''run_started''
       [(''run_type'', JStr (sa_run_type a)), (''run_name'', JStr (sa_run_name a)), (''department'', JStr (sa_department a)),
        (''build_id'', JStr (sa_build_id a)), (''status'', JStr ''running''),
        (''summary'', JObj (dict_or_empty (sa_summary a))), (''artifacts'', JObj (dict_or_empty (sa_artifacts a)))])) (\<lambda>event.
     bind_eff (log_replay E) (\<lambda>existing_events.
       case first_event_by_kind existing_events ''run_started'' of
         Some existing_started \<Rightarrow> lift_result (Inr existing_started)
       | None \<Rightarrow> append_event_locked E event existing_events))"

record finalize_args =
  fa_status :: string
  fa_failure_class :: "string option"
  fa_failure_reason :: "string option"
  fa_summary :: "dict option"
  fa_artifacts :: "dict option"
  fa_finalized_at :: "string option"

definition finalized_event :: "string \<Rightarrow> string \<Rightarrow> string \<Rightarrow> finalize_args \<Rightarrow> dict result" where
  "finalized_event now session_id resolved_status a =
     build_event now session_id ''run_finalized'' ''run_finalized''
       ([(''status'', JStr resolved_status), (''failure_class'', json_opt_str (fa_failure_class a)),
         (''failure_reason'', json_opt_str (fa_failure_reason a)),
         (''summary'', JObj (dict_or_empty (fa_summary a))), (''artifacts'', JObj (dict_or_empty (fa_artifacts a)))] @
        (let finalized_at = py_strip (str_or (fa_finalized_at a) []) in
         if finalized_at \<noteq> [] then [(''timestamp'', JStr finalized_at)] else []))"

definition pending_events :: "dict \<Rightarrow> dict list \<Rightarrow> int \<Rightarrow> dict list" where
  "pending_events event existing_events next_seq =
     existing_events @ [AList.update ''sequence_number'' (JInt next_seq) (AList.update ''event_seq'' (JInt next_seq) event)]"

definition write_run_graph_artifact :: "dict \<Rightarrow> (run_dir, unit) eff" where
  "write_run_graph_artifact payload =
     bind_eff (lift_result (run_graph_text payload)) (\<lambda>text d. (Inr (), d\<lparr>rd_graph := Some text\<rparr>))"

definition finalize_run :: "ledger_env \<Rightarrow> string \<Rightarrow> string \<Rightarrow> finalize_args \<Rightarrow> (run_dir, dict) eff" where
  "finalize_run E now session_id a =
     bind_eff (lift_result (validate_result_error_invariant (fa_status a) (fa_failure_class a) (fa_failure_reason a))) (\<lambda>resolved_status.
     bind_eff (lift_result (finalized_event now session_id resolved_status a)) (\<lambda>event.
     bind_eff (log_replay E) (\<lambda>existing_events.
       case matching_run_finalized_event existing_events resolved_status (fa_failure_class a) (fa_failure_reason a) of
         Some existing_finalized \<Rightarrow> lift_result (Inr existing_finalized)
       | None \<Rightarrow>
           bind_eff (lift_result (validate_ordering_contract session_id ''run_finalized'' [] event existing_events)) (\<lambda>checked.
           case checked of
             Inl rejection \<Rightarrow> lift_result (Inl (ValueError (str_get_or rejection ''error_code'' ''E_LEDGER_CALL_RESULT_ORDER'')))
           | Inr event \<Rightarrow>
               bind_eff (lift_result (next_sequence existing_events)) (\<lambda>next_seq.
               bind_eff (lift_result (reconstruct_run_graph (le_sha256 E) (pending_events event existing_events next_seq) (Some session_id))) (\<lambda>graph.
               bind_eff (write_run_graph_artifact graph) (\<lambda>_.
                 append_event_locked E event existing_events)))))))"

text \<open>A step that may answer the call with a rejection instead of going on.\<close>

definition unless_rejected :: "(run_dir, dict option) eff \<Rightarrow> (run_dir, dict) eff \<Rightarrow> (run_dir, dict) eff" where
  "unless_rejected check rest =
     bind_eff check (\<lambda>rejection. case rejection of Some r \<Rightarrow> lift_result (Inr r) | None \<Rightarrow> rest)"

definition operation_id_of :: "dict \<Rightarrow> string" where
  "operation_id_of payload = strip_of payload ''operation_id''"

definition entry_digest_of :: "ledger_env \<Rightarrow> string \<Rightarrow> dict \<Rightarrow> string" where
  "entry_digest_of E kind payload =
     hash_canonical_json (le_sha256 E) (JObj [(''kind'', JStr kind), (''payload'', JObj payload)])"

definition invocation_limit :: "ledger_env \<Rightarrow> string \<Rightarrow> string \<Rightarrow> dict list \<Rightarrow> dict option" where
  "invocation_limit E session_id kind existing_events =
     (let invocation_count = tool_invocation_count existing_events in
      if kind \<in> set TOOL_INVOCATION_KINDS \<and> max_tool_invocations_per_run E \<le> invocation_count
      then Some (invocation_rejected session_id ''E_MAX_TOOL_INVOCATIONS_EXCEEDED''
        [(''max_tool_invocations_per_run'', JInt (max_tool_invocations_per_run E)), (''invocation_count'', JInt invocation_count)])
      else None)"

definition duplicate_operation_rejection :: "ledger_env \<Rightarrow> string \<Rightarrow> string \<Rightarrow> string \<Rightarrow> dict \<Rightarrow> run_dir \<Rightarrow> dict option" where
  "duplicate_operation_rejection E session_id operation_id kind payload d =
     (case op_winner E operation_id d of
        None \<Rightarrow> None
      | Some winner \<Rightarrow> Some (operation_rejected session_id operation_id (cr_event_seq winner) (cr_entry_digest winner)
          (entry_digest_of E kind payload = cr_entry_digest winner)))"

definition check_duplicate :: "ledger_env \<Rightarrow> string \<Rightarrow> string \<Rightarrow> dict \<Rightarrow> (run_dir, dict option) eff" where
  "check_duplicate E session_id kind payload =
     read_eff (\<lambda>d. Inr (if is_result_kind kind \<and> operation_id_of payload \<noteq> []
       then duplicate_operation_rejection E session_id (operation_id_of payload) kind payload d else None))"

definition check_call_operation :: "ledger_env \<Rightarrow> string \<Rightarrow> string \<Rightarrow> dict \<Rightarrow> (run_dir, dict option) eff" where
  "check_call_operation E session_id kind payload =
     read_eff (\<lambda>d. Inr (if kind = ''tool_call'' \<and> operation_id_of payload \<noteq> []
       then map_option (\<lambda>winner. operation_rejected session_id (operation_id_of payload)
              (cr_event_seq winner) (cr_entry_digest winner) True) (op_winner E (operation_id_of payload) d)
       else None))"

definition reserve_operation_commit :: "ledger_env \<Rightarrow> string \<Rightarrow> string \<Rightarrow> dict \<Rightarrow> (run_dir, registry_decision) eff" where
  "reserve_operation_commit E operation_id kind payload =
     bind_eff (log_next_seq E) (\<lambda>event_seq. op_commit E operation_id event_seq (entry_digest_of E kind payload))"

definition reserve_operation :: "ledger_env \<Rightarrow> string \<Rightarrow> string \<Rightarrow> dict \<Rightarrow> (run_dir, dict option) eff" where
  "reserve_operation E session_id kind payload =
     (if is_result_kind kind \<and> operation_id_of payload \<noteq> []
      then bind_eff (reserve_operation_commit E (operation_id_of payload) kind payload) (\<lambda>decision.
        lift_result (Inr (if cd_accepted decision then None
          else Some (operation_rejected session_id (operation_id_of payload) (cd_winner_event_seq decision)
            (cd_winner_entry_digest decision) (cd_idempotent_reuse decision)))))
      else lift_result (Inr None))"

text \<open>The locked part of \<open>append_event\<close>, and the whole of it.\<close>

definition append_prepared ::
  "ledger_env \<Rightarrow> string \<Rightarrow> string \<Rightarrow> dict \<Rightarrow> dict \<Rightarrow> (run_dir, dict) eff" where
  "append_prepared E session_id kind payload event =
     bind_eff (log_replay E) (\<lambda>existing_events.
     unless_rejected (lift_result (Inr (invocation_limit E session_id kind existing_events)))
    (unless_rejected (check_duplicate E session_id kind payload)
    (bind_eff (lift_result (validate_ordering_contract session_id kind payload event existing_events)) (\<lambda>checked.
       case checked of
         Inl rejection \<Rightarrow> lift_result (Inr rejection)
       | Inr event \<Rightarrow>
           unless_rejected (check_call_operation E session_id kind payload)
          (unless_rejected (reserve_operation E session_id kind payload)
           (append_event_locked E event existing_events))))))"

definition append_run_event :: "ledger_env \<Rightarrow> string \<Rightarrow> string \<Rightarrow> string \<Rightarrow> dict \<Rightarrow> (run_dir, dict) eff" where
  "append_run_event E now session_id kind payload =
     bind_eff (lift_result (prepare_event E now session_id kind payload)) (\<lambda>prepared.
       case prepared of
         Inl rejection \<Rightarrow> lift_result (Inr rejection)
       | Inr event \<Rightarrow> append_prepared E session_id kind payload event)"

definition list_run_events :: "ledger_env \<Rightarrow> run_dir \<Rightarrow> dict list result" where
  "list_run_events E d = fst (log_replay E d)"

section \<open>The summary of a run\<close>

record run_summary =
  rs_started :: bool
  rs_run_type :: string
  rs_run_name :: string
  rs_department :: string
  rs_build_id :: string
  rs_status :: string
  rs_failure_class :: json
  rs_failure_reason :: json
  rs_summary :: dict
  rs_artifacts :: dict
  rs_started_event_seq :: int
  rs_ended_event_seq :: int

definition blank_summary :: run_summary where
  "blank_summary = \<lparr>rs_started = False, rs_run_type = [], rs_run_name = [], rs_department = [], rs_build_id = [],
     rs_status = ''running'', rs_failure_class = JNull, rs_failure_reason = JNull, rs_summary = [], rs_artifacts = [],
     rs_started_event_seq = 0, rs_ended_event_seq = 0\<rparr>"

definition summarize :: "dict \<Rightarrow> run_summary \<Rightarrow> run_summary result" where
  "summarize event s =
     (let kind = text_of event ''kind'' in
      bind_result (py_int (json_or (json_get event ''event_seq'') (JInt 0))) (\<lambda>event_seq.
        if kind = ''run_started'' then
          bind_result (py_dict_or_empty (json_get event ''summary'')) (\<lambda>summary.
          bind_result (py_dict_or_empty (json_get event ''artifacts'')) (\<lambda>artifacts.
            Inr (s\<lparr>rs_started := True, rs_run_type := str_get_or event ''run_type'' (rs_run_type s),
              rs_run_name := str_get_or event ''run_name'' (rs_run_name s),
              rs_department := str_get_or event ''department'' (rs_department s),
              rs_build_id := str_get_or event ''build_id'' (rs_build_id s),
              rs_status := str_get_or event ''status'' (rs_status s),
              rs_summary := update_fields summary (rs_summary s), rs_artifacts := update_fields artifacts (rs_artifacts s),
              rs_started_event_seq := event_seq\<rparr>)))
        else if kind = ''run_finalized'' then
          bind_result (py_dict_or_empty (json_get event ''summary'')) (\<lambda>summary.
          bind_result (py_dict_or_empty (json_get event ''artifacts'')) (\<lambda>artifacts.
            Inr (s\<lparr>rs_status := str_get_or event ''status'' (rs_status s),
              rs_failure_class := json_get event ''failure_class'', rs_failure_reason := json_get event ''failure_reason'',
              rs_summary := update_fields summary (rs_summary s), rs_artifacts := update_fields artifacts (rs_artifacts s),
              rs_ended_event_seq := event_seq\<rparr>)))
        else Inr s))"

definition get_run :: "ledger_env \<Rightarrow> run_dir \<Rightarrow> run_summary option result" where
  "get_run E d =
     bind_result (list_run_events E d) (\<lambda>events.
       if events = [] then Inr None
       else bind_result (fold_result summarize events blank_summary) (\<lambda>s.
         Inr (if rs_started s then Some s else None)))"

section \<open>Receipts\<close>

text \<open>The lines of a file opened for text: a carriage return, with or without a line feed, ends a line too.\<close>

fun universal_newlines :: "string \<Rightarrow> string" where
  "universal_newlines (c # d # cs) =
     (if c = CHR 13 \<and> d = CHR 10 then CHR 10 # universal_newlines cs
      else (if c = CHR 13 then CHR 10 else c) # universal_newlines (d # cs))"
| "universal_newlines [c] = [if c = CHR 13 then CHR 10 else c]"
| "universal_newlines [] = []"

definition file_lines :: "string \<Rightarrow> string list" where
  "file_lines text =
     (let ls = foldr (\<lambda>c ls. if c = CHR 10 then [] # ls else (c # hd ls) # tl ls) (universal_newlines text) [[]] in
      if last ls = [] then butlast ls else ls)"

fun load_receipt_lines :: "ledger_env \<Rightarrow> nat \<Rightarrow> string list \<Rightarrow> dict list result" where
  "load_receipt_lines E i [] = Inr []"
| "load_receipt_lines E i (line # ls) =
     (let s = py_strip line in
      if s = [] then load_receipt_lines E (i + 1) ls
      else case le_loads E (utf8_encode s) of
          None \<Rightarrow> Inl (ValueError (''E_RECEIPT_LOG_PARSE:line='' @ str_of_nat i))
        | Some (JObj parsed) \<Rightarrow> bind_result (load_receipt_lines E (i + 1) ls) (\<lambda>rows. Inr (parsed # rows))
        | Some _ \<Rightarrow> Inl (ValueError (''E_RECEIPT_LOG_SCHEMA:line='' @ str_of_nat i)))"

definition receipt_seq_of :: "dict \<Rightarrow> int result" where
  "receipt_seq_of row = py_int (json_or (json_get row ''receipt_seq'') (JInt 0))"

definition load_receipts_sync :: "ledger_env \<Rightarrow> run_dir \<Rightarrow> dict list result" where
  "load_receipts_sync E d =
     (case rd_receipts d of
        None \<Rightarrow> Inr []
      | Some text \<Rightarrow>
          bind_result (load_receipt_lines E 1 (file_lines text)) (\<lambda>rows.
          bind_result (traverse receipt_seq_of rows) (\<lambda>seqs.
            Inr (map snd (sort_key (\<lambda>(s, row). (s, text_of row ''receipt_digest'')) (zip seqs rows))))))"

definition last_receipt_seq :: "dict list \<Rightarrow> int" where
  "last_receipt_seq rows =
     fold (\<lambda>row last_seq. max (case receipt_seq_of row of Inl _ \<Rightarrow> 0 | Inr s \<Rightarrow> s) last_seq) rows 0"

text \<open>The receipt with its schema version and digest.\<close>

definition normalized_receipt :: "ledger_env \<Rightarrow> dict \<Rightarrow> dict" where
  "normalized_receipt E receipt =
     (let r = set_str ''schema_version'' (str_get_or receipt ''schema_version'' PROTOCOL_RECEIPT_SCHEMA_VERSION) receipt in
      if strip_of r ''receipt_digest'' \<noteq> [] then r
      else set_str ''receipt_digest'' (hash_canonical_json (le_sha256 E) (JObj (AList.delete ''receipt_digest'' r))) r)"

definition receipt_key :: "ledger_env \<Rightarrow> dict \<Rightarrow> string" where
  "receipt_key E receipt =
     (let r = set_str ''schema_version'' (str_get_or receipt ''schema_version'' PROTOCOL_RECEIPT_SCHEMA_VERSION) receipt in
      if strip_of r ''receipt_digest'' \<noteq> [] then strip_of r ''receipt_digest''
      else hash_canonical_json (le_sha256 E) (JObj (AList.delete ''receipt_digest'' r)))"

definition sequenced_receipt :: "dict \<Rightarrow> int \<Rightarrow> dict result" where
  "sequenced_receipt r last_seq =
     (case json_get r ''receipt_seq'' of
        JNull \<Rightarrow> Inr (AList.update ''receipt_seq'' (JInt (last_seq + 1)) r)
      | raw_seq \<Rightarrow>
          (case py_int raw_seq of
             Inl _ \<Rightarrow> Inl (ValueError (''E_RECEIPT_SEQ_INVALID:'' @ py_str_json raw_seq))
           | Inr s \<Rightarrow>
               if s \<le> last_seq
               then Inl (ValueError (''E_RECEIPT_SEQ_NON_MONOTONIC:'' @ str_of_int s @ ''<=last:'' @ str_of_int last_seq))
               else Inr (AList.update ''receipt_seq'' (JInt s) r)))"

definition append_receipt :: "ledger_env \<Rightarrow> dict \<Rightarrow> (run_dir, dict) eff" where
  "append_receipt E receipt =
     bind_eff (read_eff (load_receipts_sync E)) (\<lambda>existing_rows.
       let normalized = normalized_receipt E receipt; receipt_digest = receipt_key E receipt in
       case List.find (\<lambda>row. strip_of row ''receipt_digest'' \<noteq> [] \<and> text_of row ''receipt_digest'' = receipt_digest)
           (rev existing_rows) of
         Some row \<Rightarrow> lift_result (Inr row)
       | None \<Rightarrow>
           bind_eff (lift_result (sequenced_receipt normalized (last_receipt_seq existing_rows))) (\<lambda>normalized d.
             (Inr normalized, d\<lparr>rd_receipts := Some ((case rd_receipts d of None \<Rightarrow> [] | Some text \<Rightarrow> text) @
                raw_dumps False (JObj normalized) @ [CHR 10])\<rparr>)))"

end
