(* ===== verification/Json_Reader.thy ===== *)
theory Json_Reader
  imports Protocol_Ledger
begin

text \<open>
  Reading back the JSON texts that the program writes. What the stores rely on is that \<open>json.loads\<close> of
  the encoded text of a value, whose dicts hold no key twice, is the value, with or without the newline
  after it: the law \<open>reads_back\<close>.
  A reader of such texts shows that it can hold: strings with the escapes of the writer, integers,
  arrays and objects without white space, encoded as UTF-8.
\<close>

section \<open>UTF-8\<close>

fun utf8_decode :: "bytes \<Rightarrow> string" where
  "utf8_decode [] = []"
| "utf8_decode (b # bs) =
     (if unat b < 128 then char_of (unat b) # utf8_decode bs
      else case bs of [] \<Rightarrow> [] | c # cs \<Rightarrow> char_of ((unat b - 192) * 64 + (unat c - 128)) # utf8_decode cs)"

lemma utf8_decode_char: "utf8_decode (utf8_char c @ bs) = c # utf8_decode bs"
proof (cases "(of_char c :: nat) < 128")
  case True
  then show ?thesis by (simp add: utf8_char_def unat_of_nat_byte)
next
  case False
  define n :: nat where "n = of_char c"
  have n: "128 \<le> n" "n < 256" using False by (simp_all add: n_def)
  have hi: "(192 + n div 64) mod 256 = 192 + n div 64" and lo: "(128 + n mod 64) mod 256 = 128 + n mod 64"
    using n by simp_all
  have whole: "n div 64 * 64 + n mod 64 = n" by simp
  have "utf8_char c = [of_nat (192 + n div 64), of_nat (128 + n mod 64)]"
    using n by (simp add: utf8_char_def n_def [symmetric] Let_def)
  then have "utf8_decode (utf8_char c @ bs) = char_of n # utf8_decode bs"
    using whole by (simp del: of_nat_add add: unat_of_nat_byte hi lo)
  then show ?thesis by (simp add: n_def)
qed

lemma utf8_decode_encode [simp]: "utf8_decode (utf8_encode s) = s"
  by (induction s) (simp_all add: utf8_encode_def utf8_decode_char)

section \<open>The reader\<close>

text \<open>The characters of a string up to its closing quote.\<close>

function read_chars :: "string \<Rightarrow> (string \<times> string) option" where
  "read_chars s =
     (if s = [] then None
      else if hd s = CHR 0x22 then Some ([], tl s)
      else case unescape s of
          None \<Rightarrow> None
        | Some (c, r) \<Rightarrow> if length r < length s then map_option (\<lambda>(cs, r'). (c # cs, r')) (read_chars r) else None)"
  by pat_completeness auto
termination by (relation "measure length") auto

declare read_chars.simps [simp del]

definition read_int :: "string \<Rightarrow> (int \<times> string) option" where
  "read_int s =
     (let (neg, t) = (if s \<noteq> [] \<and> hd s = CHR ''-'' then (True, tl s) else (False, s));
          ds = takeWhile is_digit t; n = int (nat_of_digits ds) in
      if ds = [] then None else Some (if neg then - n else n, dropWhile is_digit t))"

text \<open>Items separated by commas, up to the closing character.\<close>

fun read_items :: "nat \<Rightarrow> (string \<Rightarrow> ('a \<times> string) option) \<Rightarrow> char \<Rightarrow> string \<Rightarrow> ('a list \<times> string) option" where
  "read_items 0 item close s = None"
| "read_items (Suc n) item close s =
     (case item s of
        None \<Rightarrow> None
      | Some (x, []) \<Rightarrow> None
      | Some (x, c # r) \<Rightarrow>
          if c = close then Some ([x], r)
          else if c = CHR '','' then map_option (\<lambda>(xs, r'). (x # xs, r')) (read_items n item close r)
          else None)"

definition read_list :: "nat \<Rightarrow> (string \<Rightarrow> ('a \<times> string) option) \<Rightarrow> char \<Rightarrow> string \<Rightarrow> ('a list \<times> string) option" where
  "read_list n item close s =
     (if s \<noteq> [] \<and> hd s = close then Some ([], tl s) else read_items n item close s)"

definition read_member :: "(string \<Rightarrow> (json \<times> string) option) \<Rightarrow> string \<Rightarrow> ((string \<times> json) \<times> string) option" where
  "read_member val s =
     (if s = [] \<or> hd s \<noteq> CHR 0x22 then None
      else case read_chars (tl s) of
          Some (k, c # r) \<Rightarrow> if c = CHR '':'' then map_option (\<lambda>(v, r'). ((k, v), r')) (val r) else None
        | _ \<Rightarrow> None)"

primrec read_value :: "nat \<Rightarrow> string \<Rightarrow> (json \<times> string) option" where
  "read_value 0 s = None"
| "read_value (Suc n) s =
     (if s = [] then None
      else let c = hd s; r = tl s in
        if c = CHR ''n'' then Some (JNull, drop 3 r)
        else if c = CHR ''t'' then Some (JBool True, drop 3 r)
        else if c = CHR ''f'' then Some (JBool False, drop 4 r)
        else if c = CHR 0x22 then map_option (\<lambda>(t, r'). (JStr t, r')) (read_chars r)
        else if c = CHR ''['' then map_option (\<lambda>(xs, r'). (JArr xs, r')) (read_list n (read_value n) (CHR '']'') r)
        else if c = CHR ''{'' then
          map_option (\<lambda>(kvs, r'). (JObj kvs, r')) (read_list n (read_member (read_value n)) (CHR ''}'') r)
        else map_option (\<lambda>(i, r'). (JInt i, r')) (read_int s))"

definition read_json :: "bytes \<Rightarrow> json option" where
  "read_json bs =
     (let s = utf8_decode bs in
      case read_value (Suc (length s)) s of
        Some (v, r) \<Rightarrow> if r = [] \<or> r = [CHR 10] then Some v else None
      | None \<Rightarrow> None)"

section \<open>It inverts the writer\<close>

lemma read_chars_escaped: "read_chars (concat (map (escape_char a) s) @ CHR 0x22 # r) = Some (s, r)"
proof (induction s)
  case Nil
  show ?case by (subst read_chars.simps) simp
next
  case (Cons c s)
  let ?t = "concat (map (escape_char a) s) @ CHR 0x22 # r"
  have "escape_char a c \<noteq> []" "hd (escape_char a c) \<noteq> CHR 0x22" using escape_char_hd by blast+
  then show ?case using unescape_escape_char [of a c ?t] Cons
    by (subst read_chars.simps) auto
qed

definition no_digit :: "string \<Rightarrow> bool" where
  "no_digit r \<longleftrightarrow> r = [] \<or> \<not> is_digit (hd r)"

lemma read_int_text: "no_digit r \<Longrightarrow> read_int (str_of_int i @ r) = Some (i, r)"
proof -
  assume r: "no_digit r"
  have nat: "takeWhile is_digit (str_of_nat n @ r) = str_of_nat n \<and> dropWhile is_digit (str_of_nat n @ r) = r" for n
  proof -
    have d: "\<forall>c \<in> set (str_of_nat n). is_digit c" using str_of_nat_digits [of n] by (simp add: list_all_iff)
    moreover have "takeWhile is_digit r = []" "dropWhile is_digit r = r"
      using r by (cases r; simp add: no_digit_def)+
    ultimately show ?thesis by simp
  qed
  have pos: "str_of_nat n \<noteq> []" "hd (str_of_nat n @ r) \<noteq> CHR ''-''" for n
    using str_of_nat_digits [of n] by (cases "str_of_nat n"; auto simp: is_digit_def)+
  show ?thesis
    using nat pos nat_of_str_of_nat by (cases "i < 0") (simp_all add: str_of_int_def read_int_def Let_def)
qed

lemma read_items_join:
  assumes "\<And>x w. x \<in> set (y # ys) \<Longrightarrow> no_digit w \<Longrightarrow> item (f x @ w) = Some (x, w)"
    and "close \<noteq> CHR '',''" and "\<not> is_digit close" and "length ys < n"
  shows "read_items n item close (join '','' (map f (y # ys)) @ close # r) = Some (y # ys, r)"
  using assms(1,4)
proof (induction ys arbitrary: n y)
  case Nil
  then obtain k where "n = Suc k" by (cases n) auto
  then show ?case using Nil(1) [of y "close # r"] assms(3) by (simp add: no_digit_def)
next
  case (Cons z zs)
  then obtain k where n: "n = Suc k" and k: "length zs < k" by (cases n) auto
  have "read_items k item close (join '','' (map f (z # zs)) @ close # r) = Some (z # zs, r)"
    using Cons.IH [of z k] Cons.prems(1) k by simp
  then show ?case using n Cons.prems(1) [of y "CHR '','' # join '','' (map f (z # zs)) @ close # r"] assms(2)
    by (simp add: no_digit_def is_digit_def)
qed

lemma read_list_join:
  assumes "\<And>x w. x \<in> set xs \<Longrightarrow> no_digit w \<Longrightarrow> item (f x @ w) = Some (x, w)"
    and "close \<noteq> CHR '',''" and "\<not> is_digit close" and "length xs \<le> n"
    and "\<And>x w. x \<in> set xs \<Longrightarrow> f x @ w \<noteq> [] \<and> hd (f x @ w) \<noteq> close"
  shows "read_list n item close (join '','' (map f xs) @ close # r) = Some (xs, r)"
proof (cases xs)
  case (Cons y ys)
  have "read_items n item close (join '','' (map f (y # ys)) @ close # r) = Some (y # ys, r)"
    using assms(1,4) Cons by (intro read_items_join [OF _ assms(2,3)]) auto
  moreover have "join '','' (map f (y # ys)) @ close # r = f y @ rest_text f ys (close # r)" by (rule join_Cons_text)
  then have "hd (join '','' (map f (y # ys)) @ close # r) \<noteq> close" using assms(5) [of y] Cons by (simp only:) simp
  ultimately show ?thesis by (simp only: read_list_def Cons) simp
qed (simp add: read_list_def)

lemma length_join: "x \<in> set xs \<Longrightarrow> length x \<le> length (join sep xs)"
  by (induction sep xs rule: join.induct) (auto simp: trans_le_add2)

lemma join_count: "\<forall>x \<in> set xs. x \<noteq> [] \<Longrightarrow> length xs \<le> length (join sep xs)"
proof (induction sep xs rule: join.induct)
  case (2 sep x)
  then show ?case by (cases x) auto
next
  case (3 sep x y zs)
  then have "0 < length x" and "length (y # zs) \<le> length (join sep (y # zs))" by auto
  then show ?case unfolding join.simps(3) length_append length_Cons by linarith
qed simp

lemma read_member_text:
  assumes "\<And>w. no_digit w \<Longrightarrow> val (t @ w) = Some (v, w)" and "no_digit w"
  shows "read_member val ((json_string a k @ '':'' @ t) @ w) = Some ((k, v), w)"
  using assms read_chars_escaped [of a k "CHR '':'' # t @ w"] by (simp add: read_member_def json_string_def)

lemma read_value_text:
  "length (raw_dumps a v) < n \<Longrightarrow> no_digit r \<Longrightarrow> read_value n (raw_dumps a v @ r) = Some (v, r)"
proof (induction a v arbitrary: n r rule: raw_dumps.induct)
  case (3 a i)
  then obtain k where n: "n = Suc k" by (cases n) auto
  have "str_of_int i \<noteq> []" "is_num_char (hd (str_of_int i))" using str_of_int_hd by blast+
  then have "hd (str_of_int i @ r) \<notin> {CHR ''n'', CHR ''t'', CHR ''f'', CHR 0x22, CHR ''['', CHR ''{''}" "str_of_int i @ r \<noteq> []"
    by (auto simp: is_num_char_def is_digit_def)
  then show ?case using n read_int_text [OF 3(2)] by (simp only: raw_dumps.simps read_value.simps Let_def) simp
next
  case (4 a s)
  then obtain k where "n = Suc k" by (cases n) auto
  then show ?case using read_chars_escaped [of a s r] by (simp add: json_string_def)
next
  case (5 a xs)
  then obtain k where n: "n = Suc k" by (cases n) auto
  have len: "length (raw_dumps a x) < k" if "x \<in> set xs" for x
    using length_join [of "raw_dumps a x" "map (raw_dumps a) xs" "'',''"] that 5(2) n by simp
  have "length (map (raw_dumps a) xs) \<le> length (join '','' (map (raw_dumps a) xs))"
    using raw_dumps_hd [of a] by (intro join_count) auto
  then have count: "length xs \<le> k" using 5(2) n by simp
  have "read_list k (read_value k) (CHR '']'') (join '','' (map (raw_dumps a) xs) @ CHR '']'' # r) = Some (xs, r)"
  proof (rule read_list_join [OF _ _ _ count])
    show "raw_dumps a x @ w \<noteq> [] \<and> hd (raw_dumps a x @ w) \<noteq> CHR '']''" for x w
      using raw_dumps_not_close [of a x w] raw_dumps_hd [of a x] by (metis append_is_Nil_conv list.collapse)
  qed (use 5(1) len in \<open>auto simp: is_digit_def\<close>)
  then show ?case using n by simp
next
  case (6 a kvs)
  then obtain k where n: "n = Suc k" by (cases n) auto
  let ?f = "\<lambda>(key, v). json_string a key @ '':'' @ raw_dumps a v"
  have len: "length (raw_dumps a v) < k" if "(key, v) \<in> set kvs" for key v
    using length_join [of "?f (key, v)" "map ?f kvs" "'',''"] that 6(2) n by force
  have "length (map ?f kvs) \<le> length (join '','' (map ?f kvs))" by (intro join_count) (auto simp: json_string_def)
  then have count: "length kvs \<le> k" using 6(2) n by simp
  have "read_list k (read_member (read_value k)) (CHR ''}'') (join '','' (map ?f kvs) @ CHR ''}'' # r) = Some (kvs, r)"
  proof (rule read_list_join [OF _ _ _ count])
    fix p w assume p: "p \<in> set kvs" and w: "no_digit w"
    obtain key v where kv: "p = (key, v)" by (cases p)
    have "read_value k (raw_dumps a v @ w) = Some (v, w)" if "no_digit w" for w
      using 6(1) [of p key v k w] len [of key v] p kv that by blast
    then show "read_member (read_value k) (?f p @ w) = Some (p, w)"
      using read_member_text [of "read_value k" "raw_dumps a v" v w a key] w by (simp add: kv)
  qed (auto simp: is_digit_def json_string_def)
  then show ?case using n by simp
next
  case (1 a)
  then show ?case by (cases n) auto
next
  case (2 a b)
  then show ?case by (cases n; cases b) auto
qed

section \<open>The law\<close>

text \<open>The values of Python: no dict holds a key twice.\<close>

fun unique_keys :: "json \<Rightarrow> bool" where
  "unique_keys (JArr xs) = list_all unique_keys xs"
| "unique_keys (JObj kvs) \<longleftrightarrow> distinct (map fst kvs) \<and> list_all (\<lambda>(_, v). unique_keys v) kvs"
| "unique_keys v = True"

definition reads_back :: "(bytes \<Rightarrow> json option) \<Rightarrow> bool" where
  "reads_back loads \<longleftrightarrow>
     (\<forall>v r. unique_keys v \<and> (r = [] \<or> r = [CHR 10]) \<longrightarrow> loads (utf8_encode (raw_dumps False v @ r)) = Some v)"

lemma unique_canon: "unique_keys v \<Longrightarrow> unique_keys (canon v)"
proof (induction v rule: canon.induct)
  case (2 kvs)
  let ?c = "map (\<lambda>(k, v). (k, canon v)) kvs"
  have "map fst ?c = map fst kvs" by auto
  moreover have "mset (map fst (sort_key fst ?c)) = mset (map fst ?c)" by (simp only: mset_map mset_sort)
  ultimately have "distinct (map fst (sort_key fst ?c))" using 2(2) by (metis mset_eq_imp_distinct_iff unique_keys.simps(2))
  moreover have "\<forall>p \<in> set ?c. unique_keys (snd p)" using 2 by (fastforce simp: list_all_iff)
  ultimately show ?case by (simp add: list_all_iff split_beta)
qed (auto simp: list_all_iff)

lemma unique_distinct: "unique_keys (JObj d) \<Longrightarrow> distinct (map fst d)"
  by simp

lemma unique_put: "unique_keys (JObj d) \<Longrightarrow> unique_keys v \<Longrightarrow> unique_keys (JObj (AList.update k v d))"
proof -
  assume d: "unique_keys (JObj d)" and v: "unique_keys v"
  have "list_all (\<lambda>(_, v). unique_keys v) (AList.update k v d)" using d v by (induction d) auto
  then show ?thesis using d by (simp add: distinct_update)
qed

lemma unique_delete: "unique_keys (JObj d) \<Longrightarrow> unique_keys (JObj (AList.delete k d))"
  by (simp add: distinct_delete) (auto simp: list_all_iff AList.delete_eq)

lemma unique_value: "unique_keys (JObj d) \<Longrightarrow> unique_keys (json_get d k)"
  by (auto simp: json_get_def list_all_iff split: option.splits dest: map_of_SomeD)

lemma read_json_reads_back: "reads_back read_json"
  unfolding reads_back_def
proof (intro allI impI)
  fix v r assume "unique_keys v \<and> (r = [] \<or> r = [CHR 10])"
  then have r: "r = [] \<or> r = [CHR 10]" by simp
  then have "no_digit r" by (auto simp: no_digit_def is_digit_def)
  then have "read_value (Suc (length (raw_dumps False v @ r))) (raw_dumps False v @ r) = Some (v, r)"
    by (intro read_value_text) simp_all
  then show "read_json (utf8_encode (raw_dumps False v @ r)) = Some v"
    using r by (simp add: read_json_def Let_def del: read_value.simps)
qed

end
