(* ===== verification/Registry_Guarantees.thy ===== *)
theory Registry_Guarantees
  imports Protocol_Registry Json_Reader
begin

text \<open>
  What the operation registry guarantees: the first commit of an operation wins for good, across
  reopened files.

  The interface of a registry is the locale \<open>first_commit_wins\<close>; the file registry interprets it.
\<close>

section \<open>The interface of a registry\<close>

text \<open>A sequence of attempts, with the answer that each of them got, and what was accepted for one key.\<close>

fun attempts :: "('k \<Rightarrow> 'v \<Rightarrow> 'f \<Rightarrow> bool \<times> 'f) \<Rightarrow> ('k \<times> 'v) list \<Rightarrow> 'f \<Rightarrow> bool list \<times> 'f" where
  "attempts try [] f = ([], f)"
| "attempts try ((k, v) # rest) f =
     (let (b, f') = try k v f; (bs, f'') = attempts try rest f' in (b # bs, f''))"

definition accepted_on :: "'k \<Rightarrow> ('k \<times> 'v) list \<Rightarrow> bool list \<Rightarrow> 'v list" where
  "accepted_on k kvs bs = map (snd \<circ> fst) (filter (\<lambda>((k', _), b). k' = k \<and> b) (zip kvs bs))"

locale first_commit_wins =
  fixes winners :: "'f \<Rightarrow> 'k \<Rightarrow> 'v option"
    and commit :: "'k \<Rightarrow> 'v \<Rightarrow> 'f \<Rightarrow> bool \<times> 'f"
    and valid :: "'k \<Rightarrow> 'v \<Rightarrow> bool"
  assumes commit_new: "valid k v \<Longrightarrow> winners f k = None \<Longrightarrow>
      fst (commit k v f) \<and> winners (snd (commit k v f)) = (winners f)(k \<mapsto> v)"
    and commit_taken: "valid k v \<Longrightarrow> winners f k = Some w \<Longrightarrow> commit k v f = (False, f)"
begin

lemma winner_kept: "winners f k = Some w \<Longrightarrow> \<forall>(k, v) \<in> set kvs. valid k v \<Longrightarrow> winners (snd (attempts commit kvs f)) k = Some w"
proof (induction kvs arbitrary: f)
  case (Cons kv kvs)
  obtain k' v' where kv: "kv = (k', v')" by (cases kv)
  have "winners (snd (commit k' v' f)) k = Some w"
    using Cons.prems kv commit_new [of k' v' f] commit_taken [of k' v' f] by (cases "winners f k'") auto
  then show ?case using Cons kv by (simp add: split_beta)
qed simp

text \<open>Of the attempts on one key that was free, exactly the first is accepted.\<close>

lemma none_accepted:
  "winners f k = Some w \<Longrightarrow> \<forall>(k, v) \<in> set kvs. valid k v \<Longrightarrow> accepted_on k kvs (fst (attempts commit kvs f)) = []"
proof (induction kvs arbitrary: f)
  case (Cons kv kvs)
  obtain k' v' where kv: "kv = (k', v')" by (cases kv)
  have "winners (snd (commit k' v' f)) k = Some w"
    using Cons.prems kv commit_new [of k' v' f] commit_taken [of k' v' f] by (cases "winners f k'") auto
  then have "accepted_on k kvs (fst (attempts commit kvs (snd (commit k' v' f)))) = []" using Cons by simp
  moreover have "k' = k \<Longrightarrow> \<not> fst (commit k' v' f)" using Cons.prems kv commit_taken [of k' v' f w] by auto
  ultimately show ?case using kv by (auto simp: accepted_on_def split_beta)
qed (simp add: accepted_on_def)

lemma first_accepted:
  assumes "winners f k = None" and "\<forall>(k, v) \<in> set kvs. valid k v"
  shows "accepted_on k kvs (fst (attempts commit kvs f)) = (case map_of kvs k of None \<Rightarrow> [] | Some v \<Rightarrow> [v])"
    and "winners (snd (attempts commit kvs f)) k = map_of kvs k"
proof -
  have "accepted_on k kvs (fst (attempts commit kvs f)) = (case map_of kvs k of None \<Rightarrow> [] | Some v \<Rightarrow> [v]) \<and>
      winners (snd (attempts commit kvs f)) k = map_of kvs k"
    using assms
  proof (induction kvs arbitrary: f)
    case Nil
    then show ?case by (simp add: accepted_on_def)
  next
    case (Cons kv kvs)
    obtain k' v' where kv: "kv = (k', v')" by (cases kv)
    let ?f = "snd (commit k' v' f)"
    have ok: "valid k' v'" "\<forall>(k, v) \<in> set kvs. valid k v" using Cons.prems kv by auto
    show ?case
    proof (cases "k' = k")
      case True
      have c: "fst (commit k' v' f)" "winners ?f k = Some v'" using commit_new [OF ok(1)] Cons.prems True by auto
      then show ?thesis using none_accepted [OF c(2) ok(2)] winner_kept [OF c(2) ok(2)] kv True
        by (simp add: accepted_on_def split_beta)
    next
      case False
      have "winners ?f k = None"
        using commit_new [OF ok(1)] commit_taken [OF ok(1)] Cons.prems False by (cases "winners f k'") auto
      then show ?thesis using Cons.IH ok(2) kv False by (auto simp: accepted_on_def split_beta)
    qed
  qed
  then show "accepted_on k kvs (fst (attempts commit kvs f)) = (case map_of kvs k of None \<Rightarrow> [] | Some v \<Rightarrow> [v])"
    and "winners (snd (attempts commit kvs f)) k = map_of kvs k" by blast+
qed

end

section \<open>The file registry\<close>

text \<open>The winners that a file holds, and a row that the registry can hold under a key.\<close>

definition file_winners :: "(bytes \<Rightarrow> json option) \<Rightarrow> bytes option \<Rightarrow> string \<Rightarrow> commit_row option" where
  "file_winners loads f = map_of (reg_entries (ensure_loaded loads (open_registry f)))"

definition row_ok :: "string \<Rightarrow> commit_row \<Rightarrow> bool" where
  "row_ok k r \<longleftrightarrow> cr_operation_id r = k \<and> k \<noteq> [] \<and> stripped k \<and> cr_entry_digest r \<noteq> [] \<and>
     stripped (cr_entry_digest r) \<and> 0 < cr_event_seq r"

definition rows_ok :: "(string \<times> commit_row) list \<Rightarrow> bool" where
  "rows_ok es \<longleftrightarrow> distinct (map fst es) \<and> (\<forall>(k, r) \<in> set es. row_ok k r)"

definition file_commit ::
  "(bytes \<Rightarrow> json option) \<Rightarrow> string \<Rightarrow> commit_row \<Rightarrow> bytes option \<Rightarrow> bool \<times> bytes option" where
  "file_commit loads k r f =
     (case registry_commit loads k (cr_event_seq r) (cr_entry_digest r) (open_registry f) of
        (Inl _, reg) \<Rightarrow> (False, reg_file reg)
      | (Inr decision, reg) \<Rightarrow> (cd_accepted decision, reg_file reg))"

lemma rows_ok_update: "rows_ok es \<Longrightarrow> row_ok k r \<Longrightarrow> rows_ok (AList.update k r es)"
proof -
  assume es: "rows_ok es" and r: "row_ok k r"
  have "set (AList.update k r es) \<subseteq> insert (k, r) (set es)" by (induction es) auto
  then show ?thesis using es r by (auto simp: rows_ok_def distinct_update)
qed

lemma load_row_ok: "load_row row = Some r \<Longrightarrow> row_ok (cr_operation_id r) r"
  by (auto simp: load_row_def row_ok_def Let_def split: json.splits if_splits sum.splits)

lemma load_rows_ok: "rows_ok (load_rows rows)"
proof -
  have "rows_ok es \<Longrightarrow> rows_ok (fold (\<lambda>row loaded. case load_row row of
      None \<Rightarrow> loaded | Some r \<Rightarrow> AList.update (cr_operation_id r) r loaded) rows es)" for es
    by (induction rows arbitrary: es) (auto simp: rows_ok_update load_row_ok split: option.splits)
  moreover have "rows_ok []" by (simp add: rows_ok_def)
  ultimately show ?thesis unfolding load_rows_def by blast
qed

lemma loaded_ok: "rows_ok (reg_entries (ensure_loaded loads (open_registry f)))"
  using load_rows_ok by (auto simp: ensure_loaded_def open_registry_def rows_ok_def Let_def split: option.splits json.splits)

lemma canon_commit_row:
  "canon (commit_row_json r) = JObj [(''entry_digest'', JStr (cr_entry_digest r)), (''event_seq'', JInt (cr_event_seq r)),
     (''operation_id'', JStr (cr_operation_id r))]"
proof -
  have "sort_key fst [(''operation_id'', a), (''event_seq'', b), (''entry_digest'', c)] =
      [(''entry_digest'', c), (''event_seq'', b), (''operation_id'', a)]" for a b c :: json by code_simp
  then show ?thesis by (simp add: commit_row_json_def del: sort_key_simps)
qed

lemma load_canon_row: "row_ok k r \<Longrightarrow> load_row (canon (commit_row_json r)) = Some r"
  by (auto simp: canon_commit_row load_row_def str_get_or_def json_get_def row_ok_def py_str_json_def py_int_def Let_def)

lemma load_rows_map:
  assumes "\<forall>r \<in> set rows. load_row (g r) = Some r" and "distinct (map cr_operation_id rows)"
  shows "map_of (load_rows (map g rows)) = map_of (map (\<lambda>r. (cr_operation_id r, r)) rows)"
proof -
  have step: "map_of (fold (\<lambda>row loaded. case load_row row of
        None \<Rightarrow> loaded | Some r \<Rightarrow> AList.update (cr_operation_id r) r loaded) (map g rows) es) =
      map_of es ++ map_of (map (\<lambda>r. (cr_operation_id r, r)) rows)" for es
    using assms
  proof (induction rows arbitrary: es)
    case (Cons r rows)
    have "map_of (map (\<lambda>r. (cr_operation_id r, r)) rows) (cr_operation_id r) = None"
      using Cons.prems(2) by (auto simp: map_of_eq_None_iff image_image)
    then show ?case using Cons by (auto simp: update_conv' map_add_def fun_eq_iff split: option.splits)
  qed simp
  show ?thesis unfolding load_rows_def step by simp
qed

text \<open>What is persisted is what a new registry object loads.\<close>

lemma persisted_rows:
  assumes "reads_back loads" and "rows_ok es" and "rows = map snd (sort_key (\<lambda>(k, row). (cr_event_seq row, k)) es)"
  shows "file_winners loads (Some (utf8_encode (registry_text rows))) = map_of es"
proof -
  let ?s = "sort_key (\<lambda>(k, row). (cr_event_seq row, k)) es"
  have es: "distinct (map fst es)" "\<And>k r. (k, r) \<in> set es \<Longrightarrow> row_ok k r" using assms(2) by (auto simp: rows_ok_def)
  have set_s: "set ?s = set es" by simp
  have "mset (map fst ?s) = mset (map fst es)" by (simp only: mset_map mset_sort)
  then have ds: "distinct (map fst ?s)" using es(1) by (metis mset_eq_imp_distinct_iff)
  have key: "cr_operation_id (snd p) = fst p" if "p \<in> set ?s" for p
    using that es(2) [of "fst p" "snd p"] by (simp add: row_ok_def)
  then have pairs: "map (\<lambda>r. (cr_operation_id r, r)) rows = ?s" unfolding assms(3) map_map
    by (intro map_idI) (simp add: comp_def)
  have ids: "map cr_operation_id rows = map fst ?s" unfolding assms(3) map_map using key by (intro map_cong) auto
  have rowok: "\<forall>r \<in> set rows. load_row (canon (commit_row_json r)) = Some r"
    using load_canon_row es(2) unfolding assms(3) by fastforce
  have rows: "map_of (load_rows (map (\<lambda>r. canon (commit_row_json r)) rows)) = map_of es"
    unfolding load_rows_map [OF rowok, unfolded ids, OF ds] pairs using es(1) ds set_s by (simp add: map_of_inject_set)
  have "canonical_json (JObj [(''entries'', JArr (map commit_row_json rows))]) =
      raw_dumps False (JObj [(''entries'', JArr (map (\<lambda>r. canon (commit_row_json r)) rows))])"
    by (simp add: canonical_json_def json_dumps_canon comp_def del: raw_dumps.simps)
  moreover have "unique_keys (JObj [(''entries'', JArr (map (\<lambda>r. canon (commit_row_json r)) rows))])"
    by (auto simp: list_all_iff commit_row_json_def intro!: unique_canon)
  ultimately have "loads (utf8_encode (registry_text rows)) =
      Some (JObj [(''entries'', JArr (map (\<lambda>r. canon (commit_row_json r)) rows))])"
    using assms(1) unfolding reads_back_def registry_text_def by (simp del: raw_dumps.simps unique_keys.simps)
  with rows show ?thesis
    by (simp add: file_winners_def ensure_loaded_def open_registry_def Let_def json_get_def)
qed

lemma ensure_loaded_again [simp]: "reg_loaded reg \<Longrightarrow> ensure_loaded loads reg = reg"
  by (simp add: ensure_loaded_def)

lemma loaded_fields [simp]:
  "reg_loaded (ensure_loaded loads (open_registry f))" "reg_persistent (ensure_loaded loads (open_registry f))"
  "reg_file (ensure_loaded loads (open_registry f)) = f"
  by (auto simp: ensure_loaded_def open_registry_def Let_def split: option.splits json.splits)

lemma commit_open:
  assumes "row_ok k r"
  shows "registry_commit loads k (cr_event_seq r) (cr_entry_digest r) (open_registry f) =
    (case file_winners loads f k of
       None \<Rightarrow> (Inr \<lparr>cd_accepted = True, cd_operation_id = k, cd_winner_event_seq = cr_event_seq r,
                 cd_winner_entry_digest = cr_entry_digest r, cd_error_code = None, cd_idempotent_reuse = False\<rparr>,
               persist loads ((ensure_loaded loads (open_registry f))\<lparr>reg_entries :=
                 AList.update k r (reg_entries (ensure_loaded loads (open_registry f)))\<rparr>))
     | Some w \<Rightarrow> (Inr \<lparr>cd_accepted = False, cd_operation_id = k, cd_winner_event_seq = cr_event_seq w,
                 cd_winner_entry_digest = cr_entry_digest w, cd_error_code = Some ''E_DUPLICATE_OPERATION'',
                 cd_idempotent_reuse = (cr_entry_digest r = cr_entry_digest w)\<rparr>,
               ensure_loaded loads (open_registry f)))"
  using assms by (cases r) (auto simp: registry_commit_def file_winners_def row_ok_def Let_def split: option.splits)

lemma persisted_commit:
  assumes "reads_back loads" and "row_ok k r"
  shows "file_winners loads (reg_file (persist loads ((ensure_loaded loads (open_registry f))\<lparr>reg_entries :=
      AList.update k r (reg_entries (ensure_loaded loads (open_registry f)))\<rparr>))) = (file_winners loads f)(k \<mapsto> r)"
proof -
  let ?es = "AList.update k r (reg_entries (ensure_loaded loads (open_registry f)))"
  have "file_winners loads (Some (utf8_encode (registry_text (map snd (sort_key (\<lambda>(k, row). (cr_event_seq row, k)) ?es))))) =
      map_of ?es"
    using persisted_rows [OF assms(1) rows_ok_update [OF loaded_ok assms(2)] refl] .
  then show ?thesis by (simp add: persist_def registry_entries_def file_winners_def update_conv' Let_def)
qed

interpretation file_registry: first_commit_wins "file_winners loads" "file_commit loads"
    "\<lambda>k r. row_ok k r \<and> reads_back loads" for loads
proof
  fix k v f assume ok: "row_ok k v \<and> reads_back loads" and free: "file_winners loads f k = None"
  then show "fst (file_commit loads k v f) \<and> file_winners loads (snd (file_commit loads k v f)) = (file_winners loads f)(k \<mapsto> v)"
    using commit_open [of k v loads f] persisted_commit [of loads k v f] by (simp add: file_commit_def)
next
  fix k v f w assume ok: "row_ok k v \<and> reads_back loads" and taken: "file_winners loads f k = Some w"
  then show "file_commit loads k v f = (False, f)" using commit_open [of k v loads f] by (simp add: file_commit_def)
qed

text \<open>
  C26: the first commit of an operation wins, across every reopening of the registry file. Of a sequence of
  commits, each on the file that the one before it left and on any operations, exactly the first
  commit of a free operation is accepted, and the registry names that commit as the winner ever after.
\<close>

theorem first_commit_of_operation_wins:
  assumes "reads_back loads" and "stripped k" and "fst (registry_winner loads k (open_registry f)) = None"
    and "\<forall>(k, r) \<in> set kvs. row_ok k r"
  shows "accepted_on k kvs (fst (attempts (file_commit loads) kvs f)) = (case map_of kvs k of None \<Rightarrow> [] | Some r \<Rightarrow> [r]) \<and>
    fst (registry_winner loads k (open_registry (snd (attempts (file_commit loads) kvs f)))) = map_of kvs k"
proof -
  have w: "fst (registry_winner loads k (open_registry g)) = file_winners loads g k" for g
    using assms(2) by (simp add: registry_winner_def file_winners_def stripped_def Let_def)
  have "\<forall>(k, r) \<in> set kvs. row_ok k r \<and> reads_back loads" using assms(1,4) by blast
  then show ?thesis using file_registry.first_accepted assms(3) unfolding w by blast
qed

definition demo_commits :: "(string \<times> commit_row) list" where
  "demo_commits =
     [(''o1'', \<lparr>cr_operation_id = ''o1'', cr_event_seq = 2, cr_entry_digest = ''d2''\<rparr>),
      (''o2'', \<lparr>cr_operation_id = ''o2'', cr_event_seq = 3, cr_entry_digest = ''d3''\<rparr>),
      (''o1'', \<lparr>cr_operation_id = ''o1'', cr_event_seq = 4, cr_entry_digest = ''d4''\<rparr>)]"

theorem first_commit_of_operation_wins_witness:
  "map cr_event_seq (accepted_on ''o1'' demo_commits (fst (attempts (file_commit read_json) demo_commits None))) = [2] \<and>
   map_option cr_event_seq (fst (registry_winner read_json ''o1'' (open_registry (snd (attempts (file_commit read_json) demo_commits None))))) = Some 2"
proof -
  have "\<forall>(k, r) \<in> set demo_commits. row_ok k r"
    by (simp add: demo_commits_def row_ok_def stripped_def py_strip_def py_isspace_def)
  moreover have "fst (registry_winner read_json ''o1'' (open_registry None)) = None"
    by (simp add: registry_winner_def ensure_loaded_def open_registry_def Let_def)
  moreover have "stripped ''o1''" by (simp add: stripped_def py_strip_def py_isspace_def)
  moreover have "map_of demo_commits ''o1'' = Some \<lparr>cr_operation_id = ''o1'', cr_event_seq = 2, cr_entry_digest = ''d2''\<rparr>"
    by (simp add: demo_commits_def)
  ultimately show ?thesis using first_commit_of_operation_wins [OF read_json_reads_back, of "''o1''" None demo_commits] by simp
qed

text \<open>
  A file that cannot be parsed counts as empty, so that an operation that had a winner can be committed
  again.
\<close>

lemma unreadable_registry_forgets:
  "loads data = None \<Longrightarrow> row_ok k r \<Longrightarrow> file_winners loads (Some data) = Map.empty \<and> fst (file_commit loads k r (Some data))"
  using commit_open [of k r loads "Some data"]
  by (simp add: file_commit_def file_winners_def ensure_loaded_def open_registry_def Let_def)

end
