(* ===== verification/Run_Ledger_Invariants.thy ===== *)
theory Run_Ledger_Invariants
  imports Run_Ledger Registry_Guarantees
begin

text \<open>
  The invariant of a run directory. The log is read and appended through the contract \<open>event_log\<close>, which
  the framed ledger provides; over it, an event list is \<open>contract\<close>-abiding when every event was admissible
  after the events before it: tool results answer a call that is open, with its hash, and calls and the
  end of a run come only when no call is open.
\<close>

section \<open>The interface of an event log\<close>

locale event_log =
  fixes holds :: "'d \<Rightarrow> 'e list \<Rightarrow> bool"
    and replay :: "('d, 'e list) eff"
    and next_seq :: "('d, int) eff"
    and put :: "'p \<Rightarrow> ('d, 'p) eff"
    and proper :: "'p \<Rightarrow> bool"
    and numbered :: "int \<Rightarrow> 'p \<Rightarrow> 'p"
    and stored :: "'p \<Rightarrow> 'e"
  assumes replay_holds: "holds d es \<Longrightarrow> replay d = (Inr es, d)"
    and next_seq_holds: "holds d es \<Longrightarrow> next_seq d = (Inr (int (length es) + 1), d)"
    and put_refused: "holds d es \<Longrightarrow> put p d = (Inl err, d') \<Longrightarrow> d' = d"
    and put_accepted: "holds d es \<Longrightarrow> proper p \<Longrightarrow> put p d = (Inr e, d') \<Longrightarrow>
      e = numbered (int (length es) + 1) p \<and> holds d' (es @ [stored e])"
begin

lemma holds_unique: "holds d es \<Longrightarrow> holds d fs \<Longrightarrow> es = fs"
  using replay_holds [of d es] replay_holds [of d fs] by simp

lemma put_cases:
  assumes "holds d es" and "proper p" and "put p d = (r, d')"
  obtains err where "r = Inl err" and "d' = d"
    | "r = Inr (numbered (int (length es) + 1) p)" and "holds d' (es @ [stored (numbered (int (length es) + 1) p)])"
  using assms put_refused put_accepted by (cases r) blast+

end

section \<open>The framed ledger provides it\<close>

text \<open>
  What is relied on of the code outside: a checksum of 32 bits, texts that are read back, and digests in
  hexadecimal.
\<close>

definition env_ok :: "ledger_env \<Rightarrow> bool" where
  "env_ok E \<longleftrightarrow> (\<forall>bs. le_crc E bs < 2 ^ 32) \<and> reads_back (le_loads E) \<and> (\<forall>t. hex_digest (le_sha256 E t))"

definition dir_holds :: "ledger_env \<Rightarrow> run_dir \<Rightarrow> dict list \<Rightarrow> bool" where
  "dir_holds E d evs \<longleftrightarrow> env_ok E \<and>
     (\<exists>es. ledger_inv (le_crc E) (le_max_bytes E) (open_ledger (rd_events d)) es \<and>
       (\<forall>e \<in> set es. unique_keys (JObj e)) \<and> evs = map stored_payload es)"

definition unnumbered :: "dict \<Rightarrow> bool" where
  "unnumbered p \<longleftrightarrow> unique_keys (JObj p) \<and> json_get p ''event_seq'' = JNull"

definition number_event :: "int \<Rightarrow> dict \<Rightarrow> dict" where
  "number_event n p = AList.update ''event_seq'' (JInt n) p"

lemma env_readable: "env_ok E \<Longrightarrow> unique_keys (JObj e) \<Longrightarrow> readable (le_crc E) (le_loads E) e"
proof -
  assume E: "env_ok E" and e: "unique_keys (JObj e)"
  have "unique_keys (JObj (stored_payload e))" using unique_canon [OF e] by (simp add: stored_payload_def)
  then have rb: "le_loads E (utf8_encode (raw_dumps False (JObj (stored_payload e)) @ [])) = Some (JObj (stored_payload e))"
    and "le_crc E bs < 2 ^ 32" for bs
    using E unfolding env_ok_def reads_back_def by blast+
  moreover have "payload_bytes e = utf8_encode (raw_dumps False (JObj (stored_payload e)) @ [])"
    by (simp add: payload_bytes_def json_dumps_canon stored_payload_def del: raw_dumps.simps)
  ultimately show ?thesis unfolding readable_def by (simp only: rb)
qed

lemma env_readable_all: "env_ok E \<Longrightarrow> \<forall>e \<in> set es. unique_keys (JObj e) \<Longrightarrow> list_all (readable (le_crc E) (le_loads E)) es"
  by (simp add: list_all_iff env_readable)

interpretation framed: event_log "dir_holds E" "log_replay E" "log_next_seq E" "log_append E"
    unnumbered number_event stored_payload for E
proof
  fix d evs assume h: "dir_holds E d evs"
  then obtain es where E: "env_ok E" and inv: "ledger_inv (le_crc E) (le_max_bytes E) (open_ledger (rd_events d)) es"
    and uniq: "\<forall>e \<in> set es. unique_keys (JObj e)" and evs: "evs = map stored_payload es" by (auto simp: dir_holds_def)
  note readable = env_readable_all [OF E uniq]
  show "log_replay E d = (Inr evs, d)"
    using replay_ok [OF inv readable] evs by (simp add: log_replay_def read_eff_def)
  show "log_next_seq E d = (Inr (int (length evs) + 1), d)"
    using next_seq_ok [OF inv readable] evs by (simp add: log_next_seq_def read_eff_def)
  show "d' = d" if put: "log_append E p d = (Inl err, d')" for p err d'
  proof -
    obtain st where app: "ledger_append_event (le_crc E) (le_loads E) (le_max_bytes E) p (open_ledger (rd_events d)) = (Inl err, st)"
      and d': "d' = d\<lparr>rd_events := rl_file st\<rparr>" using put unfolding log_append_def by (auto split: prod.splits)
    have "rl_file st = rd_events d" using append_refused [OF inv readable app] by (simp add: open_ledger_def)
    then show ?thesis using d' by simp
  qed
  show "e = number_event (int (length evs) + 1) p \<and> dir_holds E d' (evs @ [stored_payload e])"
    if p: "unnumbered p" and put: "log_append E p d = (Inr e, d')" for p e d'
  proof -
    obtain st where app: "ledger_append_event (le_crc E) (le_loads E) (le_max_bytes E) p (open_ledger (rd_events d)) = (Inr e, st)"
      and d': "d' = d\<lparr>rd_events := rl_file st\<rparr>" using put by (auto simp: log_append_def split: prod.splits)
    have proper: "proper_event p" using p by (simp add: unnumbered_def proper_event_def)
    have "sequenced_event p (int (length es) + 1) = Inr e"
      using append_ok [OF inv readable proper] app by (auto split: sum.splits)
    then have e: "e = number_event (int (length evs) + 1) p"
      using p evs by (simp add: unnumbered_def sequenced_event_def number_event_def)
    have "ledger_inv (le_crc E) (le_max_bytes E) st (es @ [e])" by (rule ledger_inv_append [OF inv readable proper app])
    then have "ledger_inv (le_crc E) (le_max_bytes E) (open_ledger (rd_events d')) (es @ [e])"
      by (simp add: ledger_inv_def open_ledger_def ledger_file_def d')
    moreover have "unique_keys (JObj e)" using p unfolding e unnumbered_def number_event_def by (intro unique_put) simp_all
    ultimately show ?thesis using e E evs uniq unfolding dir_holds_def by (auto intro!: exI [of _ "es @ [e]"] simp del: unique_keys.simps)
  qed
qed

section \<open>Fields of stored events\<close>

lemma json_get_put [simp]:
  "json_get (AList.update k v d) k = v"
  "k' \<noteq> k \<Longrightarrow> json_get (AList.update k v d) k' = json_get d k'"
  by (simp_all add: json_get_def update_conv')

lemma get_stored: "distinct (map fst e) \<Longrightarrow> json_get (stored_payload e) k = canon (json_get e k)"
  by (rule json_get_stored)

lemma canon_simps [simp]:
  "canon v = JStr s \<longleftrightarrow> v = JStr s" "canon v = JInt i \<longleftrightarrow> v = JInt i" "canon v = JNull \<longleftrightarrow> v = JNull"
  by (cases v; auto)+

section \<open>The contract\<close>

definition kind_of :: "dict \<Rightarrow> string" where
  "kind_of e = text_of e ''kind''"

definition is_result :: "dict \<Rightarrow> bool" where
  "is_result e \<longleftrightarrow> is_result_kind (kind_of e)"

text \<open>Event \<open>e\<close> is a result that names the call with sequence number \<open>c\<close>.\<close>

definition answers :: "dict \<Rightarrow> int \<Rightarrow> bool" where
  "answers e c \<longleftrightarrow> is_result e \<and> json_get e ''call_sequence_number'' = JInt c"

definition open_at :: "dict list \<Rightarrow> int set" where
  "open_at evs = {int i + 1 |i. i < length evs \<and> kind_of (evs ! i) = ''tool_call'' \<and>
     (\<forall>e \<in> set evs. \<not> answers e (int i + 1))}"

text \<open>A recorded hash, and a result that closes an open call with the hash of the call.\<close>

definition hashed :: "dict \<Rightarrow> string \<Rightarrow> bool" where
  "hashed e h \<longleftrightarrow> json_get e ''tool_call_hash'' = JStr h \<and> h \<noteq> [] \<and> stripped h"

definition closes :: "dict list \<Rightarrow> dict \<Rightarrow> int \<Rightarrow> string \<Rightarrow> bool" where
  "closes evs e c h \<longleftrightarrow> json_get e ''call_sequence_number'' = JInt c \<and> c \<in> open_at evs \<and> hashed e h \<and>
     strip_of (evs ! nat (c - 1)) ''tool_call_hash'' \<in> {[], h}"

definition admissible :: "dict list \<Rightarrow> dict \<Rightarrow> bool" where
  "admissible evs e \<longleftrightarrow>
     json_get e ''event_seq'' = JInt (int (length evs) + 1) \<and>
     (is_result_kind (strip_of e ''kind'') \<longrightarrow> (\<exists>c h. closes evs e c h)) \<and>
     (kind_of e = ''tool_call'' \<longrightarrow> (\<exists>h. hashed e h)) \<and>
     (kind_of e \<in> {''tool_call'', ''run_finalized''} \<longrightarrow> open_at evs = {})"

definition contract :: "dict list \<Rightarrow> bool" where
  "contract evs \<longleftrightarrow> (\<forall>i < length evs. admissible (take i evs) (evs ! i))"

lemma contract_Nil [simp]: "contract []"
  by (simp add: contract_def)

lemma contract_snoc: "contract (evs @ [e]) \<longleftrightarrow> contract evs \<and> admissible evs e"
  by (auto simp: contract_def nth_append less_Suc_eq)

lemma kind_strips:
  "py_strip ''tool_call'' = ''tool_call''" "py_strip ''run_finalized'' = ''run_finalized''"
  "py_strip ''operation_result'' = ''operation_result''" "py_strip ''tool_result'' = ''tool_result''"
  by code_simp+

lemma result_kind_strip: "is_result_kind k \<Longrightarrow> is_result_kind (py_strip k)"
  using kind_strips by (auto simp: is_result_kind_def TOOL_RESULT_KINDS_def)

lemma admissible_result: "admissible evs e \<Longrightarrow> is_result e \<Longrightarrow> \<exists>c h. closes evs e c h"
  using result_kind_strip by (auto simp: admissible_def is_result_def kind_of_def strip_of_def)

lemma kinds_distinct:
  "kind_of e = ''tool_call'' \<Longrightarrow> \<not> is_result e" "kind_of e = ''run_finalized'' \<Longrightarrow> \<not> is_result e"
  by (simp_all add: is_result_def is_result_kind_def TOOL_RESULT_KINDS_def)

lemma contract_seq: "contract evs \<Longrightarrow> i < length evs \<Longrightarrow> json_get (evs ! i) ''event_seq'' = JInt (int i + 1)"
  by (auto simp: contract_def admissible_def)

lemma open_at_range: "c \<in> open_at evs \<Longrightarrow> 0 < c \<and> c \<le> int (length evs) \<and> kind_of (evs ! nat (c - 1)) = ''tool_call''"
  by (auto simp: open_at_def)

lemma answered_range: "contract evs \<Longrightarrow> e \<in> set evs \<Longrightarrow> answers e c \<Longrightarrow> 0 < c \<and> c < int (length evs) + 1"
proof -
  assume c: "contract evs" and e: "e \<in> set evs" "answers e c"
  then obtain i where i: "i < length evs" "e = evs ! i" by (auto simp: in_set_conv_nth)
  then have "admissible (take i evs) (evs ! i)" using c by (simp add: contract_def)
  then have "c \<in> open_at (take i evs)" using e i admissible_result [of "take i evs" e] by (auto simp: answers_def closes_def)
  then show ?thesis using open_at_range [of c "take i evs"] i by auto
qed

text \<open>What the open calls become with one more event.\<close>

lemma open_at_snoc:
  assumes "contract evs" and "admissible evs e"
  shows "open_at (evs @ [e]) =
    (if kind_of e = ''tool_call'' then insert (int (length evs) + 1) (open_at evs)
     else open_at evs - {c. answers e c})"
proof (intro set_eqI)
  fix c
  have new: "\<forall>e' \<in> set evs. \<not> answers e' (int (length evs) + 1)" using answered_range [OF assms(1)] by fastforce
  have self: "kind_of e = ''tool_call'' \<Longrightarrow> \<not> answers e c'" for c' using kinds_distinct by (auto simp: answers_def)
  have "c \<in> open_at (evs @ [e]) \<longleftrightarrow>
      (c \<in> open_at evs \<and> \<not> answers e c) \<or> (c = int (length evs) + 1 \<and> kind_of e = ''tool_call'')"
  proof
    assume "c \<in> open_at (evs @ [e])"
    then obtain i where i: "c = int i + 1" "i < Suc (length evs)" "kind_of ((evs @ [e]) ! i) = ''tool_call''"
      "\<forall>e' \<in> set (evs @ [e]). \<not> answers e' (int i + 1)" by (auto simp: open_at_def)
    then show "(c \<in> open_at evs \<and> \<not> answers e c) \<or> (c = int (length evs) + 1 \<and> kind_of e = ''tool_call'')"
      by (cases "i < length evs") (auto simp: open_at_def nth_append less_Suc_eq)
  next
    assume "(c \<in> open_at evs \<and> \<not> answers e c) \<or> (c = int (length evs) + 1 \<and> kind_of e = ''tool_call'')"
    then show "c \<in> open_at (evs @ [e])"
    proof
      assume "c \<in> open_at evs \<and> \<not> answers e c"
      then obtain i where "c = int i + 1" "i < length evs" "kind_of (evs ! i) = ''tool_call''"
        "\<forall>e' \<in> set (evs @ [e]). \<not> answers e' c" by (auto simp: open_at_def)
      then show ?thesis by (auto simp: open_at_def nth_append intro!: exI [of _ i])
    next
      assume "c = int (length evs) + 1 \<and> kind_of e = ''tool_call''"
      then show ?thesis using new self [of c] by (auto simp: open_at_def nth_append intro!: exI [of _ "length evs"])
    qed
  qed
  then show "c \<in> open_at (evs @ [e]) \<longleftrightarrow> c \<in> (if kind_of e = ''tool_call'' then insert (int (length evs) + 1) (open_at evs)
      else open_at evs - {c. answers e c})" using self [of c] by auto
qed

section \<open>The code's view of the events\<close>

lemma event_sequence_at: "json_get e ''event_seq'' = JInt i \<Longrightarrow> 0 < i \<Longrightarrow> event_sequence e = Inr i"
  by (simp add: event_sequence_def json_or_def py_int_def)

lemma contract_sequence: "contract evs \<Longrightarrow> i < length evs \<Longrightarrow> event_sequence (evs ! i) = Inr (int i + 1)"
  using contract_seq by (intro event_sequence_at) auto

lemma admissible_sequence: "admissible evs e \<Longrightarrow> event_sequence e = Inr (int (length evs) + 1)"
  by (intro event_sequence_at) (auto simp: admissible_def)

lemma call_sequence_at: "json_get e ''call_sequence_number'' = JInt c \<Longrightarrow> call_sequence_of e = Inr c"
  by (auto simp: call_sequence_of_def json_or_def py_int_def)

lemma keys_update: "fst ` set (AList.update k v al) = insert k (fst ` set al)"
  by (induction al) auto

lemma keys_delete: "fst ` set (AList.delete k al) = fst ` set al - {k}"
  by (induction al) auto

lemma open_calls_correct:
  "contract evs \<Longrightarrow> \<exists>oc. open_tool_calls evs = Inr oc \<and> fst ` set oc = open_at evs"
proof (induction evs rule: rev_induct)
  case Nil
  show ?case by (simp add: open_tool_calls_def open_at_def)
next
  case (snoc e evs)
  then have adm: "admissible evs e" and c: "contract evs" by (simp_all add: contract_snoc)
  from snoc.IH [OF c] obtain oc where oc: "open_tool_calls evs = Inr oc" "fst ` set oc = open_at evs" by blast
  have "\<exists>oc'. open_call_step e oc = Inr oc' \<and> fst ` set oc' = open_at (evs @ [e])"
  proof (cases "is_result e")
    case True
    then obtain c where c: "json_get e ''call_sequence_number'' = JInt c" "c \<in> open_at evs" using admissible_result [OF adm] by (auto simp: closes_def)
    moreover have "0 < c" using open_at_range [OF c(2)] by simp
    moreover have "{c'. answers e c'} = {c}" using c True by (auto simp: answers_def)
    moreover have "kind_of e \<noteq> ''tool_call''" using True kinds_distinct by blast
    ultimately show ?thesis using oc(2) open_at_snoc [OF snoc.prems [unfolded contract_snoc, THEN conjunct1] adm] True
        admissible_sequence [OF adm] call_sequence_at [OF c(1)]
      by (simp add: open_call_step_def is_result_def kind_of_def keys_delete)
  next
    case False
    then have "{c'. answers e c'} = {}" by (simp add: answers_def)
    then show ?thesis using oc(2) open_at_snoc [OF c adm] False admissible_sequence [OF adm]
      by (simp add: open_call_step_def is_result_def kind_of_def keys_update)
  qed
  then show ?case using oc(1) by (auto simp: open_tool_calls_def fold_result_append)
qed

lemma traverse_nth: "(\<And>i. i < length xs \<Longrightarrow> f (xs ! i) = Inr (g i)) \<Longrightarrow> traverse f xs = Inr (map g [0..<length xs])"
proof (induction xs arbitrary: g)
  case (Cons x xs)
  have "traverse f xs = Inr (map (\<lambda>i. g (Suc i)) [0..<length xs])" using Cons.prems [of "Suc _"] by (intro Cons.IH) auto
  moreover have "map g [0..<length (x # xs)] = g 0 # map (\<lambda>i. g (Suc i)) [0..<length xs]"
    by (simp add: map_upt_Suc del: upt_Suc)
  ultimately show ?case using Cons.prems [of 0] by (simp del: upt_Suc)
qed simp

lemma contract_traverse: "contract evs \<Longrightarrow> traverse event_sequence evs = Inr (map (\<lambda>i. int i + 1) [0..<length evs])"
  by (rule traverse_nth) (rule contract_sequence)

lemma next_sequence_correct: "contract evs \<Longrightarrow> next_sequence evs = Inr (int (length evs) + 1)"
proof -
  assume c: "contract evs"
  have "Max ((\<lambda>i. int i + 1) ` {0..<length evs}) = int (length evs)" if "evs \<noteq> []"
  proof (rule Max_eqI)
    show "int (length evs) \<in> (\<lambda>i. int i + 1) ` {0..<length evs}"
      using that by (cases "length evs") (auto intro!: image_eqI)
  qed auto
  then show ?thesis using contract_traverse [OF c] by (auto simp: next_sequence_def)
qed

lemma event_by_sequence_correct:
  "contract evs \<Longrightarrow> 0 < c \<Longrightarrow> c \<le> int (length evs) \<Longrightarrow> event_by_sequence evs c = Inr (Some (evs ! nat (c - 1)))"
proof -
  have gen: "\<forall>i < length es. event_sequence (es ! i) = Inr (int i + 1 + k) \<Longrightarrow> k < c \<Longrightarrow> c \<le> int (length es) + k \<Longrightarrow>
      event_by_sequence es c = Inr (Some (es ! nat (c - 1 - k)))" for es and k c :: int
  proof (induction es arbitrary: k)
    case (Cons e es)
    have first: "event_sequence e = Inr (1 + k)" using Cons.prems(1) [rule_format, of 0] by simp
    show ?case
    proof (cases "c = 1 + k")
      case False
      have "\<forall>i < length es. event_sequence (es ! i) = Inr (int i + 1 + (1 + k))" using Cons.prems(1) by fastforce
      moreover have "1 + k < c" "c \<le> int (length es) + (1 + k)" using Cons.prems(2,3) False by auto
      ultimately have "event_by_sequence es c = Inr (Some (es ! nat (c - 1 - (1 + k))))" using Cons.IH by blast
      moreover have "nat (c - 1 - k) = Suc (nat (c - 1 - (1 + k)))" using \<open>1 + k < c\<close> by simp
      ultimately show ?thesis using first False by simp
    qed (use first in simp)
  qed simp
  show "contract evs \<Longrightarrow> 0 < c \<Longrightarrow> c \<le> int (length evs) \<Longrightarrow> event_by_sequence evs c = Inr (Some (evs ! nat (c - 1)))"
    using gen [of evs 0 c] contract_sequence by simp
qed

section \<open>Events before they are appended\<close>

definition event_base :: "string \<Rightarrow> dict \<Rightarrow> bool" where
  "event_base kind e \<longleftrightarrow> unique_keys (JObj e) \<and> json_get e ''kind'' = JStr kind \<and>
     json_get e ''event_seq'' = JNull \<and> json_get e ''sequence_number'' = JNull"

lemma base_put: "event_base kind e \<Longrightarrow> k \<notin> {''kind'', ''event_seq'', ''sequence_number''} \<Longrightarrow> unique_keys v \<Longrightarrow>
    event_base kind (AList.update k v e)"
  unfolding event_base_def by (intro conjI unique_put) auto

lemma base_set: "event_base kind e \<Longrightarrow> k \<notin> {''kind'', ''event_seq'', ''sequence_number''} \<Longrightarrow> event_base kind (set_str k s e)"
  unfolding set_str_def by (rule base_put) simp_all

lemma base_fields:
  "event_base kind e \<Longrightarrow> \<forall>(k, v) \<in> set extra. k \<notin> {''kind'', ''event_seq'', ''sequence_number''} \<and> unique_keys v \<Longrightarrow>
   event_base kind (update_fields extra e)"
  unfolding update_fields_def by (induction extra arbitrary: e) (auto simp: base_put)

lemma base_event:
  "event_base kind [(''ledger_schema_version'', JStr ''1.0''), (''kind'', JStr kind), (''event_type'', JStr t),
     (''session_id'', JStr s), (''run_id'', JStr s), (''timestamp'', JStr now), (''tool_name'', JStr [])]"
  by (simp add: event_base_def json_get_def)

lemma built_base:
  "build_event now sid kind t extra = Inr e \<Longrightarrow>
   \<forall>(k, v) \<in> set extra. k \<notin> {''kind'', ''event_seq'', ''sequence_number''} \<and> unique_keys v \<Longrightarrow> event_base kind e"
  using base_event base_fields by (fastforce simp: build_event_def Let_def split: if_splits)

lemma payload_fields_base: "event_base kind e \<Longrightarrow> unique_keys (JObj payload) \<Longrightarrow> event_base kind (fold payload_field payload e)"
proof (induction payload arbitrary: e)
  case (Cons kv payload)
  have "event_base kind (payload_field kv e)"
    using Cons.prems base_put [of kind e "py_strip (fst kv)" "snd kv"] by (auto simp: payload_field_def Let_def PROTECTED_FIELDS_def)
  then show ?case using Cons by (auto simp: split_beta)
qed simp

lemma payload_event_base: "payload_event now sid kind payload = Inr e \<Longrightarrow> unique_keys (JObj payload) \<Longrightarrow> event_base kind e"
  using built_base [of now sid kind kind "[]"] payload_fields_base base_set
  by (fastforce simp: payload_event_def Let_def bind_result_Inr_iff simp del: unique_keys.simps)

lemma unique_set: "unique_keys (JObj d) \<Longrightarrow> unique_keys (JObj (set_str k s d))"
  unfolding set_str_def by (intro unique_put) simp_all

lemma normalize_ref_unique: "unique_keys (JObj c) \<Longrightarrow> unique_keys (JObj (fold normalize_ref ks c))"
  by (induction ks arbitrary: c) (auto simp: normalize_ref_def Let_def unique_set unique_delete simp del: unique_keys.simps)

definition gives_unique :: "dict result \<Rightarrow> bool" where
  "gives_unique r \<longleftrightarrow> (\<forall>c. r = Inr c \<longrightarrow> unique_keys (JObj c))"

lemma let_unique: "unique_keys (JObj d) \<Longrightarrow> (\<And>c. unique_keys (JObj c) \<Longrightarrow> gives_unique (b c)) \<Longrightarrow> gives_unique (Let d b)"
  by (simp only: Let_def)

lemma scopes_unique: "unique_keys (JObj c) \<Longrightarrow>
    gives_unique (bind_result r (\<lambda>tokens. Inr (fold normalize_ref ks (AList.update k (JArr (stripped_texts tokens)) c))))"
  unfolding gives_unique_def bind_result_Inr_iff
  by (auto simp: stripped_texts_def list_all_iff intro!: normalize_ref_unique unique_put simp del: unique_keys.simps(2))

lemma manifest_candidate_unique: "unique_keys (JObj m) \<Longrightarrow> gives_unique (manifest_candidate m rid t)"
  unfolding manifest_candidate_def by (intro let_unique scopes_unique unique_set)

lemma manifest_unique:
  "resolve_tool_invocation_manifest E sid payload event = Inr (Some m) \<Longrightarrow> unique_keys (JObj payload) \<Longrightarrow> unique_keys (JObj m)"
proof -
  assume r: "resolve_tool_invocation_manifest E sid payload event = Inr (Some m)" and p: "unique_keys (JObj payload)"
  then obtain m0 where m0: "manifest_of payload = Some m0"
    by (cases "manifest_of payload") (auto simp: resolve_tool_invocation_manifest_def normalize_tool_invocation_manifest_def)
  then have "unique_keys (JObj m0)" using unique_value [OF p, of "''tool_invocation_manifest''"] by (simp add: manifest_of_def split: json.splits)
  then show ?thesis using r m0 manifest_candidate_unique [of m0] unique_set unfolding gives_unique_def
    unfolding resolve_tool_invocation_manifest_def normalize_tool_invocation_manifest_def
    by (auto simp: bind_result_Inr_iff simp del: unique_keys.simps split: if_splits)
qed

lemma args_unique: "unique_keys (JObj payload) \<Longrightarrow> unique_keys (JObj (tool_args_of payload))"
proof -
  assume p: "unique_keys (JObj payload)"
  show ?thesis using unique_value [OF p, of "''tool_args''"] unique_value [OF p, of "''args''"]
    by (cases "json_get payload ''tool_args''"; cases "json_get payload ''args''") (simp_all add: tool_args_of_def)
qed

lemma invocation_base:
  assumes "event_base kind e" and "unique_keys (JObj payload)" and "unique_keys (JObj m)"
  shows "event_base kind (invocation_fields E k payload m e)"
  using assms args_unique [OF assms(2)] by (simp add: invocation_fields_def Let_def base_put base_set del: unique_keys.simps)

lemma prepared_base: "prepare_event E now sid kind payload = Inr (Inr e) \<Longrightarrow> unique_keys (JObj payload) \<Longrightarrow> event_base kind e"
  using payload_event_base invocation_base manifest_unique
  by (auto simp: prepare_event_def bind_result_Inr_iff simp del: unique_keys.simps split: if_splits option.splits)

section \<open>What the checks establish\<close>

lemma reject_not_event [simp]: "reject sid c x \<noteq> Inr (Inr e)" "reject sid c x \<noteq> Inl err"
  by (simp_all add: reject_def)

lemma check_result_sound:
  assumes "contract evs" and "fst ` set oc = open_at evs" and "event_base kind event"
    and "check_result sid payload event evs oc (int (length evs) + 1) = Inr (Inr event')"
  shows "event_base kind event' \<and> (\<exists>c h. closes evs event' c h)"
proof -
  from assms(4) obtain c where c: "coerce_int (json_get payload ''call_sequence_number'') = Some c" "0 < c" "c \<le> int (length evs)"
    unfolding check_result_def by (fastforce split: option.splits if_splits)
  define call where "call = evs ! nat (c - 1)"
  define observed where "observed = py_strip (str_get_or event ''tool_call_hash'' (text_of payload ''tool_call_hash''))"
  have "event_by_sequence evs c = Inr (Some call)" using event_by_sequence_correct [OF assms(1) c(2,3)] by (simp add: call_def)
  then have r: "map_of oc c \<noteq> None" "observed \<noteq> []" "strip_of call ''tool_call_hash'' \<in> {[], observed}"
    and e: "event' = (let event = set_str ''tool_call_hash'' observed (AList.update ''call_sequence_number'' (JInt c) event) in
      if strip_of event ''tool_name'' = [] then set_str ''tool_name'' (text_of call ''tool_name'') event else event)"
    using assms(4) c unfolding check_result_def observed_def by (auto simp: Let_def split: if_splits)
  have "json_get event' ''call_sequence_number'' = JInt c" "json_get event' ''tool_call_hash'' = JStr observed"
    unfolding e by (simp_all add: Let_def set_str_def)
  moreover have "stripped observed" by (simp add: observed_def)
  moreover have "c \<in> open_at evs" using r(1) assms(2) by (metis domIff dom_map_of_conv_image_fst)
  ultimately have "closes evs event' c observed" using r(2,3) by (simp add: closes_def hashed_def call_def)
  moreover have "event_base kind event'" unfolding e using assms(3) by (simp add: Let_def base_put base_set)
  ultimately show ?thesis by blast
qed

lemma check_artifact_sound:
  "event_base kind event \<Longrightarrow> check_artifact sid payload event evs oc h = Inr (Inr event') \<Longrightarrow>
   event_base kind event' \<and> json_get event' ''tool_call_hash'' = json_get event ''tool_call_hash''"
  by (auto simp: check_artifact_def bind_result_Inr_iff base_put base_set set_str_def split: option.splits if_splits)

definition checked :: "dict list \<Rightarrow> string \<Rightarrow> dict \<Rightarrow> bool" where
  "checked evs kind event \<longleftrightarrow> event_base kind event \<and>
     (is_result_kind (py_strip kind) \<longrightarrow> (\<exists>c h. closes evs event c h)) \<and>
     (kind = ''tool_call'' \<longrightarrow> (\<exists>h. hashed event h)) \<and>
     (kind \<in> {''tool_call'', ''run_finalized''} \<longrightarrow> open_at evs = {})"

lemma ordering_sound:
  assumes "contract evs" and "event_base kind event" and "kind = ''tool_call'' \<Longrightarrow> \<exists>h. hashed event h"
    and "validate_ordering_contract sid kind payload event evs = Inr (Inr event')"
  shows "checked evs kind event'"
proof -
  obtain oc where oc: "open_tool_calls evs = Inr oc" "fst ` set oc = open_at evs" using open_calls_correct [OF assms(1)] by blast
  define artifact_hash where "artifact_hash = py_strip (str_get_or event ''artifact_hash'' (text_of payload ''artifact_hash''))"
  have v: "(if py_strip kind = ''run_finalized'' \<and> oc \<noteq> [] then reject sid ''E_ORPHANED_TOOL_CALL'' [(''open_call_sequence_number'', JInt (hd (sort (map fst oc))))]
      else if py_strip kind = ''tool_call'' \<and> oc \<noteq> [] then reject sid ''E_LEDGER_CALL_RESULT_ORDER'' [(''open_call_sequence_number'', JInt (hd (sort (map fst oc))))]
      else if is_result_kind (py_strip kind) then check_result sid payload event evs oc (int (length evs) + 1)
      else if artifact_hash \<noteq> [] then check_artifact sid payload event evs oc artifact_hash else Inr (Inr event)) = Inr (Inr event')"
    using assms(4) next_sequence_correct [OF assms(1)] oc(1) unfolding validate_ordering_contract_def artifact_hash_def Let_def by simp
  have closed: "kind \<in> {''tool_call'', ''run_finalized''} \<Longrightarrow> open_at evs = {}"
    using v oc(2) kind_strips by (auto split: if_splits)
  show ?thesis
  proof (cases "is_result_kind (py_strip kind)")
    case True
    have "py_strip kind \<noteq> ''run_finalized''" "py_strip kind \<noteq> ''tool_call''"
      using True by (auto simp: is_result_kind_def TOOL_RESULT_KINDS_def)
    then have "check_result sid payload event evs oc (int (length evs) + 1) = Inr (Inr event')" using v True by simp
    moreover have "kind \<noteq> ''tool_call''" using \<open>py_strip kind \<noteq> ''tool_call''\<close> kind_strips by auto
    ultimately show ?thesis using check_result_sound [OF assms(1) oc(2) assms(2)] closed unfolding checked_def by blast
  next
    case False
    moreover have "event_base kind event' \<and> json_get event' ''tool_call_hash'' = json_get event ''tool_call_hash''"
      using v False assms(2) check_artifact_sound by (auto split: if_splits)
    ultimately show ?thesis using closed assms(3) unfolding checked_def hashed_def by auto
  qed
qed

section \<open>Appending\<close>

definition appended_event :: "int \<Rightarrow> dict \<Rightarrow> dict" where
  "appended_event n event = stored_payload (number_event n (AList.update ''sequence_number'' (JInt n) event))"

lemma appended_get:
  assumes "event_base kind event" and "k \<noteq> ''event_seq''" and "k \<noteq> ''sequence_number''"
  shows "json_get (appended_event n event) k = canon (json_get event k)"
  using assms by (simp add: appended_event_def number_event_def get_stored distinct_update event_base_def)

lemma appended_seq: "event_base kind event \<Longrightarrow> json_get (appended_event n event) ''event_seq'' = JInt n"
  by (simp add: appended_event_def number_event_def get_stored distinct_update event_base_def)

lemma appended_kind: "event_base kind event \<Longrightarrow> kind_of (appended_event n event) = kind"
  using appended_get [of kind event "''kind''" n]
  by (simp add: kind_of_def text_of_def str_get_or_def py_str_json_def event_base_def Let_def)

lemma text_of_JStr: "json_get e k = JStr s \<Longrightarrow> text_of e k = s"
  by (simp add: text_of_def str_get_or_def py_str_json_def)

lemma checked_admissible:
  assumes "checked evs kind event"
  shows "admissible evs (appended_event (int (length evs) + 1) event)"
proof -
  let ?e = "appended_event (int (length evs) + 1) event"
  have base: "event_base kind event" using assms by (simp add: checked_def)
  have hash: "hashed ?e = hashed event" using appended_get [OF base] by (simp add: hashed_def fun_eq_iff)
  have "closes evs ?e = closes evs event" using appended_get [OF base] by (simp add: closes_def hash fun_eq_iff)
  moreover have "strip_of ?e ''kind'' = py_strip kind" using appended_kind [OF base] by (simp add: strip_of_def kind_of_def)
  ultimately show ?thesis using assms appended_kind [OF base] appended_seq [OF base] hash
    unfolding admissible_def checked_def is_result_def by simp
qed

lemma dir_holds_frame: "rd_events d' = rd_events d \<Longrightarrow> dir_holds E d' evs = dir_holds E d evs"
  by (simp add: dir_holds_def)

lemma log_append_frame: "log_append E p d = (r, d') \<Longrightarrow> d' = d\<lparr>rd_events := rd_events d'\<rparr>"
  by (auto simp: log_append_def split: prod.splits)

text \<open>The append under the lock: refused with nothing written, or one more event.\<close>

lemma locked_append:
  assumes "dir_holds E d evs" and "event_base kind event" and "append_event_locked E event evs d = (r, d')"
  obtains (refused) err where "r = Inl err" and "d' = d"
    | (appended) v where "r = Inr v" and "dir_holds E d' (evs @ [appended_event (int (length evs) + 1) event])"
        and "d' = d\<lparr>rd_events := rd_events d'\<rparr>" and "check_clock E event evs = Inr ()"
proof (cases "check_clock E event evs")
  case (Inl err)
  then have "r = Inl err" "d' = d" using assms(3) by (simp_all add: append_event_locked_def)
  then show ?thesis by (rule refused)
next
  case (Inr u)
  let ?n = "int (length evs) + 1"
  let ?p = "AList.update ''sequence_number'' (JInt ?n) event"
  have p: "unnumbered ?p" using assms(2) unique_put [of event "JInt ?n" "''sequence_number''"] by (simp add: unnumbered_def event_base_def del: unique_keys.simps(2))
  have given: "json_get event ''sequence_number'' = JNull" using assms(2) by (simp add: event_base_def)
  have run: "append_event_locked E event evs d =
      bind_eff (log_append E ?p) (\<lambda>appended.
        bind_eff (lift_result (py_int (json_or (json_or (json_get appended ''event_seq'') (json_get appended ''sequence_number'')) (JInt ?n))))
          (\<lambda>s. lift_result (Inr (AList.update ''sequence_number'' (JInt s) appended)))) d"
    using Inr framed.next_seq_holds [OF assms(1)] given
    by (simp add: append_event_locked_def bind_eff_def lift_result_def json_or_def py_int_def)
  obtain r1 d1 where put: "log_append E ?p d = (r1, d1)" by force
  from framed.put_cases [OF assms(1) p put] show ?thesis
  proof cases
    case (1 err)
    then show ?thesis using run put assms(3) refused by (simp add: bind_eff_def)
  next
    case 2
    then have "json_get (number_event ?n ?p) ''event_seq'' = JInt ?n" by (simp add: number_event_def)
    then have "append_event_locked E event evs d = (Inr (AList.update ''sequence_number'' (JInt ?n) (number_event ?n ?p)), d1)"
      using run put 2(1) by (simp add: bind_eff_def lift_result_def json_or_def py_int_def)
    then have "r = Inr (AList.update ''sequence_number'' (JInt ?n) (number_event ?n ?p))" "d' = d1" using assms(3) by simp_all
    then show ?thesis using 2(2) log_append_frame [OF put] appended Inr by (simp add: appended_event_def)
  qed
qed

section \<open>Operations\<close>

lemma stripped_if: "\<forall>c \<in> set s. \<not> py_isspace c \<Longrightarrow> stripped s"
proof -
  assume ns: "\<forall>c \<in> set s. \<not> py_isspace c"
  have "dropWhile py_isspace xs = xs" if "set xs \<subseteq> set s" for xs using that ns by (cases xs) auto
  then have "dropWhile py_isspace s = s" "dropWhile py_isspace (rev s) = rev s" by simp_all
  then show ?thesis by (simp add: stripped_def py_strip_def)
qed

lemma hex_stripped: "hex_digest s \<Longrightarrow> s \<noteq> [] \<and> stripped s"
proof -
  assume h: "hex_digest s"
  have "\<forall>c \<in> set ''0123456789abcdef''. \<not> py_isspace c" by code_simp
  then have "\<forall>c \<in> set s. \<not> py_isspace c" using h unfolding hex_digest_def by blast
  moreover have "s \<noteq> []" using h by (auto simp: hex_digest_def)
  ultimately show ?thesis using stripped_if by blast
qed

lemma prepared_call_hashed:
  "env_ok E \<Longrightarrow> prepare_event E now sid ''tool_call'' payload = Inr (Inr e) \<Longrightarrow> \<exists>h. hashed e h"
proof -
  assume E: "env_ok E" and p: "prepare_event E now sid ''tool_call'' payload = Inr (Inr e)"
  then obtain m e' where e: "e = invocation_fields E ''tool_call'' payload m e'"
    by (auto simp: prepare_event_def TOOL_INVOCATION_KINDS_def bind_result_Inr_iff split: option.splits)
  have "hex_digest (compute_tool_call_hash (le_sha256 E) n a v c)" for n a v c
    using E by (simp add: env_ok_def compute_tool_call_hash_def hash_canonical_json_def)
  then show ?thesis using hex_stripped unfolding e invocation_fields_def by (auto simp: Let_def hashed_def set_str_def)
qed

definition reserved_row :: "ledger_env \<Rightarrow> string \<Rightarrow> dict \<Rightarrow> int \<Rightarrow> commit_row" where
  "reserved_row E kind payload n =
     \<lparr>cr_operation_id = operation_id_of payload, cr_event_seq = n, cr_entry_digest = entry_digest_of E kind payload\<rparr>"

definition winners_of :: "ledger_env \<Rightarrow> run_dir \<Rightarrow> string \<Rightarrow> commit_row option" where
  "winners_of E d = file_winners (le_loads E) (rd_commits d)"

definition reserves :: "string \<Rightarrow> dict \<Rightarrow> bool" where
  "reserves kind payload \<longleftrightarrow> is_result_kind kind \<and> operation_id_of payload \<noteq> []"

lemma reserved_row_ok:
  "env_ok E \<Longrightarrow> operation_id_of payload \<noteq> [] \<Longrightarrow> 0 < n \<Longrightarrow> row_ok (operation_id_of payload) (reserved_row E kind payload n)"
  using hex_stripped by (simp add: env_ok_def reserved_row_def row_ok_def operation_id_of_def strip_of_def entry_digest_of_def hash_canonical_json_def)

lemma reserve_cases:
  assumes "dir_holds E d evs" and "reserve_operation E sid kind payload d = (r, d1)"
  obtains (kept) "d1 = d" and "r = Inr None \<Longrightarrow> \<not> reserves kind payload"
    | (reserved) "r = Inr None" and "reserves kind payload" and "winners_of E d (operation_id_of payload) = None"
        and "winners_of E d1 = (winners_of E d)(operation_id_of payload \<mapsto> reserved_row E kind payload (int (length evs) + 1))"
        and "d1 = d\<lparr>rd_commits := rd_commits d1\<rparr>"
proof (cases "reserves kind payload")
  case False
  then have "reserve_operation E sid kind payload = lift_result (Inr None)" by (auto simp: reserve_operation_def reserves_def)
  then show ?thesis using assms(2) False kept by (simp add: lift_result_def)
next
  case True
  have E: "env_ok E" using assms(1) by (simp add: dir_holds_def)
  let ?row = "reserved_row E kind payload (int (length evs) + 1)"
  have ok: "row_ok (operation_id_of payload) ?row" using reserved_row_ok [OF E] True by (simp add: reserves_def)
  obtain f where f: "registry_commit (le_loads E) (operation_id_of payload) (int (length evs) + 1) (entry_digest_of E kind payload)
      (open_registry (rd_commits d)) = f" by simp
  have fields: "cr_event_seq ?row = int (length evs) + 1" "cr_entry_digest ?row = entry_digest_of E kind payload"
    by (simp_all add: reserved_row_def)
  note commit = commit_open [OF ok, of "le_loads E" "rd_commits d", unfolded fields]
  have run: "reserve_operation E sid kind payload d = (case f of
      (Inl e, reg) \<Rightarrow> (Inl e, d\<lparr>rd_commits := reg_file reg\<rparr>)
    | (Inr dec, reg) \<Rightarrow> (Inr (if cd_accepted dec then None else Some (operation_rejected sid (operation_id_of payload)
          (cd_winner_event_seq dec) (cd_winner_entry_digest dec) (cd_idempotent_reuse dec))), d\<lparr>rd_commits := reg_file reg\<rparr>))"
    using True framed.next_seq_holds [OF assms(1)] f
    by (auto simp: reserve_operation_def reserve_operation_commit_def reserves_def op_commit_def bind_eff_def lift_result_def split: prod.splits sum.splits)
  show ?thesis
  proof (cases "winners_of E d (operation_id_of payload)")
    case None
    then have "f = (Inr \<lparr>cd_accepted = True, cd_operation_id = operation_id_of payload, cd_winner_event_seq = int (length evs) + 1,
        cd_winner_entry_digest = entry_digest_of E kind payload, cd_error_code = None, cd_idempotent_reuse = False\<rparr>,
        persist (le_loads E) ((ensure_loaded (le_loads E) (open_registry (rd_commits d)))\<lparr>reg_entries :=
          AList.update (operation_id_of payload) ?row (reg_entries (ensure_loaded (le_loads E) (open_registry (rd_commits d))))\<rparr>))"
      using f commit by (simp add: winners_of_def)
    then show ?thesis using run assms(2) None True reserved E persisted_commit [OF _ ok, of "le_loads E" "rd_commits d"]
      by (simp add: winners_of_def env_ok_def)
  next
    case (Some w)
    then obtain dec where "f = (Inr dec, ensure_loaded (le_loads E) (open_registry (rd_commits d)))" "\<not> cd_accepted dec"
      using f commit by (force simp: winners_of_def)
    then have "r \<noteq> Inr None" "d1 = d" using run assms(2) by simp_all
    then show ?thesis using kept by simp
  qed
qed

end
