(* ===== verification/Run_Ledger_Guarantees.thy ===== *)
theory Run_Ledger_Guarantees
  imports Run_Ledger_Invariants
begin

text \<open>
  What the protocol run ledger guarantees for every directory that its operations can reach: results
  answer the open call with its hash and at most once, calls do not overlap, a run is finalized only without
  open calls, the number of tool invocations is bounded, and an operation has at most one result.
\<close>

section \<open>What an append does\<close>

lemma append_prepared_run:
  assumes "dir_holds E d evs"
  shows "append_prepared E sid kind payload event d =
    (case invocation_limit E sid kind evs of Some r \<Rightarrow> (Inr r, d) | None \<Rightarrow>
     (case fst (check_duplicate E sid kind payload d) of Inr (Some r) \<Rightarrow> (Inr r, d) | _ \<Rightarrow>
     (case validate_ordering_contract sid kind payload event evs of
        Inl err \<Rightarrow> (Inl err, d)
      | Inr (Inl rej) \<Rightarrow> (Inr rej, d)
      | Inr (Inr event') \<Rightarrow>
         (case fst (check_call_operation E sid kind payload d) of Inr (Some r) \<Rightarrow> (Inr r, d) | _ \<Rightarrow>
         (case reserve_operation E sid kind payload d of
            (Inl err, d1) \<Rightarrow> (Inl err, d1)
          | (Inr (Some r), d1) \<Rightarrow> (Inr r, d1)
          | (Inr None, d1) \<Rightarrow> append_event_locked E event' evs d1)))))"
  using framed.replay_holds [OF assms]
  by (auto simp: append_prepared_def unless_rejected_def bind_eff_def lift_result_def check_duplicate_def check_call_operation_def
      read_eff_def split: option.splits sum.splits prod.splits)

definition reserved_in :: "ledger_env \<Rightarrow> string \<Rightarrow> dict \<Rightarrow> int \<Rightarrow> run_dir \<Rightarrow> run_dir \<Rightarrow> bool" where
  "reserved_in E kind payload n d d1 \<longleftrightarrow>
     (if reserves kind payload
      then winners_of E d (operation_id_of payload) = None \<and>
           winners_of E d1 = (winners_of E d)(operation_id_of payload \<mapsto> reserved_row E kind payload n)
      else winners_of E d1 = winners_of E d)"

definition reserve_and_append ::
  "ledger_env \<Rightarrow> string \<Rightarrow> string \<Rightarrow> dict \<Rightarrow> dict \<Rightarrow> dict list \<Rightarrow> (run_dir, dict) eff" where
  "reserve_and_append E sid kind payload event evs d =
     (case reserve_operation E sid kind payload d of
        (Inl err, d1) \<Rightarrow> (Inl err, d1)
      | (Inr (Some r), d1) \<Rightarrow> (Inr r, d1)
      | (Inr None, d1) \<Rightarrow> append_event_locked E event evs d1)"

lemma events_update_fields:
  "d' = d\<lparr>rd_events := x\<rparr> \<Longrightarrow> rd_commits d' = rd_commits d \<and> rd_receipts d' = rd_receipts d \<and> rd_graph d' = rd_graph d"
  by simp

lemma reserve_and_append_cases:
  assumes "dir_holds E d evs" and "event_base kind event" and "reserve_and_append E sid kind payload event evs d = (r, d')"
  shows "d' = d \<or>
    (\<exists>err. r = Inl err \<and> reserves kind payload \<and> rd_events d' = rd_events d \<and> rd_receipts d' = rd_receipts d \<and>
       reserved_in E kind payload (int (length evs) + 1) d d') \<or>
    (\<exists>v. r = Inr v \<and> dir_holds E d' (evs @ [appended_event (int (length evs) + 1) event]) \<and> rd_receipts d' = rd_receipts d \<and>
       reserved_in E kind payload (int (length evs) + 1) d d')" (is "?kept \<or> ?reserved \<or> ?appended")
proof -
  obtain r1 d1 where res: "reserve_operation E sid kind payload d = (r1, d1)" by force
  have append: "d' = d1 \<and> (\<exists>err. r = Inl err) \<or> ?appended"
    if none: "r1 = Inr None" and h: "dir_holds E d1 evs" and rv: "reserved_in E kind payload (int (length evs) + 1) d d1"
      and fr: "rd_receipts d1 = rd_receipts d"
  proof -
    have "append_event_locked E event evs d1 = (r, d')" using assms(3) res none by (simp add: reserve_and_append_def)
    from locked_append [OF h assms(2) this] show ?thesis
    proof cases
      case (2 v)
      then show ?thesis using events_update_fields [OF 2(3)] rv fr by (auto simp: reserved_in_def winners_of_def)
    qed auto
  qed
  from reserve_cases [OF assms(1) res] show ?thesis
  proof cases
    case 1
    show ?thesis
    proof (cases "r1 = Inr None")
      case True
      then have "reserved_in E kind payload (int (length evs) + 1) d d1" using 1 by (simp add: reserved_in_def)
      then show ?thesis using append True 1(1) assms(1) by blast
    next
      case False
      then have "d' = d1" using assms(3) res by (auto simp: reserve_and_append_def split: sum.splits option.splits)
      then show ?thesis using 1(1) by blast
    qed
  next
    case 2
    have fr: "rd_receipts d1 = rd_receipts d" "rd_events d1 = rd_events d" using 2(5)
      by (metis run_dir.ext_inject run_dir.surjective run_dir.update_convs(2))+
    have "reserved_in E kind payload (int (length evs) + 1) d d1" using 2 by (simp add: reserved_in_def)
    then show ?thesis using append 2(1,2) fr assms(1) dir_holds_frame [OF fr(2)] by blast
  qed
qed

lemma append_event_cases:
  assumes "dir_holds E d evs" and "contract evs" and payload: "unique_keys (JObj payload)" and "append_run_event E now sid kind payload d = (r, d')"
  obtains (kept) "d' = d"
    | (reserved) err where "r = Inl err" and "reserves kind payload" and "rd_events d' = rd_events d"
        and "rd_receipts d' = rd_receipts d" and "reserved_in E kind payload (int (length evs) + 1) d d'"
    | (appended) e0 event v where "r = Inr v" and "prepare_event E now sid kind payload = Inr (Inr e0)"
        and "validate_ordering_contract sid kind payload e0 evs = Inr (Inr event)" and "checked evs kind event"
        and "dir_holds E d' (evs @ [appended_event (int (length evs) + 1) event])"
        and "invocation_limit E sid kind evs = None" and "rd_receipts d' = rd_receipts d"
        and "reserved_in E kind payload (int (length evs) + 1) d d'"
proof -
  have E: "env_ok E" using assms(1) by (simp add: dir_holds_def)
  consider "d' = d" | e0 event where "prepare_event E now sid kind payload = Inr (Inr e0)"
      "validate_ordering_contract sid kind payload e0 evs = Inr (Inr event)" "invocation_limit E sid kind evs = None"
      "reserve_and_append E sid kind payload event evs d = (r, d')"
    using assms(4) append_prepared_run [OF assms(1), of sid kind payload, folded reserve_and_append_def]
    by (cases "prepare_event E now sid kind payload")
      (auto simp: append_run_event_def bind_eff_def lift_result_def split: sum.splits option.splits)
  then show ?thesis
  proof cases
    case 1
    then show ?thesis by (rule kept)
  next
    case (2 e0 event)
    have ck: "checked evs kind event"
      using ordering_sound [OF assms(2) prepared_base [OF 2(1) payload] _ 2(2)] prepared_call_hashed [OF E] 2(1) by blast
    then have "event_base kind event" by (simp add: checked_def)
    from reserve_and_append_cases [OF assms(1) this 2(4)] show ?thesis
      using kept reserved appended [OF _ 2(1,2) ck _ 2(3)] by blast
  qed
qed

section \<open>What starting and finalizing do\<close>

lemma started_checked: "event_base ''run_started'' event \<Longrightarrow> checked evs ''run_started'' event"
proof -
  have "py_strip ''run_started'' = ''run_started''" by code_simp
  then show "event_base ''run_started'' event \<Longrightarrow> checked evs ''run_started'' event"
    by (simp add: checked_def is_result_kind_def TOOL_RESULT_KINDS_def)
qed

text \<open>The outcome of a call that appends at most one event of a kind and reserves nothing.\<close>

definition plain_outcome :: "ledger_env \<Rightarrow> string \<Rightarrow> dict list \<Rightarrow> run_dir \<Rightarrow> run_dir \<Rightarrow> bool" where
  "plain_outcome E kind evs d d' \<longleftrightarrow> rd_commits d' = rd_commits d \<and> rd_receipts d' = rd_receipts d \<and>
     (rd_events d' = rd_events d \<or>
      (\<exists>event. checked evs kind event \<and> dir_holds E d' (evs @ [appended_event (int (length evs) + 1) event])))"

lemma locked_outcome:
  assumes "dir_holds E d evs" and "checked evs kind event" and "append_event_locked E event evs d = (r, d')"
  shows "plain_outcome E kind evs d d'"
proof -
  have "event_base kind event" using assms(2) by (simp add: checked_def)
  from locked_append [OF assms(1) this assms(3)] show ?thesis
  proof cases
    case (2 v)
    then show ?thesis using events_update_fields [OF 2(3)] assms(2) by (auto simp: plain_outcome_def)
  qed (auto simp: plain_outcome_def)
qed

text \<open>The summaries and artifacts that the callers pass are dicts of Python.\<close>

definition start_ok :: "start_args \<Rightarrow> bool" where
  "start_ok a \<longleftrightarrow> unique_keys (JObj (dict_or_empty (sa_summary a))) \<and> unique_keys (JObj (dict_or_empty (sa_artifacts a)))"

definition finalize_ok :: "finalize_args \<Rightarrow> bool" where
  "finalize_ok a \<longleftrightarrow> unique_keys (JObj (dict_or_empty (fa_summary a))) \<and> unique_keys (JObj (dict_or_empty (fa_artifacts a)))"

lemma start_run_cases:
  assumes "dir_holds E d evs" and "start_run E now sid a d = (r, d')" and "start_ok a"
  obtains (raised) err where "r = Inl err" and "d' = d"
    | (found) e where "first_event_by_kind evs ''run_started'' = Some e" and "r = Inr e" and "d' = d"
    | (locked) event where "event_base ''run_started'' event" and "append_event_locked E event evs d = (r, d')"
proof -
  define extra where "extra = [(''run_type'', JStr (sa_run_type a)), (''run_name'', JStr (sa_run_name a)), (''department'', JStr (sa_department a)),
        (''build_id'', JStr (sa_build_id a)), (''status'', JStr ''running''),
        (''summary'', JObj (dict_or_empty (sa_summary a))), (''artifacts'', JObj (dict_or_empty (sa_artifacts a)))]"
  have keys: "\<forall>(k, v) \<in> set extra. k \<notin> {''kind'', ''event_seq'', ''sequence_number''} \<and> unique_keys v"
    using assms(3) by (simp add: extra_def start_ok_def)
  show ?thesis
  proof (cases "build_event now sid ''run_started'' ''run_started'' extra")
    case (Inl err)
    then have "r = Inl err" "d' = d" using assms(2) unfolding start_run_def extra_def [symmetric] by (simp_all add: bind_eff_def lift_result_def)
    then show ?thesis by (rule raised)
  next
    case (Inr event)
    then have run: "(case first_event_by_kind evs ''run_started'' of Some e \<Rightarrow> lift_result (Inr e)
        | None \<Rightarrow> append_event_locked E event evs) d = (r, d')"
      using assms(2) framed.replay_holds [OF assms(1)] unfolding start_run_def extra_def [symmetric] by (simp add: bind_eff_def lift_result_def)
    show ?thesis
    proof (cases "first_event_by_kind evs ''run_started''")
      case None
      then show ?thesis using run built_base [OF Inr keys] locked by simp
    next
      case (Some e)
      then show ?thesis using run found by (simp add: lift_result_def)
    qed
  qed
qed

lemma start_run_outcome:
  assumes "dir_holds E d evs" and "start_run E now sid a d = (r, d')" and "start_ok a"
  shows "plain_outcome E ''run_started'' evs d d'"
  using start_run_cases [OF assms]
proof cases
  case (3 event)
  then show ?thesis using locked_outcome [OF assms(1) started_checked] by blast
qed (simp_all add: plain_outcome_def)

lemma finalized_base: "finalized_event now sid status a = Inr event \<Longrightarrow> finalize_ok a \<Longrightarrow> event_base ''run_finalized'' event"
  unfolding finalized_event_def by (rule built_base) (auto simp: Let_def finalize_ok_def json_opt_str_def split: option.splits)

lemma graph_frame:
  "plain_outcome E kind evs (d\<lparr>rd_graph := g\<rparr>) d' \<Longrightarrow> plain_outcome E kind evs d d'"
  by (simp add: plain_outcome_def)

lemma finalize_run_outcome:
  assumes "dir_holds E d evs" and "contract evs" and "finalize_run E now sid a d = (r, d')" and "finalize_ok a"
  shows "plain_outcome E ''run_finalized'' evs d d'"
proof -
  have same: "plain_outcome E ''run_finalized'' evs d d" by (simp add: plain_outcome_def)
  consider "d' = d" | status event event' graph where "finalized_event now sid status a = Inr event"
      "validate_ordering_contract sid ''run_finalized'' [] event evs = Inr (Inr event')"
      "append_event_locked E event' evs (d\<lparr>rd_graph := Some graph\<rparr>) = (r, d')"
    using assms(3) framed.replay_holds [OF assms(1)] unfolding finalize_run_def write_run_graph_artifact_def bind_eff_def lift_result_def
    by (fastforce split: sum.splits option.splits prod.splits)
  then show ?thesis
  proof cases
    case 2
    have "checked evs ''run_finalized'' event'" using ordering_sound [OF assms(2) finalized_base [OF 2(1) assms(4)] _ 2(2)] by simp
    moreover have "dir_holds E (d\<lparr>rd_graph := Some graph\<rparr>) evs" using assms(1) by (simp add: dir_holds_def)
    ultimately show ?thesis using locked_outcome 2(3) graph_frame by blast
  qed (simp add: same)
qed

section \<open>Reachable directories\<close>

text \<open>
  One call on the directory of a run, whatever it answers, with event payloads that satisfy \<open>ok\<close>. The dicts
  that are passed in hold no key twice.
\<close>

inductive run_step :: "ledger_env \<Rightarrow> (dict \<Rightarrow> bool) \<Rightarrow> run_dir \<Rightarrow> run_dir \<Rightarrow> bool" for E ok where
  started: "start_ok a \<Longrightarrow> start_run E now sid a d = (r, d') \<Longrightarrow> run_step E ok d d'"
| finalized: "finalize_ok b \<Longrightarrow> finalize_run E now sid b d = (r, d') \<Longrightarrow> run_step E ok d d'"
| event: "ok payload \<Longrightarrow> unique_keys (JObj payload) \<Longrightarrow> append_run_event E now sid kind payload d = (r, d') \<Longrightarrow> run_step E ok d d'"
| receipt: "unique_keys (JObj rc) \<Longrightarrow> append_receipt E rc d = (r, d') \<Longrightarrow> run_step E ok d d'"

inductive run_reach :: "ledger_env \<Rightarrow> (dict \<Rightarrow> bool) \<Rightarrow> run_dir \<Rightarrow> bool" for E ok where
  fresh: "run_reach E ok empty_dir"
| step: "run_reach E ok d \<Longrightarrow> run_step E ok d d' \<Longrightarrow> run_reach E ok d'"

definition run_inv :: "ledger_env \<Rightarrow> run_dir \<Rightarrow> dict list \<Rightarrow> bool" where
  "run_inv E d evs \<longleftrightarrow> dir_holds E d evs \<and> contract evs \<and> tool_invocation_count evs \<le> max_tool_invocations_per_run E"

lemma count_snoc: "tool_invocation_count (evs @ [e]) =
    tool_invocation_count evs + (if kind_of e \<in> set TOOL_INVOCATION_KINDS then 1 else 0)"
  by (simp add: tool_invocation_count_def kind_of_def)

lemma run_inv_snoc:
  assumes "run_inv E d evs" and "checked evs kind event" and "dir_holds E d' (evs @ [appended_event (int (length evs) + 1) event])"
    and "kind \<in> set TOOL_INVOCATION_KINDS \<Longrightarrow> tool_invocation_count evs < max_tool_invocations_per_run E"
  shows "run_inv E d' (evs @ [appended_event (int (length evs) + 1) event])"
proof -
  have "kind_of (appended_event (int (length evs) + 1) event) = kind" using assms(2) appended_kind by (auto simp: checked_def)
  then show ?thesis using assms checked_admissible [OF assms(2)] by (auto simp: run_inv_def contract_snoc count_snoc)
qed

lemma plain_step:
  assumes "run_inv E d evs" and "plain_outcome E kind evs d d'" and "kind \<notin> set TOOL_INVOCATION_KINDS"
  shows "\<exists>evs'. run_inv E d' evs' \<and> prefix evs evs'"
proof (cases "rd_events d' = rd_events d")
  case True
  then show ?thesis using assms(1) dir_holds_frame [OF True] by (auto simp: run_inv_def)
next
  case False
  then obtain event where "checked evs kind event" "dir_holds E d' (evs @ [appended_event (int (length evs) + 1) event])"
    using assms(2) by (auto simp: plain_outcome_def)
  then have "run_inv E d' (evs @ [appended_event (int (length evs) + 1) event])" using run_inv_snoc [OF assms(1)] assms(3) by blast
  then show ?thesis using prefixI [OF refl] by blast
qed

lemma append_event_step:
  assumes "run_inv E d evs" and "append_run_event E now sid kind payload d = (r, d')" and "unique_keys (JObj payload)"
  shows "\<exists>evs'. run_inv E d' evs' \<and> prefix evs evs'"
proof -
  have h: "dir_holds E d evs" "contract evs" using assms(1) by (simp_all add: run_inv_def)
  from append_event_cases [OF h assms(3,2)] show ?thesis
  proof cases
    case 1
    then show ?thesis using assms(1) by blast
  next
    case (2 err)
    then show ?thesis using assms(1) dir_holds_frame [OF 2(3)] by (auto simp: run_inv_def)
  next
    case (3 e0 event v)
    have "kind \<in> set TOOL_INVOCATION_KINDS \<Longrightarrow> tool_invocation_count evs < max_tool_invocations_per_run E"
      using 3(6) by (auto simp: invocation_limit_def Let_def split: if_splits)
    then have "run_inv E d' (evs @ [appended_event (int (length evs) + 1) event])" by (rule run_inv_snoc [OF assms(1) 3(4,5)])
    then show ?thesis using prefixI [OF refl] by blast
  qed
qed

lemma receipt_frame:
  "append_receipt E rc d = (r, d') \<Longrightarrow> rd_events d' = rd_events d \<and> rd_commits d' = rd_commits d \<and> rd_graph d' = rd_graph d"
  by (auto simp: append_receipt_def bind_eff_def read_eff_def lift_result_def Let_def split: sum.splits option.splits)

lemma empty_dir_holds: "env_ok E \<Longrightarrow> dir_holds E empty_dir []"
  by (simp add: dir_holds_def empty_dir_def ledger_inv_def open_ledger_def ledger_file_def event_seqs_def)

lemma run_inv_empty: "env_ok E \<Longrightarrow> run_inv E empty_dir []"
  by (simp add: run_inv_def empty_dir_holds tool_invocation_count_def max_tool_invocations_per_run_def)

lemma step_inv:
  assumes "run_step E ok d d'" and inv: "run_inv E d evs"
  shows "\<exists>evs'. run_inv E d' evs' \<and> prefix evs evs'"
  using assms(1)
proof cases
  case (started a now sid r)
  then have "plain_outcome E ''run_started'' evs d d'" using start_run_outcome inv by (auto simp: run_inv_def)
  then show ?thesis using plain_step [OF inv] by (auto simp: TOOL_INVOCATION_KINDS_def)
next
  case (finalized b now sid r)
  then have "plain_outcome E ''run_finalized'' evs d d'" using finalize_run_outcome inv by (auto simp: run_inv_def)
  then show ?thesis using plain_step [OF inv] by (auto simp: TOOL_INVOCATION_KINDS_def)
next
  case (event payload now sid kind r)
  then show ?thesis using append_event_step [OF inv] by blast
next
  case (receipt rc r)
  then show ?thesis using inv dir_holds_frame [OF conjunct1 [OF receipt_frame [OF receipt(2)]]] by (auto simp: run_inv_def)
qed

lemma reach_inv: "run_reach E ok d \<Longrightarrow> env_ok E \<Longrightarrow> \<exists>evs. run_inv E d evs"
  by (induction rule: run_reach.induct) (use run_inv_empty step_inv in blast)+

lemma inv_events: "run_inv E d evs \<Longrightarrow> list_run_events E d = Inr evs"
  using framed.replay_holds [of E d evs] by (simp add: run_inv_def list_run_events_def)

section \<open>Calls and results\<close>

lemma admissible_at: "contract evs \<Longrightarrow> i < length evs \<Longrightarrow> admissible (take i evs) (evs ! i)"
  by (simp add: contract_def)

lemma result_follows_call:
  assumes "contract evs" and "j < length evs" and "is_result (evs ! j)"
  shows "\<exists>i < j. kind_of (evs ! i) = ''tool_call'' \<and> answers (evs ! j) (int i + 1) \<and>
    strip_of (evs ! i) ''tool_call_hash'' = strip_of (evs ! j) ''tool_call_hash''"
proof -
  obtain c h where c: "closes (take j evs) (evs ! j) c h" using admissible_result [OF admissible_at [OF assms(1,2)] assms(3)] by blast
  then have r: "0 < c" "c \<le> int j" "kind_of (take j evs ! nat (c - 1)) = ''tool_call''"
    using open_at_range [of c "take j evs"] assms(2) by (auto simp: closes_def)
  define i where "i = nat (c - 1)"
  have i: "c = int i + 1" "i < j" using r(1,2) by (simp_all add: i_def)
  have call: "kind_of (evs ! i) = ''tool_call''" using r(3) i by (simp add: i_def [symmetric])
  then obtain h' where "hashed (evs ! i) h'" using admissible_at [OF assms(1), of i] i(2) assms(2) by (auto simp: admissible_def)
  moreover have "strip_of (evs ! i) ''tool_call_hash'' \<in> {[], h}" "hashed (evs ! j) h"
    using c i by (simp_all add: closes_def i_def [symmetric])
  ultimately have "strip_of (evs ! i) ''tool_call_hash'' = strip_of (evs ! j) ''tool_call_hash''"
    by (auto simp: hashed_def strip_of_def text_of_JStr)
  then show ?thesis using call i c assms(3) by (auto simp: closes_def answers_def)
qed

lemma open_while_unanswered: "c \<in> open_at (take k evs) \<Longrightarrow> j < k \<Longrightarrow> k \<le> length evs \<Longrightarrow> \<not> answers (evs ! j) c"
proof -
  assume c: "c \<in> open_at (take k evs)" and j: "j < k" "k \<le> length evs"
  have "evs ! j \<in> set (take k evs)" using j by (auto simp: in_set_conv_nth)
  then show ?thesis using c by (auto simp: open_at_def)
qed

lemma answered_once:
  assumes "contract evs" and "j < length evs" and "k < length evs" and "answers (evs ! j) c" and "answers (evs ! k) c"
  shows "j = k"
proof -
  have "c \<in> open_at (take n evs)" if "n < length evs" "answers (evs ! n) c" for n
    using admissible_result [OF admissible_at [OF assms(1) that(1)]] that(2) by (auto simp: answers_def closes_def)
  then have "\<not> a < b" if "answers (evs ! a) c" "answers (evs ! b) c" "b < length evs" for a b
    using open_while_unanswered [of c b evs a] that by auto
  then show ?thesis using assms by (meson linorder_neqE_nat)
qed

lemma answered_before_next:
  assumes "contract evs" and "i < k" and "k < length evs" and "kind_of (evs ! i) = ''tool_call''"
    and "kind_of (evs ! k) \<in> {''tool_call'', ''run_finalized''}"
  shows "\<exists>j. i < j \<and> j < k \<and> answers (evs ! j) (int i + 1)"
proof -
  have "open_at (take k evs) = {}" using admissible_at [OF assms(1,3)] assms(5) by (auto simp: admissible_def)
  then have "int i + 1 \<notin> open_at (take k evs)" by simp
  moreover have "i < length (take k evs)" "kind_of (take k evs ! i) = ''tool_call''" using assms(2,3,4) by simp_all
  ultimately obtain e where e: "e \<in> set (take k evs)" "answers e (int i + 1)" unfolding open_at_def by blast
  then obtain j where j: "j < k" "e = evs ! j" using assms(3) by (auto simp: in_set_conv_nth)
  then have "is_result (evs ! j)" "j < length evs" using e assms(3) by (auto simp: answers_def)
  then obtain i' where "i' < j" "answers (evs ! j) (int i' + 1)" using result_follows_call [OF assms(1)] by blast
  then show ?thesis using e j by (auto simp: answers_def)
qed

text \<open>
  C21: the ledger of every reachable run directory can be read, numbers its events from 1, and keeps the
  protocol between calls and results: every tool result answers an earlier tool call and carries the
  hash of that call, a call is answered at most once, and a call is answered before the next call and before
  the run is finalized.
\<close>

theorem tool_results_answer_calls:
  assumes "run_reach E ok d" and "env_ok E"
  shows "\<exists>evs. list_run_events E d = Inr evs \<and>
    (\<forall>i < length evs. json_get (evs ! i) ''event_seq'' = JInt (int i + 1)) \<and>
    (\<forall>j < length evs. is_result (evs ! j) \<longrightarrow> (\<exists>i < j. kind_of (evs ! i) = ''tool_call'' \<and> answers (evs ! j) (int i + 1) \<and>
       strip_of (evs ! i) ''tool_call_hash'' = strip_of (evs ! j) ''tool_call_hash'')) \<and>
    (\<forall>c j k. j < length evs \<and> k < length evs \<and> answers (evs ! j) c \<and> answers (evs ! k) c \<longrightarrow> j = k) \<and>
    (\<forall>i k. i < k \<and> k < length evs \<and> kind_of (evs ! i) = ''tool_call'' \<and> kind_of (evs ! k) \<in> {''tool_call'', ''run_finalized''} \<longrightarrow>
       (\<exists>j. i < j \<and> j < k \<and> answers (evs ! j) (int i + 1)))"
proof -
  obtain evs where inv: "run_inv E d evs" using reach_inv [OF assms] by blast
  then have c: "contract evs" by (simp add: run_inv_def)
  show ?thesis
    using inv_events [OF inv] contract_seq [OF c] result_follows_call [OF c] answered_once [OF c] answered_before_next [OF c]
    by (intro exI [of _ evs] conjI) blast+
qed

section \<open>Bounds and permanence\<close>

text \<open>
  C24: a run never records more tool invocations than its limit, and its history is permanent: whatever a
  later call does or answers, the events of a reachable directory stay a prefix of the events after it.
\<close>

theorem invocations_bounded_history_permanent:
  assumes "run_reach E ok d" and "env_ok E" and "run_step E ok d d'"
  shows "\<exists>evs evs'. list_run_events E d = Inr evs \<and> list_run_events E d' = Inr evs' \<and> prefix evs evs' \<and>
    tool_invocation_count evs' \<le> max_tool_invocations_per_run E"
proof -
  obtain evs where inv: "run_inv E d evs" using reach_inv [OF assms(1,2)] by blast
  obtain evs' where inv': "run_inv E d' evs'" "prefix evs evs'" using step_inv [OF assms(3) inv] by blast
  then show ?thesis using inv_events [OF inv] inv_events [OF inv'(1)] by (auto simp: run_inv_def)
qed

section \<open>Operations\<close>

text \<open>
  A payload as the callers build it: distinct keys without surrounding white space, and an operation
  identifier that is a text.
\<close>

definition plain_payload :: "dict \<Rightarrow> bool" where
  "plain_payload p \<longleftrightarrow> distinct (map fst p) \<and> (\<forall>k \<in> fst ` set p. stripped k) \<and>
     (json_get p ''operation_id'' = JNull \<or> (\<exists>s. json_get p ''operation_id'' = JStr s))"

definition op_of :: "dict \<Rightarrow> string" where
  "op_of e = strip_of e ''operation_id''"

lemma payload_fold_get:
  assumes "distinct (map fst p)" and "\<forall>k \<in> fst ` set p. stripped k" and "k \<noteq> []" and "k \<notin> set PROTECTED_FIELDS"
  shows "json_get (fold payload_field p e) k = (case map_of p k of Some v \<Rightarrow> v | None \<Rightarrow> json_get e k)"
  using assms(1,2)
proof (induction p arbitrary: e)
  case (Cons kv p)
  have f: "json_get (payload_field kv e) k = (if fst kv = k then snd kv else json_get e k)"
    using Cons.prems(2) assms(3,4) by (auto simp: payload_field_def Let_def)
  have "map_of p k = None" if "fst kv = k" using Cons.prems(1) that by (simp add: map_of_eq_None_iff)
  then show ?case using Cons f by (cases kv) (auto split: option.splits)
qed simp

lemma payload_event_op:
  assumes "plain_payload p" and "payload_event now sid kind p = Inr e"
  shows "json_get e ''operation_id'' = json_get p ''operation_id''"
proof -
  obtain b where b: "build_event now sid kind kind [] = Inr b"
    and e: "e = (let event = fold payload_field p b in if strip_of event ''tool_name'' = [] \<and> map_of event ''tool'' \<noteq> None
      then set_str ''tool_name'' (text_of event ''tool'') event else event)"
    using assms(2) by (auto simp: payload_event_def bind_result_Inr_iff Let_def)
  have none: "json_get b ''operation_id'' = JNull" using b by (auto simp: build_event_def update_fields_def json_get_def Let_def split: if_splits)
  have "json_get (fold payload_field p b) ''operation_id'' =
      (case map_of p ''operation_id'' of Some v \<Rightarrow> v | None \<Rightarrow> json_get b ''operation_id'')"
    using assms(1) by (intro payload_fold_get) (auto simp: plain_payload_def PROTECTED_FIELDS_def)
  then have "json_get (fold payload_field p b) ''operation_id'' = json_get p ''operation_id''"
    unfolding none json_get_def [of p] .
  then show ?thesis unfolding e by (simp add: Let_def set_str_def)
qed

lemma prepared_op:
  "plain_payload p \<Longrightarrow> prepare_event E now sid kind p = Inr (Inr e) \<Longrightarrow> json_get e ''operation_id'' = json_get p ''operation_id''"
  using payload_event_op
  by (auto simp: prepare_event_def bind_result_Inr_iff invocation_fields_def Let_def set_str_def split: if_splits option.splits)

lemma check_result_op:
  assumes "check_result sid p e evs oc n = Inr (Inr e')"
  shows "json_get e' ''operation_id'' = json_get e ''operation_id''"
proof -
  obtain c where c: "coerce_int (json_get p ''call_sequence_number'') = Some c"
    using assms by (auto simp: check_result_def split: option.splits)
  moreover have "\<not> (c \<le> 0 \<or> n \<le> c)" using assms c by (auto simp: check_result_def)
  moreover obtain found where f: "event_by_sequence evs c = Inr found"
    using assms calculation by (cases "event_by_sequence evs c") (auto simp: check_result_def)
  moreover obtain call where "found = Some call" using assms calculation by (cases found) (auto simp: check_result_def)
  ultimately show ?thesis using assms unfolding check_result_def by (auto simp: Let_def set_str_def split: if_split_asm)
qed

lemma check_artifact_op:
  "check_artifact sid p e evs oc h = Inr (Inr e') \<Longrightarrow> json_get e' ''operation_id'' = json_get e ''operation_id''"
  by (auto simp: check_artifact_def bind_result_Inr_iff set_str_def split: if_splits option.splits)

lemma ordering_op:
  "validate_ordering_contract sid kind p e evs = Inr (Inr e') \<Longrightarrow> json_get e' ''operation_id'' = json_get e ''operation_id''"
  using check_result_op check_artifact_op
  by (auto simp: validate_ordering_contract_def bind_result_Inr_iff Let_def split: if_split_asm)

lemma appended_op:
  assumes "plain_payload p" and "prepare_event E now sid kind p = Inr (Inr e0)"
    and "validate_ordering_contract sid kind p e0 evs = Inr (Inr e)" and "event_base kind e"
  shows "op_of (appended_event n e) = operation_id_of p"
proof -
  have "json_get (appended_event n e) ''operation_id'' = canon (json_get p ''operation_id'')"
    using appended_get [OF assms(4)] ordering_op [OF assms(3)] prepared_op [OF assms(1,2)] by simp
  also have "\<dots> = json_get p ''operation_id''" using assms(1) by (auto simp: plain_payload_def)
  finally show ?thesis by (simp add: op_of_def operation_id_of_def strip_of_def text_of_def str_get_or_def)
qed

text \<open>Every recorded result with an operation is the winner of that operation.\<close>

definition op_inv :: "ledger_env \<Rightarrow> run_dir \<Rightarrow> dict list \<Rightarrow> bool" where
  "op_inv E d evs \<longleftrightarrow> (\<forall>i < length evs. is_result (evs ! i) \<and> op_of (evs ! i) \<noteq> [] \<longrightarrow>
     (\<exists>w. winners_of E d (op_of (evs ! i)) = Some w \<and> cr_event_seq w = int i + 1))"

lemma op_inv_mono: "op_inv E d evs \<Longrightarrow> winners_of E d \<subseteq>\<^sub>m winners_of E d' \<Longrightarrow> op_inv E d' evs"
  unfolding op_inv_def by (metis domI map_le_def)

lemma op_inv_snoc: "op_inv E d evs \<Longrightarrow> (is_result e \<Longrightarrow> op_of e \<noteq> [] \<Longrightarrow>
    \<exists>w. winners_of E d (op_of e) = Some w \<and> cr_event_seq w = int (length evs) + 1) \<Longrightarrow> op_inv E d (evs @ [e])"
  by (auto simp: op_inv_def nth_append less_Suc_eq)

lemma reserved_grows: "reserved_in E kind p n d d' \<Longrightarrow> winners_of E d \<subseteq>\<^sub>m winners_of E d'"
  by (auto simp: reserved_in_def map_le_def split: if_splits)

lemma plain_op_step:
  assumes "op_inv E d evs" and "run_inv E d evs" and "plain_outcome E kind evs d d'" and "\<not> is_result_kind kind"
    and "run_inv E d' evs'"
  shows "op_inv E d' evs'"
proof -
  have w: "winners_of E d' = winners_of E d" using assms(3) by (simp add: plain_outcome_def winners_of_def)
  then have inv: "op_inv E d' evs" using assms(1) by (simp add: op_inv_def)
  have h: "dir_holds E d evs" "dir_holds E d' evs'" using assms(2,5) by (simp_all add: run_inv_def)
  show ?thesis
  proof (cases "rd_events d' = rd_events d")
    case True
    then have "evs' = evs" using h framed.holds_unique dir_holds_frame [OF True] by blast
    then show ?thesis using inv by simp
  next
    case False
    then obtain event where ev: "checked evs kind event" "dir_holds E d' (evs @ [appended_event (int (length evs) + 1) event])"
      using assms(3) by (auto simp: plain_outcome_def)
    moreover have "evs' = evs @ [appended_event (int (length evs) + 1) event]" using h(2) ev(2) framed.holds_unique by blast
    moreover have "\<not> is_result (appended_event (int (length evs) + 1) event)"
      using appended_kind ev(1) assms(4) by (auto simp: checked_def is_result_def)
    ultimately show ?thesis using op_inv_snoc [OF inv] by blast
  qed
qed

lemma event_op_step:
  assumes "op_inv E d evs" and "run_inv E d evs" and "plain_payload p" and "append_run_event E now sid kind p d = (r, d')"
    and "run_inv E d' evs'" and "unique_keys (JObj p)"
  shows "op_inv E d' evs'"
proof -
  have h: "dir_holds E d evs" "contract evs" "dir_holds E d' evs'" using assms(2,5) by (simp_all add: run_inv_def)
  from append_event_cases [OF h(1,2) assms(6,4)] show ?thesis
  proof cases
    case 1
    then show ?thesis using assms(1) h(1,3) framed.holds_unique by blast
  next
    case (2 err)
    then have "evs' = evs" using h(1,3) framed.holds_unique dir_holds_frame [OF 2(3)] by blast
    then show ?thesis using op_inv_mono [OF assms(1) reserved_grows [OF 2(5)]] by simp
  next
    case (3 e0 event v)
    let ?e = "appended_event (int (length evs) + 1) event"
    have base: "event_base kind event" using 3(4) by (simp add: checked_def)
    have "evs' = evs @ [?e]" using h(3) 3(5) framed.holds_unique by blast
    moreover have "\<exists>w. winners_of E d' (op_of ?e) = Some w \<and> cr_event_seq w = int (length evs) + 1"
      if "is_result ?e" "op_of ?e \<noteq> []"
    proof -
      have "reserves kind p" using that appended_op [OF assms(3) 3(2,3) base] appended_kind [OF base] by (simp add: reserves_def is_result_def)
      then show ?thesis using 3(8) appended_op [OF assms(3) 3(2,3) base] by (simp add: reserved_in_def reserved_row_def)
    qed
    ultimately show ?thesis using op_inv_snoc [OF op_inv_mono [OF assms(1) reserved_grows [OF 3(8)]]] by blast
  qed
qed

lemma reach_op_inv: "run_reach E plain_payload d \<Longrightarrow> env_ok E \<Longrightarrow> \<exists>evs. run_inv E d evs \<and> op_inv E d evs"
proof (induction rule: run_reach.induct)
  case fresh
  then show ?case using run_inv_empty [of E] by (auto simp: op_inv_def intro!: exI [of _ "[]"])
next
  case (step d d')
  then obtain evs where inv: "run_inv E d evs" "op_inv E d evs" by blast
  obtain evs' where inv': "run_inv E d' evs'" using step_inv [OF step.hyps(2) inv(1)] by blast
  have h: "dir_holds E d evs" "contract evs" using inv(1) by (simp_all add: run_inv_def)
  have kinds: "\<not> is_result_kind ''run_started''" "\<not> is_result_kind ''run_finalized''"
    by (simp_all add: is_result_kind_def TOOL_RESULT_KINDS_def)
  from step.hyps(2) have "op_inv E d' evs'"
  proof cases
    case (receipt rc r)
    note fr = receipt_frame [OF receipt(2)]
    then have "evs' = evs" using h(1) inv' framed.holds_unique dir_holds_frame [of d' d E evs] by (auto simp: run_inv_def)
    then show ?thesis using inv(2) fr by (simp add: op_inv_def winners_of_def)
  qed (use plain_op_step [OF inv(2,1) _ _ inv'] event_op_step [OF inv(2,1) _ _ inv'] start_run_outcome [OF h(1)]
      finalize_run_outcome [OF h] kinds in blast)+
  then show ?case using inv' by blast
qed

text \<open>
  C22: an operation has at most one result in the ledger. With payloads as the callers build them, two
  recorded results of the same operation are the same event, and the commit registry names that event as the
  winner of the operation.
\<close>

theorem operation_recorded_once:
  assumes "run_reach E plain_payload d" and "env_ok E" and "list_run_events E d = Inr evs"
    and "i < length evs" and "is_result (evs ! i)" and "op_of (evs ! i) \<noteq> []"
  shows "(\<exists>w. op_winner E (op_of (evs ! i)) d = Some w \<and> cr_event_seq w = int i + 1) \<and>
    (\<forall>j < length evs. is_result (evs ! j) \<and> op_of (evs ! j) = op_of (evs ! i) \<longrightarrow> j = i)"
proof -
  obtain evs' where inv: "run_inv E d evs'" "op_inv E d evs'" using reach_op_inv [OF assms(1,2)] by blast
  then have evs: "evs' = evs" using inv_events [OF inv(1)] assms(3) by simp
  have w: "\<exists>w. winners_of E d (op_of (evs ! k)) = Some w \<and> cr_event_seq w = int k + 1"
    if "k < length evs" "is_result (evs ! k)" "op_of (evs ! k) \<noteq> []" for k using inv(2) that by (simp add: op_inv_def evs)
  have "op_winner E (op_of (evs ! i)) d = winners_of E d (op_of (evs ! i))"
    by (simp add: op_winner_def registry_winner_def winners_of_def file_winners_def op_of_def strip_of_def Let_def)
  then show ?thesis using w [OF assms(4,5,6)] w assms(6) by fastforce
qed

end
