(* ===== verification/Run_Graph_Validity.thy ===== *)
theory Run_Graph_Validity
  imports Run_Graph
begin

text \<open>
  The run graph of a ledger that keeps the contract between calls and results is always valid: node
  identifiers are unique, edges run between nodes of the graph, and every artifact has an edge that
  produces it. The loop over the events keeps an invariant in which artifacts that were just added may
  wait for their edge.
\<close>

section \<open>Identifiers\<close>

lemma stripped_ends: "s \<noteq> [] \<Longrightarrow> \<not> py_isspace (hd s) \<Longrightarrow> \<not> py_isspace (last s) \<Longrightarrow> stripped s"
proof -
  assume s: "s \<noteq> []" "\<not> py_isspace (hd s)" "\<not> py_isspace (last s)"
  have d: "dropWhile py_isspace xs = xs" if "xs \<noteq> []" "\<not> py_isspace (hd xs)" for xs using that by (cases xs) auto
  have "dropWhile py_isspace s = s" "dropWhile py_isspace (rev s) = rev s" using s by (intro d; simp add: hd_rev)+
  then show ?thesis by (simp add: stripped_def py_strip_def)
qed

lemma squash_tokens: "\<forall>c \<in> set (squash s). is_token_char c"
  by (induction s rule: squash.induct) (auto simp: is_token_char_def)

lemma set_strip_char: "set (strip_char c s) \<subseteq> set s"
  unfolding strip_char_def by (metis set_dropWhileD set_rev subsetI)

lemma safe_token_chars: "safe_token v \<noteq> [] \<and> (\<forall>c \<in> set (safe_token v). is_token_char c)"
proof -
  have "\<forall>c \<in> set ''unknown''. is_token_char c" by code_simp
  moreover have "\<forall>c \<in> set (strip_char (CHR ''_'') (squash s)). is_token_char c" for s using squash_tokens set_strip_char by blast
  ultimately show ?thesis by (simp add: safe_token_def Let_def)
qed

lemma token_not_space: "is_token_char c \<Longrightarrow> \<not> py_isspace c"
  by (auto simp: is_token_char_def in_range_def is_dec_def py_isspace_def Let_def)

lemma token_last: "\<not> py_isspace (last (safe_token v))"
  using safe_token_chars [of v] token_not_space last_in_set by blast

lemma int_last: "\<not> py_isspace (last (str_of_int i))"
proof -
  have "is_digit (last (str_of_nat n))" for n using str_of_nat_digits [of n] last_in_set by (auto simp: list_all_iff)
  moreover have "is_digit c \<Longrightarrow> \<not> py_isspace c" for c by (auto simp: is_digit_def py_isspace_def Let_def)
  ultimately show ?thesis using str_of_nat_digits by (auto simp: str_of_int_def)
qed

lemma stripped_prefixed: "p \<noteq> [] \<Longrightarrow> \<not> py_isspace (hd p) \<Longrightarrow> s \<noteq> [] \<Longrightarrow> \<not> py_isspace (last s) \<Longrightarrow> stripped (p @ s)"
  by (rule stripped_ends) simp_all

section \<open>The invariant\<close>

definition is_artifact :: "dict \<Rightarrow> bool" where
  "is_artifact node \<longleftrightarrow> json_get node ''type'' = JStr ''artifact''"

definition node_ok :: "string \<times> dict \<Rightarrow> bool" where
  "node_ok p \<longleftrightarrow> (case p of (i, node) \<Rightarrow> json_get node ''id'' = JStr i \<and> i \<noteq> [] \<and> stripped i \<and>
     (\<exists>t \<in> set NODE_TYPES. json_get node ''type'' = JStr t))"

definition node_keys :: "run_graph \<Rightarrow> string set" where
  "node_keys g = fst ` set (g_nodes g)"

definition edge_ok :: "string set \<Rightarrow> edge_key \<times> dict \<Rightarrow> bool" where
  "edge_ok keys e \<longleftrightarrow> (case e of ((t, s, i, n), edge) \<Rightarrow>
     edge = [(''type'', JStr t), (''source'', JStr s), (''target'', JStr i), (''ordinal'', JInt n)] \<and>
     t \<in> set EDGE_TYPES \<and> s \<in> keys \<and> i \<in> keys)"

definition produced :: "run_graph \<Rightarrow> string \<Rightarrow> bool" where
  "produced g i \<longleftrightarrow> (\<exists>s n. (''artifact_produced'', s, i, n) \<in> fst ` set (g_edges g))"

definition graph_ok :: "string set \<Rightarrow> run_graph \<Rightarrow> bool" where
  "graph_ok waiting g \<longleftrightarrow> distinct (map fst (g_nodes g)) \<and> (\<forall>p \<in> set (g_nodes g). node_ok p) \<and>
     (\<forall>e \<in> set (g_edges g). edge_ok (node_keys g) e) \<and>
     (\<forall>(c, i) \<in> set (g_calls g). i \<in> node_keys g) \<and> (\<forall>(s, i) \<in> set (g_stages g). i \<in> node_keys g) \<and>
     (\<forall>(i, node) \<in> set (g_nodes g). is_artifact node \<longrightarrow> i \<in> waiting \<or> produced g i)"

lemma set_update: "set (AList.update k v al) \<subseteq> insert (k, v) (set al)"
  by (induction al) auto

lemma image_fst_update: "fst ` set (AList.update k v al) = insert k (fst ` set al)"
  by (induction al) auto

lemma keys_put [simp]: "node_keys (put_node i node g) = insert i (node_keys g)"
  by (simp add: node_keys_def put_node_def image_fst_update)

lemma edge_ok_mono: "edge_ok K e \<Longrightarrow> K \<subseteq> K' \<Longrightarrow> edge_ok K' e"
  by (auto simp: edge_ok_def split: prod.splits)

lemma put_node_ok:
  assumes "graph_ok W g" and "node_ok (i, node)"
  shows "graph_ok (if is_artifact node then insert i W else W) (put_node i node g)"
proof -
  have nodes: "set (g_nodes (put_node i node g)) \<subseteq> insert (i, node) (set (g_nodes g))"
    using set_update by (simp add: put_node_def)
  have rest: "g_edges (put_node i node g) = g_edges g" "g_calls (put_node i node g) = g_calls g" "g_stages (put_node i node g) = g_stages g"
    by (simp_all add: put_node_def)
  then have prod: "produced (put_node i node g) = produced g" by (simp add: produced_def fun_eq_iff)
  show ?thesis unfolding graph_ok_def rest prod keys_put
  proof (intro conjI)
    show "distinct (map fst (g_nodes (put_node i node g)))" using assms(1) by (simp add: graph_ok_def put_node_def distinct_update)
    show "\<forall>p \<in> set (g_nodes (put_node i node g)). node_ok p" using assms nodes by (auto simp: graph_ok_def)
    show "\<forall>e \<in> set (g_edges g). edge_ok (insert i (node_keys g)) e" using assms(1) edge_ok_mono [OF _ subset_insertI] unfolding graph_ok_def by blast
    show "\<forall>(i', n) \<in> set (g_nodes (put_node i node g)). is_artifact n \<longrightarrow>
        i' \<in> (if is_artifact node then insert i W else W) \<or> produced g i'"
      using assms(1) nodes by (fastforce simp: graph_ok_def)
  qed (use assms(1) in \<open>auto simp: graph_ok_def\<close>)
qed

lemma put_edge_fields [simp]:
  "g_nodes (put_edge t s i n g) = g_nodes g" "g_calls (put_edge t s i n g) = g_calls g"
  "g_stages (put_edge t s i n g) = g_stages g" "g_call_sequences (put_edge t s i n g) = g_call_sequences g"
  "node_keys (put_edge t s i n g) = node_keys g"
  by (simp_all add: put_edge_def node_keys_def Let_def)

lemma edge_keys_add: "fst ` set (g_edges (put_edge t s i n g)) = insert (t, s, i, n) (fst ` set (g_edges g))"
proof (cases "map_of (g_edges g) (t, s, i, n)")
  case (Some e)
  then have "(t, s, i, n) \<in> fst ` set (g_edges g)" using map_of_SomeD by force
  then show ?thesis using Some by (simp add: put_edge_def insert_absorb)
qed (simp add: put_edge_def image_fst_update)

lemma put_edge_ok:
  assumes "graph_ok W g" and "t \<in> set EDGE_TYPES" and "s \<in> node_keys g" and "i \<in> node_keys g"
  shows "graph_ok (if t = ''artifact_produced'' then W - {i} else W) (put_edge t s i n g)"
proof -
  have "set (g_edges (put_edge t s i n g)) \<subseteq> insert ((t, s, i, n), [(''type'', JStr t), (''source'', JStr s), (''target'', JStr i), (''ordinal'', JInt n)]) (set (g_edges g))"
    using set_update [of "(t, s, i, n)" "[(''type'', JStr t), (''source'', JStr s), (''target'', JStr i), (''ordinal'', JInt n)]" "g_edges g"]
    by (simp add: put_edge_def Let_def subset_insertI)
  then have "\<forall>e \<in> set (g_edges (put_edge t s i n g)). edge_ok (node_keys g) e"
    using assms by (auto simp: graph_ok_def edge_ok_def)
  moreover have "produced (put_edge t s i n g) j \<longleftrightarrow> produced g j \<or> (t = ''artifact_produced'' \<and> j = i)" for j
    by (auto simp: produced_def edge_keys_add)
  ultimately show ?thesis using assms(1) by (auto simp: graph_ok_def)
qed

lemma types_listed:
  "''execution_order'' \<in> set EDGE_TYPES" "''call_result'' \<in> set EDGE_TYPES" "''artifact_produced'' \<in> set EDGE_TYPES"
  "''compat_expansion'' \<in> set EDGE_TYPES" "''tool_call'' \<in> set NODE_TYPES" "''artifact'' \<in> set NODE_TYPES"
  "''compat_mapping'' \<in> set NODE_TYPES" "''workload_stage'' \<in> set NODE_TYPES"
  by (simp_all add: EDGE_TYPES_def NODE_TYPES_def)

text \<open>An artifact together with the edge that produces it.\<close>

lemma artifact_added:
  assumes "graph_ok W g" and "node_ok (i, node)" and "s \<in> node_keys g"
  shows "graph_ok (W - {i}) (put_edge ''artifact_produced'' s i n (put_node i node g))"
proof -
  have "graph_ok (insert i W) (put_node i node g)" using put_node_ok [OF assms(1,2)] by (auto simp: graph_ok_def split: if_splits)
  from put_edge_ok [OF this types_listed(3), of s i n] show ?thesis using assms(3) by simp
qed

lemma put_plain_ok:
  assumes "graph_ok W g" and "node_ok (i, node)" and "\<not> is_artifact node"
  shows "graph_ok W (put_node i node g)"
  using put_node_ok [OF assms(1,2)] assms(3) by simp

lemma put_fields [simp]:
  "g_calls (put_node i node g) = g_calls g" "g_edges (put_node i node g) = g_edges g"
  by (simp_all add: put_node_def)

text \<open>Nodes that the code builds: their first fields are the identifier and the type.\<close>

lemma node_okI:
  "stripped i \<Longrightarrow> i \<noteq> [] \<Longrightarrow> t \<in> set NODE_TYPES \<Longrightarrow> node_ok (i, (''id'', JStr i) # (''type'', JStr t) # rest)"
  by (auto simp: node_ok_def json_get_def)

lemma is_artifact_type [simp]: "is_artifact ((''id'', v) # (''type'', JStr t) # rest) \<longleftrightarrow> t = ''artifact''"
  by (simp add: is_artifact_def json_get_def)

lemma graph_ids:
  "stripped (stage_ref a b)" "stage_ref a b \<noteq> []" "stripped (root_stage a)" "root_stage a \<noteq> []"
  "stripped (artifact_ref kind i b)" "artifact_ref kind i b \<noteq> []" "stripped (call_ref i)" "call_ref i \<noteq> []"
  "stripped (compat_ref i)" "compat_ref i \<noteq> []" "stripped (compat_artifact_ref i)" "compat_artifact_ref i \<noteq> []"
  "stripped (result_ref i)" "result_ref i \<noteq> []"
proof -
  have tok: "safe_token b \<noteq> []" "\<not> py_isspace (last (safe_token b))" for b using safe_token_chars token_last by blast+
  have int: "str_of_int i \<noteq> []" "\<not> py_isspace (last (str_of_int i))" for i using str_of_int_hd int_last by blast+
  have sp: "\<not> py_isspace (CHR ''w'')" "\<not> py_isspace (CHR ''a'')" "\<not> py_isspace (CHR ''t'')" "\<not> py_isspace (CHR ''c'')" by code_simp+
  show "stripped (stage_ref a b)" unfolding stage_ref_def by (rule stripped_prefixed) (use tok sp in auto)
  show "stripped (root_stage a)" unfolding root_stage_def by (rule stripped_prefixed) (use sp in auto)
  show "stripped (artifact_ref kind i b)" unfolding artifact_ref_def by (rule stripped_prefixed) (use tok sp in auto)
  show "stripped (call_ref i)" "stripped (compat_ref i)" "stripped (compat_artifact_ref i)" "stripped (result_ref i)"
    unfolding call_ref_def compat_ref_def compat_artifact_ref_def result_ref_def
    by (rule stripped_prefixed; use int sp in auto)+
qed (simp_all add: stage_ref_def root_stage_def artifact_ref_def call_ref_def compat_ref_def compat_artifact_ref_def result_ref_def)

lemmas node_oks =
  node_okI [OF graph_ids(1,2) types_listed(8)] node_okI [OF graph_ids(5,6) types_listed(6)]
  node_okI [OF graph_ids(7,8) types_listed(5)] node_okI [OF graph_ids(9,10) types_listed(7)]
  node_okI [OF graph_ids(11,12) types_listed(6)] node_okI [OF graph_ids(13,14) types_listed(6)]
  node_okI [OF graph_ids(3,4) types_listed(8)]

lemma stage_resolved:
  assumes "graph_ok W g" and "resolve_stage_node run_id step g = (s, g')"
  shows "graph_ok W g' \<and> s \<in> node_keys g' \<and> node_keys g \<subseteq> node_keys g' \<and> g_calls g' = g_calls g"
proof (cases "map_of (g_stages g) (py_strip step)")
  case None
  let ?s = "stage_ref run_id (py_strip step)"
  let ?node = "[(''id'', JStr ?s), (''type'', JStr ''workload_stage''), (''run_id'', JStr run_id),
      (''stage_id'', JStr (py_strip step)), (''label'', JStr (py_strip step))]"
  have g': "g' = put_node ?s ?node (g\<lparr>g_stages := AList.update (py_strip step) ?s (g_stages g)\<rparr>)" and s: "s = ?s"
    using assms(2) None by (auto simp: resolve_stage_node_def Let_def)
  have "graph_ok W (put_node ?s ?node g)" using node_oks(1) by (intro put_plain_ok [OF assms(1)]) auto
  moreover have "\<forall>(st, i) \<in> set (AList.update (py_strip step) ?s (g_stages g)). i \<in> insert ?s (node_keys g)"
    using set_update [of "py_strip step" ?s "g_stages g"] assms(1) by (fastforce simp: graph_ok_def)
  moreover have "g' = (put_node ?s ?node g)\<lparr>g_stages := AList.update (py_strip step) ?s (g_stages g)\<rparr>"
    unfolding g' by (simp add: put_node_def)
  ultimately have "graph_ok W g' \<and> node_keys g' = insert ?s (node_keys g) \<and> g_calls g' = g_calls g"
    by (auto simp: graph_ok_def produced_def node_keys_def put_node_def image_fst_update)
  then show ?thesis using s by auto
next
  case (Some i)
  then have "(py_strip step, i) \<in> set (g_stages g)" by (rule map_of_SomeD)
  then show ?thesis using assms Some by (fastforce simp: resolve_stage_node_def graph_ok_def)
qed

lemma run_artifacts_added:
  assumes "graph_ok {} g" and "s \<in> node_keys g"
  shows "graph_ok {} (add_run_artifact_nodes sha kind n event s g) \<and> node_keys g \<subseteq> node_keys (add_run_artifact_nodes sha kind n event s g) \<and>
    g_calls (add_run_artifact_nodes sha kind n event s g) = g_calls g"
proof -
  have "graph_ok {} (fold (add_run_artifact sha kind n s) xs g) \<and> node_keys g \<subseteq> node_keys (fold (add_run_artifact sha kind n s) xs g) \<and>
      g_calls (fold (add_run_artifact sha kind n s) xs g) = g_calls g" for xs
    using assms
  proof (induction xs arbitrary: g)
    case (Cons x xs)
    have one: "graph_ok {} (add_run_artifact sha kind n s x g)" "node_keys g \<subseteq> node_keys (add_run_artifact sha kind n s x g)"
      "g_calls (add_run_artifact sha kind n s x g) = g_calls g"
      using artifact_added [OF Cons.prems(1) node_oks(2) Cons.prems(2)]
      by (auto simp: add_run_artifact_def Let_def split: prod.splits)
    then show ?case using Cons.IH [of "add_run_artifact sha kind n s x g"] Cons.prems(2) by auto
  qed simp
  then show ?thesis by (simp add: add_run_artifact_nodes_def)
qed

lemma call_added:
  assumes "graph_ok {} g"
  shows "graph_ok {} (add_call run_id event n g) \<and> node_keys g \<subseteq> node_keys (add_call run_id event n g) \<and>
    (\<forall>c. map_of (g_calls (add_call run_id event n g)) c = (if c = n then Some (call_ref n) else map_of (g_calls g) c))"
proof -
  let ?i = "call_ref n"
  obtain s g1 where r: "resolve_stage_node run_id (strip_of event ''step_id'') g = (s, g1)" by force
  note g1 = stage_resolved [OF assms r]
  define g2 where "g2 = put_node ?i (call_node event ?i n) g1"
  have "graph_ok {} g2" unfolding g2_def call_node_def
    using g1 node_oks(3) by (intro put_plain_ok) auto
  define g3 where "g3 = g2\<lparr>g_calls := AList.update n ?i (g_calls g2), g_call_sequences := g_call_sequences g2 @ [n]\<rparr>"
  have keys: "node_keys g3 = insert ?i (node_keys g1)" "g_calls g3 = AList.update n ?i (g_calls g)"
    using g1 by (simp_all add: g3_def g2_def node_keys_def put_node_def image_fst_update)
  have "\<forall>(c, i) \<in> set (AList.update n ?i (g_calls g)). i \<in> insert ?i (node_keys g1)"
    using set_update [of n ?i "g_calls g"] g1 assms by (fastforce simp: graph_ok_def)
  then have "graph_ok {} g3" using \<open>graph_ok {} g2\<close> keys g1
    by (auto simp: graph_ok_def g3_def g2_def produced_def node_keys_def put_node_def image_fst_update)
  then have "graph_ok {} (put_edge ''execution_order'' s ?i n g3)"
    using put_edge_ok [of "{}" g3 "''execution_order''" s ?i n] types_listed(1) keys g1 by simp
  moreover have "add_call run_id event n g = put_edge ''execution_order'' s ?i n g3"
    using r by (simp add: add_call_def g3_def g2_def Let_def)
  ultimately show ?thesis using keys g1 by (auto simp: update_conv')
qed

section \<open>Results\<close>

text \<open>A compatibility translation that the code can expand, and the calls that a result may name.\<close>

definition tools_listed :: "dict \<Rightarrow> bool" where
  "tools_listed event \<longleftrightarrow> (case json_get (result_payload_of event) ''compat_translation'' of
     JObj translation \<Rightarrow> (\<exists>tools. py_list_or_empty (json_get translation ''mapped_core_tools'') = Inr tools)
   | _ \<Rightarrow> True)"

definition calls_known :: "run_graph \<Rightarrow> int \<Rightarrow> bool" where
  "calls_known g c \<longleftrightarrow> map_of (g_calls g) c \<noteq> None"

lemma call_key: "graph_ok W g \<Longrightarrow> map_of (g_calls g) c = Some i \<Longrightarrow> i \<in> node_keys g"
  using map_of_SomeD by (fastforce simp: graph_ok_def)

lemma compat_added:
  assumes "graph_ok {} g" and "py_list_or_empty (json_get translation ''mapped_core_tools'') = Inr tools" and "c \<in> node_keys g"
  shows "\<exists>g'. add_compat sha translation n k (Some c) g = Inr g' \<and> graph_ok {} g' \<and> node_keys g \<subseteq> node_keys g' \<and> g_calls g' = g_calls g"
proof -
  define i where "i = compat_ref (if k \<noteq> 0 then k else n)"
  define node where "node = [(''id'', JStr i), (''type'', JStr ''compat_mapping''),
              (''compat_tool_name'', JStr (strip_of translation ''compat_tool_name'')),
              (''mapping_version'', json_get translation ''mapping_version''),
              (''mapping_determinism'', JStr (strip_of translation ''mapping_determinism'')),
              (''schema_compatibility_range'', JStr (strip_of translation ''schema_compatibility_range'')),
              (''mapped_core_tools'', JArr (stripped_texts tools)),
              (''translation_hash'', JStr (strip_of translation ''translation_hash''))]"
  define artifact where "artifact = [(''id'', JStr (compat_artifact_ref n)), (''type'', JStr ''artifact''),
              (''artifact_kind'', JStr ''compat_translation''), (''event_seq'', JInt n),
              (''artifact_digest'', JStr (hash_canonical_json sha (JObj translation))),
              (''compat_tool_name'', JStr (strip_of translation ''compat_tool_name''))]"
  define g1 where "g1 = put_edge ''compat_expansion'' c i n (put_node i node g)"
  have "graph_ok {} (put_node i node g)" unfolding node_def i_def using node_oks(4) by (intro put_plain_ok [OF assms(1)]) auto
  then have g1: "graph_ok {} g1" "node_keys g1 = insert i (node_keys g)" "g_calls g1 = g_calls g"
    using put_edge_ok [of "{}" "put_node i node g" "''compat_expansion''" c i n] types_listed(4) assms(3) by (simp_all add: g1_def)
  have "add_compat sha translation n k (Some c) g =
      Inr (put_edge ''artifact_produced'' i (compat_artifact_ref n) n (put_node (compat_artifact_ref n) artifact g1))"
    using assms(2) by (simp add: add_compat_def g1_def node_def artifact_def i_def Let_def)
  moreover have "graph_ok ({} - {compat_artifact_ref n}) (put_edge ''artifact_produced'' i (compat_artifact_ref n) n (put_node (compat_artifact_ref n) artifact g1))"
    unfolding artifact_def using node_oks(5) g1 by (intro artifact_added) auto
  ultimately show ?thesis using g1 by auto
qed

lemma result_added:
  assumes "graph_ok {} g" and "py_int (json_or (json_get event ''call_sequence_number'') (JInt 0)) = Inr k"
    and "calls_known g k" and "tools_listed event"
  shows "\<exists>g'. add_result sha kind event n g = Inr g' \<and> graph_ok {} g' \<and> node_keys g \<subseteq> node_keys g' \<and> g_calls g' = g_calls g"
proof -
  obtain c where c: "map_of (g_calls g) k = Some c" using assms(3) by (auto simp: calls_known_def)
  note ck = call_key [OF assms(1) c]
  define node where "node = [(''id'', JStr (result_ref n)), (''type'', JStr ''artifact''), (''artifact_kind'', JStr kind),
              (''event_seq'', JInt n), (''call_sequence_number'', JInt k),
              (''operation_id'', JStr (strip_of event ''operation_id'')),
              (''tool_name'', JStr (py_strip (str_get_or event ''tool_name'' (text_of event ''tool'')))),
              (''ok'', JBool (json_truthy (json_get (result_payload_of event) ''ok''))),
              (''artifact_digest'', JStr (hash_canonical_json sha (JObj (result_payload_of event))))]"
  define g1 where "g1 = put_edge ''artifact_produced'' c (result_ref n) n (put_edge ''call_result'' c (result_ref n) n (put_node (result_ref n) node g))"
  have "graph_ok {result_ref n} (put_node (result_ref n) node g)"
    unfolding node_def using put_node_ok [OF assms(1) node_oks(6)] by simp
  then have "graph_ok {result_ref n} (put_edge ''call_result'' c (result_ref n) n (put_node (result_ref n) node g))"
    using put_edge_ok [of "{result_ref n}" "put_node (result_ref n) node g" "''call_result''" c "result_ref n" n] types_listed(2) ck by simp
  from put_edge_ok [OF this types_listed(3), of c "result_ref n" n] ck
  have g1: "graph_ok {} g1" "node_keys g1 = insert (result_ref n) (node_keys g)" "g_calls g1 = g_calls g" by (simp_all add: g1_def)
  have run: "add_result sha kind event n g = (case json_get (result_payload_of event) ''compat_translation'' of
      JObj translation \<Rightarrow> add_compat sha translation n k (Some c) g1 | _ \<Rightarrow> Inr g1)"
    using assms(2) c by (simp add: add_result_def g1_def node_def Let_def split: json.split)
  show ?thesis
  proof (cases "json_get (result_payload_of event) ''compat_translation''")
    case (JObj translation)
    then obtain tools where "py_list_or_empty (json_get translation ''mapped_core_tools'') = Inr tools"
      using assms(4) by (auto simp: tools_listed_def)
    from compat_added [OF g1(1) this, of c sha n k] JObj run g1 ck show ?thesis by auto
  qed (use run g1 in auto)
qed

section \<open>The loop\<close>

lemma relabel_ok:
  assumes "graph_ok W g"
  shows "graph_ok W (g\<lparr>g_nodes := map (\<lambda>(i, node). (i, if i = r then AList.update ''label'' v node else node)) (g_nodes g)\<rparr>)"
    and "node_keys (g\<lparr>g_nodes := map (\<lambda>(i, node). (i, if i = r then AList.update ''label'' v node else node)) (g_nodes g)\<rparr>) = node_keys g"
proof -
  let ?f = "\<lambda>(i, node). (i, if i = r then AList.update ''label'' v node else node)"
  have get: "json_get (AList.update ''label'' v node) ''id'' = json_get node ''id''"
    "json_get (AList.update ''label'' v node) ''type'' = json_get node ''type''" for node by (simp_all add: json_get_def update_conv')
  have keys: "map fst (map ?f (g_nodes g)) = map fst (g_nodes g)" by (induction "g_nodes g") auto
  then have nk: "node_keys (g\<lparr>g_nodes := map ?f (g_nodes g)\<rparr>) = node_keys g" by (simp add: node_keys_def image_image split_beta)
  have same: "node_ok (i, if i = r then AList.update ''label'' v node else node) = node_ok (i, node)"
    "is_artifact (if i = r then AList.update ''label'' v node else node) = is_artifact node" for i node
    by (simp_all add: node_ok_def is_artifact_def get)
  have "\<forall>p \<in> set (g_nodes g). node_ok (fst p, snd p)" "\<forall>p \<in> set (g_nodes g). is_artifact (snd p) \<longrightarrow> fst p \<in> W \<or> produced g (fst p)"
    using assms by (auto simp: graph_ok_def)
  then have "\<forall>p \<in> set (map ?f (g_nodes g)). node_ok p"
    and "\<forall>(i, node) \<in> set (map ?f (g_nodes g)). is_artifact node \<longrightarrow> i \<in> W \<or> produced g i"
    by (simp_all only: list.set_map ball_simps split_beta same fst_conv snd_conv)
  moreover have "distinct (map fst (map ?f (g_nodes g)))" unfolding keys using assms by (simp add: graph_ok_def)
  ultimately show "graph_ok W (g\<lparr>g_nodes := map ?f (g_nodes g)\<rparr>)" using assms unfolding graph_ok_def nk
    by (simp add: produced_def del: map_map list.set_map)
  show "node_keys (g\<lparr>g_nodes := map ?f (g_nodes g)\<rparr>) = node_keys g" by (rule nk)
qed

definition event_ready :: "run_graph \<Rightarrow> dict \<Rightarrow> int \<Rightarrow> bool" where
  "event_ready g event n \<longleftrightarrow> event_sequence event = Inr n \<and> 0 < n \<and>
     (strip_of event ''kind'' \<in> set TOOL_RESULT_KINDS \<longrightarrow>
        (\<exists>k. py_int (json_or (json_get event ''call_sequence_number'') (JInt 0)) = Inr k \<and> calls_known g k) \<and> tools_listed event)"

lemma graph_event_ok:
  assumes "graph_ok {} g" and "root \<in> node_keys g" and "event_ready g event n"
  shows "\<exists>g'. graph_event sha run_id root event g = Inr g' \<and> graph_ok {} g' \<and> node_keys g \<subseteq> node_keys g' \<and>
    (\<forall>c. calls_known g' c \<longleftrightarrow> calls_known g c \<or> (strip_of event ''kind'' = ''tool_call'' \<and> c = n))"
proof -
  define kind where "kind = strip_of event ''kind''"
  have n: "event_sequence event = Inr n" "\<not> n \<le> 0" using assms(3) by (simp_all add: event_ready_def)
  note run = graph_event_def [of sha run_id root event g, unfolded Let_def n(1) bind_result_simps kind_def [symmetric]]
  consider (s) "kind = ''run_started''" | (f) "kind = ''run_finalized''" | (c) "kind = ''tool_call''"
    | (r) "kind \<in> set TOOL_RESULT_KINDS" | (o) "kind \<notin> set TOOL_RESULT_KINDS" "kind \<notin> {''run_started'', ''run_finalized'', ''tool_call''}" by blast
  then show ?thesis
  proof cases
    case s
    define g1 where "g1 = (if strip_of event ''run_name'' \<noteq> [] then g\<lparr>g_nodes := map (\<lambda>(i, node). (i, if i = root
        then AList.update ''label'' (JStr (strip_of event ''run_name'')) node else node)) (g_nodes g)\<rparr> else g)"
    have g1: "graph_ok {} g1" "node_keys g1 = node_keys g" "g_calls g1 = g_calls g"
      using relabel_ok [OF assms(1)] assms(1) by (simp_all add: g1_def)
    have e: "graph_event sha run_id root event g = Inr (add_run_artifact_nodes sha kind n event root g1)"
      unfolding run g1_def using n(2) s by simp
    show ?thesis unfolding e kind_def [symmetric] using run_artifacts_added [OF g1(1), of root sha kind n event] g1 assms(2) s
      by (auto simp: calls_known_def)
  next
    case f
    have e: "graph_event sha run_id root event g = Inr (add_run_artifact_nodes sha kind n event root g)"
      unfolding run using n(2) f by simp
    show ?thesis unfolding e kind_def [symmetric] using run_artifacts_added [OF assms(1,2), of sha kind n event] f by (auto simp: calls_known_def)
  next
    case c
    have e: "graph_event sha run_id root event g = Inr (add_call run_id event n g)" unfolding run using n(2) c by simp
    show ?thesis unfolding e kind_def [symmetric] using call_added [OF assms(1), of run_id event n] c by (auto simp: calls_known_def)
  next
    case r
    then have ne: "kind \<noteq> ''run_started''" "kind \<noteq> ''run_finalized''" "kind \<noteq> ''tool_call''" by (auto simp: TOOL_RESULT_KINDS_def)
    then have e: "graph_event sha run_id root event g = add_result sha kind event n g" unfolding run using n(2) r by simp
    obtain k where "py_int (json_or (json_get event ''call_sequence_number'') (JInt 0)) = Inr k" "calls_known g k" "tools_listed event"
      using assms(3) r by (auto simp: event_ready_def kind_def)
    from result_added [OF assms(1) this, of sha kind n] show ?thesis unfolding e kind_def [symmetric] using ne by (auto simp: calls_known_def)
  next
    case o
    then have e: "graph_event sha run_id root event g = Inr g" unfolding run using n(2) by simp
    show ?thesis unfolding e kind_def [symmetric] using o assms(1) by auto
  qed
qed

text \<open>Events that are numbered from 1 and whose results name an earlier call.\<close>

definition graph_ready :: "dict list \<Rightarrow> bool" where
  "graph_ready evs \<longleftrightarrow> (\<forall>i < length evs. event_sequence (evs ! i) = Inr (int i + 1) \<and>
     (strip_of (evs ! i) ''kind'' \<in> set TOOL_RESULT_KINDS \<longrightarrow> tools_listed (evs ! i) \<and>
        (\<exists>j < i. py_int (json_or (json_get (evs ! i) ''call_sequence_number'') (JInt 0)) = Inr (int j + 1) \<and>
           strip_of (evs ! j) ''kind'' = ''tool_call'')))"

lemma graph_loop_ok:
  assumes "graph_ready evs" and "n \<le> length evs"
  shows "\<exists>g. fold_result (graph_event sha run_id (root_stage run_id)) (take n evs) (initial_graph run_id) = Inr g \<and> graph_ok {} g \<and>
    root_stage run_id \<in> node_keys g \<and> (\<forall>j < n. strip_of (evs ! j) ''kind'' = ''tool_call'' \<longrightarrow> calls_known g (int j + 1))"
  using assms(2)
proof (induction n)
  case 0
  have "graph_ok {} (initial_graph run_id)"
    using node_oks(7) by (simp add: graph_ok_def initial_graph_def node_keys_def)
  then show ?case by (simp add: initial_graph_def node_keys_def)
next
  case (Suc n)
  then obtain g where g: "fold_result (graph_event sha run_id (root_stage run_id)) (take n evs) (initial_graph run_id) = Inr g"
    "graph_ok {} g" "root_stage run_id \<in> node_keys g" "\<forall>j < n. strip_of (evs ! j) ''kind'' = ''tool_call'' \<longrightarrow> calls_known g (int j + 1)" by auto
  have n: "n < length evs" using Suc.prems by simp
  then have "event_ready g (evs ! n) (int n + 1)" using assms(1) g(4) by (auto simp: graph_ready_def event_ready_def)
  from graph_event_ok [OF g(2,3) this, of sha run_id] obtain g' where g':
    "graph_event sha run_id (root_stage run_id) (evs ! n) g = Inr g'" "graph_ok {} g'" "node_keys g \<subseteq> node_keys g'"
    "\<forall>c. calls_known g' c \<longleftrightarrow> calls_known g c \<or> (strip_of (evs ! n) ''kind'' = ''tool_call'' \<and> c = int n + 1)" by blast
  have "fold_result (graph_event sha run_id (root_stage run_id)) (take (Suc n) evs) (initial_graph run_id) = Inr g'"
    using g(1) g'(1) n by (simp add: take_Suc_conv_app_nth fold_result_append)
  then show ?case using g' g(3,4) by (auto simp: less_Suc_eq)
qed

lemma link_calls_ok: "graph_ok {} g \<Longrightarrow> graph_ok {} (link_calls seqs g)"
proof (induction seqs g rule: link_calls.induct)
  case (1 p c rest g)
  have "graph_ok {} (case (map_of (g_calls g) p, map_of (g_calls g) c) of
      (Some p', Some c') \<Rightarrow> put_edge ''execution_order'' p' c' c g | _ \<Rightarrow> g)"
    using 1(2) call_key [OF 1(2)] types_listed(1) put_edge_ok [OF 1(2) types_listed(1), of _ _ c] by (auto split: option.splits)
  then show ?case using 1(1) by simp
qed simp_all

section \<open>Validation accepts it\<close>

lemma strip_text: "json_get d k = JStr s \<Longrightarrow> strip_of d k = py_strip s" "json_get d k = JStr s \<Longrightarrow> text_of d k = s"
  by (auto simp: strip_of_def text_of_def str_get_or_def py_str_json_def)

lemma type_strips: "t \<in> set NODE_TYPES \<Longrightarrow> py_strip t = t" "t \<in> set EDGE_TYPES \<Longrightarrow> py_strip t = t"
proof -
  have "\<forall>t \<in> set NODE_TYPES. py_strip t = t" "\<forall>t \<in> set EDGE_TYPES. py_strip t = t" by code_simp+
  then show "t \<in> set NODE_TYPES \<Longrightarrow> py_strip t = t" "t \<in> set EDGE_TYPES \<Longrightarrow> py_strip t = t" by blast+
qed

lemma validate_nodes_ok:
  assumes "\<forall>p \<in> set ns. node_ok p" and "distinct (map fst ns)" and "fst ` set ns \<inter> set ids = {}"
  shows "\<exists>out. validate_nodes (map (\<lambda>(i, node). JObj node) ns) ids = Inr out \<and> set out = fst ` set ns \<union> set ids"
  using assms
proof (induction ns arbitrary: ids)
  case (Cons p ns)
  obtain i node where p: "p = (i, node)" by (cases p)
  have ok: "strip_of node ''id'' = i" "i \<noteq> []" "strip_of node ''type'' \<in> set NODE_TYPES"
    using Cons.prems(1) type_strips(1) strip_text(1) by (auto simp: p node_ok_def)
  have "\<exists>out. validate_nodes (map (\<lambda>(i, node). JObj node) ns) (i # ids) = Inr out \<and> set out = fst ` set ns \<union> set (i # ids)"
    using Cons.prems p by (intro Cons.IH) auto
  then show ?case using ok Cons.prems(3) p by auto
qed simp

lemma validate_edges_ok:
  assumes "\<forall>e \<in> set es. edge_ok keys e" and "\<forall>i \<in> keys. stripped i" and "keys \<subseteq> set ids"
  shows "\<exists>out. validate_edges ids (map (\<lambda>(k, edge). JObj edge) es) ts = Inr out \<and>
    set ts \<subseteq> set out \<and> (\<forall>s i n. (''artifact_produced'', s, i, n) \<in> fst ` set es \<longrightarrow> i \<in> set out)"
  using assms(1)
proof (induction es arbitrary: ts)
  case (Cons e es)
  obtain t s i n edge where e: "e = ((t, s, i, n), edge)" by (cases e) auto
  have ok: "edge = [(''type'', JStr t), (''source'', JStr s), (''target'', JStr i), (''ordinal'', JInt n)]"
    "t \<in> set EDGE_TYPES" "s \<in> keys" "i \<in> keys" using Cons.prems e by (auto simp: edge_ok_def)
  have f: "strip_of edge ''type'' = t" "strip_of edge ''source'' = s" "strip_of edge ''target'' = i"
    using ok type_strips(2) [OF ok(2)] assms(2) by (auto simp: strip_of_def text_of_def str_get_or_def json_get_def py_str_json_def)
  have "\<forall>e \<in> set es. edge_ok keys e" using Cons.prems by simp
  from Cons.IH [OF this, of "if t = ''artifact_produced'' then i # ts else ts"]
  obtain out where out: "validate_edges ids (map (\<lambda>(k, edge). JObj edge) es) (if t = ''artifact_produced'' then i # ts else ts) = Inr out"
    "set (if t = ''artifact_produced'' then i # ts else ts) \<subseteq> set out"
    "\<forall>s i n. (''artifact_produced'', s, i, n) \<in> fst ` set es \<longrightarrow> i \<in> set out" by blast
  have "validate_edges ids (map (\<lambda>(k, edge). JObj edge) (e # es)) ts = Inr out"
    using out(1) f ok assms(3) by (auto simp: e Let_def)
  then show ?case using out(2,3) by (intro exI [of _ out]) (auto simp: e split: if_splits)
qed simp

lemma sorted_nodes: "set (sort_key f xs) = set xs" "distinct (map fst xs) \<Longrightarrow> distinct (map fst (sort_key f xs))"
proof -
  have "mset (map fst (sort_key f xs)) = mset (map fst xs)" by (simp only: mset_map mset_sort)
  then show "distinct (map fst xs) \<Longrightarrow> distinct (map fst (sort_key f xs))" by (metis mset_eq_imp_distinct_iff)
qed simp

lemma graph_payload_valid:
  assumes "graph_ok {} g"
  shows "validate_run_graph_payload (graph_payload sha run_id ordered g) = Inr ()"
proof -
  define ns where "ns = sort_key fst (g_nodes g)"
  define es where "es = sort_key edge_order_key (g_edges g)"
  let ?nodes = "map (\<lambda>(i, node). JObj node) ns" and ?edges = "map (\<lambda>(k, edge). JObj edge) es"
  have ns: "\<forall>p \<in> set ns. node_ok p" "distinct (map fst ns)" "fst ` set ns = node_keys g"
    using assms sorted_nodes by (auto simp: ns_def graph_ok_def node_keys_def)
  obtain ids where ids: "validate_nodes ?nodes [] = Inr ids" "set ids = node_keys g" using validate_nodes_ok [OF ns(1,2), of "[]"] ns(3) by auto
  have "\<forall>i \<in> node_keys g. stripped i" using assms by (auto simp: graph_ok_def node_keys_def node_ok_def)
  moreover have "\<forall>e \<in> set es. edge_ok (node_keys g) e" using assms by (auto simp: es_def graph_ok_def)
  ultimately obtain targets where ts: "validate_edges ids ?edges [] = Inr targets"
    "\<forall>s i n. (''artifact_produced'', s, i, n) \<in> fst ` set es \<longrightarrow> i \<in> set targets" using validate_edges_ok [of es "node_keys g" ids "[]"] ids(2) by blast
  have lineage: "\<not> lineage_missing targets (JObj node)" if "(i, node) \<in> set ns" for i node
  proof -
    have n: "node_ok (i, node)" "(i, node) \<in> set (g_nodes g)" using that ns(1) by (auto simp: ns_def)
    then have "strip_of node ''id'' = i" using strip_text by (auto simp: node_ok_def)
    moreover have "text_of node ''type'' = ''artifact'' \<Longrightarrow> is_artifact node"
      using n(1) strip_text(2) [of node "''type''"] by (auto simp: node_ok_def is_artifact_def)
    moreover have "i \<in> set targets" if a: "is_artifact node"
    proof -
      have "produced g i" using assms n(2) a unfolding graph_ok_def by blast
      then show ?thesis using ts(2) unfolding produced_def es_def sorted_nodes(1) by blast
    qed
    ultimately show ?thesis by (auto simp: lineage_missing_def)
  qed
  have "list_ex (lineage_missing targets) ?nodes = False" using lineage by (fastforce simp: list_ex_iff)
  moreover have "strip_of (graph_payload sha run_id ordered g) ''run_graph_schema_version'' = RUN_GRAPH_SCHEMA_VERSION"
    "json_get (graph_payload sha run_id ordered g) ''nodes'' = JArr ?nodes" "json_get (graph_payload sha run_id ordered g) ''edges'' = JArr ?edges"
    by (simp_all add: graph_payload_def ns_def es_def Let_def json_get_def strip_of_def text_of_def str_get_or_def py_str_json_def, code_simp)
  ultimately show ?thesis unfolding validate_run_graph_payload_def using ids(1) ts(1) by simp
qed

text \<open>The events of a ledger are in order already.\<close>

lemma traverse_seqs: "(\<And>i. i < length xs \<Longrightarrow> f (xs ! i) = Inr (int i + 1)) \<Longrightarrow> traverse f xs = Inr (map (\<lambda>i. int i + 1) [0..<length xs])"
proof -
  have "(\<And>i. i < length xs \<Longrightarrow> f (xs ! i) = Inr (int i + 1 + k)) \<Longrightarrow> traverse f xs = Inr (map (\<lambda>i. int i + 1 + k) [0..<length xs])" for k
  proof (induction xs arbitrary: k)
    case (Cons x xs)
    have "traverse f xs = Inr (map (\<lambda>i. int i + 1 + (k + 1)) [0..<length xs])"
      using Cons.prems [of "Suc _"] by (intro Cons.IH) (simp add: algebra_simps)
    then show ?case using Cons.prems [of 0] by (simp add: map_upt_Suc algebra_simps del: upt_Suc)
  qed simp
  from this [of 0] show "(\<And>i. i < length xs \<Longrightarrow> f (xs ! i) = Inr (int i + 1)) \<Longrightarrow> traverse f xs = Inr (map (\<lambda>i. int i + 1) [0..<length xs])" by simp
qed

lemma ordered_ready:
  assumes "graph_ready evs"
  shows "ordered_events evs = Inr evs"
proof -
  let ?seqs = "map (\<lambda>i. int i + 1) [0..<length evs]"
  have "traverse event_sequence evs = Inr ?seqs" using assms by (intro traverse_seqs) (simp add: graph_ready_def)
  moreover have "sorted (map (\<lambda>(s, e). (s, text_of e ''kind'')) (zip ?seqs evs))"
    unfolding sorted_iff_nth_mono_less by simp
  then have "sort_key (\<lambda>(s, e). (s, text_of e ''kind'')) (zip ?seqs evs) = zip ?seqs evs" by (rule sort_key_id_if_sorted)
  ultimately show ?thesis by (simp add: ordered_events_def)
qed

theorem run_graph_valid:
  assumes "graph_ready evs"
  shows "\<exists>payload. reconstruct_run_graph sha evs session_id = Inr payload \<and> validate_run_graph_payload payload = Inr ()"
proof -
  let ?id = "resolve_run_id evs session_id"
  obtain g where g: "fold_result (graph_event sha ?id (root_stage ?id)) evs (initial_graph ?id) = Inr g" "graph_ok {} g"
    using graph_loop_ok [OF assms order_refl, of sha ?id] by auto
  then show ?thesis using ordered_ready [OF assms] graph_payload_valid [OF link_calls_ok [OF g(2)]]
    by (simp add: reconstruct_run_graph_def Let_def)
qed

end
