(* ===== verification/Run_Ledger_Finalize.thy ===== *)
theory Run_Ledger_Finalize
  imports Run_Ledger_Guarantees Run_Graph_Validity
begin

text \<open>
  Finalizing a run: without open calls it always succeeds and leaves a valid run graph, because the
  contract that the ledger keeps is what the graph needs. Starting and finalizing are idempotent. A
  refused append of a result leaves its operation won: the operation then has no result and never
  gets one.
\<close>

section \<open>Appends that succeed\<close>

lemma log_append_succeeds:
  assumes "dir_holds E d evs" and "unnumbered p" and "fits (le_max_bytes E) (number_event (int (length evs) + 1) p)"
  shows "\<exists>d'. log_append E p d = (Inr (number_event (int (length evs) + 1) p), d')"
proof -
  obtain es where E: "env_ok E" and inv: "ledger_inv (le_crc E) (le_max_bytes E) (open_ledger (rd_events d)) es"
    and uniq: "\<forall>e \<in> set es. unique_keys (JObj e)" and evs: "evs = map stored_payload es" using assms(1) by (auto simp: dir_holds_def)
  have proper: "proper_event p" using assms(2) by (simp add: unnumbered_def proper_event_def)
  have "sequenced_event p (int (length es) + 1) = Inr (number_event (int (length evs) + 1) p)"
    using assms(2) evs by (simp add: unnumbered_def sequenced_event_def number_event_def)
  moreover obtain f where "encode_lpj_c32_record (le_crc E) (le_max_bytes E) (number_event (int (length evs) + 1) p) = Inr f"
    using assms(3) encode_frame by blast
  ultimately show ?thesis using append_ok [OF inv env_readable_all [OF E uniq] proper] by (simp add: log_append_def)
qed

lemma locked_append_succeeds:
  assumes "dir_holds E d evs" and "event_base kind event" and "check_clock E event evs = Inr ()"
    and "fits (le_max_bytes E) (number_event (int (length evs) + 1) (AList.update ''sequence_number'' (JInt (int (length evs) + 1)) event))"
  shows "\<exists>v d'. append_event_locked E event evs d = (Inr v, d') \<and>
    dir_holds E d' (evs @ [appended_event (int (length evs) + 1) event]) \<and> d' = d\<lparr>rd_events := rd_events d'\<rparr>"
proof -
  let ?n = "int (length evs) + 1"
  let ?p = "AList.update ''sequence_number'' (JInt ?n) event"
  have p: "unnumbered ?p" using assms(2) unique_put [of event "JInt ?n" "''sequence_number''"]
    by (simp add: unnumbered_def event_base_def del: unique_keys.simps(2))
  obtain d1 where put: "log_append E ?p d = (Inr (number_event ?n ?p), d1)" using log_append_succeeds [OF assms(1) p assms(4)] by blast
  have given: "json_get event ''sequence_number'' = JNull" using assms(2) by (simp add: event_base_def)
  have "append_event_locked E event evs d = (Inr (AList.update ''sequence_number'' (JInt ?n) (number_event ?n ?p)), d1)"
    using assms(3) framed.next_seq_holds [OF assms(1)] given put
    by (simp add: append_event_locked_def bind_eff_def lift_result_def json_or_def py_int_def number_event_def)
  then obtain v where "append_event_locked E event evs d = (Inr v, d1)" by blast
  from locked_append [OF assms(1,2) this] this show ?thesis by (cases; auto)
qed

section \<open>The graph of a ledger\<close>

lemma contract_graph_ready:
  assumes "contract evs" and "\<forall>e \<in> set evs. tools_listed e"
  shows "graph_ready evs"
  unfolding graph_ready_def
proof (intro allI impI conjI)
  fix i assume i: "i < length evs"
  note adm = admissible_at [OF assms(1) i]
  show "event_sequence (evs ! i) = Inr (int i + 1)" by (rule contract_sequence [OF assms(1) i])
  show "tools_listed (evs ! i)" using assms(2) i by simp
  assume "strip_of (evs ! i) ''kind'' \<in> set TOOL_RESULT_KINDS"
  then obtain c h where c: "closes (take i evs) (evs ! i) c h" using adm by (auto simp: admissible_def is_result_kind_def)
  then have r: "0 < c" "c \<le> int i" "kind_of (take i evs ! nat (c - 1)) = ''tool_call''"
    using open_at_range [of c "take i evs"] i by (auto simp: closes_def)
  have j: "nat (c - 1) < i" "int (nat (c - 1)) + 1 = c" using r(1,2) by auto
  have "py_int (json_or (json_get (evs ! i) ''call_sequence_number'') (JInt 0)) = Inr c"
    using c by (auto simp: closes_def json_or_def py_int_def)
  moreover have "strip_of (evs ! nat (c - 1)) ''kind'' = ''tool_call''"
    using r(3) j(1) kind_strips(1) by (simp add: kind_of_def strip_of_def)
  ultimately show "\<exists>j < i. py_int (json_or (json_get (evs ! i) ''call_sequence_number'') (JInt 0)) = Inr (int j + 1) \<and>
      strip_of (evs ! j) ''kind'' = ''tool_call''" using j by (intro exI [of _ "nat (c - 1)"]) simp
qed

lemma graph_ready_snoc:
  assumes "graph_ready evs" and "event_sequence e = Inr (int (length evs) + 1)" and "strip_of e ''kind'' \<notin> set TOOL_RESULT_KINDS"
  shows "graph_ready (evs @ [e])"
  unfolding graph_ready_def
proof (intro allI impI)
  fix i assume "i < length (evs @ [e])"
  then consider "i < length evs" | "i = length evs" by fastforce
  then show "event_sequence ((evs @ [e]) ! i) = Inr (int i + 1) \<and> (strip_of ((evs @ [e]) ! i) ''kind'' \<in> set TOOL_RESULT_KINDS \<longrightarrow>
      tools_listed ((evs @ [e]) ! i) \<and> (\<exists>j < i. py_int (json_or (json_get ((evs @ [e]) ! i) ''call_sequence_number'') (JInt 0)) = Inr (int j + 1) \<and>
        strip_of ((evs @ [e]) ! j) ''kind'' = ''tool_call''))"
  proof cases
    case 1
    then have "event_sequence (evs ! i) = Inr (int i + 1) \<and> (strip_of (evs ! i) ''kind'' \<in> set TOOL_RESULT_KINDS \<longrightarrow>
        tools_listed (evs ! i) \<and> (\<exists>j < i. py_int (json_or (json_get (evs ! i) ''call_sequence_number'') (JInt 0)) = Inr (int j + 1) \<and>
          strip_of (evs ! j) ''kind'' = ''tool_call''))" using assms(1) by (simp add: graph_ready_def)
    moreover have "(evs @ [e]) ! j = evs ! j" if "j \<le> i" for j using that 1 by (simp add: nth_append)
    ultimately show ?thesis by (metis less_imp_le order_refl)
  qed (use assms(2,3) in simp)
qed

section \<open>Finalizing succeeds\<close>

lemma finalize_ordering:
  assumes "contract evs" and "open_at evs = {}" and "finalized_event now sid status a = Inr event"
  shows "validate_ordering_contract sid ''run_finalized'' [] event evs = Inr (Inr event)"
proof -
  obtain oc where oc: "open_tool_calls evs = Inr oc" "fst ` set oc = open_at evs" using open_calls_correct [OF assms(1)] by blast
  then have "oc = []" using assms(2) by simp
  moreover have "json_get event ''artifact_hash'' = JNull"
  proof -
    define extra where "extra = ([(''status'', JStr status), (''failure_class'', json_opt_str (fa_failure_class a)),
         (''failure_reason'', json_opt_str (fa_failure_reason a)),
         (''summary'', JObj (dict_or_empty (fa_summary a))), (''artifacts'', JObj (dict_or_empty (fa_artifacts a)))] @
        (let finalized_at = py_strip (str_or (fa_finalized_at a) []) in
         if finalized_at \<noteq> [] then [(''timestamp'', JStr finalized_at)] else []))"
    have gen: "''artifact_hash'' \<notin> fst ` set xs \<Longrightarrow> json_get (update_fields xs e) ''artifact_hash'' = json_get e ''artifact_hash''" for xs e
      unfolding update_fields_def by (induction xs arbitrary: e) auto
    have "''artifact_hash'' \<notin> fst ` set extra" by (auto simp: extra_def Let_def)
    from gen [OF this] show ?thesis using assms(3) unfolding finalized_event_def extra_def [symmetric]
      by (auto simp: build_event_def Let_def json_get_def split: if_splits)
  qed
  ultimately show ?thesis using oc(1) next_sequence_correct [OF assms(1)] kind_strips(2)
    by (simp add: validate_ordering_contract_def Let_def is_result_kind_def TOOL_RESULT_KINDS_def str_get_or_def text_of_def)
      (simp add: json_get_def py_strip_def)
qed

text \<open>
  C23: a run without open calls can be finalized. In a run directory that the calls of the ledger have made,
  let no recorded call be open and let the compatibility translations in the recorded results list their
  tools. When the status and the failure fields of the call are a valid combination, the clock does
  not go back, the numbered event fits into a record and the dicts given have no repeated keys,
  \<open>finalize_run\<close> succeeds: it returns the event of an earlier equal finalization and writes nothing, or,
  when there is none, it records the event after the events so far, numbered next, and the run graph it leaves is the
  one reconstructed from exactly these events, which the validation of run graphs accepts.
\<close>

theorem closed_run_can_be_finalized:
  assumes "run_reach E ok d" and "env_ok E" and "list_run_events E d = Inr evs" and "open_at evs = {}"
    and "\<forall>e \<in> set evs. tools_listed e"
    and "validate_result_error_invariant (fa_status a) (fa_failure_class a) (fa_failure_reason a) = Inr status"
    and "finalized_event now sid status a = Inr event" and "check_clock E event evs = Inr ()"
    and "fits (le_max_bytes E) (number_event (int (length evs) + 1) (AList.update ''sequence_number'' (JInt (int (length evs) + 1)) event))"
    and "finalize_ok a"
  shows "case matching_run_finalized_event evs status (fa_failure_class a) (fa_failure_reason a) of
      Some v \<Rightarrow> finalize_run E now sid a d = (Inr v, d)
    | None \<Rightarrow> \<exists>v d' graph text. finalize_run E now sid a d = (Inr v, d') \<and>
        list_run_events E d' = Inr (evs @ [appended_event (int (length evs) + 1) event]) \<and>
        reconstruct_run_graph (le_sha256 E) (pending_events event evs (int (length evs) + 1)) (Some sid) = Inr graph \<and>
        validate_run_graph_payload graph = Inr () \<and> run_graph_text graph = Inr text \<and> rd_graph d' = Some text"
proof (cases "matching_run_finalized_event evs status (fa_failure_class a) (fa_failure_reason a)")
  case (Some v)
  obtain evs' where "run_inv E d evs'" using reach_inv [OF assms(1,2)] by blast
  then have "dir_holds E d evs" using inv_events [of E d evs'] assms(3) by (simp add: run_inv_def)
  from framed.replay_holds [OF this] show ?thesis
    using Some assms(6,7) by (simp add: finalize_run_def bind_eff_def lift_result_def)
next
  case None
  obtain evs' where inv: "run_inv E d evs'" using reach_inv [OF assms(1,2)] by blast
  then have h: "dir_holds E d evs" "contract evs" using inv_events [OF inv] assms(3) by (simp_all add: run_inv_def)
  have base: "event_base ''run_finalized'' event" by (rule finalized_base [OF assms(7,10)])
  let ?n = "int (length evs) + 1"
  have "json_get (AList.update ''sequence_number'' (JInt ?n) (AList.update ''event_seq'' (JInt ?n) event)) ''event_seq'' = JInt ?n" by simp
  then have "event_sequence (AList.update ''sequence_number'' (JInt ?n) (AList.update ''event_seq'' (JInt ?n) event)) = Inr ?n"
    by (intro event_sequence_at) auto
  moreover have "strip_of (AList.update ''sequence_number'' (JInt ?n) (AList.update ''event_seq'' (JInt ?n) event)) ''kind'' = ''run_finalized''"
    using base kind_strips(2) by (simp add: event_base_def strip_of_def text_of_def str_get_or_def py_str_json_def)
  ultimately have "graph_ready (pending_events event evs ?n)" unfolding pending_events_def
    by (intro graph_ready_snoc [OF contract_graph_ready [OF h(2) assms(5)]]) (simp_all add: TOOL_RESULT_KINDS_def)
  from run_graph_valid [OF this, of "le_sha256 E" "Some sid"] obtain graph where g:
    "reconstruct_run_graph (le_sha256 E) (pending_events event evs ?n) (Some sid) = Inr graph" "validate_run_graph_payload graph = Inr ()" by blast
  then obtain t where t: "run_graph_text graph = Inr t" by (simp add: run_graph_text_def)
  have h1: "dir_holds E (d\<lparr>rd_graph := Some t\<rparr>) evs" using h(1) by (simp add: dir_holds_def)
  obtain v d' where r: "append_event_locked E event evs (d\<lparr>rd_graph := Some t\<rparr>) = (Inr v, d')"
    "dir_holds E d' (evs @ [appended_event ?n event])" "d' = (d\<lparr>rd_graph := Some t\<rparr>)\<lparr>rd_events := rd_events d'\<rparr>"
    using locked_append_succeeds [OF h1 base assms(8,9)] by blast
  have "finalize_run E now sid a d = (Inr v, d')"
    using framed.replay_holds [OF h(1)] assms(6,7) None finalize_ordering [OF h(2) assms(4,7)] next_sequence_correct [OF h(2)] g(1) t r(1)
    by (simp add: finalize_run_def write_run_graph_artifact_def bind_eff_def lift_result_def)
  moreover have "rd_graph d' = Some t" using events_update_fields [OF r(3)] by simp
  moreover have "list_run_events E d' = Inr (evs @ [appended_event ?n event])" using framed.replay_holds [OF r(2)] by (simp add: list_run_events_def)
  ultimately show ?thesis using g t None by auto
qed

section \<open>Starting and finalizing again\<close>

lemma first_kind_found: "e \<in> set evs \<Longrightarrow> kind_of e = k \<Longrightarrow> \<exists>v. first_event_by_kind evs k = Some v \<and> v \<in> set evs \<and> kind_of v = k"
proof -
  assume e: "e \<in> set evs" "kind_of e = k"
  then obtain v where v: "first_event_by_kind evs k = Some v"
    unfolding first_event_by_kind_def kind_of_def by (cases "List.find (\<lambda>row. text_of row ''kind'' = k) evs") (auto simp: find_None_iff)
  then show ?thesis by (auto simp: first_event_by_kind_def find_Some_iff kind_of_def)
qed

text \<open>
  A run is started once. Once a call of \<open>start_run\<close> was answered with an event, every later call, whatever
  its arguments, returns the event that is recorded as the start of the run and writes nothing.
\<close>

theorem start_run_once:
  assumes "run_reach E ok d" and "env_ok E" and "start_run E now sid a d = (Inr v, d')" and "py_strip now' \<noteq> []"
    and "start_ok a"
  shows "\<exists>e evs. list_run_events E d' = Inr evs \<and> e \<in> set evs \<and> kind_of e = ''run_started'' \<and>
    start_run E now' sid' a' d' = (Inr e, d')"
proof -
  obtain evs where inv: "run_inv E d evs" using reach_inv [OF assms(1,2)] by blast
  then have h: "dir_holds E d evs" by (simp add: run_inv_def)
  have "\<exists>evs'. dir_holds E d' evs' \<and> (\<exists>e \<in> set evs'. kind_of e = ''run_started'')"
    using start_run_cases [OF h assms(3,5)]
  proof cases
    case (2 e)
    then have "e \<in> set evs" "kind_of e = ''run_started''" by (auto simp: first_event_by_kind_def find_Some_iff kind_of_def)
    then show ?thesis using h 2(3) by blast
  next
    case (3 event)
    from locked_append [OF h 3] have "dir_holds E d' (evs @ [appended_event (int (length evs) + 1) event])" by (cases; auto)
    then show ?thesis using appended_kind [OF 3(1)] by fastforce
  qed simp
  then obtain evs' e0 where h': "dir_holds E d' evs'" and e0: "e0 \<in> set evs'" "kind_of e0 = ''run_started''" by blast
  obtain e where e: "first_event_by_kind evs' ''run_started'' = Some e" "e \<in> set evs'" "kind_of e = ''run_started''"
    using first_kind_found [OF e0] by blast
  have "start_run E now' sid' a' d' = (Inr e, d')"
    using e(1) assms(4) framed.replay_holds [OF h'] by (simp add: start_run_def build_event_def bind_eff_def lift_result_def Let_def)
  then show ?thesis using e framed.replay_holds [OF h'] by (auto simp: list_run_events_def)
qed

section \<open>A refused result loses its operation\<close>

lemma won_operation_not_recorded:
  assumes "dir_holds E d evs" and "winners_of E d (operation_id_of p) = Some w" and "is_result_kind kind" and "operation_id_of p \<noteq> []"
    and "append_run_event E now sid kind p d = (r, d')"
  shows "d' = d"
proof -
  have "op_winner E (operation_id_of p) d = Some w"
    using assms(2) by (simp add: op_winner_def registry_winner_def winners_of_def file_winners_def operation_id_of_def strip_of_def Let_def)
  then have "\<exists>x. fst (check_duplicate E sid kind p d) = Inr (Some x)"
    using assms(3,4) by (simp add: check_duplicate_def read_eff_def duplicate_operation_rejection_def)
  then show ?thesis using assms(5) append_prepared_run [OF assms(1), of sid kind p]
    by (cases "prepare_event E now sid kind p")
      (auto simp: append_run_event_def bind_eff_def lift_result_def split: sum.splits option.splits)
qed

text \<open>
  When the append of a result fails after its operation was reserved (the clock went back, or the event is
  too large), the registry names a winner that is not in the ledger, and no later result of the operation
  is recorded: every retry is turned away as a duplicate.
\<close>

lemma refused_result_loses_operation:
  assumes "dir_holds E d evs" and "contract evs" and "unique_keys (JObj p)" and "append_run_event E now sid kind p d = (Inl err, d')" and "d' \<noteq> d"
  shows "list_run_events E d' = Inr evs \<and> (\<exists>w. winners_of E d' (operation_id_of p) = Some w \<and> cr_event_seq w = int (length evs) + 1) \<and>
    (\<forall>now' sid' kind' p' r d''. is_result_kind kind' \<and> operation_id_of p' = operation_id_of p \<and>
       append_run_event E now' sid' kind' p' d' = (r, d'') \<longrightarrow> d'' = d')"
  using append_event_cases [OF assms(1,2,3,4)]
proof cases
  case (2 err')
  have h: "dir_holds E d' evs" using dir_holds_frame [OF 2(3)] assms(1) by simp
  have op: "operation_id_of p \<noteq> []" using 2(2) by (simp add: reserves_def)
  have w: "winners_of E d' (operation_id_of p) = Some (reserved_row E kind p (int (length evs) + 1))"
    using 2(2,5) by (simp add: reserved_in_def)
  show ?thesis
  proof (intro conjI allI impI)
    show "list_run_events E d' = Inr evs" using framed.replay_holds [OF h] by (simp add: list_run_events_def)
    show "\<exists>w. winners_of E d' (operation_id_of p) = Some w \<and> cr_event_seq w = int (length evs) + 1"
      using w by (simp add: reserved_row_def)
    fix now' sid' kind' p' r d''
    assume a: "is_result_kind kind' \<and> operation_id_of p' = operation_id_of p \<and> append_run_event E now' sid' kind' p' d' = (r, d'')"
    then show "d'' = d'" using won_operation_not_recorded [OF h, of p' _ kind' now' sid' r d''] w op by auto
  qed
qed (use assms(5) in auto)

end
