(* ===== verification/Run_Receipts.thy ===== *)
theory Run_Receipts
  imports Run_Ledger_Guarantees
begin

text \<open>
  The receipt log of a run: a line of JSON for each receipt. The log of a reachable directory can be read,
  its receipts ascend strictly, and a receipt whose digest has no surrounding white space is appended
  once, however often it is sent. A digest with white space around it is not recognised and is appended
  at every attempt.
\<close>

section \<open>Lines\<close>

text \<open>The writer escapes control characters, so that a rendered value is one line.\<close>

definition graphic :: "char \<Rightarrow> bool" where
  "graphic c \<longleftrightarrow> 32 \<le> (of_char c :: nat)"

lemma hex_digit_graphic: "n < 16 \<Longrightarrow> graphic (hex_digit n)"
  by (simp add: graphic_def hex_digit_def)

lemma escape_graphic: "\<forall>x \<in> set (escape_char a c). graphic x"
proof -
  have "(of_char c :: nat) < 256" by simp
  then have "graphic (hex_digit (of_char c div 16))" "graphic (hex_digit (of_char c mod 16))"
    by (intro hex_digit_graphic; linarith)+
  then show ?thesis unfolding escape_char_def Let_def by (auto simp: graphic_def)
qed

lemma string_graphic: "\<forall>x \<in> set (json_string a s). graphic x"
  using escape_graphic by (auto simp: json_string_def graphic_def)

lemma int_graphic: "\<forall>x \<in> set (str_of_int i). graphic x"
proof -
  have "\<forall>x \<in> set (str_of_nat n). graphic x" for n
    using str_of_nat_digits [of n] by (auto simp: list_all_iff is_digit_def graphic_def)
  then show ?thesis by (auto simp: str_of_int_def graphic_def)
qed

lemma join_graphic: "\<forall>s \<in> set ss. \<forall>x \<in> set s. graphic x \<Longrightarrow> \<forall>x \<in> set (join '','' ss). graphic x"
  by (induction "'',''" ss rule: join.induct) (auto simp: graphic_def)

lemma dumps_graphic: "\<forall>x \<in> set (raw_dumps a v). graphic x"
proof (induction a v rule: raw_dumps.induct)
  case (5 a xs)
  then have "\<forall>x \<in> set (join '','' (map (raw_dumps a) xs)). graphic x" by (intro join_graphic) auto
  then show ?case by (auto simp: graphic_def)
next
  case (6 a kvs)
  have "\<forall>x \<in> set (join '','' (map (\<lambda>(k, v). json_string a k @ '':'' @ raw_dumps a v) kvs)). graphic x"
    using 6 string_graphic by (intro join_graphic) (fastforce simp: graphic_def)
  then show ?case by (auto simp: graphic_def)
qed (use int_graphic string_graphic in \<open>auto simp: graphic_def\<close>)

lemma object_line: "CHR 10 \<notin> set (raw_dumps a v)" "CHR 13 \<notin> set (raw_dumps a v)" "py_strip (raw_dumps a (JObj r)) = raw_dumps a (JObj r)"
proof -
  show "CHR 10 \<notin> set (raw_dumps a v)" "CHR 13 \<notin> set (raw_dumps a v)" using dumps_graphic [of a v] by (auto simp: graphic_def)
  show "py_strip (raw_dumps a (JObj r)) = raw_dumps a (JObj r)" by (simp add: py_strip_def py_isspace_def)
qed

lemma no_returns: "CHR 13 \<notin> set s \<Longrightarrow> universal_newlines s = s"
  by (induction s rule: universal_newlines.induct) auto

lemma lines_of: "\<forall>l \<in> set ls. CHR 10 \<notin> set l \<and> CHR 13 \<notin> set l \<Longrightarrow> file_lines (concat (map (\<lambda>l. l @ [CHR 10]) ls)) = ls"
proof -
  assume ls: "\<forall>l \<in> set ls. CHR 10 \<notin> set l \<and> CHR 13 \<notin> set l"
  let ?step = "\<lambda>c ls. if c = CHR 10 then [] # ls else (c # hd ls) # tl ls"
  have one: "foldr ?step l (y # ys) = (l @ y) # ys" if "CHR 10 \<notin> set l" for l y ys using that by (induction l) auto
  have "foldr ?step (concat (map (\<lambda>l. l @ [CHR 10]) ls)) [[]] = ls @ [[]]" using ls by (induction ls) (simp_all add: one)
  moreover have "universal_newlines (concat (map (\<lambda>l. l @ [CHR 10]) ls)) = concat (map (\<lambda>l. l @ [CHR 10]) ls)"
    using ls by (intro no_returns) auto
  ultimately show ?thesis by (simp add: file_lines_def Let_def)
qed

section \<open>The log as a list of receipts\<close>

definition receipt_lines :: "dict list \<Rightarrow> string" where
  "receipt_lines rows = concat (map (\<lambda>l. l @ [CHR 10]) (map (\<lambda>r. raw_dumps False (JObj r)) rows))"

lemma lines_read: "env_ok E \<Longrightarrow> \<forall>r \<in> set rows. unique_keys (JObj r) \<Longrightarrow>
    load_receipt_lines E i (map (\<lambda>r. raw_dumps False (JObj r)) rows) = Inr rows"
proof (induction rows arbitrary: i)
  case (Cons r rows)
  have "unique_keys (JObj r) \<and> ([] = [] \<or> [] = [CHR 10])" using Cons.prems(2) by simp
  then have "le_loads E (utf8_encode (raw_dumps False (JObj r) @ [])) = Some (JObj r)"
    using Cons.prems(1) unfolding env_ok_def reads_back_def by blast
  then have "le_loads E (utf8_encode (raw_dumps False (JObj r))) = Some (JObj r)" by (simp only: append_Nil2)
  moreover have "raw_dumps False (JObj r) \<noteq> []" by simp
  ultimately show ?case using Cons object_line(3) [of False r] by (simp del: raw_dumps.simps unique_keys.simps)
qed simp

definition receipts_ascend :: "dict list \<Rightarrow> bool" where
  "receipts_ascend rows \<longleftrightarrow>
     (\<exists>seqs. map (\<lambda>r. json_get r ''receipt_seq'') rows = map JInt seqs \<and> sorted_wrt (<) seqs \<and> (\<forall>s \<in> set seqs. 0 < s))"

text \<open>A digest without surrounding white space occurs once.\<close>

definition digests_once :: "dict list \<Rightarrow> bool" where
  "digests_once rows \<longleftrightarrow> sorted_wrt (\<lambda>r s. stripped (text_of s ''receipt_digest'') \<longrightarrow>
     text_of r ''receipt_digest'' \<noteq> text_of s ''receipt_digest'') rows"

definition receipts_hold :: "ledger_env \<Rightarrow> run_dir \<Rightarrow> dict list \<Rightarrow> bool" where
  "receipts_hold E d rows \<longleftrightarrow> env_ok E \<and> rd_receipts d = (if rows = [] then None else Some (receipt_lines rows)) \<and>
     (\<forall>r \<in> set rows. unique_keys (JObj r)) \<and> receipts_ascend rows \<and> digests_once rows"

lemma seq_read: "json_get r ''receipt_seq'' = JInt s \<Longrightarrow> receipt_seq_of r = Inr s"
  by (simp add: receipt_seq_of_def json_or_def py_int_def)

lemma seqs_read: "map (\<lambda>r. json_get r ''receipt_seq'') rows = map JInt seqs \<Longrightarrow> traverse receipt_seq_of rows = Inr seqs"
proof (induction rows arbitrary: seqs)
  case (Cons r rows)
  then obtain s ss where "seqs = s # ss" by (cases seqs) auto
  then show ?case using Cons seq_read [of r s] by simp
qed simp

lemma ascending_sorted:
  assumes "sorted_wrt (<) (seqs :: int list)" and "length seqs = length rows"
  shows "sort_key (\<lambda>(s, row). (s, g row :: string)) (zip seqs rows) = zip seqs rows"
proof (rule sort_key_id_if_sorted)
  show "sorted (map (\<lambda>(s, row). (s, g row)) (zip seqs rows))"
    using assms by (induction seqs rows rule: list_induct2') (auto simp: less_eq_prod_simp dest!: set_zip_leftD)
qed

lemma receipts_loaded: "receipts_hold E d rows \<Longrightarrow> load_receipts_sync E d = Inr rows"
proof (cases "rows = []")
  case False
  assume h: "receipts_hold E d rows"
  then obtain seqs where s: "map (\<lambda>r. json_get r ''receipt_seq'') rows = map JInt seqs" "sorted_wrt (<) seqs"
    by (auto simp: receipts_hold_def receipts_ascend_def)
  have len: "length seqs = length rows" using arg_cong [OF s(1), of length] by simp
  have "file_lines (receipt_lines rows) = map (\<lambda>r. raw_dumps False (JObj r)) rows"
    unfolding receipt_lines_def using object_line by (intro lines_of) (auto simp del: raw_dumps.simps)
  then show ?thesis using h False lines_read [of E rows] seqs_read [OF s(1)] ascending_sorted [OF s(2) len] len
    by (simp add: receipts_hold_def load_receipts_sync_def)
qed (simp add: receipts_hold_def load_receipts_sync_def)

section \<open>Appending a receipt\<close>

lemma last_seq_bound:
  assumes "map (\<lambda>r. json_get r ''receipt_seq'') rows = map JInt seqs"
  shows "0 \<le> last_receipt_seq rows \<and> (\<forall>s \<in> set seqs. s \<le> last_receipt_seq rows)"
proof -
  let ?f = "\<lambda>row last_seq. max (case receipt_seq_of row of Inl _ \<Rightarrow> 0 | Inr s \<Rightarrow> s) last_seq"
  have "b \<le> fold ?f rows b \<and> (\<forall>s \<in> set seqs. s \<le> fold ?f rows b)" for b :: int using assms
  proof (induction rows arbitrary: seqs b)
    case (Cons r rows)
    then obtain s ss where ss: "seqs = s # ss" "map (\<lambda>r. json_get r ''receipt_seq'') rows = map JInt ss" by (cases seqs) auto
    have "receipt_seq_of r = Inr s" using Cons.prems ss(1) by (intro seq_read) simp
    then show ?case using Cons.IH [OF ss(2), of "max s b"] ss(1) by auto
  qed simp
  then show ?thesis by (simp add: last_receipt_seq_def)
qed

text \<open>The digest under which a receipt is sought, and the digest that is stored.\<close>

lemma stored_digest:
  assumes "env_ok E"
  shows "text_of (normalized_receipt E rc) ''receipt_digest'' =
      (if strip_of rc ''receipt_digest'' = [] then receipt_key E rc else text_of rc ''receipt_digest'')"
    and "strip_of rc ''receipt_digest'' \<noteq> [] \<Longrightarrow> receipt_key E rc = strip_of rc ''receipt_digest''"
    and "receipt_key E rc \<noteq> [] \<and> stripped (receipt_key E rc)"
proof -
  have get: "text_of (set_str ''schema_version'' s rc) ''receipt_digest'' = text_of rc ''receipt_digest''" for s
    by (simp add: text_of_def str_get_or_def set_str_def)
  have "hex_digest (hash_canonical_json (le_sha256 E) v)" for v using assms by (simp add: env_ok_def hash_canonical_json_def)
  then have hash: "hash_canonical_json (le_sha256 E) v \<noteq> [] \<and> stripped (hash_canonical_json (le_sha256 E) v)" for v
    using hex_stripped by blast
  have put: "text_of (set_str ''receipt_digest'' s r) ''receipt_digest'' = s" for s r
    by (simp add: set_str_def text_of_JStr)
  show "text_of (normalized_receipt E rc) ''receipt_digest'' =
      (if strip_of rc ''receipt_digest'' = [] then receipt_key E rc else text_of rc ''receipt_digest'')"
    by (simp add: normalized_receipt_def receipt_key_def strip_of_def get put Let_def)
  show "strip_of rc ''receipt_digest'' \<noteq> [] \<Longrightarrow> receipt_key E rc = strip_of rc ''receipt_digest''"
    by (simp add: receipt_key_def strip_of_def get Let_def)
  show "receipt_key E rc \<noteq> [] \<and> stripped (receipt_key E rc)"
    using hash by (simp add: receipt_key_def strip_of_def get Let_def)
qed

lemma new_digest:
  assumes "env_ok E" and "stripped (text_of (normalized_receipt E rc) ''receipt_digest'')"
  shows "text_of (normalized_receipt E rc) ''receipt_digest'' = receipt_key E rc"
  using assms(2) stored_digest [OF assms(1), of rc] by (auto simp: strip_of_def split: if_splits)

lemma normalized_unique: "unique_keys (JObj rc) \<Longrightarrow> unique_keys (JObj (normalized_receipt E rc))"
  by (simp add: normalized_receipt_def Let_def unique_set del: unique_keys.simps)

lemma sequenced_cases:
  assumes "sequenced_receipt r b = Inr v"
  shows "\<exists>s > b. v = AList.update ''receipt_seq'' (JInt s) r"
proof -
  have "\<exists>s. b < s \<and> v = AList.update ''receipt_seq'' (JInt s) r" if "json_get r ''receipt_seq'' \<noteq> JNull"
  proof (cases "py_int (json_get r ''receipt_seq'')")
    case (Inr s)
    then have "sequenced_receipt r b = (if s \<le> b
        then Inl (ValueError (''E_RECEIPT_SEQ_NON_MONOTONIC:'' @ str_of_int s @ ''<=last:'' @ str_of_int b))
        else Inr (AList.update ''receipt_seq'' (JInt s) r))"
      using that by (cases "json_get r ''receipt_seq''") (simp_all add: sequenced_receipt_def)
    then show ?thesis using assms by (intro exI [of _ s]) (simp split: if_splits)
  qed (use that assms in \<open>cases "json_get r ''receipt_seq''"; simp add: sequenced_receipt_def\<close>)
  moreover have "v = AList.update ''receipt_seq'' (JInt (b + 1)) r" if "json_get r ''receipt_seq'' = JNull"
    using that assms by (simp add: sequenced_receipt_def)
  ultimately show ?thesis by (metis less_add_one)
qed

lemma receipt_cases:
  assumes "receipts_hold E d rows" and "unique_keys (JObj rc)" and "append_receipt E rc d = (r, d')"
  obtains (refused) err where "r = Inl err" and "d' = d"
    | (found) v where "r = Inr v" and "d' = d" and "v \<in> set rows" and "text_of v ''receipt_digest'' = receipt_key E rc"
    | (appended) v where "r = Inr v" and "receipts_hold E d' (rows @ [v])"
        and "text_of v ''receipt_digest'' = text_of (normalized_receipt E rc) ''receipt_digest''"
proof -
  let ?hit = "\<lambda>row. strip_of row ''receipt_digest'' \<noteq> [] \<and> text_of row ''receipt_digest'' = receipt_key E rc"
  note load = receipts_loaded [OF assms(1)]
  show ?thesis
  proof (cases "List.find ?hit (rev rows)")
    case (Some v)
    then have "v \<in> set rows" "text_of v ''receipt_digest'' = receipt_key E rc" using nth_mem [of _ "rev rows"] by (auto simp: find_Some_iff)
    moreover have "r = Inr v" "d' = d"
      using assms(3) load Some by (simp_all add: append_receipt_def read_eff_def bind_eff_def lift_result_def Let_def)
    ultimately show ?thesis using found by blast
  next
    case None
    then have fresh: "\<not> ?hit row" if "row \<in> set rows" for row using that by (auto simp: find_None_iff)
    show ?thesis
    proof (cases "sequenced_receipt (normalized_receipt E rc) (last_receipt_seq rows)")
      case (Inl err)
      then have "r = Inl err" "d' = d"
        using assms(3) load None by (simp_all add: append_receipt_def read_eff_def bind_eff_def lift_result_def Let_def)
      then show ?thesis by (rule refused)
    next
      case (Inr v)
      then obtain s where s: "last_receipt_seq rows < s" "v = AList.update ''receipt_seq'' (JInt s) (normalized_receipt E rc)"
        using sequenced_cases by blast
      have out: "r = Inr v" "d' = d\<lparr>rd_receipts := Some ((case rd_receipts d of None \<Rightarrow> [] | Some text \<Rightarrow> text) @
          raw_dumps False (JObj v) @ [CHR 10])\<rparr>"
        using assms(3) load None Inr by (simp_all add: append_receipt_def read_eff_def bind_eff_def lift_result_def Let_def del: raw_dumps.simps)
      have h: "env_ok E" "rd_receipts d = (if rows = [] then None else Some (receipt_lines rows))"
        "\<forall>r \<in> set rows. unique_keys (JObj r)" "receipts_ascend rows" "digests_once rows"
        using assms(1) by (simp_all add: receipts_hold_def del: unique_keys.simps)
      have digest: "text_of v ''receipt_digest'' = text_of (normalized_receipt E rc) ''receipt_digest''"
        by (simp add: s(2) text_of_def str_get_or_def)
      have "unique_keys (JObj v)" unfolding s(2) by (intro unique_put normalized_unique assms(2)) simp
      moreover have "rd_receipts d' = Some (receipt_lines (rows @ [v]))" using h(2) out(2) by (simp add: receipt_lines_def del: raw_dumps.simps)
      moreover have "receipts_ascend (rows @ [v])"
      proof -
        obtain seqs where q: "map (\<lambda>r. json_get r ''receipt_seq'') rows = map JInt seqs" "sorted_wrt (<) seqs" "\<forall>s \<in> set seqs. 0 < s"
          using h(4) by (auto simp: receipts_ascend_def)
        have "map (\<lambda>r. json_get r ''receipt_seq'') (rows @ [v]) = map JInt (seqs @ [s])" using q(1) by (simp add: s(2))
        moreover have "sorted_wrt (<) (seqs @ [s])" "\<forall>x \<in> set (seqs @ [s]). 0 < x"
          using q(2,3) last_seq_bound [OF q(1)] s(1) by (fastforce simp: sorted_wrt_append)+
        ultimately show ?thesis unfolding receipts_ascend_def by blast
      qed
      moreover have "digests_once (rows @ [v])"
      proof -
        have "text_of x ''receipt_digest'' \<noteq> text_of v ''receipt_digest''" if "x \<in> set rows" "stripped (text_of v ''receipt_digest'')" for x
          using fresh [OF that(1)] that(2) new_digest [OF h(1), of rc] stored_digest(3) [OF h(1), of rc] digest by (auto simp: strip_of_def)
        then show ?thesis using h(5) by (auto simp: digests_once_def sorted_wrt_append)
      qed
      ultimately have "receipts_hold E d' (rows @ [v])" using h(1,3) by (auto simp: receipts_hold_def simp del: unique_keys.simps)
      then show ?thesis using appended out(1) digest by blast
    qed
  qed
qed

section \<open>Reachable directories\<close>

lemma receipts_frame: "rd_receipts d' = rd_receipts d \<Longrightarrow> receipts_hold E d' rows = receipts_hold E d rows"
  by (simp add: receipts_hold_def)

lemma receipts_step:
  assumes "run_step E ok d d'" and "run_inv E d evs" and "receipts_hold E d rows"
  shows "\<exists>rows'. receipts_hold E d' rows' \<and> prefix rows rows'"
  using assms(1)
proof cases
  case (started a now sid r)
  then have "rd_receipts d' = rd_receipts d" using start_run_outcome assms(2) by (auto simp: run_inv_def plain_outcome_def)
  then show ?thesis using assms(3) receipts_frame by blast
next
  case (finalized b now sid r)
  then have "rd_receipts d' = rd_receipts d" using finalize_run_outcome assms(2) by (auto simp: run_inv_def plain_outcome_def)
  then show ?thesis using assms(3) receipts_frame by blast
next
  case (event payload now sid kind r)
  have h: "dir_holds E d evs" "contract evs" using assms(2) by (simp_all add: run_inv_def)
  have "rd_receipts d' = rd_receipts d" using append_event_cases [OF h event(2,3)] by (cases; simp)
  then show ?thesis using assms(3) receipts_frame by blast
next
  case (receipt rc r)
  from receipt_cases [OF assms(3) receipt] show ?thesis
    by (cases; use assms(3) in \<open>auto intro: prefixI [OF refl]\<close>)
qed

lemma receipts_reached: "run_reach E ok d \<Longrightarrow> env_ok E \<Longrightarrow> \<exists>rows. receipts_hold E d rows"
proof (induction rule: run_reach.induct)
  case fresh
  then show ?case by (intro exI [of _ "[]"]) (simp add: receipts_hold_def empty_dir_def receipts_ascend_def digests_once_def)
next
  case (step d d')
  then show ?case using receipts_step [OF step.hyps(2)] reach_inv [OF step.hyps(1)] by blast
qed

lemma run_reach_trans: "(run_step E ok)\<^sup>*\<^sup>* d d' \<Longrightarrow> run_reach E ok d \<Longrightarrow> run_reach E ok d'"
  by (induction rule: rtranclp_induct) (auto intro: run_reach.step)

lemma receipts_later:
  assumes "(run_step E ok)\<^sup>*\<^sup>* d d'" and "run_reach E ok d" and "env_ok E" and "receipts_hold E d rows"
  shows "\<exists>rows'. receipts_hold E d' rows' \<and> prefix rows rows'"
  using assms(1)
proof (induction rule: rtranclp_induct)
  case base
  then show ?case using assms(4) by blast
next
  case (step d1 d2)
  obtain evs where "run_inv E d1 evs" using reach_inv [OF run_reach_trans [OF step.hyps(1) assms(2)] assms(3)] by blast
  then show ?case using receipts_step [OF step.hyps(2)] step.IH prefix_order.trans by blast
qed

lemma digest_row_unique:
  assumes "digests_once rows" and "v \<in> set rows" and "w \<in> set rows" and "text_of v ''receipt_digest'' = k"
    and "text_of w ''receipt_digest'' = k" and "stripped k"
  shows "v = w"
proof -
  obtain i j where ij: "i < length rows" "v = rows ! i" "j < length rows" "w = rows ! j" using assms(2,3) by (auto simp: in_set_conv_nth)
  have once: "\<not> a < b" if "text_of (rows ! a) ''receipt_digest'' = k" "text_of (rows ! b) ''receipt_digest'' = k" "b < length rows" for a b
  proof
    assume "a < b"
    from sorted_wrt_nth_less [OF assms(1) [unfolded digests_once_def] this that(3)] show False using that(1,2) assms(6) by simp
  qed
  have "\<not> i < j" "\<not> j < i" using once [of i j] once [of j i] assms(4,5) ij by simp_all
  then show ?thesis using ij by (simp add: nat_neq_iff)
qed

lemma receipt_found:
  assumes "receipts_hold E d rows" and "v \<in> set rows" and "text_of v ''receipt_digest'' = receipt_key E rc"
  shows "append_receipt E rc d = (Inr v, d)"
proof -
  let ?hit = "\<lambda>row. strip_of row ''receipt_digest'' \<noteq> [] \<and> text_of row ''receipt_digest'' = receipt_key E rc"
  have k: "receipt_key E rc \<noteq> []" "stripped (receipt_key E rc)" using stored_digest(3) assms(1) by (auto simp: receipts_hold_def)
  then have "?hit v" using assms(3) by (simp add: strip_of_def)
  then obtain w where w: "List.find ?hit (rev rows) = Some w" using assms(2) by (cases "List.find ?hit (rev rows)") (auto simp: find_None_iff)
  then have "w \<in> set rows" "text_of w ''receipt_digest'' = receipt_key E rc" using nth_mem [of _ "rev rows"] by (auto simp: find_Some_iff)
  then have "w = v" using digest_row_unique [of rows v w] assms k by (auto simp: receipts_hold_def)
  then show ?thesis using receipts_loaded [OF assms(1)] w by (simp add: append_receipt_def read_eff_def bind_eff_def lift_result_def Let_def)
qed

text \<open>
  C27: a receipt is logged once and for good. After a receipt whose digest is absent or has no white space
  around it was accepted, whatever calls follow: the log can be read, holds the receipt as it was
  answered, its sequence numbers ascend strictly from above zero, and sending the receipt again returns it and writes
  nothing.
\<close>

theorem receipt_logged_once:
  assumes "run_reach E ok d" and "env_ok E" and "unique_keys (JObj rc)" and "stripped (text_of rc ''receipt_digest'')"
    and "append_receipt E rc d = (Inr v, d')" and "(run_step E ok)\<^sup>*\<^sup>* d' d''"
  shows "\<exists>rows seqs. load_receipts_sync E d'' = Inr rows \<and> v \<in> set rows \<and>
    map (\<lambda>r. json_get r ''receipt_seq'') rows = map JInt seqs \<and> sorted_wrt (<) (0 # seqs) \<and>
    append_receipt E rc d'' = (Inr v, d'')"
proof -
  obtain rows where h: "receipts_hold E d rows" using receipts_reached [OF assms(1,2)] by blast
  have key: "text_of (normalized_receipt E rc) ''receipt_digest'' = receipt_key E rc"
    using stored_digest [OF assms(2), of rc] assms(4) by (simp add: strip_of_def)
  from receipt_cases [OF h assms(3,5)] obtain rows' where h': "receipts_hold E d' rows'" "v \<in> set rows'"
    and v: "text_of v ''receipt_digest'' = receipt_key E rc" using h key by (cases; fastforce)
  have "run_reach E ok d'" using run_reach.step [OF assms(1) run_step.receipt [OF assms(3,5)]] .
  from receipts_later [OF assms(6) this assms(2) h'(1)] obtain rows'' where h'': "receipts_hold E d'' rows''" "prefix rows' rows''" by blast
  have "v \<in> set rows''" using h'(2) set_mono_prefix [OF h''(2)] by blast
  moreover obtain seqs where "map (\<lambda>r. json_get r ''receipt_seq'') rows'' = map JInt seqs" "sorted_wrt (<) (0 # seqs)"
    using h''(1) by (auto simp: receipts_hold_def receipts_ascend_def)
  ultimately show ?thesis using receipt_found [OF h''(1) _ v] receipts_loaded [OF h''(1)] by blast
qed

text \<open>
  A digest with white space around it is stored with the white space and sought without it: the receipt
  is not found again, and every attempt to send it that is accepted logs it once more.
\<close>

lemma padded_receipt_logged_again:
  assumes "receipts_hold E d rows" and "unique_keys (JObj rc)" and "\<not> stripped (text_of rc ''receipt_digest'')"
    and "strip_of rc ''receipt_digest'' \<noteq> []" and "\<forall>r \<in> set rows. \<not> stripped (text_of r ''receipt_digest'')"
    and "append_receipt E rc d = (Inr v, d')"
  shows "receipts_hold E d' (rows @ [v]) \<and> \<not> stripped (text_of v ''receipt_digest'')"
proof -
  have E: "env_ok E" using assms(1) by (simp add: receipts_hold_def)
  from receipt_cases [OF assms(1,2,6)] show ?thesis
  proof cases
    case (2 v')
    then show ?thesis using assms(5) stored_digest(3) [OF E, of rc] by auto
  next
    case (3 v')
    then show ?thesis using stored_digest(1) [OF E, of rc] assms(3,4) by simp
  qed simp
qed

end
