(* ===== verification/Run_Ledger_Demo.thy ===== *)
theory Run_Ledger_Demo
  imports Run_Ledger_Finalize Run_Receipts
begin

text \<open>
  A concrete run of the protocol ledger, on an environment with the JSON reader of the development: a run
  is started, a tool is called and answered, and the run is finalized. The witnesses of the ledger's
  properties apply them to the directories of this run.
\<close>

section \<open>Events that are recorded\<close>

lemma length_utf8: "length (utf8_encode s) \<le> 2 * length s"
  by (induction s) (auto simp: utf8_encode_def utf8_char_def Let_def)

lemma fits_text: "length (json_dumps False (JObj e)) \<le> 2000 \<Longrightarrow> 4000 \<le> m \<Longrightarrow> fits m e"
proof -
  assume l: "length (json_dumps False (JObj e)) \<le> 2000" and m: "4000 \<le> m"
  have "length (payload_bytes e) \<le> 4000" using length_utf8 [of "json_dumps False (JObj e)"] l by (simp add: payload_bytes_def)
  then show ?thesis using m by (simp add: fits_def)
qed

lemma reserve_succeeds:
  assumes "dir_holds E d evs" and "operation_id_of p \<noteq> [] \<Longrightarrow> winners_of E d (operation_id_of p) = None"
  shows "\<exists>d1. reserve_operation E sid kind p d = (Inr None, d1)"
proof (cases "reserves kind p")
  case True
  have E: "env_ok E" using assms(1) by (simp add: dir_holds_def)
  let ?row = "reserved_row E kind p (int (length evs) + 1)"
  have ok: "row_ok (operation_id_of p) ?row" using reserved_row_ok [OF E] True by (simp add: reserves_def)
  have fields: "cr_event_seq ?row = int (length evs) + 1" "cr_entry_digest ?row = entry_digest_of E kind p"
    by (simp_all add: reserved_row_def)
  obtain reg where "registry_commit (le_loads E) (operation_id_of p) (int (length evs) + 1) (entry_digest_of E kind p) (open_registry (rd_commits d)) =
      (Inr \<lparr>cd_accepted = True, cd_operation_id = operation_id_of p, cd_winner_event_seq = int (length evs) + 1,
        cd_winner_entry_digest = entry_digest_of E kind p, cd_error_code = None, cd_idempotent_reuse = False\<rparr>, reg)"
    using commit_open [OF ok, of "le_loads E" "rd_commits d", unfolded fields] assms(2) True by (simp add: winners_of_def reserves_def)
  then show ?thesis using True framed.next_seq_holds [OF assms(1)]
    by (simp add: reserve_operation_def reserve_operation_commit_def reserves_def op_commit_def bind_eff_def lift_result_def)
qed (auto simp: reserve_operation_def reserves_def lift_result_def)

lemma append_event_locks:
  assumes "dir_holds E d evs" and "prepare_event E now sid kind p = Inr (Inr e0)" and "invocation_limit E sid kind evs = None"
    and "validate_ordering_contract sid kind p e0 evs = Inr (Inr event)"
    and "operation_id_of p \<noteq> [] \<Longrightarrow> winners_of E d (operation_id_of p) = None"
  shows "append_run_event E now sid kind p d = reserve_and_append E sid kind p event evs d"
proof -
  have "op_winner E (operation_id_of p) d = winners_of E d (operation_id_of p)"
    by (simp add: op_winner_def registry_winner_def winners_of_def file_winners_def operation_id_of_def strip_of_def Let_def)
  then have "fst (check_duplicate E sid kind p d) = Inr None" "fst (check_call_operation E sid kind p d) = Inr None"
    using assms(5) by (auto simp: check_duplicate_def check_call_operation_def read_eff_def duplicate_operation_rejection_def)
  then show ?thesis using assms(2,3,4) append_prepared_run [OF assms(1), of sid kind p e0]
    by (simp add: append_run_event_def bind_eff_def lift_result_def reserve_and_append_def)
qed

lemma append_event_succeeds:
  assumes "dir_holds E d evs" and "contract evs" and "prepare_event E now sid kind p = Inr (Inr e0)"
    and "invocation_limit E sid kind evs = None" and "validate_ordering_contract sid kind p e0 evs = Inr (Inr event)"
    and "operation_id_of p \<noteq> [] \<Longrightarrow> winners_of E d (operation_id_of p) = None" and "check_clock E event evs = Inr ()"
    and payload: "unique_keys (JObj p)" and "length (json_dumps False (JObj (number_event (int (length evs) + 1) (AList.update ''sequence_number'' (JInt (int (length evs) + 1)) event)))) \<le> 2000"
    and "4000 \<le> le_max_bytes E"
  shows "\<exists>v d'. append_run_event E now sid kind p d = (Inr v, d') \<and> dir_holds E d' (evs @ [appended_event (int (length evs) + 1) event]) \<and>
    reserved_in E kind p (int (length evs) + 1) d d'"
proof -
  have E: "env_ok E" using assms(1) by (simp add: dir_holds_def)
  have "checked evs kind event"
    using ordering_sound [OF assms(2) prepared_base [OF assms(3) payload] _ assms(5)] prepared_call_hashed [OF E] assms(3) by blast
  then have base: "event_base kind event" by (simp add: checked_def)
  obtain d1 where res: "reserve_operation E sid kind p d = (Inr None, d1)" using reserve_succeeds [OF assms(1,6)] by blast
  have rv: "reserved_in E kind p (int (length evs) + 1) d d1" and fr: "rd_events d1 = rd_events d"
    using reserve_cases [OF assms(1) res] by (cases; simp add: reserved_in_def; metis run_dir.ext_inject run_dir.surjective run_dir.update_convs(2))+
  have "dir_holds E d1 evs" using dir_holds_frame [OF fr] assms(1) by simp
  from locked_append_succeeds [OF this base assms(7) fits_text [OF assms(9,10)]] obtain v d' where
    r: "append_event_locked E event evs d1 = (Inr v, d')" "dir_holds E d' (evs @ [appended_event (int (length evs) + 1) event])"
      "d' = d1\<lparr>rd_events := rd_events d'\<rparr>" by blast
  have "append_run_event E now sid kind p d = (Inr v, d')"
    using append_event_locks [OF assms(1,3,4,5,6)] res r(1) by (simp add: reserve_and_append_def)
  moreover have "winners_of E d' = winners_of E d1" using events_update_fields [OF r(3)] by (simp add: winners_of_def)
  ultimately show ?thesis using r(2) rv by (auto simp: reserved_in_def)
qed

section \<open>The run\<close>

definition demo_dt :: datetime_lib where
  "demo_dt = \<lparr>fromisoformat = (\<lambda>s. if s = ''t1'' then Inr (aware_utc 1) else if s = ''t2'' then Inr (aware_utc 2)
       else Inl (ValueError ''Invalid isoformat string'')), isoformat = (\<lambda>d. str_of_int (dt_micros d))\<rparr>"

definition demo_env_with :: "nat \<Rightarrow> ledger_env" where
  "demo_env_with m = \<lparr>le_crc = (\<lambda>bs. 0), le_loads = read_json, le_max_bytes = m,
     le_sha256 = ledger_demo_digest, le_dt = demo_dt, le_max_tool_invocations = 4\<rparr>"

definition demo_run_env :: ledger_env where
  "demo_run_env = demo_env_with MAX_LEDGER_PAYLOAD_BYTES"

definition demo_start :: start_args where
  "demo_start = \<lparr>sa_run_type = ''t'', sa_run_name = ''n'', sa_department = ''d'', sa_build_id = ''b'',
     sa_summary = None, sa_artifacts = None\<rparr>"

definition demo_hash :: string where
  "demo_hash = ''aaaaaaaaaaaaaaaaaaaaaaaaaaaaaaaaaaaaaaaaaaaaaaaaaaaaaaaaaaaaaaaa''"

definition demo_manifest :: "string \<times> json" where
  "demo_manifest = (''tool_invocation_manifest'', JObj [(''tool_name'', JStr ''w'')])"

definition demo_call :: dict where
  "demo_call = [demo_manifest, (''operation_id'', JStr ''o1'')]"

definition demo_result :: dict where
  "demo_result = [demo_manifest, (''operation_id'', JStr ''o1''), (''call_sequence_number'', JInt 2),
     (''tool_call_hash'', JStr demo_hash)]"

definition demo_finalize :: finalize_args where
  "demo_finalize = \<lparr>fa_status = ''done'', fa_failure_class = None, fa_failure_reason = None, fa_summary = None,
     fa_artifacts = None, fa_finalized_at = None\<rparr>"

definition demo_d1 :: run_dir where
  "demo_d1 = snd (start_run demo_run_env ''t1'' ''s'' demo_start empty_dir)"

definition demo_d2 :: run_dir where
  "demo_d2 = snd (append_run_event demo_run_env ''t2'' ''s'' ''tool_call'' demo_call demo_d1)"

definition demo_d3 :: run_dir where
  "demo_d3 = snd (append_run_event demo_run_env ''t2'' ''s'' ''tool_result'' demo_result demo_d2)"

text \<open>The events of the run: its start before it is numbered, and the three as they are stored.\<close>

definition demo_started :: dict where
  "demo_started =
     [(''ledger_schema_version'', JStr ''1.0''), (''kind'', JStr ''run_started''), (''event_type'', JStr
     ''run_started''), (''session_id'', JStr ''s''), (''run_id'', JStr ''s''), (''timestamp'', JStr ''t1''),
     (''tool_name'', JStr []), (''run_type'', JStr ''t''), (''run_name'', JStr ''n''), (''department'', JStr ''d''),
     (''build_id'', JStr ''b''), (''status'', JStr ''running''), (''summary'', JObj []), (''artifacts'', JObj [])]"

definition demo_final :: dict where
  "demo_final =
     [(''ledger_schema_version'', JStr ''1.0''), (''kind'', JStr ''run_finalized''), (''event_type'', JStr
     ''run_finalized''), (''session_id'', JStr ''s''), (''run_id'', JStr ''s''), (''timestamp'', JStr ''t2''),
     (''tool_name'', JStr []), (''status'', JStr ''done''), (''failure_class'', JNull), (''failure_reason'', JNull),
     (''summary'', JObj []), (''artifacts'', JObj [])]"

definition demo_row1 :: dict where
  "demo_row1 =
     [(''artifacts'', JObj []), (''build_id'', JStr ''b''), (''department'', JStr ''d''), (''event_seq'', JInt 1),
     (''event_type'', JStr ''run_started''), (''kind'', JStr ''run_started''), (''ledger_schema_version'', JStr
     ''1.0''), (''run_id'', JStr ''s''), (''run_name'', JStr ''n''), (''run_type'', JStr ''t''),
     (''sequence_number'', JInt 1), (''session_id'', JStr ''s''), (''status'', JStr ''running''), (''summary'', JObj
     []), (''timestamp'', JStr ''t1''), (''tool_name'', JStr [])]"

definition demo_row2 :: dict where
  "demo_row2 =
     [(''event_seq'', JInt 2), (''event_type'', JStr ''tool_call''), (''kind'', JStr ''tool_call''),
     (''ledger_schema_version'', JStr ''1.0''), (''operation_id'', JStr ''o1''), (''run_id'', JStr ''s''),
     (''sequence_number'', JInt 2), (''session_id'', JStr ''s''), (''timestamp'', JStr ''t2''), (''tool_args'', JObj
     []), (''tool_call_hash'', JStr demo_hash), (''tool_invocation_manifest'', JObj [(''capability_profile'', JStr
     ''workspace''), (''declared_namespace_scopes'', JArr []), (''determinism_class'', JStr ''workspace''),
     (''manifest_hash'', JStr demo_hash), (''manifest_version'', JStr ''1.0''), (''namespace_scope'', JStr []),
     (''namespace_scope_rule'', JStr ''run_scope_only''), (''ring'', JStr ''core''), (''run_id'', JStr ''s''),
     (''schema_version'', JStr ''1.0.0''), (''tool_contract_version'', JStr ''1.0.0''), (''tool_name'', JStr
     ''w'')]), (''tool_name'', JStr ''w'')]"

definition demo_row3 :: dict where
  "demo_row3 =
     [(''call_sequence_number'', JInt 2), (''event_seq'', JInt 3), (''event_type'', JStr ''tool_result''), (''kind'',
     JStr ''tool_result''), (''ledger_schema_version'', JStr ''1.0''), (''operation_id'', JStr ''o1''), (''run_id'',
     JStr ''s''), (''sequence_number'', JInt 3), (''session_id'', JStr ''s''), (''timestamp'', JStr ''t2''),
     (''tool_call_hash'', JStr demo_hash), (''tool_invocation_manifest'', JObj [(''capability_profile'', JStr
     ''workspace''), (''declared_namespace_scopes'', JArr []), (''determinism_class'', JStr ''workspace''),
     (''manifest_hash'', JStr demo_hash), (''manifest_version'', JStr ''1.0''), (''namespace_scope'', JStr []),
     (''namespace_scope_rule'', JStr ''run_scope_only''), (''ring'', JStr ''core''), (''run_id'', JStr ''s''),
     (''schema_version'', JStr ''1.0.0''), (''tool_contract_version'', JStr ''1.0.0''), (''tool_name'', JStr
     ''w'')]), (''tool_name'', JStr ''w'')]"

definition demo_events1 :: "dict list" where
  "demo_events1 = [demo_row1]"

definition demo_events2 :: "dict list" where
  "demo_events2 = [demo_row1, demo_row2]"

definition demo_events3 :: "dict list" where
  "demo_events3 = [demo_row1, demo_row2, demo_row3]"

text \<open>What the success of an append needs, as one check.\<close>

definition appendable :: "string \<Rightarrow> string \<Rightarrow> dict \<Rightarrow> dict list \<Rightarrow> int \<Rightarrow> dict \<Rightarrow> bool" where
  "appendable now kind p evs n stored \<longleftrightarrow>
     (case prepare_event (demo_env_with 0) now ''s'' kind p of
        Inr (Inr e0) \<Rightarrow> invocation_limit (demo_env_with 0) ''s'' kind evs = None \<and>
          (case validate_ordering_contract ''s'' kind p e0 evs of
             Inr (Inr e) \<Rightarrow> check_clock (demo_env_with 0) e evs = Inr () \<and>
               length (json_dumps False (JObj (number_event n (AList.update ''sequence_number'' (JInt n) e)))) \<le> 2000 \<and>
               appended_event n e = stored
           | _ \<Rightarrow> False)
      | _ \<Rightarrow> False)"

lemma demo_env_ok: "env_ok (demo_env_with m)"
  using read_json_reads_back ledger_demo_digest_hex by (simp add: env_ok_def demo_env_with_def)

lemma demo_fields:
  "le_sha256 (demo_env_with m) = ledger_demo_digest" "le_dt (demo_env_with m) = demo_dt"
  "le_max_tool_invocations (demo_env_with m) = 4" "le_loads (demo_env_with m) = read_json"
  by (simp_all add: demo_env_with_def)

lemma limit_irrelevant:
  "prepare_event (demo_env_with m) now sid kind p = prepare_event (demo_env_with 0) now sid kind p"
  "invocation_limit (demo_env_with m) sid kind evs = invocation_limit (demo_env_with 0) sid kind evs"
  "check_clock (demo_env_with m) e evs = check_clock (demo_env_with 0) e evs"
proof -
  have "invocation_fields (demo_env_with m) = invocation_fields (demo_env_with 0)"
    "resolve_tool_invocation_manifest (demo_env_with m) = resolve_tool_invocation_manifest (demo_env_with 0)"
    "parse_event_timestamp (demo_env_with m) = parse_event_timestamp (demo_env_with 0)"
    "max_tool_invocations_per_run (demo_env_with m) = max_tool_invocations_per_run (demo_env_with 0)"
    by ((intro ext)?, simp only: invocation_fields_def resolve_tool_invocation_manifest_def parse_event_timestamp_def
        max_tool_invocations_per_run_def demo_fields)+
  then show "prepare_event (demo_env_with m) now sid kind p = prepare_event (demo_env_with 0) now sid kind p"
    "invocation_limit (demo_env_with m) sid kind evs = invocation_limit (demo_env_with 0) sid kind evs"
    "check_clock (demo_env_with m) e evs = check_clock (demo_env_with 0) e evs"
    by (simp_all only: prepare_event_def invocation_limit_def check_clock_def)
qed

lemma demo_limit: "4000 \<le> le_max_bytes demo_run_env"
  by (simp add: demo_run_env_def demo_env_with_def MAX_LEDGER_PAYLOAD_BYTES_def)

lemma appendable_step:
  assumes "dir_holds demo_run_env d evs" and "contract evs" and "appendable now kind p evs (int (length evs) + 1) stored"
    and "operation_id_of p \<noteq> [] \<Longrightarrow> winners_of demo_run_env d (operation_id_of p) = None" and "unique_keys (JObj p)"
  shows "\<exists>v d'. append_run_event demo_run_env now ''s'' kind p d = (Inr v, d') \<and>
    dir_holds demo_run_env d' (evs @ [stored]) \<and> reserved_in demo_run_env kind p (int (length evs) + 1) d d'"
proof -
  obtain e0 where e0: "prepare_event (demo_env_with 0) now ''s'' kind p = Inr (Inr e0)"
    using assms(3) by (auto simp: appendable_def split: sum.splits)
  then obtain e where e: "validate_ordering_contract ''s'' kind p e0 evs = Inr (Inr e)"
    using assms(3) by (auto simp: appendable_def split: sum.splits)
  have "stored = appended_event (int (length evs) + 1) e" using assms(3) e0 e by (simp add: appendable_def)
  moreover have "invocation_limit (demo_env_with 0) ''s'' kind evs = None" "check_clock (demo_env_with 0) e evs = Inr ()"
    "length (json_dumps False (JObj (number_event (int (length evs) + 1) (AList.update ''sequence_number'' (JInt (int (length evs) + 1)) e)))) \<le> 2000"
    using assms(3) e0 e by (simp_all add: appendable_def)
  ultimately show ?thesis
    using append_event_succeeds [OF assms(1,2) _ _ e assms(4) _ assms(5) _ demo_limit, of now] e0
    unfolding demo_run_env_def limit_irrelevant [of MAX_LEDGER_PAYLOAD_BYTES] by blast
qed

lemma demo_start_event:
  "build_event ''t1'' ''s'' ''run_started'' ''run_started''
     [(''run_type'', JStr ''t''), (''run_name'', JStr ''n''), (''department'', JStr ''d''),
      (''build_id'', JStr ''b''), (''status'', JStr ''running''), (''summary'', JObj []), (''artifacts'', JObj [])] = Inr demo_started"
  by code_simp

lemma demo_start_stored: "appended_event 1 demo_started = demo_row1"
  "length (json_dumps False (JObj (number_event 1 (AList.update ''sequence_number'' (JInt 1) demo_started)))) \<le> 2000"
  by code_simp+

lemma demo_call_appendable: "appendable ''t2'' ''tool_call'' demo_call demo_events1 2 demo_row2"
  by code_simp

lemma demo_result_appendable: "appendable ''t2'' ''tool_result'' demo_result demo_events2 3 demo_row3"
  by code_simp

section \<open>Its directories\<close>

lemma demo_ok: "env_ok demo_run_env"
  by (simp add: demo_run_env_def demo_env_ok)

lemma demo_base: "event_base ''run_started'' demo_started"
  by (rule built_base [OF demo_start_event]) auto

lemma reached_inv: "run_reach E ok d \<Longrightarrow> env_ok E \<Longrightarrow> dir_holds E d evs \<Longrightarrow> run_inv E d evs"
proof -
  assume "run_reach E ok d" "env_ok E" and h: "dir_holds E d evs"
  then obtain evs' where "run_inv E d evs'" using reach_inv by blast
  then show ?thesis using framed.holds_unique [OF h, of evs'] by (auto simp: run_inv_def)
qed

lemma demo_d1_run:
  "\<exists>v. start_run demo_run_env ''t1'' ''s'' demo_start empty_dir = (Inr v, demo_d1)"
  "dir_holds demo_run_env demo_d1 demo_events1" "winners_of demo_run_env demo_d1 = Map.empty"
proof -
  have h: "dir_holds demo_run_env empty_dir []" by (rule empty_dir_holds [OF demo_ok])
  obtain v d' where a: "append_event_locked demo_run_env demo_started [] empty_dir = (Inr v, d')"
    "dir_holds demo_run_env d' ([] @ [appended_event (int (length ([]::dict list)) + 1) demo_started])" "d' = empty_dir\<lparr>rd_events := rd_events d'\<rparr>"
    using locked_append_succeeds [OF h demo_base _ fits_text [OF _ demo_limit]] demo_start_stored(2) by (auto simp: check_clock_def)
  have start: "start_run demo_run_env ''t1'' ''s'' demo_start empty_dir = (Inr v, d')"
    using demo_start_event a(1) framed.replay_holds [OF h]
    by (simp add: start_run_def demo_start_def dict_or_empty_def bind_eff_def lift_result_def first_event_by_kind_def)
  then have d': "d' = demo_d1" by (simp add: demo_d1_def)
  show "\<exists>v. start_run demo_run_env ''t1'' ''s'' demo_start empty_dir = (Inr v, demo_d1)" using start d' by blast
  show "winners_of demo_run_env demo_d1 = Map.empty"
    using events_update_fields [OF a(3)] d' by (simp add: winners_of_def empty_dir_def file_winners_def ensure_loaded_def open_registry_def)
  show "dir_holds demo_run_env demo_d1 demo_events1" using a(2) d' demo_start_stored(1) by (simp add: demo_events1_def)
qed

lemma demo_args: "start_ok demo_start" "finalize_ok demo_finalize" "unique_keys (JObj demo_call)" "unique_keys (JObj demo_result)"
  by (simp_all add: start_ok_def finalize_ok_def dict_or_empty_def demo_start_def demo_finalize_def demo_call_def demo_result_def
      demo_manifest_def)

lemma demo_payloads: "plain_payload demo_call" "plain_payload demo_result"
  by (simp_all add: plain_payload_def demo_call_def demo_result_def demo_manifest_def json_get_def stripped_def py_strip_def py_isspace_def)

lemma demo_step: "ok p \<Longrightarrow> unique_keys (JObj p) \<Longrightarrow> run_step E ok d (snd (append_run_event E now sid kind p d))"
  by (cases "append_run_event E now sid kind p d") (auto intro: run_step.event)

lemma demo_reached: "run_reach demo_run_env plain_payload demo_d1" "run_reach demo_run_env plain_payload demo_d2"
  "run_reach demo_run_env plain_payload demo_d3"
proof -
  show r1: "run_reach demo_run_env plain_payload demo_d1"
    using run_reach.step [OF run_reach.fresh run_step.started [OF demo_args(1)]] demo_d1_run(1) by blast
  have "run_step demo_run_env plain_payload demo_d1 demo_d2"
    unfolding demo_d2_def by (rule demo_step [of plain_payload, OF demo_payloads(1) demo_args(3)])
  then show r2: "run_reach demo_run_env plain_payload demo_d2" using run_reach.step [OF r1] by blast
  have "run_step demo_run_env plain_payload demo_d2 demo_d3"
    unfolding demo_d3_def by (rule demo_step [of plain_payload, OF demo_payloads(2) demo_args(4)])
  then show "run_reach demo_run_env plain_payload demo_d3" using run_reach.step [OF r2] by blast
qed

lemma demo_contract: "dir_holds demo_run_env d evs \<Longrightarrow> run_reach demo_run_env plain_payload d \<Longrightarrow> contract evs"
  using reached_inv [OF _ demo_ok] by (auto simp: run_inv_def)

lemma demo_d2_run: "dir_holds demo_run_env demo_d2 demo_events2" "winners_of demo_run_env demo_d2 = Map.empty"
proof -
  have "appendable ''t2'' ''tool_call'' demo_call demo_events1 (int (length demo_events1) + 1) demo_row2"
    using demo_call_appendable by (simp add: demo_events1_def)
  from appendable_step [OF demo_d1_run(2) demo_contract [OF demo_d1_run(2) demo_reached(1)] this] obtain v d' where
    r: "append_run_event demo_run_env ''t2'' ''s'' ''tool_call'' demo_call demo_d1 = (Inr v, d')"
      "dir_holds demo_run_env d' (demo_events1 @ [demo_row2])"
      "reserved_in demo_run_env ''tool_call'' demo_call (int (length demo_events1) + 1) demo_d1 d'"
    using demo_d1_run(3) demo_args(3) by auto
  have "d' = demo_d2" using r(1) by (simp add: demo_d2_def)
  then show "dir_holds demo_run_env demo_d2 demo_events2" "winners_of demo_run_env demo_d2 = Map.empty"
    using r(2,3) demo_d1_run(3)
    by (simp_all add: demo_events2_def demo_events1_def reserved_in_def reserves_def is_result_kind_def TOOL_RESULT_KINDS_def)
qed

lemma demo_d3_run: "dir_holds demo_run_env demo_d3 demo_events3"
proof -
  have "appendable ''t2'' ''tool_result'' demo_result demo_events2 (int (length demo_events2) + 1) demo_row3"
    using demo_result_appendable by (simp add: demo_events2_def)
  from appendable_step [OF demo_d2_run(1) demo_contract [OF demo_d2_run(1) demo_reached(2)] this] obtain v d' where
    r: "append_run_event demo_run_env ''t2'' ''s'' ''tool_result'' demo_result demo_d2 = (Inr v, d')"
      "dir_holds demo_run_env d' (demo_events2 @ [demo_row3])"
    using demo_d2_run(2) demo_args(4) by auto
  have "d' = demo_d3" using r(1) by (simp add: demo_d3_def)
  then show ?thesis using r(2) by (simp add: demo_events3_def demo_events2_def)
qed

lemma demo_listed: "list_run_events demo_run_env demo_d3 = Inr demo_events3"
  using framed.replay_holds [OF demo_d3_run] by (simp add: list_run_events_def)

section \<open>The properties on this run\<close>

lemma demo_result_event: "is_result (demo_events3 ! 2)" "op_of (demo_events3 ! 2) = ''o1''"
  by code_simp+

lemma demo_final_event:
  "validate_result_error_invariant (fa_status demo_finalize) (fa_failure_class demo_finalize) (fa_failure_reason demo_finalize) = Inr ''done''"
  "finalized_event ''t2'' ''s'' ''done'' demo_finalize = Inr demo_final"
  "length (json_dumps False (JObj (number_event 4 (AList.update ''sequence_number'' (JInt 4) demo_final)))) \<le> 2000"
  by code_simp+

lemma demo_closed: "open_tool_calls demo_events3 = Inr []" "check_clock (demo_env_with 0) demo_final demo_events3 = Inr ()"
  "matching_run_finalized_event demo_events3 ''done'' None None = None"
  "map (\<lambda>e. json_get (result_payload_of e) ''compat_translation'') demo_events3 = [JNull, JNull, JNull]"
  by code_simp+

lemma demo_tools: "\<forall>e \<in> set demo_events3. tools_listed e"
  using demo_closed(4) by (simp add: demo_events3_def tools_listed_def)

theorem tool_results_answer_calls_witness:
  "list_run_events demo_run_env demo_d3 = Inr demo_events3 \<and> is_result (demo_events3 ! 2) \<and>
   (\<exists>i < 2. kind_of (demo_events3 ! i) = ''tool_call'' \<and> answers (demo_events3 ! 2) (int i + 1) \<and>
      strip_of (demo_events3 ! i) ''tool_call_hash'' = strip_of (demo_events3 ! 2) ''tool_call_hash'')"
proof -
  have "2 < length demo_events3" by (simp add: demo_events3_def)
  then show ?thesis using tool_results_answer_calls [OF demo_reached(3) demo_ok] demo_listed demo_result_event(1) by fastforce
qed

theorem invocations_bounded_history_permanent_witness:
  "list_run_events demo_run_env demo_d3 = Inr demo_events3 \<and> prefix demo_events2 demo_events3 \<and>
   tool_invocation_count demo_events3 \<le> max_tool_invocations_per_run demo_run_env"
proof -
  have "run_step demo_run_env plain_payload demo_d2 demo_d3"
    unfolding demo_d3_def by (rule demo_step [of plain_payload, OF demo_payloads(2) demo_args(4)])
  moreover have "list_run_events demo_run_env demo_d2 = Inr demo_events2"
    using framed.replay_holds [OF demo_d2_run(1)] by (simp add: list_run_events_def)
  ultimately show ?thesis
    using invocations_bounded_history_permanent [OF demo_reached(2) demo_ok] demo_listed by fastforce
qed

theorem operation_recorded_once_witness: "\<exists>w. op_winner demo_run_env ''o1'' demo_d3 = Some w \<and> cr_event_seq w = 3"
proof -
  have n: "2 < length demo_events3" by (simp add: demo_events3_def)
  have op: "op_of (demo_events3 ! 2) \<noteq> []" by (simp add: demo_result_event(2))
  show ?thesis
    using conjunct1 [OF operation_recorded_once [OF demo_reached(3) demo_ok demo_listed n demo_result_event(1) op]]
    by (simp add: demo_result_event(2))
qed

theorem closed_run_can_be_finalized_witness:
  "\<exists>v d' graph text. finalize_run demo_run_env ''t2'' ''s'' demo_finalize demo_d3 = (Inr v, d') \<and>
     list_run_events demo_run_env d' = Inr (demo_events3 @ [appended_event 4 demo_final]) \<and>
     reconstruct_run_graph (le_sha256 demo_run_env) (pending_events demo_final demo_events3 4) (Some ''s'') = Inr graph \<and>
     validate_run_graph_payload graph = Inr () \<and> run_graph_text graph = Inr text \<and> rd_graph d' = Some text"
proof -
  have c: "open_at demo_events3 = {}"
    using open_calls_correct [OF demo_contract [OF demo_d3_run demo_reached(3)]] demo_closed(1) by simp
  have clock: "check_clock demo_run_env demo_final demo_events3 = Inr ()"
    using demo_closed(2) by (simp add: demo_run_env_def limit_irrelevant [of MAX_LEDGER_PAYLOAD_BYTES])
  have n: "int (length demo_events3) + 1 = 4" by (simp add: demo_events3_def)
  have none: "matching_run_finalized_event demo_events3 ''done'' (fa_failure_class demo_finalize) (fa_failure_reason demo_finalize) = None"
    using demo_closed(3) by (simp add: demo_finalize_def)
  show ?thesis
    using closed_run_can_be_finalized [OF demo_reached(3) demo_ok demo_listed c demo_tools demo_final_event(1,2) clock, unfolded n,
        OF fits_text [OF demo_final_event(3) demo_limit] demo_args(2)] none by auto
qed

theorem start_run_once_witness:
  "\<exists>e evs. list_run_events demo_run_env demo_d1 = Inr evs \<and> e \<in> set evs \<and> kind_of e = ''run_started'' \<and>
     start_run demo_run_env ''t2'' ''z'' demo_start demo_d1 = (Inr e, demo_d1)"
proof -
  obtain v where "start_run demo_run_env ''t1'' ''s'' demo_start empty_dir = (Inr v, demo_d1)" using demo_d1_run(1) by blast
  from start_run_once [OF run_reach.fresh [of demo_run_env plain_payload] demo_ok this _ demo_args(1), of "''t2''"] show ?thesis
    by (simp add: py_strip_def py_isspace_def)
qed

definition demo_receipt :: dict where
  "demo_receipt = [(''operation_id'', JStr ''o1''), (''ok'', JBool True)]"

theorem receipt_logged_once_witness:
  "\<exists>v d'. append_receipt demo_run_env demo_receipt empty_dir = (Inr v, d') \<and>
     append_receipt demo_run_env demo_receipt (snd (start_run demo_run_env ''t1'' ''s'' demo_start d')) =
       (Inr v, snd (start_run demo_run_env ''t1'' ''s'' demo_start d'))"
proof -
  have "json_get (normalized_receipt demo_run_env demo_receipt) ''receipt_seq'' = JNull"
    by (simp add: normalized_receipt_def demo_receipt_def set_str_def Let_def) (simp add: json_get_def)
  then obtain v d' where r: "append_receipt demo_run_env demo_receipt empty_dir = (Inr v, d')"
    by (simp add: append_receipt_def load_receipts_sync_def empty_dir_def read_eff_def bind_eff_def lift_result_def sequenced_receipt_def Let_def)
  have later: "(run_step demo_run_env plain_payload)\<^sup>*\<^sup>* d' (snd (start_run demo_run_env ''t1'' ''s'' demo_start d'))"
    by (cases "start_run demo_run_env ''t1'' ''s'' demo_start d'") (auto intro!: r_into_rtranclp run_step.started [OF demo_args(1)])
  have uniq: "unique_keys (JObj demo_receipt)" by (simp add: demo_receipt_def)
  have "stripped (text_of demo_receipt ''receipt_digest'')"
    by (simp add: demo_receipt_def text_of_def str_get_or_def json_get_def stripped_def py_strip_def)
  from receipt_logged_once [OF run_reach.fresh demo_ok uniq this r later] r show ?thesis by blast
qed

end
