(* ===== verification/Spec2Isabelle.thy ===== *)
theory Spec2Isabelle
  imports Control_Plane_Lifecycle Control_Plane_Guarantees Card_Workflow Critical_Path Sandbox_Services
    Outward_Execution Outbound_Disclosure Nervous_Findings Run_Ledger_Demo
begin

text \<open>
  A verification library for the core of Orket, an engine that runs governed work of language-model
  agents. All paths below are under \<open>src/orket\<close>.

  \<^bold>\<open>The program.\<close> Orket keeps its decisions in SQLite and lets services change them through
  narrow operations, and keeps an append-only ledger of events beside every run. Six subsystems carry
  that logic.

  \<^item> The \<^emph>\<open>control plane\<close> records reservations, leases, checkpoints, recovery decisions, operator
    actions, an effect journal chained by digests, and one final truth per run. Domain builders check
    a record against its predecessor (\<open>core/domain/control_plane_*.py\<close>,
    \<open>core/contracts/control_plane_*models.py\<close>), the authority service names them, the publication
    service reads the latest record, builds the next and stores it
    (\<open>application/services/control_plane_*_service.py\<close>), and a repository keeps append-only tables
    (\<open>adapters/storage/async_control_plane_record_repository.py\<close>).
  \<^item> The \<^emph>\<open>cards workflow\<close> guards every status change of a card
    (\<open>core/domain/state_machine.py\<close>, \<open>workflow_profiles.py\<close>, \<open>workitem_transition.py\<close>).
  \<^item> The \<^emph>\<open>sandbox lifecycle\<close> moves sandboxes through creation, activity, reconciliation and
    cleanup by compare-and-set mutations with fences and deduplication
    (\<open>core/domain/sandbox_lifecycle*.py\<close>, \<open>adapters/storage/async_sandbox_lifecycle_repository.py\<close>,
    \<open>application/services/sandbox_*\<close>).
  \<^item> The \<^emph>\<open>outward pipeline\<close> accepts runs from outside, asks an operator to approve each governed
    tool call, executes approved calls, and keeps a hash-chained ledger that can be exported in full
    or in part and verified offline (\<open>core/domain/outward_*.py\<close>, \<open>adapters/storage/outward_*.py\<close>,
    \<open>application/services/outward_*.py\<close>, \<open>interfaces/routers/approvals.py\<close>).
  \<^item> The \<^emph>\<open>action kernel\<close> decides whether a proposed tool call may take effect: it admits proposals by
    policy, asks for approvals, issues credential tokens for one use, records commits, and keeps one
    digest chain of events per session (\<open>kernel/v1/nervous_system_*.py\<close>, \<open>canonical.py\<close>). Its outbound
    policy gate (\<open>kernel/v1/outbound_policy_gate.py\<close>) scrubs what leaves, projections of the kernel and
    exports of the outward ledger alike.
  \<^item> The \<^emph>\<open>run ledger\<close> records what the tools of a run did. The protocol ledger
    (\<open>adapters/storage/async_protocol_run_ledger.py\<close>) appends events to a framed log
    (\<open>protocol_append_only_ledger.py\<close>) under a contract between tool calls and results, reserves
    operations in a commit registry (\<open>runtime/registry/operation_commit_registry.py\<close>), hashes calls and manifests
    (\<open>protocol_hashing.py\<close>, \<open>tool_invocation_contracts.py\<close>), keeps receipts, and leaves the graph of a
    finalized run (\<open>runtime/evidence/run_graph_reconstruction.py\<close>).

  \<^bold>\<open>The theories.\<close>

  \<^item> \<open>Orket_Prelude\<close>: errors as a datatype, results as sums, stateful methods as functions from a
    database to a result and the next database, Python's \<open>strip\<close>, \<open>lower\<close>, \<open>repr\<close> and number
    formatting. \<open>Canonical_JSON\<close>: decoded JSON without floats and its canonical text, which is injective up to the
    order of keys. \<open>Sql_Tables\<close>: tables with a primary key, and the interface \<open>keyed_table\<close> that the
    sandbox and outward stores interpret.
  \<^item> \<open>Control_Plane_Enums\<close>, \<open>_Models\<close>, \<open>_Lifecycle\<close>, \<open>_Reservations\<close>, \<open>_Recovery\<close>, \<open>_Journal\<close>:
    one theory per domain module, each with its data, its builders and its local laws.
    \<open>Control_Plane_Repository\<close>, \<open>_Publication\<close>: storage and services. \<open>_Steps\<close>, \<open>_Invariants\<close>,
    \<open>_Guarantees\<close>: every call as a step, the invariant of reachable databases, and what it gives.
  \<^item> \<open>Card_Workflow\<close>: tables, profiles and the transition service. \<open>Critical_Path\<close>: the priority
    queue of the board (\<open>core/critical_path.py\<close>).
  \<^item> \<open>Sandbox_Lifecycle\<close>, \<open>_Store\<close>, \<open>_Mutations\<close>, \<open>_Services\<close>: domain, repository, the mutation
    service with interleaved calls, and policy, reconciliation and the cleanup scheduler.
  \<^item> \<open>Outward_Ledger\<close>: hashes and the offline verifier. \<open>Outward_Stores\<close>: the three tables.
    \<open>Outward_Export\<close>: the ledger service. \<open>Outward_Services\<close>: registry, submission, approvals and the
    invariant of the outward store. \<open>Outward_Execution\<close>: plan, handoff admission, the execution
    handlers, the decision endpoints, and histories of requests.
  \<^item> \<open>Protocol_Ledger\<close>: the framed log. \<open>Json_Reader\<close>: the law that JSON texts are read back, and a
    reader that satisfies it. \<open>Protocol_Registry\<close>: hashes, manifests, status rules and the commit registry.
    \<open>Run_Graph\<close>: the graph of a ledger. \<open>Run_Ledger\<close>: the protocol ledger on the directory of one run. \<open>Registry_Guarantees\<close>: the
    interface \<open>first_commit_wins\<close>, which the registry file interprets. \<open>Run_Graph_Validity\<close>: the graph of a
    ledger that keeps the contract is valid. \<open>Run_Ledger_Invariants\<close>: the interface \<open>event_log\<close>, which the
    framed log interprets, the contract, and what the checks establish. \<open>Run_Ledger_Guarantees\<close>, \<open>Run_Receipts\<close>,
    \<open>Run_Ledger_Finalize\<close>: calls as steps on a run directory and what holds in every reachable one.
    \<open>Run_Ledger_Demo\<close>: a run on which hypotheses are checked. \<open>Instants\<close>: the part of \<open>datetime\<close> that
    the outward services, the kernel and the run ledger share.
  \<^item> \<open>Kernel_Policy\<close>: digests, reason codes, leak detectors, tool resolver and the admission decision.
    \<open>Outbound_Gate\<close>, \<open>Outbound_Disclosure\<close>: the gate, and its composition with the offline verifier.
    \<open>Nervous_System\<close>: the kernel's state, event ledgers, approvals and tokens. \<open>Nervous_Runtime\<close>,
    \<open>Nervous_Lifecycle\<close>: its operations, and calls as steps. \<open>Nervous_Monitor\<close>: the interfaces
    \<open>kernel_relation\<close> and \<open>kernel_monitor\<close>, by which a relation that the primitive steps respect is
    respected by every sequence of calls. \<open>Nervous_Guarantees\<close>, \<open>_Tokens\<close>, \<open>_Approvals\<close>: the instances for
    ledgers, commits, tokens and approvals. \<open>Nervous_Demo\<close>: a run on which hypotheses are checked;
    \<open>Nervous_Findings\<close>: unexpected behaviour.

  State is a record of tables in the order of their rows; a method is one definition with the name of
  the source, its raises are \<open>Inl\<close> values, and each transaction is atomic. What the code takes from
  outside is an argument: the clock, identifiers, the digest, the JSON codec of the control-plane
  models (\<open>codec_ok\<close>: reading gives back what was written), \<open>datetime\<close> parsing and printing, the
  model, the connectors, the evidence writer and the handoff verifier; for the kernel the canonical
  JSON encoder, the digest and HMAC, the random source, the environment variables and user-given
  regular expressions; for the run ledger the checksum, the digest, the timestamps and \<open>json.loads\<close>, of which
  \<open>Run_Ledger_Invariants.env_ok\<close> states what is relied on. Dictionaries are association lists in the order of insertion.

  \<^bold>\<open>What is shown.\<close>

  \<^item> Control plane: the stored journal is always a valid chain, also under racing appends, and is
    tamper evident; reservation and lease histories follow their machines, when calls are made one at a
    time and with stripped identifiers; tables only grow; a recovery decision is published only when it is
    authorized, a resumption only from a stored checkpoint with an acceptance that allows it; final
    truths are justified; a call that raises stores nothing, but for the checkpoint that a refused decision
    leaves behind; runs and attempts move by their tables.
  \<^item> Cards: accepted requests respect table, guards and dependencies; under \<open>legacy_cards_v1\<close> an issue is
    done only after review; closed cards are only archived. The weight of an issue counts the dependency chains below
    it, is computed also on cyclic boards, and puts blockers first in the queue.
  \<^item> Sandboxes: interleaved calls have the effect of atomic ones (a refinement), when a call expects a
    version it may have seen and records are created for new sandboxes only; an applied operation writes its
    record and its operation row, nothing else, and is never applied again; written records can be read back; reconciliation, without its
    control-plane hooks, and the scheduler do what they announce.
  \<^item> Outward pipeline: every export, full or partial, verifies, and valid full exports with one
    ledger hash hold the same events; decided proposals and ledger events are permanent; stored
    proposals are well formed and their decisions are in the ledger; turns stay within the budget;
    nothing runs for a proposal that is not approved; expiry and denial are carried out in full;
    submission is idempotent.
  \<^item> Run ledger: frames decode to what was encoded, a torn tail ends the log, and the ledger object
    refines the list of its acknowledged events. In every run directory that calls can reach, failing
    calls included: results answer calls one to one and with their hashes, calls do not overlap, invocations are
    bounded, the history is permanent, an operation has at most one result and the registry names it,
    a closed run can be finalized, under the conditions of \<open>closed_run_can_be_finalized\<close>, and leaves the valid graph of its events, and receipts are logged once and in order. The
    first commit of an operation wins across reopened files.
  \<^item> Action kernel, over every sequence of calls, failing ones included: session ledgers are sound
    digest chains that only grow; a commit takes effect only after its admission, with its approval,
    and its answer is final; a token is used at most once, and never after its session ended; a
    decided approval keeps its decision although the table is rebuilt from the ledger. Proposals
    accepted without approval are harmless by the policy. The outbound gate leaves no scalar under a
    sensitive key of a payload that is not a ledger export, and an export of which it redacts events only
    still verifies.

  Some theorems record behaviour that a reader of the code would not expect, such as
  \<open>Outward_Execution.second_approval_bypasses_pending_proposal\<close>,
  \<open>Outward_Export.verify_run_ignores_stored_hashes\<close>,
  \<open>Sandbox_Mutations.cleanup_in_progress_taken_over\<close>,
  \<open>Protocol_Ledger.append_after_crash_is_lost\<close>,
  \<open>Run_Ledger_Finalize.refused_result_loses_operation\<close>,
  \<open>Run_Receipts.padded_receipt_logged_again\<close>,
  \<open>Outbound_Disclosure.redacted_event_path_discloses_secret\<close>,
  \<open>Nervous_Findings.commit_accepts_any_approval\<close> and \<open>Nervous_Findings.failed_decision_approves\<close>.

  \<^bold>\<open>Bounds and termination.\<close> No loop uses fuel. The recursion
  over the board (\<open>Critical_Path.calculate_weight\<close>) has the recursion limit of the interpreter as an
  argument, and a limit above the number of issues is shown to be enough. Loops over rows are structural recursion; the
  loops over positions of a partial view (\<open>Outward_Export.span_end\<close>, \<open>omitted_ranges\<close>) and over the bytes of a ledger file
  (\<open>Protocol_Ledger.decode_from\<close>) have measures, as has the replacement loop of a regular expression
  (\<open>Kernel_Policy.re_sub\<close>, \<open>Run_Graph.squash\<close>); the fixed patterns of the leak detectors are written out as matchers.
  Integers are unbounded as in Python, with the signed 64-bit range of SQLite where outward rows bind
  them (\<open>Outward_Stores.sqlite_int\<close>). Listings keep the limits of the code (500 proposals, 5000
  events). Characters are bytes, and decoded JSON has no floats.

  \<^bold>\<open>Not modelled.\<close> Connection handling and migrations; requests of the outward pipeline that
  interleave within one handler, and calls of the kernel that interleave within one operation; two
  processes that share a run directory, which the lock of the ledger does not cover; the
  connectors, model clients, Docker, Gitea and other input and output; the front ends; the
  orchestrator of agent turns; report generation. What the plan has left: the control-plane execution
  repository and the services that publish orchestrator and extension work, the ledger that mirrors the
  protocol ledger into SQLite, the turn validation of kernel v1 with its staged state, and the pure
  checks of trust handoff.
\<close>

end
